(* ===== verification/Prelude.thy ===== *)
theory Prelude
  imports "HOL-Library.Word"
begin

text \<open>
  Shared vocabulary of the development: the result type of fallible Rust code and its
  \<open>?\<close> operator, Rust's checked integer operations on fixed-width words, little-endian
  byte encodings, and slices of byte arrays.  Everything here is a model of the language and
  of its standard library; nothing is specific to the programs.

  Two collections of rewrite rules carry the component proofs: \<open>res_simps\<close> turns
  "this chain of fallible steps succeeded" into the conjunction of what each step returned,
  and \<open>checked_simps\<close> reads a successful checked operation as exact arithmetic on
  natural numbers.
\<close>

unbundle bit_operations_syntax

named_theorems res_simps \<open>success of a chain of fallible steps\<close>
named_theorems checked_simps \<open>success of a checked integer operation\<close>
named_theorems layout_simps \<open>reading fields out of packed byte arrays\<close>

type_synonym u8 = "8 word"
type_synonym u16 = "16 word"
type_synonym u32 = "32 word"
type_synonym u64 = "64 word"
type_synonym u128 = "128 word"
type_synonym i64 = "64 word"
type_synonym bytes = "u8 list"

section \<open>Results\<close>

text \<open>
  \<^verbatim>\<open>Result<T, E>\<close> is \<open>'e + 'a\<close> with \<open>Inl\<close> for \<^verbatim>\<open>Err\<close>.
  \<open>attempt m k\<close> is \<^verbatim>\<open>let x = m?; k(x)\<close>: the error leaves the function at once.
\<close>

definition attempt :: "'e + 'a \<Rightarrow> ('a \<Rightarrow> 'e + 'b) \<Rightarrow> 'e + 'b" where
  "attempt m k = (case m of Inl e \<Rightarrow> Inl e | Inr x \<Rightarrow> k x)"

definition ok_or :: "'a option \<Rightarrow> 'e \<Rightarrow> 'e + 'a" where
  "ok_or m e = (case m of None \<Rightarrow> Inl e | Some x \<Rightarrow> Inr x)"

definition map_err :: "('e \<Rightarrow> 'f) \<Rightarrow> 'e + 'a \<Rightarrow> 'f + 'a" where
  "map_err f m = (case m of Inl e \<Rightarrow> Inl (f e) | Inr x \<Rightarrow> Inr x)"

definition is_ok :: "'e + 'a \<Rightarrow> bool" where
  "is_ok m = (case m of Inl e \<Rightarrow> False | Inr x \<Rightarrow> True)"

lemma attempt_Inl [simp]: "attempt (Inl e) k = Inl e"
  by (simp add: attempt_def)

lemma attempt_Inr [simp]: "attempt (Inr x) k = k x"
  by (simp add: attempt_def)

lemma attempt_eq_Inr [res_simps]:
  "attempt m k = Inr r \<longleftrightarrow> (\<exists>x. m = Inr x \<and> k x = Inr r)"
  by (auto simp: attempt_def split: sum.splits)

lemma attempt_tripleE:
  assumes "attempt m (\<lambda>(x, y, z). k x y z) = Inr r"
  obtains x y z where "m = Inr (x, y, z)" and "k x y z = Inr r"
  using assms by (auto simp: attempt_eq_Inr)

lemma attempt_eq_InrE:
  assumes "attempt m k = Inr r"
  obtains x where "m = Inr x" and "k x = Inr r"
  using assms by (auto simp: attempt_eq_Inr)

text \<open>Peeling a successful handler step by step, with \<open>elim\<close>.\<close>

lemma attempt_pairE:
  assumes "attempt m (\<lambda>(x, y). k x y) = Inr r"
  obtains x y where "m = Inr (x, y)" and "k x y = Inr r"
  using assms by (auto simp: attempt_eq_Inr)

lemma guardE:
  assumes "(if c then Inl e else m) = Inr r"
  obtains "\<not> c" and "m = Inr r"
  using assms by (auto split: if_splits)

lemma case_optionE:
  assumes "(case x of None \<Rightarrow> Inl e | Some a \<Rightarrow> f a) = Inr r"
  obtains a where "x = Some a" and "f a = Inr r"
  using assms by (auto split: option.splits)

lemma branchE:
  assumes "(if c then a else b) = Inr r"
  obtains (yes) "c" "a = Inr r" | (no) "\<not> c" "b = Inr r"
  using assms by (auto split: if_splits)

lemma Inr_eqE:
  assumes "Inr x = Inr y"
  obtains "x = y"
  using assms by simp

lemma case_pairE:
  assumes "(case y of (a, b) \<Rightarrow> f a b) = Inr r"
  obtains a b where "y = (a, b)" "f a b = Inr r"
  using assms by (cases y) simp

lemmas peel = attempt_pairE attempt_eq_InrE guardE case_optionE

lemma attempt_weak_cong: "m = m' \<Longrightarrow> attempt m k = attempt m' k"
  by simp

lemma if_Inl_eq_Inr [res_simps]:
  "(if c then Inl e else m) = Inr r \<longleftrightarrow> \<not> c \<and> m = Inr r"
  by simp

lemma if_else_Inl_eq_Inr [res_simps]:
  "(if c then m else Inl e) = Inr r \<longleftrightarrow> c \<and> m = Inr r"
  by simp

lemma ok_or_Some [simp]: "ok_or (Some x) e = Inr x"
  by (simp add: ok_or_def)

lemma ok_or_None [simp]: "ok_or None e = Inl e"
  by (simp add: ok_or_def)

lemma ok_or_eq_Inr [res_simps]: "ok_or m e = Inr x \<longleftrightarrow> m = Some x"
  by (auto simp: ok_or_def split: option.splits)

lemma ok_or_eq_Inl [res_simps]: "ok_or m e = Inl e' \<longleftrightarrow> m = None \<and> e' = e"
  by (auto simp: ok_or_def split: option.splits)

lemma map_err_Inl [simp]: "map_err f (Inl e) = Inl (f e)"
  by (simp add: map_err_def)

lemma map_err_Inr [simp]: "map_err f (Inr x) = Inr x"
  by (simp add: map_err_def)

lemma map_err_eq_Inr [res_simps]: "map_err f m = Inr x \<longleftrightarrow> m = Inr x"
  by (auto simp: map_err_def split: sum.splits)

lemma is_ok_Inl [simp]: "\<not> is_ok (Inl e)"
  by (simp add: is_ok_def)

lemma is_ok_Inr [simp]: "is_ok (Inr x)"
  by (simp add: is_ok_def)

lemma is_ok_iff: "is_ok m \<longleftrightarrow> (\<exists>x. m = Inr x)"
  by (auto simp: is_ok_def split: sum.splits)

section \<open>Checked integer arithmetic\<close>

text \<open>
  \<^verbatim>\<open>checked_add\<close> and its relatives on an unsigned integer of any width: \<open>None\<close>
  exactly when the mathematical result does not fit (or the divisor is zero).
\<close>

definition checked_add :: "'a::len word \<Rightarrow> 'a word \<Rightarrow> 'a word option" where
  "checked_add x y = (if unat x + unat y < 2 ^ LENGTH('a) then Some (x + y) else None)"

definition checked_sub :: "'a::len word \<Rightarrow> 'a word \<Rightarrow> 'a word option" where
  "checked_sub x y = (if unat y \<le> unat x then Some (x - y) else None)"

definition checked_mul :: "'a::len word \<Rightarrow> 'a word \<Rightarrow> 'a word option" where
  "checked_mul x y = (if unat x * unat y < 2 ^ LENGTH('a) then Some (x * y) else None)"

definition checked_div :: "'a::len word \<Rightarrow> 'a word \<Rightarrow> 'a word option" where
  "checked_div x y = (if y = 0 then None else Some (x div y))"

definition checked_pow :: "'a::len word \<Rightarrow> nat \<Rightarrow> 'a word option" where
  "checked_pow x n = (if unat x ^ n < 2 ^ LENGTH('a) then Some (x ^ n) else None)"

text \<open>\<^verbatim>\<open>T::try_from\<close> between unsigned widths: \<open>None\<close> when the value does not fit.\<close>

definition try_from_word :: "'a::len word \<Rightarrow> 'b::len word option" where
  "try_from_word x = (if unat x < 2 ^ LENGTH('b) then Some (ucast x) else None)"

text \<open>\<^verbatim>\<open>saturating_add\<close> and \<^verbatim>\<open>saturating_sub\<close>: the result is clamped to the type's range.\<close>

definition saturating_add :: "'a::len word \<Rightarrow> 'a word \<Rightarrow> 'a word" where
  "saturating_add x y = (case checked_add x y of None \<Rightarrow> - 1 | Some z \<Rightarrow> z)"

definition saturating_sub :: "'a::len word \<Rightarrow> 'a word \<Rightarrow> 'a word" where
  "saturating_sub x y = (if y \<le> x then x - y else 0)"

lemma unat_bound [simp]: "unat (x :: 'a::len word) < 2 ^ LENGTH('a)"
  by (rule unsigned_less)

lemma unat_ucast_up:
  "LENGTH('a) \<le> LENGTH('b) \<Longrightarrow> unat (ucast (x :: 'a::len word) :: 'b::len word) = unat x"
  using less_le_trans [OF unat_bound [of x] power_increasing [of "LENGTH('a)" "LENGTH('b)" 2]]
  by (simp add: unsigned_ucast_eq take_bit_nat_eq_self)

lemma word_of_nat_unat_eq: "x = y \<longleftrightarrow> unat x = unat y"
  by (simp add: word_unat_eq_iff)

lemma checked_add_eq_Some [checked_simps]:
  "checked_add x y = Some z \<longleftrightarrow> unat (z :: 'a::len word) = unat x + unat y"
proof
  assume "checked_add x y = Some z"
  then show "unat z = unat x + unat y"
    by (auto simp: checked_add_def unat_word_ariths split: if_splits)
next
  assume z: "unat z = unat x + unat y"
  then have "unat x + unat y < 2 ^ LENGTH('a)" by (metis unat_bound)
  with z show "checked_add x y = Some z"
    by (auto simp: checked_add_def word_unat_eq_iff unat_word_ariths)
qed

lemma checked_sub_eq_Some [checked_simps]:
  "checked_sub x y = Some z \<longleftrightarrow> unat y \<le> unat x \<and> unat (z :: 'a::len word) = unat x - unat y"
  by (auto simp: checked_sub_def word_unat_eq_iff unat_sub_if' split: if_splits)

lemma unat_saturating_sub: "unat (saturating_sub x y) = unat x - unat y"
  by (auto simp: saturating_sub_def word_le_nat_alt unat_sub)

lemma saturating_add_exact: "unat x + unat y < 2 ^ LENGTH('a) \<Longrightarrow> saturating_add x (y :: 'a::len word) = x + y"
  by (simp add: saturating_add_def checked_add_def)

lemma checked_mul_eq_Some [checked_simps]:
  "checked_mul x y = Some z \<longleftrightarrow> unat (z :: 'a::len word) = unat x * unat y"
proof
  assume "checked_mul x y = Some z"
  then show "unat z = unat x * unat y"
    by (auto simp: checked_mul_def unat_word_ariths split: if_splits)
next
  assume z: "unat z = unat x * unat y"
  then have "unat x * unat y < 2 ^ LENGTH('a)" by (metis unat_bound)
  with z show "checked_mul x y = Some z"
    by (auto simp: checked_mul_def word_unat_eq_iff unat_word_ariths)
qed

lemma checked_div_eq_Some [checked_simps]:
  "checked_div x y = Some z \<longleftrightarrow> unat y \<noteq> 0 \<and> unat (z :: 'a::len word) = unat x div unat y"
  by (cases "y = 0") (auto simp: checked_div_def word_unat_eq_iff [of _ z] unat_div unat_gt_0)

lemma try_from_word_eq_Some [checked_simps]:
  "try_from_word (x :: 'a::len word) = Some (y :: 'b::len word) \<longleftrightarrow> unat y = unat x"
proof
  assume "try_from_word x = Some y"
  then show "unat y = unat x"
    by (auto simp: try_from_word_def unsigned_ucast_eq take_bit_nat_eq_self split: if_splits)
next
  assume y: "unat y = unat x"
  then have "unat x < 2 ^ LENGTH('b)" by (metis unat_bound)
  with y show "try_from_word x = Some y"
    by (auto simp: try_from_word_def word_unat_eq_iff unsigned_ucast_eq take_bit_nat_eq_self)
qed

lemma unat_pow_nat: "unat x ^ n < 2 ^ LENGTH('a) \<Longrightarrow> unat ((x :: 'a::len word) ^ n) = unat x ^ n"
proof -
  assume "unat x ^ n < 2 ^ LENGTH('a)"
  then have "unat (of_nat (unat x ^ n) :: 'a word) = unat x ^ n"
    by (simp only: unat_of_nat mod_less)
  then show ?thesis by simp
qed

lemma checked_pow_eq_Some [checked_simps]:
  "checked_pow x n = Some z \<longleftrightarrow> unat (z :: 'a::len word) = unat x ^ n"
proof
  assume "checked_pow x n = Some z"
  then show "unat z = unat x ^ n"
    by (auto simp: checked_pow_def unat_pow_nat split: if_splits)
next
  assume z: "unat z = unat x ^ n"
  then have "unat x ^ n < 2 ^ LENGTH('a)" by (metis unat_bound)
  with z show "checked_pow x n = Some z"
    by (auto simp: checked_pow_def word_unat_eq_iff unat_pow_nat)
qed

text \<open>A checked operation followed by a division, as the fixed-point code chains them.\<close>

lemma checked_mul_div_Some:
  "(\<exists>p. checked_mul a b = Some p \<and> checked_div p w = Some c) \<longleftrightarrow>
     unat a * unat b < 2 ^ LENGTH('a) \<and> unat w \<noteq> 0 \<and> unat (c :: 'a::len word) = unat a * unat b div unat w"
  by (auto simp: checked_mul_def checked_div_eq_Some unat_word_ariths)

lemma checked_add_div_Some:
  "(\<exists>p. checked_add a b = Some p \<and> checked_div p w = Some c) \<longleftrightarrow>
     unat a + unat b < 2 ^ LENGTH('a) \<and> unat w \<noteq> 0 \<and> unat (c :: 'a::len word) = (unat a + unat b) div unat w"
  by (auto simp: checked_add_def checked_div_eq_Some unat_word_ariths)

lemma ex_try_from_word:
  "(\<exists>q :: 'a::len word. unat q = n \<and> try_from_word q = Some (x :: 'b::len word)) \<longleftrightarrow>
     n < 2 ^ LENGTH('a) \<and> unat x = n"
proof -
  have "n < 2 ^ LENGTH('a) \<Longrightarrow> unat (of_nat n :: 'a word) = n" by (simp add: unat_of_nat)
  then show ?thesis unfolding try_from_word_eq_Some by (metis unat_bound)
qed

section \<open>Little-endian bytes\<close>

definition to_le_bytes :: "'a::len word \<Rightarrow> bytes" where
  "to_le_bytes w = map (\<lambda>i. ucast (drop_bit (8 * i) w)) [0..<LENGTH('a) div 8]"

fun from_le_bytes :: "bytes \<Rightarrow> 'a::len word" where
  "from_le_bytes [] = 0"
| "from_le_bytes (b # bs) = ucast b OR push_bit 8 (from_le_bytes bs)"

lemma length_to_le_bytes [simp]: "length (to_le_bytes (w :: 'a::len word)) = LENGTH('a) div 8"
  by (simp add: to_le_bytes_def)

lemma bit_from_le_bytes:
  "bit (from_le_bytes bs :: 'a::len word) n \<longleftrightarrow>
     n < LENGTH('a) \<and> n div 8 < length bs \<and> bit (bs ! (n div 8)) (n mod 8)"
proof (induction bs arbitrary: n)
  case Nil
  then show ?case by simp
next
  case (Cons b bs)
  show ?case
  proof (cases "n < 8")
    case True
    then show ?thesis by (auto simp: bit_simps)
  next
    case False
    then obtain k where k: "n = k + 8" by (metis add.commute le_Suc_ex not_less)
    then have "\<not> bit b n" using False bit_imp_le_length [of b n] by auto
    moreover have "(k + 8) div 8 = Suc (k div 8)" by simp
    ultimately show ?thesis using Cons.IH [of k] by (auto simp: k bit_simps)
  qed
qed

lemma from_to_le_bytes:
  assumes "8 dvd LENGTH('a)"
  shows "from_le_bytes (to_le_bytes (w :: 'a::len word)) = w"
proof (rule bit_word_eqI)
  fix n
  assume n: "n < LENGTH('a)"
  then have d: "n div 8 < LENGTH('a) div 8"
    using assms by (metis dvd_div_mult_self less_mult_imp_div_less)
  have "8 * (n div 8) + n mod 8 = n" by simp
  then have "bit (to_le_bytes w ! (n div 8)) (n mod 8) = bit w n"
    using d by (simp add: to_le_bytes_def bit_simps)
  then show "bit (from_le_bytes (to_le_bytes w) :: 'a word) n = bit w n"
    using n d by (simp add: bit_from_le_bytes)
qed

lemma from_to_le_bytes_u8 [simp]: "from_le_bytes (to_le_bytes (w :: u8)) = w"
  by (rule from_to_le_bytes) simp

lemma from_to_le_bytes_u64 [simp]: "from_le_bytes (to_le_bytes (w :: u64)) = w"
  by (rule from_to_le_bytes) simp

lemma from_to_le_bytes_u128 [simp]: "from_le_bytes (to_le_bytes (w :: u128)) = w"
  by (rule from_to_le_bytes) simp

lemma from_to_le_bytes_256 [simp]: "from_le_bytes (to_le_bytes (w :: 256 word)) = w"
  by (rule from_to_le_bytes) simp

section \<open>Slices of byte arrays\<close>

text \<open>
  \<open>subslice off n bs\<close> is the \<open>n\<close> bytes from offset \<open>off\<close>: what
  \<^verbatim>\<open>array_refs!\<close> hands out for a field.
\<close>

definition subslice :: "nat \<Rightarrow> nat \<Rightarrow> 'a list \<Rightarrow> 'a list" where
  "subslice off n bs = take n (drop off bs)"

lemma length_subslice [simp]: "length (subslice off n bs) = min n (length bs - off)"
  by (simp add: subslice_def)

text \<open>Reading a field of a concatenation: drop the fields before it, keep it, ignore the rest.\<close>

lemma subslice_here [layout_simps]: "length xs = n \<Longrightarrow> subslice 0 n (xs @ ys) = xs"
  by (simp add: subslice_def)

lemma subslice_whole [layout_simps]: "length xs = n \<Longrightarrow> subslice 0 n xs = xs"
  by (simp add: subslice_def)

lemma subslice_skip [layout_simps]:
  "length xs \<le> off \<Longrightarrow> subslice off n (xs @ ys) = subslice (off - length xs) n ys"
  by (simp add: subslice_def)

lemma subslice_skip_Cons [layout_simps]:
  "0 < off \<Longrightarrow> subslice off n (x # ys) = subslice (off - 1) n ys"
  by (cases off) (simp_all add: subslice_def)

lemma nth_skip [layout_simps]: "length xs \<le> i \<Longrightarrow> (xs @ ys) ! i = ys ! (i - length xs)"
  by (simp add: nth_append)

text \<open>An array of equal-width elements laid out one after the other.\<close>

lemma length_concat_fixed:
  "(\<And>x. x \<in> set xs \<Longrightarrow> length (f x) = w) \<Longrightarrow> length (concat (map f xs)) = w * length xs"
  by (induction xs) auto

lemma subslice_concat_fixed:
  assumes "\<And>x. length (f x) = w" and "i < length xs"
  shows "subslice (w * i) w (concat (map f xs) @ rest) = f (xs ! i)"
  using assms(2)
proof (induction xs arbitrary: i)
  case Nil
  then show ?case by simp
next
  case (Cons x xs)
  show ?case
  proof (cases i)
    case 0
    then show ?thesis by (simp add: subslice_def assms(1))
  next
    case (Suc j)
    with Cons have "subslice (w * j) w (concat (map f xs) @ rest) = f (xs ! j)" by simp
    then show ?thesis using Suc by (simp add: subslice_skip assms(1))
  qed
qed

section \<open>Invariants and refinement of step relations\<close>

locale invariant_system =
  fixes step :: "'s \<Rightarrow> 's \<Rightarrow> bool"
    and inv :: "'s \<Rightarrow> bool"
  assumes step_inv: "step s t \<Longrightarrow> inv s \<Longrightarrow> inv t"
begin

lemma run_inv: "step\<^sup>*\<^sup>* s t \<Longrightarrow> inv s \<Longrightarrow> inv t"
  by (induction rule: rtranclp_induct) (auto dest: step_inv)

end

text \<open>Every concrete step is an abstract step: then abstract invariants hold of concrete runs.\<close>

locale refined_system = invariant_system astep ainv
  for astep :: "'a \<Rightarrow> 'a \<Rightarrow> bool" and ainv :: "'a \<Rightarrow> bool" +
  fixes cstep :: "'c \<Rightarrow> 'c \<Rightarrow> bool"
    and abs :: "'c \<Rightarrow> 'a"
  assumes simulation: "cstep s t \<Longrightarrow> astep (abs s) (abs t)"
begin

lemma run_simulation: "cstep\<^sup>*\<^sup>* s t \<Longrightarrow> astep\<^sup>*\<^sup>* (abs s) (abs t)"
  by (induction rule: rtranclp_induct) (auto intro: rtranclp.rtrancl_into_rtrancl simulation)

lemma run_abstract_inv: "cstep\<^sup>*\<^sup>* s t \<Longrightarrow> ainv (abs s) \<Longrightarrow> ainv (abs t)"
  using run_simulation run_inv by blast

end

end
