(* ===== verification/Solana.thy ===== *)
theory Solana
  imports Prelude
begin

text \<open>
  The platform the programs run on, as far as their sources see it: accounts and the ledger
  that holds them, account infos, program errors, instructions, and the \<^verbatim>\<open>Pack\<close> trait.

  An \<^verbatim>\<open>AccountInfo\<close> shares its lamports and data with every other info of the same key, so
  the model keeps them in one ledger indexed by key: a handler takes the account infos and the
  ledger and returns the new ledger, and two infos with the same key alias as they do on chain.

  What the Solana runtime computes and the repository does not contain (rent, sysvar decoding,
  derived addresses, cross-program invocation, the base-58 identifiers of other programs) is
  the record \<open>runtime\<close>, an argument of every definition that uses it.
\<close>

type_synonym pubkey = "256 word"

datatype program_error =
    Custom u32
  | InvalidArgument
  | InvalidInstructionData
  | InvalidAccountData
  | AccountDataTooSmall
  | InsufficientFundsError
  | IncorrectProgramId
  | MissingRequiredSignature
  | AccountAlreadyInitialized
  | UninitializedAccount
  | NotEnoughAccountKeys
  | AccountBorrowFailed
  | MaxSeedLengthExceeded
  | InvalidSeeds
  | BorshIoError
  | AccountNotRentExempt
  | UnsupportedSysvar
  | InvalidRealloc
  | Panicked \<comment> \<open>the program aborted: an index, slice, arithmetic or \<^verbatim>\<open>expect\<close> panic\<close>

type_synonym 'a res = "program_error + 'a"

section \<open>Accounts\<close>

record sol_account =
  acc_lamports :: u64
  acc_data :: bytes
  acc_owner :: pubkey

type_synonym ledger = "pubkey \<Rightarrow> sol_account"

record account_info =
  ai_key :: pubkey
  ai_is_signer :: bool
  ai_is_writable :: bool

definition next_account_info :: "account_info list \<Rightarrow> (account_info \<times> account_info list) res" where
  "next_account_info it = (case it of [] \<Rightarrow> Inl NotEnoughAccountKeys | a # rest \<Rightarrow> Inr (a, rest))"

abbreviation info_data :: "ledger \<Rightarrow> account_info \<Rightarrow> bytes" where
  "info_data led a \<equiv> acc_data (led (ai_key a))"

abbreviation info_owner :: "ledger \<Rightarrow> account_info \<Rightarrow> pubkey" where
  "info_owner led a \<equiv> acc_owner (led (ai_key a))"

abbreviation info_lamports :: "ledger \<Rightarrow> account_info \<Rightarrow> u64" where
  "info_lamports led a \<equiv> acc_lamports (led (ai_key a))"

definition set_data :: "pubkey \<Rightarrow> bytes \<Rightarrow> ledger \<Rightarrow> ledger" where
  "set_data k bs led = led(k := (led k)\<lparr>acc_data := bs\<rparr>)"

definition set_lamports :: "pubkey \<Rightarrow> u64 \<Rightarrow> ledger \<Rightarrow> ledger" where
  "set_lamports k n led = led(k := (led k)\<lparr>acc_lamports := n\<rparr>)"

lemma next_account_info_Nil [simp]: "next_account_info [] = Inl NotEnoughAccountKeys"
  by (simp add: next_account_info_def)

lemma next_account_info_Cons [simp]: "next_account_info (a # it) = Inr (a, it)"
  by (simp add: next_account_info_def)

lemma next_account_info_eq_Inr [res_simps]:
  "next_account_info it = Inr p \<longleftrightarrow> it = fst p # snd p"
  by (cases p) (auto simp: next_account_info_def split: list.splits)

lemma next_account_infoE:
  assumes "next_account_info it = Inr (a, rest)"
  obtains "it = a # rest"
  using assms by (simp add: next_account_info_eq_Inr)

lemmas peel_infos = peel next_account_infoE

lemmas peel_all = peel_infos branchE Inr_eqE Pair_inject case_pairE

lemma set_data_data [simp]:
  "acc_data (set_data k bs led x) = (if x = k then bs else acc_data (led x))"
  by (simp add: set_data_def)

lemma set_data_owner [simp]: "acc_owner (set_data k bs led x) = acc_owner (led x)"
  by (simp add: set_data_def)

lemma set_data_lamports [simp]: "acc_lamports (set_data k bs led x) = acc_lamports (led x)"
  by (simp add: set_data_def)

lemma set_data_other: "x \<noteq> k \<Longrightarrow> set_data k bs led x = led x"
  by (simp add: set_data_def)

lemma set_lamports_data [simp]: "acc_data (set_lamports k n led x) = acc_data (led x)"
  by (simp add: set_lamports_def)

lemma set_lamports_owner [simp]: "acc_owner (set_lamports k n led x) = acc_owner (led x)"
  by (simp add: set_lamports_def)

lemma set_lamports_lamports [simp]:
  "acc_lamports (set_lamports k n led x) = (if x = k then n else acc_lamports (led x))"
  by (simp add: set_lamports_def)

lemma set_lamports_other: "x \<noteq> k \<Longrightarrow> set_lamports k n led x = led x"
  by (simp add: set_lamports_def)

section \<open>Instructions and the runtime\<close>

record account_meta =
  am_pubkey :: pubkey
  am_is_signer :: bool
  am_is_writable :: bool

definition AccountMeta_new :: "pubkey \<Rightarrow> bool \<Rightarrow> account_meta" where
  "AccountMeta_new k s = \<lparr>am_pubkey = k, am_is_signer = s, am_is_writable = True\<rparr>"

definition AccountMeta_new_readonly :: "pubkey \<Rightarrow> bool \<Rightarrow> account_meta" where
  "AccountMeta_new_readonly k s = \<lparr>am_pubkey = k, am_is_signer = s, am_is_writable = False\<rparr>"

record sol_instruction =
  ix_program_id :: pubkey
  ix_accounts :: "account_meta list"
  ix_data :: bytes

record rent =
  rent_is_exempt :: "u64 \<Rightarrow> nat \<Rightarrow> bool"
  rent_minimum_balance :: "nat \<Rightarrow> u64"

record clock =
  clock_slot :: u64
  clock_unix_timestamp :: i64
  clock_epoch :: u64

text \<open>
  The parameters.  \<open>rt_invoke_signed caller ix infos seeds led\<close> runs the instruction
  \<open>ix\<close> as a cross-program invocation of \<open>caller\<close> and returns the ledger after it;
  \<^verbatim>\<open>invoke\<close> is the call with no seeds.  \<open>rt_declare_id\<close> decodes the base-58 literal
  of \<^verbatim>\<open>declare_id!\<close>.  The last three are the constants of \<^verbatim>\<open>solana_program::clock\<close>.
\<close>

record runtime =
  rt_rent_from_account :: "pubkey \<Rightarrow> sol_account \<Rightarrow> rent res"
  rt_rent_get :: "rent res"
  rt_clock_from_account :: "pubkey \<Rightarrow> sol_account \<Rightarrow> clock res"
  rt_clock_get :: "clock res"
  rt_create_program_address :: "bytes list \<Rightarrow> pubkey \<Rightarrow> pubkey res"
  rt_find_program_address :: "bytes list \<Rightarrow> pubkey \<Rightarrow> pubkey \<times> u8"
  rt_invoke_signed :: "pubkey \<Rightarrow> sol_instruction \<Rightarrow> account_info list \<Rightarrow> bytes list list \<Rightarrow> ledger \<Rightarrow> ledger res"
  rt_declare_id :: "string \<Rightarrow> pubkey"
  rt_system_program_id :: pubkey
  rt_incinerator_id :: pubkey
  rt_rent_sysvar_id :: pubkey
  rt_clock_sysvar_id :: pubkey
  rt_ticks_per_second :: u64
  rt_ticks_per_slot :: u64
  rt_seconds_per_day :: u64

definition rent_from_info :: "runtime \<Rightarrow> ledger \<Rightarrow> account_info \<Rightarrow> rent res" where
  "rent_from_info R led a = rt_rent_from_account R (ai_key a) (led (ai_key a))"

definition clock_from_info :: "runtime \<Rightarrow> ledger \<Rightarrow> account_info \<Rightarrow> clock res" where
  "clock_from_info R led a = rt_clock_from_account R (ai_key a) (led (ai_key a))"

text \<open>
  What the runtime enforces on a program after it ran: the data of an account changes only if
  the program owns the account, and no account changes owner here.
  Handlers are proved correct for the runs the runtime accepts, as the sources rely on it.
\<close>

definition runtime_accepts :: "pubkey \<Rightarrow> ledger \<Rightarrow> ledger \<Rightarrow> bool" where
  "runtime_accepts pid led led' \<longleftrightarrow>
     (\<forall>k. acc_owner (led' k) = acc_owner (led k) \<and>
          (acc_data (led' k) \<noteq> acc_data (led k) \<longrightarrow> acc_owner (led k) = pid))"

text \<open>
  What the other programs of the chain may do to the accounts of \<open>pid\<close> between two of its own
  calls, or in a call it makes: they can credit them, and hand over an account only with its data
  zeroed.
\<close>

definition other_activity :: "pubkey \<Rightarrow> ledger \<Rightarrow> ledger \<Rightarrow> bool" where
  "other_activity pid led led' \<longleftrightarrow>
     (\<forall>k. if acc_owner (led k) = pid
          then acc_owner (led' k) = pid \<and> acc_data (led' k) = acc_data (led k) \<and>
               unat (acc_lamports (led k)) \<le> unat (acc_lamports (led' k))
          else acc_owner (led' k) = pid \<longrightarrow> (\<forall>b \<in> set (acc_data (led' k)). b = 0))"

lemma other_activity_refl [simp]: "other_activity pid led led"
  by (simp add: other_activity_def)

lemma other_activity_trans:
  assumes "other_activity pid led l" and "other_activity pid l led'"
  shows "other_activity pid led led'"
  unfolding other_activity_def
proof
  fix k
  have "if acc_owner (led k) = pid then acc_owner (l k) = pid \<and> acc_data (l k) = acc_data (led k) \<and>
      unat (acc_lamports (led k)) \<le> unat (acc_lamports (l k))
    else acc_owner (l k) = pid \<longrightarrow> (\<forall>b \<in> set (acc_data (l k)). b = 0)"
    using assms(1) unfolding other_activity_def by (rule spec)
  moreover have "if acc_owner (l k) = pid then acc_owner (led' k) = pid \<and> acc_data (led' k) = acc_data (l k) \<and>
      unat (acc_lamports (l k)) \<le> unat (acc_lamports (led' k))
    else acc_owner (led' k) = pid \<longrightarrow> (\<forall>b \<in> set (acc_data (led' k)). b = 0)"
    using assms(2) unfolding other_activity_def by (rule spec)
  ultimately show "if acc_owner (led k) = pid then acc_owner (led' k) = pid \<and> acc_data (led' k) = acc_data (led k) \<and>
      unat (acc_lamports (led k)) \<le> unat (acc_lamports (led' k))
    else acc_owner (led' k) = pid \<longrightarrow> (\<forall>b \<in> set (acc_data (led' k)). b = 0)"
    by (auto split: if_splits)
qed

section \<open>Packed state\<close>

text \<open>
  The provided methods of \<^verbatim>\<open>solana_program::program_pack::Pack\<close>, over the three things a
  type supplies: its length, \<^verbatim>\<open>unpack_from_slice\<close> and \<^verbatim>\<open>pack_into_slice\<close>.  The latter
  overwrites its destination, so it takes the old bytes; it returns \<open>Inl Panicked\<close> where
  the source panics.
\<close>

definition Pack_unpack_unchecked :: "nat \<Rightarrow> (bytes \<Rightarrow> 'a res) \<Rightarrow> bytes \<Rightarrow> 'a res" where
  "Pack_unpack_unchecked len from_slice input =
     (if length input \<noteq> len then Inl InvalidAccountData else from_slice input)"

definition Pack_unpack :: "nat \<Rightarrow> (bytes \<Rightarrow> 'a res) \<Rightarrow> ('a \<Rightarrow> bool) \<Rightarrow> bytes \<Rightarrow> 'a res" where
  "Pack_unpack len from_slice is_init input =
     attempt (Pack_unpack_unchecked len from_slice input) (\<lambda>v.
       if is_init v then Inr v else Inl UninitializedAccount)"

definition Pack_pack :: "nat \<Rightarrow> ('a \<Rightarrow> bytes \<Rightarrow> bytes res) \<Rightarrow> 'a \<Rightarrow> bytes \<Rightarrow> bytes res" where
  "Pack_pack len into_slice v dst =
     (if length dst \<noteq> len then Inl InvalidAccountData else into_slice v dst)"

text \<open>\<^verbatim>\<open>T::pack(v, &mut info.data.borrow_mut())?\<close> as a step on the ledger.\<close>

definition pack_to_ledger ::
    "nat \<Rightarrow> ('a \<Rightarrow> bytes \<Rightarrow> bytes res) \<Rightarrow> 'a \<Rightarrow> pubkey \<Rightarrow> ledger \<Rightarrow> ledger res" where
  "pack_to_ledger len into_slice v k led =
     attempt (Pack_pack len into_slice v (acc_data (led k))) (\<lambda>bs. Inr (set_data k bs led))"

text \<open>
  The contract between a packed type and the handlers that store it: packing keeps the length,
  and what was packed is what is unpacked.  \<open>wf\<close> are the values the layout can represent
  (a version the program knows, a list that fits); whatever is unpacked is one of them.
\<close>

locale packed_type =
  fixes len :: nat
    and from_slice :: "bytes \<Rightarrow> 'a res"
    and into_slice :: "'a \<Rightarrow> bytes \<Rightarrow> bytes res"
    and is_init :: "'a \<Rightarrow> bool"
    and wf :: "'a \<Rightarrow> bool"
  assumes into_length: "length dst = len \<Longrightarrow> wf v \<Longrightarrow> into_slice v dst = Inr bs \<Longrightarrow> length bs = len"
    and from_into: "length dst = len \<Longrightarrow> wf v \<Longrightarrow> into_slice v dst = Inr bs \<Longrightarrow> from_slice bs = Inr v"
    and from_wf: "from_slice bs = Inr v \<Longrightarrow> wf v"
begin

lemma unpack_eq_Inr:
  "Pack_unpack len from_slice is_init bs = Inr v \<longleftrightarrow>
     length bs = len \<and> from_slice bs = Inr v \<and> is_init v"
  by (auto simp: Pack_unpack_def Pack_unpack_unchecked_def res_simps)

lemma unpack_unchecked_eq_Inr:
  "Pack_unpack_unchecked len from_slice bs = Inr v \<longleftrightarrow> length bs = len \<and> from_slice bs = Inr v"
  by (auto simp: Pack_unpack_unchecked_def)

lemma unpack_wf: "Pack_unpack len from_slice is_init bs = Inr v \<Longrightarrow> wf v"
  by (auto simp: unpack_eq_Inr dest: from_wf)

lemma pack_eq_Inr:
  "Pack_pack len into_slice v dst = Inr bs \<longleftrightarrow> length dst = len \<and> into_slice v dst = Inr bs"
  by (auto simp: Pack_pack_def)

lemma unpack_pack:
  assumes "Pack_pack len into_slice v dst = Inr bs" and "wf v" and "is_init v"
  shows "Pack_unpack len from_slice is_init bs = Inr v"
  using assms into_length from_into unfolding unpack_eq_Inr pack_eq_Inr by blast

lemma pack_injective:
  assumes "Pack_pack len into_slice v dst = Inr bs" and "Pack_pack len into_slice v' dst' = Inr bs"
    and "wf v" and "wf v'"
  shows "v = v'"
  using assms from_into [of dst v bs] from_into [of dst' v' bs] by (auto simp: pack_eq_Inr)

text \<open>Storing a value: the stored account then unpacks to it, every other account is untouched.\<close>

lemma pack_to_ledger_eq_Inr:
  "pack_to_ledger len into_slice v k led = Inr led' \<longleftrightarrow>
     (\<exists>bs. length (acc_data (led k)) = len \<and> into_slice v (acc_data (led k)) = Inr bs \<and>
           led' = set_data k bs led)"
  by (auto simp: pack_to_ledger_def attempt_eq_Inr pack_eq_Inr)

lemma stored_unpacks:
  assumes "pack_to_ledger len into_slice v k led = Inr led'" and "wf v" and "is_init v"
  shows "Pack_unpack len from_slice is_init (acc_data (led' k)) = Inr v"
proof -
  from assms(1) obtain bs where l: "length (acc_data (led k)) = len"
    and i: "into_slice v (acc_data (led k)) = Inr bs" and led': "led' = set_data k bs led"
    unfolding pack_to_ledger_eq_Inr by blast
  have "length bs = len" and "from_slice bs = Inr v"
    using into_length [OF l assms(2) i] from_into [OF l assms(2) i] .
  then show ?thesis using assms(3) by (simp add: unpack_eq_Inr led')
qed

lemma stored_length:
  assumes "pack_to_ledger len into_slice v k led = Inr led'" and "wf v"
  shows "length (acc_data (led' x)) = length (acc_data (led x))"
proof -
  from assms(1) obtain bs where l: "length (acc_data (led k)) = len"
    and i: "into_slice v (acc_data (led k)) = Inr bs" and led': "led' = set_data k bs led"
    unfolding pack_to_ledger_eq_Inr by blast
  show ?thesis using into_length [OF l assms(2) i] l by (simp add: led')
qed

lemma stored_at_length:
  assumes "pack_to_ledger len into_slice v k led = Inr led'"
  shows "length (acc_data (led k)) = len"
  using assms by (auto simp: pack_to_ledger_eq_Inr)

lemma stored_frame:
  assumes "pack_to_ledger len into_slice v k led = Inr led'"
  shows "acc_owner (led' x) = acc_owner (led x)"
    and "acc_lamports (led' x) = acc_lamports (led x)"
    and "x \<noteq> k \<Longrightarrow> led' x = led x"
  using assms by (auto simp: pack_to_ledger_eq_Inr set_data_other)

end

section \<open>Borsh encodings\<close>

text \<open>
  The encodings the \<^verbatim>\<open>borsh\<close> crate derives for a type.  \<open>cd_read\<close> reads a value from the front of a
  byte string (\<^verbatim>\<open>try_from_slice_unchecked\<close>), \<open>cd_write\<close> is the encoding (\<^verbatim>\<open>try_to_vec\<close>).  What is
  written is what is read back, whatever follows it.
\<close>

record 'a codec =
  cd_read :: "bytes \<Rightarrow> 'a res"
  cd_write :: "'a \<Rightarrow> bytes res"

definition codec_roundtrip :: "'a codec \<Rightarrow> bool" where
  "codec_roundtrip c \<longleftrightarrow> (\<forall>v bs rest. cd_write c v = Inr bs \<longrightarrow> cd_read c (bs @ rest) = Inr v)"

text \<open>Encodings by tables, for concrete executions: the type's tag, then the position of the value in the table.\<close>

definition table_codec :: "u8 \<Rightarrow> 'a list \<Rightarrow> 'a codec" where
  "table_codec tag vs =
     \<lparr>cd_read = (\<lambda>bs. case bs of
          t # i # _ \<Rightarrow> if t = tag \<and> unat i < length vs then Inr (vs ! unat i) else Inl BorshIoError
        | _ \<Rightarrow> Inl BorshIoError),
      cd_write = (\<lambda>v. case find (\<lambda>i. vs ! i = v) [0..<length vs] of
          Some i \<Rightarrow> Inr [tag, of_nat i] | None \<Rightarrow> Inl BorshIoError)\<rparr>"

lemma table_codec_roundtrip:
  assumes "length vs \<le> 256"
  shows "codec_roundtrip (table_codec tag vs)"
  unfolding codec_roundtrip_def
proof (intro allI impI)
  fix v bs rest
  assume "cd_write (table_codec tag vs) v = Inr bs"
  then obtain i where i: "find (\<lambda>i. vs ! i = v) [0..<length vs] = Some i" "bs = [tag, of_nat i]"
    by (auto simp: table_codec_def split: option.splits)
  then have "i < length vs" "vs ! i = v" by (auto simp: find_Some_iff)
  moreover have "unat (of_nat i :: u8) = i" using \<open>i < length vs\<close> assms by (simp add: unat_of_nat)
  ultimately show "cd_read (table_codec tag vs) (bs @ rest) = Inr v" by (simp add: i(2) table_codec_def)
qed

definition no_codec :: "'a codec" where
  "no_codec = \<lparr>cd_read = (\<lambda>_. Inl BorshIoError), cd_write = (\<lambda>_. Inl BorshIoError)\<rparr>"

end
