(* ===== verification/Token_State.thy ===== *)
theory Token_State
  imports Solana
begin

text \<open>
  The state of the token program (\<^verbatim>\<open>token/program/src/state.rs\<close>, \<^verbatim>\<open>error.rs\<close>): mints,
  token accounts and multisignature accounts, their packed layouts, and the proof that each
  layout is a \<open>packed_type\<close>, so that handlers read back exactly what they stored.
\<close>

section \<open>Errors\<close>

datatype TokenError =
    NotRentExempt
  | InsufficientFunds
  | InvalidMint
  | MintMismatch
  | OwnerMismatch
  | FixedSupply
  | AlreadyInUse
  | InvalidNumberOfProvidedSigners
  | InvalidNumberOfRequiredSigners
  | UninitializedState
  | NativeNotSupported
  | NonNativeHasBalance
  | InvalidInstruction
  | InvalidState
  | Overflow
  | AuthorityTypeNotSupported
  | MintCannotFreeze
  | AccountFrozen
  | MintDecimalsMismatch
  | NonNativeNotSupported

text \<open>\<^verbatim>\<open>e as u32\<close>: the position in the enumeration, and \<^verbatim>\<open>From<TokenError>\<close>.\<close>

primrec TokenError_code :: "TokenError \<Rightarrow> u32" where
  "TokenError_code NotRentExempt = 0"
| "TokenError_code InsufficientFunds = 1"
| "TokenError_code InvalidMint = 2"
| "TokenError_code MintMismatch = 3"
| "TokenError_code OwnerMismatch = 4"
| "TokenError_code FixedSupply = 5"
| "TokenError_code AlreadyInUse = 6"
| "TokenError_code InvalidNumberOfProvidedSigners = 7"
| "TokenError_code InvalidNumberOfRequiredSigners = 8"
| "TokenError_code UninitializedState = 9"
| "TokenError_code NativeNotSupported = 10"
| "TokenError_code NonNativeHasBalance = 11"
| "TokenError_code InvalidInstruction = 12"
| "TokenError_code InvalidState = 13"
| "TokenError_code Overflow = 14"
| "TokenError_code AuthorityTypeNotSupported = 15"
| "TokenError_code MintCannotFreeze = 16"
| "TokenError_code AccountFrozen = 17"
| "TokenError_code MintDecimalsMismatch = 18"
| "TokenError_code NonNativeNotSupported = 19"

definition token_err :: "TokenError \<Rightarrow> program_error" where
  "token_err e = Custom (TokenError_code e)"

section \<open>Mint, account and multisig\<close>

record mint =
  mint_authority :: "pubkey option"
  mint_supply :: u64
  mint_decimals :: u8
  mint_is_initialized :: bool
  mint_freeze_authority :: "pubkey option"

datatype AccountState = Uninitialized | Initialized | Frozen

record account =
  ta_mint :: pubkey
  ta_owner :: pubkey
  ta_amount :: u64
  ta_delegate :: "pubkey option"
  ta_state :: AccountState
  ta_is_native :: "u64 option"
  ta_delegated_amount :: u64
  ta_close_authority :: "pubkey option"

record multisig =
  ms_m :: u8
  ms_n :: u8
  ms_is_initialized :: bool
  ms_signers :: "pubkey list"

definition MAX_SIGNERS :: nat where
  "MAX_SIGNERS = 11"

definition MIN_SIGNERS :: nat where
  "MIN_SIGNERS = 1"

definition is_frozen :: "account \<Rightarrow> bool" where
  "is_frozen a \<longleftrightarrow> ta_state a = Frozen"

definition is_native :: "account \<Rightarrow> bool" where
  "is_native a \<longleftrightarrow> ta_is_native a \<noteq> None"

definition is_owned_by_system_program_or_incinerator :: "runtime \<Rightarrow> account \<Rightarrow> bool" where
  "is_owned_by_system_program_or_incinerator R a \<longleftrightarrow>
     ta_owner a = rt_system_program_id R \<or> ta_owner a = rt_incinerator_id R"

definition account_is_initialized :: "account \<Rightarrow> bool" where
  "account_is_initialized a \<longleftrightarrow> ta_state a \<noteq> Uninitialized"

section \<open>Packed layouts\<close>

definition pack_coption_key :: "pubkey option \<Rightarrow> bytes \<Rightarrow> bytes" where
  "pack_coption_key src dst =
     (case src of
        Some k \<Rightarrow> [1, 0, 0, 0] @ to_le_bytes k
      | None \<Rightarrow> [0, 0, 0, 0] @ drop 4 dst)"

definition unpack_coption_key :: "bytes \<Rightarrow> pubkey option res" where
  "unpack_coption_key src =
     (let tag = take 4 src; body = drop 4 src in
      if tag = [0, 0, 0, 0] then Inr None
      else if tag = [1, 0, 0, 0] then Inr (Some (from_le_bytes body))
      else Inl InvalidAccountData)"

definition pack_coption_u64 :: "u64 option \<Rightarrow> bytes \<Rightarrow> bytes" where
  "pack_coption_u64 src dst =
     (case src of
        Some n \<Rightarrow> [1, 0, 0, 0] @ to_le_bytes n
      | None \<Rightarrow> [0, 0, 0, 0] @ drop 4 dst)"

definition unpack_coption_u64 :: "bytes \<Rightarrow> u64 option res" where
  "unpack_coption_u64 src =
     (let tag = take 4 src; body = drop 4 src in
      if tag = [0, 0, 0, 0] then Inr None
      else if tag = [1, 0, 0, 0] then Inr (Some (from_le_bytes body))
      else Inl InvalidAccountData)"

definition bool_byte :: "bool \<Rightarrow> u8" where
  "bool_byte b = (if b then 1 else 0)"

definition unpack_bool_byte :: "u8 \<Rightarrow> bool res" where
  "unpack_bool_byte b =
     (if b = 0 then Inr False else if b = 1 then Inr True else Inl InvalidAccountData)"

definition AccountState_byte :: "AccountState \<Rightarrow> u8" where
  "AccountState_byte s = (case s of Uninitialized \<Rightarrow> 0 | Initialized \<Rightarrow> 1 | Frozen \<Rightarrow> 2)"

definition AccountState_try_from_primitive :: "u8 \<Rightarrow> AccountState option" where
  "AccountState_try_from_primitive b =
     (if b = 0 then Some Uninitialized else if b = 1 then Some Initialized
      else if b = 2 then Some Frozen else None)"

abbreviation MINT_LEN :: nat where "MINT_LEN \<equiv> 82"
abbreviation ACCOUNT_LEN :: nat where "ACCOUNT_LEN \<equiv> 165"
abbreviation MULTISIG_LEN :: nat where "MULTISIG_LEN \<equiv> 355"

definition Mint_unpack_from_slice :: "bytes \<Rightarrow> mint res" where
  "Mint_unpack_from_slice src =
     (if length src < MINT_LEN then Inl Panicked else
      attempt (unpack_coption_key (subslice 0 36 src)) (\<lambda>auth.
      attempt (unpack_bool_byte (src ! 45)) (\<lambda>initialized.
      attempt (unpack_coption_key (subslice 46 36 src)) (\<lambda>freeze.
      Inr \<lparr>mint_authority = auth,
           mint_supply = from_le_bytes (subslice 36 8 src),
           mint_decimals = src ! 44,
           mint_is_initialized = initialized,
           mint_freeze_authority = freeze\<rparr>))))"

definition Mint_pack_into_slice :: "mint \<Rightarrow> bytes \<Rightarrow> bytes res" where
  "Mint_pack_into_slice m dst =
     (if length dst < MINT_LEN then Inl Panicked else
      Inr (pack_coption_key (mint_authority m) (subslice 0 36 dst) @
           to_le_bytes (mint_supply m) @
           [mint_decimals m, bool_byte (mint_is_initialized m)] @
           pack_coption_key (mint_freeze_authority m) (subslice 46 36 dst) @
           drop MINT_LEN dst))"

definition Account_unpack_from_slice :: "bytes \<Rightarrow> account res" where
  "Account_unpack_from_slice src =
     (if length src < ACCOUNT_LEN then Inl Panicked else
      attempt (unpack_coption_key (subslice 72 36 src)) (\<lambda>dlg.
      attempt (ok_or (AccountState_try_from_primitive (src ! 108)) InvalidAccountData) (\<lambda>st.
      attempt (unpack_coption_u64 (subslice 109 12 src)) (\<lambda>native.
      attempt (unpack_coption_key (subslice 129 36 src)) (\<lambda>close.
      Inr \<lparr>ta_mint = from_le_bytes (subslice 0 32 src),
           ta_owner = from_le_bytes (subslice 32 32 src),
           ta_amount = from_le_bytes (subslice 64 8 src),
           ta_delegate = dlg,
           ta_state = st,
           ta_is_native = native,
           ta_delegated_amount = from_le_bytes (subslice 121 8 src),
           ta_close_authority = close\<rparr>)))))"

definition Account_pack_into_slice :: "account \<Rightarrow> bytes \<Rightarrow> bytes res" where
  "Account_pack_into_slice a dst =
     (if length dst < ACCOUNT_LEN then Inl Panicked else
      Inr (to_le_bytes (ta_mint a) @
           to_le_bytes (ta_owner a) @
           to_le_bytes (ta_amount a) @
           pack_coption_key (ta_delegate a) (subslice 72 36 dst) @
           [AccountState_byte (ta_state a)] @
           pack_coption_u64 (ta_is_native a) (subslice 109 12 dst) @
           to_le_bytes (ta_delegated_amount a) @
           pack_coption_key (ta_close_authority a) (subslice 129 36 dst) @
           drop ACCOUNT_LEN dst))"

definition Multisig_unpack_from_slice :: "bytes \<Rightarrow> multisig res" where
  "Multisig_unpack_from_slice src =
     (if length src < MULTISIG_LEN then Inl Panicked else
      attempt (unpack_bool_byte (src ! 2)) (\<lambda>initialized.
      Inr \<lparr>ms_m = src ! 0,
           ms_n = src ! 1,
           ms_is_initialized = initialized,
           ms_signers = map (\<lambda>i. from_le_bytes (subslice (3 + 32 * i) 32 src)) [0..<MAX_SIGNERS]\<rparr>))"

definition Multisig_pack_into_slice :: "multisig \<Rightarrow> bytes \<Rightarrow> bytes res" where
  "Multisig_pack_into_slice s dst =
     (if length dst < MULTISIG_LEN then Inl Panicked else
      Inr ([ms_m s, ms_n s, bool_byte (ms_is_initialized s)] @
           concat (map to_le_bytes (ms_signers s)) @
           drop MULTISIG_LEN dst))"

definition Mint_unpack_unchecked :: "bytes \<Rightarrow> mint res" where
  "Mint_unpack_unchecked = Pack_unpack_unchecked MINT_LEN Mint_unpack_from_slice"

definition Mint_unpack :: "bytes \<Rightarrow> mint res" where
  "Mint_unpack = Pack_unpack MINT_LEN Mint_unpack_from_slice mint_is_initialized"

definition Mint_pack :: "mint \<Rightarrow> pubkey \<Rightarrow> ledger \<Rightarrow> ledger res" where
  "Mint_pack = pack_to_ledger MINT_LEN Mint_pack_into_slice"

definition Account_unpack_unchecked :: "bytes \<Rightarrow> account res" where
  "Account_unpack_unchecked = Pack_unpack_unchecked ACCOUNT_LEN Account_unpack_from_slice"

definition Account_unpack :: "bytes \<Rightarrow> account res" where
  "Account_unpack = Pack_unpack ACCOUNT_LEN Account_unpack_from_slice account_is_initialized"

definition Account_pack :: "account \<Rightarrow> pubkey \<Rightarrow> ledger \<Rightarrow> ledger res" where
  "Account_pack = pack_to_ledger ACCOUNT_LEN Account_pack_into_slice"

definition Multisig_unpack_unchecked :: "bytes \<Rightarrow> multisig res" where
  "Multisig_unpack_unchecked = Pack_unpack_unchecked MULTISIG_LEN Multisig_unpack_from_slice"

definition Multisig_unpack :: "bytes \<Rightarrow> multisig res" where
  "Multisig_unpack = Pack_unpack MULTISIG_LEN Multisig_unpack_from_slice ms_is_initialized"

definition Multisig_pack :: "multisig \<Rightarrow> pubkey \<Rightarrow> ledger \<Rightarrow> ledger res" where
  "Multisig_pack = pack_to_ledger MULTISIG_LEN Multisig_pack_into_slice"

section \<open>The layouts are packed types\<close>

lemma length_pack_coption_key [simp]:
  "length dst = 36 \<Longrightarrow> length (pack_coption_key src dst) = 36"
  by (simp add: pack_coption_key_def split: option.split)

lemma length_pack_coption_u64 [simp]:
  "length dst = 12 \<Longrightarrow> length (pack_coption_u64 src dst) = 12"
  by (simp add: pack_coption_u64_def split: option.split)

lemma unpack_pack_coption_key [simp]:
  "unpack_coption_key (pack_coption_key src dst) = Inr src"
  by (cases src) (simp_all add: pack_coption_key_def unpack_coption_key_def)

lemma unpack_pack_coption_u64 [simp]:
  "unpack_coption_u64 (pack_coption_u64 src dst) = Inr src"
  by (cases src) (simp_all add: pack_coption_u64_def unpack_coption_u64_def)

lemma unpack_bool_byte_inv [simp]: "unpack_bool_byte (bool_byte b) = Inr b"
  by (cases b) (simp_all add: unpack_bool_byte_def bool_byte_def)

lemma AccountState_byte_inv [simp]:
  "AccountState_try_from_primitive (AccountState_byte s) = Some s"
  by (cases s) (simp_all add: AccountState_try_from_primitive_def AccountState_byte_def)

lemma Mint_from_into:
  assumes "length dst = MINT_LEN" and "Mint_pack_into_slice m dst = Inr bs"
  shows "length bs = MINT_LEN" and "Mint_unpack_from_slice bs = Inr m"
  using assms
  by (auto simp: Mint_pack_into_slice_def Mint_unpack_from_slice_def layout_simps)

lemma Account_from_into:
  assumes "length dst = ACCOUNT_LEN" and "Account_pack_into_slice a dst = Inr bs"
  shows "length bs = ACCOUNT_LEN" and "Account_unpack_from_slice bs = Inr a"
  using assms
  by (auto simp: Account_pack_into_slice_def Account_unpack_from_slice_def layout_simps)

lemma Multisig_from_into:
  assumes "length dst = MULTISIG_LEN" and "length (ms_signers s) = MAX_SIGNERS"
    and "Multisig_pack_into_slice s dst = Inr bs"
  shows "length bs = MULTISIG_LEN" and "Multisig_unpack_from_slice bs = Inr s"
proof -
  let ?keys = "concat (map to_le_bytes (ms_signers s))"
  have bs: "bs = [ms_m s, ms_n s, bool_byte (ms_is_initialized s)] @ ?keys"
    using assms(1,3) by (simp add: Multisig_pack_into_slice_def)
  have len: "length ?keys = 32 * 11"
    using assms(2) by (simp add: length_concat_fixed MAX_SIGNERS_def)
  then show lbs: "length bs = MULTISIG_LEN" by (simp add: bs)
  have key: "from_le_bytes (subslice (32 * i) 32 ?keys) = ms_signers s ! i" if "i < 11" for i
    using that assms(2) subslice_concat_fixed [of to_le_bytes 32 i "ms_signers s" "[]"]
    by (simp add: MAX_SIGNERS_def)
  have "map (\<lambda>i. from_le_bytes (subslice (3 + 32 * i) 32 bs)) [0..<MAX_SIGNERS] = ms_signers s"
    using assms(2) by (intro nth_equalityI) (simp_all add: bs key layout_simps MAX_SIGNERS_def)
  then show "Multisig_unpack_from_slice bs = Inr s"
    using lbs by (simp add: Multisig_unpack_from_slice_def) (simp add: bs)
qed

abbreviation any_value :: "'a \<Rightarrow> bool" where
  "any_value v \<equiv> True"

definition multisig_wf :: "multisig \<Rightarrow> bool" where
  "multisig_wf s \<longleftrightarrow> length (ms_signers s) = MAX_SIGNERS"

interpretation mint_packed:
  packed_type MINT_LEN Mint_unpack_from_slice Mint_pack_into_slice mint_is_initialized any_value
  by unfold_locales (simp_all add: Mint_from_into)

interpretation account_packed:
  packed_type ACCOUNT_LEN Account_unpack_from_slice Account_pack_into_slice
    account_is_initialized any_value
  by unfold_locales (simp_all add: Account_from_into)

interpretation multisig_packed:
  packed_type MULTISIG_LEN Multisig_unpack_from_slice Multisig_pack_into_slice
    ms_is_initialized multisig_wf
proof unfold_locales
  fix bs v
  assume "Multisig_unpack_from_slice bs = Inr v"
  then show "multisig_wf v"
    by (auto simp: Multisig_unpack_from_slice_def multisig_wf_def res_simps)
qed (simp_all add: Multisig_from_into multisig_wf_def)

section \<open>What storing leaves behind\<close>

text \<open>
  The bytes \<^verbatim>\<open>pack\<close> leaves in an account of the right size: a store into it cannot fail, and the
  value reads back.  Concrete ledgers are written with these, over zeroed data.
\<close>

definition Mint_over :: "mint \<Rightarrow> bytes \<Rightarrow> bytes" where
  "Mint_over v dst = (case Mint_pack_into_slice v dst of Inr bs \<Rightarrow> bs | Inl _ \<Rightarrow> [])"

lemma Mint_over: "length dst = MINT_LEN \<Longrightarrow> Mint_pack_into_slice v dst = Inr (Mint_over v dst)"
  by (simp add: Mint_over_def Mint_pack_into_slice_def)

lemma Mint_over_length [simp]: "length dst = MINT_LEN \<Longrightarrow> length (Mint_over v dst) = MINT_LEN"
  by (rule Mint_from_into(1) [OF _ Mint_over]) (simp_all add: multisig_wf_def)

lemma Mint_unpack_over [simp]:
  "length dst = MINT_LEN \<Longrightarrow> mint_is_initialized v \<Longrightarrow> Mint_unpack (Mint_over v dst) = Inr v"
  by (simp add: Mint_unpack_def mint_packed.unpack_eq_Inr multisig_wf_def
      Mint_from_into(2) [OF _ Mint_over])

lemma Mint_unpack_unchecked_over [simp]:
  "length dst = MINT_LEN \<Longrightarrow> Mint_unpack_unchecked (Mint_over v dst) = Inr v"
  by (simp add: Mint_unpack_unchecked_def mint_packed.unpack_unchecked_eq_Inr
      Mint_from_into(2) [OF _ Mint_over])

lemma Mint_pack_over [simp]:
  "length (acc_data (led k)) = MINT_LEN \<Longrightarrow>
   Mint_pack v k led = Inr (set_data k (Mint_over v (acc_data (led k))) led)"
  by (simp add: Mint_pack_def pack_to_ledger_def Pack_pack_def Mint_over)

definition Account_over :: "account \<Rightarrow> bytes \<Rightarrow> bytes" where
  "Account_over v dst = (case Account_pack_into_slice v dst of Inr bs \<Rightarrow> bs | Inl _ \<Rightarrow> [])"

lemma Account_over: "length dst = ACCOUNT_LEN \<Longrightarrow> Account_pack_into_slice v dst = Inr (Account_over v dst)"
  by (simp add: Account_over_def Account_pack_into_slice_def)

lemma Account_over_length [simp]: "length dst = ACCOUNT_LEN \<Longrightarrow> length (Account_over v dst) = ACCOUNT_LEN"
  by (rule Account_from_into(1) [OF _ Account_over]) (simp_all add: multisig_wf_def)

lemma Account_unpack_over [simp]:
  "length dst = ACCOUNT_LEN \<Longrightarrow> account_is_initialized v \<Longrightarrow> Account_unpack (Account_over v dst) = Inr v"
  by (simp add: Account_unpack_def account_packed.unpack_eq_Inr multisig_wf_def
      Account_from_into(2) [OF _ Account_over])

lemma Account_unpack_unchecked_over [simp]:
  "length dst = ACCOUNT_LEN \<Longrightarrow> Account_unpack_unchecked (Account_over v dst) = Inr v"
  by (simp add: Account_unpack_unchecked_def account_packed.unpack_unchecked_eq_Inr
      Account_from_into(2) [OF _ Account_over])

lemma Account_pack_over [simp]:
  "length (acc_data (led k)) = ACCOUNT_LEN \<Longrightarrow>
   Account_pack v k led = Inr (set_data k (Account_over v (acc_data (led k))) led)"
  by (simp add: Account_pack_def pack_to_ledger_def Pack_pack_def Account_over)

definition Multisig_over :: "multisig \<Rightarrow> bytes \<Rightarrow> bytes" where
  "Multisig_over v dst = (case Multisig_pack_into_slice v dst of Inr bs \<Rightarrow> bs | Inl _ \<Rightarrow> [])"

lemma Multisig_over: "length dst = MULTISIG_LEN \<Longrightarrow> Multisig_pack_into_slice v dst = Inr (Multisig_over v dst)"
  by (simp add: Multisig_over_def Multisig_pack_into_slice_def)

lemma Multisig_over_length [simp]: "length dst = MULTISIG_LEN \<Longrightarrow> multisig_wf v \<Longrightarrow> length (Multisig_over v dst) = MULTISIG_LEN"
  by (rule Multisig_from_into(1) [OF _ _ Multisig_over]) (simp_all add: multisig_wf_def)

lemma Multisig_unpack_over [simp]:
  "length dst = MULTISIG_LEN \<Longrightarrow> multisig_wf v \<Longrightarrow> ms_is_initialized v \<Longrightarrow> Multisig_unpack (Multisig_over v dst) = Inr v"
  by (simp add: Multisig_unpack_def multisig_packed.unpack_eq_Inr multisig_wf_def
      Multisig_from_into(2) [OF _ _ Multisig_over])

lemma Multisig_pack_over [simp]:
  "length (acc_data (led k)) = MULTISIG_LEN \<Longrightarrow>
   Multisig_pack v k led = Inr (set_data k (Multisig_over v (acc_data (led k))) led)"
  by (simp add: Multisig_pack_def pack_to_ledger_def Pack_pack_def Multisig_over)

abbreviation Mint_bytes :: "mint \<Rightarrow> bytes" where
  "Mint_bytes v \<equiv> Mint_over v (replicate MINT_LEN 0)"

abbreviation Account_bytes :: "account \<Rightarrow> bytes" where
  "Account_bytes v \<equiv> Account_over v (replicate ACCOUNT_LEN 0)"

abbreviation Multisig_bytes :: "multisig \<Rightarrow> bytes" where
  "Multisig_bytes v \<equiv> Multisig_over v (replicate MULTISIG_LEN 0)"

end
