(* ===== verification/Token_Instruction.thy ===== *)
theory Token_Instruction
  imports Token_State
begin

text \<open>
  The instructions of the token program (\<^verbatim>\<open>token/program/src/instruction.rs\<close>): the wire
  format with \<^verbatim>\<open>unpack\<close> and \<^verbatim>\<open>pack\<close>, and the functions that build an instruction with
  its account metas for a client or a cross-program invocation.  Packing then unpacking gives
  the instruction back; malformed input is an error value, or a panic where the source slices
  without checking.
\<close>

section \<open>UTF-8\<close>

text \<open>\<^verbatim>\<open>std::str::from_utf8\<close>: which byte sequences are strings (RFC 3629).\<close>

definition utf8_cont :: "u8 \<Rightarrow> u8 \<Rightarrow> u8 \<Rightarrow> bool" where
  "utf8_cont lo hi b \<longleftrightarrow> lo \<le> b \<and> b \<le> hi"

fun valid_utf8 :: "bytes \<Rightarrow> bool" where
  "valid_utf8 [] = True"
| "valid_utf8 (b # bs) =
     (if b < 0x80 then valid_utf8 bs
      else if 0xC2 \<le> b \<and> b \<le> 0xDF then
        (case bs of c # r \<Rightarrow> utf8_cont 0x80 0xBF c \<and> valid_utf8 r | _ \<Rightarrow> False)
      else if 0xE0 \<le> b \<and> b \<le> 0xEF then
        (case bs of c # d # r \<Rightarrow>
           utf8_cont (if b = 0xE0 then 0xA0 else 0x80) (if b = 0xED then 0x9F else 0xBF) c \<and>
           utf8_cont 0x80 0xBF d \<and> valid_utf8 r
         | _ \<Rightarrow> False)
      else if 0xF0 \<le> b \<and> b \<le> 0xF4 then
        (case bs of c # d # e # r \<Rightarrow>
           utf8_cont (if b = 0xF0 then 0x90 else 0x80) (if b = 0xF4 then 0x8F else 0xBF) c \<and>
           utf8_cont 0x80 0xBF d \<and> utf8_cont 0x80 0xBF e \<and> valid_utf8 r
         | _ \<Rightarrow> False)
      else False)"

section \<open>The instruction type\<close>

datatype AuthorityType = MintTokens | FreezeAccountAuthority | AccountOwner | CloseAccountAuthority

datatype TokenInstruction =
    InitializeMint u8 pubkey "pubkey option"
  | InitializeAccount
  | InitializeMultisig u8
  | Transfer u64
  | Approve u64
  | Revoke
  | SetAuthority AuthorityType "pubkey option"
  | MintTo u64
  | Burn u64
  | CloseAccount
  | FreezeAccount
  | ThawAccount
  | TransferChecked u64 u8
  | ApproveChecked u64 u8
  | MintToChecked u64 u8
  | BurnChecked u64 u8
  | InitializeAccount2 pubkey
  | SyncNative
  | InitializeAccount3 pubkey
  | InitializeMultisig2 u8
  | InitializeMint2 u8 pubkey "pubkey option"
  | GetAccountDataSize
  | InitializeImmutableOwner
  | AmountToUiAmount u64
  | UiAmountToAmount bytes \<comment> \<open>the string, as its UTF-8 bytes\<close>

primrec AuthorityType_into :: "AuthorityType \<Rightarrow> u8" where
  "AuthorityType_into MintTokens = 0"
| "AuthorityType_into FreezeAccountAuthority = 1"
| "AuthorityType_into AccountOwner = 2"
| "AuthorityType_into CloseAccountAuthority = 3"

definition AuthorityType_from :: "u8 \<Rightarrow> AuthorityType res" where
  "AuthorityType_from index =
     (if index = 0 then Inr MintTokens
      else if index = 1 then Inr FreezeAccountAuthority
      else if index = 2 then Inr AccountOwner
      else if index = 3 then Inr CloseAccountAuthority
      else Inl (token_err InvalidInstruction))"

section \<open>Unpacking\<close>

text \<open>Slice operations: \<^verbatim>\<open>split_first\<close>, \<^verbatim>\<open>split_at\<close> (which panics), \<^verbatim>\<open>get(..8)\<close>.\<close>

definition split_first :: "'a list \<Rightarrow> ('a \<times> 'a list) option" where
  "split_first xs = (case xs of [] \<Rightarrow> None | x # r \<Rightarrow> Some (x, r))"

definition split_at :: "nat \<Rightarrow> 'a list \<Rightarrow> ('a list \<times> 'a list) res" where
  "split_at n xs = (if n \<le> length xs then Inr (take n xs, drop n xs) else Inl Panicked)"

definition get_prefix :: "nat \<Rightarrow> 'a list \<Rightarrow> 'a list option" where
  "get_prefix n xs = (if n \<le> length xs then Some (take n xs) else None)"

definition unpack_pubkey :: "bytes \<Rightarrow> (pubkey \<times> bytes) res" where
  "unpack_pubkey input =
     (if 32 \<le> length input then Inr (from_le_bytes (take 32 input), drop 32 input)
      else Inl (token_err InvalidInstruction))"

definition unpack_pubkey_option :: "bytes \<Rightarrow> (pubkey option \<times> bytes) res" where
  "unpack_pubkey_option input =
     (case split_first input of
        Some (b, rest) \<Rightarrow>
          if b = 0 then Inr (None, rest)
          else if b = 1 \<and> 32 \<le> length rest then
            Inr (Some (from_le_bytes (take 32 rest)), drop 32 rest)
          else Inl (token_err InvalidInstruction)
      | None \<Rightarrow> Inl (token_err InvalidInstruction))"

definition unpack_amount :: "bytes \<Rightarrow> u64 res" where
  "unpack_amount rest = ok_or (map_option from_le_bytes (get_prefix 8 rest)) (token_err InvalidInstruction)"

definition unpack_amount_decimals :: "bytes \<Rightarrow> (u64 \<times> u8) res" where
  "unpack_amount_decimals rest =
     attempt (split_at 8 rest) (\<lambda>(amt, rest).
     attempt (ok_or (split_first rest) (token_err InvalidInstruction)) (\<lambda>(decimals, _).
     Inr (from_le_bytes amt, decimals)))"

definition unpack_mint_fields :: "bytes \<Rightarrow> (u8 \<times> pubkey \<times> pubkey option) res" where
  "unpack_mint_fields rest =
     attempt (ok_or (split_first rest) (token_err InvalidInstruction)) (\<lambda>(decimals, rest).
     attempt (unpack_pubkey rest) (\<lambda>(authority, rest).
     attempt (unpack_pubkey_option rest) (\<lambda>(freeze, _).
     Inr (decimals, authority, freeze))))"

definition unpack_first_byte :: "bytes \<Rightarrow> u8 res" where
  "unpack_first_byte rest = ok_or (map_option fst (split_first rest)) (token_err InvalidInstruction)"

definition TokenInstruction_unpack :: "bytes \<Rightarrow> TokenInstruction res" where
  "TokenInstruction_unpack input =
     attempt (ok_or (split_first input) (token_err InvalidInstruction)) (\<lambda>(tag, rest).
     if tag = 0 then attempt (unpack_mint_fields rest) (\<lambda>(d, a, f). Inr (InitializeMint d a f))
     else if tag = 1 then Inr InitializeAccount
     else if tag = 2 then attempt (unpack_first_byte rest) (\<lambda>m. Inr (InitializeMultisig m))
     else if tag = 3 then attempt (unpack_amount rest) (\<lambda>n. Inr (Transfer n))
     else if tag = 4 then attempt (unpack_amount rest) (\<lambda>n. Inr (Approve n))
     else if tag = 7 then attempt (unpack_amount rest) (\<lambda>n. Inr (MintTo n))
     else if tag = 8 then attempt (unpack_amount rest) (\<lambda>n. Inr (Burn n))
     else if tag = 5 then Inr Revoke
     else if tag = 6 then
       attempt (ok_or (split_first rest) (token_err InvalidInstruction)) (\<lambda>(t, rest).
       attempt (AuthorityType_from t) (\<lambda>authority_type.
       attempt (unpack_pubkey_option rest) (\<lambda>(new_authority, _).
       Inr (SetAuthority authority_type new_authority))))
     else if tag = 9 then Inr CloseAccount
     else if tag = 10 then Inr FreezeAccount
     else if tag = 11 then Inr ThawAccount
     else if tag = 12 then attempt (unpack_amount_decimals rest) (\<lambda>(n, d). Inr (TransferChecked n d))
     else if tag = 13 then attempt (unpack_amount_decimals rest) (\<lambda>(n, d). Inr (ApproveChecked n d))
     else if tag = 14 then attempt (unpack_amount_decimals rest) (\<lambda>(n, d). Inr (MintToChecked n d))
     else if tag = 15 then attempt (unpack_amount_decimals rest) (\<lambda>(n, d). Inr (BurnChecked n d))
     else if tag = 16 then attempt (unpack_pubkey rest) (\<lambda>(owner, _). Inr (InitializeAccount2 owner))
     else if tag = 17 then Inr SyncNative
     else if tag = 18 then attempt (unpack_pubkey rest) (\<lambda>(owner, _). Inr (InitializeAccount3 owner))
     else if tag = 19 then attempt (unpack_first_byte rest) (\<lambda>m. Inr (InitializeMultisig2 m))
     else if tag = 20 then attempt (unpack_mint_fields rest) (\<lambda>(d, a, f). Inr (InitializeMint2 d a f))
     else if tag = 21 then Inr GetAccountDataSize
     else if tag = 22 then Inr InitializeImmutableOwner
     else if tag = 23 then attempt (split_at 8 rest) (\<lambda>(amt, _). Inr (AmountToUiAmount (from_le_bytes amt)))
     else if tag = 24 then
       (if valid_utf8 rest then Inr (UiAmountToAmount rest) else Inl (token_err InvalidInstruction))
     else Inl (token_err InvalidInstruction))"

section \<open>Packing\<close>

definition pack_pubkey_option :: "pubkey option \<Rightarrow> bytes" where
  "pack_pubkey_option v = (case v of Some k \<Rightarrow> 1 # to_le_bytes k | None \<Rightarrow> [0])"

primrec TokenInstruction_pack :: "TokenInstruction \<Rightarrow> bytes" where
  "TokenInstruction_pack (InitializeMint d a f) = [0, d] @ to_le_bytes a @ pack_pubkey_option f"
| "TokenInstruction_pack InitializeAccount = [1]"
| "TokenInstruction_pack (InitializeMultisig m) = [2, m]"
| "TokenInstruction_pack (Transfer n) = 3 # to_le_bytes n"
| "TokenInstruction_pack (Approve n) = 4 # to_le_bytes n"
| "TokenInstruction_pack Revoke = [5]"
| "TokenInstruction_pack (SetAuthority t a) = [6, AuthorityType_into t] @ pack_pubkey_option a"
| "TokenInstruction_pack (MintTo n) = 7 # to_le_bytes n"
| "TokenInstruction_pack (Burn n) = 8 # to_le_bytes n"
| "TokenInstruction_pack CloseAccount = [9]"
| "TokenInstruction_pack FreezeAccount = [10]"
| "TokenInstruction_pack ThawAccount = [11]"
| "TokenInstruction_pack (TransferChecked n d) = 12 # to_le_bytes n @ [d]"
| "TokenInstruction_pack (ApproveChecked n d) = 13 # to_le_bytes n @ [d]"
| "TokenInstruction_pack (MintToChecked n d) = 14 # to_le_bytes n @ [d]"
| "TokenInstruction_pack (BurnChecked n d) = 15 # to_le_bytes n @ [d]"
| "TokenInstruction_pack (InitializeAccount2 ow) = 16 # to_le_bytes ow"
| "TokenInstruction_pack SyncNative = [17]"
| "TokenInstruction_pack (InitializeAccount3 ow) = 18 # to_le_bytes ow"
| "TokenInstruction_pack (InitializeMultisig2 m) = [19, m]"
| "TokenInstruction_pack (InitializeMint2 d a f) = [20, d] @ to_le_bytes a @ pack_pubkey_option f"
| "TokenInstruction_pack GetAccountDataSize = [21]"
| "TokenInstruction_pack InitializeImmutableOwner = [22]"
| "TokenInstruction_pack (AmountToUiAmount n) = 23 # to_le_bytes n"
| "TokenInstruction_pack (UiAmountToAmount s) = 24 # s"

section \<open>Building instructions\<close>

definition token_program_id :: "runtime \<Rightarrow> pubkey" where
  "token_program_id R = rt_declare_id R ''TokenkegQfeZyiNwAJbNbGKPFXCWuBvf9Ss623VQ5DA''"

definition native_mint_id :: "runtime \<Rightarrow> pubkey" where
  "native_mint_id R = rt_declare_id R ''So11111111111111111111111111111111111111112''"

definition check_program_account :: "runtime \<Rightarrow> pubkey \<Rightarrow> unit res" where
  "check_program_account R spl_token_program_id =
     (if spl_token_program_id \<noteq> token_program_id R then Inl IncorrectProgramId else Inr ())"

definition is_valid_signer_index :: "nat \<Rightarrow> bool" where
  "is_valid_signer_index index \<longleftrightarrow> MIN_SIGNERS \<le> index \<and> index \<le> MAX_SIGNERS"

definition build :: "runtime \<Rightarrow> pubkey \<Rightarrow> account_meta list \<Rightarrow> TokenInstruction \<Rightarrow> sol_instruction res" where
  "build R tid metas i =
     attempt (check_program_account R tid) (\<lambda>_.
     Inr \<lparr>ix_program_id = tid, ix_accounts = metas, ix_data = TokenInstruction_pack i\<rparr>)"

text \<open>The authority is a signer itself unless multisignature signers are given.\<close>

definition authority_metas :: "pubkey \<Rightarrow> pubkey list \<Rightarrow> account_meta list" where
  "authority_metas authority signers =
     AccountMeta_new_readonly authority (signers = []) #
     map (\<lambda>s. AccountMeta_new_readonly s True) signers"

definition initialize_mint where
  "initialize_mint R tid mint authority freeze decimals =
     build R tid [AccountMeta_new mint False, AccountMeta_new_readonly (rt_rent_sysvar_id R) False]
       (InitializeMint decimals authority freeze)"

definition initialize_mint2 where
  "initialize_mint2 R tid mint authority freeze decimals =
     build R tid [AccountMeta_new mint False] (InitializeMint2 decimals authority freeze)"

definition initialize_account where
  "initialize_account R tid acct mint owner =
     build R tid [AccountMeta_new acct False, AccountMeta_new_readonly mint False,
                  AccountMeta_new_readonly owner False,
                  AccountMeta_new_readonly (rt_rent_sysvar_id R) False]
       InitializeAccount"

definition initialize_account2 where
  "initialize_account2 R tid acct mint owner =
     build R tid [AccountMeta_new acct False, AccountMeta_new_readonly mint False,
                  AccountMeta_new_readonly (rt_rent_sysvar_id R) False]
       (InitializeAccount2 owner)"

definition initialize_account3 where
  "initialize_account3 R tid acct mint owner =
     build R tid [AccountMeta_new acct False, AccountMeta_new_readonly mint False]
       (InitializeAccount3 owner)"

definition initialize_multisig where
  "initialize_multisig R tid ms signers (m :: u8) =
     attempt (check_program_account R tid) (\<lambda>_.
     if \<not> is_valid_signer_index (unat m) \<or> \<not> is_valid_signer_index (length signers)
        \<or> unat m > length signers
     then Inl MissingRequiredSignature
     else build R tid (AccountMeta_new ms False # AccountMeta_new_readonly (rt_rent_sysvar_id R) False #
                       map (\<lambda>s. AccountMeta_new_readonly s False) signers)
            (InitializeMultisig m))"

definition initialize_multisig2 where
  "initialize_multisig2 R tid ms signers (m :: u8) =
     attempt (check_program_account R tid) (\<lambda>_.
     if \<not> is_valid_signer_index (unat m) \<or> \<not> is_valid_signer_index (length signers)
        \<or> unat m > length signers
     then Inl MissingRequiredSignature
     else build R tid (AccountMeta_new ms False # map (\<lambda>s. AccountMeta_new_readonly s False) signers)
            (InitializeMultisig2 m))"

definition transfer where
  "transfer R tid src dst authority signers amt =
     build R tid ([AccountMeta_new src False, AccountMeta_new dst False] @ authority_metas authority signers)
       (Transfer amt)"

definition approve where
  "approve R tid src dlg owner signers amt =
     build R tid ([AccountMeta_new src False, AccountMeta_new_readonly dlg False] @ authority_metas owner signers)
       (Approve amt)"

definition revoke where
  "revoke R tid src owner signers =
     build R tid (AccountMeta_new src False # authority_metas owner signers) Revoke"

definition set_authority where
  "set_authority R tid owned new_authority authority_type owner signers =
     build R tid (AccountMeta_new owned False # authority_metas owner signers)
       (SetAuthority authority_type new_authority)"

definition mint_to where
  "mint_to R tid mint acct owner signers amt =
     build R tid ([AccountMeta_new mint False, AccountMeta_new acct False] @ authority_metas owner signers)
       (MintTo amt)"

definition burn where
  "burn R tid acct mint authority signers amt =
     build R tid ([AccountMeta_new acct False, AccountMeta_new mint False] @ authority_metas authority signers)
       (Burn amt)"

definition close_account where
  "close_account R tid acct dst owner signers =
     build R tid ([AccountMeta_new acct False, AccountMeta_new dst False] @ authority_metas owner signers)
       CloseAccount"

definition freeze_account where
  "freeze_account R tid acct mint owner signers =
     build R tid ([AccountMeta_new acct False, AccountMeta_new_readonly mint False] @ authority_metas owner signers)
       FreezeAccount"

definition thaw_account where
  "thaw_account R tid acct mint owner signers =
     build R tid ([AccountMeta_new acct False, AccountMeta_new_readonly mint False] @ authority_metas owner signers)
       ThawAccount"

definition transfer_checked where
  "transfer_checked R tid src mint dst authority signers amt decimals =
     build R tid ([AccountMeta_new src False, AccountMeta_new_readonly mint False, AccountMeta_new dst False] @
                  authority_metas authority signers)
       (TransferChecked amt decimals)"

definition approve_checked where
  "approve_checked R tid src mint dlg owner signers amt decimals =
     build R tid ([AccountMeta_new src False, AccountMeta_new_readonly mint False,
                   AccountMeta_new_readonly dlg False] @ authority_metas owner signers)
       (ApproveChecked amt decimals)"

definition mint_to_checked where
  "mint_to_checked R tid mint acct owner signers amt decimals =
     build R tid ([AccountMeta_new mint False, AccountMeta_new acct False] @ authority_metas owner signers)
       (MintToChecked amt decimals)"

definition burn_checked where
  "burn_checked R tid acct mint authority signers amt decimals =
     build R tid ([AccountMeta_new acct False, AccountMeta_new mint False] @ authority_metas authority signers)
       (BurnChecked amt decimals)"

definition sync_native where
  "sync_native R tid acct = build R tid [AccountMeta_new acct False] SyncNative"

definition get_account_data_size where
  "get_account_data_size R tid mint = build R tid [AccountMeta_new_readonly mint False] GetAccountDataSize"

definition initialize_immutable_owner where
  "initialize_immutable_owner R tid acct = build R tid [AccountMeta_new acct False] InitializeImmutableOwner"

definition amount_to_ui_amount where
  "amount_to_ui_amount R tid mint amt =
     build R tid [AccountMeta_new_readonly mint False] (AmountToUiAmount amt)"

definition ui_amount_to_amount where
  "ui_amount_to_amount R tid mint ui_amount =
     build R tid [AccountMeta_new_readonly mint False] (UiAmountToAmount ui_amount)"

section \<open>The wire format round-trips\<close>

lemma split_first_simps [simp]: "split_first [] = None" "split_first (x # xs) = Some (x, xs)"
  by (simp_all add: split_first_def)

lemma split_at_append [simp]: "length xs = n \<Longrightarrow> split_at n (xs @ ys) = Inr (xs, ys)"
  by (simp add: split_at_def)

lemma split_at_all [simp]: "length xs = n \<Longrightarrow> split_at n xs = Inr (xs, [])"
  by (simp add: split_at_def)

lemma unpack_pack_pubkey_option [simp]:
  "unpack_pubkey_option (pack_pubkey_option v) = Inr (v, [])"
  by (cases v) (simp_all add: unpack_pubkey_option_def pack_pubkey_option_def)

lemma unpack_pubkey_append [simp]: "unpack_pubkey (to_le_bytes k @ r) = Inr (k, r)"
  by (simp add: unpack_pubkey_def)

lemma unpack_pubkey_all [simp]: "unpack_pubkey (to_le_bytes k) = Inr (k, [])"
  by (simp add: unpack_pubkey_def)

lemma AuthorityType_from_into [simp]: "AuthorityType_from (AuthorityType_into t) = Inr t"
  by (cases t) (simp_all add: AuthorityType_from_def)

lemmas unpack_field_defs =
  unpack_amount_def unpack_amount_decimals_def unpack_mint_fields_def unpack_first_byte_def
  get_prefix_def

definition TokenInstruction_wf :: "TokenInstruction \<Rightarrow> bool" where
  "TokenInstruction_wf i = (case i of UiAmountToAmount s \<Rightarrow> valid_utf8 s | _ \<Rightarrow> True)"

lemma TokenInstruction_unpack_pack:
  "TokenInstruction_wf i \<Longrightarrow> TokenInstruction_unpack (TokenInstruction_pack i) = Inr i"
  by (cases i)
     (simp_all add: TokenInstruction_unpack_def TokenInstruction_wf_def unpack_field_defs)

end
