(* ===== verification/Token_Amount.thy ===== *)
theory Token_Amount
  imports Token_Instruction
begin

text \<open>
  Token amounts as decimal strings (\<^verbatim>\<open>token/program/src/lib.rs\<close>).  A string is its UTF-8
  bytes; every character the code looks for is ASCII.  The main result is that reading the
  trimmed rendering of any amount, with any number of decimals, gives the amount back.
\<close>

abbreviation ch0 :: u8 where "ch0 \<equiv> 48"
abbreviation dot :: u8 where "dot \<equiv> 46"
abbreviation plus_sign :: u8 where "plus_sign \<equiv> 43"

section \<open>The string operations the code calls\<close>

text \<open>\<^verbatim>\<open>u64::to_string\<close>, and \<^verbatim>\<open>format!("{:01$}", n, width)\<close>.\<close>

fun digits_of :: "nat \<Rightarrow> bytes" where
  "digits_of n = (if n < 10 then [] else digits_of (n div 10)) @ [ch0 + of_nat (n mod 10)]"

declare digits_of.simps [simp del]

definition to_string :: "u64 \<Rightarrow> bytes" where
  "to_string n = digits_of (unat n)"

definition format_padded :: "u64 \<Rightarrow> nat \<Rightarrow> bytes" where
  "format_padded n width =
     replicate (width - length (digits_of (unat n))) ch0 @ digits_of (unat n)"

text \<open>\<^verbatim>\<open>String::insert\<close>, \<^verbatim>\<open>trim_end_matches\<close> and \<^verbatim>\<open>split\<close> for one character.\<close>

definition string_insert :: "nat \<Rightarrow> u8 \<Rightarrow> bytes \<Rightarrow> bytes" where
  "string_insert i c s = take i s @ c # drop i s"

definition trim_end_matches :: "u8 \<Rightarrow> bytes \<Rightarrow> bytes" where
  "trim_end_matches c s = rev (dropWhile (\<lambda>x. x = c) (rev s))"

fun split_on :: "u8 \<Rightarrow> bytes \<Rightarrow> bytes list" where
  "split_on c [] = [[]]"
| "split_on c (x # xs) =
     (if x = c then [] # split_on c xs
      else case split_on c xs of [] \<Rightarrow> [[x]] | w # ws \<Rightarrow> (x # w) # ws)"

text \<open>\<^verbatim>\<open>str::parse::<u64>\<close>: one leading plus is allowed, then decimal digits, checked.\<close>

definition digit_value :: "u8 \<Rightarrow> u64 option" where
  "digit_value c = (if ch0 \<le> c \<and> c \<le> 57 then Some (ucast (c - ch0)) else None)"

fun parse_digits :: "bytes \<Rightarrow> u64 \<Rightarrow> u64 option" where
  "parse_digits [] acc = Some acc"
| "parse_digits (c # cs) acc =
     (case digit_value c of
        None \<Rightarrow> None
      | Some d \<Rightarrow>
          (case checked_mul acc 10 of
             None \<Rightarrow> None
           | Some t \<Rightarrow> (case checked_add t d of None \<Rightarrow> None | Some a \<Rightarrow> parse_digits cs a)))"

definition parse_u64 :: "bytes \<Rightarrow> u64 option" where
  "parse_u64 s =
     (case s of
        [] \<Rightarrow> None
      | c # cs \<Rightarrow> if c = plus_sign then (if cs = [] then None else parse_digits cs 0)
                  else parse_digits s 0)"

section \<open>The conversions\<close>

definition amount_to_ui_amount_string :: "u64 \<Rightarrow> u8 \<Rightarrow> bytes" where
  "amount_to_ui_amount_string amt decimals =
     (let d = unat decimals in
      if d > 0 then
        let s = format_padded amt (d + 1) in string_insert (length s - d) dot s
      else to_string amt)"

definition amount_to_ui_amount_string_trimmed :: "u64 \<Rightarrow> u8 \<Rightarrow> bytes" where
  "amount_to_ui_amount_string_trimmed amt decimals =
     (let s = amount_to_ui_amount_string amt decimals in
      if decimals > 0 then trim_end_matches dot (trim_end_matches ch0 s) else s)"

definition try_ui_amount_into_amount :: "bytes \<Rightarrow> u8 \<Rightarrow> u64 res" where
  "try_ui_amount_into_amount ui_amount decimals =
     (let d = unat decimals;
          parts = split_on dot ui_amount;
          amount_str = parts ! 0;
          after_decimal = (if 1 < length parts then parts ! 1 else []);
          after_decimal = trim_end_matches ch0 after_decimal
      in if amount_str = [] \<and> after_decimal = [] \<or> 2 < length parts \<or> length after_decimal > d
         then Inl InvalidArgument
         else ok_or (parse_u64 (amount_str @ after_decimal @ replicate (d - length after_decimal) ch0))
                InvalidArgument)"

section \<open>Reading back a rendered amount\<close>

definition is_digit :: "u8 \<Rightarrow> bool" where
  "is_digit c \<longleftrightarrow> ch0 \<le> c \<and> c \<le> 57"

text \<open>The number a digit string denotes.\<close>

definition digits_value :: "bytes \<Rightarrow> nat" where
  "digits_value s = foldl (\<lambda>v c. 10 * v + (unat c - 48)) 0 s"

lemma foldl_digits_shift:
  "foldl (\<lambda>v c. 10 * v + (unat c - 48)) a s = a * 10 ^ length s + digits_value s"
proof (induction s arbitrary: a rule: rev_induct)
  case (snoc x xs)
  show ?case using snoc [of a] by (simp add: digits_value_def algebra_simps)
qed (simp add: digits_value_def)

lemma digits_value_append:
  "digits_value (s @ t) = digits_value s * 10 ^ length t + digits_value t"
proof -
  have "digits_value (s @ t) = foldl (\<lambda>v c. 10 * v + (unat c - 48)) (digits_value s) t"
    by (simp add: digits_value_def)
  then show ?thesis by (simp only: foldl_digits_shift)
qed

lemma digits_value_replicate [simp]: "digits_value (replicate n ch0) = 0"
  by (induction n) (simp_all add: digits_value_def)

lemma ch0_plus_digit:
  assumes "d < 10"
  shows "unat (ch0 + of_nat d :: u8) = 48 + d"
  using assms by (simp add: unat_word_ariths unat_of_nat)

lemma is_digit_iff: "is_digit c \<longleftrightarrow> 48 \<le> unat c \<and> unat c \<le> 57"
  by (simp add: is_digit_def word_le_nat_alt)

lemma digits_of_digits: "c \<in> set (digits_of n) \<Longrightarrow> is_digit c"
proof (induction n rule: digits_of.induct)
  case (1 n)
  have "is_digit (ch0 + of_nat (n mod 10))" by (simp add: is_digit_iff ch0_plus_digit)
  with 1 show ?case by (auto simp: digits_of.simps [of n] split: if_splits)
qed

lemma digits_value_digits_of [simp]: "digits_value (digits_of n) = n"
proof (induction n rule: digits_of.induct)
  case (1 n)
  have one: "digits_value [ch0 + of_nat (n mod 10)] = n mod 10"
    by (simp add: digits_value_def ch0_plus_digit)
  show ?case
    by (subst digits_of.simps) (use 1 in \<open>auto simp: digits_value_append one\<close>,
        simp add: digits_value_def ch0_plus_digit)
qed

lemma digits_of_nonempty [simp]: "digits_of n \<noteq> []"
  by (subst digits_of.simps) simp

lemma digit_value_digit: "is_digit c \<Longrightarrow> \<exists>d. digit_value c = Some d \<and> unat d = unat c - 48"
  by (auto simp: digit_value_def is_digit_def unsigned_ucast_eq word_le_nat_alt unat_sub_if'
        take_bit_nat_eq_self)

text \<open>Checked parsing of digits gives the denoted number whenever it fits.\<close>

lemma parse_digits_value:
  assumes "\<forall>c \<in> set s. is_digit c"
    and "unat acc * 10 ^ length s + digits_value s < 2 ^ 64"
  shows "\<exists>v. parse_digits s acc = Some v \<and> unat v = unat acc * 10 ^ length s + digits_value s"
  using assms
proof (induction s arbitrary: acc)
  case Nil
  then show ?case by (simp add: digits_value_def)
next
  case (Cons c cs)
  obtain d where d: "digit_value c = Some d" "unat d = unat c - 48"
    using Cons.prems(1) digit_value_digit [of c] by auto
  have split: "digits_value (c # cs) = (unat c - 48) * 10 ^ length cs + digits_value cs"
    using digits_value_append [of "[c]" cs] by (simp add: digits_value_def)
  let ?n = "10 * unat acc + unat d"
  have total: "?n * 10 ^ length cs + digits_value cs
      = unat acc * 10 ^ length (c # cs) + digits_value (c # cs)"
    by (simp add: split d algebra_simps)
  have "?n \<le> ?n * 10 ^ length cs" by simp
  then have lt: "?n < 2 ^ 64" using Cons.prems(2) unfolding total [symmetric] by linarith
  define t where "t = acc * 10"
  have t: "checked_mul acc 10 = Some t" "unat t = 10 * unat acc"
    using lt by (simp_all add: checked_mul_def t_def unat_word_ariths)
  define a where "a = t + d"
  have a: "checked_add t d = Some a" "unat a = ?n"
    using lt t by (simp_all add: checked_add_def a_def unat_word_ariths)
  show ?case
    using Cons.IH [of a] Cons.prems unfolding total [symmetric] a(2) [symmetric]
    by (simp add: d t a)
qed

lemma parse_u64_digits:
  assumes "\<forall>c \<in> set s. is_digit c" and "s \<noteq> []" and "digits_value s = unat v"
  shows "parse_u64 s = Some v"
proof -
  have "\<exists>w. parse_digits s 0 = Some w \<and> unat w = unat v"
    using parse_digits_value [OF assms(1), of 0] assms(3) unat_bound [of v] by simp
  then have "parse_digits s 0 = Some v" by (auto simp: word_unat_eq_iff)
  moreover have "hd s \<noteq> plus_sign" using assms(1,2) by (cases s) (auto simp: is_digit_iff)
  ultimately show ?thesis using assms(2) by (cases s) (auto simp: parse_u64_def)
qed

lemma trim_append_replicate:
  "\<exists>n. s = trim_end_matches c s @ replicate n c"
proof -
  have "rev s = takeWhile (\<lambda>x. x = c) (rev s) @ dropWhile (\<lambda>x. x = c) (rev s)" by simp
  moreover have "takeWhile (\<lambda>x. x = c) (rev s) = replicate (length (takeWhile (\<lambda>x. x = c) (rev s))) c"
    by (rule replicate_length_same [symmetric]) (auto dest: set_takeWhileD)
  ultimately have "s = trim_end_matches c s @ replicate (length (takeWhile (\<lambda>x. x = c) (rev s))) c"
    by (metis rev_append rev_replicate rev_rev_ident trim_end_matches_def)
  then show ?thesis by blast
qed

lemma trim_idem [simp]: "trim_end_matches c (trim_end_matches c s) = trim_end_matches c s"
  by (simp add: trim_end_matches_def)

lemma trim_keep: "t \<noteq> [] \<Longrightarrow> last t \<noteq> c \<Longrightarrow> trim_end_matches c t = t"
  by (cases t rule: rev_cases) (simp_all add: trim_end_matches_def)

lemma trim_Nil [simp]: "trim_end_matches c [] = []"
  by (simp add: trim_end_matches_def)

lemma trim_snoc_same: "trim_end_matches c (s @ [c]) = trim_end_matches c s"
  by (simp add: trim_end_matches_def)

lemma trim_append_nontrivial:
  "trim_end_matches c t \<noteq> [] \<Longrightarrow> trim_end_matches c (s @ t) = s @ trim_end_matches c t"
  by (simp add: trim_end_matches_def dropWhile_append split: if_splits)
     (metis dropWhile_eq_Nil_conv)

lemma trim_append_trivial: "trim_end_matches c t = [] \<Longrightarrow> trim_end_matches c (s @ t) = trim_end_matches c s"
  by (simp add: trim_end_matches_def dropWhile_append3 dropWhile_append)

lemma trim_last: "trim_end_matches c t \<noteq> [] \<Longrightarrow> last (trim_end_matches c t) \<noteq> c"
  using hd_dropWhile [of "\<lambda>x. x = c" "rev t"] by (auto simp: trim_end_matches_def last_rev)

lemma split_on_clean: "c \<notin> set s \<Longrightarrow> split_on c s = [s]"
  by (induction s) auto

lemma split_on_once: "c \<notin> set s \<Longrightarrow> split_on c (s @ c # t) = s # split_on c t"
  by (induction s) auto

lemma dot_not_digit: "\<forall>c \<in> set s. is_digit c \<Longrightarrow> dot \<notin> set s"
  by (auto simp: is_digit_def)

lemma format_padded_props:
  shows "\<forall>c \<in> set (format_padded n w). is_digit c"
    and "digits_value (format_padded n w) = unat n"
    and "w \<le> length (format_padded n w)"
  by (auto simp: format_padded_def digits_value_append dest: digits_of_digits)
     (simp_all add: is_digit_def)

text \<open>The two shapes a trimmed rendering has, and what reading does on each.\<close>

lemma trimmed_shape:
  assumes "\<forall>c \<in> set ip. is_digit c" and "ip \<noteq> []" and "\<forall>c \<in> set fp. is_digit c"
  shows "trim_end_matches dot (trim_end_matches ch0 (ip @ dot # fp)) =
    (if trim_end_matches ch0 fp = [] then ip else ip @ dot # trim_end_matches ch0 fp)"
proof (cases "trim_end_matches ch0 fp = []")
  case True
  have "trim_end_matches ch0 (ip @ dot # fp) = trim_end_matches ch0 (ip @ [dot])"
    using trim_append_trivial [OF True, of "ip @ [dot]"] by simp
  also have "\<dots> = ip @ [dot]" by (rule trim_keep) simp_all
  also have "trim_end_matches dot \<dots> = ip"
    using assms(1,2) by (simp add: trim_snoc_same trim_keep dot_not_digit)
       (metis dot_not_digit last_in_set trim_keep)
  finally show ?thesis using True by simp
next
  case False
  have sub: "set (trim_end_matches ch0 fp) \<subseteq> set fp"
    by (auto simp: trim_end_matches_def dest: set_dropWhileD)
  have "last (trim_end_matches ch0 fp) \<noteq> dot"
    using dot_not_digit [OF assms(3)] sub last_in_set [OF False] by auto
  then show ?thesis
    using False trim_append_nontrivial [OF False, of "ip @ [dot]"] by (simp add: trim_keep)
qed

lemma read_trimmed:
  assumes "\<forall>c \<in> set ip. is_digit c" and "ip \<noteq> []" and "\<forall>c \<in> set fp. is_digit c"
    and "length fp = unat decimals" and "digits_value (ip @ fp) = unat v"
  shows "try_ui_amount_into_amount
    (if trim_end_matches ch0 fp = [] then ip else ip @ dot # trim_end_matches ch0 fp) decimals = Inr v"
proof -
  let ?f = "trim_end_matches ch0 fp"
  obtain n where n: "fp = ?f @ replicate n ch0" using trim_append_replicate by blast
  then have len: "unat decimals = length ?f + n"
    using assms(4) by (metis length_append length_replicate)
  have "?f @ replicate (unat decimals - length ?f) ch0 = fp" using n len by simp
  moreover have "parse_u64 (ip @ fp) = Some v"
    by (rule parse_u64_digits) (use assms in auto)
  moreover have "dot \<notin> set ip" and "dot \<notin> set ?f"
    using assms(1,3) dot_not_digit by (auto simp: trim_end_matches_def dest: set_dropWhileD)
  ultimately show ?thesis
    using assms(2) len
    by (auto simp: try_ui_amount_into_amount_def Let_def split_on_clean split_on_once)
qed

text \<open>for every amount and every number of decimals, reading the trimmed decimal rendering
  of the amount with \<^verbatim>\<open>try_ui_amount_into_amount\<close> returns exactly that amount.\<close>

theorem ui_amount_roundtrip:
  "try_ui_amount_into_amount (amount_to_ui_amount_string_trimmed amt decimals) decimals = Inr amt"
proof (cases "decimals = 0")
  case True
  have "parse_u64 (digits_of (unat amt)) = Some amt"
    by (rule parse_u64_digits) (auto dest: digits_of_digits)
  moreover have "dot \<notin> set (digits_of (unat amt))"
    using digits_of_digits dot_not_digit by blast
  ultimately show ?thesis
    by (simp add: True amount_to_ui_amount_string_trimmed_def amount_to_ui_amount_string_def
        to_string_def try_ui_amount_into_amount_def split_on_clean)
next
  case False
  let ?s = "format_padded amt (unat decimals + 1)"
  let ?n = "length ?s - unat decimals"
  define ip fp where "ip = take ?n ?s" and "fp = drop ?n ?s"
  have s: "ip @ fp = ?s" by (simp add: ip_def fp_def)
  have ip: "\<forall>c \<in> set ip. is_digit c" and fp: "\<forall>c \<in> set fp. is_digit c"
    using format_padded_props(1) [of amt "unat decimals + 1"]
    by (auto simp: ip_def fp_def dest: in_set_takeD in_set_dropD)
  have ne: "ip \<noteq> []" and lfp: "length fp = unat decimals"
    using format_padded_props(3) [of "unat decimals + 1" amt] by (auto simp: ip_def fp_def)
  have val: "digits_value (ip @ fp) = unat amt" by (simp add: s format_padded_props(2))
  have pos: "0 < unat decimals" using False by (simp add: unat_gt_0)
  have "amount_to_ui_amount_string amt decimals = ip @ dot # fp"
    using pos by (simp add: amount_to_ui_amount_string_def string_insert_def Let_def ip_def fp_def)
  then have "amount_to_ui_amount_string_trimmed amt decimals =
      (if trim_end_matches ch0 fp = [] then ip else ip @ dot # trim_end_matches ch0 fp)"
    using False trimmed_shape [OF ip ne fp]
    by (simp add: amount_to_ui_amount_string_trimmed_def word_greater_zero_iff)
  then show ?thesis using read_trimmed [OF ip ne fp lfp val] by simp
qed

end
