(* ===== verification/Token_Processor.thy ===== *)
theory Token_Processor
  imports Token_Amount
begin

text \<open>
  The handlers of the token program (\<^verbatim>\<open>token/program/src/processor.rs\<close>).  Each takes the
  account infos and the ledger and returns the ledger after it, or the error it stops with;
  \<open>process\<close> decodes an instruction and runs its handler.  The handlers that answer a query
  return the bytes they pass to \<^verbatim>\<open>set_return_data\<close>.
\<close>

section \<open>Authorities\<close>

definition cmp_pubkeys :: "pubkey \<Rightarrow> pubkey \<Rightarrow> bool" where
  "cmp_pubkeys a b \<longleftrightarrow> a = b"

definition check_account_owner :: "pubkey \<Rightarrow> ledger \<Rightarrow> account_info \<Rightarrow> unit res" where
  "check_account_owner program_id led a =
     (if \<not> cmp_pubkeys program_id (info_owner led a) then Inl IncorrectProgramId else Inr ())"

text \<open>
  The two loops of \<^verbatim>\<open>validate_owner\<close>: the inner one walks the keys of the multisig for one
  signer, the outer one the signers.  Their state is \<^verbatim>\<open>matched\<close> and \<^verbatim>\<open>num_signers\<close>.
\<close>

fun match_positions ::
    "account_info \<Rightarrow> (nat \<times> pubkey) list \<Rightarrow> bool list \<times> u8 \<Rightarrow> (bool list \<times> u8) res" where
  "match_positions signer [] st = Inr st"
| "match_positions signer ((position, key) # ps) (matched, num_signers) =
     (if cmp_pubkeys key (ai_key signer) \<and> \<not> matched ! position then
        (if \<not> ai_is_signer signer then Inl MissingRequiredSignature
         else match_positions signer ps (matched[position := True], num_signers + 1))
      else match_positions signer ps (matched, num_signers))"

fun match_signers ::
    "multisig \<Rightarrow> account_info list \<Rightarrow> bool list \<times> u8 \<Rightarrow> (bool list \<times> u8) res" where
  "match_signers ms [] st = Inr st"
| "match_signers ms (signer # signers) st =
     (if unat (ms_n ms) > length (ms_signers ms) then Inl Panicked
      else attempt (match_positions signer
                      (enumerate 0 (take (unat (ms_n ms)) (ms_signers ms))) st)
             (\<lambda>st. match_signers ms signers st))"

definition validate_owner ::
    "pubkey \<Rightarrow> ledger \<Rightarrow> pubkey \<Rightarrow> account_info \<Rightarrow> account_info list \<Rightarrow> unit res" where
  "validate_owner program_id led expected_owner owner_info signers =
     (if \<not> cmp_pubkeys expected_owner (ai_key owner_info) then Inl (token_err OwnerMismatch)
      else if cmp_pubkeys program_id (info_owner led owner_info)
              \<and> length (info_data led owner_info) = MULTISIG_LEN then
        attempt (Multisig_unpack (info_data led owner_info)) (\<lambda>ms.
        attempt (match_signers ms signers (replicate MAX_SIGNERS False, 0)) (\<lambda>(_, num_signers).
        if num_signers < ms_m ms then Inl MissingRequiredSignature else Inr ()))
      else if \<not> ai_is_signer owner_info then Inl MissingRequiredSignature
      else Inr ())"

section \<open>Initialisation\<close>

text \<open>\<^verbatim>\<open>if rent_sysvar_account { Rent::from_account_info(next?)? } else { Rent::get()? }\<close>.\<close>

definition take_rent :: "runtime \<Rightarrow> ledger \<Rightarrow> bool \<Rightarrow> account_info list \<Rightarrow> (rent \<times> account_info list) res" where
  "take_rent R led rent_sysvar_account it =
     (if rent_sysvar_account then
        attempt (next_account_info it) (\<lambda>(rent_info, it).
        attempt (rent_from_info R led rent_info) (\<lambda>rent. Inr (rent, it)))
      else attempt (rt_rent_get R) (\<lambda>rent. Inr (rent, it)))"

definition process_initialize_mint_inner ::
    "runtime \<Rightarrow> account_info list \<Rightarrow> u8 \<Rightarrow> pubkey \<Rightarrow> pubkey option \<Rightarrow> bool \<Rightarrow> ledger \<Rightarrow> ledger res" where
  "process_initialize_mint_inner R accounts decimals authority freeze rent_sysvar_account led =
     attempt (next_account_info accounts) (\<lambda>(mint_info, it).
     attempt (take_rent R led rent_sysvar_account it) (\<lambda>(rent, it).
     attempt (Mint_unpack_unchecked (info_data led mint_info)) (\<lambda>mint.
     if mint_is_initialized mint then Inl (token_err AlreadyInUse)
     else if \<not> rent_is_exempt rent (info_lamports led mint_info) (length (info_data led mint_info))
     then Inl (token_err NotRentExempt)
     else Mint_pack (mint\<lparr>mint_authority := Some authority, mint_decimals := decimals,
                          mint_is_initialized := True, mint_freeze_authority := freeze\<rparr>)
            (ai_key mint_info) led)))"

definition process_initialize_mint where
  "process_initialize_mint R accounts decimals authority freeze led =
     process_initialize_mint_inner R accounts decimals authority freeze True led"

definition process_initialize_mint2 where
  "process_initialize_mint2 R accounts decimals authority freeze led =
     process_initialize_mint_inner R accounts decimals authority freeze False led"

definition process_initialize_account_inner ::
    "runtime \<Rightarrow> pubkey \<Rightarrow> account_info list \<Rightarrow> pubkey option \<Rightarrow> bool \<Rightarrow> ledger \<Rightarrow> ledger res" where
  "process_initialize_account_inner R program_id accounts owner rent_sysvar_account led =
     attempt (next_account_info accounts) (\<lambda>(new_info, it).
     attempt (next_account_info it) (\<lambda>(mint_info, it).
     attempt (case owner of
                Some ow \<Rightarrow> Inr (ow, it)
              | None \<Rightarrow> attempt (next_account_info it) (\<lambda>(owner_info, it). Inr (ai_key owner_info, it)))
       (\<lambda>(owner, it).
     attempt (take_rent R led rent_sysvar_account it) (\<lambda>(rent, it).
     attempt (Account_unpack_unchecked (info_data led new_info)) (\<lambda>acct.
     if account_is_initialized acct then Inl (token_err AlreadyInUse)
     else if \<not> rent_is_exempt rent (info_lamports led new_info) (length (info_data led new_info))
     then Inl (token_err NotRentExempt)
     else
       let is_native_mint = cmp_pubkeys (ai_key mint_info) (native_mint_id R) in
       attempt (if is_native_mint then Inr ()
                else attempt (check_account_owner program_id led mint_info) (\<lambda>_.
                     attempt (map_err (\<lambda>_. token_err InvalidMint) (Mint_unpack (info_data led mint_info)))
                       (\<lambda>_. Inr ()))) (\<lambda>_.
       let acct = acct\<lparr>ta_mint := ai_key mint_info, ta_owner := owner, ta_close_authority := None,
                       ta_delegate := None, ta_delegated_amount := 0, ta_state := Initialized\<rparr> in
       attempt (if is_native_mint then
                  let reserve = rent_minimum_balance rent (length (info_data led new_info)) in
                  attempt (ok_or (checked_sub (info_lamports led new_info) reserve) (token_err Overflow))
                    (\<lambda>n. Inr (acct\<lparr>ta_is_native := Some reserve, ta_amount := n\<rparr>))
                else Inr (acct\<lparr>ta_is_native := None, ta_amount := 0\<rparr>)) (\<lambda>acct.
       Account_pack acct (ai_key new_info) led)))))))"

definition process_initialize_account where
  "process_initialize_account R program_id accounts led =
     process_initialize_account_inner R program_id accounts None True led"

definition process_initialize_account2 where
  "process_initialize_account2 R program_id accounts owner led =
     process_initialize_account_inner R program_id accounts (Some owner) True led"

definition process_initialize_account3 where
  "process_initialize_account3 R program_id accounts owner led =
     process_initialize_account_inner R program_id accounts (Some owner) False led"

text \<open>\<^verbatim>\<open>multisig.signers[i] = *signer_info.key\<close> for each \<^verbatim>\<open>i\<close>: an index past the array panics.\<close>

fun assign_signers :: "nat \<Rightarrow> account_info list \<Rightarrow> pubkey list \<Rightarrow> pubkey list res" where
  "assign_signers i [] keys = Inr keys"
| "assign_signers i (s # ss) keys =
     (if i < length keys then assign_signers (Suc i) ss (keys[i := ai_key s]) else Inl Panicked)"

definition process_initialize_multisig_inner ::
    "runtime \<Rightarrow> account_info list \<Rightarrow> u8 \<Rightarrow> bool \<Rightarrow> ledger \<Rightarrow> ledger res" where
  "process_initialize_multisig_inner R accounts m rent_sysvar_account led =
     attempt (next_account_info accounts) (\<lambda>(multisig_info, it).
     attempt (take_rent R led rent_sysvar_account it) (\<lambda>(rent, signer_infos).
     attempt (Multisig_unpack_unchecked (info_data led multisig_info)) (\<lambda>ms.
     if ms_is_initialized ms then Inl (token_err AlreadyInUse)
     else if \<not> rent_is_exempt rent (info_lamports led multisig_info) (length (info_data led multisig_info))
     then Inl (token_err NotRentExempt)
     else
       let ms = ms\<lparr>ms_m := m, ms_n := of_nat (length signer_infos)\<rparr> in
       if \<not> is_valid_signer_index (unat (ms_n ms)) then Inl (token_err InvalidNumberOfProvidedSigners)
       else if \<not> is_valid_signer_index (unat (ms_m ms)) then Inl (token_err InvalidNumberOfRequiredSigners)
       else attempt (assign_signers 0 signer_infos (ms_signers ms)) (\<lambda>keys.
            Multisig_pack (ms\<lparr>ms_signers := keys, ms_is_initialized := True\<rparr>) (ai_key multisig_info) led))))"

definition process_initialize_multisig where
  "process_initialize_multisig R accounts m led = process_initialize_multisig_inner R accounts m True led"

definition process_initialize_multisig2 where
  "process_initialize_multisig2 R accounts m led = process_initialize_multisig_inner R accounts m False led"

section \<open>Transfers and delegation\<close>

text \<open>
  \<^verbatim>\<open>transfer\<close> and \<^verbatim>\<open>approve\<close> take the mint account too when decimals are to be checked.
\<close>

definition take_expected_mint ::
    "account_info list \<Rightarrow> u8 option \<Rightarrow> ((account_info \<times> u8) option \<times> account_info list) res" where
  "take_expected_mint it expected_decimals =
     (case expected_decimals of
        Some d \<Rightarrow> attempt (next_account_info it) (\<lambda>(mint_info, it). Inr (Some (mint_info, d), it))
      | None \<Rightarrow> Inr (None, it))"

definition check_expected_mint :: "ledger \<Rightarrow> (account_info \<times> u8) option \<Rightarrow> account \<Rightarrow> unit res" where
  "check_expected_mint led expected source =
     (case expected of
        Some (mint_info, expected_decimals) \<Rightarrow>
          if \<not> cmp_pubkeys (ai_key mint_info) (ta_mint source) then Inl (token_err MintMismatch)
          else attempt (Mint_unpack (info_data led mint_info)) (\<lambda>mint.
               if expected_decimals \<noteq> mint_decimals mint then Inl (token_err MintDecimalsMismatch)
               else Inr ())
      | None \<Rightarrow> Inr ())"

text \<open>The authority match of a transfer: a delegate spends its allowance, anyone else must be the owner.\<close>

definition transfer_authority ::
    "pubkey \<Rightarrow> ledger \<Rightarrow> account \<Rightarrow> account_info \<Rightarrow> account_info list \<Rightarrow> u64 \<Rightarrow> bool \<Rightarrow> account res" where
  "transfer_authority program_id led source authority_info signers amt self_transfer =
     (case ta_delegate source of
        Some dlg \<Rightarrow>
          if cmp_pubkeys (ai_key authority_info) dlg then
            attempt (validate_owner program_id led dlg authority_info signers) (\<lambda>_.
            if ta_delegated_amount source < amt then Inl (token_err InsufficientFunds)
            else if \<not> self_transfer then
              attempt (ok_or (checked_sub (ta_delegated_amount source) amt) (token_err Overflow)) (\<lambda>n.
              let source = source\<lparr>ta_delegated_amount := n\<rparr> in
              Inr (if ta_delegated_amount source = 0 then source\<lparr>ta_delegate := None\<rparr> else source))
            else Inr source)
          else attempt (validate_owner program_id led (ta_owner source) authority_info signers) (\<lambda>_. Inr source)
      | None \<Rightarrow> attempt (validate_owner program_id led (ta_owner source) authority_info signers) (\<lambda>_. Inr source))"

text \<open>The lamports that move with a native token.\<close>

definition move_lamports :: "pubkey \<Rightarrow> pubkey \<Rightarrow> u64 \<Rightarrow> ledger \<Rightarrow> ledger res" where
  "move_lamports src dst amt led =
     attempt (ok_or (checked_sub (acc_lamports (led src)) amt) (token_err Overflow)) (\<lambda>n.
     let led = set_lamports src n led in
     attempt (ok_or (checked_add (acc_lamports (led dst)) amt) (token_err Overflow)) (\<lambda>n.
     Inr (set_lamports dst n led)))"

definition process_transfer ::
    "pubkey \<Rightarrow> account_info list \<Rightarrow> u64 \<Rightarrow> u8 option \<Rightarrow> ledger \<Rightarrow> ledger res" where
  "process_transfer program_id accounts amt expected_decimals led =
     attempt (next_account_info accounts) (\<lambda>(source_info, it).
     attempt (take_expected_mint it expected_decimals) (\<lambda>(expected, it).
     attempt (next_account_info it) (\<lambda>(destination_info, it).
     attempt (next_account_info it) (\<lambda>(authority_info, signers).
     attempt (Account_unpack (info_data led source_info)) (\<lambda>source.
     attempt (Account_unpack (info_data led destination_info)) (\<lambda>destination.
     if is_frozen source \<or> is_frozen destination then Inl (token_err AccountFrozen)
     else if ta_amount source < amt then Inl (token_err InsufficientFunds)
     else if \<not> cmp_pubkeys (ta_mint source) (ta_mint destination) then Inl (token_err MintMismatch)
     else
       attempt (check_expected_mint led expected source) (\<lambda>_.
       let self_transfer = cmp_pubkeys (ai_key source_info) (ai_key destination_info) in
       attempt (transfer_authority program_id led source authority_info signers amt self_transfer) (\<lambda>source.
       attempt (if self_transfer \<or> amt = 0 then
                  attempt (check_account_owner program_id led source_info) (\<lambda>_.
                  check_account_owner program_id led destination_info)
                else Inr ()) (\<lambda>_.
       if self_transfer then Inr led
       else
         attempt (ok_or (checked_sub (ta_amount source) amt) (token_err Overflow)) (\<lambda>source_amount.
         attempt (ok_or (checked_add (ta_amount destination) amt) (token_err Overflow)) (\<lambda>destination_amount.
         attempt (if is_native source
                  then move_lamports (ai_key source_info) (ai_key destination_info) amt led
                  else Inr led) (\<lambda>led.
         attempt (Account_pack (source\<lparr>ta_amount := source_amount\<rparr>) (ai_key source_info) led) (\<lambda>led.
         Account_pack (destination\<lparr>ta_amount := destination_amount\<rparr>) (ai_key destination_info) led)))))))))))))"

definition process_approve ::
    "pubkey \<Rightarrow> account_info list \<Rightarrow> u64 \<Rightarrow> u8 option \<Rightarrow> ledger \<Rightarrow> ledger res" where
  "process_approve program_id accounts amt expected_decimals led =
     attempt (next_account_info accounts) (\<lambda>(source_info, it).
     attempt (take_expected_mint it expected_decimals) (\<lambda>(expected, it).
     attempt (next_account_info it) (\<lambda>(delegate_info, it).
     attempt (next_account_info it) (\<lambda>(owner_info, signers).
     attempt (Account_unpack (info_data led source_info)) (\<lambda>source.
     if is_frozen source then Inl (token_err AccountFrozen)
     else
       attempt (check_expected_mint led expected source) (\<lambda>_.
       attempt (validate_owner program_id led (ta_owner source) owner_info signers) (\<lambda>_.
       Account_pack (source\<lparr>ta_delegate := Some (ai_key delegate_info), ta_delegated_amount := amt\<rparr>)
         (ai_key source_info) led)))))))"

definition process_revoke :: "pubkey \<Rightarrow> account_info list \<Rightarrow> ledger \<Rightarrow> ledger res" where
  "process_revoke program_id accounts led =
     attempt (next_account_info accounts) (\<lambda>(source_info, it).
     attempt (Account_unpack (info_data led source_info)) (\<lambda>source.
     attempt (next_account_info it) (\<lambda>(owner_info, signers).
     if is_frozen source then Inl (token_err AccountFrozen)
     else
       attempt (validate_owner program_id led (ta_owner source) owner_info signers) (\<lambda>_.
       Account_pack (source\<lparr>ta_delegate := None, ta_delegated_amount := 0\<rparr>) (ai_key source_info) led))))"

section \<open>Authority changes\<close>

definition set_account_authority ::
    "pubkey \<Rightarrow> ledger \<Rightarrow> account \<Rightarrow> AuthorityType \<Rightarrow> pubkey option \<Rightarrow> account_info \<Rightarrow> account_info list \<Rightarrow> account res" where
  "set_account_authority program_id led acct authority_type new_authority authority_info signers =
     (case authority_type of
        AccountOwner \<Rightarrow>
          attempt (validate_owner program_id led (ta_owner acct) authority_info signers) (\<lambda>_.
          attempt (case new_authority of
                     Some authority \<Rightarrow> Inr (acct\<lparr>ta_owner := authority\<rparr>)
                   | None \<Rightarrow> Inl (token_err InvalidInstruction)) (\<lambda>acct.
          let acct = acct\<lparr>ta_delegate := None, ta_delegated_amount := 0\<rparr> in
          Inr (if is_native acct then acct\<lparr>ta_close_authority := None\<rparr> else acct)))
      | CloseAccountAuthority \<Rightarrow>
          let authority = (case ta_close_authority acct of Some k \<Rightarrow> k | None \<Rightarrow> ta_owner acct) in
          attempt (validate_owner program_id led authority authority_info signers) (\<lambda>_.
          Inr (acct\<lparr>ta_close_authority := new_authority\<rparr>))
      | _ \<Rightarrow> Inl (token_err AuthorityTypeNotSupported))"

definition set_mint_authority ::
    "pubkey \<Rightarrow> ledger \<Rightarrow> mint \<Rightarrow> AuthorityType \<Rightarrow> pubkey option \<Rightarrow> account_info \<Rightarrow> account_info list \<Rightarrow> mint res" where
  "set_mint_authority program_id led mint authority_type new_authority authority_info signers =
     (case authority_type of
        MintTokens \<Rightarrow>
          attempt (ok_or (mint_authority mint) (token_err FixedSupply)) (\<lambda>authority.
          attempt (validate_owner program_id led authority authority_info signers) (\<lambda>_.
          Inr (mint\<lparr>mint_authority := new_authority\<rparr>)))
      | FreezeAccountAuthority \<Rightarrow>
          attempt (ok_or (mint_freeze_authority mint) (token_err MintCannotFreeze)) (\<lambda>authority.
          attempt (validate_owner program_id led authority authority_info signers) (\<lambda>_.
          Inr (mint\<lparr>mint_freeze_authority := new_authority\<rparr>)))
      | _ \<Rightarrow> Inl (token_err AuthorityTypeNotSupported))"

definition process_set_authority ::
    "pubkey \<Rightarrow> account_info list \<Rightarrow> AuthorityType \<Rightarrow> pubkey option \<Rightarrow> ledger \<Rightarrow> ledger res" where
  "process_set_authority program_id accounts authority_type new_authority led =
     attempt (next_account_info accounts) (\<lambda>(info, it).
     attempt (next_account_info it) (\<lambda>(authority_info, signers).
     if length (info_data led info) = ACCOUNT_LEN then
       attempt (Account_unpack (info_data led info)) (\<lambda>acct.
       if is_frozen acct then Inl (token_err AccountFrozen)
       else
         attempt (set_account_authority program_id led acct authority_type new_authority authority_info signers)
           (\<lambda>acct. Account_pack acct (ai_key info) led))
     else if length (info_data led info) = MINT_LEN then
       attempt (Mint_unpack (info_data led info)) (\<lambda>mint.
       attempt (set_mint_authority program_id led mint authority_type new_authority authority_info signers)
         (\<lambda>mint. Mint_pack mint (ai_key info) led))
     else Inl InvalidArgument))"

section \<open>Minting and burning\<close>

definition check_decimals :: "u8 option \<Rightarrow> mint \<Rightarrow> unit res" where
  "check_decimals expected_decimals mint =
     (case expected_decimals of
        Some d \<Rightarrow> if d \<noteq> mint_decimals mint then Inl (token_err MintDecimalsMismatch) else Inr ()
      | None \<Rightarrow> Inr ())"

definition process_mint_to ::
    "pubkey \<Rightarrow> account_info list \<Rightarrow> u64 \<Rightarrow> u8 option \<Rightarrow> ledger \<Rightarrow> ledger res" where
  "process_mint_to program_id accounts amt expected_decimals led =
     attempt (next_account_info accounts) (\<lambda>(mint_info, it).
     attempt (next_account_info it) (\<lambda>(destination_info, it).
     attempt (next_account_info it) (\<lambda>(owner_info, signers).
     attempt (Account_unpack (info_data led destination_info)) (\<lambda>destination.
     if is_frozen destination then Inl (token_err AccountFrozen)
     else if is_native destination then Inl (token_err NativeNotSupported)
     else if \<not> cmp_pubkeys (ai_key mint_info) (ta_mint destination) then Inl (token_err MintMismatch)
     else
       attempt (Mint_unpack (info_data led mint_info)) (\<lambda>mint.
       attempt (check_decimals expected_decimals mint) (\<lambda>_.
       attempt (case mint_authority mint of
                  Some authority \<Rightarrow> validate_owner program_id led authority owner_info signers
                | None \<Rightarrow> Inl (token_err FixedSupply)) (\<lambda>_.
       attempt (if amt = 0 then
                  attempt (check_account_owner program_id led mint_info) (\<lambda>_.
                  check_account_owner program_id led destination_info)
                else Inr ()) (\<lambda>_.
       attempt (ok_or (checked_add (ta_amount destination) amt) (token_err Overflow)) (\<lambda>new_amount.
       attempt (ok_or (checked_add (mint_supply mint) amt) (token_err Overflow)) (\<lambda>new_supply.
       attempt (Account_pack (destination\<lparr>ta_amount := new_amount\<rparr>) (ai_key destination_info) led) (\<lambda>led.
       Mint_pack (mint\<lparr>mint_supply := new_supply\<rparr>) (ai_key mint_info) led)))))))))))"

definition burn_authority ::
    "runtime \<Rightarrow> pubkey \<Rightarrow> ledger \<Rightarrow> account \<Rightarrow> account_info \<Rightarrow> account_info list \<Rightarrow> u64 \<Rightarrow> account res" where
  "burn_authority R program_id led source authority_info signers amt =
     (if \<not> is_owned_by_system_program_or_incinerator R source then
        case ta_delegate source of
          Some dlg \<Rightarrow>
            if cmp_pubkeys (ai_key authority_info) dlg then
              attempt (validate_owner program_id led dlg authority_info signers) (\<lambda>_.
              if ta_delegated_amount source < amt then Inl (token_err InsufficientFunds)
              else
                attempt (ok_or (checked_sub (ta_delegated_amount source) amt) (token_err Overflow)) (\<lambda>n.
                let source = source\<lparr>ta_delegated_amount := n\<rparr> in
                Inr (if ta_delegated_amount source = 0 then source\<lparr>ta_delegate := None\<rparr> else source)))
            else attempt (validate_owner program_id led (ta_owner source) authority_info signers) (\<lambda>_. Inr source)
        | None \<Rightarrow> attempt (validate_owner program_id led (ta_owner source) authority_info signers) (\<lambda>_. Inr source)
      else Inr source)"

definition process_burn ::
    "runtime \<Rightarrow> pubkey \<Rightarrow> account_info list \<Rightarrow> u64 \<Rightarrow> u8 option \<Rightarrow> ledger \<Rightarrow> ledger res" where
  "process_burn R program_id accounts amt expected_decimals led =
     attempt (next_account_info accounts) (\<lambda>(source_info, it).
     attempt (next_account_info it) (\<lambda>(mint_info, it).
     attempt (next_account_info it) (\<lambda>(authority_info, signers).
     attempt (Account_unpack (info_data led source_info)) (\<lambda>source.
     attempt (Mint_unpack (info_data led mint_info)) (\<lambda>mint.
     if is_frozen source then Inl (token_err AccountFrozen)
     else if is_native source then Inl (token_err NativeNotSupported)
     else if ta_amount source < amt then Inl (token_err InsufficientFunds)
     else if \<not> cmp_pubkeys (ai_key mint_info) (ta_mint source) then Inl (token_err MintMismatch)
     else
       attempt (check_decimals expected_decimals mint) (\<lambda>_.
       attempt (burn_authority R program_id led source authority_info signers amt) (\<lambda>source.
       attempt (if amt = 0 then
                  attempt (check_account_owner program_id led source_info) (\<lambda>_.
                  check_account_owner program_id led mint_info)
                else Inr ()) (\<lambda>_.
       attempt (ok_or (checked_sub (ta_amount source) amt) (token_err Overflow)) (\<lambda>new_amount.
       attempt (ok_or (checked_sub (mint_supply mint) amt) (token_err Overflow)) (\<lambda>new_supply.
       attempt (Account_pack (source\<lparr>ta_amount := new_amount\<rparr>) (ai_key source_info) led) (\<lambda>led.
       Mint_pack (mint\<lparr>mint_supply := new_supply\<rparr>) (ai_key mint_info) led)))))))))))"

section \<open>Closing, freezing, syncing\<close>

definition process_close_account ::
    "runtime \<Rightarrow> pubkey \<Rightarrow> account_info list \<Rightarrow> ledger \<Rightarrow> ledger res" where
  "process_close_account R program_id accounts led =
     attempt (next_account_info accounts) (\<lambda>(source_info, it).
     attempt (next_account_info it) (\<lambda>(destination_info, it).
     attempt (next_account_info it) (\<lambda>(authority_info, signers).
     if cmp_pubkeys (ai_key source_info) (ai_key destination_info) then Inl InvalidAccountData
     else
       attempt (Account_unpack (info_data led source_info)) (\<lambda>source.
       if \<not> is_native source \<and> ta_amount source \<noteq> 0 then Inl (token_err NonNativeHasBalance)
       else
         let authority = (case ta_close_authority source of Some k \<Rightarrow> k | None \<Rightarrow> ta_owner source) in
         attempt (if \<not> is_owned_by_system_program_or_incinerator R source
                  then validate_owner program_id led authority authority_info signers
                  else if ai_key destination_info \<noteq> rt_incinerator_id R then Inl InvalidAccountData
                  else Inr ()) (\<lambda>_.
         attempt (ok_or (checked_add (info_lamports led destination_info) (info_lamports led source_info))
                    (token_err Overflow)) (\<lambda>n.
         let led = set_lamports (ai_key source_info) 0 (set_lamports (ai_key destination_info) n led) in
         Inr (set_data (ai_key source_info)
                (replicate ACCOUNT_LEN 0 @ drop ACCOUNT_LEN (info_data led source_info)) led)))))))"

definition process_toggle_freeze_account ::
    "pubkey \<Rightarrow> account_info list \<Rightarrow> bool \<Rightarrow> ledger \<Rightarrow> ledger res" where
  "process_toggle_freeze_account program_id accounts freeze led =
     attempt (next_account_info accounts) (\<lambda>(source_info, it).
     attempt (next_account_info it) (\<lambda>(mint_info, it).
     attempt (next_account_info it) (\<lambda>(authority_info, signers).
     attempt (Account_unpack (info_data led source_info)) (\<lambda>source.
     if freeze \<and> is_frozen source \<or> \<not> freeze \<and> \<not> is_frozen source then Inl (token_err InvalidState)
     else if is_native source then Inl (token_err NativeNotSupported)
     else if \<not> cmp_pubkeys (ai_key mint_info) (ta_mint source) then Inl (token_err MintMismatch)
     else
       attempt (Mint_unpack (info_data led mint_info)) (\<lambda>mint.
       attempt (case mint_freeze_authority mint of
                  Some authority \<Rightarrow> validate_owner program_id led authority authority_info signers
                | None \<Rightarrow> Inl (token_err MintCannotFreeze)) (\<lambda>_.
       Account_pack (source\<lparr>ta_state := if freeze then Frozen else Initialized\<rparr>) (ai_key source_info) led))))))"

definition process_sync_native :: "pubkey \<Rightarrow> account_info list \<Rightarrow> ledger \<Rightarrow> ledger res" where
  "process_sync_native program_id accounts led =
     attempt (next_account_info accounts) (\<lambda>(native_info, it).
     attempt (check_account_owner program_id led native_info) (\<lambda>_.
     attempt (Account_unpack (info_data led native_info)) (\<lambda>native_account.
     case ta_is_native native_account of
       Some reserve \<Rightarrow>
         attempt (ok_or (checked_sub (info_lamports led native_info) reserve) (token_err Overflow)) (\<lambda>new_amount.
         if new_amount < ta_amount native_account then Inl (token_err InvalidState)
         else Account_pack (native_account\<lparr>ta_amount := new_amount\<rparr>) (ai_key native_info) led)
     | None \<Rightarrow> Inl (token_err NonNativeNotSupported))))"

section \<open>Queries\<close>

definition process_get_account_data_size :: "pubkey \<Rightarrow> account_info list \<Rightarrow> ledger \<Rightarrow> bytes res" where
  "process_get_account_data_size program_id accounts led =
     attempt (next_account_info accounts) (\<lambda>(mint_info, it).
     attempt (check_account_owner program_id led mint_info) (\<lambda>_.
     attempt (map_err (\<lambda>_. token_err InvalidMint) (Mint_unpack (info_data led mint_info))) (\<lambda>_.
     Inr (to_le_bytes (of_nat ACCOUNT_LEN :: u64)))))"

definition process_initialize_immutable_owner :: "account_info list \<Rightarrow> ledger \<Rightarrow> ledger res" where
  "process_initialize_immutable_owner accounts led =
     attempt (next_account_info accounts) (\<lambda>(token_account_info, it).
     attempt (Account_unpack_unchecked (info_data led token_account_info)) (\<lambda>acct.
     if account_is_initialized acct then Inl (token_err AlreadyInUse) else Inr led))"

definition process_amount_to_ui_amount :: "pubkey \<Rightarrow> account_info list \<Rightarrow> u64 \<Rightarrow> ledger \<Rightarrow> bytes res" where
  "process_amount_to_ui_amount program_id accounts amt led =
     attempt (next_account_info accounts) (\<lambda>(mint_info, it).
     attempt (check_account_owner program_id led mint_info) (\<lambda>_.
     attempt (map_err (\<lambda>_. token_err InvalidMint) (Mint_unpack (info_data led mint_info))) (\<lambda>mint.
     Inr (amount_to_ui_amount_string_trimmed amt (mint_decimals mint)))))"

definition process_ui_amount_to_amount :: "pubkey \<Rightarrow> account_info list \<Rightarrow> bytes \<Rightarrow> ledger \<Rightarrow> bytes res" where
  "process_ui_amount_to_amount program_id accounts ui_amount led =
     attempt (next_account_info accounts) (\<lambda>(mint_info, it).
     attempt (check_account_owner program_id led mint_info) (\<lambda>_.
     attempt (map_err (\<lambda>_. token_err InvalidMint) (Mint_unpack (info_data led mint_info))) (\<lambda>mint.
     attempt (try_ui_amount_into_amount ui_amount (mint_decimals mint)) (\<lambda>amt.
     Inr (to_le_bytes amt)))))"

section \<open>Dispatch\<close>

text \<open>A program leaves a ledger and, if it set any, return data.\<close>

definition no_return :: "ledger res \<Rightarrow> (ledger \<times> bytes) res" where
  "no_return m = attempt m (\<lambda>led. Inr (led, []))"

definition with_return :: "ledger \<Rightarrow> bytes res \<Rightarrow> (ledger \<times> bytes) res" where
  "with_return led m = attempt m (\<lambda>ret. Inr (led, ret))"

definition process_instruction ::
    "runtime \<Rightarrow> pubkey \<Rightarrow> account_info list \<Rightarrow> TokenInstruction \<Rightarrow> ledger \<Rightarrow> (ledger \<times> bytes) res" where
  "process_instruction R pid accounts instruction led =
     (case instruction of
        InitializeMint d a f \<Rightarrow> no_return (process_initialize_mint R accounts d a f led)
      | InitializeMint2 d a f \<Rightarrow> no_return (process_initialize_mint2 R accounts d a f led)
      | InitializeAccount \<Rightarrow> no_return (process_initialize_account R pid accounts led)
      | InitializeAccount2 owner \<Rightarrow> no_return (process_initialize_account2 R pid accounts owner led)
      | InitializeAccount3 owner \<Rightarrow> no_return (process_initialize_account3 R pid accounts owner led)
      | InitializeMultisig m \<Rightarrow> no_return (process_initialize_multisig R accounts m led)
      | InitializeMultisig2 m \<Rightarrow> no_return (process_initialize_multisig2 R accounts m led)
      | Transfer n \<Rightarrow> no_return (process_transfer pid accounts n None led)
      | Approve n \<Rightarrow> no_return (process_approve pid accounts n None led)
      | Revoke \<Rightarrow> no_return (process_revoke pid accounts led)
      | SetAuthority t a \<Rightarrow> no_return (process_set_authority pid accounts t a led)
      | MintTo n \<Rightarrow> no_return (process_mint_to pid accounts n None led)
      | Burn n \<Rightarrow> no_return (process_burn R pid accounts n None led)
      | CloseAccount \<Rightarrow> no_return (process_close_account R pid accounts led)
      | FreezeAccount \<Rightarrow> no_return (process_toggle_freeze_account pid accounts True led)
      | ThawAccount \<Rightarrow> no_return (process_toggle_freeze_account pid accounts False led)
      | TransferChecked n d \<Rightarrow> no_return (process_transfer pid accounts n (Some d) led)
      | ApproveChecked n d \<Rightarrow> no_return (process_approve pid accounts n (Some d) led)
      | MintToChecked n d \<Rightarrow> no_return (process_mint_to pid accounts n (Some d) led)
      | BurnChecked n d \<Rightarrow> no_return (process_burn R pid accounts n (Some d) led)
      | SyncNative \<Rightarrow> no_return (process_sync_native pid accounts led)
      | GetAccountDataSize \<Rightarrow> with_return led (process_get_account_data_size pid accounts led)
      | InitializeImmutableOwner \<Rightarrow> no_return (process_initialize_immutable_owner accounts led)
      | AmountToUiAmount n \<Rightarrow> with_return led (process_amount_to_ui_amount pid accounts n led)
      | UiAmountToAmount s \<Rightarrow> with_return led (process_ui_amount_to_amount pid accounts s led))"

definition process ::
    "runtime \<Rightarrow> pubkey \<Rightarrow> account_info list \<Rightarrow> bytes \<Rightarrow> ledger \<Rightarrow> (ledger \<times> bytes) res" where
  "process R program_id accounts input led =
     attempt (TokenInstruction_unpack input) (\<lambda>instruction.
     process_instruction R program_id accounts instruction led)"

lemma process_packed:
  "TokenInstruction_wf i \<Longrightarrow>
   process R pid accounts (TokenInstruction_pack i) led = process_instruction R pid accounts i led"
  by (simp add: process_def TokenInstruction_unpack_pack)

end
