(* ===== verification/Token_Authority.thy ===== *)
theory Token_Authority
  imports Token_Processor
begin

text \<open>
  What \<^verbatim>\<open>validate_owner\<close> establishes.  \<open>authorizes\<close> is the specification: a key
  authorises a call when it signed it, or when it is a multisignature account of the program
  and at least \<open>m\<close> of its \<open>n\<close> positions hold keys that signed.  The nested loops
  of the code compute exactly that count.
\<close>

section \<open>Specification\<close>

definition signed_by :: "account_info list \<Rightarrow> pubkey \<Rightarrow> bool" where
  "signed_by infos k \<longleftrightarrow> (\<exists>i \<in> set infos. ai_key i = k \<and> ai_is_signer i)"

definition signing_positions :: "multisig \<Rightarrow> (pubkey \<Rightarrow> bool) \<Rightarrow> nat set" where
  "signing_positions ms P = {p. p < unat (ms_n ms) \<and> p < length (ms_signers ms) \<and> P (ms_signers ms ! p)}"

definition authorizes :: "pubkey \<Rightarrow> ledger \<Rightarrow> account_info list \<Rightarrow> pubkey \<Rightarrow> bool" where
  "authorizes program_id led infos k \<longleftrightarrow>
     (if acc_owner (led k) = program_id \<and> length (acc_data (led k)) = MULTISIG_LEN
      then (\<exists>ms. Multisig_unpack (acc_data (led k)) = Inr ms \<and>
                 unat (ms_m ms) \<le> card (signing_positions ms (signed_by infos)))
      else signed_by infos k)"

section \<open>The loops\<close>

definition trues :: "bool list \<Rightarrow> nat set" where
  "trues M = {p. p < length M \<and> M ! p}"

lemma finite_trues [simp]: "finite (trues M)"
  by (simp add: trues_def)

lemma trues_update: "p < length M \<Longrightarrow> trues (M[p := True]) = insert p (trues M)"
  by (auto simp: trues_def nth_list_update)

lemma trues_replicate [simp]: "trues (replicate n False) = {}"
  by (auto simp: trues_def)

lemma card_trues: "card (trues M) \<le> length M"
  using card_mono [of "{..<length M}" "trues M"] by (auto simp: trues_def)

text \<open>Positions of \<open>keys\<close> (numbered from \<open>k\<close>) that hold the key of \<open>s\<close>.\<close>

definition hits :: "nat \<Rightarrow> pubkey list \<Rightarrow> account_info \<Rightarrow> nat set" where
  "hits k keys s = {k + j | j. j < length keys \<and> keys ! j = ai_key s}"

lemma hits_Nil [simp]: "hits k [] s = {}"
  by (simp add: hits_def)

lemma hits_Cons:
  "hits k (x # xs) s = (if x = ai_key s then insert k (hits (Suc k) xs s) else hits (Suc k) xs s)"
proof -
  have "hits k (x # xs) s = (if x = ai_key s then {k} else {}) \<union> hits (Suc k) xs s"
    by (auto simp: hits_def less_Suc_eq_0_disj)
  then show ?thesis by auto
qed

lemma hits_bounds: "p \<in> hits k keys s \<Longrightarrow> k \<le> p \<and> p < k + length keys"
  by (auto simp: hits_def)

lemma match_positions_spec:
  assumes "k + length keys \<le> length M" and "c = of_nat (card (trues M))"
  shows "match_positions s (enumerate k keys) (M, c) = Inr st \<longleftrightarrow>
    (hits k keys s \<subseteq> trues M \<or> ai_is_signer s) \<and>
    length (fst st) = length M \<and> trues (fst st) = trues M \<union> hits k keys s \<and>
    snd st = of_nat (card (trues (fst st)))"
  using assms
proof (induction keys arbitrary: k M c)
  case Nil
  have "M = fst st" if "length (fst st) = length M" and "trues (fst st) = trues M"
    using that by (intro nth_equalityI) (auto simp: trues_def set_eq_iff)
  then have "st = (M, c) \<longleftrightarrow> length (fst st) = length M \<and> trues (fst st) = trues M \<and>
      snd st = of_nat (card (trues (fst st)))"
    using Nil(2) by (cases st) auto
  then show ?case by (simp add: eq_commute [of "(M, c)"])
next
  case (Cons x xs)
  show ?case
  proof (cases "x = ai_key s \<and> \<not> M ! k")
    case True
    then have k: "k \<notin> trues M" "k < length M" using Cons.prems by (auto simp: trues_def)
    have c1: "c + 1 = of_nat (card (trues (M[k := True])))"
      using k Cons.prems(2) by (simp add: trues_update card_insert_if add.commute)
    let ?r = "match_positions s (enumerate (Suc k) xs) (M[k := True], c + 1)"
    have IH: "?r = Inr st \<longleftrightarrow> (hits (Suc k) xs s \<subseteq> trues (M[k := True]) \<or> ai_is_signer s) \<and>
        length (fst st) = length M \<and> trues (fst st) = trues (M[k := True]) \<union> hits (Suc k) xs s \<and>
        snd st = of_nat (card (trues (fst st)))"
      using Cons.IH [OF _ c1, of "Suc k"] Cons.prems(1) by simp
    have run: "match_positions s (enumerate k (x # xs)) (M, c) =
        (if ai_is_signer s then ?r else Inl MissingRequiredSignature)"
      using True by (simp add: cmp_pubkeys_def)
    have h: "hits k (x # xs) s = insert k (hits (Suc k) xs s)" using True by (simp add: hits_Cons)
    have t: "trues (M[k := True]) \<union> hits (Suc k) xs s = trues M \<union> hits k (x # xs) s"
      using k by (auto simp: trues_update h)
    have "\<not> hits k (x # xs) s \<subseteq> trues M" using k h by blast
    then show ?thesis unfolding run using IH unfolding t by (cases "ai_is_signer s") simp_all
  next
    case False
    then have "x = ai_key s \<Longrightarrow> k \<in> trues M" using Cons.prems by (auto simp: trues_def)
    then have "trues M \<union> hits k (x # xs) s = trues M \<union> hits (Suc k) xs s"
      and "hits k (x # xs) s \<subseteq> trues M \<longleftrightarrow> hits (Suc k) xs s \<subseteq> trues M"
      by (auto simp: hits_Cons)
    moreover have "match_positions s (enumerate k (x # xs)) (M, c) =
        match_positions s (enumerate (Suc k) xs) (M, c)"
      using False by (auto simp: cmp_pubkeys_def)
    ultimately show ?thesis
      using Cons.IH [of "Suc k" M c, OF _ Cons.prems(2)] Cons.prems(1) by (simp only:) simp
  qed
qed

text \<open>
  The outer loop: which positions end up matched, that every newly matched one has a signer,
  and that the loop cannot fail when everybody passed in has signed.
\<close>

lemma match_signers_Cons:
  assumes "match_signers ms (s # ss) (M, c) = Inr (M', c')" and "length (ms_signers ms) \<le> length M"
    and "c = of_nat (card (trues M))"
  obtains M1 c1 where "match_signers ms ss (M1, c1) = Inr (M', c')" and "length M1 = length M"
    and "c1 = of_nat (card (trues M1))"
    and "trues M1 \<subseteq> trues M \<union> signing_positions ms (signed_by [s])"
proof -
  let ?keys = "take (unat (ms_n ms)) (ms_signers ms)"
  from assms(1) obtain st where mp: "match_positions s (enumerate 0 ?keys) (M, c) = Inr st"
    and ms: "match_signers ms ss st = Inr (M', c')"
    by (auto simp: res_simps)
  have "0 + length ?keys \<le> length M" using assms(2) by simp
  with match_positions_spec [OF this assms(3), of s st] mp
  have st: "length (fst st) = length M" "snd st = of_nat (card (trues (fst st)))"
    "trues (fst st) = trues M \<union> hits 0 ?keys s" "hits 0 ?keys s \<subseteq> trues M \<or> ai_is_signer s"
    by blast+
  from st(3,4) have "trues (fst st) \<subseteq> trues M \<union> signing_positions ms (signed_by [s])"
    by (auto simp: hits_def signing_positions_def signed_by_def)
  moreover have "match_signers ms ss (fst st, snd st) = Inr (M', c')" using ms by simp
  ultimately show thesis using that st(1,2) by blast
qed

lemma match_signers_sound:
  assumes "match_signers ms ss (M, c) = Inr (M', c')" and "length (ms_signers ms) \<le> length M"
    and "c = of_nat (card (trues M))"
  shows "c' = of_nat (card (trues M')) \<and> length M' = length M \<and>
    trues M' \<subseteq> trues M \<union> signing_positions ms (signed_by ss)"
  using assms
proof (induction ss arbitrary: M c)
  case Nil
  then show ?case by auto
next
  case (Cons s ss)
  from match_signers_Cons [OF Cons.prems] obtain M1 c1
    where s1: "match_signers ms ss (M1, c1) = Inr (M', c')" "length M1 = length M"
      "c1 = of_nat (card (trues M1))"
      and t1: "trues M1 \<subseteq> trues M \<union> signing_positions ms (signed_by [s])" .
  have IH: "c' = of_nat (card (trues M')) \<and> length M' = length M1 \<and>
      trues M' \<subseteq> trues M1 \<union> signing_positions ms (signed_by ss)"
    by (rule Cons.IH [OF s1(1) _ s1(3)]) (use Cons.prems(2) s1(2) in simp)
  have "signing_positions ms (signed_by ss) \<union> signing_positions ms (signed_by [s])
      \<subseteq> signing_positions ms (signed_by (s # ss))"
    by (auto simp: signing_positions_def signed_by_def)
  with IH t1 s1(2) show ?case by auto
qed

lemma match_positions_error: "match_positions s ps st = Inl e \<Longrightarrow> e = MissingRequiredSignature"
  by (induction s ps st rule: match_positions.induct) (auto split: if_splits)

text \<open>
  The loop fails exactly if a registered key that is neither among \<open>K\<close> nor listed before is passed by
  an account that did not sign.
\<close>

definition registered :: "multisig \<Rightarrow> pubkey set" where
  "registered ms = set (take (unat (ms_n ms)) (ms_signers ms))"

definition unsigned_registered :: "multisig \<Rightarrow> pubkey set \<Rightarrow> account_info list \<Rightarrow> bool" where
  "unsigned_registered ms K ss \<longleftrightarrow>
     (\<exists>i < length ss. ai_key (ss ! i) \<in> registered ms \<and> ai_key (ss ! i) \<notin> K \<union> ai_key ` set (take i ss) \<and> \<not> ai_is_signer (ss ! i))"

lemma unsigned_registered_Nil [simp]: "\<not> unsigned_registered ms K []"
  by (simp add: unsigned_registered_def)

lemma unsigned_registered_Cons [simp]:
  "unsigned_registered ms K (s # ss) \<longleftrightarrow>
     ai_key s \<in> registered ms \<and> ai_key s \<notin> K \<and> \<not> ai_is_signer s \<or> unsigned_registered ms (insert (ai_key s) K) ss"
  unfolding unsigned_registered_def by (auto simp: Ex_less_Suc2)

lemma hits_registered:
  assumes "unat (ms_n ms) \<le> length (ms_signers ms)"
  shows "hits 0 (take (unat (ms_n ms)) (ms_signers ms)) s = signing_positions ms (\<lambda>k. k = ai_key s)"
    and "signing_positions ms (\<lambda>k. k = ai_key s) \<subseteq> signing_positions ms (\<lambda>k. k \<in> K) \<longleftrightarrow> ai_key s \<in> registered ms \<longrightarrow> ai_key s \<in> K"
proof -
  show "hits 0 (take (unat (ms_n ms)) (ms_signers ms)) s = signing_positions ms (\<lambda>k. k = ai_key s)"
    using assms by (auto simp: hits_def signing_positions_def)
  have "ai_key s \<in> registered ms \<longleftrightarrow> (\<exists>p < unat (ms_n ms). ms_signers ms ! p = ai_key s)"
    using assms by (auto simp: registered_def in_set_conv_nth)
  then show "signing_positions ms (\<lambda>k. k = ai_key s) \<subseteq> signing_positions ms (\<lambda>k. k \<in> K) \<longleftrightarrow> ai_key s \<in> registered ms \<longrightarrow> ai_key s \<in> K"
    using assms by (auto simp: signing_positions_def)
qed

lemma match_signers_exact:
  assumes "unat (ms_n ms) \<le> length (ms_signers ms)" and "length (ms_signers ms) \<le> length M"
    and "c = of_nat (card (trues M))" and "trues M = signing_positions ms (\<lambda>k. k \<in> K)"
  shows "if unsigned_registered ms K ss then match_signers ms ss (M, c) = Inl MissingRequiredSignature
    else \<exists>M'. match_signers ms ss (M, c) = Inr (M', of_nat (card (trues M'))) \<and>
      trues M' = signing_positions ms (\<lambda>k. k \<in> K \<union> ai_key ` set ss)"
  using assms
proof (induction ss arbitrary: M c K)
  case Nil
  then show ?case by simp
next
  case (Cons s ss)
  let ?keys = "take (unat (ms_n ms)) (ms_signers ms)"
  note hit = hits_registered [OF Cons.prems(1), of s]
  have len: "0 + length ?keys \<le> length M" using Cons.prems(2) by simp
  note spec = match_positions_spec [OF len Cons.prems(3), of s, unfolded hit(1) Cons.prems(4) hit(2)]
  show ?case
  proof (cases "ai_key s \<in> registered ms \<and> ai_key s \<notin> K \<and> \<not> ai_is_signer s")
    case True
    then have "match_positions s (enumerate 0 ?keys) (M, c) \<noteq> Inr st" for st using spec by blast
    then have "match_positions s (enumerate 0 ?keys) (M, c) = Inl MissingRequiredSignature"
      by (cases "match_positions s (enumerate 0 ?keys) (M, c)") (auto dest: match_positions_error)
    then show ?thesis using True Cons.prems(1) by simp
  next
    case False
    define M1 where "M1 = map (\<lambda>p. M ! p \<or> p \<in> signing_positions ms (\<lambda>k. k = ai_key s)) [0..<length M]"
    have "p < length M" if "p \<in> signing_positions ms (\<lambda>k. k = ai_key s)" for p
      using that Cons.prems(2) by (auto simp: signing_positions_def)
    then have t: "trues M1 = trues M \<union> signing_positions ms (\<lambda>k. k = ai_key s)" by (auto simp: trues_def M1_def)
    then have t1: "trues M1 = signing_positions ms (\<lambda>k. k \<in> insert (ai_key s) K)"
      unfolding Cons.prems(4) by (auto simp: signing_positions_def)
    have len1: "length M1 = length M" by (simp add: M1_def)
    have "match_positions s (enumerate 0 ?keys) (M, c) = Inr (M1, of_nat (card (trues M1)))"
      unfolding spec using False t len1 by (auto simp: Cons.prems(4))
    then have step: "match_signers ms (s # ss) (M, c) = match_signers ms ss (M1, of_nat (card (trues M1)))"
      using Cons.prems(1) by simp
    have ur: "unsigned_registered ms K (s # ss) = unsigned_registered ms (insert (ai_key s) K) ss" using False by auto
    have un: "K \<union> ai_key ` set (s # ss) = insert (ai_key s) K \<union> ai_key ` set ss" by auto
    show ?thesis
      unfolding step ur un by (rule Cons.IH [OF Cons.prems(1) _ refl t1]) (use Cons.prems(2) len1 in simp)
  qed
qed

section \<open>Ownership validation\<close>

lemma finite_signing_positions [simp]: "finite (signing_positions ms P)"
  by (simp add: signing_positions_def)

lemma card_signing_positions: "card (signing_positions ms P) \<le> length (ms_signers ms)"
  using card_mono [of "{..<length (ms_signers ms)}" "signing_positions ms P"]
  by (auto simp: signing_positions_def)

lemma unat_count: "n \<le> 11 \<Longrightarrow> unat (of_nat n :: u8) = n"
  by (simp add: unat_of_nat)

lemma Multisig_unpack_wf: "Multisig_unpack bs = Inr ms \<Longrightarrow> length (ms_signers ms) = 11"
  using multisig_packed.unpack_wf [of bs ms]
  by (simp add: Multisig_unpack_def multisig_wf_def MAX_SIGNERS_def)

lemma match_signers_start:
  assumes "match_signers ms ss (replicate MAX_SIGNERS False, 0) = Inr (M', c')"
    and "length (ms_signers ms) = 11"
  shows "unat c' \<le> card (signing_positions ms (signed_by ss))"
proof -
  have "c' = of_nat (card (trues M')) \<and> length M' = 11 \<and>
      trues M' \<subseteq> signing_positions ms (signed_by ss)"
    using match_signers_sound [OF assms(1)] assms(2) by (simp add: MAX_SIGNERS_def)
  moreover from this have "card (trues M') \<le> 11" using card_trues [of M'] by simp
  ultimately show ?thesis by (simp add: unat_count card_mono)
qed

lemma validate_owner_sound:
  assumes "validate_owner pid led k owner_info signers = Inr ()"
  shows "ai_key owner_info = k" and "authorizes pid led (owner_info # signers) k"
proof -
  show k: "ai_key owner_info = k"
    using assms by (auto simp: validate_owner_def cmp_pubkeys_def split: if_splits)
  show "authorizes pid led (owner_info # signers) k"
  proof (cases "acc_owner (led k) = pid \<and> length (acc_data (led k)) = MULTISIG_LEN")
    case True
    with assms k obtain ms M' c' where ms: "Multisig_unpack (acc_data (led k)) = Inr ms"
      and run: "match_signers ms signers (replicate MAX_SIGNERS False, 0) = Inr (M', c')"
      and enough: "\<not> c' < ms_m ms"
      by (auto simp: validate_owner_def cmp_pubkeys_def res_simps split: if_splits)
    have "unat c' \<le> card (signing_positions ms (signed_by signers))"
      using match_signers_start [OF run] Multisig_unpack_wf [OF ms] by simp
    also have "\<dots> \<le> card (signing_positions ms (signed_by (owner_info # signers)))"
      by (rule card_mono) (auto simp: signing_positions_def signed_by_def)
    finally show ?thesis
      using True ms enough by (auto simp: authorizes_def word_less_nat_alt)
  next
    case False
    with assms k show ?thesis
      by (auto simp: validate_owner_def cmp_pubkeys_def authorizes_def signed_by_def split: if_splits)
  qed
qed

text \<open>C17: validation against a multisignature account of the program, with at most eleven positions (as
  initialisation enforces), succeeds exactly when two things hold: every registered key that is passed is
  signed where it is first listed, and at least \<^verbatim>\<open>m\<close> of the first \<^verbatim>\<open>n\<close> positions hold a passed key, however
  often or in which order the accounts are listed.  Otherwise it is refused with
  \<^verbatim>\<open>MissingRequiredSignature\<close>: one registered key passed without its signature spoils the call, even if
  \<^verbatim>\<open>m\<close> others signed.\<close>

theorem multisig_threshold:
  assumes "acc_owner (led (ai_key owner_info)) = pid"
    and "Multisig_unpack (acc_data (led (ai_key owner_info))) = Inr ms"
    and "unat (ms_n ms) \<le> 11"
  shows "validate_owner pid led (ai_key owner_info) owner_info signers =
    (if (\<forall>i < length signers. ai_key (signers ! i) \<in> set (take (unat (ms_n ms)) (ms_signers ms)) \<longrightarrow>
            ai_key (signers ! i) \<notin> ai_key ` set (take i signers) \<longrightarrow> ai_is_signer (signers ! i)) \<and>
        unat (ms_m ms) \<le> card {p. p < unat (ms_n ms) \<and> ms_signers ms ! p \<in> ai_key ` set signers}
     then Inr () else Inl MissingRequiredSignature)"
proof -
  have len: "length (acc_data (led (ai_key owner_info))) = MULTISIG_LEN"
    using assms(2) by (simp add: Multisig_unpack_def multisig_packed.unpack_eq_Inr)
  have l11: "length (ms_signers ms) = 11" using Multisig_unpack_wf [OF assms(2)] .
  let ?S = "signing_positions ms (\<lambda>k. k \<in> ai_key ` set signers)" and ?M = "replicate MAX_SIGNERS False"
  have un: "(\<forall>i < length signers. ai_key (signers ! i) \<in> set (take (unat (ms_n ms)) (ms_signers ms)) \<longrightarrow>
      ai_key (signers ! i) \<notin> ai_key ` set (take i signers) \<longrightarrow> ai_is_signer (signers ! i)) = (\<not> unsigned_registered ms {} signers)"
    by (auto simp: unsigned_registered_def registered_def)
  have S: "?S = {p. p < unat (ms_n ms) \<and> ms_signers ms ! p \<in> ai_key ` set signers}"
    using assms(3) l11 by (auto simp: signing_positions_def)
  have start: "trues ?M = signing_positions ms (\<lambda>k. k \<in> {})" by (simp add: signing_positions_def)
  note run = match_signers_exact [of ms ?M 0 "{}" signers, OF _ _ _ start]
  show ?thesis
  proof (cases "unsigned_registered ms {} signers")
    case True
    then have "match_signers ms signers (?M, 0) = Inl MissingRequiredSignature"
      using run assms(3) l11 by (simp add: MAX_SIGNERS_def)
    then show ?thesis unfolding un using True assms(1,2) len by (simp add: validate_owner_def cmp_pubkeys_def)
  next
    case False
    then obtain M' where r: "match_signers ms signers (?M, 0) = Inr (M', of_nat (card (trues M')))" and t: "trues M' = ?S"
      using run assms(3) l11 by (auto simp: MAX_SIGNERS_def)
    have "unat (of_nat (card (trues M')) :: u8) = card ?S"
      using card_signing_positions [of ms] l11 by (simp add: t unat_count)
    then show ?thesis unfolding un S [symmetric] using False assms(1,2) len r
      by (simp add: validate_owner_def cmp_pubkeys_def word_less_nat_alt)
  qed
qed

definition example_multisig :: multisig where
  "example_multisig = \<lparr>ms_m = 2, ms_n = 3, ms_is_initialized = True,
     ms_signers = [11, 12, 13, 0, 0, 0, 0, 0, 0, 0, 0]\<rparr>"

definition example_multisig_ledger :: ledger where
  "example_multisig_ledger k =
     \<lparr>acc_lamports = 1, acc_data = if k = 7 then Multisig_bytes example_multisig else [], acc_owner = 5\<rparr>"

lemma example_multisig_stored:
  "Multisig_unpack (Multisig_bytes example_multisig) = Inr example_multisig"
  by (simp add: example_multisig_def multisig_wf_def MAX_SIGNERS_def)

theorem multisig_threshold_witness:
  "validate_owner 5 example_multisig_ledger 7 \<lparr>ai_key = 7, ai_is_signer = False, ai_is_writable = False\<rparr>
     [\<lparr>ai_key = 13, ai_is_signer = True, ai_is_writable = False\<rparr>,
      \<lparr>ai_key = 11, ai_is_signer = True, ai_is_writable = False\<rparr>] = Inr () \<and>
   validate_owner 5 example_multisig_ledger 7 \<lparr>ai_key = 7, ai_is_signer = False, ai_is_writable = False\<rparr>
     [\<lparr>ai_key = 13, ai_is_signer = True, ai_is_writable = False\<rparr>,
      \<lparr>ai_key = 13, ai_is_signer = True, ai_is_writable = False\<rparr>] = Inl MissingRequiredSignature \<and>
   validate_owner 5 example_multisig_ledger 7 \<lparr>ai_key = 7, ai_is_signer = False, ai_is_writable = False\<rparr>
     [\<lparr>ai_key = 13, ai_is_signer = True, ai_is_writable = False\<rparr>,
      \<lparr>ai_key = 11, ai_is_signer = True, ai_is_writable = False\<rparr>,
      \<lparr>ai_key = 12, ai_is_signer = False, ai_is_writable = False\<rparr>] = Inl MissingRequiredSignature"
proof -
  have less3: "(\<lambda>p. p < (3::nat) \<and> Q p) = (\<lambda>p. p = 0 \<and> Q 0 \<or> p = 1 \<and> Q 1 \<or> p = 2 \<and> Q 2)" for Q
    by (auto simp: less_Suc_eq numeral_3_eq_3 numeral_2_eq_2)
  let ?i = "\<lambda>k b. \<lparr>ai_key = k, ai_is_signer = b, ai_is_writable = False\<rparr>"
  have sets: "{p. p = 0 \<or> p = (2::nat)} = {0, 2}" "{p. p = (2::nat)} = {2}" by auto
  have all2: "(\<forall>i < Suc (Suc 0). P i) \<longleftrightarrow> P 0 \<and> P 1" for P by (auto simp: All_less_Suc)
  have all3: "(\<forall>i < Suc (Suc (Suc 0)). P i) \<longleftrightarrow> P 0 \<and> P 1 \<and> P 2" for P by (auto simp: All_less_Suc numeral_2_eq_2)
  note run = multisig_threshold [of example_multisig_ledger "?i 7 False" 5 example_multisig]
  show ?thesis
    using run [of "[?i 13 True, ?i 11 True]"] run [of "[?i 13 True, ?i 13 True]"] run [of "[?i 13 True, ?i 11 True, ?i 12 False]"]
    by (simp add: example_multisig_ledger_def example_multisig_stored)
       (simp add: example_multisig_def less3 all2 all3 sets nth_Cons')
qed

end
