(* ===== verification/Token_Bank.thy ===== *)
theory Token_Bank
  imports Token_Authority
begin

text \<open>
  What the token program promises about balances.  The abstract state, a \<open>bank\<close>, is what
  the ledger says about token accounts and mints, with the bytes forgotten; \<open>bank_step\<close>
  is everything an instruction may do to it.  Every instruction the code accepts, in a run the
  runtime accepts, is such a step (refinement), and the steps keep the accounting invariants:
  the supply of a mint is the sum of the balances of its accounts, and wrapped native tokens are
  covered by lamports.
\<close>

section \<open>The abstract bank\<close>

record bank =
  bk_accounts :: "pubkey \<Rightarrow> account option"
  bk_mints :: "pubkey \<Rightarrow> mint option"
  bk_lamports :: "pubkey \<Rightarrow> nat"

definition token_account :: "pubkey \<Rightarrow> sol_account \<Rightarrow> account option" where
  "token_account pid a =
     (if acc_owner a = pid then
        case Account_unpack (acc_data a) of Inr v \<Rightarrow> Some v | Inl _ \<Rightarrow> None
      else None)"

text \<open>A mint's record exists from its creation on, initialised or not.\<close>

definition token_mint :: "pubkey \<Rightarrow> sol_account \<Rightarrow> mint option" where
  "token_mint pid a =
     (if acc_owner a = pid then
        case Mint_unpack_unchecked (acc_data a) of Inr v \<Rightarrow> Some v | Inl _ \<Rightarrow> None
      else None)"

definition bank_of :: "pubkey \<Rightarrow> ledger \<Rightarrow> bank" where
  "bank_of pid led =
     \<lparr>bk_accounts = (\<lambda>k. token_account pid (led k)),
      bk_mints = (\<lambda>k. token_mint pid (led k)),
      bk_lamports = (\<lambda>k. unat (acc_lamports (led k)))\<rparr>"

lemma bank_of_sel [simp]:
  "bk_accounts (bank_of pid led) k = token_account pid (led k)"
  "bk_mints (bank_of pid led) k = token_mint pid (led k)"
  "bk_lamports (bank_of pid led) k = unat (acc_lamports (led k))"
  by (simp_all add: bank_of_def)

text \<open>Changes to an account that leave its balance, its mint and its native reserve alone.\<close>

definition same_money :: "account \<Rightarrow> account \<Rightarrow> bool" where
  "same_money a b \<longleftrightarrow> ta_amount b = ta_amount a \<and> ta_mint b = ta_mint a \<and> ta_is_native b = ta_is_native a"

inductive bank_step :: "pubkey \<Rightarrow> bank \<Rightarrow> bank \<Rightarrow> bool" for native :: pubkey where
  quiet: "bank_step native b b"
| open_mint:
    "\<lbrakk>bk_mints b k = Some m; mint_supply m' = mint_supply m\<rbrakk> \<Longrightarrow>
     bank_step native b (b\<lparr>bk_mints := (bk_mints b)(k \<mapsto> m')\<rparr>)"
| open_account:
    "\<lbrakk>bk_accounts b k = None; ta_mint a \<noteq> native; ta_is_native a = None; ta_amount a = 0\<rbrakk> \<Longrightarrow>
     bank_step native b (b\<lparr>bk_accounts := (bk_accounts b)(k \<mapsto> a)\<rparr>)"
| wrap:
    "\<lbrakk>bk_accounts b k = None; ta_mint a = native; ta_is_native a = Some r;
      unat (ta_amount a) + unat r = bk_lamports b k\<rbrakk> \<Longrightarrow>
     bank_step native b (b\<lparr>bk_accounts := (bk_accounts b)(k \<mapsto> a)\<rparr>)"
| manage:
    "\<lbrakk>bk_accounts b k = Some a; same_money a a'\<rbrakk> \<Longrightarrow>
     bank_step native b (b\<lparr>bk_accounts := (bk_accounts b)(k \<mapsto> a')\<rparr>)"
| pay:
    "\<lbrakk>bk_accounts b s = Some a; bk_accounts b d = Some c; s \<noteq> d; ta_mint a = ta_mint c;
      ta_mint a' = ta_mint a; ta_is_native a' = ta_is_native a;
      ta_mint c' = ta_mint c; ta_is_native c' = ta_is_native c;
      unat (ta_amount a) = unat (ta_amount a') + n; unat (ta_amount c') = unat (ta_amount c) + n;
      if ta_is_native a = None then lam = bk_lamports b
      else n \<le> bk_lamports b s \<and>
           lam = (bk_lamports b)(s := bk_lamports b s - n, d := bk_lamports b d + n)\<rbrakk> \<Longrightarrow>
     bank_step native b (b\<lparr>bk_accounts := (bk_accounts b)(s \<mapsto> a', d \<mapsto> c'), bk_lamports := lam\<rparr>)"
| issue:
    "\<lbrakk>bk_mints b k = Some m; bk_accounts b d = Some c; ta_mint c = k; ta_is_native c = None;
      ta_mint c' = k; ta_is_native c' = None;
      unat (ta_amount c') = unat (ta_amount c) + n; unat (mint_supply m') = unat (mint_supply m) + n\<rbrakk> \<Longrightarrow>
     bank_step native b
       (b\<lparr>bk_accounts := (bk_accounts b)(d \<mapsto> c'), bk_mints := (bk_mints b)(k \<mapsto> m')\<rparr>)"
| destroy:
    "\<lbrakk>bk_mints b k = Some m; bk_accounts b s = Some a; ta_mint a = k; ta_is_native a = None;
      ta_mint a' = k; ta_is_native a' = None;
      unat (ta_amount a) = unat (ta_amount a') + n; unat (mint_supply m) = unat (mint_supply m') + n\<rbrakk> \<Longrightarrow>
     bank_step native b
       (b\<lparr>bk_accounts := (bk_accounts b)(s \<mapsto> a'), bk_mints := (bk_mints b)(k \<mapsto> m')\<rparr>)"
| close:
    "\<lbrakk>bk_accounts b s = Some a; ta_is_native a \<noteq> None \<or> ta_amount a = 0; s \<noteq> d\<rbrakk> \<Longrightarrow>
     bank_step native b
       (b\<lparr>bk_accounts := (bk_accounts b)(s := None),
          bk_lamports := (bk_lamports b)(s := 0, d := bk_lamports b d + bk_lamports b s)\<rparr>)"
| sync:
    "\<lbrakk>bk_accounts b k = Some a; ta_is_native a = Some r; ta_mint a' = ta_mint a; ta_is_native a' = Some r;
      unat (ta_amount a') + unat r = bk_lamports b k\<rbrakk> \<Longrightarrow>
     bank_step native b (b\<lparr>bk_accounts := (bk_accounts b)(k \<mapsto> a')\<rparr>)"

section \<open>Accounting on the bank\<close>

definition held :: "pubkey \<Rightarrow> account option \<Rightarrow> nat" where
  "held m x = (case x of Some a \<Rightarrow> if ta_mint a = m then unat (ta_amount a) else 0 | None \<Rightarrow> 0)"

definition circulating :: "(pubkey \<Rightarrow> account option) \<Rightarrow> pubkey \<Rightarrow> nat" where
  "circulating accts m = (\<Sum>k\<in>UNIV. held m (accts k))"

definition supply_of :: "bank \<Rightarrow> pubkey \<Rightarrow> nat" where
  "supply_of b m = (case bk_mints b m of Some v \<Rightarrow> unat (mint_supply v) | None \<Rightarrow> 0)"

definition supply_matches :: "pubkey \<Rightarrow> bank \<Rightarrow> bool" where
  "supply_matches native b \<longleftrightarrow> (\<forall>m. m \<noteq> native \<longrightarrow> circulating (bk_accounts b) m = supply_of b m)"

definition native_marked :: "pubkey \<Rightarrow> bank \<Rightarrow> bool" where
  "native_marked native b \<longleftrightarrow>
     (\<forall>k a. bk_accounts b k = Some a \<longrightarrow> (ta_is_native a \<noteq> None \<longleftrightarrow> ta_mint a = native))"

definition native_backed :: "bank \<Rightarrow> bool" where
  "native_backed b \<longleftrightarrow>
     (\<forall>k a r. bk_accounts b k = Some a \<longrightarrow> ta_is_native a = Some r \<longrightarrow>
              unat (ta_amount a) + unat r \<le> bk_lamports b k)"

definition bank_invariant :: "pubkey \<Rightarrow> bank \<Rightarrow> bool" where
  "bank_invariant native b \<longleftrightarrow> supply_matches native b \<and> native_marked native b \<and> native_backed b"

lemma held_simps [simp]:
  "held m None = 0"
  "held m (Some a) = (if ta_mint a = m then unat (ta_amount a) else 0)"
  by (simp_all add: held_def)

lemma circulating_update:
  "circulating (accts(k := x)) m + held m (accts k) = circulating accts m + held m x"
proof -
  have "(\<Sum>i\<in>UNIV - {k}. held m ((accts(k := x)) i)) = (\<Sum>i\<in>UNIV - {k}. held m (accts i))"
    by (rule sum.cong) auto
  then show ?thesis
    unfolding circulating_def
    using sum.remove [of UNIV k "\<lambda>i. held m ((accts(k := x)) i)"]
      sum.remove [of UNIV k "\<lambda>i. held m (accts i)"] by simp
qed

lemma circulating_update2:
  assumes "s \<noteq> d"
  shows "circulating (accts(s := x, d := y)) m + held m (accts s) + held m (accts d)
    = circulating accts m + held m x + held m y"
  using circulating_update [of "accts(s := x)" d y m] circulating_update [of accts s x m] assms by simp

lemma supply_of_update:
  "supply_of (b\<lparr>bk_mints := (bk_mints b)(k \<mapsto> m)\<rparr>) x =
     (if x = k then unat (mint_supply m) else supply_of b x)"
  by (simp add: supply_of_def)

lemma supply_of_frame [simp]:
  "supply_of (b\<lparr>bk_accounts := x\<rparr>) m = supply_of b m"
  "supply_of (b\<lparr>bk_lamports := l\<rparr>) m = supply_of b m"
  by (simp_all add: supply_of_def)

lemma native_marked_iff:
  "native_marked native b \<Longrightarrow> bk_accounts b k = Some a \<Longrightarrow> ta_is_native a = None \<longleftrightarrow> ta_mint a \<noteq> native"
  by (force simp: native_marked_def)

lemma native_backedD:
  "native_backed b \<Longrightarrow> bk_accounts b k = Some a \<Longrightarrow> ta_is_native a = Some r \<Longrightarrow>
   unat (ta_amount a) + unat r \<le> bk_lamports b k"
  by (simp add: native_backed_def)

lemma bank_step_supply:
  assumes "bank_step native b b'" and "native_marked native b" and "supply_matches native b"
  shows "supply_matches native b'"
  unfolding supply_matches_def
proof (intro allI impI)
  fix m
  assume m: "m \<noteq> native"
  have eq: "circulating (bk_accounts b) m = supply_of b m" using assms(3) m by (simp add: supply_matches_def)
  show "circulating (bk_accounts b') m = supply_of b' m"
    using assms(1)
  proof cases
    case quiet
    then show ?thesis using eq by simp
  next
    case (open_mint k mt mt')
    then show ?thesis using eq by (simp add: supply_of_def)
  next
    case (open_account k a)
    then show ?thesis using eq circulating_update [of "bk_accounts b" k "Some a" m] by simp
  next
    case (wrap k a r)
    then show ?thesis using eq m circulating_update [of "bk_accounts b" k "Some a" m] by simp
  next
    case (manage k a a')
    then show ?thesis
      using eq circulating_update [of "bk_accounts b" k "Some a'" m]
      by (simp add: same_money_def split: if_splits)
  next
    case (pay s a d c a' c' n lam)
    then show ?thesis
      using eq circulating_update2 [of s d "bk_accounts b" "Some a'" "Some c'" m]
      by (simp split: if_splits)
  next
    case (issue k mt d c c' n mt')
    then show ?thesis
      using eq circulating_update [of "bk_accounts b" d "Some c'" m]
      by (simp add: supply_of_def split: if_splits)
  next
    case (destroy k mt s a a' n mt')
    then show ?thesis
      using eq circulating_update [of "bk_accounts b" s "Some a'" m]
      by (simp add: supply_of_def split: if_splits)
  next
    case (close s a d)
    then have "held m (Some a) = 0" using assms(2) m by (auto simp: native_marked_def)
    then show ?thesis
      using eq close circulating_update [of "bk_accounts b" s None m] by simp
  next
    case (sync k a r a')
    then have "ta_mint a = native" using assms(2) by (auto simp: native_marked_def)
    then show ?thesis
      using eq sync m circulating_update [of "bk_accounts b" k "Some a'" m] by simp
  qed
qed

lemma bank_step_marked:
  assumes "bank_step native b b'" and "native_marked native b"
  shows "native_marked native b'"
  using assms(1)
proof cases
  case (issue k mt d c c' n mt')
  then show ?thesis using assms(2) native_marked_iff [OF assms(2) issue(3)] by (auto simp: native_marked_def)
next
  case (destroy k mt s a a' n mt')
  then show ?thesis using assms(2) native_marked_iff [OF assms(2) destroy(3)] by (auto simp: native_marked_def)
qed (use assms(2) in \<open>auto simp: native_marked_def same_money_def\<close>)

lemma bank_step_backed:
  assumes "bank_step native b b'" and "native_marked native b" and "native_backed b"
  shows "native_backed b'"
  using assms(1)
proof cases
  case (pay s a d c a' c' n lam)
  show ?thesis
    unfolding native_backed_def
  proof (intro allI impI)
    fix k v r
    assume v: "bk_accounts b' k = Some v" and r: "ta_is_native v = Some r"
    have iff: "ta_is_native a = None \<longleftrightarrow> ta_is_native c = None"
      using native_marked_iff [OF assms(2) pay(2)] native_marked_iff [OF assms(2) pay(3)] pay(5) by simp
    consider "k = s" | "k = d" | "k \<noteq> s" "k \<noteq> d" by blast
    then show "unat (ta_amount v) + unat r \<le> bk_lamports b' k"
    proof cases
      case 1
      then have "v = a'" "ta_is_native a = Some r" using v r pay by auto
      then have "unat (ta_amount a) + unat r \<le> bk_lamports b s"
        using native_backedD [OF assms(3) pay(2)] by blast
      then show ?thesis using 1 pay \<open>v = a'\<close> \<open>ta_is_native a = Some r\<close> by auto
    next
      case 2
      then have "v = c'" "ta_is_native c = Some r" using v r pay by auto
      then have "unat (ta_amount c) + unat r \<le> bk_lamports b d"
        using native_backedD [OF assms(3) pay(3)] by blast
      then show ?thesis using 2 pay iff \<open>v = c'\<close> \<open>ta_is_native c = Some r\<close> by auto
    next
      case 3
      then have "unat (ta_amount v) + unat r \<le> bk_lamports b k"
        using assms(3) v r pay by (auto simp: native_backed_def)
      then show ?thesis using 3 pay by (auto split: if_splits)
    qed
  qed
next
  case (manage k a a')
  then show ?thesis using assms(3) by (auto simp: native_backed_def same_money_def)
next
  case (close s a d)
  show ?thesis
    unfolding native_backed_def
  proof (intro allI impI)
    fix k v r
    assume v: "bk_accounts b' k = Some v" and r: "ta_is_native v = Some r"
    then have "k \<noteq> s" and "bk_accounts b k = Some v" using close by (auto split: if_splits)
    then show "unat (ta_amount v) + unat r \<le> bk_lamports b' k"
      using assms(3) r close by (auto simp: native_backed_def intro: trans_le_add1)
  qed
qed (use assms(3) in \<open>auto simp: native_backed_def\<close>)

theorem bank_step_invariant:
  "bank_step native b b' \<Longrightarrow> bank_invariant native b \<Longrightarrow> bank_invariant native b'"
  using bank_step_supply bank_step_marked bank_step_backed unfolding bank_invariant_def by blast

section \<open>Stores, seen on the bank\<close>

lemma Account_unpack_mint_None:
  "length bs = ACCOUNT_LEN \<Longrightarrow> \<exists>e. Mint_unpack_unchecked bs = Inl e"
  by (simp add: Mint_unpack_unchecked_def Pack_unpack_unchecked_def)

lemma token_mint_None: "length (acc_data a) \<noteq> MINT_LEN \<Longrightarrow> token_mint pid a = None"
  by (simp add: token_mint_def Mint_unpack_unchecked_def Pack_unpack_unchecked_def)

lemma token_account_None: "length (acc_data a) \<noteq> ACCOUNT_LEN \<Longrightarrow> token_account pid a = None"
  by (simp add: token_account_def Account_unpack_def Pack_unpack_def Pack_unpack_unchecked_def)

lemma bank_eqI:
  assumes "\<And>k. token_account pid (led k) = bk_accounts b k" and "\<And>k. token_mint pid (led k) = bk_mints b k"
    and "\<And>k. unat (acc_lamports (led k)) = bk_lamports b k"
  shows "bank_of pid led = b"
  using assms by (cases b) (auto simp: bank_of_def)

lemma Account_pack_spec:
  assumes "Account_pack v k led = Inr led'"
  obtains bs where "led' = set_data k bs led" and "length (acc_data (led k)) = ACCOUNT_LEN"
    and "length bs = ACCOUNT_LEN" and "Account_unpack_unchecked bs = Inr v"
  using assms Account_from_into
  unfolding Account_pack_def account_packed.pack_to_ledger_eq_Inr Account_unpack_unchecked_def
    account_packed.unpack_unchecked_eq_Inr by blast

lemma Mint_pack_spec:
  assumes "Mint_pack v k led = Inr led'"
  obtains bs where "led' = set_data k bs led" and "length (acc_data (led k)) = MINT_LEN"
    and "length bs = MINT_LEN" and "Mint_unpack_unchecked bs = Inr v"
  using assms Mint_from_into
  unfolding Mint_pack_def mint_packed.pack_to_ledger_eq_Inr Mint_unpack_unchecked_def
    mint_packed.unpack_unchecked_eq_Inr by blast

lemma Account_unpack_iff:
  "Account_unpack bs = Inr v \<longleftrightarrow> Account_unpack_unchecked bs = Inr v \<and> account_is_initialized v"
  by (auto simp: Account_unpack_def Account_unpack_unchecked_def account_packed.unpack_eq_Inr
      account_packed.unpack_unchecked_eq_Inr)

lemma Mint_unpack_iff:
  "Mint_unpack bs = Inr v \<longleftrightarrow> Mint_unpack_unchecked bs = Inr v \<and> mint_is_initialized v"
  by (auto simp: Mint_unpack_def Mint_unpack_unchecked_def mint_packed.unpack_eq_Inr
      mint_packed.unpack_unchecked_eq_Inr)

lemma bank_store_account:
  assumes "Account_pack v k led = Inr led'" and "acc_owner (led k) = pid" and "account_is_initialized v"
  shows "bank_of pid led' = (bank_of pid led)\<lparr>bk_accounts := (bk_accounts (bank_of pid led))(k \<mapsto> v)\<rparr>"
proof -
  obtain bs where led': "led' = set_data k bs led" and l: "length (acc_data (led k)) = ACCOUNT_LEN"
    and bs: "length bs = ACCOUNT_LEN" "Account_unpack_unchecked bs = Inr v"
    using Account_pack_spec [OF assms(1)] .
  have "Account_unpack bs = Inr v" using bs(2) assms(3) by (simp add: Account_unpack_iff)
  moreover have "token_mint pid (led k) = None" using l by (simp add: token_mint_None)
  ultimately show ?thesis
    using assms(2) bs(1)
    by (intro bank_eqI) (auto simp: led' token_account_def token_mint_None set_data_def)
qed

lemma bank_store_mint:
  assumes "Mint_pack v k led = Inr led'" and "acc_owner (led k) = pid"
  shows "bank_of pid led' = (bank_of pid led)\<lparr>bk_mints := (bk_mints (bank_of pid led))(k \<mapsto> v)\<rparr>"
proof -
  obtain bs where led': "led' = set_data k bs led" and l: "length (acc_data (led k)) = MINT_LEN"
    and bs: "length bs = MINT_LEN" "Mint_unpack_unchecked bs = Inr v"
    using Mint_pack_spec [OF assms(1)] .
  have "token_account pid (led k) = None" using l by (simp add: token_account_None)
  then show ?thesis
    using assms(2) bs
    by (intro bank_eqI) (auto simp: led' token_mint_def token_account_None set_data_def)
qed

text \<open>
  A store into an account the program does not own is only accepted if it changes nothing.
\<close>

lemma bank_store_account_foreign:
  assumes "Account_pack v k led = Inr led'" and "acc_owner (led k) \<noteq> pid"
  shows "bank_of pid led' = bank_of pid led"
proof -
  obtain bs where "led' = set_data k bs led" using Account_pack_spec [OF assms(1)] .
  then show ?thesis
    using assms(2) by (intro bank_eqI) (auto simp: token_account_def token_mint_def set_data_def)
qed

lemma bank_store_mint_foreign:
  assumes "Mint_pack v k led = Inr led'" and "acc_owner (led k) \<noteq> pid"
  shows "bank_of pid led' = bank_of pid led"
proof -
  obtain bs where "led' = set_data k bs led" using Mint_pack_spec [OF assms(1)] .
  then show ?thesis
    using assms(2) by (intro bank_eqI) (auto simp: token_account_def token_mint_def set_data_def)
qed

lemma token_account_iff:
  "token_account pid a = Some v \<longleftrightarrow> acc_owner a = pid \<and> Account_unpack (acc_data a) = Inr v"
  by (auto simp: token_account_def split: sum.splits)

lemma token_mint_iff:
  "token_mint pid a = Some v \<longleftrightarrow> acc_owner a = pid \<and> Mint_unpack_unchecked (acc_data a) = Inr v"
  by (auto simp: token_mint_def split: sum.splits)

lemma token_accountI:
  "Account_unpack (acc_data a) = Inr v \<Longrightarrow> acc_owner a = pid \<Longrightarrow> token_account pid a = Some v"
  by (simp add: token_account_def)

lemma token_mintI:
  "Mint_unpack_unchecked (acc_data a) = Inr v \<Longrightarrow> acc_owner a = pid \<Longrightarrow> token_mint pid a = Some v"
  by (simp add: token_mint_def)

end
