(* ===== verification/Token_Supply.thy ===== *)
theory Token_Supply
  imports Token_Bank "HOL-Library.Sublist"
begin

text \<open>
  Every instruction of the token program is a step of the abstract bank.  First what each handler
  did when it succeeded (inversion lemmas), then the refinement, then the consequences for
  whole runs: supply, backing, authorisation, freezing.
\<close>

section \<open>What a successful handler did\<close>

lemma check_account_owner_Inr [res_simps]:
  "check_account_owner pid led a = Inr u \<longleftrightarrow> info_owner led a = pid"
  by (auto simp: check_account_owner_def cmp_pubkeys_def)

lemma case_prod_Inr [res_simps]: "(case p of (x, y) \<Rightarrow> f x y) = Inr r \<longleftrightarrow> f (fst p) (snd p) = Inr r"
  by (cases p) simp

lemma transfer_authority_Inr:
  assumes "transfer_authority pid led source auth signers amt self = Inr source'"
  shows "ta_amount source' = ta_amount source" and "ta_mint source' = ta_mint source"
    and "ta_is_native source' = ta_is_native source" and "ta_state source' = ta_state source"
    and "ta_owner source' = ta_owner source"
    and "validate_owner pid led (ta_owner source) auth signers = Inr () \<or>
      ta_delegate source = Some (ai_key auth) \<and> amt \<le> ta_delegated_amount source \<and>
      validate_owner pid led (ai_key auth) auth signers = Inr ()"
  using assms
  by (auto simp: transfer_authority_def cmp_pubkeys_def res_simps Let_def split: option.splits if_splits)

lemma process_transfer_Inr:
  assumes "process_transfer pid accounts amt ed led = Inr led'"
  obtains
    (self) src source where "Account_unpack (info_data led src) = Inr source" and "led' = led"
  | (move) src it expected dst auth signers source destination source' sa da led1 led2 where
      "accounts = src # it" and "take_expected_mint it ed = Inr (expected, dst # auth # signers)"
      and "Account_unpack (info_data led src) = Inr source"
      and "Account_unpack (info_data led dst) = Inr destination"
      and "transfer_authority pid led source auth signers amt False = Inr source'"
      and "(if is_native source' then move_lamports (ai_key src) (ai_key dst) amt led else Inr led) = Inr led1"
      and "Account_pack (source'\<lparr>ta_amount := sa\<rparr>) (ai_key src) led1 = Inr led2"
      and "Account_pack (destination\<lparr>ta_amount := da\<rparr>) (ai_key dst) led2 = Inr led'"
      and "ai_key src \<noteq> ai_key dst"
      and "\<not> is_frozen source" and "\<not> is_frozen destination" and "ta_mint source = ta_mint destination"
      and "amt = 0 \<longrightarrow> info_owner led src = pid \<and> info_owner led dst = pid"
      and "unat (ta_amount source) = unat sa + unat amt"
      and "unat da = unat (ta_amount destination) + unat amt"
proof -
  from assms show thesis
    unfolding process_transfer_def Let_def cmp_pubkeys_def
    apply (elim peel_infos)
    subgoal for src _ expected _ dst
      apply (cases "ai_key src = ai_key dst")
       apply (rule self, assumption, simp)
      apply (frule transfer_authority_Inr(1))
      apply (simp only: if_False simp_thms)
      apply (elim peel)
      by (rule move, assumption, simp (no_asm_simp), assumption+)
         (auto simp: res_simps checked_simps)
    done
qed

text \<open>
  Several handlers only rewrite one account, keeping its money, or one mint, keeping its supply.
\<close>

definition account_managed :: "ledger \<Rightarrow> ledger \<Rightarrow> bool" where
  "account_managed led led' \<longleftrightarrow>
     (\<exists>k v v'. Account_unpack (acc_data (led k)) = Inr v \<and> same_money v v' \<and>
        account_is_initialized v' \<and> Account_pack v' k led = Inr led')"

definition mint_managed :: "ledger \<Rightarrow> ledger \<Rightarrow> bool" where
  "mint_managed led led' \<longleftrightarrow>
     (\<exists>k v v'. Mint_unpack_unchecked (acc_data (led k)) = Inr v \<and> mint_supply v' = mint_supply v \<and>
        Mint_pack v' k led = Inr led')"

lemma account_managedI:
  "Account_unpack (acc_data (led k)) = Inr v \<Longrightarrow> Account_pack v' k led = Inr led' \<Longrightarrow>
   same_money v v' \<Longrightarrow> account_is_initialized v' \<Longrightarrow> account_managed led led'"
  by (auto simp: account_managed_def)

lemma mint_managedI:
  "Mint_unpack_unchecked (acc_data (led k)) = Inr v \<Longrightarrow> Mint_pack v' k led = Inr led' \<Longrightarrow>
   mint_supply v' = mint_supply v \<Longrightarrow> mint_managed led led'"
  by (auto simp: mint_managed_def)

lemma process_approve_managed:
  assumes "process_approve pid accounts amt ed led = Inr led'"
  shows "account_managed led led'"
  using assms unfolding process_approve_def
  by (elim peel, intro account_managedI)
     (assumption | simp add: same_money_def account_is_initialized_def Account_unpack_iff)+

lemma process_revoke_managed:
  assumes "process_revoke pid accounts led = Inr led'"
  shows "account_managed led led'"
  using assms unfolding process_revoke_def
  by (elim peel, intro account_managedI)
     (assumption | simp add: same_money_def account_is_initialized_def Account_unpack_iff)+

lemma process_toggle_freeze_managed:
  assumes "process_toggle_freeze_account pid accounts freeze led = Inr led'"
  shows "account_managed led led'"
  using assms unfolding process_toggle_freeze_account_def
  by (elim peel, intro account_managedI)
     (assumption | simp add: same_money_def account_is_initialized_def Account_unpack_iff)+

lemma set_account_authority_Inr:
  assumes "set_account_authority pid led acct t new auth signers = Inr acct'"
  shows "same_money acct acct'" and "ta_state acct' = ta_state acct"
  using assms
  by (auto simp: set_account_authority_def same_money_def res_simps Let_def
      split: AuthorityType.splits option.splits)

lemma set_mint_authority_Inr:
  assumes "set_mint_authority pid led m t new auth signers = Inr m'"
  shows "mint_supply m' = mint_supply m" and "mint_is_initialized m' = mint_is_initialized m"
    and "mint_decimals m' = mint_decimals m"
  using assms by (auto simp: set_mint_authority_def res_simps split: AuthorityType.splits)

lemma process_set_authority_Inr:
  assumes "process_set_authority pid accounts t new led = Inr led'"
  obtains
    (account) info auth signers v v' where "accounts = info # auth # signers"
      and "Account_unpack (info_data led info) = Inr v" and "\<not> is_frozen v"
      and "set_account_authority pid led v t new auth signers = Inr v'"
      and "Account_pack v' (ai_key info) led = Inr led'"
  | (mint) info auth signers v v' where "accounts = info # auth # signers"
      and "Mint_unpack (info_data led info) = Inr v"
      and "set_mint_authority pid led v t new auth signers = Inr v'"
      and "Mint_pack v' (ai_key info) led = Inr led'"
proof -
  from assms show thesis
    unfolding process_set_authority_def
    apply (elim peel_infos)
    subgoal for info it auth signers
      apply (cases "length (info_data led info) = ACCOUNT_LEN"; simp only: if_True if_False simp_thms)
       apply (elim peel, rule account, simp, assumption+)
      apply (cases "length (info_data led info) = MINT_LEN"; simp only: if_True if_False simp_thms sum.distinct)
      apply (elim peel, rule mint, simp, assumption+)
      done
    done
qed

lemma process_set_authority_managed:
  assumes "process_set_authority pid accounts t new led = Inr led'"
  shows "account_managed led led' \<or> mint_managed led led'"
  using assms
proof (cases rule: process_set_authority_Inr)
  case (account info auth signers v v')
  then show ?thesis
    using account_managedI [OF account(2,5)] set_account_authority_Inr [OF account(4)]
    by (simp add: account_is_initialized_def Account_unpack_iff)
next
  case (mint info auth signers v v')
  then show ?thesis
    using mint_managedI [OF _ mint(4)] set_mint_authority_Inr [OF mint(3)] by (simp add: Mint_unpack_iff)
qed

lemma process_initialize_mint_managed:
  assumes "process_initialize_mint_inner R accounts d auth fr rsa led = Inr led'"
  shows "mint_managed led led'"
  using assms unfolding process_initialize_mint_inner_def
  by (elim peel, intro mint_managedI) (assumption | simp)+

lemma assign_signers_length: "assign_signers i ss keys = Inr keys' \<Longrightarrow> length keys' = length keys"
  by (induction i ss keys rule: assign_signers.induct) (auto split: if_splits)

lemma process_initialize_multisig_Inr:
  assumes "process_initialize_multisig_inner R accounts m rsa led = Inr led'"
  obtains k v where "Multisig_pack v k led = Inr led'" and "multisig_wf v"
  using assms unfolding process_initialize_multisig_inner_def Let_def
proof (elim peel)
  fix info it rent signer_infos ms keys
  assume "Multisig_unpack_unchecked (info_data led info) = Inr ms"
    and k: "assign_signers 0 signer_infos
      (ms_signers (ms\<lparr>ms_m := m, ms_n := of_nat (length signer_infos)\<rparr>)) = Inr keys"
    and pk: "Multisig_pack (ms\<lparr>ms_m := m, ms_n := of_nat (length signer_infos), ms_signers := keys,
      ms_is_initialized := True\<rparr>) (ai_key info) led = Inr led'"
  then have "multisig_wf ms"
    using multisig_packed.from_wf
    by (auto simp: Multisig_unpack_unchecked_def multisig_packed.unpack_unchecked_eq_Inr)
  then show thesis
    using that [OF pk] assign_signers_length [OF k] by (simp add: multisig_wf_def)
qed

lemma process_initialize_account_Inr:
  assumes "process_initialize_account_inner R pid accounts ow rsa led = Inr led'"
  obtains k old v where "Account_unpack_unchecked (acc_data (led k)) = Inr old"
    and "\<not> account_is_initialized old" and "Account_pack v k led = Inr led'"
    and "account_is_initialized v"
    and "if ta_mint v = native_mint_id R
      then (\<exists>r. ta_is_native v = Some r \<and> unat (ta_amount v) + unat r = unat (acc_lamports (led k)))
      else ta_is_native v = None \<and> ta_amount v = 0"
  using assms unfolding process_initialize_account_inner_def Let_def cmp_pubkeys_def
  by (elim peel)
     (rule that, assumption, assumption, assumption,
      auto simp: account_is_initialized_def res_simps checked_simps split: if_splits)

lemma process_mint_to_Inr:
  assumes "process_mint_to pid accounts amt ed led = Inr led'"
  obtains mint_info dst ow signers destination mint auth na ns led1 where
    "accounts = mint_info # dst # ow # signers"
    and "Account_unpack (info_data led dst) = Inr destination"
    and "Mint_unpack (info_data led mint_info) = Inr mint"
    and "\<not> is_frozen destination" and "\<not> is_native destination"
    and "ai_key mint_info = ta_mint destination"
    and "mint_authority mint = Some auth" and "validate_owner pid led auth ow signers = Inr ()"
    and "amt = 0 \<longrightarrow> info_owner led mint_info = pid \<and> info_owner led dst = pid"
    and "unat na = unat (ta_amount destination) + unat amt"
    and "unat ns = unat (mint_supply mint) + unat amt"
    and "Account_pack (destination\<lparr>ta_amount := na\<rparr>) (ai_key dst) led = Inr led1"
    and "Mint_pack (mint\<lparr>mint_supply := ns\<rparr>) (ai_key mint_info) led1 = Inr led'"
  using assms unfolding process_mint_to_def cmp_pubkeys_def
  by (elim peel_infos)
     (rule that, simp, (assumption | rule impI, simp add: res_simps | simp add: res_simps checked_simps)+)

lemma burn_authority_Inr:
  assumes "burn_authority R pid led source auth signers amt = Inr source'"
  shows "ta_amount source' = ta_amount source" and "ta_mint source' = ta_mint source"
    and "ta_is_native source' = ta_is_native source" and "ta_state source' = ta_state source"
    and "ta_owner source' = ta_owner source"
    and "is_owned_by_system_program_or_incinerator R source \<or>
      validate_owner pid led (ta_owner source) auth signers = Inr () \<or>
      ta_delegate source = Some (ai_key auth) \<and> amt \<le> ta_delegated_amount source \<and>
      validate_owner pid led (ai_key auth) auth signers = Inr ()"
  using assms
  by (auto simp: burn_authority_def cmp_pubkeys_def res_simps Let_def split: option.splits if_splits)

lemma process_burn_Inr:
  assumes "process_burn R pid accounts amt ed led = Inr led'"
  obtains src mint_info auth signers source mint source' na ns led1 where
    "accounts = src # mint_info # auth # signers"
    and "Account_unpack (info_data led src) = Inr source"
    and "Mint_unpack (info_data led mint_info) = Inr mint"
    and "burn_authority R pid led source auth signers amt = Inr source'"
    and "\<not> is_frozen source" and "\<not> is_native source"
    and "ai_key mint_info = ta_mint source"
    and "amt = 0 \<longrightarrow> info_owner led src = pid \<and> info_owner led mint_info = pid"
    and "unat (ta_amount source) = unat na + unat amt"
    and "unat (mint_supply mint) = unat ns + unat amt"
    and "Account_pack (source'\<lparr>ta_amount := na\<rparr>) (ai_key src) led = Inr led1"
    and "Mint_pack (mint\<lparr>mint_supply := ns\<rparr>) (ai_key mint_info) led1 = Inr led'"
  using assms unfolding process_burn_def cmp_pubkeys_def
  by (elim peel_infos)
     (frule burn_authority_Inr(1), rule that, simp, (assumption | auto simp: res_simps checked_simps)+)

lemma process_close_account_Inr:
  assumes "process_close_account R pid accounts led = Inr led'"
  obtains src dst auth signers source n where
    "accounts = src # dst # auth # signers"
    and "Account_unpack (info_data led src) = Inr source"
    and "ai_key src \<noteq> ai_key dst" and "is_native source \<or> ta_amount source = 0"
    and "is_owned_by_system_program_or_incinerator R source \<or>
      validate_owner pid led (case ta_close_authority source of Some k \<Rightarrow> k | None \<Rightarrow> ta_owner source)
        auth signers = Inr ()"
    and "unat n = unat (info_lamports led dst) + unat (info_lamports led src)"
    and "led' = set_data (ai_key src) (replicate ACCOUNT_LEN 0)
      (set_lamports (ai_key src) 0 (set_lamports (ai_key dst) n led))"
  using assms unfolding process_close_account_def cmp_pubkeys_def Let_def
  by (elim peel_infos)
     (rule that, simp, assumption,
      auto simp: res_simps checked_simps Account_unpack_def account_packed.unpack_eq_Inr split: if_splits)

lemma process_sync_native_Inr:
  assumes "process_sync_native pid accounts led = Inr led'"
  obtains info v r n where "Account_unpack (info_data led info) = Inr v" and "ta_is_native v = Some r"
    and "unat n + unat r = unat (info_lamports led info)" and "ta_amount v \<le> n"
    and "info_owner led info = pid"
    and "Account_pack (v\<lparr>ta_amount := n\<rparr>) (ai_key info) led = Inr led'"
  using assms unfolding process_sync_native_def
  by (elim peel_infos) (rule that, (assumption | auto simp: res_simps checked_simps)+)

section \<open>Handlers are bank steps\<close>

lemma account_managed_step:
  assumes "account_managed led led'"
  shows "bank_step native (bank_of pid led) (bank_of pid led')"
proof -
  from assms obtain k v v' where v: "Account_unpack (acc_data (led k)) = Inr v" and m: "same_money v v'"
    and i: "account_is_initialized v'" and pk: "Account_pack v' k led = Inr led'"
    by (auto simp: account_managed_def)
  show ?thesis
  proof (cases "acc_owner (led k) = pid")
    case True
    show ?thesis
      unfolding bank_store_account [OF pk True i]
      by (rule bank_step.manage [OF _ m]) (simp add: token_accountI [OF v True])
  next
    case False
    then show ?thesis by (simp add: bank_store_account_foreign [OF pk] bank_step.quiet)
  qed
qed

lemma mint_managed_step:
  assumes "mint_managed led led'"
  shows "bank_step native (bank_of pid led) (bank_of pid led')"
proof -
  from assms obtain k v v' where v: "Mint_unpack_unchecked (acc_data (led k)) = Inr v"
    and m: "mint_supply v' = mint_supply v" and pk: "Mint_pack v' k led = Inr led'"
    by (auto simp: mint_managed_def)
  show ?thesis
  proof (cases "acc_owner (led k) = pid")
    case True
    show ?thesis
      unfolding bank_store_mint [OF pk True]
      by (rule bank_step.open_mint [OF _ m]) (simp add: token_mintI [OF v True])
  next
    case False
    then show ?thesis by (simp add: bank_store_mint_foreign [OF pk] bank_step.quiet)
  qed
qed

lemma initialize_multisig_bank:
  assumes "process_initialize_multisig_inner R accounts m rsa led = Inr led'"
  shows "bank_of pid led' = bank_of pid led"
proof -
  obtain k v where pk: "Multisig_pack v k led = Inr led'" and wf: "multisig_wf v"
    using process_initialize_multisig_Inr [OF assms] .
  have other: "x \<noteq> k \<Longrightarrow> led' x = led x"
    and lam: "acc_lamports (led' x) = acc_lamports (led x)" for x
    using multisig_packed.stored_frame pk unfolding Multisig_pack_def by blast+
  have l: "length (acc_data (led k)) = MULTISIG_LEN"
    and l': "length (acc_data (led' k)) = MULTISIG_LEN"
    using multisig_packed.stored_at_length multisig_packed.stored_length [of v k led led' k] pk wf
    unfolding Multisig_pack_def by auto
  have "token_account pid (led' x) = token_account pid (led x) \<and>
      token_mint pid (led' x) = token_mint pid (led x)" for x
    using l l' other [of x] by (cases "x = k") (simp_all add: token_account_None token_mint_None)
  then show ?thesis by (intro bank_eqI) (simp_all add: lam)
qed

lemma initialize_account_step:
  assumes "process_initialize_account_inner R pid accounts ow rsa led = Inr led'"
  shows "bank_step (native_mint_id R) (bank_of pid led) (bank_of pid led')"
proof -
  from assms obtain k old v where u: "Account_unpack_unchecked (acc_data (led k)) = Inr old"
    and old: "\<not> account_is_initialized old" and pk: "Account_pack v k led = Inr led'"
    and i: "account_is_initialized v"
    and kind: "if ta_mint v = native_mint_id R
      then (\<exists>r. ta_is_native v = Some r \<and> unat (ta_amount v) + unat r = unat (acc_lamports (led k)))
      else ta_is_native v = None \<and> ta_amount v = 0"
    by (rule process_initialize_account_Inr)
  show ?thesis
  proof (cases "acc_owner (led k) = pid")
    case True
    have none: "bk_accounts (bank_of pid led) k = None"
      using u old by (auto simp: token_account_def Account_unpack_iff split: sum.splits)
    show ?thesis
    proof (cases "ta_mint v = native_mint_id R")
      case True
      with kind obtain r where "ta_is_native v = Some r"
        "unat (ta_amount v) + unat r = bk_lamports (bank_of pid led) k" by auto
      then show ?thesis
        unfolding bank_store_account [OF pk \<open>acc_owner (led k) = pid\<close> i]
        by (rule bank_step.wrap [where k = k and a = v, OF none True])
    next
      case False
      with kind show ?thesis
        unfolding bank_store_account [OF pk \<open>acc_owner (led k) = pid\<close> i]
        by (intro bank_step.open_account [where k = k and a = v, OF none False]) auto
    qed
  next
    case False
    then show ?thesis by (simp add: bank_store_account_foreign [OF pk] bank_step.quiet)
  qed
qed

lemma move_lamports_Inr:
  assumes "move_lamports s d n led = Inr led'" and "s \<noteq> d"
  obtains x y where "unat n \<le> unat (acc_lamports (led s))"
    and "unat x = unat (acc_lamports (led s)) - unat n"
    and "unat y = unat (acc_lamports (led d)) + unat n"
    and "led' = set_lamports d y (set_lamports s x led)"
  using assms by (auto simp: move_lamports_def res_simps checked_simps Let_def)

text \<open>
  A changed balance is a changed account, so an accepted run changed it in an account of the
  program: this is how the sources can leave out owner checks when the amount is not zero.
\<close>

lemma changed_account_owned:
  assumes "runtime_accepts pid led led'" and "Account_unpack (acc_data (led k)) = Inr v"
    and "Account_unpack_unchecked (acc_data (led' k)) = Inr v'" and "v \<noteq> v'"
  shows "acc_owner (led k) = pid"
  using assms unfolding runtime_accepts_def Account_unpack_iff by (metis Inr_inject)

lemma changed_mint_owned:
  assumes "runtime_accepts pid led led'" and "Mint_unpack (acc_data (led k)) = Inr v"
    and "Mint_unpack_unchecked (acc_data (led' k)) = Inr v'" and "v \<noteq> v'"
  shows "acc_owner (led k) = pid"
  using assms unfolding runtime_accepts_def Mint_unpack_iff by (metis Inr_inject)

lemma Account_pack_at:
  assumes "Account_pack v k led = Inr led'"
  shows "Account_unpack_unchecked (acc_data (led' k)) = Inr v" and "x \<noteq> k \<Longrightarrow> led' x = led x"
    and "acc_owner (led' x) = acc_owner (led x)" and "acc_lamports (led' x) = acc_lamports (led x)"
  by (rule Account_pack_spec [OF assms], simp add: set_data_def)+

lemma Mint_pack_at:
  assumes "Mint_pack v k led = Inr led'"
  shows "Mint_unpack_unchecked (acc_data (led' k)) = Inr v" and "x \<noteq> k \<Longrightarrow> led' x = led x"
    and "acc_owner (led' x) = acc_owner (led x)" and "acc_lamports (led' x) = acc_lamports (led x)"
  by (rule Mint_pack_spec [OF assms], simp add: set_data_def)+

text \<open>The two stores of a transfer, with the lamports that move along, as one update of the bank.\<close>

lemma move_lamports_bank:
  assumes "(if native then move_lamports s d amt led else Inr led) = Inr led1" and "s \<noteq> d"
  shows "bank_of pid led1 = (bank_of pid led)\<lparr>bk_lamports := (if native
      then (bk_lamports (bank_of pid led))(s := bk_lamports (bank_of pid led) s - unat amt,
             d := bk_lamports (bank_of pid led) d + unat amt)
      else bk_lamports (bank_of pid led))\<rparr>"
    and "acc_owner (led1 x) = acc_owner (led x)"
    and "native \<Longrightarrow> unat amt \<le> unat (acc_lamports (led s))"
proof -
  have "bank_of pid led1 = (bank_of pid led)\<lparr>bk_lamports := (if native
      then (bk_lamports (bank_of pid led))(s := bk_lamports (bank_of pid led) s - unat amt,
             d := bk_lamports (bank_of pid led) d + unat amt)
      else bk_lamports (bank_of pid led))\<rparr> \<and>
    (\<forall>x. acc_owner (led1 x) = acc_owner (led x)) \<and> (native \<longrightarrow> unat amt \<le> unat (acc_lamports (led s)))"
  proof (cases native)
    case True
    with assms obtain x y where "unat amt \<le> unat (acc_lamports (led s))"
      and "unat x = unat (acc_lamports (led s)) - unat amt"
      and "unat y = unat (acc_lamports (led d)) + unat amt"
      and "led1 = set_lamports d y (set_lamports s x led)"
      by (auto elim: move_lamports_Inr)
    then show ?thesis
      using True assms(2)
      by (simp add: bank_of_def token_account_def token_mint_def fun_eq_iff)
  qed (use assms in simp)
  then show "bank_of pid led1 = (bank_of pid led)\<lparr>bk_lamports := (if native
      then (bk_lamports (bank_of pid led))(s := bk_lamports (bank_of pid led) s - unat amt,
             d := bk_lamports (bank_of pid led) d + unat amt)
      else bk_lamports (bank_of pid led))\<rparr>"
    and "acc_owner (led1 x) = acc_owner (led x)"
    and "native \<Longrightarrow> unat amt \<le> unat (acc_lamports (led s))"
    by simp_all
qed

lemma two_stores_bank:
  assumes "Account_pack v s led = Inr led1" and "Account_pack w d led1 = Inr led2"
    and "acc_owner (led s) = pid" and "acc_owner (led d) = pid"
    and "account_is_initialized v" and "account_is_initialized w"
  shows "bank_of pid led2 =
    (bank_of pid led)\<lparr>bk_accounts := (bk_accounts (bank_of pid led))(s \<mapsto> v, d \<mapsto> w)\<rparr>"
  using bank_store_account [OF assms(1,3,5)] bank_store_account [OF assms(2) _ assms(6), of pid]
    Account_pack_at(3) [OF assms(1)] assms(4) by simp

lemma transfer_owned:
  assumes "runtime_accepts pid led led'" and "Account_unpack (acc_data (led k)) = Inr v"
    and "Account_unpack_unchecked (acc_data (led' k)) = Inr v'"
    and "amt = 0 \<longrightarrow> acc_owner (led k) = pid"
    and "unat (ta_amount v) = unat (ta_amount v') + unat amt \<or> unat (ta_amount v') = unat (ta_amount v) + unat amt"
  shows "acc_owner (led k) = pid"
proof (cases "amt = 0")
  case False
  then have "unat amt \<noteq> 0" by (simp add: unat_eq_zero)
  with assms(5) have "v \<noteq> v'" by auto
  then show ?thesis using changed_account_owned [OF assms(1-3)] by blast
qed (use assms(4) in simp)

lemma transfer_step:
  assumes run: "process_transfer pid accounts amt ed led = Inr led'" and ok: "runtime_accepts pid led led'"
  shows "bank_step native (bank_of pid led) (bank_of pid led')"
  using run
proof (cases rule: process_transfer_Inr)
  case self
  then show ?thesis by (simp add: bank_step.quiet)
next
  case (move src it expected dst auth signers source destination source' sa da led1 led2)
  note s' = transfer_authority_Inr(1-4) [OF move(5)]
  let ?s = "ai_key src" and ?d = "ai_key dst" and ?b = "bank_of pid led"
  have nat: "is_native source' = is_native source" using s' by (simp add: is_native_def)
  note mv = move_lamports_bank [OF move(6) move(9)]
  have own_s: "acc_owner (led ?s) = pid"
    by (rule transfer_owned [OF ok move(3), of "source'\<lparr>ta_amount := sa\<rparr>" amt])
      (use Account_pack_at(1) [OF move(7)] Account_pack_at(2) [OF move(8) move(9)] move(13,14) in simp_all)
  have own_d: "acc_owner (led ?d) = pid"
    by (rule transfer_owned [OF ok move(4) Account_pack_at(1) [OF move(8)], of amt])
      (use move(13,15) in simp_all)
  have i: "account_is_initialized (source'\<lparr>ta_amount := sa\<rparr>)"
    "account_is_initialized (destination\<lparr>ta_amount := da\<rparr>)"
    using move(3,4) s' by (auto simp: Account_unpack_iff account_is_initialized_def)
  have "bank_of pid led' = ?b\<lparr>bk_accounts := (bk_accounts ?b)(?s \<mapsto> source'\<lparr>ta_amount := sa\<rparr>,
      ?d \<mapsto> destination\<lparr>ta_amount := da\<rparr>), bk_lamports := (if is_native source'
      then (bk_lamports ?b)(?s := bk_lamports ?b ?s - unat amt, ?d := bk_lamports ?b ?d + unat amt)
      else bk_lamports ?b)\<rparr>"
    using two_stores_bank [OF move(7,8) _ _ i, of pid] mv(1,2) own_s own_d by simp
  also have "bank_step native ?b \<dots>"
  proof (rule bank_step.pay)
    show "bk_accounts ?b ?s = Some source" and "bk_accounts ?b ?d = Some destination"
      using token_accountI [OF move(3) own_s] token_accountI [OF move(4) own_d] by simp_all
  qed (use move(9,12,14,15) s' mv(3) in \<open>auto simp: is_native_def\<close>)
  finally show ?thesis .
qed

lemma changed_supply_owned:
  assumes "runtime_accepts pid led led'" and "Mint_unpack (acc_data (led k)) = Inr v"
    and "Mint_unpack_unchecked (acc_data (led' k)) = Inr v'"
    and "amt = 0 \<longrightarrow> acc_owner (led k) = pid"
    and "unat (mint_supply v) = unat (mint_supply v') + unat amt \<or>
         unat (mint_supply v') = unat (mint_supply v) + unat amt"
  shows "acc_owner (led k) = pid"
proof (cases "amt = 0")
  case False
  then have "unat amt \<noteq> 0" by (simp add: unat_eq_zero)
  with assms(5) have "v \<noteq> v'" by auto
  then show ?thesis using changed_mint_owned [OF assms(1-3)] by blast
qed (use assms(4) in simp)

text \<open>An account and a mint stored one after the other: they cannot be the same account.\<close>

lemma account_mint_stores:
  assumes "Account_pack v s led = Inr led1" and "Mint_pack m k led1 = Inr led2"
    and "Mint_unpack (acc_data (led k)) = Inr m0"
  shows "s \<noteq> k" and "Account_unpack_unchecked (acc_data (led2 s)) = Inr v"
    and "Mint_unpack_unchecked (acc_data (led2 k)) = Inr m"
proof -
  have "length (acc_data (led s)) = ACCOUNT_LEN" using Account_pack_spec [OF assms(1)] by blast
  moreover have "length (acc_data (led k)) = MINT_LEN"
    using assms(3) by (simp add: Mint_unpack_def mint_packed.unpack_eq_Inr)
  ultimately show ne: "s \<noteq> k" by auto
  show "Account_unpack_unchecked (acc_data (led2 s)) = Inr v"
    using Account_pack_at(1) [OF assms(1)] Mint_pack_at(2) [OF assms(2) ne] by simp
  show "Mint_unpack_unchecked (acc_data (led2 k)) = Inr m" by (rule Mint_pack_at(1) [OF assms(2)])
qed

lemma account_mint_stores_bank:
  assumes "Account_pack v s led = Inr led1" and "Mint_pack m k led1 = Inr led2"
    and "acc_owner (led s) = pid" and "acc_owner (led k) = pid" and "account_is_initialized v"
  shows "bank_of pid led2 = (bank_of pid led)\<lparr>bk_accounts := (bk_accounts (bank_of pid led))(s \<mapsto> v),
    bk_mints := (bk_mints (bank_of pid led))(k \<mapsto> m)\<rparr>"
  using bank_store_account [OF assms(1,3,5)] bank_store_mint [OF assms(2), of pid]
    Account_pack_at(3) [OF assms(1)] assms(4) by simp

lemma mint_to_step:
  assumes run: "process_mint_to pid accounts amt ed led = Inr led'" and ok: "runtime_accepts pid led led'"
  shows "bank_step native (bank_of pid led) (bank_of pid led')"
  using run
proof (cases rule: process_mint_to_Inr)
  case (1 mint_info dst ow signers destination mint auth na ns led1)
  let ?k = "ai_key mint_info" and ?d = "ai_key dst" and ?b = "bank_of pid led"
  note st = account_mint_stores [OF 1(12,13,3)]
  have own_d: "acc_owner (led ?d) = pid"
    by (rule transfer_owned [OF ok 1(2) st(2), of amt]) (use 1(9,10) in simp_all)
  have own_k: "acc_owner (led ?k) = pid"
    by (rule changed_supply_owned [OF ok 1(3) st(3), of amt]) (use 1(9,11) in simp_all)
  have i: "account_is_initialized (destination\<lparr>ta_amount := na\<rparr>)"
    using 1(2) by (simp add: Account_unpack_iff account_is_initialized_def)
  have "Mint_unpack_unchecked (info_data led mint_info) = Inr mint" using 1(3) by (simp add: Mint_unpack_iff)
  then show ?thesis
    unfolding account_mint_stores_bank [OF 1(12,13) own_d own_k i]
    by (intro bank_step.issue [where m = mint and c = destination and n = "unat amt"])
       (use 1 own_d own_k in \<open>simp_all add: token_accountI token_mintI is_native_def\<close>)
qed

lemma burn_step:
  assumes run: "process_burn R pid accounts amt ed led = Inr led'" and ok: "runtime_accepts pid led led'"
  shows "bank_step native (bank_of pid led) (bank_of pid led')"
  using run
proof (cases rule: process_burn_Inr)
  case (1 src mint_info auth signers source mint source' na ns led1)
  let ?k = "ai_key mint_info" and ?s = "ai_key src" and ?b = "bank_of pid led"
  note st = account_mint_stores [OF 1(11,12,3)] and s' = burn_authority_Inr(1-4) [OF 1(4)]
  have own_s: "acc_owner (led ?s) = pid"
    by (rule transfer_owned [OF ok 1(2) st(2), of amt]) (use 1(8,9) in simp_all)
  have own_k: "acc_owner (led ?k) = pid"
    by (rule changed_supply_owned [OF ok 1(3) st(3), of amt]) (use 1(8,10) in simp_all)
  have i: "account_is_initialized (source'\<lparr>ta_amount := na\<rparr>)"
    using 1(2) s' by (simp add: Account_unpack_iff account_is_initialized_def)
  have "Mint_unpack_unchecked (info_data led mint_info) = Inr mint" using 1(3) by (simp add: Mint_unpack_iff)
  then show ?thesis
    unfolding account_mint_stores_bank [OF 1(11,12) own_s own_k i]
    by (intro bank_step.destroy [where m = mint and a = source and n = "unat amt"])
       (use 1 s' own_s own_k in \<open>simp_all add: token_accountI token_mintI is_native_def\<close>)
qed

lemma zeroed_account: "token_account pid a = None" if "acc_data a = replicate ACCOUNT_LEN 0"
proof -
  have "\<exists>v. Account_unpack_from_slice (replicate ACCOUNT_LEN 0) = Inr v \<and> ta_state v = Uninitialized"
    by (simp add: Account_unpack_from_slice_def unpack_coption_key_def unpack_coption_u64_def subslice_def
        AccountState_try_from_primitive_def numeral_eq_Suc)
  then show ?thesis
    by (auto simp: that token_account_def Account_unpack_def Pack_unpack_def Pack_unpack_unchecked_def
        account_is_initialized_def)
qed

lemma close_step:
  assumes run: "process_close_account R pid accounts led = Inr led'" and ok: "runtime_accepts pid led led'"
  shows "bank_step native (bank_of pid led) (bank_of pid led')"
  using run
proof (cases rule: process_close_account_Inr)
  case (1 src dst auth signers source n)
  let ?s = "ai_key src" and ?d = "ai_key dst" and ?b = "bank_of pid led"
  have data: "acc_data (led' ?s) = replicate ACCOUNT_LEN 0" using 1(7) by simp
  have z: "token_account q (led' ?s) = None" for q by (rule zeroed_account [OF data])
  have "acc_data (led' ?s) \<noteq> acc_data (led ?s)"
    using z [of "acc_owner (led' ?s)"] 1(2) by (auto simp: token_account_def)
  then have own: "acc_owner (led ?s) = pid" using ok unfolding runtime_accepts_def by blast
  have "length (acc_data (led ?s)) = ACCOUNT_LEN"
    using 1(2) by (simp add: Account_unpack_def account_packed.unpack_eq_Inr)
  then have m: "token_mint pid (led ?s) = None" "token_mint pid (led' ?s) = None"
    by (simp_all add: token_mint_None data)
  have "bank_of pid led' = ?b\<lparr>bk_accounts := (bk_accounts ?b)(?s := None),
      bk_lamports := (bk_lamports ?b)(?s := 0, ?d := bk_lamports ?b ?d + bk_lamports ?b ?s)\<rparr>"
    using z [of pid] m 1(3,6)
    by (intro bank_eqI) (auto simp: 1(7) token_account_def token_mint_def)
  also have "bank_step native ?b \<dots>"
    by (rule bank_step.close [where a = source])
       (use 1 own in \<open>auto simp: token_accountI is_native_def\<close>)
  finally show ?thesis .
qed

lemma sync_native_step:
  assumes run: "process_sync_native pid accounts led = Inr led'"
  shows "bank_step native (bank_of pid led) (bank_of pid led')"
  using run
proof (cases rule: process_sync_native_Inr)
  case (1 info v r n)
  have i: "account_is_initialized (v\<lparr>ta_amount := n\<rparr>)"
    using 1(1) by (simp add: Account_unpack_iff account_is_initialized_def)
  show ?thesis
    unfolding bank_store_account [OF 1(6) 1(5) i]
    by (rule bank_step.sync [where a = v and r = r]) (use 1 in \<open>simp_all add: token_accountI\<close>)
qed

section \<open>The program refines the bank\<close>

lemmas initialize_defs =
  process_initialize_mint_def process_initialize_mint2_def
  process_initialize_account_def process_initialize_account2_def process_initialize_account3_def
  process_initialize_multisig_def process_initialize_multisig2_def

lemma no_return_Inr [res_simps]: "no_return m = Inr r \<longleftrightarrow> m = Inr (fst r) \<and> snd r = []"
  by (cases r) (auto simp: no_return_def attempt_eq_Inr)

lemma with_return_Inr [res_simps]: "with_return led m = Inr r \<longleftrightarrow> fst r = led \<and> m = Inr (snd r)"
  by (cases r) (auto simp: with_return_def attempt_eq_Inr)

lemma immutable_owner_Inr: "process_initialize_immutable_owner accounts led = Inr led' \<Longrightarrow> led' = led"
  by (auto simp: process_initialize_immutable_owner_def res_simps)

lemma set_authority_step:
  "process_set_authority pid accounts t new led = Inr led' \<Longrightarrow>
   bank_step native (bank_of pid led) (bank_of pid led')"
  using process_set_authority_managed account_managed_step mint_managed_step by blast

lemma process_instruction_step:
  assumes "process_instruction R pid accounts i led = Inr (led', ret)" and "runtime_accepts pid led led'"
  shows "bank_step (native_mint_id R) (bank_of pid led) (bank_of pid led')"
  using assms
  by (cases i)
     (auto simp: process_instruction_def initialize_defs res_simps bank_step.quiet initialize_multisig_bank
       dest: initialize_account_step transfer_step mint_to_step burn_step close_step sync_native_step
         process_approve_managed process_revoke_managed process_toggle_freeze_managed
         process_initialize_mint_managed set_authority_step immutable_owner_Inr
       intro: account_managed_step mint_managed_step)

text \<open>
  What can happen to the ledger: an instruction of the token program, or anything else the
  runtime lets happen around it (other programs may pay lamports into a token account and may
  hand zeroed accounts over to the program, but cannot touch the data of its accounts).
\<close>

definition token_call :: "runtime \<Rightarrow> pubkey \<Rightarrow> ledger \<Rightarrow> ledger \<Rightarrow> bool" where
  "token_call R pid led led' \<longleftrightarrow>
     (\<exists>accounts input ret. process R pid accounts input led = Inr (led', ret)) \<and> runtime_accepts pid led led'"

inductive world_step :: "runtime \<Rightarrow> pubkey \<Rightarrow> ledger \<Rightarrow> ledger \<Rightarrow> bool" for R pid where
  call: "token_call R pid led led' \<Longrightarrow> world_step R pid led led'"
| other: "other_activity pid led led' \<Longrightarrow> world_step R pid led led'"

inductive_cases world_stepE: "world_step R pid led led'"

lemma token_call_step:
  "token_call R pid led led' \<Longrightarrow> bank_step (native_mint_id R) (bank_of pid led) (bank_of pid led')"
  by (auto simp: token_call_def process_def res_simps dest: process_instruction_step)

interpretation bank_system: invariant_system "bank_step native" "bank_invariant native"
  for native
  by unfold_locales (rule bank_step_invariant)

interpretation token_system:
  refined_system "bank_step (native_mint_id R)" "bank_invariant (native_mint_id R)"
    "token_call R pid" "bank_of pid"
  for R pid
  by unfold_locales (rule token_call_step)

lemma zeroed_views:
  assumes "\<forall>b \<in> set (acc_data a). b = 0"
  shows "token_account pid a = None"
    and "token_mint pid a = Some v \<Longrightarrow> mint_supply v = 0"
proof -
  have z: "acc_data a = replicate (length (acc_data a)) 0"
    using assms by (simp add: list_eq_iff_nth_eq)
  then show "token_account pid a = None"
    using zeroed_account [of a pid] token_account_None [of a pid] by metis
  have "from_le_bytes (replicate n 0) = (0 :: u64)" for n by (induction n) simp_all
  then show "mint_supply v = 0" if "token_mint pid a = Some v"
    using that z
    by (auto simp: token_mint_def Mint_unpack_unchecked_def Pack_unpack_unchecked_def
        Mint_unpack_from_slice_def res_simps subslice_def split: if_splits sum.splits)
qed

lemma other_activity_views:
  assumes "other_activity pid led led'"
  shows "token_account pid (led' k) = token_account pid (led k)"
    and "supply_of (bank_of pid led') k = supply_of (bank_of pid led) k"
    and "token_account pid (led k) = Some v \<Longrightarrow> unat (acc_lamports (led k)) \<le> unat (acc_lamports (led' k))"
proof -
  have at: "if acc_owner (led k) = pid
     then acc_owner (led' k) = pid \<and> acc_data (led' k) = acc_data (led k) \<and>
               unat (acc_lamports (led k)) \<le> unat (acc_lamports (led' k))
     else acc_owner (led' k) = pid \<longrightarrow> (\<forall>b \<in> set (acc_data (led' k)). b = 0)"
    using assms unfolding other_activity_def by blast
  then show "token_account pid (led' k) = token_account pid (led k)"
    by (cases "acc_owner (led k) = pid"; cases "acc_owner (led' k) = pid")
       (simp_all add: zeroed_views(1), simp_all add: token_account_def)
  show "supply_of (bank_of pid led') k = supply_of (bank_of pid led) k"
  proof (cases "acc_owner (led k) = pid")
    case True
    then show ?thesis using at by (simp add: supply_of_def token_mint_def)
  next
    case False
    then have "token_mint pid (led k) = None" by (simp add: token_mint_def)
    moreover have "token_mint pid (led' k) = Some v \<Longrightarrow> mint_supply v = 0" for v
      using at False zeroed_views(2) [of "led' k" pid v] by (auto simp: token_mint_def split: if_splits)
    ultimately show ?thesis by (auto simp: supply_of_def split: option.splits)
  qed
  show "token_account pid (led k) = Some v \<Longrightarrow> unat (acc_lamports (led k)) \<le> unat (acc_lamports (led' k))"
    using at by (auto simp: token_account_def split: if_splits)
qed

lemma other_activity_invariant:
  assumes "other_activity pid led led'" and "bank_invariant native (bank_of pid led)"
  shows "bank_invariant native (bank_of pid led')"
proof -
  note v = other_activity_views [OF assms(1)]
  have "bk_accounts (bank_of pid led') = bk_accounts (bank_of pid led)" by (simp add: bank_of_def v(1))
  then show ?thesis
    using assms(2) v(2,3)
    unfolding bank_invariant_def supply_matches_def native_marked_def native_backed_def
    by (simp add: bank_of_sel) (meson le_trans)
qed

interpretation world_system:
  invariant_system "world_step R pid" "\<lambda>led. bank_invariant (native_mint_id R) (bank_of pid led)"
  for R pid
proof unfold_locales
  fix s t
  assume "world_step R pid s t" and "bank_invariant (native_mint_id R) (bank_of pid s)"
  then show "bank_invariant (native_mint_id R) (bank_of pid t)"
    by (elim world_stepE) (auto dest: token_call_step bank_step_invariant other_activity_invariant)
qed

text \<open>Before the program owns any account there is nothing to account for.\<close>

lemma genesis_invariant:
  assumes "\<forall>k. acc_owner (led k) \<noteq> pid"
  shows "bank_invariant native (bank_of pid led)"
  using assms
  by (auto simp: bank_invariant_def supply_matches_def native_marked_def native_backed_def circulating_def
      supply_of_def token_account_def token_mint_def bank_of_def)

end
