(* ===== verification/Token_Safety.thy ===== *)
theory Token_Safety
  imports Token_Supply
begin

text \<open>
  The guarantees of the token program stated for whole instructions: who can lower a balance, who
  can raise a supply, what freezing and fixing a supply protect, and what a transfer does.
  Each has a witness on a small concrete ledger.
\<close>

section \<open>Who signed\<close>

lemma signed_by_mono: "signed_by infos k \<Longrightarrow> set infos \<subseteq> set infos' \<Longrightarrow> signed_by infos' k"
  by (auto simp: signed_by_def)

lemma authorizes_mono:
  assumes "authorizes pid led infos k" and "set infos \<subseteq> set infos'"
  shows "authorizes pid led infos' k"
proof (cases "acc_owner (led k) = pid \<and> length (acc_data (led k)) = MULTISIG_LEN")
  case True
  then obtain ms where ms: "Multisig_unpack (acc_data (led k)) = Inr ms"
    and m: "unat (ms_m ms) \<le> card (signing_positions ms (signed_by infos))"
    using assms(1) by (auto simp: authorizes_def)
  have "card (signing_positions ms (signed_by infos)) \<le> card (signing_positions ms (signed_by infos'))"
    by (rule card_mono) (auto simp: signing_positions_def intro: signed_by_mono [OF _ assms(2)])
  then show ?thesis using True ms m by (auto simp: authorizes_def)
next
  case False
  then show ?thesis using assms by (auto simp: authorizes_def signed_by_mono)
qed

lemma validated_authorizes:
  "validate_owner pid led k ow signers = Inr () \<Longrightarrow> set (ow # signers) \<subseteq> set accounts \<Longrightarrow>
   authorizes pid led accounts k"
  using validate_owner_sound(2) authorizes_mono by blast

lemma take_expected_mint_set:
  "take_expected_mint it ed = Inr (expected, rest) \<Longrightarrow> set rest \<subseteq> set it"
  by (auto simp: take_expected_mint_def res_simps split: option.splits)

section \<open>Handlers that cannot lower a balance\<close>

definition money_kept :: "pubkey \<Rightarrow> ledger \<Rightarrow> ledger \<Rightarrow> bool" where
  "money_kept pid led led' \<longleftrightarrow>
     (\<forall>k a. token_account pid (led k) = Some a \<longrightarrow>
        (\<exists>a'. token_account pid (led' k) = Some a' \<and> ta_amount a \<le> ta_amount a'))"

lemma money_kept_refl: "money_kept pid led led"
  by (simp add: money_kept_def)

lemma money_kept_bank:
  "bk_accounts (bank_of pid led') = bk_accounts (bank_of pid led) \<Longrightarrow> money_kept pid led led'"
  by (auto simp: money_kept_def bank_of_def fun_eq_iff)

lemma money_kept_store:
  assumes "bk_accounts (bank_of pid led') = (bk_accounts (bank_of pid led))(k \<mapsto> v)"
    and "\<And>a. token_account pid (led k) = Some a \<Longrightarrow> ta_amount a \<le> ta_amount v"
  shows "money_kept pid led led'"
  using assms by (auto simp: money_kept_def bank_of_def fun_eq_iff)

lemma account_managed_kept:
  assumes "account_managed led led'"
  shows "money_kept pid led led'"
proof -
  from assms obtain k v v' where v: "Account_unpack (acc_data (led k)) = Inr v" and m: "same_money v v'"
    and i: "account_is_initialized v'" and pk: "Account_pack v' k led = Inr led'"
    by (auto simp: account_managed_def)
  show ?thesis
  proof (cases "acc_owner (led k) = pid")
    case True
    show ?thesis
      by (rule money_kept_store [where k = k and v = v'])
        (use bank_store_account [OF pk True i] token_accountI [OF v True] m in \<open>simp_all add: same_money_def\<close>)
  next
    case False
    then show ?thesis by (simp add: money_kept_bank bank_store_account_foreign [OF pk])
  qed
qed

lemma mint_managed_kept:
  assumes "mint_managed led led'"
  shows "money_kept pid led led'"
proof -
  from assms obtain k v' where pk: "Mint_pack v' k led = Inr led'" by (auto simp: mint_managed_def)
  show ?thesis
    using bank_store_mint [OF pk, of pid] bank_store_mint_foreign [OF pk, of pid]
    by (cases "acc_owner (led k) = pid") (simp_all add: money_kept_bank)
qed

lemma initialize_account_kept:
  assumes "process_initialize_account_inner R pid accounts ow rsa led = Inr led'"
  shows "money_kept pid led led'"
  using assms
proof (cases rule: process_initialize_account_Inr)
  case (1 k old v)
  show ?thesis
  proof (cases "acc_owner (led k) = pid")
    case True
    have "token_account pid (led k) = None"
      using 1(1,2) by (auto simp: token_account_def Account_unpack_iff split: sum.splits)
    then show ?thesis
      by (intro money_kept_store [where k = k and v = v])
         (use bank_store_account [OF 1(3) True 1(4)] in simp_all)
  next
    case False
    then show ?thesis by (simp add: money_kept_bank bank_store_account_foreign [OF 1(3)])
  qed
qed

lemma mint_to_kept:
  assumes run: "process_mint_to pid accounts amt ed led = Inr led'" and ok: "runtime_accepts pid led led'"
  shows "money_kept pid led led'"
  using run
proof (cases rule: process_mint_to_Inr)
  case (1 mint_info dst ow signers destination mint auth na ns led1)
  note st = account_mint_stores [OF 1(12,13,3)]
  have own_d: "acc_owner (led (ai_key dst)) = pid"
    by (rule transfer_owned [OF ok 1(2) st(2), of amt]) (use 1(9,10) in simp_all)
  have own_k: "acc_owner (led (ai_key mint_info)) = pid"
    by (rule changed_supply_owned [OF ok 1(3) st(3), of amt]) (use 1(9,11) in simp_all)
  have i: "account_is_initialized (destination\<lparr>ta_amount := na\<rparr>)"
    using 1(2) by (simp add: Account_unpack_iff account_is_initialized_def)
  show ?thesis
    by (rule money_kept_store [where k = "ai_key dst" and v = "destination\<lparr>ta_amount := na\<rparr>"])
       (use account_mint_stores_bank [OF 1(12,13) own_d own_k i] token_accountI [OF 1(2) own_d] 1(10)
        in \<open>simp_all add: word_le_nat_alt\<close>)
qed

lemma sync_native_kept:
  assumes "process_sync_native pid accounts led = Inr led'"
  shows "money_kept pid led led'"
  using assms
proof (cases rule: process_sync_native_Inr)
  case (1 info v r n)
  have i: "account_is_initialized (v\<lparr>ta_amount := n\<rparr>)"
    using 1(1) by (simp add: Account_unpack_iff account_is_initialized_def)
  show ?thesis
    by (rule money_kept_store [where k = "ai_key info" and v = "v\<lparr>ta_amount := n\<rparr>"])
       (use bank_store_account [OF 1(6) 1(5) i] token_accountI [OF 1(1) 1(5)] 1(4) in simp_all)
qed

section \<open>Lowering a balance needs authority\<close>

definition balance_lowered :: "account \<Rightarrow> account option \<Rightarrow> bool" where
  "balance_lowered a x = (case x of Some a' \<Rightarrow> ta_amount a' < ta_amount a | None \<Rightarrow> True)"

definition may_spend :: "runtime \<Rightarrow> pubkey \<Rightarrow> ledger \<Rightarrow> account_info list \<Rightarrow> account \<Rightarrow> account option \<Rightarrow> bool" where
  "may_spend R pid led accounts a x \<longleftrightarrow>
     is_owned_by_system_program_or_incinerator R a \<or>
     authorizes pid led accounts (ta_owner a) \<or>
     (case x of
        Some a' \<Rightarrow> (\<exists>d. ta_delegate a = Some d \<and> authorizes pid led accounts d \<and>
                       unat (ta_amount a) - unat (ta_amount a') \<le> unat (ta_delegated_amount a))
      | None \<Rightarrow> (\<exists>c. ta_close_authority a = Some c \<and> authorizes pid led accounts c))"

lemma money_kept_not_lowered:
  "money_kept pid led led' \<Longrightarrow> token_account pid (led k) = Some a \<Longrightarrow>
   \<not> balance_lowered a (token_account pid (led' k))"
  by (fastforce simp: money_kept_def balance_lowered_def split: option.splits)

lemma transfer_spender:
  assumes run: "process_transfer pid accounts amt ed led = Inr led'" and ok: "runtime_accepts pid led led'"
    and a: "token_account pid (led k) = Some a" and low: "balance_lowered a (token_account pid (led' k))"
  shows "may_spend R pid led accounts a (token_account pid (led' k))"
  using run
proof (cases rule: process_transfer_Inr)
  case self
  then show ?thesis using a low by (simp add: balance_lowered_def)
next
  case (move src it expected dst auth signers source destination source' sa da led1 led2)
  let ?s = "ai_key src" and ?d = "ai_key dst"
  note s' = transfer_authority_Inr [OF move(5)] and mv = move_lamports_bank [OF move(6) move(9)]
  have k_s: "k = ?s"
  proof (rule ccontr)
    assume ks: "k \<noteq> ?s"
    have same1: "acc_data (led2 k) = acc_data (led k)" "acc_owner (led2 k) = acc_owner (led k)"
      if "k \<noteq> ?s" for k
      using that Account_pack_at(2) [OF move(7), of k] move(6)
      by (auto elim!: move_lamports_Inr [OF _ move(9)] split: if_splits)
    show False
    proof (cases "k = ?d")
      case True
      then have "a = destination" using a move(4) by (simp add: token_account_iff)
      moreover have "token_account pid (led' k) = Some (destination\<lparr>ta_amount := da\<rparr>)"
        using True a Account_pack_at(1,3) [OF move(8)] same1 [OF ks] move(4)
        by (simp add: token_account_iff Account_unpack_iff account_is_initialized_def)
      ultimately show False using low move(15) by (simp add: balance_lowered_def word_less_nat_alt)
    next
      case False
      then have "led' k = led2 k" using Account_pack_at(2) [OF move(8)] by simp
      then have "token_account pid (led' k) = Some a" using same1 [OF ks] a by (simp add: token_account_iff)
      then show False using low by (simp add: balance_lowered_def)
    qed
  qed
  then have src: "a = source" using a move(3) by (simp add: token_account_iff)
  have led's: "led' ?s = led2 ?s" using Account_pack_at(2) [OF move(8) move(9)] .
  have "token_account pid (led' k) = Some (source'\<lparr>ta_amount := sa\<rparr>)"
    using Account_pack_at(1,3) [OF move(7)] a move(3) mv(2) s'(4)
    by (simp add: token_account_iff Account_unpack_iff account_is_initialized_def k_s led's)
  moreover have sub: "set (auth # signers) \<subseteq> set accounts"
    using take_expected_mint_set [OF move(2)] move(1) by auto
  ultimately show ?thesis
    using s'(6) validated_authorizes [OF _ sub] move(14)
    by (auto simp: may_spend_def src word_le_nat_alt)
qed

lemma burn_spender:
  assumes run: "process_burn R pid accounts amt ed led = Inr led'"
    and a: "token_account pid (led k) = Some a" and low: "balance_lowered a (token_account pid (led' k))"
  shows "may_spend R pid led accounts a (token_account pid (led' k))"
  using run
proof (cases rule: process_burn_Inr)
  case (1 src mint_info auth signers source mint source' na ns led1)
  note st = account_mint_stores [OF 1(11,12,3)] and s' = burn_authority_Inr [OF 1(4)]
  have own: "acc_owner (led' x) = acc_owner (led x)" for x
    using Account_pack_at(3) [OF 1(11)] Mint_pack_at(3) [OF 1(12)] by simp
  have ne: "k \<noteq> ai_key mint_info"
    using a 1(3) by (auto simp: token_account_iff Account_unpack_def account_packed.unpack_eq_Inr
        Mint_unpack_def mint_packed.unpack_eq_Inr)
  have k: "k = ai_key src"
  proof (rule ccontr)
    assume "k \<noteq> ai_key src"
    then have "led' k = led k" using ne Account_pack_at(2) [OF 1(11)] Mint_pack_at(2) [OF 1(12)] by simp
    then show False using a low by (simp add: balance_lowered_def)
  qed
  then have src: "a = source" using a 1(2) by (simp add: token_account_iff)
  have "token_account pid (led' k) = Some (source'\<lparr>ta_amount := na\<rparr>)"
    using st(2) a own 1(2) s'(4) by (simp add: token_account_iff Account_unpack_iff account_is_initialized_def k)
  moreover have sub: "set (auth # signers) \<subseteq> set accounts" using 1(1) by auto
  ultimately show ?thesis
    using s'(6) validated_authorizes [OF _ sub] 1(9)
    by (auto simp: may_spend_def src word_le_nat_alt)
qed

lemma close_spender:
  assumes run: "process_close_account R pid accounts led = Inr led'"
    and a: "token_account pid (led k) = Some a" and low: "balance_lowered a (token_account pid (led' k))"
  shows "may_spend R pid led accounts a (token_account pid (led' k))"
  using run
proof (cases rule: process_close_account_Inr)
  case (1 src dst auth signers source n)
  have k: "k = ai_key src"
  proof (rule ccontr)
    assume "k \<noteq> ai_key src"
    then have "token_account pid (led' k) = Some a" using a by (simp add: token_account_iff 1(7))
    then show False using low by (simp add: balance_lowered_def)
  qed
  then have src: "a = source" using a 1(2) by (simp add: token_account_iff)
  have "token_account pid (led' k) = None"
    by (rule zeroed_account) (simp add: 1(7) k)
  moreover have sub: "set (auth # signers) \<subseteq> set accounts" using 1(1) by auto
  ultimately show ?thesis
    using 1(5) validated_authorizes [OF _ sub] by (auto simp: may_spend_def src split: option.splits)
qed

lemma initialize_multisig_kept:
  "process_initialize_multisig_inner R accounts m rsa led = Inr led' \<Longrightarrow> money_kept pid led led'"
  by (simp add: money_kept_bank initialize_multisig_bank)

lemmas money_kept_rules =
  account_managed_kept mint_managed_kept initialize_account_kept mint_to_kept sync_native_kept
  initialize_multisig_kept

lemma process_instruction_kept:
  assumes "process_instruction R pid accounts i led = Inr (led', ret)" and "runtime_accepts pid led led'"
    and "\<forall>n d. i \<notin> {Transfer n, TransferChecked n d, Burn n, BurnChecked n d, CloseAccount}"
  shows "money_kept pid led led'"
  using assms
  by (cases i)
     (auto simp: process_instruction_def initialize_defs res_simps money_kept_refl
       dest: process_approve_managed process_revoke_managed process_toggle_freeze_managed
         process_initialize_mint_managed process_set_authority_managed immutable_owner_Inr
       intro: money_kept_rules)

text \<open>C2: an instruction of the token program lowers the balance of an existing token account, or
  closes it, only with authority: the account's owner authorised the call (by its signature, or by
  enough of the signatures of a multisig), or a delegate did within its allowance, or, for a closed
  account, the close authority did; accounts owned by the system program or the incinerator may
  be emptied by anyone.\<close>

theorem balance_lowered_authorized:
  assumes "process R pid accounts input led = Inr (led', ret)" and "runtime_accepts pid led led'"
    and "token_account pid (led k) = Some a" and "balance_lowered a (token_account pid (led' k))"
  shows "may_spend R pid led accounts a (token_account pid (led' k))"
proof -
  obtain i where i: "process_instruction R pid accounts i led = Inr (led', ret)"
    using assms(1) by (auto simp: process_def res_simps)
  show ?thesis
  proof (cases "\<forall>n d. i \<notin> {Transfer n, TransferChecked n d, Burn n, BurnChecked n d, CloseAccount}")
    case True
    then show ?thesis
      using process_instruction_kept [OF i assms(2)] money_kept_not_lowered assms(3,4) by blast
  next
    case False
    then show ?thesis
      using i assms(2-4)
      by (auto simp: process_instruction_def res_simps
          intro: transfer_spender burn_spender close_spender)
  qed
qed

section \<open>A concrete ledger\<close>

text \<open>
  The token program is account 5; 20 is a mint with authority 30 and freeze authority 33; 21 and 22
  are its accounts, owned by 31 and 32.
\<close>

definition example_runtime :: runtime where
  "example_runtime =
     \<lparr>rt_rent_from_account = (\<lambda>k a. Inr \<lparr>rent_is_exempt = (\<lambda>l n. True), rent_minimum_balance = (\<lambda>n. 3)\<rparr>),
      rt_rent_get = Inr \<lparr>rent_is_exempt = (\<lambda>l n. True), rent_minimum_balance = (\<lambda>n. 3)\<rparr>,
      rt_clock_from_account = (\<lambda>k a. Inr \<lparr>clock_slot = 7, clock_unix_timestamp = 1000, clock_epoch = 3\<rparr>),
      rt_clock_get = Inr \<lparr>clock_slot = 7, clock_unix_timestamp = 1000, clock_epoch = 3\<rparr>,
      rt_create_program_address = (\<lambda>seeds k. Inr 77),
      rt_find_program_address = (\<lambda>seeds k. (77, 255)),
      rt_invoke_signed = (\<lambda>caller ix infos seeds led. Inr led),
      rt_declare_id = (\<lambda>s. if s = ''TokenkegQfeZyiNwAJbNbGKPFXCWuBvf9Ss623VQ5DA'' then 5 else 6),
      rt_system_program_id = 0,
      rt_incinerator_id = 1,
      rt_rent_sysvar_id = 2, rt_clock_sysvar_id = 3,
      rt_ticks_per_second = 160,
      rt_ticks_per_slot = 64,
      rt_seconds_per_day = 86400\<rparr>"

definition example_mint :: mint where
  "example_mint = \<lparr>mint_authority = Some 30, mint_supply = 150, mint_decimals = 2,
     mint_is_initialized = True, mint_freeze_authority = Some 33\<rparr>"

definition example_account :: "pubkey \<Rightarrow> u64 \<Rightarrow> account" where
  "example_account owner n = \<lparr>ta_mint = 20, ta_owner = owner, ta_amount = n, ta_delegate = None,
     ta_state = Initialized, ta_is_native = None, ta_delegated_amount = 0, ta_close_authority = None\<rparr>"

definition example_ledger :: ledger where
  "example_ledger k =
     \<lparr>acc_lamports = 9,
      acc_data = (if k = 20 then Mint_bytes example_mint
                  else if k = 21 then Account_bytes (example_account 31 100)
                  else if k = 22 then Account_bytes (example_account 32 50) else []),
      acc_owner = (if k = 20 \<or> k = 21 \<or> k = 22 then 5 else 0)\<rparr>"

abbreviation info :: "pubkey \<Rightarrow> bool \<Rightarrow> account_info" where
  "info k signer \<equiv> \<lparr>ai_key = k, ai_is_signer = signer, ai_is_writable = True\<rparr>"

lemma example_values [simp]:
  "account_is_initialized (example_account ow n)" "mint_is_initialized example_mint"
  "ta_amount (example_account ow n) = n" "ta_owner (example_account ow n) = ow"
  "ta_mint (example_account ow n) = 20" "ta_delegate (example_account ow n) = None"
  "ta_state (example_account ow n) = Initialized" "ta_is_native (example_account ow n) = None"
  "mint_supply example_mint = 150" "mint_authority example_mint = Some 30"
  "mint_freeze_authority example_mint = Some 33" "mint_decimals example_mint = 2"
  by (simp_all add: example_account_def example_mint_def account_is_initialized_def)

lemma example_ledger_sel [simp]:
  "acc_data (example_ledger 20) = Mint_bytes example_mint"
  "acc_data (example_ledger 21) = Account_bytes (example_account 31 100)"
  "acc_data (example_ledger 22) = Account_bytes (example_account 32 50)"
  "acc_data (example_ledger 30) = []" "acc_data (example_ledger 31) = []" "acc_data (example_ledger 33) = []"
  "acc_owner (example_ledger 20) = 5" "acc_owner (example_ledger 21) = 5" "acc_owner (example_ledger 22) = 5"
  "acc_lamports (example_ledger k) = 9"
  by (simp_all add: example_ledger_def)

lemmas handler_simps =
  process_instruction_def no_return_def
  validate_owner_def check_account_owner_def cmp_pubkeys_def is_frozen_def is_native_def
  account_is_initialized_def checked_add_def checked_sub_def

lemma example_account_update [simp]:
  "(example_account ow n)\<lparr>ta_amount := m\<rparr> = example_account ow m"
  by (simp add: example_account_def)

lemma example_transfer:
  "\<exists>led'. process example_runtime 5 [info 21 False, info 22 False, info 31 True]
       (TokenInstruction_pack (Transfer 40)) example_ledger = Inr (led', []) \<and>
     runtime_accepts 5 example_ledger led' \<and>
     token_account 5 (led' 21) = Some (example_account 31 60) \<and>
     token_account 5 (led' 22) = Some (example_account 32 90)"
proof -
  let ?a = "Account_over (example_account 31 60) (Account_bytes (example_account 31 100))"
  let ?b = "Account_over (example_account 32 90) (Account_bytes (example_account 32 50))"
  let ?led = "set_data 22 ?b (set_data 21 ?a example_ledger)"
  have "process example_runtime 5 [info 21 False, info 22 False, info 31 True]
      (TokenInstruction_pack (Transfer 40)) example_ledger = Inr (?led, [])"
    by (subst process_packed)
       (simp_all add: TokenInstruction_wf_def handler_simps process_transfer_def take_expected_mint_def
         check_expected_mint_def transfer_authority_def Let_def)
  then show ?thesis by (auto simp: runtime_accepts_def token_account_iff)
qed

theorem balance_lowered_authorized_witness:
  "\<exists>led'. process example_runtime 5 [info 21 False, info 22 False, info 31 True]
       (TokenInstruction_pack (Transfer 40)) example_ledger = Inr (led', []) \<and>
     balance_lowered (example_account 31 100) (token_account 5 (led' 21)) \<and>
     may_spend example_runtime 5 example_ledger [info 21 False, info 22 False, info 31 True]
       (example_account 31 100) (token_account 5 (led' 21))"
proof -
  obtain led' where run: "process example_runtime 5 [info 21 False, info 22 False, info 31 True]
       (TokenInstruction_pack (Transfer 40)) example_ledger = Inr (led', [])"
    and ok: "runtime_accepts 5 example_ledger led'"
    and k: "token_account 5 (led' 21) = Some (example_account 31 60)"
    using example_transfer by blast
  have low: "balance_lowered (example_account 31 100) (token_account 5 (led' 21))"
    by (simp add: k balance_lowered_def)
  have "token_account 5 (example_ledger 21) = Some (example_account 31 100)" by (simp add: token_account_iff)
  from balance_lowered_authorized [OF run ok this low] run low show ?thesis by blast
qed

section \<open>Supply over whole histories\<close>

lemma Mint_unpack_unchecked_zero:
  "Mint_unpack_unchecked (replicate MINT_LEN 0) =
     Inr \<lparr>mint_authority = None, mint_supply = 0, mint_decimals = 0, mint_is_initialized = False,
          mint_freeze_authority = None\<rparr>"
proof -
  have z: "from_le_bytes (replicate n 0) = (0 :: u64)" for n by (induction n) simp_all
  have t: "replicate 4 (0 :: u8) = [0, 0, 0, 0]" by (simp add: numeral_eq_Suc)
  show ?thesis
    by (simp add: Mint_unpack_unchecked_def Pack_unpack_unchecked_def Mint_unpack_from_slice_def
        unpack_coption_key_def unpack_bool_byte_def subslice_def z t Let_def)
qed

lemma Account_unpack_unchecked_zero:
  "\<exists>v. Account_unpack_unchecked (replicate ACCOUNT_LEN 0) = Inr v \<and> \<not> account_is_initialized v"
proof -
  have t: "replicate 4 (0 :: u8) = [0, 0, 0, 0]" by (simp add: numeral_eq_Suc)
  show ?thesis
    by (simp add: Account_unpack_unchecked_def Pack_unpack_unchecked_def Account_unpack_from_slice_def
        unpack_coption_key_def unpack_coption_u64_def AccountState_try_from_primitive_def subslice_def t Let_def
        account_is_initialized_def)
qed

text \<open>C1: start from any ledger in which the token program owns nothing, and let any sequence of
  token instructions and of other activity happen; then for every mint but the native one, the
  recorded supply is exactly the sum of the balances of all its token accounts.\<close>

theorem token_supply_reachable:
  assumes "\<forall>k. acc_owner (genesis k) \<noteq> pid" and "(world_step R pid)\<^sup>*\<^sup>* genesis led"
    and "m \<noteq> native_mint_id R"
  shows "circulating (\<lambda>k. token_account pid (led k)) m = supply_of (bank_of pid led) m"
proof -
  have "bank_invariant (native_mint_id R) (bank_of pid led)"
    using world_system.run_inv [OF assms(2) genesis_invariant [OF assms(1)]] .
  then show ?thesis using assms(3) by (simp add: bank_invariant_def supply_matches_def bank_of_def)
qed

text \<open>The history of the witness: two zeroed accounts are handed over, a mint is opened, an account
  is opened, and 100 tokens are minted.\<close>

definition genesis_ledger :: ledger where
  "genesis_ledger k = \<lparr>acc_lamports = 9, acc_data = [], acc_owner = 0\<rparr>"

definition funded_ledger :: ledger where
  "funded_ledger k =
     \<lparr>acc_lamports = 9,
      acc_data = (if k = 20 then replicate MINT_LEN 0 else if k = 21 then replicate ACCOUNT_LEN 0 else []),
      acc_owner = (if k = 20 \<or> k = 21 then 5 else 0)\<rparr>"

lemma example_history_start: "world_step R 5 genesis_ledger funded_ledger"
  by (rule world_step.other)
     (auto simp: other_activity_def genesis_ledger_def funded_ledger_def split: if_splits)

definition opened_mint :: mint where
  "opened_mint = \<lparr>mint_authority = Some 30, mint_supply = 0, mint_decimals = 2,
     mint_is_initialized = True, mint_freeze_authority = None\<rparr>"

lemma example_history_mint:
  "world_step example_runtime 5 funded_ledger (set_data 20 (Mint_bytes opened_mint) funded_ledger)"
proof (rule world_step.call)
  have "process example_runtime 5 [info 20 False] (TokenInstruction_pack (InitializeMint2 2 30 None)) funded_ledger
      = Inr (set_data 20 (Mint_bytes opened_mint) funded_ledger, [])"
    by (subst process_packed)
       (simp_all add: TokenInstruction_wf_def process_instruction_def no_return_def funded_ledger_def
         process_initialize_mint2_def process_initialize_mint_inner_def take_rent_def example_runtime_def
         Mint_unpack_unchecked_zero opened_mint_def)
  then show "token_call example_runtime 5 funded_ledger (set_data 20 (Mint_bytes opened_mint) funded_ledger)"
    by (auto simp: token_call_def runtime_accepts_def funded_ledger_def)
qed

abbreviation history_mint :: ledger where
  "history_mint \<equiv> set_data 20 (Mint_bytes opened_mint) funded_ledger"

abbreviation history_account :: ledger where
  "history_account \<equiv> set_data 21 (Account_bytes (example_account 31 0)) history_mint"

abbreviation history_issue :: ledger where
  "history_issue \<equiv>
     set_data 20 (Mint_over (opened_mint\<lparr>mint_supply := 100\<rparr>) (Mint_bytes opened_mint))
       (set_data 21 (Account_over (example_account 31 100) (Account_bytes (example_account 31 0))) history_account)"

lemma opened_mint_sel [simp]:
  "mint_is_initialized opened_mint" "mint_supply opened_mint = 0" "mint_authority opened_mint = Some 30"
  by (simp_all add: opened_mint_def)

lemma example_history_account: "world_step example_runtime 5 history_mint history_account"
proof (rule world_step.call)
  obtain v where v: "Account_unpack_unchecked (replicate ACCOUNT_LEN 0) = Inr v" "\<not> account_is_initialized v"
    using Account_unpack_unchecked_zero by blast
  have upd: "v\<lparr>ta_mint := 20, ta_owner := 31, ta_close_authority := None, ta_delegate := None,
      ta_delegated_amount := 0, ta_state := Initialized, ta_is_native := None, ta_amount := 0\<rparr> =
      example_account 31 0"
    by (simp add: example_account_def)
  have "process example_runtime 5 [info 21 False, info 20 False] (TokenInstruction_pack (InitializeAccount3 31))
      history_mint = Inr (history_account, [])"
    by (subst process_packed)
       (simp_all add: TokenInstruction_wf_def process_instruction_def no_return_def funded_ledger_def
         process_initialize_account3_def process_initialize_account_inner_def take_rent_def example_runtime_def
         v upd native_mint_id_def cmp_pubkeys_def check_account_owner_def Let_def)
  then show "token_call example_runtime 5 history_mint history_account"
    by (auto simp: token_call_def runtime_accepts_def funded_ledger_def)
qed

lemma example_history_issue: "world_step example_runtime 5 history_account history_issue"
proof (rule world_step.call)
  have "process example_runtime 5 [info 20 False, info 21 False, info 30 True] (TokenInstruction_pack (MintTo 100))
      history_account = Inr (history_issue, [])"
    by (subst process_packed)
       (simp_all add: TokenInstruction_wf_def handler_simps funded_ledger_def process_mint_to_def check_decimals_def)
  then show "token_call example_runtime 5 history_account history_issue"
    by (auto simp: token_call_def runtime_accepts_def funded_ledger_def)
qed

theorem token_supply_reachable_witness:
  "circulating (\<lambda>k. token_account 5 (history_issue k)) 20 = supply_of (bank_of 5 history_issue) 20 \<and>
   token_account 5 (history_issue 21) = Some (example_account 31 100)"
proof
  show "circulating (\<lambda>k. token_account 5 (history_issue k)) 20 = supply_of (bank_of 5 history_issue) 20"
  proof (rule token_supply_reachable [where genesis = genesis_ledger and R = example_runtime])
    show "(world_step example_runtime 5)\<^sup>*\<^sup>* genesis_ledger history_issue"
      using example_history_start [of example_runtime] example_history_mint example_history_account
        example_history_issue by (meson rtranclp.rtrancl_into_rtrancl rtranclp.rtrancl_refl)
    show "(20 :: pubkey) \<noteq> native_mint_id example_runtime"
      by (simp add: native_mint_id_def example_runtime_def)
  qed (simp add: genesis_ledger_def)
  show "token_account 5 (history_issue 21) = Some (example_account 31 100)"
    by (simp add: token_account_iff funded_ledger_def)
qed

section \<open>Changing a mint needs authority\<close>

definition mint_evolves :: "pubkey \<Rightarrow> ledger \<Rightarrow> account_info list \<Rightarrow> mint \<Rightarrow> mint \<Rightarrow> bool" where
  "mint_evolves pid led accounts m m' \<longleftrightarrow>
     mint_is_initialized m' \<and> mint_decimals m' = mint_decimals m \<and>
     (mint_supply m < mint_supply m' \<or> mint_authority m' \<noteq> mint_authority m \<longrightarrow>
        (\<exists>k. mint_authority m = Some k \<and> authorizes pid led accounts k)) \<and>
     (mint_freeze_authority m' \<noteq> mint_freeze_authority m \<longrightarrow>
        (\<exists>k. mint_freeze_authority m = Some k \<and> authorizes pid led accounts k))"

definition mints_evolve :: "pubkey \<Rightarrow> ledger \<Rightarrow> account_info list \<Rightarrow> ledger \<Rightarrow> bool" where
  "mints_evolve pid led accounts led' \<longleftrightarrow>
     (\<forall>k m. token_mint pid (led k) = Some m \<longrightarrow> mint_is_initialized m \<longrightarrow>
        (\<exists>m'. token_mint pid (led' k) = Some m' \<and> mint_evolves pid led accounts m m'))"

lemma mint_evolves_refl: "mint_is_initialized m \<Longrightarrow> mint_evolves pid led accounts m m"
  by (simp add: mint_evolves_def)

lemma mints_evolve_same:
  "bk_mints (bank_of pid led') = bk_mints (bank_of pid led) \<Longrightarrow> mints_evolve pid led accounts led'"
  by (auto simp: mints_evolve_def bank_of_def fun_eq_iff mint_evolves_refl)

lemma mints_evolve_store:
  assumes "bk_mints (bank_of pid led') = (bk_mints (bank_of pid led))(k \<mapsto> v)"
    and "\<And>m. token_mint pid (led k) = Some m \<Longrightarrow> mint_is_initialized m \<Longrightarrow> mint_evolves pid led accounts m v"
  shows "mints_evolve pid led accounts led'"
  using assms by (auto simp: mints_evolve_def bank_of_def fun_eq_iff mint_evolves_refl)

lemma mints_evolve_pack:
  assumes "Mint_pack v k led = Inr led'"
    and "\<And>m. Mint_unpack (acc_data (led k)) = Inr m \<Longrightarrow> mint_evolves pid led accounts m v"
  shows "mints_evolve pid led accounts led'"
proof (cases "acc_owner (led k) = pid")
  case True
  show ?thesis
    by (rule mints_evolve_store [where k = k and v = v])
       (use bank_store_mint [OF assms(1) True] assms(2) in \<open>simp_all add: token_mint_iff Mint_unpack_iff\<close>)
next
  case False
  then show ?thesis by (simp add: mints_evolve_same bank_store_mint_foreign [OF assms(1)])
qed

lemma Account_pack_mints: "Account_pack v k led = Inr led' \<Longrightarrow> bk_mints (bank_of pid led') = bk_mints (bank_of pid led)"
proof -
  assume pk: "Account_pack v k led = Inr led'"
  obtain bs where "led' = set_data k bs led" "length (acc_data (led k)) = ACCOUNT_LEN" "length bs = ACCOUNT_LEN"
    using Account_pack_spec [OF pk] by blast
  then have "token_mint pid (led' x) = token_mint pid (led x)" for x
    by (cases "x = k") (simp_all add: token_mint_None set_data_def)
  then show ?thesis by (simp add: bank_of_def)
qed

lemma account_managed_mints: "account_managed led led' \<Longrightarrow> mints_evolve pid led accounts led'"
  by (auto simp: account_managed_def intro: mints_evolve_same Account_pack_mints)

lemma initialize_account_mints:
  "process_initialize_account_inner R pid infos ow rsa led = Inr led' \<Longrightarrow> mints_evolve pid led accounts led'"
  by (erule process_initialize_account_Inr) (auto intro: mints_evolve_same Account_pack_mints)

lemma initialize_multisig_mints:
  "process_initialize_multisig_inner R infos m rsa led = Inr led' \<Longrightarrow> mints_evolve pid led accounts led'"
  by (simp add: mints_evolve_same initialize_multisig_bank)

lemma initialize_mint_mints:
  assumes "process_initialize_mint_inner R infos d auth fr rsa led = Inr led'"
  shows "mints_evolve pid led accounts led'"
  using assms unfolding process_initialize_mint_inner_def
  by (elim peel) (erule mints_evolve_pack, simp add: Mint_unpack_iff)

lemma sync_native_mints: "process_sync_native pid infos led = Inr led' \<Longrightarrow> mints_evolve pid led accounts led'"
  by (erule process_sync_native_Inr) (auto intro: mints_evolve_same Account_pack_mints)

lemma transfer_mints:
  assumes "process_transfer pid infos amt ed led = Inr led'"
  shows "mints_evolve pid led accounts led'"
  using assms
proof (cases rule: process_transfer_Inr)
  case self
  then show ?thesis by (simp add: mints_evolve_same)
next
  case (move src it expected dst auth signers source destination source' sa da led1 led2)
  have "bk_mints (bank_of pid led1) = bk_mints (bank_of pid led)"
    using move_lamports_bank(1) [OF move(6) move(9), of pid] by simp
  then show ?thesis
    using Account_pack_mints [OF move(7), of pid] Account_pack_mints [OF move(8), of pid]
    by (simp add: mints_evolve_same)
qed

lemma close_mints:
  assumes "process_close_account R pid infos led = Inr led'"
  shows "mints_evolve pid led accounts led'"
  using assms
proof (cases rule: process_close_account_Inr)
  case (1 src dst auth signers source n)
  have "length (info_data led src) = ACCOUNT_LEN"
    using 1(2) by (simp add: Account_unpack_def account_packed.unpack_eq_Inr)
  then have "token_mint pid (led' x) = token_mint pid (led x)" for x
    by (cases "x = ai_key src") (simp_all add: 1(7) token_mint_None, simp add: token_mint_def)
  then show ?thesis by (simp add: mints_evolve_same bank_of_def)
qed

lemma mint_to_mints:
  assumes "process_mint_to pid accounts amt ed led = Inr led'"
  shows "mints_evolve pid led accounts led'"
  using assms
proof (cases rule: process_mint_to_Inr)
  case (1 mint_info dst ow signers destination mint auth na ns led1)
  have "authorizes pid led accounts auth" by (rule validated_authorizes [OF 1(8)]) (use 1(1) in auto)
  then have ev: "mint_evolves pid led accounts mint (mint\<lparr>mint_supply := ns\<rparr>)"
    using 1(3,7) by (auto simp: mint_evolves_def Mint_unpack_iff)
  note b1 = Account_pack_mints [OF 1(12), of pid] and own = Account_pack_at(3) [OF 1(12)]
  show ?thesis
  proof (cases "acc_owner (led (ai_key mint_info)) = pid")
    case True
    show ?thesis
      by (rule mints_evolve_store [where k = "ai_key mint_info" and v = "mint\<lparr>mint_supply := ns\<rparr>"])
         (use bank_store_mint [OF 1(13), of pid] own True b1 ev 1(3)
          in \<open>simp_all add: token_mint_iff Mint_unpack_iff\<close>)
  next
    case False
    then show ?thesis
      using bank_store_mint_foreign [OF 1(13), of pid] own b1 by (simp add: mints_evolve_same)
  qed
qed

lemma burn_mints:
  assumes "process_burn R pid accounts amt ed led = Inr led'"
  shows "mints_evolve pid led accounts led'"
  using assms
proof (cases rule: process_burn_Inr)
  case (1 src mint_info auth signers source mint source' na ns led1)
  have ev: "mint_evolves pid led accounts mint (mint\<lparr>mint_supply := ns\<rparr>)"
    using 1(3,10) by (auto simp: mint_evolves_def Mint_unpack_iff word_less_nat_alt)
  note b1 = Account_pack_mints [OF 1(11), of pid] and own = Account_pack_at(3) [OF 1(11)]
  show ?thesis
  proof (cases "acc_owner (led (ai_key mint_info)) = pid")
    case True
    show ?thesis
      by (rule mints_evolve_store [where k = "ai_key mint_info" and v = "mint\<lparr>mint_supply := ns\<rparr>"])
         (use bank_store_mint [OF 1(12), of pid] own True b1 ev 1(3)
          in \<open>simp_all add: token_mint_iff Mint_unpack_iff\<close>)
  next
    case False
    then show ?thesis
      using bank_store_mint_foreign [OF 1(12), of pid] own b1 by (simp add: mints_evolve_same)
  qed
qed

lemma set_mint_authority_evolves:
  assumes "set_mint_authority pid led m t new auth signers = Inr m'" and "mint_is_initialized m"
    and "set (auth # signers) \<subseteq> set accounts"
  shows "mint_evolves pid led accounts m m'"
  using assms(1,2) validated_authorizes [OF _ assms(3)]
  by (auto simp: set_mint_authority_def mint_evolves_def res_simps split: AuthorityType.splits)

lemma set_authority_mints:
  assumes "process_set_authority pid accounts t new led = Inr led'"
  shows "mints_evolve pid led accounts led'"
  using assms
proof (cases rule: process_set_authority_Inr)
  case (account info auth signers v v')
  then show ?thesis using mints_evolve_same [OF Account_pack_mints] by blast
next
  case (mint info auth signers v v')
  then have "set (auth # signers) \<subseteq> set accounts" by auto
  then show ?thesis
    using mints_evolve_pack [OF mint(4)] set_mint_authority_evolves [OF mint(3)] mint(2)
    by (simp add: Mint_unpack_iff)
qed

lemma process_mints_evolve:
  assumes "process_instruction R pid accounts i led = Inr (led', ret)"
  shows "mints_evolve pid led accounts led'"
  using assms
  by (cases i)
     (auto simp: process_instruction_def initialize_defs res_simps mints_evolve_same
       dest: process_approve_managed process_revoke_managed process_toggle_freeze_managed immutable_owner_Inr
       intro: account_managed_mints initialize_account_mints initialize_multisig_mints initialize_mint_mints
         sync_native_mints transfer_mints close_mints mint_to_mints burn_mints set_authority_mints)

text \<open>whatever instruction runs, an initialised mint stays one with the same decimals, its supply
  grows or its mint authority changes only if the mint authority it has authorised the call, and its
  freeze authority changes only if that authority did; so neither can be brought back once given up.\<close>

theorem mint_changes_authorized:
  assumes "process R pid accounts input led = Inr (led', ret)"
    and "token_mint pid (led k) = Some m" and "mint_is_initialized m"
  shows "\<exists>m'. token_mint pid (led' k) = Some m' \<and> mint_evolves pid led accounts m m'"
proof -
  obtain i where "process_instruction R pid accounts i led = Inr (led', ret)"
    using assms(1) by (auto simp: process_def res_simps)
  from process_mints_evolve [OF this] assms(2,3) show ?thesis by (auto simp: mints_evolve_def)
qed

lemma example_mint_to:
  "\<exists>led'. process example_runtime 5 [info 20 False, info 21 False, info 30 True]
      (TokenInstruction_pack (MintTo 7)) example_ledger = Inr (led', []) \<and>
    token_mint 5 (led' 20) = Some (example_mint\<lparr>mint_supply := 157\<rparr>)"
proof -
  let ?led = "set_data 20 (Mint_over (example_mint\<lparr>mint_supply := 157\<rparr>) (Mint_bytes example_mint))
    (set_data 21 (Account_over (example_account 31 107) (Account_bytes (example_account 31 100))) example_ledger)"
  have "process example_runtime 5 [info 20 False, info 21 False, info 30 True]
      (TokenInstruction_pack (MintTo 7)) example_ledger = Inr (?led, [])"
    by (subst process_packed)
       (simp_all add: TokenInstruction_wf_def handler_simps process_mint_to_def check_decimals_def)
  moreover have "Mint_unpack (acc_data (?led 20)) = Inr (example_mint\<lparr>mint_supply := 157\<rparr>)" by simp
  ultimately show ?thesis by (auto simp: token_mint_iff Mint_unpack_iff)
qed

theorem mint_changes_authorized_witness:
  "\<exists>led' m'. process example_runtime 5 [info 20 False, info 21 False, info 30 True]
      (TokenInstruction_pack (MintTo 7)) example_ledger = Inr (led', []) \<and>
    token_mint 5 (led' 20) = Some m' \<and>
    mint_evolves 5 example_ledger [info 20 False, info 21 False, info 30 True] example_mint m'"
proof -
  obtain led' where run: "process example_runtime 5 [info 20 False, info 21 False, info 30 True]
      (TokenInstruction_pack (MintTo 7)) example_ledger = Inr (led', [])"
    using example_mint_to by blast
  have "Mint_unpack (acc_data (example_ledger 20)) = Inr example_mint" by simp
  then have "token_mint 5 (example_ledger 20) = Some example_mint" by (simp add: token_mint_iff Mint_unpack_iff)
  from mint_changes_authorized [OF run this] run show ?thesis by auto
qed

section \<open>A fixed supply stays fixed\<close>

definition supply_fixed :: "pubkey \<Rightarrow> pubkey \<Rightarrow> nat \<Rightarrow> ledger \<Rightarrow> bool" where
  "supply_fixed pid k n led \<longleftrightarrow>
     (\<exists>m. token_mint pid (led k) = Some m \<and> mint_is_initialized m \<and> mint_authority m = None \<and>
          unat (mint_supply m) \<le> n)"

lemma supply_fixed_step:
  assumes "world_step R pid led led'" and "supply_fixed pid k n led"
  shows "supply_fixed pid k n led'"
  using assms(1)
proof cases
  case call
  then obtain accounts i ret where run: "process_instruction R pid accounts i led = Inr (led', ret)"
    by (auto simp: token_call_def process_def res_simps)
  obtain m where m: "token_mint pid (led k) = Some m" "mint_is_initialized m" "mint_authority m = None"
    "unat (mint_supply m) \<le> n" using assms(2) by (auto simp: supply_fixed_def)
  then obtain m' where "token_mint pid (led' k) = Some m'" "mint_evolves pid led accounts m m'"
    using process_mints_evolve [OF run] by (auto simp: mints_evolve_def)
  with m show ?thesis
    by (auto simp: supply_fixed_def mint_evolves_def word_less_nat_alt not_less)
next
  case other
  then show ?thesis
    using assms(2) by (auto simp: other_activity_def supply_fixed_def token_mint_iff split: if_splits)
qed

interpretation fixed_supply: invariant_system "world_step R pid" "supply_fixed pid k n" for R pid k n
  by unfold_locales (rule supply_fixed_step)

text \<open>C21: once a mint has given up its mint authority, no history of token instructions and other
  activity ever raises its supply again or gives it a mint authority.\<close>

theorem fixed_supply_forever:
  assumes "(world_step R pid)\<^sup>*\<^sup>* led led'"
    and "token_mint pid (led k) = Some m" and "mint_is_initialized m" and "mint_authority m = None"
  shows "\<exists>m'. token_mint pid (led' k) = Some m' \<and> mint_authority m' = None \<and> mint_supply m' \<le> mint_supply m"
  using fixed_supply.run_inv [OF assms(1), of k "unat (mint_supply m)"] assms(2-4)
  by (auto simp: supply_fixed_def word_le_nat_alt)

definition fixed_ledger :: ledger where
  "fixed_ledger = set_data 20 (Mint_bytes (example_mint\<lparr>mint_authority := None\<rparr>)) example_ledger"

lemma example_burn:
  "world_step example_runtime 5 fixed_ledger
     (set_data 20 (Mint_over (example_mint\<lparr>mint_authority := None, mint_supply := 140\<rparr>)
         (Mint_bytes (example_mint\<lparr>mint_authority := None\<rparr>)))
       (set_data 21 (Account_over (example_account 31 90) (Account_bytes (example_account 31 100))) fixed_ledger))"
  (is "world_step _ _ _ ?led")
proof (rule world_step.call)
  have "process example_runtime 5 [info 21 False, info 20 False, info 31 True]
      (TokenInstruction_pack (Burn 10)) fixed_ledger = Inr (?led, [])"
    by (subst process_packed)
       (simp_all add: TokenInstruction_wf_def handler_simps process_burn_def check_decimals_def
         burn_authority_def is_owned_by_system_program_or_incinerator_def fixed_ledger_def example_runtime_def)
  then show "token_call example_runtime 5 fixed_ledger ?led"
    by (auto simp: token_call_def runtime_accepts_def fixed_ledger_def)
qed

theorem fixed_supply_forever_witness:
  "\<exists>led' m'. world_step example_runtime 5 fixed_ledger led' \<and>
     token_mint 5 (led' 20) = Some m' \<and> mint_authority m' = None \<and> mint_supply m' \<le> 150"
proof -
  have m: "token_mint 5 (fixed_ledger 20) = Some (example_mint\<lparr>mint_authority := None\<rparr>)"
    by (simp add: token_mint_iff fixed_ledger_def)
  obtain led' where step: "world_step example_runtime 5 fixed_ledger led'" using example_burn by blast
  have "\<exists>m'. token_mint 5 (led' 20) = Some m' \<and> mint_authority m' = None \<and> mint_supply m' \<le> 150"
    using fixed_supply_forever [OF r_into_rtranclp [of "world_step example_runtime 5", OF step] m] by simp
  with step show ?thesis by blast
qed

section \<open>Frozen accounts\<close>

definition freezer_signed :: "pubkey \<Rightarrow> ledger \<Rightarrow> account_info list \<Rightarrow> account \<Rightarrow> bool" where
  "freezer_signed pid led accounts a \<longleftrightarrow>
     (\<exists>m f. Mint_unpack (acc_data (led (ta_mint a))) = Inr m \<and> mint_freeze_authority m = Some f \<and>
            authorizes pid led accounts f)"

definition frozen_kept :: "pubkey \<Rightarrow> ledger \<Rightarrow> account_info list \<Rightarrow> ledger \<Rightarrow> bool" where
  "frozen_kept pid led accounts led' \<longleftrightarrow>
     (\<forall>k a. token_account pid (led k) = Some a \<longrightarrow> is_frozen a \<longrightarrow> \<not> is_native a \<longrightarrow>
        (case token_account pid (led' k) of
           Some a' \<Rightarrow> a' = a \<or> a' = a\<lparr>ta_state := Initialized\<rparr> \<and> freezer_signed pid led accounts a
         | None \<Rightarrow> ta_amount a = 0))"

lemma frozen_kept_same:
  "bk_accounts (bank_of pid led') = bk_accounts (bank_of pid led) \<Longrightarrow> frozen_kept pid led accounts led'"
  by (auto simp: frozen_kept_def bank_of_def fun_eq_iff)

lemma Account_pack_accounts:
  assumes "Account_pack v s led = Inr led'" and "x \<noteq> s"
  shows "token_account pid (led' x) = token_account pid (led x)"
  using Account_pack_at(2) [OF assms] by simp

text \<open>Handlers write only where they read an account that is not frozen (or is native).\<close>

lemma frozen_kept_pack:
  assumes "Account_pack v s led = Inr led'"
    and "\<And>a. Account_unpack (acc_data (led s)) = Inr a \<Longrightarrow> \<not> is_frozen a \<or> is_native a"
  shows "frozen_kept pid led accounts led'"
proof -
  have "token_account pid (led' k) = token_account pid (led k)"
    if "token_account pid (led k) = Some a" "is_frozen a" "\<not> is_native a" for k a
    using that assms(2) by (intro Account_pack_accounts [OF assms(1)]) (auto simp: token_account_iff)
  then show ?thesis unfolding frozen_kept_def by auto
qed

lemma approve_frozen: "process_approve pid infos amt ed led = Inr led' \<Longrightarrow> frozen_kept pid led accounts led'"
  unfolding process_approve_def by (elim peel) (erule frozen_kept_pack, simp)

lemma revoke_frozen: "process_revoke pid infos led = Inr led' \<Longrightarrow> frozen_kept pid led accounts led'"
  unfolding process_revoke_def by (elim peel) (erule frozen_kept_pack, simp)

lemma sync_native_frozen: "process_sync_native pid infos led = Inr led' \<Longrightarrow> frozen_kept pid led accounts led'"
  by (erule process_sync_native_Inr) (erule frozen_kept_pack, simp add: is_native_def)

lemma initialize_account_frozen:
  "process_initialize_account_inner R pid infos ow rsa led = Inr led' \<Longrightarrow> frozen_kept pid led accounts led'"
  by (erule process_initialize_account_Inr) (erule frozen_kept_pack, simp add: Account_unpack_iff)

lemma Mint_pack_accounts:
  assumes "Mint_pack v k led = Inr led'"
  shows "bk_accounts (bank_of pid led') = bk_accounts (bank_of pid led)"
  using bank_store_mint [OF assms, of pid] bank_store_mint_foreign [OF assms, of pid]
  by (cases "acc_owner (led k) = pid") simp_all

lemma mint_managed_frozen: "mint_managed led led' \<Longrightarrow> frozen_kept pid led accounts led'"
  by (auto simp: mint_managed_def intro: frozen_kept_same Mint_pack_accounts)

lemma initialize_multisig_frozen:
  "process_initialize_multisig_inner R infos m rsa led = Inr led' \<Longrightarrow> frozen_kept pid led accounts led'"
  by (simp add: frozen_kept_same initialize_multisig_bank)

lemma set_authority_frozen:
  assumes "process_set_authority pid infos t new led = Inr led'"
  shows "frozen_kept pid led accounts led'"
  using assms
proof (cases rule: process_set_authority_Inr)
  case (account info auth signers v v')
  then show ?thesis using frozen_kept_pack [OF account(5)] by simp
next
  case (mint info auth signers v v')
  then show ?thesis using frozen_kept_same [OF Mint_pack_accounts] by blast
qed

lemma frozen_kept_mint:
  "frozen_kept pid led accounts led1 \<Longrightarrow> Mint_pack v k led1 = Inr led' \<Longrightarrow> frozen_kept pid led accounts led'"
  using Mint_pack_accounts [of v k led1 led' pid] by (simp add: frozen_kept_def bank_of_def fun_eq_iff)

lemma mint_to_frozen: "process_mint_to pid infos amt ed led = Inr led' \<Longrightarrow> frozen_kept pid led accounts led'"
  by (erule process_mint_to_Inr) (erule frozen_kept_mint [rotated], erule frozen_kept_pack, simp)

lemma burn_frozen: "process_burn R pid infos amt ed led = Inr led' \<Longrightarrow> frozen_kept pid led accounts led'"
  by (erule process_burn_Inr) (erule frozen_kept_mint [rotated], erule frozen_kept_pack, simp)

lemma transfer_frozen:
  assumes "process_transfer pid infos amt ed led = Inr led'"
  shows "frozen_kept pid led accounts led'"
  using assms
proof (cases rule: process_transfer_Inr)
  case self
  then show ?thesis by (simp add: frozen_kept_same)
next
  case (move src it expected dst auth signers source destination source' sa da led1 led2)
  have b1: "token_account pid (led1 x) = token_account pid (led x)" for x
    using arg_cong [OF move_lamports_bank(1) [OF move(6) move(9), of pid], of bk_accounts]
    by (simp add: bank_of_def fun_eq_iff)
  have "token_account pid (led' k) = token_account pid (led k)"
    if "token_account pid (led k) = Some a" "is_frozen a" for k a
  proof -
    have "k \<noteq> ai_key src" and "k \<noteq> ai_key dst" using that move(3,4,10,11) by (auto simp: token_account_iff)
    then show ?thesis
      using Account_pack_accounts [OF move(7)] Account_pack_accounts [OF move(8)] b1 by simp
  qed
  then show ?thesis unfolding frozen_kept_def by auto
qed

lemma close_frozen:
  assumes "process_close_account R pid infos led = Inr led'"
  shows "frozen_kept pid led accounts led'"
  using assms
proof (cases rule: process_close_account_Inr)
  case (1 src dst auth signers source n)
  have "token_account pid (led' (ai_key src)) = None" by (rule zeroed_account) (simp add: 1(7))
  moreover have "x \<noteq> ai_key src \<Longrightarrow> token_account pid (led' x) = token_account pid (led x)" for x
    by (simp add: 1(7) token_account_def)
  ultimately have "token_account pid (led' x) = (if x = ai_key src then None else token_account pid (led x))" for x
    by simp
  moreover have "token_account pid (led (ai_key src)) = Some a \<Longrightarrow> a = source" for a
    using 1(2) by (simp add: token_account_iff)
  ultimately show ?thesis using 1(4) by (auto simp: frozen_kept_def)
qed

lemma toggle_frozen:
  assumes "process_toggle_freeze_account pid accounts freeze led = Inr led'"
  shows "frozen_kept pid led accounts led'"
  using assms unfolding process_toggle_freeze_account_def cmp_pubkeys_def
proof (elim peel_infos)
  fix src it mint_info it' auth signers source mint u f
  assume acc: "accounts = src # it" "it = mint_info # it'" "it' = auth # signers"
    and un: "Account_unpack (info_data led src) = Inr source"
    and st: "\<not> (freeze \<and> is_frozen source \<or> \<not> freeze \<and> \<not> is_frozen source)"
    and mk: "\<not> ai_key mint_info \<noteq> ta_mint source"
    and um: "Mint_unpack (info_data led mint_info) = Inr mint"
    and fa: "mint_freeze_authority mint = Some f"
    and vo: "validate_owner pid led f auth signers = Inr u"
    and pk: "Account_pack (source\<lparr>ta_state := if freeze then Frozen else Initialized\<rparr>) (ai_key src) led = Inr led'"
  show ?thesis
  proof (cases "is_frozen source")
    case True
    have "authorizes pid led accounts f"
      by (rule validated_authorizes [of _ _ _ auth signers]) (use vo acc in auto)
    then have fs: "freezer_signed pid led accounts source"
      using um mk fa by (auto simp: freezer_signed_def)
    have at: "token_account pid (led' (ai_key src)) = Some (source\<lparr>ta_state := Initialized\<rparr>)"
      if "acc_owner (led (ai_key src)) = pid"
      using Account_pack_at(1,3) [OF pk] that True st
      by (simp add: token_account_iff Account_unpack_iff account_is_initialized_def)
    show ?thesis
      unfolding frozen_kept_def
    proof (intro allI impI)
      fix k a
      assume a: "token_account pid (led k) = Some a"
      show "case token_account pid (led' k) of
          Some a' \<Rightarrow> a' = a \<or> a' = a\<lparr>ta_state := Initialized\<rparr> \<and> freezer_signed pid led accounts a
        | None \<Rightarrow> ta_amount a = 0"
      proof (cases "k = ai_key src")
        case True
        then have "a = source" "acc_owner (led (ai_key src)) = pid" using a un by (auto simp: token_account_iff)
        then show ?thesis using at fs True by simp
      next
        case False
        then show ?thesis using Account_pack_accounts [OF pk False, of pid] a by simp
      qed
    qed
  next
    case False
    then show ?thesis using frozen_kept_pack [OF pk] un by simp
  qed
qed

lemma process_frozen_kept:
  assumes "process_instruction R pid accounts i led = Inr (led', ret)"
  shows "frozen_kept pid led accounts led'"
  using assms
  by (cases i)
     (auto simp: process_instruction_def initialize_defs res_simps frozen_kept_same
       dest: process_initialize_mint_managed immutable_owner_Inr
       intro: approve_frozen revoke_frozen sync_native_frozen initialize_account_frozen mint_managed_frozen
         initialize_multisig_frozen set_authority_frozen mint_to_frozen burn_frozen transfer_frozen
         close_frozen toggle_frozen)

text \<open>C22: an instruction leaves a frozen (non-native) token account exactly as it is, or thaws it and
  nothing else with the authority of its mint's freeze authority, or closes it, which requires its
  balance to be zero.\<close>

theorem frozen_account_protected:
  assumes "process R pid accounts input led = Inr (led', ret)"
    and "token_account pid (led k) = Some a" and "is_frozen a" and "\<not> is_native a"
  shows "case token_account pid (led' k) of
      Some a' \<Rightarrow> a' = a \<or> a' = a\<lparr>ta_state := Initialized\<rparr> \<and> freezer_signed pid led accounts a
    | None \<Rightarrow> ta_amount a = 0"
proof -
  obtain i where "process_instruction R pid accounts i led = Inr (led', ret)"
    using assms(1) by (auto simp: process_def res_simps)
  from process_frozen_kept [OF this] assms(2-4) show ?thesis by (auto simp: frozen_kept_def)
qed

definition frozen_ledger :: ledger where
  "frozen_ledger = set_data 21 (Account_bytes ((example_account 31 100)\<lparr>ta_state := Frozen\<rparr>)) example_ledger"

theorem frozen_account_protected_witness:
  "\<exists>led'. process example_runtime 5 [info 21 False, info 20 False, info 33 True]
       (TokenInstruction_pack ThawAccount) frozen_ledger = Inr (led', []) \<and>
     (case token_account 5 (led' 21) of
        Some a' \<Rightarrow> ta_amount a' = 100
      | None \<Rightarrow> False)"
proof -
  let ?a = "(example_account 31 100)\<lparr>ta_state := Frozen\<rparr>"
  have "\<exists>led'. process example_runtime 5 [info 21 False, info 20 False, info 33 True]
       (TokenInstruction_pack ThawAccount) frozen_ledger = Inr (led', [])"
    by (subst process_packed)
       (simp_all add: TokenInstruction_wf_def handler_simps process_toggle_freeze_account_def frozen_ledger_def)
  then obtain led' where run: "process example_runtime 5 [info 21 False, info 20 False, info 33 True]
       (TokenInstruction_pack ThawAccount) frozen_ledger = Inr (led', [])" by blast
  have a: "token_account 5 (frozen_ledger 21) = Some ?a"
    by (simp add: token_account_iff frozen_ledger_def account_is_initialized_def)
  have "is_frozen ?a" "\<not> is_native ?a" by (simp_all add: is_frozen_def is_native_def)
  from frozen_account_protected [OF run a this] run show ?thesis by (auto split: option.splits)
qed

section \<open>What a transfer does\<close>

text \<open>C33: a plain transfer between two different, unfrozen accounts of one mint, authorised by the owner (by an
  authority that is not also the delegate), with a sufficient balance and room at the destination, and for
  native tokens with enough lamports at the source and room for them at the destination, succeeds; it takes
  exactly the amount from the one balance and adds it to the other, moves the same number of lamports for a
  native token, changes nothing else in the two accounts and no other account.\<close>

theorem transfer_executes:
  assumes "ai_key src \<noteq> ai_key dst"
    and "token_account pid (led (ai_key src)) = Some a" and "token_account pid (led (ai_key dst)) = Some b"
    and "\<not> is_frozen a" and "\<not> is_frozen b" and "ta_mint a = ta_mint b"
    and "validate_owner pid led (ta_owner a) auth signers = Inr ()" and "ta_delegate a \<noteq> Some (ai_key auth)"
    and "unat amt \<le> unat (ta_amount a)" and "unat (ta_amount b) + unat amt < 2 ^ 64"
    and "is_native a \<longrightarrow> unat amt \<le> unat (info_lamports led src) \<and>
                         unat (info_lamports led dst) + unat amt < 2 ^ 64"
  shows "\<exists>led'. process_transfer pid (src # dst # auth # signers) amt None led = Inr led' \<and>
    token_account pid (led' (ai_key src)) = Some (a\<lparr>ta_amount := ta_amount a - amt\<rparr>) \<and>
    token_account pid (led' (ai_key dst)) = Some (b\<lparr>ta_amount := ta_amount b + amt\<rparr>) \<and>
    info_lamports led' src = (if is_native a then info_lamports led src - amt else info_lamports led src) \<and>
    info_lamports led' dst = (if is_native a then info_lamports led dst + amt else info_lamports led dst) \<and>
    (\<forall>k. k \<noteq> ai_key src \<and> k \<noteq> ai_key dst \<longrightarrow> led' k = led k)"
proof -
  let ?s = "ai_key src" and ?d = "ai_key dst"
  have u: "Account_unpack (info_data led src) = Inr a" "Account_unpack (info_data led dst) = Inr b"
    and own: "acc_owner (led ?s) = pid" "acc_owner (led ?d) = pid"
    using assms(2,3) by (simp_all add: token_account_iff)
  have len: "length (info_data led src) = ACCOUNT_LEN" "length (info_data led dst) = ACCOUNT_LEN"
    and init: "account_is_initialized a" "account_is_initialized b"
    using u by (simp_all add: Account_unpack_def account_packed.unpack_eq_Inr)
  define led1 where "led1 = (if is_native a
    then set_lamports ?d (info_lamports led dst + amt) (set_lamports ?s (info_lamports led src - amt) led)
    else led)"
  have mv: "(if is_native a then move_lamports ?s ?d amt led else Inr led) = Inr led1"
    using assms(1,11) by (auto simp: move_lamports_def led1_def checked_sub_def checked_add_def Let_def)
  have auth: "transfer_authority pid led a auth signers amt False = Inr a"
    using assms(7,8) by (auto simp: transfer_authority_def cmp_pubkeys_def split: option.splits)
  have data1: "acc_data (led1 k) = acc_data (led k)" and own1: "acc_owner (led1 k) = acc_owner (led k)" for k
    by (simp_all add: led1_def)
  let ?led = "set_data ?d (Account_over (b\<lparr>ta_amount := ta_amount b + amt\<rparr>) (info_data led dst))
    (set_data ?s (Account_over (a\<lparr>ta_amount := ta_amount a - amt\<rparr>) (info_data led src)) led1)"
  have "process_transfer pid (src # dst # auth # signers) amt None led = Inr ?led"
    using assms u own len mv auth data1
    by (simp add: process_transfer_def take_expected_mint_def check_expected_mint_def cmp_pubkeys_def
        check_account_owner_def checked_sub_def checked_add_def word_less_nat_alt not_less Let_def)
  moreover have "token_account pid (?led ?s) = Some (a\<lparr>ta_amount := ta_amount a - amt\<rparr>)"
    and "token_account pid (?led ?d) = Some (b\<lparr>ta_amount := ta_amount b + amt\<rparr>)"
    using assms(1) len init own own1 by (simp_all add: token_account_iff account_is_initialized_def)
  moreover have "\<forall>k. k \<noteq> ?s \<and> k \<noteq> ?d \<longrightarrow> ?led k = led k"
    by (simp add: set_data_other set_lamports_other led1_def)
  moreover have "acc_lamports (?led ?s) = (if is_native a then info_lamports led src - amt else info_lamports led src)"
    and "acc_lamports (?led ?d) = (if is_native a then info_lamports led dst + amt else info_lamports led dst)"
    using assms(1) by (simp_all add: led1_def)
  ultimately show ?thesis by blast
qed

theorem transfer_executes_witness:
  "\<exists>led'. process_transfer 5 [info 21 False, info 22 False, info 31 True] 40 None example_ledger = Inr led' \<and>
     token_account 5 (led' 21) = Some (example_account 31 60) \<and>
     token_account 5 (led' 22) = Some (example_account 32 90)"
proof -
  have v: "validate_owner 5 example_ledger 31 (info 31 True) [] = Inr ()"
    by (simp add: validate_owner_def cmp_pubkeys_def)
  have "token_account 5 (example_ledger 21) = Some (example_account 31 100)"
    and "token_account 5 (example_ledger 22) = Some (example_account 32 50)"
    by (simp_all add: token_account_iff)
  then show ?thesis
    using transfer_executes [of "info 21 False" "info 22 False" 5 example_ledger "example_account 31 100"
        "example_account 32 50" "info 31 True" "[]" 40] v
    by (simp add: is_frozen_def is_native_def) blast
qed

text \<open>C24: in every history from a ledger where the token program owns nothing, each wrapped-native
  token account holds at least its token balance plus its rent reserve in lamports, and exactly the
  accounts of the native mint are marked native.\<close>

theorem native_backed_reachable:
  assumes "\<forall>k. acc_owner (genesis k) \<noteq> pid" and "(world_step R pid)\<^sup>*\<^sup>* genesis led"
    and "token_account pid (led k) = Some a"
  shows "(is_native a \<longleftrightarrow> ta_mint a = native_mint_id R) \<and>
    (\<forall>r. ta_is_native a = Some r \<longrightarrow> unat (ta_amount a) + unat r \<le> unat (acc_lamports (led k)))"
proof -
  have "bank_invariant (native_mint_id R) (bank_of pid led)"
    using world_system.run_inv [OF assms(2) genesis_invariant [OF assms(1)]] .
  then show ?thesis
    using assms(3) by (auto simp: bank_invariant_def native_marked_def native_backed_def is_native_def)
qed

text \<open>The history of the witness: account 21, which holds 9 lamports, is opened as an account of the native mint with a
  rent reserve of 3.\<close>

definition wrapped_account :: account where
  "wrapped_account = \<lparr>ta_mint = 6, ta_owner = 31, ta_amount = 6, ta_delegate = None, ta_state = Initialized,
     ta_is_native = Some 3, ta_delegated_amount = 0, ta_close_authority = None\<rparr>"

lemma wrapped_history:
  "world_step example_runtime 5 funded_ledger (set_data 21 (Account_bytes wrapped_account) funded_ledger)"
proof (rule world_step.call)
  obtain v where v: "Account_unpack_unchecked (replicate ACCOUNT_LEN 0) = Inr v" "\<not> account_is_initialized v"
    using Account_unpack_unchecked_zero by blast
  have upd: "v\<lparr>ta_mint := 6, ta_owner := 31, ta_close_authority := None, ta_delegate := None,
      ta_delegated_amount := 0, ta_state := Initialized, ta_is_native := Some 3, ta_amount := 6\<rparr> = wrapped_account"
    by (simp add: wrapped_account_def)
  have "process example_runtime 5 [info 21 False, info 6 False] (TokenInstruction_pack (InitializeAccount3 31)) funded_ledger
      = Inr (set_data 21 (Account_bytes wrapped_account) funded_ledger, [])"
    by (subst process_packed)
       (simp_all add: TokenInstruction_wf_def process_instruction_def no_return_def funded_ledger_def
         process_initialize_account3_def process_initialize_account_inner_def take_rent_def example_runtime_def
         v upd native_mint_id_def cmp_pubkeys_def check_account_owner_def checked_sub_def Let_def)
  then show "token_call example_runtime 5 funded_ledger (set_data 21 (Account_bytes wrapped_account) funded_ledger)"
    by (auto simp: token_call_def runtime_accepts_def funded_ledger_def)
qed

theorem native_backed_reachable_witness:
  "\<exists>led. (world_step example_runtime 5)\<^sup>*\<^sup>* genesis_ledger led \<and> token_account 5 (led 21) = Some wrapped_account \<and>
     ta_is_native wrapped_account = Some 3 \<and> ta_mint wrapped_account = native_mint_id example_runtime \<and>
     unat (ta_amount wrapped_account) + unat (3 :: u64) \<le> unat (acc_lamports (led 21))"
proof -
  let ?led = "set_data 21 (Account_bytes wrapped_account) funded_ledger"
  have run: "(world_step example_runtime 5)\<^sup>*\<^sup>* genesis_ledger ?led"
    using example_history_start [of example_runtime] wrapped_history
    by (meson rtranclp.rtrancl_into_rtrancl rtranclp.rtrancl_refl)
  have a: "token_account 5 (?led 21) = Some wrapped_account"
    by (simp add: token_account_iff funded_ledger_def wrapped_account_def account_is_initialized_def)
  have n: "ta_is_native wrapped_account = Some 3" by (simp add: wrapped_account_def)
  from native_backed_reachable [OF _ run a] have "ta_mint wrapped_account = native_mint_id example_runtime"
    "unat (ta_amount wrapped_account) + unat (3 :: u64) \<le> unat (acc_lamports (?led 21))"
    using n by (auto simp: genesis_ledger_def is_native_def)
  then show ?thesis using run a n by blast
qed

end
