(* ===== verification/Lending_Math.thy ===== *)
theory Lending_Math
  imports Solana Complex_Main
begin

text \<open>
  The arithmetic of the lending program (\<^verbatim>\<open>token-lending/program/src/math\<close>, \<^verbatim>\<open>error.rs\<close>).
  A \<^verbatim>\<open>Decimal\<close> is a 192-bit and a \<^verbatim>\<open>Rate\<close> a 128-bit integer, both scaled by \<open>WAD = 10^18\<close>.
  The lemmas read every operation as exact arithmetic on the scaled natural numbers
  \<open>dn\<close> and \<open>rn\<close> (rounding down in products and quotients), with the precise
  condition under which it succeeds.
\<close>

section \<open>Errors\<close>

datatype LendingError =
    InstructionUnpackError
  | AlreadyInitialized
  | NotRentExemptLending
  | InvalidMarketAuthority
  | InvalidMarketOwner
  | InvalidAccountOwner
  | InvalidTokenOwner
  | InvalidTokenAccount
  | InvalidTokenMint
  | InvalidTokenProgram
  | InvalidAmount
  | InvalidConfig
  | InvalidSigner
  | InvalidAccountInput
  | MathOverflow
  | TokenInitializeMintFailed
  | TokenInitializeAccountFailed
  | TokenTransferFailed
  | TokenMintToFailed
  | TokenBurnFailed
  | InsufficientLiquidity
  | ReserveCollateralDisabled
  | ReserveStale
  | WithdrawTooSmall
  | WithdrawTooLarge
  | BorrowTooSmall
  | BorrowTooLarge
  | RepayTooSmall
  | LiquidationTooSmall
  | ObligationHealthy
  | ObligationStale
  | ObligationReserveLimit
  | InvalidObligationOwner
  | ObligationDepositsEmpty
  | ObligationBorrowsEmpty
  | ObligationDepositsZero
  | ObligationBorrowsZero
  | InvalidObligationCollateral
  | InvalidObligationLiquidity
  | ObligationCollateralEmpty
  | ObligationLiquidityEmpty
  | NegativeInterestRate
  | InvalidOracleConfig
  | InvalidFlashLoanReceiverProgram
  | NotEnoughLiquidityAfterFlashLoan

primrec LendingError_code :: "LendingError \<Rightarrow> u32" where
  "LendingError_code InstructionUnpackError = 0"
| "LendingError_code AlreadyInitialized = 1"
| "LendingError_code NotRentExemptLending = 2"
| "LendingError_code InvalidMarketAuthority = 3"
| "LendingError_code InvalidMarketOwner = 4"
| "LendingError_code InvalidAccountOwner = 5"
| "LendingError_code InvalidTokenOwner = 6"
| "LendingError_code InvalidTokenAccount = 7"
| "LendingError_code InvalidTokenMint = 8"
| "LendingError_code InvalidTokenProgram = 9"
| "LendingError_code InvalidAmount = 10"
| "LendingError_code InvalidConfig = 11"
| "LendingError_code InvalidSigner = 12"
| "LendingError_code InvalidAccountInput = 13"
| "LendingError_code MathOverflow = 14"
| "LendingError_code TokenInitializeMintFailed = 15"
| "LendingError_code TokenInitializeAccountFailed = 16"
| "LendingError_code TokenTransferFailed = 17"
| "LendingError_code TokenMintToFailed = 18"
| "LendingError_code TokenBurnFailed = 19"
| "LendingError_code InsufficientLiquidity = 20"
| "LendingError_code ReserveCollateralDisabled = 21"
| "LendingError_code ReserveStale = 22"
| "LendingError_code WithdrawTooSmall = 23"
| "LendingError_code WithdrawTooLarge = 24"
| "LendingError_code BorrowTooSmall = 25"
| "LendingError_code BorrowTooLarge = 26"
| "LendingError_code RepayTooSmall = 27"
| "LendingError_code LiquidationTooSmall = 28"
| "LendingError_code ObligationHealthy = 29"
| "LendingError_code ObligationStale = 30"
| "LendingError_code ObligationReserveLimit = 31"
| "LendingError_code InvalidObligationOwner = 32"
| "LendingError_code ObligationDepositsEmpty = 33"
| "LendingError_code ObligationBorrowsEmpty = 34"
| "LendingError_code ObligationDepositsZero = 35"
| "LendingError_code ObligationBorrowsZero = 36"
| "LendingError_code InvalidObligationCollateral = 37"
| "LendingError_code InvalidObligationLiquidity = 38"
| "LendingError_code ObligationCollateralEmpty = 39"
| "LendingError_code ObligationLiquidityEmpty = 40"
| "LendingError_code NegativeInterestRate = 41"
| "LendingError_code InvalidOracleConfig = 42"
| "LendingError_code InvalidFlashLoanReceiverProgram = 43"
| "LendingError_code NotEnoughLiquidityAfterFlashLoan = 44"

definition lending_err :: "LendingError \<Rightarrow> program_error" where
  "lending_err e = Custom (LendingError_code e)"

abbreviation math_overflow :: program_error where
  "math_overflow \<equiv> lending_err MathOverflow"

section \<open>Scales\<close>

definition SCALE :: nat where "SCALE = 18"
definition WAD :: u64 where "WAD = 1000000000000000000"
definition HALF_WAD :: u64 where "HALF_WAD = 500000000000000000"
definition PERCENT_SCALER :: u64 where "PERCENT_SCALER = 10000000000000000"
definition U64_MAX :: u64 where "U64_MAX = 18446744073709551615"

section \<open>Decimals and rates\<close>

datatype Decimal = Decimal (dec_raw: "192 word")
datatype Rate = Rate (rate_raw: "128 word")

instantiation Decimal :: linorder
begin

definition less_eq_Decimal :: "Decimal \<Rightarrow> Decimal \<Rightarrow> bool" where
  "a \<le> b \<longleftrightarrow> dec_raw a \<le> dec_raw b"

definition less_Decimal :: "Decimal \<Rightarrow> Decimal \<Rightarrow> bool" where
  "a < b \<longleftrightarrow> dec_raw a < dec_raw b"

instance
  by standard (auto simp: less_eq_Decimal_def less_Decimal_def intro: Decimal.expand)

end

instantiation Rate :: linorder
begin

definition less_eq_Rate :: "Rate \<Rightarrow> Rate \<Rightarrow> bool" where
  "a \<le> b \<longleftrightarrow> rate_raw a \<le> rate_raw b"

definition less_Rate :: "Rate \<Rightarrow> Rate \<Rightarrow> bool" where
  "a < b \<longleftrightarrow> rate_raw a < rate_raw b"

instance
  by standard (auto simp: less_eq_Rate_def less_Rate_def intro: Rate.expand)

end

definition Decimal_wad :: "192 word" where "Decimal_wad = ucast WAD"
definition Decimal_half_wad :: "192 word" where "Decimal_half_wad = ucast HALF_WAD"
definition Decimal_one :: Decimal where "Decimal_one = Decimal Decimal_wad"
definition Decimal_zero :: Decimal where "Decimal_zero = Decimal 0"

definition Decimal_from_percent :: "u8 \<Rightarrow> Decimal" where
  "Decimal_from_percent percent = Decimal (ucast (ucast percent * PERCENT_SCALER :: u64))"

definition Decimal_to_scaled_val :: "Decimal \<Rightarrow> u128 res" where
  "Decimal_to_scaled_val d = ok_or (try_from_word (dec_raw d)) math_overflow"

definition Decimal_from_scaled_val :: "u128 \<Rightarrow> Decimal" where
  "Decimal_from_scaled_val v = Decimal (ucast v)"

definition Decimal_try_round_u64 :: "Decimal \<Rightarrow> u64 res" where
  "Decimal_try_round_u64 d =
     attempt (ok_or (checked_add Decimal_half_wad (dec_raw d)) math_overflow) (\<lambda>s.
     attempt (ok_or (checked_div s Decimal_wad) math_overflow) (\<lambda>q.
     ok_or (try_from_word q) math_overflow))"

definition Decimal_try_ceil_u64 :: "Decimal \<Rightarrow> u64 res" where
  "Decimal_try_ceil_u64 d =
     attempt (ok_or (checked_sub Decimal_wad 1) math_overflow) (\<lambda>w.
     attempt (ok_or (checked_add w (dec_raw d)) math_overflow) (\<lambda>s.
     attempt (ok_or (checked_div s Decimal_wad) math_overflow) (\<lambda>q.
     ok_or (try_from_word q) math_overflow)))"

definition Decimal_try_floor_u64 :: "Decimal \<Rightarrow> u64 res" where
  "Decimal_try_floor_u64 d =
     attempt (ok_or (checked_div (dec_raw d) Decimal_wad) math_overflow) (\<lambda>q.
     ok_or (try_from_word q) math_overflow)"

definition Decimal_from_u64 :: "u64 \<Rightarrow> Decimal" where
  "Decimal_from_u64 v = Decimal (Decimal_wad * ucast v)"

definition Decimal_from_u128 :: "u128 \<Rightarrow> Decimal" where
  "Decimal_from_u128 v = Decimal (Decimal_wad * ucast v)"

definition Rate_to_scaled_val :: "Rate \<Rightarrow> u128" where
  "Rate_to_scaled_val r = rate_raw r"

definition Decimal_from_Rate :: "Rate \<Rightarrow> Decimal" where
  "Decimal_from_Rate r = Decimal (ucast (Rate_to_scaled_val r))"

definition Decimal_try_add :: "Decimal \<Rightarrow> Decimal \<Rightarrow> Decimal res" where
  "Decimal_try_add a b =
     attempt (ok_or (checked_add (dec_raw a) (dec_raw b)) math_overflow) (\<lambda>v. Inr (Decimal v))"

definition Decimal_try_sub :: "Decimal \<Rightarrow> Decimal \<Rightarrow> Decimal res" where
  "Decimal_try_sub a b =
     attempt (ok_or (checked_sub (dec_raw a) (dec_raw b)) math_overflow) (\<lambda>v. Inr (Decimal v))"

definition Decimal_try_div_u64 :: "Decimal \<Rightarrow> u64 \<Rightarrow> Decimal res" where
  "Decimal_try_div_u64 a b =
     attempt (ok_or (checked_div (dec_raw a) (ucast b)) math_overflow) (\<lambda>v. Inr (Decimal v))"

definition Decimal_try_div :: "Decimal \<Rightarrow> Decimal \<Rightarrow> Decimal res" where
  "Decimal_try_div a b =
     attempt (ok_or (checked_mul (dec_raw a) Decimal_wad) math_overflow) (\<lambda>p.
     attempt (ok_or (checked_div p (dec_raw b)) math_overflow) (\<lambda>v. Inr (Decimal v)))"

definition Decimal_try_div_Rate :: "Decimal \<Rightarrow> Rate \<Rightarrow> Decimal res" where
  "Decimal_try_div_Rate a r = Decimal_try_div a (Decimal_from_Rate r)"

definition Decimal_try_mul_u64 :: "Decimal \<Rightarrow> u64 \<Rightarrow> Decimal res" where
  "Decimal_try_mul_u64 a b =
     attempt (ok_or (checked_mul (dec_raw a) (ucast b)) math_overflow) (\<lambda>v. Inr (Decimal v))"

definition Decimal_try_mul :: "Decimal \<Rightarrow> Decimal \<Rightarrow> Decimal res" where
  "Decimal_try_mul a b =
     attempt (ok_or (checked_mul (dec_raw a) (dec_raw b)) math_overflow) (\<lambda>p.
     attempt (ok_or (checked_div p Decimal_wad) math_overflow) (\<lambda>v. Inr (Decimal v)))"

definition Decimal_try_mul_Rate :: "Decimal \<Rightarrow> Rate \<Rightarrow> Decimal res" where
  "Decimal_try_mul_Rate a r = Decimal_try_mul a (Decimal_from_Rate r)"

definition Rate_wad :: "128 word" where "Rate_wad = ucast WAD"
definition Rate_one :: Rate where "Rate_one = Rate Rate_wad"
definition Rate_zero :: Rate where "Rate_zero = Rate 0"

definition Rate_from_percent :: "u8 \<Rightarrow> Rate" where
  "Rate_from_percent percent = Rate (ucast (ucast percent * PERCENT_SCALER :: u64))"

definition Rate_from_scaled_val :: "u64 \<Rightarrow> Rate" where
  "Rate_from_scaled_val v = Rate (ucast v)"

definition Rate_try_from_Decimal :: "Decimal \<Rightarrow> Rate res" where
  "Rate_try_from_Decimal d = attempt (Decimal_to_scaled_val d) (\<lambda>v. Inr (Rate v))"

definition Rate_try_add :: "Rate \<Rightarrow> Rate \<Rightarrow> Rate res" where
  "Rate_try_add a b =
     attempt (ok_or (checked_add (rate_raw a) (rate_raw b)) math_overflow) (\<lambda>v. Inr (Rate v))"

definition Rate_try_sub :: "Rate \<Rightarrow> Rate \<Rightarrow> Rate res" where
  "Rate_try_sub a b =
     attempt (ok_or (checked_sub (rate_raw a) (rate_raw b)) math_overflow) (\<lambda>v. Inr (Rate v))"

definition Rate_try_div_u64 :: "Rate \<Rightarrow> u64 \<Rightarrow> Rate res" where
  "Rate_try_div_u64 a b =
     attempt (ok_or (checked_div (rate_raw a) (ucast b)) math_overflow) (\<lambda>v. Inr (Rate v))"

definition Rate_try_div :: "Rate \<Rightarrow> Rate \<Rightarrow> Rate res" where
  "Rate_try_div a b =
     attempt (ok_or (checked_mul (rate_raw a) Rate_wad) math_overflow) (\<lambda>p.
     attempt (ok_or (checked_div p (rate_raw b)) math_overflow) (\<lambda>v. Inr (Rate v)))"

definition Rate_try_mul_u64 :: "Rate \<Rightarrow> u64 \<Rightarrow> Rate res" where
  "Rate_try_mul_u64 a b =
     attempt (ok_or (checked_mul (rate_raw a) (ucast b)) math_overflow) (\<lambda>v. Inr (Rate v))"

definition Rate_try_mul :: "Rate \<Rightarrow> Rate \<Rightarrow> Rate res" where
  "Rate_try_mul a b =
     attempt (ok_or (checked_mul (rate_raw a) (rate_raw b)) math_overflow) (\<lambda>p.
     attempt (ok_or (checked_div p Rate_wad) math_overflow) (\<lambda>v. Inr (Rate v)))"

text \<open>The loop of \<^verbatim>\<open>try_pow\<close>: its state is \<^verbatim>\<open>exp\<close>, \<^verbatim>\<open>base\<close> and \<^verbatim>\<open>ret\<close>.\<close>

function pow_loop :: "u64 \<Rightarrow> Rate \<Rightarrow> Rate \<Rightarrow> Rate res" where
  "pow_loop e base ret =
     (if e > 0 then
        let e = e div 2 in
        attempt (Rate_try_mul base base) (\<lambda>base.
        if e mod 2 \<noteq> 0 then
          attempt (Rate_try_mul ret base) (\<lambda>ret. pow_loop e base ret)
        else pow_loop e base ret)
      else Inr ret)"
  by auto

termination pow_loop
  by (relation "measure (\<lambda>(e, _, _). unat e)")
     (auto simp: word_less_nat_alt unat_div intro!: div_less_dividend)

declare pow_loop.simps [simp del]

definition Rate_try_pow :: "Rate \<Rightarrow> u64 \<Rightarrow> Rate res" where
  "Rate_try_pow r e =
     (let ret = (if e mod 2 \<noteq> 0 then r else Rate Rate_wad) in pow_loop e r ret)"

section \<open>Reading the operations as arithmetic\<close>

abbreviation dn :: "Decimal \<Rightarrow> nat" where "dn d \<equiv> unat (dec_raw d)"
abbreviation rn :: "Rate \<Rightarrow> nat" where "rn r \<equiv> unat (rate_raw r)"
abbreviation wad :: nat where "wad \<equiv> 1000000000000000000"

lemma Decimal_le_iff: "a \<le> b \<longleftrightarrow> dn a \<le> dn b"
  by (simp add: less_eq_Decimal_def word_le_nat_alt)

lemma Decimal_less_iff: "a < b \<longleftrightarrow> dn a < dn b"
  by (simp add: less_Decimal_def word_less_nat_alt)

lemma Decimal_eq_iff: "a = b \<longleftrightarrow> dn a = dn b"
  by (cases a, cases b) (simp add: word_unat_eq_iff)

lemma Rate_le_iff: "a \<le> b \<longleftrightarrow> rn a \<le> rn b"
  by (simp add: less_eq_Rate_def word_le_nat_alt)

lemma Rate_less_iff: "a < b \<longleftrightarrow> rn a < rn b"
  by (simp add: less_Rate_def word_less_nat_alt)

lemma Rate_eq_iff: "a = b \<longleftrightarrow> rn a = rn b"
  by (cases a, cases b) (simp add: word_unat_eq_iff)

lemma dn_bound: "dn d < 2 ^ 192" using unat_bound [of "dec_raw d"] by simp

lemma rn_bound: "rn r < 2 ^ 128" using unat_bound [of "rate_raw r"] by simp

lemma unat_casts [simp]:
  "unat (ucast (x :: u64) :: 192 word) = unat x" "unat (ucast (y :: u128) :: 192 word) = unat y"
  "unat (ucast (x :: u64) :: 128 word) = unat x" "unat (ucast (b :: u8) :: u64) = unat b"
  by (simp_all add: unat_ucast_up)

lemma wad_values [simp]:
  "unat Decimal_wad = wad" "unat Decimal_half_wad = 500000000000000000" "unat Rate_wad = wad"
  "unat WAD = wad"
  by (simp_all add: Decimal_wad_def Decimal_half_wad_def Rate_wad_def WAD_def HALF_WAD_def)

lemma dn_constants [simp]:
  "dn Decimal_one = wad" "dn Decimal_zero = 0" "rn Rate_one = wad" "rn Rate_zero = 0"
  by (simp_all add: Decimal_one_def Decimal_zero_def Rate_one_def Rate_zero_def)

lemma unat_percent: "unat (ucast (p :: u8) * PERCENT_SCALER) = unat p * 10000000000000000"
proof -
  have "unat p * 10000000000000000 < 2 ^ 64" using unat_bound [of p] by simp
  then show ?thesis by (simp add: unat_word_ariths PERCENT_SCALER_def)
qed

lemma dn_from_percent [simp]: "dn (Decimal_from_percent p) = unat p * 10000000000000000"
  by (simp add: Decimal_from_percent_def unat_percent)

lemma rn_from_percent [simp]: "rn (Rate_from_percent p) = unat p * 10000000000000000"
  by (simp add: Rate_from_percent_def unat_percent)

lemma dn_from_u64 [simp]: "dn (Decimal_from_u64 v) = wad * unat v"
proof -
  have "wad * unat v < 2 ^ 192" using unat_bound [of v] by simp
  then show ?thesis by (simp add: Decimal_from_u64_def unat_word_ariths)
qed

lemma dn_from_u128 [simp]: "dn (Decimal_from_u128 v) = wad * unat v"
proof -
  have "wad * unat v < 2 ^ 192" using unat_bound [of v] by simp
  then show ?thesis by (simp add: Decimal_from_u128_def unat_word_ariths)
qed

lemma dn_from_Rate [simp]: "dn (Decimal_from_Rate r) = rn r"
  by (simp add: Decimal_from_Rate_def Rate_to_scaled_val_def)

lemma dn_from_scaled_val [simp]: "dn (Decimal_from_scaled_val v) = unat v"
  by (simp add: Decimal_from_scaled_val_def)

lemma rn_from_scaled_val [simp]: "rn (Rate_from_scaled_val v) = unat v"
  by (simp add: Rate_from_scaled_val_def)

lemma Inr_Decimal: "(\<exists>x. P x \<and> Decimal x = d) \<longleftrightarrow> P (dec_raw d)"
  by (cases d) auto

lemma Inr_Rate: "(\<exists>x. P x \<and> Rate x = r) \<longleftrightarrow> P (rate_raw r)"
  by (cases r) auto

lemma attempt_ok_or_Inr:
  "attempt (ok_or m e) (\<lambda>p. attempt (ok_or (f p) e) g) = Inr r \<longleftrightarrow>
     (\<exists>c. (\<exists>p. m = Some p \<and> f p = Some c) \<and> g c = Inr r)"
  by (auto simp: res_simps)

text \<open>Success of each operation, and its exact result.\<close>

lemma Decimal_try_add_Inr [checked_simps]: "Decimal_try_add a b = Inr c \<longleftrightarrow> dn c = dn a + dn b"
  by (auto simp: Decimal_try_add_def res_simps checked_simps Inr_Decimal)

lemma Decimal_try_sub_Inr [checked_simps]:
  "Decimal_try_sub a b = Inr c \<longleftrightarrow> dn b \<le> dn a \<and> dn c = dn a - dn b"
  by (auto simp: Decimal_try_sub_def res_simps checked_simps Inr_Decimal)

lemma Decimal_try_mul_u64_Inr [checked_simps]:
  "Decimal_try_mul_u64 a n = Inr c \<longleftrightarrow> dn c = dn a * unat n"
  by (auto simp: Decimal_try_mul_u64_def res_simps checked_simps Inr_Decimal)

lemma Decimal_try_div_u64_Inr [checked_simps]:
  "Decimal_try_div_u64 a n = Inr c \<longleftrightarrow> unat n \<noteq> 0 \<and> dn c = dn a div unat n"
  by (auto simp: Decimal_try_div_u64_def res_simps checked_simps Inr_Decimal)

lemma Decimal_try_mul_Inr [checked_simps]:
  "Decimal_try_mul a b = Inr c \<longleftrightarrow> dn a * dn b < 2 ^ 192 \<and> dn c = dn a * dn b div wad"
  unfolding Decimal_try_mul_def attempt_ok_or_Inr checked_mul_div_Some
  by (cases c) auto

lemma Decimal_try_div_Inr [checked_simps]:
  "Decimal_try_div a b = Inr c \<longleftrightarrow> dn a * wad < 2 ^ 192 \<and> dn b \<noteq> 0 \<and> dn c = dn a * wad div dn b"
  unfolding Decimal_try_div_def attempt_ok_or_Inr checked_mul_div_Some
  by (cases c) auto

lemma Decimal_try_mul_Rate_Inr [checked_simps]:
  "Decimal_try_mul_Rate a r = Inr c \<longleftrightarrow> dn a * rn r < 2 ^ 192 \<and> dn c = dn a * rn r div wad"
  by (simp add: Decimal_try_mul_Rate_def Decimal_try_mul_Inr)

lemma Decimal_try_div_Rate_Inr [checked_simps]:
  "Decimal_try_div_Rate a r = Inr c \<longleftrightarrow> dn a * wad < 2 ^ 192 \<and> rn r \<noteq> 0 \<and> dn c = dn a * wad div rn r"
  by (simp add: Decimal_try_div_Rate_def Decimal_try_div_Inr)

lemma Decimal_to_scaled_val_Inr [checked_simps]: "Decimal_to_scaled_val d = Inr v \<longleftrightarrow> unat v = dn d"
  by (simp add: Decimal_to_scaled_val_def res_simps checked_simps)

lemma div_wad_bound: "x < 2 ^ 192 \<Longrightarrow> x div wad < 2 ^ 192" for x :: nat
  by (meson div_le_dividend le_less_trans)

lemma Decimal_try_floor_Inr [checked_simps]: "Decimal_try_floor_u64 d = Inr n \<longleftrightarrow> unat n = dn d div wad"
  using div_wad_bound [OF dn_bound, of d] ex_try_from_word [of "dn d div wad", where 'a = 192 and 'b = 64]
  by (simp add: Decimal_try_floor_u64_def res_simps checked_div_eq_Some)

lemma Decimal_try_round_Inr [checked_simps]:
  "Decimal_try_round_u64 d = Inr n \<longleftrightarrow>
     500000000000000000 + dn d < 2 ^ 192 \<and> unat n = (500000000000000000 + dn d) div wad"
  using div_wad_bound [of "500000000000000000 + dn d"]
    ex_try_from_word [of "(500000000000000000 + dn d) div wad", where 'a = 192 and 'b = 64]
  unfolding Decimal_try_round_u64_def attempt_ok_or_Inr checked_add_div_Some
  by (auto simp: res_simps)

lemma Decimal_try_ceil_Inr [checked_simps]:
  "Decimal_try_ceil_u64 d = Inr n \<longleftrightarrow>
     999999999999999999 + dn d < 2 ^ 192 \<and> unat n = (999999999999999999 + dn d) div wad"
proof -
  have one: "checked_sub Decimal_wad 1 = Some (Decimal_wad - 1)" "unat (Decimal_wad - 1) = 999999999999999999"
    by (simp_all add: checked_sub_def unat_sub_if')
  show ?thesis
    using div_wad_bound [of "999999999999999999 + dn d"]
      ex_try_from_word [of "(999999999999999999 + dn d) div wad", where 'a = 192 and 'b = 64]
    unfolding Decimal_try_ceil_u64_def one(1) ok_or_Some attempt_Inr attempt_ok_or_Inr checked_add_div_Some one(2)
    by (auto simp: res_simps)
qed

lemma Rate_try_add_Inr [checked_simps]: "Rate_try_add a b = Inr c \<longleftrightarrow> rn c = rn a + rn b"
  by (auto simp: Rate_try_add_def res_simps checked_simps Inr_Rate)

lemma Rate_try_sub_Inr [checked_simps]:
  "Rate_try_sub a b = Inr c \<longleftrightarrow> rn b \<le> rn a \<and> rn c = rn a - rn b"
  by (auto simp: Rate_try_sub_def res_simps checked_simps Inr_Rate)

lemma Rate_try_mul_u64_Inr [checked_simps]: "Rate_try_mul_u64 a n = Inr c \<longleftrightarrow> rn c = rn a * unat n"
  by (auto simp: Rate_try_mul_u64_def res_simps checked_simps Inr_Rate)

lemma Rate_try_div_u64_Inr [checked_simps]:
  "Rate_try_div_u64 a n = Inr c \<longleftrightarrow> unat n \<noteq> 0 \<and> rn c = rn a div unat n"
  by (auto simp: Rate_try_div_u64_def res_simps checked_simps Inr_Rate)

lemma Rate_try_mul_Inr [checked_simps]:
  "Rate_try_mul a b = Inr c \<longleftrightarrow> rn a * rn b < 2 ^ 128 \<and> rn c = rn a * rn b div wad"
  unfolding Rate_try_mul_def attempt_ok_or_Inr checked_mul_div_Some
  by (cases c) auto

lemma Rate_try_div_Inr [checked_simps]:
  "Rate_try_div a b = Inr c \<longleftrightarrow> rn a * wad < 2 ^ 128 \<and> rn b \<noteq> 0 \<and> rn c = rn a * wad div rn b"
  unfolding Rate_try_div_def attempt_ok_or_Inr checked_mul_div_Some
  by (cases c) auto

lemma Rate_try_from_Decimal_Inr [checked_simps]: "Rate_try_from_Decimal d = Inr r \<longleftrightarrow> rn r = dn d"
  by (cases r) (auto simp: Rate_try_from_Decimal_def res_simps checked_simps)

section \<open>Rounding\<close>

text \<open>When they succeed, the three conversions of a decimal to an integer are the floor, the
  ceiling and the nearest integer (halves up) of the exact value, so rounding down never gives more
  and rounding up never less than the decimal, and each is off by less than one token.\<close>

theorem decimal_rounding_bounds:
  "(Decimal_try_floor_u64 d = Inr n \<longrightarrow> wad * unat n \<le> dn d \<and> dn d < wad * (unat n + 1)) \<and>
   (Decimal_try_ceil_u64 d = Inr n \<longrightarrow> dn d \<le> wad * unat n \<and> wad * unat n < dn d + wad) \<and>
   (Decimal_try_round_u64 d = Inr n \<longrightarrow>
      2 * (wad * unat n) \<le> 2 * dn d + wad \<and> 2 * dn d < 2 * (wad * unat n) + wad)"
proof -
  have div: "wad * (x div wad) \<le> x \<and> x < wad * (x div wad) + wad" for x :: nat
    using mult_div_mod_eq [of wad x] mod_less_divisor [of wad x] by linarith
  show ?thesis
    using div [of "dn d"] div [of "999999999999999999 + dn d"] div [of "500000000000000000 + dn d"]
    by (auto simp: checked_simps)
qed

theorem decimal_rounding_bounds_witness:
  "Decimal_try_floor_u64 (Decimal 2500000000000000000) = Inr 2 \<and>
   Decimal_try_ceil_u64 (Decimal 2500000000000000000) = Inr 3 \<and>
   wad * 2 \<le> dn (Decimal 2500000000000000000) \<and> dn (Decimal 2500000000000000000) \<le> wad * 3"
proof -
  have f: "Decimal_try_floor_u64 (Decimal 2500000000000000000) = Inr 2"
    and c: "Decimal_try_ceil_u64 (Decimal 2500000000000000000) = Inr 3"
    by (simp_all add: checked_simps)
  show ?thesis
    using decimal_rounding_bounds [of "Decimal 2500000000000000000" 2]
      decimal_rounding_bounds [of "Decimal 2500000000000000000" 3] f c by simp
qed

section \<open>Powers\<close>

definition rv :: "Rate \<Rightarrow> real" where
  "rv r = real (rn r) / real wad"

lemma rv_nonneg [simp]: "0 \<le> rv r"
  unfolding rv_def by (intro divide_nonneg_nonneg of_nat_0_le_iff)

lemma Rate_try_mul_le: "Rate_try_mul a b = Inr c \<Longrightarrow> rv c \<le> rv a * rv b"
proof -
  assume "Rate_try_mul a b = Inr c"
  then have "rn c * wad \<le> rn a * rn b" by (simp add: checked_simps)
  then have "real (rn c) * real wad \<le> real (rn a) * real (rn b)"
    by (metis of_nat_le_iff of_nat_mult)
  then show ?thesis by (simp add: rv_def divide_simps)
qed

lemma Rate_try_mul_ge: "Rate_try_mul a b = Inr c \<Longrightarrow> wad \<le> rn b \<Longrightarrow> rn a \<le> rn c"
  using div_le_mono [of "rn a * wad" "rn a * rn b" wad] by (simp add: checked_simps)

lemma Rate_try_mul_ge2: "Rate_try_mul a b = Inr c \<Longrightarrow> wad \<le> rn a \<Longrightarrow> rn b \<le> rn c"
  using div_le_mono [of "wad * rn b" "rn a * rn b" wad] by (simp add: checked_simps)

lemma word_odd_nat:
  "(e :: u64) mod 2 \<noteq> 0 \<longleftrightarrow> odd (unat e)" "e mod 2 = 0 \<longleftrightarrow> even (unat e)" "e mod 2 = 1 \<longleftrightarrow> odd (unat e)"
proof -
  have m: "unat (e mod 2) = unat e mod 2" by (simp add: unat_mod)
  then show z: "e mod 2 = 0 \<longleftrightarrow> even (unat e)" by (metis even_iff_mod_2_eq_zero unat_eq_zero)
  then show "e mod 2 \<noteq> 0 \<longleftrightarrow> odd (unat e)" by simp
  show "e mod 2 = 1 \<longleftrightarrow> odd (unat e)"
    unfolding odd_iff_mod_2_eq_one m [symmetric] by (metis unat_1 word_unat_eq_iff)
qed

lemma unat_half: "unat ((e :: u64) div 2) = unat e div 2"
  by (simp add: unat_div)

lemma pow_loop_le:
  assumes "pow_loop e base ret = Inr r"
  shows "rv r \<le> rv ret * rv base ^ (2 * (unat e div 2))"
  using assms
proof (induction e base ret rule: pow_loop.induct)
  case (1 e base ret)
  show ?case
  proof (cases "e > 0")
    case False
    then have "e = 0" by (simp add: word_greater_zero_iff)
    then show ?thesis using 1(3) by (simp add: pow_loop.simps [of 0])
  next
    case True
    let ?h = "e div 2"
    obtain b where b: "Rate_try_mul base base = Inr b"
      and rest: "(if ?h mod 2 \<noteq> 0 then attempt (Rate_try_mul ret b) (\<lambda>ret. pow_loop ?h b ret)
        else pow_loop ?h b ret) = Inr r"
      using 1(3) True by (subst (asm) pow_loop.simps) (auto simp: res_simps Let_def)
    have sq: "rv b \<le> rv base ^ 2" using Rate_try_mul_le [OF b] by (simp add: power2_eq_square)
    have "rv r \<le> rv ret * rv b ^ unat ?h"
    proof (cases "odd (unat ?h)")
      case odd: True
      then obtain ret' where m: "Rate_try_mul ret b = Inr ret'" and l: "pow_loop ?h b ret' = Inr r"
        using rest by (auto simp: word_odd_nat res_simps)
      have "rv r \<le> rv ret' * rv b ^ (2 * (unat ?h div 2))"
        using 1(1) [OF True refl _ l] odd by (simp add: word_odd_nat)
      also have "\<dots> \<le> (rv ret * rv b) * rv b ^ (2 * (unat ?h div 2))"
        by (intro mult_right_mono Rate_try_mul_le [OF m]) simp
      also have "\<dots> = rv ret * rv b ^ Suc (2 * (unat ?h div 2))" by simp
      also have "Suc (2 * (unat ?h div 2)) = unat ?h" using odd by (simp add: odd_two_times_div_two_succ)
      finally show ?thesis .
    next
      case even: False
      then have l: "pow_loop ?h b ret = Inr r" using rest by (simp add: word_odd_nat)
      have "rv r \<le> rv ret * rv b ^ (2 * (unat ?h div 2))"
        using 1(2) [OF True refl _ l] even by (simp add: word_odd_nat)
      then show ?thesis using even by simp
    qed
    also have "\<dots> \<le> rv ret * (rv base ^ 2) ^ unat ?h"
      by (intro mult_left_mono power_mono sq) simp_all
    finally show ?thesis by (simp add: power_mult [symmetric] unat_half)
  qed
qed

lemma pow_loop_ge:
  assumes "pow_loop e base ret = Inr r" and "wad \<le> rn base" and "wad \<le> rn ret"
  shows "rn ret \<le> rn r \<and> (2 \<le> unat e \<longrightarrow> rn base \<le> rn r)"
  using assms
proof (induction e base ret rule: pow_loop.induct)
  case (1 e base ret)
  show ?case
  proof (cases "e > 0")
    case False
    then have "e = 0" by (simp add: word_greater_zero_iff)
    then show ?thesis using 1(3) by (simp add: pow_loop.simps [of 0])
  next
    case True
    let ?h = "e div 2"
    obtain b where b: "Rate_try_mul base base = Inr b"
      and rest: "(if ?h mod 2 \<noteq> 0 then attempt (Rate_try_mul ret b) (\<lambda>ret. pow_loop ?h b ret)
        else pow_loop ?h b ret) = Inr r"
      using 1(3) True by (subst (asm) pow_loop.simps) (auto simp: res_simps Let_def)
    have bb: "rn base \<le> rn b" using Rate_try_mul_ge [OF b] 1(4) by simp
    then have wb: "wad \<le> rn b" using 1(4) by simp
    show ?thesis
    proof (cases "odd (unat ?h)")
      case odd: True
      then obtain ret' where m: "Rate_try_mul ret b = Inr ret'" and l: "pow_loop ?h b ret' = Inr r"
        using rest by (auto simp: word_odd_nat res_simps)
      have "rn ret \<le> rn ret'" "rn b \<le> rn ret'"
        using Rate_try_mul_ge [OF m wb] Rate_try_mul_ge2 [OF m] 1(5) by simp_all
      moreover have "rn ret' \<le> rn r"
        using 1(1) [OF True refl _ l wb] odd calculation 1(5) by (simp add: word_odd_nat)
      ultimately show ?thesis using bb by simp
    next
      case even: False
      then have l: "pow_loop ?h b ret = Inr r" using rest by (simp add: word_odd_nat)
      have "rn ret \<le> rn r \<and> (2 \<le> unat ?h \<longrightarrow> rn b \<le> rn r)"
        using 1(2) [OF True refl _ l wb 1(5)] even by (simp add: word_odd_nat)
      moreover have "2 \<le> unat ?h" if "2 \<le> unat e"
      proof -
        have "1 \<le> unat ?h" using that by (simp add: unat_half)
        then show ?thesis using even by (cases "unat ?h = 1") auto
      qed
      ultimately show ?thesis using bb by auto
    qed
  qed
qed

text \<open>Repeated squaring never overstates a power: the result is at most the exact power of the
  rate, whatever the rounding did on the way, and compounding a rate of at least one over at least
  one period never gives less than the rate itself.\<close>

theorem try_pow_bounds:
  assumes "Rate_try_pow b e = Inr r"
  shows "rv r \<le> rv b ^ unat e \<and> (wad \<le> rn b \<longrightarrow> e \<noteq> 0 \<longrightarrow> rn b \<le> rn r)"
proof -
  define ret where "ret = (if e mod 2 \<noteq> 0 then b else Rate Rate_wad)"
  have run: "pow_loop e b ret = Inr r" using assms by (simp add: Rate_try_pow_def ret_def Let_def)
  have one: "rv (Rate Rate_wad) = 1" by (simp add: rv_def)
  have "rv ret * rv b ^ (2 * (unat e div 2)) = rv b ^ unat e"
  proof (cases "odd (unat e)")
    case True
    then have "rv b ^ unat e = rv b * rv b ^ (2 * (unat e div 2))"
      by (metis odd_two_times_div_two_succ power_Suc Suc_eq_plus1)
    then show ?thesis using True by (simp add: ret_def word_odd_nat)
  next
    case False
    then show ?thesis by (simp add: ret_def word_odd_nat one)
  qed
  then have "rv r \<le> rv b ^ unat e" using pow_loop_le [OF run] by simp
  moreover have "rn b \<le> rn r" if b: "wad \<le> rn b" and e: "e \<noteq> 0"
  proof -
    have "wad \<le> rn ret" using b by (simp add: ret_def)
    note ge = pow_loop_ge [OF run b this]
    show ?thesis
    proof (cases "odd (unat e)")
      case True
      then show ?thesis using ge by (simp add: ret_def word_odd_nat)
    next
      case False
      have "unat e \<noteq> 0" using e by (simp add: unat_eq_zero)
      then have "2 \<le> unat e" using False by (cases "unat e = 1") auto
      then show ?thesis using ge by simp
    qed
  qed
  ultimately show ?thesis by blast
qed

theorem try_pow_bounds_witness:
  "\<exists>r. Rate_try_pow (Rate 1500000000000000000) 3 = Inr r \<and>
     rv r \<le> rv (Rate 1500000000000000000) ^ 3 \<and> 1500000000000000000 \<le> rn r"
proof -
  have m1: "Rate_try_mul (Rate 1500000000000000000) (Rate 1500000000000000000) = Inr (Rate 2250000000000000000)"
    and m2: "Rate_try_mul (Rate 1500000000000000000) (Rate 2250000000000000000) = Inr (Rate 3375000000000000000)"
    and m3: "Rate_try_mul (Rate 2250000000000000000) (Rate 2250000000000000000) = Inr (Rate 5062500000000000000)"
    by (simp_all add: checked_simps)
  have run: "Rate_try_pow (Rate 1500000000000000000) 3 = Inr (Rate 3375000000000000000)"
    by (simp add: Rate_try_pow_def Let_def pow_loop.simps [of 3] pow_loop.simps [of 1] pow_loop.simps [of 0] m1 m2 m3)
  from try_pow_bounds [OF run] run show ?thesis by simp
qed

lemma try_pow_one_loop: "pow_loop e Rate_one Rate_one = Inr Rate_one"
proof (induction e Rate_one Rate_one rule: pow_loop.induct)
  case (1 e)
  have "Rate_try_mul Rate_one Rate_one = Inr Rate_one" by (simp add: checked_simps)
  then show ?case using 1 by (subst pow_loop.simps) (simp add: Let_def)
qed

end
