(* ===== verification/Lending_State.thy ===== *)
theory Lending_State
  imports Lending_Math
begin

text \<open>
  The state of the lending program and its operations
  (\<^verbatim>\<open>token-lending/program/src/state\<close>): lending markets, reserves with their liquidity, collateral,
  interest and fees, and obligations with their deposits and borrows.  A method that takes
  \<^verbatim>\<open>&mut self\<close> returns the updated value.  The byte layouts are in the next theory.
\<close>

definition INITIAL_COLLATERAL_RATIO :: u64 where "INITIAL_COLLATERAL_RATIO = 1"
definition INITIAL_COLLATERAL_RATE :: u64 where "INITIAL_COLLATERAL_RATE = INITIAL_COLLATERAL_RATIO * WAD"
definition PROGRAM_VERSION :: u8 where "PROGRAM_VERSION = 1"
definition UNINITIALIZED_VERSION :: u8 where "UNINITIALIZED_VERSION = 0"

definition SLOTS_PER_YEAR :: "runtime \<Rightarrow> u64" where
  "SLOTS_PER_YEAR R = rt_ticks_per_second R div rt_ticks_per_slot R * rt_seconds_per_day R * 365"

section \<open>Last update\<close>

definition STALE_AFTER_SLOTS_ELAPSED :: u64 where "STALE_AFTER_SLOTS_ELAPSED = 1"

record LastUpdate =
  lu_slot :: u64
  lu_stale :: bool

definition LastUpdate_new :: "u64 \<Rightarrow> LastUpdate" where
  "LastUpdate_new slot = \<lparr>lu_slot = slot, lu_stale = True\<rparr>"

definition slots_elapsed :: "LastUpdate \<Rightarrow> u64 \<Rightarrow> u64 res" where
  "slots_elapsed lu slot = ok_or (checked_sub slot (lu_slot lu)) math_overflow"

definition update_slot :: "u64 \<Rightarrow> LastUpdate \<Rightarrow> LastUpdate" where
  "update_slot slot lu = lu\<lparr>lu_slot := slot, lu_stale := False\<rparr>"

definition mark_stale :: "LastUpdate \<Rightarrow> LastUpdate" where
  "mark_stale lu = lu\<lparr>lu_stale := True\<rparr>"

definition is_stale :: "LastUpdate \<Rightarrow> u64 \<Rightarrow> bool res" where
  "is_stale lu slot =
     (if lu_stale lu then Inr True
      else attempt (slots_elapsed lu slot) (\<lambda>n. Inr (n \<ge> STALE_AFTER_SLOTS_ELAPSED)))"

section \<open>Lending market\<close>

record LendingMarket =
  lm_version :: u8
  lm_bump_seed :: u8
  lm_owner :: pubkey
  lm_quote_currency :: bytes
  lm_token_program_id :: pubkey
  lm_oracle_program_id :: pubkey

definition LendingMarket_init ::
    "u8 \<Rightarrow> pubkey \<Rightarrow> bytes \<Rightarrow> pubkey \<Rightarrow> pubkey \<Rightarrow> LendingMarket \<Rightarrow> LendingMarket" where
  "LendingMarket_init bump owner quote token oracle m =
     m\<lparr>lm_version := PROGRAM_VERSION, lm_bump_seed := bump, lm_owner := owner,
       lm_quote_currency := quote, lm_token_program_id := token, lm_oracle_program_id := oracle\<rparr>"

definition LendingMarket_is_initialized :: "LendingMarket \<Rightarrow> bool" where
  "LendingMarket_is_initialized m \<longleftrightarrow> lm_version m \<noteq> UNINITIALIZED_VERSION"

section \<open>Reserves\<close>

definition LIQUIDATION_CLOSE_FACTOR :: u8 where "LIQUIDATION_CLOSE_FACTOR = 50"
definition LIQUIDATION_CLOSE_AMOUNT :: u64 where "LIQUIDATION_CLOSE_AMOUNT = 2"

record ReserveLiquidity =
  rl_mint_pubkey :: pubkey
  rl_mint_decimals :: u8
  rl_supply_pubkey :: pubkey
  rl_fee_receiver :: pubkey
  rl_oracle_pubkey :: pubkey
  rl_available_amount :: u64
  rl_borrowed_amount_wads :: Decimal
  rl_cumulative_borrow_rate_wads :: Decimal
  rl_market_price :: Decimal

record ReserveCollateral =
  rc_mint_pubkey :: pubkey
  rc_mint_total_supply :: u64
  rc_supply_pubkey :: pubkey

record ReserveFees =
  rf_borrow_fee_wad :: u64
  rf_flash_loan_fee_wad :: u64
  rf_host_fee_percentage :: u8

record ReserveConfig =
  cf_optimal_utilization_rate :: u8
  cf_loan_to_value_ratio :: u8
  cf_liquidation_bonus :: u8
  cf_liquidation_threshold :: u8
  cf_min_borrow_rate :: u8
  cf_optimal_borrow_rate :: u8
  cf_max_borrow_rate :: u8
  cf_fees :: ReserveFees

record Reserve =
  rs_version :: u8
  rs_last_update :: LastUpdate
  rs_lending_market :: pubkey
  rs_liquidity :: ReserveLiquidity
  rs_collateral :: ReserveCollateral
  rs_config :: ReserveConfig

definition Reserve_init ::
    "u64 \<Rightarrow> pubkey \<Rightarrow> ReserveLiquidity \<Rightarrow> ReserveCollateral \<Rightarrow> ReserveConfig \<Rightarrow> Reserve \<Rightarrow> Reserve" where
  "Reserve_init slot market liquidity collateral config r =
     r\<lparr>rs_version := PROGRAM_VERSION, rs_last_update := LastUpdate_new slot, rs_lending_market := market,
       rs_liquidity := liquidity, rs_collateral := collateral, rs_config := config\<rparr>"

definition Reserve_is_initialized :: "Reserve \<Rightarrow> bool" where
  "Reserve_is_initialized r \<longleftrightarrow> rs_version r \<noteq> UNINITIALIZED_VERSION"

subsection \<open>Liquidity\<close>

definition ReserveLiquidity_new ::
    "pubkey \<Rightarrow> u8 \<Rightarrow> pubkey \<Rightarrow> pubkey \<Rightarrow> pubkey \<Rightarrow> Decimal \<Rightarrow> ReserveLiquidity" where
  "ReserveLiquidity_new mint decimals supply fee_receiver oracle price =
     \<lparr>rl_mint_pubkey = mint, rl_mint_decimals = decimals, rl_supply_pubkey = supply,
      rl_fee_receiver = fee_receiver, rl_oracle_pubkey = oracle, rl_available_amount = 0,
      rl_borrowed_amount_wads = Decimal_zero, rl_cumulative_borrow_rate_wads = Decimal_one,
      rl_market_price = price\<rparr>"

definition total_supply :: "ReserveLiquidity \<Rightarrow> Decimal res" where
  "total_supply l = Decimal_try_add (Decimal_from_u64 (rl_available_amount l)) (rl_borrowed_amount_wads l)"

definition ReserveLiquidity_deposit :: "u64 \<Rightarrow> ReserveLiquidity \<Rightarrow> ReserveLiquidity res" where
  "ReserveLiquidity_deposit amt l =
     attempt (ok_or (checked_add (rl_available_amount l) amt) math_overflow) (\<lambda>n.
     Inr (l\<lparr>rl_available_amount := n\<rparr>))"

definition ReserveLiquidity_withdraw :: "u64 \<Rightarrow> ReserveLiquidity \<Rightarrow> ReserveLiquidity res" where
  "ReserveLiquidity_withdraw amt l =
     (if amt > rl_available_amount l then Inl (lending_err InsufficientLiquidity)
      else attempt (ok_or (checked_sub (rl_available_amount l) amt) math_overflow) (\<lambda>n.
           Inr (l\<lparr>rl_available_amount := n\<rparr>)))"

definition ReserveLiquidity_borrow :: "Decimal \<Rightarrow> ReserveLiquidity \<Rightarrow> ReserveLiquidity res" where
  "ReserveLiquidity_borrow borrow_decimal l =
     attempt (Decimal_try_floor_u64 borrow_decimal) (\<lambda>borrow_amount.
     if borrow_amount > rl_available_amount l then Inl (lending_err InsufficientLiquidity)
     else attempt (ok_or (checked_sub (rl_available_amount l) borrow_amount) math_overflow) (\<lambda>n.
          attempt (Decimal_try_add (rl_borrowed_amount_wads l) borrow_decimal) (\<lambda>b.
          Inr (l\<lparr>rl_available_amount := n, rl_borrowed_amount_wads := b\<rparr>))))"

definition ReserveLiquidity_repay :: "u64 \<Rightarrow> Decimal \<Rightarrow> ReserveLiquidity \<Rightarrow> ReserveLiquidity res" where
  "ReserveLiquidity_repay repay_amount settle_amount l =
     attempt (ok_or (checked_add (rl_available_amount l) repay_amount) math_overflow) (\<lambda>n.
     attempt (Decimal_try_sub (rl_borrowed_amount_wads l) settle_amount) (\<lambda>b.
     Inr (l\<lparr>rl_available_amount := n, rl_borrowed_amount_wads := b\<rparr>)))"

definition utilization_rate :: "ReserveLiquidity \<Rightarrow> Rate res" where
  "utilization_rate l =
     attempt (total_supply l) (\<lambda>total.
     if total = Decimal_zero then Inr Rate_zero
     else attempt (Decimal_try_div (rl_borrowed_amount_wads l) total) (\<lambda>d. Rate_try_from_Decimal d))"

definition compound_interest :: "runtime \<Rightarrow> Rate \<Rightarrow> u64 \<Rightarrow> ReserveLiquidity \<Rightarrow> ReserveLiquidity res" where
  "compound_interest R current_borrow_rate slots l =
     attempt (Rate_try_div_u64 current_borrow_rate (SLOTS_PER_YEAR R)) (\<lambda>slot_interest_rate.
     attempt (Rate_try_add Rate_one slot_interest_rate) (\<lambda>base.
     attempt (Rate_try_pow base slots) (\<lambda>compounded.
     attempt (Decimal_try_mul_Rate (rl_cumulative_borrow_rate_wads l) compounded) (\<lambda>c.
     attempt (Decimal_try_mul_Rate (rl_borrowed_amount_wads l) compounded) (\<lambda>b.
     Inr (l\<lparr>rl_cumulative_borrow_rate_wads := c, rl_borrowed_amount_wads := b\<rparr>))))))"

subsection \<open>Collateral and the exchange rate\<close>

definition ReserveCollateral_new :: "pubkey \<Rightarrow> pubkey \<Rightarrow> ReserveCollateral" where
  "ReserveCollateral_new mint supply =
     \<lparr>rc_mint_pubkey = mint, rc_mint_total_supply = 0, rc_supply_pubkey = supply\<rparr>"

definition ReserveCollateral_mint :: "u64 \<Rightarrow> ReserveCollateral \<Rightarrow> ReserveCollateral res" where
  "ReserveCollateral_mint amt c =
     attempt (ok_or (checked_add (rc_mint_total_supply c) amt) math_overflow) (\<lambda>n.
     Inr (c\<lparr>rc_mint_total_supply := n\<rparr>))"

definition ReserveCollateral_burn :: "u64 \<Rightarrow> ReserveCollateral \<Rightarrow> ReserveCollateral res" where
  "ReserveCollateral_burn amt c =
     attempt (ok_or (checked_sub (rc_mint_total_supply c) amt) math_overflow) (\<lambda>n.
     Inr (c\<lparr>rc_mint_total_supply := n\<rparr>))"

datatype CollateralExchangeRate = CollateralExchangeRate Rate

definition exchange_rate :: "Decimal \<Rightarrow> ReserveCollateral \<Rightarrow> CollateralExchangeRate res" where
  "exchange_rate total_liquidity c =
     attempt (if rc_mint_total_supply c = 0 \<or> total_liquidity = Decimal_zero
              then Inr (Rate_from_scaled_val INITIAL_COLLATERAL_RATE)
              else attempt (Decimal_try_div (Decimal_from_u64 (rc_mint_total_supply c)) total_liquidity)
                     (\<lambda>d. Rate_try_from_Decimal d)) (\<lambda>rate.
     Inr (CollateralExchangeRate rate))"

fun decimal_collateral_to_liquidity :: "CollateralExchangeRate \<Rightarrow> Decimal \<Rightarrow> Decimal res" where
  "decimal_collateral_to_liquidity (CollateralExchangeRate r) amt = Decimal_try_div_Rate amt r"

fun decimal_liquidity_to_collateral :: "CollateralExchangeRate \<Rightarrow> Decimal \<Rightarrow> Decimal res" where
  "decimal_liquidity_to_collateral (CollateralExchangeRate r) amt = Decimal_try_mul_Rate amt r"

definition collateral_to_liquidity :: "CollateralExchangeRate \<Rightarrow> u64 \<Rightarrow> u64 res" where
  "collateral_to_liquidity x amt =
     attempt (decimal_collateral_to_liquidity x (Decimal_from_u64 amt)) (\<lambda>d. Decimal_try_floor_u64 d)"

definition liquidity_to_collateral :: "CollateralExchangeRate \<Rightarrow> u64 \<Rightarrow> u64 res" where
  "liquidity_to_collateral x amt =
     attempt (decimal_liquidity_to_collateral x (Decimal_from_u64 amt)) (\<lambda>d. Decimal_try_floor_u64 d)"

subsection \<open>Fees\<close>

datatype FeeCalculation = Exclusive | Inclusive

definition calculate_fees :: "ReserveFees \<Rightarrow> Decimal \<Rightarrow> u64 \<Rightarrow> FeeCalculation \<Rightarrow> (u64 \<times> u64) res" where
  "calculate_fees f amt fee_wad fee_calculation =
     (let borrow_fee_rate = Rate_from_scaled_val fee_wad;
          host_fee_rate = Rate_from_percent (rf_host_fee_percentage f) in
      if borrow_fee_rate > Rate_zero \<and> amt > Decimal_zero then
        let need_to_assess_host_fee = host_fee_rate > Rate_zero;
            minimum_fee = (if need_to_assess_host_fee then 2 else 1 :: u64) in
        attempt (case fee_calculation of
                   Exclusive \<Rightarrow> Decimal_try_mul_Rate amt borrow_fee_rate
                 | Inclusive \<Rightarrow>
                     attempt (Rate_try_add borrow_fee_rate Rate_one) (\<lambda>s.
                     attempt (Rate_try_div borrow_fee_rate s) (\<lambda>q. Decimal_try_mul_Rate amt q)))
          (\<lambda>borrow_fee_amount.
        let borrow_fee_decimal = max borrow_fee_amount (Decimal_from_u64 minimum_fee) in
        if borrow_fee_decimal \<ge> amt then Inl (lending_err BorrowTooSmall)
        else
          attempt (Decimal_try_round_u64 borrow_fee_decimal) (\<lambda>borrow_fee.
          attempt (if need_to_assess_host_fee then
                     attempt (Decimal_try_mul_Rate borrow_fee_decimal host_fee_rate) (\<lambda>h.
                     attempt (Decimal_try_round_u64 h) (\<lambda>n. Inr (max n 1)))
                   else Inr 0) (\<lambda>host_fee.
          Inr (borrow_fee, host_fee))))
      else Inr (0, 0))"

definition calculate_borrow_fees :: "ReserveFees \<Rightarrow> Decimal \<Rightarrow> FeeCalculation \<Rightarrow> (u64 \<times> u64) res" where
  "calculate_borrow_fees f amt fee_calculation = calculate_fees f amt (rf_borrow_fee_wad f) fee_calculation"

definition calculate_flash_loan_fees :: "ReserveFees \<Rightarrow> Decimal \<Rightarrow> (u64 \<times> u64) res" where
  "calculate_flash_loan_fees f amt = calculate_fees f amt (rf_flash_loan_fee_wad f) Exclusive"

subsection \<open>Reserve operations\<close>

definition collateral_exchange_rate :: "Reserve \<Rightarrow> CollateralExchangeRate res" where
  "collateral_exchange_rate r =
     attempt (total_supply (rs_liquidity r)) (\<lambda>total. exchange_rate total (rs_collateral r))"

definition deposit_liquidity :: "u64 \<Rightarrow> Reserve \<Rightarrow> (Reserve \<times> u64) res" where
  "deposit_liquidity liquidity_amount r =
     attempt (collateral_exchange_rate r) (\<lambda>x.
     attempt (liquidity_to_collateral x liquidity_amount) (\<lambda>collateral_amount.
     attempt (ReserveLiquidity_deposit liquidity_amount (rs_liquidity r)) (\<lambda>l.
     attempt (ReserveCollateral_mint collateral_amount (rs_collateral r)) (\<lambda>c.
     Inr (r\<lparr>rs_liquidity := l, rs_collateral := c\<rparr>, collateral_amount)))))"

definition redeem_collateral :: "u64 \<Rightarrow> Reserve \<Rightarrow> (Reserve \<times> u64) res" where
  "redeem_collateral collateral_amount r =
     attempt (collateral_exchange_rate r) (\<lambda>x.
     attempt (collateral_to_liquidity x collateral_amount) (\<lambda>liquidity_amount.
     attempt (ReserveCollateral_burn collateral_amount (rs_collateral r)) (\<lambda>c.
     attempt (ReserveLiquidity_withdraw liquidity_amount (rs_liquidity r)) (\<lambda>l.
     Inr (r\<lparr>rs_liquidity := l, rs_collateral := c\<rparr>, liquidity_amount)))))"

definition current_borrow_rate :: "Reserve \<Rightarrow> Rate res" where
  "current_borrow_rate r =
     attempt (utilization_rate (rs_liquidity r)) (\<lambda>utilization.
     let cf = rs_config r;
         optimal = Rate_from_percent (cf_optimal_utilization_rate cf);
         low_utilization = utilization < optimal in
     if low_utilization \<or> cf_optimal_utilization_rate cf = 100 then
       attempt (Rate_try_div utilization optimal) (\<lambda>normalized.
       let min_rate = Rate_from_percent (cf_min_borrow_rate cf) in
       attempt (ok_or (checked_sub (cf_optimal_borrow_rate cf) (cf_min_borrow_rate cf)) math_overflow) (\<lambda>d.
       attempt (Rate_try_mul normalized (Rate_from_percent d)) (\<lambda>p. Rate_try_add p min_rate)))
     else
       attempt (Rate_try_sub utilization optimal) (\<lambda>excess.
       attempt (ok_or (checked_sub 100 (cf_optimal_utilization_rate cf)) math_overflow) (\<lambda>d.
       attempt (Rate_try_div excess (Rate_from_percent d)) (\<lambda>normalized.
       let min_rate = Rate_from_percent (cf_optimal_borrow_rate cf) in
       attempt (ok_or (checked_sub (cf_max_borrow_rate cf) (cf_optimal_borrow_rate cf)) math_overflow) (\<lambda>d.
       attempt (Rate_try_mul normalized (Rate_from_percent d)) (\<lambda>p. Rate_try_add p min_rate))))))"

definition accrue_interest :: "runtime \<Rightarrow> u64 \<Rightarrow> Reserve \<Rightarrow> Reserve res" where
  "accrue_interest R current_slot r =
     attempt (slots_elapsed (rs_last_update r) current_slot) (\<lambda>slots.
     if slots > 0 then
       attempt (current_borrow_rate r) (\<lambda>rate.
       attempt (compound_interest R rate slots (rs_liquidity r)) (\<lambda>l.
       Inr (r\<lparr>rs_liquidity := l\<rparr>)))
     else Inr r)"

record CalculateBorrowResult =
  cb_borrow_amount :: Decimal
  cb_receive_amount :: u64
  cb_borrow_fee :: u64
  cb_host_fee :: u64

definition calculate_borrow :: "u64 \<Rightarrow> Decimal \<Rightarrow> Reserve \<Rightarrow> CalculateBorrowResult res" where
  "calculate_borrow amount_to_borrow max_borrow_value r =
     attempt (ok_or (checked_pow (10 :: u64) (unat (rl_mint_decimals (rs_liquidity r)))) math_overflow) (\<lambda>decimals.
     if amount_to_borrow = U64_MAX then
       attempt (Decimal_try_mul_u64 max_borrow_value decimals) (\<lambda>m.
       attempt (Decimal_try_div m (rl_market_price (rs_liquidity r))) (\<lambda>q.
       let borrow_amount = min q (Decimal_from_u64 (rl_available_amount (rs_liquidity r))) in
       attempt (calculate_borrow_fees (cf_fees (rs_config r)) borrow_amount Inclusive) (\<lambda>(borrow_fee, host_fee).
       attempt (Decimal_try_floor_u64 borrow_amount) (\<lambda>n.
       attempt (ok_or (checked_sub n borrow_fee) math_overflow) (\<lambda>receive_amount.
       Inr \<lparr>cb_borrow_amount = borrow_amount, cb_receive_amount = receive_amount,
            cb_borrow_fee = borrow_fee, cb_host_fee = host_fee\<rparr>)))))
     else
       let receive_amount = amount_to_borrow; borrow_amount = Decimal_from_u64 receive_amount in
       attempt (calculate_borrow_fees (cf_fees (rs_config r)) borrow_amount Exclusive) (\<lambda>(borrow_fee, host_fee).
       attempt (Decimal_try_add borrow_amount (Decimal_from_u64 borrow_fee)) (\<lambda>borrow_amount.
       attempt (Decimal_try_mul borrow_amount (rl_market_price (rs_liquidity r))) (\<lambda>p.
       attempt (Decimal_try_div_u64 p decimals) (\<lambda>borrow_value.
       if borrow_value > max_borrow_value then Inl (lending_err BorrowTooLarge)
       else Inr \<lparr>cb_borrow_amount = borrow_amount, cb_receive_amount = receive_amount,
                 cb_borrow_fee = borrow_fee, cb_host_fee = host_fee\<rparr>)))))"

record CalculateRepayResult =
  cr_settle_amount :: Decimal
  cr_repay_amount :: u64

definition calculate_repay :: "u64 \<Rightarrow> Decimal \<Rightarrow> CalculateRepayResult res" where
  "calculate_repay amount_to_repay borrowed_amount =
     (let settle_amount = (if amount_to_repay = U64_MAX then borrowed_amount
                           else min (Decimal_from_u64 amount_to_repay) borrowed_amount) in
      attempt (Decimal_try_ceil_u64 settle_amount) (\<lambda>repay_amount.
      Inr \<lparr>cr_settle_amount = settle_amount, cr_repay_amount = repay_amount\<rparr>))"

section \<open>Obligations\<close>

definition MAX_OBLIGATION_RESERVES :: nat where "MAX_OBLIGATION_RESERVES = 10"

record ObligationCollateral =
  oc_deposit_reserve :: pubkey
  oc_deposited_amount :: u64
  oc_market_value :: Decimal

record ObligationLiquidity =
  ol_borrow_reserve :: pubkey
  ol_cumulative_borrow_rate_wads :: Decimal
  ol_borrowed_amount_wads :: Decimal
  ol_market_value :: Decimal

record Obligation =
  ob_version :: u8
  ob_last_update :: LastUpdate
  ob_lending_market :: pubkey
  ob_owner :: pubkey
  ob_deposits :: "ObligationCollateral list"
  ob_borrows :: "ObligationLiquidity list"
  ob_deposited_value :: Decimal
  ob_borrowed_value :: Decimal
  ob_allowed_borrow_value :: Decimal
  ob_unhealthy_borrow_value :: Decimal

definition Obligation_init ::
    "u64 \<Rightarrow> pubkey \<Rightarrow> pubkey \<Rightarrow> ObligationCollateral list \<Rightarrow> ObligationLiquidity list \<Rightarrow> Obligation \<Rightarrow> Obligation" where
  "Obligation_init slot market owner deposits borrows ob =
     ob\<lparr>ob_version := PROGRAM_VERSION, ob_last_update := LastUpdate_new slot, ob_lending_market := market,
        ob_owner := owner, ob_deposits := deposits, ob_borrows := borrows\<rparr>"

definition Obligation_is_initialized :: "Obligation \<Rightarrow> bool" where
  "Obligation_is_initialized ob \<longleftrightarrow> ob_version ob \<noteq> UNINITIALIZED_VERSION"

definition loan_to_value :: "Obligation \<Rightarrow> Decimal res" where
  "loan_to_value ob = Decimal_try_div (ob_borrowed_value ob) (ob_deposited_value ob)"

definition ObligationCollateral_new :: "pubkey \<Rightarrow> ObligationCollateral" where
  "ObligationCollateral_new k =
     \<lparr>oc_deposit_reserve = k, oc_deposited_amount = 0, oc_market_value = Decimal_zero\<rparr>"

definition ObligationCollateral_deposit :: "u64 \<Rightarrow> ObligationCollateral \<Rightarrow> ObligationCollateral res" where
  "ObligationCollateral_deposit amt c =
     attempt (ok_or (checked_add (oc_deposited_amount c) amt) math_overflow) (\<lambda>n.
     Inr (c\<lparr>oc_deposited_amount := n\<rparr>))"

definition ObligationCollateral_withdraw :: "u64 \<Rightarrow> ObligationCollateral \<Rightarrow> ObligationCollateral res" where
  "ObligationCollateral_withdraw amt c =
     attempt (ok_or (checked_sub (oc_deposited_amount c) amt) math_overflow) (\<lambda>n.
     Inr (c\<lparr>oc_deposited_amount := n\<rparr>))"

definition ObligationLiquidity_new :: "pubkey \<Rightarrow> ObligationLiquidity" where
  "ObligationLiquidity_new k =
     \<lparr>ol_borrow_reserve = k, ol_cumulative_borrow_rate_wads = Decimal_one,
      ol_borrowed_amount_wads = Decimal_zero, ol_market_value = Decimal_zero\<rparr>"

definition ObligationLiquidity_repay :: "Decimal \<Rightarrow> ObligationLiquidity \<Rightarrow> ObligationLiquidity res" where
  "ObligationLiquidity_repay settle_amount l =
     attempt (Decimal_try_sub (ol_borrowed_amount_wads l) settle_amount) (\<lambda>b.
     Inr (l\<lparr>ol_borrowed_amount_wads := b\<rparr>))"

definition ObligationLiquidity_borrow :: "Decimal \<Rightarrow> ObligationLiquidity \<Rightarrow> ObligationLiquidity res" where
  "ObligationLiquidity_borrow amt l =
     attempt (Decimal_try_add (ol_borrowed_amount_wads l) amt) (\<lambda>b.
     Inr (l\<lparr>ol_borrowed_amount_wads := b\<rparr>))"

definition ObligationLiquidity_accrue_interest :: "Decimal \<Rightarrow> ObligationLiquidity \<Rightarrow> ObligationLiquidity res" where
  "ObligationLiquidity_accrue_interest rate l =
     (if rate < ol_cumulative_borrow_rate_wads l then Inl (lending_err NegativeInterestRate)
      else if rate = ol_cumulative_borrow_rate_wads l then Inr l
      else
        attempt (Decimal_try_div rate (ol_cumulative_borrow_rate_wads l)) (\<lambda>q.
        attempt (Rate_try_from_Decimal q) (\<lambda>compounded.
        attempt (Decimal_try_mul_Rate (ol_borrowed_amount_wads l) compounded) (\<lambda>b.
        Inr (l\<lparr>ol_borrowed_amount_wads := b, ol_cumulative_borrow_rate_wads := rate\<rparr>)))))"

text \<open>\<^verbatim>\<open>Vec::remove\<close>, and \<^verbatim>\<open>Iterator::position\<close>.\<close>

definition vec_remove :: "nat \<Rightarrow> 'a list \<Rightarrow> 'a list" where
  "vec_remove i xs = take i xs @ drop (Suc i) xs"

fun position :: "('a \<Rightarrow> bool) \<Rightarrow> 'a list \<Rightarrow> nat option" where
  "position P [] = None"
| "position P (x # xs) = (if P x then Some 0 else map_option Suc (position P xs))"

definition Obligation_repay :: "Decimal \<Rightarrow> nat \<Rightarrow> Obligation \<Rightarrow> Obligation res" where
  "Obligation_repay settle_amount i ob =
     (if i < length (ob_borrows ob) then
        let l = ob_borrows ob ! i in
        if settle_amount = ol_borrowed_amount_wads l
        then Inr (ob\<lparr>ob_borrows := vec_remove i (ob_borrows ob)\<rparr>)
        else attempt (ObligationLiquidity_repay settle_amount l) (\<lambda>l.
             Inr (ob\<lparr>ob_borrows := (ob_borrows ob)[i := l]\<rparr>))
      else Inl Panicked)"

definition Obligation_withdraw :: "u64 \<Rightarrow> nat \<Rightarrow> Obligation \<Rightarrow> Obligation res" where
  "Obligation_withdraw withdraw_amount i ob =
     (if i < length (ob_deposits ob) then
        let c = ob_deposits ob ! i in
        if withdraw_amount = oc_deposited_amount c
        then Inr (ob\<lparr>ob_deposits := vec_remove i (ob_deposits ob)\<rparr>)
        else attempt (ObligationCollateral_withdraw withdraw_amount c) (\<lambda>c.
             Inr (ob\<lparr>ob_deposits := (ob_deposits ob)[i := c]\<rparr>))
      else Inl Panicked)"

definition max_withdraw_value :: "Rate \<Rightarrow> Obligation \<Rightarrow> Decimal res" where
  "max_withdraw_value withdraw_collateral_ltv ob =
     (if ob_allowed_borrow_value ob \<le> ob_borrowed_value ob then Inr Decimal_zero
      else if withdraw_collateral_ltv = Rate_zero then Inr (ob_deposited_value ob)
      else
        attempt (Decimal_try_sub (ob_allowed_borrow_value ob) (ob_borrowed_value ob)) (\<lambda>d.
        Decimal_try_div_Rate d withdraw_collateral_ltv))"

definition remaining_borrow_value :: "Obligation \<Rightarrow> Decimal res" where
  "remaining_borrow_value ob = Decimal_try_sub (ob_allowed_borrow_value ob) (ob_borrowed_value ob)"

definition max_liquidation_amount :: "ObligationLiquidity \<Rightarrow> Obligation \<Rightarrow> Decimal res" where
  "max_liquidation_amount l ob =
     attempt (Decimal_try_mul_Rate (ob_borrowed_value ob) (Rate_from_percent LIQUIDATION_CLOSE_FACTOR)) (\<lambda>v.
     let max_liquidation_value = min v (ol_market_value l) in
     attempt (Decimal_try_div max_liquidation_value (ol_market_value l)) (\<lambda>pct.
     Decimal_try_mul (ol_borrowed_amount_wads l) pct))"

definition find_collateral_index_in_deposits :: "pubkey \<Rightarrow> Obligation \<Rightarrow> nat option" where
  "find_collateral_index_in_deposits k ob = position (\<lambda>c. oc_deposit_reserve c = k) (ob_deposits ob)"

definition find_collateral_in_deposits :: "pubkey \<Rightarrow> Obligation \<Rightarrow> (ObligationCollateral \<times> nat) res" where
  "find_collateral_in_deposits k ob =
     (if ob_deposits ob = [] then Inl (lending_err ObligationDepositsEmpty)
      else attempt (ok_or (find_collateral_index_in_deposits k ob) (lending_err InvalidObligationCollateral)) (\<lambda>i.
           Inr (ob_deposits ob ! i, i)))"

definition find_or_add_collateral_to_deposits :: "pubkey \<Rightarrow> Obligation \<Rightarrow> (Obligation \<times> nat) res" where
  "find_or_add_collateral_to_deposits k ob =
     (case find_collateral_index_in_deposits k ob of
        Some i \<Rightarrow> Inr (ob, i)
      | None \<Rightarrow>
          if length (ob_deposits ob) + length (ob_borrows ob) \<ge> MAX_OBLIGATION_RESERVES
          then Inl (lending_err ObligationReserveLimit)
          else Inr (ob\<lparr>ob_deposits := ob_deposits ob @ [ObligationCollateral_new k]\<rparr>, length (ob_deposits ob)))"

definition find_liquidity_index_in_borrows :: "pubkey \<Rightarrow> Obligation \<Rightarrow> nat option" where
  "find_liquidity_index_in_borrows k ob = position (\<lambda>l. ol_borrow_reserve l = k) (ob_borrows ob)"

definition find_liquidity_in_borrows :: "pubkey \<Rightarrow> Obligation \<Rightarrow> (ObligationLiquidity \<times> nat) res" where
  "find_liquidity_in_borrows k ob =
     (if ob_borrows ob = [] then Inl (lending_err ObligationBorrowsEmpty)
      else attempt (ok_or (find_liquidity_index_in_borrows k ob) (lending_err InvalidObligationLiquidity)) (\<lambda>i.
           Inr (ob_borrows ob ! i, i)))"

definition find_or_add_liquidity_to_borrows :: "pubkey \<Rightarrow> Obligation \<Rightarrow> (Obligation \<times> nat) res" where
  "find_or_add_liquidity_to_borrows k ob =
     (case find_liquidity_index_in_borrows k ob of
        Some i \<Rightarrow> Inr (ob, i)
      | None \<Rightarrow>
          if length (ob_deposits ob) + length (ob_borrows ob) \<ge> MAX_OBLIGATION_RESERVES
          then Inl (lending_err ObligationReserveLimit)
          else Inr (ob\<lparr>ob_borrows := ob_borrows ob @ [ObligationLiquidity_new k]\<rparr>, length (ob_borrows ob)))"

section \<open>Liquidation\<close>

record CalculateLiquidationResult =
  cl_settle_amount :: Decimal
  cl_repay_amount :: u64
  cl_withdraw_amount :: u64

definition liquidation_result :: "Decimal \<Rightarrow> u64 \<Rightarrow> u64 \<Rightarrow> CalculateLiquidationResult res" where
  "liquidation_result settle_amount repay_amount withdraw_amount =
     Inr \<lparr>cl_settle_amount = settle_amount, cl_repay_amount = repay_amount, cl_withdraw_amount = withdraw_amount\<rparr>"

text \<open>The branch that closes out a debt too small to liquidate normally, and the ordinary one.\<close>

definition liquidate_close_out ::
    "Rate \<Rightarrow> Decimal \<Rightarrow> ObligationLiquidity \<Rightarrow> ObligationCollateral \<Rightarrow> CalculateLiquidationResult res" where
  "liquidate_close_out bonus_rate max_amount liquidity collateral =
     (let settle_amount = ol_borrowed_amount_wads liquidity in
      attempt (Decimal_try_mul_Rate (ol_market_value liquidity) bonus_rate) (\<lambda>liquidation_value.
      if liquidation_value > oc_market_value collateral then
        attempt (Decimal_try_div (oc_market_value collateral) liquidation_value) (\<lambda>repay_pct.
        attempt (Decimal_try_mul max_amount repay_pct) (\<lambda>p.
        attempt (Decimal_try_ceil_u64 p) (\<lambda>repay_amount.
        liquidation_result settle_amount repay_amount (oc_deposited_amount collateral))))
      else if liquidation_value = oc_market_value collateral then
        attempt (Decimal_try_ceil_u64 max_amount) (\<lambda>repay_amount.
        liquidation_result settle_amount repay_amount (oc_deposited_amount collateral))
      else
        attempt (Decimal_try_div liquidation_value (oc_market_value collateral)) (\<lambda>withdraw_pct.
        attempt (Decimal_try_floor_u64 max_amount) (\<lambda>repay_amount.
        attempt (Decimal_try_mul (Decimal_from_u64 (oc_deposited_amount collateral)) withdraw_pct) (\<lambda>w.
        attempt (Decimal_try_floor_u64 w) (\<lambda>withdraw_amount.
        liquidation_result settle_amount repay_amount withdraw_amount))))))"

definition liquidate_partially ::
    "Rate \<Rightarrow> Decimal \<Rightarrow> Obligation \<Rightarrow> ObligationLiquidity \<Rightarrow> ObligationCollateral \<Rightarrow> CalculateLiquidationResult res" where
  "liquidate_partially bonus_rate max_amount ob liquidity collateral =
     attempt (max_liquidation_amount liquidity ob) (\<lambda>m.
     let liquidation_amount = min m max_amount in
     attempt (Decimal_try_div liquidation_amount (ol_borrowed_amount_wads liquidity)) (\<lambda>liquidation_pct.
     attempt (Decimal_try_mul (ol_market_value liquidity) liquidation_pct) (\<lambda>v.
     attempt (Decimal_try_mul_Rate v bonus_rate) (\<lambda>liquidation_value.
     if liquidation_value > oc_market_value collateral then
       attempt (Decimal_try_div (oc_market_value collateral) liquidation_value) (\<lambda>repay_pct.
       attempt (Decimal_try_mul liquidation_amount repay_pct) (\<lambda>settle_amount.
       attempt (Decimal_try_ceil_u64 settle_amount) (\<lambda>repay_amount.
       liquidation_result settle_amount repay_amount (oc_deposited_amount collateral))))
     else if liquidation_value = oc_market_value collateral then
       attempt (Decimal_try_ceil_u64 liquidation_amount) (\<lambda>repay_amount.
       liquidation_result liquidation_amount repay_amount (oc_deposited_amount collateral))
     else
       attempt (Decimal_try_div liquidation_value (oc_market_value collateral)) (\<lambda>withdraw_pct.
       attempt (Decimal_try_floor_u64 liquidation_amount) (\<lambda>repay_amount.
       attempt (Decimal_try_mul (Decimal_from_u64 (oc_deposited_amount collateral)) withdraw_pct) (\<lambda>w.
       attempt (Decimal_try_floor_u64 w) (\<lambda>withdraw_amount.
       liquidation_result liquidation_amount repay_amount withdraw_amount))))))))"

definition calculate_liquidation ::
    "u64 \<Rightarrow> Obligation \<Rightarrow> ObligationLiquidity \<Rightarrow> ObligationCollateral \<Rightarrow> Reserve \<Rightarrow> CalculateLiquidationResult res" where
  "calculate_liquidation amount_to_liquidate ob liquidity collateral r =
     attempt (Rate_try_add (Rate_from_percent (cf_liquidation_bonus (rs_config r))) Rate_one) (\<lambda>bonus_rate.
     let max_amount = (if amount_to_liquidate = U64_MAX then ol_borrowed_amount_wads liquidity
                       else min (Decimal_from_u64 amount_to_liquidate) (ol_borrowed_amount_wads liquidity)) in
     if ol_borrowed_amount_wads liquidity < Decimal_from_u64 LIQUIDATION_CLOSE_AMOUNT
     then liquidate_close_out bonus_rate max_amount liquidity collateral
     else liquidate_partially bonus_rate max_amount ob liquidity collateral)"

end
