(* ===== verification/Lending_Pack.thy ===== *)
theory Lending_Pack
  imports Lending_State
begin

text \<open>
  The byte layouts of the lending program's accounts
  (\<^verbatim>\<open>pack_into_slice\<close> and \<^verbatim>\<open>unpack_from_slice\<close> in
  \<^verbatim>\<open>token-lending/program/src/state\<close>): lending markets of 258 bytes, reserves of 571 and obligations
  of 916, the last with two arrays of entries of different widths in one flat area.  A decimal is
  stored in 16 bytes, so packing panics on one that needs more; each layout is a
  \<open>packed_type\<close>.
\<close>

section \<open>Fields\<close>

definition pack_decimal :: "Decimal \<Rightarrow> bytes res" where
  "pack_decimal d =
     (case Decimal_to_scaled_val d of Inl _ \<Rightarrow> Inl Panicked | Inr n \<Rightarrow> Inr (to_le_bytes n))"

definition unpack_decimal :: "bytes \<Rightarrow> Decimal" where
  "unpack_decimal src = Decimal_from_scaled_val (from_le_bytes src)"

definition pack_bool :: "bool \<Rightarrow> bytes" where
  "pack_bool b = [if b then 1 else 0]"

definition unpack_bool :: "bytes \<Rightarrow> bool res" where
  "unpack_bool src =
     (let b = (from_le_bytes src :: u8) in
      if b = 0 then Inr False else if b = 1 then Inr True else Inl InvalidAccountData)"

text \<open>The decimals a 16-byte field can hold.\<close>

definition packable :: "Decimal \<Rightarrow> bool" where
  "packable d \<longleftrightarrow> dn d < 2 ^ 128"

lemma pack_decimal_eq_Inr:
  "pack_decimal d = Inr bs \<longleftrightarrow> packable d \<and> bs = to_le_bytes (ucast (dec_raw d) :: u128)"
  by (auto simp: pack_decimal_def Decimal_to_scaled_val_def packable_def try_from_word_def ok_or_def)

lemma unpack_pack_decimal [simp]:
  assumes "packable d"
  shows "unpack_decimal (to_le_bytes (ucast (dec_raw d) :: u128)) = d"
proof (cases d)
  case (Decimal w)
  with assms have "unat w < 2 ^ 128" by (simp add: packable_def)
  then have "ucast (ucast w :: u128) = w"
    by (simp add: word_unat_eq_iff unat_ucast_up unsigned_ucast_eq unsigned_take_bit_eq take_bit_nat_eq_self)
  then show ?thesis by (simp add: Decimal unpack_decimal_def Decimal_from_scaled_val_def)
qed

lemma length_pack_bool [simp]: "length (pack_bool b) = 1"
  by (simp add: pack_bool_def)

lemma unpack_pack_bool [simp]: "unpack_bool (pack_bool b) = Inr b"
  by (simp add: unpack_bool_def pack_bool_def)

lemma unpack_decimal_packable: "packable (unpack_decimal bs)"
  by (simp add: packable_def unpack_decimal_def Decimal_from_scaled_val_def unat_ucast_up
      unat_bound [where 'a = 128, simplified])

section \<open>Lending markets\<close>

abbreviation LENDING_MARKET_LEN :: nat where "LENDING_MARKET_LEN \<equiv> 258"

definition LendingMarket_pack_into_slice :: "LendingMarket \<Rightarrow> bytes \<Rightarrow> bytes res" where
  "LendingMarket_pack_into_slice m dst =
     (if length dst < LENDING_MARKET_LEN then Inl Panicked else
      Inr (to_le_bytes (lm_version m) @ to_le_bytes (lm_bump_seed m) @ to_le_bytes (lm_owner m) @
           lm_quote_currency m @ to_le_bytes (lm_token_program_id m) @ to_le_bytes (lm_oracle_program_id m) @
           drop 130 dst))"

definition LendingMarket_unpack_from_slice :: "bytes \<Rightarrow> LendingMarket res" where
  "LendingMarket_unpack_from_slice src =
     (if length src < LENDING_MARKET_LEN then Inl Panicked else
      let version = from_le_bytes (subslice 0 1 src) in
      if version > PROGRAM_VERSION then Inl InvalidAccountData
      else Inr \<lparr>lm_version = version,
                lm_bump_seed = from_le_bytes (subslice 1 1 src),
                lm_owner = from_le_bytes (subslice 2 32 src),
                lm_quote_currency = subslice 34 32 src,
                lm_token_program_id = from_le_bytes (subslice 66 32 src),
                lm_oracle_program_id = from_le_bytes (subslice 98 32 src)\<rparr>)"

definition LendingMarket_unpack_unchecked :: "bytes \<Rightarrow> LendingMarket res" where
  "LendingMarket_unpack_unchecked = Pack_unpack_unchecked LENDING_MARKET_LEN LendingMarket_unpack_from_slice"

definition LendingMarket_unpack :: "bytes \<Rightarrow> LendingMarket res" where
  "LendingMarket_unpack = Pack_unpack LENDING_MARKET_LEN LendingMarket_unpack_from_slice LendingMarket_is_initialized"

definition LendingMarket_pack :: "LendingMarket \<Rightarrow> pubkey \<Rightarrow> ledger \<Rightarrow> ledger res" where
  "LendingMarket_pack = pack_to_ledger LENDING_MARKET_LEN LendingMarket_pack_into_slice"

definition LendingMarket_wf :: "LendingMarket \<Rightarrow> bool" where
  "LendingMarket_wf m \<longleftrightarrow> lm_version m \<le> PROGRAM_VERSION \<and> length (lm_quote_currency m) = 32"

section \<open>Reserves\<close>

abbreviation RESERVE_LEN :: nat where "RESERVE_LEN \<equiv> 571"

definition Reserve_pack_into_slice :: "Reserve \<Rightarrow> bytes \<Rightarrow> bytes res" where
  "Reserve_pack_into_slice r dst =
     (if length dst < RESERVE_LEN then Inl Panicked else
      let l = rs_liquidity r; c = rs_collateral r; cf = rs_config r; f = cf_fees cf in
      attempt (pack_decimal (rl_borrowed_amount_wads l)) (\<lambda>borrowed.
      attempt (pack_decimal (rl_cumulative_borrow_rate_wads l)) (\<lambda>cumulative.
      attempt (pack_decimal (rl_market_price l)) (\<lambda>price.
      Inr (to_le_bytes (rs_version r) @ to_le_bytes (lu_slot (rs_last_update r)) @
           pack_bool (lu_stale (rs_last_update r)) @ to_le_bytes (rs_lending_market r) @
           to_le_bytes (rl_mint_pubkey l) @ to_le_bytes (rl_mint_decimals l) @
           to_le_bytes (rl_supply_pubkey l) @ to_le_bytes (rl_fee_receiver l) @
           to_le_bytes (rl_oracle_pubkey l) @ to_le_bytes (rl_available_amount l) @
           borrowed @ cumulative @ price @
           to_le_bytes (rc_mint_pubkey c) @ to_le_bytes (rc_mint_total_supply c) @
           to_le_bytes (rc_supply_pubkey c) @
           to_le_bytes (cf_optimal_utilization_rate cf) @ to_le_bytes (cf_loan_to_value_ratio cf) @
           to_le_bytes (cf_liquidation_bonus cf) @ to_le_bytes (cf_liquidation_threshold cf) @
           to_le_bytes (cf_min_borrow_rate cf) @ to_le_bytes (cf_optimal_borrow_rate cf) @
           to_le_bytes (cf_max_borrow_rate cf) @
           to_le_bytes (rf_borrow_fee_wad f) @ to_le_bytes (rf_flash_loan_fee_wad f) @
           to_le_bytes (rf_host_fee_percentage f) @ drop 323 dst)))))"

definition Reserve_unpack_from_slice :: "bytes \<Rightarrow> Reserve res" where
  "Reserve_unpack_from_slice src =
     (if length src < RESERVE_LEN then Inl Panicked else
      let version = from_le_bytes (subslice 0 1 src) in
      if version > PROGRAM_VERSION then Inl InvalidAccountData
      else
        attempt (unpack_bool (subslice 9 1 src)) (\<lambda>stale.
        Inr \<lparr>rs_version = version,
             rs_last_update = \<lparr>lu_slot = from_le_bytes (subslice 1 8 src), lu_stale = stale\<rparr>,
             rs_lending_market = from_le_bytes (subslice 10 32 src),
             rs_liquidity =
               \<lparr>rl_mint_pubkey = from_le_bytes (subslice 42 32 src),
                rl_mint_decimals = from_le_bytes (subslice 74 1 src),
                rl_supply_pubkey = from_le_bytes (subslice 75 32 src),
                rl_fee_receiver = from_le_bytes (subslice 107 32 src),
                rl_oracle_pubkey = from_le_bytes (subslice 139 32 src),
                rl_available_amount = from_le_bytes (subslice 171 8 src),
                rl_borrowed_amount_wads = unpack_decimal (subslice 179 16 src),
                rl_cumulative_borrow_rate_wads = unpack_decimal (subslice 195 16 src),
                rl_market_price = unpack_decimal (subslice 211 16 src)\<rparr>,
             rs_collateral =
               \<lparr>rc_mint_pubkey = from_le_bytes (subslice 227 32 src),
                rc_mint_total_supply = from_le_bytes (subslice 259 8 src),
                rc_supply_pubkey = from_le_bytes (subslice 267 32 src)\<rparr>,
             rs_config =
               \<lparr>cf_optimal_utilization_rate = from_le_bytes (subslice 299 1 src),
                cf_loan_to_value_ratio = from_le_bytes (subslice 300 1 src),
                cf_liquidation_bonus = from_le_bytes (subslice 301 1 src),
                cf_liquidation_threshold = from_le_bytes (subslice 302 1 src),
                cf_min_borrow_rate = from_le_bytes (subslice 303 1 src),
                cf_optimal_borrow_rate = from_le_bytes (subslice 304 1 src),
                cf_max_borrow_rate = from_le_bytes (subslice 305 1 src),
                cf_fees =
                  \<lparr>rf_borrow_fee_wad = from_le_bytes (subslice 306 8 src),
                   rf_flash_loan_fee_wad = from_le_bytes (subslice 314 8 src),
                   rf_host_fee_percentage = from_le_bytes (subslice 322 1 src)\<rparr>\<rparr>\<rparr>))"

definition Reserve_unpack_unchecked :: "bytes \<Rightarrow> Reserve res" where
  "Reserve_unpack_unchecked = Pack_unpack_unchecked RESERVE_LEN Reserve_unpack_from_slice"

definition Reserve_unpack :: "bytes \<Rightarrow> Reserve res" where
  "Reserve_unpack = Pack_unpack RESERVE_LEN Reserve_unpack_from_slice Reserve_is_initialized"

definition Reserve_pack :: "Reserve \<Rightarrow> pubkey \<Rightarrow> ledger \<Rightarrow> ledger res" where
  "Reserve_pack = pack_to_ledger RESERVE_LEN Reserve_pack_into_slice"

definition Reserve_wf :: "Reserve \<Rightarrow> bool" where
  "Reserve_wf r \<longleftrightarrow> rs_version r \<le> PROGRAM_VERSION"

definition reserve_packable :: "Reserve \<Rightarrow> bool" where
  "reserve_packable r \<longleftrightarrow> packable (rl_borrowed_amount_wads (rs_liquidity r)) \<and>
     packable (rl_cumulative_borrow_rate_wads (rs_liquidity r)) \<and> packable (rl_market_price (rs_liquidity r))"

section \<open>Obligations\<close>

abbreviation OBLIGATION_COLLATERAL_LEN :: nat where "OBLIGATION_COLLATERAL_LEN \<equiv> 56"
abbreviation OBLIGATION_LIQUIDITY_LEN :: nat where "OBLIGATION_LIQUIDITY_LEN \<equiv> 80"
abbreviation OBLIGATION_LEN :: nat where "OBLIGATION_LEN \<equiv> 916"

definition pack_collateral_entry :: "ObligationCollateral \<Rightarrow> bytes res" where
  "pack_collateral_entry c =
     attempt (pack_decimal (oc_market_value c)) (\<lambda>market.
     Inr (to_le_bytes (oc_deposit_reserve c) @ to_le_bytes (oc_deposited_amount c) @ market))"

definition unpack_collateral_entry :: "bytes \<Rightarrow> ObligationCollateral" where
  "unpack_collateral_entry src =
     \<lparr>oc_deposit_reserve = from_le_bytes (subslice 0 32 src),
      oc_deposited_amount = from_le_bytes (subslice 32 8 src),
      oc_market_value = unpack_decimal (subslice 40 16 src)\<rparr>"

definition pack_liquidity_entry :: "ObligationLiquidity \<Rightarrow> bytes res" where
  "pack_liquidity_entry l =
     attempt (pack_decimal (ol_cumulative_borrow_rate_wads l)) (\<lambda>cumulative.
     attempt (pack_decimal (ol_borrowed_amount_wads l)) (\<lambda>borrowed.
     attempt (pack_decimal (ol_market_value l)) (\<lambda>market.
     Inr (to_le_bytes (ol_borrow_reserve l) @ cumulative @ borrowed @ market))))"

definition unpack_liquidity_entry :: "bytes \<Rightarrow> ObligationLiquidity" where
  "unpack_liquidity_entry src =
     \<lparr>ol_borrow_reserve = from_le_bytes (subslice 0 32 src),
      ol_cumulative_borrow_rate_wads = unpack_decimal (subslice 32 16 src),
      ol_borrowed_amount_wads = unpack_decimal (subslice 48 16 src),
      ol_market_value = unpack_decimal (subslice 64 16 src)\<rparr>"

text \<open>
  The two loops over the flat area: each entry is written, or read, at the running offset, and
  \<^verbatim>\<open>array_mut_ref!\<close> panics when it would end past the area.
\<close>

definition overwrite :: "nat \<Rightarrow> 'a list \<Rightarrow> 'a list \<Rightarrow> 'a list" where
  "overwrite off xs bs = take off bs @ xs @ drop (off + length xs) bs"

fun pack_entries :: "nat \<Rightarrow> ('a \<Rightarrow> bytes res) \<Rightarrow> 'a list \<Rightarrow> nat \<Rightarrow> bytes \<Rightarrow> (nat \<times> bytes) res" where
  "pack_entries w f [] off flat = Inr (off, flat)"
| "pack_entries w f (x # xs) off flat =
     (if length flat < off + w then Inl Panicked
      else attempt (f x) (\<lambda>bs. pack_entries w f xs (off + w) (overwrite off bs flat)))"

fun unpack_entries :: "nat \<Rightarrow> (bytes \<Rightarrow> 'a) \<Rightarrow> nat \<Rightarrow> nat \<Rightarrow> bytes \<Rightarrow> (nat \<times> 'a list) res" where
  "unpack_entries w g 0 off flat = Inr (off, [])"
| "unpack_entries w g (Suc n) off flat =
     (if length flat < off + w then Inl Panicked
      else attempt (unpack_entries w g n (off + w) flat) (\<lambda>(off', xs).
           Inr (off', g (subslice off w flat) # xs)))"

definition byte_of_len :: "'a list \<Rightarrow> bytes res" where
  "byte_of_len xs = (if length xs < 256 then Inr [of_nat (length xs)] else Inl Panicked)"

definition Obligation_pack_into_slice :: "Obligation \<Rightarrow> bytes \<Rightarrow> bytes res" where
  "Obligation_pack_into_slice ob dst =
     (if length dst < OBLIGATION_LEN then Inl Panicked else
      attempt (pack_decimal (ob_deposited_value ob)) (\<lambda>deposited.
      attempt (pack_decimal (ob_borrowed_value ob)) (\<lambda>borrowed.
      attempt (pack_decimal (ob_allowed_borrow_value ob)) (\<lambda>allowed.
      attempt (pack_decimal (ob_unhealthy_borrow_value ob)) (\<lambda>unhealthy.
      attempt (byte_of_len (ob_deposits ob)) (\<lambda>deposits_len.
      attempt (byte_of_len (ob_borrows ob)) (\<lambda>borrows_len.
      attempt (pack_entries OBLIGATION_COLLATERAL_LEN pack_collateral_entry (ob_deposits ob) 0
                 (subslice 140 776 dst)) (\<lambda>(off, flat).
      attempt (pack_entries OBLIGATION_LIQUIDITY_LEN pack_liquidity_entry (ob_borrows ob) off flat) (\<lambda>(_, flat).
      Inr (to_le_bytes (ob_version ob) @ to_le_bytes (lu_slot (ob_last_update ob)) @
           pack_bool (lu_stale (ob_last_update ob)) @ to_le_bytes (ob_lending_market ob) @
           to_le_bytes (ob_owner ob) @ deposited @ borrowed @ allowed @ unhealthy @
           deposits_len @ borrows_len @ flat @ drop OBLIGATION_LEN dst))))))))))"

definition Obligation_unpack_from_slice :: "bytes \<Rightarrow> Obligation res" where
  "Obligation_unpack_from_slice src =
     (if length src < OBLIGATION_LEN then Inl Panicked else
      let version = from_le_bytes (subslice 0 1 src);
          deposits_len = (from_le_bytes (subslice 138 1 src) :: u8);
          borrows_len = (from_le_bytes (subslice 139 1 src) :: u8);
          flat = subslice 140 776 src in
      if version > PROGRAM_VERSION then Inl InvalidAccountData
      else
        attempt (unpack_entries OBLIGATION_COLLATERAL_LEN unpack_collateral_entry (unat deposits_len) 0 flat)
          (\<lambda>(off, deposits).
        attempt (unpack_entries OBLIGATION_LIQUIDITY_LEN unpack_liquidity_entry (unat borrows_len) off flat)
          (\<lambda>(_, borrows).
        attempt (unpack_bool (subslice 9 1 src)) (\<lambda>stale.
        Inr \<lparr>ob_version = version,
             ob_last_update = \<lparr>lu_slot = from_le_bytes (subslice 1 8 src), lu_stale = stale\<rparr>,
             ob_lending_market = from_le_bytes (subslice 10 32 src),
             ob_owner = from_le_bytes (subslice 42 32 src),
             ob_deposits = deposits,
             ob_borrows = borrows,
             ob_deposited_value = unpack_decimal (subslice 74 16 src),
             ob_borrowed_value = unpack_decimal (subslice 90 16 src),
             ob_allowed_borrow_value = unpack_decimal (subslice 106 16 src),
             ob_unhealthy_borrow_value = unpack_decimal (subslice 122 16 src)\<rparr>))))"

definition Obligation_unpack_unchecked :: "bytes \<Rightarrow> Obligation res" where
  "Obligation_unpack_unchecked = Pack_unpack_unchecked OBLIGATION_LEN Obligation_unpack_from_slice"

definition Obligation_unpack :: "bytes \<Rightarrow> Obligation res" where
  "Obligation_unpack = Pack_unpack OBLIGATION_LEN Obligation_unpack_from_slice Obligation_is_initialized"

definition Obligation_pack :: "Obligation \<Rightarrow> pubkey \<Rightarrow> ledger \<Rightarrow> ledger res" where
  "Obligation_pack = pack_to_ledger OBLIGATION_LEN Obligation_pack_into_slice"

definition Obligation_wf :: "Obligation \<Rightarrow> bool" where
  "Obligation_wf ob \<longleftrightarrow> ob_version ob \<le> PROGRAM_VERSION"


section \<open>The layouts are packed types\<close>

text \<open>
  One entry of the flat area: a width, a fallible writer and a reader that undoes it.  A loop over
  entries then writes a block of that width per entry, leaves the rest of the area alone, and is
  undone by the reading loop.
\<close>

locale entry_codec =
  fixes width :: nat
    and writer :: "'a \<Rightarrow> bytes res"
    and reader :: "bytes \<Rightarrow> 'a"
    and storable :: "'a \<Rightarrow> bool"
  assumes writer_ok: "is_ok (writer x) \<longleftrightarrow> storable x"
    and writer_width: "writer x = Inr bs \<Longrightarrow> length bs = width"
    and reader_writer: "writer x = Inr bs \<Longrightarrow> reader bs = x"
begin

lemma pack_entries_ok:
  "off + width * length xs \<le> length flat \<Longrightarrow> \<forall>x\<in>set xs. storable x \<Longrightarrow>
   \<exists>flat'. pack_entries width writer xs off flat = Inr (off + width * length xs, flat')"
proof (induction xs arbitrary: off flat)
  case (Cons x xs)
  from Cons.prems(2) obtain bs where bs: "writer x = Inr bs" using writer_ok [of x] by (auto simp: is_ok_iff)
  have "off + width + width * length xs \<le> length (overwrite off bs flat)"
    using Cons.prems(1) writer_width [OF bs] by (simp add: overwrite_def)
  from Cons.IH [OF this] Cons.prems bs show ?case by (auto simp: add.assoc)
qed simp

lemma pack_entries_spec:
  assumes "pack_entries width writer xs off flat = Inr (off', flat')"
  shows "off' = off + width * length xs \<and> length flat' = length flat \<and>
    (off \<le> length flat \<longrightarrow> off' \<le> length flat) \<and> take off flat' = take off flat \<and>
    drop off' flat' = drop off' flat \<and> (\<forall>x\<in>set xs. storable x) \<and>
    unpack_entries width reader (length xs) off flat' = Inr (off', xs)"
  using assms
proof (induction xs arbitrary: off flat)
  case (Cons x xs)
  then obtain bs where bs: "writer x = Inr bs" and fits: "off + width \<le> length flat"
    and run: "pack_entries width writer xs (off + width) (overwrite off bs flat) = Inr (off', flat')"
    by (auto simp: res_simps not_less)
  note w = writer_width [OF bs]
  have len: "length (overwrite off bs flat) = length flat" using fits w by (simp add: overwrite_def)
  note IH = Cons.IH [OF run, unfolded len]
  have t: "take (off + width) flat' = take off flat @ bs"
    using IH fits w by (simp add: overwrite_def)
  have "take off flat' = take off (take (off + width) flat')" by (simp add: min_def)
  then have a: "take off flat' = take off flat" unfolding t using fits by simp
  have "subslice off width flat' = drop off (take (off + width) flat')"
    by (simp add: subslice_def take_drop add.commute)
  then have b: "subslice off width flat' = bs" unfolding t using fits by simp
  have "drop off' (overwrite off bs flat) = drop off' flat"
    using IH fits w by (simp add: overwrite_def ac_simps)
  then show ?case
    using IH a b fits writer_ok [of x] reader_writer [OF bs] by (elim conjE) (simp add: bs not_less)
qed simp

end

lemma unpack_entries_frame:
  assumes "unpack_entries w g n off flat = Inr (off', xs)" and "take off' flat' = take off' flat"
    and "length flat' = length flat"
  shows "unpack_entries w g n off flat' = Inr (off', xs) \<and> off' = off + w * n"
  using assms(1,2)
proof (induction n arbitrary: off xs)
  case (Suc n)
  then obtain ys where ys: "unpack_entries w g n (off + w) flat = Inr (off', ys)" "off + w \<le> length flat"
    "xs = g (subslice off w flat) # ys" by (auto simp: res_simps not_less)
  note IH = Suc.IH [OF ys(1) Suc.prems(2)]
  have "subslice off w bs = drop off (take (off + w) (take off' bs))" for bs :: bytes
    using IH by (simp add: subslice_def take_drop add.commute min_def)
  then have "subslice off w flat' = subslice off w flat" by (simp only: Suc.prems(2))
  then show ?case using IH ys(2,3) assms(3) by simp
qed simp

lemma collateral_entry_Inr:
  "pack_collateral_entry c = Inr bs \<longleftrightarrow> packable (oc_market_value c) \<and>
     bs = to_le_bytes (oc_deposit_reserve c) @ to_le_bytes (oc_deposited_amount c) @
          to_le_bytes (ucast (dec_raw (oc_market_value c)) :: u128)"
  by (auto simp: pack_collateral_entry_def res_simps pack_decimal_eq_Inr)

lemma liquidity_entry_Inr:
  "pack_liquidity_entry l = Inr bs \<longleftrightarrow>
     packable (ol_cumulative_borrow_rate_wads l) \<and> packable (ol_borrowed_amount_wads l) \<and>
     packable (ol_market_value l) \<and>
     bs = to_le_bytes (ol_borrow_reserve l) @
          to_le_bytes (ucast (dec_raw (ol_cumulative_borrow_rate_wads l)) :: u128) @
          to_le_bytes (ucast (dec_raw (ol_borrowed_amount_wads l)) :: u128) @
          to_le_bytes (ucast (dec_raw (ol_market_value l)) :: u128)"
  by (auto simp: pack_liquidity_entry_def res_simps pack_decimal_eq_Inr)

definition collateral_packable :: "ObligationCollateral \<Rightarrow> bool" where
  "collateral_packable c \<longleftrightarrow> packable (oc_market_value c)"

definition liquidity_packable :: "ObligationLiquidity \<Rightarrow> bool" where
  "liquidity_packable l \<longleftrightarrow> packable (ol_cumulative_borrow_rate_wads l) \<and>
     packable (ol_borrowed_amount_wads l) \<and> packable (ol_market_value l)"

interpretation collateral_entry:
  entry_codec OBLIGATION_COLLATERAL_LEN pack_collateral_entry unpack_collateral_entry collateral_packable
  by unfold_locales
    (auto simp: is_ok_iff collateral_entry_Inr collateral_packable_def unpack_collateral_entry_def layout_simps)

interpretation liquidity_entry:
  entry_codec OBLIGATION_LIQUIDITY_LEN pack_liquidity_entry unpack_liquidity_entry liquidity_packable
  by unfold_locales
    (auto simp: is_ok_iff liquidity_entry_Inr liquidity_packable_def unpack_liquidity_entry_def layout_simps)

lemma LendingMarket_from_into:
  assumes "length dst = LENDING_MARKET_LEN" and "LendingMarket_wf m"
    and "LendingMarket_pack_into_slice m dst = Inr bs"
  shows "length bs = LENDING_MARKET_LEN" and "LendingMarket_unpack_from_slice bs = Inr m"
  using assms
  by (auto simp: LendingMarket_pack_into_slice_def LendingMarket_unpack_from_slice_def LendingMarket_wf_def
      layout_simps Let_def not_less)

interpretation market_packed:
  packed_type LENDING_MARKET_LEN LendingMarket_unpack_from_slice LendingMarket_pack_into_slice
    LendingMarket_is_initialized LendingMarket_wf
proof unfold_locales
  fix bs v
  assume "LendingMarket_unpack_from_slice bs = Inr v"
  then show "LendingMarket_wf v"
    by (auto simp: LendingMarket_unpack_from_slice_def LendingMarket_wf_def Let_def not_less split: if_splits)
qed (simp_all add: LendingMarket_from_into)

lemma Reserve_pack_into_slice_Inr:
  assumes "Reserve_pack_into_slice r dst = Inr bs"
  shows "reserve_packable r"
  using assms by (auto simp: Reserve_pack_into_slice_def reserve_packable_def res_simps pack_decimal_eq_Inr Let_def)

lemma Reserve_from_into:
  assumes "length dst = RESERVE_LEN" and "Reserve_wf r" and "Reserve_pack_into_slice r dst = Inr bs"
  shows "length bs = RESERVE_LEN" and "Reserve_unpack_from_slice bs = Inr r"
  using assms
  by (auto simp: Reserve_pack_into_slice_def Reserve_unpack_from_slice_def Reserve_wf_def res_simps
      pack_decimal_eq_Inr layout_simps Let_def not_less)

interpretation reserve_packed:
  packed_type RESERVE_LEN Reserve_unpack_from_slice Reserve_pack_into_slice Reserve_is_initialized Reserve_wf
proof unfold_locales
  fix bs v
  assume "Reserve_unpack_from_slice bs = Inr v"
  then show "Reserve_wf v"
    by (auto simp: Reserve_unpack_from_slice_def Reserve_wf_def res_simps Let_def not_less)
qed (simp_all add: Reserve_from_into)

lemma byte_of_len_Inr: "byte_of_len xs = Inr bs \<longleftrightarrow> length xs < 256 \<and> bs = [of_nat (length xs)]"
  by (auto simp: byte_of_len_def)

lemma from_byte_of_len: "n < 256 \<Longrightarrow> unat (from_le_bytes [of_nat n :: u8] :: u8) = n"
  by (simp add: unat_of_nat)

lemma Obligation_pack_into_slice_Inr:
  assumes "Obligation_pack_into_slice ob dst = Inr bs"
  obtains off flat flat' where
    "packable (ob_deposited_value ob)" "packable (ob_borrowed_value ob)" "packable (ob_allowed_borrow_value ob)"
    "packable (ob_unhealthy_borrow_value ob)" "length (ob_deposits ob) < 256" "length (ob_borrows ob) < 256"
    "pack_entries OBLIGATION_COLLATERAL_LEN pack_collateral_entry (ob_deposits ob) 0 (subslice 140 776 dst) = Inr (off, flat)"
    "pack_entries OBLIGATION_LIQUIDITY_LEN pack_liquidity_entry (ob_borrows ob) off flat = Inr flat'"
    "OBLIGATION_LEN \<le> length dst"
    "bs = to_le_bytes (ob_version ob) @ to_le_bytes (lu_slot (ob_last_update ob)) @
           pack_bool (lu_stale (ob_last_update ob)) @ to_le_bytes (ob_lending_market ob) @ to_le_bytes (ob_owner ob) @
           to_le_bytes (ucast (dec_raw (ob_deposited_value ob)) :: u128) @
           to_le_bytes (ucast (dec_raw (ob_borrowed_value ob)) :: u128) @
           to_le_bytes (ucast (dec_raw (ob_allowed_borrow_value ob)) :: u128) @
           to_le_bytes (ucast (dec_raw (ob_unhealthy_borrow_value ob)) :: u128) @
           [of_nat (length (ob_deposits ob))] @ [of_nat (length (ob_borrows ob))] @ snd flat' @ drop OBLIGATION_LEN dst"
  using assms unfolding Obligation_pack_into_slice_def
  by (elim peel) (rule that, (assumption | simp add: pack_decimal_eq_Inr byte_of_len_Inr)+)

lemma subslice_byte: "subslice 0 (Suc 0) (x # xs) = [x]"
  by (simp add: subslice_def)

lemma Obligation_from_into:
  assumes "length dst = OBLIGATION_LEN" and "Obligation_wf ob" and "Obligation_pack_into_slice ob dst = Inr bs"
  shows "length bs = OBLIGATION_LEN \<and> Obligation_unpack_from_slice bs = Inr ob"
  using assms(3)
proof (cases rule: Obligation_pack_into_slice_Inr)
  case (1 off flat flat')
  obtain off2 flat2 where f: "flat' = (off2, flat2)" by fastforce
  note c = collateral_entry.pack_entries_spec [OF 1(7)]
  note l = liquidity_entry.pack_entries_spec [OF 1(8) [unfolded f]]
  have len: "length flat2 = 776" using c l assms(1) by simp
  have d: "unpack_entries OBLIGATION_COLLATERAL_LEN unpack_collateral_entry (length (ob_deposits ob)) 0 flat2
      = Inr (off, ob_deposits ob)"
    using unpack_entries_frame [of _ _ _ _ flat off "ob_deposits ob" flat2] c l by simp
  let ?b = "\<lambda>xs. [of_nat (length xs) :: u8]"
  have n: "unat (from_le_bytes (?b (ob_deposits ob)) :: u8) = length (ob_deposits ob)"
    "unat (from_le_bytes (?b (ob_borrows ob)) :: u8) = length (ob_borrows ob)"
    using 1(5,6) by (simp_all only: from_byte_of_len)
  show ?thesis
    unfolding 1(10) Obligation_unpack_from_slice_def f snd_conv Let_def
    using assms(1,2) 1(1-4) len d l n
    by (simp add: layout_simps subslice_byte not_less Obligation_wf_def del: from_le_bytes.simps)
qed

interpretation obligation_packed:
  packed_type OBLIGATION_LEN Obligation_unpack_from_slice Obligation_pack_into_slice
    Obligation_is_initialized Obligation_wf
proof unfold_locales
  fix bs v
  assume "Obligation_unpack_from_slice bs = Inr v"
  then show "Obligation_wf v"
    by (auto simp: Obligation_unpack_from_slice_def Obligation_wf_def res_simps Let_def not_less split: prod.splits)
qed (simp_all add: Obligation_from_into)

section \<open>When packing succeeds\<close>

definition obligation_fits :: "Obligation \<Rightarrow> bool" where
  "obligation_fits ob \<longleftrightarrow>
     OBLIGATION_COLLATERAL_LEN * length (ob_deposits ob) + OBLIGATION_LIQUIDITY_LEN * length (ob_borrows ob) \<le> 776"

definition obligation_packable :: "Obligation \<Rightarrow> bool" where
  "obligation_packable ob \<longleftrightarrow> packable (ob_deposited_value ob) \<and> packable (ob_borrowed_value ob) \<and>
     packable (ob_allowed_borrow_value ob) \<and> packable (ob_unhealthy_borrow_value ob) \<and>
     list_all collateral_packable (ob_deposits ob) \<and> list_all liquidity_packable (ob_borrows ob)"

lemma Reserve_pack_ok:
  "length (acc_data (led k)) = RESERVE_LEN \<Longrightarrow> reserve_packable r \<Longrightarrow> \<exists>led'. Reserve_pack r k led = Inr led'"
  by (simp add: Reserve_pack_def reserve_packed.pack_to_ledger_eq_Inr Reserve_pack_into_slice_def
      reserve_packable_def Let_def res_simps pack_decimal_eq_Inr)

lemma Obligation_into_slice_iff:
  assumes "length dst = OBLIGATION_LEN"
  shows "is_ok (Obligation_pack_into_slice ob dst) \<longleftrightarrow> obligation_packable ob \<and> obligation_fits ob"
proof
  assume "is_ok (Obligation_pack_into_slice ob dst)"
  then obtain bs where "Obligation_pack_into_slice ob dst = Inr bs" by (auto simp: is_ok_iff)
  then show "obligation_packable ob \<and> obligation_fits ob"
  proof (cases rule: Obligation_pack_into_slice_Inr)
    case (1 off flat flat')
    obtain off2 flat2 where f: "flat' = (off2, flat2)" by fastforce
    show ?thesis
      using collateral_entry.pack_entries_spec [OF 1(7)] liquidity_entry.pack_entries_spec [OF 1(8) [unfolded f]]
        1(1-4) assms by (auto simp: obligation_packable_def obligation_fits_def list_all_iff)
  qed
next
  assume ok: "obligation_packable ob \<and> obligation_fits ob"
  let ?f = "subslice 140 776 dst" and ?n = "56 * length (ob_deposits ob)"
  have d: "0 + 56 * length (ob_deposits ob) \<le> length ?f" "\<forall>c\<in>set (ob_deposits ob). collateral_packable c"
    using ok assms by (auto simp: obligation_packable_def obligation_fits_def list_all_iff)
  from collateral_entry.pack_entries_ok [OF this] obtain flat where
    flat: "pack_entries OBLIGATION_COLLATERAL_LEN pack_collateral_entry (ob_deposits ob) 0 ?f = Inr (?n, flat)"
    by auto
  have b: "?n + 80 * length (ob_borrows ob) \<le> length flat" "\<forall>l\<in>set (ob_borrows ob). liquidity_packable l"
    using ok assms collateral_entry.pack_entries_spec [OF flat]
    by (auto simp: obligation_packable_def obligation_fits_def list_all_iff)
  from liquidity_entry.pack_entries_ok [OF this] obtain off' flat' where
    "pack_entries OBLIGATION_LIQUIDITY_LEN pack_liquidity_entry (ob_borrows ob) ?n flat = Inr (off', flat')" by auto
  moreover have "length (ob_deposits ob) < 256" "length (ob_borrows ob) < 256"
    using ok by (auto simp: obligation_fits_def)
  ultimately show "is_ok (Obligation_pack_into_slice ob dst)"
    using ok assms flat
    by (simp add: is_ok_iff Obligation_pack_into_slice_def obligation_packable_def pack_decimal_eq_Inr
        res_simps byte_of_len_Inr)
qed

end
