(* ===== verification/Lending_Instruction.thy ===== *)
theory Lending_Instruction
  imports Lending_State Token_Instruction
begin

text \<open>
  The instructions of the lending program (\<^verbatim>\<open>token-lending/program/src/instruction.rs\<close>): their wire
  format and the functions with which clients build them.  Packing then unpacking gives the
  instruction back, and no input makes \<^verbatim>\<open>unpack\<close> panic.
\<close>

section \<open>The instruction type\<close>

datatype LendingInstruction =
    InitLendingMarket pubkey bytes
  | SetLendingMarketOwner pubkey
  | InitReserve u64 ReserveConfig
  | RefreshReserve
  | DepositReserveLiquidity u64
  | RedeemReserveCollateral u64
  | InitObligation
  | RefreshObligation
  | DepositObligationCollateral u64
  | WithdrawObligationCollateral u64
  | BorrowObligationLiquidity u64
  | RepayObligationLiquidity u64
  | LiquidateObligation u64
  | FlashLoan u64

text \<open>The \<^verbatim>\<open>[u8; 32]\<close> argument is a list of 32 bytes.\<close>

definition LendingInstruction_wf :: "LendingInstruction \<Rightarrow> bool" where
  "LendingInstruction_wf i = (case i of InitLendingMarket _ quote \<Rightarrow> length quote = 32 | _ \<Rightarrow> True)"

section \<open>Unpacking\<close>

definition lending_unpack_u64 :: "bytes \<Rightarrow> (u64 \<times> bytes) res" where
  "lending_unpack_u64 input =
     (if length input < 8 then Inl (lending_err InstructionUnpackError)
      else Inr (from_le_bytes (take 8 input), drop 8 input))"

definition lending_unpack_u8 :: "bytes \<Rightarrow> (u8 \<times> bytes) res" where
  "lending_unpack_u8 input =
     (if input = [] then Inl (lending_err InstructionUnpackError)
      else Inr (from_le_bytes (take 1 input), drop 1 input))"

definition lending_unpack_bytes32 :: "bytes \<Rightarrow> (bytes \<times> bytes) res" where
  "lending_unpack_bytes32 input =
     (if length input < 32 then Inl (lending_err InstructionUnpackError)
      else Inr (take 32 input, drop 32 input))"

definition lending_unpack_pubkey :: "bytes \<Rightarrow> (pubkey \<times> bytes) res" where
  "lending_unpack_pubkey input =
     (if length input < 32 then Inl (lending_err InstructionUnpackError)
      else Inr (from_le_bytes (take 32 input), drop 32 input))"

definition unpack_init_reserve :: "bytes \<Rightarrow> LendingInstruction res" where
  "unpack_init_reserve rest =
     attempt (lending_unpack_u64 rest) (\<lambda>(liquidity_amount, rest).
     attempt (lending_unpack_u8 rest) (\<lambda>(optimal_utilization_rate, rest).
     attempt (lending_unpack_u8 rest) (\<lambda>(loan_to_value_ratio, rest).
     attempt (lending_unpack_u8 rest) (\<lambda>(liquidation_bonus, rest).
     attempt (lending_unpack_u8 rest) (\<lambda>(liquidation_threshold, rest).
     attempt (lending_unpack_u8 rest) (\<lambda>(min_borrow_rate, rest).
     attempt (lending_unpack_u8 rest) (\<lambda>(optimal_borrow_rate, rest).
     attempt (lending_unpack_u8 rest) (\<lambda>(max_borrow_rate, rest).
     attempt (lending_unpack_u64 rest) (\<lambda>(borrow_fee_wad, rest).
     attempt (lending_unpack_u64 rest) (\<lambda>(flash_loan_fee_wad, rest).
     attempt (lending_unpack_u8 rest) (\<lambda>(host_fee_percentage, _).
     Inr (InitReserve liquidity_amount
       \<lparr>cf_optimal_utilization_rate = optimal_utilization_rate, cf_loan_to_value_ratio = loan_to_value_ratio,
        cf_liquidation_bonus = liquidation_bonus, cf_liquidation_threshold = liquidation_threshold,
        cf_min_borrow_rate = min_borrow_rate, cf_optimal_borrow_rate = optimal_borrow_rate,
        cf_max_borrow_rate = max_borrow_rate,
        cf_fees = \<lparr>rf_borrow_fee_wad = borrow_fee_wad, rf_flash_loan_fee_wad = flash_loan_fee_wad,
                   rf_host_fee_percentage = host_fee_percentage\<rparr>\<rparr>))))))))))))"

definition LendingInstruction_unpack :: "bytes \<Rightarrow> LendingInstruction res" where
  "LendingInstruction_unpack input =
     (case input of
        [] \<Rightarrow> Inl (lending_err InstructionUnpackError)
      | tag # rest \<Rightarrow>
          if tag = 0 then
            attempt (lending_unpack_pubkey rest) (\<lambda>(owner, rest).
            attempt (lending_unpack_bytes32 rest) (\<lambda>(quote_currency, _).
            Inr (InitLendingMarket owner quote_currency)))
          else if tag = 1 then attempt (lending_unpack_pubkey rest) (\<lambda>(k, _). Inr (SetLendingMarketOwner k))
          else if tag = 2 then unpack_init_reserve rest
          else if tag = 3 then Inr RefreshReserve
          else if tag = 4 then attempt (lending_unpack_u64 rest) (\<lambda>(n, _). Inr (DepositReserveLiquidity n))
          else if tag = 5 then attempt (lending_unpack_u64 rest) (\<lambda>(n, _). Inr (RedeemReserveCollateral n))
          else if tag = 6 then Inr InitObligation
          else if tag = 7 then Inr RefreshObligation
          else if tag = 8 then attempt (lending_unpack_u64 rest) (\<lambda>(n, _). Inr (DepositObligationCollateral n))
          else if tag = 9 then attempt (lending_unpack_u64 rest) (\<lambda>(n, _). Inr (WithdrawObligationCollateral n))
          else if tag = 10 then attempt (lending_unpack_u64 rest) (\<lambda>(n, _). Inr (BorrowObligationLiquidity n))
          else if tag = 11 then attempt (lending_unpack_u64 rest) (\<lambda>(n, _). Inr (RepayObligationLiquidity n))
          else if tag = 12 then attempt (lending_unpack_u64 rest) (\<lambda>(n, _). Inr (LiquidateObligation n))
          else if tag = 13 then attempt (lending_unpack_u64 rest) (\<lambda>(n, _). Inr (FlashLoan n))
          else Inl (lending_err InstructionUnpackError))"

section \<open>Packing\<close>

definition LendingInstruction_pack :: "LendingInstruction \<Rightarrow> bytes" where
  "LendingInstruction_pack i =
     (case i of
        InitLendingMarket owner quote_currency \<Rightarrow> 0 # to_le_bytes owner @ quote_currency
      | SetLendingMarketOwner new_owner \<Rightarrow> 1 # to_le_bytes new_owner
      | InitReserve n cf \<Rightarrow>
          2 # to_le_bytes n @ to_le_bytes (cf_optimal_utilization_rate cf) @
          to_le_bytes (cf_loan_to_value_ratio cf) @ to_le_bytes (cf_liquidation_bonus cf) @
          to_le_bytes (cf_liquidation_threshold cf) @ to_le_bytes (cf_min_borrow_rate cf) @
          to_le_bytes (cf_optimal_borrow_rate cf) @ to_le_bytes (cf_max_borrow_rate cf) @
          to_le_bytes (rf_borrow_fee_wad (cf_fees cf)) @ to_le_bytes (rf_flash_loan_fee_wad (cf_fees cf)) @
          to_le_bytes (rf_host_fee_percentage (cf_fees cf))
      | RefreshReserve \<Rightarrow> [3]
      | DepositReserveLiquidity n \<Rightarrow> 4 # to_le_bytes n
      | RedeemReserveCollateral n \<Rightarrow> 5 # to_le_bytes n
      | InitObligation \<Rightarrow> [6]
      | RefreshObligation \<Rightarrow> [7]
      | DepositObligationCollateral n \<Rightarrow> 8 # to_le_bytes n
      | WithdrawObligationCollateral n \<Rightarrow> 9 # to_le_bytes n
      | BorrowObligationLiquidity n \<Rightarrow> 10 # to_le_bytes n
      | RepayObligationLiquidity n \<Rightarrow> 11 # to_le_bytes n
      | LiquidateObligation n \<Rightarrow> 12 # to_le_bytes n
      | FlashLoan n \<Rightarrow> 13 # to_le_bytes n)"

section \<open>Instruction builders\<close>

text \<open>The authority of a market is derived from the market's key.\<close>

definition market_authority :: "runtime \<Rightarrow> pubkey \<Rightarrow> pubkey \<Rightarrow> pubkey" where
  "market_authority R pid lending_market_pubkey = fst (rt_find_program_address R [to_le_bytes lending_market_pubkey] pid)"

definition lending_ix :: "pubkey \<Rightarrow> account_meta list \<Rightarrow> LendingInstruction \<Rightarrow> sol_instruction" where
  "lending_ix pid metas i =
     \<lparr>ix_program_id = pid, ix_accounts = metas, ix_data = LendingInstruction_pack i\<rparr>"

definition init_lending_market where
  "init_lending_market R pid owner quote_currency lending_market_pubkey oracle_program_id =
      lending_ix pid
        ([AccountMeta_new lending_market_pubkey False,
         AccountMeta_new_readonly (rt_rent_sysvar_id R) False,
         AccountMeta_new_readonly (token_program_id R) False,
         AccountMeta_new_readonly oracle_program_id False])
        (InitLendingMarket owner quote_currency)"

definition set_lending_market_owner where
  "set_lending_market_owner pid lending_market_pubkey lending_market_owner new_owner =
      lending_ix pid
        ([AccountMeta_new lending_market_pubkey False,
         AccountMeta_new_readonly lending_market_owner True])
        (SetLendingMarketOwner new_owner)"

definition init_reserve where
  "init_reserve R pid liquidity_amount config source_liquidity_pubkey destination_collateral_pubkey
     reserve_pubkey reserve_liquidity_mint_pubkey reserve_liquidity_supply_pubkey
     reserve_liquidity_fee_receiver_pubkey reserve_collateral_mint_pubkey
     reserve_collateral_supply_pubkey pyth_product_pubkey pyth_price_pubkey lending_market_pubkey
     lending_market_owner_pubkey user_transfer_authority_pubkey =
     (let lending_market_authority_pubkey = market_authority R pid lending_market_pubkey in
      lending_ix pid
        ([AccountMeta_new source_liquidity_pubkey False,
         AccountMeta_new destination_collateral_pubkey False,
         AccountMeta_new reserve_pubkey False,
         AccountMeta_new_readonly reserve_liquidity_mint_pubkey False,
         AccountMeta_new reserve_liquidity_supply_pubkey False,
         AccountMeta_new reserve_liquidity_fee_receiver_pubkey False,
         AccountMeta_new reserve_collateral_mint_pubkey False,
         AccountMeta_new reserve_collateral_supply_pubkey False,
         AccountMeta_new_readonly pyth_product_pubkey False,
         AccountMeta_new_readonly pyth_price_pubkey False,
         AccountMeta_new_readonly lending_market_pubkey False,
         AccountMeta_new_readonly lending_market_authority_pubkey False,
         AccountMeta_new_readonly lending_market_owner_pubkey True,
         AccountMeta_new_readonly user_transfer_authority_pubkey True,
         AccountMeta_new_readonly (rt_clock_sysvar_id R) False,
         AccountMeta_new_readonly (rt_rent_sysvar_id R) False,
         AccountMeta_new_readonly (token_program_id R) False])
        (InitReserve liquidity_amount config))"

definition refresh_reserve where
  "refresh_reserve R pid reserve_pubkey reserve_liquidity_oracle_pubkey =
      lending_ix pid
        ([AccountMeta_new reserve_pubkey False,
         AccountMeta_new_readonly reserve_liquidity_oracle_pubkey False,
         AccountMeta_new_readonly (rt_clock_sysvar_id R) False])
        RefreshReserve"

definition deposit_reserve_liquidity where
  "deposit_reserve_liquidity R pid liquidity_amount source_liquidity_pubkey
     destination_collateral_pubkey reserve_pubkey reserve_liquidity_supply_pubkey
     reserve_collateral_mint_pubkey lending_market_pubkey user_transfer_authority_pubkey =
     (let lending_market_authority_pubkey = market_authority R pid lending_market_pubkey in
      lending_ix pid
        ([AccountMeta_new source_liquidity_pubkey False,
         AccountMeta_new destination_collateral_pubkey False,
         AccountMeta_new reserve_pubkey False,
         AccountMeta_new reserve_liquidity_supply_pubkey False,
         AccountMeta_new reserve_collateral_mint_pubkey False,
         AccountMeta_new_readonly lending_market_pubkey False,
         AccountMeta_new_readonly lending_market_authority_pubkey False,
         AccountMeta_new_readonly user_transfer_authority_pubkey True,
         AccountMeta_new_readonly (rt_clock_sysvar_id R) False,
         AccountMeta_new_readonly (token_program_id R) False])
        (DepositReserveLiquidity liquidity_amount))"

definition redeem_reserve_collateral where
  "redeem_reserve_collateral R pid collateral_amount source_collateral_pubkey
     destination_liquidity_pubkey reserve_pubkey reserve_collateral_mint_pubkey
     reserve_liquidity_supply_pubkey lending_market_pubkey user_transfer_authority_pubkey =
     (let lending_market_authority_pubkey = market_authority R pid lending_market_pubkey in
      lending_ix pid
        ([AccountMeta_new source_collateral_pubkey False,
         AccountMeta_new destination_liquidity_pubkey False,
         AccountMeta_new reserve_pubkey False,
         AccountMeta_new reserve_collateral_mint_pubkey False,
         AccountMeta_new reserve_liquidity_supply_pubkey False,
         AccountMeta_new_readonly lending_market_pubkey False,
         AccountMeta_new_readonly lending_market_authority_pubkey False,
         AccountMeta_new_readonly user_transfer_authority_pubkey True,
         AccountMeta_new_readonly (rt_clock_sysvar_id R) False,
         AccountMeta_new_readonly (token_program_id R) False])
        (RedeemReserveCollateral collateral_amount))"

definition init_obligation where
  "init_obligation R pid obligation_pubkey lending_market_pubkey obligation_owner_pubkey =
      lending_ix pid
        ([AccountMeta_new obligation_pubkey False,
         AccountMeta_new_readonly lending_market_pubkey False,
         AccountMeta_new_readonly obligation_owner_pubkey True,
         AccountMeta_new_readonly (rt_clock_sysvar_id R) False,
         AccountMeta_new_readonly (rt_rent_sysvar_id R) False,
         AccountMeta_new_readonly (token_program_id R) False])
        InitObligation"

definition refresh_obligation where
  "refresh_obligation R pid obligation_pubkey reserve_pubkeys =
      lending_ix pid
        ([AccountMeta_new obligation_pubkey False,
         AccountMeta_new_readonly (rt_clock_sysvar_id R) False] @ map (\<lambda>k. AccountMeta_new_readonly k False) reserve_pubkeys)
        RefreshObligation"

definition deposit_obligation_collateral where
  "deposit_obligation_collateral R pid collateral_amount source_collateral_pubkey
     destination_collateral_pubkey deposit_reserve_pubkey obligation_pubkey lending_market_pubkey
     obligation_owner_pubkey user_transfer_authority_pubkey =
      lending_ix pid
        ([AccountMeta_new source_collateral_pubkey False,
         AccountMeta_new destination_collateral_pubkey False,
         AccountMeta_new_readonly deposit_reserve_pubkey False,
         AccountMeta_new obligation_pubkey False,
         AccountMeta_new_readonly lending_market_pubkey False,
         AccountMeta_new_readonly obligation_owner_pubkey True,
         AccountMeta_new_readonly user_transfer_authority_pubkey True,
         AccountMeta_new_readonly (rt_clock_sysvar_id R) False,
         AccountMeta_new_readonly (token_program_id R) False])
        (DepositObligationCollateral collateral_amount)"

definition withdraw_obligation_collateral where
  "withdraw_obligation_collateral R pid collateral_amount source_collateral_pubkey
     destination_collateral_pubkey withdraw_reserve_pubkey obligation_pubkey lending_market_pubkey
     obligation_owner_pubkey =
     (let lending_market_authority_pubkey = market_authority R pid lending_market_pubkey in
      lending_ix pid
        ([AccountMeta_new source_collateral_pubkey False,
         AccountMeta_new destination_collateral_pubkey False,
         AccountMeta_new_readonly withdraw_reserve_pubkey False,
         AccountMeta_new obligation_pubkey False,
         AccountMeta_new_readonly lending_market_pubkey False,
         AccountMeta_new_readonly lending_market_authority_pubkey False,
         AccountMeta_new_readonly obligation_owner_pubkey True,
         AccountMeta_new_readonly (rt_clock_sysvar_id R) False,
         AccountMeta_new_readonly (token_program_id R) False])
        (WithdrawObligationCollateral collateral_amount))"

definition borrow_obligation_liquidity where
  "borrow_obligation_liquidity R pid liquidity_amount source_liquidity_pubkey
     destination_liquidity_pubkey borrow_reserve_pubkey borrow_reserve_liquidity_fee_receiver_pubkey
     obligation_pubkey lending_market_pubkey obligation_owner_pubkey host_fee_receiver_pubkey =
     (let lending_market_authority_pubkey = market_authority R pid lending_market_pubkey in
      lending_ix pid
        ([AccountMeta_new source_liquidity_pubkey False,
         AccountMeta_new destination_liquidity_pubkey False,
         AccountMeta_new borrow_reserve_pubkey False,
         AccountMeta_new borrow_reserve_liquidity_fee_receiver_pubkey False,
         AccountMeta_new obligation_pubkey False,
         AccountMeta_new_readonly lending_market_pubkey False,
         AccountMeta_new_readonly lending_market_authority_pubkey False,
         AccountMeta_new_readonly obligation_owner_pubkey True,
         AccountMeta_new_readonly (rt_clock_sysvar_id R) False,
         AccountMeta_new_readonly (token_program_id R) False] @
        (case host_fee_receiver_pubkey of Some k \<Rightarrow> [AccountMeta_new k False] | None \<Rightarrow> []))
        (BorrowObligationLiquidity liquidity_amount))"

definition repay_obligation_liquidity where
  "repay_obligation_liquidity R pid liquidity_amount source_liquidity_pubkey
     destination_liquidity_pubkey repay_reserve_pubkey obligation_pubkey lending_market_pubkey
     user_transfer_authority_pubkey =
      lending_ix pid
        ([AccountMeta_new source_liquidity_pubkey False,
         AccountMeta_new destination_liquidity_pubkey False,
         AccountMeta_new repay_reserve_pubkey False,
         AccountMeta_new obligation_pubkey False,
         AccountMeta_new_readonly lending_market_pubkey False,
         AccountMeta_new_readonly user_transfer_authority_pubkey True,
         AccountMeta_new_readonly (rt_clock_sysvar_id R) False,
         AccountMeta_new_readonly (token_program_id R) False])
        (RepayObligationLiquidity liquidity_amount)"

definition liquidate_obligation where
  "liquidate_obligation R pid liquidity_amount source_liquidity_pubkey destination_collateral_pubkey
     repay_reserve_pubkey repay_reserve_liquidity_supply_pubkey withdraw_reserve_pubkey
     withdraw_reserve_collateral_supply_pubkey obligation_pubkey lending_market_pubkey
     user_transfer_authority_pubkey =
     (let lending_market_authority_pubkey = market_authority R pid lending_market_pubkey in
      lending_ix pid
        ([AccountMeta_new source_liquidity_pubkey False,
         AccountMeta_new destination_collateral_pubkey False,
         AccountMeta_new repay_reserve_pubkey False,
         AccountMeta_new repay_reserve_liquidity_supply_pubkey False,
         AccountMeta_new_readonly withdraw_reserve_pubkey False,
         AccountMeta_new withdraw_reserve_collateral_supply_pubkey False,
         AccountMeta_new obligation_pubkey False,
         AccountMeta_new_readonly lending_market_pubkey False,
         AccountMeta_new_readonly lending_market_authority_pubkey False,
         AccountMeta_new_readonly user_transfer_authority_pubkey True,
         AccountMeta_new_readonly (rt_clock_sysvar_id R) False,
         AccountMeta_new_readonly (token_program_id R) False])
        (LiquidateObligation liquidity_amount))"

definition flash_loan where
  "flash_loan R pid amount source_liquidity_pubkey destination_liquidity_pubkey reserve_pubkey
     reserve_liquidity_fee_receiver_pubkey host_fee_receiver_pubkey lending_market_pubkey
     flash_loan_receiver_program_id flash_loan_receiver_program_accounts =
     (let lending_market_authority_pubkey = market_authority R pid lending_market_pubkey in
      lending_ix pid
        ([AccountMeta_new source_liquidity_pubkey False,
         AccountMeta_new destination_liquidity_pubkey False,
         AccountMeta_new reserve_pubkey False,
         AccountMeta_new reserve_liquidity_fee_receiver_pubkey False,
         AccountMeta_new host_fee_receiver_pubkey False,
         AccountMeta_new_readonly lending_market_pubkey False,
         AccountMeta_new_readonly lending_market_authority_pubkey False,
         AccountMeta_new_readonly (token_program_id R) False,
         AccountMeta_new_readonly flash_loan_receiver_program_id False] @ flash_loan_receiver_program_accounts)
        (FlashLoan amount))"

section \<open>Round trip\<close>

lemma lending_unpack_u64_append [simp]: "lending_unpack_u64 (to_le_bytes n @ rest) = Inr (n, rest)"
  by (simp add: lending_unpack_u64_def)

lemma lending_unpack_u8_append [simp]: "lending_unpack_u8 (to_le_bytes n @ rest) = Inr (n, rest)"
proof -
  have "to_le_bytes n \<noteq> []" using length_to_le_bytes [of n] by fastforce
  then show ?thesis by (simp add: lending_unpack_u8_def)
qed

lemma lending_unpack_pubkey_append [simp]: "lending_unpack_pubkey (to_le_bytes k @ rest) = Inr (k, rest)"
  by (simp add: lending_unpack_pubkey_def)

lemma lending_unpack_bytes32_whole [simp]: "length q = 32 \<Longrightarrow> lending_unpack_bytes32 q = Inr (q, [])"
  by (simp add: lending_unpack_bytes32_def)

lemmas lending_unpack_whole [simp] =
  lending_unpack_u64_append [of _ "[]", simplified] lending_unpack_u8_append [of _ "[]", simplified]
  lending_unpack_pubkey_append [of _ "[]", simplified]

lemma LendingInstruction_unpack_pack:
  assumes "LendingInstruction_wf i"
  shows "LendingInstruction_unpack (LendingInstruction_pack i) = Inr i"
  using assms
  by (cases i)
    (simp_all add: LendingInstruction_unpack_def LendingInstruction_pack_def LendingInstruction_wf_def
      unpack_init_reserve_def)

lemma LendingInstruction_unpack_wf: "LendingInstruction_unpack input = Inr i \<Longrightarrow> LendingInstruction_wf i"
  by (auto simp: LendingInstruction_unpack_def unpack_init_reserve_def LendingInstruction_wf_def res_simps
      lending_unpack_bytes32_def split: list.splits if_splits)

text \<open>The bytes each tag needs after it.  An input that has them decodes; every other is refused.\<close>

definition operand_bytes :: "u8 \<Rightarrow> nat" where
  "operand_bytes tag =
     (if tag = 0 then 64 else if tag = 1 then 32 else if tag = 2 then 32
      else if tag \<in> {3, 6, 7} then 0 else 8)"

lemma unpack_init_reserve_cases:
  "unpack_init_reserve rest = Inl (lending_err InstructionUnpackError) \<and> length rest < 32 \<or>
   (\<exists>i. unpack_init_reserve rest = Inr i) \<and> 32 \<le> length rest"
  by (auto simp: unpack_init_reserve_def lending_unpack_u64_def lending_unpack_u8_def attempt_def)

lemma lending_tags:
  assumes "tag \<le> (13 :: u8)"
  shows "tag \<in> {0, 1, 2} \<union> {3, 6, 7} \<union> {4, 5, 8, 9, 10, 11, 12, 13}"
proof -
  have "unat tag \<in> {0..<14}" using assms by (simp add: word_le_nat_alt)
  then have "(of_nat (unat tag) :: u8) \<in> of_nat ` {0..<14}" by blast
  then show ?thesis by (simp add: eval_nat_numeral atLeastLessThanSuc) blast
qed

text \<open>C40: decoding a lending instruction never aborts.  It succeeds exactly on the inputs that have one of the
  fourteen tags and at least the operand bytes of that tag, and every other input gives
  \<^verbatim>\<open>InstructionUnpackError\<close>.
\<close>

theorem lending_decoder_total:
  "case LendingInstruction_unpack input of
     Inr i \<Rightarrow> input \<noteq> [] \<and> hd input \<le> 13 \<and> operand_bytes (hd input) < length input
   | Inl e \<Rightarrow> e = lending_err InstructionUnpackError \<and>
       (input = [] \<or> 13 < hd input \<or> length input \<le> operand_bytes (hd input))"
proof (cases input)
  case (Cons tag rest)
  consider "tag = 0" | "tag = 2" | "tag = 1" | "tag \<in> {3, 6, 7}" | "tag \<in> {4, 5, 8, 9, 10, 11, 12, 13}" | "13 < tag"
    using lending_tags [of tag] by fastforce
  then show ?thesis
  proof cases
    case 2
    then show ?thesis using unpack_init_reserve_cases [of rest]
      by (auto simp: Cons LendingInstruction_unpack_def operand_bytes_def)
  qed (auto simp: Cons LendingInstruction_unpack_def operand_bytes_def lending_unpack_u64_def
      lending_unpack_pubkey_def lending_unpack_bytes32_def attempt_def)
qed (simp add: LendingInstruction_unpack_def)

end
