(* ===== verification/Lending_Oracle.thy ===== *)
theory Lending_Oracle
  imports Lending_State
begin

text \<open>
  The price oracle as the lending program reads it (\<^verbatim>\<open>token-lending/program/src/pyth.rs\<close> and the two
  readers in \<^verbatim>\<open>processor.rs\<close>): the account structs at their C offsets, the quote currency of a
  product, and the market price.  Enumerations are read as the 32-bit discriminants they are stored
  as, and a load panics when the account is shorter than the struct.
\<close>

definition PYTH_MAGIC :: u32 where "PYTH_MAGIC = 0xa1b2c3d4"
definition PYTH_VERSION_2 :: u32 where "PYTH_VERSION_2 = 2"

abbreviation PROD_ACCT_SIZE :: nat where "PROD_ACCT_SIZE \<equiv> 512"
abbreviation PROD_HDR_SIZE :: nat where "PROD_HDR_SIZE \<equiv> 48"
abbreviation PROD_ATTR_SIZE :: nat where "PROD_ATTR_SIZE \<equiv> 464"
abbreviation PRICE_ACCT_SIZE :: nat where "PRICE_ACCT_SIZE \<equiv> 3312"

section \<open>Account structs\<close>

datatype PythAccountType = UnknownAccount | MappingAccount | ProductAccount | PriceAccount

definition PythAccountType_as_u32 :: "PythAccountType \<Rightarrow> u32" where
  "PythAccountType_as_u32 t =
     (case t of UnknownAccount \<Rightarrow> 0 | MappingAccount \<Rightarrow> 1 | ProductAccount \<Rightarrow> 2 | PriceAccount \<Rightarrow> 3)"

record pyth_product =
  pp_magic :: u32
  pp_ver :: u32
  pp_atype :: u32
  pp_size :: u32
  pp_px_acc :: bytes
  pp_attr :: bytes

definition load_Product :: "bytes \<Rightarrow> pyth_product res" where
  "load_Product data =
     (if length data < PROD_ACCT_SIZE then Inl Panicked
      else Inr \<lparr>pp_magic = from_le_bytes (subslice 0 4 data), pp_ver = from_le_bytes (subslice 4 4 data),
                pp_atype = from_le_bytes (subslice 8 4 data), pp_size = from_le_bytes (subslice 12 4 data),
                pp_px_acc = subslice 16 32 data, pp_attr = subslice PROD_HDR_SIZE PROD_ATTR_SIZE data\<rparr>)"

text \<open>The price struct without the fields the program never reads (averages, links, components).\<close>

record pyth_price =
  px_magic :: u32
  px_ver :: u32
  px_atype :: u32
  px_size :: u32
  px_ptype :: u32
  px_expo :: "32 word"
  px_valid_slot :: u64
  px_agg_price :: "64 word"
  px_agg_conf :: u64
  px_agg_status :: u32

definition load_Price :: "bytes \<Rightarrow> pyth_price res" where
  "load_Price data =
     (if length data < PRICE_ACCT_SIZE then Inl Panicked
      else Inr \<lparr>px_magic = from_le_bytes (subslice 0 4 data), px_ver = from_le_bytes (subslice 4 4 data),
                px_atype = from_le_bytes (subslice 8 4 data), px_size = from_le_bytes (subslice 12 4 data),
                px_ptype = from_le_bytes (subslice 16 4 data), px_expo = from_le_bytes (subslice 20 4 data),
                px_valid_slot = from_le_bytes (subslice 40 8 data),
                px_agg_price = from_le_bytes (subslice 208 8 data),
                px_agg_conf = from_le_bytes (subslice 216 8 data),
                px_agg_status = from_le_bytes (subslice 224 4 data)\<rparr>)"

definition PriceType_Price :: u32 where "PriceType_Price = 1"
definition PriceStatus_Trading :: u32 where "PriceStatus_Trading = 1"

section \<open>The quote currency of a product\<close>

definition index :: "'a list \<Rightarrow> nat \<Rightarrow> 'a res" where
  "index xs i = (if i < length xs then Inr (xs ! i) else Inl Panicked)"

definition QUOTE_CURRENCY_KEY :: bytes where
  "QUOTE_CURRENCY_KEY = map of_char ''quote_currency''"

text \<open>The value that follows the key: \<open>start\<close> is just after the key.\<close>

definition read_quote_currency :: "bytes \<Rightarrow> nat \<Rightarrow> bytes res" where
  "read_quote_currency attr start =
     attempt (index attr start) (\<lambda>len.
     let len = unat len; start = start + 1; stop = start + len in
     if len > 32 \<or> stop > PROD_ATTR_SIZE then Inl (lending_err InvalidOracleConfig)
     else Inr (subslice start len attr @ replicate (32 - len) 0))"

lemma attempt_fundef_cong [fundef_cong]:
  "m = m' \<Longrightarrow> (\<And>x. m' = Inr x \<Longrightarrow> k x = k' x) \<Longrightarrow> attempt m k = attempt m' k'"
  by (cases m') simp_all

function quote_currency_loop :: "bytes \<Rightarrow> nat \<Rightarrow> bytes res" where
  "quote_currency_loop attr start =
     (if start < PROD_ATTR_SIZE then
        attempt (index attr start) (\<lambda>len.
        let len = unat len; start = start + 1; stop = start + len in
        if len = 14 \<and> stop > PROD_ATTR_SIZE then Inl (lending_err InvalidOracleConfig)
        else if len = 14 \<and> subslice start len attr = QUOTE_CURRENCY_KEY then read_quote_currency attr stop
        else
          attempt (index attr (start + len)) (\<lambda>skip.
          quote_currency_loop attr (start + len + (1 + unat skip))))
      else Inl (lending_err InvalidOracleConfig))"
  by pat_completeness auto
termination by (relation "measure (\<lambda>(attr, start). PROD_ATTR_SIZE - start)") auto

definition get_pyth_product_quote_currency :: "pyth_product \<Rightarrow> bytes res" where
  "get_pyth_product_quote_currency product = quote_currency_loop (pp_attr product) 0"

section \<open>The market price\<close>

definition PYTH_STALE_AFTER_SLOTS_ELAPSED :: u64 where "PYTH_STALE_AFTER_SLOTS_ELAPSED = 5"

text \<open>\<^verbatim>\<open>i32::checked_abs\<close>, and \<^verbatim>\<open>try_into\<close> from a signed to an unsigned integer.\<close>

definition checked_abs :: "32 word \<Rightarrow> 32 word option" where
  "checked_abs x = (if sint x = - (2 ^ 31) then None else Some (if sint x < 0 then - x else x))"

definition try_unsigned :: "'a::len word \<Rightarrow> 'a word option" where
  "try_unsigned x = (if sint x < 0 then None else Some x)"

definition scale_price :: "u64 \<Rightarrow> 32 word \<Rightarrow> Decimal res" where
  "scale_price price expo =
     (if sint expo \<ge> 0 then
        attempt (ok_or (try_unsigned expo) math_overflow) (\<lambda>exponent.
        attempt (ok_or (checked_pow 10 (unat exponent)) math_overflow) (\<lambda>zeros.
        Decimal_try_mul_u64 (Decimal_from_u64 price) zeros))
      else
        attempt (ok_or (checked_abs expo) math_overflow) (\<lambda>magnitude.
        attempt (ok_or (try_unsigned magnitude) math_overflow) (\<lambda>exponent.
        attempt (ok_or (checked_pow 10 (unat exponent)) math_overflow) (\<lambda>decimals.
        Decimal_try_div_u64 (Decimal_from_u64 price) decimals))))"

definition get_pyth_price :: "bytes \<Rightarrow> clock \<Rightarrow> Decimal res" where
  "get_pyth_price data clk =
     attempt (load_Price data) (\<lambda>px.
     if px_ptype px \<noteq> PriceType_Price then Inl (lending_err InvalidOracleConfig)
     else if px_agg_status px \<noteq> PriceStatus_Trading then Inl (lending_err InvalidOracleConfig)
     else
       attempt (ok_or (checked_sub (clock_slot clk) (px_valid_slot px)) math_overflow) (\<lambda>slots_elapsed.
       if slots_elapsed \<ge> PYTH_STALE_AFTER_SLOTS_ELAPSED then Inl (lending_err InvalidOracleConfig)
       else
         attempt (ok_or (try_unsigned (px_agg_price px)) (lending_err InvalidOracleConfig)) (\<lambda>price.
         scale_price price (px_expo px))))"


declare quote_currency_loop.simps [simp del]

section \<open>What the readers return\<close>

text \<open>
  The attribute area is a sequence of length-prefixed keys and values.  On an area that starts with
  such a sequence the reader returns the value of the first \<open>quote_currency\<close> key, zero-padded to
  32 bytes.
\<close>

definition encode_attribute :: "bytes \<times> bytes \<Rightarrow> bytes" where
  "encode_attribute kv = of_nat (length (fst kv)) # fst kv @ of_nat (length (snd kv)) # snd kv"

definition attribute_ok :: "bytes \<times> bytes \<Rightarrow> bool" where
  "attribute_ok kv \<longleftrightarrow> length (fst kv) < 256 \<and> length (snd kv) < 256"

lemma index_append [simp]: "index (xs @ y # ys) (length xs) = Inr y"
  by (simp add: index_def)

lemma subslice_middle: "subslice (length xs) (length ys) (xs @ ys @ zs) = ys"
  by (simp add: subslice_def)

lemma unat_length: "n < 256 \<Longrightarrow> unat (of_nat n :: u8) = n"
  by (simp add: unat_of_nat)

lemma quote_currency_skip:
  assumes kv: "attribute_ok (k, v)" "k \<noteq> QUOTE_CURRENCY_KEY"
    and size: "length (before @ encode_attribute (k, v) @ rest) = PROD_ATTR_SIZE"
  shows "quote_currency_loop (before @ encode_attribute (k, v) @ rest) (length before) =
    quote_currency_loop (before @ encode_attribute (k, v) @ rest) (length (before @ encode_attribute (k, v)))"
proof -
  define attr where "attr = before @ encode_attribute (k, v) @ rest"
  define kl vl where "kl = (of_nat (length k) :: u8)" and "vl = (of_nat (length v) :: u8)"
  have l: "unat kl = length k" "unat vl = length v"
    using kv(1) by (simp_all add: attribute_ok_def unat_length kl_def vl_def)
  have a: "attr = before @ kl # k @ vl # v @ rest" by (simp add: encode_attribute_def attr_def kl_def vl_def)
  have i: "index attr (length before) = Inr kl" unfolding a by simp
  have j: "index attr (length before + 1 + length k) = Inr vl"
    using index_append [of "before @ kl # k" vl "v @ rest"] unfolding a by (simp add: ac_simps)
  have s: "subslice (length before + 1) (length k) attr = k"
    using subslice_middle [of "before @ [kl]" k "vl # v @ rest"] unfolding a by simp
  have b: "length before < PROD_ATTR_SIZE" "length before + 1 + length k \<le> PROD_ATTR_SIZE"
    using size by (simp_all add: encode_attribute_def)
  have n: "length (before @ encode_attribute (k, v)) = length before + 1 + length k + (1 + length v)"
    by (simp add: encode_attribute_def)
  show ?thesis
    unfolding attr_def [symmetric] n quote_currency_loop.simps [of attr "length before"] Let_def
    using b kv(2) by (simp only: i j s l attempt_Inr if_True not_less [symmetric] simp_thms if_False)
qed

lemma quote_currency_hit:
  assumes v: "length v \<le> 32" and size: "length (before @ encode_attribute (QUOTE_CURRENCY_KEY, v) @ rest) = PROD_ATTR_SIZE"
  shows "quote_currency_loop (before @ encode_attribute (QUOTE_CURRENCY_KEY, v) @ rest) (length before) =
    Inr (v @ replicate (32 - length v) 0)"
proof -
  define attr where "attr = before @ encode_attribute (QUOTE_CURRENCY_KEY, v) @ rest"
  define vl where "vl = (of_nat (length v) :: u8)"
  have k: "length QUOTE_CURRENCY_KEY = 14" by (simp add: QUOTE_CURRENCY_KEY_def)
  have l: "unat vl = length v" using v by (simp add: unat_length vl_def)
  have a: "attr = before @ 14 # QUOTE_CURRENCY_KEY @ vl # v @ rest"
    by (simp add: encode_attribute_def attr_def k vl_def)
  have i: "index attr (length before) = Inr 14" unfolding a by simp
  have j: "index attr (length before + 1 + 14) = Inr vl"
    using index_append [of "before @ 14 # QUOTE_CURRENCY_KEY" vl "v @ rest"] unfolding a by (simp add: k ac_simps)
  have s: "subslice (length before + 1) 14 attr = QUOTE_CURRENCY_KEY"
    using subslice_middle [of "before @ [14]" QUOTE_CURRENCY_KEY "vl # v @ rest"] unfolding a by (simp add: k)
  have u: "subslice (length before + 1 + 14 + 1) (length v) attr = v"
    using subslice_middle [of "before @ 14 # QUOTE_CURRENCY_KEY @ [vl]" v rest] unfolding a by (simp add: k ac_simps)
  have b: "length before < PROD_ATTR_SIZE" "length before + 1 + 14 \<le> PROD_ATTR_SIZE"
    "length before + 1 + 14 + 1 + length v \<le> PROD_ATTR_SIZE"
    using size by (simp_all add: encode_attribute_def k)
  have "read_quote_currency attr (length before + 1 + 14) = Inr (v @ replicate (32 - length v) 0)"
    unfolding read_quote_currency_def Let_def using b v
    by (simp only: j l u attempt_Inr not_less [symmetric] simp_thms if_False)
  then show ?thesis
    unfolding attr_def [symmetric] quote_currency_loop.simps [of attr "length before"] Let_def
    using b s by (simp add: i)
qed

lemma quote_currency_loop_finds:
  assumes "\<forall>kv\<in>set kvs. attribute_ok kv" and "map_of kvs QUOTE_CURRENCY_KEY = Some v" and "length v \<le> 32"
    and "length (before @ concat (map encode_attribute kvs) @ rest) = PROD_ATTR_SIZE"
  shows "quote_currency_loop (before @ concat (map encode_attribute kvs) @ rest) (length before) =
    Inr (v @ replicate (32 - length v) 0)"
  using assms
proof (induction kvs arbitrary: before)
  case (Cons kv kvs)
  obtain k w where kv: "kv = (k, w)" by fastforce
  show ?case
  proof (cases "k = QUOTE_CURRENCY_KEY")
    case True
    then show ?thesis using Cons.prems quote_currency_hit [of v before "concat (map encode_attribute kvs) @ rest"]
      by (simp add: kv)
  next
    case False
    then show ?thesis
      using Cons.prems Cons.IH [of "before @ encode_attribute kv"]
        quote_currency_skip [of k w before "concat (map encode_attribute kvs) @ rest"]
      by (simp add: kv)
  qed
qed simp

text \<open>C39: on a product whose attribute area is a sequence of length-prefixed keys and values (and any bytes
  after it), the reader returns the value of the first \<open>quote_currency\<close> key, padded with zeroes to 32
  bytes.\<close>

theorem quote_currency_found:
  assumes "pp_attr product = concat (map encode_attribute kvs) @ rest" and "length (pp_attr product) = PROD_ATTR_SIZE"
    and "\<forall>kv\<in>set kvs. attribute_ok kv" and "map_of kvs QUOTE_CURRENCY_KEY = Some v" and "length v \<le> 32"
  shows "get_pyth_product_quote_currency product = Inr (v @ replicate (32 - length v) 0)"
  using quote_currency_loop_finds [OF assms(3-5), of "[]" rest] assms(1,2)
  by (simp add: get_pyth_product_quote_currency_def)

definition example_attributes :: "(bytes \<times> bytes) list" where
  "example_attributes = [(map of_char ''symbol'', map of_char ''SOL/USD''), (QUOTE_CURRENCY_KEY, map of_char ''USD'')]"

theorem quote_currency_found_witness:
  "get_pyth_product_quote_currency
     \<lparr>pp_magic = PYTH_MAGIC, pp_ver = PYTH_VERSION_2, pp_atype = 2, pp_size = 512, pp_px_acc = replicate 32 7,
      pp_attr = concat (map encode_attribute example_attributes) @ replicate 430 0\<rparr>
   = Inr (map of_char ''USD'' @ replicate 29 0)"
proof -
  have k: "length QUOTE_CURRENCY_KEY = 14" "map of_char ''symbol'' \<noteq> QUOTE_CURRENCY_KEY"
    by (simp_all add: QUOTE_CURRENCY_KEY_def)
  show ?thesis
    by (subst quote_currency_found [where kvs = example_attributes and rest = "replicate 430 0" and v = "map of_char ''USD''"])
      (simp_all add: example_attributes_def encode_attribute_def attribute_ok_def k k(2) [symmetric, simplified])
qed

lemma sint_eq_uint: "sint (x :: 'a::len word) = uint x - 2 ^ LENGTH('a) * of_bool (sint x < 0)"
proof -
  have s: "sint x = uint x - 2 ^ LENGTH('a) * of_bool (bit (uint x) (LENGTH('a) - Suc 0))"
    using signed_take_bit_eq_take_bit_minus [of "LENGTH('a) - Suc 0" "uint x"]
    by (simp add: sint_uint take_bit_int_eq_self)
  have "uint x < 2 ^ LENGTH('a)" "0 \<le> uint x" by simp_all
  then have "sint x < 0 \<longleftrightarrow> bit (uint x) (LENGTH('a) - Suc 0)" using s by (auto simp: of_bool_def split: if_splits)
  then show ?thesis using s by simp
qed

lemma try_unsigned_Some: "try_unsigned x = Some y \<longleftrightarrow> 0 \<le> sint x \<and> y = x"
  by (auto simp: try_unsigned_def)

lemma unat_nonneg: "0 \<le> sint x \<Longrightarrow> unat x = nat (sint x)"
  using sint_eq_uint [of x] by simp

lemma unat_minus_neg: "sint (x :: 'a::len word) < 0 \<Longrightarrow> unat (- x) = nat (- sint x)"
proof -
  assume neg: "sint x < 0"
  then have "uint x = sint x + 2 ^ LENGTH('a)" using sint_eq_uint [of x] by simp
  moreover have "x \<noteq> 0" using neg by auto
  then have "uint (- x) = 2 ^ LENGTH('a) - uint x"
    by (simp add: uint_word_ariths(4) zmod_zminus1_eq_if uint_0_iff)
  ultimately show ?thesis by (simp add: unat_eq_nat_uint)
qed

lemma scale_price_Inr:
  assumes "scale_price p expo = Inr d"
  shows "dn d = (if 0 \<le> sint expo then wad * unat p * 10 ^ nat (sint expo)
                 else wad * unat p div 10 ^ nat (- sint expo))"
proof (cases "0 \<le> sint expo")
  case True
  with assms obtain z where "unat z = 10 ^ unat expo" "Decimal_try_mul_u64 (Decimal_from_u64 p) z = Inr d"
    by (auto simp: scale_price_def res_simps checked_pow_eq_Some try_unsigned_Some)
  then show ?thesis using True by (simp add: checked_simps unat_nonneg)
next
  case False
  with assms obtain z where "unat z = 10 ^ unat (- expo)" "Decimal_try_div_u64 (Decimal_from_u64 p) z = Inr d"
    by (auto simp: scale_price_def res_simps checked_pow_eq_Some try_unsigned_Some checked_abs_def split: if_splits)
  then show ?thesis using False by (simp add: checked_simps unat_minus_neg)
qed

text \<open>the market price is the aggregate price times ten to its exponent, rounded down to a multiple of
  one \<open>wad\<close>-th, and is accepted only from a trading price account whose price is valid in one of
  the five slots up to the current one and not negative.\<close>

theorem oracle_price_exact:
  assumes "get_pyth_price data clk = Inr d"
  shows "\<exists>px. load_Price data = Inr px \<and> px_ptype px = PriceType_Price \<and> px_agg_status px = PriceStatus_Trading \<and>
    px_valid_slot px \<le> clock_slot clk \<and> unat (clock_slot clk) < unat (px_valid_slot px) + 5 \<and>
    0 \<le> sint (px_agg_price px) \<and>
    dn d = (if 0 \<le> sint (px_expo px) then wad * nat (sint (px_agg_price px)) * 10 ^ nat (sint (px_expo px))
            else wad * nat (sint (px_agg_price px)) div 10 ^ nat (- sint (px_expo px)))"
proof -
  from assms obtain px e where px: "load_Price data = Inr px" "px_ptype px = PriceType_Price"
    "px_agg_status px = PriceStatus_Trading" and e: "checked_sub (clock_slot clk) (px_valid_slot px) = Some e"
    "e < PYTH_STALE_AFTER_SLOTS_ELAPSED"
    and price: "0 \<le> sint (px_agg_price px)" and sc: "scale_price (px_agg_price px) (px_expo px) = Inr d"
    by (auto simp: get_pyth_price_def res_simps try_unsigned_Some not_le)
  have "px_valid_slot px \<le> clock_slot clk \<and> unat (clock_slot clk) < unat (px_valid_slot px) + 5"
    using e by (simp add: checked_simps PYTH_STALE_AFTER_SLOTS_ELAPSED_def word_less_nat_alt word_le_nat_alt)
  moreover note scale_price_Inr [OF sc, unfolded unat_nonneg [OF price]]
  ultimately show ?thesis using px price by blast
qed

text \<open>A trading price of 123.45, published in slot 7: 12345 with exponent minus two.\<close>

definition example_price_data :: bytes where
  "example_price_data =
     replicate 16 0 @ to_le_bytes PriceType_Price @ to_le_bytes (- 2 :: 32 word) @ replicate 16 0 @
     to_le_bytes (7 :: u64) @ replicate 160 0 @ to_le_bytes (12345 :: 64 word) @ replicate 8 0 @
     to_le_bytes PriceStatus_Trading @ replicate 3084 0"

lemma example_price_load:
  "\<exists>px. load_Price example_price_data = Inr px \<and> px_ptype px = PriceType_Price \<and>
     px_agg_status px = PriceStatus_Trading \<and> px_valid_slot px = 7 \<and> px_agg_price px = 12345 \<and> px_expo px = - 2"
  by (simp add: load_Price_def example_price_data_def layout_simps from_to_le_bytes)

lemma example_price:
  "get_pyth_price example_price_data \<lparr>clock_slot = 9, clock_unix_timestamp = 1000, clock_epoch = 3\<rparr> = Inr (Decimal 123450000000000000000)"
proof -
  obtain px where px: "load_Price example_price_data = Inr px" "px_ptype px = PriceType_Price"
    "px_agg_status px = PriceStatus_Trading" "px_valid_slot px = 7" "px_agg_price px = 12345" "px_expo px = - 2"
    using example_price_load by blast
  have "scale_price 12345 (- 2) = Inr (Decimal 123450000000000000000)"
    by (simp add: scale_price_def checked_abs_def try_unsigned_def checked_simps checked_pow_def)
  then show ?thesis
    by (simp add: get_pyth_price_def px checked_sub_def PYTH_STALE_AFTER_SLOTS_ELAPSED_def try_unsigned_def)
qed

theorem oracle_price_exact_witness:
  "\<exists>d px. get_pyth_price example_price_data \<lparr>clock_slot = 9, clock_unix_timestamp = 1000, clock_epoch = 3\<rparr> = Inr d \<and> load_Price example_price_data = Inr px \<and>
     px_valid_slot px \<le> 9"
  using example_price oracle_price_exact [OF example_price] by fastforce

end
