(* ===== verification/Lending_Processor.thy ===== *)
theory Lending_Processor
  imports Lending_Pack Lending_Instruction Lending_Oracle
begin

text \<open>
  The handlers of the lending program (\<^verbatim>\<open>token-lending/program/src/processor.rs\<close>).  A handler takes the
  account infos and the ledger and returns the ledger it leaves; token movements are cross-program
  invocations through \<open>rt_invoke_signed\<close>, in the order the source issues them.  The checks the
  handlers share (loading a market, a reserve or an obligation, deriving the market authority,
  staleness) are definitions of their own.  Logging and the dynamic borrow checks of
  \<^verbatim>\<open>RefCell\<close> are not modelled.
\<close>

section \<open>Helpers\<close>

definition assert_rent_exempt :: "rent \<Rightarrow> ledger \<Rightarrow> account_info \<Rightarrow> unit res" where
  "assert_rent_exempt rent led info =
     (if \<not> rent_is_exempt rent (info_lamports led info) (length (info_data led info))
      then Inl (lending_err NotRentExemptLending) else Inr ())"

definition assert_uninitialized :: "(bytes \<Rightarrow> 'a res) \<Rightarrow> ('a \<Rightarrow> bool) \<Rightarrow> ledger \<Rightarrow> account_info \<Rightarrow> 'a res" where
  "assert_uninitialized unpack_unchecked is_init led info =
     attempt (unpack_unchecked (info_data led info)) (\<lambda>v.
     if is_init v then Inl (lending_err AlreadyInitialized) else Inr v)"

definition unpack_mint :: "bytes \<Rightarrow> mint res" where
  "unpack_mint data = map_err (\<lambda>_. lending_err InvalidTokenMint) (Mint_unpack data)"

subsection \<open>Cross-program invocations of the token program\<close>

definition invoke_optionally_signed ::
    "runtime \<Rightarrow> pubkey \<Rightarrow> sol_instruction \<Rightarrow> account_info list \<Rightarrow> bytes list \<Rightarrow> ledger \<Rightarrow> ledger res" where
  "invoke_optionally_signed R pid ix infos authority_signer_seeds led =
     (if authority_signer_seeds = [] then rt_invoke_signed R pid ix infos [] led
      else rt_invoke_signed R pid ix infos [authority_signer_seeds] led)"

definition spl_token_init_account ::
    "runtime \<Rightarrow> pubkey \<Rightarrow> account_info \<Rightarrow> account_info \<Rightarrow> account_info \<Rightarrow> account_info \<Rightarrow> account_info \<Rightarrow> ledger \<Rightarrow> ledger res" where
  "spl_token_init_account R pid acct mint owner rent token_program led =
     attempt (initialize_account R (ai_key token_program) (ai_key acct) (ai_key mint) (ai_key owner)) (\<lambda>ix.
     map_err (\<lambda>_. lending_err TokenInitializeAccountFailed)
       (rt_invoke_signed R pid ix [acct, mint, owner, rent, token_program] [] led))"

definition spl_token_init_mint ::
    "runtime \<Rightarrow> pubkey \<Rightarrow> account_info \<Rightarrow> account_info \<Rightarrow> pubkey \<Rightarrow> u8 \<Rightarrow> account_info \<Rightarrow> ledger \<Rightarrow> ledger res" where
  "spl_token_init_mint R pid mint rent authority decimals token_program led =
     attempt (initialize_mint R (ai_key token_program) (ai_key mint) authority None decimals) (\<lambda>ix.
     map_err (\<lambda>_. lending_err TokenInitializeMintFailed)
       (rt_invoke_signed R pid ix [mint, rent, token_program] [] led))"

definition spl_token_transfer ::
    "runtime \<Rightarrow> pubkey \<Rightarrow> account_info \<Rightarrow> account_info \<Rightarrow> u64 \<Rightarrow> account_info \<Rightarrow> bytes list \<Rightarrow> account_info \<Rightarrow> ledger \<Rightarrow> ledger res" where
  "spl_token_transfer R pid source destination amt authority authority_signer_seeds token_program led =
     attempt (transfer R (ai_key token_program) (ai_key source) (ai_key destination) (ai_key authority) [] amt) (\<lambda>ix.
     map_err (\<lambda>_. lending_err TokenTransferFailed)
       (invoke_optionally_signed R pid ix [source, destination, authority, token_program] authority_signer_seeds led))"

definition spl_token_mint_to ::
    "runtime \<Rightarrow> pubkey \<Rightarrow> account_info \<Rightarrow> account_info \<Rightarrow> u64 \<Rightarrow> account_info \<Rightarrow> bytes list \<Rightarrow> account_info \<Rightarrow> ledger \<Rightarrow> ledger res" where
  "spl_token_mint_to R pid mint destination amt authority authority_signer_seeds token_program led =
     attempt (mint_to R (ai_key token_program) (ai_key mint) (ai_key destination) (ai_key authority) [] amt) (\<lambda>ix.
     map_err (\<lambda>_. lending_err TokenMintToFailed)
       (invoke_optionally_signed R pid ix [mint, destination, authority, token_program] authority_signer_seeds led))"

definition spl_token_burn ::
    "runtime \<Rightarrow> pubkey \<Rightarrow> account_info \<Rightarrow> account_info \<Rightarrow> u64 \<Rightarrow> account_info \<Rightarrow> bytes list \<Rightarrow> account_info \<Rightarrow> ledger \<Rightarrow> ledger res" where
  "spl_token_burn R pid mint source amt authority authority_signer_seeds token_program led =
     attempt (burn R (ai_key token_program) (ai_key source) (ai_key mint) (ai_key authority) [] amt) (\<lambda>ix.
     map_err (\<lambda>_. lending_err TokenBurnFailed)
       (invoke_optionally_signed R pid ix [source, mint, authority, token_program] authority_signer_seeds led))"

subsection \<open>Checks the handlers share\<close>

definition load_lending_market :: "pubkey \<Rightarrow> ledger \<Rightarrow> account_info \<Rightarrow> LendingMarket res" where
  "load_lending_market pid led lending_market_info =
     attempt (LendingMarket_unpack (info_data led lending_market_info)) (\<lambda>lending_market.
     if info_owner led lending_market_info \<noteq> pid then Inl (lending_err InvalidAccountOwner)
     else Inr lending_market)"

definition load_market_for_token :: "pubkey \<Rightarrow> ledger \<Rightarrow> account_info \<Rightarrow> account_info \<Rightarrow> LendingMarket res" where
  "load_market_for_token pid led lending_market_info token_program_info =
     attempt (load_lending_market pid led lending_market_info) (\<lambda>lending_market.
     if lm_token_program_id lending_market \<noteq> ai_key token_program_info then Inl (lending_err InvalidTokenProgram)
     else Inr lending_market)"

definition load_reserve :: "pubkey \<Rightarrow> ledger \<Rightarrow> account_info \<Rightarrow> Reserve res" where
  "load_reserve pid led reserve_info =
     attempt (Reserve_unpack (info_data led reserve_info)) (\<lambda>reserve.
     if info_owner led reserve_info \<noteq> pid then Inl (lending_err InvalidAccountOwner) else Inr reserve)"

definition load_market_reserve :: "pubkey \<Rightarrow> ledger \<Rightarrow> account_info \<Rightarrow> account_info \<Rightarrow> Reserve res" where
  "load_market_reserve pid led lending_market_info reserve_info =
     attempt (load_reserve pid led reserve_info) (\<lambda>reserve.
     if rs_lending_market reserve \<noteq> ai_key lending_market_info then Inl (lending_err InvalidAccountInput)
     else Inr reserve)"

definition load_obligation :: "pubkey \<Rightarrow> ledger \<Rightarrow> account_info \<Rightarrow> Obligation res" where
  "load_obligation pid led obligation_info =
     attempt (Obligation_unpack (info_data led obligation_info)) (\<lambda>obligation.
     if info_owner led obligation_info \<noteq> pid then Inl (lending_err InvalidAccountOwner) else Inr obligation)"

definition load_market_obligation :: "pubkey \<Rightarrow> ledger \<Rightarrow> account_info \<Rightarrow> account_info \<Rightarrow> Obligation res" where
  "load_market_obligation pid led lending_market_info obligation_info =
     attempt (load_obligation pid led obligation_info) (\<lambda>obligation.
     if ob_lending_market obligation \<noteq> ai_key lending_market_info then Inl (lending_err InvalidAccountInput)
     else Inr obligation)"

definition check_obligation_owner :: "Obligation \<Rightarrow> account_info \<Rightarrow> unit res" where
  "check_obligation_owner obligation obligation_owner_info =
     (if ob_owner obligation \<noteq> ai_key obligation_owner_info then Inl (lending_err InvalidObligationOwner)
      else if \<not> ai_is_signer obligation_owner_info then Inl (lending_err InvalidSigner)
      else Inr ())"

definition check_fresh :: "LastUpdate \<Rightarrow> clock \<Rightarrow> LendingError \<Rightarrow> unit res" where
  "check_fresh lu clk stale_error =
     attempt (is_stale lu (clock_slot clk)) (\<lambda>stale.
     if stale then Inl (lending_err stale_error) else Inr ())"

definition authority_signer_seeds :: "account_info \<Rightarrow> LendingMarket \<Rightarrow> bytes list" where
  "authority_signer_seeds lending_market_info lending_market =
     [to_le_bytes (ai_key lending_market_info), [lm_bump_seed lending_market]]"

definition check_market_authority ::
    "runtime \<Rightarrow> pubkey \<Rightarrow> account_info \<Rightarrow> LendingMarket \<Rightarrow> account_info \<Rightarrow> unit res" where
  "check_market_authority R pid lending_market_info lending_market lending_market_authority_info =
     attempt (rt_create_program_address R (authority_signer_seeds lending_market_info lending_market) pid) (\<lambda>k.
     if k \<noteq> ai_key lending_market_authority_info then Inl (lending_err InvalidMarketAuthority) else Inr ())"

section \<open>Markets\<close>

definition process_init_lending_market ::
    "runtime \<Rightarrow> pubkey \<Rightarrow> pubkey \<Rightarrow> bytes \<Rightarrow> account_info list \<Rightarrow> ledger \<Rightarrow> ledger res" where
  "process_init_lending_market R pid owner quote_currency accounts led =
     attempt (next_account_info accounts) (\<lambda>(lending_market_info, it).
     attempt (next_account_info it) (\<lambda>(rent_info, it).
     attempt (rent_from_info R led rent_info) (\<lambda>rent.
     attempt (next_account_info it) (\<lambda>(token_program_info, it).
     attempt (next_account_info it) (\<lambda>(oracle_program_id, it).
     attempt (assert_rent_exempt rent led lending_market_info) (\<lambda>_.
     attempt (assert_uninitialized LendingMarket_unpack_unchecked LendingMarket_is_initialized led lending_market_info)
       (\<lambda>lending_market.
     if info_owner led lending_market_info \<noteq> pid then Inl (lending_err InvalidAccountOwner)
     else
       LendingMarket_pack
         (LendingMarket_init (snd (rt_find_program_address R [to_le_bytes (ai_key lending_market_info)] pid))
            owner quote_currency (ai_key token_program_info) (ai_key oracle_program_id) lending_market)
         (ai_key lending_market_info) led)))))))"

definition process_set_lending_market_owner :: "pubkey \<Rightarrow> pubkey \<Rightarrow> account_info list \<Rightarrow> ledger \<Rightarrow> ledger res" where
  "process_set_lending_market_owner pid new_owner accounts led =
     attempt (next_account_info accounts) (\<lambda>(lending_market_info, it).
     attempt (next_account_info it) (\<lambda>(lending_market_owner_info, it).
     attempt (load_lending_market pid led lending_market_info) (\<lambda>lending_market.
     if lm_owner lending_market \<noteq> ai_key lending_market_owner_info then Inl (lending_err InvalidMarketOwner)
     else if \<not> ai_is_signer lending_market_owner_info then Inl (lending_err InvalidSigner)
     else LendingMarket_pack (lending_market\<lparr>lm_owner := new_owner\<rparr>) (ai_key lending_market_info) led)))"

section \<open>Reserves\<close>

definition validate_reserve_config :: "u64 \<Rightarrow> ReserveConfig \<Rightarrow> unit res" where
  "validate_reserve_config liquidity_amount config =
     (if liquidity_amount = 0 then Inl (lending_err InvalidAmount)
      else if cf_optimal_utilization_rate config > 100 then Inl (lending_err InvalidConfig)
      else if cf_loan_to_value_ratio config \<ge> 100 then Inl (lending_err InvalidConfig)
      else if cf_liquidation_bonus config > 100 then Inl (lending_err InvalidConfig)
      else if cf_liquidation_threshold config \<le> cf_loan_to_value_ratio config \<or> cf_liquidation_threshold config > 100
      then Inl (lending_err InvalidConfig)
      else if cf_optimal_borrow_rate config < cf_min_borrow_rate config then Inl (lending_err InvalidConfig)
      else if cf_optimal_borrow_rate config > cf_max_borrow_rate config then Inl (lending_err InvalidConfig)
      else if rf_borrow_fee_wad (cf_fees config) \<ge> WAD then Inl (lending_err InvalidConfig)
      else if rf_flash_loan_fee_wad (cf_fees config) \<ge> WAD then Inl (lending_err InvalidConfig)
      else if rf_host_fee_percentage (cf_fees config) > 100 then Inl (lending_err InvalidConfig)
      else Inr ())"

text \<open>The oracle checks of \<^verbatim>\<open>process_init_reserve\<close>, which end with the market price.\<close>

definition check_reserve_oracle ::
    "ledger \<Rightarrow> LendingMarket \<Rightarrow> account_info \<Rightarrow> account_info \<Rightarrow> clock \<Rightarrow> Decimal res" where
  "check_reserve_oracle led lending_market pyth_product_info pyth_price_info clk =
     (if lm_oracle_program_id lending_market \<noteq> info_owner led pyth_product_info then Inl (lending_err InvalidOracleConfig)
      else if lm_oracle_program_id lending_market \<noteq> info_owner led pyth_price_info then Inl (lending_err InvalidOracleConfig)
      else
        attempt (load_Product (info_data led pyth_product_info)) (\<lambda>pyth_product.
        if pp_magic pyth_product \<noteq> PYTH_MAGIC then Inl (lending_err InvalidOracleConfig)
        else if pp_ver pyth_product \<noteq> PYTH_VERSION_2 then Inl (lending_err InvalidOracleConfig)
        else if pp_atype pyth_product \<noteq> PythAccountType_as_u32 ProductAccount then Inl (lending_err InvalidOracleConfig)
        else if pp_px_acc pyth_product \<noteq> to_le_bytes (ai_key pyth_price_info) then Inl (lending_err InvalidOracleConfig)
        else
          attempt (get_pyth_product_quote_currency pyth_product) (\<lambda>quote_currency.
          if lm_quote_currency lending_market \<noteq> quote_currency then Inl (lending_err InvalidOracleConfig)
          else get_pyth_price (info_data led pyth_price_info) clk)))"

definition process_init_reserve ::
    "runtime \<Rightarrow> pubkey \<Rightarrow> u64 \<Rightarrow> ReserveConfig \<Rightarrow> account_info list \<Rightarrow> ledger \<Rightarrow> ledger res" where
  "process_init_reserve R pid liquidity_amount config accounts led =
     attempt (validate_reserve_config liquidity_amount config) (\<lambda>_.
     attempt (next_account_info accounts) (\<lambda>(source_liquidity_info, it).
     attempt (next_account_info it) (\<lambda>(destination_collateral_info, it).
     attempt (next_account_info it) (\<lambda>(reserve_info, it).
     attempt (next_account_info it) (\<lambda>(reserve_liquidity_mint_info, it).
     attempt (next_account_info it) (\<lambda>(reserve_liquidity_supply_info, it).
     attempt (next_account_info it) (\<lambda>(reserve_liquidity_fee_receiver_info, it).
     attempt (next_account_info it) (\<lambda>(reserve_collateral_mint_info, it).
     attempt (next_account_info it) (\<lambda>(reserve_collateral_supply_info, it).
     attempt (next_account_info it) (\<lambda>(pyth_product_info, it).
     attempt (next_account_info it) (\<lambda>(pyth_price_info, it).
     attempt (next_account_info it) (\<lambda>(lending_market_info, it).
     attempt (next_account_info it) (\<lambda>(lending_market_authority_info, it).
     attempt (next_account_info it) (\<lambda>(lending_market_owner_info, it).
     attempt (next_account_info it) (\<lambda>(user_transfer_authority_info, it).
     attempt (next_account_info it) (\<lambda>(clock_info, it).
     attempt (clock_from_info R led clock_info) (\<lambda>clk.
     attempt (next_account_info it) (\<lambda>(rent_info, it).
     attempt (rent_from_info R led rent_info) (\<lambda>rent.
     attempt (next_account_info it) (\<lambda>(token_program_info, it).
     attempt (assert_rent_exempt rent led reserve_info) (\<lambda>_.
     attempt (assert_uninitialized Reserve_unpack_unchecked Reserve_is_initialized led reserve_info) (\<lambda>reserve.
     if info_owner led reserve_info \<noteq> pid then Inl (lending_err InvalidAccountOwner)
     else if ai_key reserve_liquidity_supply_info = ai_key source_liquidity_info then Inl (lending_err InvalidAccountInput)
     else
       attempt (load_market_for_token pid led lending_market_info token_program_info) (\<lambda>lending_market.
       if lm_owner lending_market \<noteq> ai_key lending_market_owner_info then Inl (lending_err InvalidMarketOwner)
       else if \<not> ai_is_signer lending_market_owner_info then Inl (lending_err InvalidSigner)
       else
         attempt (check_reserve_oracle led lending_market pyth_product_info pyth_price_info clk) (\<lambda>market_price.
         attempt (check_market_authority R pid lending_market_info lending_market lending_market_authority_info) (\<lambda>_.
         attempt (unpack_mint (info_data led reserve_liquidity_mint_info)) (\<lambda>reserve_liquidity_mint.
         if info_owner led reserve_liquidity_mint_info \<noteq> ai_key token_program_info then Inl (lending_err InvalidTokenOwner)
         else
           let seeds = authority_signer_seeds lending_market_info lending_market;
               reserve = Reserve_init (clock_slot clk) (ai_key lending_market_info)
                 (ReserveLiquidity_new (ai_key reserve_liquidity_mint_info) (mint_decimals reserve_liquidity_mint)
                    (ai_key reserve_liquidity_supply_info) (ai_key reserve_liquidity_fee_receiver_info)
                    (ai_key pyth_price_info) market_price)
                 (ReserveCollateral_new (ai_key reserve_collateral_mint_info) (ai_key reserve_collateral_supply_info))
                 config reserve in
           attempt (deposit_liquidity liquidity_amount reserve) (\<lambda>(reserve, collateral_amount).
           attempt (Reserve_pack reserve (ai_key reserve_info) led) (\<lambda>led.
           attempt (spl_token_init_account R pid reserve_liquidity_supply_info reserve_liquidity_mint_info
                      lending_market_authority_info rent_info token_program_info led) (\<lambda>led.
           attempt (spl_token_init_account R pid reserve_liquidity_fee_receiver_info reserve_liquidity_mint_info
                      lending_market_authority_info rent_info token_program_info led) (\<lambda>led.
           attempt (spl_token_init_mint R pid reserve_collateral_mint_info rent_info
                      (ai_key lending_market_authority_info) (mint_decimals reserve_liquidity_mint) token_program_info led) (\<lambda>led.
           attempt (spl_token_init_account R pid reserve_collateral_supply_info reserve_collateral_mint_info
                      lending_market_authority_info rent_info token_program_info led) (\<lambda>led.
           attempt (spl_token_init_account R pid destination_collateral_info reserve_collateral_mint_info
                      user_transfer_authority_info rent_info token_program_info led) (\<lambda>led.
           attempt (spl_token_transfer R pid source_liquidity_info reserve_liquidity_supply_info liquidity_amount
                      user_transfer_authority_info [] token_program_info led) (\<lambda>led.
           spl_token_mint_to R pid reserve_collateral_mint_info destination_collateral_info collateral_amount
             lending_market_authority_info seeds token_program_info led))))))))))))))))))))))))))))))))))"

definition process_refresh_reserve :: "runtime \<Rightarrow> pubkey \<Rightarrow> account_info list \<Rightarrow> ledger \<Rightarrow> ledger res" where
  "process_refresh_reserve R pid accounts led =
     attempt (next_account_info accounts) (\<lambda>(reserve_info, it).
     attempt (next_account_info it) (\<lambda>(reserve_liquidity_oracle_info, it).
     attempt (next_account_info it) (\<lambda>(clock_info, it).
     attempt (clock_from_info R led clock_info) (\<lambda>clk.
     attempt (load_reserve pid led reserve_info) (\<lambda>reserve.
     if rl_oracle_pubkey (rs_liquidity reserve) \<noteq> ai_key reserve_liquidity_oracle_info
     then Inl (lending_err InvalidAccountInput)
     else
       attempt (get_pyth_price (info_data led reserve_liquidity_oracle_info) clk) (\<lambda>price.
       let reserve = reserve\<lparr>rs_liquidity := (rs_liquidity reserve)\<lparr>rl_market_price := price\<rparr>\<rparr> in
       attempt (accrue_interest R (clock_slot clk) reserve) (\<lambda>reserve.
       Reserve_pack (reserve\<lparr>rs_last_update := update_slot (clock_slot clk) (rs_last_update reserve)\<rparr>)
         (ai_key reserve_info) led)))))))"

definition process_deposit_reserve_liquidity ::
    "runtime \<Rightarrow> pubkey \<Rightarrow> u64 \<Rightarrow> account_info list \<Rightarrow> ledger \<Rightarrow> ledger res" where
  "process_deposit_reserve_liquidity R pid liquidity_amount accounts led =
     (if liquidity_amount = 0 then Inl (lending_err InvalidAmount)
      else
        attempt (next_account_info accounts) (\<lambda>(source_liquidity_info, it).
        attempt (next_account_info it) (\<lambda>(destination_collateral_info, it).
        attempt (next_account_info it) (\<lambda>(reserve_info, it).
        attempt (next_account_info it) (\<lambda>(reserve_liquidity_supply_info, it).
        attempt (next_account_info it) (\<lambda>(reserve_collateral_mint_info, it).
        attempt (next_account_info it) (\<lambda>(lending_market_info, it).
        attempt (next_account_info it) (\<lambda>(lending_market_authority_info, it).
        attempt (next_account_info it) (\<lambda>(user_transfer_authority_info, it).
        attempt (next_account_info it) (\<lambda>(clock_info, it).
        attempt (clock_from_info R led clock_info) (\<lambda>clk.
        attempt (next_account_info it) (\<lambda>(token_program_info, it).
        attempt (load_market_for_token pid led lending_market_info token_program_info) (\<lambda>lending_market.
        attempt (load_market_reserve pid led lending_market_info reserve_info) (\<lambda>reserve.
        if rl_supply_pubkey (rs_liquidity reserve) \<noteq> ai_key reserve_liquidity_supply_info
        then Inl (lending_err InvalidAccountInput)
        else if rc_mint_pubkey (rs_collateral reserve) \<noteq> ai_key reserve_collateral_mint_info
        then Inl (lending_err InvalidAccountInput)
        else if rl_supply_pubkey (rs_liquidity reserve) = ai_key source_liquidity_info
        then Inl (lending_err InvalidAccountInput)
        else if rc_supply_pubkey (rs_collateral reserve) = ai_key destination_collateral_info
        then Inl (lending_err InvalidAccountInput)
        else
          attempt (check_fresh (rs_last_update reserve) clk ReserveStale) (\<lambda>_.
          attempt (check_market_authority R pid lending_market_info lending_market lending_market_authority_info) (\<lambda>_.
          attempt (deposit_liquidity liquidity_amount reserve) (\<lambda>(reserve, collateral_amount).
          attempt (Reserve_pack (reserve\<lparr>rs_last_update := mark_stale (rs_last_update reserve)\<rparr>)
                     (ai_key reserve_info) led) (\<lambda>led.
          attempt (spl_token_transfer R pid source_liquidity_info reserve_liquidity_supply_info liquidity_amount
                     user_transfer_authority_info [] token_program_info led) (\<lambda>led.
          spl_token_mint_to R pid reserve_collateral_mint_info destination_collateral_info collateral_amount
            lending_market_authority_info (authority_signer_seeds lending_market_info lending_market)
            token_program_info led)))))))))))))))))))"

definition process_redeem_reserve_collateral ::
    "runtime \<Rightarrow> pubkey \<Rightarrow> u64 \<Rightarrow> account_info list \<Rightarrow> ledger \<Rightarrow> ledger res" where
  "process_redeem_reserve_collateral R pid collateral_amount accounts led =
     (if collateral_amount = 0 then Inl (lending_err InvalidAmount)
      else
        attempt (next_account_info accounts) (\<lambda>(source_collateral_info, it).
        attempt (next_account_info it) (\<lambda>(destination_liquidity_info, it).
        attempt (next_account_info it) (\<lambda>(reserve_info, it).
        attempt (next_account_info it) (\<lambda>(reserve_collateral_mint_info, it).
        attempt (next_account_info it) (\<lambda>(reserve_liquidity_supply_info, it).
        attempt (next_account_info it) (\<lambda>(lending_market_info, it).
        attempt (next_account_info it) (\<lambda>(lending_market_authority_info, it).
        attempt (next_account_info it) (\<lambda>(user_transfer_authority_info, it).
        attempt (next_account_info it) (\<lambda>(clock_info, it).
        attempt (clock_from_info R led clock_info) (\<lambda>clk.
        attempt (next_account_info it) (\<lambda>(token_program_info, it).
        attempt (load_market_for_token pid led lending_market_info token_program_info) (\<lambda>lending_market.
        attempt (load_market_reserve pid led lending_market_info reserve_info) (\<lambda>reserve.
        if rc_mint_pubkey (rs_collateral reserve) \<noteq> ai_key reserve_collateral_mint_info
        then Inl (lending_err InvalidAccountInput)
        else if rc_supply_pubkey (rs_collateral reserve) = ai_key source_collateral_info
        then Inl (lending_err InvalidAccountInput)
        else if rl_supply_pubkey (rs_liquidity reserve) \<noteq> ai_key reserve_liquidity_supply_info
        then Inl (lending_err InvalidAccountInput)
        else if rl_supply_pubkey (rs_liquidity reserve) = ai_key destination_liquidity_info
        then Inl (lending_err InvalidAccountInput)
        else
          attempt (check_fresh (rs_last_update reserve) clk ReserveStale) (\<lambda>_.
          attempt (check_market_authority R pid lending_market_info lending_market lending_market_authority_info) (\<lambda>_.
          attempt (redeem_collateral collateral_amount reserve) (\<lambda>(reserve, liquidity_amount).
          attempt (Reserve_pack (reserve\<lparr>rs_last_update := mark_stale (rs_last_update reserve)\<rparr>)
                     (ai_key reserve_info) led) (\<lambda>led.
          attempt (spl_token_burn R pid reserve_collateral_mint_info source_collateral_info collateral_amount
                     user_transfer_authority_info [] token_program_info led) (\<lambda>led.
          spl_token_transfer R pid reserve_liquidity_supply_info destination_liquidity_info liquidity_amount
            lending_market_authority_info (authority_signer_seeds lending_market_info lending_market)
            token_program_info led)))))))))))))))))))"

section \<open>Obligations\<close>

definition process_init_obligation :: "runtime \<Rightarrow> pubkey \<Rightarrow> account_info list \<Rightarrow> ledger \<Rightarrow> ledger res" where
  "process_init_obligation R pid accounts led =
     attempt (next_account_info accounts) (\<lambda>(obligation_info, it).
     attempt (next_account_info it) (\<lambda>(lending_market_info, it).
     attempt (next_account_info it) (\<lambda>(obligation_owner_info, it).
     attempt (next_account_info it) (\<lambda>(clock_info, it).
     attempt (clock_from_info R led clock_info) (\<lambda>clk.
     attempt (next_account_info it) (\<lambda>(rent_info, it).
     attempt (rent_from_info R led rent_info) (\<lambda>rent.
     attempt (next_account_info it) (\<lambda>(token_program_info, it).
     attempt (assert_rent_exempt rent led obligation_info) (\<lambda>_.
     attempt (assert_uninitialized Obligation_unpack_unchecked Obligation_is_initialized led obligation_info) (\<lambda>obligation.
     if info_owner led obligation_info \<noteq> pid then Inl (lending_err InvalidAccountOwner)
     else
       attempt (load_market_for_token pid led lending_market_info token_program_info) (\<lambda>lending_market.
       if \<not> ai_is_signer obligation_owner_info then Inl (lending_err InvalidSigner)
       else
         Obligation_pack
           (Obligation_init (clock_slot clk) (ai_key lending_market_info) (ai_key obligation_owner_info) [] [] obligation)
           (ai_key obligation_info) led)))))))))))"

text \<open>One round of each loop of \<^verbatim>\<open>process_refresh_obligation\<close>, and the loops.\<close>

definition load_refreshed_reserve :: "pubkey \<Rightarrow> ledger \<Rightarrow> clock \<Rightarrow> pubkey \<Rightarrow> account_info \<Rightarrow> Reserve res" where
  "load_refreshed_reserve pid led clk expected reserve_info =
     (if info_owner led reserve_info \<noteq> pid then Inl (lending_err InvalidAccountOwner)
      else if expected \<noteq> ai_key reserve_info then Inl (lending_err InvalidAccountInput)
      else
        attempt (Reserve_unpack (info_data led reserve_info)) (\<lambda>reserve.
        attempt (check_fresh (rs_last_update reserve) clk ReserveStale) (\<lambda>_. Inr reserve)))"

definition collateral_market_value :: "Reserve \<Rightarrow> u64 \<Rightarrow> Decimal res" where
  "collateral_market_value deposit_reserve deposited_amount =
     attempt (ok_or (checked_pow 10 (unat (rl_mint_decimals (rs_liquidity deposit_reserve)))) math_overflow) (\<lambda>decimals.
     attempt (collateral_exchange_rate deposit_reserve) (\<lambda>x.
     attempt (decimal_collateral_to_liquidity x (Decimal_from_u64 deposited_amount)) (\<lambda>l.
     attempt (Decimal_try_mul l (rl_market_price (rs_liquidity deposit_reserve))) (\<lambda>v.
     Decimal_try_div_u64 v decimals))))"

definition liquidity_market_value :: "Reserve \<Rightarrow> Decimal \<Rightarrow> Decimal res" where
  "liquidity_market_value borrow_reserve borrowed_amount_wads =
     attempt (ok_or (checked_pow 10 (unat (rl_mint_decimals (rs_liquidity borrow_reserve)))) math_overflow) (\<lambda>decimals.
     attempt (Decimal_try_mul borrowed_amount_wads (rl_market_price (rs_liquidity borrow_reserve))) (\<lambda>v.
     Decimal_try_div_u64 v decimals))"

record deposit_totals =
  dt_deposited :: Decimal
  dt_allowed :: Decimal
  dt_unhealthy :: Decimal

definition add_deposit_value :: "Reserve \<Rightarrow> Decimal \<Rightarrow> deposit_totals \<Rightarrow> deposit_totals res" where
  "add_deposit_value deposit_reserve market_value tot =
     (let loan_to_value_rate = Rate_from_percent (cf_loan_to_value_ratio (rs_config deposit_reserve));
          liquidation_threshold_rate = Rate_from_percent (cf_liquidation_threshold (rs_config deposit_reserve)) in
      attempt (Decimal_try_add (dt_deposited tot) market_value) (\<lambda>deposited.
      attempt (Decimal_try_mul_Rate market_value loan_to_value_rate) (\<lambda>a.
      attempt (Decimal_try_add (dt_allowed tot) a) (\<lambda>allowed.
      attempt (Decimal_try_mul_Rate market_value liquidation_threshold_rate) (\<lambda>u.
      attempt (Decimal_try_add (dt_unhealthy tot) u) (\<lambda>unhealthy.
      Inr \<lparr>dt_deposited = deposited, dt_allowed = allowed, dt_unhealthy = unhealthy\<rparr>))))))"

fun refresh_deposits ::
    "pubkey \<Rightarrow> ledger \<Rightarrow> clock \<Rightarrow> ObligationCollateral list \<Rightarrow> account_info list \<Rightarrow> deposit_totals \<Rightarrow>
     (ObligationCollateral list \<times> deposit_totals \<times> account_info list) res" where
  "refresh_deposits pid led clk [] it tot = Inr ([], tot, it)"
| "refresh_deposits pid led clk (collateral # cs) it tot =
     attempt (next_account_info it) (\<lambda>(deposit_reserve_info, it).
     attempt (load_refreshed_reserve pid led clk (oc_deposit_reserve collateral) deposit_reserve_info) (\<lambda>deposit_reserve.
     attempt (collateral_market_value deposit_reserve (oc_deposited_amount collateral)) (\<lambda>market_value.
     attempt (add_deposit_value deposit_reserve market_value tot) (\<lambda>tot.
     attempt (refresh_deposits pid led clk cs it tot) (\<lambda>(cs, tot, it).
     Inr (collateral\<lparr>oc_market_value := market_value\<rparr> # cs, tot, it))))))"

fun refresh_borrows ::
    "pubkey \<Rightarrow> ledger \<Rightarrow> clock \<Rightarrow> ObligationLiquidity list \<Rightarrow> account_info list \<Rightarrow> Decimal \<Rightarrow>
     (ObligationLiquidity list \<times> Decimal \<times> account_info list) res" where
  "refresh_borrows pid led clk [] it borrowed_value = Inr ([], borrowed_value, it)"
| "refresh_borrows pid led clk (liquidity # ls) it borrowed_value =
     attempt (next_account_info it) (\<lambda>(borrow_reserve_info, it).
     attempt (load_refreshed_reserve pid led clk (ol_borrow_reserve liquidity) borrow_reserve_info) (\<lambda>borrow_reserve.
     attempt (ObligationLiquidity_accrue_interest (rl_cumulative_borrow_rate_wads (rs_liquidity borrow_reserve)) liquidity)
       (\<lambda>liquidity.
     attempt (liquidity_market_value borrow_reserve (ol_borrowed_amount_wads liquidity)) (\<lambda>market_value.
     attempt (Decimal_try_add borrowed_value market_value) (\<lambda>borrowed_value.
     attempt (refresh_borrows pid led clk ls it borrowed_value) (\<lambda>(ls, borrowed_value, it).
     Inr (liquidity\<lparr>ol_market_value := market_value\<rparr> # ls, borrowed_value, it)))))))"

definition process_refresh_obligation :: "runtime \<Rightarrow> pubkey \<Rightarrow> account_info list \<Rightarrow> ledger \<Rightarrow> ledger res" where
  "process_refresh_obligation R pid accounts led =
     attempt (next_account_info accounts) (\<lambda>(obligation_info, it).
     attempt (next_account_info it) (\<lambda>(clock_info, it).
     attempt (clock_from_info R led clock_info) (\<lambda>clk.
     attempt (load_obligation pid led obligation_info) (\<lambda>obligation.
     attempt (refresh_deposits pid led clk (ob_deposits obligation) it
                \<lparr>dt_deposited = Decimal_zero, dt_allowed = Decimal_zero, dt_unhealthy = Decimal_zero\<rparr>)
       (\<lambda>(deposits, tot, it).
     attempt (refresh_borrows pid led clk (ob_borrows obligation) it Decimal_zero) (\<lambda>(borrows, borrowed_value, it).
     if it \<noteq> [] then Inl (lending_err InvalidAccountInput)
     else
       Obligation_pack
         (obligation\<lparr>ob_deposits := deposits, ob_borrows := borrows, ob_deposited_value := dt_deposited tot,
            ob_borrowed_value := borrowed_value, ob_allowed_borrow_value := dt_allowed tot,
            ob_unhealthy_borrow_value := dt_unhealthy tot,
            ob_last_update := update_slot (clock_slot clk) (ob_last_update obligation)\<rparr>)
         (ai_key obligation_info) led))))))"

definition process_deposit_obligation_collateral ::
    "runtime \<Rightarrow> pubkey \<Rightarrow> u64 \<Rightarrow> account_info list \<Rightarrow> ledger \<Rightarrow> ledger res" where
  "process_deposit_obligation_collateral R pid collateral_amount accounts led =
     (if collateral_amount = 0 then Inl (lending_err InvalidAmount)
      else
        attempt (next_account_info accounts) (\<lambda>(source_collateral_info, it).
        attempt (next_account_info it) (\<lambda>(destination_collateral_info, it).
        attempt (next_account_info it) (\<lambda>(deposit_reserve_info, it).
        attempt (next_account_info it) (\<lambda>(obligation_info, it).
        attempt (next_account_info it) (\<lambda>(lending_market_info, it).
        attempt (next_account_info it) (\<lambda>(obligation_owner_info, it).
        attempt (next_account_info it) (\<lambda>(user_transfer_authority_info, it).
        attempt (next_account_info it) (\<lambda>(clock_info, it).
        attempt (clock_from_info R led clock_info) (\<lambda>clk.
        attempt (next_account_info it) (\<lambda>(token_program_info, it).
        attempt (load_market_for_token pid led lending_market_info token_program_info) (\<lambda>lending_market.
        attempt (load_market_reserve pid led lending_market_info deposit_reserve_info) (\<lambda>deposit_reserve.
        if rc_supply_pubkey (rs_collateral deposit_reserve) = ai_key source_collateral_info
        then Inl (lending_err InvalidAccountInput)
        else if rc_supply_pubkey (rs_collateral deposit_reserve) \<noteq> ai_key destination_collateral_info
        then Inl (lending_err InvalidAccountInput)
        else
          attempt (check_fresh (rs_last_update deposit_reserve) clk ReserveStale) (\<lambda>_.
          if cf_loan_to_value_ratio (rs_config deposit_reserve) = 0 then Inl (lending_err ReserveCollateralDisabled)
          else
            attempt (load_market_obligation pid led lending_market_info obligation_info) (\<lambda>obligation.
            attempt (check_obligation_owner obligation obligation_owner_info) (\<lambda>_.
            attempt (find_or_add_collateral_to_deposits (ai_key deposit_reserve_info) obligation) (\<lambda>(obligation, i).
            attempt (ObligationCollateral_deposit collateral_amount (ob_deposits obligation ! i)) (\<lambda>c.
            attempt (Obligation_pack
                       (obligation\<lparr>ob_deposits := (ob_deposits obligation)[i := c],
                          ob_last_update := mark_stale (ob_last_update obligation)\<rparr>)
                       (ai_key obligation_info) led) (\<lambda>led.
            spl_token_transfer R pid source_collateral_info destination_collateral_info collateral_amount
              user_transfer_authority_info [] token_program_info led)))))))))))))))))))"

text \<open>How much may be withdrawn: everything without borrows, else within \<^verbatim>\<open>max_withdraw_value\<close>.\<close>

definition compute_withdraw_amount :: "u64 \<Rightarrow> Reserve \<Rightarrow> Obligation \<Rightarrow> ObligationCollateral \<Rightarrow> u64 res" where
  "compute_withdraw_amount collateral_amount withdraw_reserve obligation collateral =
     (if ob_borrows obligation = [] then
        Inr (if collateral_amount = U64_MAX then oc_deposited_amount collateral
             else min (oc_deposited_amount collateral) collateral_amount)
      else if ob_deposited_value obligation = Decimal_zero then Inl (lending_err ObligationDepositsZero)
      else
        attempt (max_withdraw_value (Rate_from_percent (cf_loan_to_value_ratio (rs_config withdraw_reserve))) obligation)
          (\<lambda>max_withdraw_value.
        if max_withdraw_value = Decimal_zero then Inl (lending_err WithdrawTooLarge)
        else
          attempt (if collateral_amount = U64_MAX then
                     let withdraw_value = min max_withdraw_value (oc_market_value collateral) in
                     attempt (Decimal_try_div withdraw_value (oc_market_value collateral)) (\<lambda>withdraw_pct.
                     attempt (Decimal_try_mul_u64 withdraw_pct (oc_deposited_amount collateral)) (\<lambda>w.
                     attempt (Decimal_try_floor_u64 w) (\<lambda>n. Inr (min n (oc_deposited_amount collateral)))))
                   else
                     let withdraw_amount = min collateral_amount (oc_deposited_amount collateral) in
                     attempt (Decimal_try_div_u64 (Decimal_from_u64 withdraw_amount) (oc_deposited_amount collateral))
                       (\<lambda>withdraw_pct.
                     attempt (Decimal_try_mul (oc_market_value collateral) withdraw_pct) (\<lambda>withdraw_value.
                     if withdraw_value > max_withdraw_value then Inl (lending_err WithdrawTooLarge)
                     else Inr withdraw_amount))) (\<lambda>withdraw_amount.
          if withdraw_amount = 0 then Inl (lending_err WithdrawTooSmall) else Inr withdraw_amount)))"

definition process_withdraw_obligation_collateral ::
    "runtime \<Rightarrow> pubkey \<Rightarrow> u64 \<Rightarrow> account_info list \<Rightarrow> ledger \<Rightarrow> ledger res" where
  "process_withdraw_obligation_collateral R pid collateral_amount accounts led =
     (if collateral_amount = 0 then Inl (lending_err InvalidAmount)
      else
        attempt (next_account_info accounts) (\<lambda>(source_collateral_info, it).
        attempt (next_account_info it) (\<lambda>(destination_collateral_info, it).
        attempt (next_account_info it) (\<lambda>(withdraw_reserve_info, it).
        attempt (next_account_info it) (\<lambda>(obligation_info, it).
        attempt (next_account_info it) (\<lambda>(lending_market_info, it).
        attempt (next_account_info it) (\<lambda>(lending_market_authority_info, it).
        attempt (next_account_info it) (\<lambda>(obligation_owner_info, it).
        attempt (next_account_info it) (\<lambda>(clock_info, it).
        attempt (clock_from_info R led clock_info) (\<lambda>clk.
        attempt (next_account_info it) (\<lambda>(token_program_info, it).
        attempt (load_market_for_token pid led lending_market_info token_program_info) (\<lambda>lending_market.
        attempt (load_market_reserve pid led lending_market_info withdraw_reserve_info) (\<lambda>withdraw_reserve.
        if rc_supply_pubkey (rs_collateral withdraw_reserve) \<noteq> ai_key source_collateral_info
        then Inl (lending_err InvalidAccountInput)
        else if rc_supply_pubkey (rs_collateral withdraw_reserve) = ai_key destination_collateral_info
        then Inl (lending_err InvalidAccountInput)
        else
          attempt (check_fresh (rs_last_update withdraw_reserve) clk ReserveStale) (\<lambda>_.
          attempt (load_market_obligation pid led lending_market_info obligation_info) (\<lambda>obligation.
          attempt (check_obligation_owner obligation obligation_owner_info) (\<lambda>_.
          attempt (check_fresh (ob_last_update obligation) clk ObligationStale) (\<lambda>_.
          attempt (find_collateral_in_deposits (ai_key withdraw_reserve_info) obligation) (\<lambda>(collateral, collateral_index).
          if oc_deposited_amount collateral = 0 then Inl (lending_err ObligationCollateralEmpty)
          else
            attempt (check_market_authority R pid lending_market_info lending_market lending_market_authority_info) (\<lambda>_.
            attempt (compute_withdraw_amount collateral_amount withdraw_reserve obligation collateral) (\<lambda>withdraw_amount.
            attempt (Obligation_withdraw withdraw_amount collateral_index obligation) (\<lambda>obligation.
            attempt (Obligation_pack (obligation\<lparr>ob_last_update := mark_stale (ob_last_update obligation)\<rparr>)
                       (ai_key obligation_info) led) (\<lambda>led.
            spl_token_transfer R pid source_collateral_info destination_collateral_info withdraw_amount
              lending_market_authority_info (authority_signer_seeds lending_market_info lending_market)
              token_program_info led))))))))))))))))))))))"

definition pay_borrow_fees ::
    "runtime \<Rightarrow> pubkey \<Rightarrow> account_info \<Rightarrow> account_info \<Rightarrow> account_info list \<Rightarrow> u64 \<Rightarrow> u64 \<Rightarrow> account_info \<Rightarrow>
     bytes list \<Rightarrow> account_info \<Rightarrow> ledger \<Rightarrow> ledger res" where
  "pay_borrow_fees R pid source_liquidity_info fee_receiver_info it borrow_fee host_fee authority_info seeds
     token_program_info led =
     attempt (case next_account_info it of
                Inr (host_fee_receiver_info, _) \<Rightarrow>
                  if host_fee > 0 then
                    attempt (ok_or (checked_sub borrow_fee host_fee) math_overflow) (\<lambda>owner_fee.
                    attempt (spl_token_transfer R pid source_liquidity_info host_fee_receiver_info host_fee
                               authority_info seeds token_program_info led) (\<lambda>led.
                    Inr (owner_fee, led)))
                  else Inr (borrow_fee, led)
              | Inl _ \<Rightarrow> Inr (borrow_fee, led)) (\<lambda>(owner_fee, led).
     if owner_fee > 0 then
       spl_token_transfer R pid source_liquidity_info fee_receiver_info owner_fee authority_info seeds
         token_program_info led
     else Inr led)"

definition process_borrow_obligation_liquidity ::
    "runtime \<Rightarrow> pubkey \<Rightarrow> u64 \<Rightarrow> account_info list \<Rightarrow> ledger \<Rightarrow> ledger res" where
  "process_borrow_obligation_liquidity R pid liquidity_amount accounts led =
     (if liquidity_amount = 0 then Inl (lending_err InvalidAmount)
      else
        attempt (next_account_info accounts) (\<lambda>(source_liquidity_info, it).
        attempt (next_account_info it) (\<lambda>(destination_liquidity_info, it).
        attempt (next_account_info it) (\<lambda>(borrow_reserve_info, it).
        attempt (next_account_info it) (\<lambda>(borrow_reserve_liquidity_fee_receiver_info, it).
        attempt (next_account_info it) (\<lambda>(obligation_info, it).
        attempt (next_account_info it) (\<lambda>(lending_market_info, it).
        attempt (next_account_info it) (\<lambda>(lending_market_authority_info, it).
        attempt (next_account_info it) (\<lambda>(obligation_owner_info, it).
        attempt (next_account_info it) (\<lambda>(clock_info, it).
        attempt (clock_from_info R led clock_info) (\<lambda>clk.
        attempt (next_account_info it) (\<lambda>(token_program_info, it).
        attempt (load_market_for_token pid led lending_market_info token_program_info) (\<lambda>lending_market.
        attempt (load_market_reserve pid led lending_market_info borrow_reserve_info) (\<lambda>borrow_reserve.
        if rl_supply_pubkey (rs_liquidity borrow_reserve) \<noteq> ai_key source_liquidity_info
        then Inl (lending_err InvalidAccountInput)
        else if rl_supply_pubkey (rs_liquidity borrow_reserve) = ai_key destination_liquidity_info
        then Inl (lending_err InvalidAccountInput)
        else if rl_fee_receiver (rs_liquidity borrow_reserve) \<noteq> ai_key borrow_reserve_liquidity_fee_receiver_info
        then Inl (lending_err InvalidAccountInput)
        else
          attempt (check_fresh (rs_last_update borrow_reserve) clk ReserveStale) (\<lambda>_.
          attempt (load_market_obligation pid led lending_market_info obligation_info) (\<lambda>obligation.
          attempt (check_obligation_owner obligation obligation_owner_info) (\<lambda>_.
          attempt (check_fresh (ob_last_update obligation) clk ObligationStale) (\<lambda>_.
          if ob_deposits obligation = [] then Inl (lending_err ObligationDepositsEmpty)
          else if ob_deposited_value obligation = Decimal_zero then Inl (lending_err ObligationDepositsZero)
          else
            attempt (check_market_authority R pid lending_market_info lending_market lending_market_authority_info) (\<lambda>_.
            attempt (remaining_borrow_value obligation) (\<lambda>remaining.
            if remaining = Decimal_zero then Inl (lending_err BorrowTooLarge)
            else
              attempt (calculate_borrow liquidity_amount remaining borrow_reserve) (\<lambda>b.
              if cb_receive_amount b = 0 then Inl (lending_err BorrowTooSmall)
              else
                attempt (ReserveLiquidity_borrow (cb_borrow_amount b) (rs_liquidity borrow_reserve)) (\<lambda>l.
                attempt (Reserve_pack (borrow_reserve\<lparr>rs_liquidity := l,
                             rs_last_update := mark_stale (rs_last_update borrow_reserve)\<rparr>)
                           (ai_key borrow_reserve_info) led) (\<lambda>led.
                attempt (find_or_add_liquidity_to_borrows (ai_key borrow_reserve_info) obligation) (\<lambda>(obligation, i).
                attempt (ObligationLiquidity_borrow (cb_borrow_amount b) (ob_borrows obligation ! i)) (\<lambda>ol.
                attempt (Obligation_pack
                           (obligation\<lparr>ob_borrows := (ob_borrows obligation)[i := ol],
                              ob_last_update := mark_stale (ob_last_update obligation)\<rparr>)
                           (ai_key obligation_info) led) (\<lambda>led.
                let seeds = authority_signer_seeds lending_market_info lending_market in
                attempt (pay_borrow_fees R pid source_liquidity_info borrow_reserve_liquidity_fee_receiver_info it
                           (cb_borrow_fee b) (cb_host_fee b) lending_market_authority_info seeds token_program_info led) (\<lambda>led.
                spl_token_transfer R pid source_liquidity_info destination_liquidity_info (cb_receive_amount b)
                  lending_market_authority_info seeds token_program_info led)))))))))))))))))))))))))))"

definition process_repay_obligation_liquidity ::
    "runtime \<Rightarrow> pubkey \<Rightarrow> u64 \<Rightarrow> account_info list \<Rightarrow> ledger \<Rightarrow> ledger res" where
  "process_repay_obligation_liquidity R pid liquidity_amount accounts led =
     (if liquidity_amount = 0 then Inl (lending_err InvalidAmount)
      else
        attempt (next_account_info accounts) (\<lambda>(source_liquidity_info, it).
        attempt (next_account_info it) (\<lambda>(destination_liquidity_info, it).
        attempt (next_account_info it) (\<lambda>(repay_reserve_info, it).
        attempt (next_account_info it) (\<lambda>(obligation_info, it).
        attempt (next_account_info it) (\<lambda>(lending_market_info, it).
        attempt (next_account_info it) (\<lambda>(user_transfer_authority_info, it).
        attempt (next_account_info it) (\<lambda>(clock_info, it).
        attempt (clock_from_info R led clock_info) (\<lambda>clk.
        attempt (next_account_info it) (\<lambda>(token_program_info, it).
        attempt (load_market_for_token pid led lending_market_info token_program_info) (\<lambda>lending_market.
        attempt (load_market_reserve pid led lending_market_info repay_reserve_info) (\<lambda>repay_reserve.
        if rl_supply_pubkey (rs_liquidity repay_reserve) = ai_key source_liquidity_info
        then Inl (lending_err InvalidAccountInput)
        else if rl_supply_pubkey (rs_liquidity repay_reserve) \<noteq> ai_key destination_liquidity_info
        then Inl (lending_err InvalidAccountInput)
        else
          attempt (check_fresh (rs_last_update repay_reserve) clk ReserveStale) (\<lambda>_.
          attempt (load_market_obligation pid led lending_market_info obligation_info) (\<lambda>obligation.
          attempt (check_fresh (ob_last_update obligation) clk ObligationStale) (\<lambda>_.
          attempt (find_liquidity_in_borrows (ai_key repay_reserve_info) obligation) (\<lambda>(liquidity, liquidity_index).
          if ol_borrowed_amount_wads liquidity = Decimal_zero then Inl (lending_err ObligationLiquidityEmpty)
          else
            attempt (calculate_repay liquidity_amount (ol_borrowed_amount_wads liquidity)) (\<lambda>c.
            if cr_repay_amount c = 0 then Inl (lending_err RepayTooSmall)
            else
              attempt (ReserveLiquidity_repay (cr_repay_amount c) (cr_settle_amount c) (rs_liquidity repay_reserve)) (\<lambda>l.
              attempt (Reserve_pack (repay_reserve\<lparr>rs_liquidity := l,
                           rs_last_update := mark_stale (rs_last_update repay_reserve)\<rparr>)
                         (ai_key repay_reserve_info) led) (\<lambda>led.
              attempt (Obligation_repay (cr_settle_amount c) liquidity_index obligation) (\<lambda>obligation.
              attempt (Obligation_pack (obligation\<lparr>ob_last_update := mark_stale (ob_last_update obligation)\<rparr>)
                         (ai_key obligation_info) led) (\<lambda>led.
              spl_token_transfer R pid source_liquidity_info destination_liquidity_info (cr_repay_amount c)
                user_transfer_authority_info [] token_program_info led)))))))))))))))))))))"

section \<open>Liquidation\<close>

text \<open>The three loads of a liquidation, with the guards on each.\<close>

definition load_liquidation_repay_reserve ::
    "pubkey \<Rightarrow> ledger \<Rightarrow> clock \<Rightarrow> account_info \<Rightarrow> account_info \<Rightarrow> account_info \<Rightarrow> account_info \<Rightarrow> account_info \<Rightarrow> Reserve res" where
  "load_liquidation_repay_reserve pid led clk lending_market_info repay_reserve_info supply_info
     source_liquidity_info destination_collateral_info =
     attempt (load_market_reserve pid led lending_market_info repay_reserve_info) (\<lambda>repay_reserve.
     if rl_supply_pubkey (rs_liquidity repay_reserve) \<noteq> ai_key supply_info then Inl (lending_err InvalidAccountInput)
     else if rl_supply_pubkey (rs_liquidity repay_reserve) = ai_key source_liquidity_info
     then Inl (lending_err InvalidAccountInput)
     else if rc_supply_pubkey (rs_collateral repay_reserve) = ai_key destination_collateral_info
     then Inl (lending_err InvalidAccountInput)
     else attempt (check_fresh (rs_last_update repay_reserve) clk ReserveStale) (\<lambda>_. Inr repay_reserve))"

definition load_liquidation_withdraw_reserve ::
    "pubkey \<Rightarrow> ledger \<Rightarrow> clock \<Rightarrow> account_info \<Rightarrow> account_info \<Rightarrow> account_info \<Rightarrow> account_info \<Rightarrow> account_info \<Rightarrow> Reserve res" where
  "load_liquidation_withdraw_reserve pid led clk lending_market_info withdraw_reserve_info supply_info
     source_liquidity_info destination_collateral_info =
     attempt (load_market_reserve pid led lending_market_info withdraw_reserve_info) (\<lambda>withdraw_reserve.
     if rc_supply_pubkey (rs_collateral withdraw_reserve) \<noteq> ai_key supply_info then Inl (lending_err InvalidAccountInput)
     else if rl_supply_pubkey (rs_liquidity withdraw_reserve) = ai_key source_liquidity_info
     then Inl (lending_err InvalidAccountInput)
     else if rc_supply_pubkey (rs_collateral withdraw_reserve) = ai_key destination_collateral_info
     then Inl (lending_err InvalidAccountInput)
     else attempt (check_fresh (rs_last_update withdraw_reserve) clk ReserveStale) (\<lambda>_. Inr withdraw_reserve))"

definition load_unhealthy_obligation ::
    "pubkey \<Rightarrow> ledger \<Rightarrow> clock \<Rightarrow> account_info \<Rightarrow> account_info \<Rightarrow> Obligation res" where
  "load_unhealthy_obligation pid led clk lending_market_info obligation_info =
     attempt (load_market_obligation pid led lending_market_info obligation_info) (\<lambda>obligation.
     attempt (check_fresh (ob_last_update obligation) clk ObligationStale) (\<lambda>_.
     if ob_deposited_value obligation = Decimal_zero then Inl (lending_err ObligationDepositsZero)
     else if ob_borrowed_value obligation = Decimal_zero then Inl (lending_err ObligationBorrowsZero)
     else if ob_borrowed_value obligation < ob_unhealthy_borrow_value obligation then Inl (lending_err ObligationHealthy)
     else Inr obligation))"

definition process_liquidate_obligation ::
    "runtime \<Rightarrow> pubkey \<Rightarrow> u64 \<Rightarrow> account_info list \<Rightarrow> ledger \<Rightarrow> ledger res" where
  "process_liquidate_obligation R pid liquidity_amount accounts led =
     (if liquidity_amount = 0 then Inl (lending_err InvalidAmount)
      else
        attempt (next_account_info accounts) (\<lambda>(source_liquidity_info, it).
        attempt (next_account_info it) (\<lambda>(destination_collateral_info, it).
        attempt (next_account_info it) (\<lambda>(repay_reserve_info, it).
        attempt (next_account_info it) (\<lambda>(repay_reserve_liquidity_supply_info, it).
        attempt (next_account_info it) (\<lambda>(withdraw_reserve_info, it).
        attempt (next_account_info it) (\<lambda>(withdraw_reserve_collateral_supply_info, it).
        attempt (next_account_info it) (\<lambda>(obligation_info, it).
        attempt (next_account_info it) (\<lambda>(lending_market_info, it).
        attempt (next_account_info it) (\<lambda>(lending_market_authority_info, it).
        attempt (next_account_info it) (\<lambda>(user_transfer_authority_info, it).
        attempt (next_account_info it) (\<lambda>(clock_info, it).
        attempt (clock_from_info R led clock_info) (\<lambda>clk.
        attempt (next_account_info it) (\<lambda>(token_program_info, it).
        attempt (load_market_for_token pid led lending_market_info token_program_info) (\<lambda>lending_market.
        attempt (load_liquidation_repay_reserve pid led clk lending_market_info repay_reserve_info
                   repay_reserve_liquidity_supply_info source_liquidity_info destination_collateral_info) (\<lambda>repay_reserve.
        attempt (load_liquidation_withdraw_reserve pid led clk lending_market_info withdraw_reserve_info
                   withdraw_reserve_collateral_supply_info source_liquidity_info destination_collateral_info)
          (\<lambda>withdraw_reserve.
        attempt (load_unhealthy_obligation pid led clk lending_market_info obligation_info) (\<lambda>obligation.
        attempt (find_liquidity_in_borrows (ai_key repay_reserve_info) obligation) (\<lambda>(liquidity, liquidity_index).
        if ol_market_value liquidity = Decimal_zero then Inl (lending_err ObligationLiquidityEmpty)
        else
          attempt (find_collateral_in_deposits (ai_key withdraw_reserve_info) obligation) (\<lambda>(collateral, collateral_index).
          if oc_market_value collateral = Decimal_zero then Inl (lending_err ObligationCollateralEmpty)
          else
            attempt (check_market_authority R pid lending_market_info lending_market lending_market_authority_info) (\<lambda>_.
            attempt (calculate_liquidation liquidity_amount obligation liquidity collateral withdraw_reserve) (\<lambda>c.
            if cl_repay_amount c = 0 then Inl (lending_err LiquidationTooSmall)
            else if cl_withdraw_amount c = 0 then Inl (lending_err LiquidationTooSmall)
            else
              attempt (ReserveLiquidity_repay (cl_repay_amount c) (cl_settle_amount c) (rs_liquidity repay_reserve)) (\<lambda>l.
              attempt (Reserve_pack (repay_reserve\<lparr>rs_liquidity := l,
                           rs_last_update := mark_stale (rs_last_update repay_reserve)\<rparr>)
                         (ai_key repay_reserve_info) led) (\<lambda>led.
              attempt (Obligation_repay (cl_settle_amount c) liquidity_index obligation) (\<lambda>obligation.
              attempt (Obligation_withdraw (cl_withdraw_amount c) collateral_index obligation) (\<lambda>obligation.
              attempt (Obligation_pack (obligation\<lparr>ob_last_update := mark_stale (ob_last_update obligation)\<rparr>)
                         (ai_key obligation_info) led) (\<lambda>led.
              attempt (spl_token_transfer R pid source_liquidity_info repay_reserve_liquidity_supply_info
                         (cl_repay_amount c) user_transfer_authority_info [] token_program_info led) (\<lambda>led.
              spl_token_transfer R pid withdraw_reserve_collateral_supply_info destination_collateral_info
                (cl_withdraw_amount c) lending_market_authority_info
                (authority_signer_seeds lending_market_info lending_market) token_program_info led))))))))))))))))))))))))))))"

section \<open>Flash loans\<close>

definition RECEIVE_FLASH_LOAN_INSTRUCTION_TAG :: u8 where "RECEIVE_FLASH_LOAN_INSTRUCTION_TAG = 0"

definition flash_loan_instruction ::
    "account_info \<Rightarrow> account_info \<Rightarrow> account_info \<Rightarrow> account_info \<Rightarrow> account_info list \<Rightarrow> u64 \<Rightarrow> sol_instruction" where
  "flash_loan_instruction receiver_program destination_info source_info token_program_info rest returned_amount_required =
     \<lparr>ix_program_id = ai_key receiver_program,
      ix_accounts = [AccountMeta_new (ai_key destination_info) False, AccountMeta_new (ai_key source_info) False,
                     AccountMeta_new_readonly (ai_key token_program_info) False] @
        map (\<lambda>a. \<lparr>am_pubkey = ai_key a, am_is_signer = ai_is_signer a, am_is_writable = ai_is_writable a\<rparr>) rest,
      ix_data = RECEIVE_FLASH_LOAN_INSTRUCTION_TAG # to_le_bytes returned_amount_required\<rparr>"

definition pay_flash_loan_fees ::
    "runtime \<Rightarrow> pubkey \<Rightarrow> account_info \<Rightarrow> account_info \<Rightarrow> account_info \<Rightarrow> u64 \<Rightarrow> u64 \<Rightarrow> account_info \<Rightarrow> bytes list \<Rightarrow>
     account_info \<Rightarrow> ledger \<Rightarrow> ledger res" where
  "pay_flash_loan_fees R pid source_info fee_receiver_info host_fee_receiver_info origination_fee host_fee
     authority_info seeds token_program_info led =
     attempt (if host_fee > 0 then
                attempt (ok_or (checked_sub origination_fee host_fee) math_overflow) (\<lambda>owner_fee.
                attempt (spl_token_transfer R pid source_info host_fee_receiver_info host_fee authority_info seeds
                           token_program_info led) (\<lambda>led.
                Inr (owner_fee, led)))
              else Inr (origination_fee, led)) (\<lambda>(owner_fee, led).
     if owner_fee > 0 then
       spl_token_transfer R pid source_info fee_receiver_info owner_fee authority_info seeds token_program_info led
     else Inr led)"

definition process_flash_loan ::
    "runtime \<Rightarrow> pubkey \<Rightarrow> u64 \<Rightarrow> account_info list \<Rightarrow> ledger \<Rightarrow> ledger res" where
  "process_flash_loan R pid liquidity_amount accounts led =
     (if liquidity_amount = 0 then Inl (lending_err InvalidAmount)
      else
        attempt (next_account_info accounts) (\<lambda>(source_liquidity_info, it).
        attempt (next_account_info it) (\<lambda>(destination_liquidity_info, it).
        attempt (next_account_info it) (\<lambda>(reserve_info, it).
        attempt (next_account_info it) (\<lambda>(reserve_liquidity_fee_receiver_info, it).
        attempt (next_account_info it) (\<lambda>(host_fee_receiver_info, it).
        attempt (next_account_info it) (\<lambda>(lending_market_info, it).
        attempt (next_account_info it) (\<lambda>(lending_market_authority_info, it).
        attempt (next_account_info it) (\<lambda>(token_program_info, it).
        attempt (next_account_info it) (\<lambda>(flash_loan_receiver_program_info, it).
        if pid = ai_key flash_loan_receiver_program_info then Inl (lending_err InvalidFlashLoanReceiverProgram)
        else
          attempt (load_market_for_token pid led lending_market_info token_program_info) (\<lambda>lending_market.
          attempt (check_market_authority R pid lending_market_info lending_market lending_market_authority_info) (\<lambda>_.
          attempt (load_market_reserve pid led lending_market_info reserve_info) (\<lambda>reserve.
          if rl_supply_pubkey (rs_liquidity reserve) \<noteq> ai_key source_liquidity_info
          then Inl (lending_err InvalidAccountInput)
          else if rl_fee_receiver (rs_liquidity reserve) \<noteq> ai_key reserve_liquidity_fee_receiver_info
          then Inl (lending_err InvalidAccountInput)
          else
            let seeds = authority_signer_seeds lending_market_info lending_market;
                flash_loan_amount = (if liquidity_amount = U64_MAX then rl_available_amount (rs_liquidity reserve)
                                     else liquidity_amount) in
            attempt (calculate_flash_loan_fees (cf_fees (rs_config reserve)) (Decimal_from_u64 flash_loan_amount))
              (\<lambda>(origination_fee, host_fee).
            attempt (Account_unpack (info_data led source_liquidity_info)) (\<lambda>source_before.
            attempt (ok_or (checked_add (ta_amount source_before) origination_fee) math_overflow)
              (\<lambda>expected_balance_after_flash_loan.
            attempt (ok_or (checked_add flash_loan_amount origination_fee) math_overflow) (\<lambda>returned_amount_required.
            attempt (ReserveLiquidity_borrow (Decimal_from_u64 flash_loan_amount) (rs_liquidity reserve)) (\<lambda>l.
            attempt (Reserve_pack (reserve\<lparr>rs_liquidity := l\<rparr>) (ai_key reserve_info) led) (\<lambda>led.
            attempt (spl_token_transfer R pid source_liquidity_info destination_liquidity_info flash_loan_amount
                       lending_market_authority_info seeds token_program_info led) (\<lambda>led.
            attempt (rt_invoke_signed R pid
                       (flash_loan_instruction flash_loan_receiver_program_info destination_liquidity_info
                          source_liquidity_info token_program_info it returned_amount_required)
                       ([destination_liquidity_info, flash_loan_receiver_program_info, source_liquidity_info,
                         token_program_info] @ it) [] led) (\<lambda>led.
            attempt (Reserve_unpack (info_data led reserve_info)) (\<lambda>reserve.
            attempt (ReserveLiquidity_repay flash_loan_amount (Decimal_from_u64 flash_loan_amount) (rs_liquidity reserve)) (\<lambda>l.
            attempt (Reserve_pack (reserve\<lparr>rs_liquidity := l\<rparr>) (ai_key reserve_info) led) (\<lambda>led.
            attempt (Account_unpack (info_data led source_liquidity_info)) (\<lambda>source_after.
            if ta_amount source_after < expected_balance_after_flash_loan
            then Inl (lending_err NotEnoughLiquidityAfterFlashLoan)
            else
              pay_flash_loan_fees R pid source_liquidity_info reserve_liquidity_fee_receiver_info host_fee_receiver_info
                origination_fee host_fee lending_market_authority_info seeds token_program_info led)))))))))))))))))))))))))"

section \<open>Dispatch\<close>

definition run_lending_instruction ::
    "runtime \<Rightarrow> pubkey \<Rightarrow> account_info list \<Rightarrow> LendingInstruction \<Rightarrow> ledger \<Rightarrow> ledger res" where
  "run_lending_instruction R pid accounts i led =
     (case i of
        InitLendingMarket owner quote_currency \<Rightarrow> process_init_lending_market R pid owner quote_currency accounts led
      | SetLendingMarketOwner new_owner \<Rightarrow> process_set_lending_market_owner pid new_owner accounts led
      | InitReserve n config \<Rightarrow> process_init_reserve R pid n config accounts led
      | RefreshReserve \<Rightarrow> process_refresh_reserve R pid accounts led
      | DepositReserveLiquidity n \<Rightarrow> process_deposit_reserve_liquidity R pid n accounts led
      | RedeemReserveCollateral n \<Rightarrow> process_redeem_reserve_collateral R pid n accounts led
      | InitObligation \<Rightarrow> process_init_obligation R pid accounts led
      | RefreshObligation \<Rightarrow> process_refresh_obligation R pid accounts led
      | DepositObligationCollateral n \<Rightarrow> process_deposit_obligation_collateral R pid n accounts led
      | WithdrawObligationCollateral n \<Rightarrow> process_withdraw_obligation_collateral R pid n accounts led
      | BorrowObligationLiquidity n \<Rightarrow> process_borrow_obligation_liquidity R pid n accounts led
      | RepayObligationLiquidity n \<Rightarrow> process_repay_obligation_liquidity R pid n accounts led
      | LiquidateObligation n \<Rightarrow> process_liquidate_obligation R pid n accounts led
      | FlashLoan n \<Rightarrow> process_flash_loan R pid n accounts led)"

definition lending_process_instruction ::
    "runtime \<Rightarrow> pubkey \<Rightarrow> account_info list \<Rightarrow> bytes \<Rightarrow> ledger \<Rightarrow> ledger res" where
  "lending_process_instruction R pid accounts input led =
     attempt (LendingInstruction_unpack input) (\<lambda>i. run_lending_instruction R pid accounts i led)"

end
