(* ===== verification/Lending_Book.thy ===== *)
theory Lending_Book
  imports Lending_Processor
begin

text \<open>
  The book of the lending program: the markets, reserves and obligations stored in the accounts it
  owns.  Storing a value updates the book at one key; a cross-program invocation leaves the whole
  book alone.  The handlers are later read as steps on the book.
\<close>

record book =
  bk_markets :: "pubkey \<Rightarrow> LendingMarket option"
  bk_reserves :: "pubkey \<Rightarrow> Reserve option"
  bk_obligations :: "pubkey \<Rightarrow> Obligation option"

definition stored :: "(bytes \<Rightarrow> 'a res) \<Rightarrow> pubkey \<Rightarrow> sol_account \<Rightarrow> 'a option" where
  "stored unpack pid a =
     (if acc_owner a = pid then case unpack (acc_data a) of Inr v \<Rightarrow> Some v | Inl _ \<Rightarrow> None else None)"

definition book_of :: "pubkey \<Rightarrow> ledger \<Rightarrow> book" where
  "book_of pid led =
     \<lparr>bk_markets = (\<lambda>k. stored LendingMarket_unpack pid (led k)),
      bk_reserves = (\<lambda>k. stored Reserve_unpack pid (led k)),
      bk_obligations = (\<lambda>k. stored Obligation_unpack pid (led k))\<rparr>"

lemma stored_eq_Some: "stored unpack pid a = Some v \<longleftrightarrow> acc_owner a = pid \<and> unpack (acc_data a) = Inr v"
  by (auto simp: stored_def split: sum.splits)

lemma stored_set_data:
  "stored unpack pid (set_data k bs led x) =
     (if x = k \<and> acc_owner (led k) = pid then case unpack bs of Inr v \<Rightarrow> Some v | Inl _ \<Rightarrow> None
      else stored unpack pid (led x))"
  by (auto simp: stored_def)

section \<open>Storing values\<close>

text \<open>The three layouts have different lengths, so at most one of them reads an account.\<close>

lemma Pack_unpack_length: "Pack_unpack len from_slice is_init bs = Inr v \<Longrightarrow> length bs = len"
  by (auto simp: Pack_unpack_def Pack_unpack_unchecked_def res_simps)

lemma wrong_length:
  "length bs \<noteq> LENDING_MARKET_LEN \<Longrightarrow> (case LendingMarket_unpack bs of Inr v \<Rightarrow> Some v | Inl _ \<Rightarrow> None) = None"
  "length bs \<noteq> RESERVE_LEN \<Longrightarrow> (case Reserve_unpack bs of Inr v \<Rightarrow> Some v | Inl _ \<Rightarrow> None) = None"
  "length bs \<noteq> OBLIGATION_LEN \<Longrightarrow> (case Obligation_unpack bs of Inr v \<Rightarrow> Some v | Inl _ \<Rightarrow> None) = None"
  by (auto simp: LendingMarket_unpack_def Reserve_unpack_def Obligation_unpack_def
      dest: Pack_unpack_length split: sum.split)

lemma stored_wrong_length:
  "length (acc_data a) \<noteq> LENDING_MARKET_LEN \<Longrightarrow> stored LendingMarket_unpack pid a = None"
  "length (acc_data a) \<noteq> RESERVE_LEN \<Longrightarrow> stored Reserve_unpack pid a = None"
  "length (acc_data a) \<noteq> OBLIGATION_LEN \<Longrightarrow> stored Obligation_unpack pid a = None"
  by (simp_all add: stored_def wrong_length)

lemma Market_pack_book:
  assumes "LendingMarket_pack m k led = Inr led'" and "LendingMarket_wf m" and "LendingMarket_is_initialized m"
    and "acc_owner (led k) = pid"
  shows "book_of pid led' = (book_of pid led)\<lparr>bk_markets := (bk_markets (book_of pid led))(k \<mapsto> m)\<rparr>"
proof -
  from assms(1) obtain bs where l: "length (acc_data (led k)) = LENDING_MARKET_LEN"
    and i: "LendingMarket_pack_into_slice m (acc_data (led k)) = Inr bs" and led': "led' = set_data k bs led"
    by (auto simp: LendingMarket_pack_def market_packed.pack_to_ledger_eq_Inr)
  have bs: "length bs = LENDING_MARKET_LEN" "LendingMarket_unpack bs = Inr m"
    using market_packed.stored_unpacks [OF assms(1) [unfolded LendingMarket_pack_def] assms(2,3)]
      LendingMarket_from_into(1) [OF l assms(2) i] by (simp_all add: led' LendingMarket_unpack_def)
  show ?thesis
    using assms(4) l bs
    by (auto simp: book_of_def led' stored_set_data fun_eq_iff wrong_length stored_wrong_length)
qed

lemma Reserve_pack_book:
  assumes "Reserve_pack r k led = Inr led'" and "Reserve_wf r" and "Reserve_is_initialized r"
    and "acc_owner (led k) = pid"
  shows "book_of pid led' = (book_of pid led)\<lparr>bk_reserves := (bk_reserves (book_of pid led))(k \<mapsto> r)\<rparr>"
proof -
  from assms(1) obtain bs where l: "length (acc_data (led k)) = RESERVE_LEN"
    and i: "Reserve_pack_into_slice r (acc_data (led k)) = Inr bs" and led': "led' = set_data k bs led"
    by (auto simp: Reserve_pack_def reserve_packed.pack_to_ledger_eq_Inr)
  have bs: "length bs = RESERVE_LEN" "Reserve_unpack bs = Inr r"
    using reserve_packed.stored_unpacks [OF assms(1) [unfolded Reserve_pack_def] assms(2,3)]
      Reserve_from_into(1) [OF l assms(2) i] by (simp_all add: led' Reserve_unpack_def)
  show ?thesis
    using assms(4) l bs
    by (auto simp: book_of_def led' stored_set_data fun_eq_iff wrong_length stored_wrong_length)
qed

lemma Obligation_pack_book:
  assumes "Obligation_pack ob k led = Inr led'" and "Obligation_wf ob" and "Obligation_is_initialized ob"
    and "acc_owner (led k) = pid"
  shows "book_of pid led' = (book_of pid led)\<lparr>bk_obligations := (bk_obligations (book_of pid led))(k \<mapsto> ob)\<rparr>"
proof -
  from assms(1) obtain bs where l: "length (acc_data (led k)) = OBLIGATION_LEN"
    and i: "Obligation_pack_into_slice ob (acc_data (led k)) = Inr bs" and led': "led' = set_data k bs led"
    by (auto simp: Obligation_pack_def obligation_packed.pack_to_ledger_eq_Inr)
  have bs: "length bs = OBLIGATION_LEN" "Obligation_unpack bs = Inr ob"
    using obligation_packed.stored_unpacks [OF assms(1) [unfolded Obligation_pack_def] assms(2,3)]
      Obligation_from_into [OF l assms(2) i] by (simp_all add: led' Obligation_unpack_def)
  show ?thesis
    using assms(4) l bs
    by (auto simp: book_of_def led' stored_set_data fun_eq_iff wrong_length stored_wrong_length)
qed

lemma pack_owner:
  "LendingMarket_pack m k led = Inr led' \<Longrightarrow> acc_owner (led' x) = acc_owner (led x)"
  "Reserve_pack r k led = Inr led' \<Longrightarrow> acc_owner (led' x) = acc_owner (led x)"
  "Obligation_pack ob k led = Inr led' \<Longrightarrow> acc_owner (led' x) = acc_owner (led x)"
  unfolding LendingMarket_pack_def Reserve_pack_def Obligation_pack_def
  by (rule market_packed.stored_frame(1) reserve_packed.stored_frame(1) obligation_packed.stored_frame(1); assumption)+

section \<open>Other programs leave the book alone\<close>

lemma zeroed_unpack:
  assumes "\<forall>b \<in> set bs. b = 0"
  shows "LendingMarket_unpack bs \<noteq> Inr m" and "Reserve_unpack bs \<noteq> Inr r" and "Obligation_unpack bs \<noteq> Inr ob"
proof -
  have v: "bs = [] \<or> from_le_bytes (subslice 0 (Suc 0) bs) = (0 :: u8)"
    using assms by (cases bs) (simp_all add: subslice_def)
  show "LendingMarket_unpack bs \<noteq> Inr m" "Reserve_unpack bs \<noteq> Inr r" "Obligation_unpack bs \<noteq> Inr ob"
    using v
    by (auto simp: LendingMarket_unpack_def Reserve_unpack_def Obligation_unpack_def Pack_unpack_def
        Pack_unpack_unchecked_def res_simps LendingMarket_unpack_from_slice_def Reserve_unpack_from_slice_def
        Obligation_unpack_from_slice_def LendingMarket_is_initialized_def Reserve_is_initialized_def
        Obligation_is_initialized_def UNINITIALIZED_VERSION_def Let_def split: if_splits)
qed

lemma stored_other:
  assumes "\<And>bs v. \<forall>b \<in> set bs. b = 0 \<Longrightarrow> unpack bs \<noteq> Inr v" and "other_activity pid led led'"
  shows "stored unpack pid (led' k) = stored unpack pid (led k)"
proof -
  have "if acc_owner (led k) = pid then acc_owner (led' k) = pid \<and> acc_data (led' k) = acc_data (led k)
    else acc_owner (led' k) = pid \<longrightarrow> (\<forall>b \<in> set (acc_data (led' k)). b = 0)"
    using assms(2) unfolding other_activity_def by presburger
  then show ?thesis using assms(1) [of "acc_data (led' k)"]
    by (auto simp: stored_def split: if_splits sum.split)
qed

lemma other_activity_book: "other_activity pid led led' \<Longrightarrow> book_of pid led' = book_of pid led"
  by (simp add: book_of_def stored_other zeroed_unpack)

end
