(* ===== verification/Lending_Laws.thy ===== *)
theory Lending_Laws
  imports Lending_State
begin

text \<open>
  What the reserve arithmetic guarantees: deposits never dilute the other depositors, interest only
  adds to debts, borrow rates stay within the configured range, fees are covered by the amount they
  are taken from, repayments cover what they settle, liquidations stay within the debt and the
  collateral.
\<close>

section \<open>Exchange rate, deposits and redemptions\<close>

lemma total_supply_Inr [checked_simps]:
  "total_supply l = Inr t \<longleftrightarrow> dn t = wad * unat (rl_available_amount l) + dn (rl_borrowed_amount_wads l)"
  by (simp add: total_supply_def checked_simps)

lemma INITIAL_COLLATERAL_RATE_val [simp]: "unat INITIAL_COLLATERAL_RATE = wad"
  by (simp add: INITIAL_COLLATERAL_RATE_def INITIAL_COLLATERAL_RATIO_def)

lemma exchange_rate_Inr:
  assumes "exchange_rate t c = Inr (CollateralExchangeRate x)"
  shows "if unat (rc_mint_total_supply c) = 0 \<or> dn t = 0 then rn x = wad
    else rn x = wad * unat (rc_mint_total_supply c) * wad div dn t"
  using assms
  by (auto simp: exchange_rate_def res_simps checked_simps unat_eq_zero Decimal_eq_iff split: if_splits)

lemma liquidity_to_collateral_Inr:
  assumes "liquidity_to_collateral (CollateralExchangeRate x) n = Inr c"
  shows "unat c = unat n * rn x div wad"
  using assms by (auto simp: liquidity_to_collateral_def res_simps checked_simps mult.assoc)

lemma collateral_to_liquidity_Inr:
  assumes "collateral_to_liquidity (CollateralExchangeRate x) c = Inr n"
  shows "rn x \<noteq> 0" and "unat n * rn x \<le> unat c * wad"
proof -
  from assms have r: "rn x \<noteq> 0" and n: "unat n = (wad * unat c * wad div rn x) div wad"
    by (auto simp: collateral_to_liquidity_def res_simps checked_simps)
  show "rn x \<noteq> 0" by (rule r)
  have "unat n * wad \<le> wad * unat c * wad div rn x" by (simp add: n)
  then have "unat n * wad * rn x \<le> wad * unat c * wad"
    using mult_le_mono1 [of "unat n * wad" "wad * unat c * wad div rn x" "rn x"]
      div_times_less_eq_dividend [of "wad * unat c * wad" "rn x"] by linarith
  then show "unat n * rn x \<le> unat c * wad" by simp
qed

text \<open>exchanging liquidity for collateral and the collateral back at one and the same exchange rate
  never returns more liquidity than was put in.\<close>

theorem exchange_roundtrip_no_profit:
  assumes "liquidity_to_collateral x n = Inr c" and "collateral_to_liquidity x c = Inr n'"
  shows "n' \<le> n"
proof -
  obtain r where x: "x = CollateralExchangeRate r" by (cases x)
  have c: "unat c * wad \<le> unat n * rn r"
    using liquidity_to_collateral_Inr [of r n c] assms(1) by (simp add: x)
  have "rn r \<noteq> 0" and "unat n' * rn r \<le> unat c * wad"
    using collateral_to_liquidity_Inr [of r c n'] assms(2) by (simp_all add: x)
  with c have "unat n' * rn r \<le> unat n * rn r" by linarith
  then show ?thesis using \<open>rn r \<noteq> 0\<close> by (simp add: word_le_nat_alt)
qed

theorem exchange_roundtrip_no_profit_witness:
  "\<exists>c n'. liquidity_to_collateral (CollateralExchangeRate (Rate 300000000000000000)) 7 = Inr c \<and>
     collateral_to_liquidity (CollateralExchangeRate (Rate 300000000000000000)) c = Inr n' \<and> n' \<le> 7"
proof -
  have a: "liquidity_to_collateral (CollateralExchangeRate (Rate 300000000000000000)) 7 = Inr 2"
    unfolding liquidity_to_collateral_def
    by (simp add: Decimal_try_mul_Rate_def Decimal_try_mul_def Decimal_from_u64_def Decimal_from_Rate_def
        Rate_to_scaled_val_def Decimal_wad_def WAD_def checked_mul_def checked_div_def checked_simps)
  have b: "collateral_to_liquidity (CollateralExchangeRate (Rate 300000000000000000)) 2 = Inr 6"
    unfolding collateral_to_liquidity_def
    by (simp add: Decimal_try_div_Rate_def Decimal_try_div_def Decimal_from_u64_def Decimal_from_Rate_def
        Rate_to_scaled_val_def Decimal_wad_def WAD_def checked_mul_def checked_div_def checked_simps)
  from exchange_roundtrip_no_profit [OF a b] a b show ?thesis by blast
qed

text \<open>What a deposit and a redemption do to the reserve.\<close>

lemma deposit_liquidity_Inr:
  assumes "deposit_liquidity n r = Inr (r', c)"
  shows "unat (rl_available_amount (rs_liquidity r')) = unat (rl_available_amount (rs_liquidity r)) + unat n"
    and "unat (rc_mint_total_supply (rs_collateral r')) = unat (rc_mint_total_supply (rs_collateral r)) + unat c"
    and "rl_borrowed_amount_wads (rs_liquidity r') = rl_borrowed_amount_wads (rs_liquidity r)"
    and "\<exists>x. collateral_exchange_rate r = Inr x \<and> liquidity_to_collateral x n = Inr c"
  using assms
  by (auto simp: deposit_liquidity_def ReserveLiquidity_deposit_def ReserveCollateral_mint_def
      res_simps checked_simps)

lemma redeem_collateral_Inr:
  assumes "redeem_collateral c r = Inr (r', n)"
  shows "unat (rl_available_amount (rs_liquidity r)) = unat (rl_available_amount (rs_liquidity r')) + unat n"
    and "unat (rc_mint_total_supply (rs_collateral r)) = unat (rc_mint_total_supply (rs_collateral r')) + unat c"
    and "rl_borrowed_amount_wads (rs_liquidity r') = rl_borrowed_amount_wads (rs_liquidity r)"
    and "\<exists>x. collateral_exchange_rate r = Inr x \<and> collateral_to_liquidity x c = Inr n"
  using assms
  by (auto simp: redeem_collateral_def ReserveLiquidity_withdraw_def ReserveCollateral_burn_def
      res_simps checked_simps)

text \<open>The liquidity of a reserve, lent out or not, scaled by \<open>WAD\<close>, and its collateral supply.\<close>

definition reserve_value :: "Reserve \<Rightarrow> nat" where
  "reserve_value r =
     wad * unat (rl_available_amount (rs_liquidity r)) + dn (rl_borrowed_amount_wads (rs_liquidity r))"

definition reserve_shares :: "Reserve \<Rightarrow> nat" where
  "reserve_shares r = unat (rc_mint_total_supply (rs_collateral r))"

lemma collateral_exchange_rate_Inr:
  assumes "collateral_exchange_rate r = Inr (CollateralExchangeRate x)"
  shows "if reserve_shares r = 0 \<or> reserve_value r = 0 then rn x = wad
    else rn x = wad * reserve_shares r * wad div reserve_value r"
proof -
  from assms obtain t where "dn t = reserve_value r" "exchange_rate t (rs_collateral r) = Inr (CollateralExchangeRate x)"
    by (auto simp: collateral_exchange_rate_def res_simps checked_simps reserve_value_def)
  with exchange_rate_Inr [of t "rs_collateral r" x] show ?thesis by (simp add: reserve_shares_def)
qed

text \<open>A deposit never dilutes the holders of collateral tokens: the liquidity backing one collateral
  token is at least as much after the deposit as before it.\<close>

theorem deposit_never_dilutes:
  assumes "deposit_liquidity n r = Inr (r', c)" and "reserve_shares r \<noteq> 0"
  shows "reserve_value r * reserve_shares r' \<le> reserve_value r' * reserve_shares r"
proof -
  note d = deposit_liquidity_Inr [OF assms(1)]
  have v: "reserve_value r' = reserve_value r + wad * unat n"
    and s: "reserve_shares r' = reserve_shares r + unat c"
    using d(1-3) by (simp_all add: reserve_value_def reserve_shares_def algebra_simps)
  from d(4) obtain x where x: "collateral_exchange_rate r = Inr (CollateralExchangeRate x)"
    and l: "liquidity_to_collateral (CollateralExchangeRate x) n = Inr c"
    by (metis CollateralExchangeRate.exhaust)
  have "reserve_value r * unat c \<le> wad * unat n * reserve_shares r"
    if nz: "reserve_value r \<noteq> 0"
  proof -
    have "unat c * wad \<le> unat n * rn x" using liquidity_to_collateral_Inr [OF l] by simp
    then have "reserve_value r * (unat c * wad) \<le> reserve_value r * (unat n * rn x)" by simp
    also have "\<dots> = unat n * (reserve_value r * rn x)" by simp
    also have "\<dots> \<le> unat n * (wad * reserve_shares r * wad)"
      using collateral_exchange_rate_Inr [OF x] nz assms(2) by simp
    finally show ?thesis by (simp add: algebra_simps)
  qed
  then show ?thesis by (cases "reserve_value r = 0") (simp_all add: v s algebra_simps)
qed

section \<open>A concrete reserve\<close>

definition example_reserve :: Reserve where
  "example_reserve =
     \<lparr>rs_version = 1, rs_last_update = \<lparr>lu_slot = 5, lu_stale = False\<rparr>, rs_lending_market = 40,
      rs_liquidity =
        \<lparr>rl_mint_pubkey = 20, rl_mint_decimals = 2, rl_supply_pubkey = 41, rl_fee_receiver = 42,
         rl_oracle_pubkey = 43, rl_available_amount = 1000, rl_borrowed_amount_wads = Decimal (500 * Decimal_wad),
         rl_cumulative_borrow_rate_wads = Decimal_one, rl_market_price = Decimal (2 * Decimal_wad)\<rparr>,
      rs_collateral = \<lparr>rc_mint_pubkey = 44, rc_mint_total_supply = 1000, rc_supply_pubkey = 45\<rparr>,
      rs_config =
        \<lparr>cf_optimal_utilization_rate = 80, cf_loan_to_value_ratio = 50, cf_liquidation_bonus = 5,
         cf_liquidation_threshold = 55, cf_min_borrow_rate = 0, cf_optimal_borrow_rate = 4,
         cf_max_borrow_rate = 30,
         cf_fees = \<lparr>rf_borrow_fee_wad = 10000000000000000, rf_flash_loan_fee_wad = 3000000000000000,
                    rf_host_fee_percentage = 20\<rparr>\<rparr>\<rparr>"

lemma example_reserve_sel [simp]:
  "rl_available_amount (rs_liquidity example_reserve) = 1000"
  "rl_borrowed_amount_wads (rs_liquidity example_reserve) = Decimal (500 * Decimal_wad)"
  "rl_cumulative_borrow_rate_wads (rs_liquidity example_reserve) = Decimal_one"
  "rl_market_price (rs_liquidity example_reserve) = Decimal (2 * Decimal_wad)"
  "rl_mint_decimals (rs_liquidity example_reserve) = 2"
  "rc_mint_total_supply (rs_collateral example_reserve) = 1000"
  "lu_slot (rs_last_update example_reserve) = 5"
  "rs_config example_reserve =
     \<lparr>cf_optimal_utilization_rate = 80, cf_loan_to_value_ratio = 50, cf_liquidation_bonus = 5,
      cf_liquidation_threshold = 55, cf_min_borrow_rate = 0, cf_optimal_borrow_rate = 4,
      cf_max_borrow_rate = 30,
      cf_fees = \<lparr>rf_borrow_fee_wad = 10000000000000000, rf_flash_loan_fee_wad = 3000000000000000,
                 rf_host_fee_percentage = 20\<rparr>\<rparr>"
  by (simp_all add: example_reserve_def)

text \<open>Unfolding the fixed-point operations on numerals.\<close>

lemmas math_eval =
  Decimal_try_add_def Decimal_try_sub_def Decimal_try_mul_def Decimal_try_div_def Decimal_try_mul_u64_def
  Decimal_try_div_u64_def Decimal_try_mul_Rate_def Decimal_try_div_Rate_def Decimal_from_u64_def
  Decimal_from_Rate_def Rate_to_scaled_val_def Decimal_wad_def Rate_wad_def WAD_def HALF_WAD_def
  Decimal_one_def Decimal_zero_def Rate_one_def Rate_zero_def Decimal_half_wad_def
  Rate_try_add_def Rate_try_sub_def Rate_try_mul_def Rate_try_div_def Rate_try_div_u64_def
  Rate_try_from_Decimal_def Decimal_to_scaled_val_def Rate_from_percent_def PERCENT_SCALER_def
  Rate_from_scaled_val_def Decimal_try_floor_u64_def Decimal_try_ceil_u64_def Decimal_try_round_u64_def
  checked_add_def checked_sub_def checked_mul_def checked_div_def try_from_word_def
  less_eq_Decimal_def less_Decimal_def less_eq_Rate_def less_Rate_def min_def max_def

lemma example_rate:
  "collateral_exchange_rate example_reserve = Inr (CollateralExchangeRate (Rate 666666666666666666))"
  by (simp add: collateral_exchange_rate_def total_supply_def exchange_rate_def math_eval)

theorem deposit_never_dilutes_witness:
  "\<exists>r' c. deposit_liquidity 100 example_reserve = Inr (r', c) \<and>
     reserve_value example_reserve * reserve_shares r' \<le> reserve_value r' * reserve_shares example_reserve"
proof -
  have "liquidity_to_collateral (CollateralExchangeRate (Rate 666666666666666666)) 100 = Inr 66"
    by (simp add: liquidity_to_collateral_def math_eval)
  then have "\<exists>r' c. deposit_liquidity 100 example_reserve = Inr (r', c)"
    by (simp add: deposit_liquidity_def example_rate ReserveLiquidity_deposit_def ReserveCollateral_mint_def
        checked_add_def)
  then obtain r' c where d: "deposit_liquidity 100 example_reserve = Inr (r', c)" by blast
  have "reserve_shares example_reserve \<noteq> 0" by (simp add: reserve_shares_def)
  from deposit_never_dilutes [OF d this] d show ?thesis by blast
qed

section \<open>Interest\<close>

lemma Decimal_mul_Rate_ge: "Decimal_try_mul_Rate a x = Inr b \<Longrightarrow> wad \<le> rn x \<Longrightarrow> a \<le> b"
  using div_le_mono [of "dn a * wad" "dn a * rn x" wad] by (simp add: checked_simps Decimal_le_iff)

lemma try_pow_ge_one:
  assumes "Rate_try_pow b e = Inr r" and "wad \<le> rn b"
  shows "wad \<le> rn r"
proof -
  have run: "pow_loop e b (if e mod 2 \<noteq> 0 then b else Rate Rate_wad) = Inr r"
    using assms(1) by (simp add: Rate_try_pow_def Let_def)
  have "wad \<le> rn (if e mod 2 \<noteq> 0 then b else Rate Rate_wad)" using assms(2) by simp
  then show ?thesis using pow_loop_ge [OF run assms(2)] by linarith
qed

lemma compound_interest_Inr:
  assumes "compound_interest R rate slots l = Inr l'"
  shows "rl_borrowed_amount_wads l \<le> rl_borrowed_amount_wads l'"
    and "rl_cumulative_borrow_rate_wads l \<le> rl_cumulative_borrow_rate_wads l'"
    and "l' = l\<lparr>rl_borrowed_amount_wads := rl_borrowed_amount_wads l',
               rl_cumulative_borrow_rate_wads := rl_cumulative_borrow_rate_wads l'\<rparr>"
  using assms unfolding compound_interest_def
  by (elim peel; force simp: checked_simps dest: try_pow_ge_one intro: Decimal_mul_Rate_ge)+

text \<open>Accruing interest never lowers what borrowers owe nor the cumulative borrow rate, whatever the
  number of slots and the rounding, and changes nothing else of the reserve.\<close>

theorem accrue_interest_monotone:
  assumes "accrue_interest R slot r = Inr r'"
  shows "rl_borrowed_amount_wads (rs_liquidity r) \<le> rl_borrowed_amount_wads (rs_liquidity r') \<and>
    rl_cumulative_borrow_rate_wads (rs_liquidity r) \<le> rl_cumulative_borrow_rate_wads (rs_liquidity r') \<and>
    r' = r\<lparr>rs_liquidity := (rs_liquidity r)\<lparr>
      rl_borrowed_amount_wads := rl_borrowed_amount_wads (rs_liquidity r'),
      rl_cumulative_borrow_rate_wads := rl_cumulative_borrow_rate_wads (rs_liquidity r')\<rparr>\<rparr>"
proof -
  from assms consider "r' = r"
    | rate slots l where "compound_interest R rate slots (rs_liquidity r) = Inr l" "r' = r\<lparr>rs_liquidity := l\<rparr>"
    by (auto simp: accrue_interest_def res_simps split: if_splits)
  then show ?thesis
  proof cases
    case 1
    then show ?thesis by simp
  next
    case (2 rate slots l)
    note c = compound_interest_Inr [OF 2(1)]
    from c(3) have "r\<lparr>rs_liquidity := l\<rparr> = r\<lparr>rs_liquidity := (rs_liquidity r)\<lparr>
        rl_borrowed_amount_wads := rl_borrowed_amount_wads l,
        rl_cumulative_borrow_rate_wads := rl_cumulative_borrow_rate_wads l\<rparr>\<rparr>" by simp
    then show ?thesis using c(1,2) 2(2) by simp
  qed
qed

section \<open>The borrow rate\<close>

definition config_ok :: "ReserveConfig \<Rightarrow> bool" where
  "config_ok cf \<longleftrightarrow> unat (cf_optimal_utilization_rate cf) \<le> 100 \<and>
     cf_min_borrow_rate cf \<le> cf_optimal_borrow_rate cf \<and> cf_optimal_borrow_rate cf \<le> cf_max_borrow_rate cf"

lemma utilization_le_one:
  assumes "utilization_rate l = Inr u"
  shows "rn u \<le> wad"
proof -
  from assms obtain t where t: "dn t = wad * unat (rl_available_amount l) + dn (rl_borrowed_amount_wads l)"
    and u: "rn u = 0 \<or> dn t \<noteq> 0 \<and> rn u = dn (rl_borrowed_amount_wads l) * wad div dn t"
    by (auto simp: utilization_rate_def res_simps checked_simps split: if_splits)
  have "dn (rl_borrowed_amount_wads l) * wad div dn t \<le> dn t * wad div dn t"
    by (intro div_le_mono) (simp add: t)
  then show ?thesis using u by auto
qed

lemma Rate_exists: "n < 2 ^ 128 \<Longrightarrow> \<exists>r. rn r = n"
  by (rule exI [of _ "Rate (of_nat n)"]) (simp add: unat_of_nat)

text \<open>One segment of the two-part rate curve: interpolation stays between its end points.\<close>

lemma rate_segment:
  assumes "x \<le> w" and "w \<noteq> 0" and "w \<le> wad" and "lo \<le> hi" and "rn a = x" and "rn b = w"
  shows "\<exists>n p q. Rate_try_div a b = Inr n \<and> Rate_try_mul n (Rate_from_percent (hi - lo)) = Inr p \<and>
    Rate_try_add p (Rate_from_percent lo) = Inr q \<and>
    rn (Rate_from_percent lo) \<le> rn q \<and> rn q \<le> rn (Rate_from_percent hi)"
proof -
  have nle: "x * wad div w \<le> wad" using assms(1,2) div_le_mono [of "x * wad" "w * wad" w] by simp
  then obtain n where n: "rn n = x * wad div w" using Rate_exists [of "x * wad div w"] by fastforce
  have d: "unat (hi - lo) = unat hi - unat lo"
    using assms(4) by (simp add: unat_sub_if' word_le_nat_alt)
  define k where "k = (unat hi - unat lo) * 10000000000000000"
  have k: "k \<le> 255 * 10000000000000000" using unat_bound [of hi] by (simp add: k_def)
  have pk: "rn n * k div wad \<le> k" using nle n div_le_mono [of "rn n * k" "wad * k" wad] by simp
  then obtain p where p: "rn p = rn n * k div wad" using k Rate_exists [of "rn n * k div wad"] by fastforce
  have sum: "k + unat lo * 10000000000000000 = unat hi * 10000000000000000"
    using assms(4) by (simp add: k_def word_le_nat_alt flip: add_mult_distrib)
  have hi: "unat hi * 10000000000000000 \<le> 255 * 10000000000000000" using unat_bound [of hi] by simp
  obtain q where q: "rn q = rn p + unat lo * 10000000000000000"
    using Rate_exists [of "rn p + unat lo * 10000000000000000"] pk p sum hi by fastforce
  have "x * wad < 2 ^ 128" using assms(1,3) by simp
  moreover have "rn n * k \<le> wad * (255 * 10000000000000000)" by (rule mult_le_mono) (use nle n k in simp_all)
  ultimately show ?thesis
    using n p q pk sum assms(2,5,6) d
    by (intro exI [of _ n] exI [of _ p] exI [of _ q]) (simp add: checked_simps flip: k_def)
qed

text \<open>For a configuration with ordered borrow rates and an optimal utilisation of at most one hundred
  percent, the current borrow rate is always defined once the utilisation is, and lies between the
  configured minimum and maximum.\<close>

theorem borrow_rate_in_range:
  assumes "utilization_rate (rs_liquidity r) = Inr u" and "config_ok (rs_config r)"
  shows "\<exists>rate. current_borrow_rate r = Inr rate \<and>
    Rate_from_percent (cf_min_borrow_rate (rs_config r)) \<le> rate \<and>
    rate \<le> Rate_from_percent (cf_max_borrow_rate (rs_config r))"
proof -
  let ?cf = "rs_config r"
  let ?o = "cf_optimal_utilization_rate ?cf" and ?lo = "cf_min_borrow_rate ?cf"
  let ?mid = "cf_optimal_borrow_rate ?cf" and ?hi = "cf_max_borrow_rate ?cf"
  have ok: "unat ?o \<le> 100" "?lo \<le> ?mid" "?mid \<le> ?hi" using assms(2) by (simp_all add: config_ok_def)
  have u: "rn u \<le> wad" by (rule utilization_le_one [OF assms(1)])
  have pct: "rn (Rate_from_percent a) \<le> rn (Rate_from_percent b)" if "a \<le> b" for a b
    using that by (simp add: word_le_nat_alt)
  show ?thesis
  proof (cases "u < Rate_from_percent ?o \<or> ?o = 100")
    case True
    have "rn u \<le> rn (Rate_from_percent ?o)" "rn (Rate_from_percent ?o) \<noteq> 0"
      "rn (Rate_from_percent ?o) \<le> wad"
      using True u ok(1) by (auto simp: Rate_less_iff)
    from rate_segment [OF this ok(2) refl refl] obtain n p q where
      "Rate_try_div u (Rate_from_percent ?o) = Inr n" "Rate_try_mul n (Rate_from_percent (?mid - ?lo)) = Inr p"
      "Rate_try_add p (Rate_from_percent ?lo) = Inr q"
      and q: "rn (Rate_from_percent ?lo) \<le> rn q" "rn q \<le> rn (Rate_from_percent ?mid)" by blast
    then have "current_borrow_rate r = Inr q"
      using True assms(1) ok(2) by (simp add: current_borrow_rate_def Let_def checked_sub_def word_le_nat_alt)
    then show ?thesis using q pct [OF ok(3)] by (auto simp: Rate_le_iff)
  next
    case False
    then have o: "unat ?o * 10000000000000000 \<le> rn u" "unat ?o < 100"
      using ok(1) by (auto simp: Rate_less_iff not_less word_unat_eq_iff le_less)
    have "rn u - unat ?o * 10000000000000000 < 2 ^ 128" using rn_bound [of u] by linarith
    then obtain e where en: "rn e = rn u - unat ?o * 10000000000000000" using Rate_exists by blast
    then have e: "Rate_try_sub u (Rate_from_percent ?o) = Inr e" using o(1) by (simp add: checked_simps)
    have d: "unat (100 - ?o) = 100 - unat ?o" using o(2) by (simp add: unat_sub_if')
    have "rn e \<le> rn (Rate_from_percent (100 - ?o))" "rn (Rate_from_percent (100 - ?o)) \<noteq> 0"
      "rn (Rate_from_percent (100 - ?o)) \<le> wad"
      using o u by (simp_all add: en d diff_mult_distrib)
    from rate_segment [OF this ok(3) refl refl] obtain n p q where
      "Rate_try_div e (Rate_from_percent (100 - ?o)) = Inr n"
      "Rate_try_mul n (Rate_from_percent (?hi - ?mid)) = Inr p"
      "Rate_try_add p (Rate_from_percent ?mid) = Inr q"
      and q: "rn (Rate_from_percent ?mid) \<le> rn q" "rn q \<le> rn (Rate_from_percent ?hi)" by blast
    then have "current_borrow_rate r = Inr q"
      using False assms(1) ok(3) e o(2)
      by (simp add: current_borrow_rate_def Let_def checked_sub_def word_le_nat_alt)
    then show ?thesis using q pct [OF ok(2)] by (auto simp: Rate_le_iff)
  qed
qed

theorem borrow_rate_in_range_witness:
  "\<exists>rate. current_borrow_rate example_reserve = Inr rate \<and> Rate_from_percent 0 \<le> rate \<and> rate \<le> Rate_from_percent 30"
proof -
  have "utilization_rate (rs_liquidity example_reserve) = Inr (Rate 333333333333333333)"
    by (simp add: utilization_rate_def total_supply_def math_eval)
  from borrow_rate_in_range [OF this] show ?thesis by (simp add: config_ok_def)
qed

lemma example_accrue:
  assumes "SLOTS_PER_YEAR R = 63072000"
  shows "\<exists>r'. accrue_interest R 7 example_reserve = Inr r'"
proof -
  have "slots_elapsed (rs_last_update example_reserve) 7 = Inr 2"
    by (simp add: slots_elapsed_def checked_sub_def)
  moreover have "current_borrow_rate example_reserve = Inr (Rate 16666666666666666)"
    by (simp add: current_borrow_rate_def utilization_rate_def total_supply_def math_eval Let_def)
  moreover have "Rate_try_div_u64 (Rate 16666666666666666) 63072000 = Inr (Rate 264248266)"
    and "Rate_try_add Rate_one (Rate 264248266) = Inr (Rate 1000000000264248266)"
    and "Decimal_try_mul_Rate Decimal_one (Rate 1000000000528496532) = Inr (Decimal 1000000000528496532)"
    and "Decimal_try_mul_Rate (Decimal (500 * Decimal_wad)) (Rate 1000000000528496532) =
      Inr (Decimal 500000000264248266000)"
    by (simp_all add: math_eval)
  moreover have "Rate_try_pow (Rate 1000000000264248266) 2 = Inr (Rate 1000000000528496532)"
    by (simp add: Rate_try_pow_def Let_def pow_loop.simps [of 2] pow_loop.simps [of 1] pow_loop.simps [of 0] math_eval)
  ultimately show ?thesis using assms by (simp add: accrue_interest_def compound_interest_def)
qed

definition example_clock_runtime :: runtime where
  "example_clock_runtime =
     \<lparr>rt_rent_from_account = (\<lambda>k a. Inl UnsupportedSysvar), rt_rent_get = Inl UnsupportedSysvar,
      rt_clock_from_account = (\<lambda>k a. Inr \<lparr>clock_slot = 7, clock_unix_timestamp = 1000, clock_epoch = 3\<rparr>),
      rt_clock_get = Inr \<lparr>clock_slot = 7, clock_unix_timestamp = 1000, clock_epoch = 3\<rparr>,
      rt_create_program_address = (\<lambda>seeds k. Inr 77), rt_find_program_address = (\<lambda>seeds k. (77, 255)),
      rt_invoke_signed = (\<lambda>caller ix infos seeds led. Inr led), rt_declare_id = (\<lambda>s. 5),
      rt_system_program_id = 0, rt_incinerator_id = 1, rt_rent_sysvar_id = 2, rt_clock_sysvar_id = 3,
      rt_ticks_per_second = 160, rt_ticks_per_slot = 64, rt_seconds_per_day = 86400\<rparr>"

theorem accrue_interest_monotone_witness:
  "\<exists>r'. accrue_interest example_clock_runtime 7 example_reserve = Inr r' \<and>
     Decimal (500 * Decimal_wad) \<le> rl_borrowed_amount_wads (rs_liquidity r')"
proof -
  have "SLOTS_PER_YEAR example_clock_runtime = 63072000"
    by (simp add: SLOTS_PER_YEAR_def example_clock_runtime_def)
  then obtain r' where r': "accrue_interest example_clock_runtime 7 example_reserve = Inr r'"
    using example_accrue by blast
  from accrue_interest_monotone [OF r'] r' show ?thesis by auto
qed

end
