(* ===== verification/Lending_Risk.thy ===== *)
theory Lending_Risk
  imports Lending_Laws
begin

text \<open>
  Fees, borrowing, repayment, liquidation and the bookkeeping of obligations: the limits the lending
  program computes and what it guarantees about them.
\<close>

section \<open>Fees\<close>

lemma calculate_fees_Inr:
  assumes "calculate_fees f amt w k = Inr (fee, host)"
  obtains "fee = 0" "host = 0" "w = 0 \<or> amt = Decimal_zero"
  | d where "d < amt" "w \<noteq> 0" "amt \<noteq> Decimal_zero"
      "if rf_host_fee_percentage f = 0 then Decimal_from_u64 1 \<le> d else Decimal_from_u64 2 \<le> d"
      "Decimal_try_round_u64 d = Inr fee"
      "if rf_host_fee_percentage f = 0 then host = 0
       else (\<exists>h n. Decimal_try_mul_Rate d (Rate_from_percent (rf_host_fee_percentage f)) = Inr h \<and>
                   Decimal_try_round_u64 h = Inr n \<and> host = max n 1)"
proof -
  have rate: "Rate_from_scaled_val w > Rate_zero \<longleftrightarrow> w \<noteq> 0"
    and host: "Rate_from_percent (rf_host_fee_percentage f) > Rate_zero \<longleftrightarrow> rf_host_fee_percentage f \<noteq> 0"
    and amt: "amt > Decimal_zero \<longleftrightarrow> amt \<noteq> Decimal_zero"
    by (simp_all add: Rate_less_iff Decimal_less_iff Decimal_eq_iff unat_gt_0)
  show thesis
  proof (cases "w \<noteq> 0 \<and> amt \<noteq> Decimal_zero")
    case False
    then show thesis using assms that(1) by (auto simp: calculate_fees_def rate amt Let_def)
  next
    case True
    with assms obtain a where d: "\<not> max a (Decimal_from_u64 (if rf_host_fee_percentage f \<noteq> 0 then 2 else 1)) \<ge> amt"
      and r: "Decimal_try_round_u64 (max a (Decimal_from_u64 (if rf_host_fee_percentage f \<noteq> 0 then 2 else 1))) = Inr fee"
      and h: "(if rf_host_fee_percentage f \<noteq> 0 then
            attempt (Decimal_try_mul_Rate (max a (Decimal_from_u64 (if rf_host_fee_percentage f \<noteq> 0 then 2 else 1)))
                (Rate_from_percent (rf_host_fee_percentage f))) (\<lambda>h.
            attempt (Decimal_try_round_u64 h) (\<lambda>n. Inr (max n 1)))
          else Inr 0) = Inr host"
      by (auto simp: calculate_fees_def rate amt host Let_def res_simps simp del: max_less_iff_conj split: if_splits)
    let ?d = "max a (Decimal_from_u64 (if rf_host_fee_percentage f \<noteq> 0 then 2 else 1))"
    show thesis
    proof (rule that(2) [of ?d])
      show "?d < amt" using d by (simp add: not_le)
      show "if rf_host_fee_percentage f = 0 then Decimal_from_u64 1 \<le> ?d else Decimal_from_u64 2 \<le> ?d" by simp
      show "if rf_host_fee_percentage f = 0 then host = 0
        else (\<exists>h n. Decimal_try_mul_Rate ?d (Rate_from_percent (rf_host_fee_percentage f)) = Inr h \<and>
                   Decimal_try_round_u64 h = Inr n \<and> host = max n 1)"
        using h by (auto simp: res_simps split: if_splits)
    qed (use True r in auto)
  qed
qed

text \<open>With a host share of at most one hundred percent, a fee is below the amount it is computed from
  (up to rounding to whole tokens), is at least one token whenever a fee rate is set, and the host's
  share never exceeds the fee, so the owner's share cannot become negative.\<close>

theorem fee_bounds:
  assumes "calculate_fees f amt w k = Inr (fee, host)" and "unat (rf_host_fee_percentage f) \<le> 100"
  shows "host \<le> fee \<and> 2 * (wad * unat fee) \<le> 2 * dn amt + wad \<and>
    (w \<noteq> 0 \<and> amt \<noteq> Decimal_zero \<longleftrightarrow> fee \<noteq> 0)"
  using assms(1)
proof (cases rule: calculate_fees_Inr)
  case 1
  then show ?thesis by simp
next
  case (2 d)
  have fee: "unat fee = (500000000000000000 + dn d) div wad" using 2(5) by (simp add: checked_simps)
  have "wad \<le> dn d" using 2(4) by (auto simp: Decimal_le_iff split: if_splits)
  then have one: "1 \<le> unat fee"
    unfolding fee using div_le_mono [of wad "500000000000000000 + dn d" wad] by simp
  have hf: "host \<le> fee"
  proof (cases "rf_host_fee_percentage f = 0")
    case False
    then obtain h n where h: "dn h = dn d * (unat (rf_host_fee_percentage f) * 10000000000000000) div wad"
      and n: "unat n = (500000000000000000 + dn h) div wad" and host: "host = max n 1"
      using 2(6) by (auto simp: checked_simps)
    have "dn h \<le> dn d"
      unfolding h using assms(2) div_le_mono [of "dn d * (unat (rf_host_fee_percentage f) * 10000000000000000)" "dn d * wad" wad]
      by simp
    then have "unat n \<le> unat fee" unfolding n fee by (intro div_le_mono) simp
    then show ?thesis using one by (simp add: host max_def word_le_nat_alt)
  qed (use 2(6) in simp)
  have "wad * unat fee \<le> 500000000000000000 + dn d" unfolding fee by simp
  then have "2 * (wad * unat fee) \<le> 2 * dn amt + wad" using 2(1) by (simp add: Decimal_less_iff)
  then show ?thesis using hf one 2(2,3) by (auto simp: unat_eq_zero)
qed

theorem fee_bounds_witness:
  "\<exists>fee host. calculate_borrow_fees (cf_fees (rs_config example_reserve)) (Decimal_from_u64 1000) Exclusive =
       Inr (fee, host) \<and> host \<le> fee \<and> fee \<noteq> 0"
proof -
  let ?f = "cf_fees (rs_config example_reserve)"
  have c: "calculate_fees ?f (Decimal_from_u64 1000) 10000000000000000 Exclusive = Inr (10, 2)"
    by (simp add: calculate_fees_def math_eval Let_def word_le_nat_alt)
  have "unat (rf_host_fee_percentage ?f) \<le> 100" by simp
  from fee_bounds [OF c this] c show ?thesis by (simp add: calculate_borrow_fees_def)
qed

section \<open>Borrowing and repaying\<close>

lemma calculate_borrow_value:
  assumes "calculate_borrow amt limit r = Inr res"
  shows "dn (cb_borrow_amount res) * dn (rl_market_price (rs_liquidity r)) div wad
      div 10 ^ unat (rl_mint_decimals (rs_liquidity r)) \<le> dn limit"
proof (cases "amt = U64_MAX")
  case True
  let ?p = "dn (rl_market_price (rs_liquidity r))" and ?D = "10 ^ unat (rl_mint_decimals (rs_liquidity r)) :: nat"
  have b: "dn (cb_borrow_amount res) \<le> dn limit * ?D * wad div ?p"
    using assms True unfolding calculate_borrow_def
    by (elim peel) (auto simp: res_simps checked_simps Let_def min_def Decimal_le_iff split: if_splits)
  have "dn (cb_borrow_amount res) * ?p \<le> dn limit * ?D * wad"
    using mult_le_mono1 [OF b, of ?p] div_times_less_eq_dividend [of "dn limit * ?D * wad" ?p] by linarith
  then have "dn (cb_borrow_amount res) * ?p div wad div ?D \<le> dn limit * ?D * wad div wad div ?D"
    by (intro div_le_mono)
  then show ?thesis by simp
next
  case False
  then show ?thesis
    using assms unfolding calculate_borrow_def
    by (elim peel) (auto simp: res_simps checked_simps Let_def not_less Decimal_le_iff)
qed

text \<open>C37: the borrow the program computes never has a market value above the limit it was given, neither for
  a requested amount nor for "as much as possible", and what the borrower receives plus the fee is
  covered by the amount that is borrowed.\<close>

theorem calculate_borrow_within_limit:
  assumes "calculate_borrow amt limit r = Inr res"
  shows "dn (cb_borrow_amount res) * dn (rl_market_price (rs_liquidity r)) div wad
      div 10 ^ unat (rl_mint_decimals (rs_liquidity r)) \<le> dn limit \<and>
    unat (cb_receive_amount res) + unat (cb_borrow_fee res) \<le> dn (cb_borrow_amount res) div wad"
proof (cases "amt = U64_MAX")
  case True
  have "unat (cb_receive_amount res) + unat (cb_borrow_fee res) = dn (cb_borrow_amount res) div wad"
    using assms True unfolding calculate_borrow_def
    by (elim peel) (auto simp: res_simps checked_simps Let_def split: if_splits)
  then show ?thesis using calculate_borrow_value [OF assms] by simp
next
  case False
  have "dn (cb_borrow_amount res) = wad * (unat (cb_receive_amount res) + unat (cb_borrow_fee res))"
    using assms False unfolding calculate_borrow_def
    by (elim peel) (auto simp: res_simps checked_simps Let_def)
  then show ?thesis using calculate_borrow_value [OF assms] by (metis le_refl nonzero_mult_div_cancel_left zero_neq_numeral)
qed

lemma example_borrow:
  "\<exists>res. calculate_borrow 100 (Decimal_from_u64 50) example_reserve = Inr res \<and> cb_borrow_fee res = 2"
  by (simp add: calculate_borrow_def calculate_borrow_fees_def calculate_fees_def math_eval Let_def
      checked_pow_def U64_MAX_def word_le_nat_alt)

theorem calculate_borrow_within_limit_witness:
  "\<exists>res. calculate_borrow 100 (Decimal_from_u64 50) example_reserve = Inr res \<and>
     dn (cb_borrow_amount res) * dn (Decimal (2 * Decimal_wad)) div wad div 10 ^ 2 \<le> dn (Decimal_from_u64 50)"
proof -
  obtain res where r: "calculate_borrow 100 (Decimal_from_u64 50) example_reserve = Inr res"
    using example_borrow by blast
  from calculate_borrow_within_limit [OF r] r show ?thesis
    by (auto simp del: dn_from_u64)
qed

text \<open>a repayment settles at most the debt, the tokens taken are the settled amount rounded up (so the
  reserve never loses by rounding), and never more than the caller offered.\<close>

theorem calculate_repay_bounds:
  assumes "calculate_repay amt borrowed = Inr res"
  shows "cr_settle_amount res \<le> borrowed \<and>
    dn (cr_settle_amount res) \<le> wad * unat (cr_repay_amount res) \<and>
    wad * unat (cr_repay_amount res) < dn (cr_settle_amount res) + wad \<and>
    cr_repay_amount res \<le> amt"
proof -
  let ?s = "if amt = U64_MAX then borrowed else min (Decimal_from_u64 amt) borrowed"
  from assms obtain n where n: "unat n = (999999999999999999 + dn ?s) div wad"
    and res: "cr_settle_amount res = ?s" "cr_repay_amount res = n"
    by (auto simp: calculate_repay_def Let_def res_simps checked_simps)
  have d: "wad * ((999999999999999999 + dn ?s) div wad) \<le> 999999999999999999 + dn ?s"
    "999999999999999999 + dn ?s < wad * ((999999999999999999 + dn ?s) div wad) + wad"
    using mult_div_mod_eq [of wad "999999999999999999 + dn ?s"]
      mod_less_divisor [of wad "999999999999999999 + dn ?s"] by linarith+
  have le: "?s \<le> borrowed" by (simp add: min_def)
  have "n \<le> amt"
  proof (cases "amt = U64_MAX")
    case True
    have "unat n \<le> unat U64_MAX" using unat_bound [of n] by (simp add: U64_MAX_def)
    then show ?thesis using True by (simp add: word_le_nat_alt)
  next
    case False
    then have "dn ?s \<le> wad * unat amt" by (auto simp: min_def Decimal_le_iff)
    then have "unat n \<le> (999999999999999999 + wad * unat amt) div wad" unfolding n by (intro div_le_mono) simp
    then show ?thesis by (simp add: word_le_nat_alt)
  qed
  then show ?thesis using n d le unfolding res by linarith
qed

theorem calculate_repay_bounds_witness:
  "\<exists>res. calculate_repay 9 (Decimal 2500000000000000000) = Inr res \<and>
     cr_settle_amount res \<le> Decimal 2500000000000000000 \<and> cr_repay_amount res \<le> 9"
proof -
  have "\<exists>res. calculate_repay 9 (Decimal 2500000000000000000) = Inr res"
    by (simp add: calculate_repay_def math_eval Let_def U64_MAX_def)
  then obtain res where r: "calculate_repay 9 (Decimal 2500000000000000000) = Inr res" by blast
  from calculate_repay_bounds [OF r] r show ?thesis by blast
qed

section \<open>Liquidation\<close>

lemma Decimal_mul_le: "Decimal_try_mul a p = Inr b \<Longrightarrow> dn p \<le> wad \<Longrightarrow> b \<le> a"
  using div_le_mono [of "dn a * dn p" "dn a * wad" wad] by (simp add: checked_simps Decimal_le_iff)

lemma Decimal_div_le_one: "Decimal_try_div a b = Inr q \<Longrightarrow> a \<le> b \<Longrightarrow> dn q \<le> wad"
  using div_le_mono [of "dn a * wad" "dn b * wad" "dn b"] by (auto simp: checked_simps Decimal_le_iff)

lemma Decimal_ceil_mono:
  "Decimal_try_ceil_u64 a = Inr n \<Longrightarrow> a \<le> b \<Longrightarrow> wad * unat n < dn b + wad"
proof -
  assume n: "Decimal_try_ceil_u64 a = Inr n" and le: "a \<le> b"
  have "wad * ((999999999999999999 + dn a) div wad) \<le> 999999999999999999 + dn a" by simp
  then show ?thesis using n le by (simp add: checked_simps Decimal_le_iff)
qed

lemma Decimal_floor_mono: "Decimal_try_floor_u64 a = Inr n \<Longrightarrow> a \<le> b \<Longrightarrow> wad * unat n \<le> dn b"
proof -
  assume n: "Decimal_try_floor_u64 a = Inr n" and le: "a \<le> b"
  have "wad * (dn a div wad) \<le> dn a" by simp
  then show ?thesis using n le by (simp add: checked_simps Decimal_le_iff)
qed

lemma withdraw_share_le:
  assumes "Decimal_try_div v m = Inr pct" and "v < m"
    and "Decimal_try_mul (Decimal_from_u64 d) pct = Inr w" and "Decimal_try_floor_u64 w = Inr n"
  shows "n \<le> d"
proof -
  have "w \<le> Decimal_from_u64 d"
    by (rule Decimal_mul_le [OF assms(3)], rule Decimal_div_le_one [OF assms(1)]) (use assms(2) in simp)
  from Decimal_floor_mono [OF assms(4) this] show ?thesis by (simp add: word_le_nat_alt)
qed

lemma max_liquidation_amount_Inr:
  assumes "max_liquidation_amount l ob = Inr m"
  shows "m \<le> ol_borrowed_amount_wads l"
    and "2 * (dn m * dn (ol_market_value l)) \<le> dn (ol_borrowed_amount_wads l) * dn (ob_borrowed_value ob)"
proof -
  from assms obtain v pct where v: "dn v = dn (ob_borrowed_value ob) * 500000000000000000 div wad"
    and p: "Decimal_try_div (min v (ol_market_value l)) (ol_market_value l) = Inr pct"
    and m: "Decimal_try_mul (ol_borrowed_amount_wads l) pct = Inr m"
    by (auto simp: max_liquidation_amount_def LIQUIDATION_CLOSE_FACTOR_def Let_def res_simps
        Decimal_try_mul_Rate_Inr)
  show "m \<le> ol_borrowed_amount_wads l"
    by (rule Decimal_mul_le [OF m], rule Decimal_div_le_one [OF p]) simp
  let ?b = "dn (ol_borrowed_amount_wads l)" and ?mv = "dn (ol_market_value l)"
  have "dn m * wad \<le> ?b * dn pct" using m by (simp add: checked_simps)
  then have "dn m * wad * ?mv \<le> ?b * dn pct * ?mv" by simp
  also have "dn pct * ?mv \<le> dn v * wad"
  proof -
    have "dn pct * ?mv \<le> dn (min v (ol_market_value l)) * wad" using p by (simp add: checked_simps)
    also have "\<dots> \<le> dn v * wad" by (simp add: min_def Decimal_le_iff)
    finally show ?thesis .
  qed
  then have "?b * dn pct * ?mv \<le> ?b * (dn v * wad)" by (simp add: mult.assoc)
  finally have "dn m * ?mv \<le> ?b * dn v" by simp
  moreover have "2 * dn v \<le> dn (ob_borrowed_value ob)" using v by simp
  ultimately have "2 * (dn m * ?mv) \<le> ?b * (2 * dn v)" by simp
  also have "\<dots> \<le> ?b * dn (ob_borrowed_value ob)" using \<open>2 * dn v \<le> _\<close> by (rule mult_le_mono2)
  finally show "2 * (dn m * ?mv) \<le> ?b * dn (ob_borrowed_value ob)" .
qed

lemma liquidation_result_Inr:
  "liquidation_result s n w = Inr res \<longleftrightarrow>
     res = \<lparr>cl_settle_amount = s, cl_repay_amount = n, cl_withdraw_amount = w\<rparr>"
  by (auto simp: liquidation_result_def)

lemma liquidate_close_out_bounds:
  assumes "liquidate_close_out bonus mx l c = Inr res" and "mx \<le> ol_borrowed_amount_wads l"
  shows "cl_settle_amount res \<le> ol_borrowed_amount_wads l \<and>
    cl_withdraw_amount res \<le> oc_deposited_amount c \<and>
    wad * unat (cl_repay_amount res) < dn (cl_settle_amount res) + wad"
proof -
  let ?b = "ol_borrowed_amount_wads l" and ?m = "oc_market_value c" and ?d = "oc_deposited_amount c"
  from assms(1) obtain v where run: "(if v > ?m then
        attempt (Decimal_try_div ?m v) (\<lambda>p. attempt (Decimal_try_mul mx p) (\<lambda>p.
        attempt (Decimal_try_ceil_u64 p) (\<lambda>n. liquidation_result ?b n ?d)))
      else if v = ?m then attempt (Decimal_try_ceil_u64 mx) (\<lambda>n. liquidation_result ?b n ?d)
      else attempt (Decimal_try_div v ?m) (\<lambda>p. attempt (Decimal_try_floor_u64 mx) (\<lambda>n.
        attempt (Decimal_try_mul (Decimal_from_u64 ?d) p) (\<lambda>w.
        attempt (Decimal_try_floor_u64 w) (\<lambda>w. liquidation_result ?b n w))))) = Inr res"
    unfolding liquidate_close_out_def Let_def by (elim peel)
  consider "v > ?m" | "v = ?m" | "v < ?m" by fastforce
  then show ?thesis
  proof cases
    case 1
    with run obtain q p n where q: "Decimal_try_div ?m v = Inr q" "Decimal_try_mul mx q = Inr p"
      "Decimal_try_ceil_u64 p = Inr n" and res: "res = \<lparr>cl_settle_amount = ?b, cl_repay_amount = n, cl_withdraw_amount = ?d\<rparr>"
      by (auto simp: res_simps liquidation_result_Inr)
    have "p \<le> mx" by (rule Decimal_mul_le [OF q(2)], rule Decimal_div_le_one [OF q(1)]) (use 1 in simp)
    then have "p \<le> ?b" using assms(2) by (rule order_trans)
    from Decimal_ceil_mono [OF q(3) this] show ?thesis by (simp add: res)
  next
    case 2
    with run show ?thesis
      using Decimal_ceil_mono [OF _ assms(2)] by (auto simp: res_simps liquidation_result_Inr)
  next
    case 3
    then have "\<not> ?m < v" "v \<noteq> ?m" by auto
    with run obtain p n w x where p: "Decimal_try_div v ?m = Inr p" "Decimal_try_floor_u64 mx = Inr n"
      "Decimal_try_mul (Decimal_from_u64 ?d) p = Inr w" "Decimal_try_floor_u64 w = Inr x"
      and res: "res = \<lparr>cl_settle_amount = ?b, cl_repay_amount = n, cl_withdraw_amount = x\<rparr>"
      by (auto simp: res_simps liquidation_result_Inr)
    show ?thesis
      using withdraw_share_le [OF p(1) 3 p(3,4)] Decimal_floor_mono [OF p(2) assms(2)] by (simp add: res)
  qed
qed

lemma liquidate_partially_bounds:
  assumes "liquidate_partially bonus mx ob l c = Inr res" and "mx \<le> ol_borrowed_amount_wads l"
  shows "cl_settle_amount res \<le> ol_borrowed_amount_wads l \<and>
    cl_withdraw_amount res \<le> oc_deposited_amount c \<and>
    wad * unat (cl_repay_amount res) < dn (cl_settle_amount res) + wad \<and>
    2 * (dn (cl_settle_amount res) * dn (ol_market_value l))
      \<le> dn (ol_borrowed_amount_wads l) * dn (ob_borrowed_value ob)"
proof -
  let ?m = "oc_market_value c" and ?d = "oc_deposited_amount c"
  from assms(1) obtain mla v where mla: "max_liquidation_amount l ob = Inr mla"
    and run: "(if v > ?m then
        attempt (Decimal_try_div ?m v) (\<lambda>p. attempt (Decimal_try_mul (min mla mx) p) (\<lambda>s.
        attempt (Decimal_try_ceil_u64 s) (\<lambda>n. liquidation_result s n ?d)))
      else if v = ?m then attempt (Decimal_try_ceil_u64 (min mla mx)) (\<lambda>n. liquidation_result (min mla mx) n ?d)
      else attempt (Decimal_try_div v ?m) (\<lambda>p. attempt (Decimal_try_floor_u64 (min mla mx)) (\<lambda>n.
        attempt (Decimal_try_mul (Decimal_from_u64 ?d) p) (\<lambda>w.
        attempt (Decimal_try_floor_u64 w) (\<lambda>w. liquidation_result (min mla mx) n w))))) = Inr res"
    unfolding liquidate_partially_def Let_def by (elim peel)
  note ml = max_liquidation_amount_Inr [OF mla]
  have half: "2 * (dn s * dn (ol_market_value l)) \<le> dn (ol_borrowed_amount_wads l) * dn (ob_borrowed_value ob)"
    if "s \<le> min mla mx" for s
  proof -
    have "dn s * dn (ol_market_value l) \<le> dn mla * dn (ol_market_value l)"
      using that by (intro mult_le_mono1) (simp add: Decimal_le_iff [symmetric])
    then show ?thesis using ml(2) by linarith
  qed
  have le: "s \<le> ol_borrowed_amount_wads l" if "s \<le> min mla mx" for s using that ml(1) order_trans [of s mla] by simp
  consider "v > ?m" | "v = ?m" | "v < ?m" by fastforce
  then show ?thesis
  proof cases
    case 1
    with run obtain q s n where q: "Decimal_try_div ?m v = Inr q" "Decimal_try_mul (min mla mx) q = Inr s"
      "Decimal_try_ceil_u64 s = Inr n" and res: "res = \<lparr>cl_settle_amount = s, cl_repay_amount = n, cl_withdraw_amount = ?d\<rparr>"
      by (auto simp: res_simps liquidation_result_Inr)
    have s: "s \<le> min mla mx" by (rule Decimal_mul_le [OF q(2)], rule Decimal_div_le_one [OF q(1)]) (use 1 in simp)
    show ?thesis using le [OF s] half [OF s] Decimal_ceil_mono [OF q(3) order_refl] by (simp add: res)
  next
    case 2
    with run obtain n where n: "Decimal_try_ceil_u64 (min mla mx) = Inr n"
      and res: "res = \<lparr>cl_settle_amount = min mla mx, cl_repay_amount = n, cl_withdraw_amount = ?d\<rparr>"
      by (auto simp: res_simps liquidation_result_Inr)
    show ?thesis
      using le [OF order_refl] half [OF order_refl] Decimal_ceil_mono [OF n order_refl] unfolding res by simp
  next
    case 3
    then have "\<not> ?m < v" "v \<noteq> ?m" by auto
    with run obtain p n w x where p: "Decimal_try_div v ?m = Inr p" "Decimal_try_floor_u64 (min mla mx) = Inr n"
      "Decimal_try_mul (Decimal_from_u64 ?d) p = Inr w" "Decimal_try_floor_u64 w = Inr x"
      and res: "res = \<lparr>cl_settle_amount = min mla mx, cl_repay_amount = n, cl_withdraw_amount = x\<rparr>"
      by (auto simp: res_simps liquidation_result_Inr)
    show ?thesis
      using le [OF order_refl] half [OF order_refl] withdraw_share_le [OF p(1) 3 p(3,4)]
        Decimal_floor_mono [OF p(2) order_refl] unfolding res by simp
  qed
qed

text \<open>C23: a liquidation settles at most the debt, takes at most the deposited collateral, charges the
  liquidator at most the settled amount rounded up, and, unless the debt is so small that it may be
  closed out, settles a share of the debt worth at most half of the obligation's borrowed value.\<close>

theorem liquidation_bounds:
  assumes "calculate_liquidation amt ob l c r = Inr res"
  shows "cl_settle_amount res \<le> ol_borrowed_amount_wads l \<and>
    cl_withdraw_amount res \<le> oc_deposited_amount c \<and>
    wad * unat (cl_repay_amount res) < dn (cl_settle_amount res) + wad \<and>
    (Decimal_from_u64 LIQUIDATION_CLOSE_AMOUNT \<le> ol_borrowed_amount_wads l \<longrightarrow>
       2 * (dn (cl_settle_amount res) * dn (ol_market_value l))
         \<le> dn (ol_borrowed_amount_wads l) * dn (ob_borrowed_value ob))"
proof -
  let ?mx = "if amt = U64_MAX then ol_borrowed_amount_wads l
    else min (Decimal_from_u64 amt) (ol_borrowed_amount_wads l)"
  have mx: "?mx \<le> ol_borrowed_amount_wads l" by simp
  from assms obtain bonus where run:
    "(if ol_borrowed_amount_wads l < Decimal_from_u64 LIQUIDATION_CLOSE_AMOUNT
      then liquidate_close_out bonus ?mx l c else liquidate_partially bonus ?mx ob l c) = Inr res"
    unfolding calculate_liquidation_def Let_def by (elim peel)
  show ?thesis
  proof (cases "ol_borrowed_amount_wads l < Decimal_from_u64 LIQUIDATION_CLOSE_AMOUNT")
    case True
    then show ?thesis using run liquidate_close_out_bounds [OF _ mx] by (auto simp: not_less [symmetric])
  next
    case False
    then show ?thesis using run liquidate_partially_bounds [OF _ mx] by simp
  qed
qed

definition example_obligation :: Obligation where
  "example_obligation =
     \<lparr>ob_version = 1, ob_last_update = \<lparr>lu_slot = 7, lu_stale = False\<rparr>, ob_lending_market = 40, ob_owner = 50,
      ob_deposits = [\<lparr>oc_deposit_reserve = 60, oc_deposited_amount = 200, oc_market_value = Decimal (4 * Decimal_wad)\<rparr>],
      ob_borrows = [\<lparr>ol_borrow_reserve = 61, ol_cumulative_borrow_rate_wads = Decimal_one,
                     ol_borrowed_amount_wads = Decimal (100 * Decimal_wad), ol_market_value = Decimal (2 * Decimal_wad)\<rparr>],
      ob_deposited_value = Decimal (4 * Decimal_wad), ob_borrowed_value = Decimal (2 * Decimal_wad),
      ob_allowed_borrow_value = Decimal (2 * Decimal_wad), ob_unhealthy_borrow_value = Decimal (2 * Decimal_wad)\<rparr>"

theorem liquidation_bounds_witness:
  "\<exists>res. calculate_liquidation 30 example_obligation (ob_borrows example_obligation ! 0)
       (ob_deposits example_obligation ! 0) example_reserve = Inr res \<and>
     cl_settle_amount res \<le> Decimal (100 * Decimal_wad) \<and> cl_withdraw_amount res \<le> 200"
proof -
  have "\<exists>res. calculate_liquidation 30 example_obligation (ob_borrows example_obligation ! 0)
       (ob_deposits example_obligation ! 0) example_reserve = Inr res"
    by (simp add: calculate_liquidation_def liquidate_partially_def max_liquidation_amount_def example_obligation_def
        liquidation_result_def math_eval Let_def U64_MAX_def LIQUIDATION_CLOSE_AMOUNT_def LIQUIDATION_CLOSE_FACTOR_def)
  then obtain res where r: "calculate_liquidation 30 example_obligation (ob_borrows example_obligation ! 0)
       (ob_deposits example_obligation ! 0) example_reserve = Inr res" by blast
  from liquidation_bounds [OF r] have "cl_settle_amount res \<le> Decimal (100 * Decimal_wad)"
    "cl_withdraw_amount res \<le> 200" by (simp_all add: example_obligation_def)
  with r show ?thesis by blast
qed

end
