(* ===== verification/Lending_Protocol.thy ===== *)
theory Lending_Protocol
  imports Lending_Book Lending_Risk
begin

text \<open>
  The lending protocol on the book: one rule per operation, with the permission it needs, and the
  invariant that every rule keeps.  \<open>S\<close> is the set of keys that signed and \<open>slot\<close> the
  current slot.
\<close>

section \<open>Entries of an obligation\<close>

text \<open>
  The deposits and the borrows of an obligation are lists of entries with distinct reserve keys:
  looked up by key, appended when the key is new, updated and removed by index.
\<close>

locale keyed_entries =
  fixes key :: "'a \<Rightarrow> pubkey"
    and new_entry :: "pubkey \<Rightarrow> 'a"
  assumes key_new [simp]: "key (new_entry k) = k"
begin

lemma position_Some:
  "position (\<lambda>x. key x = k) xs = Some i \<Longrightarrow> i < length xs \<and> key (xs ! i) = k"
proof (induction xs arbitrary: i)
  case (Cons x xs)
  then show ?case by (auto split: if_splits)
qed simp

lemma position_None: "position (\<lambda>x. key x = k) xs = None \<longleftrightarrow> k \<notin> key ` set xs"
  by (induction xs) auto

lemma distinct_push:
  "distinct (map key xs) \<Longrightarrow> position (\<lambda>x. key x = k) xs = None \<Longrightarrow> distinct (map key (xs @ [new_entry k]))"
  by (simp add: position_None)

lemma map_key_update: "key x = key (xs ! i) \<Longrightarrow> map key (xs[i := x]) = map key xs"
  by (cases "i < length xs") (simp_all add: map_update list_update_same_conv list_update_beyond)

lemma distinct_remove: "distinct (map key xs) \<Longrightarrow> distinct (map key (vec_remove i xs))"
proof -
  assume d: "distinct (map key xs)"
  have "map key (vec_remove i xs) = take i (map key xs) @ drop (Suc i) (map key xs)"
    by (simp add: vec_remove_def take_map drop_map)
  moreover have "set (take i (map key xs)) \<inter> set (drop (Suc i) (map key xs)) = {}"
    using d set_take_disj_set_drop_if_distinct [of "map key xs" i "Suc i"] by simp
  ultimately show ?thesis using d by simp
qed

lemma length_remove: "i < length xs \<Longrightarrow> length (vec_remove i xs) = length xs - 1"
  by (simp add: vec_remove_def)

end

interpretation deposits: keyed_entries oc_deposit_reserve ObligationCollateral_new
  by unfold_locales (simp add: ObligationCollateral_new_def)

interpretation borrows: keyed_entries ol_borrow_reserve ObligationLiquidity_new
  by unfold_locales (simp add: ObligationLiquidity_new_def)

text \<open>The shape every stored obligation has; it makes the obligation fit its account.\<close>

definition obligation_shape :: "Obligation \<Rightarrow> bool" where
  "obligation_shape ob \<longleftrightarrow>
     distinct (map oc_deposit_reserve (ob_deposits ob)) \<and> distinct (map ol_borrow_reserve (ob_borrows ob)) \<and>
     length (ob_deposits ob) + length (ob_borrows ob) \<le> MAX_OBLIGATION_RESERVES \<and>
     length (ob_borrows ob) < MAX_OBLIGATION_RESERVES"

lemma shape_fits: "obligation_shape ob \<Longrightarrow> obligation_fits ob"
  by (simp add: obligation_shape_def obligation_fits_def MAX_OBLIGATION_RESERVES_def)

lemma find_or_add_collateral_Inr:
  assumes "find_or_add_collateral_to_deposits k ob = Inr (ob', i)"
  obtains "ob' = ob" "i < length (ob_deposits ob)" "oc_deposit_reserve (ob_deposits ob ! i) = k"
  | "ob' = ob\<lparr>ob_deposits := ob_deposits ob @ [ObligationCollateral_new k]\<rparr>" "i = length (ob_deposits ob)"
    "position (\<lambda>c. oc_deposit_reserve c = k) (ob_deposits ob) = None"
    "length (ob_deposits ob) + length (ob_borrows ob) < MAX_OBLIGATION_RESERVES"
  using assms deposits.position_Some [of k "ob_deposits ob"]
  by (auto simp: find_or_add_collateral_to_deposits_def find_collateral_index_in_deposits_def
      split: option.splits if_splits)

lemma find_or_add_liquidity_Inr:
  assumes "find_or_add_liquidity_to_borrows k ob = Inr (ob', i)"
  obtains "ob' = ob" "i < length (ob_borrows ob)" "ol_borrow_reserve (ob_borrows ob ! i) = k"
  | "ob' = ob\<lparr>ob_borrows := ob_borrows ob @ [ObligationLiquidity_new k]\<rparr>" "i = length (ob_borrows ob)"
    "position (\<lambda>l. ol_borrow_reserve l = k) (ob_borrows ob) = None"
    "length (ob_deposits ob) + length (ob_borrows ob) < MAX_OBLIGATION_RESERVES"
  using assms borrows.position_Some [of k "ob_borrows ob"]
  by (auto simp: find_or_add_liquidity_to_borrows_def find_liquidity_index_in_borrows_def
      split: option.splits if_splits)

lemma find_collateral_Inr:
  assumes "find_collateral_in_deposits k ob = Inr (c, i)"
  shows "i < length (ob_deposits ob) \<and> c = ob_deposits ob ! i \<and> oc_deposit_reserve c = k"
  using assms deposits.position_Some [of k "ob_deposits ob"]
  by (auto simp: find_collateral_in_deposits_def find_collateral_index_in_deposits_def res_simps)

lemma find_liquidity_Inr:
  assumes "find_liquidity_in_borrows k ob = Inr (l, i)"
  shows "i < length (ob_borrows ob) \<and> l = ob_borrows ob ! i \<and> ol_borrow_reserve l = k"
  using assms borrows.position_Some [of k "ob_borrows ob"]
  by (auto simp: find_liquidity_in_borrows_def find_liquidity_index_in_borrows_def res_simps)

section \<open>Steps\<close>

definition is_fresh :: "LastUpdate \<Rightarrow> u64 \<Rightarrow> bool" where
  "is_fresh lu slot \<longleftrightarrow> \<not> lu_stale lu \<and> lu_slot lu = slot"

lemma is_stale_False: "is_stale lu slot = Inr False \<longleftrightarrow> is_fresh lu slot"
  by (auto simp: is_stale_def is_fresh_def slots_elapsed_def checked_sub_def STALE_AFTER_SLOTS_ELAPSED_def ok_or_def
      not_le word_less_nat_alt word_le_nat_alt unat_sub word_unat_eq_iff)

lemma check_fresh_Inr: "check_fresh lu clk e = Inr u \<longleftrightarrow> is_fresh lu (clock_slot clk)"
  by (auto simp: check_fresh_def res_simps is_stale_False [symmetric])

text \<open>What no operation changes in a reserve: its market, its configuration and its addresses.\<close>

definition reserve_kept :: "Reserve \<Rightarrow> Reserve \<Rightarrow> bool" where
  "reserve_kept r r' \<longleftrightarrow>
     rs_version r' = rs_version r \<and> rs_lending_market r' = rs_lending_market r \<and> rs_config r' = rs_config r \<and>
     rl_mint_pubkey (rs_liquidity r') = rl_mint_pubkey (rs_liquidity r) \<and>
     rl_mint_decimals (rs_liquidity r') = rl_mint_decimals (rs_liquidity r) \<and>
     rl_supply_pubkey (rs_liquidity r') = rl_supply_pubkey (rs_liquidity r) \<and>
     rl_fee_receiver (rs_liquidity r') = rl_fee_receiver (rs_liquidity r) \<and>
     rl_oracle_pubkey (rs_liquidity r') = rl_oracle_pubkey (rs_liquidity r) \<and>
     rc_mint_pubkey (rs_collateral r') = rc_mint_pubkey (rs_collateral r) \<and>
     rc_supply_pubkey (rs_collateral r') = rc_supply_pubkey (rs_collateral r)"

text \<open>What a refresh makes of an obligation: every entry revalued at its fresh reserve, and the totals.\<close>

definition revalued_deposit :: "book \<Rightarrow> u64 \<Rightarrow> ObligationCollateral \<Rightarrow> ObligationCollateral \<Rightarrow> bool" where
  "revalued_deposit b slot c c' \<longleftrightarrow>
     (\<exists>r v. bk_reserves b (oc_deposit_reserve c) = Some r \<and> is_fresh (rs_last_update r) slot \<and>
            collateral_market_value r (oc_deposited_amount c) = Inr v \<and> c' = c\<lparr>oc_market_value := v\<rparr>)"

definition revalued_borrow :: "book \<Rightarrow> u64 \<Rightarrow> ObligationLiquidity \<Rightarrow> ObligationLiquidity \<Rightarrow> bool" where
  "revalued_borrow b slot l l' \<longleftrightarrow>
     (\<exists>r l1 v. bk_reserves b (ol_borrow_reserve l) = Some r \<and> is_fresh (rs_last_update r) slot \<and>
            ObligationLiquidity_accrue_interest (rl_cumulative_borrow_rate_wads (rs_liquidity r)) l = Inr l1 \<and>
            liquidity_market_value r (ol_borrowed_amount_wads l1) = Inr v \<and> l' = l1\<lparr>ol_market_value := v\<rparr>)"

text \<open>The part of a deposit's value that counts at a percentage of the reserve's configuration.\<close>

definition counted :: "book \<Rightarrow> (ReserveConfig \<Rightarrow> u8) \<Rightarrow> ObligationCollateral \<Rightarrow> nat" where
  "counted b pct c =
     (case bk_reserves b (oc_deposit_reserve c) of
        Some r \<Rightarrow> dn (oc_market_value c) * rn (Rate_from_percent (pct (rs_config r))) div wad
      | None \<Rightarrow> 0)"

definition refreshed :: "book \<Rightarrow> u64 \<Rightarrow> Obligation \<Rightarrow> Obligation \<Rightarrow> bool" where
  "refreshed b slot ob ob' \<longleftrightarrow>
     list_all2 (revalued_deposit b slot) (ob_deposits ob) (ob_deposits ob') \<and>
     list_all2 (revalued_borrow b slot) (ob_borrows ob) (ob_borrows ob') \<and>
     dn (ob_deposited_value ob') = sum_list (map (\<lambda>c. dn (oc_market_value c)) (ob_deposits ob')) \<and>
     dn (ob_allowed_borrow_value ob') = sum_list (map (counted b cf_loan_to_value_ratio) (ob_deposits ob')) \<and>
     dn (ob_unhealthy_borrow_value ob') = sum_list (map (counted b cf_liquidation_threshold) (ob_deposits ob')) \<and>
     dn (ob_borrowed_value ob') = sum_list (map (\<lambda>l. dn (ol_market_value l)) (ob_borrows ob')) \<and>
     is_fresh (ob_last_update ob') slot \<and>
     ob_version ob' = ob_version ob \<and> ob_lending_market ob' = ob_lending_market ob \<and> ob_owner ob' = ob_owner ob"

definition stale_obligation :: "Obligation \<Rightarrow> Obligation" where
  "stale_obligation ob = ob\<lparr>ob_last_update := mark_stale (ob_last_update ob)\<rparr>"

definition stale_reserve :: "Reserve \<Rightarrow> Reserve" where
  "stale_reserve r = r\<lparr>rs_last_update := mark_stale (rs_last_update r)\<rparr>"

inductive book_step :: "pubkey set \<Rightarrow> u64 \<Rightarrow> book \<Rightarrow> book \<Rightarrow> bool" for S slot where
  idle: "book_step S slot b b"
| open_market:
    "bk_markets b k = None \<Longrightarrow> book_step S slot b (b\<lparr>bk_markets := (bk_markets b)(k \<mapsto> m)\<rparr>)"
| change_owner:
    "bk_markets b k = Some m \<Longrightarrow> lm_owner m \<in> S \<Longrightarrow>
     book_step S slot b (b\<lparr>bk_markets := (bk_markets b)(k \<mapsto> m\<lparr>lm_owner := w\<rparr>)\<rparr>)"
| open_reserve:
    "bk_reserves b k = None \<Longrightarrow> bk_markets b (rs_lending_market r) = Some m \<Longrightarrow> lm_owner m \<in> S \<Longrightarrow>
     validate_reserve_config n (rs_config r) = Inr () \<Longrightarrow>
     book_step S slot b (b\<lparr>bk_reserves := (bk_reserves b)(k \<mapsto> r)\<rparr>)"
| update_reserve:
    "bk_reserves b k = Some r \<Longrightarrow> reserve_kept r r' \<Longrightarrow>
     book_step S slot b (b\<lparr>bk_reserves := (bk_reserves b)(k \<mapsto> r')\<rparr>)"
| open_obligation:
    "bk_obligations b k = None \<Longrightarrow> ob_owner ob \<in> S \<Longrightarrow> ob_deposits ob = [] \<Longrightarrow> ob_borrows ob = [] \<Longrightarrow>
     lu_stale (ob_last_update ob) \<Longrightarrow>
     book_step S slot b (b\<lparr>bk_obligations := (bk_obligations b)(k \<mapsto> ob)\<rparr>)"
| refresh:
    "bk_obligations b k = Some ob \<Longrightarrow> refreshed b slot ob ob' \<Longrightarrow>
     book_step S slot b (b\<lparr>bk_obligations := (bk_obligations b)(k \<mapsto> ob')\<rparr>)"
| deposit:
    "bk_obligations b k = Some ob \<Longrightarrow> ob_owner ob \<in> S \<Longrightarrow>
     find_or_add_collateral_to_deposits rk ob = Inr (ob1, i) \<Longrightarrow>
     ObligationCollateral_deposit n (ob_deposits ob1 ! i) = Inr c \<Longrightarrow>
     book_step S slot b
       (b\<lparr>bk_obligations := (bk_obligations b)(k \<mapsto> stale_obligation (ob1\<lparr>ob_deposits := (ob_deposits ob1)[i := c]\<rparr>))\<rparr>)"
| take_out:
    "bk_obligations b k = Some ob \<Longrightarrow> ob_owner ob \<in> S \<Longrightarrow> is_fresh (ob_last_update ob) slot \<Longrightarrow>
     bk_reserves b rk = Some r \<Longrightarrow> is_fresh (rs_last_update r) slot \<Longrightarrow>
     find_collateral_in_deposits rk ob = Inr (c, i) \<Longrightarrow> compute_withdraw_amount n r ob c = Inr w \<Longrightarrow>
     Obligation_withdraw w i ob = Inr ob' \<Longrightarrow>
     book_step S slot b (b\<lparr>bk_obligations := (bk_obligations b)(k \<mapsto> stale_obligation ob')\<rparr>)"
| borrow:
    "bk_obligations b k = Some ob \<Longrightarrow> ob_owner ob \<in> S \<Longrightarrow> is_fresh (ob_last_update ob) slot \<Longrightarrow> ob_deposits ob \<noteq> [] \<Longrightarrow>
     bk_reserves b rk = Some r \<Longrightarrow> is_fresh (rs_last_update r) slot \<Longrightarrow>
     remaining_borrow_value ob = Inr remaining \<Longrightarrow> calculate_borrow n remaining r = Inr cb \<Longrightarrow>
     ReserveLiquidity_borrow (cb_borrow_amount cb) (rs_liquidity r) = Inr l \<Longrightarrow>
     find_or_add_liquidity_to_borrows rk ob = Inr (ob1, i) \<Longrightarrow>
     ObligationLiquidity_borrow (cb_borrow_amount cb) (ob_borrows ob1 ! i) = Inr ol \<Longrightarrow>
     book_step S slot b
       (b\<lparr>bk_reserves := (bk_reserves b)(rk \<mapsto> stale_reserve (r\<lparr>rs_liquidity := l\<rparr>)),
          bk_obligations := (bk_obligations b)(k \<mapsto> stale_obligation (ob1\<lparr>ob_borrows := (ob_borrows ob1)[i := ol]\<rparr>))\<rparr>)"
| repay:
    "bk_obligations b k = Some ob \<Longrightarrow> is_fresh (ob_last_update ob) slot \<Longrightarrow>
     bk_reserves b rk = Some r \<Longrightarrow> is_fresh (rs_last_update r) slot \<Longrightarrow>
     find_liquidity_in_borrows rk ob = Inr (ol, i) \<Longrightarrow>
     calculate_repay n (ol_borrowed_amount_wads ol) = Inr cr \<Longrightarrow>
     ReserveLiquidity_repay (cr_repay_amount cr) (cr_settle_amount cr) (rs_liquidity r) = Inr l \<Longrightarrow>
     Obligation_repay (cr_settle_amount cr) i ob = Inr ob' \<Longrightarrow>
     book_step S slot b
       (b\<lparr>bk_reserves := (bk_reserves b)(rk \<mapsto> stale_reserve (r\<lparr>rs_liquidity := l\<rparr>)),
          bk_obligations := (bk_obligations b)(k \<mapsto> stale_obligation ob')\<rparr>)"
| liquidate:
    "bk_obligations b k = Some ob \<Longrightarrow> is_fresh (ob_last_update ob) slot \<Longrightarrow>
     ob_unhealthy_borrow_value ob \<le> ob_borrowed_value ob \<Longrightarrow> ob_borrowed_value ob \<noteq> Decimal_zero \<Longrightarrow>
     bk_reserves b rk = Some r \<Longrightarrow> is_fresh (rs_last_update r) slot \<Longrightarrow>
     bk_reserves b wk = Some wr \<Longrightarrow> is_fresh (rs_last_update wr) slot \<Longrightarrow>
     find_liquidity_in_borrows rk ob = Inr (ol, i) \<Longrightarrow> find_collateral_in_deposits wk ob = Inr (c, j) \<Longrightarrow>
     calculate_liquidation n ob ol c wr = Inr cl \<Longrightarrow>
     ReserveLiquidity_repay (cl_repay_amount cl) (cl_settle_amount cl) (rs_liquidity r) = Inr l \<Longrightarrow>
     Obligation_repay (cl_settle_amount cl) i ob = Inr ob1 \<Longrightarrow>
     Obligation_withdraw (cl_withdraw_amount cl) j ob1 = Inr ob2 \<Longrightarrow>
     book_step S slot b
       (b\<lparr>bk_reserves := (bk_reserves b)(rk \<mapsto> stale_reserve (r\<lparr>rs_liquidity := l\<rparr>)),
          bk_obligations := (bk_obligations b)(k \<mapsto> stale_obligation ob2)\<rparr>)"

inductive_cases book_stepE: "book_step S slot b b'"

section \<open>The invariant\<close>

definition config_valid :: "ReserveConfig \<Rightarrow> bool" where
  "config_valid cf \<longleftrightarrow> validate_reserve_config 1 cf = Inr ()"

definition valuation_ordered :: "Obligation \<Rightarrow> bool" where
  "valuation_ordered ob \<longleftrightarrow>
     lu_stale (ob_last_update ob) \<or>
     ob_allowed_borrow_value ob \<le> ob_unhealthy_borrow_value ob \<and> ob_unhealthy_borrow_value ob \<le> ob_deposited_value ob"

definition book_ok :: "book \<Rightarrow> bool" where
  "book_ok b \<longleftrightarrow> (\<forall>k r. bk_reserves b k = Some r \<longrightarrow> config_valid (rs_config r)) \<and>
     (\<forall>k ob. bk_obligations b k = Some ob \<longrightarrow> obligation_shape ob \<and> valuation_ordered ob)"

lemma validate_config_valid: "validate_reserve_config n cf = Inr () \<Longrightarrow> config_valid cf"
  by (simp add: config_valid_def validate_reserve_config_def split: if_splits)

lemma config_valid_bounds:
  assumes "config_valid cf"
  shows "config_ok cf" and "cf_loan_to_value_ratio cf < cf_liquidation_threshold cf"
    and "unat (cf_liquidation_threshold cf) \<le> 100" and "unat (rf_host_fee_percentage (cf_fees cf)) \<le> 100"
  using assms
  by (auto simp: config_valid_def validate_reserve_config_def config_ok_def not_less not_le word_le_nat_alt
      word_less_nat_alt split: if_splits)

lemma Obligation_withdraw_Inr:
  assumes "Obligation_withdraw n i ob = Inr ob'"
  obtains "i < length (ob_deposits ob)" "n = oc_deposited_amount (ob_deposits ob ! i)"
    "ob' = ob\<lparr>ob_deposits := vec_remove i (ob_deposits ob)\<rparr>"
  | c where "i < length (ob_deposits ob)" "unat n \<le> unat (oc_deposited_amount (ob_deposits ob ! i))"
    "c = (ob_deposits ob ! i)\<lparr>oc_deposited_amount := oc_deposited_amount (ob_deposits ob ! i) - n\<rparr>"
    "ob' = ob\<lparr>ob_deposits := (ob_deposits ob)[i := c]\<rparr>"
  using assms
  by (auto simp: Obligation_withdraw_def Let_def ObligationCollateral_withdraw_def checked_sub_def ok_or_def
      split: if_splits)

lemma Obligation_repay_Inr:
  assumes "Obligation_repay n i ob = Inr ob'"
  obtains "i < length (ob_borrows ob)" "n = ol_borrowed_amount_wads (ob_borrows ob ! i)"
    "ob' = ob\<lparr>ob_borrows := vec_remove i (ob_borrows ob)\<rparr>"
  | d where "i < length (ob_borrows ob)" "Decimal_try_sub (ol_borrowed_amount_wads (ob_borrows ob ! i)) n = Inr d"
    "ob' = ob\<lparr>ob_borrows := (ob_borrows ob)[i := (ob_borrows ob ! i)\<lparr>ol_borrowed_amount_wads := d\<rparr>]\<rparr>"
  using assms
  by (auto simp: Obligation_repay_def Let_def ObligationLiquidity_repay_def res_simps split: if_splits)

lemma withdraw_shape: "Obligation_withdraw n i ob = Inr ob' \<Longrightarrow> obligation_shape ob \<Longrightarrow> obligation_shape ob'"
  by (erule Obligation_withdraw_Inr)
    (auto simp: obligation_shape_def deposits.distinct_remove deposits.length_remove deposits.map_key_update)

lemma repay_shape: "Obligation_repay n i ob = Inr ob' \<Longrightarrow> obligation_shape ob \<Longrightarrow> obligation_shape ob'"
  by (erule Obligation_repay_Inr)
    (auto simp: obligation_shape_def borrows.distinct_remove borrows.length_remove borrows.map_key_update)

lemma deposit_shape:
  assumes "find_or_add_collateral_to_deposits rk ob = Inr (ob1, i)" and "obligation_shape ob"
    and "ObligationCollateral_deposit n (ob_deposits ob1 ! i) = Inr c"
  shows "obligation_shape (ob1\<lparr>ob_deposits := (ob_deposits ob1)[i := c]\<rparr>)"
proof -
  have "oc_deposit_reserve c = oc_deposit_reserve (ob_deposits ob1 ! i)"
    using assms(3) by (auto simp: ObligationCollateral_deposit_def res_simps)
  then have "map oc_deposit_reserve ((ob_deposits ob1)[i := c]) = map oc_deposit_reserve (ob_deposits ob1)"
    by (rule deposits.map_key_update)
  moreover have "obligation_shape ob1"
    using assms(1)
  proof (cases rule: find_or_add_collateral_Inr)
    case 2
    then show ?thesis using assms(2) deposits.distinct_push [of "ob_deposits ob" rk] by (simp add: obligation_shape_def)
  qed (use assms(2) in simp)
  ultimately show ?thesis by (simp add: obligation_shape_def)
qed

lemma borrow_shape:
  assumes "find_or_add_liquidity_to_borrows rk ob = Inr (ob1, i)" and "obligation_shape ob" and "ob_deposits ob \<noteq> []"
    and "ObligationLiquidity_borrow n (ob_borrows ob1 ! i) = Inr l"
  shows "obligation_shape (ob1\<lparr>ob_borrows := (ob_borrows ob1)[i := l]\<rparr>)"
proof -
  have "ol_borrow_reserve l = ol_borrow_reserve (ob_borrows ob1 ! i)"
    using assms(4) by (auto simp: ObligationLiquidity_borrow_def res_simps)
  then have "map ol_borrow_reserve ((ob_borrows ob1)[i := l]) = map ol_borrow_reserve (ob_borrows ob1)"
    by (rule borrows.map_key_update)
  moreover have "obligation_shape ob1"
    using assms(1)
  proof (cases rule: find_or_add_liquidity_Inr)
    case 2
    then show ?thesis
      using assms(2,3) borrows.distinct_push [of "ob_borrows ob" rk]
      by (cases "ob_deposits ob") (simp_all add: obligation_shape_def)
  qed (use assms(2) in simp)
  ultimately show ?thesis by (simp add: obligation_shape_def)
qed

lemma stale_shape [simp]: "obligation_shape (stale_obligation ob) = obligation_shape ob"
  by (simp add: obligation_shape_def stale_obligation_def)

lemma stale_valuation [simp]: "valuation_ordered (stale_obligation ob)"
  by (simp add: valuation_ordered_def stale_obligation_def mark_stale_def)

lemma accrue_key:
  "ObligationLiquidity_accrue_interest rate l = Inr l' \<Longrightarrow> ol_borrow_reserve l' = ol_borrow_reserve l"
  by (auto simp: ObligationLiquidity_accrue_interest_def res_simps split: if_splits)

lemma refreshed_keys:
  assumes "refreshed b slot ob ob'"
  shows "map oc_deposit_reserve (ob_deposits ob') = map oc_deposit_reserve (ob_deposits ob)"
    and "map oc_deposited_amount (ob_deposits ob') = map oc_deposited_amount (ob_deposits ob)"
    and "map ol_borrow_reserve (ob_borrows ob') = map ol_borrow_reserve (ob_borrows ob)"
proof -
  have "list_all2 (revalued_deposit b slot) (ob_deposits ob) (ob_deposits ob')"
    using assms by (simp add: refreshed_def)
  then show "map oc_deposit_reserve (ob_deposits ob') = map oc_deposit_reserve (ob_deposits ob)"
    and "map oc_deposited_amount (ob_deposits ob') = map oc_deposited_amount (ob_deposits ob)"
    by (induction rule: list_all2_induct) (auto simp: revalued_deposit_def)
  have "list_all2 (revalued_borrow b slot) (ob_borrows ob) (ob_borrows ob')"
    using assms by (simp add: refreshed_def)
  then show "map ol_borrow_reserve (ob_borrows ob') = map ol_borrow_reserve (ob_borrows ob)"
    by (induction rule: list_all2_induct) (auto simp: revalued_borrow_def accrue_key)
qed

lemma refreshed_shape: "refreshed b slot ob ob' \<Longrightarrow> obligation_shape ob \<Longrightarrow> obligation_shape ob'"
  using refreshed_keys [of b slot ob ob'] by (simp add: obligation_shape_def) (metis length_map)

lemma counted_ordered:
  assumes "\<And>r. bk_reserves b (oc_deposit_reserve c) = Some r \<Longrightarrow> config_valid (rs_config r)"
  shows "counted b cf_loan_to_value_ratio c \<le> counted b cf_liquidation_threshold c"
    and "counted b cf_liquidation_threshold c \<le> dn (oc_market_value c)"
proof -
  have "counted b cf_loan_to_value_ratio c \<le> counted b cf_liquidation_threshold c \<and>
    counted b cf_liquidation_threshold c \<le> dn (oc_market_value c)"
  proof (cases "bk_reserves b (oc_deposit_reserve c)")
    case (Some r)
    let ?cf = "rs_config r" and ?v = "dn (oc_market_value c)"
    note cf = config_valid_bounds [OF assms [OF Some]]
    have "rn (Rate_from_percent (cf_loan_to_value_ratio ?cf)) \<le> rn (Rate_from_percent (cf_liquidation_threshold ?cf))"
      using cf(2) by (simp add: word_less_nat_alt)
    moreover have "rn (Rate_from_percent (cf_liquidation_threshold ?cf)) \<le> wad" using cf(3) by simp
    ultimately have "?v * rn (Rate_from_percent (cf_loan_to_value_ratio ?cf)) div wad
        \<le> ?v * rn (Rate_from_percent (cf_liquidation_threshold ?cf)) div wad"
      "?v * rn (Rate_from_percent (cf_liquidation_threshold ?cf)) div wad \<le> ?v * wad div wad"
      by (simp_all only: div_le_mono mult_le_mono2)
    then show ?thesis by (simp add: counted_def Some)
  qed (simp add: counted_def)
  then show "counted b cf_loan_to_value_ratio c \<le> counted b cf_liquidation_threshold c"
    and "counted b cf_liquidation_threshold c \<le> dn (oc_market_value c)" by blast+
qed

lemma refreshed_valuation:
  assumes "refreshed b slot ob ob'" and "book_ok b"
  shows "valuation_ordered ob'"
proof -
  have v: "config_valid (rs_config r)" if "bk_reserves b k = Some r" for k r
    using assms(2) that by (auto simp: book_ok_def)
  have "sum_list (map (counted b cf_loan_to_value_ratio) (ob_deposits ob'))
      \<le> sum_list (map (counted b cf_liquidation_threshold) (ob_deposits ob'))"
    by (rule sum_list_mono) (rule counted_ordered(1), erule v)
  moreover have "sum_list (map (counted b cf_liquidation_threshold) (ob_deposits ob'))
      \<le> sum_list (map (\<lambda>c. dn (oc_market_value c)) (ob_deposits ob'))"
    by (rule sum_list_mono) (rule counted_ordered(2), erule v)
  ultimately show ?thesis using assms(1) by (simp add: valuation_ordered_def refreshed_def Decimal_le_iff)
qed

theorem book_step_ok: "book_step S slot b b' \<Longrightarrow> book_ok b \<Longrightarrow> book_ok b'"
proof (induction rule: book_step.induct)
  case (open_reserve b k r m n)
  then show ?case using validate_config_valid by (auto simp: book_ok_def)
next
  case (update_reserve b k r r')
  then show ?case by (auto simp: book_ok_def reserve_kept_def)
next
  case (open_obligation b k ob)
  then show ?case by (auto simp: book_ok_def obligation_shape_def valuation_ordered_def MAX_OBLIGATION_RESERVES_def)
next
  case (refresh b k ob ob')
  then show ?case using refreshed_shape [of b slot ob ob'] refreshed_valuation [of b slot ob ob'] by (auto simp: book_ok_def)
next
  case (deposit b k ob rk ob1 i n c)
  then show ?case using deposit_shape [of rk ob ob1 i n c] by (auto simp: book_ok_def)
next
  case (take_out b k ob rk r c i n w ob')
  then show ?case using withdraw_shape [of w i ob ob'] by (auto simp: book_ok_def)
next
  case (borrow b k ob rk r remaining n cb l ob1 i ol)
  then show ?case using borrow_shape [of rk ob ob1 i "cb_borrow_amount cb" ol] by (auto simp: book_ok_def stale_reserve_def)
next
  case (repay b k ob rk r ol i n cr l ob')
  then show ?case using repay_shape [of "cr_settle_amount cr" i ob ob'] by (auto simp: book_ok_def stale_reserve_def)
next
  case (liquidate b k ob rk r wk wr ol i c j n cl l ob1 ob2)
  then show ?case
    using repay_shape [of "cl_settle_amount cl" i ob ob1] withdraw_shape [of "cl_withdraw_amount cl" j ob1 ob2]
    by (auto simp: book_ok_def stale_reserve_def)
qed (auto simp: book_ok_def)

end
