(* ===== verification/Lending_Refinement.thy ===== *)
theory Lending_Refinement
  imports Lending_Protocol
begin

text \<open>
  Every successful call of the lending program is a step of the protocol on its book.  The token
  program and the flash-loan receiver are called through the runtime; what is needed of a call is
  that it does to the lending program's accounts no more than other programs may.
\<close>

section \<open>Loading and storing through the book\<close>

named_theorems load_simps \<open>successful loads, read off the book\<close>

lemma load_lending_market_Inr [load_simps]:
  "load_lending_market pid led a = Inr m \<longleftrightarrow> bk_markets (book_of pid led) (ai_key a) = Some m"
  by (auto simp: load_lending_market_def res_simps book_of_def stored_eq_Some)

lemma load_market_for_token_Inr [load_simps]:
  "load_market_for_token pid led a t = Inr m \<longleftrightarrow>
     bk_markets (book_of pid led) (ai_key a) = Some m \<and> lm_token_program_id m = ai_key t"
  by (auto simp: load_market_for_token_def res_simps load_simps)

lemma load_reserve_Inr [load_simps]:
  "load_reserve pid led a = Inr r \<longleftrightarrow> bk_reserves (book_of pid led) (ai_key a) = Some r"
  by (auto simp: load_reserve_def res_simps book_of_def stored_eq_Some)

lemma load_market_reserve_Inr [load_simps]:
  "load_market_reserve pid led mk a = Inr r \<longleftrightarrow>
     bk_reserves (book_of pid led) (ai_key a) = Some r \<and> rs_lending_market r = ai_key mk"
  by (auto simp: load_market_reserve_def res_simps load_simps)

lemma load_obligation_Inr [load_simps]:
  "load_obligation pid led a = Inr ob \<longleftrightarrow> bk_obligations (book_of pid led) (ai_key a) = Some ob"
  by (auto simp: load_obligation_def res_simps book_of_def stored_eq_Some)

lemma load_market_obligation_Inr [load_simps]:
  "load_market_obligation pid led mk a = Inr ob \<longleftrightarrow>
     bk_obligations (book_of pid led) (ai_key a) = Some ob \<and> ob_lending_market ob = ai_key mk"
  by (auto simp: load_market_obligation_def res_simps load_simps)

lemma load_refreshed_reserve_Inr [load_simps]:
  "load_refreshed_reserve pid led clk k a = Inr r \<longleftrightarrow>
     ai_key a = k \<and> bk_reserves (book_of pid led) k = Some r \<and> is_fresh (rs_last_update r) (clock_slot clk)"
  by (auto simp: load_refreshed_reserve_def res_simps check_fresh_Inr book_of_def stored_eq_Some)

lemma check_obligation_owner_Inr [load_simps]:
  "check_obligation_owner ob a = Inr u \<longleftrightarrow> ob_owner ob = ai_key a \<and> ai_is_signer a"
  by (auto simp: check_obligation_owner_def res_simps)

lemmas [load_simps] = check_fresh_Inr

lemma stored_market:
  "bk_markets (book_of pid led) k = Some m \<Longrightarrow>
     LendingMarket_wf m \<and> LendingMarket_is_initialized m \<and> acc_owner (led k) = pid"
  using market_packed.unpack_wf
  by (auto simp: book_of_def stored_eq_Some LendingMarket_unpack_def market_packed.unpack_eq_Inr)

lemma stored_reserve:
  "bk_reserves (book_of pid led) k = Some r \<Longrightarrow> Reserve_wf r \<and> Reserve_is_initialized r \<and> acc_owner (led k) = pid"
  using reserve_packed.unpack_wf
  by (auto simp: book_of_def stored_eq_Some Reserve_unpack_def reserve_packed.unpack_eq_Inr)

lemma stored_obligation:
  "bk_obligations (book_of pid led) k = Some ob \<Longrightarrow>
     Obligation_wf ob \<and> Obligation_is_initialized ob \<and> acc_owner (led k) = pid"
  using obligation_packed.unpack_wf
  by (auto simp: book_of_def stored_eq_Some Obligation_unpack_def obligation_packed.unpack_eq_Inr)

lemma restore_market:
  assumes "LendingMarket_pack m' k led = Inr led'" and "bk_markets (book_of pid led) k = Some m"
    and "lm_version m' = lm_version m" and "lm_quote_currency m' = lm_quote_currency m"
  shows "book_of pid led' = (book_of pid led)\<lparr>bk_markets := (bk_markets (book_of pid led))(k \<mapsto> m')\<rparr>"
  using stored_market [OF assms(2)] assms(3,4)
  by (intro Market_pack_book [OF assms(1)]) (simp_all add: LendingMarket_wf_def LendingMarket_is_initialized_def)

lemma restore_reserve:
  assumes "Reserve_pack r' k led = Inr led'" and "bk_reserves (book_of pid led) k = Some r"
    and "rs_version r' = rs_version r"
  shows "book_of pid led' = (book_of pid led)\<lparr>bk_reserves := (bk_reserves (book_of pid led))(k \<mapsto> r')\<rparr>"
  using stored_reserve [OF assms(2)] assms(3)
  by (intro Reserve_pack_book [OF assms(1)]) (simp_all add: Reserve_wf_def Reserve_is_initialized_def)

lemma restore_obligation:
  assumes "Obligation_pack ob' k led = Inr led'" and "bk_obligations (book_of pid led) k = Some ob"
    and "ob_version ob' = ob_version ob"
  shows "book_of pid led' = (book_of pid led)\<lparr>bk_obligations := (bk_obligations (book_of pid led))(k \<mapsto> ob')\<rparr>"
  using stored_obligation [OF assms(2)] assms(3)
  by (intro Obligation_pack_book [OF assms(1)]) (simp_all add: Obligation_wf_def Obligation_is_initialized_def)

section \<open>Cross-program invocations\<close>

text \<open>
  What the handlers rely on when they invoke another program: the runtime lets the invoked program
  act on its own accounts only, and it does not let it call back into its caller.
\<close>

locale cpi_runtime =
  fixes R :: runtime and pid :: pubkey
  assumes token_is_other: "token_program_id R \<noteq> pid"
    and invoke_other: "ix_program_id ix \<noteq> pid \<Longrightarrow> rt_invoke_signed R pid ix infos seeds led = Inr led' \<Longrightarrow>
      other_activity pid led led'"
begin

lemma invoke_book:
  "rt_invoke_signed R pid ix infos seeds led = Inr led' \<Longrightarrow> ix_program_id ix \<noteq> pid \<Longrightarrow>
     book_of pid led' = book_of pid led"
  by (rule other_activity_book [OF invoke_other])

lemma token_book:
  assumes "build R t metas i = Inr ix" and "rt_invoke_signed R pid ix infos seeds led = Inr led'"
  shows "book_of pid led' = book_of pid led"
  using assms(1) token_is_other
  by (intro invoke_book [OF assms(2)]) (auto simp: build_def check_program_account_def res_simps)

lemmas token_calls = spl_token_transfer_def spl_token_mint_to_def spl_token_burn_def spl_token_init_account_def
  spl_token_init_mint_def invoke_optionally_signed_def transfer_def mint_to_def burn_def initialize_account_def
  initialize_mint_def

lemma spl_token_book:
  "spl_token_transfer R pid a1 a2 n a3 seeds t led = Inr led' \<Longrightarrow> book_of pid led' = book_of pid led"
  "spl_token_mint_to R pid a1 a2 n a3 seeds t led = Inr led' \<Longrightarrow> book_of pid led' = book_of pid led"
  "spl_token_burn R pid a1 a2 n a3 seeds t led = Inr led' \<Longrightarrow> book_of pid led' = book_of pid led"
  "spl_token_init_account R pid a1 a2 a3 a4 t led = Inr led' \<Longrightarrow> book_of pid led' = book_of pid led"
  "spl_token_init_mint R pid a1 a2 auth d t led = Inr led' \<Longrightarrow> book_of pid led' = book_of pid led"
  by (auto simp: token_calls res_simps dest: token_book split: if_splits)

lemma pay_fees_book:
  "pay_borrow_fees R pid a1 a2 it bf hf a3 seeds t led = Inr led' \<Longrightarrow> book_of pid led' = book_of pid led"
  "pay_flash_loan_fees R pid a1 a2 a4 bf hf a3 seeds t led = Inr led' \<Longrightarrow> book_of pid led' = book_of pid led"
  by (auto simp: pay_borrow_fees_def pay_flash_loan_fees_def res_simps dest!: spl_token_book
      split: if_splits sum.splits prod.splits)

end

definition signers :: "account_info list \<Rightarrow> pubkey set" where
  "signers accounts = {ai_key a |a. a \<in> set accounts \<and> ai_is_signer a}"

lemma set_owner_step:
  assumes "process_set_lending_market_owner pid new_owner accounts led = Inr led'"
  shows "book_step (signers accounts) slot (book_of pid led) (book_of pid led')"
  using assms unfolding process_set_lending_market_owner_def load_simps
  by (elim peel_infos) (auto simp: signers_def restore_market load_simps intro!: book_step.change_owner)

section \<open>Reserve operations\<close>

lemma update_reserve_step:
  assumes "Reserve_pack r' k led = Inr led'" and "bk_reserves (book_of pid led) k = Some r" and "reserve_kept r r'"
  shows "book_step S slot (book_of pid led) (book_of pid led')"
  using restore_reserve [OF assms(1,2)] assms(2,3) book_step.update_reserve by (simp add: reserve_kept_def)

lemma deposit_liquidity_kept: "deposit_liquidity n r = Inr (r', c) \<Longrightarrow> reserve_kept r r'"
  by (auto simp: deposit_liquidity_def ReserveLiquidity_deposit_def ReserveCollateral_mint_def res_simps reserve_kept_def)

lemma redeem_collateral_kept: "redeem_collateral n r = Inr (r', l) \<Longrightarrow> reserve_kept r r'"
  by (auto simp: redeem_collateral_def ReserveLiquidity_withdraw_def ReserveCollateral_burn_def res_simps reserve_kept_def)

lemma accrue_interest_kept: "accrue_interest R slot r = Inr r' \<Longrightarrow> reserve_kept r r'"
  by (auto simp: accrue_interest_def compound_interest_def res_simps reserve_kept_def split: if_splits)

lemma reserve_kept_marks [simp]:
  "reserve_kept r (r'\<lparr>rs_last_update := u\<rparr>) = reserve_kept r r'"
  "reserve_kept (r\<lparr>rs_liquidity := (rs_liquidity r)\<lparr>rl_market_price := p\<rparr>\<rparr>) r' = reserve_kept r r'"
  by (simp_all add: reserve_kept_def)

lemma stored_reserve_step:
  assumes "load_reserve pid led a = Inr r" and "Reserve_pack r' (ai_key a) led = Inr led1" and "reserve_kept r r'"
    and "book_of pid led' = book_of pid led1"
  shows "book_step S slot (book_of pid led) (book_of pid led')"
  using update_reserve_step [OF assms(2) assms(1) [unfolded load_simps] assms(3)] assms(4) by simp

lemma load_market_reserveD: "load_market_reserve pid led mk a = Inr r \<Longrightarrow> load_reserve pid led a = Inr r"
  by (simp add: load_simps)

lemma load_market_obligationD: "load_market_obligation pid led mk a = Inr ob \<Longrightarrow> load_obligation pid led a = Inr ob"
  by (simp add: load_simps)

lemma refresh_reserve_step:
  assumes "process_refresh_reserve R pid accounts led = Inr led'"
  shows "book_step S slot (book_of pid led) (book_of pid led')"
  using assms unfolding process_refresh_reserve_def Let_def
  by (elim peel_infos)
    (rule stored_reserve_step, assumption, assumption, drule accrue_interest_kept, simp, rule refl)

context cpi_runtime
begin

lemma deposit_reserve_step:
  assumes "process_deposit_reserve_liquidity R pid n accounts led = Inr led'"
  shows "book_step S slot (book_of pid led) (book_of pid led')"
  using assms unfolding process_deposit_reserve_liquidity_def
  by (elim peel_infos)
    (rule stored_reserve_step, erule load_market_reserveD, assumption,
      simp only: reserve_kept_marks, erule deposit_liquidity_kept,
      rule trans [OF spl_token_book(2) spl_token_book(1)], assumption, assumption)

lemma redeem_reserve_step:
  assumes "process_redeem_reserve_collateral R pid n accounts led = Inr led'"
  shows "book_step S slot (book_of pid led) (book_of pid led')"
  using assms unfolding process_redeem_reserve_collateral_def
  by (elim peel_infos)
    (rule stored_reserve_step, erule load_market_reserveD, assumption,
      simp only: reserve_kept_marks, erule redeem_collateral_kept,
      rule trans [OF spl_token_book(1) spl_token_book(3)], assumption, assumption)

end

section \<open>Opening markets, reserves and obligations\<close>

lemma assert_uninitialized_Inr:
  "assert_uninitialized (Pack_unpack_unchecked len from_slice) is_init led a = Inr v \<Longrightarrow>
     Pack_unpack len from_slice is_init (info_data led a) = Inl UninitializedAccount"
  by (auto simp: assert_uninitialized_def Pack_unpack_def res_simps)

lemma uninitialized_market:
  "assert_uninitialized LendingMarket_unpack_unchecked LendingMarket_is_initialized led a = Inr m \<Longrightarrow>
     bk_markets (book_of pid led) (ai_key a) = None"
  unfolding LendingMarket_unpack_unchecked_def
  by (drule assert_uninitialized_Inr) (simp add: book_of_def stored_def LendingMarket_unpack_def)

lemma uninitialized_reserve:
  "assert_uninitialized Reserve_unpack_unchecked Reserve_is_initialized led a = Inr r \<Longrightarrow>
     bk_reserves (book_of pid led) (ai_key a) = None"
  unfolding Reserve_unpack_unchecked_def
  by (drule assert_uninitialized_Inr) (simp add: book_of_def stored_def Reserve_unpack_def)

lemma uninitialized_obligation:
  "assert_uninitialized Obligation_unpack_unchecked Obligation_is_initialized led a = Inr ob \<Longrightarrow>
     bk_obligations (book_of pid led) (ai_key a) = None"
  unfolding Obligation_unpack_unchecked_def
  by (drule assert_uninitialized_Inr) (simp add: book_of_def stored_def Obligation_unpack_def)

lemma signers_member: "a \<in> set accounts \<Longrightarrow> ai_is_signer a \<Longrightarrow> ai_key a \<in> signers accounts"
  by (auto simp: signers_def)

lemma init_market_step:
  assumes "process_init_lending_market R pid owner quote accounts led = Inr led'" and "length quote = 32"
  shows "book_step S slot (book_of pid led) (book_of pid led')"
proof -
  from assms(1) obtain a m m' where u:
    "assert_uninitialized LendingMarket_unpack_unchecked LendingMarket_is_initialized led a = Inr m"
    and pk: "LendingMarket_pack m' (ai_key a) led = Inr led'" and own: "info_owner led a = pid"
    and m': "lm_version m' = PROGRAM_VERSION" "lm_quote_currency m' = quote"
    unfolding process_init_lending_market_def
    by (elim peel_infos) (rule that, assumption, assumption, simp_all add: LendingMarket_init_def)
  have "book_of pid led' = (book_of pid led)\<lparr>bk_markets := (bk_markets (book_of pid led))(ai_key a \<mapsto> m')\<rparr>"
    by (rule Market_pack_book [OF pk _ _ own])
      (simp_all add: LendingMarket_wf_def LendingMarket_is_initialized_def m' assms(2) PROGRAM_VERSION_def
        UNINITIALIZED_VERSION_def)
  then show ?thesis using book_step.open_market [OF uninitialized_market [OF u]] by metis
qed

lemma init_obligation_step:
  assumes "process_init_obligation R pid accounts led = Inr led'"
  shows "book_step (signers accounts) slot (book_of pid led) (book_of pid led')"
proof -
  from assms obtain a b ob ob' where u:
    "assert_uninitialized Obligation_unpack_unchecked Obligation_is_initialized led a = Inr ob"
    and pk: "Obligation_pack ob' (ai_key a) led = Inr led'" and own: "info_owner led a = pid"
    and b: "ai_is_signer b" "b \<in> set accounts" "ob_owner ob' = ai_key b"
    and ob': "ob_version ob' = PROGRAM_VERSION" "ob_deposits ob' = []" "ob_borrows ob' = []" "lu_stale (ob_last_update ob')"
    unfolding process_init_obligation_def
    by (elim peel_infos) (rule that, assumption, assumption, simp_all add: Obligation_init_def LastUpdate_new_def)
  have "book_of pid led' = (book_of pid led)\<lparr>bk_obligations := (bk_obligations (book_of pid led))(ai_key a \<mapsto> ob')\<rparr>"
    by (rule Obligation_pack_book [OF pk _ _ own])
      (simp_all add: Obligation_wf_def Obligation_is_initialized_def ob' PROGRAM_VERSION_def UNINITIALIZED_VERSION_def)
  then show ?thesis
    using book_step.open_obligation [OF uninitialized_obligation [OF u] _ ob'(2-4), of "signers accounts" slot pid]
      signers_member [OF b(2,1)] b(3) by simp
qed

context cpi_runtime
begin

lemma init_reserve_step:
  assumes "process_init_reserve R pid n cf accounts led = Inr led'"
  shows "book_step (signers accounts) slot (book_of pid led) (book_of pid led')"
proof -
  from assms obtain a mi oi tp r0 m s l c r' col led1 where v: "validate_reserve_config n cf = Inr ()"
    and u: "assert_uninitialized Reserve_unpack_unchecked Reserve_is_initialized led a = Inr r0"
    and own: "info_owner led a = pid" and m: "load_market_for_token pid led mi tp = Inr m"
    and oi: "lm_owner m = ai_key oi" "ai_is_signer oi" "oi \<in> set accounts"
    and d: "deposit_liquidity n (Reserve_init s (ai_key mi) l c cf r0) = Inr (r', col)"
    and pk: "Reserve_pack r' (ai_key a) led = Inr led1" and book: "book_of pid led' = book_of pid led1"
    unfolding process_init_reserve_def Let_def
    by (elim peel_infos)
      (rule that, simp, assumption, simp, assumption, erule notnotD, simp, simp, assumption, assumption,
        rule trans [OF spl_token_book(2)], assumption, rule trans [OF spl_token_book(1)], assumption,
        rule trans [OF spl_token_book(4)], assumption, rule trans [OF spl_token_book(4)], assumption,
        rule trans [OF spl_token_book(5)], assumption, rule trans [OF spl_token_book(4)], assumption,
        erule spl_token_book(4))
  have k: "reserve_kept (Reserve_init s (ai_key mi) l c cf r0) r'" by (rule deposit_liquidity_kept [OF d])
  then have r': "rs_version r' = PROGRAM_VERSION" "rs_lending_market r' = ai_key mi" "rs_config r' = cf"
    by (simp_all add: reserve_kept_def Reserve_init_def)
  have "book_of pid led1 = (book_of pid led)\<lparr>bk_reserves := (bk_reserves (book_of pid led))(ai_key a \<mapsto> r')\<rparr>"
    by (rule Reserve_pack_book [OF pk _ _ own])
      (simp_all add: Reserve_wf_def Reserve_is_initialized_def r' PROGRAM_VERSION_def UNINITIALIZED_VERSION_def)
  then show ?thesis
    using book_step.open_reserve [OF uninitialized_reserve [OF u], of pid r' m "signers accounts" n slot]
      m v signers_member [OF oi(3,2)] oi(1) by (simp add: load_simps r' book)
qed

end

section \<open>Refreshing an obligation\<close>

lemma add_deposit_value_Inr:
  assumes "add_deposit_value r v tot = Inr tot'"
  shows "dn (dt_deposited tot') = dn (dt_deposited tot) + dn v"
    and "dn (dt_allowed tot') = dn (dt_allowed tot) + dn v * rn (Rate_from_percent (cf_loan_to_value_ratio (rs_config r))) div wad"
    and "dn (dt_unhealthy tot') = dn (dt_unhealthy tot) + dn v * rn (Rate_from_percent (cf_liquidation_threshold (rs_config r))) div wad"
  using assms
  by (auto simp: add_deposit_value_def Let_def res_simps Decimal_try_add_Inr Decimal_try_mul_Rate_Inr simp del: rn_from_percent)

lemma refresh_deposits_Inr:
  assumes "refresh_deposits pid led clk cs it tot = Inr (cs', tot', it')"
  shows "list_all2 (revalued_deposit (book_of pid led) (clock_slot clk)) cs cs' \<and>
    dn (dt_deposited tot') = dn (dt_deposited tot) + sum_list (map (\<lambda>c. dn (oc_market_value c)) cs') \<and>
    dn (dt_allowed tot') = dn (dt_allowed tot) + sum_list (map (counted (book_of pid led) cf_loan_to_value_ratio) cs') \<and>
    dn (dt_unhealthy tot') = dn (dt_unhealthy tot) + sum_list (map (counted (book_of pid led) cf_liquidation_threshold) cs')"
  using assms
proof (induction cs arbitrary: it tot cs')
  case (Cons c cs)
  from Cons.prems obtain a it1 r v tot1 cs1 where ld: "load_refreshed_reserve pid led clk (oc_deposit_reserve c) a = Inr r"
    and v: "collateral_market_value r (oc_deposited_amount c) = Inr v" and tot1: "add_deposit_value r v tot = Inr tot1"
    and run: "refresh_deposits pid led clk cs it1 tot1 = Inr (cs1, tot', it')"
    and cs': "cs' = c\<lparr>oc_market_value := v\<rparr> # cs1"
    by (auto simp: res_simps split: prod.splits)
  have "revalued_deposit (book_of pid led) (clock_slot clk) c (c\<lparr>oc_market_value := v\<rparr>)"
    using ld v by (auto simp: revalued_deposit_def load_simps)
  moreover have "counted (book_of pid led) pct (c\<lparr>oc_market_value := v\<rparr>) = dn v * rn (Rate_from_percent (pct (rs_config r))) div wad" for pct
    using ld by (simp add: counted_def load_simps)
  ultimately show ?case using Cons.IH [OF run] add_deposit_value_Inr [OF tot1] by (simp add: cs')
qed simp

lemma refresh_borrows_Inr:
  assumes "refresh_borrows pid led clk ls it tot = Inr (ls', tot', it')"
  shows "list_all2 (revalued_borrow (book_of pid led) (clock_slot clk)) ls ls' \<and>
    dn tot' = dn tot + sum_list (map (\<lambda>l. dn (ol_market_value l)) ls')"
  using assms
proof (induction ls arbitrary: it tot ls')
  case (Cons l ls)
  from Cons.prems obtain a it1 r l1 v tot1 ls1 where ld: "load_refreshed_reserve pid led clk (ol_borrow_reserve l) a = Inr r"
    and l1: "ObligationLiquidity_accrue_interest (rl_cumulative_borrow_rate_wads (rs_liquidity r)) l = Inr l1"
    and v: "liquidity_market_value r (ol_borrowed_amount_wads l1) = Inr v" and tot1: "Decimal_try_add tot v = Inr tot1"
    and run: "refresh_borrows pid led clk ls it1 tot1 = Inr (ls1, tot', it')"
    and ls': "ls' = l1\<lparr>ol_market_value := v\<rparr> # ls1"
    by (auto simp: res_simps split: prod.splits)
  have "revalued_borrow (book_of pid led) (clock_slot clk) l (l1\<lparr>ol_market_value := v\<rparr>)"
    using ld l1 v by (auto simp: revalued_borrow_def load_simps)
  then show ?case using Cons.IH [OF run] tot1 by (simp add: ls' Decimal_try_add_Inr)
qed simp

text \<open>The slot a call sees is the one the clock account holds.\<close>

definition sees_slot :: "runtime \<Rightarrow> ledger \<Rightarrow> account_info list \<Rightarrow> u64 \<Rightarrow> bool" where
  "sees_slot R led accounts slot \<longleftrightarrow> (\<exists>a \<in> set accounts. \<exists>clk. clock_from_info R led a = Inr clk \<and> clock_slot clk = slot)"

lemmas peel_triples = attempt_tripleE peel_infos

lemma refresh_obligation_step:
  assumes "process_refresh_obligation R pid accounts led = Inr led'"
  shows "\<exists>slot. sees_slot R led accounts slot \<and> book_step S slot (book_of pid led) (book_of pid led')"
proof -
  let ?z = "\<lparr>dt_deposited = Decimal_zero, dt_allowed = Decimal_zero, dt_unhealthy = Decimal_zero\<rparr>"
  from assms obtain a c clk ob it cs tot it1 ls bv it2 where
    c: "clock_from_info R led c = Inr clk" "c \<in> set accounts" and ld: "load_obligation pid led a = Inr ob"
    and d: "refresh_deposits pid led clk (ob_deposits ob) it ?z = Inr (cs, tot, it1)"
    and l: "refresh_borrows pid led clk (ob_borrows ob) it1 Decimal_zero = Inr (ls, bv, it2)"
    and pk: "Obligation_pack (ob\<lparr>ob_deposits := cs, ob_borrows := ls, ob_deposited_value := dt_deposited tot,
            ob_borrowed_value := bv, ob_allowed_borrow_value := dt_allowed tot,
            ob_unhealthy_borrow_value := dt_unhealthy tot,
            ob_last_update := update_slot (clock_slot clk) (ob_last_update ob)\<rparr>) (ai_key a) led = Inr led'"
    unfolding process_refresh_obligation_def
    by (elim peel_triples) (rule that, assumption, simp, assumption, assumption, assumption, assumption)
  let ?ob = "ob\<lparr>ob_deposits := cs, ob_borrows := ls, ob_deposited_value := dt_deposited tot,
            ob_borrowed_value := bv, ob_allowed_borrow_value := dt_allowed tot,
            ob_unhealthy_borrow_value := dt_unhealthy tot,
            ob_last_update := update_slot (clock_slot clk) (ob_last_update ob)\<rparr>"
  have "refreshed (book_of pid led) (clock_slot clk) ob ?ob"
    using refresh_deposits_Inr [OF d] refresh_borrows_Inr [OF l]
    by (simp add: refreshed_def is_fresh_def update_slot_def)
  moreover have st: "bk_obligations (book_of pid led) (ai_key a) = Some ob" using ld by (simp add: load_simps)
  moreover have "book_of pid led' = (book_of pid led)\<lparr>bk_obligations := (bk_obligations (book_of pid led))(ai_key a \<mapsto> ?ob)\<rparr>"
    by (rule restore_obligation [OF pk st]) simp
  ultimately show ?thesis using c book_step.refresh by (fastforce simp: sees_slot_def)
qed

section \<open>Collateral and debt\<close>

context cpi_runtime
begin

lemma deposit_obligation_step:
  assumes "process_deposit_obligation_collateral R pid n accounts led = Inr led'"
  shows "book_step (signers accounts) slot (book_of pid led) (book_of pid led')"
proof -
  from assms obtain mi a b rk ob ob1 i c led1 where ld: "load_market_obligation pid led mi a = Inr ob"
    and own: "check_obligation_owner ob b = Inr ()" "b \<in> set accounts"
    and f: "find_or_add_collateral_to_deposits rk ob = Inr (ob1, i)"
    and d: "ObligationCollateral_deposit n (ob_deposits ob1 ! i) = Inr c"
    and pk: "Obligation_pack (ob1\<lparr>ob_deposits := (ob_deposits ob1)[i := c],
                          ob_last_update := mark_stale (ob_last_update ob1)\<rparr>) (ai_key a) led = Inr led1"
    and book: "book_of pid led' = book_of pid led1"
    unfolding process_deposit_obligation_collateral_def
    by (elim peel_infos) (rule that, assumption, simp, simp, assumption, assumption, assumption, erule spl_token_book(1))
  have st: "bk_obligations (book_of pid led) (ai_key a) = Some ob" using ld by (simp add: load_simps)
  have v: "ob_version ob1 = ob_version ob" using f by (cases rule: find_or_add_collateral_Inr) simp_all
  have "ob_owner ob \<in> signers accounts" using own signers_member by (simp add: load_simps)
  from book_step.deposit [OF st this f d] show ?thesis
    using restore_obligation [OF pk st] v by (simp add: stale_obligation_def book)
qed

lemma withdraw_obligation_step:
  assumes "process_withdraw_obligation_collateral R pid n accounts led = Inr led'"
  shows "\<exists>slot. sees_slot R led accounts slot \<and> book_step (signers accounts) slot (book_of pid led) (book_of pid led')"
proof -
  from assms obtain mi ri a b ck clk r ob c i w ob' led1 where
    ck: "clock_from_info R led ck = Inr clk" "ck \<in> set accounts"
    and r: "load_market_reserve pid led mi ri = Inr r" "check_fresh (rs_last_update r) clk ReserveStale = Inr ()"
    and ld: "load_market_obligation pid led mi a = Inr ob" "check_fresh (ob_last_update ob) clk ObligationStale = Inr ()"
    and own: "check_obligation_owner ob b = Inr ()" "b \<in> set accounts"
    and f: "find_collateral_in_deposits (ai_key ri) ob = Inr (c, i)"
    and w: "compute_withdraw_amount n r ob c = Inr w" "Obligation_withdraw w i ob = Inr ob'"
    and pk: "Obligation_pack (ob'\<lparr>ob_last_update := mark_stale (ob_last_update ob')\<rparr>) (ai_key a) led = Inr led1"
    and book: "book_of pid led' = book_of pid led1"
    unfolding process_withdraw_obligation_collateral_def
    by (elim peel_infos)
      (rule that, assumption, simp, assumption, simp, assumption, simp, simp, simp, assumption, assumption,
        assumption, assumption, erule spl_token_book(1))
  have st: "bk_obligations (book_of pid led) (ai_key a) = Some ob" using ld by (simp add: load_simps)
  have v: "ob_version ob' = ob_version ob" using w(2) by (cases rule: Obligation_withdraw_Inr) simp_all
  have "ob_owner ob \<in> signers accounts" using own signers_member by (simp add: load_simps)
  from book_step.take_out [OF st this _ _ _ f w, of "clock_slot clk"] have
    "book_step (signers accounts) (clock_slot clk) (book_of pid led) (book_of pid led')"
    using r ld restore_obligation [OF pk st] v by (simp add: load_simps stale_obligation_def book)
  then show ?thesis using ck by (auto simp: sees_slot_def)
qed

end

text \<open>Storing a reserve and then an obligation, as borrows, repayments and liquidations do.\<close>

lemma store_both:
  assumes "Reserve_pack r' rk led = Inr led1" and "Obligation_pack ob' k led1 = Inr led2"
    and "bk_reserves (book_of pid led) rk = Some r" and "bk_obligations (book_of pid led) k = Some ob"
    and "rs_version r' = rs_version r" and "ob_version ob' = ob_version ob"
  shows "book_of pid led2 = (book_of pid led)\<lparr>bk_reserves := (bk_reserves (book_of pid led))(rk \<mapsto> r'),
    bk_obligations := (bk_obligations (book_of pid led))(k \<mapsto> ob')\<rparr>"
proof -
  note b1 = restore_reserve [OF assms(1,3,5)]
  then have "bk_obligations (book_of pid led1) k = Some ob" using assms(4) by simp
  from restore_obligation [OF assms(2) this assms(6)] show ?thesis using b1 by simp
qed

lemma Obligation_repay_version: "Obligation_repay n i ob = Inr ob' \<Longrightarrow> ob_version ob' = ob_version ob"
  by (erule Obligation_repay_Inr) simp_all

lemma Obligation_withdraw_version: "Obligation_withdraw n i ob = Inr ob' \<Longrightarrow> ob_version ob' = ob_version ob"
  by (erule Obligation_withdraw_Inr) simp_all

context cpi_runtime
begin

lemma borrow_obligation_step:
  assumes "process_borrow_obligation_liquidity R pid n accounts led = Inr led'"
  shows "\<exists>slot. sees_slot R led accounts slot \<and> book_step (signers accounts) slot (book_of pid led) (book_of pid led')"
proof -
  from assms obtain mi ri a b ck clk r ob rem cb l led1 ob1 i ol led2 where
    ck: "clock_from_info R led ck = Inr clk" "ck \<in> set accounts"
    and r: "load_market_reserve pid led mi ri = Inr r" "check_fresh (rs_last_update r) clk ReserveStale = Inr ()"
    and ld: "load_market_obligation pid led mi a = Inr ob" "check_fresh (ob_last_update ob) clk ObligationStale = Inr ()"
    and own: "check_obligation_owner ob b = Inr ()" "b \<in> set accounts" and ne: "ob_deposits ob \<noteq> []"
    and rem: "remaining_borrow_value ob = Inr rem" "calculate_borrow n rem r = Inr cb"
    and l: "ReserveLiquidity_borrow (cb_borrow_amount cb) (rs_liquidity r) = Inr l"
    and pk1: "Reserve_pack (r\<lparr>rs_liquidity := l, rs_last_update := mark_stale (rs_last_update r)\<rparr>) (ai_key ri) led = Inr led1"
    and f: "find_or_add_liquidity_to_borrows (ai_key ri) ob = Inr (ob1, i)"
    and ol: "ObligationLiquidity_borrow (cb_borrow_amount cb) (ob_borrows ob1 ! i) = Inr ol"
    and pk2: "Obligation_pack (ob1\<lparr>ob_borrows := (ob_borrows ob1)[i := ol],
                              ob_last_update := mark_stale (ob_last_update ob1)\<rparr>) (ai_key a) led1 = Inr led2"
    and book: "book_of pid led' = book_of pid led2"
    unfolding process_borrow_obligation_liquidity_def Let_def
    by (elim peel_infos)
      (rule that, assumption, simp, assumption, simp, assumption, simp, simp, simp, assumption, assumption,
        assumption, assumption, assumption, assumption, assumption, assumption,
        rule trans [OF spl_token_book(1) pay_fees_book(1)], assumption, assumption)
  have st: "bk_obligations (book_of pid led) (ai_key a) = Some ob" "bk_reserves (book_of pid led) (ai_key ri) = Some r"
    using ld r by (simp_all add: load_simps)
  have v: "ob_version ob1 = ob_version ob" using f by (cases rule: find_or_add_liquidity_Inr) simp_all
  have "ob_owner ob \<in> signers accounts" using own signers_member by (simp add: load_simps)
  from book_step.borrow [OF st(1) this _ ne st(2) _ rem l f ol, of "clock_slot clk"] have
    "book_step (signers accounts) (clock_slot clk) (book_of pid led) (book_of pid led')"
    using r ld store_both [OF pk1 pk2 st(2,1)] v by (simp add: load_simps stale_obligation_def stale_reserve_def book)
  then show ?thesis using ck by (auto simp: sees_slot_def)
qed

lemma repay_obligation_step:
  assumes "process_repay_obligation_liquidity R pid n accounts led = Inr led'"
  shows "\<exists>slot. sees_slot R led accounts slot \<and> book_step S slot (book_of pid led) (book_of pid led')"
proof -
  from assms obtain mi ri a ck clk r ob ol i cr l led1 ob' led2 where
    ck: "clock_from_info R led ck = Inr clk" "ck \<in> set accounts"
    and r: "load_market_reserve pid led mi ri = Inr r" "check_fresh (rs_last_update r) clk ReserveStale = Inr ()"
    and ld: "load_market_obligation pid led mi a = Inr ob" "check_fresh (ob_last_update ob) clk ObligationStale = Inr ()"
    and f: "find_liquidity_in_borrows (ai_key ri) ob = Inr (ol, i)"
    and cr: "calculate_repay n (ol_borrowed_amount_wads ol) = Inr cr"
    and l: "ReserveLiquidity_repay (cr_repay_amount cr) (cr_settle_amount cr) (rs_liquidity r) = Inr l"
    and pk1: "Reserve_pack (r\<lparr>rs_liquidity := l, rs_last_update := mark_stale (rs_last_update r)\<rparr>) (ai_key ri) led = Inr led1"
    and ob': "Obligation_repay (cr_settle_amount cr) i ob = Inr ob'"
    and pk2: "Obligation_pack (ob'\<lparr>ob_last_update := mark_stale (ob_last_update ob')\<rparr>) (ai_key a) led1 = Inr led2"
    and book: "book_of pid led' = book_of pid led2"
    unfolding process_repay_obligation_liquidity_def
    by (elim peel_infos)
      (rule that, assumption, simp, assumption, simp, assumption, simp, assumption, assumption,
        assumption, assumption, assumption, assumption, erule spl_token_book(1))
  have st: "bk_obligations (book_of pid led) (ai_key a) = Some ob" "bk_reserves (book_of pid led) (ai_key ri) = Some r"
    using ld r by (simp_all add: load_simps)
  from book_step.repay [OF st(1) _ st(2) _ f cr l ob', of "clock_slot clk"] have
    "book_step S (clock_slot clk) (book_of pid led) (book_of pid led')"
    using r ld store_both [OF pk1 pk2 st(2,1)] Obligation_repay_version [OF ob']
    by (simp add: load_simps stale_obligation_def stale_reserve_def book)
  then show ?thesis using ck by (auto simp: sees_slot_def)
qed

lemma liquidate_obligation_step:
  assumes "process_liquidate_obligation R pid n accounts led = Inr led'"
  shows "\<exists>slot. sees_slot R led accounts slot \<and> book_step S slot (book_of pid led) (book_of pid led')"
proof -
  from assms obtain mi ri si sl dc wi ws a ck clk r wr ob ol i c j cl l led1 ob1 ob2 led2 where
    ck: "clock_from_info R led ck = Inr clk" "ck \<in> set accounts"
    and r: "load_liquidation_repay_reserve pid led clk mi ri si sl dc = Inr r"
    and wr: "load_liquidation_withdraw_reserve pid led clk mi wi ws sl dc = Inr wr"
    and ld: "load_unhealthy_obligation pid led clk mi a = Inr ob"
    and f: "find_liquidity_in_borrows (ai_key ri) ob = Inr (ol, i)" "find_collateral_in_deposits (ai_key wi) ob = Inr (c, j)"
    and cl: "calculate_liquidation n ob ol c wr = Inr cl"
    and l: "ReserveLiquidity_repay (cl_repay_amount cl) (cl_settle_amount cl) (rs_liquidity r) = Inr l"
    and pk1: "Reserve_pack (r\<lparr>rs_liquidity := l, rs_last_update := mark_stale (rs_last_update r)\<rparr>) (ai_key ri) led = Inr led1"
    and ob: "Obligation_repay (cl_settle_amount cl) i ob = Inr ob1" "Obligation_withdraw (cl_withdraw_amount cl) j ob1 = Inr ob2"
    and pk2: "Obligation_pack (ob2\<lparr>ob_last_update := mark_stale (ob_last_update ob2)\<rparr>) (ai_key a) led1 = Inr led2"
    and book: "book_of pid led' = book_of pid led2"
    unfolding process_liquidate_obligation_def
    by (elim peel_infos)
      (rule that, assumption, simp, assumption, assumption, assumption, assumption, assumption,
        assumption, assumption, assumption, assumption, assumption, assumption,
        rule trans [OF spl_token_book(1) spl_token_book(1)], assumption, assumption)
  have st: "bk_obligations (book_of pid led) (ai_key a) = Some ob" "is_fresh (ob_last_update ob) (clock_slot clk)"
    "ob_unhealthy_borrow_value ob \<le> ob_borrowed_value ob" "ob_borrowed_value ob \<noteq> Decimal_zero"
    using ld by (auto simp: load_unhealthy_obligation_def res_simps load_simps not_less)
  have sr: "bk_reserves (book_of pid led) (ai_key ri) = Some r" "is_fresh (rs_last_update r) (clock_slot clk)"
    using r by (auto simp: load_liquidation_repay_reserve_def res_simps load_simps)
  have sw: "bk_reserves (book_of pid led) (ai_key wi) = Some wr" "is_fresh (rs_last_update wr) (clock_slot clk)"
    using wr by (auto simp: load_liquidation_withdraw_reserve_def res_simps load_simps)
  from book_step.liquidate [OF st sr sw f cl l ob] have
    "book_step S (clock_slot clk) (book_of pid led) (book_of pid led')"
    using store_both [OF pk1 pk2 sr(1) st(1)] Obligation_repay_version [OF ob(1)] Obligation_withdraw_version [OF ob(2)]
    by (simp add: stale_obligation_def stale_reserve_def book)
  then show ?thesis using ck by (auto simp: sees_slot_def)
qed

end

section \<open>Flash loans\<close>

lemma borrow_repay_restores:
  assumes "ReserveLiquidity_borrow (Decimal_from_u64 n) l = Inr l1" and "ReserveLiquidity_repay n (Decimal_from_u64 n) l1 = Inr l2"
  shows "l2 = l"
proof -
  have l1: "l1 = l\<lparr>rl_available_amount := rl_available_amount l1, rl_borrowed_amount_wads := rl_borrowed_amount_wads l1\<rparr>"
    "unat (rl_available_amount l1) + unat n = unat (rl_available_amount l)"
    "dn (rl_borrowed_amount_wads l1) = dn (rl_borrowed_amount_wads l) + wad * unat n"
    using assms(1) by (auto simp: ReserveLiquidity_borrow_def res_simps checked_simps)
  have l2: "l2 = l1\<lparr>rl_available_amount := rl_available_amount l2, rl_borrowed_amount_wads := rl_borrowed_amount_wads l2\<rparr>"
    "unat (rl_available_amount l2) = unat (rl_available_amount l1) + unat n"
    "dn (rl_borrowed_amount_wads l2) = dn (rl_borrowed_amount_wads l1) - wad * unat n"
    using assms(2) by (auto simp: ReserveLiquidity_repay_def res_simps checked_simps)
  have "rl_available_amount l2 = rl_available_amount l" using l1(2) l2(2) by (simp add: word_unat_eq_iff)
  moreover have "rl_borrowed_amount_wads l2 = rl_borrowed_amount_wads l" using l1(3) l2(3) by (simp add: Decimal_eq_iff)
  ultimately show ?thesis using l1(1) l2(1) by (metis ReserveLiquidity.surjective ReserveLiquidity.update_convs(6,7))
qed

text \<open>
  A flash loan leaves the book as it was.  The receiver is not the lending program itself, so the
  reserve it borrowed from is still the one that was stored when the loan comes back.
\<close>

context cpi_runtime
begin

lemma flash_loan_book:
  assumes "process_flash_loan R pid n accounts led = Inr led'"
  shows "book_of pid led' = book_of pid led"
proof -
  from assms obtain mi a r l led1 led3 m r3 l3 led4 where ld: "load_market_reserve pid led mi a = Inr r"
    and l: "ReserveLiquidity_borrow (Decimal_from_u64 m) (rs_liquidity r) = Inr l"
    and pk1: "Reserve_pack (r\<lparr>rs_liquidity := l\<rparr>) (ai_key a) led = Inr led1"
    and b3: "book_of pid led3 = book_of pid led1" and r3: "Reserve_unpack (info_data led3 a) = Inr r3"
    and l3: "ReserveLiquidity_repay m (Decimal_from_u64 m) (rs_liquidity r3) = Inr l3"
    and pk4: "Reserve_pack (r3\<lparr>rs_liquidity := l3\<rparr>) (ai_key a) led3 = Inr led4"
    and b: "book_of pid led' = book_of pid led4"
    unfolding process_flash_loan_def Let_def
    by (elim peel_infos)
      (rule that, assumption, assumption, assumption, rule trans [OF invoke_book spl_token_book(1)], assumption,
        simp add: flash_loan_instruction_def, assumption, assumption, assumption, assumption, erule pay_fees_book(2))
  have st: "bk_reserves (book_of pid led) (ai_key a) = Some r" using ld by (simp add: load_simps)
  have b1: "book_of pid led1 = (book_of pid led)\<lparr>bk_reserves := (bk_reserves (book_of pid led))(ai_key a \<mapsto> r\<lparr>rs_liquidity := l\<rparr>)\<rparr>"
    by (rule restore_reserve [OF pk1 st]) simp
  then have s3: "bk_reserves (book_of pid led3) (ai_key a) = Some (r\<lparr>rs_liquidity := l\<rparr>)" by (simp add: b3)
  then have r3': "r3 = r\<lparr>rs_liquidity := l\<rparr>" using r3 by (simp add: book_of_def stored_eq_Some)
  then have "r3\<lparr>rs_liquidity := l3\<rparr> = r" using borrow_repay_restores [OF l] l3 by simp
  then have "book_of pid led4 = (book_of pid led3)\<lparr>bk_reserves := (bk_reserves (book_of pid led3))(ai_key a \<mapsto> r)\<rparr>"
    using restore_reserve [OF pk4 s3] by (simp add: r3')
  then show ?thesis using st by (simp add: b b3 b1 fun_upd_idem)
qed

end

section \<open>Every call is a step\<close>

text \<open>
  Most operations do not look at the slot, so they are a step at any slot; those that do see the one
  in the clock account they are given.
\<close>

definition timed_step :: "runtime \<Rightarrow> pubkey \<Rightarrow> account_info list \<Rightarrow> ledger \<Rightarrow> ledger \<Rightarrow> bool" where
  "timed_step R pid accounts led led' \<longleftrightarrow>
     (\<forall>slot. book_step (signers accounts) slot (book_of pid led) (book_of pid led')) \<or>
     (\<exists>slot. sees_slot R led accounts slot \<and> book_step (signers accounts) slot (book_of pid led) (book_of pid led'))"

context cpi_runtime
begin

lemma run_lending_instruction_step:
  assumes "run_lending_instruction R pid accounts i led = Inr led'" and "LendingInstruction_wf i"
  shows "timed_step R pid accounts led led'"
proof (cases i)
  case (InitLendingMarket w q)
  then show ?thesis using assms init_market_step by (simp add: run_lending_instruction_def timed_step_def LendingInstruction_wf_def)
next
  case (FlashLoan n)
  then have "book_of pid led' = book_of pid led" using assms flash_loan_book by (simp add: run_lending_instruction_def)
  then show ?thesis by (simp add: timed_step_def book_step.idle)
qed (use assms(1) in \<open>simp add: run_lending_instruction_def timed_step_def set_owner_step refresh_reserve_step
      deposit_reserve_step redeem_reserve_step init_obligation_step init_reserve_step refresh_obligation_step
      deposit_obligation_step withdraw_obligation_step borrow_obligation_step repay_obligation_step
      liquidate_obligation_step\<close>)+

lemma lending_call_step:
  assumes "lending_process_instruction R pid accounts input led = Inr led'"
  shows "timed_step R pid accounts led led'"
  using assms run_lending_instruction_step LendingInstruction_unpack_wf
  by (auto simp: lending_process_instruction_def res_simps)

end

end
