(* ===== verification/Lending_Safety.thy ===== *)
theory Lending_Safety
  imports Lending_Refinement
begin

text \<open>
  What the lending program guarantees over whole histories, and to the owner of an obligation in
  each call.  The programs it invokes are constrained by \<open>cpi_runtime\<close> only.
\<close>

section \<open>Histories\<close>

definition lending_call :: "runtime \<Rightarrow> pubkey \<Rightarrow> ledger \<Rightarrow> ledger \<Rightarrow> bool" where
  "lending_call R pid led led' \<longleftrightarrow>
     (\<exists>accounts input. lending_process_instruction R pid accounts input led = Inr led')"

lemma lending_callI: "lending_process_instruction R pid accounts input led = Inr led' \<Longrightarrow> lending_call R pid led led'"
  by (auto simp: lending_call_def)

inductive lending_world_step :: "runtime \<Rightarrow> pubkey \<Rightarrow> ledger \<Rightarrow> ledger \<Rightarrow> bool" for R pid where
  lending: "lending_call R pid led led' \<Longrightarrow> lending_world_step R pid led led'"
| elsewhere: "other_activity pid led led' \<Longrightarrow> lending_world_step R pid led led'"

definition some_step :: "book \<Rightarrow> book \<Rightarrow> bool" where
  "some_step b b' \<longleftrightarrow> (\<exists>S slot. book_step S slot b b')"

interpretation book_system: invariant_system some_step book_ok
  by unfold_locales (auto simp: some_step_def dest: book_step_ok)

context cpi_runtime
begin

lemma world_some_step: "lending_world_step R pid led led' \<Longrightarrow> some_step (book_of pid led) (book_of pid led')"
proof (induction rule: lending_world_step.induct)
  case (lending led led')
  then obtain accounts input where "lending_process_instruction R pid accounts input led = Inr led'"
    by (auto simp: lending_call_def)
  from lending_call_step [OF this] show ?case by (auto simp: timed_step_def some_step_def)
next
  case (elsewhere led led')
  then show ?case using other_activity_book book_step.idle by (fastforce simp: some_step_def)
qed

end

sublocale cpi_runtime \<subseteq> lending_system: refined_system some_step book_ok "lending_world_step R pid" "book_of pid"
  by unfold_locales (rule world_some_step)

lemma empty_book_ok: "\<forall>k. acc_owner (led k) \<noteq> pid \<Longrightarrow> book_ok (book_of pid led)"
  by (simp add: book_ok_def book_of_def stored_def)

context cpi_runtime
begin

lemma history_ok:
  assumes "\<forall>k. acc_owner (genesis k) \<noteq> pid" and "(lending_world_step R pid)\<^sup>*\<^sup>* genesis led"
  shows "book_ok (book_of pid led)"
  by (rule lending_system.run_abstract_inv [OF assms(2) empty_book_ok [OF assms(1)]])

end

section \<open>What a call may do to an obligation\<close>

text \<open>The collateral an obligation has deposited from a reserve.\<close>

definition deposited :: "pubkey \<Rightarrow> Obligation \<Rightarrow> nat" where
  "deposited rk ob = sum_list (map (\<lambda>c. if oc_deposit_reserve c = rk then unat (oc_deposited_amount c) else 0) (ob_deposits ob))"

text \<open>The debt of an obligation to a reserve, in wads.\<close>

definition owed :: "pubkey \<Rightarrow> Obligation \<Rightarrow> nat" where
  "owed rk ob = sum_list (map (\<lambda>l. if ol_borrow_reserve l = rk then dn (ol_borrowed_amount_wads l) else 0) (ob_borrows ob))"

definition liquidatable :: "u64 \<Rightarrow> Obligation \<Rightarrow> bool" where
  "liquidatable slot ob \<longleftrightarrow> is_fresh (ob_last_update ob) slot \<and> ob_borrowed_value ob \<noteq> Decimal_zero \<and>
     ob_unhealthy_borrow_value ob \<le> ob_borrowed_value ob"

lemma sum_list_update_nat:
  "i < length xs \<Longrightarrow> sum_list (map (f :: 'a \<Rightarrow> nat) (xs[i := x])) + f (xs ! i) = sum_list (map f xs) + f x"
  by (induction xs arbitrary: i) (auto split: nat.splits simp: nth_Cons')

lemma sum_list_remove_nat:
  "i < length xs \<Longrightarrow> sum_list (map (f :: 'a \<Rightarrow> nat) (vec_remove i xs)) + f (xs ! i) = sum_list (map f xs)"
proof -
  assume i: "i < length xs"
  have "sum_list (map f xs) = sum_list (map f (take i xs @ xs ! i # drop (Suc i) xs))"
    using id_take_nth_drop [OF i] by simp
  then show ?thesis by (simp add: vec_remove_def)
qed

definition accrued :: "ObligationLiquidity \<Rightarrow> ObligationLiquidity \<Rightarrow> bool" where
  "accrued l l' \<longleftrightarrow> (\<exists>rate l1 v. ObligationLiquidity_accrue_interest rate l = Inr l1 \<and> l' = l1\<lparr>ol_market_value := v\<rparr>)"

text \<open>
  A withdrawal from the deposit in reserve \<open>rk\<close> is covered if nothing is owed, or if the borrow
  limit the withdrawn part supports (its share of the deposit's value at the reserve's loan-to-value
  ratio) is not needed for what is owed.
\<close>

definition withdrawal_covered :: "book \<Rightarrow> u64 \<Rightarrow> pubkey \<Rightarrow> Obligation \<Rightarrow> Obligation \<Rightarrow> bool" where
  "withdrawal_covered b slot rk ob ob' \<longleftrightarrow>
     is_fresh (ob_last_update ob) slot \<and>
     (\<exists>r c. bk_reserves b rk = Some r \<and> is_fresh (rs_last_update r) slot \<and>
        c \<in> set (ob_deposits ob) \<and> oc_deposit_reserve c = rk \<and>
        (ob_borrows ob = [] \<or>
         dn (ob_borrowed_value ob) +
           dn (oc_market_value c) * (wad * (deposited rk ob - deposited rk ob') div unat (oc_deposited_amount c)) div wad
             * rn (Rate_from_percent (cf_loan_to_value_ratio (rs_config r))) div wad
           \<le> dn (ob_allowed_borrow_value ob)))"

text \<open>A new debt to reserve \<open>rk\<close> is covered if its value fits in the borrow limit on top of what is owed.\<close>

definition borrow_covered :: "book \<Rightarrow> u64 \<Rightarrow> pubkey \<Rightarrow> Obligation \<Rightarrow> Obligation \<Rightarrow> bool" where
  "borrow_covered b slot rk ob ob' \<longleftrightarrow>
     is_fresh (ob_last_update ob) slot \<and>
     (\<exists>r. bk_reserves b rk = Some r \<and> is_fresh (rs_last_update r) slot \<and>
        dn (ob_borrowed_value ob) +
          (owed rk ob' - owed rk ob) * dn (rl_market_price (rs_liquidity r)) div wad
            div 10 ^ unat (rl_mint_decimals (rs_liquidity r))
          \<le> dn (ob_allowed_borrow_value ob))"

definition withdrawal_allowed :: "pubkey set \<Rightarrow> u64 \<Rightarrow> book \<Rightarrow> pubkey \<Rightarrow> Obligation \<Rightarrow> Obligation \<Rightarrow> bool" where
  "withdrawal_allowed S slot b rk ob ob' \<longleftrightarrow>
     liquidatable slot ob \<or> ob_owner ob \<in> S \<and> withdrawal_covered b slot rk ob ob'"

definition debt_allowed :: "pubkey set \<Rightarrow> u64 \<Rightarrow> book \<Rightarrow> pubkey \<Rightarrow> Obligation \<Rightarrow> Obligation \<Rightarrow> bool" where
  "debt_allowed S slot b rk ob ob' \<longleftrightarrow>
     list_all2 accrued (ob_borrows ob) (ob_borrows ob') \<or> ob_owner ob \<in> S \<and> borrow_covered b slot rk ob ob'"

definition obligation_evolves :: "pubkey set \<Rightarrow> u64 \<Rightarrow> book \<Rightarrow> Obligation \<Rightarrow> Obligation \<Rightarrow> bool" where
  "obligation_evolves S slot b ob ob' \<longleftrightarrow>
     ob_owner ob' = ob_owner ob \<and> ob_lending_market ob' = ob_lending_market ob \<and>
     (\<forall>rk. (deposited rk ob' < deposited rk ob \<longrightarrow> withdrawal_allowed S slot b rk ob ob') \<and>
           (owed rk ob < owed rk ob' \<longrightarrow> debt_allowed S slot b rk ob ob'))"

lemma evolves_refl [simp]: "obligation_evolves S slot b ob ob"
  by (simp add: obligation_evolves_def)

lemma stale_amounts [simp]:
  "deposited rk (stale_obligation ob) = deposited rk ob" "owed rk (stale_obligation ob) = owed rk ob"
  "ob_owner (stale_obligation ob) = ob_owner ob" "ob_lending_market (stale_obligation ob) = ob_lending_market ob"
  by (simp_all add: deposited_def owed_def stale_obligation_def)

lemma repay_amounts:
  assumes "Obligation_repay n i ob = Inr ob'"
  shows "deposited rk ob' = deposited rk ob" and "owed rk ob' \<le> owed rk ob"
    and "ob_owner ob' = ob_owner ob" and "ob_lending_market ob' = ob_lending_market ob"
proof -
  let ?f = "\<lambda>l. if ol_borrow_reserve l = rk then dn (ol_borrowed_amount_wads l) else 0"
  show "deposited rk ob' = deposited rk ob" "ob_owner ob' = ob_owner ob" "ob_lending_market ob' = ob_lending_market ob"
    using assms by (auto elim!: Obligation_repay_Inr simp: deposited_def)
  show "owed rk ob' \<le> owed rk ob"
    using assms
  proof (cases rule: Obligation_repay_Inr)
    case 1
    then show ?thesis using sum_list_remove_nat [of i "ob_borrows ob" ?f] by (simp add: owed_def)
  next
    case (2 d)
    let ?x = "(ob_borrows ob ! i)\<lparr>ol_borrowed_amount_wads := d\<rparr>"
    have "?f ?x \<le> ?f (ob_borrows ob ! i)" using 2(2) by (auto simp: Decimal_try_sub_Inr)
    then show ?thesis using 2 sum_list_update_nat [of i "ob_borrows ob" ?f ?x] by (simp add: owed_def)
  qed
qed

lemma withdraw_amounts:
  assumes "Obligation_withdraw n i ob = Inr ob'"
  shows "deposited rk ob' + (if oc_deposit_reserve (ob_deposits ob ! i) = rk then unat n else 0) = deposited rk ob"
    and "owed rk ob' = owed rk ob" and "ob_owner ob' = ob_owner ob" and "ob_lending_market ob' = ob_lending_market ob"
proof -
  let ?f = "\<lambda>c. if oc_deposit_reserve c = rk then unat (oc_deposited_amount c) else 0"
  show "owed rk ob' = owed rk ob" "ob_owner ob' = ob_owner ob" "ob_lending_market ob' = ob_lending_market ob"
    using assms by (auto elim!: Obligation_withdraw_Inr simp: owed_def)
  show "deposited rk ob' + (if oc_deposit_reserve (ob_deposits ob ! i) = rk then unat n else 0) = deposited rk ob"
    using assms
  proof (cases rule: Obligation_withdraw_Inr)
    case 1
    then show ?thesis using sum_list_remove_nat [of i "ob_deposits ob" ?f] by (simp add: deposited_def split: if_splits)
  next
    case (2 c)
    have "?f c + (if oc_deposit_reserve (ob_deposits ob ! i) = rk then unat n else 0) = ?f (ob_deposits ob ! i)"
      using 2(2,3) by (auto simp: unat_sub word_le_nat_alt)
    then show ?thesis using 2 sum_list_update_nat [of i "ob_deposits ob" ?f c] by (simp add: deposited_def)
  qed
qed

lemma refreshed_evolves:
  assumes "refreshed b slot ob ob'"
  shows "obligation_evolves S slot b ob ob'"
proof -
  have "revalued_borrow b slot l l' \<Longrightarrow> accrued l l'" for l l'
    unfolding revalued_borrow_def accrued_def by blast
  then have "list_all2 accrued (ob_borrows ob) (ob_borrows ob')"
    using assms unfolding refreshed_def by (blast intro: list_all2_mono)
  moreover have "deposited rk ob' = deposited rk ob" for rk
  proof -
    have d: "deposited rk x = sum_list (map2 (\<lambda>k n. if k = rk then unat n else 0)
        (map oc_deposit_reserve (ob_deposits x)) (map oc_deposited_amount (ob_deposits x)))" for x
      unfolding deposited_def by (induction "ob_deposits x" arbitrary: x) (simp_all add: zip_map1 zip_map2 o_def case_prod_beta zip_same_conv_map)
    show ?thesis using refreshed_keys [OF assms] by (simp only: d)
  qed
  ultimately show ?thesis using assms by (simp add: obligation_evolves_def refreshed_def debt_allowed_def)
qed

lemma find_or_add_kept:
  "find_or_add_collateral_to_deposits k ob = Inr (ob', i) \<Longrightarrow>
     ob_owner ob' = ob_owner ob \<and> ob_lending_market ob' = ob_lending_market ob"
  "find_or_add_liquidity_to_borrows k ob = Inr (ob', i) \<Longrightarrow>
     ob_owner ob' = ob_owner ob \<and> ob_lending_market ob' = ob_lending_market ob"
  by (auto elim!: find_or_add_collateral_Inr find_or_add_liquidity_Inr)

lemma deposit_amounts:
  assumes "find_or_add_collateral_to_deposits k ob = Inr (ob1, i)" and "ObligationCollateral_deposit n (ob_deposits ob1 ! i) = Inr c"
  shows "deposited rk ob \<le> deposited rk (ob1\<lparr>ob_deposits := (ob_deposits ob1)[i := c]\<rparr>)"
    and "owed rk (ob1\<lparr>ob_deposits := (ob_deposits ob1)[i := c]\<rparr>) = owed rk ob"
proof -
  let ?f = "\<lambda>c. if oc_deposit_reserve c = rk then unat (oc_deposited_amount c) else 0"
  have i: "i < length (ob_deposits ob1)" and d: "deposited rk ob1 = deposited rk ob"
    and o: "ob_borrows ob1 = ob_borrows ob"
    using assms(1) by (auto elim!: find_or_add_collateral_Inr simp: deposited_def ObligationCollateral_new_def)
  have "?f (ob_deposits ob1 ! i) \<le> ?f c"
    using assms(2) by (auto simp: ObligationCollateral_deposit_def res_simps checked_simps)
  then show "deposited rk ob \<le> deposited rk (ob1\<lparr>ob_deposits := (ob_deposits ob1)[i := c]\<rparr>)"
    using sum_list_update_nat [OF i, of ?f c] d by (simp add: deposited_def)
  show "owed rk (ob1\<lparr>ob_deposits := (ob_deposits ob1)[i := c]\<rparr>) = owed rk ob" by (simp add: owed_def o)
qed

lemma borrow_amounts:
  assumes "find_or_add_liquidity_to_borrows k ob = Inr (ob1, i)" and "ObligationLiquidity_borrow n (ob_borrows ob1 ! i) = Inr l"
  shows "owed rk (ob1\<lparr>ob_borrows := (ob_borrows ob1)[i := l]\<rparr>) = owed rk ob + (if rk = k then dn n else 0)"
    and "deposited rk (ob1\<lparr>ob_borrows := (ob_borrows ob1)[i := l]\<rparr>) = deposited rk ob"
proof -
  let ?f = "\<lambda>l. if ol_borrow_reserve l = rk then dn (ol_borrowed_amount_wads l) else 0"
  have i: "i < length (ob_borrows ob1)" "ol_borrow_reserve (ob_borrows ob1 ! i) = k" and d: "owed rk ob1 = owed rk ob"
    and o: "ob_deposits ob1 = ob_deposits ob"
    using assms(1) by (auto elim!: find_or_add_liquidity_Inr simp: owed_def ObligationLiquidity_new_def Decimal_zero_def)
  have "?f l = ?f (ob_borrows ob1 ! i) + (if rk = k then dn n else 0)"
    using assms(2) i(2) by (auto simp: ObligationLiquidity_borrow_def res_simps checked_simps)
  then show "owed rk (ob1\<lparr>ob_borrows := (ob_borrows ob1)[i := l]\<rparr>) = owed rk ob + (if rk = k then dn n else 0)"
    using sum_list_update_nat [OF i(1), of ?f l] d by (simp add: owed_def)
  show "deposited rk (ob1\<lparr>ob_borrows := (ob_borrows ob1)[i := l]\<rparr>) = deposited rk ob" by (simp add: deposited_def o)
qed

lemma max_withdraw_value_Inr:
  assumes "max_withdraw_value ltv ob = Inr m" and "m \<noteq> Decimal_zero" and "v \<le> dn m"
  shows "dn (ob_borrowed_value ob) + v * rn ltv div wad \<le> dn (ob_allowed_borrow_value ob)"
proof (cases "ltv = Rate_zero")
  case True
  then show ?thesis using assms by (auto simp: max_withdraw_value_def Rate_zero_def not_le Decimal_less_iff split: if_splits)
next
  case False
  let ?d = "dn (ob_allowed_borrow_value ob) - dn (ob_borrowed_value ob)"
  have le: "dn (ob_borrowed_value ob) \<le> dn (ob_allowed_borrow_value ob)" and m: "dn m = ?d * wad div rn ltv"
    using assms(1,2) False by (auto simp: max_withdraw_value_def res_simps checked_simps split: if_splits)
  have "v * rn ltv \<le> ?d * wad"
    using mult_le_mono1 [OF assms(3), of "rn ltv"] div_times_less_eq_dividend [of "?d * wad" "rn ltv"]
    unfolding m by (rule le_trans)
  then have "v * rn ltv div wad \<le> ?d * wad div wad" by (rule div_le_mono)
  then show ?thesis using le by simp
qed

lemma compute_withdraw_covered:
  assumes "compute_withdraw_amount n r ob c = Inr w" and "ob_borrows ob \<noteq> []"
  shows "\<exists>m. max_withdraw_value (Rate_from_percent (cf_loan_to_value_ratio (rs_config r))) ob = Inr m \<and> m \<noteq> Decimal_zero \<and>
    dn (oc_market_value c) * (wad * unat w div unat (oc_deposited_amount c)) div wad \<le> dn m"
proof -
  let ?mv = "dn (oc_market_value c)" and ?d = "unat (oc_deposited_amount c)"
  from assms obtain m where m: "max_withdraw_value (Rate_from_percent (cf_loan_to_value_ratio (rs_config r))) ob = Inr m"
    "m \<noteq> Decimal_zero"
    by (auto simp: compute_withdraw_amount_def res_simps split: if_splits)
  have "?mv * (wad * unat w div ?d) div wad \<le> dn m"
  proof (cases "n = U64_MAX")
    case True
    let ?p = "dn (min m (oc_market_value c)) * wad div ?mv"
    have "unat w \<le> ?p * ?d div wad"
      using True assms m
      by (auto simp: compute_withdraw_amount_def res_simps checked_simps Let_def min_def [of _ "oc_deposited_amount c"]
          word_le_nat_alt split: if_splits)
    then have "wad * unat w \<le> ?p * ?d" by (simp add: less_eq_div_iff_mult_less_eq mult.commute)
    then have "wad * unat w div ?d \<le> ?p" using div_le_mono [of "wad * unat w" "?p * ?d" ?d] by (cases "?d = 0") simp_all
    then have "?mv * (wad * unat w div ?d) \<le> ?mv * ?p" by simp
    also have "\<dots> \<le> dn (min m (oc_market_value c)) * wad" by simp
    finally have "?mv * (wad * unat w div ?d) div wad \<le> dn (min m (oc_market_value c)) * wad div wad" by (rule div_le_mono)
    also have "\<dots> \<le> dn m" by (simp add: min_def Decimal_le_iff)
    finally show ?thesis .
  next
    case False
    then show ?thesis
      using assms m
      by (auto simp: compute_withdraw_amount_def res_simps checked_simps Let_def not_less Decimal_le_iff split: if_splits)
  qed
  then show ?thesis using m by blast
qed

lemma withdraw_evolves:
  assumes "ob_owner ob \<in> S" and "is_fresh (ob_last_update ob) slot" and "bk_reserves b rk = Some r"
    and "is_fresh (rs_last_update r) slot" and "find_collateral_in_deposits rk ob = Inr (c, i)"
    and "compute_withdraw_amount n r ob c = Inr w" and "Obligation_withdraw w i ob = Inr ob'"
  shows "obligation_evolves S slot b ob (stale_obligation ob')"
proof -
  note c = find_collateral_Inr [OF assms(5)]
  note amounts = withdraw_amounts [OF assms(7)]
  have "withdrawal_covered b slot rk ob (stale_obligation ob')"
  proof (cases "ob_borrows ob = []")
    case True
    then show ?thesis using assms(2-4) c nth_mem by (fastforce simp: withdrawal_covered_def)
  next
    case False
    from compute_withdraw_covered [OF assms(6) False] max_withdraw_value_Inr
    have "dn (ob_borrowed_value ob) + dn (oc_market_value c) * (wad * unat w div unat (oc_deposited_amount c)) div wad
        * rn (Rate_from_percent (cf_loan_to_value_ratio (rs_config r))) div wad \<le> dn (ob_allowed_borrow_value ob)" by blast
    moreover have "deposited rk ob' + unat w = deposited rk ob" using amounts(1) [of rk] c by force
    then have "deposited rk ob - deposited rk ob' = unat w" by linarith
    moreover have "c \<in> set (ob_deposits ob)" using c by simp
    ultimately show ?thesis
      using assms(2-4) c unfolding withdrawal_covered_def stale_amounts by metis
  qed
  moreover have "deposited x ob' < deposited x ob \<Longrightarrow> x = rk" for x
    using amounts(1) [of x] c by (simp split: if_splits)
  ultimately show ?thesis using assms(1) amounts by (auto simp: obligation_evolves_def withdrawal_allowed_def)
qed

lemma borrow_evolves:
  assumes "ob_owner ob \<in> S" and "is_fresh (ob_last_update ob) slot" and "bk_reserves b rk = Some r"
    and "is_fresh (rs_last_update r) slot" and "remaining_borrow_value ob = Inr remaining"
    and "calculate_borrow n remaining r = Inr cb" and "find_or_add_liquidity_to_borrows rk ob = Inr (ob1, i)"
    and "ObligationLiquidity_borrow (cb_borrow_amount cb) (ob_borrows ob1 ! i) = Inr l"
  shows "obligation_evolves S slot b ob (stale_obligation (ob1\<lparr>ob_borrows := (ob_borrows ob1)[i := l]\<rparr>))"
    (is "obligation_evolves S slot b ob ?ob'")
proof -
  note amounts = borrow_amounts [OF assms(7,8)]
  have o: "owed x ?ob' = owed x ob + (if x = rk then dn (cb_borrow_amount cb) else 0)" for x by (simp add: amounts)
  have "dn remaining + dn (ob_borrowed_value ob) = dn (ob_allowed_borrow_value ob)"
    using assms(5) by (auto simp: remaining_borrow_value_def checked_simps)
  then have "borrow_covered b slot rk ob ?ob'"
    using calculate_borrow_value [OF assms(6)] assms(2-4) by (simp add: borrow_covered_def amounts)
  moreover have "owed x ob < owed x ?ob' \<Longrightarrow> x = rk" for x using o by (simp split: if_splits)
  moreover have "deposited x ?ob' = deposited x ob" for x by (simp add: amounts)
  ultimately show ?thesis
    using assms(1) find_or_add_kept(2) [OF assms(7)] by (auto simp: obligation_evolves_def debt_allowed_def)
qed

lemma book_step_evolves:
  assumes "book_step S slot b b'" and "bk_obligations b k = Some ob"
  shows "\<exists>ob'. bk_obligations b' k = Some ob' \<and> obligation_evolves S slot b ob ob'"
  using assms
proof (induction rule: book_step.induct)
  case (refresh b k' ob1 ob')
  then show ?case using refreshed_evolves by (cases "k' = k") auto
next
  case (deposit b k' ob0 rk ob1 i n c)
  have "obligation_evolves S slot b ob0 (stale_obligation (ob1\<lparr>ob_deposits := (ob_deposits ob1)[i := c]\<rparr>))"
    using find_or_add_kept(1) [OF deposit(3)] deposit_amounts [OF deposit(3,4)]
    by (simp add: obligation_evolves_def not_less [symmetric])
  then show ?case using deposit(1,5) by (cases "k' = k") auto
next
  case (take_out b k' ob0 rk r c i n w ob')
  then show ?case using withdraw_evolves [OF take_out(2-8)] by (cases "k' = k") auto
next
  case (borrow b k' ob0 rk r remaining n cb l ob1 i ol)
  then show ?case using borrow_evolves [OF borrow(2,3,5-8,10,11)] by (cases "k' = k") auto
next
  case (repay b k' ob0 rk r ol i n cr l ob')
  have "obligation_evolves S slot b ob0 (stale_obligation ob')"
    using repay_amounts [OF repay(8)] by (simp add: obligation_evolves_def not_less [symmetric])
  then show ?case using repay(1,9) by (cases "k' = k") auto
next
  case (liquidate b k' ob0 rk r wk wr ol i c j n cl l ob1 ob2)
  have "obligation_evolves S slot b ob0 (stale_obligation ob2)"
    using repay_amounts [OF liquidate(13)] withdraw_amounts [OF liquidate(14)] liquidate(2-4)
    by (simp add: obligation_evolves_def liquidatable_def withdrawal_allowed_def not_less [symmetric])
  then show ?case using liquidate(1,15) by (cases "k' = k") auto
qed auto

context cpi_runtime
begin

lemma call_evolves:
  assumes "lending_process_instruction R pid accounts input led = Inr led'" and "bk_obligations (book_of pid led) k = Some ob"
  obtains slot ob' where "bk_obligations (book_of pid led') k = Some ob'"
    and "obligation_evolves (signers accounts) slot (book_of pid led) ob ob'"
    and "is_fresh (ob_last_update ob) slot \<Longrightarrow> sees_slot R led accounts slot"
proof -
  consider "\<forall>slot. book_step (signers accounts) slot (book_of pid led) (book_of pid led')"
    | slot where "sees_slot R led accounts slot" "book_step (signers accounts) slot (book_of pid led) (book_of pid led')"
    using lending_call_step [OF assms(1)] by (auto simp: timed_step_def)
  then show thesis
  proof cases
    case 1
    let ?s = "lu_slot (ob_last_update ob) + 1"
    from book_step_evolves [OF 1 [rule_format] assms(2), of ?s] show thesis
      by (auto simp: is_fresh_def intro: that [of _ ?s])
  next
    case 2
    from book_step_evolves [OF 2(2) assms(2)] show thesis using that 2(1) by blast
  qed
qed

end

end
