(* ===== verification/Lending_Acts.thy ===== *)
theory Lending_Acts
  imports Lending_Refinement
begin

text \<open>
  Everything a lending instruction does to the ledger: it stores data in accounts the program owns and
  it invokes other programs, in some order, and nothing else.  This is what another program on the
  same chain can count on.
\<close>

inductive acts :: "runtime \<Rightarrow> pubkey \<Rightarrow> ledger \<Rightarrow> ledger \<Rightarrow> bool" for R pid led where
  start: "acts R pid led led"
| "store": "acts R pid led l \<Longrightarrow> acc_owner (led k) = pid \<Longrightarrow> acts R pid led (set_data k bs l)"
| invoke: "acts R pid led l \<Longrightarrow> ix_program_id ix \<noteq> pid \<Longrightarrow> rt_invoke_signed R pid ix infos seeds l = Inr l' \<Longrightarrow>
    acts R pid led l'"

lemma acts_pack:
  "LendingMarket_pack m k l = Inr l' \<Longrightarrow> acts R pid led l \<Longrightarrow> acc_owner (led k) = pid \<Longrightarrow> acts R pid led l'"
  "Reserve_pack r k l = Inr l' \<Longrightarrow> acts R pid led l \<Longrightarrow> acc_owner (led k) = pid \<Longrightarrow> acts R pid led l'"
  "Obligation_pack ob k l = Inr l' \<Longrightarrow> acts R pid led l \<Longrightarrow> acc_owner (led k) = pid \<Longrightarrow> acts R pid led l'"
  by (auto simp: LendingMarket_pack_def Reserve_pack_def Obligation_pack_def pack_to_ledger_def res_simps
      intro: acts.store)

lemma load_owner:
  "load_lending_market pid led a = Inr m \<Longrightarrow> acc_owner (led (ai_key a)) = pid"
  "load_market_for_token pid led a t = Inr m \<Longrightarrow> acc_owner (led (ai_key a)) = pid"
  "load_reserve pid led a = Inr r \<Longrightarrow> acc_owner (led (ai_key a)) = pid"
  "load_market_reserve pid led mk a = Inr r \<Longrightarrow> acc_owner (led (ai_key a)) = pid"
  "load_obligation pid led a = Inr ob \<Longrightarrow> acc_owner (led (ai_key a)) = pid"
  "load_market_obligation pid led mk a = Inr ob \<Longrightarrow> acc_owner (led (ai_key a)) = pid"
  "load_liquidation_repay_reserve pid led clk mk a a1 a2 a3 = Inr r \<Longrightarrow> acc_owner (led (ai_key a)) = pid"
  "load_unhealthy_obligation pid led clk mk a = Inr ob \<Longrightarrow> acc_owner (led (ai_key a)) = pid"
  by (auto simp: load_simps load_liquidation_repay_reserve_def load_unhealthy_obligation_def res_simps
      dest: stored_market stored_reserve stored_obligation)

context cpi_runtime
begin

lemma acts_token:
  assumes "rt_invoke_signed R pid ix infos seeds l = Inr l'" and "build R t metas i = Inr ix" and "acts R pid led l"
  shows "acts R pid led l'"
  using assms(2) token_is_other
  by (intro acts.invoke [OF assms(3) _ assms(1)]) (auto simp: build_def check_program_account_def res_simps)

lemma acts_spl_token:
  "spl_token_transfer R pid a1 a2 n a3 seeds t l = Inr l' \<Longrightarrow> acts R pid led l \<Longrightarrow> acts R pid led l'"
  "spl_token_mint_to R pid a1 a2 n a3 seeds t l = Inr l' \<Longrightarrow> acts R pid led l \<Longrightarrow> acts R pid led l'"
  "spl_token_burn R pid a1 a2 n a3 seeds t l = Inr l' \<Longrightarrow> acts R pid led l \<Longrightarrow> acts R pid led l'"
  "spl_token_init_account R pid a1 a2 a3 a4 t l = Inr l' \<Longrightarrow> acts R pid led l \<Longrightarrow> acts R pid led l'"
  "spl_token_init_mint R pid a1 a2 auth d t l = Inr l' \<Longrightarrow> acts R pid led l \<Longrightarrow> acts R pid led l'"
  by (auto simp: token_calls res_simps dest: acts_token split: if_splits)

lemma acts_fees:
  "pay_borrow_fees R pid a1 a2 it bf hf a3 seeds t l = Inr l' \<Longrightarrow> acts R pid led l \<Longrightarrow> acts R pid led l'"
  "pay_flash_loan_fees R pid a1 a2 a4 bf hf a3 seeds t l = Inr l' \<Longrightarrow> acts R pid led l \<Longrightarrow> acts R pid led l'"
  by (auto simp: pay_borrow_fees_def pay_flash_loan_fees_def res_simps dest!: acts_spl_token
      split: if_splits sum.splits prod.splits)

lemma acts_receiver:
  "rt_invoke_signed R pid (flash_loan_instruction a a1 a2 a3 rest n) infos seeds l = Inr l' \<Longrightarrow> acts R pid led l \<Longrightarrow>
     pid \<noteq> ai_key a \<Longrightarrow> acts R pid led l'"
  by (erule acts.invoke [rotated 2]) (auto simp: flash_loan_instruction_def)

lemmas acts_steps = acts_spl_token acts_fees acts_pack acts_receiver

lemma market_acts:
  "process_init_lending_market R pid w q accounts led = Inr led' \<Longrightarrow> acts R pid led led'"
  "process_set_lending_market_owner pid w accounts led = Inr led' \<Longrightarrow> acts R pid led led'"
  unfolding process_init_lending_market_def process_set_lending_market_owner_def
  by (elim peel_infos, erule acts_pack, rule acts.start, simp add: load_owner)+

lemma reserve_acts:
  "process_init_reserve R pid n cf accounts led = Inr led' \<Longrightarrow> acts R pid led led'"
  "process_refresh_reserve R pid accounts led = Inr led' \<Longrightarrow> acts R pid led led'"
  "process_deposit_reserve_liquidity R pid n accounts led = Inr led' \<Longrightarrow> acts R pid led led'"
  "process_redeem_reserve_collateral R pid n accounts led = Inr led' \<Longrightarrow> acts R pid led led'"
  unfolding process_init_reserve_def process_refresh_reserve_def process_deposit_reserve_liquidity_def
    process_redeem_reserve_collateral_def Let_def
  by (elim peel_infos, (erule acts_steps)+, rule acts.start, simp add: load_owner)+

lemma obligation_acts:
  "process_init_obligation R pid accounts led = Inr led' \<Longrightarrow> acts R pid led led'"
  "process_refresh_obligation R pid accounts led = Inr led' \<Longrightarrow> acts R pid led led'"
  "process_deposit_obligation_collateral R pid n accounts led = Inr led' \<Longrightarrow> acts R pid led led'"
  "process_withdraw_obligation_collateral R pid n accounts led = Inr led' \<Longrightarrow> acts R pid led led'"
  unfolding process_init_obligation_def process_refresh_obligation_def process_deposit_obligation_collateral_def
    process_withdraw_obligation_collateral_def
  by (elim peel_triples, (erule acts_steps)+, rule acts.start, simp add: load_owner)+

lemma debt_acts:
  "process_borrow_obligation_liquidity R pid n accounts led = Inr led' \<Longrightarrow> acts R pid led led'"
  "process_repay_obligation_liquidity R pid n accounts led = Inr led' \<Longrightarrow> acts R pid led led'"
  "process_liquidate_obligation R pid n accounts led = Inr led' \<Longrightarrow> acts R pid led led'"
  unfolding process_borrow_obligation_liquidity_def process_repay_obligation_liquidity_def
    process_liquidate_obligation_def Let_def
  by (elim peel_infos, (erule acts_steps)+, rule acts.start, simp add: load_owner, simp add: load_owner)+

lemma flash_loan_acts: "process_flash_loan R pid n accounts led = Inr led' \<Longrightarrow> acts R pid led led'"
  unfolding process_flash_loan_def Let_def
  by (elim peel_infos) ((erule acts_steps)+, rule acts.start, simp_all add: load_owner)

lemma lending_call_acts:
  assumes "lending_process_instruction R pid accounts input led = Inr led'"
  shows "acts R pid led led'"
proof -
  from assms obtain i where "run_lending_instruction R pid accounts i led = Inr led'"
    by (auto simp: lending_process_instruction_def res_simps)
  then show ?thesis
    by (cases i) (simp_all add: run_lending_instruction_def market_acts reserve_acts obligation_acts debt_acts flash_loan_acts)
qed

text \<open>The accounts of the program stay its own.\<close>

lemma acts_owner: "acts R pid led l \<Longrightarrow> acc_owner (led k) = pid \<Longrightarrow> acc_owner (l k) = pid"
proof (induction rule: acts.induct)
  case (invoke l ix infos seeds l')
  then have "acc_owner (l k) = pid" by blast
  then show ?case using invoke_other [OF invoke(2,3)] unfolding other_activity_def by presburger
qed auto

end

end
