(* ===== verification/Chain.thy ===== *)
theory Chain
  imports Lending_Safety Lending_Acts Token_Supply
begin

text \<open>
  The token program and the lending program on one chain.  The lending program moves tokens by
  invoking the token program; here that invocation is the token program's own entry point, so the
  guarantees of both programs hold together over any interleaving of their instructions.
\<close>

section \<open>What an invocation can do\<close>

text \<open>
  An invocation made by the lending program is, as the two programs see it, a sequence of calls of
  the token program and of steps of programs that are neither.
\<close>

definition outside_step :: "runtime \<Rightarrow> pubkey \<Rightarrow> ledger \<Rightarrow> ledger \<Rightarrow> bool" where
  "outside_step R pid led led' \<longleftrightarrow> world_step R (token_program_id R) led led' \<and> other_activity pid led led'"

locale chain_runtime =
  fixes R :: runtime and pid :: pubkey
  assumes token_differs: "token_program_id R \<noteq> pid"
    and invoke_outside: "ix_program_id ix \<noteq> pid \<Longrightarrow> rt_invoke_signed R pid ix infos seeds led = Inr led' \<Longrightarrow>
      (outside_step R pid)\<^sup>*\<^sup>* led led'"

lemma outside_run_other: "(outside_step R pid)\<^sup>*\<^sup>* led led' \<Longrightarrow> other_activity pid led led'"
  by (induction rule: rtranclp_induct) (auto simp: outside_step_def intro: other_activity_trans)

lemma outside_run_world: "(outside_step R pid)\<^sup>*\<^sup>* led led' \<Longrightarrow> (world_step R (token_program_id R))\<^sup>*\<^sup>* led led'"
  by (erule rtranclp_mono [THEN predicate2D, rotated]) (auto simp: outside_step_def)

sublocale chain_runtime \<subseteq> cpi_runtime R pid
  using token_differs outside_run_other [OF invoke_outside] by unfold_locales

section \<open>The token program as the program invoked\<close>

definition meta_info :: "account_meta \<Rightarrow> account_info" where
  "meta_info m = \<lparr>ai_key = am_pubkey m, ai_is_signer = am_is_signer m, ai_is_writable = am_is_writable m\<rparr>"

text \<open>An account signs an invocation if it signed the caller's, or if it is an address derived for the caller.\<close>

definition may_sign :: "runtime \<Rightarrow> pubkey \<Rightarrow> account_info list \<Rightarrow> bytes list list \<Rightarrow> pubkey \<Rightarrow> bool" where
  "may_sign R caller infos seeds k \<longleftrightarrow>
     (\<exists>a \<in> set infos. ai_key a = k \<and> ai_is_signer a) \<or>
     (\<exists>s \<in> set seeds. rt_create_program_address R s caller = Inr k)"

definition no_foreign_debit :: "pubkey \<Rightarrow> ledger \<Rightarrow> ledger \<Rightarrow> bool" where
  "no_foreign_debit pid led led' \<longleftrightarrow>
     (\<forall>k. acc_owner (led k) \<noteq> pid \<longrightarrow> unat (acc_lamports (led k)) \<le> unat (acc_lamports (led' k)))"

definition token_invoke ::
    "runtime \<Rightarrow> pubkey \<Rightarrow> sol_instruction \<Rightarrow> account_info list \<Rightarrow> bytes list list \<Rightarrow> ledger \<Rightarrow> ledger res" where
  "token_invoke R caller ix infos seeds led =
     (if ix_program_id ix \<noteq> token_program_id R then Inl IncorrectProgramId
      else if \<exists>m \<in> set (ix_accounts ix). am_is_signer m \<and> \<not> may_sign R caller infos seeds (am_pubkey m)
      then Inl MissingRequiredSignature
      else
        attempt (process R (token_program_id R) (map meta_info (ix_accounts ix)) (ix_data ix) led) (\<lambda>(led', _).
        if runtime_accepts (token_program_id R) led led' \<and> no_foreign_debit (token_program_id R) led led' then Inr led'
        else Inl InvalidAccountData))"

definition with_token_program :: "runtime \<Rightarrow> runtime" where
  "with_token_program R = R\<lparr>rt_invoke_signed := token_invoke R\<rparr>"

lemma fields_without_invoke:
  "rt_rent_get (R\<lparr>rt_invoke_signed := f\<rparr>) = rt_rent_get R"
  "rent_from_info (R\<lparr>rt_invoke_signed := f\<rparr>) = rent_from_info R"
  "rt_incinerator_id (R\<lparr>rt_invoke_signed := f\<rparr>) = rt_incinerator_id R"
  "is_owned_by_system_program_or_incinerator (R\<lparr>rt_invoke_signed := f\<rparr>) = is_owned_by_system_program_or_incinerator R"
  "token_program_id (R\<lparr>rt_invoke_signed := f\<rparr>) = token_program_id R"
  "native_mint_id (R\<lparr>rt_invoke_signed := f\<rparr>) = native_mint_id R"
  by (simp_all add: fun_eq_iff rent_from_info_def is_owned_by_system_program_or_incinerator_def token_program_id_def
      native_mint_id_def)

lemma process_without_invoke: "process (R\<lparr>rt_invoke_signed := f\<rparr>) = process R"
proof (intro ext)
  fix pid accounts input led
  show "process (R\<lparr>rt_invoke_signed := f\<rparr>) pid accounts input led = process R pid accounts input led"
  unfolding process_def process_instruction_def process_initialize_mint_def process_initialize_mint2_def
    process_initialize_mint_inner_def process_initialize_account_inner_def
    process_initialize_multisig_inner_def process_burn_def burn_authority_def process_close_account_def
    process_initialize_account_def process_initialize_account2_def process_initialize_account3_def
    process_initialize_multisig_def process_initialize_multisig2_def take_rent_def fields_without_invoke
  by (rule refl)
qed

lemma world_step_with_token [simp]: "world_step (with_token_program R) tid = world_step R tid"
proof -
  have "token_call (with_token_program R) tid led led' = token_call R tid led led'" for led led'
    by (simp add: token_call_def with_token_program_def process_without_invoke)
  then show ?thesis by (auto simp: fun_eq_iff elim!: world_step.cases intro: world_step.intros)
qed

lemma accepted_other:
  assumes "runtime_accepts tid led led'" and "no_foreign_debit tid led led'" and "tid \<noteq> pid"
  shows "other_activity pid led led'"
proof -
  have "acc_owner (led' k) = acc_owner (led k)" and "acc_owner (led k) = pid \<Longrightarrow> acc_data (led' k) = acc_data (led k)"
    and "acc_owner (led k) = pid \<Longrightarrow> unat (acc_lamports (led k)) \<le> unat (acc_lamports (led' k))" for k
    using assms unfolding runtime_accepts_def no_foreign_debit_def by (blast, metis, metis)
  then show ?thesis by (simp add: other_activity_def)
qed

lemma with_token_program_chain:
  assumes "token_program_id R \<noteq> pid"
  shows "chain_runtime (with_token_program R) pid"
proof
  let ?R = "with_token_program R"
  have id: "token_program_id ?R = token_program_id R"
    by (simp add: with_token_program_def fields_without_invoke)
  then show "token_program_id ?R \<noteq> pid" using assms by simp
  fix ix infos seeds led led'
  assume "rt_invoke_signed ?R pid ix infos seeds led = Inr led'"
  then obtain ret where run: "process R (token_program_id R) (map meta_info (ix_accounts ix)) (ix_data ix) led = Inr (led', ret)"
    and ok: "runtime_accepts (token_program_id R) led led'" "no_foreign_debit (token_program_id R) led led'"
    by (auto simp: with_token_program_def token_invoke_def res_simps split: if_splits)
  then have "world_step R (token_program_id R) led led'"
    unfolding token_call_def by (blast intro: world_step.call [unfolded token_call_def])
  then have "outside_step ?R pid led led'"
    using accepted_other [OF ok assms] id by (simp add: outside_step_def)
  then show "(outside_step ?R pid)\<^sup>*\<^sup>* led led'" by blast
qed

section \<open>The two programs together\<close>

inductive chain_step :: "runtime \<Rightarrow> pubkey \<Rightarrow> ledger \<Rightarrow> ledger \<Rightarrow> bool" for R pid where
  token: "token_call R (token_program_id R) led led' \<Longrightarrow> other_activity pid led led' \<Longrightarrow> chain_step R pid led led'"
| lending: "lending_call R pid led led' \<Longrightarrow> chain_step R pid led led'"
| elsewhere: "other_activity (token_program_id R) led led' \<Longrightarrow> other_activity pid led led' \<Longrightarrow> chain_step R pid led led'"

context chain_runtime
begin

lemma acts_world: "acts R pid led l \<Longrightarrow> (world_step R (token_program_id R))\<^sup>*\<^sup>* led l"
proof (induction rule: acts.induct)
  case (store l k bs)
  then have "acc_owner (l k) = pid" using acts_owner by blast
  then have "other_activity (token_program_id R) l (set_data k bs l)"
    using token_differs by (auto simp: other_activity_def)
  then show ?case using store(3) world_step.other by (metis rtranclp.rtrancl_into_rtrancl)
next
  case (invoke l ix infos seeds l')
  then show ?case using outside_run_world [OF invoke_outside [OF invoke(2,3)]] by simp
qed simp

lemma chain_step_world: "chain_step R pid led led' \<Longrightarrow> (world_step R (token_program_id R))\<^sup>*\<^sup>* led led'"
proof (induction rule: chain_step.induct)
  case (lending led led')
  then show ?case using acts_world [OF lending_call_acts] by (auto simp: lending_call_def)
qed (auto intro: world_step.intros)

lemma chain_step_lending: "chain_step R pid led led' \<Longrightarrow> lending_world_step R pid led led'"
  by (induction rule: chain_step.induct) (auto intro: lending_world_step.intros)

lemma chain_run_world: "(chain_step R pid)\<^sup>*\<^sup>* led led' \<Longrightarrow> (world_step R (token_program_id R))\<^sup>*\<^sup>* led led'"
  by (induction rule: rtranclp_induct) (auto dest: chain_step_world)

lemma chain_run_lending: "(chain_step R pid)\<^sup>*\<^sup>* led led' \<Longrightarrow> (lending_world_step R pid)\<^sup>*\<^sup>* led led'"
  by (induction rule: rtranclp_induct) (auto dest!: chain_step_lending)

lemma chain_book_ok: "\<forall>k. acc_owner (genesis k) \<noteq> pid \<Longrightarrow> (chain_step R pid)\<^sup>*\<^sup>* genesis led \<Longrightarrow> book_ok (book_of pid led)"
  by (rule history_ok [OF _ chain_run_lending])

end

end
