(* ===== verification/Lending_Guarantees.thy ===== *)
theory Lending_Guarantees
  imports Chain Token_Safety
begin

text \<open>
  The guarantees of the lending program as theorems about its entry point and handlers, each with a
  concrete run in which the tokens are moved by the token program itself.
\<close>

section \<open>A concrete market\<close>

text \<open>
  The lending program is account 6.  Account 40 is a market of owner 70, with derived authority 77; 60 and
  61 are reserves of it, with liquidity supply 41, fee receiver 42 and collateral supply 45; 65 is an
  obligation of owner 50 with a deposit in 60 and a debt to 61; 46 and 47 are token accounts of that
  owner.  The current slot is 7.
\<close>

abbreviation chain_example :: runtime where "chain_example \<equiv> with_token_program example_runtime"

definition market_bytes :: "LendingMarket \<Rightarrow> bytes" where
  "market_bytes m = (case LendingMarket_pack_into_slice m (replicate LENDING_MARKET_LEN 0) of Inr bs \<Rightarrow> bs | Inl _ \<Rightarrow> [])"

definition reserve_bytes :: "Reserve \<Rightarrow> bytes" where
  "reserve_bytes r = (case Reserve_pack_into_slice r (replicate RESERVE_LEN 0) of Inr bs \<Rightarrow> bs | Inl _ \<Rightarrow> [])"

definition obligation_bytes :: "Obligation \<Rightarrow> bytes" where
  "obligation_bytes ob = (case Obligation_pack_into_slice ob (replicate OBLIGATION_LEN 0) of Inr bs \<Rightarrow> bs | Inl _ \<Rightarrow> [])"

lemma market_bytes_unpack:
  assumes "LendingMarket_wf m" and "LendingMarket_is_initialized m"
  shows "LendingMarket_unpack (market_bytes m) = Inr m" and "length (market_bytes m) = LENDING_MARKET_LEN"
proof -
  have "is_ok (LendingMarket_pack_into_slice m (replicate LENDING_MARKET_LEN 0))"
    by (simp add: LendingMarket_pack_into_slice_def)
  then obtain bs where bs: "LendingMarket_pack_into_slice m (replicate LENDING_MARKET_LEN 0) = Inr bs" by (auto simp: is_ok_iff)
  with LendingMarket_from_into [OF _ assms(1) bs] assms(2) show "LendingMarket_unpack (market_bytes m) = Inr m"
    and "length (market_bytes m) = LENDING_MARKET_LEN"
    by (simp_all add: market_bytes_def LendingMarket_unpack_def market_packed.unpack_eq_Inr)
qed

lemma reserve_bytes_unpack:
  assumes "Reserve_wf r" and "Reserve_is_initialized r" and "reserve_packable r"
  shows "Reserve_unpack (reserve_bytes r) = Inr r" and "length (reserve_bytes r) = RESERVE_LEN"
proof -
  obtain bs where bs: "Reserve_pack_into_slice r (replicate RESERVE_LEN 0) = Inr bs"
    using assms(3) by (simp add: Reserve_pack_into_slice_def reserve_packable_def Let_def res_simps pack_decimal_eq_Inr)
  with Reserve_from_into [OF _ assms(1) bs] assms(2) show "Reserve_unpack (reserve_bytes r) = Inr r"
    and "length (reserve_bytes r) = RESERVE_LEN"
    by (simp_all add: reserve_bytes_def Reserve_unpack_def reserve_packed.unpack_eq_Inr)
qed

lemma obligation_bytes_unpack:
  assumes "Obligation_wf ob" and "Obligation_is_initialized ob" and "obligation_packable ob" and "obligation_fits ob"
  shows "Obligation_unpack (obligation_bytes ob) = Inr ob" and "length (obligation_bytes ob) = OBLIGATION_LEN"
proof -
  obtain bs where bs: "Obligation_pack_into_slice ob (replicate OBLIGATION_LEN 0) = Inr bs"
    using assms(3,4) Obligation_into_slice_iff [of "replicate OBLIGATION_LEN 0" ob] by (auto simp: is_ok_iff)
  with Obligation_from_into [OF _ assms(1) bs] assms(2) show "Obligation_unpack (obligation_bytes ob) = Inr ob"
    and "length (obligation_bytes ob) = OBLIGATION_LEN"
    by (simp_all add: obligation_bytes_def Obligation_unpack_def obligation_packed.unpack_eq_Inr)
qed

definition sample_market :: LendingMarket where
  "sample_market = \<lparr>lm_version = 1, lm_bump_seed = 255, lm_owner = 70, lm_quote_currency = replicate 32 0,
     lm_token_program_id = 5, lm_oracle_program_id = 8\<rparr>"

definition sample_reserve :: Reserve where
  "sample_reserve = example_reserve\<lparr>rs_last_update := \<lparr>lu_slot = 7, lu_stale = False\<rparr>\<rparr>"

definition sample_obligation :: Obligation where
  "sample_obligation =
     \<lparr>ob_version = 1, ob_last_update = \<lparr>lu_slot = 7, lu_stale = False\<rparr>, ob_lending_market = 40, ob_owner = 50,
      ob_deposits = [\<lparr>oc_deposit_reserve = 60, oc_deposited_amount = 200, oc_market_value = Decimal (6 * Decimal_wad)\<rparr>],
      ob_borrows = [\<lparr>ol_borrow_reserve = 61, ol_cumulative_borrow_rate_wads = Decimal_one,
                     ol_borrowed_amount_wads = Decimal (100 * Decimal_wad), ol_market_value = Decimal (2 * Decimal_wad)\<rparr>],
      ob_deposited_value = Decimal (6 * Decimal_wad), ob_borrowed_value = Decimal (2 * Decimal_wad),
      ob_allowed_borrow_value = Decimal (3 * Decimal_wad), ob_unhealthy_borrow_value = Decimal (3300000000000000000)\<rparr>"

definition sample_token :: "pubkey \<Rightarrow> pubkey \<Rightarrow> u64 \<Rightarrow> account" where
  "sample_token mint owner n = (example_account owner n)\<lparr>ta_mint := mint\<rparr>"

definition sample_ledger :: ledger where
  "sample_ledger k =
     \<lparr>acc_lamports = 9,
      acc_data = (if k = 40 then market_bytes sample_market
                  else if k = 60 \<or> k = 61 then reserve_bytes sample_reserve
                  else if k = 65 then obligation_bytes sample_obligation
                  else if k = 41 then Account_bytes (sample_token 20 77 1000)
                  else if k = 42 then Account_bytes (sample_token 20 77 0)
                  else if k = 45 then Account_bytes (sample_token 44 77 900)
                  else if k = 46 then Account_bytes (sample_token 44 50 0)
                  else if k = 47 then Account_bytes (sample_token 20 50 5) else []),
      acc_owner = (if k \<in> {40, 60, 61, 65} then 6 else if k \<in> {41, 42, 45, 46, 47} then 5 else 0)\<rparr>"

lemmas sample_defs = sample_market_def sample_reserve_def sample_obligation_def example_reserve_def

lemma sample_wf:
  "LendingMarket_wf sample_market" "LendingMarket_is_initialized sample_market"
  "Reserve_wf sample_reserve" "Reserve_is_initialized sample_reserve" "reserve_packable sample_reserve"
  "Obligation_wf sample_obligation" "Obligation_is_initialized sample_obligation"
  "obligation_packable sample_obligation" "obligation_fits sample_obligation"
  by (simp_all add: sample_defs LendingMarket_wf_def LendingMarket_is_initialized_def Reserve_wf_def
      Reserve_is_initialized_def Obligation_wf_def Obligation_is_initialized_def PROGRAM_VERSION_def
      UNINITIALIZED_VERSION_def reserve_packable_def obligation_packable_def packable_def Decimal_wad_def WAD_def
      obligation_fits_def collateral_packable_def liquidity_packable_def Decimal_one_def)

lemmas sample_stored [simp] =
  market_bytes_unpack [OF sample_wf(1,2)] reserve_bytes_unpack [OF sample_wf(3-5)] obligation_bytes_unpack [OF sample_wf(6-9)]

lemma sample_ledger_sel [simp]:
  "acc_data (sample_ledger 40) = market_bytes sample_market" "acc_data (sample_ledger 60) = reserve_bytes sample_reserve"
  "acc_data (sample_ledger 61) = reserve_bytes sample_reserve"
  "acc_data (sample_ledger 65) = obligation_bytes sample_obligation"
  "acc_data (sample_ledger 41) = Account_bytes (sample_token 20 77 1000)"
  "acc_data (sample_ledger 42) = Account_bytes (sample_token 20 77 0)"
  "acc_data (sample_ledger 45) = Account_bytes (sample_token 44 77 900)"
  "acc_data (sample_ledger 46) = Account_bytes (sample_token 44 50 0)"
  "acc_data (sample_ledger 47) = Account_bytes (sample_token 20 50 5)"
  "acc_owner (sample_ledger 40) = 6" "acc_owner (sample_ledger 60) = 6" "acc_owner (sample_ledger 61) = 6"
  "acc_owner (sample_ledger 65) = 6" "acc_owner (sample_ledger 41) = 5" "acc_owner (sample_ledger 42) = 5"
  "acc_owner (sample_ledger 45) = 5" "acc_owner (sample_ledger 46) = 5" "acc_owner (sample_ledger 47) = 5"
  "acc_lamports (sample_ledger k) = 9"
  by (simp_all add: sample_ledger_def)

lemma sample_token_sel [simp]:
  "account_is_initialized (sample_token m ow n)" "ta_amount (sample_token m ow n) = n" "ta_owner (sample_token m ow n) = ow"
  "ta_mint (sample_token m ow n) = m" "ta_delegate (sample_token m ow n) = None"
  "ta_state (sample_token m ow n) = Initialized" "ta_is_native (sample_token m ow n) = None"
  "(sample_token m ow n)\<lparr>ta_amount := n'\<rparr> = sample_token m ow n'"
  by (simp_all add: sample_token_def account_is_initialized_def) (simp add: example_account_def)

lemma chain_example_sel [simp]:
  "token_program_id chain_example = 5" "clock_from_info chain_example led a = Inr \<lparr>clock_slot = 7, clock_unix_timestamp = 1000, clock_epoch = 3\<rparr>"
  "rt_create_program_address chain_example s k = Inr 77"
  "rt_invoke_signed chain_example = token_invoke example_runtime"
  "token_program_id example_runtime = 5" "rt_create_program_address example_runtime s k = Inr 77"
  by (simp_all add: with_token_program_def example_runtime_def token_program_id_def clock_from_info_def)

text \<open>A token transfer by an invocation that the owner of the source may sign, and one by the market authority.\<close>

lemma sample_invoke:
  assumes acct: "token_account 5 (l s) = Some a" "token_account 5 (l d) = Some b" and "s \<noteq> d"
    and "\<not> is_frozen a" "\<not> is_frozen b" "ta_mint b = ta_mint a" "ta_is_native a = None" "ta_delegate a = None" "ta_owner a = ow"
    and "unat n \<le> unat (ta_amount a)" "unat (ta_amount b) + unat n < 2 ^ 64"
    and "acc_owner (l ow) \<noteq> 5" "may_sign example_runtime caller infos seeds ow"
  shows "\<exists>ix. transfer example_runtime 5 s d ow [] n = Inr ix \<and> ix_program_id ix = 5 \<and>
    (\<exists>l'. token_invoke example_runtime caller ix infos seeds l = Inr l' \<and>
      token_account 5 (l' s) = Some (a\<lparr>ta_amount := ta_amount a - n\<rparr>) \<and>
      token_account 5 (l' d) = Some (b\<lparr>ta_amount := ta_amount b + n\<rparr>) \<and> (\<forall>k. k \<noteq> s \<and> k \<noteq> d \<longrightarrow> l' k = l k))"
proof -
  have u: "Account_unpack (acc_data (l s)) = Inr a" "Account_unpack (acc_data (l d)) = Inr b" "acc_owner (l s) = 5" "acc_owner (l d) = 5"
    using acct by (simp_all add: token_account_iff)
  then have len: "length (acc_data (l s)) = ACCOUNT_LEN" "length (acc_data (l d)) = ACCOUNT_LEN"
    and init: "account_is_initialized a" "account_is_initialized b"
    by (simp_all add: Account_unpack_def account_packed.unpack_eq_Inr)
  let ?au = "\<lparr>ai_key = ow, ai_is_signer = True, ai_is_writable = False\<rparr>"
  let ?l = "set_data d (Account_over (b\<lparr>ta_amount := ta_amount b + n\<rparr>) (acc_data (l d)))
    (set_data s (Account_over (a\<lparr>ta_amount := ta_amount a - n\<rparr>) (acc_data (l s))) l)"
  have "process_transfer 5 [info s False, info d False, ?au] n None l = Inr ?l"
    using assms u len
    by (simp add: process_transfer_def take_expected_mint_def check_expected_mint_def transfer_authority_def validate_owner_def
        cmp_pubkeys_def check_account_owner_def is_native_def checked_sub_def checked_add_def word_less_nat_alt not_less Let_def)
  then have "process example_runtime 5 [info s False, info d False, ?au] (TokenInstruction_pack (Transfer n)) l = Inr (?l, [])"
    by (simp add: process_packed TokenInstruction_wf_def process_instruction_def no_return_def del: TokenInstruction_pack.simps)
  moreover have "runtime_accepts 5 l ?l" "no_foreign_debit 5 l ?l"
    using u(3,4) by (auto simp: runtime_accepts_def no_foreign_debit_def)
  moreover have "token_account 5 (?l s) = Some (a\<lparr>ta_amount := ta_amount a - n\<rparr>)"
    and "token_account 5 (?l d) = Some (b\<lparr>ta_amount := ta_amount b + n\<rparr>)"
    using assms(3) len init u by (simp_all add: token_account_iff account_is_initialized_def)
  moreover have "\<forall>k. k \<noteq> s \<and> k \<noteq> d \<longrightarrow> ?l k = l k" by (simp add: set_data_other)
  ultimately show ?thesis
    using assms(13)
    by (simp add: transfer_def build_def check_program_account_def token_invoke_def authority_metas_def
        AccountMeta_new_def AccountMeta_new_readonly_def meta_info_def)
qed

lemma sample_transfer:
  assumes acct: "token_account 5 (l s) = Some a" "token_account 5 (l d) = Some b" and "s \<noteq> d"
    and "\<not> is_frozen a" "\<not> is_frozen b" "ta_mint b = ta_mint a" "ta_is_native a = None" "ta_delegate a = None" "ta_owner a = 77"
    and "unat n \<le> unat (ta_amount a)" "unat (ta_amount b) + unat n < 2 ^ 64"
    and "acc_owner (l 77) \<noteq> 5" "seeds \<noteq> []" "ai_key au = 77"
    and R: "token_program_id R = 5"
      "\<And>ix infos seeds l. ix_program_id ix = 5 \<Longrightarrow>
         rt_invoke_signed R 6 ix infos seeds l = token_invoke example_runtime 6 ix infos seeds l"
  shows "\<exists>l'. spl_token_transfer R 6 (info s False) (info d False) n au seeds (info 5 False) l = Inr l' \<and>
    token_account 5 (l' s) = Some (a\<lparr>ta_amount := ta_amount a - n\<rparr>) \<and>
    token_account 5 (l' d) = Some (b\<lparr>ta_amount := ta_amount b + n\<rparr>) \<and> (\<forall>k. k \<noteq> s \<and> k \<noteq> d \<longrightarrow> l' k = l k)"
proof -
  let ?infos = "[info s False, info d False, au, info 5 False]"
  have "may_sign example_runtime 6 ?infos [seeds] 77" by (simp add: may_sign_def)
  with sample_invoke [of l s a d b 77 n 6 ?infos "[seeds]"] assms obtain ix l' where
    ix: "transfer example_runtime 5 s d 77 [] n = Inr ix" "ix_program_id ix = 5"
    and l': "token_invoke example_runtime 6 ix ?infos [seeds] l = Inr l'"
    "token_account 5 (l' s) = Some (a\<lparr>ta_amount := ta_amount a - n\<rparr>)"
    "token_account 5 (l' d) = Some (b\<lparr>ta_amount := ta_amount b + n\<rparr>)" "\<forall>k. k \<noteq> s \<and> k \<noteq> d \<longrightarrow> l' k = l k"
    by blast
  have "transfer R 5 s d 77 [] n = Inr ix"
    using ix(1) R(1) by (simp add: transfer_def build_def check_program_account_def)
  then show ?thesis
    using l' assms(13,14) R(2) [OF ix(2)] by (simp add: spl_token_transfer_def invoke_optionally_signed_def)
qed

interpretation sample_chain: chain_runtime chain_example 6
  by (rule with_token_program_chain) simp

lemma sample_book [simp]:
  "bk_obligations (book_of 6 sample_ledger) 65 = Some sample_obligation"
  "bk_reserves (book_of 6 sample_ledger) 60 = Some sample_reserve"
  "bk_reserves (book_of 6 sample_ledger) 61 = Some sample_reserve"
  "bk_markets (book_of 6 sample_ledger) 40 = Some sample_market"
  by (simp_all add: book_of_def stored_eq_Some)

lemma sample_values [simp]:
  "lm_token_program_id sample_market = 5" "rs_lending_market sample_reserve = 40" "ob_lending_market sample_obligation = 40"
  "rs_last_update sample_reserve = \<lparr>lu_slot = 7, lu_stale = False\<rparr>" "rc_supply_pubkey (rs_collateral sample_reserve) = 45"
  "rl_supply_pubkey (rs_liquidity sample_reserve) = 41" "rl_fee_receiver (rs_liquidity sample_reserve) = 42"
  "ob_last_update sample_obligation = \<lparr>lu_slot = 7, lu_stale = False\<rparr>" "ob_owner sample_obligation = 50"
  by (simp_all add: sample_defs)

abbreviation withdraw_infos :: "account_info list" where
  "withdraw_infos \<equiv> [info 45 False, info 46 False, info 60 False, info 65 False, info 40 False, info 77 False,
     info 50 True, info 3 False, info 5 False]"

abbreviation withdrawn :: Obligation where
  "withdrawn \<equiv> sample_obligation\<lparr>ob_deposits := [\<lparr>oc_deposit_reserve = 60, oc_deposited_amount = 140,
     oc_market_value = Decimal (6 * Decimal_wad)\<rparr>], ob_last_update := \<lparr>lu_slot = 7, lu_stale = True\<rparr>\<rparr>"

lemma Obligation_store_ok:
  assumes "length (acc_data (l k)) = OBLIGATION_LEN" and "obligation_packable ob" and "obligation_fits ob"
  shows "\<exists>l'. Obligation_pack ob k l = Inr l' \<and> (\<forall>x. x \<noteq> k \<longrightarrow> l' x = l x)"
proof -
  obtain bs where "Obligation_pack_into_slice ob (acc_data (l k)) = Inr bs"
    using Obligation_into_slice_iff [OF assms(1), of ob] assms(2,3) by (auto simp: is_ok_iff)
  then have "Obligation_pack ob k l = Inr (set_data k bs l)"
    using assms(1) by (auto simp: Obligation_pack_def obligation_packed.pack_to_ledger_eq_Inr)
  then show ?thesis by (simp add: set_data_other)
qed

lemma sample_loads:
  "load_market_for_token 6 sample_ledger (info 40 False) (info 5 False) = Inr sample_market"
  "load_market_reserve 6 sample_ledger (info 40 False) (info 60 False) = Inr sample_reserve"
  "load_market_reserve 6 sample_ledger (info 40 False) (info 61 False) = Inr sample_reserve"
  "load_market_obligation 6 sample_ledger (info 40 False) (info 65 False) = Inr sample_obligation"
  "check_fresh \<lparr>lu_slot = 7, lu_stale = False\<rparr> \<lparr>clock_slot = 7, clock_unix_timestamp = 1000, clock_epoch = 3\<rparr> e = Inr ()"
  "check_obligation_owner sample_obligation (info 50 True) = Inr ()"
  "check_market_authority chain_example 6 (info 40 False) sample_market (info 77 False) = Inr ()"
  by (simp_all add: load_simps is_fresh_def check_market_authority_def)

lemma sample_withdraw:
  "\<exists>led'. lending_process_instruction chain_example 6 withdraw_infos
      (LendingInstruction_pack (WithdrawObligationCollateral 60)) sample_ledger = Inr led' \<and>
    bk_obligations (book_of 6 led') 65 = Some withdrawn"
proof -
  have c: "find_collateral_in_deposits 60 sample_obligation = Inr (ob_deposits sample_obligation ! 0, 0)"
    and d: "oc_deposited_amount (ob_deposits sample_obligation ! 0) \<noteq> 0"
    by (simp_all add: find_collateral_in_deposits_def find_collateral_index_in_deposits_def sample_defs)
  have w: "compute_withdraw_amount 60 sample_reserve sample_obligation (ob_deposits sample_obligation ! 0) = Inr 60"
    by (simp add: compute_withdraw_amount_def sample_defs math_eval Let_def U64_MAX_def max_withdraw_value_def)
  have o: "Obligation_withdraw 60 0 sample_obligation =
      Inr (withdrawn\<lparr>ob_last_update := ob_last_update sample_obligation\<rparr>)"
    by (simp add: Obligation_withdraw_def ObligationCollateral_withdraw_def sample_defs checked_sub_def Let_def)
  have len: "length (acc_data (sample_ledger 65)) = OBLIGATION_LEN" by simp
  have fit: "obligation_packable withdrawn" "obligation_fits withdrawn"
    using sample_wf(8,9) by (simp_all add: obligation_packable_def obligation_fits_def sample_defs collateral_packable_def)
  obtain l1 where pk: "Obligation_pack withdrawn 65 sample_ledger = Inr l1"
    and same: "\<And>k. k \<noteq> 65 \<Longrightarrow> l1 k = sample_ledger k"
    using Obligation_store_ok [of sample_ledger 65, OF len fit] by blast
  have "\<exists>l2. spl_token_transfer chain_example 6 (info 45 False) (info 46 False) 60 (info 77 False)
      (authority_signer_seeds (info 40 False) sample_market) (info 5 False) l1 = Inr l2"
    using sample_transfer [of l1 45 "sample_token 44 77 900" 46 "sample_token 44 50 0" 60 "authority_signer_seeds (info 40 False) sample_market" "info 77 False" chain_example]
    by (simp add: same token_account_iff is_frozen_def authority_signer_seeds_def) (simp add: sample_ledger_def, blast?)
  then obtain l2 where t: "spl_token_transfer chain_example 6 (info 45 False) (info 46 False) 60 (info 77 False)
      (authority_signer_seeds (info 40 False) sample_market) (info 5 False) l1 = Inr l2" by blast
  have "process_withdraw_obligation_collateral chain_example 6 60 withdraw_infos sample_ledger = Inr l2"
    using pk t by (simp add: process_withdraw_obligation_collateral_def sample_loads c d w o mark_stale_def)
  moreover have "LendingInstruction_unpack (LendingInstruction_pack (WithdrawObligationCollateral 60)) = Inr (WithdrawObligationCollateral 60)"
    by (rule LendingInstruction_unpack_pack) (simp add: LendingInstruction_wf_def)
  ultimately have "lending_process_instruction chain_example 6 withdraw_infos
      (LendingInstruction_pack (WithdrawObligationCollateral 60)) sample_ledger = Inr l2"
    by (simp add: lending_process_instruction_def run_lending_instruction_def)
  moreover have "bk_obligations (book_of 6 l2) 65 = Some withdrawn"
    using sample_chain.spl_token_book(1) [OF t] restore_obligation [OF pk sample_book(1)] by simp
  ultimately show ?thesis by blast
qed

text \<open>A borrow of 40 tokens, for which the fee of two tokens is charged.\<close>

abbreviation borrow_infos :: "account_info list" where
  "borrow_infos \<equiv> [info 41 False, info 47 False, info 61 False, info 42 False, info 65 False, info 40 False, info 77 False,
     info 50 True, info 3 False, info 5 False]"

abbreviation indebted :: Obligation where
  "indebted \<equiv> sample_obligation\<lparr>ob_borrows := [\<lparr>ol_borrow_reserve = 61, ol_cumulative_borrow_rate_wads = Decimal_one,
       ol_borrowed_amount_wads = Decimal (142 * Decimal_wad), ol_market_value = Decimal (2 * Decimal_wad)\<rparr>],
     ob_last_update := \<lparr>lu_slot = 7, lu_stale = True\<rparr>\<rparr>"

lemma Reserve_store_ok:
  assumes "length (acc_data (l k)) = RESERVE_LEN" and "reserve_packable r"
  shows "\<exists>l'. Reserve_pack r k l = Inr l' \<and> (\<forall>x. x \<noteq> k \<longrightarrow> l' x = l x)"
  using Reserve_pack_ok [of l k, OF assms] reserve_packed.stored_frame(3) unfolding Reserve_pack_def by metis

abbreviation lent :: Reserve where
  "lent \<equiv> sample_reserve\<lparr>rs_liquidity := (rs_liquidity sample_reserve)\<lparr>rl_available_amount := 958,
      rl_borrowed_amount_wads := Decimal (542 * Decimal_wad)\<rparr>, rs_last_update := \<lparr>lu_slot = 7, lu_stale = True\<rparr>\<rparr>"

lemma sample_borrow_terms:
  "remaining_borrow_value sample_obligation = Inr (Decimal Decimal_wad)"
  "calculate_borrow 40 (Decimal Decimal_wad) sample_reserve =
     Inr \<lparr>cb_borrow_amount = Decimal (42 * Decimal_wad), cb_receive_amount = 40, cb_borrow_fee = 2, cb_host_fee = 1\<rparr>"
  "ReserveLiquidity_borrow (Decimal (42 * Decimal_wad)) (rs_liquidity sample_reserve) = Inr (rs_liquidity lent)"
  "find_or_add_liquidity_to_borrows 61 sample_obligation = Inr (sample_obligation, 0)"
  "ObligationLiquidity_borrow (Decimal (42 * Decimal_wad)) (ob_borrows sample_obligation ! 0) = Inr (ob_borrows indebted ! 0)"
  "sample_obligation\<lparr>ob_borrows := (ob_borrows sample_obligation)[0 := ob_borrows indebted ! 0],
     ob_last_update := mark_stale (ob_last_update sample_obligation)\<rparr> = indebted"
  "ob_deposits sample_obligation \<noteq> []" "ob_deposited_value sample_obligation \<noteq> Decimal_zero"
  "Decimal Decimal_wad \<noteq> Decimal_zero"
  by (simp_all add: remaining_borrow_value_def calculate_borrow_def calculate_borrow_fees_def calculate_fees_def
      ReserveLiquidity_borrow_def find_or_add_liquidity_to_borrows_def find_liquidity_index_in_borrows_def
      ObligationLiquidity_borrow_def sample_defs math_eval Let_def checked_pow_def U64_MAX_def word_le_nat_alt mark_stale_def)

lemma sample_borrow_stores:
  obtains l1 l2 where "Reserve_pack lent 61 sample_ledger = Inr l1" and "Obligation_pack indebted 65 l1 = Inr l2"
    and "\<forall>k. k \<noteq> 61 \<and> k \<noteq> 65 \<longrightarrow> l2 k = sample_ledger k"
proof -
  have len: "length (acc_data (sample_ledger 61)) = RESERVE_LEN" by simp
  have fit: "reserve_packable lent" "obligation_packable indebted" "obligation_fits indebted"
    using sample_wf(5,8,9) by (simp_all add: obligation_packable_def obligation_fits_def sample_defs liquidity_packable_def
      reserve_packable_def packable_def Decimal_wad_def WAD_def)
  obtain l1 where pk1: "Reserve_pack lent 61 sample_ledger = Inr l1" and same1: "\<And>k. k \<noteq> 61 \<Longrightarrow> l1 k = sample_ledger k"
    using Reserve_store_ok [of sample_ledger 61, OF len fit(1)] by blast
  have len1: "length (acc_data (l1 65)) = OBLIGATION_LEN" by (simp add: same1)
  obtain l2 where "Obligation_pack indebted 65 l1 = Inr l2" and "\<And>k. k \<noteq> 65 \<Longrightarrow> l2 k = l1 k"
    using Obligation_store_ok [of l1 65, OF len1 fit(2,3)] by blast
  then show thesis using that [OF pk1] same1 by simp
qed

lemma sample_borrow_transfers:
  assumes "\<forall>k. k \<noteq> 61 \<and> k \<noteq> 65 \<longrightarrow> l2 k = sample_ledger k"
  obtains l3 l4 where
    "spl_token_transfer chain_example 6 (info 41 False) (info 42 False) 2 (info 77 False)
       (authority_signer_seeds (info 40 False) sample_market) (info 5 False) l2 = Inr l3"
    "spl_token_transfer chain_example 6 (info 41 False) (info 47 False) 40 (info 77 False)
       (authority_signer_seeds (info 40 False) sample_market) (info 5 False) l3 = Inr l4"
proof -
  let ?sd = "authority_signer_seeds (info 40 False) sample_market"
  have seeds: "?sd \<noteq> []" by (simp add: authority_signer_seeds_def)
  have own: "acc_owner (sample_ledger 77) \<noteq> 5" by (simp add: sample_ledger_def)
  have "\<exists>l3. spl_token_transfer chain_example 6 (info 41 False) (info 42 False) 2 (info 77 False) ?sd (info 5 False) l2 = Inr l3 \<and>
      token_account 5 (l3 41) = Some (sample_token 20 77 998) \<and> (\<forall>k. k \<noteq> 41 \<and> k \<noteq> 42 \<longrightarrow> l3 k = l2 k)"
    using sample_transfer [of l2 41 "sample_token 20 77 1000" 42 "sample_token 20 77 0" 2 ?sd "info 77 False" chain_example] seeds own
    by (simp add: assms token_account_iff is_frozen_def) blast
  then obtain l3 where t1: "spl_token_transfer chain_example 6 (info 41 False) (info 42 False) 2 (info 77 False) ?sd (info 5 False) l2 = Inr l3"
    and l3: "token_account 5 (l3 41) = Some (sample_token 20 77 998)" and same3: "\<And>k. k \<noteq> 41 \<Longrightarrow> k \<noteq> 42 \<Longrightarrow> l3 k = l2 k" by blast
  have "\<exists>l4. spl_token_transfer chain_example 6 (info 41 False) (info 47 False) 40 (info 77 False) ?sd (info 5 False) l3 = Inr l4"
    using sample_transfer [of l3 41 "sample_token 20 77 998" 47 "sample_token 20 50 5" 40 ?sd "info 77 False" chain_example] seeds own l3
    by (simp add: assms same3 token_account_iff is_frozen_def) blast
  then show thesis using that [OF t1] by blast
qed

lemma sample_borrow:
  "\<exists>led'. lending_process_instruction chain_example 6 borrow_infos
      (LendingInstruction_pack (BorrowObligationLiquidity 40)) sample_ledger = Inr led' \<and>
    bk_obligations (book_of 6 led') 65 = Some indebted"
proof -
  let ?sd = "authority_signer_seeds (info 40 False) sample_market"
  obtain l1 l2 where pk: "Reserve_pack lent 61 sample_ledger = Inr l1" "Obligation_pack indebted 65 l1 = Inr l2"
    and same: "\<forall>k. k \<noteq> 61 \<and> k \<noteq> 65 \<longrightarrow> l2 k = sample_ledger k" by (rule sample_borrow_stores)
  obtain l3 l4 where
    t1: "spl_token_transfer chain_example 6 (info 41 False) (info 42 False) 2 (info 77 False) ?sd (info 5 False) l2 = Inr l3" and
    t2: "spl_token_transfer chain_example 6 (info 41 False) (info 47 False) 40 (info 77 False) ?sd (info 5 False) l3 = Inr l4"
    by (rule sample_borrow_transfers [OF same])
  have "pay_borrow_fees chain_example 6 (info 41 False) (info 42 False) [] 2 1 (info 77 False) ?sd (info 5 False) l2 = Inr l3"
    using t1 by (simp add: pay_borrow_fees_def)
  then have "process_borrow_obligation_liquidity chain_example 6 40 borrow_infos sample_ledger = Inr l4"
    using pk t2 sample_borrow_terms(3,6-9)
    by (simp add: process_borrow_obligation_liquidity_def sample_loads sample_borrow_terms(1,2,4,5) mark_stale_def Let_def)
  moreover have "LendingInstruction_unpack (LendingInstruction_pack (BorrowObligationLiquidity 40)) = Inr (BorrowObligationLiquidity 40)"
    by (rule LendingInstruction_unpack_pack) (simp add: LendingInstruction_wf_def)
  ultimately have "lending_process_instruction chain_example 6 borrow_infos
      (LendingInstruction_pack (BorrowObligationLiquidity 40)) sample_ledger = Inr l4"
    by (simp add: lending_process_instruction_def run_lending_instruction_def)
  moreover have "bk_obligations (book_of 6 l4) 65 = Some indebted"
    using sample_chain.spl_token_book(1) [OF t2] sample_chain.spl_token_book(1) [OF t1]
      store_both [OF pk sample_book(3,1)] by simp
  ultimately show ?thesis by blast
qed

text \<open>A history: two zeroed accounts are handed over, a market is opened, then an obligation.\<close>

definition handed_ledger :: ledger where
  "handed_ledger k =
     \<lparr>acc_lamports = 9,
      acc_data = (if k = 40 then replicate LENDING_MARKET_LEN 0 else if k = 65 then replicate OBLIGATION_LEN 0 else []),
      acc_owner = (if k = 40 \<or> k = 65 then 6 else 0)\<rparr>"

lemma zero_bytes [simp]: "from_le_bytes (replicate n 0) = (0 :: 'a :: len word)"
  by (induction n) simp_all

lemma zero_market:
  "\<exists>m. LendingMarket_unpack_unchecked (replicate LENDING_MARKET_LEN 0) = Inr m \<and> \<not> LendingMarket_is_initialized m"
  by (simp add: LendingMarket_unpack_unchecked_def Pack_unpack_unchecked_def LendingMarket_unpack_from_slice_def subslice_def
      LendingMarket_is_initialized_def UNINITIALIZED_VERSION_def Let_def)

lemma zero_obligation:
  "\<exists>ob. Obligation_unpack_unchecked (replicate OBLIGATION_LEN 0) = Inr ob \<and> \<not> Obligation_is_initialized ob \<and> obligation_packable ob"
  by (simp add: Obligation_unpack_unchecked_def Pack_unpack_unchecked_def Obligation_unpack_from_slice_def subslice_def
      Obligation_is_initialized_def UNINITIALIZED_VERSION_def Let_def unpack_bool_def obligation_packable_def
      unpack_decimal_packable)

lemma sample_rent: "\<exists>rent. rent_from_info chain_example led a = Inr rent \<and> (\<forall>l n. rent_is_exempt rent l n)"
  by (simp add: rent_from_info_def with_token_program_def example_runtime_def)

lemma history_market:
  "\<exists>l. lending_process_instruction chain_example 6 [info 40 False, info 2 False, info 5 False, info 8 False]
         (LendingInstruction_pack (InitLendingMarket 70 (replicate 32 0))) handed_ledger = Inr l \<and>
       (\<exists>m. bk_markets (book_of 6 l) 40 = Some m \<and> lm_token_program_id m = 5) \<and> l 65 = handed_ledger 65"
proof -
  obtain m where m: "LendingMarket_unpack_unchecked (replicate LENDING_MARKET_LEN 0) = Inr m" "\<not> LendingMarket_is_initialized m"
    using zero_market by blast
  obtain rent where r: "rent_from_info chain_example handed_ledger (info 2 False) = Inr rent" "\<forall>l n. rent_is_exempt rent l n"
    using sample_rent by blast
  let ?m = "LendingMarket_init (snd (rt_find_program_address chain_example [to_le_bytes (40 :: pubkey)] 6)) 70 (replicate 32 0) 5 8 m"
  have len: "acc_data (handed_ledger 40) = replicate LENDING_MARKET_LEN 0" "acc_owner (handed_ledger 40) = 6"
    by (simp_all add: handed_ledger_def)
  obtain l where pk: "LendingMarket_pack ?m 40 handed_ledger = Inr l" and same: "l 65 = handed_ledger 65"
    by (simp add: LendingMarket_pack_def pack_to_ledger_def Pack_pack_def LendingMarket_pack_into_slice_def len set_data_other)
  have "process_init_lending_market chain_example 6 70 (replicate 32 0) [info 40 False, info 2 False, info 5 False, info 8 False]
      handed_ledger = Inr l"
    using pk by (simp add: process_init_lending_market_def r assert_rent_exempt_def assert_uninitialized_def len m)
  moreover have "book_of 6 l = (book_of 6 handed_ledger)\<lparr>bk_markets := (bk_markets (book_of 6 handed_ledger))(40 \<mapsto> ?m)\<rparr>"
    by (rule Market_pack_book [OF pk _ _ len(2)])
      (simp_all add: LendingMarket_wf_def LendingMarket_is_initialized_def LendingMarket_init_def PROGRAM_VERSION_def UNINITIALIZED_VERSION_def)
  ultimately show ?thesis
    using LendingInstruction_unpack_pack [of "InitLendingMarket 70 (replicate 32 0)"] same
    by (simp add: LendingInstruction_wf_def lending_process_instruction_def run_lending_instruction_def LendingMarket_init_def)
qed

lemma history_obligation:
  assumes "bk_markets (book_of 6 l) 40 = Some m" and "lm_token_program_id m = 5" and "l 65 = handed_ledger 65"
  shows "\<exists>l' ob. lending_process_instruction chain_example 6
       [info 65 False, info 40 False, info 50 True, info 3 False, info 2 False, info 5 False]
       (LendingInstruction_pack InitObligation) l = Inr l' \<and> bk_obligations (book_of 6 l') 65 = Some ob \<and> ob_owner ob = 50"
proof -
  obtain ob where ob: "Obligation_unpack_unchecked (replicate OBLIGATION_LEN 0) = Inr ob" "\<not> Obligation_is_initialized ob"
    "obligation_packable ob" using zero_obligation by blast
  obtain rent where r: "rent_from_info chain_example l (info 2 False) = Inr rent" "\<forall>l n. rent_is_exempt rent l n"
    using sample_rent by blast
  let ?ob = "Obligation_init 7 40 50 [] [] ob"
  have d: "acc_data (l 65) = replicate OBLIGATION_LEN 0" "acc_owner (l 65) = 6" by (simp_all add: assms(3) handed_ledger_def)
  have len: "length (acc_data (l 65)) = OBLIGATION_LEN" by (simp add: d)
  have "obligation_packable ?ob" "obligation_fits ?ob"
    using ob(3) by (simp_all add: obligation_packable_def obligation_fits_def Obligation_init_def)
  then obtain l' where pk: "Obligation_pack ?ob 65 l = Inr l'" using Obligation_store_ok [of l 65, OF len] by blast
  have "load_market_for_token 6 l (info 40 False) (info 5 False) = Inr m" using assms(1,2) by (simp add: load_simps)
  then have "process_init_obligation chain_example 6
      [info 65 False, info 40 False, info 50 True, info 3 False, info 2 False, info 5 False] l = Inr l'"
    using pk by (simp add: process_init_obligation_def r assert_rent_exempt_def assert_uninitialized_def d ob)
  moreover have "bk_obligations (book_of 6 l') 65 = Some ?ob"
    by (subst Obligation_pack_book [OF pk _ _ d(2)])
      (simp_all add: Obligation_wf_def Obligation_is_initialized_def Obligation_init_def PROGRAM_VERSION_def UNINITIALIZED_VERSION_def)
  ultimately show ?thesis
    using LendingInstruction_unpack_pack [of InitObligation]
    by (simp add: LendingInstruction_wf_def lending_process_instruction_def run_lending_instruction_def Obligation_init_def)
qed

lemma sample_history:
  obtains led ob where "(chain_step chain_example 6)\<^sup>*\<^sup>* genesis_ledger led" "bk_obligations (book_of 6 led) 65 = Some ob"
proof -
  have "other_activity 5 genesis_ledger handed_ledger" "other_activity 6 genesis_ledger handed_ledger"
    by (auto simp: other_activity_def genesis_ledger_def handed_ledger_def)
  then have 1: "chain_step chain_example 6 genesis_ledger handed_ledger" by (intro chain_step.elsewhere) simp_all
  obtain l m where l: "lending_process_instruction chain_example 6 [info 40 False, info 2 False, info 5 False, info 8 False]
      (LendingInstruction_pack (InitLendingMarket 70 (replicate 32 0))) handed_ledger = Inr l"
    "bk_markets (book_of 6 l) 40 = Some m" "lm_token_program_id m = 5" "l 65 = handed_ledger 65" using history_market by blast
  then have 2: "chain_step chain_example 6 handed_ledger l" by (intro chain_step.lending lending_callI)
  obtain l' ob where "lending_process_instruction chain_example 6
       [info 65 False, info 40 False, info 50 True, info 3 False, info 2 False, info 5 False]
       (LendingInstruction_pack InitObligation) l = Inr l'" and ob: "bk_obligations (book_of 6 l') 65 = Some ob"
    using history_obligation [OF l(2-4)] by blast
  then have "chain_step chain_example 6 l l'" by (intro chain_step.lending lending_callI)
  with 2 have "(chain_step chain_example 6)\<^sup>*\<^sup>* handed_ledger l'" by (meson r_into_rtranclp rtranclp.rtrancl_into_rtrancl)
  with 1 have "(chain_step chain_example 6)\<^sup>*\<^sup>* genesis_ledger l'" by (rule converse_rtranclp_into_rtranclp)
  then show thesis using that ob by blast
qed

section \<open>Properties\<close>

text \<open>C3: whatever lending instruction is run, and by whom, a stored obligation stays stored with its owner and
  market.  Its collateral in a reserve goes down only if the obligation is liquidatable at the current
  slot, or if its owner signed and the part withdrawn was not needed to cover what it owes.\<close>

theorem collateral_lowered_authorized:
  assumes "cpi_runtime R pid" and "lending_process_instruction R pid accounts input led = Inr led'"
    and "bk_obligations (book_of pid led) k = Some ob"
  shows "\<exists>ob'. bk_obligations (book_of pid led') k = Some ob' \<and> ob_owner ob' = ob_owner ob \<and>
    ob_lending_market ob' = ob_lending_market ob \<and>
    (\<forall>rk. deposited rk ob' < deposited rk ob \<longrightarrow>
       (\<exists>slot. sees_slot R led accounts slot \<and>
               withdrawal_allowed (signers accounts) slot (book_of pid led) rk ob ob'))"
proof -
  from cpi_runtime.call_evolves [OF assms] obtain slot ob' where "bk_obligations (book_of pid led') k = Some ob'"
    "obligation_evolves (signers accounts) slot (book_of pid led) ob ob'"
    "is_fresh (ob_last_update ob) slot \<Longrightarrow> sees_slot R led accounts slot" by metis
  then show ?thesis
    by (fastforce simp: obligation_evolves_def withdrawal_allowed_def liquidatable_def withdrawal_covered_def)
qed

theorem collateral_lowered_authorized_witness:
  "\<exists>led' ob'. lending_process_instruction chain_example 6 withdraw_infos
       (LendingInstruction_pack (WithdrawObligationCollateral 60)) sample_ledger = Inr led' \<and>
     bk_obligations (book_of 6 led') 65 = Some ob' \<and> deposited 60 ob' = 140 \<and> deposited 60 sample_obligation = 200 \<and>
     (\<exists>slot. withdrawal_allowed (signers withdraw_infos) slot (book_of 6 sample_ledger) 60 sample_obligation ob')"
proof -
  obtain led' where run: "lending_process_instruction chain_example 6 withdraw_infos
       (LendingInstruction_pack (WithdrawObligationCollateral 60)) sample_ledger = Inr led'"
    and ob': "bk_obligations (book_of 6 led') 65 = Some withdrawn" using sample_withdraw by blast
  have "deposited 60 withdrawn = 140" "deposited 60 sample_obligation = 200" by (simp_all add: deposited_def sample_defs)
  then show ?thesis
    using collateral_lowered_authorized [OF sample_chain.cpi_runtime_axioms run sample_book(1)] run ob' by force
qed

text \<open>C4: in any call, the debt of a stored obligation to a reserve goes up only by interest, or with the
  signature of the owner and by an amount whose value fits in the obligation's borrow limit on top of
  everything it owes, at values refreshed in the current slot.\<close>

theorem debt_raised_authorized:
  assumes "cpi_runtime R pid" and "lending_process_instruction R pid accounts input led = Inr led'"
    and "bk_obligations (book_of pid led) k = Some ob" and "bk_obligations (book_of pid led') k = Some ob'"
    and "owed rk ob < owed rk ob'"
  shows "list_all2 accrued (ob_borrows ob) (ob_borrows ob') \<or>
    ob_owner ob \<in> signers accounts \<and>
    (\<exists>slot. sees_slot R led accounts slot \<and> borrow_covered (book_of pid led) slot rk ob ob')"
proof -
  from cpi_runtime.call_evolves [OF assms(1-3)] assms(4) obtain slot where
    "obligation_evolves (signers accounts) slot (book_of pid led) ob ob'"
    "is_fresh (ob_last_update ob) slot \<Longrightarrow> sees_slot R led accounts slot" by (metis option.inject)
  then show ?thesis using assms(5) by (fastforce simp: obligation_evolves_def debt_allowed_def borrow_covered_def)
qed

theorem debt_raised_authorized_witness:
  "\<exists>led' ob'. lending_process_instruction chain_example 6 borrow_infos
       (LendingInstruction_pack (BorrowObligationLiquidity 40)) sample_ledger = Inr led' \<and>
     bk_obligations (book_of 6 led') 65 = Some ob' \<and> owed 61 sample_obligation + 42 * wad = owed 61 ob' \<and>
     (list_all2 accrued (ob_borrows sample_obligation) (ob_borrows ob') \<or>
      ob_owner sample_obligation \<in> signers borrow_infos \<and>
      (\<exists>slot. borrow_covered (book_of 6 sample_ledger) slot 61 sample_obligation ob'))"
proof -
  obtain led' where run: "lending_process_instruction chain_example 6 borrow_infos
       (LendingInstruction_pack (BorrowObligationLiquidity 40)) sample_ledger = Inr led'"
    and ob': "bk_obligations (book_of 6 led') 65 = Some indebted" using sample_borrow by blast
  have o: "owed 61 sample_obligation + 42 * wad = owed 61 indebted"
    by (simp add: owed_def sample_defs Decimal_wad_def WAD_def)
  then have "owed 61 sample_obligation < owed 61 indebted" by linarith
  from debt_raised_authorized [OF sample_chain.cpi_runtime_axioms run sample_book(1) ob' this] run ob' o show ?thesis by blast
qed

text \<open>C5: in every history that starts before the lending program owns any account, whatever other programs do
  in between, each stored reserve has a valid configuration, each stored obligation has one entry per
  reserve and fits its account, and while its values are fresh the borrow limit is at most the
  liquidation limit, which is at most the value deposited.\<close>

theorem lending_book_reachable:
  assumes "cpi_runtime R pid" and "\<forall>k. acc_owner (genesis k) \<noteq> pid"
    and "(lending_world_step R pid)\<^sup>*\<^sup>* genesis led"
  shows "(\<forall>k r. bk_reserves (book_of pid led) k = Some r \<longrightarrow> config_valid (rs_config r)) \<and>
    (\<forall>k ob. bk_obligations (book_of pid led) k = Some ob \<longrightarrow>
       obligation_shape ob \<and> obligation_fits ob \<and> valuation_ordered ob)"
proof -
  have "book_ok (book_of pid led)" by (rule cpi_runtime.history_ok [OF assms])
  then show ?thesis using shape_fits by (auto simp: book_ok_def)
qed

theorem lending_book_reachable_witness:
  "\<exists>led ob. bk_obligations (book_of 6 led) 65 = Some ob \<and> obligation_shape ob \<and> obligation_fits ob \<and> valuation_ordered ob"
proof -
  obtain led ob where h: "(chain_step chain_example 6)\<^sup>*\<^sup>* genesis_ledger led" and ob: "bk_obligations (book_of 6 led) 65 = Some ob"
    by (rule sample_history)
  have "\<forall>k. acc_owner (genesis_ledger k) \<noteq> 6" by (simp add: genesis_ledger_def)
  from lending_book_reachable [OF sample_chain.cpi_runtime_axioms this sample_chain.chain_run_lending [OF h]] ob
  show ?thesis by blast
qed

text \<open>C6: the token program and the lending program run side by side, the lending program moving tokens only by
  invoking others.  In every history of both from a ledger where neither owns an account, the supply of
  every mint but the native one is the sum of its balances, and the lending program's reserves and
  obligations satisfy their invariant.\<close>

theorem programs_safe_together:
  assumes "chain_runtime R pid" and "\<forall>k. acc_owner (genesis k) \<noteq> token_program_id R \<and> acc_owner (genesis k) \<noteq> pid"
    and "(chain_step R pid)\<^sup>*\<^sup>* genesis led"
  shows "(\<forall>m. m \<noteq> native_mint_id R \<longrightarrow>
      circulating (\<lambda>k. token_account (token_program_id R) (led k)) m = supply_of (bank_of (token_program_id R) led) m) \<and>
    book_ok (book_of pid led)"
proof -
  have "bank_invariant (native_mint_id R) (bank_of (token_program_id R) led)"
    using world_system.run_inv [OF chain_runtime.chain_run_world [OF assms(1,3)]] genesis_invariant assms(2) by blast
  moreover have "book_ok (book_of pid led)"
    by (rule chain_runtime.chain_book_ok [OF assms(1) _ assms(3)]) (simp add: assms(2))
  ultimately show ?thesis by (simp add: bank_invariant_def supply_matches_def bank_of_def)
qed

theorem programs_safe_together_witness:
  "\<exists>led ob. bk_obligations (book_of 6 led) 65 = Some ob \<and> book_ok (book_of 6 led) \<and>
     circulating (\<lambda>k. token_account 5 (led k)) 20 = supply_of (bank_of 5 led) 20"
proof -
  obtain led ob where h: "(chain_step chain_example 6)\<^sup>*\<^sup>* genesis_ledger led" and ob: "bk_obligations (book_of 6 led) 65 = Some ob"
    by (rule sample_history)
  have g: "\<forall>k. acc_owner (genesis_ledger k) \<noteq> token_program_id chain_example \<and> acc_owner (genesis_ledger k) \<noteq> 6"
    by (simp add: genesis_ledger_def)
  have "(20 :: pubkey) \<noteq> native_mint_id chain_example"
    by (simp add: with_token_program_def fields_without_invoke) (simp add: native_mint_id_def example_runtime_def)
  with programs_safe_together [OF sample_chain.chain_runtime_axioms g h] ob show ?thesis by auto
qed

text \<open>C18: every instruction the lending program accepts is a step of the protocol on its markets, reserves and
  obligations, with the permissions of the signers among its accounts: at any slot for the operations
  that do not depend on time, and at the slot of the clock account for the others.\<close>

theorem lending_calls_refine_protocol:
  assumes "cpi_runtime R pid" and "lending_process_instruction R pid accounts input led = Inr led'"
  shows "(\<forall>slot. book_step (signers accounts) slot (book_of pid led) (book_of pid led')) \<or>
    (\<exists>slot. sees_slot R led accounts slot \<and>
       book_step (signers accounts) slot (book_of pid led) (book_of pid led'))"
  using cpi_runtime.lending_call_step [OF assms] unfolding timed_step_def .

theorem lending_calls_refine_protocol_witness:
  "\<exists>led'. lending_process_instruction chain_example 6 withdraw_infos
       (LendingInstruction_pack (WithdrawObligationCollateral 60)) sample_ledger = Inr led' \<and>
     book_of 6 led' \<noteq> book_of 6 sample_ledger \<and>
     (\<exists>slot. book_step {50} slot (book_of 6 sample_ledger) (book_of 6 led'))"
proof -
  obtain led' where run: "lending_process_instruction chain_example 6 withdraw_infos
       (LendingInstruction_pack (WithdrawObligationCollateral 60)) sample_ledger = Inr led'"
    and ob': "bk_obligations (book_of 6 led') 65 = Some withdrawn" using sample_withdraw by blast
  have s: "signers withdraw_infos = {50}" by (force simp: signers_def)
  have "withdrawn \<noteq> sample_obligation" by (simp add: sample_defs)
  then have "book_of 6 led' \<noteq> book_of 6 sample_ledger" using ob' sample_book(1) by auto
  with lending_calls_refine_protocol [OF sample_chain.cpi_runtime_axioms run] run show ?thesis unfolding s by blast
qed

end
