(* ===== verification/Lending_Flash.thy ===== *)
theory Lending_Flash
  imports Lending_Guarantees
begin

text \<open>
  Flash loans: what the lending program checks when the borrowed tokens come back, and a concrete loan
  whose receiver repays it through the token program.
\<close>

section \<open>The receiver program\<close>

text \<open>
  The handler of the repository's flash-loan receiver
  (\<^verbatim>\<open>token-lending/flash_loan_receiver/src/processor.rs\<close>): it sends the requested amount back with the
  authority of the user that its fourth account names.
\<close>

definition unpack_flash_amount :: "bytes \<Rightarrow> u64 res" where
  "unpack_flash_amount input = ok_or (map_option from_le_bytes (get_prefix 8 input)) InvalidInstructionData"

definition receive_flash_loan :: "runtime \<Rightarrow> pubkey \<Rightarrow> account_info list \<Rightarrow> bytes \<Rightarrow> ledger \<Rightarrow> ledger res" where
  "receive_flash_loan R pid accounts input led =
     attempt (next_account_info accounts) (\<lambda>(destination_liq_info, it).
     attempt (next_account_info it) (\<lambda>(source_liq_info, it).
     attempt (next_account_info it) (\<lambda>(spl_token_program_info, it).
     attempt (next_account_info it) (\<lambda>(user_transfer_authority_info, it).
     attempt (ok_or (split_first input) InvalidInstructionData) (\<lambda>(tag, rest).
     if tag \<noteq> 0 then Inl InvalidInstructionData
     else
       attempt (unpack_flash_amount rest) (\<lambda>amt.
       attempt (transfer R (ai_key spl_token_program_info) (ai_key destination_liq_info) (ai_key source_liq_info)
                  (ai_key user_transfer_authority_info) [] amt) (\<lambda>ix.
       rt_invoke_signed R pid ix
         [source_liq_info, destination_liq_info, user_transfer_authority_info, spl_token_program_info] [] led)))))))"

section \<open>A loan that is repaid\<close>

text \<open>
  The receiver is program 90, run with the accounts of the instruction it is sent; every other
  invocation is of the token program.
\<close>

definition receiver_invoke ::
    "pubkey \<Rightarrow> sol_instruction \<Rightarrow> account_info list \<Rightarrow> bytes list list \<Rightarrow> ledger \<Rightarrow> ledger res" where
  "receiver_invoke caller ix infos seeds led =
     (if ix_program_id ix = 90 then
        if \<exists>m \<in> set (ix_accounts ix). am_is_signer m \<and> \<not> may_sign example_runtime caller infos seeds (am_pubkey m)
        then Inl MissingRequiredSignature
        else receive_flash_loan chain_example 90 (map meta_info (ix_accounts ix)) (ix_data ix) led
      else token_invoke example_runtime caller ix infos seeds led)"

definition flash_example :: runtime where
  "flash_example = example_runtime\<lparr>rt_invoke_signed := receiver_invoke\<rparr>"

lemma flash_example_sel [simp]:
  "token_program_id flash_example = 5" "rt_create_program_address flash_example s k = Inr 77"
  "rt_invoke_signed flash_example = receiver_invoke"
  by (simp_all add: flash_example_def token_program_id_def example_runtime_def)

lemma token_invoke_outside:
  assumes "token_invoke example_runtime caller ix infos seeds led = Inr led'"
  shows "outside_step flash_example 6 led led'"
proof -
  from assms obtain ret where run: "process example_runtime 5 (map meta_info (ix_accounts ix)) (ix_data ix) led = Inr (led', ret)"
    and ok: "runtime_accepts 5 led led'" "no_foreign_debit 5 led led'"
    by (auto simp: token_invoke_def res_simps split: if_splits)
  have "process flash_example = process example_runtime" by (simp add: flash_example_def process_without_invoke)
  then have "token_call flash_example 5 led led'" using run ok(1) unfolding token_call_def by metis
  then show ?thesis using accepted_other [OF ok, of 6] by (simp add: outside_step_def world_step.call)
qed

interpretation flash_chain: chain_runtime flash_example 6
  by unfold_locales
    (auto simp: receiver_invoke_def receive_flash_loan_def res_simps split: if_splits dest!: token_invoke_outside)

definition flash_ledger :: ledger where
  "flash_ledger = sample_ledger(
     48 := \<lparr>acc_lamports = 9, acc_data = Account_bytes (sample_token 20 50 10), acc_owner = 5\<rparr>,
     49 := \<lparr>acc_lamports = 9, acc_data = Account_bytes (sample_token 20 77 0), acc_owner = 5\<rparr>)"

abbreviation flash_infos :: "account_info list" where
  "flash_infos \<equiv> [info 41 False, info 48 False, info 60 False, info 42 False, info 49 False, info 40 False, info 77 False,
     info 5 False, info 90 False, info 50 True]"

abbreviation flash_reserve :: Reserve where
  "flash_reserve \<equiv> sample_reserve\<lparr>rs_liquidity := (rs_liquidity sample_reserve)\<lparr>rl_available_amount := 900,
     rl_borrowed_amount_wads := Decimal (600 * Decimal_wad)\<rparr>\<rparr>"

lemma flash_terms:
  "calculate_flash_loan_fees (cf_fees (rs_config sample_reserve)) (Decimal_from_u64 100) = Inr (2, 1)"
  "ReserveLiquidity_borrow (Decimal_from_u64 100) (rs_liquidity sample_reserve) = Inr (rs_liquidity flash_reserve)"
  "ReserveLiquidity_repay 100 (Decimal_from_u64 100) (rs_liquidity flash_reserve) = Inr (rs_liquidity sample_reserve)"
  "rl_available_amount (rs_liquidity sample_reserve) = 1000" "reserve_packable flash_reserve"
  by (simp_all add: calculate_flash_loan_fees_def calculate_fees_def ReserveLiquidity_borrow_def ReserveLiquidity_repay_def
      sample_defs math_eval Let_def word_le_nat_alt reserve_packable_def packable_def)

lemma flash_transfer:
  assumes "token_account 5 (l s) = Some (sample_token 20 77 x)" "token_account 5 (l d) = Some (sample_token 20 ow y)"
    and "s \<noteq> d" "unat n \<le> unat x" "unat y + unat n < 2 ^ 64" "acc_owner (l 77) \<noteq> 5"
  obtains l' where
    "spl_token_transfer flash_example 6 (info s False) (info d False) n (info 77 False)
       (authority_signer_seeds (info 40 False) sample_market) (info 5 False) l = Inr l'"
    "token_account 5 (l' s) = Some (sample_token 20 77 (x - n))" "token_account 5 (l' d) = Some (sample_token 20 ow (y + n))"
    "\<forall>k. k \<noteq> s \<and> k \<noteq> d \<longrightarrow> l' k = l k"
proof -
  have "authority_signer_seeds (info 40 False) sample_market \<noteq> []" by (simp add: authority_signer_seeds_def)
  with sample_transfer [OF assms(1-3), where R = flash_example and au = "info 77 False" and n = n] assms(4-6)
  show thesis using that by (force simp: is_frozen_def receiver_invoke_def)
qed

lemma receiver_returns:
  assumes "token_account 5 (l 48) = Some (sample_token 20 50 x)" "token_account 5 (l 41) = Some (sample_token 20 77 y)"
    and "102 \<le> unat x" "unat y + 102 < 2 ^ 64" "acc_owner (l 50) \<noteq> 5"
  obtains l' where
    "receive_flash_loan chain_example 90 [info 48 False, info 41 False, \<lparr>ai_key = 5, ai_is_signer = False, ai_is_writable = False\<rparr>,
       info 50 True] (0 # to_le_bytes (102 :: u64)) l = Inr l'"
    "token_account 5 (l' 41) = Some (sample_token 20 77 (y + 102))" "\<forall>k. k \<noteq> 48 \<and> k \<noteq> 41 \<longrightarrow> l' k = l k"
proof -
  let ?infos = "[info 41 False, info 48 False, info 50 True, \<lparr>ai_key = 5, ai_is_signer = False, ai_is_writable = False\<rparr>]"
  have "may_sign example_runtime 90 ?infos [] 50" by (simp add: may_sign_def)
  with sample_invoke [OF assms(1,2), where n = 102 and ow = 50 and infos = ?infos and seeds = "[]" and caller = 90] assms(3-5)
  obtain ix l' where ix: "transfer example_runtime 5 48 41 50 [] 102 = Inr ix"
    and l': "token_invoke example_runtime 90 ix ?infos [] l = Inr l'" "token_account 5 (l' 41) = Some (sample_token 20 77 (y + 102))"
      "\<forall>k. k \<noteq> 48 \<and> k \<noteq> 41 \<longrightarrow> l' k = l k"
    by (auto simp: is_frozen_def)
  have "transfer chain_example 5 48 41 50 [] 102 = Inr ix"
    using ix by (simp add: transfer_def build_def check_program_account_def)
  moreover have "unpack_flash_amount (to_le_bytes (102 :: u64)) = Inr 102"
    by (simp add: unpack_flash_amount_def get_prefix_def)
  ultimately show thesis using that l' by (simp add: receive_flash_loan_def split_first_def)
qed

lemma flash_return:
  assumes "token_account 5 (l 48) = Some (sample_token 20 50 x)" "token_account 5 (l 41) = Some (sample_token 20 77 y)"
    and "102 \<le> unat x" "unat y + 102 < 2 ^ 64" "acc_owner (l 50) \<noteq> 5"
  obtains l' where
    "rt_invoke_signed flash_example 6 (flash_loan_instruction (info 90 False) (info 48 False) (info 41 False) (info 5 False)
       [info 50 True] 102) [info 48 False, info 90 False, info 41 False, info 5 False, info 50 True] [] l = Inr l'"
    "token_account 5 (l' 41) = Some (sample_token 20 77 (y + 102))" "\<forall>k. k \<noteq> 48 \<and> k \<noteq> 41 \<longrightarrow> l' k = l k"
  by (rule receiver_returns [OF assms])
    (rule that, simp add: receiver_invoke_def flash_loan_instruction_def AccountMeta_new_def AccountMeta_new_readonly_def
      RECEIVE_FLASH_LOAN_INSTRUCTION_TAG_def meta_info_def may_sign_def)

lemma flash_stored [simp]:
  "bk_reserves (book_of 6 flash_ledger) 60 = Some sample_reserve" "bk_markets (book_of 6 flash_ledger) 40 = Some sample_market"
  by (simp_all add: book_of_def stored_eq_Some flash_ledger_def)

lemma flash_tokens:
  "token_account 5 (flash_ledger 41) = Some (sample_token 20 77 1000)" "token_account 5 (flash_ledger 42) = Some (sample_token 20 77 0)"
  "token_account 5 (flash_ledger 48) = Some (sample_token 20 50 10)" "token_account 5 (flash_ledger 49) = Some (sample_token 20 77 0)"
  "acc_owner (flash_ledger 77) = 0" "acc_owner (flash_ledger 50) = 0" "length (acc_data (flash_ledger 60)) = RESERVE_LEN"
  by (simp_all add: flash_ledger_def token_account_iff) (simp_all add: sample_ledger_def)

lemma flash_loads:
  "load_market_for_token 6 flash_ledger (info 40 False) (info 5 False) = Inr sample_market"
  "load_market_reserve 6 flash_ledger (info 40 False) (info 60 False) = Inr sample_reserve"
  "check_market_authority flash_example 6 (info 40 False) sample_market (info 77 False) = Inr ()"
  by (simp_all add: load_simps check_market_authority_def)

lemma token_account_unpack: "token_account pid a = Some v \<Longrightarrow> Account_unpack (acc_data a) = Inr v"
  by (simp add: token_account_iff)

lemma sample_flash_loan: "\<exists>led'. process_flash_loan flash_example 6 100 flash_infos flash_ledger = Inr led'"
proof -
  let ?sd = "authority_signer_seeds (info 40 False) sample_market"
  note init = flash_tokens
  obtain l1 where pk1: "Reserve_pack flash_reserve 60 flash_ledger = Inr l1"
    and l1: "\<forall>k. k \<noteq> 60 \<longrightarrow> l1 k = flash_ledger k"
    using Reserve_store_ok [of flash_ledger 60, OF init(7) flash_terms(5)] by blast
  obtain l2 where t2: "spl_token_transfer flash_example 6 (info 41 False) (info 48 False) 100 (info 77 False) ?sd (info 5 False) l1 = Inr l2"
    and l2: "token_account 5 (l2 41) = Some (sample_token 20 77 900)" "token_account 5 (l2 48) = Some (sample_token 20 50 110)"
      "\<forall>k. k \<noteq> 41 \<and> k \<noteq> 48 \<longrightarrow> l2 k = l1 k"
    by (rule flash_transfer [of l1 41 1000 48 50 10 100]) (simp_all add: l1 init)
  obtain l3 where t3: "rt_invoke_signed flash_example 6 (flash_loan_instruction (info 90 False) (info 48 False) (info 41 False)
        (info 5 False) [info 50 True] 102) [info 48 False, info 90 False, info 41 False, info 5 False, info 50 True] [] l2 = Inr l3"
    and l3: "token_account 5 (l3 41) = Some (sample_token 20 77 1002)" "\<forall>k. k \<noteq> 48 \<and> k \<noteq> 41 \<longrightarrow> l3 k = l2 k"
    by (rule flash_return [of l2 110 900]) (simp_all add: l1 l2 init)
  have r3: "Reserve_unpack (acc_data (l3 60)) = Inr flash_reserve"
  proof -
    have "bk_reserves (book_of 6 l1) 60 = Some flash_reserve" using restore_reserve [OF pk1 flash_stored(1)] by simp
    then show ?thesis by (simp add: book_of_def stored_eq_Some l2 l3)
  qed
  have len: "length (acc_data (l3 60)) = RESERVE_LEN"
    using r3 by (simp add: Reserve_unpack_def reserve_packed.unpack_eq_Inr)
  obtain l4 where pk4: "Reserve_pack sample_reserve 60 l3 = Inr l4" and l4: "\<forall>k. k \<noteq> 60 \<longrightarrow> l4 k = l3 k"
    using Reserve_store_ok [of l3 60, OF len sample_wf(5)] by blast
  obtain l5 where t5: "spl_token_transfer flash_example 6 (info 41 False) (info 49 False) 1 (info 77 False) ?sd (info 5 False) l4 = Inr l5"
    and l5: "token_account 5 (l5 41) = Some (sample_token 20 77 1001)" "\<forall>k. k \<noteq> 41 \<and> k \<noteq> 49 \<longrightarrow> l5 k = l4 k"
    by (rule flash_transfer [of l4 41 1002 49 77 0 1]) (simp_all add: l1 l2 l3 l4 init)
  obtain l6 where t6: "spl_token_transfer flash_example 6 (info 41 False) (info 42 False) 1 (info 77 False) ?sd (info 5 False) l5 = Inr l6"
    by (rule flash_transfer [of l5 41 1001 42 77 0 1]) (simp_all add: l1 l2 l3 l4 l5 init)
  have "pay_flash_loan_fees flash_example 6 (info 41 False) (info 42 False) (info 49 False) 2 1 (info 77 False) ?sd (info 5 False) l4 = Inr l6"
    using t5 t6 by (simp add: pay_flash_loan_fees_def checked_sub_def)
  moreover have "Account_unpack (acc_data (l4 41)) = Inr (sample_token 20 77 1002)" using l4 l3(1) by (simp add: token_account_unpack)
  ultimately have "process_flash_loan flash_example 6 100 flash_infos flash_ledger = Inr l6"
    using pk1 t2 t3 r3 pk4 token_account_unpack [OF init(1)] flash_terms(2,3)
    by (simp add: process_flash_loan_def flash_loads flash_terms(1,4) U64_MAX_def Let_def checked_add_def)
  then show ?thesis by blast
qed

section \<open>The balance of the supply account\<close>

text \<open>The runtime runs the token program's own entry point wherever the token program is invoked.\<close>

definition runs_token_program :: "runtime \<Rightarrow> pubkey \<Rightarrow> bool" where
  "runs_token_program R pid \<longleftrightarrow>
     (\<forall>ix infos seeds led. ix_program_id ix = token_program_id R \<longrightarrow>
        rt_invoke_signed R pid ix infos seeds led = token_invoke R pid ix infos seeds led)"

lemma transfer_takes_at_most:
  assumes "process_transfer pid accounts n ed led = Inr led'" and "token_account pid (led k) = Some a"
  shows "\<exists>a'. token_account pid (led' k) = Some a' \<and> unat (ta_amount a) \<le> unat (ta_amount a') + unat n"
  using assms(1)
proof (cases rule: process_transfer_Inr)
  case self
  then show ?thesis using assms(2) by simp
next
  case (move src it expected dst auth signers source destination source' sa da led1 led2)
  have b1: "token_account pid (led1 x) = token_account pid (led x)" for x
    using arg_cong [OF move_lamports_bank(1) [OF move(6) move(9), of pid], of bk_accounts]
    by (simp add: bank_of_def fun_eq_iff)
  have own: "acc_owner (led' k) = pid" "acc_owner (led2 k) = pid"
    using assms(2) Account_pack_at(3) [OF move(7)] Account_pack_at(3) [OF move(8)] move_lamports_bank(2) [OF move(6,9)]
    by (simp_all add: token_account_iff)
  consider "k = ai_key src" | "k = ai_key dst" | "k \<noteq> ai_key src" "k \<noteq> ai_key dst" by blast
  then show ?thesis
  proof cases
    case 1
    have "a = source" using 1 assms(2) move(3) by (simp add: token_account_iff)
    moreover have "token_account pid (led2 k) = Some (source'\<lparr>ta_amount := sa\<rparr>)"
      using Account_pack_at(1) [OF move(7)] own(2) move(3) transfer_authority_Inr(4) [OF move(5)] 1
      by (simp add: token_account_iff Account_unpack_iff account_is_initialized_def)
    moreover have "token_account pid (led' k) = token_account pid (led2 k)"
      using Account_pack_accounts [OF move(8), of k pid] move(9) 1 by simp
    ultimately show ?thesis using move(14) by simp
  next
    case 2
    have "a = destination" using 2 assms(2) move(4) by (simp add: token_account_iff)
    moreover have "token_account pid (led' k) = Some (destination\<lparr>ta_amount := da\<rparr>)"
      using Account_pack_at(1) [OF move(8)] own(1) move(4) 2
      by (simp add: token_account_iff Account_unpack_iff account_is_initialized_def)
    ultimately show ?thesis using move(15) by simp
  next
    case 3
    then have "token_account pid (led' k) = token_account pid (led k)"
      using Account_pack_accounts [OF move(7), of k pid] Account_pack_accounts [OF move(8), of k pid] b1 by simp
    then show ?thesis using assms(2) by simp
  qed
qed

lemma spl_transfer_takes_at_most:
  assumes "runs_token_program R pid" and "spl_token_transfer R pid s d n au seeds t l = Inr l'"
    and "token_account (token_program_id R) (l k) = Some a"
  shows "\<exists>a'. token_account (token_program_id R) (l' k) = Some a' \<and> unat (ta_amount a) \<le> unat (ta_amount a') + unat n"
proof -
  from assms(2) obtain ix sd where ix: "transfer R (ai_key t) (ai_key s) (ai_key d) (ai_key au) [] n = Inr ix"
    and inv: "rt_invoke_signed R pid ix [s, d, au, t] sd l = Inr l'"
    by (auto simp: spl_token_transfer_def invoke_optionally_signed_def map_err_def split: if_splits sum.splits elim!: attempt_eq_InrE)
  from ix have id: "ix_program_id ix = token_program_id R" and data: "ix_data ix = TokenInstruction_pack (Transfer n)"
    by (auto simp: transfer_def build_def check_program_account_def res_simps)
  from inv assms(1) id have "token_invoke R pid ix [s, d, au, t] sd l = Inr l'" by (simp add: runs_token_program_def)
  then obtain ret where "process R (token_program_id R) (map meta_info (ix_accounts ix)) (TokenInstruction_pack (Transfer n)) l = Inr (l', ret)"
    unfolding data [symmetric] by (auto simp: token_invoke_def res_simps split: if_splits)
  then have "process_instruction R (token_program_id R) (map meta_info (ix_accounts ix)) (Transfer n) l = Inr (l', ret)"
    by (subst (asm) process_packed) (simp_all add: TokenInstruction_wf_def)
  then have "process_transfer (token_program_id R) (map meta_info (ix_accounts ix)) n None l = Inr l'"
    by (simp add: process_instruction_def no_return_Inr)
  then show ?thesis using transfer_takes_at_most assms(3) by blast
qed

lemma pay_fees_takes_at_most:
  assumes "runs_token_program R pid" and "pay_flash_loan_fees R pid src dst hst fee host au seeds t l = Inr led'"
    and "token_account (token_program_id R) (l k) = Some a"
  shows "\<exists>a'. token_account (token_program_id R) (led' k) = Some a' \<and> unat (ta_amount a) \<le> unat (ta_amount a') + unat fee"
proof -
  note takes = spl_transfer_takes_at_most [OF assms(1)]
  from assms(2) obtain owner_fee l1 where
    first: "(if host > 0 then
        attempt (ok_or (checked_sub fee host) math_overflow) (\<lambda>owner_fee.
        attempt (spl_token_transfer R pid src hst host au seeds t l) (\<lambda>led. Inr (owner_fee, led)))
      else Inr (fee, l)) = Inr (owner_fee, l1)"
    and second: "(if owner_fee > 0 then spl_token_transfer R pid src dst owner_fee au seeds t l1 else Inr l1) = Inr led'"
    unfolding pay_flash_loan_fees_def by (elim attempt_eq_InrE) (auto split: prod.splits intro: that)
  obtain a1 where a1: "token_account (token_program_id R) (l1 k) = Some a1"
    "unat (ta_amount a) + unat owner_fee \<le> unat (ta_amount a1) + unat fee"
  proof (cases "host > 0")
    case True
    then have "spl_token_transfer R pid src hst host au seeds t l = Inr l1" and "unat fee = unat owner_fee + unat host"
      using first by (auto simp: res_simps checked_simps)
    then show thesis using takes [of src hst host au seeds t l l1 k a] assms(3) that by fastforce
  next
    case False
    then show thesis using first assms(3) that by simp
  qed
  show ?thesis
  proof (cases "owner_fee > 0")
    case True
    then have "spl_token_transfer R pid src dst owner_fee au seeds t l1 = Inr led'" using second by simp
    from takes [OF this a1(1)] a1(2) show ?thesis by fastforce
  next
    case False
    then show ?thesis using second a1 by fastforce
  qed
qed

lemma world_run_owner: "(world_step R tid)\<^sup>*\<^sup>* l l' \<Longrightarrow> acc_owner (l k) = tid \<Longrightarrow> acc_owner (l' k) = tid"
proof (induction rule: rtranclp_induct)
  case (step y z)
  from step(2) have "acc_owner (y k) = tid \<Longrightarrow> acc_owner (z k) = tid"
    by cases (auto simp: token_call_def runtime_accepts_def other_activity_def split: if_splits)
  then show ?case using step by simp
qed simp

context chain_runtime
begin

lemma is_cpi: "cpi_runtime R pid"
  by unfold_locales

lemma invoke_keeps_token_owner:
  assumes "rt_invoke_signed R pid ix infos seeds l = Inr l'" and "ix_program_id ix \<noteq> pid" and "acc_owner (l k) = token_program_id R"
  shows "acc_owner (l' k) = token_program_id R"
  using world_run_owner [OF outside_run_world [OF invoke_outside [OF assms(2,1)]]] assms(3) .

lemma spl_transfer_keeps_token_owner:
  assumes "spl_token_transfer R pid s d n au seeds t l = Inr l'" and "acc_owner (l k) = token_program_id R"
  shows "acc_owner (l' k) = token_program_id R"
proof -
  from assms(1) obtain ix sd where ix: "transfer R (ai_key t) (ai_key s) (ai_key d) (ai_key au) [] n = Inr ix"
    and inv: "rt_invoke_signed R pid ix [s, d, au, t] sd l = Inr l'"
    by (auto simp: spl_token_transfer_def invoke_optionally_signed_def map_err_def split: if_splits sum.splits elim!: attempt_eq_InrE)
  from ix have "ix_program_id ix = token_program_id R"
    by (auto simp: transfer_def build_def check_program_account_def res_simps)
  then show ?thesis using invoke_keeps_token_owner [OF inv] token_differs assms(2) by simp
qed

end

section \<open>The property\<close>

text \<open>The stages of a loan, with the accounts of the call.\<close>

lemma flash_stages:
  assumes "process_flash_loan R pid n (src # dst # reserve # receiver # host_receiver # market # authority # t # program # rest) led = Inr led'"
  obtains r fee host before expected led1 led2 l2 led3 r3 l3 l after seeds where
    "load_market_reserve pid led market reserve = Inr r" "rl_supply_pubkey (rs_liquidity r) = ai_key src"
    "calculate_flash_loan_fees (cf_fees (rs_config r))
       (Decimal_from_u64 (if n = U64_MAX then rl_available_amount (rs_liquidity r) else n)) = Inr (fee, host)"
    "Account_unpack (info_data led src) = Inr before" "ok_or (checked_add (ta_amount before) fee) math_overflow = Inr expected"
    "pid \<noteq> ai_key program"
    "Reserve_pack (r\<lparr>rs_liquidity := l2\<rparr>) (ai_key reserve) led = Inr led1"
    "spl_token_transfer R pid src dst (if n = U64_MAX then rl_available_amount (rs_liquidity r) else n) authority seeds t led1 = Inr led2"
    "\<exists>ix infos. ix_program_id ix = ai_key program \<and> rt_invoke_signed R pid ix infos [] led2 = Inr led3"
    "Reserve_pack (r3\<lparr>rs_liquidity := l3\<rparr>) (ai_key reserve) led3 = Inr l"
    "Account_unpack (info_data l src) = Inr after" "\<not> ta_amount after < expected"
    "pay_flash_loan_fees R pid src receiver host_receiver fee host authority seeds t l = Inr led'"
  using assms unfolding process_flash_loan_def Let_def next_account_info_Cons attempt_Inr prod.case
  by (elim peel_infos)
    (rule that, assumption, erule notnotD, assumption, assumption, assumption, assumption, assumption, assumption,
      rule exI, rule exI, rule conjI [rotated], assumption, simp add: flash_loan_instruction_def, assumption, assumption, assumption, assumption)

text \<open>C19: let the runtime run the token program where it is invoked and keep other programs away from its accounts
  and from those of the lending program.  A flash loan with the accounts of the call succeeds only if, before
  the fees are paid out, the supply account of the given reserve holds at least what it held before the loan
  plus the whole fee; what follows is only the payment of that fee, so that in the end the supply account holds at
  least what it held before the loan.  All markets, reserves and obligations end as they were.\<close>

theorem flash_loan_repaid:
  assumes "chain_runtime R pid" and "runs_token_program R pid"
    and "process_flash_loan R pid n (src # dst # reserve # receiver # host_receiver # market # authority # t # program # rest) led = Inr led'"
    and "token_account (token_program_id R) (led (ai_key src)) = Some before"
  shows "book_of pid led' = book_of pid led \<and>
    (\<exists>r fee host seeds l after final.
       bk_reserves (book_of pid led) (ai_key reserve) = Some r \<and> ai_key src = rl_supply_pubkey (rs_liquidity r) \<and>
       calculate_flash_loan_fees (cf_fees (rs_config r))
         (Decimal_from_u64 (if n = U64_MAX then rl_available_amount (rs_liquidity r) else n)) = Inr (fee, host) \<and>
       token_account (token_program_id R) (l (ai_key src)) = Some after \<and>
       unat (ta_amount before) + unat fee \<le> unat (ta_amount after) \<and>
       pay_flash_loan_fees R pid src receiver host_receiver fee host authority seeds t l = Inr led' \<and>
       token_account (token_program_id R) (led' (ai_key src)) = Some final \<and>
       unat (ta_amount before) \<le> unat (ta_amount final))"
proof -
  let ?T = "token_program_id R" and ?k = "ai_key src"
  from assms(3) obtain r fee host before' expected led1 led2 l2 led3 r3 l3 l after seeds where
    ld: "load_market_reserve pid led market reserve = Inr r" and src: "rl_supply_pubkey (rs_liquidity r) = ai_key src"
    and fee: "calculate_flash_loan_fees (cf_fees (rs_config r))
       (Decimal_from_u64 (if n = U64_MAX then rl_available_amount (rs_liquidity r) else n)) = Inr (fee, host)"
    and bef: "Account_unpack (info_data led src) = Inr before'" "ok_or (checked_add (ta_amount before') fee) math_overflow = Inr expected"
    and pk1: "Reserve_pack (r\<lparr>rs_liquidity := l2\<rparr>) (ai_key reserve) led = Inr led1"
    and t1: "spl_token_transfer R pid src dst (if n = U64_MAX then rl_available_amount (rs_liquidity r) else n) authority seeds t led1 = Inr led2"
    and i: "\<exists>ix infos. ix_program_id ix = ai_key program \<and> rt_invoke_signed R pid ix infos [] led2 = Inr led3"
    and np: "pid \<noteq> ai_key program"
    and pk2: "Reserve_pack (r3\<lparr>rs_liquidity := l3\<rparr>) (ai_key reserve) led3 = Inr l"
    and aft: "Account_unpack (info_data l src) = Inr after" "\<not> ta_amount after < expected"
    and pay: "pay_flash_loan_fees R pid src receiver host_receiver fee host authority seeds t l = Inr led'"
    by (rule flash_stages)
  have same: "before' = before" using bef(1) assms(4) by (simp add: token_account_iff)
  have enough: "unat (ta_amount before) + unat fee \<le> unat (ta_amount after)"
    using bef(2) aft(2) by (auto simp: res_simps checked_simps word_less_nat_alt same)
  have "acc_owner (led ?k) = ?T" using assms(4) by (simp add: token_account_iff)
  then have "acc_owner (led1 ?k) = ?T" using pack_owner(2) [OF pk1] by simp
  then have "acc_owner (led2 ?k) = ?T" by (rule chain_runtime.spl_transfer_keeps_token_owner [OF assms(1) t1])
  then have "acc_owner (led3 ?k) = ?T" using chain_runtime.invoke_keeps_token_owner [OF assms(1)] i np by metis
  then have "acc_owner (l ?k) = ?T" using pack_owner(2) [OF pk2] by simp
  then have after: "token_account ?T (l ?k) = Some after" using aft(1) by (simp add: token_account_iff)
  from pay_fees_takes_at_most [OF assms(2) pay after] obtain final where
    final: "token_account ?T (led' ?k) = Some final" "unat (ta_amount after) \<le> unat (ta_amount final) + unat fee" by blast
  have "bk_reserves (book_of pid led) (ai_key reserve) = Some r" using ld by (simp add: load_simps)
  moreover have "cpi_runtime R pid" using assms(1) by (rule chain_runtime.is_cpi)
  then have "book_of pid led' = book_of pid led" using assms(3) by (rule cpi_runtime.flash_loan_book)
  moreover have "unat (ta_amount before) \<le> unat (ta_amount final)" using enough final(2) by simp
  ultimately show ?thesis using src [symmetric] fee after enough pay final(1) by blast
qed

lemma flash_runs_token: "runs_token_program flash_example 6"
proof -
  have p: "process flash_example = process example_runtime" by (simp add: flash_example_def process_without_invoke)
  have m: "may_sign flash_example = may_sign example_runtime" by (simp add: fun_eq_iff may_sign_def flash_example_def)
  have id: "token_program_id flash_example = token_program_id example_runtime" by (simp add: flash_example_def fields_without_invoke)
  have "token_invoke flash_example = token_invoke example_runtime" unfolding fun_eq_iff token_invoke_def p m id by (intro allI refl)
  then show ?thesis by (simp add: runs_token_program_def receiver_invoke_def)
qed

theorem flash_loan_repaid_witness:
  "\<exists>led' final. process_flash_loan flash_example 6 100 flash_infos flash_ledger = Inr led' \<and>
     book_of 6 led' = book_of 6 flash_ledger \<and> token_account 5 (led' 41) = Some final \<and> 1000 \<le> unat (ta_amount final)"
proof -
  obtain led' where run: "process_flash_loan flash_example 6 100 flash_infos flash_ledger = Inr led'"
    using sample_flash_loan by blast
  have b: "token_account (token_program_id flash_example) (flash_ledger (ai_key (info 41 False))) = Some (sample_token 20 77 1000)"
    using flash_tokens(1) by simp
  from flash_loan_repaid [OF flash_chain.chain_runtime_axioms flash_runs_token run b]
  obtain final where "book_of 6 led' = book_of 6 flash_ledger" "token_account 5 (led' 41) = Some final"
    "unat (ta_amount (sample_token 20 77 1000)) \<le> unat (ta_amount final)" by auto
  then show ?thesis using run by auto
qed

end
