(* ===== verification/Governance_State.thy ===== *)
theory Governance_State
  imports Token_Processor
begin

text \<open>
  The state of the governance program (\<^verbatim>\<open>governance/program/src/state\<close>, \<^verbatim>\<open>error.rs\<close>,
  \<^verbatim>\<open>governance/addin-api\<close>): realms, governances, token owner records, proposals, votes,
  signatories and transactions, and the checks and updates that concern one of them alone.
  Strings are their UTF-8 bytes; a \<^verbatim>\<open>UnixTimestamp\<close> is an \<open>i64\<close>, read with \<open>sint\<close>.

  The first-version layouts of a realm, a token owner record, a governance and a signatory record
  are prefixes of the second ones, so the second records extend the first.
\<close>

section \<open>Errors\<close>

text \<open>\<^verbatim>\<open>GovernanceError as u32\<close>: the enumeration starts at 500.\<close>

abbreviation InvalidInstruction_gov :: program_error where "InvalidInstruction_gov \<equiv> Custom 500"
abbreviation RealmAlreadyExists :: program_error where "RealmAlreadyExists \<equiv> Custom 501"
abbreviation InvalidRealm :: program_error where "InvalidRealm \<equiv> Custom 502"
abbreviation InvalidGoverningTokenMint :: program_error where "InvalidGoverningTokenMint \<equiv> Custom 503"
abbreviation GoverningTokenOwnerMustSign :: program_error where "GoverningTokenOwnerMustSign \<equiv> Custom 504"
abbreviation GoverningTokenOwnerOrDelegateMustSign :: program_error where "GoverningTokenOwnerOrDelegateMustSign \<equiv> Custom 505"
abbreviation AllVotesMustBeRelinquishedToWithdrawGoverningTokens :: program_error where "AllVotesMustBeRelinquishedToWithdrawGoverningTokens \<equiv> Custom 506"
abbreviation InvalidTokenOwnerRecordAccountAddress :: program_error where "InvalidTokenOwnerRecordAccountAddress \<equiv> Custom 507"
abbreviation InvalidGoverningMintForTokenOwnerRecord :: program_error where "InvalidGoverningMintForTokenOwnerRecord \<equiv> Custom 508"
abbreviation InvalidRealmForTokenOwnerRecord :: program_error where "InvalidRealmForTokenOwnerRecord \<equiv> Custom 509"
abbreviation InvalidProposalForProposalTransaction :: program_error where "InvalidProposalForProposalTransaction \<equiv> Custom 510"
abbreviation InvalidSignatoryAddress :: program_error where "InvalidSignatoryAddress \<equiv> Custom 511"
abbreviation SignatoryAlreadySignedOff :: program_error where "SignatoryAlreadySignedOff \<equiv> Custom 512"
abbreviation SignatoryMustSign :: program_error where "SignatoryMustSign \<equiv> Custom 513"
abbreviation InvalidProposalOwnerAccount :: program_error where "InvalidProposalOwnerAccount \<equiv> Custom 514"
abbreviation InvalidProposalForVoterRecord :: program_error where "InvalidProposalForVoterRecord \<equiv> Custom 515"
abbreviation InvalidGoverningTokenOwnerForVoteRecord :: program_error where "InvalidGoverningTokenOwnerForVoteRecord \<equiv> Custom 516"
abbreviation InvalidVoteThresholdPercentage :: program_error where "InvalidVoteThresholdPercentage \<equiv> Custom 517"
abbreviation ProposalAlreadyExists :: program_error where "ProposalAlreadyExists \<equiv> Custom 518"
abbreviation VoteAlreadyExists :: program_error where "VoteAlreadyExists \<equiv> Custom 519"
abbreviation NotEnoughTokensToCreateProposal :: program_error where "NotEnoughTokensToCreateProposal \<equiv> Custom 520"
abbreviation InvalidStateCannotEditSignatories :: program_error where "InvalidStateCannotEditSignatories \<equiv> Custom 521"
abbreviation InvalidProposalState :: program_error where "InvalidProposalState \<equiv> Custom 522"
abbreviation InvalidStateCannotEditTransactions :: program_error where "InvalidStateCannotEditTransactions \<equiv> Custom 523"
abbreviation InvalidStateCannotExecuteTransaction :: program_error where "InvalidStateCannotExecuteTransaction \<equiv> Custom 524"
abbreviation CannotExecuteTransactionWithinHoldUpTime :: program_error where "CannotExecuteTransactionWithinHoldUpTime \<equiv> Custom 525"
abbreviation TransactionAlreadyExecuted :: program_error where "TransactionAlreadyExecuted \<equiv> Custom 526"
abbreviation InvalidTransactionIndex :: program_error where "InvalidTransactionIndex \<equiv> Custom 527"
abbreviation TransactionHoldUpTimeBelowRequiredMin :: program_error where "TransactionHoldUpTimeBelowRequiredMin \<equiv> Custom 528"
abbreviation TransactionAlreadyExists :: program_error where "TransactionAlreadyExists \<equiv> Custom 529"
abbreviation InvalidStateCannotSignOff :: program_error where "InvalidStateCannotSignOff \<equiv> Custom 530"
abbreviation InvalidStateCannotVote :: program_error where "InvalidStateCannotVote \<equiv> Custom 531"
abbreviation InvalidStateCannotFinalize :: program_error where "InvalidStateCannotFinalize \<equiv> Custom 532"
abbreviation InvalidStateCannotCancelProposal :: program_error where "InvalidStateCannotCancelProposal \<equiv> Custom 533"
abbreviation VoteAlreadyRelinquished :: program_error where "VoteAlreadyRelinquished \<equiv> Custom 534"
abbreviation CannotFinalizeVotingInProgress :: program_error where "CannotFinalizeVotingInProgress \<equiv> Custom 535"
abbreviation ProposalVotingTimeExpired :: program_error where "ProposalVotingTimeExpired \<equiv> Custom 536"
abbreviation InvalidSignatoryMint :: program_error where "InvalidSignatoryMint \<equiv> Custom 537"
abbreviation InvalidGovernanceForProposal :: program_error where "InvalidGovernanceForProposal \<equiv> Custom 538"
abbreviation InvalidGoverningMintForProposal :: program_error where "InvalidGoverningMintForProposal \<equiv> Custom 539"
abbreviation MintAuthorityMustSign :: program_error where "MintAuthorityMustSign \<equiv> Custom 540"
abbreviation InvalidMintAuthority :: program_error where "InvalidMintAuthority \<equiv> Custom 541"
abbreviation MintHasNoAuthority :: program_error where "MintHasNoAuthority \<equiv> Custom 542"
abbreviation SplTokenAccountWithInvalidOwner :: program_error where "SplTokenAccountWithInvalidOwner \<equiv> Custom 543"
abbreviation SplTokenMintWithInvalidOwner :: program_error where "SplTokenMintWithInvalidOwner \<equiv> Custom 544"
abbreviation SplTokenAccountNotInitialized :: program_error where "SplTokenAccountNotInitialized \<equiv> Custom 545"
abbreviation SplTokenAccountDoesNotExist :: program_error where "SplTokenAccountDoesNotExist \<equiv> Custom 546"
abbreviation SplTokenInvalidTokenAccountData :: program_error where "SplTokenInvalidTokenAccountData \<equiv> Custom 547"
abbreviation SplTokenInvalidMintAccountData :: program_error where "SplTokenInvalidMintAccountData \<equiv> Custom 548"
abbreviation SplTokenMintNotInitialized :: program_error where "SplTokenMintNotInitialized \<equiv> Custom 549"
abbreviation SplTokenMintDoesNotExist :: program_error where "SplTokenMintDoesNotExist \<equiv> Custom 550"
abbreviation InvalidProgramDataAccountAddress :: program_error where "InvalidProgramDataAccountAddress \<equiv> Custom 551"
abbreviation InvalidProgramDataAccountData :: program_error where "InvalidProgramDataAccountData \<equiv> Custom 552"
abbreviation InvalidUpgradeAuthority :: program_error where "InvalidUpgradeAuthority \<equiv> Custom 553"
abbreviation UpgradeAuthorityMustSign :: program_error where "UpgradeAuthorityMustSign \<equiv> Custom 554"
abbreviation ProgramNotUpgradable :: program_error where "ProgramNotUpgradable \<equiv> Custom 555"
abbreviation InvalidTokenOwner_gov :: program_error where "InvalidTokenOwner_gov \<equiv> Custom 556"
abbreviation TokenOwnerMustSign :: program_error where "TokenOwnerMustSign \<equiv> Custom 557"
abbreviation VoteThresholdTypeNotSupported :: program_error where "VoteThresholdTypeNotSupported \<equiv> Custom 558"
abbreviation VoteWeightSourceNotSupported :: program_error where "VoteWeightSourceNotSupported \<equiv> Custom 559"
abbreviation GoverningTokenMintNotAllowedToVote :: program_error where "GoverningTokenMintNotAllowedToVote \<equiv> Custom 560"
abbreviation GovernancePdaMustSign :: program_error where "GovernancePdaMustSign \<equiv> Custom 561"
abbreviation TransactionAlreadyFlaggedWithError :: program_error where "TransactionAlreadyFlaggedWithError \<equiv> Custom 562"
abbreviation InvalidRealmForGovernance :: program_error where "InvalidRealmForGovernance \<equiv> Custom 563"
abbreviation InvalidAuthorityForRealm :: program_error where "InvalidAuthorityForRealm \<equiv> Custom 564"
abbreviation RealmHasNoAuthority :: program_error where "RealmHasNoAuthority \<equiv> Custom 565"
abbreviation RealmAuthorityMustSign :: program_error where "RealmAuthorityMustSign \<equiv> Custom 566"
abbreviation InvalidGoverningTokenHoldingAccount :: program_error where "InvalidGoverningTokenHoldingAccount \<equiv> Custom 567"
abbreviation RealmCouncilMintChangeIsNotSupported :: program_error where "RealmCouncilMintChangeIsNotSupported \<equiv> Custom 568"
abbreviation MintMaxVoteWeightSourceNotSupported :: program_error where "MintMaxVoteWeightSourceNotSupported \<equiv> Custom 569"
abbreviation InvalidMaxVoteWeightSupplyFraction :: program_error where "InvalidMaxVoteWeightSupplyFraction \<equiv> Custom 570"
abbreviation NotEnoughTokensToCreateGovernance :: program_error where "NotEnoughTokensToCreateGovernance \<equiv> Custom 571"
abbreviation TooManyOutstandingProposals :: program_error where "TooManyOutstandingProposals \<equiv> Custom 572"
abbreviation AllProposalsMustBeFinalisedToWithdrawGoverningTokens :: program_error where "AllProposalsMustBeFinalisedToWithdrawGoverningTokens \<equiv> Custom 573"
abbreviation InvalidVoterWeightRecordForRealm :: program_error where "InvalidVoterWeightRecordForRealm \<equiv> Custom 574"
abbreviation InvalidVoterWeightRecordForGoverningTokenMint :: program_error where "InvalidVoterWeightRecordForGoverningTokenMint \<equiv> Custom 575"
abbreviation InvalidVoterWeightRecordForTokenOwner :: program_error where "InvalidVoterWeightRecordForTokenOwner \<equiv> Custom 576"
abbreviation VoterWeightRecordExpired :: program_error where "VoterWeightRecordExpired \<equiv> Custom 577"
abbreviation InvalidRealmConfigForRealm :: program_error where "InvalidRealmConfigForRealm \<equiv> Custom 578"
abbreviation TokenOwnerRecordAlreadyExists :: program_error where "TokenOwnerRecordAlreadyExists \<equiv> Custom 579"
abbreviation GoverningTokenDepositsNotAllowed :: program_error where "GoverningTokenDepositsNotAllowed \<equiv> Custom 580"
abbreviation InvalidVoteChoiceWeightPercentage :: program_error where "InvalidVoteChoiceWeightPercentage \<equiv> Custom 581"
abbreviation VoteTypeNotSupported :: program_error where "VoteTypeNotSupported \<equiv> Custom 582"
abbreviation InvalidProposalOptions :: program_error where "InvalidProposalOptions \<equiv> Custom 583"
abbreviation ProposalIsNotExecutable :: program_error where "ProposalIsNotExecutable \<equiv> Custom 584"
abbreviation InvalidVote :: program_error where "InvalidVote \<equiv> Custom 585"
abbreviation CannotExecuteDefeatedOption :: program_error where "CannotExecuteDefeatedOption \<equiv> Custom 586"
abbreviation VoterWeightRecordInvalidAction :: program_error where "VoterWeightRecordInvalidAction \<equiv> Custom 587"
abbreviation VoterWeightRecordInvalidActionTarget :: program_error where "VoterWeightRecordInvalidActionTarget \<equiv> Custom 588"
abbreviation InvalidMaxVoterWeightRecordForRealm :: program_error where "InvalidMaxVoterWeightRecordForRealm \<equiv> Custom 589"
abbreviation InvalidMaxVoterWeightRecordForGoverningTokenMint :: program_error where "InvalidMaxVoterWeightRecordForGoverningTokenMint \<equiv> Custom 590"
abbreviation MaxVoterWeightRecordExpired :: program_error where "MaxVoterWeightRecordExpired \<equiv> Custom 591"
abbreviation NotSupportedVoteType :: program_error where "NotSupportedVoteType \<equiv> Custom 592"
abbreviation RealmConfigChangeNotAllowed :: program_error where "RealmConfigChangeNotAllowed \<equiv> Custom 593"
abbreviation GovernanceConfigChangeNotAllowed :: program_error where "GovernanceConfigChangeNotAllowed \<equiv> Custom 594"
abbreviation AtLeastOneVoteThresholdRequired :: program_error where "AtLeastOneVoteThresholdRequired \<equiv> Custom 595"
abbreviation ReservedBufferMustBeEmpty :: program_error where "ReservedBufferMustBeEmpty \<equiv> Custom 596"
abbreviation CannotRelinquishInFinalizingState :: program_error where "CannotRelinquishInFinalizingState \<equiv> Custom 597"

text \<open>\<^verbatim>\<open>GovernanceToolsError as u32\<close>: this one starts at 1100.\<close>

abbreviation ToolsAccountAlreadyInitialized :: program_error where "ToolsAccountAlreadyInitialized \<equiv> Custom 1100"
abbreviation AccountDoesNotExist :: program_error where "AccountDoesNotExist \<equiv> Custom 1101"
abbreviation ToolsInvalidAccountOwner :: program_error where "ToolsInvalidAccountOwner \<equiv> Custom 1102"
abbreviation InvalidAccountType :: program_error where "InvalidAccountType \<equiv> Custom 1103"

section \<open>Enumerations\<close>

datatype GovernanceAccountType =
    UninitializedType
  | RealmV1
  | TokenOwnerRecordV1
  | GovernanceV1
  | ProgramGovernanceV1
  | ProposalV1
  | SignatoryRecordV1
  | VoteRecordV1
  | ProposalInstructionV1
  | MintGovernanceV1
  | TokenGovernanceV1
  | RealmConfigType
  | VoteRecordV2
  | ProposalTransactionV2
  | ProposalV2
  | ProgramMetadataType
  | RealmV2
  | TokenOwnerRecordV2
  | GovernanceV2
  | ProgramGovernanceV2
  | MintGovernanceV2
  | TokenGovernanceV2
  | SignatoryRecordV2

datatype ProposalState =
    Draft | SigningOff | Voting | Succeeded | Executing | Completed | Cancelled | Defeated
  | ExecutingWithErrors | Vetoed

datatype VoteThreshold = YesVotePercentage u8 | QuorumPercentage u8 | ThresholdDisabled

datatype VoteTipping = Strict | Early | TippingDisabled

datatype TransactionExecutionStatus = ExecutionNone | ExecutionSuccess | ExecutionError

datatype InstructionExecutionFlags = FlagsNone | Ordered | UseTransaction

datatype MintMaxVoteWeightSource = SupplyFraction u64 | Absolute u64

definition SUPPLY_FRACTION_BASE :: u64 where
  "SUPPLY_FRACTION_BASE = 10000000000"

datatype OptionVoteResult = OptionNone | OptionSucceeded | OptionDefeated

datatype VoteType = SingleChoice | MultiChoice u8 u8

datatype VoterWeightAction = ActionCastVote | ActionCommentProposal | ActionCreateGovernance | ActionCreateProposal | ActionSignOffProposal

datatype SetRealmAuthorityAction = SetUnchecked | SetChecked | Remove

section \<open>Votes\<close>

record VoteChoice =
  vc_rank :: u8
  vc_weight_percentage :: u8

definition get_choice_weight :: "VoteChoice \<Rightarrow> u64 \<Rightarrow> u64 res" where
  "get_choice_weight c voter_weight =
     (if vc_weight_percentage c = 100 then Inr voter_weight
      else if vc_weight_percentage c = 0 then Inr 0
      else Inl InvalidVoteChoiceWeightPercentage)"

datatype Vote = VoteApprove "VoteChoice list" | VoteDeny | VoteAbstain | VoteVeto

datatype VoteKind = Electorate | VetoKind

primrec get_vote_kind :: "Vote \<Rightarrow> VoteKind" where
  "get_vote_kind (VoteApprove choices) = Electorate"
| "get_vote_kind VoteDeny = Electorate"
| "get_vote_kind VoteAbstain = Electorate"
| "get_vote_kind VoteVeto = VetoKind"

record VoteRecordV2 =
  vr_account_type :: GovernanceAccountType
  vr_proposal :: pubkey
  vr_governing_token_owner :: pubkey
  vr_is_relinquished :: bool
  vr_voter_weight :: u64
  vr_vote :: Vote
  vr_reserved_v2 :: bytes

datatype VoteWeightV1 = Yes u64 | No u64

record VoteRecordV1 =
  vr1_account_type :: GovernanceAccountType
  vr1_proposal :: pubkey
  vr1_governing_token_owner :: pubkey
  vr1_is_relinquished :: bool
  vr1_vote_weight :: VoteWeightV1

definition assert_can_relinquish_vote :: "VoteRecordV2 \<Rightarrow> unit res" where
  "assert_can_relinquish_vote v = (if vr_is_relinquished v then Inl VoteAlreadyRelinquished else Inr ())"

section \<open>Realms\<close>

record RealmConfig =
  rc_use_community_voter_weight_addin :: bool
  rc_use_max_community_voter_weight_addin :: bool
  rc_reserved :: bytes
  rc_min_community_weight_to_create_governance :: u64
  rc_community_mint_max_vote_weight_source :: MintMaxVoteWeightSource
  rc_council_mint :: "pubkey option"

record RealmConfigArgs =
  ra_use_council_mint :: bool
  ra_min_community_weight_to_create_governance :: u64
  ra_community_mint_max_vote_weight_source :: MintMaxVoteWeightSource
  ra_use_community_voter_weight_addin :: bool
  ra_use_max_community_voter_weight_addin :: bool

record RealmV1 =
  rl_account_type :: GovernanceAccountType
  rl_community_mint :: pubkey
  rl_config :: RealmConfig
  rl_reserved :: bytes
  rl_voting_proposal_count :: u16
  rl_authority :: "pubkey option"
  rl_name :: bytes

record RealmV2 = RealmV1 +
  rl_reserved_v2 :: bytes

definition is_realm_account_type :: "GovernanceAccountType \<Rightarrow> bool" where
  "is_realm_account_type t \<longleftrightarrow> t \<in> {RealmV1, RealmV2}"

definition assert_is_valid_governing_token_mint :: "RealmV2 \<Rightarrow> pubkey \<Rightarrow> unit res" where
  "assert_is_valid_governing_token_mint realm mint =
     (if rl_community_mint realm = mint then Inr ()
      else if rc_council_mint (rl_config realm) = Some mint then Inr ()
      else Inl InvalidGoverningTokenMint)"

definition get_proposal_governing_token_mint_for_vote :: "RealmV2 \<Rightarrow> pubkey \<Rightarrow> VoteKind \<Rightarrow> pubkey res" where
  "get_proposal_governing_token_mint_for_vote realm vote_mint kind =
     (case kind of
        Electorate \<Rightarrow> Inr vote_mint
      | VetoKind \<Rightarrow>
          if rl_community_mint realm = vote_mint then Inl GoverningTokenMintNotAllowedToVote
          else if rc_council_mint (rl_config realm) = Some vote_mint then Inr (rl_community_mint realm)
          else Inl InvalidGoverningTokenMint)"

definition asset_governing_tokens_deposits_allowed :: "RealmV2 \<Rightarrow> pubkey \<Rightarrow> unit res" where
  "asset_governing_tokens_deposits_allowed realm mint =
     (if rc_use_community_voter_weight_addin (rl_config realm) \<and> rl_community_mint realm = mint
      then Inl GoverningTokenDepositsNotAllowed else Inr ())"

definition assert_valid_realm_config_args :: "RealmConfigArgs \<Rightarrow> unit res" where
  "assert_valid_realm_config_args args =
     (case ra_community_mint_max_vote_weight_source args of
        SupplyFraction fraction \<Rightarrow>
          if \<not> (1 \<le> fraction \<and> fraction \<le> SUPPLY_FRACTION_BASE) then Inl InvalidMaxVoteWeightSupplyFraction else Inr ()
      | Absolute _ \<Rightarrow> Inl MintMaxVoteWeightSourceNotSupported)"

record RealmConfigAccount =
  rca_account_type :: GovernanceAccountType
  rca_realm :: pubkey
  rca_community_voter_weight_addin :: "pubkey option"
  rca_max_community_voter_weight_addin :: "pubkey option"
  rca_council_voter_weight_addin :: "pubkey option"
  rca_council_max_vote_weight_addin :: "pubkey option"
  rca_reserved :: bytes

section \<open>Governances\<close>

record GovernanceConfig =
  gc_community_vote_threshold :: VoteThreshold
  gc_min_community_weight_to_create_proposal :: u64
  gc_min_transaction_hold_up_time :: u32
  gc_max_voting_time :: u32
  gc_vote_tipping :: VoteTipping
  gc_council_vote_threshold :: VoteThreshold
  gc_council_veto_vote_threshold :: VoteThreshold
  gc_min_council_weight_to_create_proposal :: u64

record GovernanceV1 =
  gv_account_type :: GovernanceAccountType
  gv_realm :: pubkey
  gv_governed_account :: pubkey
  gv_proposals_count :: u32
  gv_config :: GovernanceConfig
  gv_reserved :: bytes
  gv_voting_proposal_count :: u16

record GovernanceV2 = GovernanceV1 +
  gv_reserved_v2 :: bytes

definition is_governance_v1_account_type :: "GovernanceAccountType \<Rightarrow> bool" where
  "is_governance_v1_account_type t \<longleftrightarrow> t \<in> {GovernanceV1, ProgramGovernanceV1, MintGovernanceV1, TokenGovernanceV1}"

definition is_governance_v2_account_type :: "GovernanceAccountType \<Rightarrow> bool" where
  "is_governance_v2_account_type t \<longleftrightarrow> t \<in> {GovernanceV2, ProgramGovernanceV2, MintGovernanceV2, TokenGovernanceV2}"

definition is_governance_account_type :: "GovernanceAccountType \<Rightarrow> bool" where
  "is_governance_account_type t \<longleftrightarrow> is_governance_v1_account_type t \<or> is_governance_v2_account_type t"

definition resolve_vote_threshold :: "GovernanceV2 \<Rightarrow> RealmV2 \<Rightarrow> pubkey \<Rightarrow> VoteKind \<Rightarrow> VoteThreshold res" where
  "resolve_vote_threshold gov realm vote_mint kind =
     attempt
       (if rl_community_mint realm = vote_mint then
          (case kind of
             Electorate \<Rightarrow> Inr (gc_community_vote_threshold (gv_config gov))
           | VetoKind \<Rightarrow> Inl GoverningTokenMintNotAllowedToVote)
        else if rc_council_mint (rl_config realm) = Some vote_mint then
          (case kind of
             Electorate \<Rightarrow> Inr (gc_council_vote_threshold (gv_config gov))
           | VetoKind \<Rightarrow> Inr (gc_council_veto_vote_threshold (gv_config gov)))
        else Inl InvalidGoverningTokenMint) (\<lambda>vote_threshold.
     if vote_threshold = ThresholdDisabled then Inl GoverningTokenMintNotAllowedToVote else Inr vote_threshold)"

definition assert_governing_token_mint_can_vote :: "GovernanceV2 \<Rightarrow> RealmV2 \<Rightarrow> pubkey \<Rightarrow> VoteKind \<Rightarrow> unit res" where
  "assert_governing_token_mint_can_vote gov realm vote_mint kind =
     attempt (resolve_vote_threshold gov realm vote_mint kind) (\<lambda>_. Inr ())"

definition assert_is_valid_vote_threshold :: "VoteThreshold \<Rightarrow> unit res" where
  "assert_is_valid_vote_threshold t =
     (case t of
        YesVotePercentage p \<Rightarrow> if \<not> (1 \<le> p \<and> p \<le> 100) then Inl InvalidVoteThresholdPercentage else Inr ()
      | QuorumPercentage _ \<Rightarrow> Inl VoteThresholdTypeNotSupported
      | ThresholdDisabled \<Rightarrow> Inr ())"

definition assert_is_valid_governance_config :: "GovernanceConfig \<Rightarrow> unit res" where
  "assert_is_valid_governance_config config =
     attempt (assert_is_valid_vote_threshold (gc_community_vote_threshold config)) (\<lambda>_.
     attempt (assert_is_valid_vote_threshold (gc_council_vote_threshold config)) (\<lambda>_.
     attempt (assert_is_valid_vote_threshold (gc_council_veto_vote_threshold config)) (\<lambda>_.
     if gc_community_vote_threshold config = ThresholdDisabled \<and> gc_council_vote_threshold config = ThresholdDisabled
     then Inl AtLeastOneVoteThresholdRequired else Inr ())))"

section \<open>Token owner records\<close>

record TokenOwnerRecordV1 =
  to_account_type :: GovernanceAccountType
  to_realm :: pubkey
  to_governing_token_mint :: pubkey
  to_governing_token_owner :: pubkey
  to_governing_token_deposit_amount :: u64
  to_unrelinquished_votes_count :: u32
  to_total_votes_count :: u32
  to_outstanding_proposal_count :: u8
  to_reserved :: bytes
  to_governance_delegate :: "pubkey option"

record TokenOwnerRecordV2 = TokenOwnerRecordV1 +
  to_reserved_v2 :: bytes

definition assert_token_owner_or_delegate_is_signer :: "TokenOwnerRecordV2 \<Rightarrow> account_info \<Rightarrow> unit res" where
  "assert_token_owner_or_delegate_is_signer tor authority =
     (if ai_is_signer authority \<and>
         (to_governing_token_owner tor = ai_key authority \<or> to_governance_delegate tor = Some (ai_key authority))
      then Inr () else Inl GoverningTokenOwnerOrDelegateMustSign)"

definition assert_can_create_proposal :: "TokenOwnerRecordV2 \<Rightarrow> RealmV2 \<Rightarrow> GovernanceConfig \<Rightarrow> u64 \<Rightarrow> unit res" where
  "assert_can_create_proposal tor realm config voter_weight =
     attempt
       (if to_governing_token_mint tor = rl_community_mint realm then Inr (gc_min_community_weight_to_create_proposal config)
        else if Some (to_governing_token_mint tor) = rc_council_mint (rl_config realm)
        then Inr (gc_min_council_weight_to_create_proposal config)
        else Inl InvalidGoverningTokenMint) (\<lambda>min_weight.
     if voter_weight < min_weight then Inl NotEnoughTokensToCreateProposal
     else if to_outstanding_proposal_count tor \<ge> 10 then Inl TooManyOutstandingProposals
     else Inr ())"

definition assert_can_create_governance :: "TokenOwnerRecordV2 \<Rightarrow> RealmV2 \<Rightarrow> u64 \<Rightarrow> unit res" where
  "assert_can_create_governance tor realm voter_weight =
     attempt
       (if to_governing_token_mint tor = rl_community_mint realm
        then Inr (rc_min_community_weight_to_create_governance (rl_config realm))
        else if Some (to_governing_token_mint tor) = rc_council_mint (rl_config realm) then Inr 1
        else Inl InvalidGoverningTokenMint) (\<lambda>min_weight.
     if voter_weight < min_weight then Inl NotEnoughTokensToCreateGovernance else Inr ())"

definition assert_can_withdraw_governing_tokens :: "TokenOwnerRecordV2 \<Rightarrow> unit res" where
  "assert_can_withdraw_governing_tokens tor =
     (if to_unrelinquished_votes_count tor > 0 then Inl AllVotesMustBeRelinquishedToWithdrawGoverningTokens
      else if to_outstanding_proposal_count tor > 0 then Inl AllProposalsMustBeFinalisedToWithdrawGoverningTokens
      else Inr ())"

definition decrease_outstanding_proposal_count :: "TokenOwnerRecordV2 \<Rightarrow> TokenOwnerRecordV2" where
  "decrease_outstanding_proposal_count tor =
     (if to_outstanding_proposal_count tor \<noteq> 0
      then tor\<lparr>to_outstanding_proposal_count := to_outstanding_proposal_count tor - 1\<rparr> else tor)"

section \<open>Signatories and transactions\<close>

record SignatoryRecordV1 =
  sr_account_type :: GovernanceAccountType
  sr_proposal :: pubkey
  sr_signatory :: pubkey
  sr_signed_off :: bool

record SignatoryRecordV2 = SignatoryRecordV1 +
  sr_reserved_v2 :: bytes

definition assert_signatory_can_sign_off :: "SignatoryRecordV2 \<Rightarrow> account_info \<Rightarrow> unit res" where
  "assert_signatory_can_sign_off s signatory_info =
     (if sr_signed_off s then Inl SignatoryAlreadySignedOff
      else if \<not> ai_is_signer signatory_info then Inl SignatoryMustSign
      else Inr ())"

definition assert_can_remove_signatory :: "SignatoryRecordV2 \<Rightarrow> unit res" where
  "assert_can_remove_signatory s = (if sr_signed_off s then Inl SignatoryAlreadySignedOff else Inr ())"

record AccountMetaData =
  amd_pubkey :: pubkey
  amd_is_signer :: bool
  amd_is_writable :: bool

record InstructionData =
  id_program_id :: pubkey
  id_accounts :: "AccountMetaData list"
  id_data :: bytes

definition InstructionData_from :: "sol_instruction \<Rightarrow> InstructionData" where
  "InstructionData_from ix =
     \<lparr>id_program_id = ix_program_id ix,
      id_accounts = map (\<lambda>a. \<lparr>amd_pubkey = am_pubkey a, amd_is_signer = am_is_signer a, amd_is_writable = am_is_writable a\<rparr>)
        (ix_accounts ix),
      id_data = ix_data ix\<rparr>"

definition Instruction_from :: "InstructionData \<Rightarrow> sol_instruction" where
  "Instruction_from d =
     \<lparr>ix_program_id = id_program_id d,
      ix_accounts = map (\<lambda>a. \<lparr>am_pubkey = amd_pubkey a, am_is_signer = amd_is_signer a, am_is_writable = amd_is_writable a\<rparr>)
        (id_accounts d),
      ix_data = id_data d\<rparr>"

record ProposalTransactionV2 =
  pt_account_type :: GovernanceAccountType
  pt_proposal :: pubkey
  pt_option_index :: u8
  pt_transaction_index :: u16
  pt_hold_up_time :: u32
  pt_instructions :: "InstructionData list"
  pt_executed_at :: "i64 option"
  pt_execution_status :: TransactionExecutionStatus
  pt_reserved_v2 :: bytes

record ProposalInstructionV1 =
  pi_account_type :: GovernanceAccountType
  pi_proposal :: pubkey
  pi_instruction_index :: u16
  pi_hold_up_time :: u32
  pi_instruction :: InstructionData
  pi_executed_at :: "i64 option"
  pi_execution_status :: TransactionExecutionStatus

record ProgramMetadata =
  pm_account_type :: GovernanceAccountType
  pm_updated_at :: u64
  pm_version :: bytes
  pm_reserved :: bytes

section \<open>Voter weight records of add-in programs\<close>

record VoterWeightRecord =
  vw_account_discriminator :: bytes
  vw_realm :: pubkey
  vw_governing_token_mint :: pubkey
  vw_governing_token_owner :: pubkey
  vw_voter_weight :: u64
  vw_voter_weight_expiry :: "u64 option"
  vw_weight_action :: "VoterWeightAction option"
  vw_weight_action_target :: "pubkey option"
  vw_reserved :: bytes

definition VoterWeightRecord_is_initialized :: "VoterWeightRecord \<Rightarrow> bool" where
  "VoterWeightRecord_is_initialized r \<longleftrightarrow>
     vw_account_discriminator r = [46, 249, 155, 75, 153, 248, 116, 9] \<or>
     vw_account_discriminator r = map of_char ''2ef99b4b''"

record MaxVoterWeightRecord =
  mw_account_discriminator :: bytes
  mw_realm :: pubkey
  mw_governing_token_mint :: pubkey
  mw_max_voter_weight :: u64
  mw_max_voter_weight_expiry :: "u64 option"
  mw_reserved :: bytes

definition MaxVoterWeightRecord_is_initialized :: "MaxVoterWeightRecord \<Rightarrow> bool" where
  "MaxVoterWeightRecord_is_initialized r \<longleftrightarrow>
     mw_account_discriminator r = [157, 95, 242, 151, 16, 98, 26, 118] \<or>
     mw_account_discriminator r = map of_char ''9d5ff297''"

section \<open>Proposals\<close>

record ProposalOption =
  po_label :: bytes
  po_vote_weight :: u64
  po_vote_result :: OptionVoteResult
  po_transactions_executed_count :: u16
  po_transactions_count :: u16
  po_transactions_next_index :: u16

record ProposalV2 =
  pr_account_type :: GovernanceAccountType
  pr_governance :: pubkey
  pr_governing_token_mint :: pubkey
  pr_state :: ProposalState
  pr_token_owner_record :: pubkey
  pr_signatories_count :: u8
  pr_signatories_signed_off_count :: u8
  pr_vote_type :: VoteType
  pr_options :: "ProposalOption list"
  pr_deny_vote_weight :: "u64 option"
  pr_reserved1 :: u8
  pr_abstain_vote_weight :: "u64 option"
  pr_start_voting_at :: "i64 option"
  pr_draft_at :: i64
  pr_signing_off_at :: "i64 option"
  pr_voting_at :: "i64 option"
  pr_voting_at_slot :: "u64 option"
  pr_voting_completed_at :: "i64 option"
  pr_executing_at :: "i64 option"
  pr_closed_at :: "i64 option"
  pr_execution_flags :: InstructionExecutionFlags
  pr_max_vote_weight :: "u64 option"
  pr_max_voting_time :: "u32 option"
  pr_vote_threshold :: "VoteThreshold option"
  pr_reserved :: bytes
  pr_name :: bytes
  pr_description_link :: bytes
  pr_veto_vote_weight :: u64

record ProposalV1 =
  p1_account_type :: GovernanceAccountType
  p1_governance :: pubkey
  p1_governing_token_mint :: pubkey
  p1_state :: ProposalState
  p1_token_owner_record :: pubkey
  p1_signatories_count :: u8
  p1_signatories_signed_off_count :: u8
  p1_yes_votes_count :: u64
  p1_no_votes_count :: u64
  p1_instructions_executed_count :: u16
  p1_instructions_count :: u16
  p1_instructions_next_index :: u16
  p1_draft_at :: i64
  p1_signing_off_at :: "i64 option"
  p1_voting_at :: "i64 option"
  p1_voting_at_slot :: "u64 option"
  p1_voting_completed_at :: "i64 option"
  p1_executing_at :: "i64 option"
  p1_closed_at :: "i64 option"
  p1_execution_flags :: InstructionExecutionFlags
  p1_max_vote_weight :: "u64 option"
  p1_vote_threshold :: "VoteThreshold option"
  p1_name :: bytes
  p1_description_link :: bytes

text \<open>An instruction stored for execution is the instruction that is invoked.\<close>

lemma instruction_data_roundtrip: "Instruction_from (InstructionData_from ix) = ix"
  by (cases ix) (simp add: Instruction_from_def InstructionData_from_def comp_def map_idI)

lemma instruction_roundtrip: "InstructionData_from (Instruction_from d) = d"
  by (cases d) (simp add: Instruction_from_def InstructionData_from_def comp_def map_idI)

text \<open>A vote counts in full for the options it chooses, and not at all for the others.\<close>

lemma get_choice_weight_Inr:
  "get_choice_weight c w = Inr x \<longleftrightarrow> vc_weight_percentage c = 100 \<and> x = w \<or> vc_weight_percentage c = 0 \<and> x = 0"
  by (auto simp: get_choice_weight_def)

text \<open>The thresholds that can be configured are at most one hundred percent.\<close>

fun threshold_percentage_ok :: "VoteThreshold \<Rightarrow> bool" where
  "threshold_percentage_ok (YesVotePercentage p) \<longleftrightarrow> unat p \<le> 100"
| "threshold_percentage_ok _ \<longleftrightarrow> True"

lemma valid_threshold_percentage: "assert_is_valid_vote_threshold t = Inr u \<Longrightarrow> threshold_percentage_ok t"
  by (cases t) (auto simp: assert_is_valid_vote_threshold_def word_le_nat_alt res_simps)

lemma valid_config_thresholds:
  assumes "assert_is_valid_governance_config config = Inr u"
  shows "threshold_percentage_ok (gc_community_vote_threshold config)"
    and "threshold_percentage_ok (gc_council_vote_threshold config)"
    and "threshold_percentage_ok (gc_council_veto_vote_threshold config)"
  using assms by (auto simp: assert_is_valid_governance_config_def res_simps dest!: valid_threshold_percentage)

lemma resolved_threshold:
  assumes "resolve_vote_threshold gov realm mint kind = Inr t"
  shows "t \<noteq> ThresholdDisabled"
    and "t \<in> {gc_community_vote_threshold (gv_config gov), gc_council_vote_threshold (gv_config gov),
      gc_council_veto_vote_threshold (gv_config gov)}"
  using assms by (auto simp: resolve_vote_threshold_def res_simps split: if_splits VoteKind.splits)

end
