(* ===== verification/Governance_Vote.thy ===== *)
theory Governance_Vote
  imports Governance_State
begin

text \<open>
  Voting on a proposal (\<^verbatim>\<open>impl ProposalV2\<close> of \<^verbatim>\<open>governance/program/src/state/proposal.rs\<close>): who
  may do what in which state, the weight an option needs, resolving a finished vote, and tipping a
  vote before its time is over.  A method on \<^verbatim>\<open>&mut self\<close> returns the proposal it leaves.
\<close>

section \<open>Time\<close>

text \<open>\<^verbatim>\<open>i64::checked_add\<close>, and a \<^verbatim>\<open>u32\<close> read as an \<^verbatim>\<open>i64\<close>.\<close>

definition i64_checked_add :: "i64 \<Rightarrow> i64 \<Rightarrow> i64 option" where
  "i64_checked_add x y =
     (if - (2 ^ 63) \<le> sint x + sint y \<and> sint x + sint y < 2 ^ 63 then Some (x + y) else None)"

text \<open>\<^verbatim>\<open>has_vote_time_ended\<close> unwraps the start of the vote and the checked sum.\<close>

definition has_vote_time_ended :: "ProposalV2 \<Rightarrow> GovernanceConfig \<Rightarrow> i64 \<Rightarrow> bool res" where
  "has_vote_time_ended p config now =
     attempt (ok_or (pr_voting_at p) Panicked) (\<lambda>voting_at.
     attempt (ok_or (i64_checked_add voting_at (ucast (gc_max_voting_time config))) Panicked) (\<lambda>end_at.
     Inr (sint end_at < sint now)))"

section \<open>What a proposal allows in its state\<close>

definition assert_is_voting_state :: "ProposalV2 \<Rightarrow> unit res" where
  "assert_is_voting_state p = (if pr_state p \<noteq> Voting then Inl InvalidProposalState else Inr ())"

definition assert_is_draft_state :: "ProposalV2 \<Rightarrow> unit res" where
  "assert_is_draft_state p = (if pr_state p \<noteq> Draft then Inl InvalidProposalState else Inr ())"

definition assert_can_edit_signatories :: "ProposalV2 \<Rightarrow> unit res" where
  "assert_can_edit_signatories p = map_err (\<lambda>_. InvalidStateCannotEditSignatories) (assert_is_draft_state p)"

definition assert_can_sign_off :: "ProposalV2 \<Rightarrow> unit res" where
  "assert_can_sign_off p =
     (case pr_state p of Draft \<Rightarrow> Inr () | SigningOff \<Rightarrow> Inr () | _ \<Rightarrow> Inl InvalidStateCannotSignOff)"

definition assert_can_cast_vote :: "ProposalV2 \<Rightarrow> GovernanceConfig \<Rightarrow> i64 \<Rightarrow> unit res" where
  "assert_can_cast_vote p config now =
     attempt (map_err (\<lambda>_. InvalidStateCannotVote) (assert_is_voting_state p)) (\<lambda>_.
     attempt (has_vote_time_ended p config now) (\<lambda>ended.
     if ended then Inl ProposalVotingTimeExpired else Inr ()))"

definition assert_can_finalize_vote :: "ProposalV2 \<Rightarrow> GovernanceConfig \<Rightarrow> i64 \<Rightarrow> unit res" where
  "assert_can_finalize_vote p config now =
     attempt (map_err (\<lambda>_. InvalidStateCannotFinalize) (assert_is_voting_state p)) (\<lambda>_.
     attempt (has_vote_time_ended p config now) (\<lambda>ended.
     if \<not> ended then Inl CannotFinalizeVotingInProgress else Inr ()))"

definition assert_can_cancel :: "ProposalV2 \<Rightarrow> GovernanceConfig \<Rightarrow> i64 \<Rightarrow> unit res" where
  "assert_can_cancel p config now =
     (case pr_state p of
        Draft \<Rightarrow> Inr ()
      | SigningOff \<Rightarrow> Inr ()
      | Voting \<Rightarrow>
          attempt (has_vote_time_ended p config now) (\<lambda>ended.
          if ended then Inl ProposalVotingTimeExpired else Inr ())
      | _ \<Rightarrow> Inl InvalidStateCannotCancelProposal)"

definition assert_can_edit_instructions :: "ProposalV2 \<Rightarrow> unit res" where
  "assert_can_edit_instructions p =
     (if \<not> is_ok (assert_is_draft_state p) then Inl InvalidStateCannotEditTransactions
      else if pr_deny_vote_weight p = None then Inl ProposalIsNotExecutable
      else Inr ())"

text \<open>Indexing the options panics out of range.\<close>

definition option_at :: "ProposalV2 \<Rightarrow> u8 \<Rightarrow> ProposalOption res" where
  "option_at p i = (if unat i < length (pr_options p) then Inr (pr_options p ! unat i) else Inl Panicked)"

definition assert_can_execute_transaction :: "ProposalV2 \<Rightarrow> ProposalTransactionV2 \<Rightarrow> i64 \<Rightarrow> unit res" where
  "assert_can_execute_transaction p tx now =
     (if pr_state p \<notin> {Succeeded, Executing, ExecutingWithErrors} then Inl InvalidStateCannotExecuteTransaction
      else
        attempt (option_at p (pt_option_index tx)) (\<lambda>opt.
        if po_vote_result opt \<noteq> OptionSucceeded then Inl CannotExecuteDefeatedOption
        else
          attempt (ok_or (pr_voting_completed_at p) Panicked) (\<lambda>completed_at.
          attempt (ok_or (i64_checked_add completed_at (ucast (pt_hold_up_time tx))) Panicked) (\<lambda>hold_up_end.
          if sint hold_up_end \<ge> sint now then Inl CannotExecuteTransactionWithinHoldUpTime
          else if pt_executed_at tx \<noteq> None then Inl TransactionAlreadyExecuted
          else Inr ()))))"

definition assert_can_flag_transaction_error :: "ProposalV2 \<Rightarrow> ProposalTransactionV2 \<Rightarrow> i64 \<Rightarrow> unit res" where
  "assert_can_flag_transaction_error p tx now =
     attempt (assert_can_execute_transaction p tx now) (\<lambda>_.
     if pt_execution_status tx = ExecutionError then Inl TransactionAlreadyFlaggedWithError else Inr ())"

text \<open>The loop over the choices of a vote counts those that take the full weight.\<close>

fun count_choices :: "VoteChoice list \<Rightarrow> u16 \<Rightarrow> u16 res" where
  "count_choices [] n = Inr n"
| "count_choices (c # cs) n =
     (if vc_rank c > 0 then Inl InvalidVote
      else if vc_weight_percentage c = 100
      then attempt (ok_or (checked_add n 1) Panicked) (\<lambda>n'. count_choices cs n')
      else if vc_weight_percentage c \<noteq> 0 then Inl InvalidVote
      else count_choices cs n)"

definition assert_valid_vote :: "ProposalV2 \<Rightarrow> Vote \<Rightarrow> unit res" where
  "assert_valid_vote p vote =
     (case vote of
        VoteApprove choices \<Rightarrow>
          if length (pr_options p) \<noteq> length choices then Inl InvalidVote
          else
            attempt (count_choices choices 0) (\<lambda>choice_count.
            case pr_vote_type p of
              SingleChoice \<Rightarrow> if choice_count \<noteq> 1 then Inl InvalidVote else Inr ()
            | MultiChoice _ _ \<Rightarrow> if choice_count = 0 then Inl InvalidVote else Inr ())
      | VoteDeny \<Rightarrow> if pr_deny_vote_weight p = None then Inl InvalidVote else Inr ()
      | VoteAbstain \<Rightarrow> Inl NotSupportedVoteType
      | VoteVeto \<Rightarrow> Inr ())"

definition assert_valid_proposal_options :: "bytes list \<Rightarrow> VoteType \<Rightarrow> unit res" where
  "assert_valid_proposal_options options vote_type =
     (if options = [] \<or> length options > 10 then Inl InvalidProposalOptions
      else if (case vote_type of
          MultiChoice max_voter_options max_winning_options \<Rightarrow>
            length options = 1 \<or> unat max_voter_options \<noteq> length options \<or> unat max_winning_options \<noteq> length options
        | SingleChoice \<Rightarrow> False) then Inl InvalidProposalOptions
      else if [] \<in> set options then Inl InvalidProposalOptions
      else Inr ())"

section \<open>The weight an option needs\<close>

definition get_min_vote_threshold_weight :: "VoteThreshold \<Rightarrow> u64 \<Rightarrow> u64 res" where
  "get_min_vote_threshold_weight vote_threshold max_voter_weight =
     (case vote_threshold of
        YesVotePercentage percentage \<Rightarrow>
          attempt (ok_or (checked_mul (ucast percentage :: u128) (ucast max_voter_weight)) Panicked) (\<lambda>numerator.
          attempt (ok_or (checked_div numerator 100) Panicked) (\<lambda>threshold.
          attempt (ok_or (checked_mul threshold 100) Panicked) (\<lambda>back.
          attempt (if back < numerator then ok_or (checked_add threshold 1) Panicked else Inr threshold) (\<lambda>threshold'.
          Inr (ucast threshold')))))
      | _ \<Rightarrow> Inl VoteThresholdTypeNotSupported)"

text \<open>The callers unwrap the result.\<close>

definition min_weight_or_panic :: "VoteThreshold \<Rightarrow> u64 \<Rightarrow> u64 res" where
  "min_weight_or_panic vote_threshold max_voter_weight =
     map_err (\<lambda>_. Panicked) (get_min_vote_threshold_weight vote_threshold max_voter_weight)"

section \<open>Resolving a vote\<close>

text \<open>
  The loop over the options marks each as succeeded or defeated and keeps the best weight among
  those that succeeded, with the number of options that reached it.
\<close>

fun resolve_options ::
    "u64 \<Rightarrow> u64 \<Rightarrow> ProposalOption list \<Rightarrow> u64 \<Rightarrow> u16 \<Rightarrow> (ProposalOption list \<times> u64 \<times> u16) res" where
  "resolve_options min_weight deny [] best count = Inr ([], best, count)"
| "resolve_options min_weight deny (opt # opts) best count =
     (if po_vote_weight opt \<ge> min_weight \<and> po_vote_weight opt > deny then
        attempt
          (if po_vote_weight opt > best then Inr (po_vote_weight opt, 1)
           else if po_vote_weight opt = best then
             attempt (ok_or (checked_add count 1) Panicked) (\<lambda>count'. Inr (best, count'))
           else Inr (best, count)) (\<lambda>(best', count').
        attempt (resolve_options min_weight deny opts best' count') (\<lambda>(opts', r).
        Inr (opt\<lparr>po_vote_result := OptionSucceeded\<rparr> # opts', r)))
      else
        attempt (resolve_options min_weight deny opts best count) (\<lambda>(opts', r).
        Inr (opt\<lparr>po_vote_result := OptionDefeated\<rparr> # opts', r)))"

definition coerce_options :: "u64 \<Rightarrow> ProposalOption list \<Rightarrow> ProposalOption list" where
  "coerce_options winning_weight opts =
     map (\<lambda>opt. opt\<lparr>po_vote_result := (if po_vote_weight opt = winning_weight then OptionSucceeded else OptionDefeated)\<rparr>) opts"

definition resolve_final_vote_state :: "ProposalV2 \<Rightarrow> u64 \<Rightarrow> VoteThreshold \<Rightarrow> (ProposalV2 \<times> ProposalState) res" where
  "resolve_final_vote_state p max_vote_weight vote_threshold =
     attempt (min_weight_or_panic vote_threshold max_vote_weight) (\<lambda>min_weight.
     attempt (resolve_options min_weight (case pr_deny_vote_weight p of None \<Rightarrow> 0 | Some w \<Rightarrow> w) (pr_options p) 0 0)
       (\<lambda>(opts, best, count).
     let (opts', final_state) =
       (if count = 0 then (opts, Defeated)
        else case pr_vote_type p of
            SingleChoice \<Rightarrow>
              if count > 1 then (coerce_options (- 1) opts, Defeated) else (coerce_options best opts, Succeeded)
          | MultiChoice _ _ \<Rightarrow> (opts, Succeeded))
     in Inr (p\<lparr>pr_options := opts'\<rparr>, if pr_deny_vote_weight p = None then Completed else final_state)))"

definition finalize_vote :: "ProposalV2 \<Rightarrow> u64 \<Rightarrow> GovernanceConfig \<Rightarrow> i64 \<Rightarrow> VoteThreshold \<Rightarrow> ProposalV2 res" where
  "finalize_vote p max_voter_weight config now vote_threshold =
     attempt (assert_can_finalize_vote p config now) (\<lambda>_.
     attempt (resolve_final_vote_state p max_voter_weight vote_threshold) (\<lambda>(p', final_state).
     Inr (p'\<lparr>pr_state := final_state, pr_voting_completed_at := Some now,
            pr_max_vote_weight := Some max_voter_weight, pr_vote_threshold := Some vote_threshold\<rparr>)))"

section \<open>The maximal weight of the voters\<close>

definition coerce_max_voter_weight :: "ProposalV2 \<Rightarrow> u64 \<Rightarrow> VoteKind \<Rightarrow> u64 res" where
  "coerce_max_voter_weight p max_voter_weight kind =
     attempt
       (case kind of
          Electorate \<Rightarrow>
            if pr_options p = [] then Inl Panicked
            else ok_or (checked_add (Max (set (map po_vote_weight (pr_options p))))
                   (case pr_deny_vote_weight p of None \<Rightarrow> 0 | Some w \<Rightarrow> w)) Panicked
        | VetoKind \<Rightarrow> Inr (pr_veto_vote_weight p)) (\<lambda>total.
     Inr (max max_voter_weight total))"

definition get_max_voter_weight_from_mint_supply ::
    "ProposalV2 \<Rightarrow> RealmV2 \<Rightarrow> pubkey \<Rightarrow> u64 \<Rightarrow> VoteKind \<Rightarrow> u64 res" where
  "get_max_voter_weight_from_mint_supply p realm mint supply kind =
     (if Some mint = rc_council_mint (rl_config realm) then Inr supply
      else case rc_community_mint_max_vote_weight_source (rl_config realm) of
          SupplyFraction fraction \<Rightarrow>
            if fraction = SUPPLY_FRACTION_BASE then Inr supply
            else
              attempt (ok_or (checked_mul (ucast supply :: u128) (ucast fraction)) Panicked) (\<lambda>product.
              attempt (ok_or (checked_div product (ucast SUPPLY_FRACTION_BASE)) Panicked) (\<lambda>weight.
              coerce_max_voter_weight p (ucast weight) kind))
        | Absolute _ \<Rightarrow> Inl VoteWeightSourceNotSupported)"

section \<open>Tipping\<close>

text \<open>The state a tipped vote takes, with the result of its only option.\<close>

definition try_get_tipped_electorate_vote_state ::
    "ProposalV2 \<Rightarrow> u64 \<Rightarrow> VoteTipping \<Rightarrow> u64 \<Rightarrow> (ProposalV2 \<times> ProposalState) option" where
  "try_get_tipped_electorate_vote_state p max_voter_weight tipping min_weight =
     (case (pr_vote_type p, pr_deny_vote_weight p, pr_options p) of
        (SingleChoice, Some deny, [yes_option]) \<Rightarrow>
          let yes = po_vote_weight yes_option;
              succeeded = Some (p\<lparr>pr_options := [yes_option\<lparr>po_vote_result := OptionSucceeded\<rparr>]\<rparr>, Succeeded);
              defeated = Some (p\<lparr>pr_options := [yes_option\<lparr>po_vote_result := OptionDefeated\<rparr>]\<rparr>, Defeated)
          in if yes = max_voter_weight then succeeded
             else if deny = max_voter_weight then defeated
             else if tipping = Strict \<and> yes \<ge> min_weight \<and> yes > saturating_sub max_voter_weight yes then succeeded
             else if tipping = Early \<and> yes \<ge> min_weight \<and> yes > deny then succeeded
             else if tipping \<noteq> TippingDisabled \<and>
                 (deny > saturating_sub max_voter_weight min_weight \<or> deny \<ge> saturating_sub max_voter_weight deny)
             then defeated
             else None
      | _ \<Rightarrow> None)"

definition try_get_tipped_veto_vote_state :: "ProposalV2 \<Rightarrow> u64 \<Rightarrow> (ProposalV2 \<times> ProposalState) option" where
  "try_get_tipped_veto_vote_state p min_weight =
     (if pr_veto_vote_weight p \<ge> min_weight then Some (p, Vetoed) else None)"

definition try_get_tipped_vote_state ::
    "ProposalV2 \<Rightarrow> u64 \<Rightarrow> VoteTipping \<Rightarrow> VoteThreshold \<Rightarrow> VoteKind \<Rightarrow> (ProposalV2 \<times> ProposalState) option res" where
  "try_get_tipped_vote_state p max_voter_weight tipping vote_threshold kind =
     attempt (min_weight_or_panic vote_threshold max_voter_weight) (\<lambda>min_weight.
     Inr (case kind of
        Electorate \<Rightarrow> try_get_tipped_electorate_vote_state p max_voter_weight tipping min_weight
      | VetoKind \<Rightarrow> try_get_tipped_veto_vote_state p min_weight))"

definition try_tip_vote ::
    "ProposalV2 \<Rightarrow> u64 \<Rightarrow> VoteTipping \<Rightarrow> i64 \<Rightarrow> VoteThreshold \<Rightarrow> VoteKind \<Rightarrow> (ProposalV2 \<times> bool) res" where
  "try_tip_vote p max_voter_weight tipping now vote_threshold kind =
     attempt (try_get_tipped_vote_state p max_voter_weight tipping vote_threshold kind) (\<lambda>tipped.
     case tipped of
       Some (p', tipped_state) \<Rightarrow>
         Inr (p'\<lparr>pr_state := tipped_state, pr_voting_completed_at := Some now,
                pr_max_vote_weight := Some max_voter_weight, pr_vote_threshold := Some vote_threshold\<rparr>, True)
     | None \<Rightarrow> Inr (p, False))"

section \<open>Times\<close>

lemma sint_u32: "sint (ucast (x :: u32) :: i64) = int (unat x)"
proof -
  have lt: "uint x < 2 ^ 32" using uint_lt2p [of x] by simp
  have u: "uint (ucast x :: i64) = uint x"
    using lt by (simp add: unsigned_ucast_eq take_bit_int_eq_self)
  have "- (2 ^ 63) \<le> uint x" "uint x < 2 ^ 63" using lt by (simp_all add: order_trans [OF _ uint_ge_0])
  then show ?thesis by (simp add: sint_uint u signed_take_bit_int_eq_self)
qed

lemma i64_checked_add_sint: "i64_checked_add x y = Some z \<Longrightarrow> sint z = sint x + sint y"
  by (auto simp: i64_checked_add_def sint_word_ariths signed_take_bit_int_eq_self split: if_splits)

section \<open>The threshold is the exact ceiling\<close>

lemma ceiling_div_100:
  fixes x n :: nat
  shows "x \<le> 100 * n \<longleftrightarrow> (x + 99) div 100 \<le> n"
    and "x div 100 * 100 < x \<Longrightarrow> x div 100 + 1 = (x + 99) div 100"
    and "\<not> x div 100 * 100 < x \<Longrightarrow> x div 100 = (x + 99) div 100"
proof -
  have "(x + 99) div 100 < n + 1 \<longleftrightarrow> x + 99 < (n + 1) * 100" by (rule div_less_iff_less_mult) simp
  then show "x \<le> 100 * n \<longleftrightarrow> (x + 99) div 100 \<le> n" by auto
  show "x div 100 * 100 < x \<Longrightarrow> x div 100 + 1 = (x + 99) div 100"
    and "\<not> x div 100 * 100 < x \<Longrightarrow> x div 100 = (x + 99) div 100" by linarith+
qed

lemma ucast_u128_u64: "(ucast (x :: u128) :: u64) = of_nat (unat x)"
  by (simp add: unsigned_ucast_eq word_unat_eq_iff unat_of_nat take_bit_nat_def)

lemma min_vote_threshold_weight_eq:
  "get_min_vote_threshold_weight (YesVotePercentage p) m = Inr (of_nat ((unat p * unat m + 99) div 100))"
proof -
  have pm: "unat p * unat m < 2 ^ 128"
  proof -
    have "unat p * unat m < 2 ^ 8 * 2 ^ 64"
      using mult_strict_mono [OF unat_bound [of p] unat_bound [of m]] by simp
    then show ?thesis by simp
  qed
  let ?n = "ucast p * ucast m :: u128"
  have n: "unat ?n = unat p * unat m"
    using pm by (simp add: unat_word_ariths unat_ucast_up)
  have mul: "checked_mul (ucast p :: u128) (ucast m) = Some ?n"
    using pm by (simp add: checked_mul_def unat_ucast_up)
  have dv: "checked_div ?n 100 = Some (?n div 100)" by (simp add: checked_div_def)
  have d: "unat (?n div 100) = unat p * unat m div 100" by (simp add: unat_div n)
  have times: "checked_mul (?n div 100) 100 = Some (?n div 100 * 100)"
    using pm le_less_trans [OF div_times_less_eq_dividend pm] by (simp add: checked_mul_def d)
  have b: "unat (?n div 100 * 100) = unat p * unat m div 100 * 100"
    using times by (simp add: checked_mul_eq_Some d)
  show ?thesis
  proof (cases "unat p * unat m div 100 * 100 < unat p * unat m")
    case True
    then have less: "?n div 100 * 100 < ?n" by (simp only: word_less_nat_alt b n)
    have "unat p * unat m div 100 + 1 < 2 ^ 128" using pm by simp
    then have add: "checked_add (?n div 100) 1 = Some (?n div 100 + 1)" by (simp add: checked_add_def d)
    then have u: "unat (?n div 100 + 1) = (unat p * unat m + 99) div 100"
      using ceiling_div_100(2) [OF True] by (simp only: checked_add_eq_Some d unat_1)
    have "get_min_vote_threshold_weight (YesVotePercentage p) m = Inr (ucast (?n div 100 + 1))"
      by (simp only: get_min_vote_threshold_weight_def VoteThreshold.case mul dv times less add ok_or_Some attempt_Inr if_True)
    then show ?thesis by (simp only: ucast_u128_u64 u)
  next
    case False
    then have less: "\<not> ?n div 100 * 100 < ?n" unfolding word_less_nat_alt b n .
    have "get_min_vote_threshold_weight (YesVotePercentage p) m = Inr (ucast (?n div 100))"
      by (simp only: get_min_vote_threshold_weight_def VoteThreshold.case mul dv times less ok_or_Some attempt_Inr if_False)
    then show ?thesis by (simp only: ucast_u128_u64 d ceiling_div_100(3) [OF False])
  qed
qed

lemma min_vote_threshold_weight_exact:
  assumes "unat p \<le> 100" and "get_min_vote_threshold_weight (YesVotePercentage p) m = Inr w"
  shows "unat w \<le> unat m" and "unat p * unat m \<le> 100 * n \<longleftrightarrow> unat w \<le> n"
proof -
  have "unat p * unat m \<le> 100 * unat m" using assms(1) by simp
  then have le: "(unat p * unat m + 99) div 100 \<le> unat m" by (simp only: ceiling_div_100)
  then have "(unat p * unat m + 99) div 100 < 2 ^ 64" using unat_bound [of m] by simp
  then have w: "unat w = (unat p * unat m + 99) div 100"
    using assms(2) by (auto simp: min_vote_threshold_weight_eq unat_of_nat)
  show "unat w \<le> unat m" using le w by simp
  show "unat p * unat m \<le> 100 * n \<longleftrightarrow> unat w \<le> n" unfolding w by (rule ceiling_div_100)
qed

lemma get_min_vote_threshold_weight_Inr:
  "get_min_vote_threshold_weight t m = Inr w \<longleftrightarrow>
     (\<exists>p. t = YesVotePercentage p \<and> w = of_nat ((unat p * unat m + 99) div 100))"
  by (cases t) (auto simp: min_vote_threshold_weight_eq, auto simp: get_min_vote_threshold_weight_def)

section \<open>Resolving a vote, option by option\<close>

definition passes :: "u64 \<Rightarrow> u64 \<Rightarrow> u64 \<Rightarrow> bool" where
  "passes min_weight deny w \<longleftrightarrow> w \<ge> min_weight \<and> w > deny"

definition mark_option :: "u64 \<Rightarrow> u64 \<Rightarrow> ProposalOption \<Rightarrow> ProposalOption" where
  "mark_option min_weight deny opt =
     opt\<lparr>po_vote_result := (if passes min_weight deny (po_vote_weight opt) then OptionSucceeded else OptionDefeated)\<rparr>"

definition passing_weights :: "u64 \<Rightarrow> u64 \<Rightarrow> ProposalOption list \<Rightarrow> u64 list" where
  "passing_weights min_weight deny opts = filter (passes min_weight deny) (map po_vote_weight opts)"

lemma passing_weights_Cons:
  "passing_weights mw deny (opt # opts) =
     (if passes mw deny (po_vote_weight opt) then [po_vote_weight opt] else []) @ passing_weights mw deny opts"
  by (simp add: passing_weights_def)

lemma fold_max_ge: "(x :: u64) \<le> fold max ws x"
  by (induction ws arbitrary: x) (auto intro: order_trans [OF max.cobounded2])

lemma fold_max_upper: "w \<in> set ws \<Longrightarrow> (w :: u64) \<le> fold max ws x"
  by (induction ws arbitrary: x) (auto intro: order_trans [OF max.cobounded1 fold_max_ge])

lemma fold_max_in: "fold max ws (x :: u64) \<in> insert x (set ws)"
  by (induction ws arbitrary: x) (auto simp: max_def split: if_splits)

lemma resolve_options_eq:
  assumes "resolve_options mw deny opts best count = Inr (opts', best', count')"
  shows "opts' = map (mark_option mw deny) opts \<and>
    best' = fold max (passing_weights mw deny opts) best \<and>
    unat count' = count_list (passing_weights mw deny opts) best' + (if best' = best then unat count else 0)"
  using assms
proof (induction opts arbitrary: best count opts')
  case Nil
  then show ?case by (simp add: passing_weights_def)
next
  case (Cons opt opts)
  let ?w = "po_vote_weight opt"
  show ?case
  proof (cases "passes mw deny ?w")
    case True
    then have m: "mark_option mw deny opt = opt\<lparr>po_vote_result := OptionSucceeded\<rparr>" by (simp add: mark_option_def)
    from Cons.prems True obtain b c os where
      bc: "(if ?w > best then Inr (?w, 1)
           else if ?w = best then attempt (ok_or (checked_add count 1) Panicked) (\<lambda>count'. Inr (best, count'))
           else Inr (best, count)) = Inr (b, c)"
      and r: "resolve_options mw deny opts b c = Inr (os, best', count')"
      and o: "opts' = opt\<lparr>po_vote_result := OptionSucceeded\<rparr> # os"
      by (auto simp: passes_def res_simps)
    from Cons.IH [OF r] have ih: "os = map (mark_option mw deny) opts" "best' = fold max (passing_weights mw deny opts) b"
      "unat count' = count_list (passing_weights mw deny opts) best' + (if best' = b then unat c else 0)" by auto
    have b: "b = max ?w best" using bc by (auto simp: res_simps max_def split: if_splits)
    have c: "unat c = (if ?w > best then 1 else if ?w = best then unat count + 1 else unat count)"
      using bc by (auto simp: res_simps checked_simps split: if_splits)
    have ge: "b \<le> best'" using ih(2) fold_max_ge by simp
    have "(if best' = b then unat c else 0) = (if best' = ?w then 1 else 0) + (if best' = best then unat count else 0)"
      using ge unfolding b c by (auto simp: max_def)
    then show ?thesis using True ih b m o by (simp add: passing_weights_Cons)
  next
    case False
    from Cons.prems False obtain os where r: "resolve_options mw deny opts best count = Inr (os, best', count')"
      and o: "opts' = opt\<lparr>po_vote_result := OptionDefeated\<rparr> # os"
      by (auto simp: passes_def res_simps split: if_splits)
    from Cons.IH [OF r] show ?thesis using False o by (simp add: passing_weights_Cons mark_option_def)
  qed
qed

lemma resolve_options_total:
  "unat count + length opts < 2 ^ 16 \<Longrightarrow> \<exists>r. resolve_options mw deny opts best count = Inr r"
proof (induction opts arbitrary: best count)
  case Nil
  then show ?case by simp
next
  case (Cons opt opts)
  have less: "unat count + 1 < 2 ^ 16" using Cons.prems by simp
  then have a: "checked_add count 1 = Some (count + 1)" and u: "unat (count + 1) = unat count + 1"
    by (simp_all add: checked_add_def unat_word_ariths)
  have "\<exists>r. resolve_options mw deny opts b c = Inr r" if "unat c \<le> unat count + 1" for b c
    using Cons.IH [of c b] Cons.prems that by simp
  from this [of count best] this [of "count + 1" best] this [of 1 "po_vote_weight opt"] show ?case
    by (auto simp: a u)
qed

subsection \<open>Single choice\<close>

lemma passes_upward: "passes mw deny v \<Longrightarrow> v \<le> w \<Longrightarrow> passes mw deny w"
  by (auto simp: passes_def)

lemma count_passing:
  assumes "passes mw deny b"
  shows "count_list (passing_weights mw deny opts) b = card {i. i < length opts \<and> po_vote_weight (opts ! i) = b}"
proof -
  have "count_list (passing_weights mw deny opts) b = length (filter (\<lambda>opt. po_vote_weight opt = b) opts)"
    using assms by (induction opts) (auto simp: passing_weights_def)
  then show ?thesis by (simp add: length_filter_conv_card)
qed

lemma best_passes:
  assumes "best = fold max (passing_weights mw deny opts) 0" and "passing_weights mw deny opts \<noteq> []"
  shows "best \<in> set (passing_weights mw deny opts)"
proof -
  obtain w where w: "w \<in> set (passing_weights mw deny opts)" using assms(2) by (cases "passing_weights mw deny opts") auto
  then have "0 < w" by (auto simp: passing_weights_def passes_def intro: le_less_trans [of 0 deny])
  then have "0 < best" using fold_max_upper [OF w, of 0] assms(1) by simp
  then show ?thesis using fold_max_in [of "passing_weights mw deny opts" 0] assms(1) by auto
qed

text \<open>The strict winner of a vote: it passes, and every other option has less weight.\<close>

definition strict_winner :: "u64 \<Rightarrow> u64 \<Rightarrow> ProposalOption list \<Rightarrow> nat \<Rightarrow> bool" where
  "strict_winner mw deny opts i \<longleftrightarrow>
     i < length opts \<and> passes mw deny (po_vote_weight (opts ! i)) \<and>
     (\<forall>j < length opts. j \<noteq> i \<longrightarrow> po_vote_weight (opts ! j) < po_vote_weight (opts ! i))"

lemma best_upper:
  assumes "best = fold max (passing_weights mw deny opts) 0" and "passing_weights mw deny opts \<noteq> []"
    and "j < length opts"
  shows "po_vote_weight (opts ! j) \<le> best"
proof (rule ccontr)
  assume "\<not> po_vote_weight (opts ! j) \<le> best"
  moreover have "passes mw deny best" using best_passes [OF assms(1,2)] by (simp add: passing_weights_def)
  ultimately have "passes mw deny (po_vote_weight (opts ! j))" by (auto intro: passes_upward [of mw deny best])
  then have "po_vote_weight (opts ! j) \<in> set (passing_weights mw deny opts)"
    using assms(3) by (auto simp: passing_weights_def)
  then show False using fold_max_upper [of "po_vote_weight (opts ! j)" "passing_weights mw deny opts" 0] assms(1)
      \<open>\<not> po_vote_weight (opts ! j) \<le> best\<close> by simp
qed

lemma strict_winner_iff:
  assumes "best = fold max (passing_weights mw deny opts) 0" and "passing_weights mw deny opts \<noteq> []"
  shows "strict_winner mw deny opts i \<longleftrightarrow> {j. j < length opts \<and> po_vote_weight (opts ! j) = best} = {i}"
    (is "_ \<longleftrightarrow> ?B = {i}")
proof -
  have upper: "\<And>j. j < length opts \<Longrightarrow> po_vote_weight (opts ! j) \<le> best" by (rule best_upper [OF assms])
  have best: "passes mw deny best" "best \<in> set (map po_vote_weight opts)"
    using best_passes [OF assms] unfolding passing_weights_def by simp_all
  from best(2) obtain k where k: "k \<in> ?B" by (auto simp: in_set_conv_nth)
  show ?thesis
  proof
    assume w: "strict_winner mw deny opts i"
    have eq: "j = i" if "j \<in> ?B" for j
    proof (rule ccontr)
      assume "j \<noteq> i"
      with w that have "po_vote_weight (opts ! j) < po_vote_weight (opts ! i)" and i: "i < length opts"
        unfolding strict_winner_def by blast+
      then have "best < po_vote_weight (opts ! i)" using that by simp
      with upper [OF i] show False by simp
    qed
    then show "?B = {i}" using k by blast
  next
    assume B: "?B = {i}"
    then have "i \<in> ?B" by simp
    then have i: "i < length opts" "po_vote_weight (opts ! i) = best" by simp_all
    have "po_vote_weight (opts ! j) < po_vote_weight (opts ! i)" if "j < length opts" "j \<noteq> i" for j
    proof -
      have "j \<notin> ?B" using that(2) unfolding B by simp
      then have "po_vote_weight (opts ! j) \<noteq> best" using that(1) by simp
      with upper [OF that(1)] show ?thesis unfolding i(2) by simp
    qed
    then show "strict_winner mw deny opts i" using i(1) best(1) unfolding strict_winner_def i(2) by blast
  qed
qed

lemma min_weight_or_panic_Inr: "min_weight_or_panic t m = Inr w \<longleftrightarrow> get_min_vote_threshold_weight t m = Inr w"
  by (simp add: min_weight_or_panic_def map_err_eq_Inr)

lemma winners_strict:
  assumes r: "resolve_options mw deny opts 0 0 = Inr (opts', best, count)"
  shows "count = 0 \<longleftrightarrow> passing_weights mw deny opts = []"
    and "count = 1 \<longleftrightarrow> (\<exists>i. strict_winner mw deny opts i)"
    and "count = 1 \<Longrightarrow> strict_winner mw deny opts i \<Longrightarrow> {j. j < length opts \<and> po_vote_weight (opts ! j) = best} = {i}"
proof -
  note e = resolve_options_eq [OF r]
  let ?W = "passing_weights mw deny opts"
  have c: "unat count = count_list ?W best" using e by auto
  show z: "count = 0 \<longleftrightarrow> ?W = []"
  proof (cases "?W = []")
    case True
    then show ?thesis using c by (simp add: word_unat_eq_iff)
  next
    case False
    then have "best \<in> set ?W" using e best_passes by blast
    then have "count_list ?W best \<noteq> 0" by (simp add: count_list_0_iff)
    then show ?thesis using c False by (auto simp: word_unat_eq_iff)
  qed
  have k: "unat count = card {j. j < length opts \<and> po_vote_weight (opts ! j) = best}" if "?W \<noteq> []"
    using c count_passing [of mw deny best opts] best_passes [of best mw deny opts] e that by (auto simp: passing_weights_def)
  have none: "\<not> strict_winner mw deny opts i" if "?W = []" for i
    using that by (auto simp: strict_winner_def passing_weights_def filter_empty_conv)
  show one: "count = 1 \<longleftrightarrow> (\<exists>i. strict_winner mw deny opts i)"
  proof (cases "?W = []")
    case True
    then show ?thesis using none z by auto
  next
    case False
    then have "count = 1 \<longleftrightarrow> card {j. j < length opts \<and> po_vote_weight (opts ! j) = best} = 1"
      using k by (simp add: word_unat_eq_iff)
    then show ?thesis using strict_winner_iff [of best mw deny opts] e False by (auto simp: card_1_singleton_iff)
  qed
  show "{j. j < length opts \<and> po_vote_weight (opts ! j) = best} = {i}" if "count = 1" "strict_winner mw deny opts i"
    using strict_winner_iff [of best mw deny opts i] e none that by blast
qed

lemma resolve_single_choice_eq:
  assumes "get_min_vote_threshold_weight t m = Inr mw" and "pr_vote_type p = SingleChoice" and "pr_deny_vote_weight p = Some deny"
    and "resolve_options mw deny (pr_options p) 0 0 = Inr (opts, best, count)"
  shows "resolve_final_vote_state p m t =
    Inr (p\<lparr>pr_options := if count = 0 then opts else if count > 1 then coerce_options (- 1) opts else coerce_options best opts\<rparr>,
      if count = 0 \<or> count > 1 then Defeated else Succeeded)"
proof -
  have "min_weight_or_panic t m = Inr mw" using assms(1) by (simp add: min_weight_or_panic_def)
  then show ?thesis by (simp add: resolve_final_vote_state_def assms Let_def)
qed

lemma resolve_single_choice:
  assumes r: "resolve_final_vote_state p m t = Inr (p', s)" and mw: "get_min_vote_threshold_weight t m = Inr mw"
    and p: "pr_vote_type p = SingleChoice" "pr_deny_vote_weight p = Some deny"
  shows "s = (if \<exists>i. strict_winner mw deny (pr_options p) i then Succeeded else Defeated)"
    and "map po_vote_weight (pr_options p') = map po_vote_weight (pr_options p)"
    and "strict_winner mw deny (pr_options p) i \<Longrightarrow>
      {j. j < length (pr_options p') \<and> po_vote_result (pr_options p' ! j) = OptionSucceeded} = {i}"
    and "p' = p\<lparr>pr_options := pr_options p'\<rparr>"
proof -
  obtain mw' x where "min_weight_or_panic t m = Inr mw'"
    and "resolve_options mw' (case pr_deny_vote_weight p of None \<Rightarrow> 0 | Some w \<Rightarrow> w) (pr_options p) 0 0 = Inr x"
    using r unfolding resolve_final_vote_state_def by (elim attempt_eq_InrE) (rule that, assumption+)
  then obtain opts best count where ro: "resolve_options mw deny (pr_options p) 0 0 = Inr (opts, best, count)"
    using mw p(2) by (cases x) (simp add: min_weight_or_panic_Inr)
  note eq = resolve_single_choice_eq [OF mw p ro]
  have e: "p' = p\<lparr>pr_options := if count = 0 then opts else if count > 1 then coerce_options (- 1) opts else coerce_options best opts\<rparr>"
      "s = (if count = 0 \<or> count > 1 then Defeated else Succeeded)"
    using r unfolding eq by simp_all
  note w = winners_strict [OF ro]
  have opts: "opts = map (mark_option mw deny) (pr_options p)" using resolve_options_eq [OF ro] by simp
  have c: "count = 1 \<longleftrightarrow> count \<noteq> 0 \<and> \<not> count > 1"
    by (auto simp: word_less_nat_alt word_unat_eq_iff)
  show "s = (if \<exists>i. strict_winner mw deny (pr_options p) i then Succeeded else Defeated)"
    unfolding e(2) w(2) [symmetric] c by simp
  show "map po_vote_weight (pr_options p') = map po_vote_weight (pr_options p)"
    by (simp add: e(1) opts coerce_options_def mark_option_def comp_def)
  show "{j. j < length (pr_options p') \<and> po_vote_result (pr_options p' ! j) = OptionSucceeded} = {i}"
    if i: "strict_winner mw deny (pr_options p) i"
  proof -
    have one: "count = 1" using w(2) i by blast
    then have "pr_options p' = coerce_options best opts" unfolding e(1) by simp
    then have "{j. j < length (pr_options p') \<and> po_vote_result (pr_options p' ! j) = OptionSucceeded} =
        {j. j < length (pr_options p) \<and> po_vote_weight (pr_options p ! j) = best}"
      by (auto simp: opts coerce_options_def mark_option_def split: if_splits)
    then show ?thesis using w(3) [OF one i] by simp
  qed
  show "p' = p\<lparr>pr_options := pr_options p'\<rparr>" by (simp add: e(1))
qed

section \<open>Tipping\<close>


lemma resolve_one_option:
  assumes "get_min_vote_threshold_weight t m = Inr mw" and "pr_vote_type p = SingleChoice"
    and "pr_deny_vote_weight p = Some deny" and "pr_options p = [yes]"
  shows "resolve_final_vote_state p m t =
    Inr (if passes mw deny (po_vote_weight yes)
         then (p\<lparr>pr_options := [yes\<lparr>po_vote_result := OptionSucceeded\<rparr>]\<rparr>, Succeeded)
         else (p\<lparr>pr_options := [yes\<lparr>po_vote_result := OptionDefeated\<rparr>]\<rparr>, Defeated))"
proof (cases "passes mw deny (po_vote_weight yes)")
  case True
  then have pos: "0 < po_vote_weight yes" by (auto simp: passes_def intro: le_less_trans [of 0 deny])
  have "resolve_options mw deny (pr_options p) 0 0 = Inr ([yes\<lparr>po_vote_result := OptionSucceeded\<rparr>], po_vote_weight yes, 1)"
    using True pos by (simp add: assms(4) passes_def)
  from resolve_single_choice_eq [OF assms(1-3) this] True show ?thesis by (simp add: coerce_options_def)
next
  case False
  then have "resolve_options mw deny (pr_options p) 0 0 = Inr ([yes\<lparr>po_vote_result := OptionDefeated\<rparr>], 0, 0)"
    by (auto simp add: assms(4) passes_def)
  from resolve_single_choice_eq [OF assms(1-3) this] False show ?thesis by simp
qed

text \<open>What an electorate tip needs, and what it leaves, in terms of the weights alone.\<close>

definition tip_weights :: "nat \<Rightarrow> VoteTipping \<Rightarrow> nat \<Rightarrow> nat \<Rightarrow> nat \<Rightarrow> ProposalState option" where
  "tip_weights m tipping mw yes deny =
     (if yes = m then Some Succeeded
      else if deny = m then Some Defeated
      else if tipping = Strict \<and> yes \<ge> mw \<and> yes > m - yes then Some Succeeded
      else if tipping = Early \<and> yes \<ge> mw \<and> yes > deny then Some Succeeded
      else if tipping \<noteq> TippingDisabled \<and> (deny > m - mw \<or> deny \<ge> m - deny) then Some Defeated
      else None)"

definition mark_only_option :: "ProposalV2 \<Rightarrow> ProposalOption \<Rightarrow> ProposalState \<Rightarrow> ProposalV2" where
  "mark_only_option p yes s =
     p\<lparr>pr_options := [yes\<lparr>po_vote_result := (if s = Succeeded then OptionSucceeded else OptionDefeated)\<rparr>]\<rparr>"

lemma tipped_electorate_eq:
  assumes "pr_vote_type p = SingleChoice" and "pr_deny_vote_weight p = Some deny" and "pr_options p = [yes]"
  shows "try_get_tipped_electorate_vote_state p m tipping mw =
    map_option (\<lambda>s. (mark_only_option p yes s, s))
      (tip_weights (unat m) tipping (unat mw) (unat (po_vote_weight yes)) (unat deny))"
  by (simp add: try_get_tipped_electorate_vote_state_def tip_weights_def mark_only_option_def assms Let_def
      word_le_nat_alt word_less_nat_alt word_unat_eq_iff unat_saturating_sub)

lemma tipped_electorate_shape:
  assumes "try_get_tipped_electorate_vote_state p m tipping mw = Some r"
  obtains deny yes where "pr_vote_type p = SingleChoice" "pr_deny_vote_weight p = Some deny" "pr_options p = [yes]"
  using assms by (auto simp: try_get_tipped_electorate_vote_state_def split: VoteType.splits option.splits list.splits)

text \<open>On natural numbers: a tip is the final result now, and a strict tip whatever votes follow.\<close>

lemma tip_weights_final:
  assumes "tip_weights m tipping mw yes deny = Some s" and "mw \<le> m" and "0 < m" and "yes + deny \<le> m"
  shows "s = (if mw \<le> yes \<and> deny < yes then Succeeded else Defeated)"
  using assms by (auto simp: tip_weights_def split: if_splits)

lemma tip_weights_stable:
  assumes "tip_weights m tipping mw yes deny = Some s" and "mw \<le> m" and "0 < m"
    and "tipping \<noteq> Early \<or> s = Defeated" and "yes \<le> yes'" and "deny \<le> deny'" and "yes' + deny' \<le> m"
  shows "s = (if mw \<le> yes' \<and> deny' < yes' then Succeeded else Defeated)"
  using assms by (auto simp: tip_weights_def split: if_splits)

lemma tipped_vote_state:
  assumes "try_get_tipped_vote_state p m tipping t Electorate = Inr (Some (p', s))" and "threshold_percentage_ok t"
  obtains mw deny yes where "get_min_vote_threshold_weight t m = Inr mw" and "unat mw \<le> unat m"
    and "pr_vote_type p = SingleChoice" and "pr_deny_vote_weight p = Some deny" and "pr_options p = [yes]"
    and "tip_weights (unat m) tipping (unat mw) (unat (po_vote_weight yes)) (unat deny) = Some s"
    and "p' = mark_only_option p yes s"
proof -
  from assms(1) obtain mw where mw: "get_min_vote_threshold_weight t m = Inr mw"
    and e: "try_get_tipped_electorate_vote_state p m tipping mw = Some (p', s)"
    by (auto simp: try_get_tipped_vote_state_def res_simps min_weight_or_panic_Inr)
  from mw obtain pct where "t = YesVotePercentage pct" by (auto simp: get_min_vote_threshold_weight_Inr)
  then have le: "unat mw \<le> unat m" using assms(2) mw min_vote_threshold_weight_exact(1) by auto
  from e obtain deny yes where sh: "pr_vote_type p = SingleChoice" "pr_deny_vote_weight p = Some deny" "pr_options p = [yes]"
    by (rule tipped_electorate_shape)
  from e show thesis unfolding tipped_electorate_eq [OF sh] by (auto intro: that [OF mw le sh])
qed

section \<open>Properties\<close>

definition sample_option :: "u64 \<Rightarrow> ProposalOption" where
  "sample_option w =
     \<lparr>po_label = map of_char ''Yes'', po_vote_weight = w, po_vote_result = OptionNone, po_transactions_executed_count = 0,
      po_transactions_count = 1, po_transactions_next_index = 1\<rparr>"

definition sample_proposal :: "ProposalOption list \<Rightarrow> u64 \<Rightarrow> ProposalV2" where
  "sample_proposal options deny =
     \<lparr>pr_account_type = ProposalV2, pr_governance = 41, pr_governing_token_mint = 20, pr_state = Voting,
      pr_token_owner_record = 43, pr_signatories_count = 0, pr_signatories_signed_off_count = 0,
      pr_vote_type = SingleChoice, pr_options = options, pr_deny_vote_weight = Some deny, pr_reserved1 = 0,
      pr_abstain_vote_weight = None, pr_start_voting_at = None, pr_draft_at = 100, pr_signing_off_at = Some 200,
      pr_voting_at = Some 200, pr_voting_at_slot = Some 5, pr_voting_completed_at = None, pr_executing_at = None,
      pr_closed_at = None, pr_execution_flags = FlagsNone, pr_max_vote_weight = None, pr_max_voting_time = None,
      pr_vote_threshold = None, pr_reserved = replicate 64 0, pr_name = [], pr_description_link = [],
      pr_veto_vote_weight = 0\<rparr>"

text \<open>C34: tipping never anticipates a wrong result.  Let the maximal weight of the electorate be positive and the
  yes and deny votes cast together not exceed it, and let the threshold be at most a hundred percent.  When the
  vote of the electorate (not a veto vote) is tipped early, under any tipping rule, the state and the option
  result it is given are exactly those the final count of the same votes at the same maximal weight would
  give.  (\<open>empty_electorate_tips\<close> below shows that a maximal weight of zero has to be excluded.)\<close>

theorem tipping_agrees_with_count:
  assumes "try_get_tipped_vote_state p m tipping t Electorate = Inr (Some (p', s))"
    and "threshold_percentage_ok t" and "0 < m"
    and "\<And>yes deny. pr_options p = [yes] \<Longrightarrow> pr_deny_vote_weight p = Some deny \<Longrightarrow>
      unat (po_vote_weight yes) + unat deny \<le> unat m"
  shows "resolve_final_vote_state p m t = Inr (p', s)"
proof -
  from assms(1,2) obtain mw deny yes where mw: "get_min_vote_threshold_weight t m = Inr mw" "unat mw \<le> unat m"
    and sh: "pr_vote_type p = SingleChoice" "pr_deny_vote_weight p = Some deny" "pr_options p = [yes]"
    and tip: "tip_weights (unat m) tipping (unat mw) (unat (po_vote_weight yes)) (unat deny) = Some s"
    and p': "p' = mark_only_option p yes s" by (rule tipped_vote_state)
  have "0 < unat m" using assms(3) by (simp add: word_less_nat_alt)
  then have "s = (if passes mw deny (po_vote_weight yes) then Succeeded else Defeated)"
    using tip_weights_final [OF tip mw(2) _ assms(4) [OF sh(3,2)]]
    by (simp add: passes_def word_le_nat_alt word_less_nat_alt)
  then show ?thesis by (simp add: resolve_one_option [OF mw(1) sh] p' mark_only_option_def)
qed

theorem tipping_agrees_with_count_witness:
  "resolve_final_vote_state (sample_proposal [sample_option 60] 30) 100 (YesVotePercentage 60) =
     Inr (mark_only_option (sample_proposal [sample_option 60] 30) (sample_option 60) Succeeded, Succeeded)"
proof (rule tipping_agrees_with_count [where tipping = Early])
  have "tip_weights (unat (100 :: u64)) Early (unat (60 :: u64)) (unat (60 :: u64)) (unat (30 :: u64)) = Some Succeeded"
    by (simp add: tip_weights_def)
  then show "try_get_tipped_vote_state (sample_proposal [sample_option 60] 30) 100 Early (YesVotePercentage 60) Electorate =
      Inr (Some (mark_only_option (sample_proposal [sample_option 60] 30) (sample_option 60) Succeeded, Succeeded))"
    by (simp add: try_get_tipped_vote_state_def min_weight_or_panic_def min_vote_threshold_weight_eq tipped_electorate_eq
        sample_proposal_def sample_option_def)
qed (auto simp: sample_proposal_def sample_option_def)

text \<open>C35: let the maximal weight of the electorate be positive and stay as it is, and the threshold be at most a
  hundred percent.  A vote of the electorate tipped under a rule other than \<^verbatim>\<open>Early\<close>, or tipped as defeated
  under any rule, is settled as far as the electorate goes: for whatever yes and deny votes are still added, as
  long as both together do not exceed the maximal weight, the final count gives the state the tip gave.  Votes
  withdrawn, and veto votes, which are counted apart, are not covered.\<close>

theorem strict_tip_is_settled:
  assumes "try_get_tipped_vote_state p m tipping t Electorate = Inr (Some (p', s))"
    and "threshold_percentage_ok t" and "0 < m" and "tipping \<noteq> Early \<or> s = Defeated"
    and "pr_options p = [yes]" and "pr_deny_vote_weight p = Some deny"
    and "po_vote_weight yes \<le> yes_later" and "deny \<le> deny_later" and "unat yes_later + unat deny_later \<le> unat m"
  shows "\<exists>q. resolve_final_vote_state
      (p\<lparr>pr_options := [yes\<lparr>po_vote_weight := yes_later\<rparr>], pr_deny_vote_weight := Some deny_later\<rparr>) m t = Inr (q, s)"
proof -
  from assms(1,2) obtain mw deny' yes' where mw: "get_min_vote_threshold_weight t m = Inr mw" "unat mw \<le> unat m"
    and sh: "pr_vote_type p = SingleChoice" "pr_deny_vote_weight p = Some deny'" "pr_options p = [yes']"
    and tip: "tip_weights (unat m) tipping (unat mw) (unat (po_vote_weight yes')) (unat deny') = Some s"
    by (rule tipped_vote_state)
  have same: "yes' = yes" "deny' = deny" using sh assms(5,6) by simp_all
  have pos: "0 < unat m" using assms(3) by (simp add: word_less_nat_alt)
  have le: "unat (po_vote_weight yes) \<le> unat yes_later" "unat deny \<le> unat deny_later"
    using assms(7,8) by (simp_all add: word_le_nat_alt)
  have "s = (if passes mw deny_later yes_later then Succeeded else Defeated)"
    using tip_weights_stable [OF tip [unfolded same] mw(2) pos assms(4) le assms(9)]
    by (simp add: passes_def word_le_nat_alt word_less_nat_alt)
  then show ?thesis
    using resolve_one_option [OF mw(1), of "p\<lparr>pr_options := [yes\<lparr>po_vote_weight := yes_later\<rparr>], pr_deny_vote_weight := Some deny_later\<rparr>"]
      sh(1) by auto
qed

theorem strict_tip_is_settled_witness:
  "\<exists>q. resolve_final_vote_state
     ((sample_proposal [sample_option 60] 10)\<lparr>pr_options := [(sample_option 60)\<lparr>po_vote_weight := 61\<rparr>],
        pr_deny_vote_weight := Some 39\<rparr>) 100 (YesVotePercentage 50) = Inr (q, Succeeded)"
proof (rule strict_tip_is_settled [where tipping = Strict])
  have "tip_weights (unat (100 :: u64)) Strict (unat (50 :: u64)) (unat (60 :: u64)) (unat (10 :: u64)) = Some Succeeded"
    by (simp add: tip_weights_def)
  then show "try_get_tipped_vote_state (sample_proposal [sample_option 60] 10) 100 Strict (YesVotePercentage 50) Electorate =
      Inr (Some (mark_only_option (sample_proposal [sample_option 60] 10) (sample_option 60) Succeeded, Succeeded))"
    by (simp add: try_get_tipped_vote_state_def min_weight_or_panic_def min_vote_threshold_weight_eq tipped_electorate_eq
        sample_proposal_def sample_option_def)
qed (auto simp: sample_proposal_def sample_option_def)

text \<open>C36: the result of a single-choice vote with rejections, counted at a threshold of at most a hundred percent.
  Call an option the winner if it reaches the threshold, beats the rejections, and has strictly more weight
  than every other option.  If there is a winner, the proposal succeeds, and the winner, and no other option,
  is marked as succeeded; if there is none, the proposal is defeated.  The count changes no weight.\<close>

theorem single_choice_result:
  assumes "resolve_final_vote_state p m (YesVotePercentage pct) = Inr (p', s)" and "unat pct \<le> 100"
    and "pr_vote_type p = SingleChoice" and "pr_deny_vote_weight p = Some deny"
  defines "winner \<equiv> \<lambda>i. i < length (pr_options p) \<and>
     unat pct * unat m \<le> 100 * unat (po_vote_weight (pr_options p ! i)) \<and> deny < po_vote_weight (pr_options p ! i) \<and>
     (\<forall>j < length (pr_options p). j \<noteq> i \<longrightarrow> po_vote_weight (pr_options p ! j) < po_vote_weight (pr_options p ! i))"
  shows "s = (if \<exists>i. winner i then Succeeded else Defeated) \<and>
    (\<forall>i. winner i \<longrightarrow> {j. j < length (pr_options p') \<and> po_vote_result (pr_options p' ! j) = OptionSucceeded} = {i}) \<and>
    map po_vote_weight (pr_options p') = map po_vote_weight (pr_options p)"
proof -
  obtain mw where mw: "get_min_vote_threshold_weight (YesVotePercentage pct) m = Inr mw"
    using min_vote_threshold_weight_eq by blast
  have w: "winner = strict_winner mw deny (pr_options p)"
    unfolding fun_eq_iff winner_def strict_winner_def passes_def min_vote_threshold_weight_exact(2) [OF assms(2) mw] word_le_nat_alt
    by blast
  show ?thesis unfolding w using resolve_single_choice(1-3) [OF assms(1) mw assms(3,4)] by blast
qed

theorem single_choice_result_witness:
  "\<exists>p'. resolve_final_vote_state (sample_proposal [sample_option 30, sample_option 60] 20) 100 (YesVotePercentage 50) =
     Inr (p', Succeeded) \<and> map po_vote_weight (pr_options p') = [30, 60] \<and>
     {j. j < length (pr_options p') \<and> po_vote_result (pr_options p' ! j) = OptionSucceeded} = {1}"
proof -
  let ?p = "sample_proposal [sample_option 30, sample_option 60] 20"
  have f: "pr_vote_type ?p = SingleChoice" "pr_deny_vote_weight ?p = Some 20" by (simp_all add: sample_proposal_def)
  have mw: "get_min_vote_threshold_weight (YesVotePercentage 50) 100 = Inr 50" by (simp add: min_vote_threshold_weight_eq)
  have "resolve_options 50 20 (pr_options ?p) 0 0 =
      Inr (map (mark_option 50 20) [sample_option 30, sample_option 60], 60, 1)"
    by (simp add: sample_proposal_def sample_option_def mark_option_def passes_def)
  from resolve_single_choice_eq [OF mw f this] obtain p' where
    r: "resolve_final_vote_state ?p 100 (YesVotePercentage 50) = Inr (p', Succeeded)" by simp
  have "\<forall>j < 2. j \<noteq> 1 \<longrightarrow> po_vote_weight (pr_options ?p ! j) < po_vote_weight (pr_options ?p ! 1)"
    by (simp add: sample_proposal_def sample_option_def less_2_cases_iff)
  with single_choice_result [OF r _ f] r show ?thesis by (auto simp: sample_proposal_def sample_option_def)
qed

text \<open>
  The electorate must not be empty for a tip to agree with the count: with a maximal weight of zero the
  first vote cast, even one against the proposal, tips it as succeeded, while the count defeats it.
\<close>

lemma empty_electorate_tips:
  "try_get_tipped_vote_state (sample_proposal [sample_option 0] 0) 0 tipping (YesVotePercentage 60) Electorate =
     Inr (Some (mark_only_option (sample_proposal [sample_option 0] 0) (sample_option 0) Succeeded, Succeeded))"
  "resolve_final_vote_state (sample_proposal [sample_option 0] 0) 0 (YesVotePercentage 60) =
     Inr (mark_only_option (sample_proposal [sample_option 0] 0) (sample_option 0) Defeated, Defeated)"
  by (simp_all add: try_get_tipped_vote_state_def min_weight_or_panic_def min_vote_threshold_weight_eq tipped_electorate_eq
      tip_weights_def resolve_one_option passes_def mark_only_option_def sample_proposal_def sample_option_def)

end
