(* ===== verification/Governance_Accounts.thy ===== *)
theory Governance_Accounts
  imports Governance_Vote
begin

text \<open>
  How the governance program reads, writes, creates and disposes of accounts
  (\<^verbatim>\<open>governance/tools/src/account.rs\<close>, the \<^verbatim>\<open>get_*_data\<close> and \<^verbatim>\<open>serialize\<close> functions of
  \<^verbatim>\<open>governance/program/src/state\<close>, \<^verbatim>\<open>tools/spl_token.rs\<close>, \<^verbatim>\<open>tools/bpf_loader_upgradeable.rs\<close>,
  \<^verbatim>\<open>addins\<close>).  An account of the first version is read as one of the second and written back in its
  own format.

  The encodings are derived by the \<^verbatim>\<open>borsh\<close> crate and the instructions of the system program and of
  the upgradeable loader are built by the SDK; neither is part of the repository, so they are the
  parameters \<open>gov_env\<close> of the model.  \<open>cd_read\<close> reads a value from the front of a
  byte string (\<^verbatim>\<open>try_from_slice_unchecked\<close>), \<open>cd_write\<close> is the encoding (\<^verbatim>\<open>try_to_vec\<close>).
\<close>

section \<open>Parameters\<close>

record gov_env =
  ge_runtime :: runtime
  ge_account_type :: "bytes \<Rightarrow> GovernanceAccountType res"
  ge_RealmV1 :: "RealmV1 codec"
  ge_RealmV2 :: "RealmV2 codec"
  ge_RealmConfig :: "RealmConfigAccount codec"
  ge_GovernanceV1 :: "GovernanceV1 codec"
  ge_GovernanceV2 :: "GovernanceV2 codec"
  ge_TokenOwnerRecordV1 :: "TokenOwnerRecordV1 codec"
  ge_TokenOwnerRecordV2 :: "TokenOwnerRecordV2 codec"
  ge_SignatoryRecordV1 :: "SignatoryRecordV1 codec"
  ge_SignatoryRecordV2 :: "SignatoryRecordV2 codec"
  ge_ProposalV1 :: "ProposalV1 codec"
  ge_ProposalV2 :: "ProposalV2 codec"
  ge_ProposalInstructionV1 :: "ProposalInstructionV1 codec"
  ge_ProposalTransactionV2 :: "ProposalTransactionV2 codec"
  ge_VoteRecordV1 :: "VoteRecordV1 codec"
  ge_VoteRecordV2 :: "VoteRecordV2 codec"
  ge_ProgramMetadata :: "ProgramMetadata codec"
  ge_VoterWeightRecord :: "VoterWeightRecord codec"
  ge_MaxVoterWeightRecord :: "MaxVoterWeightRecord codec"
  ge_system_create_account :: "pubkey \<Rightarrow> pubkey \<Rightarrow> u64 \<Rightarrow> u64 \<Rightarrow> pubkey \<Rightarrow> sol_instruction"
  ge_system_transfer :: "pubkey \<Rightarrow> pubkey \<Rightarrow> u64 \<Rightarrow> sol_instruction"
  ge_system_allocate :: "pubkey \<Rightarrow> u64 \<Rightarrow> sol_instruction"
  ge_system_assign :: "pubkey \<Rightarrow> pubkey \<Rightarrow> sol_instruction"
  ge_loader_id :: pubkey
  ge_loader_set_upgrade_authority :: "pubkey \<Rightarrow> pubkey \<Rightarrow> pubkey option \<Rightarrow> sol_instruction"
  ge_loader_state :: "bytes \<Rightarrow> pubkey option option option"
  ge_version :: bytes

text \<open>
  \<open>ge_loader_state\<close> decodes \<^verbatim>\<open>UpgradeableLoaderState\<close>: \<open>None\<close> where decoding fails,
  \<open>Some None\<close> for a state that is not \<^verbatim>\<open>ProgramData\<close>, otherwise the upgrade authority.
  \<open>ge_version\<close> is the \<^verbatim>\<open>CARGO_PKG_VERSION\<close> of the build.
\<close>

section \<open>Accounts of any kind\<close>

definition get_account_data :: "'a codec \<Rightarrow> ('a \<Rightarrow> bool) \<Rightarrow> pubkey \<Rightarrow> account_info \<Rightarrow> ledger \<Rightarrow> 'a res" where
  "get_account_data c is_initialized owner_program_id info led =
     (if info_data led info = [] then Inl AccountDoesNotExist
      else if info_owner led info \<noteq> owner_program_id then Inl ToolsInvalidAccountOwner
      else
        attempt (cd_read c (info_data led info)) (\<lambda>v.
        if \<not> is_initialized v then Inl UninitializedAccount else Inr v))"

definition assert_is_valid_account_of_types ::
    "gov_env \<Rightarrow> (GovernanceAccountType \<Rightarrow> bool) \<Rightarrow> pubkey \<Rightarrow> account_info \<Rightarrow> ledger \<Rightarrow> unit res" where
  "assert_is_valid_account_of_types E is_account_type owner_program_id info led =
     (if info_owner led info \<noteq> owner_program_id then Inl ToolsInvalidAccountOwner
      else if info_data led info = [] then Inl AccountDoesNotExist
      else
        attempt (ge_account_type E (info_data led info)) (\<lambda>t.
        if \<not> is_account_type t then Inl InvalidAccountType else Inr ()))"

text \<open>
  \<^verbatim>\<open>BorshSerialize::serialize(&v, &mut *info.data.borrow_mut())\<close> overwrites the front of the data.
  The writer also advances the borrowed slice, which no handler reads again.
\<close>

definition borsh_write :: "'a codec \<Rightarrow> 'a \<Rightarrow> account_info \<Rightarrow> ledger \<Rightarrow> ledger res" where
  "borsh_write c v info led =
     attempt (cd_write c v) (\<lambda>bs.
     if length bs \<le> length (info_data led info)
     then Inr (set_data (ai_key info) (bs @ drop (length bs) (info_data led info)) led)
     else Inl BorshIoError)"

definition dispose_account :: "account_info \<Rightarrow> account_info \<Rightarrow> ledger \<Rightarrow> ledger res" where
  "dispose_account info beneficiary led =
     (let account_lamports = info_lamports led info;
          led1 = set_lamports (ai_key info) 0 led in
      attempt (ok_or (checked_add (info_lamports led1 beneficiary) account_lamports) Panicked) (\<lambda>total.
      Inr (set_data (ai_key info) (replicate (length (info_data led info)) 0)
             (set_lamports (ai_key beneficiary) total led1))))"

text \<open>
  The data is written after the account has been created: whole if its size was computed from its
  encoding, into the front of the account if the size is the type's maximum.
\<close>

definition account_size_and_data :: "'a codec \<Rightarrow> nat option \<Rightarrow> 'a \<Rightarrow> (bytes option \<times> nat) res" where
  "account_size_and_data c max_size v =
     (case max_size of
        Some n \<Rightarrow> Inr (None, n)
      | None \<Rightarrow> attempt (cd_write c v) (\<lambda>bs. Inr (Some bs, length bs)))"

definition write_created_account :: "'a codec \<Rightarrow> bytes option \<Rightarrow> nat \<Rightarrow> 'a \<Rightarrow> account_info \<Rightarrow> ledger \<Rightarrow> ledger res" where
  "write_created_account c serialized account_size v info led =
     (case serialized of
        Some bs \<Rightarrow> if length (info_data led info) \<noteq> length bs then Inl Panicked else Inr (set_data (ai_key info) bs led)
      | None \<Rightarrow> if account_size > 0 then borsh_write c v info led else Inr led)"

definition create_and_serialize_account_with_owner_signed ::
    "gov_env \<Rightarrow> 'a codec \<Rightarrow> nat option \<Rightarrow> account_info \<Rightarrow> account_info \<Rightarrow> 'a \<Rightarrow> bytes list \<Rightarrow> pubkey \<Rightarrow> pubkey \<Rightarrow>
      account_info \<Rightarrow> rent \<Rightarrow> ledger \<Rightarrow> ledger res" where
  "create_and_serialize_account_with_owner_signed E c max_size payer info v seeds program_id owner_program_id system rent led =
     (let R = ge_runtime E; (account_address, bump_seed) = rt_find_program_address R seeds program_id in
      if account_address \<noteq> ai_key info then Inl InvalidSeeds
      else
        attempt (account_size_and_data c max_size v) (\<lambda>(serialized, account_size).
        let signers_seeds = seeds @ [[bump_seed]];
            rent_exempt_lamports = max (rent_minimum_balance rent account_size) 1 in
        attempt
          (if info_lamports led info > 0 then
             let top_up_lamports = saturating_sub rent_exempt_lamports (info_lamports led info) in
             attempt
               (if top_up_lamports > 0
                then rt_invoke_signed R program_id (ge_system_transfer E (ai_key payer) (ai_key info) top_up_lamports)
                       [payer, info, system] [] led
                else Inr led) (\<lambda>led1.
             attempt (rt_invoke_signed R program_id (ge_system_allocate E (ai_key info) (of_nat account_size))
               [info, system] [signers_seeds] led1) (\<lambda>led2.
             rt_invoke_signed R program_id (ge_system_assign E (ai_key info) owner_program_id)
               [info, system] [signers_seeds] led2))
           else
             rt_invoke_signed R program_id
               (ge_system_create_account E (ai_key payer) (ai_key info) rent_exempt_lamports (of_nat account_size) owner_program_id)
               [payer, info, system] [signers_seeds] led) (\<lambda>led'.
        write_created_account c serialized account_size v info led')))"

definition create_and_serialize_account_signed ::
    "gov_env \<Rightarrow> 'a codec \<Rightarrow> nat option \<Rightarrow> account_info \<Rightarrow> account_info \<Rightarrow> 'a \<Rightarrow> bytes list \<Rightarrow> pubkey \<Rightarrow>
      account_info \<Rightarrow> rent \<Rightarrow> ledger \<Rightarrow> ledger res" where
  "create_and_serialize_account_signed E c max_size payer info v seeds program_id system rent led =
     create_and_serialize_account_with_owner_signed E c max_size payer info v seeds program_id program_id system rent led"

section \<open>Addresses\<close>

definition PROGRAM_AUTHORITY_SEED :: bytes where
  "PROGRAM_AUTHORITY_SEED = map of_char ''governance''"

definition get_realm_address_seeds :: "bytes \<Rightarrow> bytes list" where
  "get_realm_address_seeds name = [PROGRAM_AUTHORITY_SEED, name]"

definition get_governing_token_holding_address_seeds :: "pubkey \<Rightarrow> pubkey \<Rightarrow> bytes list" where
  "get_governing_token_holding_address_seeds realm mint = [PROGRAM_AUTHORITY_SEED, to_le_bytes realm, to_le_bytes mint]"

definition get_token_owner_record_address_seeds :: "pubkey \<Rightarrow> pubkey \<Rightarrow> pubkey \<Rightarrow> bytes list" where
  "get_token_owner_record_address_seeds realm mint owner =
     [PROGRAM_AUTHORITY_SEED, to_le_bytes realm, to_le_bytes mint, to_le_bytes owner]"

definition get_realm_config_address_seeds :: "pubkey \<Rightarrow> bytes list" where
  "get_realm_config_address_seeds realm = [map of_char ''realm-config'', to_le_bytes realm]"

definition get_program_governance_address_seeds :: "pubkey \<Rightarrow> pubkey \<Rightarrow> bytes list" where
  "get_program_governance_address_seeds realm governed =
     [map of_char ''program-governance'', to_le_bytes realm, to_le_bytes governed]"

definition get_mint_governance_address_seeds :: "pubkey \<Rightarrow> pubkey \<Rightarrow> bytes list" where
  "get_mint_governance_address_seeds realm governed =
     [map of_char ''mint-governance'', to_le_bytes realm, to_le_bytes governed]"

definition get_token_governance_address_seeds :: "pubkey \<Rightarrow> pubkey \<Rightarrow> bytes list" where
  "get_token_governance_address_seeds realm governed =
     [map of_char ''token-governance'', to_le_bytes realm, to_le_bytes governed]"

definition get_governance_address_seeds :: "pubkey \<Rightarrow> pubkey \<Rightarrow> bytes list" where
  "get_governance_address_seeds realm governed =
     [map of_char ''account-governance'', to_le_bytes realm, to_le_bytes governed]"

definition get_proposal_address_seeds :: "pubkey \<Rightarrow> pubkey \<Rightarrow> bytes \<Rightarrow> bytes list" where
  "get_proposal_address_seeds governance mint proposal_index =
     [PROGRAM_AUTHORITY_SEED, to_le_bytes governance, to_le_bytes mint, proposal_index]"

definition get_signatory_record_address_seeds :: "pubkey \<Rightarrow> pubkey \<Rightarrow> bytes list" where
  "get_signatory_record_address_seeds proposal signatory =
     [PROGRAM_AUTHORITY_SEED, to_le_bytes proposal, to_le_bytes signatory]"

definition get_vote_record_address_seeds :: "pubkey \<Rightarrow> pubkey \<Rightarrow> bytes list" where
  "get_vote_record_address_seeds proposal token_owner_record =
     [PROGRAM_AUTHORITY_SEED, to_le_bytes proposal, to_le_bytes token_owner_record]"

definition get_proposal_transaction_address_seeds :: "pubkey \<Rightarrow> bytes \<Rightarrow> bytes \<Rightarrow> bytes list" where
  "get_proposal_transaction_address_seeds proposal option_index instruction_index =
     [PROGRAM_AUTHORITY_SEED, to_le_bytes proposal, option_index, instruction_index]"

definition get_native_treasury_address_seeds :: "pubkey \<Rightarrow> bytes list" where
  "get_native_treasury_address_seeds governance = [map of_char ''native-treasury'', to_le_bytes governance]"

definition get_program_metadata_seeds :: "bytes list" where
  "get_program_metadata_seeds = [map of_char ''metadata'']"

definition governance_own_address_seeds :: "GovernanceV2 \<Rightarrow> bytes list res" where
  "governance_own_address_seeds gov =
     (if gv_account_type gov \<in> {GovernanceV1, GovernanceV2}
      then Inr (get_governance_address_seeds (gv_realm gov) (gv_governed_account gov))
      else if gv_account_type gov \<in> {ProgramGovernanceV1, ProgramGovernanceV2}
      then Inr (get_program_governance_address_seeds (gv_realm gov) (gv_governed_account gov))
      else if gv_account_type gov \<in> {MintGovernanceV1, MintGovernanceV2}
      then Inr (get_mint_governance_address_seeds (gv_realm gov) (gv_governed_account gov))
      else if gv_account_type gov \<in> {TokenGovernanceV1, TokenGovernanceV2}
      then Inr (get_token_governance_address_seeds (gv_realm gov) (gv_governed_account gov))
      else Inl InvalidAccountType)"

section \<open>Maximal sizes\<close>

definition ProposalV2_max_size :: "ProposalV2 \<Rightarrow> nat" where
  "ProposalV2_max_size p =
     length (pr_name p) + length (pr_description_link p) + sum_list (map (\<lambda>opt. length (po_label opt) + 19) (pr_options p)) + 295"

definition ProposalTransactionV2_max_size :: "ProposalTransactionV2 \<Rightarrow> nat" where
  "ProposalTransactionV2_max_size tx =
     sum_list (map (\<lambda>i. length (id_accounts i) * 34 + length (id_data i) + 40) (pt_instructions tx)) + 62"

definition RealmV2_max_size :: "RealmV2 \<Rightarrow> nat" where
  "RealmV2_max_size r = length (rl_name r) + 264"

definition RealmConfigAccount_max_size :: nat where
  "RealmConfigAccount_max_size = 1 + 32 + 33 * 4 + 128"

definition TokenOwnerRecordV2_max_size :: nat where
  "TokenOwnerRecordV2_max_size = 282"

definition ProgramMetadata_max_size :: nat where
  "ProgramMetadata_max_size = 88"

definition NativeTreasury_max_size :: nat where
  "NativeTreasury_max_size = 0"

section \<open>Realms\<close>

definition RealmV2_serialize :: "gov_env \<Rightarrow> RealmV2 \<Rightarrow> account_info \<Rightarrow> ledger \<Rightarrow> ledger res" where
  "RealmV2_serialize E v info led =
     (if rl_account_type v = RealmV2 then borsh_write (ge_RealmV2 E) v info led
      else if rl_account_type v = RealmV1 then
        if rl_reserved_v2 v \<noteq> replicate 128 0 then Inl Panicked
        else borsh_write (ge_RealmV1 E) (RealmV1.truncate v) info led
      else Inr led)"

definition get_realm_data :: "gov_env \<Rightarrow> pubkey \<Rightarrow> account_info \<Rightarrow> ledger \<Rightarrow> RealmV2 res" where
  "get_realm_data E program_id info led =
     attempt (ge_account_type E (info_data led info)) (\<lambda>account_type.
     if account_type = RealmV1 then
       attempt (get_account_data (ge_RealmV1 E) (\<lambda>v. rl_account_type v = RealmV1) program_id info led) (\<lambda>v1.
       Inr (RealmV1.extend v1 (RealmV2.fields (replicate 128 0))))
     else get_account_data (ge_RealmV2 E) (\<lambda>v. rl_account_type v = RealmV2) program_id info led)"

definition assert_is_valid_realm :: "gov_env \<Rightarrow> pubkey \<Rightarrow> account_info \<Rightarrow> ledger \<Rightarrow> unit res" where
  "assert_is_valid_realm E program_id info led = assert_is_valid_account_of_types E is_realm_account_type program_id info led"

definition get_realm_data_for_authority :: "gov_env \<Rightarrow> pubkey \<Rightarrow> account_info \<Rightarrow> pubkey \<Rightarrow> ledger \<Rightarrow> RealmV2 res" where
  "get_realm_data_for_authority E program_id info realm_authority led =
     attempt (get_realm_data E program_id info led) (\<lambda>realm.
     case rl_authority realm of
       None \<Rightarrow> Inl RealmHasNoAuthority
     | Some authority \<Rightarrow> if authority \<noteq> realm_authority then Inl InvalidAuthorityForRealm else Inr realm)"

definition get_realm_data_for_governing_token_mint ::
    "gov_env \<Rightarrow> pubkey \<Rightarrow> account_info \<Rightarrow> pubkey \<Rightarrow> ledger \<Rightarrow> RealmV2 res" where
  "get_realm_data_for_governing_token_mint E program_id info mint led =
     attempt (get_realm_data E program_id info led) (\<lambda>realm.
     attempt (assert_is_valid_governing_token_mint realm mint) (\<lambda>_. Inr realm))"

definition get_governing_token_holding_address :: "gov_env \<Rightarrow> pubkey \<Rightarrow> pubkey \<Rightarrow> pubkey \<Rightarrow> pubkey" where
  "get_governing_token_holding_address E program_id realm mint =
     fst (rt_find_program_address (ge_runtime E) (get_governing_token_holding_address_seeds realm mint) program_id)"

definition assert_is_valid_governing_token_mint_and_holding ::
    "gov_env \<Rightarrow> RealmV2 \<Rightarrow> pubkey \<Rightarrow> pubkey \<Rightarrow> pubkey \<Rightarrow> pubkey \<Rightarrow> unit res" where
  "assert_is_valid_governing_token_mint_and_holding E realm_data program_id realm mint holding =
     attempt (assert_is_valid_governing_token_mint realm_data mint) (\<lambda>_.
     if get_governing_token_holding_address E program_id realm mint \<noteq> holding
     then Inl InvalidGoverningTokenHoldingAccount else Inr ())"

definition RealmConfig_serialize :: "gov_env \<Rightarrow> RealmConfigAccount \<Rightarrow> account_info \<Rightarrow> ledger \<Rightarrow> ledger res" where
  "RealmConfig_serialize E v info led = borsh_write (ge_RealmConfig E) v info led"

definition get_realm_config_data :: "gov_env \<Rightarrow> pubkey \<Rightarrow> account_info \<Rightarrow> ledger \<Rightarrow> RealmConfigAccount res" where
  "get_realm_config_data E program_id info led =
     get_account_data (ge_RealmConfig E) (\<lambda>v. rca_account_type v = RealmConfigType) program_id info led"

definition get_realm_config_data_for_realm ::
    "gov_env \<Rightarrow> pubkey \<Rightarrow> account_info \<Rightarrow> pubkey \<Rightarrow> ledger \<Rightarrow> RealmConfigAccount res" where
  "get_realm_config_data_for_realm E program_id info realm led =
     attempt (get_realm_config_data E program_id info led) (\<lambda>v.
     if rca_realm v \<noteq> realm then Inl InvalidRealmConfigForRealm else Inr v)"

section \<open>Governances\<close>

definition GovernanceV2_serialize :: "gov_env \<Rightarrow> GovernanceV2 \<Rightarrow> account_info \<Rightarrow> ledger \<Rightarrow> ledger res" where
  "GovernanceV2_serialize E v info led =
     (if is_governance_v2_account_type (gv_account_type v) then borsh_write (ge_GovernanceV2 E) v info led
      else if is_governance_v1_account_type (gv_account_type v) then
        if gv_reserved_v2 v \<noteq> replicate 128 0 then Inl Panicked
        else borsh_write (ge_GovernanceV1 E) (GovernanceV1.truncate v) info led
      else Inr led)"

text \<open>A configuration from before the council thresholds existed uses the community threshold for both.\<close>

definition coerce_legacy_thresholds :: "GovernanceConfig \<Rightarrow> GovernanceConfig" where
  "coerce_legacy_thresholds config =
     (if gc_council_vote_threshold config = YesVotePercentage 0
      then config\<lparr>gc_council_vote_threshold := gc_community_vote_threshold config,
                  gc_council_veto_vote_threshold := gc_community_vote_threshold config\<rparr>
      else config)"

definition get_governance_data :: "gov_env \<Rightarrow> pubkey \<Rightarrow> account_info \<Rightarrow> ledger \<Rightarrow> GovernanceV2 res" where
  "get_governance_data E program_id info led =
     (if info_data led info = [] then Inl AccountDoesNotExist
      else
        attempt (ge_account_type E (info_data led info)) (\<lambda>account_type.
        attempt
          (if is_governance_v1_account_type account_type then
             attempt (get_account_data (ge_GovernanceV1 E) (\<lambda>v. is_governance_v1_account_type (gv_account_type v)) program_id info led)
               (\<lambda>v1. Inr (GovernanceV1.extend (v1\<lparr>gv_account_type := account_type\<rparr>) (GovernanceV2.fields (replicate 128 0))))
           else
             get_account_data (ge_GovernanceV2 E) (\<lambda>v. is_governance_v2_account_type (gv_account_type v)) program_id info led)
          (\<lambda>gov.
        Inr (gov\<lparr>gv_config := coerce_legacy_thresholds (gv_config gov)\<rparr>))))"

definition get_governance_data_for_realm ::
    "gov_env \<Rightarrow> pubkey \<Rightarrow> account_info \<Rightarrow> pubkey \<Rightarrow> ledger \<Rightarrow> GovernanceV2 res" where
  "get_governance_data_for_realm E program_id info realm led =
     attempt (get_governance_data E program_id info led) (\<lambda>gov.
     if gv_realm gov \<noteq> realm then Inl InvalidRealmForGovernance else Inr gov)"

definition assert_governance_for_realm :: "gov_env \<Rightarrow> pubkey \<Rightarrow> account_info \<Rightarrow> pubkey \<Rightarrow> ledger \<Rightarrow> unit res" where
  "assert_governance_for_realm E program_id info realm led =
     attempt (get_governance_data_for_realm E program_id info realm led) (\<lambda>_. Inr ())"

definition assert_is_valid_governance :: "gov_env \<Rightarrow> pubkey \<Rightarrow> account_info \<Rightarrow> ledger \<Rightarrow> unit res" where
  "assert_is_valid_governance E program_id info led =
     assert_is_valid_account_of_types E is_governance_account_type program_id info led"

definition assert_valid_create_governance_args ::
    "gov_env \<Rightarrow> pubkey \<Rightarrow> GovernanceConfig \<Rightarrow> account_info \<Rightarrow> ledger \<Rightarrow> unit res" where
  "assert_valid_create_governance_args E program_id config realm_info led =
     attempt (assert_is_valid_realm E program_id realm_info led) (\<lambda>_.
     assert_is_valid_governance_config config)"

section \<open>Token owner records\<close>

definition TokenOwnerRecordV2_serialize :: "gov_env \<Rightarrow> TokenOwnerRecordV2 \<Rightarrow> account_info \<Rightarrow> ledger \<Rightarrow> ledger res" where
  "TokenOwnerRecordV2_serialize E v info led =
     (if to_account_type v = TokenOwnerRecordV2 then borsh_write (ge_TokenOwnerRecordV2 E) v info led
      else if to_account_type v = TokenOwnerRecordV1 then
        if to_reserved_v2 v \<noteq> replicate 128 0 then Inl Panicked
        else borsh_write (ge_TokenOwnerRecordV1 E) (TokenOwnerRecordV1.truncate v) info led
      else Inr led)"

definition get_token_owner_record_data :: "gov_env \<Rightarrow> pubkey \<Rightarrow> account_info \<Rightarrow> ledger \<Rightarrow> TokenOwnerRecordV2 res" where
  "get_token_owner_record_data E program_id info led =
     attempt (ge_account_type E (info_data led info)) (\<lambda>account_type.
     if account_type = TokenOwnerRecordV1 then
       attempt (get_account_data (ge_TokenOwnerRecordV1 E) (\<lambda>v. to_account_type v = TokenOwnerRecordV1) program_id info led) (\<lambda>v1.
       Inr (TokenOwnerRecordV1.extend v1 (TokenOwnerRecordV2.fields (replicate 128 0))))
     else get_account_data (ge_TokenOwnerRecordV2 E) (\<lambda>v. to_account_type v = TokenOwnerRecordV2) program_id info led)"

definition get_token_owner_record_data_for_seeds ::
    "gov_env \<Rightarrow> pubkey \<Rightarrow> account_info \<Rightarrow> bytes list \<Rightarrow> ledger \<Rightarrow> TokenOwnerRecordV2 res" where
  "get_token_owner_record_data_for_seeds E program_id info seeds led =
     (if fst (rt_find_program_address (ge_runtime E) seeds program_id) \<noteq> ai_key info
      then Inl InvalidTokenOwnerRecordAccountAddress
      else get_token_owner_record_data E program_id info led)"

definition get_token_owner_record_data_for_realm ::
    "gov_env \<Rightarrow> pubkey \<Rightarrow> account_info \<Rightarrow> pubkey \<Rightarrow> ledger \<Rightarrow> TokenOwnerRecordV2 res" where
  "get_token_owner_record_data_for_realm E program_id info realm led =
     attempt (get_token_owner_record_data E program_id info led) (\<lambda>tor.
     if to_realm tor \<noteq> realm then Inl InvalidRealmForTokenOwnerRecord else Inr tor)"

definition get_token_owner_record_data_for_realm_and_governing_mint ::
    "gov_env \<Rightarrow> pubkey \<Rightarrow> account_info \<Rightarrow> pubkey \<Rightarrow> pubkey \<Rightarrow> ledger \<Rightarrow> TokenOwnerRecordV2 res" where
  "get_token_owner_record_data_for_realm_and_governing_mint E program_id info realm mint led =
     attempt (get_token_owner_record_data_for_realm E program_id info realm led) (\<lambda>tor.
     if to_governing_token_mint tor \<noteq> mint then Inl InvalidGoverningMintForTokenOwnerRecord else Inr tor)"

definition get_token_owner_record_data_for_proposal_owner ::
    "gov_env \<Rightarrow> pubkey \<Rightarrow> account_info \<Rightarrow> pubkey \<Rightarrow> ledger \<Rightarrow> TokenOwnerRecordV2 res" where
  "get_token_owner_record_data_for_proposal_owner E program_id info proposal_owner led =
     (if ai_key info \<noteq> proposal_owner then Inl InvalidProposalOwnerAccount
      else get_token_owner_record_data E program_id info led)"

section \<open>Signatory records\<close>

definition SignatoryRecordV2_serialize :: "gov_env \<Rightarrow> SignatoryRecordV2 \<Rightarrow> account_info \<Rightarrow> ledger \<Rightarrow> ledger res" where
  "SignatoryRecordV2_serialize E v info led =
     (if sr_account_type v = SignatoryRecordV2 then borsh_write (ge_SignatoryRecordV2 E) v info led
      else if sr_account_type v = SignatoryRecordV1 then
        if sr_reserved_v2 v \<noteq> replicate 8 0 then Inl Panicked
        else borsh_write (ge_SignatoryRecordV1 E) (SignatoryRecordV1.truncate v) info led
      else Inr led)"

definition get_signatory_record_data :: "gov_env \<Rightarrow> pubkey \<Rightarrow> account_info \<Rightarrow> ledger \<Rightarrow> SignatoryRecordV2 res" where
  "get_signatory_record_data E program_id info led =
     attempt (ge_account_type E (info_data led info)) (\<lambda>account_type.
     if account_type = SignatoryRecordV1 then
       attempt (get_account_data (ge_SignatoryRecordV1 E) (\<lambda>v. sr_account_type v = SignatoryRecordV1) program_id info led) (\<lambda>v1.
       Inr (SignatoryRecordV1.extend v1 (SignatoryRecordV2.fields (replicate 8 0))))
     else get_account_data (ge_SignatoryRecordV2 E) (\<lambda>v. sr_account_type v = SignatoryRecordV2) program_id info led)"

definition get_signatory_record_data_for_seeds ::
    "gov_env \<Rightarrow> pubkey \<Rightarrow> account_info \<Rightarrow> pubkey \<Rightarrow> pubkey \<Rightarrow> ledger \<Rightarrow> SignatoryRecordV2 res" where
  "get_signatory_record_data_for_seeds E program_id info proposal signatory led =
     (if fst (rt_find_program_address (ge_runtime E) (get_signatory_record_address_seeds proposal signatory) program_id) \<noteq> ai_key info
      then Inl InvalidSignatoryAddress
      else get_signatory_record_data E program_id info led)"

end
