(* ===== verification/Governance_Records.thy ===== *)
theory Governance_Records
  imports Governance_Accounts
begin

text \<open>
  The accounts of a proposal, of its transactions and of the votes on it, the token accounts and
  programs the governance program looks at, and the voter weights that add-in programs provide
  (\<^verbatim>\<open>state/proposal.rs\<close>, \<^verbatim>\<open>proposal_transaction.rs\<close>, \<^verbatim>\<open>vote_record.rs\<close>,
  \<^verbatim>\<open>tools\<close>, \<^verbatim>\<open>addins\<close>).
\<close>

section \<open>Proposals\<close>

definition ProposalV1_of :: "ProposalV2 \<Rightarrow> ProposalOption \<Rightarrow> u64 \<Rightarrow> ProposalV1" where
  "ProposalV1_of p yes deny =
     \<lparr>p1_account_type = pr_account_type p, p1_governance = pr_governance p,
      p1_governing_token_mint = pr_governing_token_mint p, p1_state = pr_state p,
      p1_token_owner_record = pr_token_owner_record p, p1_signatories_count = pr_signatories_count p,
      p1_signatories_signed_off_count = pr_signatories_signed_off_count p,
      p1_yes_votes_count = po_vote_weight yes, p1_no_votes_count = deny,
      p1_instructions_executed_count = po_transactions_executed_count yes,
      p1_instructions_count = po_transactions_count yes, p1_instructions_next_index = po_transactions_next_index yes,
      p1_draft_at = pr_draft_at p, p1_signing_off_at = pr_signing_off_at p, p1_voting_at = pr_voting_at p,
      p1_voting_at_slot = pr_voting_at_slot p, p1_voting_completed_at = pr_voting_completed_at p,
      p1_executing_at = pr_executing_at p, p1_closed_at = pr_closed_at p,
      p1_execution_flags = pr_execution_flags p, p1_max_vote_weight = pr_max_vote_weight p,
      p1_vote_threshold = pr_vote_threshold p, p1_name = pr_name p, p1_description_link = pr_description_link p\<rparr>"

definition ProposalV2_serialize :: "gov_env \<Rightarrow> ProposalV2 \<Rightarrow> account_info \<Rightarrow> ledger \<Rightarrow> ledger res" where
  "ProposalV2_serialize E p info led =
     (if pr_account_type p = ProposalV2 then borsh_write (ge_ProposalV2 E) p info led
      else if pr_account_type p = ProposalV1 then
        if pr_abstain_vote_weight p \<noteq> None then Inl Panicked
        else if pr_veto_vote_weight p > 0 then Inl Panicked
        else if pr_start_voting_at p \<noteq> None then Inl Panicked
        else if pr_max_voting_time p \<noteq> None then Inl Panicked
        else
          (case pr_options p of
             [yes] \<Rightarrow>
               (case pr_deny_vote_weight p of
                  Some deny \<Rightarrow> borsh_write (ge_ProposalV1 E) (ProposalV1_of p yes deny) info led
                | None \<Rightarrow> Inl Panicked)
           | _ \<Rightarrow> Inl Panicked)
      else Inr led)"

definition vote_result_of_state :: "ProposalState \<Rightarrow> OptionVoteResult" where
  "vote_result_of_state s = (if s \<in> {Succeeded, Executing, ExecutingWithErrors, Completed} then OptionSucceeded else OptionNone)"

definition ProposalV2_of :: "ProposalV1 \<Rightarrow> ProposalV2" where
  "ProposalV2_of v =
     \<lparr>pr_account_type = p1_account_type v, pr_governance = p1_governance v,
      pr_governing_token_mint = p1_governing_token_mint v, pr_state = p1_state v,
      pr_token_owner_record = p1_token_owner_record v, pr_signatories_count = p1_signatories_count v,
      pr_signatories_signed_off_count = p1_signatories_signed_off_count v, pr_vote_type = SingleChoice,
      pr_options = [\<lparr>po_label = map of_char ''Yes'', po_vote_weight = p1_yes_votes_count v,
        po_vote_result = vote_result_of_state (p1_state v),
        po_transactions_executed_count = p1_instructions_executed_count v,
        po_transactions_count = p1_instructions_count v, po_transactions_next_index = p1_instructions_next_index v\<rparr>],
      pr_deny_vote_weight = Some (p1_no_votes_count v), pr_reserved1 = 0, pr_abstain_vote_weight = None,
      pr_start_voting_at = None, pr_draft_at = p1_draft_at v, pr_signing_off_at = p1_signing_off_at v,
      pr_voting_at = p1_voting_at v, pr_voting_at_slot = p1_voting_at_slot v,
      pr_voting_completed_at = p1_voting_completed_at v, pr_executing_at = p1_executing_at v,
      pr_closed_at = p1_closed_at v, pr_execution_flags = p1_execution_flags v,
      pr_max_vote_weight = p1_max_vote_weight v, pr_max_voting_time = None, pr_vote_threshold = p1_vote_threshold v,
      pr_reserved = replicate 64 0, pr_name = p1_name v, pr_description_link = p1_description_link v,
      pr_veto_vote_weight = 0\<rparr>"

definition get_proposal_data :: "gov_env \<Rightarrow> pubkey \<Rightarrow> account_info \<Rightarrow> ledger \<Rightarrow> ProposalV2 res" where
  "get_proposal_data E program_id info led =
     attempt (ge_account_type E (info_data led info)) (\<lambda>account_type.
     if account_type = ProposalV1 then
       attempt (get_account_data (ge_ProposalV1 E) (\<lambda>v. p1_account_type v = ProposalV1) program_id info led) (\<lambda>v1.
       Inr (ProposalV2_of v1))
     else get_account_data (ge_ProposalV2 E) (\<lambda>v. pr_account_type v = ProposalV2) program_id info led)"

definition get_proposal_data_for_governance ::
    "gov_env \<Rightarrow> pubkey \<Rightarrow> account_info \<Rightarrow> pubkey \<Rightarrow> ledger \<Rightarrow> ProposalV2 res" where
  "get_proposal_data_for_governance E program_id info governance led =
     attempt (get_proposal_data E program_id info led) (\<lambda>p.
     if pr_governance p \<noteq> governance then Inl InvalidGovernanceForProposal else Inr p)"

definition get_proposal_data_for_governance_and_governing_mint ::
    "gov_env \<Rightarrow> pubkey \<Rightarrow> account_info \<Rightarrow> pubkey \<Rightarrow> pubkey \<Rightarrow> ledger \<Rightarrow> ProposalV2 res" where
  "get_proposal_data_for_governance_and_governing_mint E program_id info governance mint led =
     attempt (get_proposal_data_for_governance E program_id info governance led) (\<lambda>p.
     if pr_governing_token_mint p \<noteq> mint then Inl InvalidGoverningMintForProposal else Inr p)"

section \<open>Transactions\<close>

definition ProposalTransactionV2_serialize :: "gov_env \<Rightarrow> ProposalTransactionV2 \<Rightarrow> account_info \<Rightarrow> ledger \<Rightarrow> ledger res" where
  "ProposalTransactionV2_serialize E tx info led =
     (if pt_account_type tx = ProposalTransactionV2 then borsh_write (ge_ProposalTransactionV2 E) tx info led
      else if pt_account_type tx = ProposalInstructionV1 then
        (case pt_instructions tx of
           [instruction] \<Rightarrow>
             if pt_reserved_v2 tx \<noteq> replicate 8 0 then Inl Panicked
             else borsh_write (ge_ProposalInstructionV1 E)
               \<lparr>pi_account_type = pt_account_type tx, pi_proposal = pt_proposal tx,
                pi_instruction_index = pt_transaction_index tx, pi_hold_up_time = pt_hold_up_time tx,
                pi_instruction = instruction, pi_executed_at = pt_executed_at tx,
                pi_execution_status = pt_execution_status tx\<rparr> info led
         | _ \<Rightarrow> Inl Panicked)
      else Inr led)"

definition get_proposal_transaction_data :: "gov_env \<Rightarrow> pubkey \<Rightarrow> account_info \<Rightarrow> ledger \<Rightarrow> ProposalTransactionV2 res" where
  "get_proposal_transaction_data E program_id info led =
     attempt (ge_account_type E (info_data led info)) (\<lambda>account_type.
     if account_type = ProposalInstructionV1 then
       attempt (get_account_data (ge_ProposalInstructionV1 E) (\<lambda>v. pi_account_type v = ProposalInstructionV1) program_id info led) (\<lambda>v1.
       Inr \<lparr>pt_account_type = account_type, pt_proposal = pi_proposal v1, pt_option_index = 0,
            pt_transaction_index = pi_instruction_index v1, pt_hold_up_time = pi_hold_up_time v1,
            pt_instructions = [pi_instruction v1], pt_executed_at = pi_executed_at v1,
            pt_execution_status = pi_execution_status v1, pt_reserved_v2 = replicate 8 0\<rparr>)
     else get_account_data (ge_ProposalTransactionV2 E) (\<lambda>v. pt_account_type v = ProposalTransactionV2) program_id info led)"

definition get_proposal_transaction_data_for_proposal ::
    "gov_env \<Rightarrow> pubkey \<Rightarrow> account_info \<Rightarrow> pubkey \<Rightarrow> ledger \<Rightarrow> ProposalTransactionV2 res" where
  "get_proposal_transaction_data_for_proposal E program_id info proposal led =
     attempt (get_proposal_transaction_data E program_id info led) (\<lambda>tx.
     if pt_proposal tx \<noteq> proposal then Inl InvalidProposalForProposalTransaction else Inr tx)"

section \<open>Votes\<close>

definition VoteRecordV2_serialize :: "gov_env \<Rightarrow> VoteRecordV2 \<Rightarrow> account_info \<Rightarrow> ledger \<Rightarrow> ledger res" where
  "VoteRecordV2_serialize E v info led =
     (if vr_account_type v = VoteRecordV2 then borsh_write (ge_VoteRecordV2 E) v info led
      else if vr_account_type v = VoteRecordV1 then
        if vr_reserved_v2 v \<noteq> replicate 8 0 then Inl Panicked
        else
          attempt
            (case vr_vote v of
               VoteApprove _ \<Rightarrow> Inr (Yes (vr_voter_weight v))
             | VoteDeny \<Rightarrow> Inr (No (vr_voter_weight v))
             | _ \<Rightarrow> Inl Panicked) (\<lambda>vote_weight.
          borsh_write (ge_VoteRecordV1 E)
            \<lparr>vr1_account_type = vr_account_type v, vr1_proposal = vr_proposal v,
             vr1_governing_token_owner = vr_governing_token_owner v, vr1_is_relinquished = vr_is_relinquished v,
             vr1_vote_weight = vote_weight\<rparr> info led)
      else Inr led)"

definition VoteRecordV2_of :: "VoteRecordV1 \<Rightarrow> VoteRecordV2" where
  "VoteRecordV2_of v1 =
     \<lparr>vr_account_type = vr1_account_type v1, vr_proposal = vr1_proposal v1,
      vr_governing_token_owner = vr1_governing_token_owner v1, vr_is_relinquished = vr1_is_relinquished v1,
      vr_voter_weight = (case vr1_vote_weight v1 of Yes weight \<Rightarrow> weight | No weight \<Rightarrow> weight),
      vr_vote = (case vr1_vote_weight v1 of
          Yes _ \<Rightarrow> VoteApprove [\<lparr>vc_rank = 0, vc_weight_percentage = 100\<rparr>] | No _ \<Rightarrow> VoteDeny),
      vr_reserved_v2 = replicate 8 0\<rparr>"

definition get_vote_record_data :: "gov_env \<Rightarrow> pubkey \<Rightarrow> account_info \<Rightarrow> ledger \<Rightarrow> VoteRecordV2 res" where
  "get_vote_record_data E program_id info led =
     attempt (ge_account_type E (info_data led info)) (\<lambda>account_type.
     if account_type = VoteRecordV1 then
       attempt (get_account_data (ge_VoteRecordV1 E) (\<lambda>v. vr1_account_type v = VoteRecordV1) program_id info led) (\<lambda>v1.
       Inr (VoteRecordV2_of v1))
     else get_account_data (ge_VoteRecordV2 E) (\<lambda>v. vr_account_type v = VoteRecordV2) program_id info led)"

definition get_vote_record_data_for_proposal_and_token_owner_record ::
    "gov_env \<Rightarrow> pubkey \<Rightarrow> account_info \<Rightarrow> RealmV2 \<Rightarrow> pubkey \<Rightarrow> ProposalV2 \<Rightarrow> TokenOwnerRecordV2 \<Rightarrow> ledger \<Rightarrow> VoteRecordV2 res" where
  "get_vote_record_data_for_proposal_and_token_owner_record E program_id info realm proposal p tor led =
     attempt (get_vote_record_data E program_id info led) (\<lambda>v.
     if vr_proposal v \<noteq> proposal then Inl InvalidProposalForVoterRecord
     else if vr_governing_token_owner v \<noteq> to_governing_token_owner tor then Inl InvalidGoverningTokenOwnerForVoteRecord
     else
       attempt (get_proposal_governing_token_mint_for_vote realm (to_governing_token_mint tor) (get_vote_kind (vr_vote v))) (\<lambda>mint.
       if pr_governing_token_mint p \<noteq> mint then Inl InvalidGoverningMintForProposal else Inr v))"

section \<open>Program metadata\<close>

definition get_program_metadata_data :: "gov_env \<Rightarrow> pubkey \<Rightarrow> account_info \<Rightarrow> ledger \<Rightarrow> ProgramMetadata res" where
  "get_program_metadata_data E program_id info led =
     get_account_data (ge_ProgramMetadata E) (\<lambda>v. pm_account_type v = ProgramMetadataType) program_id info led"

section \<open>Token accounts\<close>

definition assert_is_valid_spl_token_account :: "gov_env \<Rightarrow> account_info \<Rightarrow> ledger \<Rightarrow> unit res" where
  "assert_is_valid_spl_token_account E info led =
     (if info_data led info = [] then Inl SplTokenAccountDoesNotExist
      else if info_owner led info \<noteq> token_program_id (ge_runtime E) then Inl SplTokenAccountWithInvalidOwner
      else if length (info_data led info) \<noteq> ACCOUNT_LEN then Inl SplTokenInvalidTokenAccountData
      else if subslice 108 1 (info_data led info) = [0] then Inl SplTokenAccountNotInitialized
      else Inr ())"

definition assert_is_valid_spl_token_mint :: "gov_env \<Rightarrow> account_info \<Rightarrow> ledger \<Rightarrow> unit res" where
  "assert_is_valid_spl_token_mint E info led =
     (if info_data led info = [] then Inl SplTokenMintDoesNotExist
      else if info_owner led info \<noteq> token_program_id (ge_runtime E) then Inl SplTokenMintWithInvalidOwner
      else if length (info_data led info) \<noteq> MINT_LEN then Inl SplTokenInvalidMintAccountData
      else if subslice 45 1 (info_data led info) = [0] then Inl SplTokenMintNotInitialized
      else Inr ())"

definition get_spl_token_mint :: "gov_env \<Rightarrow> account_info \<Rightarrow> ledger \<Rightarrow> pubkey res" where
  "get_spl_token_mint E info led =
     attempt (assert_is_valid_spl_token_account E info led) (\<lambda>_. Inr (from_le_bytes (subslice 0 32 (info_data led info))))"

definition get_spl_token_owner :: "gov_env \<Rightarrow> account_info \<Rightarrow> ledger \<Rightarrow> pubkey res" where
  "get_spl_token_owner E info led =
     attempt (assert_is_valid_spl_token_account E info led) (\<lambda>_. Inr (from_le_bytes (subslice 32 32 (info_data led info))))"

definition get_spl_token_mint_supply :: "gov_env \<Rightarrow> account_info \<Rightarrow> ledger \<Rightarrow> u64 res" where
  "get_spl_token_mint_supply E info led =
     attempt (assert_is_valid_spl_token_mint E info led) (\<lambda>_. Inr (from_le_bytes (subslice 36 8 (info_data led info))))"

definition unpack_coption_pubkey :: "bytes \<Rightarrow> pubkey option res" where
  "unpack_coption_pubkey src =
     (if subslice 0 4 src = [0, 0, 0, 0] then Inr None
      else if subslice 0 4 src = [1, 0, 0, 0] then Inr (Some (from_le_bytes (subslice 4 32 src)))
      else Inl InvalidAccountData)"

definition get_spl_token_mint_authority :: "gov_env \<Rightarrow> account_info \<Rightarrow> ledger \<Rightarrow> pubkey option res" where
  "get_spl_token_mint_authority E info led =
     attempt (assert_is_valid_spl_token_mint E info led) (\<lambda>_. unpack_coption_pubkey (subslice 0 36 (info_data led info)))"

definition assert_spl_token_mint_authority_is_signer ::
    "gov_env \<Rightarrow> account_info \<Rightarrow> account_info \<Rightarrow> ledger \<Rightarrow> unit res" where
  "assert_spl_token_mint_authority_is_signer E mint_info authority_info led =
     attempt (get_spl_token_mint_authority E mint_info led) (\<lambda>mint_authority.
     case mint_authority of
       None \<Rightarrow> Inl MintHasNoAuthority
     | Some authority \<Rightarrow>
         if authority \<noteq> ai_key authority_info then Inl InvalidMintAuthority
         else if \<not> ai_is_signer authority_info then Inl MintAuthorityMustSign
         else Inr ())"

definition assert_spl_token_owner_is_signer :: "gov_env \<Rightarrow> account_info \<Rightarrow> account_info \<Rightarrow> ledger \<Rightarrow> unit res" where
  "assert_spl_token_owner_is_signer E token_info owner_info led =
     attempt (get_spl_token_owner E token_info led) (\<lambda>owner.
     if owner \<noteq> ai_key owner_info then Inl InvalidTokenOwner_gov
     else if \<not> ai_is_signer owner_info then Inl TokenOwnerMustSign
     else Inr ())"

definition create_spl_token_account_signed ::
    "gov_env \<Rightarrow> account_info \<Rightarrow> account_info \<Rightarrow> bytes list \<Rightarrow> account_info \<Rightarrow> account_info \<Rightarrow> pubkey \<Rightarrow> account_info \<Rightarrow>
      account_info \<Rightarrow> account_info \<Rightarrow> rent \<Rightarrow> ledger \<Rightarrow> ledger res" where
  "create_spl_token_account_signed E payer token_account seeds mint owner program_id system spl_token rent_sysvar rent led =
     (let R = ge_runtime E; (account_address, bump_seed) = rt_find_program_address R seeds program_id in
      if account_address \<noteq> ai_key token_account then Inl InvalidSeeds
      else
        attempt (rt_invoke_signed R program_id
          (ge_system_create_account E (ai_key payer) (ai_key token_account) (max 1 (rent_minimum_balance rent ACCOUNT_LEN))
            (of_nat ACCOUNT_LEN) (token_program_id R))
          [payer, token_account, system] [seeds @ [[bump_seed]]] led) (\<lambda>led1.
        attempt (initialize_account R (token_program_id R) (ai_key token_account) (ai_key mint) (ai_key owner)) (\<lambda>ix.
        rt_invoke_signed R program_id ix [payer, token_account, owner, mint, spl_token, rent_sysvar] [] led1)))"

definition transfer_spl_tokens ::
    "gov_env \<Rightarrow> pubkey \<Rightarrow> account_info \<Rightarrow> account_info \<Rightarrow> account_info \<Rightarrow> u64 \<Rightarrow> account_info \<Rightarrow> ledger \<Rightarrow> ledger res" where
  "transfer_spl_tokens E program_id src dst authority amt spl_token led =
     (let R = ge_runtime E in
      attempt (map_err (\<lambda>_. Panicked) (transfer R (token_program_id R) (ai_key src) (ai_key dst) (ai_key authority) [] amt)) (\<lambda>ix.
      rt_invoke_signed R program_id ix [spl_token, authority, src, dst] [] led))"

definition transfer_spl_tokens_signed ::
    "gov_env \<Rightarrow> account_info \<Rightarrow> account_info \<Rightarrow> account_info \<Rightarrow> bytes list \<Rightarrow> pubkey \<Rightarrow> u64 \<Rightarrow> account_info \<Rightarrow> ledger \<Rightarrow> ledger res" where
  "transfer_spl_tokens_signed E src dst authority seeds program_id amt spl_token led =
     (let R = ge_runtime E; (authority_address, bump_seed) = rt_find_program_address R seeds program_id in
      if authority_address \<noteq> ai_key authority then Inl InvalidSeeds
      else
        attempt (map_err (\<lambda>_. Panicked) (transfer R (token_program_id R) (ai_key src) (ai_key dst) (ai_key authority) [] amt)) (\<lambda>ix.
        rt_invoke_signed R program_id ix [spl_token, authority, src, dst] [seeds @ [[bump_seed]]] led))"

definition set_spl_token_account_authority ::
    "gov_env \<Rightarrow> pubkey \<Rightarrow> account_info \<Rightarrow> account_info \<Rightarrow> pubkey \<Rightarrow> AuthorityType \<Rightarrow> account_info \<Rightarrow> ledger \<Rightarrow> ledger res" where
  "set_spl_token_account_authority E program_id info authority new_authority authority_type spl_token led =
     (let R = ge_runtime E in
      attempt (set_authority R (token_program_id R) (ai_key info) (Some new_authority) authority_type (ai_key authority) []) (\<lambda>ix.
      rt_invoke_signed R program_id ix [info, authority, spl_token] [] led))"

section \<open>Upgradeable programs\<close>

definition get_program_data_address :: "gov_env \<Rightarrow> pubkey \<Rightarrow> pubkey" where
  "get_program_data_address E program = fst (rt_find_program_address (ge_runtime E) [to_le_bytes program] (ge_loader_id E))"

definition set_program_upgrade_authority ::
    "gov_env \<Rightarrow> pubkey \<Rightarrow> pubkey \<Rightarrow> account_info \<Rightarrow> account_info \<Rightarrow> account_info \<Rightarrow> account_info \<Rightarrow> ledger \<Rightarrow> ledger res" where
  "set_program_upgrade_authority E program_id program program_data authority new_authority loader led =
     rt_invoke_signed (ge_runtime E) program_id
       (ge_loader_set_upgrade_authority E program (ai_key authority) (Some (ai_key new_authority)))
       [program_data, authority, loader, new_authority] [] led"

definition assert_program_upgrade_authority_is_signer ::
    "gov_env \<Rightarrow> pubkey \<Rightarrow> account_info \<Rightarrow> account_info \<Rightarrow> ledger \<Rightarrow> unit res" where
  "assert_program_upgrade_authority_is_signer E program program_data authority_info led =
     (if info_owner led program_data \<noteq> ge_loader_id E then Inl IncorrectProgramId
      else if get_program_data_address E program \<noteq> ai_key program_data then Inl InvalidProgramDataAccountAddress
      else
        attempt (ok_or (ge_loader_state E (info_data led program_data)) InvalidProgramDataAccountData) (\<lambda>state.
        attempt (ok_or (case state of Some authority \<Rightarrow> authority | None \<Rightarrow> None) ProgramNotUpgradable) (\<lambda>upgrade_authority.
        if upgrade_authority \<noteq> ai_key authority_info then Inl InvalidUpgradeAuthority
        else if \<not> ai_is_signer authority_info then Inl UpgradeAuthorityMustSign
        else Inr ())))"

section \<open>Voter weights\<close>

definition assert_is_valid_voter_weight ::
    "gov_env \<Rightarrow> VoterWeightRecord \<Rightarrow> VoterWeightAction \<Rightarrow> pubkey \<Rightarrow> unit res" where
  "assert_is_valid_voter_weight E r action target =
     attempt
       (case vw_voter_weight_expiry r of
          None \<Rightarrow> Inr ()
        | Some expiry \<Rightarrow>
            attempt (rt_clock_get (ge_runtime E)) (\<lambda>clock.
            if clock_slot clock > expiry then Inl VoterWeightRecordExpired else Inr ())) (\<lambda>_.
     if vw_weight_action r \<noteq> None \<and> vw_weight_action r \<noteq> Some action then Inl VoterWeightRecordInvalidAction
     else if vw_weight_action_target r \<noteq> None \<and> vw_weight_action_target r \<noteq> Some target
     then Inl VoterWeightRecordInvalidActionTarget
     else Inr ())"

definition get_voter_weight_record_data_for_token_owner_record ::
    "gov_env \<Rightarrow> pubkey \<Rightarrow> account_info \<Rightarrow> TokenOwnerRecordV2 \<Rightarrow> ledger \<Rightarrow> VoterWeightRecord res" where
  "get_voter_weight_record_data_for_token_owner_record E addin info tor led =
     attempt (get_account_data (ge_VoterWeightRecord E) VoterWeightRecord_is_initialized addin info led) (\<lambda>r.
     if vw_realm r \<noteq> to_realm tor then Inl InvalidVoterWeightRecordForRealm
     else if vw_governing_token_mint r \<noteq> to_governing_token_mint tor then Inl InvalidVoterWeightRecordForGoverningTokenMint
     else if vw_governing_token_owner r \<noteq> to_governing_token_owner tor then Inl InvalidVoterWeightRecordForTokenOwner
     else Inr r)"

definition assert_is_valid_max_voter_weight :: "gov_env \<Rightarrow> MaxVoterWeightRecord \<Rightarrow> unit res" where
  "assert_is_valid_max_voter_weight E r =
     (case mw_max_voter_weight_expiry r of
        None \<Rightarrow> Inr ()
      | Some expiry \<Rightarrow>
          attempt (rt_clock_get (ge_runtime E)) (\<lambda>clock.
          if clock_slot clock > expiry then Inl MaxVoterWeightRecordExpired else Inr ()))"

definition get_max_voter_weight_record_data_for_realm_and_governing_token_mint ::
    "gov_env \<Rightarrow> pubkey \<Rightarrow> account_info \<Rightarrow> pubkey \<Rightarrow> pubkey \<Rightarrow> ledger \<Rightarrow> MaxVoterWeightRecord res" where
  "get_max_voter_weight_record_data_for_realm_and_governing_token_mint E addin info realm mint led =
     attempt (get_account_data (ge_MaxVoterWeightRecord E) MaxVoterWeightRecord_is_initialized addin info led) (\<lambda>r.
     if mw_realm r \<noteq> realm then Inl InvalidMaxVoterWeightRecordForRealm
     else if mw_governing_token_mint r \<noteq> mint then Inl InvalidMaxVoterWeightRecordForGoverningTokenMint
     else Inr r)"

text \<open>Both resolvers take what is left of the account infos and return what they leave of it.\<close>

definition resolve_voter_weight ::
    "gov_env \<Rightarrow> TokenOwnerRecordV2 \<Rightarrow> pubkey \<Rightarrow> account_info \<Rightarrow> account_info list \<Rightarrow> pubkey \<Rightarrow> RealmV2 \<Rightarrow>
      VoterWeightAction \<Rightarrow> pubkey \<Rightarrow> ledger \<Rightarrow> (u64 \<times> account_info list) res" where
  "resolve_voter_weight E tor program_id realm_config_info it realm realm_data action target led =
     (if rc_use_community_voter_weight_addin (rl_config realm_data) \<and> rl_community_mint realm_data = to_governing_token_mint tor
      then
        attempt (next_account_info it) (\<lambda>(voter_weight_record_info, it).
        attempt (get_realm_config_data_for_realm E program_id realm_config_info realm led) (\<lambda>realm_config.
        attempt (ok_or (rca_community_voter_weight_addin realm_config) Panicked) (\<lambda>addin.
        attempt (get_voter_weight_record_data_for_token_owner_record E addin voter_weight_record_info tor led) (\<lambda>r.
        attempt (assert_is_valid_voter_weight E r action target) (\<lambda>_.
        Inr (vw_voter_weight r, it))))))
      else Inr (to_governing_token_deposit_amount tor, it))"

definition resolve_max_voter_weight ::
    "gov_env \<Rightarrow> ProposalV2 \<Rightarrow> pubkey \<Rightarrow> account_info \<Rightarrow> account_info \<Rightarrow> account_info list \<Rightarrow> pubkey \<Rightarrow> RealmV2 \<Rightarrow>
      VoteKind \<Rightarrow> ledger \<Rightarrow> (u64 \<times> account_info list) res" where
  "resolve_max_voter_weight E p program_id realm_config_info mint_info it realm realm_data kind led =
     (if rc_use_max_community_voter_weight_addin (rl_config realm_data) \<and> rl_community_mint realm_data = ai_key mint_info
      then
        attempt (get_realm_config_data_for_realm E program_id realm_config_info realm led) (\<lambda>realm_config.
        attempt (next_account_info it) (\<lambda>(max_voter_weight_record_info, it).
        attempt (ok_or (rca_max_community_voter_weight_addin realm_config) Panicked) (\<lambda>addin.
        attempt (get_max_voter_weight_record_data_for_realm_and_governing_token_mint E addin max_voter_weight_record_info
          realm (ai_key mint_info) led) (\<lambda>r.
        attempt (assert_is_valid_max_voter_weight E r) (\<lambda>_.
        attempt (coerce_max_voter_weight p (mw_max_voter_weight r) kind) (\<lambda>weight.
        Inr (weight, it)))))))
      else
        attempt (get_spl_token_mint_supply E mint_info led) (\<lambda>supply.
        attempt (get_max_voter_weight_from_mint_supply p realm_data (ai_key mint_info) supply kind) (\<lambda>weight.
        Inr (weight, it))))"

definition assert_create_authority_can_create_governance ::
    "gov_env \<Rightarrow> RealmV2 \<Rightarrow> pubkey \<Rightarrow> pubkey \<Rightarrow> account_info \<Rightarrow> account_info \<Rightarrow> account_info list \<Rightarrow> ledger \<Rightarrow> unit res" where
  "assert_create_authority_can_create_governance E realm_data program_id realm tor_info authority_info it led =
     (if rl_authority realm_data = Some (ai_key authority_info) then
        (if \<not> ai_is_signer authority_info then Inl RealmAuthorityMustSign else Inr ())
      else
        attempt (get_token_owner_record_data_for_realm E program_id tor_info realm led) (\<lambda>tor.
        attempt (assert_token_owner_or_delegate_is_signer tor authority_info) (\<lambda>_.
        attempt (next_account_info it) (\<lambda>(realm_config_info, it).
        attempt (resolve_voter_weight E tor program_id realm_config_info it realm realm_data ActionCreateGovernance realm led)
          (\<lambda>(voter_weight, _).
        assert_can_create_governance tor realm_data voter_weight)))))"

end
