(* ===== verification/Governance_Processor.thy ===== *)
theory Governance_Processor
  imports Governance_Records
begin

text \<open>
  The handlers of the governance program (\<^verbatim>\<open>governance/program/src/processor\<close>), one definition per
  \<^verbatim>\<open>process_*.rs\<close>, and the dispatch of \<^verbatim>\<open>mod.rs\<close>.  A handler takes the account infos and the
  ledger and returns the ledger it leaves; the checks and writes are in the order of the source.
  Logging is not modelled.
\<close>

section \<open>Realms and token owner records\<close>

definition process_create_realm ::
    "gov_env \<Rightarrow> pubkey \<Rightarrow> account_info list \<Rightarrow> bytes \<Rightarrow> RealmConfigArgs \<Rightarrow> ledger \<Rightarrow> ledger res" where
  "process_create_realm E program_id accounts name args led =
     attempt (next_account_info accounts) (\<lambda>(realm_info, it).
     attempt (next_account_info it) (\<lambda>(realm_authority_info, it).
     attempt (next_account_info it) (\<lambda>(mint_info, it).
     attempt (next_account_info it) (\<lambda>(holding_info, it).
     attempt (next_account_info it) (\<lambda>(payer_info, it).
     attempt (next_account_info it) (\<lambda>(system_info, it).
     attempt (next_account_info it) (\<lambda>(spl_token_info, it).
     attempt (next_account_info it) (\<lambda>(rent_sysvar_info, it).
     attempt (rent_from_info (ge_runtime E) led rent_sysvar_info) (\<lambda>rent.
     if info_data led realm_info \<noteq> [] then Inl RealmAlreadyExists
     else
       attempt (assert_valid_realm_config_args args) (\<lambda>_.
       attempt (create_spl_token_account_signed E payer_info holding_info
         (get_governing_token_holding_address_seeds (ai_key realm_info) (ai_key mint_info)) mint_info realm_info program_id
         system_info spl_token_info rent_sysvar_info rent led) (\<lambda>led.
       attempt
         (if ra_use_council_mint args then
            attempt (next_account_info it) (\<lambda>(council_mint_info, it).
            attempt (next_account_info it) (\<lambda>(council_holding_info, it).
            attempt (create_spl_token_account_signed E payer_info council_holding_info
              (get_governing_token_holding_address_seeds (ai_key realm_info) (ai_key council_mint_info)) council_mint_info
              realm_info program_id system_info spl_token_info rent_sysvar_info rent led) (\<lambda>led.
            Inr (Some (ai_key council_mint_info), it, led))))
          else Inr (None, it, led)) (\<lambda>(council_mint, it, led).
       attempt
         (if ra_use_community_voter_weight_addin args
          then attempt (next_account_info it) (\<lambda>(info, it). Inr (Some (ai_key info), it))
          else Inr (None, it)) (\<lambda>(community_addin, it).
       attempt
         (if ra_use_max_community_voter_weight_addin args
          then attempt (next_account_info it) (\<lambda>(info, it). Inr (Some (ai_key info), it))
          else Inr (None, it)) (\<lambda>(max_community_addin, it).
       attempt
         (if ra_use_community_voter_weight_addin args \<or> ra_use_max_community_voter_weight_addin args then
            attempt (next_account_info it) (\<lambda>(realm_config_info, it).
            create_and_serialize_account_signed E (ge_RealmConfig E) (Some RealmConfigAccount_max_size) payer_info realm_config_info
              \<lparr>rca_account_type = RealmConfigType, rca_realm = ai_key realm_info,
               rca_community_voter_weight_addin = community_addin, rca_max_community_voter_weight_addin = max_community_addin,
               rca_council_voter_weight_addin = None, rca_council_max_vote_weight_addin = None,
               rca_reserved = replicate 128 0\<rparr>
              (get_realm_config_address_seeds (ai_key realm_info)) program_id system_info rent led)
          else Inr led) (\<lambda>led.
       let realm_data =
         \<lparr>rl_account_type = RealmV2, rl_community_mint = ai_key mint_info,
          rl_config = \<lparr>rc_use_community_voter_weight_addin = ra_use_community_voter_weight_addin args,
            rc_use_max_community_voter_weight_addin = ra_use_max_community_voter_weight_addin args,
            rc_reserved = replicate 6 0,
            rc_min_community_weight_to_create_governance = ra_min_community_weight_to_create_governance args,
            rc_community_mint_max_vote_weight_source = ra_community_mint_max_vote_weight_source args,
            rc_council_mint = council_mint\<rparr>,
          rl_reserved = replicate 6 0, rl_voting_proposal_count = 0, rl_authority = Some (ai_key realm_authority_info),
          rl_name = name, rl_reserved_v2 = replicate 128 0\<rparr> in
       create_and_serialize_account_signed E (ge_RealmV2 E) (Some (RealmV2_max_size realm_data)) payer_info realm_info realm_data
         (get_realm_address_seeds name) program_id system_info rent led)))))))))))))))"

definition process_set_realm_authority ::
    "gov_env \<Rightarrow> pubkey \<Rightarrow> account_info list \<Rightarrow> SetRealmAuthorityAction \<Rightarrow> ledger \<Rightarrow> ledger res" where
  "process_set_realm_authority E program_id accounts action led =
     attempt (next_account_info accounts) (\<lambda>(realm_info, it).
     attempt (next_account_info it) (\<lambda>(realm_authority_info, it).
     attempt (get_realm_data_for_authority E program_id realm_info (ai_key realm_authority_info) led) (\<lambda>realm_data.
     if \<not> ai_is_signer realm_authority_info then Inl RealmAuthorityMustSign
     else
       attempt
         (if action = Remove then Inr None
          else
            attempt (next_account_info it) (\<lambda>(new_authority_info, it).
            attempt
              (if action = SetChecked
               then assert_governance_for_realm E program_id new_authority_info (ai_key realm_info) led
               else Inr ()) (\<lambda>_.
            Inr (Some (ai_key new_authority_info))))) (\<lambda>new_authority.
       RealmV2_serialize E (realm_data\<lparr>rl_authority := new_authority\<rparr>) realm_info led))))"

definition process_set_realm_config ::
    "gov_env \<Rightarrow> pubkey \<Rightarrow> account_info list \<Rightarrow> RealmConfigArgs \<Rightarrow> ledger \<Rightarrow> ledger res" where
  "process_set_realm_config E program_id accounts args led =
     attempt (next_account_info accounts) (\<lambda>(realm_info, it).
     attempt (next_account_info it) (\<lambda>(realm_authority_info, it).
     attempt (get_realm_data_for_authority E program_id realm_info (ai_key realm_authority_info) led) (\<lambda>realm_data.
     if \<not> ai_is_signer realm_authority_info then Inl RealmAuthorityMustSign
     else
       attempt (assert_valid_realm_config_args args) (\<lambda>_.
       attempt
         (if ra_use_council_mint args then
            attempt (next_account_info it) (\<lambda>(council_mint_info, it).
            attempt (next_account_info it) (\<lambda>(_, it).
            case rc_council_mint (rl_config realm_data) of
              Some council_mint \<Rightarrow>
                if council_mint \<noteq> ai_key council_mint_info then Inl RealmCouncilMintChangeIsNotSupported
                else Inr (Some council_mint, it)
            | None \<Rightarrow> Inl RealmCouncilMintChangeIsNotSupported))
          else Inr (None, it)) (\<lambda>(council_mint, it).
       attempt (next_account_info it) (\<lambda>(system_info, it).
       attempt (next_account_info it) (\<lambda>(realm_config_info, it).
       attempt
         (if ra_use_community_voter_weight_addin args
          then attempt (next_account_info it) (\<lambda>(info, it). Inr (Some (ai_key info), it))
          else Inr (None, it)) (\<lambda>(community_addin, it).
       attempt
         (if ra_use_max_community_voter_weight_addin args
          then attempt (next_account_info it) (\<lambda>(info, it). Inr (Some (ai_key info), it))
          else Inr (None, it)) (\<lambda>(max_community_addin, it).
       attempt
         (if ra_use_community_voter_weight_addin args \<or> ra_use_max_community_voter_weight_addin args then
            attempt (next_account_info it) (\<lambda>(payer_info, it).
            if info_data led realm_config_info = [] then
              attempt (rt_rent_get (ge_runtime E)) (\<lambda>rent.
              attempt (create_and_serialize_account_signed E (ge_RealmConfig E) (Some RealmConfigAccount_max_size) payer_info
                realm_config_info
                \<lparr>rca_account_type = RealmConfigType, rca_realm = ai_key realm_info,
                 rca_community_voter_weight_addin = community_addin, rca_max_community_voter_weight_addin = max_community_addin,
                 rca_council_voter_weight_addin = None, rca_council_max_vote_weight_addin = None,
                 rca_reserved = replicate 128 0\<rparr>
                (get_realm_config_address_seeds (ai_key realm_info)) program_id system_info rent led) (\<lambda>led.
              Inr (False, led)))
            else Inr (True, led))
          else
            Inr (rc_use_community_voter_weight_addin (rl_config realm_data) \<or>
                 rc_use_max_community_voter_weight_addin (rl_config realm_data), led)) (\<lambda>(update_realm_config, led).
       attempt
         (if update_realm_config then
            attempt (get_realm_config_data_for_realm E program_id realm_config_info (ai_key realm_info) led) (\<lambda>realm_config.
            RealmConfig_serialize E
              (realm_config\<lparr>rca_community_voter_weight_addin := community_addin,
                            rca_max_community_voter_weight_addin := max_community_addin\<rparr>) realm_config_info led)
          else Inr led) (\<lambda>led.
       RealmV2_serialize E
         (realm_data\<lparr>rl_config := (rl_config realm_data)
            \<lparr>rc_council_mint := council_mint,
             rc_community_mint_max_vote_weight_source := ra_community_mint_max_vote_weight_source args,
             rc_min_community_weight_to_create_governance := ra_min_community_weight_to_create_governance args,
             rc_use_community_voter_weight_addin := ra_use_community_voter_weight_addin args,
             rc_use_max_community_voter_weight_addin := ra_use_max_community_voter_weight_addin args\<rparr>\<rparr>)
         realm_info led)))))))))))"

definition new_token_owner_record :: "pubkey \<Rightarrow> pubkey \<Rightarrow> pubkey \<Rightarrow> u64 \<Rightarrow> TokenOwnerRecordV2" where
  "new_token_owner_record realm mint owner amt =
     \<lparr>to_account_type = TokenOwnerRecordV2, to_realm = realm, to_governing_token_mint = mint, to_governing_token_owner = owner,
      to_governing_token_deposit_amount = amt, to_unrelinquished_votes_count = 0, to_total_votes_count = 0,
      to_outstanding_proposal_count = 0, to_reserved = replicate 7 0, to_governance_delegate = None,
      to_reserved_v2 = replicate 128 0\<rparr>"

definition process_create_token_owner_record :: "gov_env \<Rightarrow> pubkey \<Rightarrow> account_info list \<Rightarrow> ledger \<Rightarrow> ledger res" where
  "process_create_token_owner_record E program_id accounts led =
     attempt (next_account_info accounts) (\<lambda>(realm_info, it).
     attempt (next_account_info it) (\<lambda>(owner_info, it).
     attempt (next_account_info it) (\<lambda>(tor_info, it).
     attempt (next_account_info it) (\<lambda>(mint_info, it).
     attempt (next_account_info it) (\<lambda>(payer_info, it).
     attempt (next_account_info it) (\<lambda>(system_info, it).
     attempt (rt_rent_get (ge_runtime E)) (\<lambda>rent.
     attempt (get_realm_data E program_id realm_info led) (\<lambda>realm_data.
     attempt (assert_is_valid_governing_token_mint realm_data (ai_key mint_info)) (\<lambda>_.
     if info_data led tor_info \<noteq> [] then Inl TokenOwnerRecordAlreadyExists
     else
       create_and_serialize_account_signed E (ge_TokenOwnerRecordV2 E) (Some TokenOwnerRecordV2_max_size) payer_info tor_info
         (new_token_owner_record (ai_key realm_info) (ai_key mint_info) (ai_key owner_info) 0)
         (get_token_owner_record_address_seeds (ai_key realm_info) (ai_key mint_info) (ai_key owner_info))
         program_id system_info rent led)))))))))"

definition process_deposit_governing_tokens ::
    "gov_env \<Rightarrow> pubkey \<Rightarrow> account_info list \<Rightarrow> u64 \<Rightarrow> ledger \<Rightarrow> ledger res" where
  "process_deposit_governing_tokens E program_id accounts amt led =
     attempt (next_account_info accounts) (\<lambda>(realm_info, it).
     attempt (next_account_info it) (\<lambda>(holding_info, it).
     attempt (next_account_info it) (\<lambda>(source_info, it).
     attempt (next_account_info it) (\<lambda>(owner_info, it).
     attempt (next_account_info it) (\<lambda>(transfer_authority_info, it).
     attempt (next_account_info it) (\<lambda>(tor_info, it).
     attempt (next_account_info it) (\<lambda>(payer_info, it).
     attempt (next_account_info it) (\<lambda>(system_info, it).
     attempt (next_account_info it) (\<lambda>(spl_token_info, it).
     attempt (rt_rent_get (ge_runtime E)) (\<lambda>rent.
     attempt (get_realm_data E program_id realm_info led) (\<lambda>realm_data.
     attempt (get_spl_token_mint E holding_info led) (\<lambda>mint.
     attempt (asset_governing_tokens_deposits_allowed realm_data mint) (\<lambda>_.
     attempt (assert_is_valid_governing_token_mint_and_holding E realm_data program_id (ai_key realm_info) mint
       (ai_key holding_info)) (\<lambda>_.
     attempt (transfer_spl_tokens E program_id source_info holding_info transfer_authority_info amt spl_token_info led) (\<lambda>led.
     let seeds = get_token_owner_record_address_seeds (ai_key realm_info) mint (ai_key owner_info) in
     if info_data led tor_info = [] then
       attempt (get_spl_token_owner E source_info led) (\<lambda>token_owner.
       if \<not> (token_owner = ai_key owner_info \<and> ai_is_signer owner_info) then Inl GoverningTokenOwnerMustSign
       else
         create_and_serialize_account_signed E (ge_TokenOwnerRecordV2 E) (Some TokenOwnerRecordV2_max_size) payer_info tor_info
           (new_token_owner_record (ai_key realm_info) mint (ai_key owner_info) amt) seeds program_id system_info rent led)
     else
       attempt (get_token_owner_record_data_for_seeds E program_id tor_info seeds led) (\<lambda>tor.
       attempt (ok_or (checked_add (to_governing_token_deposit_amount tor) amt) Panicked) (\<lambda>total.
       TokenOwnerRecordV2_serialize E (tor\<lparr>to_governing_token_deposit_amount := total\<rparr>) tor_info led)))))))))))))))))"

definition process_withdraw_governing_tokens :: "gov_env \<Rightarrow> pubkey \<Rightarrow> account_info list \<Rightarrow> ledger \<Rightarrow> ledger res" where
  "process_withdraw_governing_tokens E program_id accounts led =
     attempt (next_account_info accounts) (\<lambda>(realm_info, it).
     attempt (next_account_info it) (\<lambda>(holding_info, it).
     attempt (next_account_info it) (\<lambda>(destination_info, it).
     attempt (next_account_info it) (\<lambda>(owner_info, it).
     attempt (next_account_info it) (\<lambda>(tor_info, it).
     attempt (next_account_info it) (\<lambda>(spl_token_info, it).
     if \<not> ai_is_signer owner_info then Inl GoverningTokenOwnerMustSign
     else
       attempt (get_realm_data E program_id realm_info led) (\<lambda>realm_data.
       attempt (get_spl_token_mint E holding_info led) (\<lambda>mint.
       attempt (assert_is_valid_governing_token_mint_and_holding E realm_data program_id (ai_key realm_info) mint
         (ai_key holding_info)) (\<lambda>_.
       attempt (get_token_owner_record_data_for_seeds E program_id tor_info
         (get_token_owner_record_address_seeds (ai_key realm_info) mint (ai_key owner_info)) led) (\<lambda>tor.
       attempt (assert_can_withdraw_governing_tokens tor) (\<lambda>_.
       attempt (transfer_spl_tokens_signed E holding_info destination_info realm_info
         (get_realm_address_seeds (rl_name realm_data)) program_id (to_governing_token_deposit_amount tor) spl_token_info led)
         (\<lambda>led.
       TokenOwnerRecordV2_serialize E (tor\<lparr>to_governing_token_deposit_amount := 0\<rparr>) tor_info led))))))))))))"

definition process_set_governance_delegate ::
    "gov_env \<Rightarrow> pubkey \<Rightarrow> account_info list \<Rightarrow> pubkey option \<Rightarrow> ledger \<Rightarrow> ledger res" where
  "process_set_governance_delegate E program_id accounts new_delegate led =
     attempt (next_account_info accounts) (\<lambda>(authority_info, it).
     attempt (next_account_info it) (\<lambda>(tor_info, it).
     attempt (get_token_owner_record_data E program_id tor_info led) (\<lambda>tor.
     attempt (assert_token_owner_or_delegate_is_signer tor authority_info) (\<lambda>_.
     TokenOwnerRecordV2_serialize E (tor\<lparr>to_governance_delegate := new_delegate\<rparr>) tor_info led))))"

section \<open>Governances\<close>

definition new_governance :: "GovernanceAccountType \<Rightarrow> pubkey \<Rightarrow> pubkey \<Rightarrow> GovernanceConfig \<Rightarrow> GovernanceV2" where
  "new_governance account_type realm governed config =
     \<lparr>gv_account_type = account_type, gv_realm = realm, gv_governed_account = governed, gv_proposals_count = 0,
      gv_config = config, gv_reserved = replicate 6 0, gv_voting_proposal_count = 0, gv_reserved_v2 = replicate 128 0\<rparr>"

text \<open>The four handlers that create a governance share their checks and the creation of the account.\<close>

definition create_governance_account ::
    "gov_env \<Rightarrow> pubkey \<Rightarrow> GovernanceAccountType \<Rightarrow> GovernanceConfig \<Rightarrow> bytes list \<Rightarrow> account_info \<Rightarrow> account_info \<Rightarrow>
      account_info \<Rightarrow> account_info \<Rightarrow> account_info \<Rightarrow> account_info \<Rightarrow> account_info list \<Rightarrow> account_info \<Rightarrow> rent \<Rightarrow>
      ledger \<Rightarrow> ledger res" where
  "create_governance_account E program_id account_type config seeds realm_info governance_info governed_info tor_info
     create_authority_info payer_info it system_info rent led =
     attempt (assert_valid_create_governance_args E program_id config realm_info led) (\<lambda>_.
     attempt (get_realm_data E program_id realm_info led) (\<lambda>realm_data.
     attempt (assert_create_authority_can_create_governance E realm_data program_id (ai_key realm_info) tor_info
       create_authority_info it led) (\<lambda>_.
     create_and_serialize_account_signed E (ge_GovernanceV2 E) None payer_info governance_info
       (new_governance account_type (ai_key realm_info) (ai_key governed_info) config) seeds program_id system_info rent led)))"

definition process_create_governance ::
    "gov_env \<Rightarrow> pubkey \<Rightarrow> account_info list \<Rightarrow> GovernanceConfig \<Rightarrow> ledger \<Rightarrow> ledger res" where
  "process_create_governance E program_id accounts config led =
     attempt (next_account_info accounts) (\<lambda>(realm_info, it).
     attempt (next_account_info it) (\<lambda>(governance_info, it).
     attempt (next_account_info it) (\<lambda>(governed_info, it).
     attempt (next_account_info it) (\<lambda>(tor_info, it).
     attempt (next_account_info it) (\<lambda>(payer_info, it).
     attempt (next_account_info it) (\<lambda>(system_info, it).
     attempt (rt_rent_get (ge_runtime E)) (\<lambda>rent.
     attempt (next_account_info it) (\<lambda>(create_authority_info, it).
     create_governance_account E program_id GovernanceV2 config
       (get_governance_address_seeds (ai_key realm_info) (ai_key governed_info)) realm_info governance_info governed_info
       tor_info create_authority_info payer_info it system_info rent led))))))))"

definition process_create_mint_governance ::
    "gov_env \<Rightarrow> pubkey \<Rightarrow> account_info list \<Rightarrow> GovernanceConfig \<Rightarrow> bool \<Rightarrow> ledger \<Rightarrow> ledger res" where
  "process_create_mint_governance E program_id accounts config transfer_mint_authorities led =
     attempt (next_account_info accounts) (\<lambda>(realm_info, it).
     attempt (next_account_info it) (\<lambda>(governance_info, it).
     attempt (next_account_info it) (\<lambda>(mint_info, it).
     attempt (next_account_info it) (\<lambda>(mint_authority_info, it).
     attempt (next_account_info it) (\<lambda>(tor_info, it).
     attempt (next_account_info it) (\<lambda>(payer_info, it).
     attempt (next_account_info it) (\<lambda>(spl_token_info, it).
     attempt (next_account_info it) (\<lambda>(system_info, it).
     attempt (rt_rent_get (ge_runtime E)) (\<lambda>rent.
     attempt (next_account_info it) (\<lambda>(create_authority_info, it).
     attempt (create_governance_account E program_id MintGovernanceV2 config
       (get_mint_governance_address_seeds (ai_key realm_info) (ai_key mint_info)) realm_info governance_info mint_info
       tor_info create_authority_info payer_info it system_info rent led) (\<lambda>led.
     if transfer_mint_authorities then
       attempt (set_spl_token_account_authority E program_id mint_info mint_authority_info (ai_key governance_info)
         MintTokens spl_token_info led) (\<lambda>led.
       attempt (Mint_unpack (info_data led mint_info)) (\<lambda>mint_data.
       if mint_freeze_authority mint_data \<noteq> None
       then set_spl_token_account_authority E program_id mint_info mint_authority_info (ai_key governance_info)
              FreezeAccountAuthority spl_token_info led
       else Inr led))
     else
       attempt (assert_spl_token_mint_authority_is_signer E mint_info mint_authority_info led) (\<lambda>_. Inr led))))))))))))"

definition process_create_token_governance ::
    "gov_env \<Rightarrow> pubkey \<Rightarrow> account_info list \<Rightarrow> GovernanceConfig \<Rightarrow> bool \<Rightarrow> ledger \<Rightarrow> ledger res" where
  "process_create_token_governance E program_id accounts config transfer_account_authorities led =
     attempt (next_account_info accounts) (\<lambda>(realm_info, it).
     attempt (next_account_info it) (\<lambda>(governance_info, it).
     attempt (next_account_info it) (\<lambda>(token_info, it).
     attempt (next_account_info it) (\<lambda>(token_owner_info, it).
     attempt (next_account_info it) (\<lambda>(tor_info, it).
     attempt (next_account_info it) (\<lambda>(payer_info, it).
     attempt (next_account_info it) (\<lambda>(spl_token_info, it).
     attempt (next_account_info it) (\<lambda>(system_info, it).
     attempt (rt_rent_get (ge_runtime E)) (\<lambda>rent.
     attempt (next_account_info it) (\<lambda>(create_authority_info, it).
     attempt (create_governance_account E program_id TokenGovernanceV2 config
       (get_token_governance_address_seeds (ai_key realm_info) (ai_key token_info)) realm_info governance_info token_info
       tor_info create_authority_info payer_info it system_info rent led) (\<lambda>led.
     if transfer_account_authorities then
       attempt (set_spl_token_account_authority E program_id token_info token_owner_info (ai_key governance_info)
         AccountOwner spl_token_info led) (\<lambda>led.
       attempt (Account_unpack (info_data led token_info)) (\<lambda>token_data.
       if ta_close_authority token_data \<noteq> None
       then set_spl_token_account_authority E program_id token_info token_owner_info (ai_key governance_info)
              CloseAccountAuthority spl_token_info led
       else Inr led))
     else
       attempt (assert_spl_token_owner_is_signer E token_info token_owner_info led) (\<lambda>_. Inr led))))))))))))"

definition process_create_program_governance ::
    "gov_env \<Rightarrow> pubkey \<Rightarrow> account_info list \<Rightarrow> GovernanceConfig \<Rightarrow> bool \<Rightarrow> ledger \<Rightarrow> ledger res" where
  "process_create_program_governance E program_id accounts config transfer_upgrade_authority led =
     attempt (next_account_info accounts) (\<lambda>(realm_info, it).
     attempt (next_account_info it) (\<lambda>(governance_info, it).
     attempt (next_account_info it) (\<lambda>(program_info, it).
     attempt (next_account_info it) (\<lambda>(program_data_info, it).
     attempt (next_account_info it) (\<lambda>(upgrade_authority_info, it).
     attempt (next_account_info it) (\<lambda>(tor_info, it).
     attempt (next_account_info it) (\<lambda>(payer_info, it).
     attempt (next_account_info it) (\<lambda>(loader_info, it).
     attempt (next_account_info it) (\<lambda>(system_info, it).
     attempt (rt_rent_get (ge_runtime E)) (\<lambda>rent.
     attempt (next_account_info it) (\<lambda>(create_authority_info, it).
     attempt (create_governance_account E program_id ProgramGovernanceV2 config
       (get_program_governance_address_seeds (ai_key realm_info) (ai_key program_info)) realm_info governance_info program_info
       tor_info create_authority_info payer_info it system_info rent led) (\<lambda>led.
     if transfer_upgrade_authority then
       set_program_upgrade_authority E program_id (ai_key program_info) program_data_info upgrade_authority_info
         governance_info loader_info led
     else
       attempt (assert_program_upgrade_authority_is_signer E (ai_key program_info) program_data_info upgrade_authority_info led)
         (\<lambda>_. Inr led)))))))))))))"

definition process_create_native_treasury :: "gov_env \<Rightarrow> pubkey \<Rightarrow> account_info list \<Rightarrow> ledger \<Rightarrow> ledger res" where
  "process_create_native_treasury E program_id accounts led =
     attempt (next_account_info accounts) (\<lambda>(governance_info, it).
     attempt (next_account_info it) (\<lambda>(native_treasury_info, it).
     attempt (next_account_info it) (\<lambda>(payer_info, it).
     attempt (next_account_info it) (\<lambda>(system_info, it).
     attempt (rt_rent_get (ge_runtime E)) (\<lambda>rent.
     attempt (assert_is_valid_governance E program_id governance_info led) (\<lambda>_.
     create_and_serialize_account_with_owner_signed E \<lparr>cd_read = (\<lambda>_. Inr ()), cd_write = (\<lambda>_. Inr [])\<rparr>
       (Some NativeTreasury_max_size) payer_info native_treasury_info ()
       (get_native_treasury_address_seeds (ai_key governance_info)) program_id (rt_system_program_id (ge_runtime E))
       system_info rent led))))))"

definition process_set_governance_config ::
    "gov_env \<Rightarrow> pubkey \<Rightarrow> account_info list \<Rightarrow> GovernanceConfig \<Rightarrow> ledger \<Rightarrow> ledger res" where
  "process_set_governance_config E program_id accounts config led =
     attempt (next_account_info accounts) (\<lambda>(governance_info, it).
     if \<not> ai_is_signer governance_info then Inl GovernancePdaMustSign
     else
       attempt (assert_is_valid_governance_config config) (\<lambda>_.
       attempt (get_governance_data E program_id governance_info led) (\<lambda>gov.
       GovernanceV2_serialize E (gov\<lparr>gv_config := config\<rparr>) governance_info led)))"

definition process_update_program_metadata :: "gov_env \<Rightarrow> pubkey \<Rightarrow> account_info list \<Rightarrow> ledger \<Rightarrow> ledger res" where
  "process_update_program_metadata E program_id accounts led =
     attempt (next_account_info accounts) (\<lambda>(metadata_info, it).
     attempt (next_account_info it) (\<lambda>(payer_info, it).
     attempt (next_account_info it) (\<lambda>(system_info, it).
     attempt (rt_rent_get (ge_runtime E)) (\<lambda>rent.
     attempt (rt_clock_get (ge_runtime E)) (\<lambda>clock.
     if info_data led metadata_info = [] then
       create_and_serialize_account_signed E (ge_ProgramMetadata E) (Some ProgramMetadata_max_size) payer_info metadata_info
         \<lparr>pm_account_type = ProgramMetadataType, pm_updated_at = clock_slot clock, pm_version = ge_version E,
          pm_reserved = replicate 64 0\<rparr>
         get_program_metadata_seeds program_id system_info rent led
     else
       attempt (get_program_metadata_data E program_id metadata_info led) (\<lambda>metadata.
       borsh_write (ge_ProgramMetadata E)
         (metadata\<lparr>pm_version := ge_version E, pm_updated_at := clock_slot clock\<rparr>) metadata_info led))))))"

end
