(* ===== verification/Governance_Proposals.thy ===== *)
theory Governance_Proposals
  imports Governance_Processor
begin

text \<open>
  The handlers that move a proposal through its life (\<^verbatim>\<open>governance/program/src/processor\<close>): creating
  it, its signatories and transactions, signing it off, voting, finalizing, cancelling and executing
  it; then the dispatch over all instructions.
\<close>

section \<open>Drafting\<close>

definition process_create_proposal ::
    "gov_env \<Rightarrow> pubkey \<Rightarrow> account_info list \<Rightarrow> bytes \<Rightarrow> bytes \<Rightarrow> VoteType \<Rightarrow> bytes list \<Rightarrow> bool \<Rightarrow> ledger \<Rightarrow> ledger res" where
  "process_create_proposal E program_id accounts name description_link vote_type options use_deny_option led =
     attempt (next_account_info accounts) (\<lambda>(realm_info, it).
     attempt (next_account_info it) (\<lambda>(proposal_info, it).
     attempt (next_account_info it) (\<lambda>(governance_info, it).
     attempt (next_account_info it) (\<lambda>(owner_record_info, it).
     attempt (next_account_info it) (\<lambda>(mint_info, it).
     attempt (next_account_info it) (\<lambda>(authority_info, it).
     attempt (next_account_info it) (\<lambda>(payer_info, it).
     attempt (next_account_info it) (\<lambda>(system_info, it).
     attempt (rt_rent_get (ge_runtime E)) (\<lambda>rent.
     attempt (rt_clock_get (ge_runtime E)) (\<lambda>clock.
     if info_data led proposal_info \<noteq> [] then Inl ProposalAlreadyExists
     else
       attempt (get_realm_data_for_governing_token_mint E program_id realm_info (ai_key mint_info) led) (\<lambda>realm_data.
       attempt (get_governance_data_for_realm E program_id governance_info (ai_key realm_info) led) (\<lambda>governance_data.
       attempt (assert_governing_token_mint_can_vote governance_data realm_data (ai_key mint_info) Electorate) (\<lambda>_.
       attempt (get_token_owner_record_data_for_realm E program_id owner_record_info (ai_key realm_info) led) (\<lambda>tor.
       attempt (assert_token_owner_or_delegate_is_signer tor authority_info) (\<lambda>_.
       attempt (next_account_info it) (\<lambda>(realm_config_info, it).
       attempt (resolve_voter_weight E tor program_id realm_config_info it (ai_key realm_info) realm_data
         ActionCreateProposal (ai_key governance_info) led) (\<lambda>(voter_weight, it).
       attempt (assert_can_create_proposal tor realm_data (gv_config governance_data) voter_weight) (\<lambda>_.
       attempt (ok_or (checked_add (to_outstanding_proposal_count tor) 1) Panicked) (\<lambda>outstanding.
       attempt (TokenOwnerRecordV2_serialize E (tor\<lparr>to_outstanding_proposal_count := outstanding\<rparr>) owner_record_info led) (\<lambda>led.
       attempt (assert_valid_proposal_options options vote_type) (\<lambda>_.
       let proposal_data =
         \<lparr>pr_account_type = ProposalV2, pr_governance = ai_key governance_info, pr_governing_token_mint = ai_key mint_info,
          pr_state = Draft, pr_token_owner_record = ai_key owner_record_info, pr_signatories_count = 0,
          pr_signatories_signed_off_count = 0, pr_vote_type = vote_type,
          pr_options = map (\<lambda>label. \<lparr>po_label = label, po_vote_weight = 0, po_vote_result = OptionNone,
            po_transactions_executed_count = 0, po_transactions_count = 0, po_transactions_next_index = 0\<rparr>) options,
          pr_deny_vote_weight = (if use_deny_option then Some 0 else None), pr_reserved1 = 0, pr_abstain_vote_weight = None,
          pr_start_voting_at = None, pr_draft_at = clock_unix_timestamp clock, pr_signing_off_at = None, pr_voting_at = None,
          pr_voting_at_slot = None, pr_voting_completed_at = None, pr_executing_at = None, pr_closed_at = None,
          pr_execution_flags = FlagsNone, pr_max_vote_weight = None, pr_max_voting_time = None, pr_vote_threshold = None,
          pr_reserved = replicate 64 0, pr_name = name, pr_description_link = description_link, pr_veto_vote_weight = 0\<rparr> in
       attempt (create_and_serialize_account_signed E (ge_ProposalV2 E) (Some (ProposalV2_max_size proposal_data)) payer_info
         proposal_info proposal_data
         (get_proposal_address_seeds (ai_key governance_info) (ai_key mint_info)
           (to_le_bytes (gv_proposals_count governance_data))) program_id system_info rent led) (\<lambda>led.
       attempt (ok_or (checked_add (gv_proposals_count governance_data) 1) Panicked) (\<lambda>proposals_count.
       GovernanceV2_serialize E (governance_data\<lparr>gv_proposals_count := proposals_count\<rparr>) governance_info led)))))))))))))))))))))))"

definition process_add_signatory ::
    "gov_env \<Rightarrow> pubkey \<Rightarrow> account_info list \<Rightarrow> pubkey \<Rightarrow> ledger \<Rightarrow> ledger res" where
  "process_add_signatory E program_id accounts signatory led =
     attempt (next_account_info accounts) (\<lambda>(proposal_info, it).
     attempt (next_account_info it) (\<lambda>(tor_info, it).
     attempt (next_account_info it) (\<lambda>(authority_info, it).
     attempt (next_account_info it) (\<lambda>(signatory_record_info, it).
     attempt (next_account_info it) (\<lambda>(payer_info, it).
     attempt (next_account_info it) (\<lambda>(system_info, it).
     attempt (rt_rent_get (ge_runtime E)) (\<lambda>rent.
     attempt (get_proposal_data E program_id proposal_info led) (\<lambda>proposal_data.
     attempt (assert_can_edit_signatories proposal_data) (\<lambda>_.
     attempt (get_token_owner_record_data_for_proposal_owner E program_id tor_info (pr_token_owner_record proposal_data) led) (\<lambda>tor.
     attempt (assert_token_owner_or_delegate_is_signer tor authority_info) (\<lambda>_.
     attempt (create_and_serialize_account_signed E (ge_SignatoryRecordV2 E) None payer_info signatory_record_info
       \<lparr>sr_account_type = SignatoryRecordV2, sr_proposal = ai_key proposal_info, sr_signatory = signatory, sr_signed_off = False,
        sr_reserved_v2 = replicate 8 0\<rparr>
       (get_signatory_record_address_seeds (ai_key proposal_info) signatory) program_id system_info rent led) (\<lambda>led.
     attempt (ok_or (checked_add (pr_signatories_count proposal_data) 1) Panicked) (\<lambda>count.
     ProposalV2_serialize E (proposal_data\<lparr>pr_signatories_count := count\<rparr>) proposal_info led)))))))))))))"

definition process_remove_signatory ::
    "gov_env \<Rightarrow> pubkey \<Rightarrow> account_info list \<Rightarrow> pubkey \<Rightarrow> ledger \<Rightarrow> ledger res" where
  "process_remove_signatory E program_id accounts signatory led =
     attempt (next_account_info accounts) (\<lambda>(proposal_info, it).
     attempt (next_account_info it) (\<lambda>(tor_info, it).
     attempt (next_account_info it) (\<lambda>(authority_info, it).
     attempt (next_account_info it) (\<lambda>(signatory_record_info, it).
     attempt (next_account_info it) (\<lambda>(beneficiary_info, it).
     attempt (get_proposal_data E program_id proposal_info led) (\<lambda>proposal_data.
     attempt (assert_can_edit_signatories proposal_data) (\<lambda>_.
     attempt (get_token_owner_record_data_for_proposal_owner E program_id tor_info (pr_token_owner_record proposal_data) led) (\<lambda>tor.
     attempt (assert_token_owner_or_delegate_is_signer tor authority_info) (\<lambda>_.
     attempt (get_signatory_record_data_for_seeds E program_id signatory_record_info (ai_key proposal_info) signatory led) (\<lambda>record.
     attempt (assert_can_remove_signatory record) (\<lambda>_.
     attempt (ok_or (checked_sub (pr_signatories_count proposal_data) 1) Panicked) (\<lambda>count.
     attempt (ProposalV2_serialize E (proposal_data\<lparr>pr_signatories_count := count\<rparr>) proposal_info led) (\<lambda>led.
     dispose_account signatory_record_info beneficiary_info led)))))))))))))"

text \<open>The option at an index, replaced.\<close>

definition set_option :: "ProposalV2 \<Rightarrow> u8 \<Rightarrow> ProposalOption \<Rightarrow> ProposalV2" where
  "set_option p i opt = p\<lparr>pr_options := (pr_options p)[unat i := opt]\<rparr>"

definition process_insert_transaction ::
    "gov_env \<Rightarrow> pubkey \<Rightarrow> account_info list \<Rightarrow> u8 \<Rightarrow> u16 \<Rightarrow> u32 \<Rightarrow> InstructionData list \<Rightarrow> ledger \<Rightarrow> ledger res" where
  "process_insert_transaction E program_id accounts option_index instruction_index hold_up_time instructions led =
     attempt (next_account_info accounts) (\<lambda>(governance_info, it).
     attempt (next_account_info it) (\<lambda>(proposal_info, it).
     attempt (next_account_info it) (\<lambda>(tor_info, it).
     attempt (next_account_info it) (\<lambda>(authority_info, it).
     attempt (next_account_info it) (\<lambda>(transaction_info, it).
     attempt (next_account_info it) (\<lambda>(payer_info, it).
     attempt (next_account_info it) (\<lambda>(system_info, it).
     attempt (next_account_info it) (\<lambda>(rent_sysvar_info, it).
     attempt (rent_from_info (ge_runtime E) led rent_sysvar_info) (\<lambda>rent.
     if info_data led transaction_info \<noteq> [] then Inl TransactionAlreadyExists
     else
       attempt (get_governance_data E program_id governance_info led) (\<lambda>governance_data.
       if hold_up_time < gc_min_transaction_hold_up_time (gv_config governance_data) then Inl TransactionHoldUpTimeBelowRequiredMin
       else
         attempt (get_proposal_data_for_governance E program_id proposal_info (ai_key governance_info) led) (\<lambda>proposal_data.
         attempt (assert_can_edit_instructions proposal_data) (\<lambda>_.
         attempt (get_token_owner_record_data_for_proposal_owner E program_id tor_info (pr_token_owner_record proposal_data) led) (\<lambda>tor.
         attempt (assert_token_owner_or_delegate_is_signer tor authority_info) (\<lambda>_.
         attempt (option_at proposal_data option_index) (\<lambda>opt.
         attempt
           (if instruction_index > po_transactions_next_index opt then Inl InvalidTransactionIndex
            else if instruction_index = po_transactions_next_index opt
            then ok_or (checked_add (po_transactions_next_index opt) 1) Panicked
            else Inr (po_transactions_next_index opt)) (\<lambda>next_index.
         attempt (ok_or (checked_add (po_transactions_count opt) 1) Panicked) (\<lambda>count.
         attempt (ProposalV2_serialize E (set_option proposal_data option_index
           (opt\<lparr>po_transactions_next_index := next_index, po_transactions_count := count\<rparr>)) proposal_info led) (\<lambda>led.
         let tx =
           \<lparr>pt_account_type = ProposalTransactionV2, pt_proposal = ai_key proposal_info, pt_option_index = option_index,
            pt_transaction_index = instruction_index, pt_hold_up_time = hold_up_time, pt_instructions = instructions,
            pt_executed_at = None, pt_execution_status = ExecutionNone, pt_reserved_v2 = replicate 8 0\<rparr> in
         create_and_serialize_account_signed E (ge_ProposalTransactionV2 E) (Some (ProposalTransactionV2_max_size tx)) payer_info
           transaction_info tx
           (get_proposal_transaction_address_seeds (ai_key proposal_info) (to_le_bytes option_index) (to_le_bytes instruction_index))
           program_id system_info rent led))))))))))))))))))"

definition process_remove_transaction :: "gov_env \<Rightarrow> pubkey \<Rightarrow> account_info list \<Rightarrow> ledger \<Rightarrow> ledger res" where
  "process_remove_transaction E program_id accounts led =
     attempt (next_account_info accounts) (\<lambda>(proposal_info, it).
     attempt (next_account_info it) (\<lambda>(tor_info, it).
     attempt (next_account_info it) (\<lambda>(authority_info, it).
     attempt (next_account_info it) (\<lambda>(transaction_info, it).
     attempt (next_account_info it) (\<lambda>(beneficiary_info, it).
     attempt (get_proposal_data E program_id proposal_info led) (\<lambda>proposal_data.
     attempt (assert_can_edit_instructions proposal_data) (\<lambda>_.
     attempt (get_token_owner_record_data_for_proposal_owner E program_id tor_info (pr_token_owner_record proposal_data) led) (\<lambda>tor.
     attempt (assert_token_owner_or_delegate_is_signer tor authority_info) (\<lambda>_.
     attempt (get_proposal_transaction_data_for_proposal E program_id transaction_info (ai_key proposal_info) led) (\<lambda>tx.
     attempt (dispose_account transaction_info beneficiary_info led) (\<lambda>led.
     attempt (option_at proposal_data (pt_option_index tx)) (\<lambda>opt.
     attempt (ok_or (checked_sub (po_transactions_count opt) 1) Panicked) (\<lambda>count.
     ProposalV2_serialize E (set_option proposal_data (pt_option_index tx) (opt\<lparr>po_transactions_count := count\<rparr>))
       proposal_info led)))))))))))))"

section \<open>Signing off and cancelling\<close>

definition sign_off_by_owner ::
    "gov_env \<Rightarrow> pubkey \<Rightarrow> account_info \<Rightarrow> account_info list \<Rightarrow> ProposalV2 \<Rightarrow> i64 \<Rightarrow> ledger \<Rightarrow> (ProposalV2 \<times> ledger) res" where
  "sign_off_by_owner E program_id signatory_info it proposal_data now led =
     attempt (next_account_info it) (\<lambda>(owner_record_info, it).
     attempt (get_token_owner_record_data_for_proposal_owner E program_id owner_record_info (pr_token_owner_record proposal_data) led) (\<lambda>tor.
     attempt (assert_token_owner_or_delegate_is_signer tor signatory_info) (\<lambda>_.
     Inr (proposal_data\<lparr>pr_signing_off_at := Some now\<rparr>, led))))"

definition sign_off_by_signatory ::
    "gov_env \<Rightarrow> pubkey \<Rightarrow> account_info \<Rightarrow> account_info \<Rightarrow> account_info list \<Rightarrow> ProposalV2 \<Rightarrow> i64 \<Rightarrow> ledger \<Rightarrow> (ProposalV2 \<times> ledger) res" where
  "sign_off_by_signatory E program_id proposal_info signatory_info it proposal_data now led =
     attempt (next_account_info it) (\<lambda>(signatory_record_info, it).
     attempt (get_signatory_record_data_for_seeds E program_id signatory_record_info (ai_key proposal_info) (ai_key signatory_info) led) (\<lambda>record.
     attempt (assert_signatory_can_sign_off record signatory_info) (\<lambda>_.
     attempt (SignatoryRecordV2_serialize E (record\<lparr>sr_signed_off := True\<rparr>) signatory_record_info led) (\<lambda>led.
     let p = (if pr_signatories_signed_off_count proposal_data = 0
              then proposal_data\<lparr>pr_signing_off_at := Some now, pr_state := SigningOff\<rparr> else proposal_data) in
     attempt (ok_or (checked_add (pr_signatories_signed_off_count p) 1) Panicked) (\<lambda>count.
     Inr (p\<lparr>pr_signatories_signed_off_count := count\<rparr>, led))))))"

definition start_voting_if_signed :: "ProposalV2 \<Rightarrow> clock \<Rightarrow> ProposalV2" where
  "start_voting_if_signed p clock =
     (if pr_signatories_signed_off_count p = pr_signatories_count p
      then p\<lparr>pr_voting_at := Some (clock_unix_timestamp clock), pr_voting_at_slot := Some (clock_slot clock), pr_state := Voting\<rparr>
      else p)"

definition process_sign_off_proposal :: "gov_env \<Rightarrow> pubkey \<Rightarrow> account_info list \<Rightarrow> ledger \<Rightarrow> ledger res" where
  "process_sign_off_proposal E program_id accounts led =
     attempt (next_account_info accounts) (\<lambda>(realm_info, it).
     attempt (next_account_info it) (\<lambda>(governance_info, it).
     attempt (next_account_info it) (\<lambda>(proposal_info, it).
     attempt (next_account_info it) (\<lambda>(signatory_info, it).
     attempt (rt_clock_get (ge_runtime E)) (\<lambda>clock.
     attempt (get_realm_data E program_id realm_info led) (\<lambda>realm_data.
     attempt (get_governance_data_for_realm E program_id governance_info (ai_key realm_info) led) (\<lambda>governance_data.
     attempt (get_proposal_data_for_governance E program_id proposal_info (ai_key governance_info) led) (\<lambda>proposal_data.
     attempt (assert_can_sign_off proposal_data) (\<lambda>_.
     attempt
       (if pr_signatories_count proposal_data = 0
        then sign_off_by_owner E program_id signatory_info it proposal_data (clock_unix_timestamp clock) led
        else sign_off_by_signatory E program_id proposal_info signatory_info it proposal_data (clock_unix_timestamp clock) led)
       (\<lambda>(p, led).
     attempt (ProposalV2_serialize E (start_voting_if_signed p clock) proposal_info led) (\<lambda>led.
     attempt (ok_or (checked_add (rl_voting_proposal_count realm_data) 1) Panicked) (\<lambda>realm_count.
     attempt (RealmV2_serialize E (realm_data\<lparr>rl_voting_proposal_count := realm_count\<rparr>) realm_info led) (\<lambda>led.
     attempt (ok_or (checked_add (gv_voting_proposal_count governance_data) 1) Panicked) (\<lambda>governance_count.
     GovernanceV2_serialize E (governance_data\<lparr>gv_voting_proposal_count := governance_count\<rparr>) governance_info led))))))))))))))"

definition process_cancel_proposal :: "gov_env \<Rightarrow> pubkey \<Rightarrow> account_info list \<Rightarrow> ledger \<Rightarrow> ledger res" where
  "process_cancel_proposal E program_id accounts led =
     attempt (next_account_info accounts) (\<lambda>(realm_info, it).
     attempt (next_account_info it) (\<lambda>(governance_info, it).
     attempt (next_account_info it) (\<lambda>(proposal_info, it).
     attempt (next_account_info it) (\<lambda>(owner_record_info, it).
     attempt (next_account_info it) (\<lambda>(authority_info, it).
     attempt (rt_clock_get (ge_runtime E)) (\<lambda>clock.
     attempt (get_realm_data E program_id realm_info led) (\<lambda>realm_data.
     attempt (get_governance_data_for_realm E program_id governance_info (ai_key realm_info) led) (\<lambda>governance_data.
     attempt (get_proposal_data_for_governance E program_id proposal_info (ai_key governance_info) led) (\<lambda>proposal_data.
     attempt (assert_can_cancel proposal_data (gv_config governance_data) (clock_unix_timestamp clock)) (\<lambda>_.
     attempt (get_token_owner_record_data_for_proposal_owner E program_id owner_record_info (pr_token_owner_record proposal_data) led) (\<lambda>tor.
     attempt (assert_token_owner_or_delegate_is_signer tor authority_info) (\<lambda>_.
     attempt (TokenOwnerRecordV2_serialize E (decrease_outstanding_proposal_count tor) owner_record_info led) (\<lambda>led.
     attempt
       (if pr_state proposal_data = Voting then
          attempt (RealmV2_serialize E
            (realm_data\<lparr>rl_voting_proposal_count := saturating_sub (rl_voting_proposal_count realm_data) 1\<rparr>) realm_info led) (\<lambda>led.
          GovernanceV2_serialize E
            (governance_data\<lparr>gv_voting_proposal_count := saturating_sub (gv_voting_proposal_count governance_data) 1\<rparr>)
            governance_info led)
        else Inr led) (\<lambda>led.
     ProposalV2_serialize E
       (proposal_data\<lparr>pr_state := Cancelled, pr_closed_at := Some (clock_unix_timestamp clock)\<rparr>) proposal_info led))))))))))))))"

section \<open>Voting\<close>

text \<open>The loops over the options and the choices of a vote, zipped.\<close>

fun add_choices :: "ProposalOption list \<Rightarrow> VoteChoice list \<Rightarrow> u64 \<Rightarrow> ProposalOption list res" where
  "add_choices (opt # opts) (c # cs) w =
     attempt (get_choice_weight c w) (\<lambda>x.
     attempt (ok_or (checked_add (po_vote_weight opt) x) Panicked) (\<lambda>total.
     attempt (add_choices opts cs w) (\<lambda>opts'.
     Inr (opt\<lparr>po_vote_weight := total\<rparr> # opts'))))"
| "add_choices opts _ w = Inr opts"

fun remove_choices :: "ProposalOption list \<Rightarrow> VoteChoice list \<Rightarrow> u64 \<Rightarrow> ProposalOption list res" where
  "remove_choices (opt # opts) (c # cs) w =
     attempt (get_choice_weight c w) (\<lambda>x.
     attempt (ok_or (checked_sub (po_vote_weight opt) x) Panicked) (\<lambda>total.
     attempt (remove_choices opts cs w) (\<lambda>opts'.
     Inr (opt\<lparr>po_vote_weight := total\<rparr> # opts'))))"
| "remove_choices opts _ w = Inr opts"

definition count_vote :: "ProposalV2 \<Rightarrow> Vote \<Rightarrow> u64 \<Rightarrow> ProposalV2 res" where
  "count_vote p vote voter_weight =
     (case vote of
        VoteApprove choices \<Rightarrow>
          attempt (add_choices (pr_options p) choices voter_weight) (\<lambda>opts. Inr (p\<lparr>pr_options := opts\<rparr>))
      | VoteDeny \<Rightarrow>
          attempt (ok_or (pr_deny_vote_weight p) Panicked) (\<lambda>deny.
          attempt (ok_or (checked_add deny voter_weight) Panicked) (\<lambda>total.
          Inr (p\<lparr>pr_deny_vote_weight := Some total\<rparr>)))
      | VoteVeto \<Rightarrow>
          attempt (ok_or (checked_add (pr_veto_vote_weight p) voter_weight) Panicked) (\<lambda>total.
          Inr (p\<lparr>pr_veto_vote_weight := total\<rparr>))
      | VoteAbstain \<Rightarrow> Inl NotSupportedVoteType)"

definition withdraw_vote :: "ProposalV2 \<Rightarrow> Vote \<Rightarrow> u64 \<Rightarrow> ProposalV2 res" where
  "withdraw_vote p vote voter_weight =
     (case vote of
        VoteApprove choices \<Rightarrow>
          attempt (remove_choices (pr_options p) choices voter_weight) (\<lambda>opts. Inr (p\<lparr>pr_options := opts\<rparr>))
      | VoteDeny \<Rightarrow>
          attempt (ok_or (pr_deny_vote_weight p) Panicked) (\<lambda>deny.
          attempt (ok_or (checked_sub deny voter_weight) Panicked) (\<lambda>total.
          Inr (p\<lparr>pr_deny_vote_weight := Some total\<rparr>)))
      | VoteVeto \<Rightarrow>
          attempt (ok_or (checked_sub (pr_veto_vote_weight p) voter_weight) Panicked) (\<lambda>total.
          Inr (p\<lparr>pr_veto_vote_weight := total\<rparr>))
      | VoteAbstain \<Rightarrow> Inl NotSupportedVoteType)"

text \<open>
  When a vote tips the proposal, its owner has one outstanding proposal less, and the realm and the
  governance one proposal less in voting state.  The owner's record is the voter's if they are the same account.
\<close>

definition close_tipped_proposal ::
    "gov_env \<Rightarrow> pubkey \<Rightarrow> account_info \<Rightarrow> account_info \<Rightarrow> account_info \<Rightarrow> account_info \<Rightarrow> RealmV2 \<Rightarrow> GovernanceV2 \<Rightarrow>
      ProposalV2 \<Rightarrow> TokenOwnerRecordV2 \<Rightarrow> ledger \<Rightarrow> (TokenOwnerRecordV2 \<times> ledger) res" where
  "close_tipped_proposal E program_id realm_info governance_info owner_record_info voter_record_info realm_data governance_data
     proposal_data voter led =
     attempt (get_token_owner_record_data_for_proposal_owner E program_id owner_record_info (pr_token_owner_record proposal_data) led) (\<lambda>owner.
     attempt
       (if ai_key owner_record_info = ai_key voter_record_info then Inr (decrease_outstanding_proposal_count voter, led)
        else
          attempt (TokenOwnerRecordV2_serialize E (decrease_outstanding_proposal_count owner) owner_record_info led) (\<lambda>led.
          Inr (voter, led))) (\<lambda>(voter, led).
     attempt (RealmV2_serialize E
       (realm_data\<lparr>rl_voting_proposal_count := saturating_sub (rl_voting_proposal_count realm_data) 1\<rparr>) realm_info led) (\<lambda>led.
     attempt (GovernanceV2_serialize E
       (governance_data\<lparr>gv_voting_proposal_count := saturating_sub (gv_voting_proposal_count governance_data) 1\<rparr>)
       governance_info led) (\<lambda>led.
     Inr (voter, led)))))"

definition process_cast_vote :: "gov_env \<Rightarrow> pubkey \<Rightarrow> account_info list \<Rightarrow> Vote \<Rightarrow> ledger \<Rightarrow> ledger res" where
  "process_cast_vote E program_id accounts vote led =
     attempt (next_account_info accounts) (\<lambda>(realm_info, it).
     attempt (next_account_info it) (\<lambda>(governance_info, it).
     attempt (next_account_info it) (\<lambda>(proposal_info, it).
     attempt (next_account_info it) (\<lambda>(owner_record_info, it).
     attempt (next_account_info it) (\<lambda>(voter_record_info, it).
     attempt (next_account_info it) (\<lambda>(authority_info, it).
     attempt (next_account_info it) (\<lambda>(vote_record_info, it).
     attempt (next_account_info it) (\<lambda>(mint_info, it).
     attempt (next_account_info it) (\<lambda>(payer_info, it).
     attempt (next_account_info it) (\<lambda>(system_info, it).
     attempt (rt_rent_get (ge_runtime E)) (\<lambda>rent.
     attempt (rt_clock_get (ge_runtime E)) (\<lambda>clock.
     if info_data led vote_record_info \<noteq> [] then Inl VoteAlreadyExists
     else
       attempt (get_realm_data_for_governing_token_mint E program_id realm_info (ai_key mint_info) led) (\<lambda>realm_data.
       attempt (get_governance_data_for_realm E program_id governance_info (ai_key realm_info) led) (\<lambda>governance_data.
       attempt (get_proposal_governing_token_mint_for_vote realm_data (ai_key mint_info) (get_vote_kind vote)) (\<lambda>proposal_mint.
       attempt (get_proposal_data_for_governance_and_governing_mint E program_id proposal_info (ai_key governance_info) proposal_mint led)
         (\<lambda>proposal_data.
       attempt (assert_can_cast_vote proposal_data (gv_config governance_data) (clock_unix_timestamp clock)) (\<lambda>_.
       attempt (get_token_owner_record_data_for_realm_and_governing_mint E program_id voter_record_info
         (gv_realm governance_data) (ai_key mint_info) led) (\<lambda>voter0.
       attempt (assert_token_owner_or_delegate_is_signer voter0 authority_info) (\<lambda>_.
       attempt (ok_or (checked_add (to_unrelinquished_votes_count voter0) 1) Panicked) (\<lambda>unrelinquished.
       attempt (ok_or (checked_add (to_total_votes_count voter0) 1) Panicked) (\<lambda>total.
       let voter1 = voter0\<lparr>to_unrelinquished_votes_count := unrelinquished, to_total_votes_count := total\<rparr> in
       attempt (next_account_info it) (\<lambda>(realm_config_info, it).
       attempt (resolve_voter_weight E voter1 program_id realm_config_info it (ai_key realm_info) realm_data ActionCastVote
         (ai_key proposal_info) led) (\<lambda>(voter_weight, it).
       attempt (assert_valid_vote proposal_data vote) (\<lambda>_.
       attempt (count_vote proposal_data vote voter_weight) (\<lambda>counted.
       attempt (resolve_max_voter_weight E counted program_id realm_config_info mint_info it (ai_key realm_info) realm_data
         (get_vote_kind vote) led) (\<lambda>(max_voter_weight, it).
       attempt (resolve_vote_threshold governance_data realm_data (ai_key mint_info) (get_vote_kind vote)) (\<lambda>vote_threshold.
       attempt (try_tip_vote counted max_voter_weight (gc_vote_tipping (gv_config governance_data))
         (clock_unix_timestamp clock) vote_threshold (get_vote_kind vote)) (\<lambda>(decided, tipped).
       attempt
         (if tipped
          then close_tipped_proposal E program_id realm_info governance_info owner_record_info voter_record_info realm_data
                 governance_data decided voter1 led
          else Inr (voter1, led)) (\<lambda>(voter2, led).
       attempt (TokenOwnerRecordV2_serialize E voter2 voter_record_info led) (\<lambda>led.
       attempt (ProposalV2_serialize E decided proposal_info led) (\<lambda>led.
       create_and_serialize_account_signed E (ge_VoteRecordV2 E) None payer_info vote_record_info
         \<lparr>vr_account_type = VoteRecordV2, vr_proposal = ai_key proposal_info,
          vr_governing_token_owner = to_governing_token_owner voter2, vr_is_relinquished = False,
          vr_voter_weight = voter_weight, vr_vote = vote, vr_reserved_v2 = replicate 8 0\<rparr>
         (get_vote_record_address_seeds (ai_key proposal_info) (ai_key voter_record_info)) program_id system_info rent
         led)))))))))))))))))))))))))))))))"

definition process_finalize_vote :: "gov_env \<Rightarrow> pubkey \<Rightarrow> account_info list \<Rightarrow> ledger \<Rightarrow> ledger res" where
  "process_finalize_vote E program_id accounts led =
     attempt (next_account_info accounts) (\<lambda>(realm_info, it).
     attempt (next_account_info it) (\<lambda>(governance_info, it).
     attempt (next_account_info it) (\<lambda>(proposal_info, it).
     attempt (next_account_info it) (\<lambda>(owner_record_info, it).
     attempt (next_account_info it) (\<lambda>(mint_info, it).
     attempt (rt_clock_get (ge_runtime E)) (\<lambda>clock.
     attempt (get_realm_data_for_governing_token_mint E program_id realm_info (ai_key mint_info) led) (\<lambda>realm_data.
     attempt (get_governance_data_for_realm E program_id governance_info (ai_key realm_info) led) (\<lambda>governance_data.
     attempt (get_proposal_data_for_governance_and_governing_mint E program_id proposal_info (ai_key governance_info)
       (ai_key mint_info) led) (\<lambda>proposal_data.
     attempt (next_account_info it) (\<lambda>(realm_config_info, it).
     attempt (resolve_max_voter_weight E proposal_data program_id realm_config_info mint_info it (ai_key realm_info) realm_data
       Electorate led) (\<lambda>(max_voter_weight, it).
     attempt (resolve_vote_threshold governance_data realm_data (ai_key mint_info) Electorate) (\<lambda>vote_threshold.
     attempt (finalize_vote proposal_data max_voter_weight (gv_config governance_data) (clock_unix_timestamp clock) vote_threshold)
       (\<lambda>final.
     attempt (get_token_owner_record_data_for_proposal_owner E program_id owner_record_info (pr_token_owner_record final) led) (\<lambda>owner.
     attempt (TokenOwnerRecordV2_serialize E (decrease_outstanding_proposal_count owner) owner_record_info led) (\<lambda>led.
     attempt (ProposalV2_serialize E final proposal_info led) (\<lambda>led.
     attempt (RealmV2_serialize E
       (realm_data\<lparr>rl_voting_proposal_count := saturating_sub (rl_voting_proposal_count realm_data) 1\<rparr>) realm_info led) (\<lambda>led.
     GovernanceV2_serialize E
       (governance_data\<lparr>gv_voting_proposal_count := saturating_sub (gv_voting_proposal_count governance_data) 1\<rparr>)
       governance_info led)))))))))))))))))"

definition process_relinquish_vote :: "gov_env \<Rightarrow> pubkey \<Rightarrow> account_info list \<Rightarrow> ledger \<Rightarrow> ledger res" where
  "process_relinquish_vote E program_id accounts led =
     attempt (next_account_info accounts) (\<lambda>(realm_info, it).
     attempt (next_account_info it) (\<lambda>(governance_info, it).
     attempt (next_account_info it) (\<lambda>(proposal_info, it).
     attempt (next_account_info it) (\<lambda>(tor_info, it).
     attempt (next_account_info it) (\<lambda>(vote_record_info, it).
     attempt (next_account_info it) (\<lambda>(mint_info, it).
     attempt (get_realm_data_for_governing_token_mint E program_id realm_info (ai_key mint_info) led) (\<lambda>realm_data.
     attempt (get_governance_data_for_realm E program_id governance_info (ai_key realm_info) led) (\<lambda>governance_data.
     attempt (get_proposal_data_for_governance E program_id proposal_info (ai_key governance_info) led) (\<lambda>proposal_data.
     attempt (get_token_owner_record_data_for_realm_and_governing_mint E program_id tor_info (gv_realm governance_data)
       (ai_key mint_info) led) (\<lambda>tor.
     attempt (get_vote_record_data_for_proposal_and_token_owner_record E program_id vote_record_info realm_data
       (ai_key proposal_info) proposal_data tor led) (\<lambda>vote_record.
     attempt (assert_can_relinquish_vote vote_record) (\<lambda>_.
     attempt (rt_clock_get (ge_runtime E)) (\<lambda>clock.
     attempt
       (if pr_state proposal_data = Voting
        then attempt (has_vote_time_ended proposal_data (gv_config governance_data) (clock_unix_timestamp clock)) (\<lambda>ended. Inr (\<not> ended))
        else Inr False) (\<lambda>in_progress.
     attempt
       (if in_progress then
          attempt (next_account_info it) (\<lambda>(authority_info, it).
          attempt (next_account_info it) (\<lambda>(beneficiary_info, it).
          attempt (assert_token_owner_or_delegate_is_signer tor authority_info) (\<lambda>_.
          attempt (withdraw_vote proposal_data (vr_vote vote_record) (vr_voter_weight vote_record)) (\<lambda>withdrawn.
          attempt (ProposalV2_serialize E withdrawn proposal_info led) (\<lambda>led.
          attempt (dispose_account vote_record_info beneficiary_info led) (\<lambda>led.
          attempt (ok_or (checked_sub (to_total_votes_count tor) 1) Panicked) (\<lambda>total.
          Inr (tor\<lparr>to_total_votes_count := total\<rparr>, led))))))))
        else if pr_state proposal_data = Voting then Inl CannotRelinquishInFinalizingState
        else
          attempt (VoteRecordV2_serialize E (vote_record\<lparr>vr_is_relinquished := True\<rparr>) vote_record_info led) (\<lambda>led.
          Inr (tor, led))) (\<lambda>(tor, led).
     attempt (ok_or (checked_sub (to_unrelinquished_votes_count tor) 1) Panicked) (\<lambda>unrelinquished.
     TokenOwnerRecordV2_serialize E (tor\<lparr>to_unrelinquished_votes_count := unrelinquished\<rparr>) tor_info led))))))))))))))))"

section \<open>Executing\<close>

fun invoke_all :: "gov_env \<Rightarrow> pubkey \<Rightarrow> sol_instruction list \<Rightarrow> account_info list \<Rightarrow> bytes list list \<Rightarrow> ledger \<Rightarrow> ledger res" where
  "invoke_all E program_id [] infos seeds led = Inr led"
| "invoke_all E program_id (ix # ixs) infos seeds led =
     attempt (rt_invoke_signed (ge_runtime E) program_id ix infos seeds led) (\<lambda>led.
     invoke_all E program_id ixs infos seeds led)"

definition record_execution :: "ProposalV2 \<Rightarrow> u8 \<Rightarrow> i64 \<Rightarrow> ProposalV2 res" where
  "record_execution p option_index now =
     (let p = (if pr_state p = Succeeded then p\<lparr>pr_executing_at := Some now, pr_state := Executing\<rparr> else p) in
      attempt (option_at p option_index) (\<lambda>opt.
      attempt (ok_or (checked_add (po_transactions_executed_count opt) 1) Panicked) (\<lambda>executed.
      let p = set_option p option_index (opt\<lparr>po_transactions_executed_count := executed\<rparr>) in
      Inr (if pr_state p \<in> {Executing, ExecutingWithErrors} \<and>
              (\<forall>opt \<in> set (pr_options p). po_vote_result opt = OptionSucceeded \<longrightarrow>
                 po_transactions_executed_count opt = po_transactions_count opt)
           then p\<lparr>pr_closed_at := Some now, pr_state := Completed\<rparr> else p))))"

definition process_execute_transaction :: "gov_env \<Rightarrow> pubkey \<Rightarrow> account_info list \<Rightarrow> ledger \<Rightarrow> ledger res" where
  "process_execute_transaction E program_id accounts led =
     attempt (next_account_info accounts) (\<lambda>(governance_info, it).
     attempt (next_account_info it) (\<lambda>(proposal_info, it).
     attempt (next_account_info it) (\<lambda>(transaction_info, it).
     attempt (rt_clock_get (ge_runtime E)) (\<lambda>clock.
     attempt (get_governance_data E program_id governance_info led) (\<lambda>governance_data.
     attempt (get_proposal_data_for_governance E program_id proposal_info (ai_key governance_info) led) (\<lambda>proposal_data.
     attempt (get_proposal_transaction_data_for_proposal E program_id transaction_info (ai_key proposal_info) led) (\<lambda>tx.
     attempt (assert_can_execute_transaction proposal_data tx (clock_unix_timestamp clock)) (\<lambda>_.
     attempt (governance_own_address_seeds governance_data) (\<lambda>governance_seeds.
     let R = ge_runtime E;
         (_, bump_seed) = rt_find_program_address R governance_seeds program_id;
         treasury_seeds = get_native_treasury_address_seeds (ai_key governance_info);
         (treasury_address, treasury_bump_seed) = rt_find_program_address R treasury_seeds program_id;
         signers_seeds = (governance_seeds @ [[bump_seed]]) #
           (if \<exists>a \<in> set it. ai_key a = treasury_address then [treasury_seeds @ [[treasury_bump_seed]]] else []) in
     attempt (invoke_all E program_id (map Instruction_from (pt_instructions tx)) it signers_seeds led) (\<lambda>led.
     attempt (record_execution proposal_data (pt_option_index tx) (clock_unix_timestamp clock)) (\<lambda>executed.
     attempt (ProposalV2_serialize E executed proposal_info led) (\<lambda>led.
     ProposalTransactionV2_serialize E
       (tx\<lparr>pt_executed_at := Some (clock_unix_timestamp clock), pt_execution_status := ExecutionSuccess\<rparr>)
       transaction_info led))))))))))))"

definition process_flag_transaction_error :: "gov_env \<Rightarrow> pubkey \<Rightarrow> account_info list \<Rightarrow> ledger \<Rightarrow> ledger res" where
  "process_flag_transaction_error E program_id accounts led =
     attempt (next_account_info accounts) (\<lambda>(proposal_info, it).
     attempt (next_account_info it) (\<lambda>(tor_info, it).
     attempt (next_account_info it) (\<lambda>(authority_info, it).
     attempt (next_account_info it) (\<lambda>(transaction_info, it).
     attempt (rt_clock_get (ge_runtime E)) (\<lambda>clock.
     attempt (get_proposal_data E program_id proposal_info led) (\<lambda>proposal_data.
     attempt (get_proposal_transaction_data_for_proposal E program_id transaction_info (ai_key proposal_info) led) (\<lambda>tx.
     attempt (assert_can_flag_transaction_error proposal_data tx (clock_unix_timestamp clock)) (\<lambda>_.
     attempt (get_token_owner_record_data_for_proposal_owner E program_id tor_info (pr_token_owner_record proposal_data) led) (\<lambda>tor.
     attempt (assert_token_owner_or_delegate_is_signer tor authority_info) (\<lambda>_.
     let p = (if pr_state proposal_data = Succeeded
              then proposal_data\<lparr>pr_executing_at := Some (clock_unix_timestamp clock)\<rparr> else proposal_data) in
     attempt (ProposalV2_serialize E (p\<lparr>pr_state := ExecutingWithErrors\<rparr>) proposal_info led) (\<lambda>led.
     ProposalTransactionV2_serialize E (tx\<lparr>pt_execution_status := ExecutionError\<rparr>) transaction_info led)))))))))))"

section \<open>Dispatch\<close>

datatype GovernanceInstruction =
    CreateRealm bytes RealmConfigArgs
  | DepositGoverningTokens u64
  | WithdrawGoverningTokens
  | SetGovernanceDelegate "pubkey option"
  | CreateGovernance GovernanceConfig
  | CreateProgramGovernance GovernanceConfig bool
  | CreateProposal bytes bytes VoteType "bytes list" bool
  | AddSignatory pubkey
  | RemoveSignatory pubkey
  | InsertTransaction u8 u16 u32 "InstructionData list"
  | RemoveTransaction
  | CancelProposal
  | SignOffProposal
  | CastVote Vote
  | FinalizeVote
  | RelinquishVote
  | ExecuteTransaction
  | CreateMintGovernance GovernanceConfig bool
  | CreateTokenGovernance GovernanceConfig bool
  | SetGovernanceConfig GovernanceConfig
  | FlagTransactionError
  | SetRealmAuthority SetRealmAuthorityAction
  | SetRealmConfig RealmConfigArgs
  | CreateTokenOwnerRecord
  | UpdateProgramMetadata
  | CreateNativeTreasury

primrec governance_dispatch :: "gov_env \<Rightarrow> pubkey \<Rightarrow> account_info list \<Rightarrow> GovernanceInstruction \<Rightarrow> ledger \<Rightarrow> ledger res" where
  "governance_dispatch E pid accounts (CreateRealm name args) = process_create_realm E pid accounts name args"
| "governance_dispatch E pid accounts (DepositGoverningTokens amt) = process_deposit_governing_tokens E pid accounts amt"
| "governance_dispatch E pid accounts WithdrawGoverningTokens = process_withdraw_governing_tokens E pid accounts"
| "governance_dispatch E pid accounts (SetGovernanceDelegate d) = process_set_governance_delegate E pid accounts d"
| "governance_dispatch E pid accounts (CreateGovernance config) = process_create_governance E pid accounts config"
| "governance_dispatch E pid accounts (CreateProgramGovernance config t) = process_create_program_governance E pid accounts config t"
| "governance_dispatch E pid accounts (CreateProposal name link vt options d) =
     process_create_proposal E pid accounts name link vt options d"
| "governance_dispatch E pid accounts (AddSignatory s) = process_add_signatory E pid accounts s"
| "governance_dispatch E pid accounts (RemoveSignatory s) = process_remove_signatory E pid accounts s"
| "governance_dispatch E pid accounts (InsertTransaction oi i h ixs) = process_insert_transaction E pid accounts oi i h ixs"
| "governance_dispatch E pid accounts RemoveTransaction = process_remove_transaction E pid accounts"
| "governance_dispatch E pid accounts CancelProposal = process_cancel_proposal E pid accounts"
| "governance_dispatch E pid accounts SignOffProposal = process_sign_off_proposal E pid accounts"
| "governance_dispatch E pid accounts (CastVote vote) = process_cast_vote E pid accounts vote"
| "governance_dispatch E pid accounts FinalizeVote = process_finalize_vote E pid accounts"
| "governance_dispatch E pid accounts RelinquishVote = process_relinquish_vote E pid accounts"
| "governance_dispatch E pid accounts ExecuteTransaction = process_execute_transaction E pid accounts"
| "governance_dispatch E pid accounts (CreateMintGovernance config t) = process_create_mint_governance E pid accounts config t"
| "governance_dispatch E pid accounts (CreateTokenGovernance config t) = process_create_token_governance E pid accounts config t"
| "governance_dispatch E pid accounts (SetGovernanceConfig config) = process_set_governance_config E pid accounts config"
| "governance_dispatch E pid accounts FlagTransactionError = process_flag_transaction_error E pid accounts"
| "governance_dispatch E pid accounts (SetRealmAuthority action) = process_set_realm_authority E pid accounts action"
| "governance_dispatch E pid accounts (SetRealmConfig args) = process_set_realm_config E pid accounts args"
| "governance_dispatch E pid accounts CreateTokenOwnerRecord = process_create_token_owner_record E pid accounts"
| "governance_dispatch E pid accounts UpdateProgramMetadata = process_update_program_metadata E pid accounts"
| "governance_dispatch E pid accounts CreateNativeTreasury = process_create_native_treasury E pid accounts"

definition governance_process_instruction ::
    "gov_env \<Rightarrow> (bytes \<Rightarrow> GovernanceInstruction option) \<Rightarrow> pubkey \<Rightarrow> account_info list \<Rightarrow> bytes \<Rightarrow> ledger \<Rightarrow> ledger res" where
  "governance_process_instruction E decode pid accounts input led =
     attempt (ok_or (decode input) InvalidInstructionData) (\<lambda>instruction. governance_dispatch E pid accounts instruction led)"

end
