(* ===== verification/Governance_Ledger.thy ===== *)
theory Governance_Ledger
  imports Governance_Proposals
begin

text \<open>
  The life of a proposal over any history of governance instructions.  First the laws of the
  parameters; then the two relations that the handlers keep: where a proposal's state can go, and what
  is true of every proposal; then, handler by handler, that a run only does what keeps them.
\<close>

section \<open>The laws of the encodings\<close>

text \<open>
  What is written is what is read back, whatever follows it in the account; and every account starts
  with its type, \<^verbatim>\<open>Uninitialized\<close> being the zero byte.
\<close>

definition codec_typed :: "gov_env \<Rightarrow> 'a codec \<Rightarrow> ('a \<Rightarrow> GovernanceAccountType) \<Rightarrow> bool" where
  "codec_typed E c account_type \<longleftrightarrow> (\<forall>bs v. cd_read c bs = Inr v \<longrightarrow> ge_account_type E bs = Inr (account_type v))"

definition codec_lawful :: "gov_env \<Rightarrow> 'a codec \<Rightarrow> ('a \<Rightarrow> GovernanceAccountType) \<Rightarrow> bool" where
  "codec_lawful E c account_type \<longleftrightarrow> codec_roundtrip c \<and> codec_typed E c account_type"

definition borsh_lawful :: "gov_env \<Rightarrow> bool" where
  "borsh_lawful E \<longleftrightarrow>
     codec_lawful E (ge_RealmV1 E) rl_account_type \<and> codec_lawful E (ge_RealmV2 E) rl_account_type \<and>
     codec_lawful E (ge_RealmConfig E) rca_account_type \<and>
     codec_lawful E (ge_GovernanceV1 E) gv_account_type \<and> codec_lawful E (ge_GovernanceV2 E) gv_account_type \<and>
     codec_lawful E (ge_TokenOwnerRecordV1 E) to_account_type \<and> codec_lawful E (ge_TokenOwnerRecordV2 E) to_account_type \<and>
     codec_lawful E (ge_SignatoryRecordV1 E) sr_account_type \<and> codec_lawful E (ge_SignatoryRecordV2 E) sr_account_type \<and>
     codec_lawful E (ge_ProposalV1 E) p1_account_type \<and> codec_lawful E (ge_ProposalV2 E) pr_account_type \<and>
     codec_lawful E (ge_ProposalInstructionV1 E) pi_account_type \<and>
     codec_lawful E (ge_ProposalTransactionV2 E) pt_account_type \<and>
     codec_lawful E (ge_VoteRecordV1 E) vr1_account_type \<and> codec_lawful E (ge_VoteRecordV2 E) vr_account_type \<and>
     codec_lawful E (ge_ProgramMetadata E) pm_account_type \<and>
     (\<forall>n. ge_account_type E (replicate n 0) \<in> {Inr UninitializedType, Inl BorshIoError})"

text \<open>
  The system program allocates space only for an account that has none, is its own, and is not one of
  the governance program's.
\<close>

definition system_lawful :: "gov_env \<Rightarrow> pubkey \<Rightarrow> bool" where
  "system_lawful E pid \<longleftrightarrow>
     (\<forall>payer k lamports n owner infos seeds led led'.
        rt_invoke_signed (ge_runtime E) pid (ge_system_create_account E payer k lamports n owner) infos seeds led = Inr led' \<longrightarrow>
        acc_data (led k) = []) \<and>
     (\<forall>k n infos seeds led led'.
        rt_invoke_signed (ge_runtime E) pid (ge_system_allocate E k n) infos seeds led = Inr led' \<longrightarrow> acc_data (led k) = [])"

section \<open>What the ledger holds\<close>

definition key_info :: "pubkey \<Rightarrow> account_info" where
  "key_info k = \<lparr>ai_key = k, ai_is_signer = False, ai_is_writable = False\<rparr>"

lemma ai_key_key_info [simp]: "ai_key (key_info k) = k"
  by (simp add: key_info_def)

definition proposal_at :: "gov_env \<Rightarrow> pubkey \<Rightarrow> ledger \<Rightarrow> pubkey \<Rightarrow> ProposalV2 option" where
  "proposal_at E pid led k = (case get_proposal_data E pid (key_info k) led of Inr p \<Rightarrow> Some p | Inl _ \<Rightarrow> None)"

definition governance_at :: "gov_env \<Rightarrow> pubkey \<Rightarrow> ledger \<Rightarrow> pubkey \<Rightarrow> GovernanceV2 option" where
  "governance_at E pid led k = (case get_governance_data E pid (key_info k) led of Inr g \<Rightarrow> Some g | Inl _ \<Rightarrow> None)"

definition is_proposal_type :: "GovernanceAccountType \<Rightarrow> bool" where
  "is_proposal_type t \<longleftrightarrow> t \<in> {ProposalV1, ProposalV2}"

lemma get_account_data_Inr [res_simps]:
  "get_account_data c is_init owner info led = Inr v \<longleftrightarrow>
     info_data led info \<noteq> [] \<and> info_owner led info = owner \<and> cd_read c (info_data led info) = Inr v \<and> is_init v"
  by (auto simp: get_account_data_def res_simps)

lemma get_account_data_eq:
  assumes "info_data led info = info_data led' info'" and "info_owner led info = info_owner led' info'"
  shows "get_account_data c is_init owner info led = get_account_data c is_init owner info' led'"
  by (simp add: get_account_data_def assms)

lemma get_proposal_data_eq:
  assumes "info_data led info = info_data led' info'" and "info_owner led info = info_owner led' info'"
  shows "get_proposal_data E pid info led = get_proposal_data E pid info' led'"
  by (simp only: get_proposal_data_def assms(1) get_account_data_eq [of led info led' info', OF assms])

lemma get_governance_data_eq:
  assumes "info_data led info = info_data led' info'" and "info_owner led info = info_owner led' info'"
  shows "get_governance_data E pid info led = get_governance_data E pid info' led'"
  by (simp only: get_governance_data_def assms(1) get_account_data_eq [of led info led' info', OF assms])

lemma proposal_at_eq: "proposal_at E pid led (ai_key info) = Some p \<longleftrightarrow> get_proposal_data E pid info led = Inr p"
  using get_proposal_data_eq [of led "key_info (ai_key info)" led info E pid]
  by (auto simp: proposal_at_def split: sum.splits)

lemma governance_at_eq: "governance_at E pid led (ai_key info) = Some g \<longleftrightarrow> get_governance_data E pid info led = Inr g"
  using get_governance_data_eq [of led "key_info (ai_key info)" led info E pid]
  by (auto simp: governance_at_def split: sum.splits)

lemma proposal_at_data:
  "acc_data (led k) = acc_data (led' k) \<Longrightarrow> acc_owner (led k) = acc_owner (led' k) \<Longrightarrow>
     proposal_at E pid led k = proposal_at E pid led' k"
  using get_proposal_data_eq [of led "key_info k" led' "key_info k" E pid] by (simp add: proposal_at_def)

lemma governance_at_data:
  "acc_data (led k) = acc_data (led' k) \<Longrightarrow> acc_owner (led k) = acc_owner (led' k) \<Longrightarrow>
     governance_at E pid led k = governance_at E pid led' k"
  using get_governance_data_eq [of led "key_info k" led' "key_info k" E pid] by (simp add: governance_at_def)

lemma get_proposal_data_Inr:
  "get_proposal_data E pid info led = Inr p \<longleftrightarrow>
     info_data led info \<noteq> [] \<and> info_owner led info = pid \<and>
     (\<exists>t. ge_account_type E (info_data led info) = Inr t \<and>
       (if t = ProposalV1
        then \<exists>v. cd_read (ge_ProposalV1 E) (info_data led info) = Inr v \<and> p1_account_type v = ProposalV1 \<and> p = ProposalV2_of v
        else cd_read (ge_ProposalV2 E) (info_data led info) = Inr p \<and> pr_account_type p = ProposalV2))"
  unfolding get_proposal_data_def by (auto simp: res_simps split: if_splits)

lemma get_governance_data_Inr:
  "get_governance_data E pid info led = Inr g \<longleftrightarrow>
     info_data led info \<noteq> [] \<and> info_owner led info = pid \<and>
     (\<exists>t. ge_account_type E (info_data led info) = Inr t \<and>
       (if is_governance_v1_account_type t
        then \<exists>v. cd_read (ge_GovernanceV1 E) (info_data led info) = Inr v \<and> is_governance_v1_account_type (gv_account_type v) \<and>
          g = GovernanceV1.extend (v\<lparr>gv_account_type := t,
            gv_config := coerce_legacy_thresholds (gv_config v)\<rparr>) (GovernanceV2.fields (replicate 128 0))
        else \<exists>v. cd_read (ge_GovernanceV2 E) (info_data led info) = Inr v \<and> is_governance_v2_account_type (gv_account_type v) \<and>
          g = v\<lparr>gv_config := coerce_legacy_thresholds (gv_config v)\<rparr>))"
  unfolding get_governance_data_def
  by (auto simp: res_simps GovernanceV1.defs GovernanceV2.defs split: if_splits)

lemma proposal_at_owned:
  assumes "proposal_at E pid led k = Some p"
  shows "acc_owner (led k) = pid" and "acc_data (led k) \<noteq> []"
  using assms proposal_at_eq [of E pid led "key_info k" p] by (simp_all add: get_proposal_data_Inr)

section \<open>The life of a proposal\<close>

primrec next_states :: "ProposalState \<Rightarrow> ProposalState set" where
  "next_states Draft = {SigningOff, Voting, Cancelled}"
| "next_states SigningOff = {Voting, Cancelled}"
| "next_states Voting = {Succeeded, Defeated, Completed, Vetoed, Cancelled}"
| "next_states Succeeded = {Executing, ExecutingWithErrors, Completed}"
| "next_states Executing = {ExecutingWithErrors, Completed}"
| "next_states ExecutingWithErrors = {Completed}"
| "next_states Completed = {}"
| "next_states Cancelled = {}"
| "next_states Defeated = {}"
| "next_states Vetoed = {}"

definition lifecycle :: "ProposalState \<Rightarrow> ProposalState \<Rightarrow> bool" where
  "lifecycle s s' \<longleftrightarrow> s' \<in> next_states s"

definition proposals_advance :: "gov_env \<Rightarrow> pubkey \<Rightarrow> ledger \<Rightarrow> ledger \<Rightarrow> bool" where
  "proposals_advance E pid led led' \<longleftrightarrow>
     (\<forall>k p. proposal_at E pid led k = Some p \<longrightarrow>
        (\<exists>p'. proposal_at E pid led' k = Some p' \<and> lifecycle\<^sup>*\<^sup>* (pr_state p) (pr_state p')))"

lemma proposals_advance_refl [simp]: "proposals_advance E pid led led"
  by (simp add: proposals_advance_def)

lemma proposals_advance_trans:
  assumes "proposals_advance E pid led l" and "proposals_advance E pid l led'"
  shows "proposals_advance E pid led led'"
  unfolding proposals_advance_def
proof (intro allI impI)
  fix k p
  assume "proposal_at E pid led k = Some p"
  with assms(1) obtain q where q: "proposal_at E pid l k = Some q" "lifecycle\<^sup>*\<^sup>* (pr_state p) (pr_state q)"
    unfolding proposals_advance_def by blast
  from assms(2) q(1) obtain p' where "proposal_at E pid led' k = Some p'" "lifecycle\<^sup>*\<^sup>* (pr_state q) (pr_state p')"
    unfolding proposals_advance_def by blast
  with q(2) show "\<exists>p'. proposal_at E pid led' k = Some p' \<and> lifecycle\<^sup>*\<^sup>* (pr_state p) (pr_state p')"
    by (blast intro: rtranclp_trans)
qed

section \<open>What is true of every proposal\<close>

text \<open>
  An option marked as succeeded reached the threshold recorded in the proposal, of the maximal weight
  recorded with it, and beat the rejections or has more than half of that weight.
\<close>

definition option_won :: "ProposalV2 \<Rightarrow> ProposalOption \<Rightarrow> bool" where
  "option_won p opt \<longleftrightarrow>
     (case (pr_max_vote_weight p, pr_vote_threshold p) of
        (Some m, Some t) \<Rightarrow> threshold_percentage_ok t \<and>
          (case get_min_vote_threshold_weight t m of
             Inr mw \<Rightarrow> mw \<le> po_vote_weight opt \<and>
               ((case pr_deny_vote_weight p of None \<Rightarrow> 0 | Some deny \<Rightarrow> deny) < po_vote_weight opt \<or>
                unat m < 2 * unat (po_vote_weight opt) \<or> m = 0)
           | Inl _ \<Rightarrow> False)
      | _ \<Rightarrow> False)"

definition undecided :: "ProposalState \<Rightarrow> bool" where
  "undecided s \<longleftrightarrow> s \<in> {Draft, SigningOff, Voting}"

definition in_execution :: "ProposalState \<Rightarrow> bool" where
  "in_execution s \<longleftrightarrow> s \<in> {Succeeded, Executing, ExecutingWithErrors}"

definition proposal_wf :: "ProposalV2 \<Rightarrow> bool" where
  "proposal_wf p \<longleftrightarrow>
     (pr_state p = Voting \<longrightarrow> pr_voting_at p \<noteq> None) \<and>
     (\<forall>opt \<in> set (pr_options p).
        (undecided (pr_state p) \<longrightarrow> po_vote_result opt = OptionNone) \<and>
        (po_vote_result opt = OptionSucceeded \<longrightarrow> option_won p opt)) \<and>
     (in_execution (pr_state p) \<longrightarrow>
        pr_deny_vote_weight p \<noteq> None \<and> pr_voting_completed_at p \<noteq> None \<and>
        (\<exists>opt \<in> set (pr_options p). po_vote_result opt = OptionSucceeded))"

definition config_thresholds_ok :: "GovernanceConfig \<Rightarrow> bool" where
  "config_thresholds_ok config \<longleftrightarrow>
     threshold_percentage_ok (gc_community_vote_threshold config) \<and>
     threshold_percentage_ok (gc_council_vote_threshold config) \<and>
     threshold_percentage_ok (gc_council_veto_vote_threshold config)"

definition account_good :: "gov_env \<Rightarrow> pubkey \<Rightarrow> ledger \<Rightarrow> pubkey \<Rightarrow> bool" where
  "account_good E pid led k \<longleftrightarrow>
     (\<forall>p. proposal_at E pid led k = Some p \<longrightarrow> pr_account_type p = ProposalV2 \<longrightarrow> proposal_wf p) \<and>
     (\<forall>g. governance_at E pid led k = Some g \<longrightarrow> config_thresholds_ok (gv_config g))"

definition ledger_good :: "gov_env \<Rightarrow> pubkey \<Rightarrow> ledger \<Rightarrow> bool" where
  "ledger_good E pid led \<longleftrightarrow> (\<forall>k. account_good E pid led k)"

lemma account_good_data:
  assumes "acc_data (led k) = acc_data (led' k)" and "acc_owner (led k) = acc_owner (led' k)"
  shows "account_good E pid led k \<longleftrightarrow> account_good E pid led' k"
  by (simp add: account_good_def proposal_at_data [of led k led', OF assms] governance_at_data [of led k led', OF assms])

section \<open>What a run does to the ledger\<close>

text \<open>
  The ledgers a handler goes through from \<open>led0\<close>: invocations of other programs, transfers of
  lamports, writes to accounts that hold no proposal, and writes of a proposal that was read before.
\<close>

inductive gov_reach :: "gov_env \<Rightarrow> pubkey \<Rightarrow> ledger \<Rightarrow> ledger \<Rightarrow> bool" for E pid led0 where
  start: "gov_reach E pid led0 led0"
| invoked: "gov_reach E pid led0 led \<Longrightarrow> rt_invoke_signed (ge_runtime E) pid ix infos seeds led = Inr led' \<Longrightarrow>
    gov_reach E pid led0 led'"
| paid: "gov_reach E pid led0 led \<Longrightarrow> gov_reach E pid led0 (set_lamports k n led)"
| written: "gov_reach E pid led0 led \<Longrightarrow> gov_reach E pid led0 l \<Longrightarrow> proposal_at E pid l k = None \<Longrightarrow>
    (ledger_good E pid l \<Longrightarrow> account_good E pid (set_data k bs led) k) \<Longrightarrow> gov_reach E pid led0 (set_data k bs led)"
| updated: "gov_reach E pid led0 led \<Longrightarrow> gov_reach E pid led0 l \<Longrightarrow> get_proposal_data E pid info l = Inr p \<Longrightarrow>
    pr_account_type p' = pr_account_type p \<Longrightarrow> lifecycle\<^sup>*\<^sup>* (pr_state p) (pr_state p') \<Longrightarrow>
    (ledger_good E pid l \<Longrightarrow> proposal_wf p \<Longrightarrow> proposal_wf p') \<Longrightarrow>
    ProposalV2_serialize E p' info led = Inr led' \<Longrightarrow> gov_reach E pid led0 led'"

locale gov_laws =
  fixes E :: gov_env and pid :: pubkey
  assumes borsh: "borsh_lawful E"
    and system: "system_lawful E pid"
begin

lemma codecs:
  "codec_lawful E (ge_RealmV1 E) rl_account_type" "codec_lawful E (ge_RealmV2 E) rl_account_type"
  "codec_lawful E (ge_RealmConfig E) rca_account_type"
  "codec_lawful E (ge_GovernanceV1 E) gv_account_type" "codec_lawful E (ge_GovernanceV2 E) gv_account_type"
  "codec_lawful E (ge_TokenOwnerRecordV1 E) to_account_type" "codec_lawful E (ge_TokenOwnerRecordV2 E) to_account_type"
  "codec_lawful E (ge_SignatoryRecordV1 E) sr_account_type" "codec_lawful E (ge_SignatoryRecordV2 E) sr_account_type"
  "codec_lawful E (ge_ProposalV1 E) p1_account_type" "codec_lawful E (ge_ProposalV2 E) pr_account_type"
  "codec_lawful E (ge_ProposalInstructionV1 E) pi_account_type"
  "codec_lawful E (ge_ProposalTransactionV2 E) pt_account_type"
  "codec_lawful E (ge_VoteRecordV1 E) vr1_account_type" "codec_lawful E (ge_VoteRecordV2 E) vr_account_type"
  "codec_lawful E (ge_ProgramMetadata E) pm_account_type"
  using borsh by (simp_all add: borsh_lawful_def)

lemma read_type: "codec_lawful E c f \<Longrightarrow> cd_read c bs = Inr v \<Longrightarrow> ge_account_type E bs = Inr (f v)"
  by (simp add: codec_lawful_def codec_typed_def)

lemma borsh_writeE:
  assumes "borsh_write c v info led = Inr led'" and "codec_lawful E c f"
  obtains bs where "led' = set_data (ai_key info) bs led" and "cd_read c bs = Inr v" and "ge_account_type E bs = Inr (f v)"
    and "length bs = length (info_data led info)"
proof -
  from assms(1) obtain ws where w: "cd_write c v = Inr ws" "length ws \<le> length (info_data led info)"
    and led': "led' = set_data (ai_key info) (ws @ drop (length ws) (info_data led info)) led"
    by (auto simp: borsh_write_def res_simps)
  have r: "cd_read c (ws @ drop (length ws) (info_data led info)) = Inr v"
    using assms(2) w(1) by (simp add: codec_lawful_def codec_roundtrip_def)
  from that [OF led' r read_type [OF assms(2) r]] w(2) show thesis by simp
qed

lemma proposal_at_type:
  assumes "proposal_at E pid led k = Some p"
  shows "ge_account_type E (acc_data (led k)) = Inr (pr_account_type p)" and "is_proposal_type (pr_account_type p)"
proof -
  have g: "get_proposal_data E pid (key_info k) led = Inr p" using assms proposal_at_eq [of E pid led "key_info k" p] by simp
  then obtain t where t: "ge_account_type E (acc_data (led k)) = Inr t"
    and c: "if t = ProposalV1
        then \<exists>v. cd_read (ge_ProposalV1 E) (acc_data (led k)) = Inr v \<and> p1_account_type v = ProposalV1 \<and> p = ProposalV2_of v
        else cd_read (ge_ProposalV2 E) (acc_data (led k)) = Inr p \<and> pr_account_type p = ProposalV2"
    unfolding get_proposal_data_Inr ai_key_key_info by blast
  show "ge_account_type E (acc_data (led k)) = Inr (pr_account_type p)"
    using t c read_type [OF codecs(11), of "acc_data (led k)" p] by (auto simp: ProposalV2_of_def split: if_splits)
  show "is_proposal_type (pr_account_type p)"
    using c by (auto simp: is_proposal_type_def ProposalV2_of_def split: if_splits)
qed

lemma governance_at_type:
  assumes "governance_at E pid led k = Some g"
  shows "ge_account_type E (acc_data (led k)) = Inr (gv_account_type g)" and "is_governance_account_type (gv_account_type g)"
proof -
  have g: "get_governance_data E pid (key_info k) led = Inr g" using assms governance_at_eq [of E pid led "key_info k" g] by simp
  then obtain t where t: "ge_account_type E (acc_data (led k)) = Inr t"
    and c: "if is_governance_v1_account_type t
        then \<exists>v. cd_read (ge_GovernanceV1 E) (acc_data (led k)) = Inr v \<and> is_governance_v1_account_type (gv_account_type v) \<and>
          g = GovernanceV1.extend (v\<lparr>gv_account_type := t,
            gv_config := coerce_legacy_thresholds (gv_config v)\<rparr>) (GovernanceV2.fields (replicate 128 0))
        else \<exists>v. cd_read (ge_GovernanceV2 E) (acc_data (led k)) = Inr v \<and> is_governance_v2_account_type (gv_account_type v) \<and>
          g = v\<lparr>gv_config := coerce_legacy_thresholds (gv_config v)\<rparr>"
    unfolding get_governance_data_Inr ai_key_key_info by blast
  show "ge_account_type E (acc_data (led k)) = Inr (gv_account_type g)"
    using t c read_type [OF codecs(5)] by (auto simp: GovernanceV1.defs GovernanceV2.defs split: if_splits)
  show "is_governance_account_type (gv_account_type g)"
    using c by (auto simp: is_governance_account_type_def GovernanceV1.defs GovernanceV2.defs split: if_splits)
qed

lemma other_type_not_proposal:
  "ge_account_type E (acc_data (led k)) = Inr t \<Longrightarrow> \<not> is_proposal_type t \<Longrightarrow> proposal_at E pid led k = None"
  using proposal_at_type [of led k] by (cases "proposal_at E pid led k") auto

lemma other_type_not_governance:
  "ge_account_type E (acc_data (led k)) = Inr t \<Longrightarrow> \<not> is_governance_account_type t \<Longrightarrow> governance_at E pid led k = None"
  using governance_at_type [of led k] by (cases "governance_at E pid led k") auto

lemma other_type_good:
  assumes "ge_account_type E bs = Inr t" and "\<not> is_proposal_type t" and "\<not> is_governance_account_type t"
  shows "account_good E pid (set_data k bs led) k"
  using assms other_type_not_proposal [of "set_data k bs led" k t] other_type_not_governance [of "set_data k bs led" k t]
  by (simp add: account_good_def)

end

context gov_laws
begin

lemma proposal_serializeE:
  assumes "ProposalV2_serialize E p info led = Inr led'" and "is_proposal_type (pr_account_type p)"
  obtains bs where "led' = set_data (ai_key info) bs led" and "ge_account_type E bs = Inr (pr_account_type p)"
    and "pr_account_type p = ProposalV2 \<Longrightarrow> cd_read (ge_ProposalV2 E) bs = Inr p"
    and "pr_account_type p = ProposalV1 \<Longrightarrow> \<exists>v. cd_read (ge_ProposalV1 E) bs = Inr v \<and> p1_account_type v = ProposalV1 \<and>
      p1_state v = pr_state p"
    and "length bs = length (info_data led info)"
proof (cases "pr_account_type p = ProposalV2")
  case True
  then have "borsh_write (ge_ProposalV2 E) p info led = Inr led'" using assms(1) by (simp add: ProposalV2_serialize_def)
  from borsh_writeE [OF this codecs(11)] show thesis using True that by auto
next
  case False
  then have t: "pr_account_type p = ProposalV1" using assms(2) by (simp add: is_proposal_type_def)
  then obtain yes deny where "borsh_write (ge_ProposalV1 E) (ProposalV1_of p yes deny) info led = Inr led'"
    using assms(1) False by (auto simp: ProposalV2_serialize_def res_simps split: list.splits option.splits)
  from borsh_writeE [OF this codecs(10)] obtain bs where bs: "led' = set_data (ai_key info) bs led"
    "cd_read (ge_ProposalV1 E) bs = Inr (ProposalV1_of p yes deny)" "ge_account_type E bs = Inr (p1_account_type (ProposalV1_of p yes deny))"
    "length bs = length (info_data led info)" .
  from bs(2,3) show thesis by (intro that [OF bs(1)]) (auto simp: ProposalV1_of_def t bs(4))
qed

lemma stored_proposal:
  assumes w: "ProposalV2_serialize E p info led = Inr led'" and t: "is_proposal_type (pr_account_type p)"
    and own: "info_owner led info = pid" and ne: "info_data led info \<noteq> []"
  shows "\<exists>q. proposal_at E pid led' (ai_key info) = Some q \<and> pr_state q = pr_state p"
proof -
  from w t obtain bs where bs: "led' = set_data (ai_key info) bs led" "ge_account_type E bs = Inr (pr_account_type p)"
    and v2: "pr_account_type p = ProposalV2 \<Longrightarrow> cd_read (ge_ProposalV2 E) bs = Inr p"
    and v1: "pr_account_type p = ProposalV1 \<Longrightarrow> \<exists>v. cd_read (ge_ProposalV1 E) bs = Inr v \<and> p1_account_type v = ProposalV1 \<and>
      p1_state v = pr_state p"
    and len: "length bs = length (info_data led info)" by (rule proposal_serializeE) blast
  have ne': "bs \<noteq> []" using len ne by auto
  have "\<exists>q. get_proposal_data E pid info led' = Inr q \<and> pr_state q = pr_state p"
  proof (cases "pr_account_type p = ProposalV2")
    case True
    then have "get_proposal_data E pid info led' = Inr p"
      using bs v2 own ne' by (simp add: get_proposal_data_Inr)
    then show ?thesis by blast
  next
    case False
    then have t1: "pr_account_type p = ProposalV1" using t by (simp add: is_proposal_type_def)
    with v1 obtain v where v: "cd_read (ge_ProposalV1 E) bs = Inr v" "p1_account_type v = ProposalV1" "p1_state v = pr_state p"
      by blast
    then have "get_proposal_data E pid info led' = Inr (ProposalV2_of v)"
      using bs own ne' t1 by (simp add: get_proposal_data_Inr)
    moreover have "pr_state (ProposalV2_of v) = pr_state p" using v(3) by (simp add: ProposalV2_of_def)
    ultimately show ?thesis by blast
  qed
  then show ?thesis by (simp add: proposal_at_eq)
qed

lemma stored_proposal_good:
  assumes w: "ProposalV2_serialize E p info led = Inr led'" and t: "is_proposal_type (pr_account_type p)"
    and wf: "pr_account_type p = ProposalV2 \<Longrightarrow> proposal_wf p"
  shows "account_good E pid led' (ai_key info)"
proof -
  from w t obtain bs where bs: "led' = set_data (ai_key info) bs led" "ge_account_type E bs = Inr (pr_account_type p)"
    and v2: "pr_account_type p = ProposalV2 \<Longrightarrow> cd_read (ge_ProposalV2 E) bs = Inr p"
    by (rule proposal_serializeE) blast
  have ty: "ge_account_type E (acc_data (led' (ai_key info))) = Inr (pr_account_type p)" using bs by simp
  have "\<not> is_governance_account_type (pr_account_type p)"
    using t by (auto simp: is_proposal_type_def is_governance_account_type_def is_governance_v1_account_type_def is_governance_v2_account_type_def)
  then have "governance_at E pid led' (ai_key info) = None" using other_type_not_governance [of led' "ai_key info", OF ty] by simp
  moreover have "proposal_wf q" if q: "proposal_at E pid led' (ai_key info) = Some q" "pr_account_type q = ProposalV2" for q
  proof -
    have pt: "pr_account_type p = ProposalV2" using proposal_at_type(1) [OF q(1)] ty q(2) by simp
    from q(1) have "get_proposal_data E pid info led' = Inr q" by (simp add: proposal_at_eq)
    then have "cd_read (ge_ProposalV2 E) bs = Inr q" using bs pt by (simp add: get_proposal_data_Inr)
    then have "q = p" using v2 [OF pt] by simp
    then show ?thesis using wf [OF pt] by simp
  qed
  ultimately show ?thesis by (simp add: account_good_def)
qed

end

text \<open>The laws, and an invocation that itself keeps the two relations.\<close>

locale gov_cpi = gov_laws +
  assumes cpi_advance: "rt_invoke_signed (ge_runtime E) pid ix infos seeds led = Inr led' \<Longrightarrow> proposals_advance E pid led led'"
    and cpi_good: "rt_invoke_signed (ge_runtime E) pid ix infos seeds led = Inr led' \<Longrightarrow> ledger_good E pid led \<Longrightarrow> ledger_good E pid led'"
begin

lemma reach_advance: "gov_reach E pid led0 led \<Longrightarrow> proposals_advance E pid led0 led"
proof (induction rule: gov_reach.induct)
  case start
  show ?case by simp
next
  case (invoked led ix infos seeds led')
  then show ?case by (blast intro: proposals_advance_trans cpi_advance)
next
  case (paid led k n)
  have "proposals_advance E pid led (set_lamports k n led)"
    using proposal_at_data [of led _ "set_lamports k n led"] by (simp add: proposals_advance_def)
  with paid.IH show ?case by (rule proposals_advance_trans)
next
  case (written led l k bs)
  show ?case
    unfolding proposals_advance_def
  proof (intro allI impI)
    fix j p
    assume j: "proposal_at E pid led0 j = Some p"
    with written.IH(2) have "j \<noteq> k" using written.hyps(3) unfolding proposals_advance_def by fastforce
    then have "proposal_at E pid (set_data k bs led) j = proposal_at E pid led j"
      by (intro proposal_at_data) simp_all
    with written.IH(1) j show "\<exists>p'. proposal_at E pid (set_data k bs led) j = Some p' \<and> lifecycle\<^sup>*\<^sup>* (pr_state p) (pr_state p')"
      unfolding proposals_advance_def by simp
  qed
next
  case (updated led l info p p' led')
  have pl: "proposal_at E pid l (ai_key info) = Some p" using updated.hyps by (simp add: proposal_at_eq)
  have ty: "is_proposal_type (pr_account_type p')" using proposal_at_type(2) [OF pl] updated.hyps by simp
  from updated.hyps(7) ty obtain bs where led': "led' = set_data (ai_key info) bs led" by (rule proposal_serializeE) blast
  show ?case
    unfolding proposals_advance_def
  proof (intro allI impI)
    fix j q
    assume j: "proposal_at E pid led0 j = Some q"
    from updated.IH(1) j obtain q1 where q1: "proposal_at E pid led j = Some q1" "lifecycle\<^sup>*\<^sup>* (pr_state q) (pr_state q1)"
      unfolding proposals_advance_def by blast
    show "\<exists>q'. proposal_at E pid led' j = Some q' \<and> lifecycle\<^sup>*\<^sup>* (pr_state q) (pr_state q')"
    proof (cases "j = ai_key info")
      case False
      then have "proposal_at E pid led' j = proposal_at E pid led j" unfolding led' by (intro proposal_at_data) simp_all
      then show ?thesis using q1 by simp
    next
      case True
      from updated.IH(2) j have "lifecycle\<^sup>*\<^sup>* (pr_state q) (pr_state p)"
        unfolding proposals_advance_def True using pl by (metis option.inject)
      then have s: "lifecycle\<^sup>*\<^sup>* (pr_state q) (pr_state p')" using updated.hyps(5) by (rule rtranclp_trans)
      from proposal_at_owned [OF q1(1)] True have "info_owner led info = pid" "info_data led info \<noteq> []" by simp_all
      from stored_proposal [OF updated.hyps(7) ty this] s True show ?thesis by metis
    qed
  qed
qed

lemma reach_good: "gov_reach E pid led0 led \<Longrightarrow> ledger_good E pid led0 \<Longrightarrow> ledger_good E pid led"
proof (induction rule: gov_reach.induct)
  case start
  then show ?case .
next
  case (invoked led ix infos seeds led')
  then show ?case by (blast intro: cpi_good)
next
  case (paid led k n)
  then show ?case using account_good_data [of led _ "set_lamports k n led" E pid] by (simp add: ledger_good_def)
next
  case (written led l k bs)
  have "account_good E pid (set_data k bs led) j" for j
  proof (cases "j = k")
    case True
    then show ?thesis using written by simp
  next
    case False
    then show ?thesis using written.IH(1) [OF written.prems] account_good_data [of led j "set_data k bs led" E pid]
      by (simp add: ledger_good_def)
  qed
  then show ?case by (simp add: ledger_good_def)
next
  case (updated led l info p p' led')
  have pl: "proposal_at E pid l (ai_key info) = Some p" using updated.hyps by (simp add: proposal_at_eq)
  have ty: "is_proposal_type (pr_account_type p')" using proposal_at_type(2) [OF pl] updated.hyps by simp
  from updated.hyps(7) ty obtain bs where led': "led' = set_data (ai_key info) bs led" by (rule proposal_serializeE) blast
  have gl: "ledger_good E pid l" using updated by blast
  have "proposal_wf p'" if "pr_account_type p' = ProposalV2"
    using updated.hyps(4,6) gl pl that by (auto simp: ledger_good_def account_good_def)
  then have k: "account_good E pid led' (ai_key info)" by (rule stored_proposal_good [OF updated.hyps(7) ty])
  have "account_good E pid led' j" if "j \<noteq> ai_key info" for j
    using updated.IH(1) [OF updated.prems] account_good_data [of led j led' E pid] that by (simp add: ledger_good_def led')
  with k show ?case unfolding ledger_good_def by metis
qed

end

end
