(* ===== verification/Governance_Runs.thy ===== *)
theory Governance_Runs
  imports Governance_Ledger
begin

text \<open>
  A run of a governance handler, write by write: reading an account fixes its kind, and writing it back
  keeps the kind, so no write to a realm, a record, a vote or a transaction ever touches a proposal,
  even if the caller passes the same account in several places.
\<close>

lemma non_target_types:
  "\<not> is_proposal_type RealmV1" "\<not> is_proposal_type RealmV2" "\<not> is_proposal_type RealmConfigType"
  "\<not> is_proposal_type TokenOwnerRecordV1" "\<not> is_proposal_type TokenOwnerRecordV2"
  "\<not> is_proposal_type SignatoryRecordV1" "\<not> is_proposal_type SignatoryRecordV2"
  "\<not> is_proposal_type ProposalInstructionV1" "\<not> is_proposal_type ProposalTransactionV2"
  "\<not> is_proposal_type VoteRecordV1" "\<not> is_proposal_type VoteRecordV2" "\<not> is_proposal_type ProgramMetadataType"
  "\<not> is_proposal_type UninitializedType" "is_proposal_type ProposalV1" "is_proposal_type ProposalV2"
  "\<not> is_governance_account_type RealmV1" "\<not> is_governance_account_type RealmV2" "\<not> is_governance_account_type RealmConfigType"
  "\<not> is_governance_account_type TokenOwnerRecordV1" "\<not> is_governance_account_type TokenOwnerRecordV2"
  "\<not> is_governance_account_type SignatoryRecordV1" "\<not> is_governance_account_type SignatoryRecordV2"
  "\<not> is_governance_account_type ProposalInstructionV1" "\<not> is_governance_account_type ProposalTransactionV2"
  "\<not> is_governance_account_type VoteRecordV1" "\<not> is_governance_account_type VoteRecordV2"
  "\<not> is_governance_account_type ProgramMetadataType" "\<not> is_governance_account_type UninitializedType"
  "\<not> is_governance_account_type ProposalV1" "\<not> is_governance_account_type ProposalV2"
  by (simp_all add: is_proposal_type_def is_governance_account_type_def is_governance_v1_account_type_def
      is_governance_v2_account_type_def)

lemma governance_type_not_proposal: "is_governance_account_type t \<Longrightarrow> \<not> is_proposal_type t"
  by (auto simp: is_proposal_type_def is_governance_account_type_def is_governance_v1_account_type_def
      is_governance_v2_account_type_def)

lemma empty_not_proposal: "acc_data (led k) = [] \<Longrightarrow> proposal_at E pid led k = None"
  using proposal_at_owned(2) [of E pid led k] by (cases "proposal_at E pid led k") auto

context gov_laws
begin

section \<open>Reading: what kind of account it is\<close>

lemma not_proposal_if:
  "ge_account_type E (info_data l info) = Inr t \<Longrightarrow> \<not> is_proposal_type t \<Longrightarrow> proposal_at E pid l (ai_key info) = None"
  using other_type_not_proposal [of l "ai_key info" t] by simp

lemma realm_read:
  assumes "get_realm_data E pid info l = Inr v"
  shows "ge_account_type E (info_data l info) = Inr (rl_account_type v)" and "rl_account_type v \<in> {RealmV1, RealmV2}"
  using assms read_type [OF codecs(2), of "info_data l info" v]
  by (auto simp: get_realm_data_def res_simps RealmV1.defs RealmV2.defs split: if_splits)

lemma tor_read:
  assumes "get_token_owner_record_data E pid info l = Inr v"
  shows "ge_account_type E (info_data l info) = Inr (to_account_type v)"
    and "to_account_type v \<in> {TokenOwnerRecordV1, TokenOwnerRecordV2}"
  using assms read_type [OF codecs(7), of "info_data l info" v]
  by (auto simp: get_token_owner_record_data_def res_simps TokenOwnerRecordV1.defs TokenOwnerRecordV2.defs split: if_splits)

lemma signatory_read:
  assumes "get_signatory_record_data E pid info l = Inr v"
  shows "ge_account_type E (info_data l info) = Inr (sr_account_type v)"
    and "sr_account_type v \<in> {SignatoryRecordV1, SignatoryRecordV2}"
  using assms read_type [OF codecs(9), of "info_data l info" v]
  by (auto simp: get_signatory_record_data_def res_simps SignatoryRecordV1.defs SignatoryRecordV2.defs split: if_splits)

lemma transaction_read:
  assumes "get_proposal_transaction_data E pid info l = Inr v"
  shows "ge_account_type E (info_data l info) = Inr (pt_account_type v)"
    and "pt_account_type v \<in> {ProposalInstructionV1, ProposalTransactionV2}"
  using assms read_type [OF codecs(13), of "info_data l info" v]
  by (auto simp: get_proposal_transaction_data_def res_simps split: if_splits)

lemma vote_record_read:
  assumes "get_vote_record_data E pid info l = Inr v"
  shows "ge_account_type E (info_data l info) = Inr (vr_account_type v)"
    and "vr_account_type v \<in> {VoteRecordV1, VoteRecordV2}"
  using assms read_type [OF codecs(15), of "info_data l info" v]
  by (auto simp: get_vote_record_data_def res_simps VoteRecordV2_of_def split: if_splits)

lemma realm_config_read:
  assumes "get_realm_config_data E pid info l = Inr v"
  shows "ge_account_type E (info_data l info) = Inr RealmConfigType" and "rca_account_type v = RealmConfigType"
  using assms read_type [OF codecs(3), of "info_data l info" v]
  by (auto simp: get_realm_config_data_def res_simps)

lemma metadata_read:
  assumes "get_program_metadata_data E pid info l = Inr v"
  shows "ge_account_type E (info_data l info) = Inr ProgramMetadataType" and "pm_account_type v = ProgramMetadataType"
  using assms read_type [OF codecs(16), of "info_data l info" v]
  by (auto simp: get_program_metadata_data_def res_simps)

lemma governance_read:
  assumes "get_governance_data E pid info l = Inr v"
  shows "ge_account_type E (info_data l info) = Inr (gv_account_type v)" and "is_governance_account_type (gv_account_type v)"
  using governance_at_type [of l "ai_key info" v] assms by (simp_all add: governance_at_eq)

section \<open>Writing accounts other than proposals\<close>

lemma other_write:
  assumes w: "borsh_write c v info led = Inr led'" and c: "codec_lawful E c f"
    and r: "gov_reach E pid led0 led" "gov_reach E pid led0 l" "proposal_at E pid l (ai_key info) = None"
    and t: "\<not> is_proposal_type (f v)" "\<not> is_governance_account_type (f v)"
  shows "gov_reach E pid led0 led'"
proof -
  from w c obtain bs where bs: "led' = set_data (ai_key info) bs led" "ge_account_type E bs = Inr (f v)"
    by (rule borsh_writeE) blast
  from r show ?thesis unfolding bs(1) by (rule gov_reach.written) (rule other_type_good [OF bs(2) t])
qed

lemma realm_write:
  assumes "gov_reach E pid led0 l" "get_realm_data E pid info l = Inr v" "rl_account_type v' = rl_account_type v"
    "gov_reach E pid led0 led" "RealmV2_serialize E v' info led = Inr led'"
  shows "gov_reach E pid led0 led'"
proof -
  have t: "rl_account_type v' \<in> {RealmV1, RealmV2}" using realm_read(2) [OF assms(2)] assms(3) by simp
  have n: "proposal_at E pid l (ai_key info) = None"
    using not_proposal_if [of l info, OF realm_read(1) [OF assms(2)]] t assms(3) by (auto simp: non_target_types)
  from assms(5) t consider (v2) "borsh_write (ge_RealmV2 E) v' info led = Inr led'"
    | (v1) "borsh_write (ge_RealmV1 E) (RealmV1.truncate v') info led = Inr led'"
    by (auto simp: RealmV2_serialize_def split: if_splits)
  then show ?thesis
    by cases (rule other_write [OF _ _ assms(4,1) n], assumption, rule codecs, use t in \<open>auto simp: non_target_types RealmV1.defs\<close>)+
qed

lemma tor_write:
  assumes "gov_reach E pid led0 l" "get_token_owner_record_data E pid info l = Inr v" "to_account_type v' = to_account_type v"
    "gov_reach E pid led0 led" "TokenOwnerRecordV2_serialize E v' info led = Inr led'"
  shows "gov_reach E pid led0 led'"
proof -
  have t: "to_account_type v' \<in> {TokenOwnerRecordV1, TokenOwnerRecordV2}" using tor_read(2) [OF assms(2)] assms(3) by simp
  have n: "proposal_at E pid l (ai_key info) = None"
    using not_proposal_if [of l info, OF tor_read(1) [OF assms(2)]] t assms(3) by (auto simp: non_target_types)
  from assms(5) t consider (v2) "borsh_write (ge_TokenOwnerRecordV2 E) v' info led = Inr led'"
    | (v1) "borsh_write (ge_TokenOwnerRecordV1 E) (TokenOwnerRecordV1.truncate v') info led = Inr led'"
    by (auto simp: TokenOwnerRecordV2_serialize_def split: if_splits)
  then show ?thesis
    by cases (rule other_write [OF _ _ assms(4,1) n], assumption, rule codecs, use t in \<open>auto simp: non_target_types TokenOwnerRecordV1.defs\<close>)+
qed

lemma signatory_write:
  assumes "gov_reach E pid led0 l" "get_signatory_record_data E pid info l = Inr v" "sr_account_type v' = sr_account_type v"
    "gov_reach E pid led0 led" "SignatoryRecordV2_serialize E v' info led = Inr led'"
  shows "gov_reach E pid led0 led'"
proof -
  have t: "sr_account_type v' \<in> {SignatoryRecordV1, SignatoryRecordV2}" using signatory_read(2) [OF assms(2)] assms(3) by simp
  have n: "proposal_at E pid l (ai_key info) = None"
    using not_proposal_if [of l info, OF signatory_read(1) [OF assms(2)]] t assms(3) by (auto simp: non_target_types)
  from assms(5) t consider (v2) "borsh_write (ge_SignatoryRecordV2 E) v' info led = Inr led'"
    | (v1) "borsh_write (ge_SignatoryRecordV1 E) (SignatoryRecordV1.truncate v') info led = Inr led'"
    by (auto simp: SignatoryRecordV2_serialize_def split: if_splits)
  then show ?thesis
    by cases (rule other_write [OF _ _ assms(4,1) n], assumption, rule codecs, use t in \<open>auto simp: non_target_types SignatoryRecordV1.defs\<close>)+
qed

lemma transaction_write:
  assumes "gov_reach E pid led0 l" "get_proposal_transaction_data E pid info l = Inr v" "pt_account_type v' = pt_account_type v"
    "gov_reach E pid led0 led" "ProposalTransactionV2_serialize E v' info led = Inr led'"
  shows "gov_reach E pid led0 led'"
proof -
  have t: "pt_account_type v' \<in> {ProposalInstructionV1, ProposalTransactionV2}"
    using transaction_read(2) [OF assms(2)] assms(3) by simp
  have n: "proposal_at E pid l (ai_key info) = None"
    using not_proposal_if [of l info, OF transaction_read(1) [OF assms(2)]] t assms(3) by (auto simp: non_target_types)
  from assms(5) t consider (v2) "borsh_write (ge_ProposalTransactionV2 E) v' info led = Inr led'"
    | (v1) w where "borsh_write (ge_ProposalInstructionV1 E) w info led = Inr led'" "pi_account_type w = ProposalInstructionV1"
    by (auto simp: ProposalTransactionV2_serialize_def split: if_splits list.splits)
  then show ?thesis
  proof cases
    case v2
    show ?thesis by (rule other_write [OF v2 codecs(13) assms(4,1) n]) (use t in \<open>auto simp: non_target_types\<close>)
  next
    case v1
    show ?thesis by (rule other_write [OF v1(1) codecs(12) assms(4,1) n]) (simp_all add: v1(2) non_target_types)
  qed
qed

lemma vote_record_write:
  assumes "gov_reach E pid led0 l" "get_vote_record_data E pid info l = Inr v" "vr_account_type v' = vr_account_type v"
    "gov_reach E pid led0 led" "VoteRecordV2_serialize E v' info led = Inr led'"
  shows "gov_reach E pid led0 led'"
proof -
  have t: "vr_account_type v' \<in> {VoteRecordV1, VoteRecordV2}" using vote_record_read(2) [OF assms(2)] assms(3) by simp
  have n: "proposal_at E pid l (ai_key info) = None"
    using not_proposal_if [of l info, OF vote_record_read(1) [OF assms(2)]] t assms(3) by (auto simp: non_target_types)
  from assms(5) t consider (v2) "borsh_write (ge_VoteRecordV2 E) v' info led = Inr led'"
    | (v1) w where "borsh_write (ge_VoteRecordV1 E) w info led = Inr led'" "vr1_account_type w = VoteRecordV1"
    by (auto simp: VoteRecordV2_serialize_def res_simps split: if_splits)
  then show ?thesis
  proof cases
    case v2
    show ?thesis by (rule other_write [OF v2 codecs(15) assms(4,1) n]) (use t in \<open>auto simp: non_target_types\<close>)
  next
    case v1
    show ?thesis by (rule other_write [OF v1(1) codecs(14) assms(4,1) n]) (simp_all add: v1(2) non_target_types)
  qed
qed

lemma realm_config_write:
  assumes "gov_reach E pid led0 l" "get_realm_config_data E pid info l = Inr v" "rca_account_type v' = rca_account_type v"
    "gov_reach E pid led0 led" "RealmConfig_serialize E v' info led = Inr led'"
  shows "gov_reach E pid led0 led'"
proof -
  have t: "rca_account_type v' = RealmConfigType" using realm_config_read(2) [OF assms(2)] assms(3) by simp
  have n: "proposal_at E pid l (ai_key info) = None"
    using not_proposal_if [of l info, OF realm_config_read(1) [OF assms(2)]] by (simp add: non_target_types)
  show ?thesis
    by (rule other_write [OF assms(5) [unfolded RealmConfig_serialize_def] codecs(3) assms(4,1) n]) (simp_all add: t non_target_types)
qed

lemma metadata_write:
  assumes "gov_reach E pid led0 l" "get_program_metadata_data E pid info l = Inr v" "pm_account_type v' = pm_account_type v"
    "gov_reach E pid led0 led" "borsh_write (ge_ProgramMetadata E) v' info led = Inr led'"
  shows "gov_reach E pid led0 led'"
proof -
  have t: "pm_account_type v' = ProgramMetadataType" using metadata_read(2) [OF assms(2)] assms(3) by simp
  have n: "proposal_at E pid l (ai_key info) = None"
    using not_proposal_if [of l info, OF metadata_read(1) [OF assms(2)]] by (simp add: non_target_types)
  show ?thesis by (rule other_write [OF assms(5) codecs(16) assms(4,1) n]) (simp_all add: t non_target_types)
qed

end

end
