(* ===== verification/Governance_Creation.thy ===== *)
theory Governance_Creation
  imports Governance_Runs
begin

text \<open>
  Writing governances, creating accounts through the system program and disposing them.  A new account
  had no data before, so it held no proposal; a disposed one holds zeroes, which are no account type.
\<close>

lemma coerced_thresholds_ok: "config_thresholds_ok config \<Longrightarrow> config_thresholds_ok (coerce_legacy_thresholds config)"
  by (simp add: coerce_legacy_thresholds_def config_thresholds_ok_def)

lemma governance_versions_disjoint: "is_governance_v2_account_type t \<Longrightarrow> \<not> is_governance_v1_account_type t"
  by (auto simp: is_governance_v1_account_type_def is_governance_v2_account_type_def)

context gov_laws
begin

section \<open>Governances\<close>

lemma stored_governance_good:
  assumes ty: "ge_account_type E bs = Inr t" and gt: "is_governance_account_type t"
    and r: "\<And>h. get_governance_data E pid (key_info k) (set_data k bs led) = Inr h \<Longrightarrow> gv_config h = coerce_legacy_thresholds config"
    and ok: "config_thresholds_ok config"
  shows "account_good E pid (set_data k bs led) k"
proof -
  let ?l = "set_data k bs led"
  have "ge_account_type E (acc_data (?l k)) = Inr t" using ty by simp
  then have "proposal_at E pid ?l k = None"
    using other_type_not_proposal [of ?l k t] governance_type_not_proposal [OF gt] by simp
  moreover have "config_thresholds_ok (gv_config h)" if "governance_at E pid ?l k = Some h" for h
  proof -
    from that have "get_governance_data E pid (key_info k) ?l = Inr h" using governance_at_eq [of E pid ?l "key_info k" h] by simp
    then show ?thesis using coerced_thresholds_ok [OF ok] by (simp add: r)
  qed
  ultimately show ?thesis by (simp add: account_good_def)
qed

lemma stored_governance_v2:
  assumes "cd_read (ge_GovernanceV2 E) bs = Inr v" and "is_governance_v2_account_type (gv_account_type v)"
    and "config_thresholds_ok (gv_config v)"
  shows "account_good E pid (set_data k bs led) k"
proof (rule stored_governance_good)
  show ty: "ge_account_type E bs = Inr (gv_account_type v)" by (rule read_type [OF codecs(5) assms(1)])
  show "is_governance_account_type (gv_account_type v)" using assms(2) by (simp add: is_governance_account_type_def)
  show "gv_config h = coerce_legacy_thresholds (gv_config v)"
    if "get_governance_data E pid (key_info k) (set_data k bs led) = Inr h" for h
    using that ty assms(1) governance_versions_disjoint [OF assms(2)] by (simp add: get_governance_data_Inr)
qed (rule assms(3))

lemma stored_governance_v1:
  assumes "cd_read (ge_GovernanceV1 E) bs = Inr v" and "is_governance_v1_account_type (gv_account_type v)"
    and "config_thresholds_ok (gv_config v)"
  shows "account_good E pid (set_data k bs led) k"
proof (rule stored_governance_good)
  show ty: "ge_account_type E bs = Inr (gv_account_type v)" by (rule read_type [OF codecs(4) assms(1)])
  show "is_governance_account_type (gv_account_type v)" using assms(2) by (simp add: is_governance_account_type_def)
  show "gv_config h = coerce_legacy_thresholds (gv_config v)"
    if "get_governance_data E pid (key_info k) (set_data k bs led) = Inr h" for h
    using that ty assms(1,2) by (auto simp: get_governance_data_Inr GovernanceV1.defs GovernanceV2.defs)
qed (rule assms(3))

lemma governance_write:
  assumes "gov_reach E pid led0 l" "get_governance_data E pid info l = Inr v" "gv_account_type v' = gv_account_type v"
    "gv_config v' = gv_config v \<or> config_thresholds_ok (gv_config v')"
    "gov_reach E pid led0 led" "GovernanceV2_serialize E v' info led = Inr led'"
  shows "gov_reach E pid led0 led'"
proof -
  note rd = governance_read [OF assms(2)]
  have n: "proposal_at E pid l (ai_key info) = None"
    using not_proposal_if [of l info, OF rd(1)] governance_type_not_proposal [OF rd(2)] by simp
  have t: "is_governance_account_type (gv_account_type v')" using rd(2) assms(3) by simp
  have "governance_at E pid l (ai_key info) = Some v" using assms(2) by (simp add: governance_at_eq)
  then have ok: "config_thresholds_ok (gv_config v')" if "ledger_good E pid l"
    using assms(4) that by (auto simp: ledger_good_def account_good_def)
  show ?thesis
  proof (cases "is_governance_v2_account_type (gv_account_type v')")
    case True
    then have "borsh_write (ge_GovernanceV2 E) v' info led = Inr led'" using assms(6) by (simp add: GovernanceV2_serialize_def)
    then obtain bs where bs: "led' = set_data (ai_key info) bs led" "cd_read (ge_GovernanceV2 E) bs = Inr v'"
      by (rule borsh_writeE [OF _ codecs(5)]) blast
    from assms(5,1) n show ?thesis unfolding bs(1)
      by (rule gov_reach.written) (rule stored_governance_v2 [OF bs(2) True ok])
  next
    case False
    then have v1: "is_governance_v1_account_type (gv_account_type v')" using t by (simp add: is_governance_account_type_def)
    then have "borsh_write (ge_GovernanceV1 E) (GovernanceV1.truncate v') info led = Inr led'"
      using assms(6) False by (simp add: GovernanceV2_serialize_def split: if_splits)
    then obtain bs where bs: "led' = set_data (ai_key info) bs led" "cd_read (ge_GovernanceV1 E) bs = Inr (GovernanceV1.truncate v')"
      by (rule borsh_writeE [OF _ codecs(4)]) blast
    from assms(5,1) n show ?thesis unfolding bs(1)
      by (rule gov_reach.written) (rule stored_governance_v1 [OF bs(2)], simp_all add: GovernanceV1.defs v1 ok)
  qed
qed

section \<open>Creating and disposing accounts\<close>

lemma zeroed_good:
  "account_good E pid (set_data k (replicate n 0) led) k"
proof -
  let ?l = "set_data k (replicate n 0) led"
  have ty: "ge_account_type E (replicate n 0) \<in> {Inr UninitializedType, Inl BorshIoError}" using borsh by (simp add: borsh_lawful_def)
  then have "proposal_at E pid ?l k = None"
    using proposal_at_type [of ?l k] by (cases "proposal_at E pid ?l k") (auto simp: is_proposal_type_def)
  moreover have "governance_at E pid ?l k = None"
    using ty governance_at_type [of ?l k] by (cases "governance_at E pid ?l k") (auto simp: non_target_types)
  ultimately show ?thesis by (simp add: account_good_def)
qed

lemma dispose_reach:
  assumes "gov_reach E pid led0 led" "gov_reach E pid led0 l" "proposal_at E pid l (ai_key info) = None"
    "dispose_account info beneficiary led = Inr led'"
  shows "gov_reach E pid led0 led'"
proof -
  from assms(4) obtain total where led': "led' = set_data (ai_key info) (replicate (length (info_data led info)) 0)
      (set_lamports (ai_key beneficiary) total (set_lamports (ai_key info) 0 led))"
    by (auto simp: dispose_account_def Let_def res_simps)
  show ?thesis unfolding led'
    by (rule gov_reach.written [OF _ assms(2,3) zeroed_good]) (intro gov_reach.paid assms(1))
qed

lemma write_createdE:
  assumes "account_size_and_data c max_size v = Inr (serialized, n)" "write_created_account c serialized n v info led = Inr led'"
    and "codec_lawful E c f"
  obtains (none) "led' = led" "max_size = Some 0" | (data) bs where "led' = set_data (ai_key info) bs led" "cd_read c bs = Inr v"
proof (cases max_size)
  case None
  then obtain bs where bs: "cd_write c v = Inr bs" "serialized = Some bs" using assms(1) by (auto simp: account_size_and_data_def res_simps)
  have "cd_read c (bs @ []) = Inr v" using assms(3) bs(1) by (simp only: codec_lawful_def codec_roundtrip_def)
  then have "cd_read c bs = Inr v" by simp
  moreover have "led' = set_data (ai_key info) bs led" using assms(2) bs by (simp add: write_created_account_def split: if_splits)
  ultimately show thesis by (rule data [rotated])
next
  case (Some m)
  then have s: "serialized = None" "n = m" using assms(1) by (auto simp: account_size_and_data_def)
  show thesis
  proof (cases "m = 0")
    case True
    then show thesis using none assms(2) s Some by (simp add: write_created_account_def)
  next
    case False
    then have "borsh_write c v info led = Inr led'" using assms(2) s by (simp add: write_created_account_def)
    from borsh_writeE [OF this assms(3)] show thesis using data by blast
  qed
qed

text \<open>Everything before the data is written is done by invocations, and the account had no data at some point.\<close>

lemma create_invocations:
  assumes "create_and_serialize_account_with_owner_signed E c max_size payer info v seeds pid owner system rent led = Inr led'"
    and r: "gov_reach E pid led0 led"
  obtains l led1 serialized n where "gov_reach E pid led0 l" "acc_data (l (ai_key info)) = []" "gov_reach E pid led0 led1"
    "account_size_and_data c max_size v = Inr (serialized, n)" "write_created_account c serialized n v info led1 = Inr led'"
proof -
  obtain bump where f: "rt_find_program_address (ge_runtime E) seeds pid = (ai_key info, bump)"
    using assms(1) by (auto simp: create_and_serialize_account_with_owner_signed_def Let_def split: prod.splits if_splits)
  from assms(1) obtain serialized n led1 where
    sz: "account_size_and_data c max_size v = Inr (serialized, n)" and
    w: "write_created_account c serialized n v info led1 = Inr led'" and
    inv: "(if info_lamports led info > 0 then
             let top_up_lamports = saturating_sub (max (rent_minimum_balance rent n) 1) (info_lamports led info) in
             attempt
               (if top_up_lamports > 0
                then rt_invoke_signed (ge_runtime E) pid (ge_system_transfer E (ai_key payer) (ai_key info) top_up_lamports)
                       [payer, info, system] [] led
                else Inr led) (\<lambda>led1.
             attempt (rt_invoke_signed (ge_runtime E) pid (ge_system_allocate E (ai_key info) (of_nat n))
               [info, system] [seeds @ [[bump]]] led1) (\<lambda>led2.
             rt_invoke_signed (ge_runtime E) pid (ge_system_assign E (ai_key info) owner)
               [info, system] [seeds @ [[bump]]] led2))
           else
             rt_invoke_signed (ge_runtime E) pid
               (ge_system_create_account E (ai_key payer) (ai_key info) (max (rent_minimum_balance rent n) 1) (of_nat n) owner)
               [payer, info, system] [seeds @ [[bump]]] led) = Inr led1"
    by (auto simp: create_and_serialize_account_with_owner_signed_def Let_def f elim!: attempt_eq_InrE)
  show thesis
  proof (cases "info_lamports led info > 0")
    case True
    with inv obtain la lb where
      a: "(if 0 < saturating_sub (max (rent_minimum_balance rent n) 1) (info_lamports led info)
        then rt_invoke_signed (ge_runtime E) pid (ge_system_transfer E (ai_key payer) (ai_key info)
          (saturating_sub (max (rent_minimum_balance rent n) 1) (info_lamports led info))) [payer, info, system] [] led
        else Inr led) = Inr la"
      and b: "rt_invoke_signed (ge_runtime E) pid (ge_system_allocate E (ai_key info) (of_nat n))
        [info, system] [seeds @ [[bump]]] la = Inr lb"
      and c: "rt_invoke_signed (ge_runtime E) pid (ge_system_assign E (ai_key info) owner)
        [info, system] [seeds @ [[bump]]] lb = Inr led1"
      by (simp add: Let_def) (elim peel, blast)
    have ra: "gov_reach E pid led0 la" using a r by (auto split: if_splits intro: gov_reach.invoked)
    have "acc_data (la (ai_key info)) = []" using system b unfolding system_lawful_def by blast
    with ra show thesis
      by (rule that) (rule gov_reach.invoked [OF gov_reach.invoked [OF ra b] c], rule sz, rule w)
  next
    case False
    with inv have c: "rt_invoke_signed (ge_runtime E) pid
        (ge_system_create_account E (ai_key payer) (ai_key info) (max (rent_minimum_balance rent n) 1) (of_nat n) owner)
        [payer, info, system] [seeds @ [[bump]]] led = Inr led1" by simp
    have "acc_data (led (ai_key info)) = []" using system c unfolding system_lawful_def by blast
    with r show thesis by (rule that) (rule gov_reach.invoked [OF r c], rule sz, rule w)
  qed
qed

lemma create_empty_reach:
  assumes "create_and_serialize_account_with_owner_signed E c (Some 0) payer info v seeds pid owner system rent led = Inr led'"
    and "gov_reach E pid led0 led"
  shows "gov_reach E pid led0 led'"
proof -
  from assms obtain l led1 serialized n where "gov_reach E pid led0 led1"
    and "account_size_and_data c (Some 0) v = Inr (serialized, n)" "write_created_account c serialized n v info led1 = Inr led'"
    by (rule create_invocations)
  then show ?thesis by (auto simp: account_size_and_data_def write_created_account_def)
qed

lemma create_with_owner_reach:
  assumes "create_and_serialize_account_with_owner_signed E c max_size payer info v seeds pid owner system rent led = Inr led'"
    and "gov_reach E pid led0 led" and c: "codec_lawful E c f"
    and good: "\<And>bs led. cd_read c bs = Inr v \<Longrightarrow> account_good E pid (set_data (ai_key info) bs led) (ai_key info)"
  shows "gov_reach E pid led0 led'"
proof -
  from assms(1,2) obtain l led1 serialized n where l: "gov_reach E pid led0 l" "acc_data (l (ai_key info)) = []"
    and r: "gov_reach E pid led0 led1"
    and s: "account_size_and_data c max_size v = Inr (serialized, n)" "write_created_account c serialized n v info led1 = Inr led'"
    by (rule create_invocations)
  from s c show ?thesis
  proof (cases rule: write_createdE)
    case none
    then show ?thesis using r by simp
  next
    case (data bs)
    from r l(1) empty_not_proposal [of l, OF l(2)] show ?thesis unfolding data(1)
      by (rule gov_reach.written) (rule good [OF data(2)])
  qed
qed

lemma create_other:
  assumes "create_and_serialize_account_signed E c max_size payer info v seeds pid system rent led = Inr led'"
    and "gov_reach E pid led0 led" and "codec_lawful E c f"
    and "\<not> is_proposal_type (f v)" and "\<not> is_governance_account_type (f v)"
  shows "gov_reach E pid led0 led'"
  using assms(1,2) unfolding create_and_serialize_account_signed_def
  by (rule create_with_owner_reach [OF _ _ assms(3)]) (rule other_type_good [OF _ assms(4,5)], rule read_type [OF assms(3)])

end

end
