(* ===== verification/Governance_Transitions.thy ===== *)
theory Governance_Transitions
  imports Governance_Creation
begin

text \<open>
  What the operations on a proposal do to it, apart from where it is stored: its state only moves along
  the life cycle, and what is recorded of its result stays true.
\<close>

section \<open>Steps of a proposal\<close>

definition proposal_step :: "bool \<Rightarrow> ProposalV2 \<Rightarrow> ProposalV2 \<Rightarrow> bool" where
  "proposal_step good p p' \<longleftrightarrow>
     pr_account_type p' = pr_account_type p \<and> lifecycle\<^sup>*\<^sup>* (pr_state p) (pr_state p') \<and>
     (good \<longrightarrow> proposal_wf p \<longrightarrow> proposal_wf p')"

lemma lifecycle_step: "s' = s \<or> s' \<in> next_states s \<Longrightarrow> lifecycle\<^sup>*\<^sup>* s s'"
  by (auto simp: lifecycle_def)

lemma proposal_wf_undecided:
  assumes "proposal_wf p" and "undecided (pr_state p)" and "map po_vote_result (pr_options p') = map po_vote_result (pr_options p)"
    and "undecided (pr_state p') \<or> pr_state p' \<in> {Cancelled, Vetoed}"
    and "pr_state p' = Voting \<Longrightarrow> pr_voting_at p' \<noteq> None"
  shows "proposal_wf p'"
proof -
  have none: "po_vote_result opt = OptionNone" if "opt \<in> set (pr_options p)" for opt
    using assms(1,2) that unfolding proposal_wf_def by blast
  have "set (map po_vote_result (pr_options p')) \<subseteq> {OptionNone}" unfolding assms(3) using none by auto
  then have n: "po_vote_result opt = OptionNone" if "opt \<in> set (pr_options p')" for opt using that by auto
  have "\<not> in_execution (pr_state p')" using assms(4) by (auto simp: undecided_def in_execution_def)
  then show ?thesis unfolding proposal_wf_def using assms(5) n by simp
qed

lemma proposal_wf_executing:
  assumes "proposal_wf p" and "in_execution (pr_state p)" and "in_execution (pr_state p') \<or> pr_state p' = Completed"
    and opts: "map (\<lambda>opt. (po_vote_weight opt, po_vote_result opt)) (pr_options p') =
      map (\<lambda>opt. (po_vote_weight opt, po_vote_result opt)) (pr_options p)"
    and same: "pr_deny_vote_weight p' = pr_deny_vote_weight p" "pr_voting_completed_at p' = pr_voting_completed_at p"
      "pr_max_vote_weight p' = pr_max_vote_weight p" "pr_vote_threshold p' = pr_vote_threshold p"
  shows "proposal_wf p'"
proof -
  have won: "option_won p' opt \<longleftrightarrow> option_won p opt'" if "po_vote_weight opt = po_vote_weight opt'" for opt opt'
    unfolding option_won_def same that by (rule refl)
  have origin: "\<exists>opt' \<in> set (pr_options p). po_vote_weight opt' = po_vote_weight opt \<and> po_vote_result opt' = po_vote_result opt"
    if "opt \<in> set (pr_options p')" for opt
  proof -
    have "(po_vote_weight opt, po_vote_result opt) \<in> set (map (\<lambda>opt. (po_vote_weight opt, po_vote_result opt)) (pr_options p'))"
      using that by auto
    then show ?thesis unfolding opts by auto
  qed
  have forth: "\<exists>opt' \<in> set (pr_options p'). po_vote_result opt' = po_vote_result opt" if "opt \<in> set (pr_options p)" for opt
  proof -
    have "(po_vote_weight opt, po_vote_result opt) \<in> set (map (\<lambda>opt. (po_vote_weight opt, po_vote_result opt)) (pr_options p))"
      using that by auto
    then show ?thesis unfolding opts [symmetric] by auto
  qed
  have nu: "\<not> undecided (pr_state p')" "pr_state p' \<noteq> Voting" using assms(3) by (auto simp: undecided_def in_execution_def)
  have w: "option_won p' opt" if "opt \<in> set (pr_options p')" "po_vote_result opt = OptionSucceeded" for opt
  proof -
    from origin [OF that(1)] obtain opt' where o: "opt' \<in> set (pr_options p)" "po_vote_weight opt' = po_vote_weight opt"
      "po_vote_result opt' = po_vote_result opt" by blast
    then have "option_won p opt'" using assms(1) that(2) unfolding proposal_wf_def by simp
    then show ?thesis using won [of opt opt'] o(2) by simp
  qed
  obtain opt where "opt \<in> set (pr_options p)" "po_vote_result opt = OptionSucceeded"
    "pr_deny_vote_weight p \<noteq> None" "pr_voting_completed_at p \<noteq> None"
    using assms(1,2) unfolding proposal_wf_def by blast
  with forth same have "\<exists>opt \<in> set (pr_options p'). po_vote_result opt = OptionSucceeded"
    "pr_deny_vote_weight p' \<noteq> None" "pr_voting_completed_at p' \<noteq> None" by (metis, simp_all)
  then show ?thesis unfolding proposal_wf_def using nu w by simp
qed

section \<open>Drafts\<close>

lemma draft_states:
  "assert_can_edit_signatories p = Inr u \<Longrightarrow> pr_state p = Draft"
  "assert_can_edit_instructions p = Inr u \<Longrightarrow> pr_state p = Draft"
  by (auto simp: assert_can_edit_signatories_def assert_can_edit_instructions_def assert_is_draft_state_def is_ok_def map_err_def
      split: if_splits)

lemma draft_step:
  assumes "undecided (pr_state p)" and "pr_account_type p' = pr_account_type p" and "pr_state p' = pr_state p"
    and "map po_vote_result (pr_options p') = map po_vote_result (pr_options p)" and "pr_voting_at p' = pr_voting_at p"
  shows "proposal_step good p p'"
proof -
  have "pr_voting_at p' \<noteq> None" if "proposal_wf p" "pr_state p' = Voting"
    using that assms(3,5) unfolding proposal_wf_def by simp
  then have "proposal_wf p'" if "proposal_wf p"
    using proposal_wf_undecided [OF that assms(1,4)] assms(1,3) that by simp
  then show ?thesis using assms(2,3) by (simp add: proposal_step_def)
qed

lemma set_option_results:
  assumes "option_at p i = Inr opt" and "f opt' = f opt"
  shows "map f (pr_options (set_option p i opt')) = map f (pr_options p)"
proof -
  from assms(1) have i: "unat i < length (pr_options p)" "opt = pr_options p ! unat i" by (auto simp: option_at_def split: if_splits)
  then have "(map f (pr_options p))[unat i := f opt] = map f (pr_options p)"
    using list_update_id [of "map f (pr_options p)" "unat i"] by simp
  then show ?thesis by (simp add: set_option_def map_update assms(2))
qed

lemma sign_off_step:
  assumes "pr_state p \<in> {Draft, SigningOff}"
  shows "proposal_step good p (start_voting_if_signed (p\<lparr>pr_signing_off_at := t\<rparr>) clock)"
    and "proposal_step good p (start_voting_if_signed
      ((if c then p\<lparr>pr_signing_off_at := t, pr_state := SigningOff\<rparr> else p)\<lparr>pr_signatories_signed_off_count := n\<rparr>) clock)"
  unfolding proposal_step_def using assms
  by (auto simp: start_voting_if_signed_def undecided_def intro!: lifecycle_step elim!: proposal_wf_undecided)

lemma cancel_step:
  assumes "assert_can_cancel p config now = Inr u"
  shows "proposal_step good p (p\<lparr>pr_state := Cancelled, pr_closed_at := t\<rparr>)"
  unfolding proposal_step_def using assms
  by (auto simp: assert_can_cancel_def undecided_def intro!: lifecycle_step elim!: proposal_wf_undecided split: ProposalState.splits)

section \<open>Votes\<close>

lemma add_choices_results: "add_choices opts cs w = Inr opts' \<Longrightarrow> map po_vote_result opts' = map po_vote_result opts"
  by (induction opts cs w arbitrary: opts' rule: add_choices.induct) (auto simp: res_simps)

lemma remove_choices_results: "remove_choices opts cs w = Inr opts' \<Longrightarrow> map po_vote_result opts' = map po_vote_result opts"
  by (induction opts cs w arbitrary: opts' rule: remove_choices.induct) (auto simp: res_simps)

lemma count_vote_keeps:
  assumes "count_vote p vote w = Inr p'"
  shows "pr_account_type p' = pr_account_type p" "pr_state p' = pr_state p" "pr_voting_at p' = pr_voting_at p"
    "map po_vote_result (pr_options p') = map po_vote_result (pr_options p)"
  using assms by (auto simp: count_vote_def res_simps add_choices_results split: Vote.splits)

lemma withdraw_vote_keeps:
  assumes "withdraw_vote p vote w = Inr p'"
  shows "pr_account_type p' = pr_account_type p" "pr_state p' = pr_state p" "pr_voting_at p' = pr_voting_at p"
    "map po_vote_result (pr_options p') = map po_vote_result (pr_options p)"
  using assms by (auto simp: withdraw_vote_def res_simps remove_choices_results split: Vote.splits)

lemma threshold_weight_le:
  assumes "threshold_percentage_ok t" and "get_min_vote_threshold_weight t m = Inr mw"
  shows "mw \<le> m"
proof -
  from assms(2) obtain q where q: "t = YesVotePercentage q" by (auto simp: get_min_vote_threshold_weight_Inr)
  with assms(1) have "unat q \<le> 100" by (auto simp: word_le_nat_alt)
  then show ?thesis using min_vote_threshold_weight_exact(1) assms(2) q by (simp add: word_le_nat_alt)
qed


lemma option_won_recorded:
  assumes "get_min_vote_threshold_weight t m = Inr mw" and "pr_max_vote_weight p = Some m" and "pr_vote_threshold p = Some t"
  shows "option_won p opt \<longleftrightarrow> threshold_percentage_ok t \<and> mw \<le> po_vote_weight opt \<and>
    ((case pr_deny_vote_weight p of None \<Rightarrow> 0 | Some deny \<Rightarrow> deny) < po_vote_weight opt \<or>
     unat m < 2 * unat (po_vote_weight opt) \<or> m = 0)"
  by (simp add: option_won_def assms)

lemma proposal_wf_decided:
  assumes "\<not> undecided (pr_state p)"
    and "\<And>opt. opt \<in> set (pr_options p) \<Longrightarrow> po_vote_result opt = OptionSucceeded \<Longrightarrow> option_won p opt"
    and "in_execution (pr_state p) \<Longrightarrow> pr_deny_vote_weight p \<noteq> None \<and> pr_voting_completed_at p \<noteq> None \<and>
      (\<exists>opt \<in> set (pr_options p). po_vote_result opt = OptionSucceeded)"
  shows "proposal_wf p"
proof -
  have "pr_state p \<noteq> Voting" using assms(1) by (auto simp: undecided_def)
  then show ?thesis unfolding proposal_wf_def using assms by simp
qed

lemma coerced_options_pass:
  assumes r: "resolve_options mw deny opts 0 0 = Inr (opts', best, count)" and c: "count \<noteq> 0"
  shows "passes mw deny best" and "best \<in> set (map po_vote_weight opts)" and "passes mw deny (- 1)"
proof -
  from resolve_options_eq [OF r] have best: "best = fold max (passing_weights mw deny opts) 0"
    and n: "unat count = count_list (passing_weights mw deny opts) best" by auto
  have ne: "passing_weights mw deny opts \<noteq> []" using n c by (auto simp: unat_eq_0)
  from best_passes [OF best ne] show p: "passes mw deny best" and "best \<in> set (map po_vote_weight opts)"
    by (auto simp: passing_weights_def)
  show "passes mw deny (- 1)" by (rule passes_upward [OF p]) simp
qed

lemma resolved_vote:
  assumes "resolve_final_vote_state p m t = Inr (p', s)"
  obtains mw opts where "get_min_vote_threshold_weight t m = Inr mw" and "p' = p\<lparr>pr_options := opts\<rparr>"
    and "\<And>opt. opt \<in> set opts \<Longrightarrow> po_vote_result opt = OptionSucceeded \<Longrightarrow>
      passes mw (case pr_deny_vote_weight p of None \<Rightarrow> 0 | Some w \<Rightarrow> w) (po_vote_weight opt)"
    and "s = Succeeded \<Longrightarrow> pr_deny_vote_weight p \<noteq> None \<and> (\<exists>opt \<in> set opts. po_vote_result opt = OptionSucceeded)"
    and "s \<in> {Succeeded, Defeated, Completed}"
proof -
  let ?deny = "case pr_deny_vote_weight p of None \<Rightarrow> 0 | Some w \<Rightarrow> w"
  from assms obtain mw res where mw: "min_weight_or_panic t m = Inr mw"
    and r0: "resolve_options mw ?deny (pr_options p) 0 0 = Inr res"
    and f0: "((case res of (opts, best, count) \<Rightarrow> let (opts', final_state) =
       (if count = 0 then (opts, Defeated)
        else case pr_vote_type p of
            SingleChoice \<Rightarrow>
              if count > 1 then (coerce_options (- 1) opts, Defeated) else (coerce_options best opts, Succeeded)
          | MultiChoice _ _ \<Rightarrow> (opts, Succeeded))
     in Inr (p\<lparr>pr_options := opts'\<rparr>, if pr_deny_vote_weight p = None then Completed else final_state)) :: (ProposalV2 \<times> ProposalState) res) = Inr (p', s)"
    unfolding resolve_final_vote_state_def by (elim attempt_eq_InrE) blast
  obtain opts best count where res: "res = (opts, best, count)" by (cases res)
  note r = r0 [unfolded res]
  have o: "opts = map (mark_option mw ?deny) (pr_options p)" using resolve_options_eq [OF r] by simp
  have ws: "map po_vote_weight opts = map po_vote_weight (pr_options p)" unfolding o by (simp add: mark_option_def)
  have pass: "passes mw ?deny (po_vote_weight opt)" if "opt \<in> set opts" "po_vote_result opt = OptionSucceeded" for opt
    using that unfolding o by (auto simp: mark_option_def split: if_splits)
  have best: "\<exists>opt \<in> set (coerce_options best opts). po_vote_result opt = OptionSucceeded"
    "\<exists>opt \<in> set opts. po_vote_result opt = OptionSucceeded" if "count \<noteq> 0"
  proof -
    note c = coerced_options_pass [OF r that]
    then have "best \<in> po_vote_weight ` set opts" using ws by (metis set_map)
    then show "\<exists>opt \<in> set (coerce_options best opts). po_vote_result opt = OptionSucceeded" by (auto simp: coerce_options_def)
    from c obtain opt where opt: "opt \<in> set (pr_options p)" "passes mw ?deny (po_vote_weight opt)" by auto
    then have "po_vote_result (mark_option mw ?deny opt) = OptionSucceeded" by (simp add: mark_option_def)
    then show "\<exists>opt \<in> set opts. po_vote_result opt = OptionSucceeded" unfolding o using opt(1) by auto
  qed
  have coerced: "passes mw ?deny (po_vote_weight opt)"
    if "count \<noteq> 0" "w = best \<or> w = - 1" "opt \<in> set (coerce_options w opts)" "po_vote_result opt = OptionSucceeded" for w opt
    using that coerced_options_pass [OF r that(1)] by (auto simp: coerce_options_def split: if_splits)
  have mw': "get_min_vote_threshold_weight t m = Inr mw" using mw by (simp add: min_weight_or_panic_Inr)
  show thesis
  proof (cases "count = 0")
    case True
    with f0 have e: "p' = p\<lparr>pr_options := opts\<rparr>" "s = (if pr_deny_vote_weight p = None then Completed else Defeated)"
      by (simp_all add: res)
    show ?thesis by (rule that [OF mw' e(1) pass]) (use e(2) in \<open>auto split: if_splits\<close>)
  next
    case c: False
    show ?thesis
    proof (cases "pr_vote_type p")
      case SingleChoice
      show ?thesis
      proof (cases "count > 1")
        case True
        with f0 c SingleChoice have e: "p' = p\<lparr>pr_options := coerce_options (- 1) opts\<rparr>"
          "s = (if pr_deny_vote_weight p = None then Completed else Defeated)" by (simp_all add: res)
        show ?thesis by (rule that [OF mw' e(1) coerced [OF c]]) (use e(2) in \<open>auto split: if_splits\<close>)
      next
        case False
        with f0 c SingleChoice have e: "p' = p\<lparr>pr_options := coerce_options best opts\<rparr>"
          "s = (if pr_deny_vote_weight p = None then Completed else Succeeded)" by (simp_all add: res)
        show ?thesis by (rule that [OF mw' e(1) coerced [OF c]]) (use e(2) best(1) [OF c] in \<open>auto split: if_splits\<close>)
      qed
    next
      case MultiChoice
      with f0 c have e: "p' = p\<lparr>pr_options := opts\<rparr>" "s = (if pr_deny_vote_weight p = None then Completed else Succeeded)"
        by (simp_all add: res)
      show ?thesis by (rule that [OF mw' e(1) pass]) (use e(2) best(2) [OF c] in \<open>auto split: if_splits\<close>)
    qed
  qed
qed

lemma finalize_state: "finalize_vote p m config now t = Inr p' \<Longrightarrow> pr_state p = Voting"
  by (auto simp: finalize_vote_def assert_can_finalize_vote_def assert_is_voting_state_def res_simps map_err_def split: if_splits)

lemma finalize_step:
  assumes "finalize_vote p m config now t = Inr p'" and ok: "good \<Longrightarrow> threshold_percentage_ok t"
  shows "proposal_step good p p'"
proof -
  from assms(1) obtain p1 s where r: "resolve_final_vote_state p m t = Inr (p1, s)"
    and p': "p' = p1\<lparr>pr_state := s, pr_voting_completed_at := Some now,
      pr_max_vote_weight := Some m, pr_vote_threshold := Some t\<rparr>"
    by (auto simp: finalize_vote_def res_simps)
  from r obtain mw opts where mw: "get_min_vote_threshold_weight t m = Inr mw" and p1: "p1 = p\<lparr>pr_options := opts\<rparr>"
    and pass: "\<And>opt. opt \<in> set opts \<Longrightarrow> po_vote_result opt = OptionSucceeded \<Longrightarrow>
      passes mw (case pr_deny_vote_weight p of None \<Rightarrow> 0 | Some w \<Rightarrow> w) (po_vote_weight opt)"
    and win: "s = Succeeded \<Longrightarrow> pr_deny_vote_weight p \<noteq> None \<and> (\<exists>opt \<in> set opts. po_vote_result opt = OptionSucceeded)"
    and s: "s \<in> {Succeeded, Defeated, Completed}" by (rule resolved_vote) blast
  have "proposal_wf p'" if good
  proof (rule proposal_wf_decided)
    show "\<not> undecided (pr_state p')" using s by (auto simp: p' undecided_def)
    show "option_won p' opt" if "opt \<in> set (pr_options p')" "po_vote_result opt = OptionSucceeded" for opt
      using pass [of opt] that ok [OF \<open>good\<close>] option_won_recorded [OF mw, of p' opt] by (simp add: p' p1 passes_def)
    show "pr_deny_vote_weight p' \<noteq> None \<and> pr_voting_completed_at p' \<noteq> None \<and>
        (\<exists>opt \<in> set (pr_options p'). po_vote_result opt = OptionSucceeded)" if "in_execution (pr_state p')"
      using s win that by (auto simp: p' p1 in_execution_def)
  qed
  moreover have "lifecycle\<^sup>*\<^sup>* (pr_state p) (pr_state p')"
    by (rule lifecycle_step) (use s finalize_state [OF assms(1)] in \<open>auto simp: p'\<close>)
  ultimately show "proposal_step good p p'" by (simp add: proposal_step_def p' p1)
qed

lemma tip_weights_won:
  assumes "tip_weights m tipping mw yes deny = Some s" and "mw \<le> m"
  shows "s \<in> {Succeeded, Defeated}" and "s = Succeeded \<Longrightarrow> mw \<le> yes \<and> (deny < yes \<or> m < 2 * yes \<or> m = 0)"
  using assms by (auto simp: tip_weights_def split: if_splits)

lemma electorate_tip_step:
  assumes mw: "get_min_vote_threshold_weight t m = Inr mw"
    and tip: "try_get_tipped_electorate_vote_state p m tipping mw = Some (p1, s)"
    and st: "pr_state p = Voting" and ok: "good \<Longrightarrow> threshold_percentage_ok t"
  shows "proposal_step good p (p1\<lparr>pr_state := s, pr_voting_completed_at := Some now,
    pr_max_vote_weight := Some m, pr_vote_threshold := Some t\<rparr>)" (is "proposal_step good p ?p'")
proof -
  from tip obtain deny yes where sh: "pr_vote_type p = SingleChoice" "pr_deny_vote_weight p = Some deny" "pr_options p = [yes]"
    by (rule tipped_electorate_shape)
  then have p1: "p1 = mark_only_option p yes s"
    and w: "tip_weights (unat m) tipping (unat mw) (unat (po_vote_weight yes)) (unat deny) = Some s"
    using tip by (auto simp: tipped_electorate_eq [OF sh])
  have s: "s \<in> {Succeeded, Defeated}" using w by (auto simp: tip_weights_def split: if_splits)
  have "proposal_wf ?p'" if good
  proof (rule proposal_wf_decided)
    note le = threshold_weight_le [OF ok [OF \<open>good\<close>] mw, unfolded word_le_nat_alt]
    show "\<not> undecided (pr_state ?p')" using s by (auto simp: undecided_def)
    show "option_won ?p' opt" if "opt \<in> set (pr_options ?p')" "po_vote_result opt = OptionSucceeded" for opt
      using that ok [OF \<open>good\<close>] tip_weights_won(2) [OF w le] option_won_recorded [OF mw, of ?p' opt]
      by (auto simp: p1 mark_only_option_def sh word_le_nat_alt word_less_nat_alt unat_eq_0 split: if_splits)
    show "pr_deny_vote_weight ?p' \<noteq> None \<and> pr_voting_completed_at ?p' \<noteq> None \<and>
        (\<exists>opt \<in> set (pr_options ?p'). po_vote_result opt = OptionSucceeded)" if "in_execution (pr_state ?p')"
      using s that by (auto simp: p1 mark_only_option_def sh in_execution_def)
  qed
  moreover have "lifecycle\<^sup>*\<^sup>* (pr_state p) (pr_state ?p')" by (rule lifecycle_step) (use s st in auto)
  ultimately show ?thesis by (simp add: proposal_step_def p1 mark_only_option_def)
qed

lemma veto_tip_step:
  assumes "try_get_tipped_veto_vote_state p mw = Some (p1, s)" and "pr_state p = Voting"
  shows "proposal_step good p (p1\<lparr>pr_state := s, pr_voting_completed_at := now, pr_max_vote_weight := m, pr_vote_threshold := t\<rparr>)"
proof -
  have v: "p1 = p" "s = Vetoed" using assms(1) by (auto simp: try_get_tipped_veto_vote_state_def split: if_splits)
  show ?thesis unfolding proposal_step_def
    using assms(2) by (auto simp: v undecided_def intro!: lifecycle_step elim!: proposal_wf_undecided)
qed

lemma tip_step:
  assumes "try_tip_vote p m tipping now t kind = Inr (p', tipped)" and st: "pr_state p = Voting"
    and ok: "good \<Longrightarrow> threshold_percentage_ok t"
  shows "proposal_step good p p'"
proof -
  from assms(1) obtain mw tip where mw: "get_min_vote_threshold_weight t m = Inr mw"
    and tip: "tip = (case kind of Electorate \<Rightarrow> try_get_tipped_electorate_vote_state p m tipping mw
        | VetoKind \<Rightarrow> try_get_tipped_veto_vote_state p mw)"
    and p': "(case tip of
      None \<Rightarrow> p' = p | Some (p1, s) \<Rightarrow> p' = p1\<lparr>pr_state := s, pr_voting_completed_at := Some now,
        pr_max_vote_weight := Some m, pr_vote_threshold := Some t\<rparr>)"
    by (auto simp: try_tip_vote_def try_get_tipped_vote_state_def min_weight_or_panic_Inr res_simps
        split: option.splits prod.splits)
  show ?thesis
  proof (cases tip)
    case None
    then show ?thesis using p' by (simp add: proposal_step_def)
  next
    case (Some d)
    obtain p1 s where d: "d = (p1, s)" by (cases d)
    show ?thesis
      using p' Some d tip electorate_tip_step [OF mw _ st ok, where now = now and s = s and ?p1.0 = p1] veto_tip_step [OF _ st, of mw p1 s]
      by (cases kind) simp_all
  qed
qed

lemma record_execution_step:
  assumes "record_execution p i now = Inr p'" and "in_execution (pr_state p)"
  shows "proposal_step good p p'"
proof -
  let ?q = "if pr_state p = Succeeded then p\<lparr>pr_executing_at := Some now, pr_state := Executing\<rparr> else p"
  from assms(1) obtain opt n where o: "option_at ?q i = Inr opt"
    and p': "p' = (let q = set_option ?q i (opt\<lparr>po_transactions_executed_count := n\<rparr>) in
      if pr_state q \<in> {Executing, ExecutingWithErrors} \<and>
              (\<forall>opt \<in> set (pr_options q). po_vote_result opt = OptionSucceeded \<longrightarrow>
                 po_transactions_executed_count opt = po_transactions_count opt)
           then q\<lparr>pr_closed_at := Some now, pr_state := Completed\<rparr> else q)"
    unfolding record_execution_def Let_def by (elim peel) (blast dest: sum.inject(2) [THEN iffD1])
  let ?o = "opt\<lparr>po_transactions_executed_count := n\<rparr>" and ?f = "\<lambda>opt. (po_vote_weight opt, po_vote_result opt)"
  have opts: "map ?f (pr_options p') = map ?f (pr_options p)"
    using set_option_results [OF o, of ?f ?o] unfolding p' Let_def by (simp split: if_splits)
  have same: "pr_deny_vote_weight p' = pr_deny_vote_weight p" "pr_voting_completed_at p' = pr_voting_completed_at p"
      "pr_max_vote_weight p' = pr_max_vote_weight p" "pr_vote_threshold p' = pr_vote_threshold p" "pr_account_type p' = pr_account_type p"
    unfolding p' Let_def set_option_def by simp_all
  have st: "pr_state p' = Completed \<or> pr_state p' = pr_state ?q" unfolding p' Let_def set_option_def by simp
  have q: "lifecycle\<^sup>*\<^sup>* (pr_state p) (pr_state ?q)" by (rule lifecycle_step) auto
  have "lifecycle\<^sup>*\<^sup>* (pr_state ?q) (pr_state p')" by (rule lifecycle_step) (use st assms(2) in \<open>auto simp: in_execution_def\<close>)
  with q have l: "lifecycle\<^sup>*\<^sup>* (pr_state p) (pr_state p')" by (rule rtranclp_trans)
  have "in_execution (pr_state p') \<or> pr_state p' = Completed" using st assms(2) by (auto simp: in_execution_def)
  then show ?thesis unfolding proposal_step_def using l same proposal_wf_executing [OF _ assms(2) _ opts same(1-4)] by blast
qed

lemma flag_error_step:
  assumes "in_execution (pr_state p)"
  shows "proposal_step good p ((if c then p\<lparr>pr_executing_at := t\<rparr> else p)\<lparr>pr_state := ExecutingWithErrors\<rparr>)"
  unfolding proposal_step_def using assms
  by (auto simp: in_execution_def intro!: lifecycle_step elim!: proposal_wf_executing)

lemma can_execute_state: "assert_can_execute_transaction p tx now = Inr u \<Longrightarrow> in_execution (pr_state p)"
  by (auto simp: assert_can_execute_transaction_def in_execution_def split: if_splits)

end
