(* ===== verification/Governance_Steps.thy ===== *)
theory Governance_Steps
  imports Governance_Transitions
begin

text \<open>
  The reads, writes, creations, disposals and invocations that the handlers are made of, as rules about
  the ledgers a run goes through.
\<close>

section \<open>Checked readers\<close>

lemma checked_reads:
  "get_realm_data_for_authority E pid info k led = Inr v \<Longrightarrow> get_realm_data E pid info led = Inr v"
  "get_realm_data_for_governing_token_mint E pid info k led = Inr v \<Longrightarrow> get_realm_data E pid info led = Inr v"
  by (auto simp: get_realm_data_for_authority_def get_realm_data_for_governing_token_mint_def res_simps split: option.splits if_splits)

lemma checked_config_read: "get_realm_config_data_for_realm E pid info k led = Inr c \<Longrightarrow> get_realm_config_data E pid info led = Inr c"
  by (auto simp: get_realm_config_data_for_realm_def res_simps)

lemma checked_governance_read: "get_governance_data_for_realm E pid info k led = Inr g \<Longrightarrow> get_governance_data E pid info led = Inr g"
  by (auto simp: get_governance_data_for_realm_def res_simps)

lemma checked_tor_reads:
  "get_token_owner_record_data_for_seeds E pid info seeds led = Inr t \<Longrightarrow> get_token_owner_record_data E pid info led = Inr t"
  "get_token_owner_record_data_for_realm E pid info k led = Inr t \<Longrightarrow> get_token_owner_record_data E pid info led = Inr t"
  "get_token_owner_record_data_for_realm_and_governing_mint E pid info k m led = Inr t \<Longrightarrow> get_token_owner_record_data E pid info led = Inr t"
  "get_token_owner_record_data_for_proposal_owner E pid info k led = Inr t \<Longrightarrow> get_token_owner_record_data E pid info led = Inr t"
  by (auto simp: get_token_owner_record_data_for_seeds_def get_token_owner_record_data_for_realm_def
      get_token_owner_record_data_for_realm_and_governing_mint_def get_token_owner_record_data_for_proposal_owner_def res_simps)

lemma checked_signatory_read:
  "get_signatory_record_data_for_seeds E pid info a b led = Inr r \<Longrightarrow> get_signatory_record_data E pid info led = Inr r"
  by (auto simp: get_signatory_record_data_for_seeds_def res_simps)

lemma checked_proposal_reads:
  "get_proposal_data_for_governance E pid info k led = Inr p \<Longrightarrow> get_proposal_data E pid info led = Inr p"
  "get_proposal_data_for_governance_and_governing_mint E pid info k m led = Inr p \<Longrightarrow> get_proposal_data E pid info led = Inr p"
  by (auto simp: get_proposal_data_for_governance_def get_proposal_data_for_governance_and_governing_mint_def res_simps)

lemma checked_transaction_read:
  "get_proposal_transaction_data_for_proposal E pid info k led = Inr t \<Longrightarrow> get_proposal_transaction_data E pid info led = Inr t"
  by (auto simp: get_proposal_transaction_data_for_proposal_def res_simps)

lemma checked_vote_read:
  "get_vote_record_data_for_proposal_and_token_owner_record E pid info realm k p tor led = Inr v \<Longrightarrow>
     get_vote_record_data E pid info led = Inr v"
  by (auto simp: get_vote_record_data_for_proposal_and_token_owner_record_def res_simps Let_def split: if_splits)

lemmas reads = checked_reads checked_config_read checked_governance_read checked_tor_reads checked_signatory_read
  checked_proposal_reads checked_transaction_read checked_vote_read

lemma decrease_outstanding_type [simp]: "to_account_type (decrease_outstanding_proposal_count tor) = to_account_type tor"
  by (simp add: decrease_outstanding_proposal_count_def)

lemma valid_config_ok: "assert_is_valid_governance_config config = Inr u \<Longrightarrow> config_thresholds_ok config"
  by (auto simp: config_thresholds_ok_def dest: valid_config_thresholds)

section \<open>Invocations\<close>

lemma token_invocations:
  assumes "gov_reach E pid led0 led"
  shows "create_spl_token_account_signed E payer token_account seeds mint owner pid system spl_token rent_sysvar rent led = Inr led' \<Longrightarrow>
      gov_reach E pid led0 led'"
    and "transfer_spl_tokens E pid src dst authority amt spl_token led = Inr led' \<Longrightarrow> gov_reach E pid led0 led'"
    and "transfer_spl_tokens_signed E src dst authority seeds pid amt spl_token led = Inr led' \<Longrightarrow> gov_reach E pid led0 led'"
    and "set_spl_token_account_authority E pid info authority new_authority ty spl_token led = Inr led' \<Longrightarrow> gov_reach E pid led0 led'"
    and "set_program_upgrade_authority E pid program program_data authority new_auth loader led = Inr led' \<Longrightarrow> gov_reach E pid led0 led'"
  using assms unfolding create_spl_token_account_signed_def transfer_spl_tokens_def transfer_spl_tokens_signed_def
    set_spl_token_account_authority_def set_program_upgrade_authority_def Let_def
  by (auto elim!: peel intro: gov_reach.invoked split: prod.splits)

lemma invoke_all_reach: "gov_reach E pid led0 led \<Longrightarrow> invoke_all E pid ixs infos seeds led = Inr led' \<Longrightarrow> gov_reach E pid led0 led'"
  by (induction ixs arbitrary: led) (auto elim!: attempt_eq_InrE intro: gov_reach.invoked)

context gov_laws
begin

section \<open>The writes, as rules applied from the last to the first\<close>

lemma run_proposal:
  assumes "ProposalV2_serialize E p' info led = Inr led'" "gov_reach E pid led0 led"
    "get_proposal_data E pid info l = Inr p" "gov_reach E pid led0 l" "proposal_step (ledger_good E pid l) p p'"
  shows "gov_reach E pid led0 led'"
  using assms(2,4,3) by (rule gov_reach.updated) (use assms(1,5) in \<open>auto simp: proposal_step_def\<close>)

lemma run_realm:
  "RealmV2_serialize E v' info led = Inr led' \<Longrightarrow> gov_reach E pid led0 led \<Longrightarrow> get_realm_data E pid info l = Inr v \<Longrightarrow>
     gov_reach E pid led0 l \<Longrightarrow> rl_account_type v' = rl_account_type v \<Longrightarrow> gov_reach E pid led0 led'"
  by (rule realm_write)

lemma run_governance:
  "GovernanceV2_serialize E v' info led = Inr led' \<Longrightarrow> gov_reach E pid led0 led \<Longrightarrow> get_governance_data E pid info l = Inr v \<Longrightarrow>
     gov_reach E pid led0 l \<Longrightarrow> gv_account_type v' = gv_account_type v \<Longrightarrow> gv_config v' = gv_config v \<Longrightarrow> gov_reach E pid led0 led'"
  by (rule governance_write) auto

lemma run_tor:
  "TokenOwnerRecordV2_serialize E v' info led = Inr led' \<Longrightarrow> gov_reach E pid led0 led \<Longrightarrow>
     get_token_owner_record_data E pid info l = Inr v \<Longrightarrow> gov_reach E pid led0 l \<Longrightarrow> to_account_type v' = to_account_type v \<Longrightarrow>
     gov_reach E pid led0 led'"
  by (rule tor_write)

lemma run_signatory:
  "SignatoryRecordV2_serialize E v' info led = Inr led' \<Longrightarrow> gov_reach E pid led0 led \<Longrightarrow>
     get_signatory_record_data E pid info l = Inr v \<Longrightarrow> gov_reach E pid led0 l \<Longrightarrow> sr_account_type v' = sr_account_type v \<Longrightarrow>
     gov_reach E pid led0 led'"
  by (rule signatory_write)

lemma run_transaction:
  "ProposalTransactionV2_serialize E v' info led = Inr led' \<Longrightarrow> gov_reach E pid led0 led \<Longrightarrow>
     get_proposal_transaction_data E pid info l = Inr v \<Longrightarrow> gov_reach E pid led0 l \<Longrightarrow> pt_account_type v' = pt_account_type v \<Longrightarrow>
     gov_reach E pid led0 led'"
  by (rule transaction_write)

lemma run_vote_record:
  "VoteRecordV2_serialize E v' info led = Inr led' \<Longrightarrow> gov_reach E pid led0 led \<Longrightarrow>
     get_vote_record_data E pid info l = Inr v \<Longrightarrow> gov_reach E pid led0 l \<Longrightarrow> vr_account_type v' = vr_account_type v \<Longrightarrow>
     gov_reach E pid led0 led'"
  by (rule vote_record_write)

lemma run_realm_config:
  "RealmConfig_serialize E v' info led = Inr led' \<Longrightarrow> gov_reach E pid led0 led \<Longrightarrow> get_realm_config_data E pid info l = Inr v \<Longrightarrow>
     gov_reach E pid led0 l \<Longrightarrow> rca_account_type v' = rca_account_type v \<Longrightarrow> gov_reach E pid led0 led'"
  by (rule realm_config_write)

lemma run_metadata:
  "borsh_write (ge_ProgramMetadata E) v' info led = Inr led' \<Longrightarrow> gov_reach E pid led0 led \<Longrightarrow>
     get_program_metadata_data E pid info l = Inr v \<Longrightarrow> gov_reach E pid led0 l \<Longrightarrow> pm_account_type v' = pm_account_type v \<Longrightarrow>
     gov_reach E pid led0 led'"
  by (rule metadata_write)

lemma run_governance_config:
  "GovernanceV2_serialize E v' info led = Inr led' \<Longrightarrow> gov_reach E pid led0 led \<Longrightarrow> get_governance_data E pid info l = Inr v \<Longrightarrow>
     gov_reach E pid led0 l \<Longrightarrow> gv_account_type v' = gv_account_type v \<Longrightarrow> config_thresholds_ok (gv_config v') \<Longrightarrow>
     gov_reach E pid led0 led'"
  by (rule governance_write) auto

lemma run_dispose_signatory:
  assumes "dispose_account info beneficiary led = Inr led'" "gov_reach E pid led0 led" "get_signatory_record_data E pid info l = Inr v"
    "gov_reach E pid led0 l"
  shows "gov_reach E pid led0 led'"
  by (rule dispose_reach [OF assms(2,4) not_proposal_if [of l info, OF signatory_read(1) [OF assms(3)]] assms(1)])
    (use signatory_read(2) [OF assms(3)] in \<open>auto simp: non_target_types\<close>)

lemma run_dispose_transaction:
  assumes "dispose_account info beneficiary led = Inr led'" "gov_reach E pid led0 led" "get_proposal_transaction_data E pid info l = Inr v"
    "gov_reach E pid led0 l"
  shows "gov_reach E pid led0 led'"
  by (rule dispose_reach [OF assms(2,4) not_proposal_if [of l info, OF transaction_read(1) [OF assms(3)]] assms(1)])
    (use transaction_read(2) [OF assms(3)] in \<open>auto simp: non_target_types\<close>)

lemma run_dispose_vote:
  assumes "dispose_account info beneficiary led = Inr led'" "gov_reach E pid led0 led" "get_vote_record_data E pid info l = Inr v"
    "gov_reach E pid led0 l"
  shows "gov_reach E pid led0 led'"
  by (rule dispose_reach [OF assms(2,4) not_proposal_if [of l info, OF vote_record_read(1) [OF assms(3)]] assms(1)])
    (use vote_record_read(2) [OF assms(3)] in \<open>auto simp: non_target_types\<close>)

lemma run_create:
  "create_and_serialize_account_signed E (ge_RealmV2 E) max_size payer info realm seeds pid system rent led = Inr led' \<Longrightarrow>
     gov_reach E pid led0 led \<Longrightarrow> rl_account_type realm = RealmV2 \<Longrightarrow> gov_reach E pid led0 led'"
  "create_and_serialize_account_signed E (ge_RealmConfig E) max_size payer info config seeds pid system rent led = Inr led' \<Longrightarrow>
     gov_reach E pid led0 led \<Longrightarrow> rca_account_type config = RealmConfigType \<Longrightarrow> gov_reach E pid led0 led'"
  "create_and_serialize_account_signed E (ge_TokenOwnerRecordV2 E) max_size payer info tor seeds pid system rent led = Inr led' \<Longrightarrow>
     gov_reach E pid led0 led \<Longrightarrow> to_account_type tor = TokenOwnerRecordV2 \<Longrightarrow> gov_reach E pid led0 led'"
  "create_and_serialize_account_signed E (ge_SignatoryRecordV2 E) max_size payer info sr seeds pid system rent led = Inr led' \<Longrightarrow>
     gov_reach E pid led0 led \<Longrightarrow> sr_account_type sr = SignatoryRecordV2 \<Longrightarrow> gov_reach E pid led0 led'"
  "create_and_serialize_account_signed E (ge_ProposalTransactionV2 E) max_size payer info tx seeds pid system rent led = Inr led' \<Longrightarrow>
     gov_reach E pid led0 led \<Longrightarrow> pt_account_type tx = ProposalTransactionV2 \<Longrightarrow> gov_reach E pid led0 led'"
  "create_and_serialize_account_signed E (ge_VoteRecordV2 E) max_size payer info vr seeds pid system rent led = Inr led' \<Longrightarrow>
     gov_reach E pid led0 led \<Longrightarrow> vr_account_type vr = VoteRecordV2 \<Longrightarrow> gov_reach E pid led0 led'"
  "create_and_serialize_account_signed E (ge_ProgramMetadata E) max_size payer info md seeds pid system rent led = Inr led' \<Longrightarrow>
     gov_reach E pid led0 led \<Longrightarrow> pm_account_type md = ProgramMetadataType \<Longrightarrow> gov_reach E pid led0 led'"
  by (erule create_other, assumption, rule codecs, simp_all add: non_target_types)+

lemma run_create_governance:
  assumes "create_and_serialize_account_signed E (ge_GovernanceV2 E) max_size payer info gov seeds pid system rent led = Inr led'"
    "gov_reach E pid led0 led" "is_governance_v2_account_type (gv_account_type gov)" "config_thresholds_ok (gv_config gov)"
  shows "gov_reach E pid led0 led'"
  using assms(1,2) unfolding create_and_serialize_account_signed_def
  by (rule create_with_owner_reach [OF _ _ codecs(5)]) (rule stored_governance_v2 [OF _ assms(3,4)])

lemma run_create_proposal:
  assumes "create_and_serialize_account_signed E (ge_ProposalV2 E) max_size payer info p seeds pid system rent led = Inr led'"
    "gov_reach E pid led0 led" "pr_account_type p = ProposalV2" "proposal_wf p"
  shows "gov_reach E pid led0 led'"
  using assms(1,2) unfolding create_and_serialize_account_signed_def
proof (rule create_with_owner_reach [OF _ _ codecs(11)])
  fix bs l
  assume r: "cd_read (ge_ProposalV2 E) bs = Inr p"
  let ?k = "ai_key info" and ?l = "set_data (ai_key info) bs l"
  have ty: "ge_account_type E (acc_data (?l ?k)) = Inr ProposalV2" using read_type [OF codecs(11) r] assms(3) by simp
  then have "governance_at E pid ?l ?k = None" using other_type_not_governance [of ?l ?k] by (simp add: non_target_types)
  moreover have "q = p" if "proposal_at E pid ?l ?k = Some q" for q
    using that ty r proposal_at_eq [of E pid ?l info q] by (simp add: get_proposal_data_Inr)
  ultimately show "account_good E pid ?l ?k" using assms(4) by (auto simp: account_good_def)
qed

end

end
