(* ===== verification/Governance_Handlers.thy ===== *)
theory Governance_Handlers
  imports Governance_Steps
begin

text \<open>
  Every handler of the governance program is a run of such steps: whatever accounts and arguments it is
  given, the ledger it returns is reached by them.
\<close>

lemma created_type [simp]:
  "to_account_type (new_token_owner_record realm mint owner amt) = TokenOwnerRecordV2"
  "gv_account_type (new_governance t realm governed config) = t" "gv_config (new_governance t realm governed config) = config"
  by (simp_all add: new_token_owner_record_def new_governance_def)

lemma created_governance_types [simp]:
  "is_governance_v2_account_type GovernanceV2" "is_governance_v2_account_type MintGovernanceV2"
  "is_governance_v2_account_type TokenGovernanceV2" "is_governance_v2_account_type ProgramGovernanceV2"
  by (simp_all add: is_governance_v2_account_type_def)

context gov_laws
begin

lemmas runs = run_proposal run_realm run_governance run_tor run_signatory run_transaction run_vote_record run_realm_config
  run_dispose_signatory run_dispose_transaction run_dispose_vote run_create run_create_proposal

lemma realm_handlers_reach:
  "process_set_realm_authority E pid accounts action led = Inr led' \<Longrightarrow> gov_reach E pid led led'"
  "process_create_token_owner_record E pid accounts led = Inr led' \<Longrightarrow> gov_reach E pid led led'"
  "process_deposit_governing_tokens E pid accounts amt led = Inr led' \<Longrightarrow> gov_reach E pid led led'"
  "process_withdraw_governing_tokens E pid accounts led = Inr led' \<Longrightarrow> gov_reach E pid led led'"
  "process_set_governance_delegate E pid accounts d led = Inr led' \<Longrightarrow> gov_reach E pid led led'"
  unfolding process_set_realm_authority_def process_withdraw_governing_tokens_def process_set_governance_delegate_def
    process_create_token_owner_record_def process_deposit_governing_tokens_def Let_def
  by (elim peel_all; hypsubst?; (erule runs reads token_invocations [rotated] | assumption | rule gov_reach.start | simp; fail)+)+

lemma create_realm_reach:
  "process_create_realm E pid accounts name args led = Inr led' \<Longrightarrow> gov_reach E pid led led'"
  unfolding process_create_realm_def Let_def
  by (elim peel_all; ((hypsubst | elim Pair_inject)+)?)
    (erule runs reads token_invocations [rotated] | assumption | rule gov_reach.start | simp; fail)+

lemma set_realm_config_reach:
  "process_set_realm_config E pid accounts args led = Inr led' \<Longrightarrow> gov_reach E pid led led'"
  unfolding process_set_realm_config_def Let_def
  by (elim peel_all; ((hypsubst | elim Pair_inject)+)?)
    (erule runs reads token_invocations [rotated] | assumption | rule gov_reach.start | simp; fail)+

lemma create_governance_account_reach:
  assumes "create_governance_account E pid t config seeds realm_info governance_info governed_info tor_info authority payer it
      system rent led = Inr led'"
    and "gov_reach E pid led0 led" and "is_governance_v2_account_type t"
  shows "gov_reach E pid led0 led'"
proof -
  from assms(1) obtain u where "assert_valid_create_governance_args E pid config realm_info led = Inr u"
    and c: "create_and_serialize_account_signed E (ge_GovernanceV2 E) None payer governance_info
       (new_governance t (ai_key realm_info) (ai_key governed_info) config) seeds pid system rent led = Inr led'"
    unfolding create_governance_account_def by (elim peel) blast
  then have "config_thresholds_ok config"
    by (auto simp: assert_valid_create_governance_args_def res_simps intro: valid_config_ok)
  then show ?thesis using assms(2,3) by (intro run_create_governance [OF c]) simp_all
qed

lemma governance_handlers_reach:
  "process_create_governance E pid accounts config led = Inr led' \<Longrightarrow> gov_reach E pid led led'"
  "process_create_mint_governance E pid accounts config transfer_it led = Inr led' \<Longrightarrow> gov_reach E pid led led'"
  "process_create_token_governance E pid accounts config transfer_it led = Inr led' \<Longrightarrow> gov_reach E pid led led'"
  "process_create_program_governance E pid accounts config transfer_it led = Inr led' \<Longrightarrow> gov_reach E pid led led'"
  unfolding process_create_governance_def process_create_mint_governance_def process_create_token_governance_def
    process_create_program_governance_def
  by (elim peel_all; (hypsubst+)?; (erule create_governance_account_reach token_invocations [rotated] | rule gov_reach.start | simp; fail)+)+

lemma native_treasury_reach:
  "process_create_native_treasury E pid accounts led = Inr led' \<Longrightarrow> gov_reach E pid led led'"
  unfolding process_create_native_treasury_def NativeTreasury_max_size_def
  by (elim peel_infos) (erule create_empty_reach, rule gov_reach.start)

lemma set_governance_config_reach:
  "process_set_governance_config E pid accounts config led = Inr led' \<Longrightarrow> gov_reach E pid led led'"
  unfolding process_set_governance_config_def
  by (elim peel_infos)
    (erule run_governance_config, rule gov_reach.start, assumption, rule gov_reach.start, simp, simp add: valid_config_ok)

lemma update_program_metadata_reach:
  "process_update_program_metadata E pid accounts led = Inr led' \<Longrightarrow> gov_reach E pid led led'"
  unfolding process_update_program_metadata_def
  by (elim peel_all) (erule runs run_metadata | assumption | rule gov_reach.start | simp; fail)+

end

end
