(* ===== verification/Governance_Program.thy ===== *)
theory Governance_Program
  imports Governance_Handlers
begin

text \<open>
  The handlers of proposals, votes and execution, and the whole program: every accepted instruction is a
  run that moves proposals along their life cycle and keeps what is true of them.
\<close>

lemma new_proposal_wf:
  assumes "pr_state p = Draft" and "\<And>opt. opt \<in> set (pr_options p) \<Longrightarrow> po_vote_result opt = OptionNone"
  shows "proposal_wf p"
  using assms by (auto simp: proposal_wf_def in_execution_def)

lemma draft_option_step:
  assumes "assert_can_edit_instructions p = Inr u" and "option_at p i = Inr opt" and "po_vote_result opt' = po_vote_result opt"
  shows "proposal_step good p (set_option p i opt')"
  by (rule draft_step) (use draft_states(2) [OF assms(1)] set_option_results [OF assms(2), of po_vote_result, OF assms(3)]
      in \<open>simp_all add: undecided_def set_option_def\<close>)

lemma draft_signatories_step:
  "assert_can_edit_signatories p = Inr u \<Longrightarrow> proposal_step good p (p\<lparr>pr_signatories_count := n\<rparr>)"
  by (rule draft_step) (simp_all add: draft_states undecided_def)

lemma can_flag_state: "assert_can_flag_transaction_error p tx now = Inr u \<Longrightarrow> in_execution (pr_state p)"
  by (auto simp: assert_can_flag_transaction_error_def res_simps dest: can_execute_state)

lemma can_sign_off_state: "assert_can_sign_off p = Inr u \<Longrightarrow> pr_state p \<in> {Draft, SigningOff}"
  by (auto simp: assert_can_sign_off_def split: ProposalState.splits)

lemma withdraw_step:
  assumes "withdraw_vote p vote w = Inr p'" and "pr_state p = Voting"
  shows "proposal_step good p p'"
  by (rule draft_step) (use withdraw_vote_keeps [OF assms(1)] assms(2) in \<open>simp_all add: undecided_def\<close>)

lemma proposal_step_trans: "proposal_step good p q \<Longrightarrow> proposal_step good q r \<Longrightarrow> proposal_step good p r"
  by (auto simp: proposal_step_def)

lemma good_threshold:
  assumes "ledger_good E pid led" and "get_governance_data E pid info led = Inr gov" and "resolve_vote_threshold gov realm mint kind = Inr t"
  shows "threshold_percentage_ok t"
proof -
  have "governance_at E pid led (ai_key info) = Some gov" using assms(2) by (simp add: governance_at_eq)
  then have "config_thresholds_ok (gv_config gov)" using assms(1) by (auto simp: ledger_good_def account_good_def)
  then show ?thesis using resolved_threshold(2) [OF assms(3)] by (auto simp: config_thresholds_ok_def)
qed

lemma cast_step:
  assumes "assert_can_cast_vote p config now' = Inr u" and "count_vote p vote w = Inr counted"
    and "try_tip_vote counted m tipping now t kind = Inr (p', tipped)" and "good \<Longrightarrow> threshold_percentage_ok t"
  shows "proposal_step good p p'"
proof -
  have st: "pr_state p = Voting"
    using assms(1) by (auto simp: assert_can_cast_vote_def assert_is_voting_state_def map_err_def res_simps split: if_splits)
  note keeps = count_vote_keeps [OF assms(2)]
  have "proposal_step good p counted" by (rule draft_step) (use keeps st in \<open>simp_all add: undecided_def\<close>)
  moreover have "proposal_step good counted p'" by (rule tip_step [OF assms(3)]) (use keeps(2) st assms(4) in simp_all)
  ultimately show ?thesis by (rule proposal_step_trans)
qed

context gov_laws
begin

lemma create_proposal_reach:
  "process_create_proposal E pid accounts name link vt options d led = Inr led' \<Longrightarrow> gov_reach E pid led led'"
  unfolding process_create_proposal_def Let_def
  by (elim peel_infos) (erule runs reads | assumption | rule gov_reach.start | simp; fail | rule new_proposal_wf, simp, auto)+

lemma draft_handlers_reach:
  "process_add_signatory E pid accounts s led = Inr led' \<Longrightarrow> gov_reach E pid led led'"
  "process_remove_signatory E pid accounts s led = Inr led' \<Longrightarrow> gov_reach E pid led led'"
  "process_insert_transaction E pid accounts oi ti h ixs led = Inr led' \<Longrightarrow> gov_reach E pid led led'"
  "process_remove_transaction E pid accounts led = Inr led' \<Longrightarrow> gov_reach E pid led led'"
  unfolding process_add_signatory_def process_remove_signatory_def process_insert_transaction_def process_remove_transaction_def Let_def
  by (elim peel_infos; (erule runs reads | assumption | rule gov_reach.start | erule (1) draft_option_step | erule draft_signatories_step | simp; fail)+)+

lemma cancel_reach:
  "process_cancel_proposal E pid accounts led = Inr led' \<Longrightarrow> gov_reach E pid led led'"
  unfolding process_cancel_proposal_def
  by (elim peel_all; hypsubst?) (erule runs reads | assumption | rule gov_reach.start | erule cancel_step | simp; fail)+

lemma finalize_reach:
  "process_finalize_vote E pid accounts led = Inr led' \<Longrightarrow> gov_reach E pid led led'"
  unfolding process_finalize_vote_def
  by (elim peel_infos) (erule runs reads | assumption | rule gov_reach.start | erule finalize_step, erule good_threshold, erule reads, assumption | simp; fail)+

lemma execute_reach:
  "process_execute_transaction E pid accounts led = Inr led' \<Longrightarrow> gov_reach E pid led led'"
  unfolding process_execute_transaction_def Let_def
  by (elim peel_infos case_pairE) (erule runs reads invoke_all_reach [rotated] | assumption | rule gov_reach.start | erule record_execution_step, erule can_execute_state | simp; fail)+

lemma flag_error_reach:
  "process_flag_transaction_error E pid accounts led = Inr led' \<Longrightarrow> gov_reach E pid led led'"
  unfolding process_flag_transaction_error_def Let_def
  by (elim peel_infos) (erule runs reads | assumption | rule gov_reach.start | erule can_flag_state [THEN flag_error_step] | simp; fail)+

lemma sign_off_reach:
  "process_sign_off_proposal E pid accounts led = Inr led' \<Longrightarrow> gov_reach E pid led led'"
  unfolding process_sign_off_proposal_def sign_off_by_owner_def sign_off_by_signatory_def Let_def
  by (elim peel_all; ((hypsubst | elim Pair_inject)+)?)
    (erule runs reads | assumption | rule gov_reach.start | rule sign_off_step, erule can_sign_off_state | simp; fail)+

lemma relinquish_reach:
  "process_relinquish_vote E pid accounts led = Inr led' \<Longrightarrow> gov_reach E pid led led'"
  unfolding process_relinquish_vote_def
  by (elim peel_all; ((hypsubst | elim Pair_inject)+)?)
    (erule runs reads | assumption | rule gov_reach.start | erule withdraw_step, assumption | simp; fail)+

lemma close_tipped_reach:
  "close_tipped_proposal E pid realm_info governance_info owner_info voter_info realm gov p voter led = Inr (voter', led') \<Longrightarrow>
     gov_reach E pid led0 led \<Longrightarrow> get_realm_data E pid realm_info led = Inr realm \<Longrightarrow>
     get_governance_data E pid governance_info led = Inr gov \<Longrightarrow> gov_reach E pid led0 led'"
  unfolding close_tipped_proposal_def
  by (elim peel_all; ((hypsubst | elim Pair_inject)+)?; (erule runs reads | assumption | simp; fail)+)

lemma close_tipped_type:
  "close_tipped_proposal E pid realm_info governance_info owner_info voter_info realm gov p voter led = Inr (voter', led') \<Longrightarrow>
     to_account_type voter' = to_account_type voter"
  unfolding close_tipped_proposal_def by (auto elim!: peel_all split: if_splits)

lemma tipped_branch:
  assumes "(if tipped
      then close_tipped_proposal E pid realm_info governance_info owner_info voter_info realm gov p voter led
      else Inr (voter, led)) = Inr (voter', led')"
  shows "gov_reach E pid led0 led \<Longrightarrow> get_realm_data E pid realm_info led = Inr realm \<Longrightarrow>
      get_governance_data E pid governance_info led = Inr gov \<Longrightarrow> gov_reach E pid led0 led'"
    and "to_account_type voter = t \<Longrightarrow> to_account_type voter' = t"
  using assms close_tipped_reach close_tipped_type by (auto split: if_splits)

lemma cast_vote_reach:
  "process_cast_vote E pid accounts vote led = Inr led' \<Longrightarrow> gov_reach E pid led led'"
  unfolding process_cast_vote_def Let_def
  by (elim peel_infos) (erule runs reads tipped_branch | assumption | rule gov_reach.start
      | erule (2) cast_step, erule good_threshold, erule reads, assumption | simp; fail)+

section \<open>The program\<close>

theorem governance_reach:
  assumes "governance_process_instruction E decode pid accounts input led = Inr led'"
  shows "gov_reach E pid led led'"
proof -
  from assms obtain instruction where "governance_dispatch E pid accounts instruction led = Inr led'"
    unfolding governance_process_instruction_def by (elim peel)
  then show ?thesis
    by (cases instruction)
      (simp_all add: realm_handlers_reach create_realm_reach set_realm_config_reach governance_handlers_reach native_treasury_reach
        set_governance_config_reach update_program_metadata_reach create_proposal_reach draft_handlers_reach cancel_reach
        finalize_reach execute_reach flag_error_reach sign_off_reach relinquish_reach cast_vote_reach)
qed

end

end
