(* ===== verification/Governance_History.thy ===== *)
theory Governance_History
  imports Governance_Program Chain
begin

text \<open>
  Histories of the governance program.  A governance can execute governance instructions on itself: the
  invocations the program makes are other programs, which the runtime keeps away from its accounts, and
  the program itself, to a bounded depth.
\<close>

section \<open>The program invoking itself\<close>

definition with_invoke ::
    "gov_env \<Rightarrow> (pubkey \<Rightarrow> sol_instruction \<Rightarrow> account_info list \<Rightarrow> bytes list list \<Rightarrow> ledger \<Rightarrow> ledger res) \<Rightarrow> gov_env" where
  "with_invoke E invoke = E\<lparr>ge_runtime := (ge_runtime E)\<lparr>rt_invoke_signed := invoke\<rparr>\<rparr>"

text \<open>The runtime checks the signers of an invocation, and refuses one below the last level.\<close>

primrec self_invoking :: "gov_env \<Rightarrow> (bytes \<Rightarrow> GovernanceInstruction option) \<Rightarrow> pubkey \<Rightarrow> nat \<Rightarrow> gov_env" where
  "self_invoking E decode pid 0 =
     with_invoke E (\<lambda>caller ix infos seeds led.
       if ix_program_id ix = pid then Inl InvalidInstructionData
       else rt_invoke_signed (ge_runtime E) caller ix infos seeds led)"
| "self_invoking E decode pid (Suc n) =
     with_invoke E (\<lambda>caller ix infos seeds led.
       if ix_program_id ix = pid then
         (if \<exists>m \<in> set (ix_accounts ix). am_is_signer m \<and> \<not> may_sign (ge_runtime E) caller infos seeds (am_pubkey m)
          then Inl MissingRequiredSignature
          else governance_process_instruction (self_invoking E decode pid n) decode pid
                 (map meta_info (ix_accounts ix)) (ix_data ix) led)
       else rt_invoke_signed (ge_runtime E) caller ix infos seeds led)"

lemma with_invoke_env [simp]:
  "ge_account_type (with_invoke E f) = ge_account_type E"
  "ge_RealmV1 (with_invoke E f) = ge_RealmV1 E"
  "ge_RealmV2 (with_invoke E f) = ge_RealmV2 E"
  "ge_RealmConfig (with_invoke E f) = ge_RealmConfig E"
  "ge_GovernanceV1 (with_invoke E f) = ge_GovernanceV1 E"
  "ge_GovernanceV2 (with_invoke E f) = ge_GovernanceV2 E"
  "ge_TokenOwnerRecordV1 (with_invoke E f) = ge_TokenOwnerRecordV1 E"
  "ge_TokenOwnerRecordV2 (with_invoke E f) = ge_TokenOwnerRecordV2 E"
  "ge_SignatoryRecordV1 (with_invoke E f) = ge_SignatoryRecordV1 E"
  "ge_SignatoryRecordV2 (with_invoke E f) = ge_SignatoryRecordV2 E"
  "ge_ProposalV1 (with_invoke E f) = ge_ProposalV1 E"
  "ge_ProposalV2 (with_invoke E f) = ge_ProposalV2 E"
  "ge_ProposalInstructionV1 (with_invoke E f) = ge_ProposalInstructionV1 E"
  "ge_ProposalTransactionV2 (with_invoke E f) = ge_ProposalTransactionV2 E"
  "ge_VoteRecordV1 (with_invoke E f) = ge_VoteRecordV1 E"
  "ge_VoteRecordV2 (with_invoke E f) = ge_VoteRecordV2 E"
  "ge_ProgramMetadata (with_invoke E f) = ge_ProgramMetadata E"
  "ge_system_create_account (with_invoke E f) = ge_system_create_account E"
  "ge_system_allocate (with_invoke E f) = ge_system_allocate E"
  "rt_invoke_signed (ge_runtime (with_invoke E f)) = f" "rt_clock_get (ge_runtime (with_invoke E f)) = rt_clock_get (ge_runtime E)"
  by (simp_all add: with_invoke_def)

lemma with_invoke_reads [simp]:
  "get_proposal_data (with_invoke E f) = get_proposal_data E" "get_governance_data (with_invoke E f) = get_governance_data E"
  "get_proposal_transaction_data (with_invoke E f) = get_proposal_transaction_data E"
  unfolding fun_eq_iff get_proposal_data_def get_governance_data_def get_proposal_transaction_data_def with_invoke_env
  by (intro allI refl)+

lemma with_invoke_fields [simp]:
  "proposal_at (with_invoke E f) = proposal_at E" "governance_at (with_invoke E f) = governance_at E"
  "borsh_lawful (with_invoke E f) = borsh_lawful E"
  by (simp_all add: fun_eq_iff proposal_at_def governance_at_def borsh_lawful_def codec_lawful_def codec_typed_def)

lemma with_invoke_relations [simp]:
  "proposals_advance (with_invoke E f) = proposals_advance E" "ledger_good (with_invoke E f) = ledger_good E"
  by (simp_all add: fun_eq_iff proposals_advance_def ledger_good_def account_good_def)

lemma self_invoking_relations [simp]:
  "get_proposal_data (self_invoking E decode pid n) = get_proposal_data E"
  "get_proposal_transaction_data (self_invoking E decode pid n) = get_proposal_transaction_data E"
  "rt_clock_get (ge_runtime (self_invoking E decode pid n)) = rt_clock_get (ge_runtime E)"
  "proposal_at (self_invoking E decode pid n) = proposal_at E"
  "proposals_advance (self_invoking E decode pid n) = proposals_advance E"
  "ledger_good (self_invoking E decode pid n) = ledger_good E"
  "borsh_lawful (self_invoking E decode pid n) = borsh_lawful E"
  by (cases n; simp)+

section \<open>Other programs\<close>

lemma other_proposals_advance:
  assumes "other_activity pid led led'"
  shows "proposals_advance E pid led led'"
  unfolding proposals_advance_def
proof (intro allI impI)
  fix k p
  assume p: "proposal_at E pid led k = Some p"
  from proposal_at_owned(1) [OF p] have "acc_data (led k) = acc_data (led' k)" "acc_owner (led k) = acc_owner (led' k)"
    using assms unfolding other_activity_def by metis+
  then have "proposal_at E pid led' k = Some p" using proposal_at_data [of led k led' E pid] p by simp
  then show "\<exists>p'. proposal_at E pid led' k = Some p' \<and> lifecycle\<^sup>*\<^sup>* (pr_state p) (pr_state p')" by blast
qed

lemma foreign_account_good: "acc_owner (led k) \<noteq> pid \<Longrightarrow> account_good E pid led k"
  using proposal_at_eq [of E pid led "key_info k"] governance_at_eq [of E pid led "key_info k"]
  by (auto simp: account_good_def get_proposal_data_Inr get_governance_data_Inr)

context gov_laws
begin

lemma zero_account_good:
  assumes "\<forall>b \<in> set (acc_data (led k)). b = 0"
  shows "account_good E pid led k"
proof -
  have "acc_data (led k) = replicate (length (acc_data (led k))) 0" using assms by (intro replicate_eqI) auto
  then show ?thesis
    using zeroed_good [of k "length (acc_data (led k))" led]
      account_good_data [of led k "set_data k (replicate (length (acc_data (led k))) 0) led" E pid] by simp
qed

lemma other_ledger_good:
  assumes "other_activity pid led led'" and "ledger_good E pid led"
  shows "ledger_good E pid led'"
  unfolding ledger_good_def
proof
  fix k
  have o: "if acc_owner (led k) = pid then acc_owner (led' k) = pid \<and> acc_data (led' k) = acc_data (led k) \<and>
      unat (acc_lamports (led k)) \<le> unat (acc_lamports (led' k))
    else acc_owner (led' k) = pid \<longrightarrow> (\<forall>b \<in> set (acc_data (led' k)). b = 0)"
    using assms(1) unfolding other_activity_def by (rule spec)
  show "account_good E pid led' k"
  proof (cases "acc_owner (led k) = pid")
    case True
    then show ?thesis using o assms(2) account_good_data [of led k led' E pid] by (simp add: ledger_good_def)
  next
    case False
    then show ?thesis using o zero_account_good [of led' k] foreign_account_good [of led' k pid E] by auto
  qed
qed

end

section \<open>Histories\<close>

text \<open>
  A history interleaves calls of the program with what others do; and the runtime removes an emptied
  account whose data is zeroed, so that its address can be used again.
\<close>

inductive gov_step :: "gov_env \<Rightarrow> (bytes \<Rightarrow> GovernanceInstruction option) \<Rightarrow> pubkey \<Rightarrow> ledger \<Rightarrow> ledger \<Rightarrow> bool" for E decode pid where
  call: "governance_process_instruction E decode pid accounts input led = Inr led' \<Longrightarrow> gov_step E decode pid led led'"
| elsewhere: "other_activity pid led led' \<Longrightarrow> gov_step E decode pid led led'"
| swept: "acc_lamports (led k) = 0 \<Longrightarrow> \<forall>b \<in> set (acc_data (led k)). b = 0 \<Longrightarrow> acc_data a = [] \<Longrightarrow>
    gov_step E decode pid led (led(k := a))"

context gov_cpi
begin

lemma call_advance: "governance_process_instruction E decode pid accounts input led = Inr led' \<Longrightarrow> proposals_advance E pid led led'"
  by (rule reach_advance [OF governance_reach])

lemma call_good:
  "governance_process_instruction E decode pid accounts input led = Inr led' \<Longrightarrow> ledger_good E pid led \<Longrightarrow> ledger_good E pid led'"
  by (rule reach_good [OF governance_reach])

lemma zero_not_proposal: "\<forall>b \<in> set (acc_data (led k)). b = 0 \<Longrightarrow> proposal_at E pid led k = None"
proof -
  assume "\<forall>b \<in> set (acc_data (led k)). b = 0"
  then have "acc_data (led k) = replicate (length (acc_data (led k))) 0" by (intro replicate_eqI) auto
  then have "ge_account_type E (acc_data (led k)) \<in> {Inr UninitializedType, Inl BorshIoError}"
    using borsh unfolding borsh_lawful_def by metis
  then show ?thesis using proposal_at_type [of led k] by (cases "proposal_at E pid led k") (auto simp: is_proposal_type_def)
qed

lemma step_advance: "gov_step E decode pid led led' \<Longrightarrow> proposals_advance E pid led led'"
proof (induction rule: gov_step.induct)
  case (swept led k a)
  have "proposal_at E pid (led(k := a)) j = Some p" if "proposal_at E pid led j = Some p" for j p
  proof -
    have "j \<noteq> k" using that zero_not_proposal [of led k, OF swept(2)] by auto
    then show ?thesis using that proposal_at_data [of led j "led(k := a)" E pid] by simp
  qed
  then show ?case unfolding proposals_advance_def by blast
qed (auto intro: call_advance other_proposals_advance)

lemma step_good: "gov_step E decode pid led led' \<Longrightarrow> ledger_good E pid led \<Longrightarrow> ledger_good E pid led'"
proof (induction rule: gov_step.induct)
  case (swept led k a)
  have "account_good E pid (led(k := a)) j" for j
  proof (cases "j = k")
    case True
    then show ?thesis using zero_account_good [of "led(k := a)" k] swept(3) by simp
  next
    case False
    then show ?thesis using swept.prems account_good_data [of led j "led(k := a)" E pid] by (simp add: ledger_good_def)
  qed
  then show ?case unfolding ledger_good_def by blast
qed (auto intro: call_good other_ledger_good)

lemma history_advance: "(gov_step E decode pid)\<^sup>*\<^sup>* led led' \<Longrightarrow> proposals_advance E pid led led'"
  by (induction rule: rtranclp_induct) (auto intro: proposals_advance_trans step_advance)

lemma history_good: "(gov_step E decode pid)\<^sup>*\<^sup>* led led' \<Longrightarrow> ledger_good E pid led \<Longrightarrow> ledger_good E pid led'"
  by (induction rule: rtranclp_induct) (auto intro: step_good)

end

section \<open>The contract of the environment\<close>

text \<open>
  What the program relies on: lawful encodings, the system program allocating only fresh accounts and
  being another program, and a runtime that lets no other program write its accounts.
\<close>

locale gov_world = gov_laws +
  assumes system_elsewhere: "ix_program_id (ge_system_create_account E payer k lamports sz owner) \<noteq> pid"
      "ix_program_id (ge_system_allocate E k sz) \<noteq> pid"
    and invoke_elsewhere: "ix_program_id ix \<noteq> pid \<Longrightarrow> rt_invoke_signed (ge_runtime E) pid ix infos seeds led = Inr led' \<Longrightarrow>
      other_activity pid led led'"
begin

lemma self_invoking_laws: "gov_laws (self_invoking E decode pid n) pid"
proof
  show "borsh_lawful (self_invoking E decode pid n)" using borsh by simp
  show "system_lawful (self_invoking E decode pid n) pid"
    using system system_elsewhere by (cases n) (simp_all add: system_lawful_def)
qed

lemma elsewhere_steps:
  "other_activity pid led led' \<Longrightarrow> proposals_advance E pid led led'"
  "other_activity pid led led' \<Longrightarrow> ledger_good E pid led \<Longrightarrow> ledger_good E pid led'"
  by (rule other_proposals_advance other_ledger_good; assumption)+

lemma self_invoking_cpi: "gov_cpi (self_invoking E decode pid n) pid"
proof (induction n)
  case 0
  have "other_activity pid led led'"
    if "rt_invoke_signed (ge_runtime (self_invoking E decode pid 0)) pid ix infos seeds led = Inr led'" for ix infos seeds led led'
    using that by (auto split: if_splits intro: invoke_elsewhere)
  then show ?case
    by (intro gov_cpi.intro self_invoking_laws gov_cpi_axioms.intro) (simp_all only: self_invoking_relations, (meson elsewhere_steps)+)
next
  case (Suc n)
  have "other_activity pid led led' \<or> (\<exists>accounts input.
      governance_process_instruction (self_invoking E decode pid n) decode pid accounts input led = Inr led')"
    if "rt_invoke_signed (ge_runtime (self_invoking E decode pid (Suc n))) pid ix infos seeds led = Inr led'" for ix infos seeds led led'
    using that by (auto split: if_splits intro: invoke_elsewhere)
  then show ?case
    using gov_cpi.call_advance [OF Suc] gov_cpi.call_good [OF Suc]
    by (intro gov_cpi.intro self_invoking_laws gov_cpi_axioms.intro) (simp_all only: self_invoking_relations, (meson elsewhere_steps)+)
qed

end

section \<open>Histories with a moving clock\<close>

text \<open>
  The runtime, and with it the clock, and the depth of self-invocation may differ from step to step; the
  encodings stay.
\<close>

abbreviation gov_at :: "gov_env \<Rightarrow> runtime \<Rightarrow> gov_env" where
  "gov_at E R \<equiv> E\<lparr>ge_runtime := R\<rparr>"

lemma gov_at_same: "gov_at E (ge_runtime E) = E"
  by simp

lemma gov_at_env:
  "ge_account_type (gov_at E R) = ge_account_type E"
  "ge_ProposalV1 (gov_at E R) = ge_ProposalV1 E"
  "ge_ProposalV2 (gov_at E R) = ge_ProposalV2 E"
  "ge_GovernanceV1 (gov_at E R) = ge_GovernanceV1 E"
  "ge_GovernanceV2 (gov_at E R) = ge_GovernanceV2 E"
  "ge_ProposalInstructionV1 (gov_at E R) = ge_ProposalInstructionV1 E"
  "ge_ProposalTransactionV2 (gov_at E R) = ge_ProposalTransactionV2 E"
  by simp_all

lemma gov_at_reads [simp]:
  "get_proposal_data (gov_at E R) = get_proposal_data E" "get_governance_data (gov_at E R) = get_governance_data E"
  "get_proposal_transaction_data (gov_at E R) = get_proposal_transaction_data E"
  unfolding fun_eq_iff get_proposal_data_def get_governance_data_def get_proposal_transaction_data_def gov_at_env
  by (intro allI refl)+

lemma gov_at_fields [simp]:
  "proposal_at (gov_at E R) = proposal_at E" "governance_at (gov_at E R) = governance_at E"
  "borsh_lawful (gov_at E R) = borsh_lawful E"
  by (simp_all add: fun_eq_iff proposal_at_def governance_at_def borsh_lawful_def codec_lawful_def codec_typed_def)

lemma gov_at_relations [simp]:
  "proposals_advance (gov_at E R) = proposals_advance E" "ledger_good (gov_at E R) = ledger_good E"
  by (simp_all add: fun_eq_iff proposals_advance_def ledger_good_def account_good_def)

inductive gov_history_step ::
    "gov_env \<Rightarrow> (bytes \<Rightarrow> GovernanceInstruction option) \<Rightarrow> pubkey \<Rightarrow> ledger \<Rightarrow> ledger \<Rightarrow> bool" for E decode pid where
  step: "gov_world (gov_at E R) pid \<Longrightarrow> gov_step (self_invoking (gov_at E R) decode pid n) decode pid led led' \<Longrightarrow>
    gov_history_step E decode pid led led'"

lemma gov_history_step_keeps:
  assumes "gov_history_step E decode pid led led'"
  shows "proposals_advance E pid led led'" and "ledger_good E pid led \<Longrightarrow> ledger_good E pid led'"
  using assms
  by (cases, use gov_cpi.step_advance gov_cpi.step_good gov_world.self_invoking_cpi in fastforce)+

lemma gov_history_advance: "(gov_history_step E decode pid)\<^sup>*\<^sup>* led led' \<Longrightarrow> proposals_advance E pid led led'"
proof (induction rule: rtranclp_induct)
  case base
  then show ?case by (auto simp: proposals_advance_def)
next
  case (step l l')
  then show ?case using proposals_advance_trans gov_history_step_keeps(1) by blast
qed

interpretation good_history: invariant_system "gov_history_step E decode pid" "ledger_good E pid"
  by unfold_locales (rule gov_history_step_keeps(2))

end
