(* ===== verification/Governance_Tally.thy ===== *)
theory Governance_Tally
  imports Governance_Ledger
begin

text \<open>
  Votes: the record of a vote is created once, and the tally does not depend on the order in which votes
  are cast and relinquished.
\<close>

section \<open>A vote is cast once\<close>

lemma created_data:
  assumes "create_and_serialize_account_signed E c None payer info v seeds pid system rent led = Inr led'"
    and "codec_roundtrip c"
  shows "cd_read c (info_data led' info) = Inr v" and "fst (rt_find_program_address (ge_runtime E) seeds pid) = ai_key info"
proof -
  from assms(1) show "fst (rt_find_program_address (ge_runtime E) seeds pid) = ai_key info"
    by (auto simp: create_and_serialize_account_signed_def create_and_serialize_account_with_owner_signed_def Let_def
        split: prod.splits if_splits)
  from assms(1) obtain led1 serialized n where s: "account_size_and_data c None v = Inr (serialized, n)"
    and w: "write_created_account c serialized n v info led1 = Inr led'"
    by (auto simp: create_and_serialize_account_signed_def create_and_serialize_account_with_owner_signed_def Let_def
        split: prod.splits if_splits elim!: attempt_eq_InrE)
  from s obtain bs where bs: "cd_write c v = Inr bs" "serialized = Some bs" by (auto simp: account_size_and_data_def res_simps)
  have "cd_read c (bs @ []) = Inr v" using assms(2) bs(1) by (simp only: codec_roundtrip_def)
  moreover have "info_data led' info = bs" using w bs(2) by (auto simp: write_created_account_def split: if_splits)
  ultimately show "cd_read c (info_data led' info) = Inr v" by simp
qed

lemma cast_vote_record:
  assumes "process_cast_vote E pid accounts vote led = Inr led'"
  obtains proposal_info voter_info vote_info payer system rent led1 r where
    "6 < length accounts" "accounts ! 2 = proposal_info" "accounts ! 4 = voter_info" "accounts ! 6 = vote_info"
    "info_data led vote_info = []" "vr_account_type r = VoteRecordV2"
    "create_and_serialize_account_signed E (ge_VoteRecordV2 E) None payer vote_info r
       (get_vote_record_address_seeds (ai_key proposal_info) (ai_key voter_info)) pid system rent led1 = Inr led'"
  using assms unfolding process_cast_vote_def Let_def
  by (elim peel_infos) (rule that, auto)

section \<open>Casting and relinquishing\<close>

lemma checked_undo: "checked_add (a :: u64) x = Some b \<Longrightarrow> checked_sub b x = Some a"
  by (simp add: checked_simps)

lemma checked_swap:
  assumes "checked_add (a :: u64) x = Some b" and "checked_add b y = Some c"
  shows "checked_add a y = Some (a + y)" and "checked_add (a + y) x = Some c"
proof -
  have sum: "unat c = unat a + unat x + unat y" using assms by (simp add: checked_simps)
  then have "unat a + unat y < 2 ^ 64" using unat_bound [of c] by simp
  then have s: "unat (a + y) = unat a + unat y" by (simp add: unat_word_ariths)
  show "checked_add a y = Some (a + y)" and "checked_add (a + y) x = Some c" using sum s by (simp_all add: checked_simps)
qed

lemma remove_added_choices:
  "add_choices opts cs w = Inr opts' \<Longrightarrow> remove_choices opts' cs w = Inr opts"
proof (induction opts cs w arbitrary: opts' rule: add_choices.induct)
  case (1 opt opts c cs w)
  from "1.prems" obtain x total rest where x: "get_choice_weight c w = Inr x"
    and t: "checked_add (po_vote_weight opt) x = Some total" and r: "add_choices opts cs w = Inr rest"
    and o: "opts' = opt\<lparr>po_vote_weight := total\<rparr> # rest" by (auto simp: res_simps)
  from checked_undo [OF t] show ?case using "1.IH" [OF r] t by (simp add: o x)
qed auto

lemma add_choices_swap:
  "add_choices opts cs w = Inr opts1 \<Longrightarrow> add_choices opts1 ds u = Inr opts2 \<Longrightarrow>
     \<exists>opts'. add_choices opts ds u = Inr opts' \<and> add_choices opts' cs w = Inr opts2"
proof (induction opts arbitrary: cs ds opts1 opts2)
  case Nil
  then show ?case by (cases cs; cases ds) auto
next
  case (Cons opt opts)
  show ?case
  proof (cases cs)
    case Nil
    then show ?thesis using Cons.prems by auto
  next
    case c: (Cons c cs')
    show ?thesis
    proof (cases ds)
      case Nil
      then show ?thesis using Cons.prems by auto
    next
      case d: (Cons d ds')
      from Cons.prems(1) c obtain x t1 r1 where x: "get_choice_weight c w = Inr x"
        and t1: "checked_add (po_vote_weight opt) x = Some t1" and r1: "add_choices opts cs' w = Inr r1"
        and o1: "opts1 = opt\<lparr>po_vote_weight := t1\<rparr> # r1" by (auto simp: res_simps)
      from Cons.prems(2) d o1 obtain y t2 r2 where y: "get_choice_weight d u = Inr y"
        and t2: "checked_add t1 y = Some t2" and r2: "add_choices r1 ds' u = Inr r2"
        and o2: "opts2 = opt\<lparr>po_vote_weight := t2\<rparr> # r2" by (auto simp: res_simps)
      from Cons.IH [OF r1 r2] obtain r where r: "add_choices opts ds' u = Inr r" "add_choices r cs' w = Inr r2" by blast
      from checked_swap [OF t1 t2] show ?thesis using r by (simp add: c d o2 x y)
    qed
  qed
qed

lemma count_vote_Inr:
  "count_vote p (VoteApprove cs) w = Inr p' \<longleftrightarrow> (\<exists>opts. add_choices (pr_options p) cs w = Inr opts \<and> p' = p\<lparr>pr_options := opts\<rparr>)"
  "count_vote p VoteDeny w = Inr p' \<longleftrightarrow>
     (\<exists>d t. pr_deny_vote_weight p = Some d \<and> checked_add d w = Some t \<and> p' = p\<lparr>pr_deny_vote_weight := Some t\<rparr>)"
  "count_vote p VoteVeto w = Inr p' \<longleftrightarrow>
     (\<exists>t. checked_add (pr_veto_vote_weight p) w = Some t \<and> p' = p\<lparr>pr_veto_vote_weight := t\<rparr>)"
  "count_vote p VoteAbstain w \<noteq> Inr p'"
  by (auto simp: count_vote_def res_simps)

lemma withdraw_vote_eq:
  "remove_choices (pr_options p) cs w = Inr opts \<Longrightarrow> withdraw_vote p (VoteApprove cs) w = Inr (p\<lparr>pr_options := opts\<rparr>)"
  "pr_deny_vote_weight p = Some d \<Longrightarrow> checked_sub d w = Some t \<Longrightarrow> withdraw_vote p VoteDeny w = Inr (p\<lparr>pr_deny_vote_weight := Some t\<rparr>)"
  "checked_sub (pr_veto_vote_weight p) w = Some t \<Longrightarrow> withdraw_vote p VoteVeto w = Inr (p\<lparr>pr_veto_vote_weight := t\<rparr>)"
  by (simp_all add: withdraw_vote_def)

lemma withdraw_counted: "count_vote p v w = Inr p' \<Longrightarrow> withdraw_vote p' v w = Inr p"
  by (cases v) (auto simp: count_vote_Inr withdraw_vote_eq remove_added_choices checked_undo)

lemma count_vote_swap:
  assumes "count_vote p v w = Inr p1" and "count_vote p1 v' w' = Inr p2"
  shows "\<exists>q. count_vote p v' w' = Inr q \<and> count_vote q v w = Inr p2"
proof (cases v)
  case (VoteApprove cs)
  with assms(1) obtain opts where o: "add_choices (pr_options p) cs w = Inr opts" "p1 = p\<lparr>pr_options := opts\<rparr>"
    by (auto simp: count_vote_Inr)
  show ?thesis
  proof (cases v')
    case v': (VoteApprove ds)
    with assms(2) o obtain opts2 where o2: "add_choices opts ds w' = Inr opts2" "p2 = p\<lparr>pr_options := opts2\<rparr>"
      by (auto simp: count_vote_Inr)
    from add_choices_swap [OF o(1) o2(1)] show ?thesis
      by (auto simp: VoteApprove v' o2(2) count_vote_Inr)
  qed (use assms(2) o in \<open>auto simp: VoteApprove count_vote_Inr\<close>)
next
  case VoteDeny
  with assms(1) obtain d t where d: "pr_deny_vote_weight p = Some d" "checked_add d w = Some t" "p1 = p\<lparr>pr_deny_vote_weight := Some t\<rparr>"
    by (auto simp: count_vote_Inr)
  show ?thesis by (cases v') (use assms(2) d checked_swap [OF d(2)] in \<open>auto simp: VoteDeny count_vote_Inr\<close>)
next
  case VoteVeto
  with assms(1) obtain t where d: "checked_add (pr_veto_vote_weight p) w = Some t" "p1 = p\<lparr>pr_veto_vote_weight := t\<rparr>"
    by (auto simp: count_vote_Inr)
  show ?thesis by (cases v') (use assms(2) d checked_swap [OF d(1)] in \<open>auto simp: VoteVeto count_vote_Inr\<close>)
qed (use assms(1) in \<open>simp add: count_vote_Inr\<close>)

text \<open>A sequence of votes with their weights, counted one after the other.\<close>

fun count_votes :: "ProposalV2 \<Rightarrow> (Vote \<times> u64) list \<Rightarrow> ProposalV2 res" where
  "count_votes p [] = Inr p"
| "count_votes p ((v, w) # vs) = attempt (count_vote p v w) (\<lambda>p. count_votes p vs)"

lemma count_votes_last:
  "count_vote p v w = Inr p1 \<Longrightarrow> count_votes p1 vs = Inr p2 \<Longrightarrow> \<exists>q. count_votes p vs = Inr q \<and> count_vote q v w = Inr p2"
proof (induction vs arbitrary: p p1)
  case Nil
  then show ?case by simp
next
  case (Cons vw vs)
  obtain v' w' where vw: "vw = (v', w')" by (cases vw)
  from Cons.prems(2) vw obtain p3 where p3: "count_vote p1 v' w' = Inr p3" "count_votes p3 vs = Inr p2" by (auto simp: res_simps)
  from count_vote_swap [OF Cons.prems(1) p3(1)] obtain q where q: "count_vote p v' w' = Inr q" "count_vote q v w = Inr p3" by blast
  from Cons.IH [OF q(2) p3(2)] show ?case by (simp add: vw q(1))
qed

lemma count_votes_append: "count_votes p (us @ vs) = attempt (count_votes p us) (\<lambda>p. count_votes p vs)"
  by (induction us arbitrary: p rule: list.induct) (auto simp: attempt_def split: sum.splits prod.splits)

text \<open>C12: relinquishing takes back exactly the vote that was cast.  Whatever votes were counted before and
  after it, withdrawing a vote from the tally succeeds and leaves the tally of the other votes.\<close>

theorem relinquish_removes_one_vote:
  assumes "count_votes p (us @ (v, w) # vs) = Inr p'"
  shows "\<exists>q. withdraw_vote p' v w = Inr q \<and> count_votes p (us @ vs) = Inr q"
proof -
  from assms obtain p0 p1 where p: "count_votes p us = Inr p0" "count_vote p0 v w = Inr p1" "count_votes p1 vs = Inr p'"
    by (auto simp: count_votes_append res_simps)
  from count_votes_last [OF p(2,3)] obtain q where "count_votes p0 vs = Inr q" "count_vote q v w = Inr p'" by blast
  then show ?thesis using p(1) withdraw_counted by (auto simp: count_votes_append)
qed


theorem relinquish_removes_one_vote_witness:
  "\<exists>p' q. count_votes (sample_proposal [sample_option 0] 0)
        [(VoteDeny, 5), (VoteApprove [\<lparr>vc_rank = 0, vc_weight_percentage = 100\<rparr>], 7), (VoteDeny, 3)] = Inr p' \<and>
     withdraw_vote p' (VoteApprove [\<lparr>vc_rank = 0, vc_weight_percentage = 100\<rparr>]) 7 = Inr q \<and>
     count_votes (sample_proposal [sample_option 0] 0) [(VoteDeny, 5), (VoteDeny, 3)] = Inr q"
proof -
  let ?p = "sample_proposal [sample_option 0] 0" and ?v = "VoteApprove [\<lparr>vc_rank = 0, vc_weight_percentage = 100\<rparr>]"
  have "count_votes ?p ([(VoteDeny, 5)] @ (?v, 7) # [(VoteDeny, 3)]) =
      Inr (?p\<lparr>pr_options := [sample_option 7], pr_deny_vote_weight := Some 8\<rparr>)"
    by (simp add: count_vote_def sample_proposal_def sample_option_def get_choice_weight_def checked_add_def)
  from relinquish_removes_one_vote [OF this] this show ?thesis by simp
qed

end
