(* ===== verification/Governance_Sample.thy ===== *)
theory Governance_Sample
  imports Governance_History Governance_Tally Token_Safety
begin

text \<open>
  A concrete environment for the governance program, with encodings by tables, in which its contract
  holds; it carries the concrete runs of the next theory.
\<close>

section \<open>A concrete environment\<close>

definition tag_type :: "u8 \<Rightarrow> GovernanceAccountType option" where
  "tag_type = map_of [(0, UninitializedType), (12, VoteRecordV2), (13, ProposalTransactionV2), (14, ProposalV2), (16, RealmV2),
     (17, TokenOwnerRecordV2), (18, GovernanceV2)]"

definition table_type :: "bytes \<Rightarrow> GovernanceAccountType res" where
  "table_type bs = (case bs of [] \<Rightarrow> Inl BorshIoError | t # _ \<Rightarrow> ok_or (tag_type t) BorshIoError)"

lemma table_codec_lawful:
  assumes "ge_account_type E = table_type" and "tag_type tag = Some t" and "\<forall>v \<in> set vs. f v = t" and "length vs \<le> 256"
  shows "codec_lawful E (table_codec tag vs) f"
proof -
  have "ge_account_type E bs = Inr (f v)" if "cd_read (table_codec tag vs) bs = Inr v" for bs v
    using that assms(2,3) by (auto simp: assms(1) table_codec_def table_type_def split: list.splits if_splits)
  then show ?thesis by (simp add: codec_lawful_def codec_typed_def table_codec_roundtrip [OF assms(4)])
qed

definition sample_config :: GovernanceConfig where
  "sample_config =
     \<lparr>gc_community_vote_threshold = YesVotePercentage 60, gc_min_community_weight_to_create_proposal = 1,
      gc_min_transaction_hold_up_time = 0, gc_max_voting_time = 2000, gc_vote_tipping = Strict,
      gc_council_vote_threshold = YesVotePercentage 60, gc_council_veto_vote_threshold = ThresholdDisabled,
      gc_min_council_weight_to_create_proposal = 1\<rparr>"

definition sample_governance :: GovernanceV2 where
  "sample_governance =
     \<lparr>gv_account_type = GovernanceV2, gv_realm = 40, gv_governed_account = 50, gv_proposals_count = 1, gv_config = sample_config,
      gv_reserved = replicate 6 0, gv_voting_proposal_count = 1, gv_reserved_v2 = replicate 128 0\<rparr>"

definition sample_realm :: RealmV2 where
  "sample_realm =
     \<lparr>rl_account_type = RealmV2, rl_community_mint = 20,
      rl_config = \<lparr>rc_use_community_voter_weight_addin = False, rc_use_max_community_voter_weight_addin = False,
        rc_reserved = replicate 6 0, rc_min_community_weight_to_create_governance = 1,
        rc_community_mint_max_vote_weight_source = SupplyFraction SUPPLY_FRACTION_BASE, rc_council_mint = None\<rparr>,
      rl_reserved = replicate 6 0, rl_voting_proposal_count = 1, rl_authority = None, rl_name = [82],
      rl_reserved_v2 = replicate 128 0\<rparr>"

definition sample_voter :: "u32 \<Rightarrow> TokenOwnerRecordV2" where
  "sample_voter votes = (new_token_owner_record 40 20 31 60)\<lparr>to_unrelinquished_votes_count := votes, to_total_votes_count := votes\<rparr>"

definition full_vote :: Vote where
  "full_vote = VoteApprove [\<lparr>vc_rank = 0, vc_weight_percentage = 100\<rparr>]"

definition sample_vote :: VoteRecordV2 where
  "sample_vote =
     \<lparr>vr_account_type = VoteRecordV2, vr_proposal = 42, vr_governing_token_owner = 31, vr_is_relinquished = False,
      vr_voter_weight = 60, vr_vote = full_vote, vr_reserved_v2 = replicate 8 0\<rparr>"

definition won_proposal :: ProposalV2 where
  "won_proposal =
     (sample_proposal [(sample_option 60)\<lparr>po_vote_result := OptionSucceeded\<rparr>] 30)
     \<lparr>pr_state := Succeeded, pr_voting_completed_at := Some 500, pr_max_vote_weight := Some 100,
      pr_vote_threshold := Some (YesVotePercentage 60)\<rparr>"

definition executed_proposal :: ProposalV2 where
  "executed_proposal =
     won_proposal\<lparr>pr_executing_at := Some 1000, pr_state := Completed, pr_closed_at := Some 1000,
       pr_options := [(sample_option 60)\<lparr>po_vote_result := OptionSucceeded, po_transactions_executed_count := 1\<rparr>]\<rparr>"

definition sample_transaction :: ProposalTransactionV2 where
  "sample_transaction =
     \<lparr>pt_account_type = ProposalTransactionV2, pt_proposal = 47, pt_option_index = 0, pt_transaction_index = 0, pt_hold_up_time = 100,
      pt_instructions = [], pt_executed_at = None, pt_execution_status = ExecutionNone, pt_reserved_v2 = replicate 8 0\<rparr>"

lemma no_codec_lawful: "codec_lawful E no_codec f"
  by (simp add: no_codec_def codec_lawful_def codec_roundtrip_def codec_typed_def)

text \<open>The runtime of the example creates accounts for the governance program \<open>9\<close> and refuses every other invocation.\<close>

definition sample_invoke :: "pubkey \<Rightarrow> sol_instruction \<Rightarrow> account_info list \<Rightarrow> bytes list list \<Rightarrow> ledger \<Rightarrow> ledger res" where
  "sample_invoke caller ix infos seeds led =
     (case ix_accounts ix of
        [payer, new] \<Rightarrow>
          if ix_program_id ix = 0 \<and> acc_owner (led (am_pubkey new)) \<noteq> 9 \<and> acc_data (led (am_pubkey new)) = []
          then Inr (led(am_pubkey new := \<lparr>acc_lamports = 3, acc_data = [0, 0], acc_owner = 9\<rparr>))
          else Inl InvalidInstructionData
      | _ \<Rightarrow> Inl InvalidInstructionData)"

definition system_ix :: "pubkey list \<Rightarrow> sol_instruction" where
  "system_ix ks =
     \<lparr>ix_program_id = 0, ix_accounts = map (\<lambda>k. \<lparr>am_pubkey = k, am_is_signer = False, am_is_writable = True\<rparr>) ks, ix_data = []\<rparr>"

definition sample_env :: gov_env where
  "sample_env =
     \<lparr>ge_runtime = example_runtime\<lparr>rt_invoke_signed := sample_invoke\<rparr>, ge_account_type = table_type,
      ge_RealmV1 = no_codec, ge_RealmV2 = table_codec 16 [sample_realm], ge_RealmConfig = no_codec,
      ge_GovernanceV1 = no_codec, ge_GovernanceV2 = table_codec 18 [sample_governance],
      ge_TokenOwnerRecordV1 = no_codec, ge_TokenOwnerRecordV2 = table_codec 17 [sample_voter 0, sample_voter 1],
      ge_SignatoryRecordV1 = no_codec, ge_SignatoryRecordV2 = no_codec, ge_ProposalV1 = no_codec,
      ge_ProposalV2 = table_codec 14 [sample_proposal [sample_option 0] 0, sample_proposal [sample_option 60] 0,
        won_proposal, executed_proposal],
      ge_ProposalInstructionV1 = no_codec,
      ge_ProposalTransactionV2 = table_codec 13 [sample_transaction,
        sample_transaction\<lparr>pt_executed_at := Some 1000, pt_execution_status := ExecutionSuccess\<rparr>],
      ge_VoteRecordV1 = no_codec, ge_VoteRecordV2 = table_codec 12 [sample_vote], ge_ProgramMetadata = no_codec,
      ge_VoterWeightRecord = no_codec, ge_MaxVoterWeightRecord = no_codec,
      ge_system_create_account = (\<lambda>payer k lamports n owner. system_ix [payer, k]),
      ge_system_transfer = (\<lambda>src dst lamports. system_ix []), ge_system_allocate = (\<lambda>k n. system_ix [k]),
      ge_system_assign = (\<lambda>k owner. system_ix [k]), ge_loader_id = 8,
      ge_loader_set_upgrade_authority = (\<lambda>p a new. system_ix []), ge_loader_state = (\<lambda>_. None), ge_version = []\<rparr>"

lemma sample_env_fields [simp]:
  "ge_runtime sample_env = example_runtime\<lparr>rt_invoke_signed := sample_invoke\<rparr>"
  "ge_account_type sample_env = table_type" "ge_RealmV1 sample_env = no_codec" "ge_RealmConfig sample_env = no_codec"
  "ge_GovernanceV1 sample_env = no_codec" "ge_TokenOwnerRecordV1 sample_env = no_codec" "ge_SignatoryRecordV1 sample_env = no_codec"
  "ge_SignatoryRecordV2 sample_env = no_codec" "ge_ProposalV1 sample_env = no_codec" "ge_ProposalInstructionV1 sample_env = no_codec"
  "ge_VoteRecordV1 sample_env = no_codec" "ge_ProgramMetadata sample_env = no_codec"
  "ge_RealmV2 sample_env = table_codec 16 [sample_realm]"
  "ge_GovernanceV2 sample_env = table_codec 18 [sample_governance]"
  "ge_TokenOwnerRecordV2 sample_env = table_codec 17 [sample_voter 0, sample_voter 1]"
  "ge_ProposalV2 sample_env = table_codec 14 [sample_proposal [sample_option 0] 0, sample_proposal [sample_option 60] 0,
     won_proposal, executed_proposal]"
  "ge_ProposalTransactionV2 sample_env = table_codec 13 [sample_transaction,
     sample_transaction\<lparr>pt_executed_at := Some 1000, pt_execution_status := ExecutionSuccess\<rparr>]"
  "ge_VoteRecordV2 sample_env = table_codec 12 [sample_vote]"
  "ge_system_create_account sample_env = (\<lambda>payer k lamports n owner. system_ix [payer, k])"
  "ge_system_allocate sample_env = (\<lambda>k n. system_ix [k])"
  by (simp_all add: sample_env_def)

lemma tag_types:
  "tag_type 12 = Some VoteRecordV2" "tag_type 13 = Some ProposalTransactionV2" "tag_type 14 = Some ProposalV2"
  "tag_type 16 = Some RealmV2" "tag_type 17 = Some TokenOwnerRecordV2" "tag_type 18 = Some GovernanceV2"
  by (simp_all add: tag_type_def)

lemma sample_lawful:
  "codec_lawful sample_env (ge_RealmV2 sample_env) rl_account_type"
  "codec_lawful sample_env (ge_GovernanceV2 sample_env) gv_account_type"
  "codec_lawful sample_env (ge_TokenOwnerRecordV2 sample_env) to_account_type"
  "codec_lawful sample_env (ge_ProposalV2 sample_env) pr_account_type"
  "codec_lawful sample_env (ge_ProposalTransactionV2 sample_env) pt_account_type"
  "codec_lawful sample_env (ge_VoteRecordV2 sample_env) vr_account_type"
  unfolding sample_env_fields
  by (rule table_codec_lawful, simp, rule tag_types, simp add: sample_realm_def sample_governance_def sample_voter_def sample_proposal_def
      won_proposal_def executed_proposal_def sample_transaction_def sample_vote_def new_token_owner_record_def, simp)+

lemma zero_type: "table_type (replicate n 0) \<in> {Inr UninitializedType, Inl BorshIoError}"
  by (cases n) (simp_all add: table_type_def tag_type_def)

interpretation sample: gov_world sample_env 9
proof
  show "borsh_lawful sample_env"
    using sample_lawful zero_type by (simp add: borsh_lawful_def no_codec_lawful)
  show "system_lawful sample_env 9"
    by (auto simp: system_lawful_def system_ix_def sample_invoke_def split: if_splits)
  show "ix_program_id (ge_system_create_account sample_env payer k lamports sz owner) \<noteq> 9"
    "ix_program_id (ge_system_allocate sample_env k sz) \<noteq> 9" for payer k lamports sz owner
    by (simp_all add: system_ix_def)
  show "other_activity 9 led led'"
    if "rt_invoke_signed (ge_runtime sample_env) 9 ix infos seeds led = Inr led'" for ix infos seeds led led'
    using that by (auto simp: sample_invoke_def other_activity_def split: list.splits if_splits)
qed

section \<open>A concrete execution\<close>

definition sample_ledger_gov :: ledger where
  "sample_ledger_gov k =
     (if k = 40 then \<lparr>acc_lamports = 3, acc_data = [16, 0], acc_owner = 9\<rparr>
      else if k = 41 then \<lparr>acc_lamports = 3, acc_data = [18, 0], acc_owner = 9\<rparr>
      else if k = 42 then \<lparr>acc_lamports = 3, acc_data = [14, 0], acc_owner = 9\<rparr>
      else if k = 43 then \<lparr>acc_lamports = 3, acc_data = [17, 0], acc_owner = 9\<rparr>
      else if k = 47 then \<lparr>acc_lamports = 3, acc_data = [14, 2], acc_owner = 9\<rparr>
      else if k = 48 then \<lparr>acc_lamports = 3, acc_data = [13, 0], acc_owner = 9\<rparr>
      else \<lparr>acc_lamports = 0, acc_data = [], acc_owner = 0\<rparr>)"

abbreviation sample_accounts :: "account_info list" where
  "sample_accounts \<equiv> [info 41 False, info 47 False, info 48 False]"

lemma sample_reads:
  "get_governance_data sample_env 9 (info 41 False) sample_ledger_gov = Inr sample_governance"
  "get_proposal_data sample_env 9 (info 47 False) sample_ledger_gov = Inr won_proposal"
  "get_proposal_transaction_data sample_env 9 (info 48 False) sample_ledger_gov = Inr sample_transaction"
  by (simp_all add: get_governance_data_def get_proposal_data_def get_proposal_transaction_data_def get_account_data_def
      sample_ledger_gov_def table_type_def tag_types table_codec_def is_governance_v1_account_type_def is_governance_v2_account_type_def
      sample_governance_def sample_config_def coerce_legacy_thresholds_def won_proposal_def sample_proposal_def sample_transaction_def)

lemma sample_can_execute:
  "assert_can_execute_transaction won_proposal sample_transaction 1000 = Inr ()"
  by (simp add: assert_can_execute_transaction_def option_at_def won_proposal_def sample_proposal_def sample_transaction_def
      i64_checked_add_def sint_u32)

lemma sample_recorded: "record_execution won_proposal 0 1000 = Inr executed_proposal"
  by (simp add: record_execution_def option_at_def set_option_def won_proposal_def executed_proposal_def sample_proposal_def
      sample_option_def checked_add_def)

lemma executed_written:
  "cd_write (table_codec 14 [sample_proposal [sample_option 0] 0, sample_proposal [sample_option 60] 0, won_proposal, executed_proposal])
     executed_proposal = Inr [14, 3]"
  by (simp add: table_codec_def upt_rec won_proposal_def executed_proposal_def sample_proposal_def sample_option_def)

lemma sample_execution:
  "process_execute_transaction (with_invoke sample_env f) 9 sample_accounts sample_ledger_gov =
     Inr (set_data 48 [13, 1] (set_data 47 [14, 3] sample_ledger_gov))"
proof -
  have c: "rt_clock_get example_runtime = Inr \<lparr>clock_slot = 7, clock_unix_timestamp = 1000, clock_epoch = 3\<rparr>"
    by (simp add: example_runtime_def)
  have s: "governance_own_address_seeds sample_governance = Inr (get_governance_address_seeds 40 50)"
    by (simp add: governance_own_address_seeds_def sample_governance_def)
  have p: "get_proposal_data_for_governance (with_invoke sample_env f) 9 (info 47 False) 41 sample_ledger_gov = Inr won_proposal"
    unfolding get_proposal_data_for_governance_def with_invoke_reads sample_reads by (simp add: won_proposal_def sample_proposal_def)
  have t: "get_proposal_transaction_data_for_proposal (with_invoke sample_env f) 9 (info 48 False) 47 sample_ledger_gov = Inr sample_transaction"
    unfolding get_proposal_transaction_data_for_proposal_def with_invoke_reads sample_reads by (simp add: sample_transaction_def)
  have w: "ProposalV2_serialize (with_invoke sample_env f) executed_proposal (info 47 False) sample_ledger_gov =
      Inr (set_data 47 [14, 3] sample_ledger_gov)"
    by (simp add: ProposalV2_serialize_def borsh_write_def executed_written) (simp add: executed_proposal_def won_proposal_def sample_proposal_def sample_ledger_gov_def)
  have w': "ProposalTransactionV2_serialize (with_invoke sample_env f)
      (sample_transaction\<lparr>pt_executed_at := Some 1000, pt_execution_status := ExecutionSuccess\<rparr>) (info 48 False)
      (set_data 47 [14, 3] sample_ledger_gov) = Inr (set_data 48 [13, 1] (set_data 47 [14, 3] sample_ledger_gov))"
    by (simp add: ProposalTransactionV2_serialize_def borsh_write_def table_codec_def upt_rec sample_transaction_def sample_ledger_gov_def)
  have tx: "pt_instructions sample_transaction = []" "pt_option_index sample_transaction = 0" by (simp_all add: sample_transaction_def)
  show ?thesis
    by (simp add: process_execute_transaction_def next_account_info_def c s p t tx w w' sample_reads sample_can_execute sample_recorded
        Let_def case_prod_unfold)
qed


lemma sample_ledger_good: "ledger_good sample_env 9 sample_ledger_gov"
proof -
  have p: "proposal_wf (sample_proposal [sample_option 0] 0)"
    by (simp add: proposal_wf_def sample_proposal_def sample_option_def undecided_def in_execution_def)
  have "get_min_vote_threshold_weight (YesVotePercentage 60) 100 = Inr 60" by (simp add: min_vote_threshold_weight_eq)
  then have w: "proposal_wf won_proposal"
    by (simp add: proposal_wf_def won_proposal_def sample_proposal_def sample_option_def undecided_def in_execution_def option_won_def)
  have c: "config_thresholds_ok (coerce_legacy_thresholds sample_config)"
    by (simp add: config_thresholds_ok_def coerce_legacy_thresholds_def sample_config_def)
  have "account_good sample_env 9 sample_ledger_gov k" for k
  proof (cases "k \<in> {40, 41, 42, 43, 47, 48}")
    case False
    then show ?thesis by (intro foreign_account_good) (auto simp: sample_ledger_gov_def)
  next
    case True
    have "account_good sample_env 9 sample_ledger_gov 40" "account_good sample_env 9 sample_ledger_gov 41"
      "account_good sample_env 9 sample_ledger_gov 42" "account_good sample_env 9 sample_ledger_gov 43"
      "account_good sample_env 9 sample_ledger_gov 47" "account_good sample_env 9 sample_ledger_gov 48"
      using p w c by (simp_all add: account_good_def proposal_at_def governance_at_def get_proposal_data_def get_governance_data_def
          get_account_data_def sample_ledger_gov_def table_type_def tag_types table_codec_def no_codec_def
          is_governance_v1_account_type_def is_governance_v2_account_type_def sample_governance_def)
    then show ?thesis using True by blast
  qed
  then show ?thesis by (simp add: ledger_good_def)
qed


lemma self_invoking_with_invoke: "\<exists>f. self_invoking E decode pid n = with_invoke E f"
  by (cases n) auto

lemma sample_call:
  "gov_step (self_invoking sample_env (\<lambda>_. Some ExecuteTransaction) 9 3) (\<lambda>_. Some ExecuteTransaction) 9 sample_ledger_gov
     (set_data 48 [13, 1] (set_data 47 [14, 3] sample_ledger_gov))"
proof -
  obtain f where f: "self_invoking sample_env (\<lambda>_. Some ExecuteTransaction) 9 3 = with_invoke sample_env f"
    using self_invoking_with_invoke by blast
  show ?thesis unfolding f
    by (rule gov_step.call [of _ _ _ sample_accounts "[]"]) (simp add: governance_process_instruction_def sample_execution)
qed

lemma sample_proposal_at:
  "proposal_at sample_env 9 sample_ledger_gov 47 = Some won_proposal"
  "proposal_at sample_env 9 (set_data 48 [13, 1] (set_data 47 [14, 3] sample_ledger_gov)) 47 = Some executed_proposal"
  by (simp_all add: proposal_at_def get_proposal_data_def get_account_data_def sample_ledger_gov_def table_type_def tag_types
      table_codec_def executed_proposal_def won_proposal_def sample_proposal_def)

section \<open>A concrete vote\<close>

definition voting_ledger :: ledger where
  "voting_ledger = sample_ledger_gov(20 := \<lparr>acc_lamports = 3,
     acc_data = replicate 36 0 @ [150, 0, 0, 0, 0, 0, 0, 0, 2, 1] @ replicate 36 0, acc_owner = 5\<rparr>)"

definition voting_accounts :: "account_info list" where
  "voting_accounts = [info 40 False, info 41 False, info 42 False, info 43 False, info 43 False, info 31 True, info 77 False,
     info 20 False, info 30 True, info 0 False, info 46 False]"

lemma voting_reads:
  "get_realm_data sample_env 9 (info 40 False) voting_ledger = Inr sample_realm"
  "get_governance_data sample_env 9 (info 41 False) voting_ledger = Inr sample_governance"
  "get_proposal_data sample_env 9 (info 42 False) voting_ledger = Inr (sample_proposal [sample_option 0] 0)"
  "get_token_owner_record_data sample_env 9 (info 43 False) voting_ledger = Inr (sample_voter 0)"
  by (simp_all add: get_realm_data_def get_governance_data_def get_proposal_data_def get_token_owner_record_data_def get_account_data_def
      voting_ledger_def sample_ledger_gov_def table_type_def tag_types table_codec_def is_governance_v1_account_type_def is_governance_v2_account_type_def
      is_realm_account_type_def sample_realm_def sample_voter_def new_token_owner_record_def
      sample_governance_def sample_config_def coerce_legacy_thresholds_def sample_proposal_def)

lemma voting_checks:
  "get_realm_data_for_governing_token_mint sample_env 9 (info 40 False) 20 voting_ledger = Inr sample_realm"
  "get_governance_data_for_realm sample_env 9 (info 41 False) 40 voting_ledger = Inr sample_governance"
  "get_proposal_data_for_governance_and_governing_mint sample_env 9 (info 42 False) 41 20 voting_ledger = Inr (sample_proposal [sample_option 0] 0)"
  "get_token_owner_record_data_for_realm_and_governing_mint sample_env 9 (info 43 False) 40 20 voting_ledger = Inr (sample_voter 0)"
  by (simp_all add: get_realm_data_for_governing_token_mint_def get_governance_data_for_realm_def get_proposal_data_for_governance_def
      get_proposal_data_for_governance_and_governing_mint_def get_token_owner_record_data_for_realm_and_governing_mint_def
      get_token_owner_record_data_for_realm_def voting_reads)
    (simp_all add: sample_realm_def assert_is_valid_governing_token_mint_def sample_governance_def sample_proposal_def sample_voter_def
      new_token_owner_record_def)

lemma sample_runtime_facts:
  "token_program_id (example_runtime\<lparr>rt_invoke_signed := sample_invoke\<rparr>) = 5"
  "rt_clock_get example_runtime = Inr \<lparr>clock_slot = 7, clock_unix_timestamp = 1000, clock_epoch = 3\<rparr>"
  by (simp_all add: fields_without_invoke token_program_id_def example_runtime_def)

lemma voting_supply: "get_spl_token_mint_supply sample_env (info 20 False) voting_ledger = Inr 150"
  by (simp add: get_spl_token_mint_supply_def assert_is_valid_spl_token_mint_def voting_ledger_def subslice_def sample_runtime_facts)

abbreviation open_proposal :: ProposalV2 where
  "open_proposal \<equiv> sample_proposal [sample_option 0] 0"

abbreviation voted_proposal :: ProposalV2 where
  "voted_proposal \<equiv> sample_proposal [sample_option 60] 0"

lemma voting_steps:
  "get_proposal_governing_token_mint_for_vote sample_realm 20 Electorate = Inr 20"
  "get_vote_kind full_vote = Electorate"
  "assert_can_cast_vote open_proposal sample_config 1000 = Inr ()"
  "assert_token_owner_or_delegate_is_signer (sample_voter 0) (info 31 True) = Inr ()"
  "checked_add (to_unrelinquished_votes_count (sample_voter 0)) 1 = Some 1"
  "checked_add (to_total_votes_count (sample_voter 0)) 1 = Some 1"
  "(sample_voter 0)\<lparr>to_unrelinquished_votes_count := 1, to_total_votes_count := 1\<rparr> = sample_voter 1"
  "resolve_voter_weight sample_env (sample_voter 1) 9 (info 46 False) [] 40 sample_realm ActionCastVote 42 voting_ledger = Inr (60, [])"
  "assert_valid_vote open_proposal full_vote = Inr ()"
  "count_vote open_proposal full_vote 60 = Inr voted_proposal"
  "resolve_max_voter_weight sample_env voted_proposal 9 (info 46 False) (info 20 False) [] 40 sample_realm Electorate voting_ledger = Inr (150, [])"
  "resolve_vote_threshold sample_governance sample_realm 20 Electorate = Inr (YesVotePercentage 60)"
  "try_tip_vote voted_proposal 150 Strict 1000 (YesVotePercentage 60) Electorate = Inr (voted_proposal, False)"
  "gv_config sample_governance = sample_config" "gv_realm sample_governance = 40" "gc_vote_tipping sample_config = Strict"
  "to_governing_token_owner (sample_voter 1) = 31"
  by (simp_all add: get_proposal_governing_token_mint_for_vote_def sample_realm_def full_vote_def assert_can_cast_vote_def assert_is_voting_state_def
      map_err_def has_vote_time_ended_def sample_proposal_def sample_config_def i64_checked_add_def sint_u32
      assert_token_owner_or_delegate_is_signer_def sample_voter_def new_token_owner_record_def checked_add_def resolve_voter_weight_def
      assert_valid_vote_def count_vote_def get_choice_weight_def sample_option_def resolve_max_voter_weight_def voting_supply
      get_max_voter_weight_from_mint_supply_def resolve_vote_threshold_def sample_governance_def try_tip_vote_def
      try_get_tipped_vote_state_def try_get_tipped_electorate_vote_state_def min_weight_or_panic_def min_vote_threshold_weight_eq saturating_sub_def)

lemma voting_writes:
  "TokenOwnerRecordV2_serialize sample_env (sample_voter 1) (info 43 False) voting_ledger = Inr (set_data 43 [17, 1] voting_ledger)"
  "ProposalV2_serialize sample_env voted_proposal (info 42 False) (set_data 43 [17, 1] voting_ledger) =
     Inr (set_data 42 [14, 1] (set_data 43 [17, 1] voting_ledger))"
  by (simp_all add: TokenOwnerRecordV2_serialize_def ProposalV2_serialize_def borsh_write_def table_codec_def upt_rec sample_voter_def
      new_token_owner_record_def sample_proposal_def sample_option_def voting_ledger_def sample_ledger_gov_def)

lemma voting_create:
  assumes "acc_data (led 77) = []" "acc_owner (led 77) = 0" "acc_lamports (led 77) = 0"
  shows "\<exists>led'. create_and_serialize_account_signed sample_env (ge_VoteRecordV2 sample_env) None (info 30 True) (info 77 False)
    sample_vote seeds 9 (info 0 False) rent led = Inr led'"
  using assms
  by (simp add: create_and_serialize_account_signed_def create_and_serialize_account_with_owner_signed_def Let_def
      account_size_and_data_def write_created_account_def table_codec_def upt_rec example_runtime_def sample_invoke_def system_ix_def)

lemma sample_cast: "\<exists>led'. process_cast_vote sample_env 9 voting_accounts full_vote voting_ledger = Inr led'"
proof -
  have e: "acc_data (voting_ledger 77) = []" by (simp add: voting_ledger_def sample_ledger_gov_def)
  have r: "rt_rent_get example_runtime = Inr \<lparr>rent_is_exempt = (\<lambda>l n. True), rent_minimum_balance = (\<lambda>n. 3)\<rparr>"
    by (simp add: example_runtime_def)
  have "\<exists>led'. create_and_serialize_account_signed sample_env (ge_VoteRecordV2 sample_env) None (info 30 True) (info 77 False)
      sample_vote seeds 9 (info 0 False) rent (set_data 42 [14, 1] (set_data 43 [17, 1] voting_ledger)) = Inr led'" for seeds rent
    by (rule voting_create) (simp_all add: voting_ledger_def sample_ledger_gov_def)
  then show ?thesis
    unfolding process_cast_vote_def voting_accounts_def
    by (simp add: next_account_info_def e r sample_runtime_facts voting_checks voting_steps voting_writes sample_vote_def)
qed

end
