(* ===== verification/Governance_Guarantees.thy ===== *)
theory Governance_Guarantees
  imports Governance_Sample
begin

text \<open>
  What holds of proposals and votes over whole histories of the governance program, with a concrete run
  in which a transaction of a won proposal is executed.
\<close>

lemma execute_checks:
  assumes "process_execute_transaction E pid (governance_info # proposal_info # transaction_info # rest) led = Inr led'"
  obtains p tx clock where "get_proposal_data E pid proposal_info led = Inr p" "get_proposal_transaction_data E pid transaction_info led = Inr tx"
    "rt_clock_get (ge_runtime E) = Inr clock" "assert_can_execute_transaction p tx (clock_unix_timestamp clock) = Inr ()"
  using assms unfolding process_execute_transaction_def Let_def
  by (elim peel_infos case_pairE) (auto intro: that reads)

lemma executable_option:
  assumes "assert_can_execute_transaction p tx now = Inr ()"
  obtains opt completed_at where "option_at p (pt_option_index tx) = Inr opt" "po_vote_result opt = OptionSucceeded"
    "pr_voting_completed_at p = Some completed_at" "sint completed_at + int (unat (pt_hold_up_time tx)) < sint now"
    "pt_executed_at tx = None"
proof -
  from assms obtain opt completed_at hold_up_end where o: "option_at p (pt_option_index tx) = Inr opt" "po_vote_result opt = OptionSucceeded"
    "pr_voting_completed_at p = Some completed_at" and h: "i64_checked_add completed_at (ucast (pt_hold_up_time tx)) = Some hold_up_end"
    and t: "sint hold_up_end < sint now" "pt_executed_at tx = None"
    by (auto simp: assert_can_execute_transaction_def res_simps not_le split: if_splits)
  have u: "sint (ucast (pt_hold_up_time tx) :: i64) = int (unat (pt_hold_up_time tx))"
    by (rule sint_u32)
  from h have "sint hold_up_end = sint completed_at + sint (ucast (pt_hold_up_time tx) :: i64)"
    by (rule i64_checked_add_sint)
  then show thesis using that o t u by simp
qed

lemma option_won_share:
  assumes "option_won p opt"
  obtains m pct where "pr_max_vote_weight p = Some m" "pr_vote_threshold p = Some (YesVotePercentage pct)"
    "unat pct * unat m \<le> 100 * unat (po_vote_weight opt)"
proof -
  from assms obtain m t mw where m: "pr_max_vote_weight p = Some m" "pr_vote_threshold p = Some t" "threshold_percentage_ok t"
    "get_min_vote_threshold_weight t m = Inr mw" "mw \<le> po_vote_weight opt"
    by (auto simp: option_won_def split: option.splits sum.splits)
  from m(4) obtain pct where t: "t = YesVotePercentage pct" by (auto simp: get_min_vote_threshold_weight_Inr)
  have "unat pct \<le> 100" using m(3) t by simp
  from min_vote_threshold_weight_exact(2) [OF this m(4) [unfolded t]] m(5)
  have "unat pct * unat m \<le> 100 * unat (po_vote_weight opt)" by (simp add: word_le_nat_alt)
  then show thesis using that m(1,2) t by simp
qed


section \<open>Properties\<close>

text \<open>C8: the state of a proposal only ever moves along its life cycle.  Over any history of governance
  instructions, of self-invocations to any depth, and of whatever other programs do, with the clock moving on,
  a stored proposal stays stored and its state advances along \<open>next_states\<close>: from draft over signing off and
  voting to its result, from there to its execution, with or without errors, and to completion.  It never
  returns, and \<^verbatim>\<open>Completed\<close>, \<^verbatim>\<open>Cancelled\<close>, \<^verbatim>\<open>Defeated\<close> and \<^verbatim>\<open>Vetoed\<close> are final.  A proposal does get from
  \<^verbatim>\<open>ExecutingWithErrors\<close> to \<^verbatim>\<open>Completed\<close>, against the comments in \<^verbatim>\<open>enums.rs\<close> and
  \<^verbatim>\<open>process_execute_transaction.rs\<close> (see \<open>errors_then_completed\<close>).\<close>

theorem proposal_lifecycle:
  assumes "(gov_history_step E decode pid)\<^sup>*\<^sup>* led led'" and "proposal_at E pid led k = Some p"
  shows "\<exists>p'. proposal_at E pid led' k = Some p' \<and> lifecycle\<^sup>*\<^sup>* (pr_state p) (pr_state p') \<and>
    (pr_state p \<in> {Completed, Cancelled, Defeated, Vetoed} \<longrightarrow> pr_state p' = pr_state p)"
proof -
  from gov_history_advance [OF assms(1)] assms(2)
  obtain p' where p': "proposal_at E pid led' k = Some p'" "lifecycle\<^sup>*\<^sup>* (pr_state p) (pr_state p')"
    by (auto simp: proposals_advance_def)
  have "pr_state p' = pr_state p" if "pr_state p \<in> {Completed, Cancelled, Defeated, Vetoed}"
    using p'(2) that by (cases rule: converse_rtranclpE) (auto simp: lifecycle_def)
  then show ?thesis using p' by blast
qed

lemma sample_proposal_history:
  "gov_history_step sample_env (\<lambda>_. Some ExecuteTransaction) 9 sample_ledger_gov
     (set_data 48 [13, 1] (set_data 47 [14, 3] sample_ledger_gov))"
  by (rule gov_history_step.step [where R = "ge_runtime sample_env" and n = 3])
    (unfold gov_at_same, rule sample.gov_world_axioms, rule sample_call)

theorem proposal_lifecycle_witness:
  "\<exists>led'. (gov_history_step sample_env (\<lambda>_. Some ExecuteTransaction) 9)\<^sup>*\<^sup>* sample_ledger_gov led' \<and>
     proposal_at sample_env 9 sample_ledger_gov 47 = Some won_proposal \<and>
     proposal_at sample_env 9 led' 47 = Some executed_proposal \<and> lifecycle\<^sup>*\<^sup>* Succeeded Completed"
proof -
  let ?led = "set_data 48 [13, 1] (set_data 47 [14, 3] sample_ledger_gov)"
  have h: "(gov_history_step sample_env (\<lambda>_. Some ExecuteTransaction) 9)\<^sup>*\<^sup>* sample_ledger_gov ?led"
    using sample_proposal_history by blast
  from proposal_lifecycle [OF h sample_proposal_at(1)]
  have "lifecycle\<^sup>*\<^sup>* (pr_state won_proposal) (pr_state executed_proposal)" using sample_proposal_at(2) by auto
  then have "lifecycle\<^sup>*\<^sup>* Succeeded Completed" by (simp add: won_proposal_def executed_proposal_def)
  then show ?thesis using h sample_proposal_at by blast
qed

text \<open>
  A flagged transaction can still be executed, and when it was the last one the proposal is completed.
\<close>

lemma errors_then_completed:
  assumes "pr_state p = ExecutingWithErrors" and "pr_options p = [opt]"
    and "checked_add (po_transactions_executed_count opt) 1 = Some (po_transactions_count opt)"
  shows "\<exists>p'. record_execution p 0 now = Inr p' \<and> pr_state p' = Completed"
  using assms by (simp add: record_execution_def option_at_def set_option_def Let_def)

text \<open>What is stored of an executed transaction, and that no call executes it again.\<close>

lemma execute_writes:
  assumes "process_execute_transaction E pid (governance_info # proposal_info # transaction_info # rest) led = Inr led'"
  obtains p tx clock l where "get_proposal_data_for_governance E pid proposal_info (ai_key governance_info) led = Inr p"
    "get_proposal_transaction_data_for_proposal E pid transaction_info (ai_key proposal_info) led = Inr tx"
    "rt_clock_get (ge_runtime E) = Inr clock" "assert_can_execute_transaction p tx (clock_unix_timestamp clock) = Inr ()"
    "ProposalTransactionV2_serialize E (tx\<lparr>pt_executed_at := Some (clock_unix_timestamp clock), pt_execution_status := ExecutionSuccess\<rparr>)
       transaction_info l = Inr led'"
  using assms unfolding process_execute_transaction_def Let_def
  by (elim peel_infos case_pairE) (auto intro: that)

context gov_laws
begin

lemma transaction_written:
  assumes "ProposalTransactionV2_serialize E tx tinfo l = Inr led'" and "pt_account_type tx \<in> {ProposalInstructionV1, ProposalTransactionV2}"
    and "acc_data (l' (ai_key tinfo)) = acc_data (led' (ai_key tinfo))" and "get_proposal_transaction_data E pid tinfo l' = Inr tx'"
  shows "pt_executed_at tx' = pt_executed_at tx"
proof -
  from assms(1,2) consider (v2) "borsh_write (ge_ProposalTransactionV2 E) tx tinfo l = Inr led'" "pt_account_type tx = ProposalTransactionV2"
    | (v1) w where "borsh_write (ge_ProposalInstructionV1 E) w tinfo l = Inr led'" "pi_account_type w = ProposalInstructionV1"
      "pi_executed_at w = pt_executed_at tx"
    by (auto simp: ProposalTransactionV2_serialize_def split: if_splits list.splits)
  then show ?thesis
  proof cases
    case v2
    from borsh_writeE [OF v2(1) codecs(13)] obtain bs where "led' = set_data (ai_key tinfo) bs l"
      "cd_read (ge_ProposalTransactionV2 E) bs = Inr tx" "ge_account_type E bs = Inr (pt_account_type tx)" by blast
    then show ?thesis using assms(3,4) v2(2) by (auto simp: get_proposal_transaction_data_def get_account_data_def res_simps split: if_splits)
  next
    case v1
    from borsh_writeE [OF v1(1) codecs(12)] obtain bs where "led' = set_data (ai_key tinfo) bs l"
      "cd_read (ge_ProposalInstructionV1 E) bs = Inr w" "ge_account_type E bs = Inr (pi_account_type w)" by blast
    then show ?thesis using assms(3,4) v1(2,3) by (auto simp: get_proposal_transaction_data_def get_account_data_def res_simps split: if_splits)
  qed
qed

end

text \<open>C7: a transaction is executed only for an option that won its vote.  In any history, with the clock moving
  on, that starts from a ledger whose proposals are sound (such as one without governance accounts), let the
  program execute a transaction with a proposal in the current layout (\<^verbatim>\<open>ProposalV2\<close>).  Then the transaction
  is one of this proposal and the proposal one of this governance; the transaction's option was marked as
  succeeded with at least the recorded percentage of the recorded maximal weight; the hold-up time since the
  end of the vote is over; and the transaction was not executed before.  Afterwards no call executes it, on any
  ledger that holds its account as the call left it.\<close>

theorem execution_was_voted:
  assumes "gov_world (gov_at E R) pid" and "ledger_good E pid led0" and "(gov_history_step E decode pid)\<^sup>*\<^sup>* led0 led"
    and "process_execute_transaction (self_invoking (gov_at E R) decode pid n) pid (governance_info # proposal_info # transaction_info # rest) led
      = Inr led'"
    and "proposal_at E pid led (ai_key proposal_info) = Some p" and "pr_account_type p = ProposalV2"
  shows "\<exists>tx opt m pct completed_at clock. get_proposal_transaction_data E pid transaction_info led = Inr tx \<and>
    pt_proposal tx = ai_key proposal_info \<and> pr_governance p = ai_key governance_info \<and>
    option_at p (pt_option_index tx) = Inr opt \<and> po_vote_result opt = OptionSucceeded \<and>
    pr_max_vote_weight p = Some m \<and> pr_vote_threshold p = Some (YesVotePercentage pct) \<and>
    unat pct * unat m \<le> 100 * unat (po_vote_weight opt) \<and>
    pr_voting_completed_at p = Some completed_at \<and> rt_clock_get R = Inr clock \<and>
    sint completed_at + int (unat (pt_hold_up_time tx)) < sint (clock_unix_timestamp clock) \<and> pt_executed_at tx = None \<and>
    (\<forall>R' n' governance_info' proposal_info' rest' l. acc_data (l (ai_key transaction_info)) = acc_data (led' (ai_key transaction_info)) \<longrightarrow>
       \<not> is_ok (process_execute_transaction (self_invoking (gov_at E R') decode pid n') pid
         (governance_info' # proposal_info' # transaction_info # rest') l))"
proof -
  let ?F = "self_invoking (gov_at E R) decode pid n"
  from assms(4) obtain q tx clock l where q: "get_proposal_data_for_governance ?F pid proposal_info (ai_key governance_info) led = Inr q"
    and tx: "get_proposal_transaction_data_for_proposal ?F pid transaction_info (ai_key proposal_info) led = Inr tx"
    and c: "rt_clock_get (ge_runtime ?F) = Inr clock"
    and x: "assert_can_execute_transaction q tx (clock_unix_timestamp clock) = Inr ()"
    and w: "ProposalTransactionV2_serialize ?F (tx\<lparr>pt_executed_at := Some (clock_unix_timestamp clock),
        pt_execution_status := ExecutionSuccess\<rparr>) transaction_info l = Inr led'"
    by (rule execute_writes)
  have q': "get_proposal_data E pid proposal_info led = Inr q" "pr_governance q = ai_key governance_info"
    using q by (auto simp: get_proposal_data_for_governance_def res_simps)
  have tx': "get_proposal_transaction_data E pid transaction_info led = Inr tx" "pt_proposal tx = ai_key proposal_info"
    using tx by (auto simp: get_proposal_transaction_data_for_proposal_def res_simps)
  have qp: "q = p" using q' assms(5) proposal_at_eq [of E pid led proposal_info] by simp
  from x qp obtain opt completed_at where o: "option_at p (pt_option_index tx) = Inr opt" "po_vote_result opt = OptionSucceeded"
    and t: "pr_voting_completed_at p = Some completed_at"
      "sint completed_at + int (unat (pt_hold_up_time tx)) < sint (clock_unix_timestamp clock)" "pt_executed_at tx = None"
    by (auto elim: executable_option)
  have "ledger_good E pid led" using good_history.run_inv [OF assms(3,2)] .
  then have "proposal_wf p" using assms(5,6) by (auto simp: ledger_good_def account_good_def)
  moreover have "opt \<in> set (pr_options p)" using o(1) by (auto simp: option_at_def split: if_splits)
  ultimately have "option_won p opt" using o(2) by (simp add: proposal_wf_def)
  then obtain m pct where won: "pr_max_vote_weight p = Some m" "pr_vote_threshold p = Some (YesVotePercentage pct)"
    "unat pct * unat m \<le> 100 * unat (po_vote_weight opt)" by (rule option_won_share)
  note laws = gov_world.self_invoking_laws [OF assms(1), of decode n]
  have ty: "pt_account_type tx \<in> {ProposalInstructionV1, ProposalTransactionV2}"
    using gov_laws.transaction_read(2) [OF laws, of transaction_info led tx] tx'(1) by simp
  have refused: "\<not> is_ok (process_execute_transaction (self_invoking (gov_at E R') decode pid n') pid
      (governance_info' # proposal_info' # transaction_info # rest') l')"
    if same: "acc_data (l' (ai_key transaction_info)) = acc_data (led' (ai_key transaction_info))"
    for R' n' governance_info' proposal_info' rest' l'
  proof
    assume "is_ok (process_execute_transaction (self_invoking (gov_at E R') decode pid n') pid
      (governance_info' # proposal_info' # transaction_info # rest') l')"
    then obtain l'' where "process_execute_transaction (self_invoking (gov_at E R') decode pid n') pid
      (governance_info' # proposal_info' # transaction_info # rest') l' = Inr l''" by (auto simp: is_ok_iff)
    then obtain p2 tx2 now where "get_proposal_transaction_data E pid transaction_info l' = Inr tx2"
      and x2: "assert_can_execute_transaction p2 tx2 now = Inr ()" by (rule execute_checks) simp
    then have "pt_executed_at tx2 = Some (clock_unix_timestamp clock)"
      using gov_laws.transaction_written [OF laws w, where l' = l' and tx' = tx2] same ty by simp
    moreover from x2 have "pt_executed_at tx2 = None" by (rule executable_option)
    ultimately show False by simp
  qed
  have "rt_clock_get R = Inr clock" using c by simp
  with tx' q'(2) qp o won t refused show ?thesis by blast
qed

theorem execution_was_voted_witness:
  "\<exists>led' m pct opt. process_execute_transaction (self_invoking sample_env (\<lambda>_. Some ExecuteTransaction) 9 3) 9 sample_accounts
       sample_ledger_gov = Inr led' \<and> option_at won_proposal 0 = Inr opt \<and>
     pr_max_vote_weight won_proposal = Some m \<and> pr_vote_threshold won_proposal = Some (YesVotePercentage pct) \<and>
     unat pct * unat m \<le> 100 * unat (po_vote_weight opt) \<and>
     \<not> is_ok (process_execute_transaction (self_invoking sample_env (\<lambda>_. Some ExecuteTransaction) 9 3) 9 sample_accounts led')"
proof -
  let ?D = "\<lambda>_. Some ExecuteTransaction"
  let ?E = "gov_at sample_env (ge_runtime sample_env)"
  obtain f where f: "self_invoking sample_env ?D 9 3 = with_invoke sample_env f"
    using self_invoking_with_invoke by blast
  have "process_execute_transaction (self_invoking sample_env ?D 9 3) 9 sample_accounts sample_ledger_gov =
      Inr (set_data 48 [13, 1] (set_data 47 [14, 3] sample_ledger_gov))" unfolding f by (rule sample_execution)
  then have run: "process_execute_transaction (self_invoking ?E ?D 9 3) 9 sample_accounts sample_ledger_gov =
      Inr (set_data 48 [13, 1] (set_data 47 [14, 3] sample_ledger_gov))" unfolding gov_at_same .
  have w: "gov_world ?E 9" unfolding gov_at_same by (rule sample.gov_world_axioms)
  have t: "pr_account_type won_proposal = ProposalV2" by (simp add: won_proposal_def sample_proposal_def)
  have at: "proposal_at sample_env 9 sample_ledger_gov (ai_key (info 47 False)) = Some won_proposal" using sample_proposal_at(1) by simp
  note th = execution_was_voted [OF w sample_ledger_good rtranclp.rtrancl_refl run at t]
  then obtain tx opt m pct where tx: "get_proposal_transaction_data sample_env 9 (info 48 False) sample_ledger_gov = Inr tx"
    "option_at won_proposal (pt_option_index tx) = Inr opt" "pr_max_vote_weight won_proposal = Some m"
    "pr_vote_threshold won_proposal = Some (YesVotePercentage pct)" "unat pct * unat m \<le> 100 * unat (po_vote_weight opt)"
    by blast
  from th have "\<not> is_ok (process_execute_transaction (self_invoking ?E ?D 9 3) 9 sample_accounts
      (set_data 48 [13, 1] (set_data 47 [14, 3] sample_ledger_gov)))" by blast
  then have "\<not> is_ok (process_execute_transaction (self_invoking sample_env ?D 9 3) 9 sample_accounts
      (set_data 48 [13, 1] (set_data 47 [14, 3] sample_ledger_gov)))" unfolding gov_at_same .
  moreover have "pt_option_index tx = 0" using tx(1) sample_reads(3) by (auto simp: sample_transaction_def)
  ultimately show ?thesis using run [unfolded gov_at_same] tx by auto
qed

text \<open>C9: nobody votes twice with one token owner record while the first vote stands.  A cast leaves a vote record;
  on every later ledger where the account of that record still holds data, that is, until the vote was
  relinquished while the voting lasted and the record removed, another cast by the same token owner
  record on the same proposal is refused, whatever other accounts and choices it is given.\<close>

theorem vote_cast_once:
  assumes "borsh_lawful E" and "process_cast_vote E pid accounts vote led = Inr led'"
    and "ai_key (accounts' ! 2) = ai_key (accounts ! 2)" and "ai_key (accounts' ! 4) = ai_key (accounts ! 4)"
    and "acc_data (later (ai_key (accounts ! 6))) \<noteq> []"
  shows "acc_data (led' (ai_key (accounts ! 6))) \<noteq> [] \<and> \<not> is_ok (process_cast_vote E pid accounts' vote' later)"
proof
  from assms(2) obtain vote_info payer sys rent led1 r where v: "accounts ! 6 = vote_info" and r: "vr_account_type r = VoteRecordV2"
    and create: "create_and_serialize_account_signed E (ge_VoteRecordV2 E) None payer vote_info r
       (get_vote_record_address_seeds (ai_key (accounts ! 2)) (ai_key (accounts ! 4))) pid sys rent led1 = Inr led'"
    by (rule cast_vote_record) blast
  have law: "codec_roundtrip (ge_VoteRecordV2 E)" "codec_typed E (ge_VoteRecordV2 E) vr_account_type"
    using assms(1) by (simp_all add: borsh_lawful_def codec_lawful_def)
  show "acc_data (led' (ai_key (accounts ! 6))) \<noteq> []"
  proof
    assume "acc_data (led' (ai_key (accounts ! 6))) = []"
    then have "cd_read (ge_VoteRecordV2 E) (replicate 0 0) = Inr r" using created_data(1) [OF create law(1)] v by simp
    then have "ge_account_type E (replicate 0 0) = Inr VoteRecordV2" using law(2) r by (simp only: codec_typed_def)
    moreover have "ge_account_type E (replicate 0 0) \<in> {Inr UninitializedType, Inl BorshIoError}"
      using assms(1) unfolding borsh_lawful_def by blast
    ultimately show False by simp
  qed
  show "\<not> is_ok (process_cast_vote E pid accounts' vote' later)"
  proof
    assume "is_ok (process_cast_vote E pid accounts' vote' later)"
    then obtain led'' where "process_cast_vote E pid accounts' vote' later = Inr led''" by (auto simp: is_ok_iff)
    then obtain vote_info' payer' sys' rent' led2 r' where empty: "info_data later vote_info' = []"
      and create': "create_and_serialize_account_signed E (ge_VoteRecordV2 E) None payer' vote_info' r'
         (get_vote_record_address_seeds (ai_key (accounts' ! 2)) (ai_key (accounts' ! 4))) pid sys' rent' led2 = Inr led''"
      by (rule cast_vote_record) blast
    have "ai_key vote_info' = ai_key vote_info"
      using created_data(2) [OF create law(1)] created_data(2) [OF create' law(1)] assms(3,4) by simp
    then show False using empty assms(5) v by simp
  qed
qed

theorem vote_cast_once_witness:
  "\<exists>led'. process_cast_vote sample_env 9 voting_accounts full_vote voting_ledger = Inr led' \<and>
     acc_data (led' (ai_key (voting_accounts ! 6))) \<noteq> [] \<and>
     \<not> is_ok (process_cast_vote sample_env 9 voting_accounts VoteDeny (set_lamports 99 7 led'))"
proof -
  obtain led' where run: "process_cast_vote sample_env 9 voting_accounts full_vote voting_ledger = Inr led'" using sample_cast by blast
  note once = vote_cast_once [OF sample.borsh run refl refl]
  have "acc_data (voting_ledger 47) \<noteq> []" by (simp add: voting_ledger_def sample_ledger_gov_def)
  then have "acc_data (led' (ai_key (voting_accounts ! 6))) \<noteq> []"
    using once [of "\<lambda>_. voting_ledger 47"] by simp
  then show ?thesis using run once [of "set_lamports 99 7 led'" VoteDeny] by simp
qed

end
