(* ===== verification/Stake_State.thy ===== *)
theory Stake_State
  imports Token_Processor
begin

text \<open>
  The state of the stake pool program (\<^verbatim>\<open>stake-pool/program/src/state.rs\<close>, \<^verbatim>\<open>error.rs\<close>, \<^verbatim>\<open>lib.rs\<close>):
  the pool, its fees, the conversion between lamports and pool tokens, and the checks a handler makes
  of the accounts it is given.

  The types of the native stake program (\<^verbatim>\<open>solana_program::stake::state\<close>) appear with the fields the
  sources read.  Ceiling division comes from the \<^verbatim>\<open>spl_math\<close> crate, which is not part of the
  repository: it is the argument \<open>ceil_div\<close> of the one function that uses it.
\<close>

section \<open>Errors\<close>

datatype StakePoolError =
    PoolAlreadyInUse
  | InvalidProgramAddress
  | PoolInvalidState
  | CalculationFailure
  | FeeTooHigh
  | WrongAccountMint
  | WrongManager
  | SignatureMissing
  | InvalidValidatorStakeList
  | InvalidFeeAccount
  | WrongPoolMint
  | WrongStakeState
  | UserStakeNotActive
  | ValidatorAlreadyAdded
  | ValidatorNotFound
  | InvalidStakeAccountAddress
  | StakeListOutOfDate
  | StakeListAndPoolOutOfDate
  | UnknownValidatorStakeAccount
  | WrongMintingAuthority
  | UnexpectedValidatorListAccountSize
  | WrongStaker
  | NonZeroPoolTokenSupply
  | StakeLamportsNotEqualToMinimum
  | IncorrectDepositVoteAddress
  | IncorrectWithdrawVoteAddress
  | InvalidMintFreezeAuthority
  | FeeIncreaseTooHigh
  | WithdrawalTooSmall
  | DepositTooSmall
  | InvalidStakeDepositAuthority
  | InvalidSolDepositAuthority
  | InvalidPreferredValidator
  | TransientAccountInUse
  | InvalidSolWithdrawAuthority
  | SolWithdrawalTooLarge

text \<open>\<^verbatim>\<open>e as u32\<close>, the position in the enumeration, and \<^verbatim>\<open>From<StakePoolError>\<close>.\<close>

primrec StakePoolError_code :: "StakePoolError \<Rightarrow> u32" where
  "StakePoolError_code PoolAlreadyInUse = 0"
| "StakePoolError_code InvalidProgramAddress = 1"
| "StakePoolError_code PoolInvalidState = 2"
| "StakePoolError_code CalculationFailure = 3"
| "StakePoolError_code FeeTooHigh = 4"
| "StakePoolError_code WrongAccountMint = 5"
| "StakePoolError_code WrongManager = 6"
| "StakePoolError_code SignatureMissing = 7"
| "StakePoolError_code InvalidValidatorStakeList = 8"
| "StakePoolError_code InvalidFeeAccount = 9"
| "StakePoolError_code WrongPoolMint = 10"
| "StakePoolError_code WrongStakeState = 11"
| "StakePoolError_code UserStakeNotActive = 12"
| "StakePoolError_code ValidatorAlreadyAdded = 13"
| "StakePoolError_code ValidatorNotFound = 14"
| "StakePoolError_code InvalidStakeAccountAddress = 15"
| "StakePoolError_code StakeListOutOfDate = 16"
| "StakePoolError_code StakeListAndPoolOutOfDate = 17"
| "StakePoolError_code UnknownValidatorStakeAccount = 18"
| "StakePoolError_code WrongMintingAuthority = 19"
| "StakePoolError_code UnexpectedValidatorListAccountSize = 20"
| "StakePoolError_code WrongStaker = 21"
| "StakePoolError_code NonZeroPoolTokenSupply = 22"
| "StakePoolError_code StakeLamportsNotEqualToMinimum = 23"
| "StakePoolError_code IncorrectDepositVoteAddress = 24"
| "StakePoolError_code IncorrectWithdrawVoteAddress = 25"
| "StakePoolError_code InvalidMintFreezeAuthority = 26"
| "StakePoolError_code FeeIncreaseTooHigh = 27"
| "StakePoolError_code WithdrawalTooSmall = 28"
| "StakePoolError_code DepositTooSmall = 29"
| "StakePoolError_code InvalidStakeDepositAuthority = 30"
| "StakePoolError_code InvalidSolDepositAuthority = 31"
| "StakePoolError_code InvalidPreferredValidator = 32"
| "StakePoolError_code TransientAccountInUse = 33"
| "StakePoolError_code InvalidSolWithdrawAuthority = 34"
| "StakePoolError_code SolWithdrawalTooLarge = 35"

definition pool_err :: "StakePoolError \<Rightarrow> program_error" where
  "pool_err e = Custom (StakePoolError_code e)"

section \<open>The native stake program's state\<close>

record Lockup =
  lk_unix_timestamp :: i64
  lk_epoch :: u64
  lk_custodian :: pubkey

definition Lockup_default :: Lockup where
  "Lockup_default = \<lparr>lk_unix_timestamp = 0, lk_epoch = 0, lk_custodian = 0\<rparr>"

record Meta =
  me_rent_exempt_reserve :: u64
  me_staker :: pubkey
  me_withdrawer :: pubkey
  me_lockup :: Lockup

record Delegation =
  de_voter_pubkey :: pubkey
  de_stake :: u64
  de_activation_epoch :: u64
  de_deactivation_epoch :: u64

datatype StakeState =
    StakeUninitialized
  | StakeInitialized Meta
  | StakeDelegated Meta Delegation
  | StakeRewardsPool

section \<open>The pool\<close>

datatype AccountType = UninitializedAccountType | StakePoolType | ValidatorListType

record Fee =
  fe_denominator :: u64
  fe_numerator :: u64

datatype FeeType =
    SolReferralFee u8
  | StakeReferralFee u8
  | EpochFee Fee
  | StakeWithdrawalFee Fee
  | SolDepositFee Fee
  | StakeDepositFee Fee
  | SolWithdrawalFee Fee

record StakePool =
  sp_account_type :: AccountType
  sp_manager :: pubkey
  sp_staker :: pubkey
  sp_stake_deposit_authority :: pubkey
  sp_stake_withdraw_bump_seed :: u8
  sp_validator_list :: pubkey
  sp_reserve_stake :: pubkey
  sp_pool_mint :: pubkey
  sp_manager_fee_account :: pubkey
  sp_token_program_id :: pubkey
  sp_total_lamports :: u64
  sp_pool_token_supply :: u64
  sp_last_update_epoch :: u64
  sp_lockup :: Lockup
  sp_epoch_fee :: Fee
  sp_next_epoch_fee :: "Fee option"
  sp_preferred_deposit_validator_vote_address :: "pubkey option"
  sp_preferred_withdraw_validator_vote_address :: "pubkey option"
  sp_stake_deposit_fee :: Fee
  sp_stake_withdrawal_fee :: Fee
  sp_next_stake_withdrawal_fee :: "Fee option"
  sp_stake_referral_fee :: u8
  sp_sol_deposit_authority :: "pubkey option"
  sp_sol_deposit_fee :: Fee
  sp_sol_referral_fee :: u8
  sp_sol_withdraw_authority :: "pubkey option"
  sp_sol_withdrawal_fee :: Fee
  sp_next_sol_withdrawal_fee :: "Fee option"
  sp_last_epoch_pool_token_supply :: u64
  sp_last_epoch_total_lamports :: u64

datatype StakeStatus = ActiveStake | DeactivatingTransient | ReadyForRemoval

record ValidatorStakeInfo =
  vs_active_stake_lamports :: u64
  vs_transient_stake_lamports :: u64
  vs_last_update_epoch :: u64
  vs_transient_seed_suffix_start :: u64
  vs_transient_seed_suffix_end :: u64
  vs_status :: StakeStatus
  vs_vote_account_address :: pubkey

record ValidatorListHeader =
  vh_account_type :: AccountType
  vh_max_validators :: u32

record ValidatorList =
  vl_header :: ValidatorListHeader
  vl_validators :: "ValidatorStakeInfo list"

section \<open>Constants\<close>

definition LAMPORTS_PER_SOL :: u64 where
  "LAMPORTS_PER_SOL = 1000000000"

definition MINIMUM_ACTIVE_STAKE :: u64 where
  "MINIMUM_ACTIVE_STAKE = LAMPORTS_PER_SOL"

definition MINIMUM_RESERVE_LAMPORTS :: u64 where
  "MINIMUM_RESERVE_LAMPORTS = LAMPORTS_PER_SOL"

definition MAX_WITHDRAWAL_FEE_INCREASE :: Fee where
  "MAX_WITHDRAWAL_FEE_INCREASE = \<lparr>fe_denominator = 2, fe_numerator = 3\<rparr>"

definition WITHDRAWAL_BASELINE_FEE :: Fee where
  "WITHDRAWAL_BASELINE_FEE = \<lparr>fe_denominator = 1000, fe_numerator = 1\<rparr>"

definition minimum_stake_lamports :: "Meta \<Rightarrow> u64" where
  "minimum_stake_lamports meta = saturating_add (me_rent_exempt_reserve meta) MINIMUM_ACTIVE_STAKE"

definition minimum_reserve_lamports :: "Meta \<Rightarrow> u64" where
  "minimum_reserve_lamports meta = saturating_add (me_rent_exempt_reserve meta) MINIMUM_RESERVE_LAMPORTS"

section \<open>Fees\<close>

definition Fee_apply :: "Fee \<Rightarrow> u64 \<Rightarrow> u128 option" where
  "Fee_apply fee amt =
     (if fe_denominator fee = 0 then Some 0
      else Option.bind (checked_mul (ucast amt :: u128) (ucast (fe_numerator fee))) (\<lambda>x.
           checked_div x (ucast (fe_denominator fee))))"

text \<open>The order of \<^verbatim>\<open>Option<u128>\<close>: \<^verbatim>\<open>None\<close> is less than every \<^verbatim>\<open>Some\<close>.\<close>

fun option_less :: "'a::ord option \<Rightarrow> 'a option \<Rightarrow> bool" where
  "option_less None None = False"
| "option_less None (Some y) = True"
| "option_less (Some x) None = False"
| "option_less (Some x) (Some y) = (x < y)"

text \<open>
  The first product of each side is checked, and its overflow is an error; the second one is mapped
  over the first, so that its overflow is a \<^verbatim>\<open>None\<close> that takes part in the comparison.  The message logged when the
  fee is refused multiplies the parts of the fee once more; it is not modelled, the call has failed by then.
\<close>

definition check_withdrawal :: "Fee \<Rightarrow> Fee \<Rightarrow> unit res" where
  "check_withdrawal new_fee old_withdrawal_fee =
     (let (old_num, old_denom) =
            (if fe_denominator old_withdrawal_fee = 0 \<or> fe_numerator old_withdrawal_fee = 0
             then (fe_numerator WITHDRAWAL_BASELINE_FEE, fe_denominator WITHDRAWAL_BASELINE_FEE)
             else (fe_numerator old_withdrawal_fee, fe_denominator old_withdrawal_fee)) in
      attempt (ok_or
        (map_option (\<lambda>x. checked_mul x (ucast (fe_numerator MAX_WITHDRAWAL_FEE_INCREASE)))
          (checked_mul (ucast old_num :: u128) (ucast (fe_denominator new_fee))))
        (pool_err CalculationFailure)) (\<lambda>allowed.
      attempt (ok_or
        (map_option (\<lambda>x. checked_mul x (ucast (fe_denominator MAX_WITHDRAWAL_FEE_INCREASE)))
          (checked_mul (ucast (fe_numerator new_fee) :: u128) (ucast old_denom)))
        (pool_err CalculationFailure)) (\<lambda>proposed.
      if option_less allowed proposed then Inl (pool_err FeeIncreaseTooHigh) else Inr ())))"

definition fee_above_one :: "Fee \<Rightarrow> bool" where
  "fee_above_one fee \<longleftrightarrow> fe_numerator fee > fe_denominator fee"

definition check_too_high :: "FeeType \<Rightarrow> unit res" where
  "check_too_high fee_type =
     (let too_high =
        (case fee_type of
           SolReferralFee pct \<Rightarrow> pct > 100
         | StakeReferralFee pct \<Rightarrow> pct > 100
         | EpochFee fee \<Rightarrow> fee_above_one fee
         | StakeWithdrawalFee fee \<Rightarrow> fee_above_one fee
         | SolWithdrawalFee fee \<Rightarrow> fee_above_one fee
         | SolDepositFee fee \<Rightarrow> fee_above_one fee
         | StakeDepositFee fee \<Rightarrow> fee_above_one fee) in
      if too_high then Inl (pool_err FeeTooHigh) else Inr ())"

definition can_only_change_next_epoch :: "FeeType \<Rightarrow> bool" where
  "can_only_change_next_epoch fee_type =
     (case fee_type of StakeWithdrawalFee _ \<Rightarrow> True | SolWithdrawalFee _ \<Rightarrow> True | EpochFee _ \<Rightarrow> True | _ \<Rightarrow> False)"

definition update_fee :: "StakePool \<Rightarrow> FeeType \<Rightarrow> StakePool res" where
  "update_fee p fee_type =
     (case fee_type of
        SolReferralFee new_fee \<Rightarrow> Inr (p\<lparr>sp_sol_referral_fee := new_fee\<rparr>)
      | StakeReferralFee new_fee \<Rightarrow> Inr (p\<lparr>sp_stake_referral_fee := new_fee\<rparr>)
      | EpochFee new_fee \<Rightarrow> Inr (p\<lparr>sp_next_epoch_fee := Some new_fee\<rparr>)
      | StakeWithdrawalFee new_fee \<Rightarrow>
          attempt (check_withdrawal new_fee (sp_stake_withdrawal_fee p)) (\<lambda>_.
          Inr (p\<lparr>sp_next_stake_withdrawal_fee := Some new_fee\<rparr>))
      | SolWithdrawalFee new_fee \<Rightarrow>
          attempt (check_withdrawal new_fee (sp_sol_withdrawal_fee p)) (\<lambda>_.
          Inr (p\<lparr>sp_next_sol_withdrawal_fee := Some new_fee\<rparr>))
      | SolDepositFee new_fee \<Rightarrow> Inr (p\<lparr>sp_sol_deposit_fee := new_fee\<rparr>)
      | StakeDepositFee new_fee \<Rightarrow> Inr (p\<lparr>sp_stake_deposit_fee := new_fee\<rparr>))"

section \<open>Lamports and pool tokens\<close>

type_synonym ceil_division = "u128 \<Rightarrow> u128 \<Rightarrow> (u128 \<times> u128) option"

definition calc_pool_tokens_for_deposit :: "StakePool \<Rightarrow> u64 \<Rightarrow> u64 option" where
  "calc_pool_tokens_for_deposit p stake_lamports =
     (if sp_total_lamports p = 0 \<or> sp_pool_token_supply p = 0 then Some stake_lamports
      else
        Option.bind (checked_mul (ucast stake_lamports :: u128) (ucast (sp_pool_token_supply p))) (\<lambda>x.
        Option.bind (checked_div x (ucast (sp_total_lamports p))) try_from_word))"

definition calc_lamports_withdraw_amount :: "ceil_division \<Rightarrow> StakePool \<Rightarrow> u64 \<Rightarrow> u64 option" where
  "calc_lamports_withdraw_amount ceil_div p pool_tokens =
     Option.bind (checked_mul (ucast pool_tokens :: u128) (ucast (sp_total_lamports p))) (\<lambda>numerator.
     let denominator = ucast (sp_pool_token_supply p) in
     if numerator < denominator \<or> denominator = 0 then Some 0
     else Option.bind (ceil_div numerator denominator) (\<lambda>(quotient, _). try_from_word quotient))"

definition calc_pool_tokens_stake_withdrawal_fee :: "StakePool \<Rightarrow> u64 \<Rightarrow> u64 option" where
  "calc_pool_tokens_stake_withdrawal_fee p pool_tokens =
     Option.bind (Fee_apply (sp_stake_withdrawal_fee p) pool_tokens) try_from_word"

definition calc_pool_tokens_sol_withdrawal_fee :: "StakePool \<Rightarrow> u64 \<Rightarrow> u64 option" where
  "calc_pool_tokens_sol_withdrawal_fee p pool_tokens =
     Option.bind (Fee_apply (sp_sol_withdrawal_fee p) pool_tokens) try_from_word"

definition calc_pool_tokens_stake_deposit_fee :: "StakePool \<Rightarrow> u64 \<Rightarrow> u64 option" where
  "calc_pool_tokens_stake_deposit_fee p pool_tokens_minted =
     Option.bind (Fee_apply (sp_stake_deposit_fee p) pool_tokens_minted) try_from_word"

definition calc_pool_tokens_sol_deposit_fee :: "StakePool \<Rightarrow> u64 \<Rightarrow> u64 option" where
  "calc_pool_tokens_sol_deposit_fee p pool_tokens_minted =
     Option.bind (Fee_apply (sp_sol_deposit_fee p) pool_tokens_minted) try_from_word"

definition calc_pool_tokens_stake_referral_fee :: "StakePool \<Rightarrow> u64 \<Rightarrow> u64 option" where
  "calc_pool_tokens_stake_referral_fee p stake_deposit_fee =
     Option.bind (checked_mul (ucast stake_deposit_fee :: u128) (ucast (sp_stake_referral_fee p))) (\<lambda>x.
     Option.bind (checked_div x 100) try_from_word)"

definition calc_pool_tokens_sol_referral_fee :: "StakePool \<Rightarrow> u64 \<Rightarrow> u64 option" where
  "calc_pool_tokens_sol_referral_fee p sol_deposit_fee =
     Option.bind (checked_mul (ucast sol_deposit_fee :: u128) (ucast (sp_sol_referral_fee p))) (\<lambda>x.
     Option.bind (checked_div x 100) try_from_word)"

definition calc_epoch_fee_amount :: "StakePool \<Rightarrow> u64 \<Rightarrow> u64 option" where
  "calc_epoch_fee_amount p reward_lamports =
     (if reward_lamports = 0 then Some 0
      else
        Option.bind (checked_add (ucast (sp_total_lamports p) :: u128) (ucast reward_lamports)) (\<lambda>total_lamports.
        Option.bind (Fee_apply (sp_epoch_fee p) reward_lamports) (\<lambda>fee_lamports.
        if total_lamports = fee_lamports \<or> sp_pool_token_supply p = 0 then Some reward_lamports
        else
          Option.bind (checked_mul (ucast (sp_pool_token_supply p)) fee_lamports) (\<lambda>x.
          Option.bind (checked_sub total_lamports fee_lamports) (\<lambda>d.
          Option.bind (checked_div x d) try_from_word)))))"

section \<open>Checks\<close>

definition AUTHORITY_DEPOSIT :: bytes where
  "AUTHORITY_DEPOSIT = map of_char ''deposit''"

definition AUTHORITY_WITHDRAW :: bytes where
  "AUTHORITY_WITHDRAW = map of_char ''withdraw''"

definition TRANSIENT_STAKE_SEED_PREFIX :: bytes where
  "TRANSIENT_STAKE_SEED_PREFIX = map of_char ''transient''"

definition find_deposit_authority_program_address :: "runtime \<Rightarrow> pubkey \<Rightarrow> pubkey \<Rightarrow> pubkey \<times> u8" where
  "find_deposit_authority_program_address R program_id stake_pool_address =
     rt_find_program_address R [to_le_bytes stake_pool_address, AUTHORITY_DEPOSIT] program_id"

definition find_withdraw_authority_program_address :: "runtime \<Rightarrow> pubkey \<Rightarrow> pubkey \<Rightarrow> pubkey \<times> u8" where
  "find_withdraw_authority_program_address R program_id stake_pool_address =
     rt_find_program_address R [to_le_bytes stake_pool_address, AUTHORITY_WITHDRAW] program_id"

definition find_stake_program_address :: "runtime \<Rightarrow> pubkey \<Rightarrow> pubkey \<Rightarrow> pubkey \<Rightarrow> pubkey \<times> u8" where
  "find_stake_program_address R program_id vote_account_address stake_pool_address =
     rt_find_program_address R [to_le_bytes vote_account_address, to_le_bytes stake_pool_address] program_id"

definition find_transient_stake_program_address :: "runtime \<Rightarrow> pubkey \<Rightarrow> pubkey \<Rightarrow> pubkey \<Rightarrow> u64 \<Rightarrow> pubkey \<times> u8" where
  "find_transient_stake_program_address R program_id vote_account_address stake_pool_address seed =
     rt_find_program_address R
       [TRANSIENT_STAKE_SEED_PREFIX, to_le_bytes vote_account_address, to_le_bytes stake_pool_address, to_le_bytes seed]
       program_id"

definition check_program_derived_authority :: "runtime \<Rightarrow> pubkey \<Rightarrow> pubkey \<Rightarrow> pubkey \<Rightarrow> bytes \<Rightarrow> u8 \<Rightarrow> unit res" where
  "check_program_derived_authority R authority_address program_id stake_pool_address authority_seed bump_seed =
     attempt (rt_create_program_address R [to_le_bytes stake_pool_address, authority_seed, [bump_seed]] program_id)
       (\<lambda>expected_address.
     if authority_address = expected_address then Inr () else Inl (pool_err InvalidProgramAddress))"

definition check_manager_fee_info :: "StakePool \<Rightarrow> ledger \<Rightarrow> account_info \<Rightarrow> unit res" where
  "check_manager_fee_info p led manager_fee_info =
     attempt (Account_unpack (info_data led manager_fee_info)) (\<lambda>token_account.
     if info_owner led manager_fee_info \<noteq> sp_token_program_id p \<or> ta_state token_account \<noteq> Initialized \<or>
       ta_mint token_account \<noteq> sp_pool_mint p
     then Inl (pool_err InvalidFeeAccount) else Inr ())"

definition check_authority_withdraw :: "runtime \<Rightarrow> StakePool \<Rightarrow> pubkey \<Rightarrow> pubkey \<Rightarrow> pubkey \<Rightarrow> unit res" where
  "check_authority_withdraw R p withdraw_authority program_id stake_pool_address =
     check_program_derived_authority R withdraw_authority program_id stake_pool_address AUTHORITY_WITHDRAW
       (sp_stake_withdraw_bump_seed p)"

definition check_stake_deposit_authority :: "StakePool \<Rightarrow> pubkey \<Rightarrow> unit res" where
  "check_stake_deposit_authority p stake_deposit_authority =
     (if sp_stake_deposit_authority p = stake_deposit_authority then Inr ()
      else Inl (pool_err InvalidStakeDepositAuthority))"

definition check_sol_deposit_authority :: "StakePool \<Rightarrow> account_info res \<Rightarrow> unit res" where
  "check_sol_deposit_authority p maybe_sol_deposit_authority =
     (case sp_sol_deposit_authority p of
        None \<Rightarrow> Inr ()
      | Some auth \<Rightarrow>
          attempt maybe_sol_deposit_authority (\<lambda>sol_deposit_authority.
          if auth \<noteq> ai_key sol_deposit_authority then Inl (pool_err InvalidSolDepositAuthority)
          else if \<not> ai_is_signer sol_deposit_authority then Inl (pool_err SignatureMissing)
          else Inr ()))"

definition check_sol_withdraw_authority :: "StakePool \<Rightarrow> account_info res \<Rightarrow> unit res" where
  "check_sol_withdraw_authority p maybe_sol_withdraw_authority =
     (case sp_sol_withdraw_authority p of
        None \<Rightarrow> Inr ()
      | Some auth \<Rightarrow>
          attempt maybe_sol_withdraw_authority (\<lambda>sol_withdraw_authority.
          if auth \<noteq> ai_key sol_withdraw_authority then Inl (pool_err InvalidSolWithdrawAuthority)
          else if \<not> ai_is_signer sol_withdraw_authority then Inl (pool_err SignatureMissing)
          else Inr ()))"

definition check_mint :: "StakePool \<Rightarrow> account_info \<Rightarrow> unit res" where
  "check_mint p mint_info =
     (if ai_key mint_info \<noteq> sp_pool_mint p then Inl (pool_err WrongPoolMint) else Inr ())"

definition check_manager :: "StakePool \<Rightarrow> account_info \<Rightarrow> unit res" where
  "check_manager p manager_info =
     (if ai_key manager_info \<noteq> sp_manager p then Inl (pool_err WrongManager)
      else if \<not> ai_is_signer manager_info then Inl (pool_err SignatureMissing)
      else Inr ())"

definition check_staker :: "StakePool \<Rightarrow> account_info \<Rightarrow> unit res" where
  "check_staker p staker_info =
     (if ai_key staker_info \<noteq> sp_staker p then Inl (pool_err WrongStaker)
      else if \<not> ai_is_signer staker_info then Inl (pool_err SignatureMissing)
      else Inr ())"

definition check_validator_list :: "StakePool \<Rightarrow> account_info \<Rightarrow> unit res" where
  "check_validator_list p validator_list_info =
     (if ai_key validator_list_info \<noteq> sp_validator_list p then Inl (pool_err InvalidValidatorStakeList) else Inr ())"

definition check_reserve_stake :: "StakePool \<Rightarrow> account_info \<Rightarrow> unit res" where
  "check_reserve_stake p reserve_stake_info =
     (if ai_key reserve_stake_info \<noteq> sp_reserve_stake p then Inl (pool_err InvalidProgramAddress) else Inr ())"

definition StakePool_is_valid :: "StakePool \<Rightarrow> bool" where
  "StakePool_is_valid p \<longleftrightarrow> sp_account_type p = StakePoolType"

definition StakePool_is_uninitialized :: "StakePool \<Rightarrow> bool" where
  "StakePool_is_uninitialized p \<longleftrightarrow> sp_account_type p = UninitializedAccountType"

definition ValidatorListHeader_is_valid :: "ValidatorListHeader \<Rightarrow> bool" where
  "ValidatorListHeader_is_valid h \<longleftrightarrow> vh_account_type h = ValidatorListType"

definition ValidatorListHeader_is_uninitialized :: "ValidatorListHeader \<Rightarrow> bool" where
  "ValidatorListHeader_is_uninitialized h \<longleftrightarrow> vh_account_type h = UninitializedAccountType"

section \<open>The amounts as exact arithmetic\<close>

text \<open>Two 64-bit factors always fit 128 bits, so the products never overflow.\<close>

lemma unat_u64_u128 [simp]: "unat (ucast (x :: u64) :: u128) = unat x"
  by (rule unat_ucast_up) simp

lemma ucast_u64_u128_eq_0 [simp]: "(ucast (x :: u64) :: u128) = 0 \<longleftrightarrow> x = 0"
  by (simp add: word_unat_eq_iff)

lemma u64_product_fits: "unat (x :: u64) * unat (y :: u64) < 2 ^ 128"
proof -
  have "unat x * unat y < 2 ^ 64 * 2 ^ 64"
    using unat_bound [of x] unat_bound [of y] by (intro mult_strict_mono) auto
  then show ?thesis by simp
qed

lemma checked_mul_u64:
  "checked_mul (ucast (x :: u64) :: u128) (ucast (y :: u64)) = Some (ucast x * ucast y)"
  "unat (ucast x * ucast y :: u128) = unat x * unat y"
  using u64_product_fits [of x y] by (simp_all add: checked_mul_def unat_word_ariths)

lemma Fee_apply_eq:
  "Fee_apply fee amt = Some r \<longleftrightarrow>
     unat r = (if fe_denominator fee = 0 then 0 else unat amt * unat (fe_numerator fee) div unat (fe_denominator fee))"
  by (auto simp: Fee_apply_def checked_mul_u64 checked_div_eq_Some word_unat_eq_iff)

lemma Fee_apply_total: "\<exists>r. Fee_apply fee amt = Some r"
  by (simp add: Fee_apply_def checked_mul_u64 checked_div_def)

lemma fee_part_le:
  assumes "\<not> fee_above_one fee"
  shows "unat amt * unat (fe_numerator fee) div unat (fe_denominator fee) \<le> unat (amt :: u64)"
proof -
  have "unat amt * unat (fe_numerator fee) \<le> unat amt * unat (fe_denominator fee)"
    using assms by (simp add: fee_above_one_def word_less_nat_alt)
  then have "unat amt * unat (fe_numerator fee) div unat (fe_denominator fee)
      \<le> unat amt * unat (fe_denominator fee) div unat (fe_denominator fee)"
    by (rule div_le_mono)
  also have "\<dots> \<le> unat amt" by simp
  finally show ?thesis .
qed

lemma calc_pool_tokens_for_deposit_eq:
  "calc_pool_tokens_for_deposit p x = Some t \<longleftrightarrow>
     (if sp_total_lamports p = 0 \<or> sp_pool_token_supply p = 0 then t = x
      else unat t = unat x * unat (sp_pool_token_supply p) div unat (sp_total_lamports p))"
  by (auto simp: calc_pool_tokens_for_deposit_def checked_mul_u64 bind_eq_Some_conv checked_div_def
      try_from_word_eq_Some unat_div word_unat_eq_iff)

end
