(* ===== verification/Stake_BigVec.thy ===== *)
theory Stake_BigVec
  imports Stake_State
begin

text \<open>
  The vector that lives in an account's bytes (\<^verbatim>\<open>stake-pool/program/src/big_vec.rs\<close>) and the entries the
  pool keeps in it (\<^verbatim>\<open>ValidatorStakeInfo\<close> of \<^verbatim>\<open>state.rs\<close>).

  The source hands out references into the buffer, cast to the entry type with \<^verbatim>\<open>unsafe\<close>.  Here such a
  reference is the offset of the entry in the buffer: reading a field reads the bytes at the offset,
  writing one writes them.  A slice out of range panics.  The encoding of a \<^verbatim>\<open>u32\<close> and of an entry is
  derived by the \<^verbatim>\<open>borsh\<close> crate and is a parameter.
\<close>

section \<open>Slices of the buffer\<close>

definition byte_slice :: "nat \<Rightarrow> nat \<Rightarrow> bytes \<Rightarrow> bytes res" where
  "byte_slice a b data = (if a \<le> b \<and> b \<le> length data then Inr (subslice a (b - a) data) else Inl Panicked)"

definition write_at :: "nat \<Rightarrow> bytes \<Rightarrow> bytes \<Rightarrow> bytes" where
  "write_at i bs data = take i data @ bs @ drop (i + length bs) data"

text \<open>\<^verbatim>\<open>sol_memmove(data[dst..dst_end], data[src..src_end], n)\<close>: the ranges are checked, then the bytes move.\<close>

definition memmove :: "nat \<Rightarrow> nat \<Rightarrow> nat \<Rightarrow> nat \<Rightarrow> nat \<Rightarrow> bytes \<Rightarrow> bytes res" where
  "memmove dst dst_end src src_end n data =
     attempt (byte_slice dst dst_end data) (\<lambda>_.
     attempt (byte_slice src src_end data) (\<lambda>_.
     Inr (write_at dst (subslice src n data) data)))"

text \<open>Writing an encoding through a \<^verbatim>\<open>&mut [u8]\<close>: an error if it does not fit.\<close>

definition write_front :: "bytes \<Rightarrow> bytes \<Rightarrow> bytes res" where
  "write_front bs dst = (if length bs \<le> length dst then Inr (bs @ drop (length bs) dst) else Inl BorshIoError)"

section \<open>The vector\<close>

abbreviation VEC_SIZE_BYTES :: nat where "VEC_SIZE_BYTES \<equiv> 4"

record borsh_u32 =
  bu_read :: "bytes \<Rightarrow> u32 res"
  bu_write :: "u32 \<Rightarrow> bytes res"

definition BigVec_len :: "bytes \<Rightarrow> u32 res" where
  "BigVec_len data = attempt (byte_slice 0 VEC_SIZE_BYTES data) (\<lambda>vec_len. Inr (from_le_bytes vec_len))"

definition BigVec_is_empty :: "bytes \<Rightarrow> bool res" where
  "BigVec_is_empty data = attempt (BigVec_len data) (\<lambda>n. Inr (n = 0))"

definition write_len :: "borsh_u32 \<Rightarrow> u32 \<Rightarrow> bytes \<Rightarrow> bytes res" where
  "write_len U vec_len data =
     attempt (byte_slice 0 VEC_SIZE_BYTES data) (\<lambda>vec_len_ref.
     attempt (bu_write U vec_len) (\<lambda>bs.
     attempt (write_front bs vec_len_ref) (\<lambda>bs'.
     Inr (write_at 0 bs' data))))"

text \<open>
  The loop of \<^verbatim>\<open>retain\<close> over the remaining \<open>n\<close> entries, the next one at \<open>start_index\<close>: the buffer,
  the length, the removals found and the end of the part already compacted.
\<close>

fun retain_loop ::
    "nat \<Rightarrow> (bytes \<Rightarrow> bool) \<Rightarrow> nat \<Rightarrow> nat \<Rightarrow> bytes \<Rightarrow> u32 \<Rightarrow> nat \<Rightarrow> nat \<Rightarrow> (bytes \<times> u32 \<times> nat \<times> nat) res" where
  "retain_loop len predicate 0 start_index data vec_len removals_found dst_start_index =
     Inr (data, vec_len, removals_found, dst_start_index)"
| "retain_loop len predicate (Suc n) start_index data vec_len removals_found dst_start_index =
     attempt (byte_slice start_index (start_index + len) data) (\<lambda>current.
     if predicate current
     then retain_loop len predicate n (start_index + len) data vec_len removals_found dst_start_index
     else
       let gap = removals_found * len in
       attempt
         (if removals_found > 0
          then memmove dst_start_index (start_index - gap) (dst_start_index + gap) start_index
                 (start_index - gap - dst_start_index) data
          else Inr data) (\<lambda>data'.
       retain_loop len predicate n (start_index + len) data' (vec_len - 1) (removals_found + 1) (start_index - gap)))"

text \<open>
  \<^verbatim>\<open>retain\<close> steps over the data by the record length, and \<^verbatim>\<open>step_by\<close> would panic on a length of zero; the only
  record type of the program, \<^verbatim>\<open>ValidatorStakeInfo\<close>, has a positive one.
\<close>

definition BigVec_retain :: "borsh_u32 \<Rightarrow> nat \<Rightarrow> (bytes \<Rightarrow> bool) \<Rightarrow> bytes \<Rightarrow> bytes res" where
  "BigVec_retain U len predicate data =
     attempt (BigVec_len data) (\<lambda>vec_len.
     let data_end_index = VEC_SIZE_BYTES + unat vec_len * len in
     attempt (retain_loop len predicate (unat vec_len) VEC_SIZE_BYTES data vec_len 0 0)
       (\<lambda>(data', vec_len', removals_found, dst_start_index).
     attempt
       (if removals_found > 0 then
          let gap = removals_found * len in
          memmove dst_start_index (data_end_index - gap) (dst_start_index + gap) data_end_index
            (data_end_index - gap - dst_start_index) data'
        else Inr data') (\<lambda>data''.
     write_len U vec_len' data'')))"

text \<open>The offsets of the entries \<open>skip\<close> to \<open>skip + count - 1\<close>.\<close>

definition BigVec_deserialize_mut_slice :: "nat \<Rightarrow> nat \<Rightarrow> nat \<Rightarrow> bytes \<Rightarrow> nat list res" where
  "BigVec_deserialize_mut_slice len skip count data =
     attempt (BigVec_len data) (\<lambda>vec_len.
     if skip + count \<ge> 2 ^ 64 then Inl AccountDataTooSmall
     else if skip + count > unat vec_len then Inl AccountDataTooSmall
     else
       let start_index = VEC_SIZE_BYTES + skip * len;
           end_index = start_index + count * len in
       attempt (byte_slice start_index end_index data) (\<lambda>_.
       Inr (map (\<lambda>i. start_index + i * len) [0..<count])))"

definition BigVec_push :: "borsh_u32 \<Rightarrow> nat \<Rightarrow> ('a \<Rightarrow> bytes \<Rightarrow> bytes res) \<Rightarrow> 'a \<Rightarrow> bytes \<Rightarrow> bytes res" where
  "BigVec_push U len pack_into_slice element data =
     attempt (byte_slice 0 VEC_SIZE_BYTES data) (\<lambda>vec_len_ref.
     attempt (bu_read U vec_len_ref) (\<lambda>vec_len.
     let start_index = VEC_SIZE_BYTES + unat vec_len * len;
         end_index = start_index + len in
     attempt (write_len U (vec_len + 1) data) (\<lambda>data'.
     if length data' < end_index then Inl AccountDataTooSmall
     else
       attempt (byte_slice start_index (start_index + len) data') (\<lambda>element_ref.
       attempt (pack_into_slice element element_ref) (\<lambda>bs.
       Inr (write_at start_index bs data'))))))"

text \<open>The offset of the first entry the predicate holds of.\<close>

fun find_loop :: "nat \<Rightarrow> (bytes \<Rightarrow> bool) \<Rightarrow> nat \<Rightarrow> nat \<Rightarrow> bytes \<Rightarrow> nat option res" where
  "find_loop len predicate 0 current_index data = Inr None"
| "find_loop len predicate (Suc n) current_index data =
     attempt (byte_slice current_index (current_index + len) data) (\<lambda>current_slice.
     if predicate current_slice then Inr (Some current_index)
     else find_loop len predicate n (current_index + len) data)"

definition BigVec_find :: "nat \<Rightarrow> bytes \<Rightarrow> (bytes \<Rightarrow> bytes \<Rightarrow> bool) \<Rightarrow> bytes \<Rightarrow> nat option res" where
  "BigVec_find len needle predicate data =
     attempt (BigVec_len data) (\<lambda>n. find_loop len (\<lambda>s. predicate s needle) (unat n) VEC_SIZE_BYTES data)"

text \<open>\<^verbatim>\<open>iter\<close>: the entries one after the other, each slice checked when it is reached.\<close>

fun iter_loop :: "nat \<Rightarrow> (nat \<Rightarrow> 's \<Rightarrow> 's res) \<Rightarrow> nat \<Rightarrow> nat \<Rightarrow> bytes \<Rightarrow> 's \<Rightarrow> 's res" where
  "iter_loop len body 0 current_index data s = Inr s"
| "iter_loop len body (Suc n) current_index data s =
     attempt (byte_slice current_index (current_index + len) data) (\<lambda>_.
     attempt (body current_index s) (\<lambda>s'.
     iter_loop len body n (current_index + len) data s'))"

definition BigVec_iter :: "nat \<Rightarrow> (nat \<Rightarrow> 's \<Rightarrow> 's res) \<Rightarrow> bytes \<Rightarrow> 's \<Rightarrow> 's res" where
  "BigVec_iter len body data s =
     attempt (BigVec_len data) (\<lambda>n. iter_loop len body (unat n) VEC_SIZE_BYTES data s)"

section \<open>Validator entries\<close>

abbreviation INFO_LEN :: nat where "INFO_LEN \<equiv> 73"

primrec StakeStatus_byte :: "StakeStatus \<Rightarrow> u8" where
  "StakeStatus_byte ActiveStake = 0"
| "StakeStatus_byte DeactivatingTransient = 1"
| "StakeStatus_byte ReadyForRemoval = 2"

definition StakeStatus_from_u8 :: "u8 \<Rightarrow> StakeStatus option" where
  "StakeStatus_from_u8 b =
     (if b = 0 then Some ActiveStake else if b = 1 then Some DeactivatingTransient
      else if b = 2 then Some ReadyForRemoval else None)"

definition memcmp_pubkey :: "bytes \<Rightarrow> bytes \<Rightarrow> bool" where
  "memcmp_pubkey data vote_address_bytes \<longleftrightarrow> subslice 41 32 data = take 32 vote_address_bytes"

definition active_lamports_not_equal :: "bytes \<Rightarrow> bytes \<Rightarrow> bool" where
  "active_lamports_not_equal data lamports_le_bytes \<longleftrightarrow> subslice 0 8 data \<noteq> take 8 lamports_le_bytes"

definition transient_lamports_not_equal :: "bytes \<Rightarrow> bytes \<Rightarrow> bool" where
  "transient_lamports_not_equal data lamports_le_bytes \<longleftrightarrow> subslice 8 8 data \<noteq> take 8 lamports_le_bytes"

definition is_not_removed :: "bytes \<Rightarrow> bool" where
  "is_not_removed data \<longleftrightarrow> StakeStatus_from_u8 (data ! 40) \<noteq> Some ReadyForRemoval"

text \<open>
  Reading the entry a reference points to, with the layout of \<^verbatim>\<open>repr(C)\<close>.  A status byte that is no
  variant of the enumeration makes the read undefined behaviour; the model stops there.
\<close>

definition info_of_bytes :: "bytes \<Rightarrow> ValidatorStakeInfo res" where
  "info_of_bytes bs =
     attempt (ok_or (StakeStatus_from_u8 (bs ! 40)) Panicked) (\<lambda>status.
     Inr \<lparr>vs_active_stake_lamports = from_le_bytes (subslice 0 8 bs),
          vs_transient_stake_lamports = from_le_bytes (subslice 8 8 bs),
          vs_last_update_epoch = from_le_bytes (subslice 16 8 bs),
          vs_transient_seed_suffix_start = from_le_bytes (subslice 24 8 bs),
          vs_transient_seed_suffix_end = from_le_bytes (subslice 32 8 bs),
          vs_status = status,
          vs_vote_account_address = from_le_bytes (subslice 41 32 bs)\<rparr>)"

definition read_info :: "nat \<Rightarrow> bytes \<Rightarrow> ValidatorStakeInfo res" where
  "read_info i data = info_of_bytes (subslice i INFO_LEN data)"

definition info_to_bytes :: "ValidatorStakeInfo \<Rightarrow> bytes" where
  "info_to_bytes v =
     to_le_bytes (vs_active_stake_lamports v) @ to_le_bytes (vs_transient_stake_lamports v) @
     to_le_bytes (vs_last_update_epoch v) @ to_le_bytes (vs_transient_seed_suffix_start v) @
     to_le_bytes (vs_transient_seed_suffix_end v) @ [StakeStatus_byte (vs_status v)] @
     to_le_bytes (vs_vote_account_address v)"

text \<open>Assigning the fields of the entry through the reference.\<close>

definition write_info :: "nat \<Rightarrow> ValidatorStakeInfo \<Rightarrow> bytes \<Rightarrow> bytes" where
  "write_info i v data = write_at i (info_to_bytes v) data"

definition stake_lamports :: "ValidatorStakeInfo \<Rightarrow> u64 res" where
  "stake_lamports v = ok_or (checked_add (vs_active_stake_lamports v) (vs_transient_stake_lamports v)) Panicked"

definition ValidatorStakeInfo_pack_into_slice ::
    "(ValidatorStakeInfo \<Rightarrow> bytes res) \<Rightarrow> ValidatorStakeInfo \<Rightarrow> bytes \<Rightarrow> bytes res" where
  "ValidatorStakeInfo_pack_into_slice serialize v data =
     map_err (\<lambda>_. Panicked) (attempt (serialize v) (\<lambda>bs. write_front bs data))"

section \<open>The vector as a list of entries\<close>

fun chunks :: "nat \<Rightarrow> nat \<Rightarrow> 'a list \<Rightarrow> 'a list list" where
  "chunks len 0 bs = []"
| "chunks len (Suc n) bs = take len bs # chunks len n (drop len bs)"

definition vec_count :: "bytes \<Rightarrow> nat" where
  "vec_count data = unat (from_le_bytes (take 4 data) :: u32)"

definition vec_elems :: "nat \<Rightarrow> bytes \<Rightarrow> bytes list" where
  "vec_elems len data = chunks len (vec_count data) (drop 4 data)"

definition vec_ok :: "nat \<Rightarrow> bytes \<Rightarrow> bool" where
  "vec_ok len data \<longleftrightarrow> 4 + vec_count data * len \<le> length data"

text \<open>The documented encoding of a \<^verbatim>\<open>u32\<close>: four bytes, the least significant first.\<close>

definition borsh_u32_lawful :: "borsh_u32 \<Rightarrow> bool" where
  "borsh_u32_lawful U \<longleftrightarrow>
     (\<forall>n. bu_write U n = Inr (to_le_bytes n)) \<and> (\<forall>bs. length bs = 4 \<longrightarrow> bu_read U bs = Inr (from_le_bytes bs))"

lemma length_chunks [simp]: "length (chunks len n bs) = n"
  by (induction n arbitrary: bs) auto

lemma chunks_lengths: "n * len \<le> length bs \<Longrightarrow> e \<in> set (chunks len n bs) \<Longrightarrow> length e = len"
proof (induction n arbitrary: bs)
  case (Suc n)
  then show ?case using Suc.IH [of "drop len bs"] by auto
qed simp

lemma concat_chunks: "n * len \<le> length bs \<Longrightarrow> concat (chunks len n bs) = take (n * len) bs"
  by (induction n arbitrary: bs) (auto simp: take_add)

lemma chunks_concat:
  "(\<And>e. e \<in> set es \<Longrightarrow> length e = len) \<Longrightarrow> chunks len (length es) (concat es @ tail) = es"
  by (induction es) auto

lemma length_concat_len: "(\<And>e. e \<in> set es \<Longrightarrow> length e = len) \<Longrightarrow> length (concat es) = length es * len"
  by (induction es) auto

lemma vec_split:
  assumes "vec_ok len data"
  shows "data = take 4 data @ concat (vec_elems len data) @ drop (4 + vec_count data * len) data"
    and "length (take 4 data) = 4"
    and "\<And>e. e \<in> set (vec_elems len data) \<Longrightarrow> length e = len"
    and "length (vec_elems len data) = vec_count data"
proof -
  have l: "vec_count data * len \<le> length (drop 4 data)" and "4 \<le> length data"
    using assms by (auto simp: vec_ok_def)
  then show "length (take 4 data) = 4" by simp
  show "\<And>e. e \<in> set (vec_elems len data) \<Longrightarrow> length e = len"
    unfolding vec_elems_def by (rule chunks_lengths [OF l])
  show "length (vec_elems len data) = vec_count data" by (simp add: vec_elems_def)
  show "data = take 4 data @ concat (vec_elems len data) @ drop (4 + vec_count data * len) data"
    by (simp add: vec_elems_def concat_chunks [OF l])
      (metis add.commute append_take_drop_id drop_drop)
qed

lemma vec_joined:
  assumes "length hdr = 4" and "unat (from_le_bytes hdr :: u32) = length es"
    and "\<And>e. e \<in> set es \<Longrightarrow> length e = len"
  shows "vec_ok len (hdr @ concat es @ tail)" and "vec_elems len (hdr @ concat es @ tail) = es"
    and "vec_count (hdr @ concat es @ tail) = length es"
  using assms by (auto simp: vec_ok_def vec_elems_def vec_count_def length_concat_len chunks_concat)

lemma BigVec_len_ok: "vec_ok len data \<Longrightarrow> BigVec_len data = Inr (from_le_bytes (take 4 data))"
  by (simp add: BigVec_len_def byte_slice_def vec_ok_def subslice_def)

subsection \<open>Compaction\<close>

lemma slice_mid:
  "a = length xs \<Longrightarrow> b = a + length ys \<Longrightarrow> byte_slice a b (xs @ ys @ zs) = Inr ys"
  by (simp add: byte_slice_def subslice_def)

lemma memmove_down:
  assumes "d = length xs" and "s = d + length gap" and "n = length m"
  shows "memmove d (d + n) s (s + n) n (xs @ gap @ m @ zs) = Inr (xs @ m @ drop n (gap @ m) @ zs)"
  using assms by (simp add: memmove_def byte_slice_def write_at_def subslice_def)

lemma retain_loop_remove:
  assumes "byte_slice start (start + len) data = Inr e" and "\<not> P e" and "0 < r"
    and "memmove dst (start - r * len) (dst + r * len) start (start - r * len - dst) data = Inr data'"
  shows "retain_loop len P (Suc n) start data v r dst = retain_loop len P n (start + len) data' (v - 1) (Suc r) (start - r * len)"
  using assms by (simp add: Let_def)

text \<open>
  Once something has been removed the buffer is: the kept entries already in place, a gap as wide as
  what was removed, the entries kept since, and what is still to be visited.
\<close>

lemma retain_loop_gap:
  assumes "\<And>e. e \<in> set es \<Longrightarrow> length e = len" and "length gap = r * len" and "0 < r"
  shows "\<exists>kept' gap' since'.
    retain_loop len P (length es) (length kept + length gap + length since) (kept @ gap @ since @ concat es @ tail) v r (length kept) =
      Inr (kept' @ gap' @ since' @ tail, v - of_nat (length es - length (filter P es)),
        r + (length es - length (filter P es)), length kept') \<and>
    kept' @ since' = kept @ since @ concat (filter P es) \<and> length gap' = (r + (length es - length (filter P es))) * len"
  using assms
proof (induction es arbitrary: kept gap since v r)
  case Nil
  then show ?case by force
next
  case (Cons e es)
  let ?start = "length kept + length gap + length since" and ?gone = "length es - length (filter P es)"
  have e: "length e = len" and es: "\<And>x. x \<in> set es \<Longrightarrow> length x = len" using Cons.prems(1) by auto
  have current: "byte_slice ?start (?start + len) (kept @ gap @ since @ e @ concat es @ tail) = Inr e"
    using slice_mid [of ?start "kept @ gap @ since" _ e "concat es @ tail"] e by simp
  show ?case
  proof (cases "P e")
    case True
    then show ?thesis
      using Cons.IH [OF es Cons.prems(2,3), of kept "since @ e" v] current e by (simp add: add.assoc)
  next
    case False
    define g where "g = drop (length since) (gap @ since) @ e"
    have moved: "memmove (length kept) (?start - r * len) (length kept + r * len) ?start (?start - r * len - length kept)
        (kept @ gap @ since @ e @ concat es @ tail) = Inr (kept @ since @ g @ concat es @ tail)"
      using memmove_down [of "length kept" kept "length kept + length gap" gap "length since" since "e @ concat es @ tail"]
        Cons.prems(2) by (simp add: g_def add.commute add.left_commute)
    have lg: "length g = Suc r * len" using Cons.prems(2) e by (simp add: g_def)
    from Cons.IH [OF es lg, of "kept @ since" "[]" "v - 1"]
    obtain kept' gap' since' where
      run: "retain_loop len P (length es) (length (kept @ since) + length g) (kept @ since @ g @ concat es @ tail) (v - 1) (Suc r)
        (length (kept @ since)) = Inr (kept' @ gap' @ since' @ tail, v - 1 - of_nat ?gone, Suc r + ?gone, length kept')"
      and rest: "kept' @ since' = kept @ since @ concat (filter P es)" "length gap' = (Suc r + ?gone) * len"
      by auto
    have at: "?start + len = length (kept @ since) + length g" "?start - r * len = length (kept @ since)"
      using Cons.prems(2) lg by simp_all
    have gone: "length (e # es) - length (filter P (e # es)) = Suc ?gone" using False by (simp add: Suc_diff_le)
    have v: "v - of_nat (Suc ?gone) = v - 1 - of_nat ?gone" by simp
    have "retain_loop len P (length (e # es)) ?start (kept @ gap @ since @ concat (e # es) @ tail) v r (length kept) =
        Inr (kept' @ gap' @ since' @ tail, v - of_nat (Suc ?gone), r + Suc ?gone, length kept')"
      using retain_loop_remove [where P = P, OF current False Cons.prems(3) moved, of "length es" v] run unfolding at v by simp
    then show ?thesis using rest False unfolding gone by auto
  qed
qed

lemma retain_loop_from_start:
  assumes "\<And>e. e \<in> set es \<Longrightarrow> length e = len" and "\<exists>e \<in> set es. \<not> P e"
  shows "\<exists>kept' gap' since'.
      retain_loop len P (length es) (length since) (since @ concat es @ tail) v 0 0 =
        Inr (kept' @ gap' @ since' @ tail, v - of_nat (length es - length (filter P es)),
          length es - length (filter P es), length kept') \<and>
      kept' @ since' = since @ concat (filter P es) \<and> length gap' = (length es - length (filter P es)) * len"
  using assms
proof (induction es arbitrary: since)
  case (Cons e es)
  have e: "length e = len" and es: "\<And>x. x \<in> set es \<Longrightarrow> length x = len" using Cons.prems by auto
  have current: "byte_slice (length since) (length since + len) (since @ e @ concat es @ tail) = Inr e"
    using slice_mid [of "length since" since _ e "concat es @ tail"] e by simp
  show ?case
  proof (cases "P e")
    case True
    then show ?thesis using Cons.IH [OF es, of "since @ e"] Cons.prems(2) current e by simp
  next
    case False
    let ?gone = "length es - length (filter P es)"
    have "length e = 1 * len" using e by simp
    from retain_loop_gap [OF es this, where es = es and P = P and kept = since and since = "[]" and tail = tail and v = "v - 1"]
    obtain kept' gap' since' where
      run: "retain_loop len P (length es) (length since + len) (since @ e @ concat es @ tail) (v - 1) 1 (length since) =
        Inr (kept' @ gap' @ since' @ tail, v - 1 - of_nat ?gone, 1 + ?gone, length kept')"
      and rest: "kept' @ since' = since @ concat (filter P es)" "length gap' = (1 + ?gone) * len"
      using e by auto
    have gone: "length (e # es) - length (filter P (e # es)) = 1 + ?gone" using False by (simp add: Suc_diff_le)
    have v: "v - of_nat (1 + ?gone) = v - 1 - of_nat ?gone" by simp
    have "retain_loop len P (length (e # es)) (length since) (since @ concat (e # es) @ tail) v 0 0 =
        Inr (kept' @ gap' @ since' @ tail, v - of_nat (1 + ?gone), 1 + ?gone, length kept')"
      using current False run unfolding v by (simp add: Let_def)
    then show ?thesis using rest False unfolding gone by auto
  qed
qed simp

lemma retain_loop_all:
  assumes "\<And>e. e \<in> set es \<Longrightarrow> length e = len" and "\<And>e. e \<in> set es \<Longrightarrow> P e"
  shows "retain_loop len P (length es) (length since) (since @ concat es @ tail) v 0 0 = Inr (since @ concat es @ tail, v, 0, 0)"
  using assms
proof (induction es arbitrary: since)
  case (Cons e es)
  have "byte_slice (length since) (length since + len) (since @ e @ concat es @ tail) = Inr e"
    using slice_mid [of "length since" since _ e "concat es @ tail"] Cons.prems(1) by simp
  then show ?case using Cons.IH [of "since @ e"] Cons.prems by simp
qed simp

lemma from_to_le_bytes_u32 [simp]: "from_le_bytes (to_le_bytes (w :: u32)) = w"
  by (rule from_to_le_bytes) simp

lemma write_len_eq:
  assumes "borsh_u32_lawful U" and "4 \<le> length data"
  shows "write_len U n data = Inr (to_le_bytes n @ drop 4 data)"
  using assms by (simp add: write_len_def borsh_u32_lawful_def byte_slice_def write_front_def write_at_def)

text \<open>The whole of \<^verbatim>\<open>retain\<close>, on a buffer laid out as a header, the entries and what follows them.\<close>

lemma retain_layout:
  assumes U: "borsh_u32_lawful U" and hdr: "length hdr = 4" "unat (from_le_bytes hdr :: u32) = length es"
    and es: "\<And>e. e \<in> set es \<Longrightarrow> length e = len"
  shows "\<exists>rest. BigVec_retain U len P (hdr @ concat es @ tail) =
      Inr (to_le_bytes (of_nat (length (filter P es)) :: u32) @ concat (filter P es) @ rest @ tail) \<and>
    length rest = (length es - length (filter P es)) * len"
proof -
  let ?n = "from_le_bytes hdr :: u32" and ?f = "filter P es"
  let ?stop = "4 + length es * len" and ?data = "hdr @ concat es @ tail"
  have len: "BigVec_len ?data = Inr ?n" using hdr by (simp add: BigVec_len_def byte_slice_def subslice_def)
  have c: "length (concat es) = length es * len" using es by (rule length_concat_len)
  have cf: "length (concat ?f) = length ?f * len" using es by (intro length_concat_len) auto
  have count: "?n = of_nat (length es)" using arg_cong [OF hdr(2), of "of_nat :: nat \<Rightarrow> u32"] by simp
  show ?thesis
  proof (cases "\<forall>e \<in> set es. P e")
    case True
    then have f: "?f = es" by simp
    have "retain_loop len P (length es) 4 ?data ?n 0 0 = Inr (?data, ?n, 0, 0)"
      using retain_loop_all [where es = es and P = P and since = hdr and tail = tail and v = ?n, OF es] True hdr(1) by simp
    then have "BigVec_retain U len P ?data = Inr (to_le_bytes ?n @ drop 4 ?data)"
      using U hdr by (simp add: BigVec_retain_def len write_len_eq)
    then show ?thesis using hdr f count by simp
  next
    case False
    let ?gone = "length es - length ?f"
    from False have bad: "\<exists>e \<in> set es. \<not> P e" by blast
    from retain_loop_from_start [OF es bad, where since = hdr and tail = tail and v = ?n]
    obtain kept gap since where
      run: "retain_loop len P (length es) 4 ?data ?n 0 0 = Inr (kept @ gap @ since @ tail, ?n - of_nat ?gone, ?gone, length kept)"
      and parts: "kept @ since = hdr @ concat ?f" "length gap = ?gone * len"
      unfolding hdr(1) by auto
    have pos: "0 < ?gone" using bad length_filter_less [of _ es P] by auto
    have ks: "length kept + length since = 4 + length ?f * len" using arg_cong [OF parts(1), of length] cf hdr(1) by simp
    have "length ?f * len + ?gone * len = length es * len"
      by (simp add: add_mult_distrib [symmetric])
    with ks have total: "length kept + ?gone * len + length since = ?stop" by simp
    define rest where "rest = drop (length since) (gap @ since)"
    have ends: "?stop - ?gone * len = length kept + length since" "length kept + length since - length kept = length since"
      "?stop = length kept + ?gone * len + length since" using total by simp_all
    have joined: "hdr @ concat ?f @ rest @ tail = kept @ since @ rest @ tail"
      using parts(1) by (metis append_assoc)
    have moved: "memmove (length kept) (?stop - ?gone * len) (length kept + ?gone * len) ?stop (?stop - ?gone * len - length kept)
        (kept @ gap @ since @ tail) = Inr (hdr @ concat ?f @ rest @ tail)"
      unfolding ends(1,2) joined unfolding ends(3) rest_def
      by (rule memmove_down) (simp_all add: parts(2))
    have "length rest = ?gone * len"
      using parts(2) by (simp add: rest_def)
    moreover have "?n - of_nat ?gone = of_nat (length ?f)"
      by (simp add: count of_nat_diff)
    then have "BigVec_retain U len P ?data = Inr (to_le_bytes (of_nat (length ?f) :: u32) @ concat ?f @ rest @ tail)"
      using U hdr run moved pos by (simp add: BigVec_retain_def len write_len_eq Let_def)
    ultimately show ?thesis by blast
  qed
qed

lemma retain_spec:
  assumes "borsh_u32_lawful U" and "vec_ok len data"
  shows "\<exists>data'. BigVec_retain U len P data = Inr data' \<and> vec_ok len data' \<and>
    vec_elems len data' = filter P (vec_elems len data) \<and> length data' = length data \<and>
    drop (4 + vec_count data * len) data' = drop (4 + vec_count data * len) data"
proof -
  let ?es = "vec_elems len data" and ?tail = "drop (4 + vec_count data * len) data"
  note parts = vec_split [OF assms(2)]
  have n: "unat (from_le_bytes (take 4 data) :: u32) = length ?es" using parts(4) by (simp add: vec_count_def)
  from retain_layout [OF assms(1) parts(2) n parts(3), where P = P and tail = ?tail]
  obtain rest where run: "BigVec_retain U len P data =
      Inr (to_le_bytes (of_nat (length (filter P ?es)) :: u32) @ concat (filter P ?es) @ rest @ ?tail)"
    and rest: "length rest = (length ?es - length (filter P ?es)) * len"
    unfolding parts(1) [symmetric] by blast
  let ?out = "to_le_bytes (of_nat (length (filter P ?es)) :: u32) @ concat (filter P ?es) @ rest @ ?tail"
  have "length (filter P ?es) < 2 ^ 32"
    using le_less_trans [OF length_filter_le [of P ?es]] n unat_bound [of "from_le_bytes (take 4 data) :: u32"] by simp
  then have c: "unat (of_nat (length (filter P ?es)) :: u32) = length (filter P ?es)" by (simp add: unat_of_nat)
  have l: "\<And>e. e \<in> set (filter P ?es) \<Longrightarrow> length e = len" using parts(3) by auto
  have "vec_ok len ?out" "vec_elems len ?out = filter P ?es"
    using vec_joined [of "to_le_bytes (of_nat (length (filter P ?es)) :: u32)" "filter P ?es" len "rest @ ?tail"] c l
    by simp_all
  moreover have pre: "4 + length (concat (filter P ?es)) + length rest = 4 + vec_count data * len"
    using length_concat_len [of "filter P ?es" len, OF l] length_filter_le [of P ?es] rest parts(4)
    by (simp add: add_mult_distrib [symmetric])
  then have "drop (4 + vec_count data * len) ?out = ?tail" by simp
  moreover have "length ?out = length data"
    using pre assms(2) by (simp add: vec_ok_def)
  ultimately show ?thesis using run by blast
qed

subsection \<open>Lookup, update and append\<close>

lemma nth_chunks: "j < n \<Longrightarrow> chunks len n bs ! j = take len (drop (j * len) bs)"
proof (induction n arbitrary: j bs)
  case (Suc n)
  then show ?case by (cases j) (auto simp: add.commute)
qed simp

lemma entry_offset:
  assumes "vec_ok len data" and "j < vec_count data"
  shows "4 + j * len + len \<le> length data"
proof -
  have "j * len + len \<le> vec_count data * len"
    using mult_le_mono1 [of "Suc j" "vec_count data" len] assms(2) by simp
  then show ?thesis using assms(1) by (simp add: vec_ok_def)
qed

lemma vec_read: "j < vec_count data \<Longrightarrow> subslice (4 + j * len) len data = vec_elems len data ! j"
  by (simp add: vec_elems_def nth_chunks subslice_def add.commute)

lemma vec_slice:
  "vec_ok len data \<Longrightarrow> j < vec_count data \<Longrightarrow>
     byte_slice (4 + j * len) (4 + j * len + len) data = Inr (vec_elems len data ! j)"
  using entry_offset vec_read by (simp add: byte_slice_def)

lemma find_loop_spec:
  assumes "vec_ok len data" and "j + n = vec_count data"
  shows "find_loop len P n (4 + j * len) data =
    Inr (map_option (\<lambda>k. 4 + (j + k) * len) (if \<exists>k<n. P (vec_elems len data ! (j + k))
      then Some (LEAST k. P (vec_elems len data ! (j + k))) else None))"
  using assms(2)
proof (induction n arbitrary: j)
  case (Suc n)
  let ?P = "\<lambda>k. P (vec_elems len data ! (j + k))"
  have s: "byte_slice (4 + j * len) (4 + j * len + len) data = Inr (vec_elems len data ! j)"
    using Suc.prems by (intro vec_slice [OF assms(1)]) simp
  show ?case
  proof (cases "?P 0")
    case True
    then have "(LEAST k. ?P k) = 0" by (metis Least_eq_0)
    then show ?thesis using s True by auto
  next
    case False
    have ih: "find_loop len P n (4 + j * len + len) data =
      Inr (map_option (\<lambda>k. 4 + (Suc j + k) * len) (if \<exists>k<n. ?P (Suc k) then Some (LEAST k. ?P (Suc k)) else None))"
      using Suc.IH [of "Suc j"] Suc.prems by (simp add: add.assoc add.commute [of len])
    have ex: "(\<exists>k<Suc n. ?P k) \<longleftrightarrow> (\<exists>k<n. ?P (Suc k))"
      using False by (metis less_Suc_eq_0_disj)
    show ?thesis
    proof (cases "\<exists>k<n. ?P (Suc k)")
      case True
      then obtain m where "?P (Suc m)" by blast
      then have "(LEAST k. ?P k) = Suc (LEAST k. ?P (Suc k))" using False Least_Suc [of ?P "Suc m"] by simp
      then show ?thesis using s ih ex True False by auto
    next
      case no: False
      then show ?thesis using s ih ex False by auto
    qed
  qed
qed simp

lemma find_Some:
  assumes "vec_ok len data" and "BigVec_find len needle P data = Inr (Some i)"
  obtains j where "j < vec_count data" and "i = 4 + j * len" and "P (vec_elems len data ! j) needle"
    and "\<And>k. k < j \<Longrightarrow> \<not> P (vec_elems len data ! k) needle"
proof -
  let ?P = "\<lambda>k. P (vec_elems len data ! k) needle"
  have "find_loop len (\<lambda>s. P s needle) (vec_count data) 4 data = Inr (Some i)"
    using assms by (simp add: BigVec_find_def BigVec_len_ok vec_count_def)
  then have ex: "\<exists>k<vec_count data. ?P k" and i: "i = 4 + (LEAST k. ?P k) * len"
    by (auto simp: find_loop_spec [OF assms(1), of 0, simplified] split: if_splits)
  from ex obtain m where m: "m < vec_count data" "?P m" by blast
  then have "(LEAST k. ?P k) < vec_count data" using Least_le [of ?P m] by simp
  then show ?thesis using that [OF _ i] LeastI [of ?P m] m(2) not_less_Least [of _ ?P] by blast
qed

lemma find_None:
  assumes "vec_ok len data" and "BigVec_find len needle P data = Inr None" and "e \<in> set (vec_elems len data)"
  shows "\<not> P e needle"
proof -
  have "find_loop len (\<lambda>s. P s needle) (vec_count data) 4 data = Inr None"
    using assms by (simp add: BigVec_find_def BigVec_len_ok vec_count_def)
  then have "\<not> (\<exists>k<vec_count data. P (vec_elems len data ! k) needle)"
    by (simp add: find_loop_spec [OF assms(1), of 0, simplified] split: if_splits)
  moreover obtain k where "k < vec_count data" "e = vec_elems len data ! k"
    using assms(3) vec_split(4) [OF assms(1)] by (metis in_set_conv_nth)
  ultimately show ?thesis by blast
qed

lemma chunks_write:
  assumes "j < n" and "n * len \<le> length bs" and "length e = len"
  shows "chunks len n (write_at (j * len) e bs) = (chunks len n bs)[j := e]"
  using assms
proof (induction n arbitrary: j bs)
  case (Suc n)
  show ?case
  proof (cases j)
    case 0
    then show ?thesis using Suc.prems by (simp add: write_at_def)
  next
    case (Suc i)
    have "drop len (write_at (len + i * len) e bs) = write_at (i * len) e (drop len bs)"
      and "take len (write_at (len + i * len) e bs) = take len bs"
      using Suc.prems by (simp_all add: write_at_def drop_take add.commute add.left_commute)
    then show ?thesis using Suc.IH [of i "drop len bs"] Suc.prems \<open>j = Suc i\<close> by simp
  qed
qed simp

lemma vec_write:
  assumes "vec_ok len data" and "j < vec_count data" and "length e = len"
  shows "vec_elems len (write_at (4 + j * len) e data) = (vec_elems len data)[j := e]"
    and "vec_ok len (write_at (4 + j * len) e data)"
    and "length (write_at (4 + j * len) e data) = length data"
    and "vec_count (write_at (4 + j * len) e data) = vec_count data"
proof -
  let ?d = "write_at (4 + j * len) e data"
  have off: "4 + j * len + len \<le> length data" by (rule entry_offset [OF assms(1,2)])
  have head: "take 4 ?d = take 4 data" using off by (simp add: write_at_def)
  then show c: "vec_count ?d = vec_count data" by (simp add: vec_count_def)
  show l: "length ?d = length data" using off assms(3) by (simp add: write_at_def)
  show "vec_ok len ?d" using assms(1) c l by (simp add: vec_ok_def)
  have "drop 4 ?d = write_at (j * len) e (drop 4 data)"
    using off by (simp add: write_at_def drop_take add.commute add.left_commute)
  then show "vec_elems len ?d = (vec_elems len data)[j := e]"
    using chunks_write [of j "vec_count data" len "drop 4 data" e] assms c by (simp add: vec_elems_def vec_ok_def)
qed

lemma push_spec:
  assumes U: "borsh_u32_lawful U" and ok: "vec_ok len data" and room: "vec_count data + 1 < 2 ^ 32"
    and pack: "\<And>dst. length dst = len \<Longrightarrow> pack v dst = Inr bs" and len: "length bs = len"
    and run: "BigVec_push U len pack v data = Inr data'"
  shows "vec_elems len data' = vec_elems len data @ [bs]" and "vec_ok len data'" and "length data' = length data"
proof -
  let ?n = "from_le_bytes (take 4 data) :: u32" and ?stop = "4 + vec_count data * len"
  note parts = vec_split [OF ok]
  have n: "unat ?n = vec_count data" by (simp add: vec_count_def)
  have four: "4 \<le> length data" using ok by (simp add: vec_ok_def)
  let ?d = "to_le_bytes (?n + 1) @ drop 4 data"
  have fits: "?stop + len \<le> length data" and data': "data' = write_at ?stop bs ?d"
    using run U four len
    by (auto simp: BigVec_push_def borsh_u32_lawful_def byte_slice_def subslice_def write_len_eq n Let_def pack
        split: if_splits)
  have "unat (?n + 1) = vec_count data + 1" using room n by (simp add: unat_word_ariths)
  moreover have "data' = to_le_bytes (?n + 1) @ concat (vec_elems len data @ [bs]) @ drop (?stop + len) data"
    using fits len concat_chunks [of "vec_count data" len "drop 4 data"]
    by (simp add: data' write_at_def vec_elems_def drop_take add.commute add.left_commute)
  ultimately show "vec_elems len data' = vec_elems len data @ [bs]" "vec_ok len data'"
    using vec_joined [of "to_le_bytes (?n + 1)" "vec_elems len data @ [bs]" len "drop (?stop + len) data"] parts(3,4) len
    by auto
  show "length data' = length data" using fits four len by (simp add: data' write_at_def)
qed

end
