(* ===== verification/Stake_Processor.thy ===== *)
theory Stake_Processor
  imports Stake_BigVec
begin

text \<open>
  The stake pool program's processor (\<^verbatim>\<open>stake-pool/program/src/processor.rs\<close>), first part: the parameters,
  the checks and invocations the handlers share, and the handlers that set up a pool and manage its
  validators.

  A handler that borrowed the validator list's data keeps it borrowed until it returns.  The key of the
  borrowed account is the argument \<open>held\<close>: another borrow of its data panics, and an invocation that
  is passed the account fails.

  The stake program, the system program, the \<^verbatim>\<open>borsh\<close> and \<^verbatim>\<open>spl_math\<close> crates are not part of the
  repository; their instructions, encodings and functions are the fields of \<open>pool_env\<close>.
\<close>

section \<open>Parameters\<close>

datatype StakeAuthorize = AuthorizeStaker | AuthorizeWithdrawer

datatype PreferredValidatorType = PreferredDeposit | PreferredWithdraw

datatype FundingType = FundStakeDeposit | FundSolDeposit | FundSolWithdraw

datatype StakePoolInstruction =
    InitializePool Fee Fee Fee u8 u32
  | AddValidatorToPool
  | RemoveValidatorFromPool
  | DecreaseValidatorStake u64 u64
  | IncreaseValidatorStake u64 u64
  | SetPreferredValidator PreferredValidatorType "pubkey option"
  | UpdateValidatorListBalance u32 bool
  | UpdateStakePoolBalance
  | CleanupRemovedValidatorEntries
  | DepositStake
  | WithdrawStake u64
  | SetManager
  | SetFee FeeType
  | SetStaker
  | DepositSol u64
  | SetFundingAuthority FundingType
  | WithdrawSol u64

record pool_env =
  pe_runtime :: runtime
  pe_u32 :: borsh_u32
  pe_StakePool :: "StakePool codec"
  pe_ValidatorList :: "ValidatorList codec"
  pe_header :: "ValidatorListHeader codec"
  pe_info_write :: "ValidatorStakeInfo \<Rightarrow> bytes res"
  pe_stake_state :: "bytes \<Rightarrow> StakeState res"
  pe_instruction :: "bytes \<Rightarrow> StakePoolInstruction res"
  pe_ceil_div :: ceil_division
  pe_stake_program_id :: pubkey
  pe_stake_state_size :: nat
  pe_stake_initialize :: "pubkey \<Rightarrow> pubkey \<Rightarrow> pubkey \<Rightarrow> Lockup \<Rightarrow> sol_instruction"
  pe_stake_delegate :: "pubkey \<Rightarrow> pubkey \<Rightarrow> pubkey \<Rightarrow> sol_instruction"
  pe_stake_deactivate :: "pubkey \<Rightarrow> pubkey \<Rightarrow> sol_instruction"
  pe_stake_split :: "pubkey \<Rightarrow> pubkey \<Rightarrow> u64 \<Rightarrow> pubkey \<Rightarrow> sol_instruction list"
  pe_stake_merge :: "pubkey \<Rightarrow> pubkey \<Rightarrow> pubkey \<Rightarrow> sol_instruction list"
  pe_stake_authorize :: "pubkey \<Rightarrow> pubkey \<Rightarrow> pubkey \<Rightarrow> StakeAuthorize \<Rightarrow> sol_instruction"
  pe_stake_withdraw :: "pubkey \<Rightarrow> pubkey \<Rightarrow> pubkey \<Rightarrow> u64 \<Rightarrow> sol_instruction"
  pe_system_create_account :: "pubkey \<Rightarrow> pubkey \<Rightarrow> u64 \<Rightarrow> u64 \<Rightarrow> pubkey \<Rightarrow> sol_instruction"
  pe_system_transfer :: "pubkey \<Rightarrow> pubkey \<Rightarrow> u64 \<Rightarrow> sol_instruction"
  pe_system_allocate :: "pubkey \<Rightarrow> u64 \<Rightarrow> sol_instruction"
  pe_system_assign :: "pubkey \<Rightarrow> pubkey \<Rightarrow> sol_instruction"

section \<open>Account infos and borrows\<close>

text \<open>\<open>n\<close> calls of \<^verbatim>\<open>next_account_info\<close> in a row.\<close>

definition next_accounts :: "nat \<Rightarrow> account_info list \<Rightarrow> (account_info list \<times> account_info list) res" where
  "next_accounts n it = (if length it < n then Inl NotEnoughAccountKeys else Inr (take n it, drop n it))"

definition borrow_data :: "pubkey option \<Rightarrow> account_info \<Rightarrow> ledger \<Rightarrow> bytes res" where
  "borrow_data held info led = (if held = Some (ai_key info) then Inl Panicked else Inr (info_data led info))"

definition invoke_holding ::
    "pool_env \<Rightarrow> pubkey option \<Rightarrow> pubkey \<Rightarrow> sol_instruction \<Rightarrow> account_info list \<Rightarrow> bytes list list \<Rightarrow> ledger \<Rightarrow> ledger res" where
  "invoke_holding E held program_id ix infos seeds led =
     (if \<exists>m \<in> set (ix_accounts ix). held = Some (am_pubkey m) \<and> am_pubkey m \<in> ai_key ` set infos
      then Inl AccountBorrowFailed
      else rt_invoke_signed (pe_runtime E) program_id ix infos seeds led)"

text \<open>\<^verbatim>\<open>stake_pool.serialize(&mut *stake_pool_info.data.borrow_mut())\<close>.\<close>

definition store_stake_pool :: "pool_env \<Rightarrow> pubkey option \<Rightarrow> StakePool \<Rightarrow> account_info \<Rightarrow> ledger \<Rightarrow> ledger res" where
  "store_stake_pool E held p info led =
     attempt (borrow_data held info led) (\<lambda>data.
     attempt (cd_write (pe_StakePool E) p) (\<lambda>bs.
     attempt (write_front bs data) (\<lambda>data'.
     Inr (set_data (ai_key info) data' led))))"

section \<open>Checks\<close>

definition get_stake_state :: "pool_env \<Rightarrow> pubkey option \<Rightarrow> account_info \<Rightarrow> ledger \<Rightarrow> (Meta \<times> Delegation) res" where
  "get_stake_state E held stake_account_info led =
     attempt (borrow_data held stake_account_info led) (\<lambda>data.
     attempt (pe_stake_state E data) (\<lambda>stake_state.
     case stake_state of
       StakeDelegated meta stake \<Rightarrow> Inr (meta, stake)
     | _ \<Rightarrow> Inl (pool_err WrongStakeState)))"

definition check_validator_stake_address :: "pool_env \<Rightarrow> pubkey \<Rightarrow> pubkey \<Rightarrow> pubkey \<Rightarrow> pubkey \<Rightarrow> unit res" where
  "check_validator_stake_address E program_id stake_pool_address stake_account_address vote_address =
     (let (validator_stake_address, _) =
            find_stake_program_address (pe_runtime E) program_id vote_address stake_pool_address in
      if validator_stake_address \<noteq> stake_account_address then Inl (pool_err InvalidStakeAccountAddress) else Inr ())"

definition check_transient_stake_address :: "pool_env \<Rightarrow> pubkey \<Rightarrow> pubkey \<Rightarrow> pubkey \<Rightarrow> pubkey \<Rightarrow> u64 \<Rightarrow> u8 res" where
  "check_transient_stake_address E program_id stake_pool_address stake_account_address vote_address seed =
     (let (transient_stake_address, bump_seed) =
            find_transient_stake_program_address (pe_runtime E) program_id vote_address stake_pool_address seed in
      if transient_stake_address \<noteq> stake_account_address then Inl (pool_err InvalidStakeAccountAddress)
      else Inr bump_seed)"

definition check_system_program :: "pool_env \<Rightarrow> pubkey \<Rightarrow> unit res" where
  "check_system_program E program_id =
     (if program_id \<noteq> rt_system_program_id (pe_runtime E) then Inl IncorrectProgramId else Inr ())"

definition check_stake_program :: "pool_env \<Rightarrow> pubkey \<Rightarrow> unit res" where
  "check_stake_program E program_id =
     (if program_id \<noteq> pe_stake_program_id E then Inl IncorrectProgramId else Inr ())"

definition pool_check_account_owner :: "ledger \<Rightarrow> account_info \<Rightarrow> pubkey \<Rightarrow> unit res" where
  "pool_check_account_owner led account_info program_id =
     (if program_id \<noteq> info_owner led account_info then Inl IncorrectProgramId else Inr ())"

definition stake_is_usable_by_pool :: "Meta \<Rightarrow> pubkey \<Rightarrow> Lockup \<Rightarrow> bool" where
  "stake_is_usable_by_pool meta expected_authority expected_lockup \<longleftrightarrow>
     me_staker meta = expected_authority \<and> me_withdrawer meta = expected_authority \<and> me_lockup meta = expected_lockup"

text \<open>The steps most handlers open with: the owner, the encoding and the type of the pool account.\<close>

definition load_stake_pool :: "pool_env \<Rightarrow> pubkey \<Rightarrow> account_info \<Rightarrow> ledger \<Rightarrow> StakePool res" where
  "load_stake_pool E program_id stake_pool_info led =
     attempt (pool_check_account_owner led stake_pool_info program_id) (\<lambda>_.
     attempt (cd_read (pe_StakePool E) (info_data led stake_pool_info)) (\<lambda>stake_pool.
     if \<not> StakePool_is_valid stake_pool then Inl (pool_err PoolInvalidState) else Inr stake_pool))"

section \<open>The validator list in its account\<close>

text \<open>\<^verbatim>\<open>ValidatorListHeader::deserialize_vec\<close>: the header, and where the vector starts.\<close>

definition deserialize_vec :: "pool_env \<Rightarrow> bytes \<Rightarrow> (ValidatorListHeader \<times> nat) res" where
  "deserialize_vec E data =
     attempt (cd_read (pe_header E) data) (\<lambda>header.
     attempt (cd_write (pe_header E) header) (\<lambda>packed.
     if length packed \<le> length data then Inr (header, length packed) else Inl Panicked))"

definition open_validator_list :: "pool_env \<Rightarrow> account_info \<Rightarrow> ledger \<Rightarrow> (ValidatorListHeader \<times> nat) res" where
  "open_validator_list E validator_list_info led =
     attempt (deserialize_vec E (info_data led validator_list_info)) (\<lambda>(header, off).
     if \<not> ValidatorListHeader_is_valid header then Inl (pool_err PoolInvalidState) else Inr (header, off))"

definition list_vec :: "pubkey \<Rightarrow> nat \<Rightarrow> ledger \<Rightarrow> bytes" where
  "list_vec k off led = drop off (acc_data (led k))"

definition set_list_vec :: "pubkey \<Rightarrow> nat \<Rightarrow> bytes \<Rightarrow> ledger \<Rightarrow> ledger" where
  "set_list_vec k off vec led = set_data k (take off (acc_data (led k)) @ vec) led"

definition find_validator :: "pubkey \<Rightarrow> nat \<Rightarrow> pubkey \<Rightarrow> ledger \<Rightarrow> nat option res" where
  "find_validator k off vote led = BigVec_find INFO_LEN (to_le_bytes vote) memcmp_pubkey (list_vec k off led)"

definition read_entry :: "pubkey \<Rightarrow> nat \<Rightarrow> nat \<Rightarrow> ledger \<Rightarrow> ValidatorStakeInfo res" where
  "read_entry k off i led = read_info i (list_vec k off led)"

text \<open>An assignment to fields of the entry behind a reference: the other fields keep their bytes.\<close>

definition modify_entry ::
    "pubkey \<Rightarrow> nat \<Rightarrow> nat \<Rightarrow> (ValidatorStakeInfo \<Rightarrow> ValidatorStakeInfo) \<Rightarrow> ledger \<Rightarrow> ledger res" where
  "modify_entry k off i f led =
     attempt (read_entry k off i led) (\<lambda>v.
     Inr (set_list_vec k off (write_info i (f v) (list_vec k off led)) led))"

definition calculate_max_validators :: "nat \<Rightarrow> nat" where
  "calculate_max_validators buffer_length = (buffer_length - (1 + 4 + 4)) div INFO_LEN"

section \<open>Invocations\<close>

definition create_transient_stake_account ::
    "pool_env \<Rightarrow> pubkey option \<Rightarrow> pubkey \<Rightarrow> account_info \<Rightarrow> bytes list \<Rightarrow> account_info \<Rightarrow> ledger \<Rightarrow> ledger res" where
  "create_transient_stake_account E held program_id transient_info signer_seeds system_program_info led =
     attempt (invoke_holding E held program_id
       (pe_system_allocate E (ai_key transient_info) (of_nat (pe_stake_state_size E)))
       [transient_info, system_program_info] [signer_seeds] led) (\<lambda>led1.
     invoke_holding E held program_id (pe_system_assign E (ai_key transient_info) (pe_stake_program_id E))
       [transient_info, system_program_info] [signer_seeds] led1)"

definition create_pda_account ::
    "pool_env \<Rightarrow> pubkey option \<Rightarrow> pubkey \<Rightarrow> account_info \<Rightarrow> u64 \<Rightarrow> nat \<Rightarrow> pubkey \<Rightarrow> account_info \<Rightarrow> account_info \<Rightarrow>
      bytes list \<Rightarrow> ledger \<Rightarrow> ledger res" where
  "create_pda_account E held program_id payer required_lamports space owner system_program new_pda seeds led =
     (if info_lamports led new_pda > 0 then
        let required_lamports' = saturating_sub required_lamports (info_lamports led new_pda) in
        attempt
          (if required_lamports' > 0
           then invoke_holding E held program_id (pe_system_transfer E (ai_key payer) (ai_key new_pda) required_lamports')
                  [payer, new_pda, system_program] [] led
           else Inr led) (\<lambda>led1.
        attempt (invoke_holding E held program_id (pe_system_allocate E (ai_key new_pda) (of_nat space))
          [new_pda, system_program] [seeds] led1) (\<lambda>led2.
        invoke_holding E held program_id (pe_system_assign E (ai_key new_pda) owner) [new_pda, system_program] [seeds] led2))
      else
        invoke_holding E held program_id
          (pe_system_create_account E (ai_key payer) (ai_key new_pda) required_lamports (of_nat space) owner)
          [payer, new_pda, system_program] [seeds] led)"

definition pool_signers :: "pubkey \<Rightarrow> bytes \<Rightarrow> u8 \<Rightarrow> bytes list list" where
  "pool_signers stake_pool authority_type bump_seed = [[to_le_bytes stake_pool, authority_type, [bump_seed]]]"

definition stake_delegate ::
    "pool_env \<Rightarrow> pubkey option \<Rightarrow> pubkey \<Rightarrow> account_info \<Rightarrow> account_info \<Rightarrow> account_info \<Rightarrow> account_info \<Rightarrow> account_info \<Rightarrow>
      account_info \<Rightarrow> pubkey \<Rightarrow> bytes \<Rightarrow> u8 \<Rightarrow> ledger \<Rightarrow> ledger res" where
  "stake_delegate E held program_id stake vote clock stake_history stake_config authority stake_pool authority_type bump_seed led =
     invoke_holding E held program_id (pe_stake_delegate E (ai_key stake) (ai_key authority) (ai_key vote))
       [stake, vote, clock, stake_history, stake_config, authority] (pool_signers stake_pool authority_type bump_seed) led"

definition stake_deactivate ::
    "pool_env \<Rightarrow> pubkey option \<Rightarrow> pubkey \<Rightarrow> account_info \<Rightarrow> account_info \<Rightarrow> account_info \<Rightarrow> pubkey \<Rightarrow> bytes \<Rightarrow> u8 \<Rightarrow>
      ledger \<Rightarrow> ledger res" where
  "stake_deactivate E held program_id stake clock authority stake_pool authority_type bump_seed led =
     invoke_holding E held program_id (pe_stake_deactivate E (ai_key stake) (ai_key authority))
       [stake, clock, authority] (pool_signers stake_pool authority_type bump_seed) led"

definition stake_split ::
    "pool_env \<Rightarrow> pubkey option \<Rightarrow> pubkey \<Rightarrow> pubkey \<Rightarrow> account_info \<Rightarrow> account_info \<Rightarrow> bytes \<Rightarrow> u8 \<Rightarrow> u64 \<Rightarrow> account_info \<Rightarrow>
      ledger \<Rightarrow> ledger res" where
  "stake_split E held program_id stake_pool stake_account authority authority_type bump_seed amount split_stake led =
     (let split_instruction = pe_stake_split E (ai_key stake_account) (ai_key authority) amount (ai_key split_stake) in
      if split_instruction = [] then Inl Panicked
      else invoke_holding E held program_id (last split_instruction) [stake_account, split_stake, authority]
             (pool_signers stake_pool authority_type bump_seed) led)"

definition stake_merge ::
    "pool_env \<Rightarrow> pubkey option \<Rightarrow> pubkey \<Rightarrow> pubkey \<Rightarrow> account_info \<Rightarrow> account_info \<Rightarrow> bytes \<Rightarrow> u8 \<Rightarrow> account_info \<Rightarrow>
      account_info \<Rightarrow> account_info \<Rightarrow> account_info \<Rightarrow> ledger \<Rightarrow> ledger res" where
  "stake_merge E held program_id stake_pool source authority authority_type bump_seed destination clock stake_history
      stake_program led =
     (let merge_instruction = pe_stake_merge E (ai_key destination) (ai_key source) (ai_key authority) in
      if merge_instruction = [] then Inl Panicked
      else invoke_holding E held program_id (hd merge_instruction)
             [destination, source, clock, stake_history, authority, stake_program]
             (pool_signers stake_pool authority_type bump_seed) led)"

definition stake_authorize ::
    "pool_env \<Rightarrow> pubkey option \<Rightarrow> pubkey \<Rightarrow> account_info \<Rightarrow> account_info \<Rightarrow> pubkey \<Rightarrow> account_info \<Rightarrow> account_info \<Rightarrow>
      ledger \<Rightarrow> ledger res" where
  "stake_authorize E held program_id stake_account stake_authority new_stake_authority clock stake_program led =
     attempt (invoke_holding E held program_id
       (pe_stake_authorize E (ai_key stake_account) (ai_key stake_authority) new_stake_authority AuthorizeStaker)
       [stake_account, clock, stake_authority, stake_program] [] led) (\<lambda>led1.
     invoke_holding E held program_id
       (pe_stake_authorize E (ai_key stake_account) (ai_key stake_authority) new_stake_authority AuthorizeWithdrawer)
       [stake_account, clock, stake_authority, stake_program] [] led1)"

definition stake_authorize_signed ::
    "pool_env \<Rightarrow> pubkey option \<Rightarrow> pubkey \<Rightarrow> pubkey \<Rightarrow> account_info \<Rightarrow> account_info \<Rightarrow> bytes \<Rightarrow> u8 \<Rightarrow> pubkey \<Rightarrow> account_info \<Rightarrow>
      account_info \<Rightarrow> ledger \<Rightarrow> ledger res" where
  "stake_authorize_signed E held program_id stake_pool stake_account stake_authority authority_type bump_seed
      new_stake_authority clock stake_program led =
     attempt (invoke_holding E held program_id
       (pe_stake_authorize E (ai_key stake_account) (ai_key stake_authority) new_stake_authority AuthorizeStaker)
       [stake_account, clock, stake_authority, stake_program] (pool_signers stake_pool authority_type bump_seed) led) (\<lambda>led1.
     invoke_holding E held program_id
       (pe_stake_authorize E (ai_key stake_account) (ai_key stake_authority) new_stake_authority AuthorizeWithdrawer)
       [stake_account, clock, stake_authority, stake_program] (pool_signers stake_pool authority_type bump_seed) led1)"

definition stake_withdraw ::
    "pool_env \<Rightarrow> pubkey option \<Rightarrow> pubkey \<Rightarrow> pubkey \<Rightarrow> account_info \<Rightarrow> account_info \<Rightarrow> bytes \<Rightarrow> u8 \<Rightarrow> account_info \<Rightarrow>
      account_info \<Rightarrow> account_info \<Rightarrow> account_info \<Rightarrow> u64 \<Rightarrow> ledger \<Rightarrow> ledger res" where
  "stake_withdraw E held program_id stake_pool source authority authority_type bump_seed destination clock stake_history
      stake_program lamports led =
     invoke_holding E held program_id
       (pe_stake_withdraw E (ai_key source) (ai_key authority) (ai_key destination) lamports)
       [source, destination, clock, stake_history, authority, stake_program]
       (pool_signers stake_pool authority_type bump_seed) led"

definition token_burn ::
    "pool_env \<Rightarrow> pubkey option \<Rightarrow> pubkey \<Rightarrow> account_info \<Rightarrow> account_info \<Rightarrow> account_info \<Rightarrow> account_info \<Rightarrow> u64 \<Rightarrow>
      ledger \<Rightarrow> ledger res" where
  "token_burn E held program_id token_program burn_account mint authority amount led =
     attempt (burn (pe_runtime E) (ai_key token_program) (ai_key burn_account) (ai_key mint) (ai_key authority) [] amount) (\<lambda>ix.
     invoke_holding E held program_id ix [burn_account, mint, authority, token_program] [] led)"

definition token_mint_to ::
    "pool_env \<Rightarrow> pubkey option \<Rightarrow> pubkey \<Rightarrow> pubkey \<Rightarrow> account_info \<Rightarrow> account_info \<Rightarrow> account_info \<Rightarrow> account_info \<Rightarrow> bytes \<Rightarrow>
      u8 \<Rightarrow> u64 \<Rightarrow> ledger \<Rightarrow> ledger res" where
  "token_mint_to E held program_id stake_pool token_program mint destination authority authority_type bump_seed amount led =
     attempt (mint_to (pe_runtime E) (ai_key token_program) (ai_key mint) (ai_key destination) (ai_key authority) [] amount) (\<lambda>ix.
     invoke_holding E held program_id ix [mint, destination, authority, token_program]
       (pool_signers stake_pool authority_type bump_seed) led)"

definition token_transfer ::
    "pool_env \<Rightarrow> pubkey option \<Rightarrow> pubkey \<Rightarrow> account_info \<Rightarrow> account_info \<Rightarrow> account_info \<Rightarrow> account_info \<Rightarrow> u64 \<Rightarrow>
      ledger \<Rightarrow> ledger res" where
  "token_transfer E held program_id token_program source destination authority amount led =
     attempt (transfer (pe_runtime E) (ai_key token_program) (ai_key source) (ai_key destination) (ai_key authority) [] amount) (\<lambda>ix.
     invoke_holding E held program_id ix [source, destination, authority, token_program] [] led)"

definition sol_transfer ::
    "pool_env \<Rightarrow> pubkey \<Rightarrow> account_info \<Rightarrow> account_info \<Rightarrow> account_info \<Rightarrow> u64 \<Rightarrow> ledger \<Rightarrow> ledger res" where
  "sol_transfer E program_id source destination system_program amount led =
     invoke_holding E None program_id (pe_system_transfer E (ai_key source) (ai_key destination) amount)
       [source, destination, system_program] [] led"

section \<open>Creating a pool\<close>

text \<open>The reserve a new pool starts from: the lamports above the minimum it must keep.\<close>

definition initial_reserve :: "pool_env \<Rightarrow> account_info \<Rightarrow> pubkey \<Rightarrow> ledger \<Rightarrow> u64 res" where
  "initial_reserve E reserve_stake_info withdraw_authority_key led =
     attempt (pe_stake_state E (info_data led reserve_stake_info)) (\<lambda>stake_state.
     case stake_state of
       StakeInitialized meta \<Rightarrow>
         if me_lockup meta \<noteq> Lockup_default then Inl (pool_err WrongStakeState)
         else if me_staker meta \<noteq> withdraw_authority_key then Inl (pool_err WrongStakeState)
         else if me_withdrawer meta \<noteq> withdraw_authority_key then Inl (pool_err WrongStakeState)
         else ok_or (checked_sub (info_lamports led reserve_stake_info) (minimum_reserve_lamports meta))
                (pool_err CalculationFailure)
     | _ \<Rightarrow> Inl (pool_err WrongStakeState))"

text \<open>The two accounts a new pool occupies: owned by the program, unused, and of the right size.\<close>

definition check_new_pool_accounts ::
    "pool_env \<Rightarrow> pubkey \<Rightarrow> rent \<Rightarrow> account_info \<Rightarrow> account_info \<Rightarrow> u32 \<Rightarrow> ledger \<Rightarrow> unit res" where
  "check_new_pool_accounts E program_id rent stake_pool_info validator_list_info max_validators led =
     attempt (pool_check_account_owner led stake_pool_info program_id) (\<lambda>_.
     attempt (cd_read (pe_StakePool E) (info_data led stake_pool_info)) (\<lambda>stake_pool.
     if \<not> StakePool_is_uninitialized stake_pool then Inl (pool_err PoolAlreadyInUse)
     else
       attempt (pool_check_account_owner led validator_list_info program_id) (\<lambda>_.
       attempt (cd_read (pe_ValidatorList E) (info_data led validator_list_info)) (\<lambda>validator_list.
       if \<not> ValidatorListHeader_is_uninitialized (vl_header validator_list) then Inl (pool_err PoolAlreadyInUse)
       else if calculate_max_validators (length (info_data led validator_list_info)) \<noteq> unat max_validators \<or>
         max_validators = 0
       then Inl (pool_err UnexpectedValidatorListAccountSize)
       else if \<not> rent_is_exempt rent (info_lamports led stake_pool_info) (length (info_data led stake_pool_info))
       then Inl AccountNotRentExempt
       else if \<not> rent_is_exempt rent (info_lamports led validator_list_info) (length (info_data led validator_list_info))
       then Inl AccountNotRentExempt
       else Inr ()))))"

definition check_new_pool_mint ::
    "pool_env \<Rightarrow> account_info \<Rightarrow> pubkey \<Rightarrow> ledger \<Rightarrow> unit res" where
  "check_new_pool_mint E pool_mint_info withdraw_authority_key led =
     attempt (Mint_unpack_from_slice (info_data led pool_mint_info)) (\<lambda>pool_mint.
     if mint_supply pool_mint \<noteq> 0 then Inl (pool_err NonZeroPoolTokenSupply)
     else if mint_authority pool_mint \<noteq> Some withdraw_authority_key then Inl (pool_err WrongMintingAuthority)
     else if mint_freeze_authority pool_mint \<noteq> None then Inl (pool_err InvalidMintFreezeAuthority)
     else Inr ())"

definition new_stake_pool ::
    "pubkey \<Rightarrow> pubkey \<Rightarrow> pubkey \<Rightarrow> u8 \<Rightarrow> pubkey \<Rightarrow> pubkey \<Rightarrow> pubkey \<Rightarrow> pubkey \<Rightarrow> pubkey \<Rightarrow> u64 \<Rightarrow> u64 \<Rightarrow> Fee \<Rightarrow> Fee \<Rightarrow> Fee \<Rightarrow>
      u8 \<Rightarrow> pubkey option \<Rightarrow> StakePool" where
  "new_stake_pool manager staker stake_deposit_authority bump_seed validator_list reserve_stake pool_mint manager_fee
      token_program total_lamports epoch epoch_fee withdrawal_fee deposit_fee referral_fee sol_deposit_authority =
     \<lparr>sp_account_type = StakePoolType, sp_manager = manager, sp_staker = staker,
      sp_stake_deposit_authority = stake_deposit_authority, sp_stake_withdraw_bump_seed = bump_seed,
      sp_validator_list = validator_list, sp_reserve_stake = reserve_stake, sp_pool_mint = pool_mint,
      sp_manager_fee_account = manager_fee, sp_token_program_id = token_program,
      sp_total_lamports = total_lamports, sp_pool_token_supply = total_lamports, sp_last_update_epoch = epoch,
      sp_lockup = Lockup_default, sp_epoch_fee = epoch_fee, sp_next_epoch_fee = None,
      sp_preferred_deposit_validator_vote_address = None, sp_preferred_withdraw_validator_vote_address = None,
      sp_stake_deposit_fee = deposit_fee, sp_stake_withdrawal_fee = withdrawal_fee, sp_next_stake_withdrawal_fee = None,
      sp_stake_referral_fee = referral_fee, sp_sol_deposit_authority = sol_deposit_authority,
      sp_sol_deposit_fee = deposit_fee, sp_sol_referral_fee = referral_fee, sp_sol_withdraw_authority = None,
      sp_sol_withdrawal_fee = withdrawal_fee, sp_next_sol_withdrawal_fee = None,
      sp_last_epoch_pool_token_supply = 0, sp_last_epoch_total_lamports = 0\<rparr>"

definition store_validator_list :: "pool_env \<Rightarrow> ValidatorList \<Rightarrow> account_info \<Rightarrow> ledger \<Rightarrow> ledger res" where
  "store_validator_list E validator_list info led =
     attempt (cd_write (pe_ValidatorList E) validator_list) (\<lambda>bs.
     attempt (write_front bs (info_data led info)) (\<lambda>data'.
     Inr (set_data (ai_key info) data' led)))"

definition process_initialize_pool ::
    "pool_env \<Rightarrow> pubkey \<Rightarrow> account_info list \<Rightarrow> Fee \<Rightarrow> Fee \<Rightarrow> Fee \<Rightarrow> u8 \<Rightarrow> u32 \<Rightarrow> ledger \<Rightarrow> ledger res" where
  "process_initialize_pool E program_id accounts epoch_fee withdrawal_fee deposit_fee referral_fee max_validators led =
     attempt (next_accounts 9 accounts) (\<lambda>(a, it).
     let stake_pool_info = a ! 0; manager_info = a ! 1; staker_info = a ! 2; withdraw_authority_info = a ! 3;
         validator_list_info = a ! 4; reserve_stake_info = a ! 5; pool_mint_info = a ! 6; manager_fee_info = a ! 7;
         token_program_info = a ! 8; R = pe_runtime E in
     attempt (rt_rent_get R) (\<lambda>rent.
     if \<not> ai_is_signer manager_info then Inl (pool_err SignatureMissing)
     else if ai_key stake_pool_info = ai_key validator_list_info then Inl (pool_err PoolAlreadyInUse)
     else
       attempt (check_new_pool_accounts E program_id rent stake_pool_info validator_list_info max_validators led) (\<lambda>_.
       if fee_above_one epoch_fee \<or> fee_above_one withdrawal_fee \<or> fee_above_one deposit_fee \<or> referral_fee > 100
       then Inl (pool_err FeeTooHigh)
       else if ai_key token_program_info \<noteq> token_program_id R then Inl IncorrectProgramId
       else if info_owner led manager_fee_info \<noteq> ai_key token_program_info then Inl IncorrectProgramId
       else if info_owner led pool_mint_info \<noteq> ai_key token_program_info then Inl IncorrectProgramId
       else
         attempt (Account_unpack_from_slice (info_data led manager_fee_info)) (\<lambda>fee_account.
         if ai_key pool_mint_info \<noteq> ta_mint fee_account then Inl (pool_err WrongAccountMint)
         else
           let (stake_deposit_authority, sol_deposit_authority) =
                 (case next_account_info it of
                    Inr (deposit_authority_info, _) \<Rightarrow> (ai_key deposit_authority_info, Some (ai_key deposit_authority_info))
                  | Inl _ \<Rightarrow> (fst (find_deposit_authority_program_address R program_id (ai_key stake_pool_info)), None));
               (withdraw_authority_key, stake_withdraw_bump_seed) =
                 find_withdraw_authority_program_address R program_id (ai_key stake_pool_info) in
           if withdraw_authority_key \<noteq> ai_key withdraw_authority_info then Inl (pool_err InvalidProgramAddress)
           else
             attempt (check_new_pool_mint E pool_mint_info withdraw_authority_key led) (\<lambda>_.
             if info_owner led reserve_stake_info \<noteq> pe_stake_program_id E then Inl IncorrectProgramId
             else
               attempt (initial_reserve E reserve_stake_info withdraw_authority_key led) (\<lambda>total_lamports.
               attempt
                 (if total_lamports > 0
                  then token_mint_to E None program_id (ai_key stake_pool_info) token_program_info pool_mint_info
                         manager_fee_info withdraw_authority_info AUTHORITY_WITHDRAW stake_withdraw_bump_seed total_lamports led
                  else Inr led) (\<lambda>led1.
               attempt (store_validator_list E
                 \<lparr>vl_header = \<lparr>vh_account_type = ValidatorListType, vh_max_validators = max_validators\<rparr>, vl_validators = []\<rparr>
                 validator_list_info led1) (\<lambda>led2.
               attempt (rt_clock_get R) (\<lambda>clock.
               store_stake_pool E None
                 (new_stake_pool (ai_key manager_info) (ai_key staker_info) stake_deposit_authority stake_withdraw_bump_seed
                    (ai_key validator_list_info) (ai_key reserve_stake_info) (ai_key pool_mint_info) (ai_key manager_fee_info)
                    (ai_key token_program_info) total_lamports (clock_epoch clock) epoch_fee withdrawal_fee deposit_fee
                    referral_fee sol_deposit_authority)
                 stake_pool_info led2)))))))))"

section \<open>Managing the validators\<close>

text \<open>
  The checks the validator handlers share: the withdraw authority, the staker's signature, that the
  pool is up to date, and the list.  \<^verbatim>\<open>AddValidatorToPool\<close> makes the last two in the other order.
\<close>

definition check_staker_call ::
    "pool_env \<Rightarrow> pubkey \<Rightarrow> account_info \<Rightarrow> account_info \<Rightarrow> account_info \<Rightarrow> clock \<Rightarrow> ledger \<Rightarrow> StakePool res" where
  "check_staker_call E program_id stake_pool_info staker_info withdraw_authority_info clock led =
     attempt (load_stake_pool E program_id stake_pool_info led) (\<lambda>stake_pool.
     attempt (check_authority_withdraw (pe_runtime E) stake_pool (ai_key withdraw_authority_info) program_id
       (ai_key stake_pool_info)) (\<lambda>_.
     attempt (check_staker stake_pool staker_info) (\<lambda>_.
     if sp_last_update_epoch stake_pool < clock_epoch clock then Inl (pool_err StakeListAndPoolOutOfDate)
     else Inr stake_pool)))"

definition process_add_validator_to_pool :: "pool_env \<Rightarrow> pubkey \<Rightarrow> account_info list \<Rightarrow> ledger \<Rightarrow> ledger res" where
  "process_add_validator_to_pool E program_id accounts led =
     attempt (next_accounts 8 accounts) (\<lambda>(a, it).
     let stake_pool_info = a ! 0; staker_info = a ! 1; funder_info = a ! 2; withdraw_authority_info = a ! 3;
         validator_list_info = a ! 4; stake_info = a ! 5; validator_vote_info = a ! 6; rent_info = a ! 7;
         R = pe_runtime E; k = ai_key validator_list_info; held = Some k in
     attempt (rent_from_info R led rent_info) (\<lambda>rent.
     attempt (next_account_info it) (\<lambda>(clock_info, it).
     attempt (clock_from_info R led clock_info) (\<lambda>clock.
     attempt (next_accounts 4 it) (\<lambda>(b, it).
     let stake_history_info = b ! 0; stake_config_info = b ! 1; system_program_info = b ! 2; stake_program_info = b ! 3 in
     attempt (check_system_program E (ai_key system_program_info)) (\<lambda>_.
     attempt (check_stake_program E (ai_key stake_program_info)) (\<lambda>_.
     attempt (load_stake_pool E program_id stake_pool_info led) (\<lambda>stake_pool.
     attempt (check_authority_withdraw R stake_pool (ai_key withdraw_authority_info) program_id (ai_key stake_pool_info)) (\<lambda>_.
     attempt (check_staker stake_pool staker_info) (\<lambda>_.
     attempt (check_validator_list stake_pool validator_list_info) (\<lambda>_.
     if sp_last_update_epoch stake_pool < clock_epoch clock then Inl (pool_err StakeListAndPoolOutOfDate)
     else
       attempt (pool_check_account_owner led validator_list_info program_id) (\<lambda>_.
       attempt (open_validator_list E validator_list_info led) (\<lambda>(header, off).
       attempt (BigVec_len (list_vec k off led)) (\<lambda>count.
       if vh_max_validators header = count then Inl AccountDataTooSmall
       else
         attempt (find_validator k off (ai_key validator_vote_info) led) (\<lambda>found.
         if found \<noteq> None then Inl (pool_err ValidatorAlreadyAdded)
         else
           let (stake_address, bump_seed) =
                 find_stake_program_address R program_id (ai_key validator_vote_info) (ai_key stake_pool_info) in
           if stake_address \<noteq> ai_key stake_info then Inl (pool_err InvalidStakeAccountAddress)
           else
             let seeds = [to_le_bytes (ai_key validator_vote_info), to_le_bytes (ai_key stake_pool_info), [bump_seed]];
                 space = pe_stake_state_size E;
                 required_lamports = MINIMUM_ACTIVE_STAKE + rent_minimum_balance rent space in
             attempt (create_pda_account E held program_id funder_info required_lamports space (pe_stake_program_id E)
               system_program_info stake_info seeds led) (\<lambda>led1.
             attempt (invoke_holding E held program_id
               (pe_stake_initialize E (ai_key stake_info) (ai_key withdraw_authority_info) (ai_key withdraw_authority_info)
                  Lockup_default)
               [stake_info, rent_info, stake_program_info] [] led1) (\<lambda>led2.
             attempt (stake_delegate E held program_id stake_info validator_vote_info clock_info stake_history_info
               stake_config_info withdraw_authority_info (ai_key stake_pool_info) AUTHORITY_WITHDRAW
               (sp_stake_withdraw_bump_seed stake_pool) led2) (\<lambda>led3.
             attempt (BigVec_push (pe_u32 E) INFO_LEN (ValidatorStakeInfo_pack_into_slice (pe_info_write E))
               \<lparr>vs_active_stake_lamports = 0, vs_transient_stake_lamports = 0, vs_last_update_epoch = clock_epoch clock,
                vs_transient_seed_suffix_start = 0, vs_transient_seed_suffix_end = 0, vs_status = ActiveStake,
                vs_vote_account_address = ai_key validator_vote_info\<rparr>
               (list_vec k off led3)) (\<lambda>vec.
             Inr (set_list_vec k off vec led3))))))))))))))))))))"

text \<open>What becomes of an entry whose validator stake is taken out of the pool.\<close>

definition removed_status ::
    "pool_env \<Rightarrow> pubkey option \<Rightarrow> pubkey \<Rightarrow> account_info \<Rightarrow> account_info \<Rightarrow> account_info \<Rightarrow> pubkey \<Rightarrow> ValidatorStakeInfo \<Rightarrow>
      ledger \<Rightarrow> StakeStatus res" where
  "removed_status E held program_id stake_pool_info transient_info withdraw_authority_info vote v led =
     (if vs_transient_stake_lamports v > 0 then
        attempt (check_transient_stake_address E program_id (ai_key stake_pool_info) (ai_key transient_info) vote
          (vs_transient_seed_suffix_start v)) (\<lambda>_.
        attempt (borrow_data held transient_info led) (\<lambda>_.
        case get_stake_state E held transient_info led of
          Inr (meta, stake) \<Rightarrow>
            if me_staker meta = ai_key withdraw_authority_info \<and> me_withdrawer meta = ai_key withdraw_authority_info then
              if de_deactivation_epoch stake = - 1 then Inl (pool_err WrongStakeState) else Inr DeactivatingTransient
            else Inr ReadyForRemoval
        | Inl _ \<Rightarrow> Inr ReadyForRemoval))
      else Inr ReadyForRemoval)"

definition clear_preferred :: "pubkey \<Rightarrow> StakePool \<Rightarrow> StakePool" where
  "clear_preferred vote p =
     p\<lparr>sp_preferred_deposit_validator_vote_address :=
         (if sp_preferred_deposit_validator_vote_address p = Some vote then None
          else sp_preferred_deposit_validator_vote_address p),
       sp_preferred_withdraw_validator_vote_address :=
         (if sp_preferred_withdraw_validator_vote_address p = Some vote then None
          else sp_preferred_withdraw_validator_vote_address p)\<rparr>"

definition process_remove_validator_from_pool :: "pool_env \<Rightarrow> pubkey \<Rightarrow> account_info list \<Rightarrow> ledger \<Rightarrow> ledger res" where
  "process_remove_validator_from_pool E program_id accounts led =
     attempt (next_accounts 9 accounts) (\<lambda>(a, it).
     let stake_pool_info = a ! 0; staker_info = a ! 1; withdraw_authority_info = a ! 2; new_stake_authority_info = a ! 3;
         validator_list_info = a ! 4; stake_account_info = a ! 5; transient_info = a ! 6; destination_info = a ! 7;
         clock_info = a ! 8; R = pe_runtime E; k = ai_key validator_list_info; held = Some k in
     attempt (clock_from_info R led clock_info) (\<lambda>clock.
     attempt (next_account_info it) (\<lambda>(stake_program_info, it).
     attempt (check_stake_program E (ai_key stake_program_info)) (\<lambda>_.
     attempt (check_staker_call E program_id stake_pool_info staker_info withdraw_authority_info clock led) (\<lambda>stake_pool.
     attempt (check_validator_list stake_pool validator_list_info) (\<lambda>_.
     attempt (pool_check_account_owner led validator_list_info program_id) (\<lambda>_.
     attempt (open_validator_list E validator_list_info led) (\<lambda>(header, off).
     attempt (get_stake_state E held stake_account_info led) (\<lambda>(meta, stake).
     let vote = de_voter_pubkey stake in
     attempt (check_validator_stake_address E program_id (ai_key stake_pool_info) (ai_key stake_account_info) vote) (\<lambda>_.
     attempt (find_validator k off vote led) (\<lambda>found.
     attempt (ok_or found (pool_err ValidatorNotFound)) (\<lambda>i.
     if info_lamports led stake_account_info \<noteq> minimum_stake_lamports meta
     then Inl (pool_err StakeLamportsNotEqualToMinimum)
     else if de_stake stake \<noteq> MINIMUM_ACTIVE_STAKE then Inl (pool_err StakeLamportsNotEqualToMinimum)
     else
       attempt (read_entry k off i led) (\<lambda>v.
       attempt (removed_status E held program_id stake_pool_info transient_info withdraw_authority_info vote v led) (\<lambda>new_status.
       attempt (stake_split E held program_id (ai_key stake_pool_info) stake_account_info withdraw_authority_info
         AUTHORITY_WITHDRAW (sp_stake_withdraw_bump_seed stake_pool) (info_lamports led stake_account_info) destination_info led) (\<lambda>led1.
       attempt (stake_authorize_signed E held program_id (ai_key stake_pool_info) destination_info withdraw_authority_info
         AUTHORITY_WITHDRAW (sp_stake_withdraw_bump_seed stake_pool) (ai_key new_stake_authority_info) clock_info
         stake_program_info led1) (\<lambda>led2.
       attempt (modify_entry k off i (\<lambda>v. v\<lparr>vs_status := new_status\<rparr>) led2) (\<lambda>led3.
       store_stake_pool E held (clear_preferred vote stake_pool) stake_pool_info led3)))))))))))))))))"

definition transient_seeds :: "pubkey \<Rightarrow> pubkey \<Rightarrow> u64 \<Rightarrow> u8 \<Rightarrow> bytes list" where
  "transient_seeds vote stake_pool seed bump_seed =
     [TRANSIENT_STAKE_SEED_PREFIX, to_le_bytes vote, to_le_bytes stake_pool, to_le_bytes seed, [bump_seed]]"

definition process_decrease_validator_stake ::
    "pool_env \<Rightarrow> pubkey \<Rightarrow> account_info list \<Rightarrow> u64 \<Rightarrow> u64 \<Rightarrow> ledger \<Rightarrow> ledger res" where
  "process_decrease_validator_stake E program_id accounts lamports transient_stake_seed led =
     attempt (next_accounts 7 accounts) (\<lambda>(a, it).
     let stake_pool_info = a ! 0; staker_info = a ! 1; withdraw_authority_info = a ! 2; validator_list_info = a ! 3;
         validator_stake_info = a ! 4; transient_info = a ! 5; clock_info = a ! 6;
         R = pe_runtime E; k = ai_key validator_list_info; held = Some k in
     attempt (clock_from_info R led clock_info) (\<lambda>clock.
     attempt (next_account_info it) (\<lambda>(rent_info, it).
     attempt (rent_from_info R led rent_info) (\<lambda>rent.
     attempt (next_accounts 2 it) (\<lambda>(b, it).
     let system_program_info = b ! 0; stake_program_info = b ! 1 in
     attempt (check_system_program E (ai_key system_program_info)) (\<lambda>_.
     attempt (check_stake_program E (ai_key stake_program_info)) (\<lambda>_.
     attempt (check_staker_call E program_id stake_pool_info staker_info withdraw_authority_info clock led) (\<lambda>stake_pool.
     attempt (check_validator_list stake_pool validator_list_info) (\<lambda>_.
     attempt (pool_check_account_owner led validator_list_info program_id) (\<lambda>_.
     attempt (open_validator_list E validator_list_info led) (\<lambda>(header, off).
     attempt (get_stake_state E held validator_stake_info led) (\<lambda>(meta, stake).
     let vote = de_voter_pubkey stake in
     attempt (check_validator_stake_address E program_id (ai_key stake_pool_info) (ai_key validator_stake_info) vote) (\<lambda>_.
     attempt (find_validator k off vote led) (\<lambda>found.
     attempt (ok_or found (pool_err ValidatorNotFound)) (\<lambda>i.
     attempt (read_entry k off i led) (\<lambda>v.
     if vs_transient_stake_lamports v > 0 then Inl (pool_err TransientAccountInUse)
     else
       attempt (check_transient_stake_address E program_id (ai_key stake_pool_info) (ai_key transient_info) vote
         transient_stake_seed) (\<lambda>bump_seed.
       if lamports \<le> rent_minimum_balance rent (pe_stake_state_size E) then Inl AccountNotRentExempt
       else
         attempt (ok_or (checked_sub (info_lamports led validator_stake_info) lamports) InsufficientFundsError) (\<lambda>remaining_lamports.
         let required_lamports = minimum_stake_lamports meta in
         if remaining_lamports < required_lamports then
           attempt (ok_or (checked_sub (info_lamports led validator_stake_info) required_lamports)
             (pool_err CalculationFailure)) (\<lambda>_. Inl InsufficientFundsError)
         else
           attempt (create_transient_stake_account E held program_id transient_info
             (transient_seeds vote (ai_key stake_pool_info) transient_stake_seed bump_seed) system_program_info led) (\<lambda>led1.
           attempt (stake_split E held program_id (ai_key stake_pool_info) validator_stake_info withdraw_authority_info
             AUTHORITY_WITHDRAW (sp_stake_withdraw_bump_seed stake_pool) lamports transient_info led1) (\<lambda>led2.
           attempt (stake_deactivate E held program_id transient_info clock_info withdraw_authority_info
             (ai_key stake_pool_info) AUTHORITY_WITHDRAW (sp_stake_withdraw_bump_seed stake_pool) led2) (\<lambda>led3.
           attempt (read_entry k off i led3) (\<lambda>v3.
           attempt (ok_or (checked_sub (vs_active_stake_lamports v3) lamports) (pool_err CalculationFailure)) (\<lambda>active.
           modify_entry k off i
             (\<lambda>v. v\<lparr>vs_active_stake_lamports := active, vs_transient_stake_lamports := lamports,
                    vs_transient_seed_suffix_start := transient_stake_seed\<rparr>) led3)))))))))))))))))))))))"

definition process_increase_validator_stake ::
    "pool_env \<Rightarrow> pubkey \<Rightarrow> account_info list \<Rightarrow> u64 \<Rightarrow> u64 \<Rightarrow> ledger \<Rightarrow> ledger res" where
  "process_increase_validator_stake E program_id accounts lamports transient_stake_seed led =
     attempt (next_accounts 9 accounts) (\<lambda>(a, it).
     let stake_pool_info = a ! 0; staker_info = a ! 1; withdraw_authority_info = a ! 2; validator_list_info = a ! 3;
         reserve_stake_info = a ! 4; transient_info = a ! 5; validator_stake_info = a ! 6; validator_vote_info = a ! 7;
         clock_info = a ! 8; R = pe_runtime E; k = ai_key validator_list_info; held = Some k in
     attempt (clock_from_info R led clock_info) (\<lambda>clock.
     attempt (next_account_info it) (\<lambda>(rent_info, it).
     attempt (rent_from_info R led rent_info) (\<lambda>rent.
     attempt (next_accounts 4 it) (\<lambda>(b, it).
     let stake_history_info = b ! 0; stake_config_info = b ! 1; system_program_info = b ! 2; stake_program_info = b ! 3 in
     attempt (check_system_program E (ai_key system_program_info)) (\<lambda>_.
     attempt (check_stake_program E (ai_key stake_program_info)) (\<lambda>_.
     attempt (check_staker_call E program_id stake_pool_info staker_info withdraw_authority_info clock led) (\<lambda>stake_pool.
     attempt (check_validator_list stake_pool validator_list_info) (\<lambda>_.
     attempt (check_reserve_stake stake_pool reserve_stake_info) (\<lambda>_.
     attempt (pool_check_account_owner led validator_list_info program_id) (\<lambda>_.
     attempt (open_validator_list E validator_list_info led) (\<lambda>(header, off).
     let vote = ai_key validator_vote_info in
     attempt (find_validator k off vote led) (\<lambda>found.
     attempt (ok_or found (pool_err ValidatorNotFound)) (\<lambda>i.
     attempt (read_entry k off i led) (\<lambda>v.
     if vs_transient_stake_lamports v > 0 then Inl (pool_err TransientAccountInUse)
     else
       attempt (pool_check_account_owner led validator_stake_info (ai_key stake_program_info)) (\<lambda>_.
       attempt (check_validator_stake_address E program_id (ai_key stake_pool_info) (ai_key validator_stake_info) vote) (\<lambda>_.
       attempt (get_stake_state E held validator_stake_info led) (\<lambda>(meta, stake).
       if \<not> stake_is_usable_by_pool meta (ai_key withdraw_authority_info) (sp_lockup stake_pool)
       then Inl (pool_err WrongStakeState)
       else if de_voter_pubkey stake \<noteq> vote then Inl (pool_err WrongStakeState)
       else
         attempt (check_transient_stake_address E program_id (ai_key stake_pool_info) (ai_key transient_info) vote
           transient_stake_seed) (\<lambda>bump_seed.
         if vs_status v \<noteq> ActiveStake then Inl (pool_err ValidatorNotFound)
         else
           let stake_rent = rent_minimum_balance rent (pe_stake_state_size E) in
           if lamports < MINIMUM_ACTIVE_STAKE then Inl AccountNotRentExempt
           else
             let total_lamports = saturating_add lamports stake_rent in
             if saturating_sub (info_lamports led reserve_stake_info) total_lamports \<le> stake_rent
             then Inl InsufficientFundsError
             else
               attempt (create_transient_stake_account E held program_id transient_info
                 (transient_seeds vote (ai_key stake_pool_info) transient_stake_seed bump_seed) system_program_info led) (\<lambda>led1.
               attempt (stake_split E held program_id (ai_key stake_pool_info) reserve_stake_info withdraw_authority_info
                 AUTHORITY_WITHDRAW (sp_stake_withdraw_bump_seed stake_pool) total_lamports transient_info led1) (\<lambda>led2.
               attempt (stake_delegate E held program_id transient_info validator_vote_info clock_info stake_history_info
                 stake_config_info withdraw_authority_info (ai_key stake_pool_info) AUTHORITY_WITHDRAW
                 (sp_stake_withdraw_bump_seed stake_pool) led2) (\<lambda>led3.
               modify_entry k off i
                 (\<lambda>v. v\<lparr>vs_transient_stake_lamports := total_lamports,
                        vs_transient_seed_suffix_start := transient_stake_seed\<rparr>) led3))))))))))))))))))))))"

definition process_set_preferred_validator ::
    "pool_env \<Rightarrow> pubkey \<Rightarrow> account_info list \<Rightarrow> PreferredValidatorType \<Rightarrow> pubkey option \<Rightarrow> ledger \<Rightarrow> ledger res" where
  "process_set_preferred_validator E program_id accounts validator_type vote_account_address led =
     attempt (next_accounts 3 accounts) (\<lambda>(a, it).
     let stake_pool_info = a ! 0; staker_info = a ! 1; validator_list_info = a ! 2; k = ai_key validator_list_info in
     attempt (pool_check_account_owner led stake_pool_info program_id) (\<lambda>_.
     attempt (pool_check_account_owner led validator_list_info program_id) (\<lambda>_.
     attempt (load_stake_pool E program_id stake_pool_info led) (\<lambda>stake_pool.
     attempt (check_staker stake_pool staker_info) (\<lambda>_.
     attempt (check_validator_list stake_pool validator_list_info) (\<lambda>_.
     attempt (open_validator_list E validator_list_info led) (\<lambda>(header, off).
     attempt
       (case vote_account_address of
          None \<Rightarrow> Inr ()
        | Some vote \<Rightarrow>
            attempt (find_validator k off vote led) (\<lambda>found.
            attempt (ok_or found (pool_err ValidatorNotFound)) (\<lambda>i.
            attempt (read_entry k off i led) (\<lambda>v.
            if vs_status v \<noteq> ActiveStake then Inl (pool_err InvalidPreferredValidator) else Inr ())))) (\<lambda>_.
     store_stake_pool E (Some k)
       (case validator_type of
          PreferredDeposit \<Rightarrow> stake_pool\<lparr>sp_preferred_deposit_validator_vote_address := vote_account_address\<rparr>
        | PreferredWithdraw \<Rightarrow> stake_pool\<lparr>sp_preferred_withdraw_validator_vote_address := vote_account_address\<rparr>)
       stake_pool_info led))))))))"

end
