(* ===== verification/Stake_Handlers.thy ===== *)
theory Stake_Handlers
  imports Stake_Processor
begin

text \<open>
  The stake pool program's processor (\<^verbatim>\<open>stake-pool/program/src/processor.rs\<close>), second part: bringing the
  balances up to date each epoch, deposits and withdrawals, the settings of the manager and the staker,
  and the dispatch of instructions.
\<close>

section \<open>Updating the validator list\<close>

definition stake_state_of :: "pool_env \<Rightarrow> bytes \<Rightarrow> StakeState option" where
  "stake_state_of E data = (case pe_stake_state E data of Inr s \<Rightarrow> Some s | Inl _ \<Rightarrow> None)"

text \<open>The accounts of one call, as every entry of the list uses them.\<close>

record update_call =
  uc_stake_pool_info :: account_info
  uc_withdraw_authority_info :: account_info
  uc_reserve_stake_info :: account_info
  uc_clock_info :: account_info
  uc_stake_history_info :: account_info
  uc_stake_program_info :: account_info
  uc_stake_pool :: StakePool
  uc_clock :: clock
  uc_no_merge :: bool

definition uc_merge ::
    "pool_env \<Rightarrow> pubkey option \<Rightarrow> pubkey \<Rightarrow> update_call \<Rightarrow> account_info \<Rightarrow> account_info \<Rightarrow> ledger \<Rightarrow> ledger res" where
  "uc_merge E held program_id c source destination led =
     stake_merge E held program_id (ai_key (uc_stake_pool_info c)) source (uc_withdraw_authority_info c) AUTHORITY_WITHDRAW
       (sp_stake_withdraw_bump_seed (uc_stake_pool c)) destination (uc_clock_info c) (uc_stake_history_info c)
       (uc_stake_program_info c) led"

text \<open>
  The transient stake is merged into the reserve; an entry that only waited for it can then go.
\<close>

definition merge_transient_into_reserve ::
    "pool_env \<Rightarrow> pubkey \<Rightarrow> pubkey \<Rightarrow> nat \<Rightarrow> nat \<Rightarrow> update_call \<Rightarrow> account_info \<Rightarrow> ledger \<Rightarrow> ledger res" where
  "merge_transient_into_reserve E program_id k off i c transient_info led =
     attempt (uc_merge E (Some k) program_id c transient_info (uc_reserve_stake_info c) led) (\<lambda>led1.
     attempt (read_entry k off i led1) (\<lambda>v.
     if vs_status v = DeactivatingTransient
     then modify_entry k off i (\<lambda>v. v\<lparr>vs_status := ReadyForRemoval\<rparr>) led1
     else Inr led1))"

definition merge_transient_into_validator ::
    "pool_env \<Rightarrow> pubkey \<Rightarrow> pubkey \<Rightarrow> update_call \<Rightarrow> account_info \<Rightarrow> account_info \<Rightarrow> Delegation \<Rightarrow> ledger \<Rightarrow> ledger res" where
  "merge_transient_into_validator E program_id k c validator_stake_info transient_info stake led =
     (let additional_lamports = saturating_sub (info_lamports led transient_info) (de_stake stake) in
      attempt (uc_merge E (Some k) program_id c transient_info validator_stake_info led) (\<lambda>led1.
      if additional_lamports > 0
      then stake_withdraw E (Some k) program_id (ai_key (uc_stake_pool_info c)) validator_stake_info
             (uc_withdraw_authority_info c) AUTHORITY_WITHDRAW (sp_stake_withdraw_bump_seed (uc_stake_pool c))
             (uc_reserve_stake_info c) (uc_clock_info c) (uc_stake_history_info c) (uc_stake_program_info c)
             additional_lamports led1
      else Inr led1))"

text \<open>The transient stake: the ledger after what can be merged was, and the lamports still counted as transient.\<close>

definition settle_transient ::
    "pool_env \<Rightarrow> pubkey \<Rightarrow> pubkey \<Rightarrow> nat \<Rightarrow> nat \<Rightarrow> update_call \<Rightarrow> account_info \<Rightarrow> account_info \<Rightarrow> StakeState option \<Rightarrow>
      StakeState option \<Rightarrow> ledger \<Rightarrow> (ledger \<times> u64) res" where
  "settle_transient E program_id k off i c validator_stake_info transient_info validator_state transient_state led =
     (let usable = (\<lambda>meta. stake_is_usable_by_pool meta (ai_key (uc_withdraw_authority_info c)) (sp_lockup (uc_stake_pool c)));
          epoch = clock_epoch (uc_clock c) in
      case transient_state of
        Some (StakeInitialized meta) \<Rightarrow>
          if usable meta then
            if uc_no_merge c then Inr (led, info_lamports led transient_info)
            else attempt (merge_transient_into_reserve E program_id k off i c transient_info led) (\<lambda>led1. Inr (led1, 0))
          else Inr (led, 0)
      | Some (StakeDelegated meta stake) \<Rightarrow>
          if usable meta then
            let account_stake = saturating_add (me_rent_exempt_reserve meta) (de_stake stake) in
            if uc_no_merge c then Inr (led, account_stake)
            else if de_deactivation_epoch stake < epoch then
              attempt (merge_transient_into_reserve E program_id k off i c transient_info led) (\<lambda>led1. Inr (led1, 0))
            else if de_activation_epoch stake < epoch then
              (case validator_state of
                 Some (StakeDelegated _ validator_stake) \<Rightarrow>
                   if de_activation_epoch validator_stake < epoch then
                     attempt (merge_transient_into_validator E program_id k c validator_stake_info transient_info stake led)
                       (\<lambda>led1. Inr (led1, 0))
                   else Inr (led, account_stake)
               | _ \<Rightarrow> Inr (led, account_stake))
            else Inr (led, account_stake)
          else Inr (led, 0)
      | _ \<Rightarrow> Inr (led, 0))"

text \<open>The validator stake: what is active of it, or the whole of it merged into the reserve.\<close>

definition settle_validator ::
    "pool_env \<Rightarrow> pubkey \<Rightarrow> pubkey \<Rightarrow> nat \<Rightarrow> nat \<Rightarrow> update_call \<Rightarrow> account_info \<Rightarrow> StakeState option \<Rightarrow> ledger \<Rightarrow>
      (ledger \<times> u64) res" where
  "settle_validator E program_id k off i c validator_stake_info validator_state led =
     (case validator_state of
        Some (StakeDelegated _ stake) \<Rightarrow>
          attempt (read_entry k off i led) (\<lambda>v.
          if vs_status v = ActiveStake then
            attempt (ok_or (checked_sub (de_stake stake) MINIMUM_ACTIVE_STAKE) (pool_err CalculationFailure)) (\<lambda>active.
            Inr (led, active))
          else Inr (led, 0))
      | Some (StakeInitialized meta) \<Rightarrow>
          if stake_is_usable_by_pool meta (ai_key (uc_withdraw_authority_info c)) (sp_lockup (uc_stake_pool c)) then
            attempt (uc_merge E (Some k) program_id c validator_stake_info (uc_reserve_stake_info c) led) (\<lambda>led1.
            attempt (modify_entry k off i (\<lambda>v. v\<lparr>vs_status := ReadyForRemoval\<rparr>) led1) (\<lambda>led2.
            Inr (led2, 0)))
          else Inr (led, 0)
      | _ \<Rightarrow> Inr (led, 0))"

definition update_entry ::
    "pool_env \<Rightarrow> pubkey \<Rightarrow> pubkey \<Rightarrow> nat \<Rightarrow> update_call \<Rightarrow> nat \<Rightarrow> account_info \<Rightarrow> account_info \<Rightarrow> ledger \<Rightarrow> ledger res" where
  "update_entry E program_id k off c i validator_stake_info transient_info led =
     attempt (read_entry k off i led) (\<lambda>v.
     if \<not> is_ok (check_validator_stake_address E program_id (ai_key (uc_stake_pool_info c)) (ai_key validator_stake_info)
           (vs_vote_account_address v)) then Inr led
     else if \<not> is_ok (check_transient_stake_address E program_id (ai_key (uc_stake_pool_info c)) (ai_key transient_info)
           (vs_vote_account_address v) (vs_transient_seed_suffix_start v)) then Inr led
     else
       attempt (borrow_data (Some k) validator_stake_info led) (\<lambda>validator_data.
       attempt (borrow_data (Some k) transient_info led) (\<lambda>transient_data.
       attempt (settle_transient E program_id k off i c validator_stake_info transient_info
         (stake_state_of E validator_data) (stake_state_of E transient_data) led) (\<lambda>(led1, transient_stake_lamports).
       attempt (borrow_data (Some k) validator_stake_info led1) (\<lambda>validator_data1.
       attempt (settle_validator E program_id k off i c validator_stake_info (stake_state_of E validator_data1) led1)
         (\<lambda>(led2, active_stake_lamports).
       modify_entry k off i
         (\<lambda>v. v\<lparr>vs_last_update_epoch := clock_epoch (uc_clock c), vs_active_stake_lamports := active_stake_lamports,
                vs_transient_stake_lamports := transient_stake_lamports\<rparr>) led2))))))"

fun update_entries ::
    "pool_env \<Rightarrow> pubkey \<Rightarrow> pubkey \<Rightarrow> nat \<Rightarrow> update_call \<Rightarrow> nat list \<Rightarrow> account_info list \<Rightarrow> ledger \<Rightarrow> ledger res" where
  "update_entries E program_id k off c (i # is) (validator_stake_info # transient_info # infos) led =
     attempt (update_entry E program_id k off c i validator_stake_info transient_info led) (\<lambda>led1.
     update_entries E program_id k off c is infos led1)"
| "update_entries E program_id k off c _ _ led = Inr led"

definition process_update_validator_list_balance ::
    "pool_env \<Rightarrow> pubkey \<Rightarrow> account_info list \<Rightarrow> u32 \<Rightarrow> bool \<Rightarrow> ledger \<Rightarrow> ledger res" where
  "process_update_validator_list_balance E program_id accounts start_index no_merge led =
     attempt (next_accounts 5 accounts) (\<lambda>(a, it).
     let stake_pool_info = a ! 0; withdraw_authority_info = a ! 1; validator_list_info = a ! 2; reserve_stake_info = a ! 3;
         clock_info = a ! 4; R = pe_runtime E; k = ai_key validator_list_info in
     attempt (clock_from_info R led clock_info) (\<lambda>clock.
     attempt (next_accounts 2 it) (\<lambda>(b, validator_stake_accounts).
     let stake_history_info = b ! 0; stake_program_info = b ! 1 in
     attempt (load_stake_pool E program_id stake_pool_info led) (\<lambda>stake_pool.
     attempt (check_validator_list stake_pool validator_list_info) (\<lambda>_.
     attempt (check_authority_withdraw R stake_pool (ai_key withdraw_authority_info) program_id (ai_key stake_pool_info)) (\<lambda>_.
     attempt (check_reserve_stake stake_pool reserve_stake_info) (\<lambda>_.
     attempt (check_stake_program E (ai_key stake_program_info)) (\<lambda>_.
     if length validator_stake_accounts mod 2 \<noteq> 0 then Inl (pool_err UnexpectedValidatorListAccountSize)
     else
       attempt (pool_check_account_owner led validator_list_info program_id) (\<lambda>_.
       attempt (deserialize_vec E (info_data led validator_list_info)) (\<lambda>(header, off).
       attempt (BigVec_deserialize_mut_slice INFO_LEN (unat start_index) (length validator_stake_accounts div 2)
         (list_vec k off led)) (\<lambda>entries.
       if \<not> ValidatorListHeader_is_valid header then Inl (pool_err PoolInvalidState)
       else
         update_entries E program_id k off
           \<lparr>uc_stake_pool_info = stake_pool_info, uc_withdraw_authority_info = withdraw_authority_info,
            uc_reserve_stake_info = reserve_stake_info, uc_clock_info = clock_info,
            uc_stake_history_info = stake_history_info, uc_stake_program_info = stake_program_info,
            uc_stake_pool = stake_pool, uc_clock = clock, uc_no_merge = no_merge\<rparr>
           entries validator_stake_accounts led)))))))))))"

section \<open>Updating the pool\<close>

definition reserve_lamports :: "pool_env \<Rightarrow> pubkey option \<Rightarrow> account_info \<Rightarrow> ledger \<Rightarrow> u64 res" where
  "reserve_lamports E held reserve_stake_info led =
     attempt (borrow_data held reserve_stake_info led) (\<lambda>data.
     attempt (pe_stake_state E data) (\<lambda>reserve_stake.
     case reserve_stake of
       StakeInitialized meta \<Rightarrow>
         ok_or (checked_sub (info_lamports led reserve_stake_info) (minimum_reserve_lamports meta)) (pool_err CalculationFailure)
     | _ \<Rightarrow> Inl (pool_err WrongStakeState)))"

definition add_entry_lamports :: "pubkey \<Rightarrow> nat \<Rightarrow> u64 \<Rightarrow> ledger \<Rightarrow> nat \<Rightarrow> u64 \<Rightarrow> u64 res" where
  "add_entry_lamports k off epoch led i total_lamports =
     attempt (read_entry k off i led) (\<lambda>v.
     if vs_last_update_epoch v < epoch then Inl (pool_err StakeListOutOfDate)
     else
       attempt (stake_lamports v) (\<lambda>s.
       ok_or (checked_add total_lamports s) (pool_err CalculationFailure)))"

text \<open>The fees announced for the next epoch take effect when it has come.\<close>

definition apply_next_fees :: "u64 \<Rightarrow> u64 \<Rightarrow> u64 \<Rightarrow> StakePool \<Rightarrow> StakePool" where
  "apply_next_fees epoch previous_lamports previous_pool_token_supply p =
     (if sp_last_update_epoch p < epoch then
        p\<lparr>sp_epoch_fee := (case sp_next_epoch_fee p of Some fee \<Rightarrow> fee | None \<Rightarrow> sp_epoch_fee p),
          sp_next_epoch_fee := None,
          sp_stake_withdrawal_fee := (case sp_next_stake_withdrawal_fee p of Some fee \<Rightarrow> fee | None \<Rightarrow> sp_stake_withdrawal_fee p),
          sp_next_stake_withdrawal_fee := None,
          sp_sol_withdrawal_fee := (case sp_next_sol_withdrawal_fee p of Some fee \<Rightarrow> fee | None \<Rightarrow> sp_sol_withdrawal_fee p),
          sp_next_sol_withdrawal_fee := None,
          sp_last_update_epoch := epoch,
          sp_last_epoch_total_lamports := previous_lamports,
          sp_last_epoch_pool_token_supply := previous_pool_token_supply\<rparr>
      else p)"

definition process_update_stake_pool_balance :: "pool_env \<Rightarrow> pubkey \<Rightarrow> account_info list \<Rightarrow> ledger \<Rightarrow> ledger res" where
  "process_update_stake_pool_balance E program_id accounts led =
     attempt (next_accounts 7 accounts) (\<lambda>(a, it).
     let stake_pool_info = a ! 0; withdraw_info = a ! 1; validator_list_info = a ! 2; reserve_stake_info = a ! 3;
         manager_fee_info = a ! 4; pool_mint_info = a ! 5; token_program_info = a ! 6;
         R = pe_runtime E; k = ai_key validator_list_info; held = Some k in
     attempt (rt_clock_get R) (\<lambda>clock.
     attempt (load_stake_pool E program_id stake_pool_info led) (\<lambda>stake_pool.
     attempt (check_mint stake_pool pool_mint_info) (\<lambda>_.
     attempt (check_authority_withdraw R stake_pool (ai_key withdraw_info) program_id (ai_key stake_pool_info)) (\<lambda>_.
     attempt (check_reserve_stake stake_pool reserve_stake_info) (\<lambda>_.
     if sp_manager_fee_account stake_pool \<noteq> ai_key manager_fee_info then Inl (pool_err InvalidFeeAccount)
     else if k \<noteq> sp_validator_list stake_pool then Inl (pool_err InvalidValidatorStakeList)
     else if sp_token_program_id stake_pool \<noteq> ai_key token_program_info then Inl IncorrectProgramId
     else
       attempt (pool_check_account_owner led validator_list_info program_id) (\<lambda>_.
       attempt (open_validator_list E validator_list_info led) (\<lambda>(header, off).
       let previous_lamports = sp_total_lamports stake_pool;
           previous_pool_token_supply = sp_pool_token_supply stake_pool in
       attempt (reserve_lamports E held reserve_stake_info led) (\<lambda>reserve.
       attempt (BigVec_iter INFO_LEN (add_entry_lamports k off (clock_epoch clock) led) (list_vec k off led) reserve) (\<lambda>total_lamports.
       let reward_lamports = saturating_sub total_lamports previous_lamports in
       attempt (borrow_data held manager_fee_info led) (\<lambda>_.
       attempt
         (if is_ok (check_manager_fee_info stake_pool led manager_fee_info)
          then ok_or (calc_epoch_fee_amount stake_pool reward_lamports) (pool_err CalculationFailure)
          else Inr 0) (\<lambda>fee.
       attempt
         (if fee > 0
          then token_mint_to E held program_id (ai_key stake_pool_info) token_program_info pool_mint_info manager_fee_info
                 withdraw_info AUTHORITY_WITHDRAW (sp_stake_withdraw_bump_seed stake_pool) fee led
          else Inr led) (\<lambda>led1.
       attempt (borrow_data held pool_mint_info led1) (\<lambda>mint_data.
       attempt (Mint_unpack_from_slice mint_data) (\<lambda>pool_mint.
       store_stake_pool E held
         ((apply_next_fees (clock_epoch clock) previous_lamports previous_pool_token_supply stake_pool)
            \<lparr>sp_total_lamports := total_lamports, sp_pool_token_supply := mint_supply pool_mint\<rparr>)
         stake_pool_info led1)))))))))))))))"

definition process_cleanup_removed_validator_entries ::
    "pool_env \<Rightarrow> pubkey \<Rightarrow> account_info list \<Rightarrow> ledger \<Rightarrow> ledger res" where
  "process_cleanup_removed_validator_entries E program_id accounts led =
     attempt (next_accounts 2 accounts) (\<lambda>(a, it).
     let stake_pool_info = a ! 0; validator_list_info = a ! 1; k = ai_key validator_list_info in
     attempt (load_stake_pool E program_id stake_pool_info led) (\<lambda>stake_pool.
     attempt (check_validator_list stake_pool validator_list_info) (\<lambda>_.
     attempt (pool_check_account_owner led validator_list_info program_id) (\<lambda>_.
     attempt (open_validator_list E validator_list_info led) (\<lambda>(header, off).
     attempt (BigVec_retain (pe_u32 E) INFO_LEN is_not_removed (list_vec k off led)) (\<lambda>vec.
     Inr (set_list_vec k off vec led)))))))"

section \<open>Deposits\<close>

abbreviation calc :: "'a option \<Rightarrow> 'a res" where
  "calc m \<equiv> ok_or m (pool_err CalculationFailure)"

text \<open>
  How the tokens of a deposit are divided: the depositor's, the manager's and the referrer's share.
  The shares must add up to the whole, and the depositor's must not be nothing.
\<close>

definition split_deposit :: "u64 \<Rightarrow> u64 \<Rightarrow> u64 option \<Rightarrow> (u64 \<times> u64 \<times> u64) res" where
  "split_deposit new_pool_tokens total_fee referral_fee =
     attempt (calc (checked_sub new_pool_tokens total_fee)) (\<lambda>pool_tokens_user.
     attempt (calc referral_fee) (\<lambda>pool_tokens_referral_fee.
     attempt (calc (checked_sub total_fee pool_tokens_referral_fee)) (\<lambda>pool_tokens_manager_deposit_fee.
     if saturating_add (saturating_add pool_tokens_user pool_tokens_manager_deposit_fee) pool_tokens_referral_fee
       \<noteq> new_pool_tokens
     then Inl (pool_err CalculationFailure)
     else if pool_tokens_user = 0 then Inl (pool_err DepositTooSmall)
     else Inr (pool_tokens_user, pool_tokens_manager_deposit_fee, pool_tokens_referral_fee))))"

definition mint_deposit ::
    "pool_env \<Rightarrow> pubkey option \<Rightarrow> pubkey \<Rightarrow> StakePool \<Rightarrow> account_info \<Rightarrow> account_info \<Rightarrow> account_info \<Rightarrow> account_info \<Rightarrow>
      account_info \<Rightarrow> account_info \<Rightarrow> account_info \<Rightarrow> u64 \<times> u64 \<times> u64 \<Rightarrow> ledger \<Rightarrow> ledger res" where
  "mint_deposit E held program_id stake_pool stake_pool_info token_program_info pool_mint_info dest_user_pool_info
      manager_fee_info referrer_fee_info withdraw_authority_info shares led =
     (let (pool_tokens_user, pool_tokens_manager_deposit_fee, pool_tokens_referral_fee) = shares;
          mint = (\<lambda>destination amount led.
            token_mint_to E held program_id (ai_key stake_pool_info) token_program_info pool_mint_info destination
              withdraw_authority_info AUTHORITY_WITHDRAW (sp_stake_withdraw_bump_seed stake_pool) amount led) in
      attempt (mint dest_user_pool_info pool_tokens_user led) (\<lambda>led1.
      attempt (if pool_tokens_manager_deposit_fee > 0 then mint manager_fee_info pool_tokens_manager_deposit_fee led1
               else Inr led1) (\<lambda>led2.
      if pool_tokens_referral_fee > 0 then mint referrer_fee_info pool_tokens_referral_fee led2 else Inr led2)))"

definition add_to_pool :: "u64 \<Rightarrow> u64 \<Rightarrow> StakePool \<Rightarrow> StakePool res" where
  "add_to_pool new_pool_tokens lamports p =
     attempt (calc (checked_add (sp_pool_token_supply p) new_pool_tokens)) (\<lambda>supply.
     attempt (calc (checked_add (sp_total_lamports p) lamports)) (\<lambda>total.
     Inr (p\<lparr>sp_pool_token_supply := supply, sp_total_lamports := total\<rparr>)))"

text \<open>The tokens a stake deposit is worth, and their division.\<close>

definition price_stake_deposit :: "StakePool \<Rightarrow> u64 \<Rightarrow> u64 \<Rightarrow> (u64 \<times> u64 \<times> u64 \<times> u64) res" where
  "price_stake_deposit p total_deposit_lamports stake_deposit_lamports =
     attempt (calc (calc_pool_tokens_for_deposit p total_deposit_lamports)) (\<lambda>new_pool_tokens.
     attempt (calc (calc_pool_tokens_for_deposit p stake_deposit_lamports)) (\<lambda>from_stake.
     attempt (calc (checked_sub new_pool_tokens from_stake)) (\<lambda>from_sol.
     attempt (calc (calc_pool_tokens_stake_deposit_fee p from_stake)) (\<lambda>stake_deposit_fee.
     attempt (calc (calc_pool_tokens_sol_deposit_fee p from_sol)) (\<lambda>sol_deposit_fee.
     attempt (calc (checked_add stake_deposit_fee sol_deposit_fee)) (\<lambda>total_fee.
     attempt (split_deposit new_pool_tokens total_fee (calc_pool_tokens_stake_referral_fee p total_fee)) (\<lambda>shares.
     Inr (new_pool_tokens, shares))))))))"

definition process_deposit_stake :: "pool_env \<Rightarrow> pubkey \<Rightarrow> account_info list \<Rightarrow> ledger \<Rightarrow> ledger res" where
  "process_deposit_stake E program_id accounts led =
     attempt (next_accounts 12 accounts) (\<lambda>(a, it).
     let stake_pool_info = a ! 0; validator_list_info = a ! 1; stake_deposit_authority_info = a ! 2;
         withdraw_authority_info = a ! 3; stake_info = a ! 4; validator_stake_info = a ! 5; reserve_stake_info = a ! 6;
         dest_user_pool_info = a ! 7; manager_fee_info = a ! 8; referrer_fee_info = a ! 9; pool_mint_info = a ! 10;
         clock_info = a ! 11; R = pe_runtime E; k = ai_key validator_list_info; held = Some k in
     attempt (clock_from_info R led clock_info) (\<lambda>clock.
     attempt (next_accounts 3 it) (\<lambda>(b, it).
     let stake_history_info = b ! 0; token_program_info = b ! 1; stake_program_info = b ! 2 in
     attempt (check_stake_program E (ai_key stake_program_info)) (\<lambda>_.
     attempt (load_stake_pool E program_id stake_pool_info led) (\<lambda>stake_pool.
     attempt (check_authority_withdraw R stake_pool (ai_key withdraw_authority_info) program_id (ai_key stake_pool_info)) (\<lambda>_.
     attempt (check_stake_deposit_authority stake_pool (ai_key stake_deposit_authority_info)) (\<lambda>_.
     attempt (check_mint stake_pool pool_mint_info) (\<lambda>_.
     attempt (check_validator_list stake_pool validator_list_info) (\<lambda>_.
     attempt (check_reserve_stake stake_pool reserve_stake_info) (\<lambda>_.
     if sp_token_program_id stake_pool \<noteq> ai_key token_program_info then Inl IncorrectProgramId
     else if sp_manager_fee_account stake_pool \<noteq> ai_key manager_fee_info then Inl (pool_err InvalidFeeAccount)
     else if sp_last_update_epoch stake_pool < clock_epoch clock then Inl (pool_err StakeListAndPoolOutOfDate)
     else
       attempt (pool_check_account_owner led validator_list_info program_id) (\<lambda>_.
       attempt (open_validator_list E validator_list_info led) (\<lambda>(header, off).
       attempt (get_stake_state E held validator_stake_info led) (\<lambda>(_, validator_stake).
       let pre_all_validator_lamports = info_lamports led validator_stake_info;
           vote = de_voter_pubkey validator_stake in
       attempt (check_validator_stake_address E program_id (ai_key stake_pool_info) (ai_key validator_stake_info) vote) (\<lambda>_.
       if \<exists>preferred. sp_preferred_deposit_validator_vote_address stake_pool = Some preferred \<and> preferred \<noteq> vote
       then Inl (pool_err IncorrectDepositVoteAddress)
       else
         attempt (find_validator k off vote led) (\<lambda>found.
         attempt (ok_or found (pool_err ValidatorNotFound)) (\<lambda>i.
         attempt (read_entry k off i led) (\<lambda>v.
         if vs_status v \<noteq> ActiveStake then Inl (pool_err ValidatorNotFound)
         else
           let (deposit_authority, deposit_bump_seed) =
                 find_deposit_authority_program_address R program_id (ai_key stake_pool_info) in
           attempt
             (if ai_key stake_deposit_authority_info = deposit_authority
              then stake_authorize_signed E held program_id (ai_key stake_pool_info) stake_info stake_deposit_authority_info
                     AUTHORITY_DEPOSIT deposit_bump_seed (ai_key withdraw_authority_info) clock_info stake_program_info led
              else stake_authorize E held program_id stake_info stake_deposit_authority_info (ai_key withdraw_authority_info)
                     clock_info stake_program_info led) (\<lambda>led1.
           attempt (stake_merge E held program_id (ai_key stake_pool_info) stake_info withdraw_authority_info AUTHORITY_WITHDRAW
             (sp_stake_withdraw_bump_seed stake_pool) validator_stake_info clock_info stake_history_info stake_program_info led1) (\<lambda>led2.
           attempt (get_stake_state E held validator_stake_info led2) (\<lambda>(_, post_validator_stake).
           attempt (calc (checked_sub (info_lamports led2 validator_stake_info) pre_all_validator_lamports)) (\<lambda>total_deposit_lamports.
           attempt (calc (checked_sub (de_stake post_validator_stake) (de_stake validator_stake))) (\<lambda>stake_deposit_lamports.
           attempt (calc (checked_sub total_deposit_lamports stake_deposit_lamports)) (\<lambda>sol_deposit_lamports.
           attempt (price_stake_deposit stake_pool total_deposit_lamports stake_deposit_lamports) (\<lambda>(new_pool_tokens, shares).
           attempt (mint_deposit E held program_id stake_pool stake_pool_info token_program_info pool_mint_info
             dest_user_pool_info manager_fee_info referrer_fee_info withdraw_authority_info shares led2) (\<lambda>led3.
           attempt
             (if sol_deposit_lamports > 0
              then stake_withdraw E held program_id (ai_key stake_pool_info) validator_stake_info withdraw_authority_info
                     AUTHORITY_WITHDRAW (sp_stake_withdraw_bump_seed stake_pool) reserve_stake_info clock_info
                     stake_history_info stake_program_info sol_deposit_lamports led3
              else Inr led3) (\<lambda>led4.
           attempt (add_to_pool new_pool_tokens total_deposit_lamports stake_pool) (\<lambda>stake_pool'.
           attempt (store_stake_pool E held stake_pool' stake_pool_info led4) (\<lambda>led5.
           attempt (calc (checked_sub (de_stake post_validator_stake) MINIMUM_ACTIVE_STAKE)) (\<lambda>active.
           modify_entry k off i (\<lambda>v. v\<lparr>vs_active_stake_lamports := active\<rparr>) led5)))))))))))))))))))))))))))))"

text \<open>The tokens a deposit of lamports is worth, and their division.\<close>

definition price_sol_deposit :: "StakePool \<Rightarrow> u64 \<Rightarrow> (u64 \<times> u64 \<times> u64 \<times> u64) res" where
  "price_sol_deposit p deposit_lamports =
     attempt (calc (calc_pool_tokens_for_deposit p deposit_lamports)) (\<lambda>new_pool_tokens.
     attempt (calc (calc_pool_tokens_sol_deposit_fee p new_pool_tokens)) (\<lambda>sol_deposit_fee.
     attempt (split_deposit new_pool_tokens sol_deposit_fee (calc_pool_tokens_sol_referral_fee p sol_deposit_fee)) (\<lambda>shares.
     Inr (new_pool_tokens, shares))))"

definition process_deposit_sol :: "pool_env \<Rightarrow> pubkey \<Rightarrow> account_info list \<Rightarrow> u64 \<Rightarrow> ledger \<Rightarrow> ledger res" where
  "process_deposit_sol E program_id accounts deposit_lamports led =
     attempt (next_accounts 10 accounts) (\<lambda>(a, it).
     let stake_pool_info = a ! 0; withdraw_authority_info = a ! 1; reserve_stake_info = a ! 2; from_user_info = a ! 3;
         dest_user_pool_info = a ! 4; manager_fee_info = a ! 5; referrer_fee_info = a ! 6; pool_mint_info = a ! 7;
         system_program_info = a ! 8; token_program_info = a ! 9; R = pe_runtime E;
         sol_deposit_authority_info = (case next_account_info it of Inr (info, _) \<Rightarrow> Inr info | Inl e \<Rightarrow> Inl e) in
     attempt (rt_clock_get R) (\<lambda>clock.
     attempt (load_stake_pool E program_id stake_pool_info led) (\<lambda>stake_pool.
     attempt (check_authority_withdraw R stake_pool (ai_key withdraw_authority_info) program_id (ai_key stake_pool_info)) (\<lambda>_.
     attempt (check_sol_deposit_authority stake_pool sol_deposit_authority_info) (\<lambda>_.
     attempt (check_mint stake_pool pool_mint_info) (\<lambda>_.
     attempt (check_reserve_stake stake_pool reserve_stake_info) (\<lambda>_.
     if sp_token_program_id stake_pool \<noteq> ai_key token_program_info then Inl IncorrectProgramId
     else
       attempt (check_system_program E (ai_key system_program_info)) (\<lambda>_.
       if sp_manager_fee_account stake_pool \<noteq> ai_key manager_fee_info then Inl (pool_err InvalidFeeAccount)
       else if sp_last_update_epoch stake_pool < clock_epoch clock then Inl (pool_err StakeListAndPoolOutOfDate)
       else
         attempt (price_sol_deposit stake_pool deposit_lamports) (\<lambda>(new_pool_tokens, shares).
         attempt (sol_transfer E program_id from_user_info reserve_stake_info system_program_info deposit_lamports led) (\<lambda>led1.
         attempt (mint_deposit E None program_id stake_pool stake_pool_info token_program_info pool_mint_info
           dest_user_pool_info manager_fee_info referrer_fee_info withdraw_authority_info shares led1) (\<lambda>led2.
         attempt (add_to_pool new_pool_tokens deposit_lamports stake_pool) (\<lambda>stake_pool'.
         store_stake_pool E None stake_pool' stake_pool_info led2))))))))))))"

section \<open>Withdrawals\<close>

definition take_from_pool :: "u64 \<Rightarrow> u64 \<Rightarrow> StakePool \<Rightarrow> StakePool res" where
  "take_from_pool pool_tokens_burnt lamports p =
     attempt (calc (checked_sub (sp_pool_token_supply p) pool_tokens_burnt)) (\<lambda>supply.
     attempt (calc (checked_sub (sp_total_lamports p) lamports)) (\<lambda>total.
     Inr (p\<lparr>sp_pool_token_supply := supply, sp_total_lamports := total\<rparr>)))"

text \<open>The fee, the tokens burnt and the lamports paid for them.\<close>

definition price_withdrawal ::
    "pool_env \<Rightarrow> pubkey option \<Rightarrow> StakePool \<Rightarrow> account_info \<Rightarrow> account_info \<Rightarrow> u64 option \<Rightarrow> u64 \<Rightarrow> ledger \<Rightarrow>
      (u64 \<times> u64 \<times> u64) res" where
  "price_withdrawal E held p burn_from_pool_info manager_fee_info fee pool_tokens led =
     attempt
       (if sp_manager_fee_account p = ai_key burn_from_pool_info then Inr 0
        else
          attempt (borrow_data held manager_fee_info led) (\<lambda>_.
          if \<not> is_ok (check_manager_fee_info p led manager_fee_info) then Inr 0 else calc fee)) (\<lambda>pool_tokens_fee.
     attempt (calc (checked_sub pool_tokens pool_tokens_fee)) (\<lambda>pool_tokens_burnt.
     attempt (calc (calc_lamports_withdraw_amount (pe_ceil_div E) p pool_tokens_burnt)) (\<lambda>withdraw_lamports.
     if withdraw_lamports = 0 then Inl (pool_err WithdrawalTooSmall)
     else Inr (pool_tokens_fee, pool_tokens_burnt, withdraw_lamports))))"

definition stake_meta :: "StakeState \<Rightarrow> Meta option" where
  "stake_meta s = (case s of StakeDelegated meta _ \<Rightarrow> Some meta | StakeInitialized meta \<Rightarrow> Some meta | _ \<Rightarrow> None)"

text \<open>
  Where the stake may be split from: the reserve, when no validator has any stake left; otherwise a
  validator stake account or, when no stake is active, a transient one.  The result is the entry to
  update and whether its transient stake is used.
\<close>

definition withdrawal_source ::
    "pool_env \<Rightarrow> pubkey \<Rightarrow> pubkey \<Rightarrow> nat \<Rightarrow> StakePool \<Rightarrow> account_info \<Rightarrow> account_info \<Rightarrow> u64 \<Rightarrow> ledger \<Rightarrow>
      (nat \<times> bool) option res" where
  "withdrawal_source E program_id k off stake_pool stake_pool_info stake_split_from withdraw_lamports led =
     (let vec = list_vec k off led; held = Some k in
      attempt (BigVec_find INFO_LEN (to_le_bytes (0 :: u64)) active_lamports_not_equal vec) (\<lambda>active.
      let has_active_stake = (active \<noteq> None) in
      if ai_key stake_split_from = sp_reserve_stake stake_pool then
        attempt (BigVec_find INFO_LEN (to_le_bytes (0 :: u64)) transient_lamports_not_equal vec) (\<lambda>transient.
        if transient \<noteq> None \<or> has_active_stake then Inl (pool_err StakeLamportsNotEqualToMinimum)
        else
          attempt (borrow_data held stake_split_from led) (\<lambda>data.
          attempt (pe_stake_state E data) (\<lambda>stake_state.
          attempt (ok_or (stake_meta stake_state) (pool_err WrongStakeState)) (\<lambda>meta.
          attempt (ok_or (checked_sub (info_lamports led stake_split_from) (minimum_reserve_lamports meta))
            (pool_err StakeLamportsNotEqualToMinimum)) (\<lambda>_.
          Inr None)))))
      else
        attempt (get_stake_state E held stake_split_from led) (\<lambda>(_, stake).
        let vote = de_voter_pubkey stake in
        attempt
          (case sp_preferred_withdraw_validator_vote_address stake_pool of
             None \<Rightarrow> Inr ()
           | Some preferred \<Rightarrow>
               attempt (find_validator k off preferred led) (\<lambda>found.
               attempt (ok_or found (pool_err ValidatorNotFound)) (\<lambda>j.
               attempt (read_entry k off j led) (\<lambda>w.
               if preferred \<noteq> vote \<and> vs_active_stake_lamports w > 0 then Inl (pool_err IncorrectWithdrawVoteAddress)
               else Inr ())))) (\<lambda>_.
        attempt (find_validator k off vote led) (\<lambda>found.
        attempt (ok_or found (pool_err ValidatorNotFound)) (\<lambda>i.
        attempt (read_entry k off i led) (\<lambda>v.
        attempt
          (if has_active_stake then
             attempt (check_validator_stake_address E program_id (ai_key stake_pool_info) (ai_key stake_split_from) vote) (\<lambda>_.
             Inr False)
           else
             attempt (check_transient_stake_address E program_id (ai_key stake_pool_info) (ai_key stake_split_from) vote
               (vs_transient_seed_suffix_start v)) (\<lambda>_.
             Inr True)) (\<lambda>withdrawing_from_transient_stake.
        if vs_status v \<noteq> ActiveStake then Inl (pool_err ValidatorNotFound)
        else if saturating_sub (de_stake stake) withdraw_lamports < MINIMUM_ACTIVE_STAKE
        then Inl (pool_err StakeLamportsNotEqualToMinimum)
        else Inr (Some (i, withdrawing_from_transient_stake))))))))))"

definition take_from_entry :: "pubkey \<Rightarrow> nat \<Rightarrow> (nat \<times> bool) option \<Rightarrow> u64 \<Rightarrow> ledger \<Rightarrow> ledger res" where
  "take_from_entry k off item withdraw_lamports led =
     (case item of
        None \<Rightarrow> Inr led
      | Some (i, withdrawing_from_transient_stake) \<Rightarrow>
          attempt (read_entry k off i led) (\<lambda>v.
          if withdrawing_from_transient_stake then
            attempt (calc (checked_sub (vs_transient_stake_lamports v) withdraw_lamports)) (\<lambda>n.
            modify_entry k off i (\<lambda>v. v\<lparr>vs_transient_stake_lamports := n\<rparr>) led)
          else
            attempt (calc (checked_sub (vs_active_stake_lamports v) withdraw_lamports)) (\<lambda>n.
            modify_entry k off i (\<lambda>v. v\<lparr>vs_active_stake_lamports := n\<rparr>) led)))"

definition process_withdraw_stake :: "pool_env \<Rightarrow> pubkey \<Rightarrow> account_info list \<Rightarrow> u64 \<Rightarrow> ledger \<Rightarrow> ledger res" where
  "process_withdraw_stake E program_id accounts pool_tokens led =
     attempt (next_accounts 11 accounts) (\<lambda>(a, it).
     let stake_pool_info = a ! 0; validator_list_info = a ! 1; withdraw_authority_info = a ! 2; stake_split_from = a ! 3;
         stake_split_to = a ! 4; user_stake_authority_info = a ! 5; user_transfer_authority_info = a ! 6;
         burn_from_pool_info = a ! 7; manager_fee_info = a ! 8; pool_mint_info = a ! 9; clock_info = a ! 10;
         R = pe_runtime E; k = ai_key validator_list_info; held = Some k in
     attempt (clock_from_info R led clock_info) (\<lambda>clock.
     attempt (next_accounts 2 it) (\<lambda>(b, it).
     let token_program_info = b ! 0; stake_program_info = b ! 1 in
     attempt (check_stake_program E (ai_key stake_program_info)) (\<lambda>_.
     attempt (load_stake_pool E program_id stake_pool_info led) (\<lambda>stake_pool.
     attempt (check_mint stake_pool pool_mint_info) (\<lambda>_.
     attempt (check_validator_list stake_pool validator_list_info) (\<lambda>_.
     attempt (check_authority_withdraw R stake_pool (ai_key withdraw_authority_info) program_id (ai_key stake_pool_info)) (\<lambda>_.
     if sp_manager_fee_account stake_pool \<noteq> ai_key manager_fee_info then Inl (pool_err InvalidFeeAccount)
     else if sp_token_program_id stake_pool \<noteq> ai_key token_program_info then Inl IncorrectProgramId
     else if sp_last_update_epoch stake_pool < clock_epoch clock then Inl (pool_err StakeListAndPoolOutOfDate)
     else
       attempt (pool_check_account_owner led validator_list_info program_id) (\<lambda>_.
       attempt (open_validator_list E validator_list_info led) (\<lambda>(header, off).
       attempt (price_withdrawal E held stake_pool burn_from_pool_info manager_fee_info
         (calc_pool_tokens_stake_withdrawal_fee stake_pool pool_tokens) pool_tokens led)
         (\<lambda>(pool_tokens_fee, pool_tokens_burnt, withdraw_lamports).
       attempt (withdrawal_source E program_id k off stake_pool stake_pool_info stake_split_from withdraw_lamports led) (\<lambda>item.
       attempt (token_burn E held program_id token_program_info burn_from_pool_info pool_mint_info
         user_transfer_authority_info pool_tokens_burnt led) (\<lambda>led1.
       attempt (stake_split E held program_id (ai_key stake_pool_info) stake_split_from withdraw_authority_info
         AUTHORITY_WITHDRAW (sp_stake_withdraw_bump_seed stake_pool) withdraw_lamports stake_split_to led1) (\<lambda>led2.
       attempt (stake_authorize_signed E held program_id (ai_key stake_pool_info) stake_split_to withdraw_authority_info
         AUTHORITY_WITHDRAW (sp_stake_withdraw_bump_seed stake_pool) (ai_key user_stake_authority_info) clock_info
         stake_program_info led2) (\<lambda>led3.
       attempt
         (if pool_tokens_fee > 0
          then token_transfer E held program_id token_program_info burn_from_pool_info manager_fee_info
                 user_transfer_authority_info pool_tokens_fee led3
          else Inr led3) (\<lambda>led4.
       attempt (take_from_pool pool_tokens_burnt withdraw_lamports stake_pool) (\<lambda>stake_pool'.
       attempt (store_stake_pool E held stake_pool' stake_pool_info led4) (\<lambda>led5.
       take_from_entry k off item withdraw_lamports led5))))))))))))))))))"

definition check_sol_withdrawal :: "pool_env \<Rightarrow> account_info \<Rightarrow> u64 \<Rightarrow> ledger \<Rightarrow> unit res" where
  "check_sol_withdrawal E reserve_stake_info withdraw_lamports led =
     attempt (pe_stake_state E (info_data led reserve_stake_info)) (\<lambda>stake_state.
     case stake_state of
       StakeInitialized meta \<Rightarrow>
         if saturating_sub (info_lamports led reserve_stake_info) withdraw_lamports < minimum_reserve_lamports meta
         then Inl (pool_err SolWithdrawalTooLarge) else Inr ()
     | _ \<Rightarrow> Inl (pool_err WrongStakeState))"

definition process_withdraw_sol :: "pool_env \<Rightarrow> pubkey \<Rightarrow> account_info list \<Rightarrow> u64 \<Rightarrow> ledger \<Rightarrow> ledger res" where
  "process_withdraw_sol E program_id accounts pool_tokens led =
     attempt (next_accounts 12 accounts) (\<lambda>(a, it).
     let stake_pool_info = a ! 0; withdraw_authority_info = a ! 1; user_transfer_authority_info = a ! 2;
         burn_from_pool_info = a ! 3; reserve_stake_info = a ! 4; destination_lamports_info = a ! 5;
         manager_fee_info = a ! 6; pool_mint_info = a ! 7; clock_info = a ! 8; stake_history_info = a ! 9;
         stake_program_info = a ! 10; token_program_info = a ! 11; R = pe_runtime E;
         sol_withdraw_authority_info = (case next_account_info it of Inr (info, _) \<Rightarrow> Inr info | Inl e \<Rightarrow> Inl e) in
     attempt (load_stake_pool E program_id stake_pool_info led) (\<lambda>stake_pool.
     attempt (check_authority_withdraw R stake_pool (ai_key withdraw_authority_info) program_id (ai_key stake_pool_info)) (\<lambda>_.
     attempt (check_sol_withdraw_authority stake_pool sol_withdraw_authority_info) (\<lambda>_.
     attempt (check_mint stake_pool pool_mint_info) (\<lambda>_.
     attempt (check_reserve_stake stake_pool reserve_stake_info) (\<lambda>_.
     if sp_token_program_id stake_pool \<noteq> ai_key token_program_info then Inl IncorrectProgramId
     else
       attempt (check_stake_program E (ai_key stake_program_info)) (\<lambda>_.
       if sp_manager_fee_account stake_pool \<noteq> ai_key manager_fee_info then Inl (pool_err InvalidFeeAccount)
       else
         attempt (rt_clock_get R) (\<lambda>clock.
         if sp_last_update_epoch stake_pool < clock_epoch clock then Inl (pool_err StakeListAndPoolOutOfDate)
         else
           attempt (price_withdrawal E None stake_pool burn_from_pool_info manager_fee_info
             (calc_pool_tokens_sol_withdrawal_fee stake_pool pool_tokens) pool_tokens led)
             (\<lambda>(pool_tokens_fee, pool_tokens_burnt, withdraw_lamports).
           attempt (check_sol_withdrawal E reserve_stake_info withdraw_lamports led) (\<lambda>_.
           attempt (token_burn E None program_id token_program_info burn_from_pool_info pool_mint_info
             user_transfer_authority_info pool_tokens_burnt led) (\<lambda>led1.
           attempt
             (if pool_tokens_fee > 0
              then token_transfer E None program_id token_program_info burn_from_pool_info manager_fee_info
                     user_transfer_authority_info pool_tokens_fee led1
              else Inr led1) (\<lambda>led2.
           attempt (stake_withdraw E None program_id (ai_key stake_pool_info) reserve_stake_info withdraw_authority_info
             AUTHORITY_WITHDRAW (sp_stake_withdraw_bump_seed stake_pool) destination_lamports_info clock_info
             stake_history_info stake_program_info withdraw_lamports led2) (\<lambda>led3.
           attempt (take_from_pool pool_tokens_burnt withdraw_lamports stake_pool) (\<lambda>stake_pool'.
           store_stake_pool E None stake_pool' stake_pool_info led3))))))))))))))"

section \<open>Settings\<close>

definition process_set_manager :: "pool_env \<Rightarrow> pubkey \<Rightarrow> account_info list \<Rightarrow> ledger \<Rightarrow> ledger res" where
  "process_set_manager E program_id accounts led =
     attempt (next_accounts 4 accounts) (\<lambda>(a, it).
     let stake_pool_info = a ! 0; manager_info = a ! 1; new_manager_info = a ! 2; new_manager_fee_info = a ! 3 in
     attempt (pool_check_account_owner led stake_pool_info program_id) (\<lambda>_.
     attempt (cd_read (pe_StakePool E) (info_data led stake_pool_info)) (\<lambda>stake_pool.
     attempt (pool_check_account_owner led new_manager_fee_info (sp_token_program_id stake_pool)) (\<lambda>_.
     if \<not> StakePool_is_valid stake_pool then Inl (pool_err PoolInvalidState)
     else
       attempt (check_manager stake_pool manager_info) (\<lambda>_.
       if \<not> ai_is_signer new_manager_info then Inl (pool_err SignatureMissing)
       else
         attempt (Account_unpack_from_slice (info_data led new_manager_fee_info)) (\<lambda>fee_account.
         if sp_pool_mint stake_pool \<noteq> ta_mint fee_account then Inl (pool_err WrongAccountMint)
         else
           store_stake_pool E None
             (stake_pool\<lparr>sp_manager := ai_key new_manager_info, sp_manager_fee_account := ai_key new_manager_fee_info\<rparr>)
             stake_pool_info led))))))"

definition process_set_fee :: "pool_env \<Rightarrow> pubkey \<Rightarrow> account_info list \<Rightarrow> FeeType \<Rightarrow> ledger \<Rightarrow> ledger res" where
  "process_set_fee E program_id accounts fee led =
     attempt (next_accounts 2 accounts) (\<lambda>(a, it).
     let stake_pool_info = a ! 0; manager_info = a ! 1 in
     attempt (rt_clock_get (pe_runtime E)) (\<lambda>clock.
     attempt (load_stake_pool E program_id stake_pool_info led) (\<lambda>stake_pool.
     attempt (check_manager stake_pool manager_info) (\<lambda>_.
     if can_only_change_next_epoch fee \<and> sp_last_update_epoch stake_pool < clock_epoch clock
     then Inl (pool_err StakeListAndPoolOutOfDate)
     else
       attempt (check_too_high fee) (\<lambda>_.
       attempt (update_fee stake_pool fee) (\<lambda>stake_pool'.
       store_stake_pool E None stake_pool' stake_pool_info led))))))"

definition process_set_staker :: "pool_env \<Rightarrow> pubkey \<Rightarrow> account_info list \<Rightarrow> ledger \<Rightarrow> ledger res" where
  "process_set_staker E program_id accounts led =
     attempt (next_accounts 3 accounts) (\<lambda>(a, it).
     let stake_pool_info = a ! 0; set_staker_authority_info = a ! 1; new_staker_info = a ! 2 in
     attempt (load_stake_pool E program_id stake_pool_info led) (\<lambda>stake_pool.
     if \<not> is_ok (check_staker stake_pool set_staker_authority_info) \<and>
       \<not> is_ok (check_manager stake_pool set_staker_authority_info)
     then Inl (pool_err SignatureMissing)
     else store_stake_pool E None (stake_pool\<lparr>sp_staker := ai_key new_staker_info\<rparr>) stake_pool_info led))"

definition process_set_funding_authority ::
    "pool_env \<Rightarrow> pubkey \<Rightarrow> account_info list \<Rightarrow> FundingType \<Rightarrow> ledger \<Rightarrow> ledger res" where
  "process_set_funding_authority E program_id accounts funding_type led =
     attempt (next_accounts 2 accounts) (\<lambda>(a, it).
     let stake_pool_info = a ! 0; manager_info = a ! 1;
         new_authority = (case next_account_info it of Inr (info, _) \<Rightarrow> Some (ai_key info) | Inl _ \<Rightarrow> None) in
     attempt (load_stake_pool E program_id stake_pool_info led) (\<lambda>stake_pool.
     attempt (check_manager stake_pool manager_info) (\<lambda>_.
     store_stake_pool E None
       (case funding_type of
          FundStakeDeposit \<Rightarrow>
            stake_pool\<lparr>sp_stake_deposit_authority :=
              (case new_authority of
                 Some authority \<Rightarrow> authority
               | None \<Rightarrow> fst (find_deposit_authority_program_address (pe_runtime E) program_id (ai_key stake_pool_info)))\<rparr>
        | FundSolDeposit \<Rightarrow> stake_pool\<lparr>sp_sol_deposit_authority := new_authority\<rparr>
        | FundSolWithdraw \<Rightarrow> stake_pool\<lparr>sp_sol_withdraw_authority := new_authority\<rparr>)
       stake_pool_info led)))"

section \<open>Dispatch\<close>

definition process_pool_instruction ::
    "pool_env \<Rightarrow> pubkey \<Rightarrow> account_info list \<Rightarrow> StakePoolInstruction \<Rightarrow> ledger \<Rightarrow> ledger res" where
  "process_pool_instruction E program_id accounts instruction led =
     (case instruction of
        InitializePool fee withdrawal_fee deposit_fee referral_fee max_validators \<Rightarrow>
          process_initialize_pool E program_id accounts fee withdrawal_fee deposit_fee referral_fee max_validators led
      | AddValidatorToPool \<Rightarrow> process_add_validator_to_pool E program_id accounts led
      | RemoveValidatorFromPool \<Rightarrow> process_remove_validator_from_pool E program_id accounts led
      | DecreaseValidatorStake lamports seed \<Rightarrow> process_decrease_validator_stake E program_id accounts lamports seed led
      | IncreaseValidatorStake lamports seed \<Rightarrow> process_increase_validator_stake E program_id accounts lamports seed led
      | SetPreferredValidator validator_type vote \<Rightarrow> process_set_preferred_validator E program_id accounts validator_type vote led
      | UpdateValidatorListBalance start_index no_merge \<Rightarrow>
          process_update_validator_list_balance E program_id accounts start_index no_merge led
      | UpdateStakePoolBalance \<Rightarrow> process_update_stake_pool_balance E program_id accounts led
      | CleanupRemovedValidatorEntries \<Rightarrow> process_cleanup_removed_validator_entries E program_id accounts led
      | DepositStake \<Rightarrow> process_deposit_stake E program_id accounts led
      | WithdrawStake amount \<Rightarrow> process_withdraw_stake E program_id accounts amount led
      | SetFee fee \<Rightarrow> process_set_fee E program_id accounts fee led
      | SetManager \<Rightarrow> process_set_manager E program_id accounts led
      | SetStaker \<Rightarrow> process_set_staker E program_id accounts led
      | SetFundingAuthority funding_type \<Rightarrow> process_set_funding_authority E program_id accounts funding_type led
      | DepositSol lamports \<Rightarrow> process_deposit_sol E program_id accounts lamports led
      | WithdrawSol pool_tokens \<Rightarrow> process_withdraw_sol E program_id accounts pool_tokens led)"

definition process_pool :: "pool_env \<Rightarrow> pubkey \<Rightarrow> account_info list \<Rightarrow> bytes \<Rightarrow> ledger \<Rightarrow> ledger res" where
  "process_pool E program_id accounts input led =
     attempt (pe_instruction E input) (\<lambda>instruction. process_pool_instruction E program_id accounts instruction led)"

end
