(* ===== verification/Stake_Runs.thy ===== *)
theory Stake_Runs
  imports Stake_Handlers
begin

text \<open>
  What a run of a stake pool handler can do to the accounts of the program.  First the laws of the
  parameters, then what is true of every pool and of every validator list, then the steps a handler is
  made of: what other programs do in an invocation, storing a pool, and changing an entry of a list.
\<close>

section \<open>The laws of the parameters\<close>

primrec AccountType_byte :: "AccountType \<Rightarrow> u8" where
  "AccountType_byte UninitializedAccountType = 0"
| "AccountType_byte StakePoolType = 1"
| "AccountType_byte ValidatorListType = 2"

lemma AccountType_byte_inj [simp]: "AccountType_byte a = AccountType_byte b \<longleftrightarrow> a = b"
  by (cases a; cases b) simp_all

text \<open>
  The documented \<^verbatim>\<open>borsh\<close> format: an enumeration without data is the byte of its position, integers are
  little-endian, the fields of a structure follow each other, and a vector is its length and its elements.
\<close>

definition pool_borsh_lawful :: "pool_env \<Rightarrow> bool" where
  "pool_borsh_lawful E \<longleftrightarrow>
     borsh_u32_lawful (pe_u32 E) \<and>
     codec_roundtrip (pe_StakePool E) \<and>
     (\<forall>bs p. cd_read (pe_StakePool E) bs = Inr p \<longrightarrow> bs \<noteq> [] \<and> hd bs = AccountType_byte (sp_account_type p)) \<and>
     (\<forall>bs h. cd_read (pe_header E) bs = Inr h \<longrightarrow>
        5 \<le> length bs \<and> hd bs = AccountType_byte (vh_account_type h) \<and> vh_max_validators h = from_le_bytes (subslice 1 4 bs)) \<and>
     (\<forall>h bs. cd_write (pe_header E) h = Inr bs \<longrightarrow> length bs = 5) \<and>
     (\<forall>bs l. cd_read (pe_ValidatorList E) bs = Inr l \<longrightarrow>
        bs \<noteq> [] \<and> hd bs = AccountType_byte (vh_account_type (vl_header l))) \<and>
     (\<forall>h bs. cd_write (pe_ValidatorList E) \<lparr>vl_header = h, vl_validators = []\<rparr> = Inr bs \<longrightarrow>
        bs = AccountType_byte (vh_account_type h) # to_le_bytes (vh_max_validators h) @ to_le_bytes (0 :: u32)) \<and>
     (\<forall>v. pe_info_write E v = Inr (info_to_bytes v))"

text \<open>
  The instructions of the stake and system programs are addressed to a program other than the stake
  pool's, and so are the token program's.
\<close>

definition pool_sdk_lawful :: "pool_env \<Rightarrow> pubkey \<Rightarrow> bool" where
  "pool_sdk_lawful E pid \<longleftrightarrow>
     token_program_id (pe_runtime E) \<noteq> pid \<and>
     (\<forall>a b c l. ix_program_id (pe_stake_initialize E a b c l) \<noteq> pid) \<and>
     (\<forall>a b c. ix_program_id (pe_stake_delegate E a b c) \<noteq> pid) \<and>
     (\<forall>a b. ix_program_id (pe_stake_deactivate E a b) \<noteq> pid) \<and>
     (\<forall>a b n c. \<forall>ix \<in> set (pe_stake_split E a b n c). ix_program_id ix \<noteq> pid) \<and>
     (\<forall>a b c. \<forall>ix \<in> set (pe_stake_merge E a b c). ix_program_id ix \<noteq> pid) \<and>
     (\<forall>a b c t. ix_program_id (pe_stake_authorize E a b c t) \<noteq> pid) \<and>
     (\<forall>a b c n. ix_program_id (pe_stake_withdraw E a b c n) \<noteq> pid) \<and>
     (\<forall>a b n m c. ix_program_id (pe_system_create_account E a b n m c) \<noteq> pid) \<and>
     (\<forall>a b n. ix_program_id (pe_system_transfer E a b n) \<noteq> pid) \<and>
     (\<forall>a n. ix_program_id (pe_system_allocate E a n) \<noteq> pid) \<and>
     (\<forall>a b. ix_program_id (pe_system_assign E a b) \<noteq> pid)"

text \<open>Another program can neither write nor take over what this one owns.\<close>

definition pool_invoke_lawful :: "pool_env \<Rightarrow> pubkey \<Rightarrow> bool" where
  "pool_invoke_lawful E pid \<longleftrightarrow>
     (\<forall>ix infos seeds led led'. ix_program_id ix \<noteq> pid \<longrightarrow>
        rt_invoke_signed (pe_runtime E) pid ix infos seeds led = Inr led' \<longrightarrow> other_activity pid led led')"

section \<open>What the ledger holds\<close>

definition pool_at :: "pool_env \<Rightarrow> pubkey \<Rightarrow> ledger \<Rightarrow> pubkey \<Rightarrow> StakePool option" where
  "pool_at E pid led k =
     (if acc_owner (led k) = pid then
        (case cd_read (pe_StakePool E) (acc_data (led k)) of
           Inr p \<Rightarrow> if StakePool_is_valid p then Some p else None
         | Inl _ \<Rightarrow> None)
      else None)"

definition is_list_account :: "pubkey \<Rightarrow> ledger \<Rightarrow> pubkey \<Rightarrow> bool" where
  "is_list_account pid led k \<longleftrightarrow>
     acc_owner (led k) = pid \<and> acc_data (led k) \<noteq> [] \<and> hd (acc_data (led k)) = AccountType_byte ValidatorListType"

definition list_entries :: "bytes \<Rightarrow> bytes list" where
  "list_entries data = vec_elems INFO_LEN (drop 5 data)"

definition list_max :: "bytes \<Rightarrow> u32" where
  "list_max data = from_le_bytes (subslice 1 4 data)"

definition entry_vote :: "bytes \<Rightarrow> bytes" where
  "entry_vote e = subslice 41 32 e"

text \<open>
  A sound list: it has room for as many validators as its header says, it holds no more, every entry
  has a status the program knows, and no validator is listed twice.
\<close>

definition list_sound :: "bytes \<Rightarrow> bool" where
  "list_sound data \<longleftrightarrow>
     vec_ok INFO_LEN (drop 5 data) \<and>
     9 + unat (list_max data) * INFO_LEN \<le> length data \<and>
     vec_count (drop 5 data) \<le> unat (list_max data) \<and>
     (\<forall>e \<in> set (list_entries data). is_ok (info_of_bytes e)) \<and>
     distinct (map entry_vote (list_entries data))"

text \<open>
  A sound pool: no fee exceeds the whole, neither now nor announced, and an announced withdrawal fee
  has been checked against the one in force.
\<close>

definition pool_fees :: "StakePool \<Rightarrow> Fee list" where
  "pool_fees p =
     [sp_epoch_fee p, sp_stake_deposit_fee p, sp_stake_withdrawal_fee p, sp_sol_deposit_fee p, sp_sol_withdrawal_fee p]"

definition pool_sound :: "StakePool \<Rightarrow> bool" where
  "pool_sound p \<longleftrightarrow>
     (\<forall>fee \<in> set (pool_fees p). \<not> fee_above_one fee) \<and>
     sp_stake_referral_fee p \<le> 100 \<and> sp_sol_referral_fee p \<le> 100 \<and>
     (\<forall>fee. sp_next_epoch_fee p = Some fee \<longrightarrow> \<not> fee_above_one fee) \<and>
     (\<forall>fee. sp_next_stake_withdrawal_fee p = Some fee \<longrightarrow>
        \<not> fee_above_one fee \<and> check_withdrawal fee (sp_stake_withdrawal_fee p) = Inr ()) \<and>
     (\<forall>fee. sp_next_sol_withdrawal_fee p = Some fee \<longrightarrow>
        \<not> fee_above_one fee \<and> check_withdrawal fee (sp_sol_withdrawal_fee p) = Inr ())"

definition pools_sound :: "pool_env \<Rightarrow> pubkey \<Rightarrow> ledger \<Rightarrow> bool" where
  "pools_sound E pid led \<longleftrightarrow>
     (\<forall>k p. pool_at E pid led k = Some p \<longrightarrow> pool_sound p) \<and>
     (\<forall>k. is_list_account pid led k \<longrightarrow> list_sound (acc_data (led k)))"

section \<open>Entries\<close>

lemma to_from_le_bytes:
  assumes "8 dvd LENGTH('a)" and "length bs = LENGTH('a) div 8"
  shows "to_le_bytes (from_le_bytes bs :: 'a::len word) = bs"
proof (rule nth_equalityI)
  fix i
  assume i: "i < length (to_le_bytes (from_le_bytes bs :: 'a word))"
  show "to_le_bytes (from_le_bytes bs :: 'a word) ! i = bs ! i"
  proof (rule bit_word_eqI)
    fix n
    assume "n < LENGTH(8)"
    then have n: "n < 8" by simp
    have "8 * i + n < LENGTH('a)" using i n assms(1) by (auto simp: dvd_def)
    then show "bit (to_le_bytes (from_le_bytes bs :: 'a word) ! i) n = bit (bs ! i) n"
      using i n assms(2) by (simp add: to_le_bytes_def bit_simps bit_from_le_bytes)
  qed
qed (simp add: assms(2))

lemma to_from_le_bytes_256 [simp]: "length bs = 32 \<Longrightarrow> to_le_bytes (from_le_bytes bs :: 256 word) = bs"
  by (rule to_from_le_bytes) simp_all

lemma length_info_to_bytes [simp]: "length (info_to_bytes v) = INFO_LEN"
  by (simp add: info_to_bytes_def)

lemma StakeStatus_from_byte [simp]: "StakeStatus_from_u8 (StakeStatus_byte s) = Some s"
  by (cases s) (simp_all add: StakeStatus_from_u8_def)

lemma info_to_bytes_fields:
  "subslice 0 8 (info_to_bytes v) = to_le_bytes (vs_active_stake_lamports v)"
  "subslice 8 8 (info_to_bytes v) = to_le_bytes (vs_transient_stake_lamports v)"
  "subslice 16 8 (info_to_bytes v) = to_le_bytes (vs_last_update_epoch v)"
  "subslice 24 8 (info_to_bytes v) = to_le_bytes (vs_transient_seed_suffix_start v)"
  "subslice 32 8 (info_to_bytes v) = to_le_bytes (vs_transient_seed_suffix_end v)"
  "info_to_bytes v ! 40 = StakeStatus_byte (vs_status v)"
  "subslice 41 32 (info_to_bytes v) = to_le_bytes (vs_vote_account_address v)"
  by (simp_all add: info_to_bytes_def layout_simps)

lemma info_roundtrip [simp]: "info_of_bytes (info_to_bytes v) = Inr v"
  by (simp add: info_of_bytes_def info_to_bytes_fields)

lemma entry_vote_written [simp]: "entry_vote (info_to_bytes v) = to_le_bytes (vs_vote_account_address v)"
  by (simp add: entry_vote_def info_to_bytes_fields)

lemma entry_vote_read:
  assumes "info_of_bytes e = Inr v" and "length e = INFO_LEN"
  shows "to_le_bytes (vs_vote_account_address v) = entry_vote e"
  using assms by (auto simp: info_of_bytes_def res_simps entry_vote_def)

section \<open>How a pool may change\<close>

definition call_signed :: "account_info list \<Rightarrow> pubkey \<Rightarrow> bool" where
  "call_signed accounts k \<longleftrightarrow> (\<exists>a \<in> set accounts. ai_key a = k \<and> ai_is_signer a)"

text \<open>
  The changes an instruction can make to a pool, and whose signature each needs: balances move with
  deposits and withdrawals, a new epoch brings new totals and the announced fees, and everything else is
  for the manager or the staker.
\<close>

inductive pool_change :: "account_info list \<Rightarrow> StakePool \<Rightarrow> StakePool \<Rightarrow> bool" for accounts p where
  balances: "pool_change accounts p (p\<lparr>sp_pool_token_supply := n, sp_total_lamports := t\<rparr>)"
| epoch: "pool_change accounts p
    ((apply_next_fees e (sp_total_lamports p) (sp_pool_token_supply p) p)\<lparr>sp_total_lamports := t, sp_pool_token_supply := n\<rparr>)"
| preferred: "call_signed accounts (sp_staker p) \<Longrightarrow>
    pool_change accounts p
      (p\<lparr>sp_preferred_deposit_validator_vote_address := d, sp_preferred_withdraw_validator_vote_address := w\<rparr>)"
| fee: "call_signed accounts (sp_manager p) \<Longrightarrow> check_too_high fee_type = Inr () \<Longrightarrow> update_fee p fee_type = Inr p' \<Longrightarrow>
    pool_change accounts p p'"
| manager: "call_signed accounts (sp_manager p) \<Longrightarrow> call_signed accounts m \<Longrightarrow>
    pool_change accounts p (p\<lparr>sp_manager := m, sp_manager_fee_account := f\<rparr>)"
| staker: "call_signed accounts (sp_staker p) \<or> call_signed accounts (sp_manager p) \<Longrightarrow>
    pool_change accounts p (p\<lparr>sp_staker := s\<rparr>)"
| funding: "call_signed accounts (sp_manager p) \<Longrightarrow>
    pool_change accounts p (p\<lparr>sp_stake_deposit_authority := a, sp_sol_deposit_authority := b, sp_sol_withdraw_authority := c\<rparr>)"

lemma update_fee_sound:
  assumes "update_fee p fee_type = Inr p'" and "check_too_high fee_type = Inr ()" and "pool_sound p"
  shows "pool_sound p'"
  using assms by (cases fee_type)
    (auto simp: update_fee_def pool_sound_def pool_fees_def check_too_high_def Let_def not_less attempt_eq_Inr split: if_splits)

lemma apply_next_fees_sound: "pool_sound p \<Longrightarrow> pool_sound (apply_next_fees e l s p)"
  by (auto simp: pool_sound_def pool_fees_def apply_next_fees_def split: option.splits)

lemma pool_sound_balances [simp]:
  "pool_sound (p\<lparr>sp_total_lamports := t, sp_pool_token_supply := n\<rparr>) = pool_sound p"
  "pool_sound (p\<lparr>sp_pool_token_supply := n, sp_total_lamports := t\<rparr>) = pool_sound p"
  by (simp_all add: pool_sound_def pool_fees_def)

lemma pool_sound_settings [simp]:
  "pool_sound (p\<lparr>sp_preferred_deposit_validator_vote_address := d, sp_preferred_withdraw_validator_vote_address := w\<rparr>) = pool_sound p"
  "pool_sound (p\<lparr>sp_manager := m, sp_manager_fee_account := f\<rparr>) = pool_sound p"
  "pool_sound (p\<lparr>sp_staker := s\<rparr>) = pool_sound p"
  "pool_sound (p\<lparr>sp_stake_deposit_authority := a, sp_sol_deposit_authority := b, sp_sol_withdraw_authority := c\<rparr>) = pool_sound p"
  by (simp_all add: pool_sound_def pool_fees_def)

lemma pool_change_sound: "pool_change accounts p p' \<Longrightarrow> pool_sound p \<Longrightarrow> pool_sound p'"
  by (induction rule: pool_change.induct) (simp_all add: apply_next_fees_sound update_fee_sound)

lemma update_fee_type: "update_fee p fee_type = Inr p' \<Longrightarrow> sp_account_type p' = sp_account_type p"
  by (cases fee_type) (auto simp: update_fee_def attempt_eq_Inr)

lemma pool_change_type: "pool_change accounts p p' \<Longrightarrow> sp_account_type p' = sp_account_type p"
  by (induction rule: pool_change.induct) (simp_all add: apply_next_fees_def update_fee_type)

section \<open>Runs\<close>

inductive pool_reach :: "pool_env \<Rightarrow> pubkey \<Rightarrow> account_info list \<Rightarrow> ledger \<Rightarrow> ledger \<Rightarrow> bool" for E pid accounts led where
  start: "pool_reach E pid accounts led led"
| outside: "pool_reach E pid accounts led l \<Longrightarrow> other_activity pid l l' \<Longrightarrow> pool_reach E pid accounts led l'"
| store: "pool_reach E pid accounts led l \<Longrightarrow> pool_at E pid led (ai_key info) = Some p \<Longrightarrow> pool_change accounts p p' \<Longrightarrow>
    store_stake_pool E held p' info l = Inr l' \<Longrightarrow> pool_reach E pid accounts led l'"
| entry: "pool_reach E pid accounts led l \<Longrightarrow> is_list_account pid led k \<Longrightarrow> j < vec_count (list_vec k 5 led) \<Longrightarrow>
    (\<And>v. vs_vote_account_address (f v) = vs_vote_account_address v) \<Longrightarrow>
    modify_entry k 5 (4 + j * INFO_LEN) f l = Inr l' \<Longrightarrow> pool_reach E pid accounts led l'"

text \<open>Where one account can have got to in such a run.\<close>

definition account_kept :: "pool_env \<Rightarrow> pubkey \<Rightarrow> account_info list \<Rightarrow> ledger \<Rightarrow> ledger \<Rightarrow> pubkey \<Rightarrow> bool" where
  "account_kept E pid accounts led l k \<longleftrightarrow>
     (if acc_owner (led k) \<noteq> pid then acc_owner (l k) = pid \<longrightarrow> (\<forall>b \<in> set (acc_data (l k)). b = 0)
      else acc_owner (l k) = pid \<and>
        (case pool_at E pid led k of
           Some p \<Rightarrow> \<exists>p'. pool_at E pid l k = Some p' \<and> (p' = p \<or> pool_change accounts p p')
         | None \<Rightarrow>
             if is_list_account pid led k
             then is_list_account pid l k \<and> take 9 (acc_data (l k)) = take 9 (acc_data (led k)) \<and>
               length (acc_data (l k)) = length (acc_data (led k)) \<and> list_sound (acc_data (l k))
             else acc_data (l k) = acc_data (led k)))"

lemma entry_update_sound:
  assumes sound: "list_sound data" and j: "j < vec_count (drop 5 data)"
    and e: "info_of_bytes (list_entries data ! j) = Inr v" and vote: "vs_vote_account_address v' = vs_vote_account_address v"
  defines "data' \<equiv> take 5 data @ write_info (4 + j * INFO_LEN) v' (drop 5 data)"
  shows "list_sound data'" and "take 9 data' = take 9 data" and "length data' = length data"
proof -
  let ?vec = "drop 5 data"
  have ok: "vec_ok INFO_LEN ?vec" using sound by (simp add: list_sound_def)
  note w = vec_write [OF ok j, of "info_to_bytes v'", folded write_info_def, simplified]
  have five: "5 \<le> length data" using ok by (cases "length data \<le> 5") (auto simp: vec_ok_def)
  then have d: "drop 5 data' = write_info (4 + j * INFO_LEN) v' ?vec" and t: "take 5 data' = take 5 data"
    by (simp_all add: data'_def)
  show l: "length data' = length data" using five w(3) by (simp add: data'_def)
  have "take 4 (write_info (4 + j * INFO_LEN) v' ?vec) = take 4 ?vec"
    using entry_offset [OF ok j] by (simp add: write_info_def write_at_def)
  then show nine: "take 9 data' = take 9 data"
    using t d take_add [of 5 4 data] take_add [of 5 4 data'] by simp
  have max: "list_max data' = list_max data"
    using arg_cong [OF nine, of "drop 1 \<circ> take 5"] by (simp add: list_max_def subslice_def drop_take)
  have entries: "list_entries data' = (list_entries data)[j := info_to_bytes v']"
    by (simp add: list_entries_def d w(1))
  have len: "length (list_entries data) = vec_count ?vec" by (simp add: list_entries_def vec_split(4) [OF ok])
  have "length (list_entries data ! j) = INFO_LEN"
    using vec_split(3,4) [OF ok] j by (simp add: list_entries_def)
  then have "entry_vote (info_to_bytes v') = entry_vote (list_entries data ! j)"
    using entry_vote_read [OF e] vote by simp
  then have "map entry_vote (list_entries data') = map entry_vote (list_entries data)"
    using j len by (simp add: entries map_update) (metis list_update_id nth_map)
  moreover have "\<forall>x \<in> set (list_entries data'). is_ok (info_of_bytes x)"
    using sound unfolding entries list_sound_def by (auto dest!: set_update_subset_insert [THEN subsetD])
  ultimately show "list_sound data'"
    using sound w(2,4) by (simp add: list_sound_def l max d)
qed

section \<open>What a run keeps\<close>

locale pool_laws =
  fixes E :: pool_env and pid :: pubkey
  assumes borsh: "pool_borsh_lawful E"
    and sdk: "pool_sdk_lawful E pid"
    and invokes: "pool_invoke_lawful E pid"
begin

lemma u32_lawful: "borsh_u32_lawful (pe_u32 E)"
  using borsh by (simp add: pool_borsh_lawful_def)

lemma pool_read_type: "cd_read (pe_StakePool E) bs = Inr p \<Longrightarrow> bs \<noteq> [] \<and> hd bs = AccountType_byte (sp_account_type p)"
  using borsh by (simp add: pool_borsh_lawful_def)

lemma pool_written: "cd_write (pe_StakePool E) p = Inr bs \<Longrightarrow> cd_read (pe_StakePool E) (bs @ rest) = Inr p"
  using borsh by (simp add: pool_borsh_lawful_def codec_roundtrip_def)

lemma pool_at_Some:
  "pool_at E pid l k = Some p \<longleftrightarrow>
     acc_owner (l k) = pid \<and> cd_read (pe_StakePool E) (acc_data (l k)) = Inr p \<and> StakePool_is_valid p"
  by (auto simp: pool_at_def split: sum.splits)

lemma pool_not_list: "pool_at E pid l k = Some p \<Longrightarrow> \<not> is_list_account pid l k"
  using pool_read_type [of "acc_data (l k)" p]
  by (auto simp: pool_at_Some is_list_account_def StakePool_is_valid_def)

lemma pool_at_same:
  "acc_owner (l' k) = acc_owner (l k) \<Longrightarrow> acc_data (l' k) = acc_data (l k) \<Longrightarrow> pool_at E pid l' k = pool_at E pid l k"
  by (simp add: pool_at_def)

lemma zeroed_is_neither:
  assumes "\<forall>b \<in> set (acc_data (l k)). b = 0"
  shows "pool_at E pid l k = None" and "\<not> is_list_account pid l k"
proof -
  have hd: "acc_data (l k) \<noteq> [] \<Longrightarrow> hd (acc_data (l k)) = 0" using assms by (cases "acc_data (l k)") auto
  show "\<not> is_list_account pid l k" using hd by (auto simp: is_list_account_def)
  show "pool_at E pid l k = None"
  proof (rule ccontr)
    assume "pool_at E pid l k \<noteq> None"
    then obtain p where "pool_at E pid l k = Some p" by blast
    then show False using hd pool_read_type [of "acc_data (l k)" p] by (auto simp: pool_at_Some StakePool_is_valid_def)
  qed
qed

lemma store_eq:
  assumes "store_stake_pool E held p info l = Inr l'"
  obtains bs where "l' = set_data (ai_key info) (bs @ drop (length bs) (info_data l info)) l"
    and "cd_read (pe_StakePool E) (bs @ drop (length bs) (info_data l info)) = Inr p"
  using assms pool_written
  by (auto simp: store_stake_pool_def borrow_data_def write_front_def res_simps split: if_splits)

lemma modify_eq:
  assumes "modify_entry k 5 i f l = Inr l'"
  obtains v where "read_entry k 5 i l = Inr v"
    and "l' = set_data k (take 5 (acc_data (l k)) @ write_info i (f v) (drop 5 (acc_data (l k)))) l"
  using assms by (auto simp: modify_entry_def set_list_vec_def list_vec_def res_simps)

lemma kept_same:
  assumes "acc_owner (l' k) = acc_owner (l k)" and "acc_data (l' k) = acc_data (l k)"
  shows "account_kept E pid accounts led l' k = account_kept E pid accounts led l k"
proof -
  have p: "pool_at E pid l' k = pool_at E pid l k" using assms by (rule pool_at_same)
  have i: "is_list_account pid l' k = is_list_account pid l k" by (simp add: is_list_account_def assms)
  show ?thesis by (simp only: account_kept_def p i assms)
qed

lemma kept_pool:
  assumes "pool_at E pid led k = Some p"
  shows "account_kept E pid accounts led l k \<longleftrightarrow> (\<exists>p'. pool_at E pid l k = Some p' \<and> (p' = p \<or> pool_change accounts p p'))"
proof -
  have "acc_owner (led k) = pid" using assms by (simp add: pool_at_Some)
  then show ?thesis using pool_at_Some [of l k] by (auto simp: account_kept_def assms)
qed

lemma kept_outside:
  assumes "account_kept E pid accounts led l k" and "other_activity pid l l'"
  shows "account_kept E pid accounts led l' k"
proof -
  have o: "if acc_owner (l k) = pid then acc_owner (l' k) = pid \<and> acc_data (l' k) = acc_data (l k)
    else acc_owner (l' k) = pid \<longrightarrow> (\<forall>b \<in> set (acc_data (l' k)). b = 0)"
    using assms(2) unfolding other_activity_def by (metis (mono_tags, lifting))
  show ?thesis
  proof (cases "acc_owner (l k) = pid")
    case True
    then have same: "acc_owner (l' k) = acc_owner (l k)" "acc_data (l' k) = acc_data (l k)" using o by simp_all
    then show ?thesis using assms(1) kept_same [of l' k l, OF same] by simp
  next
    case False
    then show ?thesis using assms(1) o by (simp add: account_kept_def split: if_splits)
  qed
qed

lemma kept_store:
  assumes kept: "account_kept E pid accounts led l k" and here: "pool_at E pid led (ai_key info) = Some p"
    and change: "pool_change accounts p p'" and run: "store_stake_pool E held p' info l = Inr l'"
  shows "account_kept E pid accounts led l' k"
proof -
  from run obtain bs where l': "l' = set_data (ai_key info) (bs @ drop (length bs) (info_data l info)) l"
    and rd: "cd_read (pe_StakePool E) (bs @ drop (length bs) (info_data l info)) = Inr p'"
    by (rule store_eq)
  show ?thesis
  proof (cases "k = ai_key info")
    case True
    have "StakePool_is_valid p'"
      using here pool_change_type [OF change] by (simp add: pool_at_Some StakePool_is_valid_def)
    moreover have "acc_owner (led k) = pid" using here True by (simp add: pool_at_Some)
    moreover from this have "acc_owner (l k) = pid" using kept by (simp add: account_kept_def)
    ultimately show ?thesis using rd change here True kept_pool [of led k p accounts l'] pool_at_Some [of l' k p'] by (auto simp: l')
  next
    case False
    then show ?thesis using kept kept_same [of l' k l] by (simp add: l')
  qed
qed

lemma kept_entry:
  assumes kept: "account_kept E pid accounts led l k" and here: "is_list_account pid led k'"
    and j: "j < vec_count (list_vec k' 5 led)" and f: "\<And>v. vs_vote_account_address (f v) = vs_vote_account_address v"
    and run: "modify_entry k' 5 (4 + j * INFO_LEN) f l = Inr l'"
  shows "account_kept E pid accounts led l' k"
proof (cases "k = k'")
  case True
  from run obtain v where v: "read_entry k' 5 (4 + j * INFO_LEN) l = Inr v"
    and l': "l' = set_data k' (take 5 (acc_data (l k')) @ write_info (4 + j * INFO_LEN) (f v) (drop 5 (acc_data (l k')))) l"
    by (rule modify_eq)
  have np: "pool_at E pid led k = None" using here True pool_not_list by (cases "pool_at E pid led k") auto
  have own: "acc_owner (led k) = pid" using here True by (simp add: is_list_account_def)
  have k: "is_list_account pid l k" "take 9 (acc_data (l k)) = take 9 (acc_data (led k))"
    "length (acc_data (l k)) = length (acc_data (led k))" "list_sound (acc_data (l k))" "acc_owner (l k) = pid"
    using kept np own here True by (simp_all add: account_kept_def)
  have "take 4 (drop 5 (acc_data (l k))) = take 4 (drop 5 (acc_data (led k)))"
    using arg_cong [OF k(2), of "drop 5"] by (simp add: drop_take)
  then have count: "j < vec_count (drop 5 (acc_data (l k)))" using j True by (simp add: list_vec_def vec_count_def)
  have e: "info_of_bytes (list_entries (acc_data (l k)) ! j) = Inr v"
    using v vec_read [OF count, of INFO_LEN] True by (simp add: read_entry_def read_info_def list_vec_def list_entries_def)
  note new = entry_update_sound [OF k(4) count e f]
  have data: "acc_data (l' k) = take 5 (acc_data (l k)) @ write_info (4 + j * INFO_LEN) (f v) (drop 5 (acc_data (l k)))"
    using True by (simp add: l')
  have "hd (acc_data (l' k)) = hd (acc_data (l k))" "acc_data (l' k) \<noteq> []"
    using k(1) unfolding data is_list_account_def by (cases "acc_data (l k)"; simp)+
  then have "is_list_account pid l' k" using k(1) by (simp add: is_list_account_def l')
  then show ?thesis using new k np own here True unfolding account_kept_def data [symmetric] by (simp add: l')
next
  case False
  from run obtain v where "l' = set_data k' (take 5 (acc_data (l k')) @ write_info (4 + j * INFO_LEN) (f v) (drop 5 (acc_data (l k')))) l"
    by (rule modify_eq)
  then show ?thesis using False kept kept_same [of l' k l] by simp
qed

lemma reach_kept:
  assumes "pool_reach E pid accounts led l" and "pools_sound E pid led"
  shows "account_kept E pid accounts led l k"
  using assms(1)
proof (induction rule: pool_reach.induct)
  case start
  then show ?case using assms(2) by (auto simp: account_kept_def pools_sound_def split: option.splits)
next
  case (outside l l')
  then show ?case by (blast intro: kept_outside)
next
  case (store l info p p' held l')
  then show ?case by (blast intro: kept_store)
next
  case (entry l k' j f l')
  then show ?case by (blast intro: kept_entry)
qed

lemma kept_sound:
  assumes "\<And>k. account_kept E pid accounts led l k" and "pools_sound E pid led"
  shows "pools_sound E pid l"
  unfolding pools_sound_def
proof (intro conjI allI impI)
  fix k p
  assume p: "pool_at E pid l k = Some p"
  then have own: "acc_owner (l k) = pid" by (simp add: pool_at_Some)
  have "acc_owner (led k) = pid"
    using assms(1) [of k] own zeroed_is_neither(1) [of l k] p by (auto simp: account_kept_def split: if_splits)
  show "pool_sound p"
  proof (cases "pool_at E pid led k")
    case (Some q)
    then have "pool_sound q" using assms(2) by (simp add: pools_sound_def)
    moreover have "p = q \<or> pool_change accounts q p"
      using assms(1) [of k] Some p \<open>acc_owner (led k) = pid\<close> by (auto simp: account_kept_def)
    ultimately show ?thesis using pool_change_sound by blast
  next
    case None
    then show ?thesis
      using assms(1) [of k] p \<open>acc_owner (led k) = pid\<close> pool_not_list [OF p] own pool_at_same [of l k led]
      by (auto simp: account_kept_def split: if_splits)
  qed
next
  fix k
  assume li: "is_list_account pid l k"
  then have own: "acc_owner (l k) = pid" by (simp add: is_list_account_def)
  have led: "acc_owner (led k) = pid"
    using assms(1) [of k] own zeroed_is_neither(2) [of l k] li by (auto simp: account_kept_def split: if_splits)
  show "list_sound (acc_data (l k))"
  proof (cases "pool_at E pid led k")
    case (Some q)
    then show ?thesis using assms(1) [of k] led li pool_not_list [of l k] by (auto simp: account_kept_def)
  next
    case None
    then show ?thesis
      using assms(1) [of k] led li own assms(2) by (auto simp: account_kept_def pools_sound_def is_list_account_def split: if_splits)
  qed
qed

lemma reach_sound: "pool_reach E pid accounts led l \<Longrightarrow> pools_sound E pid led \<Longrightarrow> pools_sound E pid l"
  by (rule kept_sound [OF reach_kept])

lemma reach_pool:
  assumes "pool_reach E pid accounts led l" and "pools_sound E pid led" and "pool_at E pid led k = Some p"
  obtains p' where "pool_at E pid l k = Some p'" and "p' = p \<or> pool_change accounts p p'"
  using reach_kept [OF assms(1,2), of k] kept_pool [OF assms(3)] by auto

end

end
