(* ===== verification/Stake_Steps.thy ===== *)
theory Stake_Steps
  imports Stake_Runs
begin

text \<open>
  The handlers of the stake pool program as runs of the steps of \<open>pool_reach\<close>.  Adding a validator,
  cleaning up removed ones and creating a pool change more than single entries; they are followed to their
  last write separately.
\<close>

section \<open>Accounts of a call\<close>

lemma next_accounts_mem: "next_accounts n it = Inr (a, rest) \<Longrightarrow> i < n \<Longrightarrow> a ! i \<in> set it"
  by (auto simp: next_accounts_def dest: in_set_takeD [where n = n] intro: nth_mem split: if_splits)

lemma call_signedI: "next_accounts n accounts = Inr (a, rest) \<Longrightarrow> i < n \<Longrightarrow> ai_key (a ! i) = k \<Longrightarrow> ai_is_signer (a ! i) \<Longrightarrow>
    call_signed accounts k"
  unfolding call_signed_def using next_accounts_mem by blast

lemma check_staker_signed:
  "check_staker p info = Inr u \<Longrightarrow> ai_key info = sp_staker p \<and> ai_is_signer info"
  by (simp add: check_staker_def split: if_splits)

lemma check_manager_signed:
  "check_manager p info = Inr u \<Longrightarrow> ai_key info = sp_manager p \<and> ai_is_signer info"
  by (simp add: check_manager_def split: if_splits)

lemma token_instruction_program:
  "mint_to R tid m d a [] n = Inr ix \<Longrightarrow> ix_program_id ix = token_program_id R"
  "burn R tid m d a [] n = Inr ix \<Longrightarrow> ix_program_id ix = token_program_id R"
  "transfer R tid m d a [] n = Inr ix \<Longrightarrow> ix_program_id ix = token_program_id R"
  by (auto simp: mint_to_def burn_def transfer_def build_def check_program_account_def res_simps split: if_splits)

context pool_laws
begin

section \<open>Invocations\<close>

lemma invoke_other: "invoke_holding E held pid ix infos seeds l = Inr l' \<Longrightarrow> ix_program_id ix \<noteq> pid \<Longrightarrow> other_activity pid l l'"
  using invokes by (auto simp: invoke_holding_def pool_invoke_lawful_def split: if_splits)

lemma sdk_lists:
  "ix \<in> set (pe_stake_split E a b n c) \<Longrightarrow> ix_program_id ix \<noteq> pid"
  "ix \<in> set (pe_stake_merge E a b c) \<Longrightarrow> ix_program_id ix \<noteq> pid"
proof -
  have "\<forall>a b n c. \<forall>ix \<in> set (pe_stake_split E a b n c). ix_program_id ix \<noteq> pid"
    and "\<forall>a b c. \<forall>ix \<in> set (pe_stake_merge E a b c). ix_program_id ix \<noteq> pid"
    using sdk by (simp_all add: pool_sdk_lawful_def)
  then show "ix \<in> set (pe_stake_split E a b n c) \<Longrightarrow> ix_program_id ix \<noteq> pid"
    and "ix \<in> set (pe_stake_merge E a b c) \<Longrightarrow> ix_program_id ix \<noteq> pid"
    by blast+
qed

lemma sdk_programs:
  "token_program_id (pe_runtime E) \<noteq> pid"
  "ix_program_id (pe_stake_initialize E a b c lk) \<noteq> pid"
  "ix_program_id (pe_stake_delegate E a b c) \<noteq> pid"
  "ix_program_id (pe_stake_deactivate E a b) \<noteq> pid"
  "ix_program_id (pe_stake_authorize E a b c t) \<noteq> pid"
  "ix_program_id (pe_stake_withdraw E a b c n) \<noteq> pid"
  "ix_program_id (pe_system_create_account E a b n m c) \<noteq> pid"
  "ix_program_id (pe_system_transfer E a b n) \<noteq> pid"
  "ix_program_id (pe_system_allocate E a n) \<noteq> pid"
  "ix_program_id (pe_system_assign E a b) \<noteq> pid"
  using sdk by (simp_all add: pool_sdk_lawful_def)

lemmas sdk_invokes = sdk_programs(2-10) [THEN invoke_other [rotated]]
  sdk_lists(1) [OF last_in_set, THEN invoke_other [rotated]] sdk_lists(2) [OF hd_in_set, THEN invoke_other [rotated]]

lemma calls_other:
  "invoke_holding E held pid (pe_stake_initialize E a b c lk) infos seeds l = Inr l' \<Longrightarrow> other_activity pid l l'"
  "stake_delegate E held pid i1 i2 i3 i4 i5 i6 sp aty bump l = Inr l' \<Longrightarrow> other_activity pid l l'"
  "stake_deactivate E held pid i1 i2 i3 sp aty bump l = Inr l' \<Longrightarrow> other_activity pid l l'"
  "stake_split E held pid sp i1 i2 aty bump n i3 l = Inr l' \<Longrightarrow> other_activity pid l l'"
  "stake_merge E held pid sp i1 i2 aty bump i3 i4 i5 i6 l = Inr l' \<Longrightarrow> other_activity pid l l'"
  "stake_withdraw E held pid sp i1 i2 aty bump i3 i4 i5 i6 n l = Inr l' \<Longrightarrow> other_activity pid l l'"
  "sol_transfer E pid i1 i2 i3 n l = Inr l' \<Longrightarrow> other_activity pid l l'"
  unfolding stake_delegate_def stake_deactivate_def stake_split_def stake_merge_def stake_withdraw_def sol_transfer_def Let_def
  by (auto intro: sdk_invokes split: if_splits)

lemma token_calls_other:
  "token_burn E held pid i1 i2 i3 i4 n l = Inr l' \<Longrightarrow> other_activity pid l l'"
  "token_mint_to E held pid sp i1 i2 i3 i4 aty bump n l = Inr l' \<Longrightarrow> other_activity pid l l'"
  "token_transfer E held pid i1 i2 i3 i4 n l = Inr l' \<Longrightarrow> other_activity pid l l'"
  unfolding token_burn_def token_mint_to_def token_transfer_def
  using sdk_programs(1) by (auto simp: attempt_eq_Inr dest!: token_instruction_program intro: invoke_other)

lemma authorize_other:
  "stake_authorize E held pid i1 i2 k i3 i4 l = Inr l' \<Longrightarrow> other_activity pid l l'"
  "stake_authorize_signed E held pid sp i1 i2 aty bump k i3 i4 l = Inr l' \<Longrightarrow> other_activity pid l l'"
  unfolding stake_authorize_def stake_authorize_signed_def
  by (auto simp: attempt_eq_Inr intro: other_activity_trans dest!: sdk_invokes)

lemma create_other:
  "create_transient_stake_account E held pid i1 seeds i2 l = Inr l' \<Longrightarrow> other_activity pid l l'"
  "create_pda_account E held pid i1 n sz own i2 i3 seeds l = Inr l' \<Longrightarrow> other_activity pid l l'"
  unfolding create_transient_stake_account_def create_pda_account_def Let_def
  by (auto simp: attempt_eq_Inr intro: other_activity_trans split: if_splits dest!: sdk_invokes)

lemma mint_deposit_other:
  "mint_deposit E held pid p i1 i2 i3 i4 i5 i6 i7 shares l = Inr l' \<Longrightarrow> other_activity pid l l'"
  unfolding mint_deposit_def Let_def
  by (auto simp: attempt_eq_Inr split: prod.splits if_splits dest!: token_calls_other(2) intro: other_activity_trans)

lemma uc_merge_other: "uc_merge E held pid c i1 i2 l = Inr l' \<Longrightarrow> other_activity pid l l'"
  unfolding uc_merge_def by (rule calls_other(5))

lemmas outside_calls = calls_other token_calls_other authorize_other create_other mint_deposit_other uc_merge_other

lemmas reach_calls = outside_calls [THEN pool_reach.outside [rotated]]

lemma if_call_reach:
  "(if c then m else Inr l) = Inr l' \<Longrightarrow> (m = Inr l' \<Longrightarrow> other_activity pid l l') \<Longrightarrow>
     pool_reach E pid accounts led l \<Longrightarrow> pool_reach E pid accounts led l'"
  by (auto split: if_splits intro: pool_reach.outside)

section \<open>Loading accounts\<close>

lemma load_pool: "load_stake_pool E pid info led = Inr p \<longleftrightarrow> pool_at E pid led (ai_key info) = Some p"
  by (auto simp: load_stake_pool_def pool_check_account_owner_def pool_at_Some res_simps)

lemma staker_call_pool:
  "check_staker_call E pid info staker auth clk led = Inr p \<Longrightarrow>
     pool_at E pid led (ai_key info) = Some p \<and> ai_key staker = sp_staker p \<and> ai_is_signer staker"
  by (auto simp: check_staker_call_def res_simps load_pool dest: check_staker_signed)

lemma header_read:
  "cd_read (pe_header E) bs = Inr h \<Longrightarrow>
     5 \<le> length bs \<and> hd bs = AccountType_byte (vh_account_type h) \<and> vh_max_validators h = list_max bs"
  using borsh by (simp add: pool_borsh_lawful_def list_max_def)

lemma header_length: "cd_write (pe_header E) h = Inr bs \<Longrightarrow> length bs = 5"
  using borsh by (simp add: pool_borsh_lawful_def)

lemma open_list:
  assumes "open_validator_list E info led = Inr (header, off)" and "pool_check_account_owner led info pid = Inr u"
  shows "is_list_account pid led (ai_key info)" and "off = 5" and "vh_max_validators header = list_max (info_data led info)"
  using assms header_read [of "info_data led info" header] header_length [of header]
  by (auto simp: open_validator_list_def deserialize_vec_def pool_check_account_owner_def is_list_account_def
      ValidatorListHeader_is_valid_def res_simps split: if_splits)

lemma found_entry:
  assumes "find_validator k 5 vote led = Inr (Some i)" and "is_list_account pid led k" and "pools_sound E pid led"
  obtains j where "j < vec_count (list_vec k 5 led)" and "i = 4 + j * INFO_LEN"
proof -
  have "list_sound (acc_data (led k))" using assms(2,3) by (simp add: pools_sound_def)
  then have "vec_ok INFO_LEN (list_vec k 5 led)" by (simp add: list_sound_def list_vec_def)
  then show thesis using assms(1) that unfolding find_validator_def by (blast elim: find_Some)
qed

lemma found_entry_step:
  assumes "modify_entry k off i f l = Inr l'" and "pool_reach E pid accounts led l"
    and "find_validator k off vote led = Inr found" and "ok_or found e = Inr i"
    and "open_validator_list E info led = Inr (header, off)" and "pool_check_account_owner led info pid = Inr u" and "k = ai_key info"
    and "pools_sound E pid led" and "\<And>v. vs_vote_account_address (f v) = vs_vote_account_address v"
  shows "pool_reach E pid accounts led l'"
proof -
  note li = open_list [OF assms(5,6), folded assms(7)]
  from assms(3,4) have "find_validator k 5 vote led = Inr (Some i)" using li(2) by (simp add: ok_or_eq_Inr)
  then obtain j where "j < vec_count (list_vec k 5 led)" "i = 4 + j * INFO_LEN" using li(1) assms(8) by (rule found_entry)
  then show ?thesis using pool_reach.entry [OF assms(2) li(1) _ assms(9)] assms(1) li(2) by blast
qed

lemma store_step:
  assumes "store_stake_pool E held p' info l = Inr l'" and "pool_reach E pid accounts led l"
    and "pool_at E pid led (ai_key info) = Some p" and "pool_change accounts p p'"
  shows "pool_reach E pid accounts led l'"
  using pool_reach.store [OF assms(2,3,4,1)] .

end

section \<open>Settings\<close>

lemma manager_signed:
  "next_accounts n accounts = Inr (a, it) \<Longrightarrow> check_manager p (a ! i) = Inr u \<Longrightarrow> i < n \<Longrightarrow> call_signed accounts (sp_manager p)"
  using check_manager_signed call_signedI by metis

lemma staker_signed:
  "next_accounts n accounts = Inr (a, it) \<Longrightarrow> check_staker p (a ! i) = Inr u \<Longrightarrow> i < n \<Longrightarrow> call_signed accounts (sp_staker p)"
  using check_staker_signed call_signedI by metis

lemma account_signed:
  "next_accounts n accounts = Inr (a, it) \<Longrightarrow> \<not> \<not> ai_is_signer (a ! i) \<Longrightarrow> i < n \<Longrightarrow> call_signed accounts (ai_key (a ! i))"
  using call_signedI by blast

lemma fee_change:
  "call_signed accounts (sp_manager p) \<Longrightarrow> check_too_high fee_type = Inr u \<Longrightarrow> update_fee p fee_type = Inr p' \<Longrightarrow>
     pool_change accounts p p'"
  by (rule pool_change.fee) simp_all

lemma same_settings:
  "p\<lparr>sp_preferred_deposit_validator_vote_address := sp_preferred_deposit_validator_vote_address p\<rparr> = (p :: StakePool)"
  "p\<lparr>sp_preferred_withdraw_validator_vote_address := sp_preferred_withdraw_validator_vote_address p\<rparr> = (p :: StakePool)"
  "p\<lparr>sp_stake_deposit_authority := sp_stake_deposit_authority p\<rparr> = (p :: StakePool)"
  "p\<lparr>sp_sol_deposit_authority := sp_sol_deposit_authority p\<rparr> = (p :: StakePool)"
  "p\<lparr>sp_sol_withdraw_authority := sp_sol_withdraw_authority p\<rparr> = (p :: StakePool)"
  by (cases p, simp)+

lemma preferred_change:
  assumes "call_signed accounts (sp_staker p)"
  shows "pool_change accounts p (p\<lparr>sp_preferred_deposit_validator_vote_address := d\<rparr>)"
    and "pool_change accounts p (p\<lparr>sp_preferred_withdraw_validator_vote_address := d\<rparr>)"
    and "pool_change accounts p (clear_preferred vote p)"
proof -
  let ?q = "p\<lparr>sp_preferred_deposit_validator_vote_address := d\<rparr>"
  show "pool_change accounts p ?q"
    using pool_change.preferred [OF assms, where d = d and w = "sp_preferred_withdraw_validator_vote_address ?q"] same_settings(2) [of ?q] by simp
  show "pool_change accounts p (p\<lparr>sp_preferred_withdraw_validator_vote_address := d\<rparr>)"
    using pool_change.preferred [OF assms, where d = "sp_preferred_deposit_validator_vote_address p" and w = d] same_settings(1) [of p] by simp
  show "pool_change accounts p (clear_preferred vote p)"
    unfolding clear_preferred_def by (rule pool_change.preferred [OF assms])
qed

lemma funding_change:
  assumes "call_signed accounts (sp_manager p)"
  shows "pool_change accounts p (p\<lparr>sp_stake_deposit_authority := a\<rparr>)"
    and "pool_change accounts p (p\<lparr>sp_sol_deposit_authority := b\<rparr>)"
    and "pool_change accounts p (p\<lparr>sp_sol_withdraw_authority := b\<rparr>)"
proof -
  let ?q = "p\<lparr>sp_stake_deposit_authority := a\<rparr>" and ?r = "p\<lparr>sp_sol_deposit_authority := b\<rparr>"
  show "pool_change accounts p ?q"
    using pool_change.funding [OF assms, where a = a and b = "sp_sol_deposit_authority ?q" and c = "sp_sol_withdraw_authority ?q"]
      same_settings(4,5) [of ?q] by simp
  show "pool_change accounts p ?r"
    using pool_change.funding [OF assms, where a = "sp_stake_deposit_authority p" and b = b and c = "sp_sol_withdraw_authority ?r"]
      same_settings(3) [of p] same_settings(5) [of ?r] by simp
  show "pool_change accounts p (p\<lparr>sp_sol_withdraw_authority := b\<rparr>)"
    using pool_change.funding [OF assms, where a = "sp_stake_deposit_authority p" and b = "sp_sol_deposit_authority p" and c = b]
      same_settings(3,4) [of p] by simp
qed

lemma add_to_pool_change: "add_to_pool n m p = Inr p' \<Longrightarrow> pool_change accounts p p'"
  by (auto simp: add_to_pool_def res_simps intro: pool_change.balances)

lemma take_from_pool_change: "take_from_pool n m p = Inr p' \<Longrightarrow> pool_change accounts p p'"
  by (auto simp: take_from_pool_def res_simps intro: pool_change.balances)

context pool_laws
begin

lemma checked_pool:
  "pool_check_account_owner led info pid = Inr u \<Longrightarrow> cd_read (pe_StakePool E) (info_data led info) = Inr p \<Longrightarrow>
     \<not> \<not> StakePool_is_valid p \<Longrightarrow> pool_at E pid led (ai_key info) = Some p"
  by (simp add: pool_at_Some pool_check_account_owner_def split: if_splits)

lemma set_fee_reach: "process_set_fee E pid accounts fee led = Inr led' \<Longrightarrow> pool_reach E pid accounts led led'"
  unfolding process_set_fee_def Let_def
  by (elim peel_all) (erule store_step, rule pool_reach.start, simp add: load_pool, rule fee_change, rule manager_signed, assumption+, simp)

lemma set_staker_reach: "process_set_staker E pid accounts led = Inr led' \<Longrightarrow> pool_reach E pid accounts led led'"
  unfolding process_set_staker_def Let_def
  by (elim peel_all)
    (erule store_step, rule pool_reach.start, simp add: load_pool, rule pool_change.staker,
      auto simp: is_ok_iff intro: manager_signed staker_signed)

lemma set_funding_authority_reach:
  "process_set_funding_authority E pid accounts t led = Inr led' \<Longrightarrow> pool_reach E pid accounts led led'"
  unfolding process_set_funding_authority_def Let_def
  by (elim peel_all)
    (erule store_step, rule pool_reach.start, simp add: load_pool, cases t, auto intro!: funding_change intro: manager_signed)

lemma set_manager_reach: "process_set_manager E pid accounts led = Inr led' \<Longrightarrow> pool_reach E pid accounts led led'"
  unfolding process_set_manager_def Let_def
  by (elim peel_all)
    (erule store_step, rule pool_reach.start, rule checked_pool, assumption+,
      rule pool_change.manager, erule manager_signed, assumption, simp, erule account_signed, assumption, simp)

lemma set_preferred_validator_reach:
  "process_set_preferred_validator E pid accounts t vote led = Inr led' \<Longrightarrow> pool_reach E pid accounts led led'"
  unfolding process_set_preferred_validator_def Let_def
  by (elim peel_all)
    (erule store_step, rule pool_reach.start, simp add: load_pool, cases t, auto intro!: preferred_change intro: staker_signed)

section \<open>Validators\<close>

lemma remove_validator_reach:
  assumes "pools_sound E pid led"
  shows "process_remove_validator_from_pool E pid accounts led = Inr led' \<Longrightarrow> pool_reach E pid accounts led led'"
  unfolding process_remove_validator_from_pool_def Let_def
  by (elim peel_all)
    (drule staker_call_pool, elim conjE, erule store_step, erule found_entry_step,
      (erule reach_calls)+, rule pool_reach.start, assumption+, rule refl, rule assms, simp, assumption,
      rule preferred_change, rule call_signedI, assumption+, simp_all)

lemma decrease_validator_reach:
  assumes "pools_sound E pid led"
  shows "process_decrease_validator_stake E pid accounts n seed led = Inr led' \<Longrightarrow> pool_reach E pid accounts led led'"
  unfolding process_decrease_validator_stake_def Let_def
  by (elim peel_all; simp?)
    (erule found_entry_step, (erule reach_calls)+, rule pool_reach.start, assumption+, rule refl, rule assms, simp)

lemma increase_validator_reach:
  assumes "pools_sound E pid led"
  shows "process_increase_validator_stake E pid accounts n seed led = Inr led' \<Longrightarrow> pool_reach E pid accounts led led'"
  unfolding process_increase_validator_stake_def Let_def
  by (elim peel_all)
    (erule found_entry_step, (erule reach_calls)+, rule pool_reach.start, assumption+, rule refl, rule assms, simp)

end

section \<open>Balances\<close>

definition entry_at :: "pubkey \<Rightarrow> ledger \<Rightarrow> pubkey \<Rightarrow> nat \<Rightarrow> bool" where
  "entry_at pid led k i \<longleftrightarrow> is_list_account pid led k \<and> (\<exists>j < vec_count (list_vec k 5 led). i = 4 + j * INFO_LEN)"

context pool_laws
begin

lemma entry_at_step:
  assumes "modify_entry k 5 i f l = Inr l'" and "pool_reach E pid accounts led l" and "entry_at pid led k i"
    and "\<And>v. vs_vote_account_address (f v) = vs_vote_account_address v"
  shows "pool_reach E pid accounts led l'"
  using assms(1,3) pool_reach.entry [OF assms(2) _ _ assms(4)] unfolding entry_at_def by blast

lemma merge_into_reserve_reach:
  assumes "merge_transient_into_reserve E pid k 5 i c info l = Inr l'" and "pool_reach E pid accounts led l" and "entry_at pid led k i"
  shows "pool_reach E pid accounts led l'"
  using assms(1) unfolding merge_transient_into_reserve_def
  by (elim peel_all) (erule entry_at_step, (erule reach_calls [OF _ assms(2)])+, rule assms(3), simp,
    (hypsubst, erule reach_calls [OF _ assms(2)]))

lemma merge_into_validator_reach:
  assumes "merge_transient_into_validator E pid k c vi ti stake l = Inr l'" and "pool_reach E pid accounts led l"
  shows "pool_reach E pid accounts led l'"
  using assms(1) unfolding merge_transient_into_validator_def Let_def
  by (elim peel_all) ((erule reach_calls)+, rule assms(2), hypsubst, (erule reach_calls)+, rule assms(2))

lemma settle_transient_reach:
  assumes run: "settle_transient E pid k 5 i c vi ti vs ts l = Inr (l', n)" and reach: "pool_reach E pid accounts led l"
    and entry: "entry_at pid led k i"
  shows "pool_reach E pid accounts led l'"
  using run reach merge_into_reserve_reach [OF _ reach entry] merge_into_validator_reach [OF _ reach]
  unfolding settle_transient_def Let_def
  by (auto simp: attempt_eq_Inr split: option.splits StakeState.splits if_splits)

lemma settle_validator_reach:
  assumes run: "settle_validator E pid k 5 i c vi vs l = Inr (l', n)" and reach: "pool_reach E pid accounts led l"
    and entry: "entry_at pid led k i"
  shows "pool_reach E pid accounts led l'"
proof -
  have "pool_reach E pid accounts led l2"
    if "uc_merge E (Some k) pid c vi (uc_reserve_stake_info c) l = Inr l1"
      and "modify_entry k 5 i (\<lambda>v. v\<lparr>vs_status := ReadyForRemoval\<rparr>) l1 = Inr l2" for l1 l2
    using that(2) by (rule entry_at_step) (use that(1) reach entry in \<open>auto intro: reach_calls\<close>)
  then show ?thesis using run reach unfolding settle_validator_def
    by (auto simp: attempt_eq_Inr split: option.splits StakeState.splits if_splits)
qed

lemma update_entry_reach:
  assumes run: "update_entry E pid k 5 c i vi ti l = Inr l'" and reach: "pool_reach E pid accounts led l"
    and entry: "entry_at pid led k i"
  shows "pool_reach E pid accounts led l'"
  using run unfolding update_entry_def
  by (elim peel_all) ((erule subst, rule reach)+, erule entry_at_step [OF _ _ entry],
    erule settle_validator_reach [OF _ _ entry], erule settle_transient_reach [OF _ reach entry], simp)

lemma update_entries_reach:
  assumes "update_entries E pid k 5 c is infos l = Inr l'" and "pool_reach E pid accounts led l"
    and "\<And>i. i \<in> set is \<Longrightarrow> entry_at pid led k i"
  shows "pool_reach E pid accounts led l'"
  using assms
proof (induction "is" arbitrary: infos l)
  case (Cons i "is")
  consider "infos = []" | vi where "infos = [vi]" | vi ti rest where "infos = vi # ti # rest"
    by (metis list.exhaust)
  then show ?case
  proof cases
    case 3
    then obtain l1 where "update_entry E pid k 5 c i vi ti l = Inr l1" "update_entries E pid k 5 c is rest l1 = Inr l'"
      using Cons.prems(1) by (auto simp: attempt_eq_Inr)
    then show ?thesis using Cons.IH Cons.prems(3) update_entry_reach [OF _ Cons.prems(2)] by simp
  qed (use Cons.prems in simp_all)
qed simp

lemma update_validator_list_reach:
  assumes "process_update_validator_list_balance E pid accounts start_index no_merge led = Inr led'"
  shows "pool_reach E pid accounts led led'"
  using assms unfolding process_update_validator_list_balance_def Let_def
proof (elim peel_all)
  fix a it b vsa u header off entries c
  assume own: "pool_check_account_owner led (a ! 2) pid = Inr u"
    and des: "deserialize_vec E (info_data led (a ! 2)) = Inr (header, off)"
    and entries: "BigVec_deserialize_mut_slice INFO_LEN (unat start_index) (length vsa div 2) (list_vec (ai_key (a ! 2)) off led) = Inr entries"
    and valid: "\<not> \<not> ValidatorListHeader_is_valid header"
    and run: "update_entries E pid (ai_key (a ! 2)) off c entries vsa led = Inr led'"
  have "open_validator_list E (a ! 2) led = Inr (header, off)"
    using des valid by (simp add: open_validator_list_def)
  note li = open_list [OF this own]
  have "entry_at pid led (ai_key (a ! 2)) i" if i: "i \<in> set entries" for i
  proof -
    let ?s = "unat start_index"
    obtain m where m: "m < length vsa div 2" "i = 4 + ?s * INFO_LEN + m * INFO_LEN"
      and "?s + length vsa div 2 \<le> vec_count (list_vec (ai_key (a ! 2)) 5 led)"
      using entries i li(2)
      by (auto simp: BigVec_deserialize_mut_slice_def BigVec_len_def byte_slice_def subslice_def vec_count_def res_simps Let_def
          split: if_splits)
    then have "?s + m < vec_count (list_vec (ai_key (a ! 2)) 5 led)" by simp
    moreover have "i = 4 + (?s + m) * INFO_LEN" using m by simp
    ultimately show ?thesis using li(1) unfolding entry_at_def by blast
  qed
  then show "pool_reach E pid accounts led led'"
    using update_entries_reach run li(2) pool_reach.start by blast
qed

lemma update_stake_pool_reach:
  "process_update_stake_pool_balance E pid accounts led = Inr led' \<Longrightarrow> pool_reach E pid accounts led led'"
  unfolding process_update_stake_pool_balance_def Let_def
  by (elim attempt_pairE attempt_eq_InrE guardE)
    (erule store_step, erule if_call_reach, erule token_calls_other, rule pool_reach.start, simp add: load_pool, rule pool_change.epoch)

section \<open>Deposits and withdrawals\<close>

lemma deposit_sol_reach:
  "process_deposit_sol E pid accounts n led = Inr led' \<Longrightarrow> pool_reach E pid accounts led led'"
  unfolding process_deposit_sol_def Let_def
  by (elim attempt_pairE attempt_eq_InrE guardE)
    (erule store_step, (erule reach_calls)+, rule pool_reach.start, simp add: load_pool, erule add_to_pool_change)

lemma withdraw_sol_reach:
  "process_withdraw_sol E pid accounts n led = Inr led' \<Longrightarrow> pool_reach E pid accounts led led'"
  unfolding process_withdraw_sol_def Let_def
  by (elim attempt_pairE attempt_eq_InrE guardE peel_all)
    (erule store_step, (erule reach_calls)+, hypsubst?, ((erule reach_calls)+)?, rule pool_reach.start, simp add: load_pool,
      erule take_from_pool_change)+

end

context pool_laws
begin

lemma deposit_authorized_reach:
  assumes "(if c then stake_authorize_signed E held pid sp i1 i2 aty bump k i3 i4 l else stake_authorize E held pid i1 i2 k' i3 i4 l) = Inr l'"
    and "pool_reach E pid accounts led l"
  shows "pool_reach E pid accounts led l'"
  using assms(1) pool_reach.outside [OF assms(2) authorize_other(1)] pool_reach.outside [OF assms(2) authorize_other(2)]
  by (auto split: if_splits)

lemma deposit_stake_reach:
  assumes "pools_sound E pid led"
  shows "process_deposit_stake E pid accounts led = Inr led' \<Longrightarrow> pool_reach E pid accounts led led'"
  unfolding process_deposit_stake_def Let_def
  by (elim attempt_pairE attempt_eq_InrE guardE case_pairE)
    (erule found_entry_step, erule store_step, erule if_call_reach, erule calls_other, erule reach_calls, erule reach_calls,
      erule deposit_authorized_reach, rule pool_reach.start, simp add: load_pool, erule add_to_pool_change, assumption+,
      rule refl, rule assms, simp)

text \<open>Splitting from a validator's stake changes the entry that was found for it.\<close>

lemma withdrawal_source_entry:
  assumes "withdrawal_source E pid k 5 p i1 i2 n led = Inr (Some (i, b))" and "is_list_account pid led k" and "pools_sound E pid led"
  shows "entry_at pid led k i"
  using assms(1) unfolding withdrawal_source_def Let_def
  by (elim peel_all)
    (auto simp: ok_or_eq_Inr entry_at_def assms(2) elim: found_entry [OF _ assms(2,3)])

lemma take_from_entry_reach:
  assumes run: "take_from_entry k 5 item n l = Inr l'" and reach: "pool_reach E pid accounts led l"
    and src: "withdrawal_source E pid k 5 p i1 i2 n led = Inr item" and li: "is_list_account pid led k" and sound: "pools_sound E pid led"
  shows "pool_reach E pid accounts led l'"
proof (cases item)
  case None
  then show ?thesis using run reach by (simp add: take_from_entry_def)
next
  case (Some x)
  obtain i b where item: "item = Some (i, b)" using Some by (cases x) simp
  have e: "entry_at pid led k i" using withdrawal_source_entry [OF _ li sound] src item by blast
  from run show ?thesis unfolding item take_from_entry_def option.case prod.case
    by (elim peel_all) (erule entry_at_step [OF _ reach e], simp)+
qed

lemma withdraw_stake_reach:
  assumes sound: "pools_sound E pid led" and run: "process_withdraw_stake E pid accounts n led = Inr led'"
  shows "pool_reach E pid accounts led led'"
  using run unfolding process_withdraw_stake_def Let_def
proof (elim attempt_pairE attempt_eq_InrE guardE case_pairE; hypsubst?)
  fix a it b' it' pool u header off fee burnt lamports item l1 l2 l3 l4 pool' l5
  assume own: "pool_check_account_owner led (a ! 1) pid = Inr u"
    and list: "open_validator_list E (a ! 1) led = Inr (header, off)"
    and load: "load_stake_pool E pid (a ! 0) led = Inr pool"
    and src: "withdrawal_source E pid (ai_key (a ! 1)) off pool (a ! 0) (a ! 3) lamports led = Inr item"
    and calls: "token_burn E (Some (ai_key (a ! 1))) pid (b' ! 0) (a ! 7) (a ! 9) (a ! 6) burnt led = Inr l1"
      "stake_split E (Some (ai_key (a ! 1))) pid (ai_key (a ! 0)) (a ! 3) (a ! 2) AUTHORITY_WITHDRAW
        (sp_stake_withdraw_bump_seed pool) lamports (a ! 4) l1 = Inr l2"
      "stake_authorize_signed E (Some (ai_key (a ! 1))) pid (ai_key (a ! 0)) (a ! 4) (a ! 2) AUTHORITY_WITHDRAW
        (sp_stake_withdraw_bump_seed pool) (ai_key (a ! 5)) (a ! 10) (b' ! 1) l2 = Inr l3"
      "(if 0 < fee then token_transfer E (Some (ai_key (a ! 1))) pid (b' ! 0) (a ! 7) (a ! 8) (a ! 6) fee l3 else Inr l3) = Inr l4"
    and take: "take_from_pool burnt lamports pool = Inr pool'"
    and store: "store_stake_pool E (Some (ai_key (a ! 1))) pool' (a ! 0) l4 = Inr l5"
    and last: "take_from_entry (ai_key (a ! 1)) off item lamports l5 = Inr led'"
  note li = open_list [OF list own]
  have "other_activity pid led l3"
    by (rule other_activity_trans [OF token_calls_other(1) [OF calls(1)]
        other_activity_trans [OF calls_other(4) [OF calls(2)] authorize_other(2) [OF calls(3)]]])
  then have "pool_reach E pid accounts led l3" by (rule pool_reach.outside [OF pool_reach.start])
  from calls(4) _ this have "pool_reach E pid accounts led l4" by (rule if_call_reach) (rule token_calls_other(3))
  then have "pool_reach E pid accounts led l5"
    using store_step [OF store] load take_from_pool_change [OF take] by (simp add: load_pool)
  then show ?thesis
    by (rule take_from_entry_reach [OF last [unfolded li(2)] _ src [unfolded li(2)] li(1) sound])
qed

section \<open>Adding and cleaning up\<close>

lemma add_validator_cases:
  assumes "process_add_validator_to_pool E pid accounts led = Inr led'"
  obtains k p l vote vec where "is_list_account pid led k" and "other_activity pid led l"
    and "call_signed accounts (sp_staker p)" and "sp_validator_list p = k" and "\<exists>k'. pool_at E pid led k' = Some p"
    and "BigVec_len (list_vec k 5 led) \<noteq> Inr (list_max (acc_data (led k)))"
    and "find_validator k 5 (vs_vote_account_address vote) led = Inr None" and "vs_status vote = ActiveStake"
    and "BigVec_push (pe_u32 E) INFO_LEN (ValidatorStakeInfo_pack_into_slice (pe_info_write E)) vote (list_vec k 5 l) = Inr vec"
    and "led' = set_list_vec k 5 vec l"
  using assms unfolding process_add_validator_to_pool_def Let_def
proof (elim attempt_pairE attempt_eq_InrE guardE case_pairE)
  fix a it rent clk_info it1 clock b it2 u1 u2 pool u3 u4 u5 u6 header off count found sa bump l1 l2 l3 vec
  assume acc: "next_accounts 8 accounts = Inr (a, it)" and load: "load_stake_pool E pid (a ! 0) led = Inr pool"
    and staker: "check_staker pool (a ! 1) = Inr u4" and lst: "check_validator_list pool (a ! 4) = Inr u5"
    and own: "pool_check_account_owner led (a ! 4) pid = Inr u6"
    and opened: "open_validator_list E (a ! 4) led = Inr (header, off)"
    and count: "BigVec_len (list_vec (ai_key (a ! 4)) off led) = Inr count" "vh_max_validators header \<noteq> count"
    and found: "find_validator (ai_key (a ! 4)) off (ai_key (a ! 6)) led = Inr found" "\<not> found \<noteq> None"
    and calls: "create_pda_account E (Some (ai_key (a ! 4))) pid (a ! 2) (MINIMUM_ACTIVE_STAKE + rent_minimum_balance rent (pe_stake_state_size E))
        (pe_stake_state_size E) (pe_stake_program_id E) (b ! 2) (a ! 5)
        [to_le_bytes (ai_key (a ! 6)), to_le_bytes (ai_key (a ! 0)), [bump]] led = Inr l1"
      "invoke_holding E (Some (ai_key (a ! 4))) pid (pe_stake_initialize E (ai_key (a ! 5)) (ai_key (a ! 3)) (ai_key (a ! 3)) Lockup_default)
        [a ! 5, a ! 7, b ! 3] [] l1 = Inr l2"
      "stake_delegate E (Some (ai_key (a ! 4))) pid (a ! 5) (a ! 6) clk_info (b ! 0) (b ! 1) (a ! 3) (ai_key (a ! 0)) AUTHORITY_WITHDRAW
        (sp_stake_withdraw_bump_seed pool) l2 = Inr l3"
    and push: "BigVec_push (pe_u32 E) INFO_LEN (ValidatorStakeInfo_pack_into_slice (pe_info_write E))
        \<lparr>vs_active_stake_lamports = 0, vs_transient_stake_lamports = 0, vs_last_update_epoch = clock_epoch clock,
         vs_transient_seed_suffix_start = 0, vs_transient_seed_suffix_end = 0, vs_status = ActiveStake,
         vs_vote_account_address = ai_key (a ! 6)\<rparr> (list_vec (ai_key (a ! 4)) off l3) = Inr vec"
    and last: "Inr (set_list_vec (ai_key (a ! 4)) off vec l3) = Inr led'"
  note li = open_list [OF opened own]
  have o: "other_activity pid led l3"
    by (rule other_activity_trans [OF create_other(2) [OF calls(1)]
        other_activity_trans [OF calls_other(1) [OF calls(2)] calls_other(2) [OF calls(3)]]])
  have s: "call_signed accounts (sp_staker pool)" by (rule staker_signed [OF acc staker]) simp
  have k: "sp_validator_list pool = ai_key (a ! 4)" using lst by (simp add: check_validator_list_def split: if_splits)
  have p: "\<exists>k'. pool_at E pid led k' = Some pool" using load load_pool by blast
  have c: "BigVec_len (list_vec (ai_key (a ! 4)) 5 led) \<noteq> Inr (list_max (info_data led (a ! 4)))"
    using count li(2,3) by simp
  have f: "find_validator (ai_key (a ! 4)) 5 (ai_key (a ! 6)) led = Inr None" using found li(2) by simp
  show thesis
    by (rule that [OF li(1) o s k p c _ _ push [unfolded li(2)]]) (use f last li(2) in simp_all)
qed

lemma cleanup_cases:
  assumes "process_cleanup_removed_validator_entries E pid accounts led = Inr led'"
  obtains k vec where "is_list_account pid led k" and "k = ai_key (accounts ! 1)"
    and "BigVec_retain (pe_u32 E) INFO_LEN is_not_removed (list_vec k 5 led) = Inr vec" and "led' = set_list_vec k 5 vec led"
  using assms unfolding process_cleanup_removed_validator_entries_def Let_def
proof (elim attempt_pairE attempt_eq_InrE)
  fix a it u header off vec
  assume acc: "next_accounts 2 accounts = Inr (a, it)" and own: "pool_check_account_owner led (a ! 1) pid = Inr u"
    and opened: "open_validator_list E (a ! 1) led = Inr (header, off)"
    and run: "BigVec_retain (pe_u32 E) INFO_LEN is_not_removed (list_vec (ai_key (a ! 1)) off led) = Inr vec"
    and last: "Inr (set_list_vec (ai_key (a ! 1)) off vec led) = Inr led'"
  note li = open_list [OF opened own]
  have "a ! 1 = accounts ! 1" using acc by (auto simp: next_accounts_def split: if_splits)
  then show thesis using that [OF li(1)] run last li(2) by simp
qed

end

end
