(* ===== verification/Stake_Program.thy ===== *)
theory Stake_Program
  imports Stake_Steps
begin

text \<open>
  The stake pool program as a whole: every instruction keeps the pools and the validator lists sound and
  changes a pool only in one of the ways of \<open>pool_change\<close>; hence both hold over any history of the chain.
\<close>

section \<open>Adding a validator\<close>

lemma pushed_sound:
  assumes U: "borsh_u32_lawful U" and sound: "list_sound data" and room: "vec_count (drop 5 data) \<noteq> unat (list_max data)"
    and none: "\<And>e. e \<in> set (list_entries data) \<Longrightarrow> entry_vote e \<noteq> to_le_bytes (vs_vote_account_address v)"
    and push: "BigVec_push U INFO_LEN (ValidatorStakeInfo_pack_into_slice ser) v (drop 5 data) = Inr vec"
    and ser: "ser v = Inr (info_to_bytes v)"
  shows "list_sound (take 5 data @ vec)" and "list_entries (take 5 data @ vec) = list_entries data @ [info_to_bytes v]"
proof -
  let ?data = "take 5 data @ vec"
  have ok: "vec_ok INFO_LEN (drop 5 data)" and cap: "9 + unat (list_max data) * INFO_LEN \<le> length data"
    and count: "vec_count (drop 5 data) \<le> unat (list_max data)"
    using sound by (simp_all add: list_sound_def)
  have lt: "vec_count (drop 5 data) < unat (list_max data)" using count room by simp
  then have "vec_count (drop 5 data) + 1 < 2 ^ 32" using unat_bound [of "list_max data"] by simp
  moreover have "ValidatorStakeInfo_pack_into_slice ser v dst = Inr (info_to_bytes v)" if "length dst = INFO_LEN" for dst
    using that ser by (simp add: ValidatorStakeInfo_pack_into_slice_def write_front_def)
  ultimately have p: "vec_elems INFO_LEN vec = vec_elems INFO_LEN (drop 5 data) @ [info_to_bytes v]"
    "vec_ok INFO_LEN vec" "length vec = length (drop 5 data)"
    using push_spec [OF U ok _ _ _ push, of "info_to_bytes v"] by simp_all
  have five: "5 \<le> length data" using cap by simp
  then have d: "drop 5 ?data = vec" by simp
  show entries: "list_entries ?data = list_entries data @ [info_to_bytes v]"
    unfolding list_entries_def d p(1) ..
  have "vec_count vec = vec_count (drop 5 data) + 1"
    using vec_split(4) [OF p(2)] vec_split(4) [OF ok] p(1) by simp
  moreover have "list_max ?data = list_max data" using five by (simp add: list_max_def subslice_def drop_take)
  moreover have "length ?data = length data" using p(3) five by simp
  moreover have "distinct (map entry_vote (list_entries ?data))"
    using sound none unfolding entries list_sound_def by (auto dest: none)
  moreover have "\<forall>e \<in> set (list_entries ?data). is_ok (info_of_bytes e)"
    using sound unfolding entries list_sound_def by auto
  ultimately show "list_sound ?data" unfolding list_sound_def d using p(2) lt cap by simp
qed

section \<open>Cleaning up\<close>

lemma retained_sound:
  assumes U: "borsh_u32_lawful U" and sound: "list_sound data" and run: "BigVec_retain U INFO_LEN P (drop 5 data) = Inr vec"
  shows "list_sound (take 5 data @ vec)" and "list_entries (take 5 data @ vec) = filter P (list_entries data)"
proof -
  let ?data = "take 5 data @ vec"
  have ok: "vec_ok INFO_LEN (drop 5 data)" and cap: "9 + unat (list_max data) * INFO_LEN \<le> length data"
    and count: "vec_count (drop 5 data) \<le> unat (list_max data)"
    using sound by (simp_all add: list_sound_def)
  from retain_spec [OF U ok, of P] run
  have p: "vec_elems INFO_LEN vec = filter P (vec_elems INFO_LEN (drop 5 data))" "vec_ok INFO_LEN vec" "length vec = length (drop 5 data)"
    by auto
  have five: "5 \<le> length data" using cap by simp
  then have d: "drop 5 ?data = vec" by simp
  show entries: "list_entries ?data = filter P (list_entries data)"
    unfolding list_entries_def d p(1) ..
  have "vec_count vec \<le> vec_count (drop 5 data)"
    using vec_split(4) [OF p(2)] vec_split(4) [OF ok] p(1) length_filter_le [of P "vec_elems INFO_LEN (drop 5 data)"] by simp
  moreover have "list_max ?data = list_max data" using five by (simp add: list_max_def subslice_def drop_take)
  moreover have "length ?data = length data" using p(3) five by simp
  moreover have "distinct (map entry_vote (list_entries ?data))"
    using sound unfolding entries list_sound_def by (simp add: distinct_map_filter)
  moreover have "\<forall>e \<in> set (list_entries ?data). is_ok (info_of_bytes e)"
    using sound unfolding entries list_sound_def by auto
  ultimately show "list_sound ?data" unfolding list_sound_def d using p(2) count cap by simp
qed

section \<open>Creating a pool\<close>

lemma created_list_sound:
  assumes "calculate_max_validators (length data) = unat (m :: u32)" and "m \<noteq> 0"
  defines "bs \<equiv> AccountType_byte ValidatorListType # to_le_bytes m @ to_le_bytes (0 :: u32)"
  shows "list_sound (bs @ drop (length bs) data)" and "length bs = 9" and "9 \<le> length data"
proof -
  let ?data = "bs @ drop (length bs) data"
  show l: "length bs = 9" by (simp add: bs_def)
  have pos: "0 < unat m" using assms(2) by (simp add: unat_gt_0)
  have "unat m * INFO_LEN \<le> length data - 9"
    using assms(1) div_times_less_eq_dividend [of "length data - 9" INFO_LEN] by (simp add: calculate_max_validators_def)
  then have cap: "9 + unat m * INFO_LEN \<le> length data" using pos by (cases "length data \<le> 9") auto
  then show "9 \<le> length data" by simp
  have "take 4 (drop 5 ?data) = to_le_bytes (0 :: u32)" by (simp add: bs_def)
  then have c: "vec_count (drop 5 ?data) = 0" by (simp add: vec_count_def)
  have "list_max ?data = m" by (simp add: list_max_def bs_def layout_simps)
  moreover have "list_entries ?data = []" using c by (simp add: list_entries_def vec_elems_def)
  moreover have "length ?data = length data" using cap l by simp
  ultimately show "list_sound ?data" using cap c by (simp add: list_sound_def vec_ok_def)
qed

lemma new_pool_sound:
  assumes "\<not> (fee_above_one ef \<or> fee_above_one wd \<or> fee_above_one df \<or> rf > 100)"
  shows "pool_sound (new_stake_pool m s da bs vl rs pm mf tp t e ef wd df rf sa)"
    and "StakePool_is_valid (new_stake_pool m s da bs vl rs pm mf tp t e ef wd df rf sa)"
  using assms by (simp_all add: pool_sound_def pool_fees_def new_stake_pool_def StakePool_is_valid_def not_less)

context pool_laws
begin

lemma initialize_cases:
  assumes "process_initialize_pool E pid accounts ef wd df rf m led = Inr led'"
  obtains pi li l l2 p where "ai_key pi \<noteq> ai_key li"
    and "info_owner led pi = pid" and "\<exists>q. cd_read (pe_StakePool E) (info_data led pi) = Inr q \<and> StakePool_is_uninitialized q"
    and "info_owner led li = pid" and "\<exists>q. cd_read (pe_ValidatorList E) (info_data led li) = Inr q \<and> ValidatorListHeader_is_uninitialized (vl_header q)"
    and "calculate_max_validators (length (info_data led li)) = unat m" and "m \<noteq> 0"
    and "other_activity pid led l"
    and "store_validator_list E \<lparr>vl_header = \<lparr>vh_account_type = ValidatorListType, vh_max_validators = m\<rparr>, vl_validators = []\<rparr> li l = Inr l2"
    and "store_stake_pool E None p pi l2 = Inr led'" and "pool_sound p" and "StakePool_is_valid p"
  using assms unfolding process_initialize_pool_def Let_def
proof (elim attempt_pairE attempt_eq_InrE guardE case_pairE)
  fix a it rent u fa da sa wk bump u2 total_lamports l1 l2 clock
  assume new: "check_new_pool_accounts E pid rent (a ! 0) (a ! 4) m led = Inr u" and ne: "ai_key (a ! 0) \<noteq> ai_key (a ! 4)"
    and fees: "\<not> (fee_above_one ef \<or> fee_above_one wd \<or> fee_above_one df \<or> 100 < rf)"
    and mint: "(if 0 < total_lamports then token_mint_to E None pid (ai_key (a ! 0)) (a ! 8) (a ! 6) (a ! 7) (a ! 3) AUTHORITY_WITHDRAW bump
        total_lamports led else Inr led) = Inr l1"
    and lst: "store_validator_list E \<lparr>vl_header = \<lparr>vh_account_type = ValidatorListType, vh_max_validators = m\<rparr>, vl_validators = []\<rparr>
        (a ! 4) l1 = Inr l2"
    and pool: "store_stake_pool E None (new_stake_pool (ai_key (a ! 1)) (ai_key (a ! 2)) da bump (ai_key (a ! 4)) (ai_key (a ! 5))
        (ai_key (a ! 6)) (ai_key (a ! 7)) (ai_key (a ! 8)) total_lamports (clock_epoch clock) ef wd df rf sa) (a ! 0) l2 = Inr led'"
  have o: "other_activity pid led l1" using mint token_calls_other(2) by (auto split: if_splits)
  have facts: "info_owner led (a ! 0) = pid" "\<exists>q. cd_read (pe_StakePool E) (info_data led (a ! 0)) = Inr q \<and> StakePool_is_uninitialized q"
    "info_owner led (a ! 4) = pid"
    "\<exists>q. cd_read (pe_ValidatorList E) (info_data led (a ! 4)) = Inr q \<and> ValidatorListHeader_is_uninitialized (vl_header q)"
    "calculate_max_validators (length (info_data led (a ! 4))) = unat m" "m \<noteq> 0"
    using new unfolding check_new_pool_accounts_def pool_check_account_owner_def by (auto simp: res_simps)
  show thesis by (rule that [OF ne facts o lst pool new_pool_sound [OF fees]])
qed

end

section \<open>Every instruction\<close>

definition pools_follow :: "pool_env \<Rightarrow> pubkey \<Rightarrow> account_info list \<Rightarrow> ledger \<Rightarrow> ledger \<Rightarrow> bool" where
  "pools_follow E pid accounts led led' \<longleftrightarrow>
     (\<forall>k p. pool_at E pid led k = Some p \<longrightarrow>
        (\<exists>p'. pool_at E pid led' k = Some p' \<and> (p' = p \<or> pool_change accounts p p')))"

context pool_laws
begin

lemma reach_outcome:
  assumes "pool_reach E pid accounts led led'" and "pools_sound E pid led"
  shows "pools_sound E pid led' \<and> pools_follow E pid accounts led led'"
  using reach_sound [OF assms] reach_pool [OF assms] unfolding pools_follow_def by metis

lemma other_outcome:
  assumes "other_activity pid led l" and "pools_sound E pid led"
  shows "pools_sound E pid l \<and> pools_follow E pid accounts led l"
  by (rule reach_outcome [OF pool_reach.outside [OF pool_reach.start assms(1)] assms(2)])

lemma owned_unchanged:
  assumes "other_activity pid led l" and "acc_owner (led k) = pid"
  shows "acc_owner (l k) = pid" and "acc_data (l k) = acc_data (led k)"
  using assms unfolding other_activity_def by metis+

lemma pool_at_eq: "l' k = l k \<Longrightarrow> pool_at E pid l' k = pool_at E pid l k"
  by (simp add: pool_at_def)

text \<open>Replacing the data of one list, after other programs ran.\<close>

lemma list_outcome:
  assumes o: "other_activity pid led l" and li: "is_list_account pid led k" and sound: "pools_sound E pid led"
    and new: "list_sound (take 5 (acc_data (led k)) @ vec)"
  shows "pools_sound E pid (set_list_vec k 5 vec l) \<and> pools_follow E pid accounts led (set_list_vec k 5 vec l)"
proof -
  let ?l' = "set_list_vec k 5 vec l"
  have own: "acc_owner (led k) = pid" using li by (simp add: is_list_account_def)
  note kept = owned_unchanged [OF o own]
  have data: "acc_data (?l' k) = take 5 (acc_data (led k)) @ vec" by (simp add: set_list_vec_def kept(2))
  have elsewhere: "?l' x = l x" if "x \<noteq> k" for x using that by (simp add: set_list_vec_def set_data_other)
  have list: "is_list_account pid ?l' k"
    using li kept(1) unfolding is_list_account_def data by (cases "acc_data (led k)") (auto simp: set_list_vec_def)
  have none: "pool_at E pid ?l' k = None" "pool_at E pid led k = None"
    using pool_not_list list li by (metis not_Some_eq)+
  note rest = other_outcome [OF o sound, of accounts]
  have "pools_sound E pid ?l'"
    unfolding pools_sound_def
  proof (intro conjI allI impI)
    fix x p
    assume p: "pool_at E pid ?l' x = Some p"
    then have "?l' x = l x" using none(1) elsewhere by (cases "x = k") simp_all
    then have "pool_at E pid l x = Some p" using p by (simp only: pool_at_eq [of ?l' x l])
    then show "pool_sound p" using rest unfolding pools_sound_def by blast
  next
    fix x
    assume x: "is_list_account pid ?l' x"
    show "list_sound (acc_data (?l' x))"
    proof (cases "x = k")
      case True
      then show ?thesis using new data by simp
    next
      case False
      then show ?thesis using x rest elsewhere [of x] by (simp add: pools_sound_def is_list_account_def)
    qed
  qed
  moreover have "pools_follow E pid accounts led ?l'"
    unfolding pools_follow_def
  proof (intro allI impI)
    fix x p
    assume p: "pool_at E pid led x = Some p"
    then have "?l' x = l x" using none(2) elsewhere by (cases "x = k") simp_all
    then have "pool_at E pid ?l' x = pool_at E pid l x" by (rule pool_at_eq)
    then show "\<exists>p'. pool_at E pid ?l' x = Some p' \<and> (p' = p \<or> pool_change accounts p p')"
      using rest p unfolding pools_follow_def by metis
  qed
  ultimately show ?thesis ..
qed

lemma add_outcome:
  assumes sound: "pools_sound E pid led" and run: "process_add_validator_to_pool E pid accounts led = Inr led'"
  shows "pools_sound E pid led' \<and> pools_follow E pid accounts led led'"
proof -
  from run obtain k p l v vec where li: "is_list_account pid led k" and o: "other_activity pid led l"
    and room: "BigVec_len (list_vec k 5 led) \<noteq> Inr (list_max (acc_data (led k)))"
    and none: "find_validator k 5 (vs_vote_account_address v) led = Inr None"
    and push: "BigVec_push (pe_u32 E) INFO_LEN (ValidatorStakeInfo_pack_into_slice (pe_info_write E)) v (list_vec k 5 l) = Inr vec"
    and led': "led' = set_list_vec k 5 vec l"
    by (rule add_validator_cases)
  let ?data = "acc_data (led k)"
  have ls: "list_sound ?data" using sound li by (simp add: pools_sound_def)
  then have ok: "vec_ok INFO_LEN (drop 5 ?data)" by (simp add: list_sound_def)
  have "acc_data (l k) = ?data" using owned_unchanged [OF o] li by (simp add: is_list_account_def)
  then have push': "BigVec_push (pe_u32 E) INFO_LEN (ValidatorStakeInfo_pack_into_slice (pe_info_write E)) v (drop 5 ?data) = Inr vec"
    using push by (simp add: list_vec_def)
  have r: "vec_count (drop 5 ?data) \<noteq> unat (list_max ?data)"
    using room BigVec_len_ok [OF ok] by (auto simp: list_vec_def vec_count_def word_unat_eq_iff)
  have n: "entry_vote e \<noteq> to_le_bytes (vs_vote_account_address v)" if "e \<in> set (list_entries ?data)" for e
    using find_None [OF ok, of "to_le_bytes (vs_vote_account_address v)" memcmp_pubkey e] none that
    by (simp add: find_validator_def list_vec_def list_entries_def memcmp_pubkey_def entry_vote_def)
  have "pe_info_write E v = Inr (info_to_bytes v)" using borsh by (simp add: pool_borsh_lawful_def)
  then have "list_sound (take 5 ?data @ vec)" using pushed_sound(1) [OF u32_lawful ls r n push'] by blast
  then show ?thesis unfolding led' by (rule list_outcome [OF o li sound])
qed

lemma cleanup_outcome:
  assumes sound: "pools_sound E pid led" and run: "process_cleanup_removed_validator_entries E pid accounts led = Inr led'"
  shows "pools_sound E pid led' \<and> pools_follow E pid accounts led led'"
proof -
  from run obtain k vec where li: "is_list_account pid led k"
    and ret: "BigVec_retain (pe_u32 E) INFO_LEN is_not_removed (list_vec k 5 led) = Inr vec" and led': "led' = set_list_vec k 5 vec led"
    by (rule cleanup_cases)
  have "list_sound (acc_data (led k))" using sound li by (simp add: pools_sound_def)
  then have "list_sound (take 5 (acc_data (led k)) @ vec)"
    using retained_sound(1) [OF u32_lawful] ret by (simp add: list_vec_def)
  then show ?thesis unfolding led' by (rule list_outcome [OF other_activity_refl li sound])
qed

text \<open>A new pool and a new list take the place of accounts that were neither.\<close>

lemma initialize_outcome:
  assumes sound: "pools_sound E pid led" and run: "process_initialize_pool E pid accounts ef wd df rf m led = Inr led'"
  shows "pools_sound E pid led' \<and> pools_follow E pid accounts led led'"
proof -
  from run obtain pi li l l2 p where ne: "ai_key pi \<noteq> ai_key li"
    and po: "info_owner led pi = pid" and pu: "\<exists>q. cd_read (pe_StakePool E) (info_data led pi) = Inr q \<and> StakePool_is_uninitialized q"
    and lo: "info_owner led li = pid"
    and lu: "\<exists>q. cd_read (pe_ValidatorList E) (info_data led li) = Inr q \<and> ValidatorListHeader_is_uninitialized (vl_header q)"
    and size: "calculate_max_validators (length (info_data led li)) = unat m" "m \<noteq> 0"
    and o: "other_activity pid led l"
    and sl: "store_validator_list E \<lparr>vl_header = \<lparr>vh_account_type = ValidatorListType, vh_max_validators = m\<rparr>, vl_validators = []\<rparr> li l = Inr l2"
    and sp: "store_stake_pool E None p pi l2 = Inr led'" and p: "pool_sound p" "StakePool_is_valid p"
    by (rule initialize_cases)
  let ?kp = "ai_key pi" and ?kl = "ai_key li"
  let ?bs = "AccountType_byte ValidatorListType # to_le_bytes m @ to_le_bytes (0 :: u32)"
  note created = created_list_sound [OF size]
  have "bs = ?bs" if "cd_write (pe_ValidatorList E)
      \<lparr>vl_header = \<lparr>vh_account_type = ValidatorListType, vh_max_validators = m\<rparr>, vl_validators = []\<rparr> = Inr bs" for bs
    using borsh that by (fastforce simp: pool_borsh_lawful_def)
  then have l2: "l2 = set_data ?kl (?bs @ drop (length ?bs) (info_data l li)) l"
    using sl unfolding store_validator_list_def write_front_def by (elim attempt_eq_InrE branchE) (simp_all only: sum.inject sum.distinct)
  from sp obtain bs where led': "led' = set_data ?kp (bs @ drop (length bs) (info_data l2 pi)) l2"
    and rd: "cd_read (pe_StakePool E) (bs @ drop (length bs) (info_data l2 pi)) = Inr p"
    by (rule store_eq)
  have ldata: "acc_data (led' ?kl) = ?bs @ drop (length ?bs) (info_data led li)" and lown: "acc_owner (led' ?kl) = pid"
    using ne owned_unchanged [OF o lo] by (auto simp: led' l2)
  have elsewhere: "led' x = l x" if "x \<noteq> ?kp" "x \<noteq> ?kl" for x using that by (simp add: led' l2 set_data_other)
  have newpool: "pool_at E pid led' ?kp = Some p"
    using rd p(2) owned_unchanged [OF o po] by (simp add: pool_at_Some led' l2)
  have newlist: "is_list_account pid led' ?kl" using ldata lown by (simp add: is_list_account_def)
  have before: "pool_at E pid led ?kp = None" "pool_at E pid led ?kl = None"
  proof -
    show "pool_at E pid led ?kp = None" using pu by (auto simp: pool_at_def StakePool_is_valid_def StakePool_is_uninitialized_def)
    have "hd (info_data led li) = 0"
      using lu borsh by (auto simp: pool_borsh_lawful_def ValidatorListHeader_is_uninitialized_def)
    then show "pool_at E pid led ?kl = None"
      using pool_read_type [of "info_data led li"] by (auto simp: pool_at_def StakePool_is_valid_def split: sum.splits)
  qed
  note rest = other_outcome [OF o sound, of accounts]
  have "pools_sound E pid led'"
    unfolding pools_sound_def
  proof (intro conjI allI impI)
    fix x q
    assume q: "pool_at E pid led' x = Some q"
    then have "x \<noteq> ?kl" using newlist pool_not_list by auto
    show "pool_sound q"
    proof (cases "x = ?kp")
      case True
      then show ?thesis using q newpool p(1) by simp
    next
      case False
      then have "led' x = l x" using \<open>x \<noteq> ?kl\<close> by (rule elsewhere)
      then have "pool_at E pid l x = Some q" using q by (simp only: pool_at_eq [of led' x l])
      then show ?thesis using rest unfolding pools_sound_def by blast
    qed
  next
    fix x
    assume x: "is_list_account pid led' x"
    then have "x \<noteq> ?kp" using newpool pool_not_list by auto
    then show "list_sound (acc_data (led' x))"
      using x created(1) ldata rest elsewhere [of x] by (cases "x = ?kl") (auto simp: pools_sound_def is_list_account_def)
  qed
  moreover have "pools_follow E pid accounts led led'"
    unfolding pools_follow_def
  proof (intro allI impI)
    fix x q
    assume q: "pool_at E pid led x = Some q"
    then have "led' x = l x" using before elsewhere by (cases "x = ?kp"; cases "x = ?kl") simp_all
    then have "pool_at E pid led' x = pool_at E pid l x" by (rule pool_at_eq)
    then show "\<exists>q'. pool_at E pid led' x = Some q' \<and> (q' = q \<or> pool_change accounts q q')"
      using rest q unfolding pools_follow_def by metis
  qed
  ultimately show ?thesis ..
qed

lemmas reaches = set_preferred_validator_reach update_validator_list_reach update_stake_pool_reach set_manager_reach
  set_fee_reach set_staker_reach deposit_sol_reach set_funding_authority_reach withdraw_sol_reach

lemmas reaches_sound = remove_validator_reach decrease_validator_reach increase_validator_reach deposit_stake_reach
  withdraw_stake_reach

lemma instruction_outcome:
  assumes "pools_sound E pid led" and "process_pool_instruction E pid accounts ins led = Inr led'"
  shows "pools_sound E pid led' \<and> pools_follow E pid accounts led led'"
  using assms(2)
  by (cases ins; simp only: process_pool_instruction_def StakePoolInstruction.case)
    (erule initialize_outcome [OF assms(1)] add_outcome [OF assms(1)] cleanup_outcome [OF assms(1)] |
      rule reach_outcome [OF _ assms(1)], erule reaches reaches_sound [OF assms(1)])+

lemma call_outcome:
  assumes "pools_sound E pid led" and "process_pool E pid accounts input led = Inr led'"
  shows "pools_sound E pid led'" and "pools_follow E pid accounts led led'"
  using assms instruction_outcome [OF assms(1)] by (auto simp: process_pool_def attempt_eq_Inr)

end

section \<open>Histories\<close>

text \<open>
  The runtime may differ from call to call, so that the clock moves on and new epochs begin; the rest of the
  environment, above all the encodings, stays.
\<close>

abbreviation at_runtime :: "pool_env \<Rightarrow> runtime \<Rightarrow> pool_env" where
  "at_runtime E R \<equiv> E\<lparr>pe_runtime := R\<rparr>"

inductive pool_step :: "pool_env \<Rightarrow> pubkey \<Rightarrow> ledger \<Rightarrow> ledger \<Rightarrow> bool" for E pid where
  call: "pool_sdk_lawful (at_runtime E R) pid \<Longrightarrow> pool_invoke_lawful (at_runtime E R) pid \<Longrightarrow>
    process_pool (at_runtime E R) pid accounts input led = Inr led' \<Longrightarrow> pool_step E pid led led'"
| elsewhere: "other_activity pid led led' \<Longrightarrow> pool_step E pid led led'"

lemma at_runtime_sound: "pools_sound (at_runtime E R) pid led = pools_sound E pid led"
  by (simp add: pools_sound_def pool_at_def)

context pool_laws
begin

lemma at_runtime_laws:
  "pool_sdk_lawful (at_runtime E R) pid \<Longrightarrow> pool_invoke_lawful (at_runtime E R) pid \<Longrightarrow> pool_laws (at_runtime E R) pid"
  using borsh by unfold_locales (simp_all add: pool_borsh_lawful_def)

lemma pool_step_sound: "pool_step E pid led led' \<Longrightarrow> pools_sound E pid led \<Longrightarrow> pools_sound E pid led'"
proof (induction rule: pool_step.induct)
  case (call R accounts input led led')
  show ?case
    using pool_laws.call_outcome(1) [OF at_runtime_laws [OF call(1,2)] _ call(3)] call(4) by (simp only: at_runtime_sound)
next
  case (elsewhere led led')
  then show ?case by (auto dest: other_outcome)
qed

lemma own_call: "process_pool E pid accounts input led = Inr led' \<Longrightarrow> pool_step E pid led led'"
  using pool_step.call [where E = E and R = "pe_runtime E"] sdk invokes by simp

end

sublocale pool_laws \<subseteq> sound_pools: invariant_system "pool_step E pid" "pools_sound E pid"
  by unfold_locales (rule pool_step_sound)

context pool_laws
begin

lemma genesis_sound: "(\<And>k. acc_owner (genesis k) \<noteq> pid) \<Longrightarrow> pools_sound E pid genesis"
  by (simp add: pools_sound_def pool_at_def is_list_account_def)

lemma history_sound:
  "(\<And>k. acc_owner (genesis k) \<noteq> pid) \<Longrightarrow> (pool_step E pid)\<^sup>*\<^sup>* genesis led \<Longrightarrow> pools_sound E pid led"
  using sound_pools.run_inv genesis_sound by blast

end

end
