(* ===== verification/Stake_Value.thy ===== *)
theory Stake_Value
  imports Stake_Program
begin

text \<open>
  What the amounts of the stake pool program do to the value of a pool token: a deposit never lowers it, a
  withdrawal lowers the pool's lamports by less than one lamport more than the burnt tokens are worth, and
  the tokens minted for an epoch's fee are worth no more than the fee.  The amounts are first read as exact
  arithmetic, then the handlers are followed to the pool they store.
\<close>

section \<open>Amounts\<close>

text \<open>The documented behaviour of \<^verbatim>\<open>spl_math\<close>'s \<^verbatim>\<open>checked_ceil_div\<close> on a dividend not below the divisor.\<close>

definition ceil_div_lawful :: "ceil_division \<Rightarrow> bool" where
  "ceil_div_lawful cd \<longleftrightarrow>
     (\<forall>a b. b \<noteq> 0 \<longrightarrow> b \<le> a \<longrightarrow> (\<exists>q r. cd a b = Some (q, r) \<and> unat q = (unat a + unat b - 1) div unat b))"

lemma ceil_bounds:
  fixes a b :: nat
  assumes "0 < b"
  shows "a \<le> (a + b - 1) div b * b" and "(a + b - 1) div b * b < a + b"
proof -
  have eq: "(a + b - 1) div b * b + (a + b - 1) mod b = a + b - 1" by simp
  have "(a + b - 1) mod b < b" using assms by simp
  then show "a \<le> (a + b - 1) div b * b" using eq by linarith
  show "(a + b - 1) div b * b < a + b" using eq assms by linarith
qed

lemma withdraw_amount_bounds:
  assumes "ceil_div_lawful cd" and "calc_lamports_withdraw_amount cd p b = Some w"
  defines "T \<equiv> unat (sp_total_lamports p)" and "S \<equiv> unat (sp_pool_token_supply p)"
  shows "unat w * S < unat b * T + S \<or> w = 0" and "unat b * T \<le> unat w * S \<or> w = 0"
proof -
  let ?n = "ucast b * ucast (sp_total_lamports p) :: u128" and ?d = "ucast (sp_pool_token_supply p) :: u128"
  have n: "unat ?n = unat b * T" by (simp add: checked_mul_u64 T_def)
  have "w = 0 \<or> (unat b * T \<le> unat w * S \<and> unat w * S < unat b * T + S)"
  proof (cases "?n < ?d \<or> ?d = 0")
    case True
    then show ?thesis using assms(2) by (auto simp: calc_lamports_withdraw_amount_def checked_mul_u64 Let_def)
  next
    case False
    then obtain q r where q: "cd ?n ?d = Some (q, r)" "unat q = (unat ?n + unat ?d - 1) div unat ?d"
      using assms(1) unfolding ceil_div_lawful_def not_less de_Morgan_disj by blast
    have "unat w = unat q"
      using assms(2) False q(1)
      by (simp add: calc_lamports_withdraw_amount_def checked_mul_u64 Let_def try_from_word_eq_Some del: ucast_u64_u128_eq_0)
    then have "unat w = (unat b * T + S - 1) div S" using q(2) n by (simp add: S_def)
    moreover have "0 < S" using False by (simp add: S_def unat_gt_0)
    ultimately show ?thesis using ceil_bounds [of S "unat b * T"] by simp
  qed
  then show "unat w * S < unat b * T + S \<or> w = 0" and "unat b * T \<le> unat w * S \<or> w = 0" by blast+
qed

lemma deposit_tokens_le:
  assumes "calc_pool_tokens_for_deposit p d = Some t" and "sp_pool_token_supply p \<noteq> 0 \<or> sp_total_lamports p = 0"
  shows "unat t * unat (sp_total_lamports p) \<le> unat d * unat (sp_pool_token_supply p)"
  using assms by (auto simp: calc_pool_tokens_for_deposit_eq split: if_splits)

lemma deposit_tokens_mono:
  assumes "calc_pool_tokens_for_deposit p d = Some t" and "calc_pool_tokens_for_deposit p d' = Some t'" and "d \<le> d'"
  shows "unat t \<le> unat t'"
  using assms by (auto simp: calc_pool_tokens_for_deposit_eq word_le_nat_alt split: if_splits intro: div_le_mono mult_le_mono1)

text \<open>The division of a deposit's tokens.\<close>

lemma split_deposit_sum:
  assumes "split_deposit t f r = Inr (u, m, r')"
  shows "unat u + unat m + unat r' = unat t" and "0 < unat u"
proof -
  have "u \<noteq> 0" using assms by (auto simp: split_deposit_def res_simps)
  then show "0 < unat u" by (simp add: unat_gt_0)
  show "unat u + unat m + unat r' = unat t" using assms by (auto simp: split_deposit_def res_simps checked_sub_eq_Some)
qed

lemma add_to_pool_eq:
  "add_to_pool t d p = Inr p' \<longleftrightarrow>
     (\<exists>s l. unat s = unat (sp_pool_token_supply p) + unat t \<and> unat l = unat (sp_total_lamports p) + unat d \<and>
        p' = p\<lparr>sp_pool_token_supply := s, sp_total_lamports := l\<rparr>)"
  by (auto simp: add_to_pool_def res_simps checked_add_eq_Some)

lemma take_from_pool_eq:
  "take_from_pool b w p = Inr p' \<longleftrightarrow>
     (\<exists>s l. unat b \<le> unat (sp_pool_token_supply p) \<and> unat s = unat (sp_pool_token_supply p) - unat b \<and>
        unat w \<le> unat (sp_total_lamports p) \<and> unat l = unat (sp_total_lamports p) - unat w \<and>
        p' = p\<lparr>sp_pool_token_supply := s, sp_total_lamports := l\<rparr>)"
  by (auto simp: take_from_pool_def res_simps checked_sub_eq_Some)

text \<open>The value of a token: \<open>p'\<close> has at least \<open>p\<close>'s lamports per token.\<close>

definition not_diluted :: "StakePool \<Rightarrow> StakePool \<Rightarrow> bool" where
  "not_diluted p p' \<longleftrightarrow>
     unat (sp_pool_token_supply p') * unat (sp_total_lamports p) \<le> unat (sp_pool_token_supply p) * unat (sp_total_lamports p')"

lemma add_not_diluted:
  assumes "calc_pool_tokens_for_deposit p d = Some t" and "sp_pool_token_supply p \<noteq> 0 \<or> sp_total_lamports p = 0" and "add_to_pool t d p = Inr p'"
  shows "not_diluted p p'"
  using deposit_tokens_le [OF assms(1,2)] assms(3) by (auto simp: add_to_pool_eq not_diluted_def algebra_simps)

lemma take_price:
  assumes "ceil_div_lawful cd" and "calc_lamports_withdraw_amount cd p b = Some w" and "w \<noteq> 0" and "take_from_pool b w p = Inr p'"
  shows "unat (sp_pool_token_supply p') * unat (sp_total_lamports p)
      < unat (sp_pool_token_supply p) * (unat (sp_total_lamports p') + 1)"
proof -
  let ?T = "unat (sp_total_lamports p)" and ?S = "unat (sp_pool_token_supply p)"
  have w: "unat w * ?S < unat b * ?T + ?S" using withdraw_amount_bounds(1) [OF assms(1,2)] assms(3) by simp
  have le: "unat b \<le> ?S" "unat w \<le> ?T" and p': "unat (sp_pool_token_supply p') = ?S - unat b" "unat (sp_total_lamports p') = ?T - unat w"
    using assms(4) by (auto simp: take_from_pool_eq)
  obtain s l where s: "?S = s + unat b" "?T = l + unat w" using le by (metis le_Suc_ex add.commute)
  then show ?thesis using w unfolding p' by (simp add: algebra_simps)
qed

lemma withdraw_after_deposit:
  assumes "ceil_div_lawful cd" and "calc_pool_tokens_for_deposit p d = Some t" and "sp_pool_token_supply p \<noteq> 0 \<or> sp_total_lamports p = 0"
    and "add_to_pool t d p = Inr p'" and "calc_lamports_withdraw_amount cd p' b = Some w" and "unat b \<le> unat t"
  shows "unat w \<le> unat d"
proof (cases "w = 0")
  case False
  let ?S = "unat (sp_pool_token_supply p)" and ?T = "unat (sp_total_lamports p)"
  have p': "unat (sp_pool_token_supply p') = ?S + unat t" "unat (sp_total_lamports p') = ?T + unat d"
    using assms(4) by (auto simp: add_to_pool_eq)
  have "unat w * (?S + unat t) < unat b * (?T + unat d) + (?S + unat t)"
    using withdraw_amount_bounds(1) [OF assms(1,5)] False unfolding p' by simp
  also have "\<dots> \<le> unat t * (?T + unat d) + (?S + unat t)" using assms(6) by simp
  also have "\<dots> \<le> (unat d + 1) * (?S + unat t)" using deposit_tokens_le [OF assms(2,3)] by (simp add: algebra_simps)
  finally have "unat w < unat d + 1" by (rule mult_less_cancel2 [THEN iffD1, THEN conjunct2])
  then show ?thesis by simp
qed simp

text \<open>The tokens minted for an epoch's fee.\<close>

definition fee_lamports :: "Fee \<Rightarrow> u64 \<Rightarrow> nat" where
  "fee_lamports fee amt = (if fe_denominator fee = 0 then 0 else unat amt * unat (fe_numerator fee) div unat (fe_denominator fee))"

lemma epoch_fee_eq:
  assumes "calc_epoch_fee_amount p r = Some f" and "\<not> fee_above_one (sp_epoch_fee p)" and "sp_pool_token_supply p \<noteq> 0"
  defines "T \<equiv> unat (sp_total_lamports p) + unat r" and "F \<equiv> fee_lamports (sp_epoch_fee p) r"
  shows "F \<le> unat r" and "unat f = (if r = 0 then 0 else if T = F then unat r else unat (sp_pool_token_supply p) * F div (T - F))"
proof -
  obtain x where x: "Fee_apply (sp_epoch_fee p) r = Some x" using Fee_apply_total by blast
  then have F: "unat x = F" by (simp add: Fee_apply_eq F_def fee_lamports_def)
  show le: "F \<le> unat r" using fee_part_le [OF assms(2), of r] by (simp add: F_def fee_lamports_def)
  have fits: "T < 2 ^ 128" using unat_bound [of "sp_total_lamports p"] unat_bound [of r] by (simp add: T_def)
  then have t: "unat (ucast (sp_total_lamports p) + ucast r :: u128) = T" by (simp add: T_def unat_word_ariths)
  have c: "checked_add (ucast (sp_total_lamports p) :: u128) (ucast r) = Some (ucast (sp_total_lamports p) + ucast r)"
    using fits by (simp add: checked_add_def T_def)
  show "unat f = (if r = 0 then 0 else if T = F then unat r else unat (sp_pool_token_supply p) * F div (T - F))"
    using assms(1,3) unfolding calc_epoch_fee_amount_def
    by (auto simp: c x bind_eq_Some_conv checked_mul_eq_Some checked_sub_eq_Some checked_div_eq_Some try_from_word_eq_Some F
        word_unat_eq_iff [of "ucast (sp_total_lamports p) + ucast r" x] t split: if_splits)
qed

lemma epoch_fee_worth:
  assumes "calc_epoch_fee_amount p r = Some f" and "\<not> fee_above_one (sp_epoch_fee p)" and "sp_pool_token_supply p \<noteq> 0"
  shows "unat f * (unat (sp_total_lamports p) + unat r)
      \<le> (unat (sp_pool_token_supply p) + unat f) * fee_lamports (sp_epoch_fee p) r"
proof -
  let ?T = "unat (sp_total_lamports p) + unat r" and ?F = "fee_lamports (sp_epoch_fee p) r" and ?S = "unat (sp_pool_token_supply p)"
  note e = epoch_fee_eq [OF assms]
  show ?thesis
  proof (cases "r = 0 \<or> ?T = ?F")
    case True
    then show ?thesis using e by auto
  next
    case False
    then have "unat f = ?S * ?F div (?T - ?F)" using e(2) by simp
    then have "unat f * (?T - ?F) \<le> ?S * ?F" by simp
    moreover obtain d where d: "?T = ?F + d" using e(1) by (metis le_add2 le_trans le_Suc_ex)
    ultimately have "unat f * d \<le> ?S * ?F" by simp
    then show ?thesis unfolding d by (simp add: algebra_simps)
  qed
qed

section \<open>The handlers\<close>

lemma accounts_hd: "next_accounts n accounts = Inr (a, it) \<Longrightarrow> 0 < n \<Longrightarrow> a ! 0 = accounts ! 0"
  by (auto simp: next_accounts_def split: if_splits)

context pool_laws
begin

text \<open>A pool that a run stores is the one read afterwards, since the account is still the program's.\<close>

lemma stored_pool:
  assumes "pool_reach E pid accounts led l" and "pools_sound E pid led" and "pool_at E pid led (ai_key info) = Some p"
    and "store_stake_pool E held p' info l = Inr l'" and "sp_account_type p' = sp_account_type p"
  shows "pool_at E pid l' (ai_key info) = Some p'"
proof -
  obtain q where "pool_at E pid l (ai_key info) = Some q" using reach_pool [OF assms(1-3)] by blast
  then have "acc_owner (l (ai_key info)) = pid" by (simp add: pool_at_Some)
  moreover have "StakePool_is_valid p'" using assms(3,5) by (simp add: pool_at_Some StakePool_is_valid_def)
  ultimately show ?thesis using assms(4) by (elim store_eq) (simp add: pool_at_Some)
qed

lemma deposit_sol_pool:
  assumes sound: "pools_sound E pid led" and run: "process_deposit_sol E pid accounts d led = Inr led'"
  obtains p t s p' where "pool_at E pid led (ai_key (accounts ! 0)) = Some p" and "price_sol_deposit p d = Inr (t, s)"
    and "add_to_pool t d p = Inr p'" and "pool_at E pid led' (ai_key (accounts ! 0)) = Some p'"
  using run unfolding process_deposit_sol_def Let_def
proof (elim attempt_pairE attempt_eq_InrE guardE)
  fix a it clock p t s l1 l2 p'
  assume acc: "next_accounts 10 accounts = Inr (a, it)" and load: "load_stake_pool E pid (a ! 0) led = Inr p"
    and price: "price_sol_deposit p d = Inr (t, s)" and calls: "sol_transfer E pid (a ! 3) (a ! 2) (a ! 8) d led = Inr l1"
      "mint_deposit E None pid p (a ! 0) (a ! 9) (a ! 7) (a ! 4) (a ! 5) (a ! 6) (a ! 1) s l1 = Inr l2"
    and add: "add_to_pool t d p = Inr p'" and store: "store_stake_pool E None p' (a ! 0) l2 = Inr led'"
  have k: "a ! 0 = accounts ! 0" by (rule accounts_hd [OF acc]) simp
  have p: "pool_at E pid led (ai_key (a ! 0)) = Some p" using load by (simp add: load_pool)
  have "other_activity pid led l2" by (rule other_activity_trans [OF calls_other(7) [OF calls(1)] mint_deposit_other [OF calls(2)]])
  then have "pool_reach E pid accounts led l2" by (rule pool_reach.outside [OF pool_reach.start])
  then have "pool_at E pid led' (ai_key (a ! 0)) = Some p'"
    by (rule stored_pool [OF _ sound p store]) (use add in \<open>auto simp: add_to_pool_eq\<close>)
  then show thesis using that p price add unfolding k by blast
qed

text \<open>The last write of the stake handlers is to the list, and so not to the pool.\<close>

lemma entry_keeps_pool:
  assumes "modify_entry k 5 i f l = Inr l'" and "is_list_account pid led k" and "pool_at E pid led k' = Some q"
  shows "pool_at E pid l' k' = pool_at E pid l k'"
proof -
  have "k' \<noteq> k" using assms(2,3) pool_not_list by blast
  then show ?thesis using assms(1) by (elim modify_eq) (rule pool_at_eq, simp add: set_data_other)
qed

lemma take_from_entry_keeps_pool:
  assumes "take_from_entry k 5 item n l = Inr l'" and "is_list_account pid led k" and "pool_at E pid led k' = Some q"
  shows "pool_at E pid l' k' = pool_at E pid l k'"
  using assms(1) entry_keeps_pool [OF _ assms(2,3)] unfolding take_from_entry_def
  by (auto simp: res_simps split: option.splits if_splits)

lemma deposit_stake_pool:
  assumes sound: "pools_sound E pid led" and run: "process_deposit_stake E pid accounts led = Inr led'"
  obtains p d d' t s p' where "pool_at E pid led (ai_key (accounts ! 0)) = Some p" and "price_stake_deposit p d d' = Inr (t, s)"
    and "add_to_pool t d p = Inr p'" and "pool_at E pid led' (ai_key (accounts ! 0)) = Some p'"
  using run unfolding process_deposit_stake_def Let_def
proof (elim attempt_pairE attempt_eq_InrE guardE case_pairE)
  fix a :: "account_info list" and it clock b it2 p u header off m val found i v da bump l1 l2 m2 post d d' d'' t s l3 l4 p' l5 active
  let ?held = "Some (ai_key (a ! 1))"
  assume acc: "next_accounts 12 accounts = Inr (a, it)" and load: "load_stake_pool E pid (a ! 0) led = Inr p"
    and own: "pool_check_account_owner led (a ! 1) pid = Inr u" and opened: "open_validator_list E (a ! 1) led = Inr (header, off)"
    and auth: "(if ai_key (a ! 2) = da
        then stake_authorize_signed E ?held pid (ai_key (a ! 0)) (a ! 4) (a ! 2) AUTHORITY_DEPOSIT bump (ai_key (a ! 3)) (a ! 11) (b ! 2) led
        else stake_authorize E ?held pid (a ! 4) (a ! 2) (ai_key (a ! 3)) (a ! 11) (b ! 2) led) = Inr l1"
    and merge: "stake_merge E ?held pid (ai_key (a ! 0)) (a ! 4) (a ! 3) AUTHORITY_WITHDRAW (sp_stake_withdraw_bump_seed p) (a ! 5) (a ! 11)
        (b ! 0) (b ! 2) l1 = Inr l2"
    and price: "price_stake_deposit p d d' = Inr (t, s)"
    and mint: "mint_deposit E ?held pid p (a ! 0) (b ! 1) (a ! 10) (a ! 7) (a ! 8) (a ! 9) (a ! 3) s l2 = Inr l3"
    and sol: "(if 0 < d'' then stake_withdraw E ?held pid (ai_key (a ! 0)) (a ! 5) (a ! 3) AUTHORITY_WITHDRAW
        (sp_stake_withdraw_bump_seed p) (a ! 6) (a ! 11) (b ! 0) (b ! 2) d'' l3 else Inr l3) = Inr l4"
    and add: "add_to_pool t d p = Inr p'" and store: "store_stake_pool E ?held p' (a ! 0) l4 = Inr l5"
    and last: "modify_entry (ai_key (a ! 1)) off i (\<lambda>v. v\<lparr>vs_active_stake_lamports := active\<rparr>) l5 = Inr led'"
  have k: "a ! 0 = accounts ! 0" by (rule accounts_hd [OF acc]) simp
  have p: "pool_at E pid led (ai_key (a ! 0)) = Some p" using load by (simp add: load_pool)
  note li = open_list [OF opened own]
  have "pool_reach E pid accounts led l1" by (rule deposit_authorized_reach [OF auth pool_reach.start])
  then have "pool_reach E pid accounts led l3" using merge mint by (blast intro: reach_calls)
  from sol _ this have "pool_reach E pid accounts led l4" by (rule if_call_reach) (rule calls_other(6))
  then have "pool_at E pid l5 (ai_key (a ! 0)) = Some p'"
    by (rule stored_pool [OF _ sound p store]) (use add in \<open>auto simp: add_to_pool_eq\<close>)
  then have "pool_at E pid led' (ai_key (a ! 0)) = Some p'"
    using entry_keeps_pool [OF last [unfolded li(2)] li(1) p] by simp
  then show thesis using that p price add unfolding k by blast
qed

lemma withdraw_sol_pool:
  assumes sound: "pools_sound E pid led" and run: "process_withdraw_sol E pid accounts n led = Inr led'"
  obtains p held i j fee f b w p' where "pool_at E pid led (ai_key (accounts ! 0)) = Some p"
    and "price_withdrawal E held p i j fee n led = Inr (f, b, w)"
    and "take_from_pool b w p = Inr p'" and "pool_at E pid led' (ai_key (accounts ! 0)) = Some p'"
  using run unfolding process_withdraw_sol_def Let_def
proof (elim attempt_pairE attempt_eq_InrE guardE case_pairE; hypsubst?)
  fix a it p f b w l1 l2 l3 p'
  assume acc: "next_accounts 12 accounts = Inr (a, it)" and load: "load_stake_pool E pid (a ! 0) led = Inr p"
    and price: "price_withdrawal E None p (a ! 3) (a ! 6) (calc_pool_tokens_sol_withdrawal_fee p n) n led = Inr (f, b, w)"
    and burn: "token_burn E None pid (a ! 11) (a ! 3) (a ! 7) (a ! 2) b led = Inr l1"
    and pay: "(if 0 < f then token_transfer E None pid (a ! 11) (a ! 3) (a ! 6) (a ! 2) f l1 else Inr l1) = Inr l2"
    and sol: "stake_withdraw E None pid (ai_key (a ! 0)) (a ! 4) (a ! 1) AUTHORITY_WITHDRAW (sp_stake_withdraw_bump_seed p) (a ! 5)
        (a ! 8) (a ! 9) (a ! 10) w l2 = Inr l3"
    and take: "take_from_pool b w p = Inr p'" and store: "store_stake_pool E None p' (a ! 0) l3 = Inr led'"
  have k: "a ! 0 = accounts ! 0" by (rule accounts_hd [OF acc]) simp
  have p: "pool_at E pid led (ai_key (a ! 0)) = Some p" using load by (simp add: load_pool)
  have "pool_reach E pid accounts led l1" by (rule pool_reach.outside [OF pool_reach.start token_calls_other(1) [OF burn]])
  from pay _ this have "pool_reach E pid accounts led l2" by (rule if_call_reach) (rule token_calls_other(3))
  then have "pool_reach E pid accounts led l3" by (rule pool_reach.outside) (rule calls_other(6) [OF sol])
  then have "pool_at E pid led' (ai_key (a ! 0)) = Some p'"
    by (rule stored_pool [OF _ sound p store]) (use take in \<open>auto simp: take_from_pool_eq\<close>)
  then show thesis using that p price take unfolding k by blast
qed

lemma withdraw_stake_pool:
  assumes sound: "pools_sound E pid led" and run: "process_withdraw_stake E pid accounts n led = Inr led'"
  obtains p held i j fee f b w p' where "pool_at E pid led (ai_key (accounts ! 0)) = Some p"
    and "price_withdrawal E held p i j fee n led = Inr (f, b, w)"
    and "take_from_pool b w p = Inr p'" and "pool_at E pid led' (ai_key (accounts ! 0)) = Some p'"
  using run unfolding process_withdraw_stake_def Let_def
proof (elim attempt_pairE attempt_eq_InrE guardE case_pairE; hypsubst?)
  fix a :: "account_info list" and it b' it' p u header off f b w item l1 l2 l3 l4 p' l5
  let ?held = "Some (ai_key (a ! 1))"
  assume acc: "next_accounts 11 accounts = Inr (a, it)" and load: "load_stake_pool E pid (a ! 0) led = Inr p"
    and own: "pool_check_account_owner led (a ! 1) pid = Inr u" and opened: "open_validator_list E (a ! 1) led = Inr (header, off)"
    and price: "price_withdrawal E ?held p (a ! 7) (a ! 8) (calc_pool_tokens_stake_withdrawal_fee p n) n led = Inr (f, b, w)"
    and calls: "token_burn E ?held pid (b' ! 0) (a ! 7) (a ! 9) (a ! 6) b led = Inr l1"
      "stake_split E ?held pid (ai_key (a ! 0)) (a ! 3) (a ! 2) AUTHORITY_WITHDRAW (sp_stake_withdraw_bump_seed p) w (a ! 4) l1 = Inr l2"
      "stake_authorize_signed E ?held pid (ai_key (a ! 0)) (a ! 4) (a ! 2) AUTHORITY_WITHDRAW (sp_stake_withdraw_bump_seed p)
        (ai_key (a ! 5)) (a ! 10) (b' ! 1) l2 = Inr l3"
      "(if 0 < f then token_transfer E ?held pid (b' ! 0) (a ! 7) (a ! 8) (a ! 6) f l3 else Inr l3) = Inr l4"
    and take: "take_from_pool b w p = Inr p'" and store: "store_stake_pool E ?held p' (a ! 0) l4 = Inr l5"
    and last: "take_from_entry (ai_key (a ! 1)) off item w l5 = Inr led'"
  have k: "a ! 0 = accounts ! 0" by (rule accounts_hd [OF acc]) simp
  have p: "pool_at E pid led (ai_key (a ! 0)) = Some p" using load by (simp add: load_pool)
  note li = open_list [OF opened own]
  have "other_activity pid led l3"
    by (rule other_activity_trans [OF token_calls_other(1) [OF calls(1)]
        other_activity_trans [OF calls_other(4) [OF calls(2)] authorize_other(2) [OF calls(3)]]])
  then have "pool_reach E pid accounts led l3" by (rule pool_reach.outside [OF pool_reach.start])
  from calls(4) _ this have "pool_reach E pid accounts led l4" by (rule if_call_reach) (rule token_calls_other(3))
  then have "pool_at E pid l5 (ai_key (a ! 0)) = Some p'"
    by (rule stored_pool [OF _ sound p store]) (use take in \<open>auto simp: take_from_pool_eq\<close>)
  then have "pool_at E pid led' (ai_key (a ! 0)) = Some p'"
    using take_from_entry_keeps_pool [OF last [unfolded li(2)] li(1) p] by simp
  then show thesis using that p price take unfolding k by blast
qed

lemma price_withdrawal_amount:
  assumes "price_withdrawal E held p i j fee n led = Inr (f, b, w)"
  shows "calc_lamports_withdraw_amount (pe_ceil_div E) p b = Some w" and "w \<noteq> 0" and "unat b + unat f = unat n"
  using assms unfolding price_withdrawal_def by (auto simp: res_simps checked_sub_eq_Some)

end

end
