(* ===== verification/Stake_Sample.thy ===== *)
theory Stake_Sample
  imports Stake_Value Token_Safety
begin

text \<open>
  A concrete environment for the stake pool program in which its contract holds: the real encodings of the
  list, its header and its entries, a table for the pools, and the runtime of the token program's example.
  It carries the concrete executions of the next theory.
\<close>

section \<open>A concrete environment\<close>

definition sample_pool :: "u64 \<Rightarrow> u64 \<Rightarrow> StakePool" where
  "sample_pool lamports supply =
     (new_stake_pool 31 32 77 255 61 62 63 64 5 lamports 3 \<lparr>fe_denominator = 10, fe_numerator = 1\<rparr>
        \<lparr>fe_denominator = 100, fe_numerator = 1\<rparr> \<lparr>fe_denominator = 20, fe_numerator = 1\<rparr> 50 None)
        \<lparr>sp_pool_token_supply := supply\<rparr>"

text \<open>A pool opened in epoch 2, the pool with an announced fee, and the pool after the update in the next epoch.\<close>

definition young_pool :: StakePool where
  "young_pool = (sample_pool 10 10)\<lparr>sp_last_update_epoch := 2\<rparr>"

definition announced_pool :: StakePool where
  "announced_pool =
     (sample_pool 10 10)\<lparr>sp_last_update_epoch := 2, sp_next_sol_withdrawal_fee := Some \<lparr>fe_denominator = 200, fe_numerator = 3\<rparr>\<rparr>"

definition renewed_pool :: StakePool where
  "renewed_pool =
     (sample_pool 10 0)\<lparr>sp_sol_withdrawal_fee := \<lparr>fe_denominator = 200, fe_numerator = 3\<rparr>, sp_last_epoch_total_lamports := 10,
       sp_last_epoch_pool_token_supply := 10\<rparr>"

definition pool_table :: "StakePool list" where
  "pool_table =
     [sample_pool 3000 2000, sample_pool 3100 2066, sample_pool 2992 1995,
      (sample_pool 3000 2000)\<lparr>sp_next_sol_withdrawal_fee := Some \<lparr>fe_denominator = 200, fe_numerator = 3\<rparr>\<rparr>, sample_pool 10 10,
      announced_pool, renewed_pool, young_pool]"

definition no_pool :: StakePool where
  "no_pool = (sample_pool 0 0)\<lparr>sp_account_type := UninitializedAccountType\<rparr>"

definition pool_codec :: "StakePool codec" where
  "pool_codec =
     \<lparr>cd_read = (\<lambda>bs. if bs \<noteq> [] \<and> hd bs = 0 then Inr no_pool else cd_read (table_codec 1 pool_table) bs),
      cd_write = cd_write (table_codec 1 pool_table)\<rparr>"

definition byte_AccountType :: "u8 \<Rightarrow> AccountType res" where
  "byte_AccountType b =
     (if b = 0 then Inr UninitializedAccountType else if b = 1 then Inr StakePoolType
      else if b = 2 then Inr ValidatorListType else Inl BorshIoError)"

definition header_codec :: "ValidatorListHeader codec" where
  "header_codec =
     \<lparr>cd_read = (\<lambda>bs.
        if length bs < 5 then Inl BorshIoError
        else attempt (byte_AccountType (hd bs)) (\<lambda>t.
          Inr \<lparr>vh_account_type = t, vh_max_validators = from_le_bytes (subslice 1 4 bs)\<rparr>)),
      cd_write = (\<lambda>h. Inr (AccountType_byte (vh_account_type h) # to_le_bytes (vh_max_validators h)))\<rparr>"

definition list_codec :: "ValidatorList codec" where
  "list_codec =
     \<lparr>cd_read = (\<lambda>bs. attempt (cd_read header_codec bs) (\<lambda>h. Inr \<lparr>vl_header = h, vl_validators = []\<rparr>)),
      cd_write = (\<lambda>l. attempt (cd_write header_codec (vl_header l)) (\<lambda>bs.
        if vl_validators l = [] then Inr (bs @ to_le_bytes (0 :: u32)) else Inl BorshIoError))\<rparr>"

definition u32_codec :: borsh_u32 where
  "u32_codec = \<lparr>bu_read = (\<lambda>bs. if length bs = 4 then Inr (from_le_bytes bs) else Inl BorshIoError), bu_write = (\<lambda>n. Inr (to_le_bytes n))\<rparr>"

definition ceil_div_nat :: ceil_division where
  "ceil_div_nat a b = (if b = 0 \<or> a < b then None else Some (of_nat ((unat a + unat b - 1) div unat b), b))"

definition reserve_meta :: Meta where
  "reserve_meta = \<lparr>me_rent_exempt_reserve = 3, me_staker = 77, me_withdrawer = 77, me_lockup = Lockup_default\<rparr>"

definition call_of :: "pubkey \<Rightarrow> sol_instruction" where
  "call_of program = \<lparr>ix_program_id = program, ix_accounts = [], ix_data = []\<rparr>"

definition pool_world :: pool_env where
  "pool_world =
     \<lparr>pe_runtime = example_runtime, pe_u32 = u32_codec, pe_StakePool = pool_codec, pe_ValidatorList = list_codec,
      pe_header = header_codec, pe_info_write = (\<lambda>v. Inr (info_to_bytes v)),
      pe_stake_state = (\<lambda>bs. Inr (StakeInitialized reserve_meta)),
      pe_instruction = (\<lambda>bs.
        if bs = [0] then Inr (InitializePool \<lparr>fe_denominator = 10, fe_numerator = 1\<rparr> \<lparr>fe_denominator = 100, fe_numerator = 1\<rparr>
          \<lparr>fe_denominator = 20, fe_numerator = 1\<rparr> 50 2)
        else if bs = [1] then Inr CleanupRemovedValidatorEntries
        else if bs = [2] then Inr (SetFee (SolWithdrawalFee \<lparr>fe_denominator = 200, fe_numerator = 3\<rparr>))
        else if bs = [3] then Inr UpdateStakePoolBalance
        else Inl InvalidInstructionData),
      pe_ceil_div = ceil_div_nat, pe_stake_program_id = 7, pe_stake_state_size = 200,
      pe_stake_initialize = (\<lambda>_ _ _ _. call_of 7), pe_stake_delegate = (\<lambda>_ _ _. call_of 7),
      pe_stake_deactivate = (\<lambda>_ _. call_of 7), pe_stake_split = (\<lambda>_ _ _ _. [call_of 7]),
      pe_stake_merge = (\<lambda>_ _ _. [call_of 7]), pe_stake_authorize = (\<lambda>_ _ _ _. call_of 7),
      pe_stake_withdraw = (\<lambda>_ _ _ _. call_of 7), pe_system_create_account = (\<lambda>_ _ _ _ _. call_of 0),
      pe_system_transfer = (\<lambda>_ _ _. call_of 0), pe_system_allocate = (\<lambda>_ _. call_of 0), pe_system_assign = (\<lambda>_ _. call_of 0)\<rparr>"

lemma pool_world_fields [simp]:
  "pe_runtime pool_world = example_runtime" "pe_u32 pool_world = u32_codec" "pe_StakePool pool_world = pool_codec"
  "pe_ValidatorList pool_world = list_codec" "pe_header pool_world = header_codec"
  "pe_info_write pool_world = (\<lambda>v. Inr (info_to_bytes v))"
  "pe_stake_state pool_world = (\<lambda>bs. Inr (StakeInitialized reserve_meta))"
  "pe_ceil_div pool_world = ceil_div_nat" "pe_stake_program_id pool_world = 7"
  "pe_stake_withdraw pool_world = (\<lambda>_ _ _ _. call_of 7)" "pe_system_transfer pool_world = (\<lambda>_ _ _. call_of 0)"
  by (simp_all add: pool_world_def)

lemma example_token_program: "token_program_id example_runtime = 5"
  by (simp add: token_program_id_def example_runtime_def)

lemma call_of_program [simp]: "ix_program_id (call_of k) = k" "ix_accounts (call_of k) = []"
  by (simp_all add: call_of_def)

section \<open>Its laws\<close>

lemma pool_types: "p \<in> set pool_table \<Longrightarrow> sp_account_type p = StakePoolType"
  by (auto simp: pool_table_def announced_pool_def renewed_pool_def young_pool_def sample_pool_def new_stake_pool_def)

lemma pool_codec_roundtrip: "codec_roundtrip pool_codec"
  unfolding codec_roundtrip_def
proof (intro allI impI)
  fix v bs rest
  assume w: "cd_write pool_codec v = Inr bs"
  then have t: "cd_write (table_codec 1 pool_table) v = Inr bs" by (simp add: pool_codec_def)
  then have "bs \<noteq> [] \<and> hd bs = 1" by (auto simp: table_codec_def split: option.splits)
  moreover have "cd_read (table_codec 1 pool_table) (bs @ rest) = Inr v"
    using table_codec_roundtrip [of pool_table 1] t by (simp add: codec_roundtrip_def pool_table_def)
  ultimately show "cd_read pool_codec (bs @ rest) = Inr v" by (simp add: pool_codec_def)
qed

lemma pool_codec_typed: "cd_read pool_codec bs = Inr p \<Longrightarrow> bs \<noteq> [] \<and> hd bs = AccountType_byte (sp_account_type p)"
  using pool_types
  by (auto simp: pool_codec_def table_codec_def no_pool_def split: if_splits list.splits)

lemma byte_AccountType: "byte_AccountType b = Inr t \<Longrightarrow> b = AccountType_byte t"
  by (auto simp: byte_AccountType_def split: if_splits)

lemma world_borsh: "pool_borsh_lawful pool_world"
  using pool_codec_roundtrip pool_codec_typed
  by (auto simp: pool_borsh_lawful_def borsh_u32_lawful_def u32_codec_def header_codec_def list_codec_def res_simps
      split: if_splits dest: byte_AccountType)

lemma world_sdk: "pool_sdk_lawful pool_world 8"
  by (simp add: pool_sdk_lawful_def example_token_program) (simp add: pool_world_def)

lemma world_invoke: "pool_invoke_lawful pool_world 8"
  by (simp add: pool_invoke_lawful_def example_runtime_def)

interpretation world: pool_laws pool_world 8
  by unfold_locales (rule world_borsh world_sdk world_invoke)+

lemma ceil_le:
  fixes a b :: nat
  assumes "0 < b"
  shows "(a + b - 1) div b \<le> a"
proof (rule ccontr)
  define q where "q = (a + b - 1) div b"
  assume "\<not> (a + b - 1) div b \<le> a"
  then have "(a + 1) * b \<le> q * b" unfolding q_def by (intro mult_le_mono1) simp
  moreover have "q * b < a + b" unfolding q_def by (rule ceil_bounds(2) [OF assms])
  moreover have "a \<le> a * b" using assms by simp
  ultimately show False by simp
qed

lemma world_ceil: "ceil_div_lawful (pe_ceil_div pool_world)"
proof -
  have "unat (of_nat ((unat a + unat b - 1) div unat b) :: u128) = (unat a + unat b - 1) div unat b" if "b \<noteq> 0" "b \<le> a" for a b :: u128
  proof -
    have "0 < unat b" using that(1) by (simp add: unat_gt_0)
    then have "(unat a + unat b - 1) div unat b \<le> unat a" by (rule ceil_le)
    then have "(unat a + unat b - 1) div unat b < 2 ^ 128" using unat_bound [of a] by simp
    then show ?thesis by (simp add: unat_of_nat)
  qed
  then show ?thesis by (auto simp: ceil_div_lawful_def ceil_div_nat_def not_less)
qed

section \<open>A concrete ledger\<close>

definition sample_entry :: "pubkey \<Rightarrow> StakeStatus \<Rightarrow> bytes" where
  "sample_entry vote status =
     info_to_bytes \<lparr>vs_active_stake_lamports = 0, vs_transient_stake_lamports = 0, vs_last_update_epoch = 3,
       vs_transient_seed_suffix_start = 0, vs_transient_seed_suffix_end = 0, vs_status = status, vs_vote_account_address = vote\<rparr>"

abbreviation list_of_entries :: "u32 \<Rightarrow> bytes list \<Rightarrow> bytes" where
  "list_of_entries n es \<equiv> 2 # to_le_bytes (2 :: u32) @ to_le_bytes n @ concat es"

definition new_mint :: mint where
  "new_mint = \<lparr>mint_authority = Some 77, mint_supply = 0, mint_decimals = 9, mint_is_initialized = True, mint_freeze_authority = None\<rparr>"

definition fee_account :: account where
  "fee_account = (example_account 31 0)\<lparr>ta_mint := 63\<rparr>"

definition staking_ledger :: "bytes \<Rightarrow> bytes \<Rightarrow> ledger" where
  "staking_ledger pool entries k =
     (if k = 60 then \<lparr>acc_lamports = 3, acc_data = pool, acc_owner = 8\<rparr>
      else if k = 61 then \<lparr>acc_lamports = 3, acc_data = entries, acc_owner = 8\<rparr>
      else if k = 62 then \<lparr>acc_lamports = 1000000013, acc_data = [], acc_owner = 7\<rparr>
      else if k = 63 then \<lparr>acc_lamports = 3, acc_data = Mint_bytes new_mint, acc_owner = 5\<rparr>
      else if k = 64 then \<lparr>acc_lamports = 3, acc_data = Account_bytes fee_account, acc_owner = 5\<rparr>
      else \<lparr>acc_lamports = 0, acc_data = [], acc_owner = 0\<rparr>)"

definition running_list :: bytes where
  "running_list = list_of_entries 2 [sample_entry 50 ReadyForRemoval, sample_entry 51 ActiveStake]"

abbreviation running_ledger :: ledger where
  "running_ledger \<equiv> staking_ledger [1, 0] running_list"

lemma staking_ledger_sel [simp]:
  "acc_data (staking_ledger p es 60) = p" "acc_data (staking_ledger p es 61) = es" "acc_data (staking_ledger p es 62) = []"
  "acc_data (staking_ledger p es 63) = Mint_bytes new_mint" "acc_data (staking_ledger p es 64) = Account_bytes fee_account"
  "acc_owner (staking_ledger p es 60) = 8" "acc_owner (staking_ledger p es 61) = 8" "acc_owner (staking_ledger p es 62) = 7"
  "acc_owner (staking_ledger p es 63) = 5" "acc_owner (staking_ledger p es 64) = 5" "acc_lamports (staking_ledger p es 62) = 1000000013"
  by (simp_all add: staking_ledger_def)

lemma set_data_staking [simp]:
  "set_data 60 p' (staking_ledger p es) = staking_ledger p' es" "set_data 61 es' (staking_ledger p es) = staking_ledger p es'"
  by (auto simp: set_data_def staking_ledger_def fun_eq_iff)

lemma sample_entry_facts [simp]:
  "length (sample_entry k s) = INFO_LEN" "is_ok (info_of_bytes (sample_entry k s))" "entry_vote (sample_entry k s) = to_le_bytes k"
  "is_not_removed (sample_entry k s) \<longleftrightarrow> s \<noteq> ReadyForRemoval"
  by (simp_all add: sample_entry_def is_not_removed_def info_to_bytes_fields)

lemma pool_reads [simp]:
  "cd_read pool_codec [0, 0] = Inr no_pool" "cd_read pool_codec [1, 0] = Inr (sample_pool 3000 2000)"
  "cd_read pool_codec [1, 1] = Inr (sample_pool 3100 2066)" "cd_read pool_codec [1, 2] = Inr (sample_pool 2992 1995)"
  "cd_read pool_codec [1, 3] = Inr ((sample_pool 3000 2000)\<lparr>sp_next_sol_withdrawal_fee := Some \<lparr>fe_denominator = 200, fe_numerator = 3\<rparr>\<rparr>)"
  "cd_read pool_codec [1, 4] = Inr (sample_pool 10 10)" "cd_read pool_codec [1, 5] = Inr announced_pool"
  "cd_read pool_codec [1, 6] = Inr renewed_pool" "cd_read pool_codec [1, 7] = Inr young_pool"
  by (simp_all add: pool_codec_def table_codec_def pool_table_def)

lemma pool_eq: "sample_pool a b = sample_pool a' b' \<longleftrightarrow> a = a' \<and> b = b'"
  by (auto simp: sample_pool_def new_stake_pool_def)

lemma pool_writes [simp]:
  "cd_write pool_codec (sample_pool 3100 2066) = Inr [1, 1]" "cd_write pool_codec (sample_pool 2992 1995) = Inr [1, 2]"
  "cd_write pool_codec ((sample_pool 3000 2000)\<lparr>sp_next_sol_withdrawal_fee := Some \<lparr>fe_denominator = 200, fe_numerator = 3\<rparr>\<rparr>) = Inr [1, 3]"
  "cd_write pool_codec (sample_pool 10 10) = Inr [1, 4]" "cd_write pool_codec renewed_pool = Inr [1, 6]"
  "cd_write pool_codec announced_pool = Inr [1, 5]" "cd_write pool_codec young_pool = Inr [1, 7]"
  by (simp_all add: pool_codec_def table_codec_def pool_table_def upt_rec pool_eq announced_pool_def renewed_pool_def young_pool_def
      sample_pool_def new_stake_pool_def)

lemma running_vec:
  "vec_ok INFO_LEN (drop 5 running_list)" "vec_count (drop 5 running_list) = 2"
  "list_entries running_list = [sample_entry 50 ReadyForRemoval, sample_entry 51 ActiveStake]"
proof -
  let ?es = "[sample_entry 50 ReadyForRemoval, sample_entry 51 ActiveStake]"
  have "length e = INFO_LEN" if "e \<in> set ?es" for e using that by auto
  then have v: "vec_ok INFO_LEN (to_le_bytes (2 :: u32) @ concat ?es @ [])" "vec_elems INFO_LEN (to_le_bytes (2 :: u32) @ concat ?es @ []) = ?es"
      "vec_count (to_le_bytes (2 :: u32) @ concat ?es @ []) = length ?es"
    by (intro vec_joined; simp)+
  have d: "drop 5 running_list = to_le_bytes (2 :: u32) @ concat ?es @ []" by (simp add: running_list_def)
  show "vec_ok INFO_LEN (drop 5 running_list)" unfolding d by (rule v)
  show "list_entries running_list = ?es" unfolding list_entries_def d by (rule v)
  show "vec_count (drop 5 running_list) = 2" unfolding d v by simp
qed

lemma running_list_sound: "list_sound running_list"
proof -
  have "list_max running_list = 2" by (simp add: list_max_def running_list_def layout_simps)
  moreover have "from_le_bytes (to_le_bytes (50 :: pubkey)) \<noteq> (from_le_bytes (to_le_bytes (51 :: pubkey)) :: pubkey)" by simp
  then have "to_le_bytes (50 :: pubkey) \<noteq> to_le_bytes (51 :: pubkey)" by metis
  moreover have "length running_list = 155" by (simp add: running_list_def)
  ultimately show ?thesis using running_vec by (simp add: list_sound_def)
qed

lemma sample_pool_sel [simp]:
  "StakePool_is_valid (sample_pool a b)" "sp_total_lamports (sample_pool a b) = a" "sp_pool_token_supply (sample_pool a b) = b"
  "sp_manager (sample_pool a b) = 31" "sp_staker (sample_pool a b) = 32" "sp_validator_list (sample_pool a b) = 61"
  "sp_reserve_stake (sample_pool a b) = 62" "sp_pool_mint (sample_pool a b) = 63" "sp_manager_fee_account (sample_pool a b) = 64"
  "sp_token_program_id (sample_pool a b) = 5" "sp_last_update_epoch (sample_pool a b) = 3" "sp_sol_deposit_authority (sample_pool a b) = None"
  "sp_sol_withdraw_authority (sample_pool a b) = None" "sp_stake_withdraw_bump_seed (sample_pool a b) = 255"
  "sp_sol_withdrawal_fee (sample_pool a b) = \<lparr>fe_denominator = 100, fe_numerator = 1\<rparr>"
  "sp_sol_deposit_fee (sample_pool a b) = \<lparr>fe_denominator = 20, fe_numerator = 1\<rparr>" "sp_sol_referral_fee (sample_pool a b) = 50"
  "(sample_pool a b)\<lparr>sp_pool_token_supply := b', sp_total_lamports := a'\<rparr> = sample_pool a' b'"
  by (simp_all add: sample_pool_def new_stake_pool_def StakePool_is_valid_def)

lemma sample_pool_loaded [simp]:
  "load_stake_pool pool_world 8 (info 60 s) (staking_ledger [1, 0] es) = Inr (sample_pool 3000 2000)"
  by (simp add: load_stake_pool_def pool_check_account_owner_def)

lemma example_runtime_fields [simp]:
  "rt_clock_get example_runtime = Inr \<lparr>clock_slot = 7, clock_unix_timestamp = 1000, clock_epoch = 3\<rparr>"
  "rt_rent_get example_runtime = Inr \<lparr>rent_is_exempt = (\<lambda>l n. True), rent_minimum_balance = (\<lambda>n. 3)\<rparr>"
  "rt_create_program_address example_runtime = (\<lambda>seeds k. Inr 77)" "rt_find_program_address example_runtime = (\<lambda>seeds k. (77, 255))"
  "rt_invoke_signed example_runtime = (\<lambda>caller ix infos seeds led. Inr led)" "rt_system_program_id example_runtime = 0"
  by (simp_all add: example_runtime_def)

lemma sample_token_calls [simp]:
  "token_mint_to pool_world None 8 sp (info 5 s) i1 i2 i3 aty bump n led = Inr led"
  "token_burn pool_world None 8 (info 5 s) i1 i2 i3 n led = Inr led"
  "token_transfer pool_world None 8 (info 5 s) i1 i2 i3 n led = Inr led"
  by (simp_all add: token_mint_to_def token_burn_def token_transfer_def mint_to_def burn_def transfer_def build_def
      check_program_account_def example_token_program invoke_holding_def)

lemma sample_sol_calls [simp]:
  "sol_transfer pool_world 8 i1 i2 i3 n led = Inr led"
  "stake_withdraw pool_world None 8 sp i1 i2 aty bump i3 i4 i5 i6 n led = Inr led"
  by (simp_all add: sol_transfer_def stake_withdraw_def invoke_holding_def)

abbreviation deposit_accounts :: "account_info list" where
  "deposit_accounts \<equiv> [info 60 False, info 77 False, info 62 False, info 70 True, info 71 False, info 64 False, info 72 False,
     info 63 False, info 0 False, info 5 False]"

lemma sample_deposit_price: "price_sol_deposit (sample_pool 3000 2000) 100 = Inr (66, 63, 2, 1)"
  by (simp add: price_sol_deposit_def calc_pool_tokens_for_deposit_def calc_pool_tokens_sol_deposit_fee_def
      calc_pool_tokens_sol_referral_fee_def split_deposit_def Fee_apply_def checked_mul_def checked_div_def checked_sub_def
      try_from_word_def saturating_add_def checked_add_def)

lemma sample_deposit:
  "process_deposit_sol pool_world 8 deposit_accounts 100 running_ledger = Inr (staking_ledger [1, 1] running_list)"
  by (simp add: process_deposit_sol_def Let_def next_accounts_def check_authority_withdraw_def check_program_derived_authority_def
      check_sol_deposit_authority_def check_mint_def check_reserve_stake_def check_system_program_def sample_deposit_price
      mint_deposit_def add_to_pool_def checked_add_def store_stake_pool_def borrow_data_def write_front_def)

abbreviation withdraw_accounts :: "account_info list" where
  "withdraw_accounts \<equiv> [info 60 False, info 77 False, info 70 True, info 71 False, info 62 False, info 72 False, info 64 False,
     info 63 False, info 3 False, info 4 False, info 7 False, info 5 False]"

lemma fee_account_stored: "Account_unpack (Account_bytes fee_account) = Inr fee_account"
  by (simp add: fee_account_def account_is_initialized_def example_account_def)

lemma sample_withdraw_price:
  "price_withdrawal pool_world None (sample_pool 3000 2000) (info 71 False) (info 64 False)
     (calc_pool_tokens_sol_withdrawal_fee (sample_pool 3000 2000) 5) 5 (staking_ledger p es) = Inr (0, 5, 8)"
  by (simp add: price_withdrawal_def borrow_data_def check_manager_fee_info_def fee_account_stored calc_pool_tokens_sol_withdrawal_fee_def
      Fee_apply_def checked_mul_def checked_div_def checked_sub_def try_from_word_def calc_lamports_withdraw_amount_def
      ceil_div_nat_def Let_def)

lemma sample_withdraw_sol:
  "process_withdraw_sol pool_world 8 withdraw_accounts 5 running_ledger = Inr (staking_ledger [1, 2] running_list)"
  by (simp add: process_withdraw_sol_def Let_def next_accounts_def check_authority_withdraw_def check_program_derived_authority_def
      check_sol_withdraw_authority_def check_mint_def check_reserve_stake_def check_stake_program_def sample_withdraw_price
      check_sol_withdrawal_def reserve_meta_def minimum_reserve_lamports_def MINIMUM_RESERVE_LAMPORTS_def LAMPORTS_PER_SOL_def
      saturating_add_def saturating_sub_def checked_add_def take_from_pool_def checked_sub_def store_stake_pool_def borrow_data_def
      write_front_def)

lemma sample_set_fee:
  "process_pool pool_world 8 [info 60 False, info 31 True] [2] running_ledger = Inr (staking_ledger [1, 3] running_list)"
  by (simp add: process_pool_def pool_world_def [THEN arg_cong, of pe_instruction] process_pool_instruction_def process_set_fee_def Let_def next_accounts_def check_manager_def
      can_only_change_next_epoch_def check_too_high_def fee_above_one_def update_fee_def check_withdrawal_def
      MAX_WITHDRAWAL_FEE_INCREASE_def checked_mul_def store_stake_pool_def borrow_data_def write_front_def)

lemma new_pool_accounts:
  "check_new_pool_accounts pool_world 8 \<lparr>rent_is_exempt = (\<lambda>l n. True), rent_minimum_balance = (\<lambda>n. 3)\<rparr> (info 60 s) (info 61 s') 2
     (staking_ledger [0, 0] (replicate 155 0)) = Inr ()"
  by (simp add: check_new_pool_accounts_def pool_check_account_owner_def no_pool_def StakePool_is_uninitialized_def list_codec_def
      header_codec_def byte_AccountType_def ValidatorListHeader_is_uninitialized_def calculate_max_validators_def hd_replicate)

lemma new_reserve: "initial_reserve pool_world (info 62 s) 77 (staking_ledger p es) = Inr 10"
  by (simp add: initial_reserve_def reserve_meta_def minimum_reserve_lamports_def MINIMUM_RESERVE_LAMPORTS_def LAMPORTS_PER_SOL_def
      saturating_add_def checked_add_def checked_sub_def)

lemma new_pool_mint: "check_new_pool_mint pool_world (info 63 s) 77 (staking_ledger p es) = Inr ()"
  by (simp add: check_new_pool_mint_def new_mint_def Mint_from_into(2) [OF _ Mint_over])

lemma fee_account_read: "Account_unpack_from_slice (Account_bytes fee_account) = Inr fee_account"
  by (simp add: Account_from_into(2) [OF _ Account_over])

definition new_list :: bytes where
  "new_list = list_of_entries 0 [] @ replicate 146 0"

lemma new_sample_pool:
  "new_stake_pool 31 32 77 255 61 62 63 64 5 n 3 \<lparr>fe_denominator = 10, fe_numerator = 1\<rparr> \<lparr>fe_denominator = 100, fe_numerator = 1\<rparr>
     \<lparr>fe_denominator = 20, fe_numerator = 1\<rparr> 50 None = sample_pool n n"
  by (simp add: sample_pool_def new_stake_pool_def)

lemma sample_initialize:
  "process_pool pool_world 8 [info 60 False, info 31 True, info 32 False, info 77 False, info 61 False, info 62 False, info 63 False,
       info 64 False, info 5 False] [0] (staking_ledger [0, 0] (replicate 155 0)) = Inr (staking_ledger [1, 4] new_list)"
  by (simp add: process_pool_def pool_world_def [THEN arg_cong, of pe_instruction] process_pool_instruction_def process_initialize_pool_def
      Let_def next_accounts_def new_pool_accounts fee_above_one_def example_token_program fee_account_read fee_account_def [THEN arg_cong, of ta_mint]
      find_deposit_authority_program_address_def find_withdraw_authority_program_address_def new_pool_mint new_reserve new_sample_pool
      store_validator_list_def list_codec_def header_codec_def write_front_def store_stake_pool_def borrow_data_def new_list_def)

section \<open>The epoch before\<close>

definition early_runtime :: runtime where
  "early_runtime = example_runtime\<lparr>rt_clock_get := Inr \<lparr>clock_slot = 6, clock_unix_timestamp = 900, clock_epoch = 2\<rparr>\<rparr>"

lemma early_runtime_fields [simp]:
  "rt_clock_get early_runtime = Inr \<lparr>clock_slot = 6, clock_unix_timestamp = 900, clock_epoch = 2\<rparr>"
  "rt_rent_get early_runtime = rt_rent_get example_runtime" "rt_invoke_signed early_runtime = rt_invoke_signed example_runtime"
  "rt_find_program_address early_runtime = rt_find_program_address example_runtime" "token_program_id early_runtime = 5"
  by (simp_all add: early_runtime_def token_program_id_def example_runtime_def)

lemma early_laws: "pool_sdk_lawful (at_runtime pool_world early_runtime) 8" "pool_invoke_lawful (at_runtime pool_world early_runtime) 8"
  using world_sdk by (simp_all add: pool_sdk_lawful_def pool_invoke_lawful_def)

lemma early_checks:
  "check_new_pool_accounts (at_runtime pool_world R) = check_new_pool_accounts pool_world"
  "initial_reserve (at_runtime pool_world R) = initial_reserve pool_world"
  "check_new_pool_mint (at_runtime pool_world R) = check_new_pool_mint pool_world"
  by (simp_all add: fun_eq_iff check_new_pool_accounts_def initial_reserve_def check_new_pool_mint_def cong: if_cong)

lemma early_mint_to: "token_mint_to (at_runtime pool_world early_runtime) None 8 sp (info 5 s) i1 i2 i3 aty bump n led = Inr led"
  by (simp add: token_mint_to_def mint_to_def build_def check_program_account_def invoke_holding_def)

lemma early_initialize:
  "process_pool (at_runtime pool_world early_runtime) 8 [info 60 False, info 31 True, info 32 False, info 77 False, info 61 False,
       info 62 False, info 63 False, info 64 False, info 5 False] [0] (staking_ledger [0, 0] (replicate 155 0)) =
     Inr (staking_ledger [1, 7] new_list)"
proof -
  have young: "new_stake_pool 31 32 77 255 61 62 63 64 5 10 2 \<lparr>fe_denominator = 10, fe_numerator = 1\<rparr> \<lparr>fe_denominator = 100, fe_numerator = 1\<rparr>
     \<lparr>fe_denominator = 20, fe_numerator = 1\<rparr> 50 None = young_pool"
    by (simp add: young_pool_def sample_pool_def new_stake_pool_def)
  show ?thesis
    by (simp add: process_pool_def pool_world_def [THEN arg_cong, of pe_instruction] process_pool_instruction_def process_initialize_pool_def
      Let_def next_accounts_def early_checks new_pool_accounts fee_above_one_def fee_account_read fee_account_def [THEN arg_cong, of ta_mint]
      find_deposit_authority_program_address_def find_withdraw_authority_program_address_def new_pool_mint new_reserve young early_mint_to
      store_validator_list_def list_codec_def header_codec_def write_front_def store_stake_pool_def borrow_data_def new_list_def)
qed

lemma early_set_fee:
  "process_pool (at_runtime pool_world early_runtime) 8 [info 60 False, info 31 True] [2] (staking_ledger [1, 7] new_list) =
     Inr (staking_ledger [1, 5] new_list)"
proof -
  have young: "StakePool_is_valid young_pool" "sp_manager young_pool = 31" "sp_last_update_epoch young_pool = 2"
    "sp_sol_withdrawal_fee young_pool = \<lparr>fe_denominator = 100, fe_numerator = 1\<rparr>"
    and announce: "young_pool\<lparr>sp_next_sol_withdrawal_fee := Some \<lparr>fe_denominator = 200, fe_numerator = 3\<rparr>\<rparr> = announced_pool"
    by (simp_all add: young_pool_def announced_pool_def StakePool_is_valid_def sample_pool_def new_stake_pool_def)
  show ?thesis
    by (simp add: process_pool_def pool_world_def [THEN arg_cong, of pe_instruction] process_pool_instruction_def process_set_fee_def Let_def
      next_accounts_def load_stake_pool_def pool_check_account_owner_def young check_manager_def can_only_change_next_epoch_def
      check_too_high_def fee_above_one_def update_fee_def check_withdrawal_def MAX_WITHDRAWAL_FEE_INCREASE_def checked_mul_def announce
      store_stake_pool_def borrow_data_def write_front_def)
qed

lemma announced_pool_sel:
  "StakePool_is_valid announced_pool" "sp_pool_mint announced_pool = 63" "sp_reserve_stake announced_pool = 62"
  "sp_manager_fee_account announced_pool = 64" "sp_validator_list announced_pool = 61" "sp_token_program_id announced_pool = 5"
  "sp_total_lamports announced_pool = 10" "sp_pool_token_supply announced_pool = 10" "sp_stake_withdraw_bump_seed announced_pool = 255"
  by (simp_all add: announced_pool_def StakePool_is_valid_def sample_pool_def new_stake_pool_def)

lemma renewed: "(apply_next_fees 3 10 10 announced_pool)\<lparr>sp_total_lamports := 10, sp_pool_token_supply := 0\<rparr> = renewed_pool"
  by (simp add: apply_next_fees_def announced_pool_def renewed_pool_def sample_pool_def new_stake_pool_def)

lemma new_list_open: "open_validator_list pool_world (info 61 s) (staking_ledger p new_list) = Inr (\<lparr>vh_account_type = ValidatorListType, vh_max_validators = 2\<rparr>, 5)"
  by (simp add: open_validator_list_def deserialize_vec_def header_codec_def byte_AccountType_def ValidatorListHeader_is_valid_def new_list_def layout_simps)

lemma sample_update:
  "process_pool pool_world 8 [info 60 False, info 77 False, info 61 False, info 62 False, info 64 False, info 63 False, info 5 False] [3]
     (staking_ledger [1, 5] new_list) = Inr (staking_ledger [1, 6] new_list)"
proof -
  have load: "load_stake_pool pool_world 8 (info 60 False) (staking_ledger [1, 5] new_list) = Inr announced_pool"
    by (simp add: load_stake_pool_def pool_check_account_owner_def announced_pool_sel)
  have reserve: "reserve_lamports pool_world (Some 61) (info 62 False) (staking_ledger [1, 5] new_list) = Inr 10"
    by (simp add: reserve_lamports_def borrow_data_def reserve_meta_def minimum_reserve_lamports_def MINIMUM_RESERVE_LAMPORTS_def
        LAMPORTS_PER_SOL_def saturating_add_def checked_add_def checked_sub_def)
  have sum: "BigVec_iter INFO_LEN f (list_vec 61 5 (staking_ledger [1, 5] new_list)) n = Inr n" for f and n :: u64
    by (simp add: BigVec_iter_def BigVec_len_def byte_slice_def list_vec_def subslice_def new_list_def)
  have fee: "check_manager_fee_info announced_pool (staking_ledger [1, 5] new_list) (info 64 False) = Inr ()"
    by (simp add: check_manager_fee_info_def fee_account_stored announced_pool_sel) (simp add: fee_account_def)
  show ?thesis
    by (simp add: process_pool_def pool_world_def [THEN arg_cong, of pe_instruction] process_pool_instruction_def
        process_update_stake_pool_balance_def Let_def next_accounts_def load check_mint_def announced_pool_sel check_authority_withdraw_def
        check_program_derived_authority_def check_reserve_stake_def pool_check_account_owner_def new_list_open reserve sum fee
        saturating_sub_def calc_epoch_fee_amount_def borrow_data_def Mint_from_into(2) [OF _ Mint_over] new_mint_def renewed
        store_stake_pool_def write_front_def)
qed

end
