(* ===== verification/Stake_Guarantees.thy ===== *)
theory Stake_Guarantees
  imports Stake_Sample
begin

text \<open>
  What the stake pool program guarantees, for any environment that keeps the laws of its parameters, with a
  concrete execution of each guarantee.
\<close>

section \<open>Changes of a pool\<close>

text \<open>The fee a rise is measured against, and the limit of a rise.\<close>

definition fee_base :: "Fee \<Rightarrow> Fee" where
  "fee_base old = (if fe_denominator old = 0 \<or> fe_numerator old = 0 then WITHDRAWAL_BASELINE_FEE else old)"

definition rise_limited :: "Fee \<Rightarrow> Fee \<Rightarrow> bool" where
  "rise_limited new old \<longleftrightarrow>
     2 * (unat (fe_numerator new) * unat (fe_denominator (fee_base old)))
       \<le> 3 * (unat (fe_numerator (fee_base old)) * unat (fe_denominator new)) \<or>
     2 ^ 127 \<le> unat (fe_numerator new) * unat (fe_denominator (fee_base old))"

lemma checked_withdrawal_limited:
  assumes "check_withdrawal new old = Inr ()"
  shows "rise_limited new old"
proof -
  define b where "b = fee_base old"
  let ?a = "ucast (fe_numerator b) * ucast (fe_denominator new) :: u128" and ?p = "ucast (fe_numerator new) * ucast (fe_denominator b) :: u128"
  have pair: "(if fe_denominator old = 0 \<or> fe_numerator old = 0
      then (fe_numerator WITHDRAWAL_BASELINE_FEE, fe_denominator WITHDRAWAL_BASELINE_FEE)
      else (fe_numerator old, fe_denominator old)) = (fe_numerator b, fe_denominator b)"
    by (simp add: b_def fee_base_def)
  have "\<not> option_less (checked_mul ?a 3) (checked_mul ?p 2)"
    using assms unfolding check_withdrawal_def pair
    by (simp add: checked_mul_u64 MAX_WITHDRAWAL_FEE_INCREASE_def split: if_splits)
  then show ?thesis
    unfolding rise_limited_def b_def [symmetric]
    by (auto simp: checked_mul_def checked_mul_u64 unat_word_ariths word_less_nat_alt split: if_splits)
qed

text \<open>
  The limit has a hole: a product of 128 bits that overflows is taken for a small one, so that a fee of
  practically nothing may rise to everything.
\<close>

lemma withdrawal_limit_bypassed:
  "check_withdrawal \<lparr>fe_denominator = 2 ^ 64 - 1, fe_numerator = 2 ^ 64 - 1\<rparr> \<lparr>fe_denominator = 2 ^ 64 - 1, fe_numerator = 1\<rparr> = Inr ()"
  by (simp add: check_withdrawal_def MAX_WITHDRAWAL_FEE_INCREASE_def checked_mul_def)

definition withdrawal_fee_moved :: "(StakePool \<Rightarrow> Fee) \<Rightarrow> (StakePool \<Rightarrow> Fee option) \<Rightarrow> StakePool \<Rightarrow> StakePool \<Rightarrow> bool" where
  "withdrawal_fee_moved fee announced p p' \<longleftrightarrow>
     fee p' \<noteq> fee p \<longrightarrow> sp_last_update_epoch p < sp_last_update_epoch p' \<and> announced p = Some (fee p') \<and> rise_limited (fee p') (fee p)"

lemma changed_withdrawal_fees:
  assumes "pool_change accounts p p'" and "pool_sound p"
  shows "withdrawal_fee_moved sp_sol_withdrawal_fee sp_next_sol_withdrawal_fee p p'"
    and "withdrawal_fee_moved sp_stake_withdrawal_fee sp_next_stake_withdrawal_fee p p'"
proof -
  have same: "sp_sol_withdrawal_fee q = sp_sol_withdrawal_fee p \<and> sp_stake_withdrawal_fee q = sp_stake_withdrawal_fee p"
    if "update_fee p ft = Inr q" for ft q
    using that by (cases ft) (auto simp: update_fee_def attempt_eq_Inr)
  show "withdrawal_fee_moved sp_sol_withdrawal_fee sp_next_sol_withdrawal_fee p p'"
    using assms same by (cases rule: pool_change.cases)
      (auto simp: withdrawal_fee_moved_def apply_next_fees_def pool_sound_def checked_withdrawal_limited split: option.splits)
  show "withdrawal_fee_moved sp_stake_withdrawal_fee sp_next_stake_withdrawal_fee p p'"
    using assms same by (cases rule: pool_change.cases)
      (auto simp: withdrawal_fee_moved_def apply_next_fees_def pool_sound_def checked_withdrawal_limited split: option.splits)
qed

text \<open>Whose signature a change of a setting needs, and what never changes.\<close>

text \<open>
  A fee with an announcement comes into force in a later epoch only, as it was announced; an announcement is
  made or replaced by the manager and otherwise only consumed when a later epoch begins.
\<close>

definition announced_fee_guarded ::
    "account_info list \<Rightarrow> (StakePool \<Rightarrow> Fee) \<Rightarrow> (StakePool \<Rightarrow> Fee option) \<Rightarrow> StakePool \<Rightarrow> StakePool \<Rightarrow> bool" where
  "announced_fee_guarded accounts fee announced p p' \<longleftrightarrow>
     (fee p' \<noteq> fee p \<longrightarrow> sp_last_update_epoch p < sp_last_update_epoch p' \<and> announced p = Some (fee p')) \<and>
     (announced p' \<noteq> announced p \<longrightarrow>
        call_signed accounts (sp_manager p) \<or> sp_last_update_epoch p < sp_last_update_epoch p' \<and> announced p' = None)"

definition settings_guarded :: "account_info list \<Rightarrow> StakePool \<Rightarrow> StakePool \<Rightarrow> bool" where
  "settings_guarded accounts p p' \<longleftrightarrow>
     (sp_manager p' \<noteq> sp_manager p \<longrightarrow> call_signed accounts (sp_manager p) \<and> call_signed accounts (sp_manager p')) \<and>
     (sp_manager_fee_account p' \<noteq> sp_manager_fee_account p \<longrightarrow> call_signed accounts (sp_manager p)) \<and>
     (sp_staker p' \<noteq> sp_staker p \<longrightarrow> call_signed accounts (sp_staker p) \<or> call_signed accounts (sp_manager p)) \<and>
     (sp_stake_deposit_fee p' \<noteq> sp_stake_deposit_fee p \<or> sp_sol_deposit_fee p' \<noteq> sp_sol_deposit_fee p \<or>
        sp_stake_referral_fee p' \<noteq> sp_stake_referral_fee p \<or> sp_sol_referral_fee p' \<noteq> sp_sol_referral_fee p \<longrightarrow>
        call_signed accounts (sp_manager p)) \<and>
     announced_fee_guarded accounts sp_epoch_fee sp_next_epoch_fee p p' \<and>
     announced_fee_guarded accounts sp_stake_withdrawal_fee sp_next_stake_withdrawal_fee p p' \<and>
     announced_fee_guarded accounts sp_sol_withdrawal_fee sp_next_sol_withdrawal_fee p p' \<and>
     (sp_stake_deposit_authority p' \<noteq> sp_stake_deposit_authority p \<or> sp_sol_deposit_authority p' \<noteq> sp_sol_deposit_authority p \<or>
        sp_sol_withdraw_authority p' \<noteq> sp_sol_withdraw_authority p \<longrightarrow> call_signed accounts (sp_manager p)) \<and>
     (sp_preferred_deposit_validator_vote_address p' \<noteq> sp_preferred_deposit_validator_vote_address p \<or>
        sp_preferred_withdraw_validator_vote_address p' \<noteq> sp_preferred_withdraw_validator_vote_address p \<longrightarrow>
        call_signed accounts (sp_staker p)) \<and>
     sp_validator_list p' = sp_validator_list p \<and> sp_reserve_stake p' = sp_reserve_stake p \<and> sp_pool_mint p' = sp_pool_mint p \<and>
     sp_token_program_id p' = sp_token_program_id p \<and> sp_stake_withdraw_bump_seed p' = sp_stake_withdraw_bump_seed p \<and>
     sp_lockup p' = sp_lockup p"

lemma update_fee_settings:
  assumes "update_fee p ft = Inr p'" and "call_signed accounts (sp_manager p)"
  shows "settings_guarded accounts p p'"
  using assms by (cases ft) (auto simp: update_fee_def attempt_eq_Inr settings_guarded_def announced_fee_guarded_def)

lemma changed_settings: "pool_change accounts p p' \<Longrightarrow> settings_guarded accounts p p'"
proof (induction rule: pool_change.induct)
  case (fee fee_type p')
  then show ?case by (blast intro: update_fee_settings)
qed (auto simp: settings_guarded_def announced_fee_guarded_def apply_next_fees_def split: option.splits)

lemma settings_refl: "settings_guarded accounts p p"
  by (simp add: settings_guarded_def announced_fee_guarded_def)

context pool_laws
begin

text \<open>What a call does to a pool, in terms of a reflexive relation that every change satisfies.\<close>

lemma call_changes:
  assumes "pools_sound E pid led" and "process_pool E pid accounts input led = Inr led'" and "pool_at E pid led k = Some p"
    and "pool_at E pid led' k = Some p'" and "Q p p" and "\<And>q. pool_change accounts p q \<Longrightarrow> Q p q"
  shows "Q p p'"
  using call_outcome(2) [OF assms(1,2)] assms(3-) unfolding pools_follow_def by force

end

lemma unmoved_fee: "withdrawal_fee_moved fee announced p p"
  by (simp add: withdrawal_fee_moved_def)

section \<open>Histories\<close>

text \<open>The concrete history: the two accounts of a pool are created, then the pool.\<close>

definition before_ledger :: ledger where
  "before_ledger = (staking_ledger [] [])(60 := \<lparr>acc_lamports = 0, acc_data = [], acc_owner = 0\<rparr>,
     61 := \<lparr>acc_lamports = 0, acc_data = [], acc_owner = 0\<rparr>)"

lemma before_ledger_foreign: "acc_owner (before_ledger k) \<noteq> 8"
  by (simp add: before_ledger_def staking_ledger_def)

lemma sample_pool_history: "(pool_step pool_world 8)\<^sup>*\<^sup>* before_ledger (staking_ledger [1, 4] new_list)"
proof -
  have "other_activity 8 before_ledger (staking_ledger [0, 0] (replicate 155 0))"
    by (auto simp: other_activity_def before_ledger_def staking_ledger_def)
  then have "pool_step pool_world 8 before_ledger (staking_ledger [0, 0] (replicate 155 0))" by (rule pool_step.elsewhere)
  moreover have "pool_step pool_world 8 (staking_ledger [0, 0] (replicate 155 0)) (staking_ledger [1, 4] new_list)"
    by (rule world.own_call [OF sample_initialize])
  ultimately show ?thesis by (meson rtranclp.rtrancl_into_rtrancl rtranclp.rtrancl_refl)
qed

text \<open>
  A second history: the pool is opened in epoch 2, its manager announces a withdrawal fee, and in epoch 3 the pool
  is updated, which puts the announced fee into force.
\<close>

lemma sample_fee_history: "(pool_step pool_world 8)\<^sup>*\<^sup>* before_ledger (staking_ledger [1, 6] new_list)"
proof -
  have "other_activity 8 before_ledger (staking_ledger [0, 0] (replicate 155 0))"
    by (auto simp: other_activity_def before_ledger_def staking_ledger_def)
  then have "pool_step pool_world 8 before_ledger (staking_ledger [0, 0] (replicate 155 0))" by (rule pool_step.elsewhere)
  moreover note pool_step.call [OF early_laws early_initialize]
  moreover note pool_step.call [OF early_laws early_set_fee]
  moreover note world.own_call [OF sample_update]
  ultimately show ?thesis by (meson rtranclp.rtrancl_into_rtrancl rtranclp.rtrancl_refl)
qed

text \<open>C13: In every history of the chain, a validator list of the program is well-formed: its vector has room for as many
  validators as its header says and holds no more, every entry is a valid one, so that the unchecked casts
  of the program are sound, and no validator is listed twice.\<close>

theorem stake_lists_well_formed:
  assumes "pool_borsh_lawful E" and "pool_sdk_lawful E pid" and "pool_invoke_lawful E pid"
    and "\<And>k. acc_owner (genesis k) \<noteq> pid" and "(pool_step E pid)\<^sup>*\<^sup>* genesis led" and "is_list_account pid led k"
  defines "data \<equiv> acc_data (led k)"
  shows "9 + unat (list_max data) * INFO_LEN \<le> length data \<and> vec_count (drop 5 data) \<le> unat (list_max data) \<and>
    length (list_entries data) = vec_count (drop 5 data) \<and>
    (\<forall>e \<in> set (list_entries data). \<exists>v. info_of_bytes e = Inr v) \<and> distinct (map entry_vote (list_entries data))"
proof -
  have laws: "pool_laws E pid" by unfold_locales (fact assms)+
  have "list_sound data"
    using pool_laws.history_sound [OF laws assms(4,5)] assms(6) by (simp add: pools_sound_def data_def)
  then show ?thesis by (simp add: list_sound_def is_ok_iff vec_split(4) list_entries_def)
qed

theorem stake_lists_well_formed_witness:
  "is_list_account 8 (staking_ledger [1, 4] new_list) 61 \<and> unat (list_max new_list) = 2 \<and> 9 + 2 * INFO_LEN \<le> length new_list \<and>
   vec_count (drop 5 new_list) \<le> 2 \<and> distinct (map entry_vote (list_entries new_list))"
proof -
  have l: "is_list_account 8 (staking_ledger [1, 4] new_list) 61" by (simp add: is_list_account_def new_list_def)
  have "list_max new_list = 2" by (simp add: list_max_def new_list_def layout_simps)
  then show ?thesis
    using stake_lists_well_formed [OF world_borsh world_sdk world_invoke before_ledger_foreign sample_pool_history l] l by simp
qed

text \<open>C26: In every history, with the clock moving on between calls so that announced fees come into force, no pool has a
  fee above the whole or a referral share above a hundred percent, neither in force nor announced, and every
  announced withdrawal fee passed the check against the fee in force.\<close>

theorem stake_pool_fees_bounded:
  assumes "pool_borsh_lawful E" and "pool_sdk_lawful E pid" and "pool_invoke_lawful E pid"
    and "\<And>k. acc_owner (genesis k) \<noteq> pid" and "(pool_step E pid)\<^sup>*\<^sup>* genesis led" and "pool_at E pid led k = Some p"
  shows "(\<forall>fee \<in> set (pool_fees p). unat (fe_numerator fee) \<le> unat (fe_denominator fee)) \<and>
    unat (sp_stake_referral_fee p) \<le> 100 \<and> unat (sp_sol_referral_fee p) \<le> 100 \<and> pool_sound p"
proof -
  have laws: "pool_laws E pid" by unfold_locales (fact assms)+
  have "pool_sound p"
    using pool_laws.history_sound [OF laws assms(4,5)] assms(6) unfolding pools_sound_def by blast
  then show ?thesis by (simp add: pool_sound_def fee_above_one_def word_le_nat_alt not_less)
qed

theorem stake_pool_fees_bounded_witness:
  "(pool_step pool_world 8)\<^sup>*\<^sup>* before_ledger (staking_ledger [1, 6] new_list) \<and>
   pool_at pool_world 8 (staking_ledger [1, 6] new_list) 60 = Some renewed_pool \<and>
   sp_sol_withdrawal_fee renewed_pool = \<lparr>fe_denominator = 200, fe_numerator = 3\<rparr> \<and> pool_sound renewed_pool"
proof -
  have p: "pool_at pool_world 8 (staking_ledger [1, 6] new_list) 60 = Some renewed_pool"
    by (simp add: pool_at_def) (simp add: renewed_pool_def StakePool_is_valid_def sample_pool_def new_stake_pool_def)
  show ?thesis
    using stake_pool_fees_bounded [OF world_borsh world_sdk world_invoke before_ledger_foreign sample_fee_history p] p sample_fee_history
    by (simp add: renewed_pool_def)
qed

section \<open>Settings\<close>

lemma sample_ledger_sound:
  assumes "cd_read pool_codec p = Inr q" and "pool_sound q" and "list_sound es" and "es \<noteq> []" and "hd es = 2" and "p \<noteq> []" and "hd p = 1"
  shows "pools_sound pool_world 8 (staking_ledger p es)"
proof -
  have "pool_sound r" if "pool_at pool_world 8 (staking_ledger p es) k = Some r" for k r
  proof -
    have "acc_owner (staking_ledger p es k) = 8" using that by (simp add: world.pool_at_Some)
    then have "k = 60 \<or> k = 61" by (auto simp: staking_ledger_def split: if_splits)
    moreover have "k \<noteq> 61" using that world.pool_not_list [OF that] assms(4,5) by (auto simp: is_list_account_def)
    ultimately show ?thesis using that assms(1,2) by (auto simp: world.pool_at_Some)
  qed
  moreover have "list_sound (acc_data (staking_ledger p es k))" if "is_list_account 8 (staking_ledger p es) k" for k
  proof -
    have "acc_owner (staking_ledger p es k) = 8" using that by (simp add: is_list_account_def)
    then have "k = 60 \<or> k = 61" by (auto simp: staking_ledger_def split: if_splits)
    then show ?thesis using that assms(3,6,7) by (auto simp: is_list_account_def)
  qed
  ultimately show ?thesis by (simp add: pools_sound_def)
qed

lemma sample_pool_sound: "pool_sound (sample_pool a b)"
  by (simp add: pool_sound_def pool_fees_def fee_above_one_def sample_pool_def new_stake_pool_def)

lemma running_sound: "pools_sound pool_world 8 running_ledger"
  by (rule sample_ledger_sound [OF pool_reads(2) sample_pool_sound running_list_sound]) (simp_all add: running_list_def)

text \<open>C14: In any call of the stake pool program a pool keeps its validator list, reserve, mint, token program, lockup and
  authority seed.  Its manager changes only with the signatures of the old and the new one; its fee account,
  deposit and referral fees and funding authorities only with the manager's; its preferred validators only
  with the staker's; its staker only with the staker's or the manager's.  The epoch fee and the two withdrawal
  fees change without a signature, but only when a later epoch begins and only to the fee announced before;
  an announcement is made or replaced only with the manager's signature, and otherwise only consumed then.\<close>

theorem pool_settings_authorized:
  assumes "pool_borsh_lawful E" and "pool_sdk_lawful E pid" and "pool_invoke_lawful E pid"
    and "pools_sound E pid led" and "process_pool E pid accounts input led = Inr led'" and "pool_at E pid led k = Some p"
  shows "\<exists>p'. pool_at E pid led' k = Some p' \<and> settings_guarded accounts p p'"
proof -
  have laws: "pool_laws E pid" by unfold_locales (fact assms)+
  obtain p' where p': "pool_at E pid led' k = Some p'"
    using pool_laws.call_outcome(2) [OF laws assms(4,5)] assms(6) unfolding pools_follow_def by blast
  have "settings_guarded accounts p p'"
    by (rule pool_laws.call_changes [OF laws assms(4,5,6) p']) (rule settings_refl changed_settings, assumption?)+
  then show ?thesis using p' by blast
qed

theorem pool_settings_authorized_witness:
  "process_pool pool_world 8 [info 60 False, info 31 True] [2] running_ledger = Inr (staking_ledger [1, 3] running_list) \<and>
   (\<exists>p'. pool_at pool_world 8 (staking_ledger [1, 3] running_list) 60 = Some p' \<and>
      settings_guarded [info 60 False, info 31 True] (sample_pool 3000 2000) p')"
proof -
  have p: "pool_at pool_world 8 running_ledger 60 = Some (sample_pool 3000 2000)" by (simp add: pool_at_def)
  show ?thesis
    using pool_settings_authorized [OF world_borsh world_sdk world_invoke running_sound sample_set_fee p] sample_set_fee by simp
qed

text \<open>C16: A withdrawal fee changes only when the pool is brought up to a later epoch, only to the fee announced for it.
  It is then at most three halves of the fee before, where a fee before with numerator or denominator zero
  counts as the baseline of one thousandth; the one exception is a new fee whose numerator times the
  denominator before is at least two to the power 127, for which the comparison of the program overflows and
  lets it pass (against the comment in \<^verbatim>\<open>check_withdrawal\<close> that it fails then).\<close>

theorem withdrawal_fees_change_slowly:
  assumes "pool_borsh_lawful E" and "pool_sdk_lawful E pid" and "pool_invoke_lawful E pid"
    and "pools_sound E pid led" and "process_pool E pid accounts input led = Inr led'" and "pool_at E pid led k = Some p"
    and "pool_at E pid led' k = Some p'"
  shows "withdrawal_fee_moved sp_sol_withdrawal_fee sp_next_sol_withdrawal_fee p p' \<and>
    withdrawal_fee_moved sp_stake_withdrawal_fee sp_next_stake_withdrawal_fee p p'"
proof -
  have laws: "pool_laws E pid" by unfold_locales (fact assms)+
  have sound: "pool_sound p" using assms(4,6) unfolding pools_sound_def by blast
  show ?thesis
    by (rule pool_laws.call_changes [OF laws assms(4-7)]) (simp_all add: unmoved_fee changed_withdrawal_fees [OF _ sound])
qed

lemma announced_sound: "pools_sound pool_world 8 (staking_ledger [1, 5] new_list)"
proof (rule sample_ledger_sound [OF pool_reads(7)])
  show "pool_sound announced_pool"
    by (simp add: announced_pool_def pool_sound_def pool_fees_def fee_above_one_def sample_pool_def new_stake_pool_def check_withdrawal_def
        MAX_WITHDRAWAL_FEE_INCREASE_def checked_mul_def)
  have "pools_sound pool_world 8 (staking_ledger [1, 4] new_list)"
    by (rule world.history_sound [OF before_ledger_foreign sample_pool_history])
  moreover have "is_list_account 8 (staking_ledger [1, 4] new_list) 61" by (simp add: is_list_account_def new_list_def)
  ultimately show "list_sound new_list" unfolding pools_sound_def by fastforce
qed (simp_all add: new_list_def)

theorem withdrawal_fees_change_slowly_witness:
  "sp_sol_withdrawal_fee renewed_pool \<noteq> sp_sol_withdrawal_fee announced_pool \<and>
   sp_next_sol_withdrawal_fee announced_pool = Some (sp_sol_withdrawal_fee renewed_pool) \<and>
   rise_limited (sp_sol_withdrawal_fee renewed_pool) (sp_sol_withdrawal_fee announced_pool)"
proof -
  have p: "pool_at pool_world 8 (staking_ledger [1, 5] new_list) 60 = Some announced_pool"
    and p': "pool_at pool_world 8 (staking_ledger [1, 6] new_list) 60 = Some renewed_pool"
    by (simp_all add: pool_at_def announced_pool_sel) (simp add: renewed_pool_def StakePool_is_valid_def sample_pool_def new_stake_pool_def)
  have "sp_sol_withdrawal_fee renewed_pool \<noteq> sp_sol_withdrawal_fee announced_pool"
    by (simp add: announced_pool_def renewed_pool_def)
  then show ?thesis
    using withdrawal_fees_change_slowly [OF world_borsh world_sdk world_invoke announced_sound sample_update p p']
    unfolding withdrawal_fee_moved_def by blast
qed

section \<open>Value\<close>

text \<open>C15: A deposit of SOL or of stake never lowers the lamports per pool token of the pool it goes to, whatever the fees
  and the rounding (a pool without tokens is one without lamports).\<close>

theorem stake_deposit_never_dilutes:
  assumes "pool_borsh_lawful E" and "pool_sdk_lawful E pid" and "pool_invoke_lawful E pid" and "pools_sound E pid led"
    and "process_deposit_sol E pid accounts d led = Inr led' \<or> process_deposit_stake E pid accounts led = Inr led'"
    and "pool_at E pid led (ai_key (accounts ! 0)) = Some p" and "sp_pool_token_supply p \<noteq> 0 \<or> sp_total_lamports p = 0"
  shows "\<exists>p'. pool_at E pid led' (ai_key (accounts ! 0)) = Some p' \<and>
    unat (sp_total_lamports p) \<le> unat (sp_total_lamports p') \<and> not_diluted p p'"
proof -
  have laws: "pool_laws E pid" by unfold_locales (fact assms)+
  from assms(5) have "\<exists>p' t d. pool_at E pid led' (ai_key (accounts ! 0)) = Some p' \<and> calc_pool_tokens_for_deposit p d = Some t \<and>
      add_to_pool t d p = Inr p'"
  proof
    assume "process_deposit_sol E pid accounts d led = Inr led'"
    then show ?thesis
      by (rule pool_laws.deposit_sol_pool [OF laws assms(4)]) (use assms(6) in \<open>auto simp: price_sol_deposit_def res_simps\<close>)
  next
    assume "process_deposit_stake E pid accounts led = Inr led'"
    then show ?thesis
      by (rule pool_laws.deposit_stake_pool [OF laws assms(4)]) (use assms(6) in \<open>auto simp: price_stake_deposit_def res_simps\<close>)
  qed
  then show ?thesis using add_not_diluted assms(7) by (fastforce simp: add_to_pool_eq)
qed

theorem stake_deposit_never_dilutes_witness:
  "process_deposit_sol pool_world 8 deposit_accounts 100 running_ledger = Inr (staking_ledger [1, 1] running_list) \<and>
   not_diluted (sample_pool 3000 2000) (sample_pool 3100 2066)"
proof -
  have p: "pool_at pool_world 8 running_ledger (ai_key (deposit_accounts ! 0)) = Some (sample_pool 3000 2000)"
    and p': "pool_at pool_world 8 (staking_ledger [1, 1] running_list) (ai_key (deposit_accounts ! 0)) = Some (sample_pool 3100 2066)"
    by (simp_all add: pool_at_def)
  show ?thesis
    using stake_deposit_never_dilutes [OF world_borsh world_sdk world_invoke running_sound disjI1 [OF sample_deposit] p] p' sample_deposit
    by simp
qed

text \<open>C25: A withdrawal of SOL or of stake burns at most the given tokens and takes less than one lamport more than they are
  worth: what stays in the pool, plus one lamport, is more than the remaining tokens were worth before.\<close>

theorem stake_withdrawal_takes_its_share:
  assumes "pool_borsh_lawful E" and "pool_sdk_lawful E pid" and "pool_invoke_lawful E pid" and "pools_sound E pid led"
    and "ceil_div_lawful (pe_ceil_div E)"
    and "process_withdraw_sol E pid accounts n led = Inr led' \<or> process_withdraw_stake E pid accounts n led = Inr led'"
    and "pool_at E pid led (ai_key (accounts ! 0)) = Some p"
  shows "\<exists>p'. pool_at E pid led' (ai_key (accounts ! 0)) = Some p' \<and>
    unat (sp_pool_token_supply p') \<le> unat (sp_pool_token_supply p) \<and>
    unat (sp_pool_token_supply p) \<le> unat (sp_pool_token_supply p') + unat n \<and>
    unat (sp_pool_token_supply p') * unat (sp_total_lamports p)
      < unat (sp_pool_token_supply p) * (unat (sp_total_lamports p') + 1)"
proof -
  have laws: "pool_laws E pid" by unfold_locales (fact assms)+
  from assms(6) obtain p' borrowed i j fee f b w where p': "pool_at E pid led' (ai_key (accounts ! 0)) = Some p'"
    and price: "price_withdrawal E borrowed p i j fee n led = Inr (f, b, w)" and took: "take_from_pool b w p = Inr p'"
  proof
    assume "process_withdraw_sol E pid accounts n led = Inr led'"
    then show ?thesis by (rule pool_laws.withdraw_sol_pool [OF laws assms(4)]) (use assms(7) that in auto)
  next
    assume "process_withdraw_stake E pid accounts n led = Inr led'"
    then show ?thesis by (rule pool_laws.withdraw_stake_pool [OF laws assms(4)]) (use assms(7) that in auto)
  qed
  note amount = pool_laws.price_withdrawal_amount [OF laws price]
  show ?thesis using p' take_price [OF assms(5) amount(1,2) took] took amount(3) by (auto simp: take_from_pool_eq)
qed

theorem stake_withdrawal_takes_its_share_witness:
  "process_withdraw_sol pool_world 8 withdraw_accounts 5 running_ledger = Inr (staking_ledger [1, 2] running_list) \<and>
   (1995 :: nat) * 3000 < 2000 * (2992 + 1)"
proof -
  have p: "pool_at pool_world 8 running_ledger (ai_key (withdraw_accounts ! 0)) = Some (sample_pool 3000 2000)"
    and p': "pool_at pool_world 8 (staking_ledger [1, 2] running_list) (ai_key (withdraw_accounts ! 0)) = Some (sample_pool 2992 1995)"
    by (simp_all add: pool_at_def)
  show ?thesis
    using stake_withdrawal_takes_its_share [OF world_borsh world_sdk world_invoke running_sound world_ceil disjI1 [OF sample_withdraw_sol] p]
      p' sample_withdraw_sol by simp
qed

text \<open>Whoever deposits SOL and withdraws with the tokens received gets back at most what was deposited, although
  withdrawals are rounded up and even if no fee is charged.\<close>

theorem stake_roundtrip_no_profit:
  assumes "ceil_div_lawful (pe_ceil_div E)" and "price_sol_deposit p d = Inr (t, u, m, r)" and "add_to_pool t d p = Inr p'"
    and "sp_pool_token_supply p \<noteq> 0 \<or> sp_total_lamports p = 0"
    and "price_withdrawal E borrowed p' burn_from manager_fee fee n led = Inr (f, b, w)" and "n \<le> u"
  shows "w \<le> d"
proof -
  have t: "calc_pool_tokens_for_deposit p d = Some t" and split: "split_deposit t x y = Inr (u, m, r) \<Longrightarrow> unat u \<le> unat t" for x y
    using assms(2) split_deposit_sum(1) [of t x y u m r] by (auto simp: price_sol_deposit_def res_simps)
  have "unat u \<le> unat t"
    using assms(2) split unfolding price_sol_deposit_def by (auto simp: res_simps)
  moreover have "unat b \<le> unat n" and w: "calc_lamports_withdraw_amount (pe_ceil_div E) p' b = Some w"
    using assms(5) unfolding price_withdrawal_def by (auto simp: res_simps checked_sub_eq_Some)
  ultimately have "unat b \<le> unat t" using assms(6) by (simp add: word_le_nat_alt)
  then show ?thesis using withdraw_after_deposit [OF assms(1) t assms(4,3) w] by (simp add: word_le_nat_alt)
qed

lemma sample_return_price:
  "price_withdrawal pool_world None (sample_pool 3100 2066) (info 64 False) (info 64 False) None 63 running_ledger = Inr (0, 63, 95)"
  by (simp add: price_withdrawal_def checked_mul_def checked_sub_def try_from_word_def calc_lamports_withdraw_amount_def
      ceil_div_nat_def Let_def)

theorem stake_roundtrip_no_profit_witness:
  "price_sol_deposit (sample_pool 3000 2000) 100 = Inr (66, 63, 2, 1) \<and>
   price_withdrawal pool_world None (sample_pool 3100 2066) (info 64 False) (info 64 False) None 63 running_ledger = Inr (0, 63, 95) \<and>
   (95 :: u64) \<le> 100"
proof -
  have "add_to_pool 66 100 (sample_pool 3000 2000) = Inr (sample_pool 3100 2066)"
    by (simp add: add_to_pool_def checked_add_def)
  from stake_roundtrip_no_profit [OF world_ceil sample_deposit_price this _ sample_return_price]
  show ?thesis using sample_deposit_price sample_return_price by simp
qed

text \<open>The tokens minted for an epoch's fee are worth at most the fee: their part of the pool after the epoch, valued in the
  lamports of the pool and its reward, does not exceed the fee's part of the reward.\<close>

theorem epoch_fee_worth_at_most_fee:
  assumes "calc_epoch_fee_amount p reward = Some tokens" and "\<not> fee_above_one (sp_epoch_fee p)" and "sp_pool_token_supply p \<noteq> 0"
  shows "fee_lamports (sp_epoch_fee p) reward \<le> unat reward \<and>
    unat tokens * (unat (sp_total_lamports p) + unat reward)
      \<le> (unat (sp_pool_token_supply p) + unat tokens) * fee_lamports (sp_epoch_fee p) reward"
  using epoch_fee_eq(1) [OF assms] epoch_fee_worth [OF assms] by blast

theorem epoch_fee_worth_at_most_fee_witness:
  "calc_epoch_fee_amount (sample_pool 3000 2000) 500 = Some 28 \<and> fee_lamports (sp_epoch_fee (sample_pool 3000 2000)) 500 = 50 \<and>
   (28 :: nat) * (3000 + 500) \<le> (2000 + 28) * 50"
proof -
  have e: "sp_epoch_fee (sample_pool a b) = \<lparr>fe_denominator = 10, fe_numerator = 1\<rparr>" for a b
    by (simp add: sample_pool_def new_stake_pool_def)
  have c: "calc_epoch_fee_amount (sample_pool 3000 2000) 500 = Some 28"
    by (simp add: calc_epoch_fee_amount_def e Fee_apply_def checked_add_def checked_mul_def checked_div_def checked_sub_def try_from_word_def)
  show ?thesis
    using epoch_fee_worth_at_most_fee [OF c] c by (simp add: e fee_above_one_def fee_lamports_def)
qed

section \<open>The validator list\<close>

text \<open>C27: Retaining the entries of a big vector that satisfy a predicate, with its moves of memory in place, always ends, never
  reads or writes outside the buffer, and is the filter of the list of entries; what follows the vector stays as it was.\<close>

theorem retain_is_filter:
  assumes "borsh_u32_lawful U" and "vec_ok len data"
  shows "\<exists>data'. BigVec_retain U len P data = Inr data' \<and> vec_elems len data' = filter P (vec_elems len data) \<and>
    vec_ok len data' \<and> length data' = length data \<and>
    drop (4 + vec_count data * len) data' = drop (4 + vec_count data * len) data"
  using retain_spec [OF assms, of P] by blast

theorem retain_is_filter_witness:
  "\<exists>data'. BigVec_retain u32_codec INFO_LEN is_not_removed (drop 5 running_list) = Inr data' \<and>
     vec_elems INFO_LEN data' = [sample_entry 51 ActiveStake]"
proof -
  have "borsh_u32_lawful u32_codec" using world_borsh by (simp add: pool_borsh_lawful_def)
  from retain_is_filter [OF this running_vec(1), of is_not_removed] show ?thesis
    using running_vec(3) by (auto simp: list_entries_def)
qed

text \<open>Cleaning up removes exactly the entries that are ready for removal, keeps the others with their contents and order,
  and changes no other account and nothing else of the list's account but its entries.\<close>

theorem cleanup_removes_exactly:
  assumes "pool_borsh_lawful E" and "pool_sdk_lawful E pid" and "pool_invoke_lawful E pid" and "pools_sound E pid led"
    and "process_cleanup_removed_validator_entries E pid accounts led = Inr led'"
  defines "k \<equiv> ai_key (accounts ! 1)"
  shows "list_entries (acc_data (led' k)) = filter is_not_removed (list_entries (acc_data (led k))) \<and>
    take 5 (acc_data (led' k)) = take 5 (acc_data (led k)) \<and> length (acc_data (led' k)) = length (acc_data (led k)) \<and>
    (\<forall>x. x \<noteq> k \<longrightarrow> led' x = led x) \<and> acc_lamports (led' k) = acc_lamports (led k) \<and> acc_owner (led' k) = acc_owner (led k)"
proof -
  have laws: "pool_laws E pid" by unfold_locales (fact assms)+
  note U = pool_laws.u32_lawful [OF laws]
  from assms(5) obtain vec where li: "is_list_account pid led k"
    and ret: "BigVec_retain (pe_u32 E) INFO_LEN is_not_removed (drop 5 (acc_data (led k))) = Inr vec" and led': "led' = set_list_vec k 5 vec led"
    by (rule pool_laws.cleanup_cases [OF laws]) (auto simp: k_def list_vec_def)
  have sound: "list_sound (acc_data (led k))" using assms(4) li by (simp add: pools_sound_def)
  then have "vec_ok INFO_LEN (drop 5 (acc_data (led k)))" and five: "5 \<le> length (acc_data (led k))" by (simp_all add: list_sound_def)
  with retain_spec [OF U, of INFO_LEN "drop 5 (acc_data (led k))" is_not_removed] ret
  have len: "length vec = length (acc_data (led k)) - 5" by simp
  have data: "acc_data (led' k) = take 5 (acc_data (led k)) @ vec" by (simp add: led' set_list_vec_def)
  show ?thesis
    using retained_sound(2) [OF U sound ret] len five unfolding data by (simp add: led' set_list_vec_def set_data_other)
qed

lemma sample_cleanup:
  "\<exists>vec. process_cleanup_removed_validator_entries pool_world 8 [info 60 False, info 61 False] running_ledger
     = Inr (set_list_vec 61 5 vec running_ledger)"
proof -
  have "borsh_u32_lawful u32_codec" using world_borsh by (simp add: pool_borsh_lawful_def)
  then obtain vec where v: "BigVec_retain u32_codec INFO_LEN is_not_removed (drop 5 running_list) = Inr vec"
    using retain_spec [OF _ running_vec(1)] by blast
  have o: "open_validator_list pool_world (info 61 False) running_ledger = Inr (\<lparr>vh_account_type = ValidatorListType, vh_max_validators = 2\<rparr>, 5)"
    by (simp add: open_validator_list_def deserialize_vec_def header_codec_def byte_AccountType_def ValidatorListHeader_is_valid_def
        running_list_def layout_simps)
  show ?thesis
    by (rule exI [of _ vec]) (simp add: process_cleanup_removed_validator_entries_def next_accounts_def Let_def check_validator_list_def
        pool_check_account_owner_def o list_vec_def v)
qed

theorem cleanup_removes_exactly_witness:
  "\<exists>led'. process_cleanup_removed_validator_entries pool_world 8 [info 60 False, info 61 False] running_ledger = Inr led' \<and>
     list_entries (acc_data (led' 61)) = [sample_entry 51 ActiveStake]"
proof -
  obtain vec where run: "process_cleanup_removed_validator_entries pool_world 8 [info 60 False, info 61 False] running_ledger
      = Inr (set_list_vec 61 5 vec running_ledger)"
    using sample_cleanup by blast
  from cleanup_removes_exactly [OF world_borsh world_sdk world_invoke running_sound run] run show ?thesis
    using running_vec(3) by auto
qed

end
