(* ===== verification/Token22_Extension.thy ===== *)
theory Token22_Extension
  imports Token_Processor
begin

text \<open>
  Mints and accounts with extensions (\<^verbatim>\<open>token/program-2022/src/extension/mod.rs\<close>,
  \<^verbatim>\<open>pod.rs\<close>, \<^verbatim>\<open>error.rs\<close>).  A buffer holds the base state of \<open>Token_State\<close> (the two
  programs share its layout), zero padding up to the length of an account, one byte for the
  account type, and then type-length-value entries.  A \<^verbatim>\<open>&mut V\<close> into the entries is
  the offset of the value.  Offsets are natural numbers: the saturating additions of the code
  cannot saturate on a buffer that fits in memory.

  The sizes of the ciphertexts come from the zero-knowledge library, which is not part of the
  repository; they are the record \<open>zk_sizes\<close>.
\<close>

section \<open>Errors, account types and extension types\<close>

text \<open>The codes up to 19 are those of \<open>TokenError\<close>; this program adds the ones below.\<close>

datatype Token2022Error =
    ExtensionTypeMismatch
  | ExtensionBaseMismatch
  | ExtensionAlreadyInitialized
  | ConfidentialTransferAccountHasBalance
  | ConfidentialTransferAccountNotApproved
  | ConfidentialTransferDepositsAndTransfersDisabled
  | ConfidentialTransferElGamalPubkeyMismatch
  | ConfidentialTransferBalanceMismatch
  | MintHasSupply
  | NoAuthorityExists
  | TransferFeeExceedsMaximum
  | MintRequiredForTransfer
  | FeeMismatch
  | FeeParametersMismatch
  | ImmutableOwner
  | AccountHasWithheldTransferFees
  | NoMemo
  | NonTransferable
  | NonTransferableNeedsImmutableOwnership

primrec Token2022Error_code :: "Token2022Error \<Rightarrow> u32" where
  "Token2022Error_code ExtensionTypeMismatch = 20"
| "Token2022Error_code ExtensionBaseMismatch = 21"
| "Token2022Error_code ExtensionAlreadyInitialized = 22"
| "Token2022Error_code ConfidentialTransferAccountHasBalance = 23"
| "Token2022Error_code ConfidentialTransferAccountNotApproved = 24"
| "Token2022Error_code ConfidentialTransferDepositsAndTransfersDisabled = 25"
| "Token2022Error_code ConfidentialTransferElGamalPubkeyMismatch = 26"
| "Token2022Error_code ConfidentialTransferBalanceMismatch = 27"
| "Token2022Error_code MintHasSupply = 28"
| "Token2022Error_code NoAuthorityExists = 29"
| "Token2022Error_code TransferFeeExceedsMaximum = 30"
| "Token2022Error_code MintRequiredForTransfer = 31"
| "Token2022Error_code FeeMismatch = 32"
| "Token2022Error_code FeeParametersMismatch = 33"
| "Token2022Error_code ImmutableOwner = 34"
| "Token2022Error_code AccountHasWithheldTransferFees = 35"
| "Token2022Error_code NoMemo = 36"
| "Token2022Error_code NonTransferable = 37"
| "Token2022Error_code NonTransferableNeedsImmutableOwnership = 38"

definition token22_err :: "Token2022Error \<Rightarrow> program_error" where
  "token22_err e = Custom (Token2022Error_code e)"

datatype AccountType22 = AccountType_Uninitialized | AccountType_Mint | AccountType_Account

definition AccountType22_byte :: "AccountType22 \<Rightarrow> u8" where
  "AccountType22_byte t =
     (case t of AccountType_Uninitialized \<Rightarrow> 0 | AccountType_Mint \<Rightarrow> 1 | AccountType_Account \<Rightarrow> 2)"

definition AccountType_try_from :: "u8 \<Rightarrow> AccountType22 option" where
  "AccountType_try_from b =
     (if b = 0 then Some AccountType_Uninitialized else if b = 1 then Some AccountType_Mint
      else if b = 2 then Some AccountType_Account else None)"

datatype ExtensionType =
    Ext_Uninitialized
  | Ext_TransferFeeConfig
  | Ext_TransferFeeAmount
  | Ext_MintCloseAuthority
  | Ext_ConfidentialTransferMint
  | Ext_ConfidentialTransferAccount
  | Ext_DefaultAccountState
  | Ext_ImmutableOwner
  | Ext_MemoTransfer
  | Ext_NonTransferable
  | Ext_InterestBearingConfig

definition ExtensionType_variants :: "ExtensionType list" where
  "ExtensionType_variants =
     [Ext_Uninitialized, Ext_TransferFeeConfig, Ext_TransferFeeAmount, Ext_MintCloseAuthority,
      Ext_ConfidentialTransferMint, Ext_ConfidentialTransferAccount, Ext_DefaultAccountState,
      Ext_ImmutableOwner, Ext_MemoTransfer, Ext_NonTransferable, Ext_InterestBearingConfig]"

primrec ExtensionType_u16 :: "ExtensionType \<Rightarrow> u16" where
  "ExtensionType_u16 Ext_Uninitialized = 0"
| "ExtensionType_u16 Ext_TransferFeeConfig = 1"
| "ExtensionType_u16 Ext_TransferFeeAmount = 2"
| "ExtensionType_u16 Ext_MintCloseAuthority = 3"
| "ExtensionType_u16 Ext_ConfidentialTransferMint = 4"
| "ExtensionType_u16 Ext_ConfidentialTransferAccount = 5"
| "ExtensionType_u16 Ext_DefaultAccountState = 6"
| "ExtensionType_u16 Ext_ImmutableOwner = 7"
| "ExtensionType_u16 Ext_MemoTransfer = 8"
| "ExtensionType_u16 Ext_NonTransferable = 9"
| "ExtensionType_u16 Ext_InterestBearingConfig = 10"

text \<open>\<^verbatim>\<open>TryFromPrimitive\<close>: the variant with this number, if there is one.\<close>

definition ExtensionType_try_from_u16 :: "u16 \<Rightarrow> ExtensionType option" where
  "ExtensionType_try_from_u16 n = find (\<lambda>t. ExtensionType_u16 t = n) ExtensionType_variants"

definition ExtensionType_try_from :: "bytes \<Rightarrow> ExtensionType res" where
  "ExtensionType_try_from a =
     (if length a \<noteq> 2 then Inl InvalidAccountData
      else ok_or (ExtensionType_try_from_u16 (from_le_bytes a)) InvalidAccountData)"

definition ExtensionType_bytes :: "ExtensionType \<Rightarrow> bytes" where
  "ExtensionType_bytes t = to_le_bytes (ExtensionType_u16 t)"

definition get_account_type :: "ExtensionType \<Rightarrow> AccountType22" where
  "get_account_type t =
     (case t of
        Ext_Uninitialized \<Rightarrow> AccountType_Uninitialized
      | Ext_TransferFeeConfig \<Rightarrow> AccountType_Mint
      | Ext_MintCloseAuthority \<Rightarrow> AccountType_Mint
      | Ext_ConfidentialTransferMint \<Rightarrow> AccountType_Mint
      | Ext_DefaultAccountState \<Rightarrow> AccountType_Mint
      | Ext_NonTransferable \<Rightarrow> AccountType_Mint
      | Ext_InterestBearingConfig \<Rightarrow> AccountType_Mint
      | Ext_ImmutableOwner \<Rightarrow> AccountType_Account
      | Ext_TransferFeeAmount \<Rightarrow> AccountType_Account
      | Ext_ConfidentialTransferAccount \<Rightarrow> AccountType_Account
      | Ext_MemoTransfer \<Rightarrow> AccountType_Account)"

section \<open>Plain old data\<close>

text \<open>
  A \<^verbatim>\<open>Pod\<close> type is its size and its reading of that many bytes.  An \<^verbatim>\<open>Extension\<close> adds
  the type it is stored under and the value it starts with.
\<close>

record 'v pod =
  pod_len :: nat
  pod_decode :: "bytes \<Rightarrow> 'v"
  pod_encode :: "'v \<Rightarrow> bytes"

record 'v extension = "'v pod" +
  ext_type :: ExtensionType
  ext_default :: 'v

definition pod_from_bytes :: "('v, 'z) pod_scheme \<Rightarrow> bytes \<Rightarrow> 'v res" where
  "pod_from_bytes P bs = (if length bs = pod_len P then Inr (pod_decode P bs) else Inl InvalidArgument)"

definition pod_maybe_from_bytes :: "('v, 'z) pod_scheme \<Rightarrow> bytes \<Rightarrow> 'v option res" where
  "pod_maybe_from_bytes P bs =
     (if bs = [] then Inr None
      else if length bs = pod_len P then Inr (Some (pod_decode P bs)) else Inl InvalidArgument)"

text \<open>\<^verbatim>\<open>PodU16\<close> and \<^verbatim>\<open>Length\<close>, which wraps it.\<close>

definition Length_pod :: "u16 pod" where
  "Length_pod = \<lparr>pod_len = 2, pod_decode = from_le_bytes, pod_encode = to_le_bytes\<rparr>"

definition Length_try_from :: "nat \<Rightarrow> u16 res" where
  "Length_try_from n = (if n < 65536 then Inr (of_nat n) else Inl AccountDataTooSmall)"

text \<open>An \<^verbatim>\<open>OptionalNonZeroPubkey\<close> is a key that reads as \<open>None\<close> when it is zero.\<close>

definition OptionalNonZeroPubkey_try_from :: "pubkey option \<Rightarrow> pubkey res" where
  "OptionalNonZeroPubkey_try_from p =
     (case p of
        None \<Rightarrow> Inr 0
      | Some k \<Rightarrow> if k = 0 then Inl InvalidArgument else Inr k)"

definition OptionalNonZeroPubkey_option :: "pubkey \<Rightarrow> pubkey option" where
  "OptionalNonZeroPubkey_option p = (if p = 0 then None else Some p)"

definition PodBool_from :: "bool \<Rightarrow> u8" where
  "PodBool_from b = (if b then 1 else 0)"

definition bool_from_PodBool :: "u8 \<Rightarrow> bool" where
  "bool_from_PodBool b \<longleftrightarrow> b \<noteq> 0"

section \<open>The extensions\<close>

record transfer_fee =
  fee_epoch :: u64
  fee_maximum :: u64
  fee_basis_points :: u16

record transfer_fee_config =
  tfc_config_authority :: pubkey
  tfc_withdraw_authority :: pubkey
  tfc_withheld_amount :: u64
  tfc_older :: transfer_fee
  tfc_newer :: transfer_fee

record interest_bearing_config =
  ib_rate_authority :: pubkey
  ib_initialization_timestamp :: i64
  ib_pre_update_average_rate :: u16
  ib_last_update_timestamp :: i64
  ib_current_rate :: u16

definition TransferFee_decode :: "bytes \<Rightarrow> transfer_fee" where
  "TransferFee_decode bs =
     \<lparr>fee_epoch = from_le_bytes (subslice 0 8 bs), fee_maximum = from_le_bytes (subslice 8 8 bs),
      fee_basis_points = from_le_bytes (subslice 16 2 bs)\<rparr>"

definition TransferFee_encode :: "transfer_fee \<Rightarrow> bytes" where
  "TransferFee_encode f =
     to_le_bytes (fee_epoch f) @ to_le_bytes (fee_maximum f) @ to_le_bytes (fee_basis_points f)"

definition TransferFee_default :: transfer_fee where
  "TransferFee_default = \<lparr>fee_epoch = 0, fee_maximum = 0, fee_basis_points = 0\<rparr>"

definition TransferFeeConfig_ext :: "transfer_fee_config extension" where
  "TransferFeeConfig_ext =
     \<lparr>pod_len = 108,
      pod_decode = (\<lambda>bs.
        \<lparr>tfc_config_authority = from_le_bytes (subslice 0 32 bs),
         tfc_withdraw_authority = from_le_bytes (subslice 32 32 bs),
         tfc_withheld_amount = from_le_bytes (subslice 64 8 bs),
         tfc_older = TransferFee_decode (subslice 72 18 bs),
         tfc_newer = TransferFee_decode (subslice 90 18 bs)\<rparr>),
      pod_encode = (\<lambda>c. to_le_bytes (tfc_config_authority c) @ to_le_bytes (tfc_withdraw_authority c) @
        to_le_bytes (tfc_withheld_amount c) @ TransferFee_encode (tfc_older c) @ TransferFee_encode (tfc_newer c)),
      ext_type = Ext_TransferFeeConfig,
      ext_default = \<lparr>tfc_config_authority = 0, tfc_withdraw_authority = 0, tfc_withheld_amount = 0,
                     tfc_older = TransferFee_default, tfc_newer = TransferFee_default\<rparr>\<rparr>"

text \<open>\<^verbatim>\<open>TransferFeeAmount\<close> has one field, the withheld amount, which stands for it.\<close>

definition TransferFeeAmount_ext :: "u64 extension" where
  "TransferFeeAmount_ext =
     \<lparr>pod_len = 8, pod_decode = from_le_bytes, pod_encode = to_le_bytes,
      ext_type = Ext_TransferFeeAmount, ext_default = 0\<rparr>"

definition MintCloseAuthority_ext :: "pubkey extension" where
  "MintCloseAuthority_ext =
     \<lparr>pod_len = 32, pod_decode = from_le_bytes, pod_encode = to_le_bytes,
      ext_type = Ext_MintCloseAuthority, ext_default = 0\<rparr>"

definition ImmutableOwner_ext :: "unit extension" where
  "ImmutableOwner_ext =
     \<lparr>pod_len = 0, pod_decode = (\<lambda>_. ()), pod_encode = (\<lambda>_. []),
      ext_type = Ext_ImmutableOwner, ext_default = ()\<rparr>"

definition NonTransferable_ext :: "unit extension" where
  "NonTransferable_ext =
     \<lparr>pod_len = 0, pod_decode = (\<lambda>_. ()), pod_encode = (\<lambda>_. []),
      ext_type = Ext_NonTransferable, ext_default = ()\<rparr>"

definition DefaultAccountState_ext :: "u8 extension" where
  "DefaultAccountState_ext =
     \<lparr>pod_len = 1, pod_decode = from_le_bytes, pod_encode = to_le_bytes,
      ext_type = Ext_DefaultAccountState, ext_default = 0\<rparr>"

definition MemoTransfer_ext :: "u8 extension" where
  "MemoTransfer_ext =
     \<lparr>pod_len = 1, pod_decode = from_le_bytes, pod_encode = to_le_bytes,
      ext_type = Ext_MemoTransfer, ext_default = 0\<rparr>"

definition InterestBearingConfig_ext :: "interest_bearing_config extension" where
  "InterestBearingConfig_ext =
     \<lparr>pod_len = 52,
      pod_decode = (\<lambda>bs.
        \<lparr>ib_rate_authority = from_le_bytes (subslice 0 32 bs),
         ib_initialization_timestamp = from_le_bytes (subslice 32 8 bs),
         ib_pre_update_average_rate = from_le_bytes (subslice 40 2 bs),
         ib_last_update_timestamp = from_le_bytes (subslice 42 8 bs),
         ib_current_rate = from_le_bytes (subslice 50 2 bs)\<rparr>),
      pod_encode = (\<lambda>c. to_le_bytes (ib_rate_authority c) @ to_le_bytes (ib_initialization_timestamp c) @
        to_le_bytes (ib_pre_update_average_rate c) @ to_le_bytes (ib_last_update_timestamp c) @
        to_le_bytes (ib_current_rate c)),
      ext_type = Ext_InterestBearingConfig,
      ext_default = \<lparr>ib_rate_authority = 0, ib_initialization_timestamp = 0,
                     ib_pre_update_average_rate = 0, ib_last_update_timestamp = 0, ib_current_rate = 0\<rparr>\<rparr>"

record zk_sizes =
  zk_pubkey_len :: nat
  zk_ciphertext_len :: nat
  zk_ae_ciphertext_len :: nat

text \<open>The part of a confidential account that closing it looks at; the rest is kept as bytes.\<close>

record confidential_account =
  ca_head :: bytes
  ca_pending_balance :: bytes
  ca_available_balance :: bytes
  ca_middle :: bytes
  ca_withheld_amount :: bytes

definition confidential_mint_len :: "zk_sizes \<Rightarrow> nat" where
  "confidential_mint_len zk = 32 + 1 + zk_pubkey_len zk + zk_pubkey_len zk + zk_ciphertext_len zk"

definition confidential_middle_len :: "zk_sizes \<Rightarrow> nat" where
  "confidential_middle_len zk = zk_ae_ciphertext_len zk + 1 + 8 + 8 + 8"

definition confidential_account_len :: "zk_sizes \<Rightarrow> nat" where
  "confidential_account_len zk =
     1 + zk_pubkey_len zk + zk_ciphertext_len zk + zk_ciphertext_len zk +
     confidential_middle_len zk + zk_ciphertext_len zk"

definition ConfidentialTransferAccount_ext :: "zk_sizes \<Rightarrow> confidential_account extension" where
  "ConfidentialTransferAccount_ext zk =
     (let hd_len = 1 + zk_pubkey_len zk; ct = zk_ciphertext_len zk; mid = confidential_middle_len zk in
      \<lparr>pod_len = confidential_account_len zk,
       pod_decode = (\<lambda>bs.
         \<lparr>ca_head = subslice 0 hd_len bs,
          ca_pending_balance = subslice hd_len ct bs,
          ca_available_balance = subslice (hd_len + ct) ct bs,
          ca_middle = subslice (hd_len + ct + ct) mid bs,
          ca_withheld_amount = subslice (hd_len + ct + ct + mid) ct bs\<rparr>),
       pod_encode = (\<lambda>c. ca_head c @ ca_pending_balance c @ ca_available_balance c @ ca_middle c @ ca_withheld_amount c),
       ext_type = Ext_ConfidentialTransferAccount,
       ext_default = \<lparr>ca_head = replicate hd_len 0, ca_pending_balance = replicate ct 0,
                      ca_available_balance = replicate ct 0, ca_middle = replicate mid 0,
                      ca_withheld_amount = replicate ct 0\<rparr>\<rparr>)"

text \<open>\<^verbatim>\<open>ConfidentialTransferAccount::closable\<close>: no ciphertext but the zeroed one.\<close>

definition confidential_closable :: "confidential_account \<Rightarrow> unit res" where
  "confidential_closable c =
     (if (\<forall>b \<in> set (ca_pending_balance c). b = 0) \<and> (\<forall>b \<in> set (ca_available_balance c). b = 0) \<and>
         (\<forall>b \<in> set (ca_withheld_amount c). b = 0)
      then Inr () else Inl (token22_err ConfidentialTransferAccountHasBalance))"

section \<open>Lengths\<close>

definition get_type_len :: "zk_sizes \<Rightarrow> ExtensionType \<Rightarrow> nat" where
  "get_type_len zk t =
     (case t of
        Ext_Uninitialized \<Rightarrow> 0
      | Ext_TransferFeeConfig \<Rightarrow> pod_len TransferFeeConfig_ext
      | Ext_TransferFeeAmount \<Rightarrow> pod_len TransferFeeAmount_ext
      | Ext_MintCloseAuthority \<Rightarrow> pod_len MintCloseAuthority_ext
      | Ext_ImmutableOwner \<Rightarrow> pod_len ImmutableOwner_ext
      | Ext_ConfidentialTransferMint \<Rightarrow> confidential_mint_len zk
      | Ext_ConfidentialTransferAccount \<Rightarrow> confidential_account_len zk
      | Ext_DefaultAccountState \<Rightarrow> pod_len DefaultAccountState_ext
      | Ext_MemoTransfer \<Rightarrow> pod_len MemoTransfer_ext
      | Ext_NonTransferable \<Rightarrow> pod_len NonTransferable_ext
      | Ext_InterestBearingConfig \<Rightarrow> pod_len InterestBearingConfig_ext)"

definition get_tlv_len :: "zk_sizes \<Rightarrow> ExtensionType \<Rightarrow> nat" where
  "get_tlv_len zk t = get_type_len zk t + 2 + 2"

text \<open>The loop that keeps the first occurrence of each type.\<close>

definition dedupe :: "ExtensionType list \<Rightarrow> ExtensionType list" where
  "dedupe ts = fold (\<lambda>t es. if t \<in> set es then es else es @ [t]) ts []"

abbreviation BASE_ACCOUNT_LENGTH :: nat where "BASE_ACCOUNT_LENGTH \<equiv> ACCOUNT_LEN"

definition get_total_tlv_len :: "zk_sizes \<Rightarrow> ExtensionType list \<Rightarrow> nat" where
  "get_total_tlv_len zk ts =
     (let tlv_len = sum_list (map (get_tlv_len zk) (dedupe ts)) in
      if tlv_len = MULTISIG_LEN - BASE_ACCOUNT_LENGTH - 1 then tlv_len + 2 else tlv_len)"

definition get_account_len :: "zk_sizes \<Rightarrow> nat \<Rightarrow> ExtensionType list \<Rightarrow> nat" where
  "get_account_len zk base_len ts =
     (if ts = [] then base_len else get_total_tlv_len zk ts + BASE_ACCOUNT_LENGTH + 1)"

definition get_required_init_account_extensions :: "ExtensionType list \<Rightarrow> ExtensionType list" where
  "get_required_init_account_extensions ts =
     concat (map (\<lambda>t. case t of Ext_TransferFeeConfig \<Rightarrow> [Ext_TransferFeeAmount] | _ \<Rightarrow> []) ts)"

section \<open>Walking the entries\<close>

record tlv_indices =
  type_start :: nat
  length_start :: nat
  value_start :: nat

definition get_tlv_indices :: "nat \<Rightarrow> tlv_indices" where
  "get_tlv_indices s = \<lparr>type_start = s, length_start = s + 2, value_start = s + 2 + 2\<rparr>"

lemma get_tlv_indices_sel [simp]:
  "type_start (get_tlv_indices s) = s" "length_start (get_tlv_indices s) = s + 2"
  "value_start (get_tlv_indices s) = s + 4"
  by (simp_all add: get_tlv_indices_def)

text \<open>\<^verbatim>\<open>&bs[a..b]\<close>, which panics outside the slice.\<close>

definition slice_at :: "bytes \<Rightarrow> nat \<Rightarrow> nat \<Rightarrow> bytes res" where
  "slice_at bs a b = (if a \<le> b \<and> b \<le> length bs then Inr (subslice a (b - a) bs) else Inl Panicked)"

function extension_indices_from :: "bytes \<Rightarrow> ExtensionType \<Rightarrow> bool \<Rightarrow> nat \<Rightarrow> tlv_indices res" where
  "extension_indices_from tlv ty init start_index =
     (if start_index < length tlv then
        let ix = get_tlv_indices start_index in
        if length tlv < value_start ix then Inl InvalidAccountData
        else
          attempt (ExtensionType_try_from (subslice (type_start ix) 2 tlv)) (\<lambda>et.
          if et = Ext_Uninitialized then
            (if init then Inr ix else extension_indices_from tlv ty init (length_start ix))
          else if et = ty then Inr ix
          else if get_account_type ty \<noteq> get_account_type et then Inl (token22_err ExtensionTypeMismatch)
          else attempt (pod_from_bytes Length_pod (subslice (length_start ix) 2 tlv)) (\<lambda>len.
               extension_indices_from tlv ty init (value_start ix + unat len)))
      else Inl InvalidAccountData)"
  by pat_completeness auto

termination
  by (relation "measure (\<lambda>(tlv, ty, init, s). length tlv - s)") auto

declare extension_indices_from.simps [simp del]

definition get_extension_indices :: "bytes \<Rightarrow> ExtensionType \<Rightarrow> bool \<Rightarrow> tlv_indices res" where
  "get_extension_indices tlv ty init = extension_indices_from tlv ty init 0"

function extension_types_from :: "bytes \<Rightarrow> nat \<Rightarrow> ExtensionType list \<Rightarrow> ExtensionType list res" where
  "extension_types_from tlv start_index acc =
     (if start_index < length tlv then
        let ix = get_tlv_indices start_index in
        if length tlv < value_start ix then Inr acc
        else
          attempt (ExtensionType_try_from (subslice (type_start ix) 2 tlv)) (\<lambda>et.
          if et = Ext_Uninitialized then Inr acc
          else attempt (pod_from_bytes Length_pod (subslice (length_start ix) 2 tlv)) (\<lambda>len.
               extension_types_from tlv (value_start ix + unat len) (acc @ [et])))
      else Inr acc)"
  by pat_completeness auto

termination
  by (relation "measure (\<lambda>(tlv, s, acc). length tlv - s)") auto

declare extension_types_from.simps [simp del]

definition get_extension_types :: "bytes \<Rightarrow> ExtensionType list res" where
  "get_extension_types tlv = extension_types_from tlv 0 []"

definition get_first_extension_type :: "bytes \<Rightarrow> ExtensionType option res" where
  "get_first_extension_type tlv =
     (if tlv = [] then Inr None
      else
        let ix = get_tlv_indices 0 in
        if length tlv \<le> length_start ix then Inr None
        else attempt (ExtensionType_try_from (subslice (type_start ix) 2 tlv)) (\<lambda>et.
             Inr (if et = Ext_Uninitialized then None else Some et)))"

definition tlv_get_extension :: "AccountType22 \<Rightarrow> bytes \<Rightarrow> 'v extension \<Rightarrow> 'v res" where
  "tlv_get_extension at tlv V =
     (if get_account_type (ext_type V) \<noteq> at then Inl InvalidAccountData
      else
        attempt (get_extension_indices tlv (ext_type V) False) (\<lambda>ix.
        attempt (pod_from_bytes Length_pod (subslice (length_start ix) 2 tlv)) (\<lambda>len.
        attempt (slice_at tlv (value_start ix) (value_start ix + unat len)) (\<lambda>bs.
        pod_from_bytes V bs))))"

section \<open>Base states\<close>

record 's base_state =
  bs_len :: nat
  bs_from_slice :: "bytes \<Rightarrow> 's res"
  bs_into_slice :: "'s \<Rightarrow> bytes \<Rightarrow> bytes res"
  bs_is_initialized :: "'s \<Rightarrow> bool"
  bs_account_type :: AccountType22

definition Account_base :: "account base_state" where
  "Account_base =
     \<lparr>bs_len = ACCOUNT_LEN, bs_from_slice = Account_unpack_from_slice,
      bs_into_slice = Account_pack_into_slice, bs_is_initialized = account_is_initialized,
      bs_account_type = AccountType_Account\<rparr>"

definition Mint_base :: "mint base_state" where
  "Mint_base =
     \<lparr>bs_len = MINT_LEN, bs_from_slice = Mint_unpack_from_slice,
      bs_into_slice = Mint_pack_into_slice, bs_is_initialized = mint_is_initialized,
      bs_account_type = AccountType_Mint\<rparr>"

definition check_min_len_and_not_multisig :: "bytes \<Rightarrow> nat \<Rightarrow> unit res" where
  "check_min_len_and_not_multisig input minimum_len =
     (if length input = MULTISIG_LEN \<or> length input < minimum_len then Inl InvalidAccountData else Inr ())"

definition check_account_type :: "'s base_state \<Rightarrow> AccountType22 \<Rightarrow> unit res" where
  "check_account_type S t = (if t \<noteq> bs_account_type S then Inl InvalidAccountData else Inr ())"

definition type_and_tlv_indices :: "'s base_state \<Rightarrow> bytes \<Rightarrow> (nat \<times> nat) option res" where
  "type_and_tlv_indices S rest_input =
     (if rest_input = [] then Inr None
      else
        let account_type_index = BASE_ACCOUNT_LENGTH - bs_len S;
            tlv_start_index = account_type_index + 1
        in if length rest_input \<le> tlv_start_index then Inl InvalidAccountData
           else if take account_type_index rest_input \<noteq> replicate account_type_index 0
           then Inl InvalidAccountData
           else Inr (Some (account_type_index, tlv_start_index)))"

definition is_initialized_account :: "bytes \<Rightarrow> bool res" where
  "is_initialized_account input =
     (if length input \<noteq> BASE_ACCOUNT_LENGTH then Inl InvalidAccountData else Inr (input ! 108 \<noteq> 0))"

section \<open>States with extensions\<close>

text \<open>
  \<^verbatim>\<open>StateWithExtensions\<close> reads: the base and the entries.  \<^verbatim>\<open>StateWithExtensionsMut\<close>
  borrows the parts of the buffer; \<open>sx_bytes\<close> is the buffer they make up.
\<close>

record 's state_view =
  sv_base :: 's
  sv_tlv :: bytes

record 's state_ext =
  sx_base :: 's
  sx_base_data :: bytes
  sx_padding :: bytes
  sx_account_type :: bytes
  sx_tlv :: bytes

definition sx_bytes :: "'s state_ext \<Rightarrow> bytes" where
  "sx_bytes st = sx_base_data st @ sx_padding st @ sx_account_type st @ sx_tlv st"

definition StateWithExtensions_unpack :: "'s base_state \<Rightarrow> bytes \<Rightarrow> 's state_view res" where
  "StateWithExtensions_unpack S input =
     attempt (check_min_len_and_not_multisig input (bs_len S)) (\<lambda>_.
     let base_data = take (bs_len S) input; rest = drop (bs_len S) input in
     attempt (Pack_unpack (bs_len S) (bs_from_slice S) (bs_is_initialized S) base_data) (\<lambda>base.
     attempt (type_and_tlv_indices S rest) (\<lambda>idx.
     case idx of
       Some (account_type_index, tlv_start_index) \<Rightarrow>
         attempt (ok_or (AccountType_try_from (rest ! account_type_index)) InvalidAccountData) (\<lambda>t.
         attempt (check_account_type S t) (\<lambda>_.
         Inr \<lparr>sv_base = base, sv_tlv = drop tlv_start_index rest\<rparr>))
     | None \<Rightarrow> Inr \<lparr>sv_base = base, sv_tlv = []\<rparr>)))"

definition sv_get_extension :: "'s base_state \<Rightarrow> 's state_view \<Rightarrow> 'v extension \<Rightarrow> 'v res" where
  "sv_get_extension S st V = tlv_get_extension (bs_account_type S) (sv_tlv st) V"

definition StateWithExtensionsMut_unpack :: "'s base_state \<Rightarrow> bytes \<Rightarrow> 's state_ext res" where
  "StateWithExtensionsMut_unpack S input =
     attempt (check_min_len_and_not_multisig input (bs_len S)) (\<lambda>_.
     let base_data = take (bs_len S) input; rest = drop (bs_len S) input in
     attempt (Pack_unpack (bs_len S) (bs_from_slice S) (bs_is_initialized S) base_data) (\<lambda>base.
     attempt (type_and_tlv_indices S rest) (\<lambda>idx.
     case idx of
       Some (account_type_index, tlv_start_index) \<Rightarrow>
         attempt (ok_or (AccountType_try_from (rest ! account_type_index)) InvalidAccountData) (\<lambda>t.
         attempt (check_account_type S t) (\<lambda>_.
         Inr \<lparr>sx_base = base, sx_base_data = base_data,
              sx_padding = take account_type_index rest,
              sx_account_type = subslice account_type_index (tlv_start_index - account_type_index) rest,
              sx_tlv = drop tlv_start_index rest\<rparr>))
     | None \<Rightarrow> Inr \<lparr>sx_base = base, sx_base_data = base_data, sx_padding = [], sx_account_type = [], sx_tlv = []\<rparr>)))"

definition StateWithExtensionsMut_unpack_uninitialized :: "'s base_state \<Rightarrow> bytes \<Rightarrow> 's state_ext res" where
  "StateWithExtensionsMut_unpack_uninitialized S input =
     attempt (check_min_len_and_not_multisig input (bs_len S)) (\<lambda>_.
     let base_data = take (bs_len S) input; rest = drop (bs_len S) input in
     attempt (Pack_unpack_unchecked (bs_len S) (bs_from_slice S) base_data) (\<lambda>base.
     if bs_is_initialized S base then Inl (token_err AlreadyInUse)
     else attempt (type_and_tlv_indices S rest) (\<lambda>idx.
     case idx of
       Some (account_type_index, tlv_start_index) \<Rightarrow>
         attempt (ok_or (AccountType_try_from (rest ! account_type_index)) InvalidAccountData) (\<lambda>t.
         if t \<noteq> AccountType_Uninitialized then Inl InvalidAccountData
         else
           let st = \<lparr>sx_base = base, sx_base_data = base_data,
                     sx_padding = take account_type_index rest,
                     sx_account_type = subslice account_type_index (tlv_start_index - account_type_index) rest,
                     sx_tlv = drop tlv_start_index rest\<rparr> in
           attempt (get_first_extension_type (sx_tlv st)) (\<lambda>first.
           case first of
             Some et \<Rightarrow> if get_account_type et \<noteq> bs_account_type S
                        then Inl (token22_err ExtensionBaseMismatch) else Inr st
           | None \<Rightarrow> Inr st))
     | None \<Rightarrow> Inr \<lparr>sx_base = base, sx_base_data = base_data, sx_padding = [], sx_account_type = [], sx_tlv = []\<rparr>)))"

text \<open>Writing through a reference: the bytes of the new value at its offset.\<close>

definition write_at22 :: "nat \<Rightarrow> bytes \<Rightarrow> bytes \<Rightarrow> bytes" where
  "write_at22 off new bs = take off bs @ new @ drop (off + length new) bs"

definition sx_store :: "'v extension \<Rightarrow> nat \<Rightarrow> 'v \<Rightarrow> 's state_ext \<Rightarrow> 's state_ext" where
  "sx_store V off v st = st\<lparr>sx_tlv := write_at22 off (pod_encode V v) (sx_tlv st)\<rparr>"

text \<open>
  The reference handed out is the offset of the value; the second component is the value there.
\<close>

definition init_or_get_extension ::
    "zk_sizes \<Rightarrow> 's base_state \<Rightarrow> 'v extension \<Rightarrow> bool \<Rightarrow> 's state_ext \<Rightarrow> (nat \<times> 'v \<times> 's state_ext) res" where
  "init_or_get_extension zk S V init st =
     (if get_account_type (ext_type V) \<noteq> bs_account_type S then Inl InvalidAccountData
      else
        attempt (get_extension_indices (sx_tlv st) (ext_type V) init) (\<lambda>ix.
        if length (drop (type_start ix) (sx_tlv st)) < get_tlv_len zk (ext_type V) then Inl InvalidAccountData
        else if init then
          let tlv = write_at22 (type_start ix) (ExtensionType_bytes (ext_type V)) (sx_tlv st) in
          (case Length_try_from (pod_len V) of
             Inl _ \<Rightarrow> Inl Panicked
           | Inr len \<Rightarrow>
               let tlv = write_at22 (length_start ix) (to_le_bytes len) tlv in
               attempt (slice_at tlv (value_start ix) (value_start ix + pod_len V)) (\<lambda>bs.
               attempt (pod_from_bytes V bs) (\<lambda>_.
               Inr (value_start ix, ext_default V,
                    sx_store V (value_start ix) (ext_default V) (st\<lparr>sx_tlv := tlv\<rparr>)))))
        else
          attempt (pod_from_bytes Length_pod (subslice (length_start ix) 2 (sx_tlv st))) (\<lambda>len.
          attempt (slice_at (sx_tlv st) (value_start ix) (value_start ix + unat len)) (\<lambda>bs.
          attempt (pod_from_bytes V bs) (\<lambda>v. Inr (value_start ix, v, st))))))"

definition get_extension_mut ::
    "zk_sizes \<Rightarrow> 's base_state \<Rightarrow> 'v extension \<Rightarrow> 's state_ext \<Rightarrow> (nat \<times> 'v \<times> 's state_ext) res" where
  "get_extension_mut zk S V st = init_or_get_extension zk S V False st"

definition init_extension ::
    "zk_sizes \<Rightarrow> 's base_state \<Rightarrow> 'v extension \<Rightarrow> 's state_ext \<Rightarrow> (nat \<times> 'v \<times> 's state_ext) res" where
  "init_extension zk S V st = init_or_get_extension zk S V True st"

definition sx_get_extension :: "zk_sizes \<Rightarrow> 's base_state \<Rightarrow> 'v extension \<Rightarrow> 's state_ext \<Rightarrow> 'v res" where
  "sx_get_extension zk S V st =
     (if get_account_type (ext_type V) \<noteq> bs_account_type S then Inl InvalidAccountData
      else
        attempt (get_extension_indices (sx_tlv st) (ext_type V) False) (\<lambda>ix.
        if length (drop (type_start ix) (sx_tlv st)) < get_tlv_len zk (ext_type V) then Inl InvalidAccountData
        else
          attempt (pod_from_bytes Length_pod (subslice (length_start ix) 2 (sx_tlv st))) (\<lambda>len.
          attempt (slice_at (sx_tlv st) (value_start ix) (value_start ix + unat len)) (\<lambda>bs.
          pod_from_bytes V bs))))"

definition pack_base :: "'s base_state \<Rightarrow> 's state_ext \<Rightarrow> 's state_ext res" where
  "pack_base S st =
     attempt (bs_into_slice S (sx_base st) (sx_base_data st)) (\<lambda>bs. Inr (st\<lparr>sx_base_data := bs\<rparr>))"

definition init_account_extension_from_type ::
    "zk_sizes \<Rightarrow> ExtensionType \<Rightarrow> account state_ext \<Rightarrow> account state_ext res" where
  "init_account_extension_from_type zk t st =
     (if get_account_type t \<noteq> AccountType_Account then Inr st
      else case t of
        Ext_TransferFeeAmount \<Rightarrow>
          attempt (init_extension zk Account_base TransferFeeAmount_ext st) (\<lambda>(_, _, st). Inr st)
      | Ext_ConfidentialTransferAccount \<Rightarrow> Inr st
      | _ \<Rightarrow> Inl Panicked)"

definition init_account_type :: "'s base_state \<Rightarrow> 's state_ext \<Rightarrow> 's state_ext res" where
  "init_account_type S st =
     (if sx_account_type st \<noteq> [] then
        attempt (get_first_extension_type (sx_tlv st)) (\<lambda>first.
        let st' = st\<lparr>sx_account_type := (sx_account_type st)[0 := AccountType22_byte (bs_account_type S)]\<rparr> in
        case first of
          Some et \<Rightarrow> if get_account_type et \<noteq> bs_account_type S
                     then Inl (token22_err ExtensionBaseMismatch) else Inr st'
        | None \<Rightarrow> Inr st')
      else Inr st)"

definition set_account_type :: "'s base_state \<Rightarrow> bytes \<Rightarrow> bytes res" where
  "set_account_type S input =
     attempt (check_min_len_and_not_multisig input (bs_len S)) (\<lambda>_.
     let base_data = take (bs_len S) input; rest = drop (bs_len S) input in
     attempt (if bs_account_type S = AccountType_Account then is_initialized_account base_data else Inr True) (\<lambda>ok.
     if \<not> ok then Inl InvalidAccountData
     else attempt (type_and_tlv_indices S rest) (\<lambda>idx.
     case idx of
       Some (account_type_index, _) \<Rightarrow>
         attempt (ok_or (AccountType_try_from (rest ! account_type_index)) InvalidAccountData) (\<lambda>t.
         let rest' = (if t = AccountType_Uninitialized
                      then rest[account_type_index := AccountType22_byte (bs_account_type S)] else rest);
             t' = (if t = AccountType_Uninitialized then bs_account_type S else t) in
         attempt (check_account_type S t') (\<lambda>_. Inr (base_data @ rest')))
     | None \<Rightarrow> Inl InvalidAccountData)))"

end
