(* ===== verification/Token22_Fees.thy ===== *)
theory Token22_Fees
  imports Token22_Extension
begin

text \<open>
  The transfer-fee extension of the extended token program
  (\<^verbatim>\<open>token/program-2022/src/extension/transfer_fee\<close>), with what the other handlers share with
  it and the memo check of transfers.  Owner validation is the same
  code as in the first program and shares its model.

  A value borrowed mutably must not be borrowed again: where a handler borrows two accounts at
  once, passing the same account twice aborts it, and the model says so.  An abort inside a call
  whose error the code discards still aborts.
\<close>

section \<open>The environment\<close>

text \<open>
  Besides the runtime and the ciphertext sizes: the instruction that ran before this one
  (\<^verbatim>\<open>get_processed_sibling_instruction(0)\<close>), the two memo programs, the instructions of the
  system program, and how far one call may grow an account
  (\<^verbatim>\<open>MAX_PERMITTED_DATA_INCREASE\<close> of the runtime).
\<close>

record env22 =
  env_rt :: runtime
  env_zk :: zk_sizes
  env_sibling :: "sol_instruction option"
  env_memo_id :: pubkey
  env_memo_v1_id :: pubkey
  env_system_transfer :: "pubkey \<Rightarrow> pubkey \<Rightarrow> u64 \<Rightarrow> sol_instruction"
  env_system_allocate :: "pubkey \<Rightarrow> u64 \<Rightarrow> sol_instruction"
  env_system_assign :: "pubkey \<Rightarrow> pubkey \<Rightarrow> sol_instruction"
  env_max_data_increase :: nat

definition token22_program_id :: "runtime \<Rightarrow> pubkey" where
  "token22_program_id R = rt_declare_id R ''TokenzQdBNbLqP5VEhdkAS6EPFLC1PHnBqCXEpPxuEb''"

definition native_mint22_id :: "runtime \<Rightarrow> pubkey" where
  "native_mint22_id R = rt_declare_id R ''9pan9bMn5HatX4EJdBwg9VgCa7Uz5HL8N1m5D3NdXejP''"

definition check_program_account22 :: "runtime \<Rightarrow> pubkey \<Rightarrow> unit res" where
  "check_program_account22 R k = (if k \<noteq> token22_program_id R then Inl IncorrectProgramId else Inr ())"

text \<open>\<^verbatim>\<open>if let Ok(x) = m\<close> and \<^verbatim>\<open>m.map_err(f)\<close>: an abort is not an error value.\<close>

definition catch :: "'a res \<Rightarrow> 'a option res" where
  "catch m = (case m of Inr x \<Rightarrow> Inr (Some x) | Inl e \<Rightarrow> if e = Panicked then Inl Panicked else Inr None)"

definition map_error :: "program_error \<Rightarrow> 'a res \<Rightarrow> 'a res" where
  "map_error e m = attempt (catch m) (\<lambda>x. ok_or x e)"

definition store_state :: "pubkey \<Rightarrow> 's state_ext \<Rightarrow> ledger \<Rightarrow> ledger" where
  "store_state k st led = set_data k (sx_bytes st) led"

abbreviation unpack_account where "unpack_account \<equiv> StateWithExtensionsMut_unpack Account_base"
abbreviation unpack_mint where "unpack_mint \<equiv> StateWithExtensionsMut_unpack Mint_base"
abbreviation view_account where "view_account \<equiv> StateWithExtensions_unpack Account_base"
abbreviation view_mint where "view_mint \<equiv> StateWithExtensions_unpack Mint_base"

section \<open>Transfer fees\<close>

definition MAX_FEE_BASIS_POINTS :: u16 where
  "MAX_FEE_BASIS_POINTS = 10000"

definition ONE_IN_BASIS_POINTS :: u128 where
  "ONE_IN_BASIS_POINTS = ucast MAX_FEE_BASIS_POINTS"

definition checked_rem :: "'a::len word \<Rightarrow> 'a word \<Rightarrow> 'a word option" where
  "checked_rem x y = (if y = 0 then None else Some (x mod y))"

definition TransferFee_calculate :: "transfer_fee \<Rightarrow> u64 \<Rightarrow> u64 option" where
  "TransferFee_calculate f amt =
     (let basis_points = (ucast (fee_basis_points f) :: u128) in
      if basis_points = 0 \<or> amt = 0 then Some 0
      else Option.bind (checked_mul (ucast amt) basis_points) (\<lambda>numerator.
           Option.bind (checked_div numerator ONE_IN_BASIS_POINTS) (\<lambda>raw_fee.
           Option.bind (checked_rem numerator ONE_IN_BASIS_POINTS) (\<lambda>remainder.
           Option.bind (if remainder > 0 then checked_add raw_fee 1 else Some raw_fee) (\<lambda>raw_fee.
           Option.bind (try_from_word raw_fee) (\<lambda>raw_fee.
           Some (min raw_fee (fee_maximum f))))))))"

definition get_epoch_fee :: "transfer_fee_config \<Rightarrow> u64 \<Rightarrow> transfer_fee" where
  "get_epoch_fee c epoch = (if fee_epoch (tfc_newer c) \<le> epoch then tfc_newer c else tfc_older c)"

definition calculate_epoch_fee :: "transfer_fee_config \<Rightarrow> u64 \<Rightarrow> u64 \<Rightarrow> u64 option" where
  "calculate_epoch_fee c epoch amt = TransferFee_calculate (get_epoch_fee c epoch) amt"

definition TransferFeeAmount_closable :: "u64 \<Rightarrow> unit res" where
  "TransferFeeAmount_closable withheld =
     (if withheld = 0 then Inr () else Inl (token22_err AccountHasWithheldTransferFees))"

definition process_initialize_transfer_fee_config ::
    "env22 \<Rightarrow> account_info list \<Rightarrow> pubkey option \<Rightarrow> pubkey option \<Rightarrow> u16 \<Rightarrow> u64 \<Rightarrow> ledger \<Rightarrow> ledger res" where
  "process_initialize_transfer_fee_config E accounts config_authority withdraw_authority basis_points maximum_fee led =
     attempt (next_account_info accounts) (\<lambda>(mint_info, it).
     attempt (StateWithExtensionsMut_unpack_uninitialized Mint_base (info_data led mint_info)) (\<lambda>mint.
     attempt (init_extension (env_zk E) Mint_base TransferFeeConfig_ext mint) (\<lambda>(ref, extension, mint).
     attempt (OptionalNonZeroPubkey_try_from config_authority) (\<lambda>config_key.
     attempt (OptionalNonZeroPubkey_try_from withdraw_authority) (\<lambda>withdraw_key.
     if basis_points > MAX_FEE_BASIS_POINTS then Inl (token22_err TransferFeeExceedsMaximum)
     else
       attempt (rt_clock_get (env_rt E)) (\<lambda>clock.
       let fee = \<lparr>fee_epoch = clock_epoch clock, fee_maximum = maximum_fee, fee_basis_points = basis_points\<rparr>;
           extension = extension\<lparr>tfc_config_authority := config_key, tfc_withdraw_authority := withdraw_key,
                                 tfc_withheld_amount := 0, tfc_older := fee, tfc_newer := fee\<rparr> in
       Inr (store_state (ai_key mint_info) (sx_store TransferFeeConfig_ext ref extension mint) led)))))))"

definition process_set_transfer_fee ::
    "env22 \<Rightarrow> pubkey \<Rightarrow> account_info list \<Rightarrow> u16 \<Rightarrow> u64 \<Rightarrow> ledger \<Rightarrow> ledger res" where
  "process_set_transfer_fee E program_id accounts basis_points maximum_fee led =
     attempt (next_account_info accounts) (\<lambda>(mint_info, it).
     attempt (next_account_info it) (\<lambda>(authority_info, signers).
     attempt (unpack_mint (info_data led mint_info)) (\<lambda>mint.
     attempt (get_extension_mut (env_zk E) Mint_base TransferFeeConfig_ext mint) (\<lambda>(ref, extension, mint).
     attempt (ok_or (OptionalNonZeroPubkey_option (tfc_config_authority extension)) (token22_err NoAuthorityExists)) (\<lambda>authority.
     attempt (validate_owner program_id led authority authority_info signers) (\<lambda>_.
     if basis_points > MAX_FEE_BASIS_POINTS then Inl (token22_err TransferFeeExceedsMaximum)
     else
       attempt (rt_clock_get (env_rt E)) (\<lambda>clock.
       let epoch = clock_epoch clock;
           extension = (if fee_epoch (tfc_newer extension) \<le> epoch
                        then extension\<lparr>tfc_older := tfc_newer extension\<rparr> else extension);
           fee = \<lparr>fee_epoch = saturating_add epoch 2, fee_maximum = maximum_fee, fee_basis_points = basis_points\<rparr>;
           extension = extension\<lparr>tfc_newer := fee\<rparr> in
       Inr (store_state (ai_key mint_info) (sx_store TransferFeeConfig_ext ref extension mint) led))))))))"

definition process_withdraw_withheld_tokens_from_mint ::
    "env22 \<Rightarrow> pubkey \<Rightarrow> account_info list \<Rightarrow> ledger \<Rightarrow> ledger res" where
  "process_withdraw_withheld_tokens_from_mint E program_id accounts led =
     attempt (next_account_info accounts) (\<lambda>(mint_info, it).
     attempt (next_account_info it) (\<lambda>(destination_info, it).
     attempt (next_account_info it) (\<lambda>(authority_info, signers).
     attempt (unpack_mint (info_data led mint_info)) (\<lambda>mint.
     attempt (get_extension_mut (env_zk E) Mint_base TransferFeeConfig_ext mint) (\<lambda>(ref, extension, mint).
     attempt (ok_or (OptionalNonZeroPubkey_option (tfc_withdraw_authority extension)) (token22_err NoAuthorityExists)) (\<lambda>authority.
     attempt (validate_owner program_id led authority authority_info signers) (\<lambda>_.
     if ai_key destination_info = ai_key mint_info then Inl Panicked
     else
       attempt (unpack_account (info_data led destination_info)) (\<lambda>destination.
       if ta_mint (sx_base destination) \<noteq> ai_key mint_info then Inl (token_err MintMismatch)
       else if is_frozen (sx_base destination) then Inl (token_err AccountFrozen)
       else
         let withheld = tfc_withheld_amount extension;
             mint = sx_store TransferFeeConfig_ext ref (extension\<lparr>tfc_withheld_amount := 0\<rparr>) mint in
         attempt (ok_or (checked_add (ta_amount (sx_base destination)) withheld) (token_err Overflow)) (\<lambda>n.
         attempt (pack_base Account_base (destination\<lparr>sx_base := (sx_base destination)\<lparr>ta_amount := n\<rparr>\<rparr>)) (\<lambda>destination.
         Inr (store_state (ai_key destination_info) destination
               (store_state (ai_key mint_info) mint led))))))))))))"

text \<open>Harvesting one account: its withheld amount, and the ledger with that amount zeroed.\<close>

definition harvest_from_account ::
    "env22 \<Rightarrow> pubkey \<Rightarrow> account_info \<Rightarrow> ledger \<Rightarrow> (u64 \<times> ledger) res" where
  "harvest_from_account E mint_key token_account_info led =
     attempt (map_error (token_err InvalidState) (unpack_account (info_data led token_account_info))) (\<lambda>acct.
     if ta_mint (sx_base acct) \<noteq> mint_key then Inl (token_err MintMismatch)
     else
       attempt (map_error (token_err InvalidState)
                 (check_program_account22 (env_rt E) (info_owner led token_account_info))) (\<lambda>_.
       attempt (map_error (token_err InvalidState)
                 (get_extension_mut (env_zk E) Account_base TransferFeeAmount_ext acct)) (\<lambda>(ref, withheld, acct).
       Inr (withheld, store_state (ai_key token_account_info) (sx_store TransferFeeAmount_ext ref 0 acct) led))))"

text \<open>The mint stays borrowed during the loop, so harvesting from the mint itself aborts.\<close>

fun harvest_to_mint ::
    "env22 \<Rightarrow> pubkey \<Rightarrow> account_info list \<Rightarrow> u64 \<Rightarrow> ledger \<Rightarrow> (u64 \<times> ledger) res" where
  "harvest_to_mint E mint_key [] withheld led = Inr (withheld, led)"
| "harvest_to_mint E mint_key (token_account_info # infos) withheld led =
     (if ai_key token_account_info = mint_key then Inl Panicked
      else
        attempt (catch (harvest_from_account E mint_key token_account_info led)) (\<lambda>harvest.
        case harvest of
          Some (amt, led) \<Rightarrow>
            attempt (ok_or (checked_add withheld amt) (token_err Overflow)) (\<lambda>withheld.
            harvest_to_mint E mint_key infos withheld led)
        | None \<Rightarrow> harvest_to_mint E mint_key infos withheld led))"

definition process_harvest_withheld_tokens_to_mint ::
    "env22 \<Rightarrow> account_info list \<Rightarrow> ledger \<Rightarrow> ledger res" where
  "process_harvest_withheld_tokens_to_mint E accounts led =
     attempt (next_account_info accounts) (\<lambda>(mint_info, token_account_infos).
     attempt (unpack_mint (info_data led mint_info)) (\<lambda>mint.
     attempt (get_extension_mut (env_zk E) Mint_base TransferFeeConfig_ext mint) (\<lambda>(ref, extension, mint).
     attempt (harvest_to_mint E (ai_key mint_info) token_account_infos (tfc_withheld_amount extension) led)
       (\<lambda>(withheld, led).
     Inr (store_state (ai_key mint_info)
           (sx_store TransferFeeConfig_ext ref (extension\<lparr>tfc_withheld_amount := withheld\<rparr>) mint) led)))))"

text \<open>The same loop into a destination account, which may be among the accounts harvested.\<close>

fun harvest_to_account ::
    "env22 \<Rightarrow> pubkey \<Rightarrow> pubkey \<Rightarrow> account_info list \<Rightarrow> account state_ext \<Rightarrow> ledger \<Rightarrow> (account state_ext \<times> ledger) res" where
  "harvest_to_account E mint_key destination_key [] destination led = Inr (destination, led)"
| "harvest_to_account E mint_key destination_key (account_info # infos) destination led =
     (if ai_key account_info = destination_key then
        attempt (map_error (token_err InvalidState)
                  (get_extension_mut (env_zk E) Account_base TransferFeeAmount_ext destination)) (\<lambda>(ref, withheld, destination).
        let destination = sx_store TransferFeeAmount_ext ref 0 destination in
        attempt (ok_or (checked_add (ta_amount (sx_base destination)) withheld) (token_err Overflow)) (\<lambda>n.
        harvest_to_account E mint_key destination_key infos
          (destination\<lparr>sx_base := (sx_base destination)\<lparr>ta_amount := n\<rparr>\<rparr>) led))
      else if ai_key account_info = mint_key then Inl Panicked
      else
        attempt (catch (harvest_from_account E mint_key account_info led)) (\<lambda>harvest.
        case harvest of
          Some (amt, led) \<Rightarrow>
            attempt (ok_or (checked_add (ta_amount (sx_base destination)) amt) (token_err Overflow)) (\<lambda>n.
            harvest_to_account E mint_key destination_key infos
              (destination\<lparr>sx_base := (sx_base destination)\<lparr>ta_amount := n\<rparr>\<rparr>) led)
        | None \<Rightarrow> harvest_to_account E mint_key destination_key infos destination led))"

definition process_withdraw_withheld_tokens_from_accounts ::
    "env22 \<Rightarrow> pubkey \<Rightarrow> account_info list \<Rightarrow> u8 \<Rightarrow> ledger \<Rightarrow> ledger res" where
  "process_withdraw_withheld_tokens_from_accounts E program_id accounts num_token_accounts led =
     attempt (next_account_info accounts) (\<lambda>(mint_info, it).
     attempt (next_account_info it) (\<lambda>(destination_info, it).
     attempt (next_account_info it) (\<lambda>(authority_info, account_infos).
     let num_signers = length account_infos - unat num_token_accounts in
     attempt (view_mint (info_data led mint_info)) (\<lambda>mint.
     attempt (sv_get_extension Mint_base mint TransferFeeConfig_ext) (\<lambda>extension.
     attempt (ok_or (OptionalNonZeroPubkey_option (tfc_withdraw_authority extension)) (token22_err NoAuthorityExists)) (\<lambda>authority.
     attempt (validate_owner program_id led authority authority_info (take num_signers account_infos)) (\<lambda>_.
     if ai_key destination_info = ai_key mint_info then Inl Panicked
     else
       attempt (unpack_account (info_data led destination_info)) (\<lambda>destination.
       if ta_mint (sx_base destination) \<noteq> ai_key mint_info then Inl (token_err MintMismatch)
       else if is_frozen (sx_base destination) then Inl (token_err AccountFrozen)
       else
         attempt (harvest_to_account E (ai_key mint_info) (ai_key destination_info)
                    (drop num_signers account_infos) destination led) (\<lambda>(destination, led).
         attempt (pack_base Account_base destination) (\<lambda>destination.
         Inr (store_state (ai_key destination_info) destination led)))))))))))"

section \<open>Memo transfers\<close>

definition memo_required :: "env22 \<Rightarrow> account state_ext \<Rightarrow> bool res" where
  "memo_required E st =
     attempt (catch (sx_get_extension (env_zk E) Account_base MemoTransfer_ext st)) (\<lambda>ext.
     Inr (case ext of Some b \<Rightarrow> bool_from_PodBool b | None \<Rightarrow> False))"

definition check_previous_sibling_instruction_is_memo :: "env22 \<Rightarrow> unit res" where
  "check_previous_sibling_instruction_is_memo E =
     (case env_sibling E of
        Some ix \<Rightarrow>
          if ix_program_id ix = env_memo_id E \<or> ix_program_id ix = env_memo_v1_id E then Inr ()
          else Inl (token22_err NoMemo)
      | None \<Rightarrow> Inl (token22_err NoMemo))"

end
