(* ===== verification/Token22_Processor.thy ===== *)
theory Token22_Processor
  imports Token22_Fees
begin

text \<open>
  The handlers of the extended token program (\<^verbatim>\<open>token/program-2022/src/processor.rs\<close>), in the
  order of the source.  Where a step is word for word that of the first token program
  (\<open>validate_owner\<close>, \<open>transfer_authority\<close>, \<open>burn_authority\<close>, \<open>move_lamports\<close>, initialising a
  multisignature account), its definition is used.
\<close>

section \<open>Initialisation\<close>

definition check_default_state :: "env22 \<Rightarrow> mint state_ext \<Rightarrow> pubkey option \<Rightarrow> unit res" where
  "check_default_state E mint freeze_authority =
     attempt (catch (get_extension_mut (env_zk E) Mint_base DefaultAccountState_ext mint)) (\<lambda>ext.
     case ext of
       Some (_, state, _) \<Rightarrow>
         attempt (ok_or (AccountState_try_from_primitive state) InvalidAccountData) (\<lambda>state.
         if state = Frozen \<and> freeze_authority = None then Inl (token_err MintCannotFreeze) else Inr ())
     | None \<Rightarrow> Inr ())"

definition process_initialize_mint22_inner ::
    "env22 \<Rightarrow> account_info list \<Rightarrow> u8 \<Rightarrow> pubkey \<Rightarrow> pubkey option \<Rightarrow> bool \<Rightarrow> ledger \<Rightarrow> ledger res" where
  "process_initialize_mint22_inner E accounts decimals authority freeze rent_sysvar_account led =
     attempt (next_account_info accounts) (\<lambda>(mint_info, it).
     attempt (take_rent (env_rt E) led rent_sysvar_account it) (\<lambda>(rent, it).
     if \<not> rent_is_exempt rent (info_lamports led mint_info) (length (info_data led mint_info))
     then Inl (token_err NotRentExempt)
     else
       attempt (StateWithExtensionsMut_unpack_uninitialized Mint_base (info_data led mint_info)) (\<lambda>mint.
       if mint_is_initialized (sx_base mint) then Inl (token_err AlreadyInUse)
       else
         attempt (get_extension_types (sx_tlv mint)) (\<lambda>extension_types.
         if get_account_len (env_zk E) MINT_LEN extension_types \<noteq> length (info_data led mint_info)
         then Inl InvalidAccountData
         else
           attempt (check_default_state E mint freeze) (\<lambda>_.
           attempt (pack_base Mint_base
             (mint\<lparr>sx_base := (sx_base mint)\<lparr>mint_authority := Some authority, mint_decimals := decimals,
                                             mint_is_initialized := True, mint_freeze_authority := freeze\<rparr>\<rparr>)) (\<lambda>mint.
           attempt (init_account_type Mint_base mint) (\<lambda>mint.
           Inr (store_state (ai_key mint_info) mint led))))))))"

definition process_initialize_mint22 where
  "process_initialize_mint22 E accounts decimals authority freeze led =
     process_initialize_mint22_inner E accounts decimals authority freeze True led"

definition process_initialize_mint2_22 where
  "process_initialize_mint2_22 E accounts decimals authority freeze led =
     process_initialize_mint22_inner E accounts decimals authority freeze False led"

definition get_required_account_extensions_from_unpacked_mint ::
    "env22 \<Rightarrow> pubkey \<Rightarrow> mint state_view \<Rightarrow> ExtensionType list res" where
  "get_required_account_extensions_from_unpacked_mint E owner_id state =
     attempt (check_program_account22 (env_rt E) owner_id) (\<lambda>_.
     attempt (get_extension_types (sv_tlv state)) (\<lambda>mint_extensions.
     Inr (get_required_init_account_extensions mint_extensions)))"

definition get_required_account_extensions :: "env22 \<Rightarrow> ledger \<Rightarrow> account_info \<Rightarrow> ExtensionType list res" where
  "get_required_account_extensions E led mint_info =
     attempt (map_error (token_err InvalidMint) (view_mint (info_data led mint_info))) (\<lambda>state.
     get_required_account_extensions_from_unpacked_mint E (info_owner led mint_info) state)"

fun init_required_extensions :: "zk_sizes \<Rightarrow> ExtensionType list \<Rightarrow> account state_ext \<Rightarrow> account state_ext res" where
  "init_required_extensions zk [] acct = Inr acct"
| "init_required_extensions zk (t # ts) acct =
     attempt (init_account_extension_from_type zk t acct) (\<lambda>acct. init_required_extensions zk ts acct)"

definition starting_state :: "mint state_view \<Rightarrow> AccountState res" where
  "starting_state mint =
     attempt (catch (sv_get_extension Mint_base mint DefaultAccountState_ext)) (\<lambda>ext.
     case ext of
       Some state \<Rightarrow> ok_or (AccountState_try_from_primitive state) InvalidAccountData
     | None \<Rightarrow> Inr Initialized)"

text \<open>The new account stays borrowed while the mint is read, so the two must differ.\<close>

definition process_initialize_account22_inner ::
    "env22 \<Rightarrow> account_info list \<Rightarrow> pubkey option \<Rightarrow> bool \<Rightarrow> ledger \<Rightarrow> ledger res" where
  "process_initialize_account22_inner E accounts owner rent_sysvar_account led =
     attempt (next_account_info accounts) (\<lambda>(new_info, it).
     attempt (next_account_info it) (\<lambda>(mint_info, it).
     attempt (case owner of
                Some ow \<Rightarrow> Inr (ow, it)
              | None \<Rightarrow> attempt (next_account_info it) (\<lambda>(owner_info, it). Inr (ai_key owner_info, it)))
       (\<lambda>(owner, it).
     attempt (take_rent (env_rt E) led rent_sysvar_account it) (\<lambda>(rent, it).
     attempt (StateWithExtensionsMut_unpack_uninitialized Account_base (info_data led new_info)) (\<lambda>acct.
     if \<not> rent_is_exempt rent (info_lamports led new_info) (length (info_data led new_info))
     then Inl (token_err NotRentExempt)
     else if ai_key mint_info = ai_key new_info then Inl Panicked
     else
       attempt (map_error (token_err InvalidMint) (view_mint (info_data led mint_info))) (\<lambda>mint.
       attempt (get_required_account_extensions_from_unpacked_mint E (info_owner led mint_info) mint) (\<lambda>required.
       if get_account_len (env_zk E) ACCOUNT_LEN required > length (info_data led new_info) then Inl InvalidAccountData
       else
         attempt (init_required_extensions (env_zk E) required acct) (\<lambda>acct.
         attempt (starting_state mint) (\<lambda>state.
         let base = (sx_base acct)\<lparr>ta_mint := ai_key mint_info, ta_owner := owner, ta_close_authority := None,
                                   ta_delegate := None, ta_delegated_amount := 0, ta_state := state\<rparr> in
         attempt (if cmp_pubkeys (ai_key mint_info) (native_mint22_id (env_rt E)) then
                    let reserve = rent_minimum_balance rent (length (info_data led new_info)) in
                    attempt (ok_or (checked_sub (info_lamports led new_info) reserve) (token_err Overflow)) (\<lambda>n.
                    Inr (base\<lparr>ta_is_native := Some reserve, ta_amount := n\<rparr>))
                  else Inr (base\<lparr>ta_is_native := None, ta_amount := 0\<rparr>)) (\<lambda>base.
         attempt (pack_base Account_base (acct\<lparr>sx_base := base\<rparr>)) (\<lambda>acct.
         attempt (init_account_type Account_base acct) (\<lambda>acct.
         Inr (store_state (ai_key new_info) acct led)))))))))))))"

definition process_initialize_account22 where
  "process_initialize_account22 E accounts led = process_initialize_account22_inner E accounts None True led"

definition process_initialize_account2_22 where
  "process_initialize_account2_22 E accounts owner led =
     process_initialize_account22_inner E accounts (Some owner) True led"

definition process_initialize_account3_22 where
  "process_initialize_account3_22 E accounts owner led =
     process_initialize_account22_inner E accounts (Some owner) False led"

section \<open>Transfers and delegation\<close>

text \<open>
  The fee of a transfer: from the mint's configuration when the mint is passed in; without the
  mint, accounts that withhold fees cannot be debited.
\<close>

definition transfer_fee_due ::
    "env22 \<Rightarrow> ledger \<Rightarrow> account_info \<Rightarrow> account state_ext \<Rightarrow> (account_info \<times> u8) option \<Rightarrow> u64 \<Rightarrow> u64 res" where
  "transfer_fee_due E led source_info source expected amt =
     (case expected of
        Some (mint_info, expected_decimals) \<Rightarrow>
          if \<not> cmp_pubkeys (ta_mint (sx_base source)) (ai_key mint_info) then Inl (token_err MintMismatch)
          else if ai_key mint_info = ai_key source_info then Inl AccountBorrowFailed
          else
            attempt (view_mint (info_data led mint_info)) (\<lambda>mint.
            attempt (catch (sv_get_extension Mint_base mint NonTransferable_ext)) (\<lambda>non_transferable.
            if non_transferable \<noteq> None then Inl (token22_err NonTransferable)
            else if expected_decimals \<noteq> mint_decimals (sv_base mint) then Inl (token_err MintDecimalsMismatch)
            else
              attempt (catch (sv_get_extension Mint_base mint TransferFeeConfig_ext)) (\<lambda>config.
              case config of
                Some c \<Rightarrow>
                  attempt (rt_clock_get (env_rt E)) (\<lambda>clock.
                  ok_or (calculate_epoch_fee c (clock_epoch clock) amt) (token_err Overflow))
              | None \<Rightarrow> Inr 0)))
      | None \<Rightarrow>
          attempt (catch (get_extension_mut (env_zk E) Account_base TransferFeeAmount_ext source)) (\<lambda>ext.
          if ext \<noteq> None then Inl (token22_err MintRequiredForTransfer) else Inr 0))"

definition check_expected_fee :: "u64 option \<Rightarrow> u64 \<Rightarrow> unit res" where
  "check_expected_fee expected_fee fee =
     (case expected_fee of
        Some f \<Rightarrow> if f \<noteq> fee then Inl (token22_err FeeMismatch) else Inr ()
      | None \<Rightarrow> Inr ())"

text \<open>The fee stays with the destination account, as withheld.\<close>

definition withhold_fee :: "env22 \<Rightarrow> u64 \<Rightarrow> account state_ext \<Rightarrow> account state_ext res" where
  "withhold_fee E fee destination =
     (if fee > 0 then
        attempt (catch (get_extension_mut (env_zk E) Account_base TransferFeeAmount_ext destination)) (\<lambda>ext.
        case ext of
          Some (ref, withheld, destination) \<Rightarrow>
            attempt (ok_or (checked_add withheld fee) (token_err Overflow)) (\<lambda>n.
            Inr (sx_store TransferFeeAmount_ext ref n destination))
        | None \<Rightarrow> Inl (token_err InvalidState))
      else Inr destination)"

definition process_transfer22 ::
    "env22 \<Rightarrow> pubkey \<Rightarrow> account_info list \<Rightarrow> u64 \<Rightarrow> u8 option \<Rightarrow> u64 option \<Rightarrow> ledger \<Rightarrow> ledger res" where
  "process_transfer22 E program_id accounts amt expected_decimals expected_fee led =
     attempt (next_account_info accounts) (\<lambda>(source_info, it).
     attempt (take_expected_mint it expected_decimals) (\<lambda>(expected, it).
     attempt (next_account_info it) (\<lambda>(destination_info, it).
     attempt (next_account_info it) (\<lambda>(authority_info, signers).
     attempt (unpack_account (info_data led source_info)) (\<lambda>source.
     if is_frozen (sx_base source) then Inl (token_err AccountFrozen)
     else if ta_amount (sx_base source) < amt then Inl (token_err InsufficientFunds)
     else
       attempt (transfer_fee_due E led source_info source expected amt) (\<lambda>fee.
       attempt (check_expected_fee expected_fee fee) (\<lambda>_.
       let self_transfer = cmp_pubkeys (ai_key source_info) (ai_key destination_info) in
       attempt (transfer_authority program_id led (sx_base source) authority_info signers amt self_transfer) (\<lambda>base.
       attempt (check_program_account22 (env_rt E) (info_owner led source_info)) (\<lambda>_.
       attempt (check_program_account22 (env_rt E) (info_owner led destination_info)) (\<lambda>_.
       if self_transfer then Inr led
       else
         attempt (unpack_account (info_data led destination_info)) (\<lambda>destination.
         if is_frozen (sx_base destination) then Inl (token_err AccountFrozen)
         else if \<not> cmp_pubkeys (ta_mint base) (ta_mint (sx_base destination)) then Inl (token_err MintMismatch)
         else
           attempt (memo_required E destination) (\<lambda>memo.
           attempt (if memo then check_previous_sibling_instruction_is_memo E else Inr ()) (\<lambda>_.
           attempt (ok_or (checked_sub (ta_amount base) amt) (token_err Overflow)) (\<lambda>source_amount.
           attempt (ok_or (checked_sub amt fee) (token_err Overflow)) (\<lambda>credited_amount.
           attempt (ok_or (checked_add (ta_amount (sx_base destination)) credited_amount) (token_err Overflow)) (\<lambda>destination_amount.
           attempt (withhold_fee E fee
                     (destination\<lparr>sx_base := (sx_base destination)\<lparr>ta_amount := destination_amount\<rparr>\<rparr>)) (\<lambda>destination.
           attempt (if is_native base
                    then move_lamports (ai_key source_info) (ai_key destination_info) amt led
                    else Inr led) (\<lambda>led.
           attempt (pack_base Account_base (source\<lparr>sx_base := base\<lparr>ta_amount := source_amount\<rparr>\<rparr>)) (\<lambda>source.
           attempt (pack_base Account_base destination) (\<lambda>destination.
           Inr (store_state (ai_key destination_info) destination
                 (store_state (ai_key source_info) source led))))))))))))))))))))))"

definition check_expected_mint22 ::
    "ledger \<Rightarrow> account_info \<Rightarrow> (account_info \<times> u8) option \<Rightarrow> account \<Rightarrow> unit res" where
  "check_expected_mint22 led source_info expected source =
     (case expected of
        Some (mint_info, expected_decimals) \<Rightarrow>
          if \<not> cmp_pubkeys (ta_mint source) (ai_key mint_info) then Inl (token_err MintMismatch)
          else if ai_key mint_info = ai_key source_info then Inl Panicked
          else attempt (view_mint (info_data led mint_info)) (\<lambda>mint.
               if expected_decimals \<noteq> mint_decimals (sv_base mint) then Inl (token_err MintDecimalsMismatch)
               else Inr ())
      | None \<Rightarrow> Inr ())"

text \<open>Storing an account whose base changed.\<close>

definition save_account :: "account_info \<Rightarrow> account state_ext \<Rightarrow> account \<Rightarrow> ledger \<Rightarrow> ledger res" where
  "save_account info st base led =
     attempt (pack_base Account_base (st\<lparr>sx_base := base\<rparr>)) (\<lambda>st. Inr (store_state (ai_key info) st led))"

definition save_mint :: "account_info \<Rightarrow> mint state_ext \<Rightarrow> mint \<Rightarrow> ledger \<Rightarrow> ledger res" where
  "save_mint info st base led =
     attempt (pack_base Mint_base (st\<lparr>sx_base := base\<rparr>)) (\<lambda>st. Inr (store_state (ai_key info) st led))"

definition process_approve22 ::
    "pubkey \<Rightarrow> account_info list \<Rightarrow> u64 \<Rightarrow> u8 option \<Rightarrow> ledger \<Rightarrow> ledger res" where
  "process_approve22 program_id accounts amt expected_decimals led =
     attempt (next_account_info accounts) (\<lambda>(source_info, it).
     attempt (take_expected_mint it expected_decimals) (\<lambda>(expected, it).
     attempt (next_account_info it) (\<lambda>(delegate_info, it).
     attempt (next_account_info it) (\<lambda>(owner_info, signers).
     attempt (unpack_account (info_data led source_info)) (\<lambda>source.
     if is_frozen (sx_base source) then Inl (token_err AccountFrozen)
     else
       attempt (check_expected_mint22 led source_info expected (sx_base source)) (\<lambda>_.
       attempt (validate_owner program_id led (ta_owner (sx_base source)) owner_info signers) (\<lambda>_.
       save_account source_info source
         ((sx_base source)\<lparr>ta_delegate := Some (ai_key delegate_info), ta_delegated_amount := amt\<rparr>) led)))))))"

definition process_revoke22 :: "pubkey \<Rightarrow> account_info list \<Rightarrow> ledger \<Rightarrow> ledger res" where
  "process_revoke22 program_id accounts led =
     attempt (next_account_info accounts) (\<lambda>(source_info, it).
     attempt (next_account_info it) (\<lambda>(authority_info, signers).
     attempt (unpack_account (info_data led source_info)) (\<lambda>source.
     if is_frozen (sx_base source) then Inl (token_err AccountFrozen)
     else
       attempt (validate_owner program_id led
                 (case ta_delegate (sx_base source) of
                    Some dlg \<Rightarrow> if cmp_pubkeys (ai_key authority_info) dlg then dlg else ta_owner (sx_base source)
                  | None \<Rightarrow> ta_owner (sx_base source)) authority_info signers) (\<lambda>_.
       save_account source_info source
         ((sx_base source)\<lparr>ta_delegate := None, ta_delegated_amount := 0\<rparr>) led))))"

section \<open>Authorities\<close>

datatype AuthorityType22 =
    Auth_MintTokens
  | Auth_FreezeAccount
  | Auth_AccountOwner
  | Auth_CloseAccount
  | Auth_TransferFeeConfig
  | Auth_WithheldWithdraw
  | Auth_CloseMint
  | Auth_InterestRate

definition set_account_authority22 ::
    "env22 \<Rightarrow> pubkey \<Rightarrow> ledger \<Rightarrow> account state_ext \<Rightarrow> AuthorityType22 \<Rightarrow> pubkey option \<Rightarrow> account_info \<Rightarrow>
     account_info list \<Rightarrow> account res" where
  "set_account_authority22 E program_id led st authority_type new_authority authority_info signers =
     (let acct = sx_base st in
      case authority_type of
        Auth_AccountOwner \<Rightarrow>
          attempt (validate_owner program_id led (ta_owner acct) authority_info signers) (\<lambda>_.
          attempt (catch (get_extension_mut (env_zk E) Account_base ImmutableOwner_ext st)) (\<lambda>ext.
          if ext \<noteq> None then Inl (token22_err ImmutableOwner)
          else
            attempt (case new_authority of
                       Some authority \<Rightarrow> Inr (acct\<lparr>ta_owner := authority\<rparr>)
                     | None \<Rightarrow> Inl (token_err InvalidInstruction)) (\<lambda>acct.
            let acct = acct\<lparr>ta_delegate := None, ta_delegated_amount := 0\<rparr> in
            Inr (if is_native acct then acct\<lparr>ta_close_authority := None\<rparr> else acct))))
      | Auth_CloseAccount \<Rightarrow>
          let authority = (case ta_close_authority acct of Some k \<Rightarrow> k | None \<Rightarrow> ta_owner acct) in
          attempt (validate_owner program_id led authority authority_info signers) (\<lambda>_.
          Inr (acct\<lparr>ta_close_authority := new_authority\<rparr>))
      | _ \<Rightarrow> Inl (token_err AuthorityTypeNotSupported))"

text \<open>
  An authority kept in an extension: read it, validate it, write the new one.  The four mint
  authorities of this kind differ in the extension and in the field.
\<close>

definition set_extension_authority ::
    "env22 \<Rightarrow> pubkey \<Rightarrow> ledger \<Rightarrow> 'v extension \<Rightarrow> ('v \<Rightarrow> pubkey) \<Rightarrow> (pubkey \<Rightarrow> 'v \<Rightarrow> 'v) \<Rightarrow> mint state_ext \<Rightarrow>
     pubkey option \<Rightarrow> account_info \<Rightarrow> account_info list \<Rightarrow> mint state_ext res" where
  "set_extension_authority E program_id led V field upd mint new_authority authority_info signers =
     attempt (get_extension_mut (env_zk E) Mint_base V mint) (\<lambda>(ref, extension, mint).
     attempt (ok_or (OptionalNonZeroPubkey_option (field extension)) (token_err AuthorityTypeNotSupported)) (\<lambda>authority.
     attempt (validate_owner program_id led authority authority_info signers) (\<lambda>_.
     attempt (OptionalNonZeroPubkey_try_from new_authority) (\<lambda>new_key.
     Inr (sx_store V ref (upd new_key extension) mint)))))"

definition set_mint_authority22 ::
    "env22 \<Rightarrow> pubkey \<Rightarrow> ledger \<Rightarrow> mint state_ext \<Rightarrow> AuthorityType22 \<Rightarrow> pubkey option \<Rightarrow> account_info \<Rightarrow>
     account_info list \<Rightarrow> mint state_ext res" where
  "set_mint_authority22 E program_id led mint authority_type new_authority authority_info signers =
     (case authority_type of
        Auth_MintTokens \<Rightarrow>
          attempt (ok_or (mint_authority (sx_base mint)) (token_err FixedSupply)) (\<lambda>authority.
          attempt (validate_owner program_id led authority authority_info signers) (\<lambda>_.
          pack_base Mint_base (mint\<lparr>sx_base := (sx_base mint)\<lparr>mint_authority := new_authority\<rparr>\<rparr>)))
      | Auth_FreezeAccount \<Rightarrow>
          attempt (ok_or (mint_freeze_authority (sx_base mint)) (token_err MintCannotFreeze)) (\<lambda>authority.
          attempt (validate_owner program_id led authority authority_info signers) (\<lambda>_.
          pack_base Mint_base (mint\<lparr>sx_base := (sx_base mint)\<lparr>mint_freeze_authority := new_authority\<rparr>\<rparr>)))
      | Auth_CloseMint \<Rightarrow>
          set_extension_authority E program_id led MintCloseAuthority_ext (\<lambda>k. k) (\<lambda>k _. k)
            mint new_authority authority_info signers
      | Auth_TransferFeeConfig \<Rightarrow>
          set_extension_authority E program_id led TransferFeeConfig_ext tfc_config_authority
            (\<lambda>k c. c\<lparr>tfc_config_authority := k\<rparr>) mint new_authority authority_info signers
      | Auth_WithheldWithdraw \<Rightarrow>
          set_extension_authority E program_id led TransferFeeConfig_ext tfc_withdraw_authority
            (\<lambda>k c. c\<lparr>tfc_withdraw_authority := k\<rparr>) mint new_authority authority_info signers
      | Auth_InterestRate \<Rightarrow>
          set_extension_authority E program_id led InterestBearingConfig_ext ib_rate_authority
            (\<lambda>k c. c\<lparr>ib_rate_authority := k\<rparr>) mint new_authority authority_info signers
      | _ \<Rightarrow> Inl (token_err AuthorityTypeNotSupported))"

definition process_set_authority22 ::
    "env22 \<Rightarrow> pubkey \<Rightarrow> account_info list \<Rightarrow> AuthorityType22 \<Rightarrow> pubkey option \<Rightarrow> ledger \<Rightarrow> ledger res" where
  "process_set_authority22 E program_id accounts authority_type new_authority led =
     attempt (next_account_info accounts) (\<lambda>(info, it).
     attempt (next_account_info it) (\<lambda>(authority_info, signers).
     attempt (catch (unpack_account (info_data led info))) (\<lambda>acct.
     case acct of
       Some st \<Rightarrow>
         if is_frozen (sx_base st) then Inl (token_err AccountFrozen)
         else
           attempt (set_account_authority22 E program_id led st authority_type new_authority authority_info signers) (\<lambda>base.
           save_account info st base led)
     | None \<Rightarrow>
         attempt (catch (unpack_mint (info_data led info))) (\<lambda>mint.
         case mint of
           Some st \<Rightarrow>
             attempt (set_mint_authority22 E program_id led st authority_type new_authority authority_info signers) (\<lambda>st.
             Inr (store_state (ai_key info) st led))
         | None \<Rightarrow> Inl InvalidAccountData))))"

section \<open>Minting and burning\<close>

definition process_mint_to22 ::
    "env22 \<Rightarrow> pubkey \<Rightarrow> account_info list \<Rightarrow> u64 \<Rightarrow> u8 option \<Rightarrow> ledger \<Rightarrow> ledger res" where
  "process_mint_to22 E program_id accounts amt expected_decimals led =
     attempt (next_account_info accounts) (\<lambda>(mint_info, it).
     attempt (next_account_info it) (\<lambda>(destination_info, it).
     attempt (next_account_info it) (\<lambda>(owner_info, signers).
     attempt (unpack_account (info_data led destination_info)) (\<lambda>destination.
     if is_frozen (sx_base destination) then Inl (token_err AccountFrozen)
     else if is_native (sx_base destination) then Inl (token_err NativeNotSupported)
     else if \<not> cmp_pubkeys (ai_key mint_info) (ta_mint (sx_base destination)) then Inl (token_err MintMismatch)
     else if ai_key mint_info = ai_key destination_info then Inl Panicked
     else
       attempt (unpack_mint (info_data led mint_info)) (\<lambda>mint.
       attempt (catch (sx_get_extension (env_zk E) Mint_base NonTransferable_ext mint)) (\<lambda>non_transferable.
       attempt (if non_transferable \<noteq> None
                then catch (sx_get_extension (env_zk E) Account_base ImmutableOwner_ext destination)
                else Inr (Some ())) (\<lambda>immutable_owner.
       if immutable_owner = None then Inl (token22_err NonTransferableNeedsImmutableOwnership)
       else
         attempt (check_decimals expected_decimals (sx_base mint)) (\<lambda>_.
         attempt (case mint_authority (sx_base mint) of
                    Some authority \<Rightarrow> validate_owner program_id led authority owner_info signers
                  | None \<Rightarrow> Inl (token_err FixedSupply)) (\<lambda>_.
         attempt (check_program_account22 (env_rt E) (info_owner led mint_info)) (\<lambda>_.
         attempt (check_program_account22 (env_rt E) (info_owner led destination_info)) (\<lambda>_.
         attempt (ok_or (checked_add (ta_amount (sx_base destination)) amt) (token_err Overflow)) (\<lambda>new_amount.
         attempt (ok_or (checked_add (mint_supply (sx_base mint)) amt) (token_err Overflow)) (\<lambda>new_supply.
         attempt (save_mint mint_info mint ((sx_base mint)\<lparr>mint_supply := new_supply\<rparr>) led) (\<lambda>led.
         save_account destination_info destination ((sx_base destination)\<lparr>ta_amount := new_amount\<rparr>) led))))))))))))))"

definition process_burn22 ::
    "env22 \<Rightarrow> pubkey \<Rightarrow> account_info list \<Rightarrow> u64 \<Rightarrow> u8 option \<Rightarrow> ledger \<Rightarrow> ledger res" where
  "process_burn22 E program_id accounts amt expected_decimals led =
     attempt (next_account_info accounts) (\<lambda>(source_info, it).
     attempt (next_account_info it) (\<lambda>(mint_info, it).
     attempt (next_account_info it) (\<lambda>(authority_info, signers).
     attempt (unpack_account (info_data led source_info)) (\<lambda>source.
     if ai_key mint_info = ai_key source_info then Inl Panicked
     else
       attempt (unpack_mint (info_data led mint_info)) (\<lambda>mint.
       if is_frozen (sx_base source) then Inl (token_err AccountFrozen)
       else if is_native (sx_base source) then Inl (token_err NativeNotSupported)
       else if ta_amount (sx_base source) < amt then Inl (token_err InsufficientFunds)
       else if ai_key mint_info \<noteq> ta_mint (sx_base source) then Inl (token_err MintMismatch)
       else
         attempt (check_decimals expected_decimals (sx_base mint)) (\<lambda>_.
         attempt (burn_authority (env_rt E) program_id led (sx_base source) authority_info signers amt) (\<lambda>base.
         attempt (check_program_account22 (env_rt E) (info_owner led source_info)) (\<lambda>_.
         attempt (check_program_account22 (env_rt E) (info_owner led mint_info)) (\<lambda>_.
         attempt (ok_or (checked_sub (ta_amount base) amt) (token_err Overflow)) (\<lambda>new_amount.
         attempt (ok_or (checked_sub (mint_supply (sx_base mint)) amt) (token_err Overflow)) (\<lambda>new_supply.
         attempt (save_account source_info source (base\<lparr>ta_amount := new_amount\<rparr>) led) (\<lambda>led.
         save_mint mint_info mint ((sx_base mint)\<lparr>mint_supply := new_supply\<rparr>) led))))))))))))"

section \<open>Closing, freezing, syncing\<close>

definition close_checks_account ::
    "env22 \<Rightarrow> pubkey \<Rightarrow> ledger \<Rightarrow> account state_view \<Rightarrow> account_info \<Rightarrow> account_info \<Rightarrow> account_info list \<Rightarrow> unit res" where
  "close_checks_account E program_id led st destination_info authority_info signers =
     (let source = sv_base st; R = env_rt E in
      if \<not> is_native source \<and> ta_amount source \<noteq> 0 then Inl (token_err NonNativeHasBalance)
      else
        let authority = (case ta_close_authority source of Some k \<Rightarrow> k | None \<Rightarrow> ta_owner source) in
        attempt (if \<not> is_owned_by_system_program_or_incinerator R source
                 then validate_owner program_id led authority authority_info signers
                 else if ai_key destination_info \<noteq> rt_incinerator_id R then Inl InvalidAccountData
                 else Inr ()) (\<lambda>_.
        attempt (catch (sv_get_extension Account_base st (ConfidentialTransferAccount_ext (env_zk E)))) (\<lambda>confidential.
        attempt (case confidential of Some c \<Rightarrow> confidential_closable c | None \<Rightarrow> Inr ()) (\<lambda>_.
        attempt (catch (sv_get_extension Account_base st TransferFeeAmount_ext)) (\<lambda>withheld.
        case withheld of Some n \<Rightarrow> TransferFeeAmount_closable n | None \<Rightarrow> Inr ())))))"

definition close_checks_mint ::
    "pubkey \<Rightarrow> ledger \<Rightarrow> mint state_view \<Rightarrow> account_info \<Rightarrow> account_info list \<Rightarrow> unit res" where
  "close_checks_mint program_id led st authority_info signers =
     attempt (sv_get_extension Mint_base st MintCloseAuthority_ext) (\<lambda>close_authority.
     attempt (ok_or (OptionalNonZeroPubkey_option close_authority) (token_err AuthorityTypeNotSupported)) (\<lambda>authority.
     attempt (validate_owner program_id led authority authority_info signers) (\<lambda>_.
     if mint_supply (sv_base st) \<noteq> 0 then Inl (token22_err MintHasSupply) else Inr ())))"

definition process_close_account22 :: "env22 \<Rightarrow> pubkey \<Rightarrow> account_info list \<Rightarrow> ledger \<Rightarrow> ledger res" where
  "process_close_account22 E program_id accounts led =
     attempt (next_account_info accounts) (\<lambda>(source_info, it).
     attempt (next_account_info it) (\<lambda>(destination_info, it).
     attempt (next_account_info it) (\<lambda>(authority_info, signers).
     if cmp_pubkeys (ai_key source_info) (ai_key destination_info) then Inl InvalidAccountData
     else
       attempt (catch (view_account (info_data led source_info))) (\<lambda>acct.
       attempt (case acct of
                  Some st \<Rightarrow> close_checks_account E program_id led st destination_info authority_info signers
                | None \<Rightarrow>
                    attempt (catch (view_mint (info_data led source_info))) (\<lambda>mint.
                    case mint of
                      Some st \<Rightarrow> close_checks_mint program_id led st authority_info signers
                    | None \<Rightarrow> Inl UninitializedAccount)) (\<lambda>_.
       attempt (ok_or (checked_add (info_lamports led destination_info) (info_lamports led source_info))
                  (token_err Overflow)) (\<lambda>n.
       let led = set_lamports (ai_key source_info) 0 (set_lamports (ai_key destination_info) n led) in
       Inr (set_data (ai_key source_info) (replicate (length (info_data led source_info)) 0) led)))))))"

definition process_toggle_freeze_account22 ::
    "pubkey \<Rightarrow> account_info list \<Rightarrow> bool \<Rightarrow> ledger \<Rightarrow> ledger res" where
  "process_toggle_freeze_account22 program_id accounts freeze led =
     attempt (next_account_info accounts) (\<lambda>(source_info, it).
     attempt (next_account_info it) (\<lambda>(mint_info, it).
     attempt (next_account_info it) (\<lambda>(authority_info, signers).
     attempt (unpack_account (info_data led source_info)) (\<lambda>source.
     if freeze \<and> is_frozen (sx_base source) \<or> \<not> freeze \<and> \<not> is_frozen (sx_base source)
     then Inl (token_err InvalidState)
     else if is_native (sx_base source) then Inl (token_err NativeNotSupported)
     else if \<not> cmp_pubkeys (ai_key mint_info) (ta_mint (sx_base source)) then Inl (token_err MintMismatch)
     else if ai_key mint_info = ai_key source_info then Inl Panicked
     else
       attempt (view_mint (info_data led mint_info)) (\<lambda>mint.
       attempt (case mint_freeze_authority (sv_base mint) of
                  Some authority \<Rightarrow> validate_owner program_id led authority authority_info signers
                | None \<Rightarrow> Inl (token_err MintCannotFreeze)) (\<lambda>_.
       save_account source_info source
         ((sx_base source)\<lparr>ta_state := if freeze then Frozen else Initialized\<rparr>) led))))))"

definition process_sync_native22 :: "env22 \<Rightarrow> account_info list \<Rightarrow> ledger \<Rightarrow> ledger res" where
  "process_sync_native22 E accounts led =
     attempt (next_account_info accounts) (\<lambda>(native_info, it).
     attempt (check_program_account22 (env_rt E) (info_owner led native_info)) (\<lambda>_.
     attempt (unpack_account (info_data led native_info)) (\<lambda>native_account.
     case ta_is_native (sx_base native_account) of
       Some reserve \<Rightarrow>
         attempt (ok_or (checked_sub (info_lamports led native_info) reserve) (token_err Overflow)) (\<lambda>new_amount.
         if new_amount < ta_amount (sx_base native_account) then Inl (token_err InvalidState)
         else save_account native_info native_account ((sx_base native_account)\<lparr>ta_amount := new_amount\<rparr>) led)
     | None \<Rightarrow> Inl (token_err NonNativeNotSupported))))"

section \<open>Extensions that need no handler of their own\<close>

definition process_initialize_mint_close_authority ::
    "env22 \<Rightarrow> account_info list \<Rightarrow> pubkey option \<Rightarrow> ledger \<Rightarrow> ledger res" where
  "process_initialize_mint_close_authority E accounts close_authority led =
     attempt (next_account_info accounts) (\<lambda>(mint_info, it).
     attempt (StateWithExtensionsMut_unpack_uninitialized Mint_base (info_data led mint_info)) (\<lambda>mint.
     attempt (init_extension (env_zk E) Mint_base MintCloseAuthority_ext mint) (\<lambda>(ref, _, mint).
     attempt (OptionalNonZeroPubkey_try_from close_authority) (\<lambda>k.
     Inr (store_state (ai_key mint_info) (sx_store MintCloseAuthority_ext ref k mint) led)))))"

definition process_get_account_data_size22 ::
    "env22 \<Rightarrow> account_info list \<Rightarrow> ExtensionType list \<Rightarrow> ledger \<Rightarrow> bytes res" where
  "process_get_account_data_size22 E accounts new_extension_types led =
     attempt (next_account_info accounts) (\<lambda>(mint_info, it).
     attempt (get_required_account_extensions E led mint_info) (\<lambda>account_extensions.
     Inr (to_le_bytes (of_nat (get_account_len (env_zk E) ACCOUNT_LEN
           (account_extensions @ new_extension_types)) :: u64))))"

definition process_initialize_immutable_owner22 :: "env22 \<Rightarrow> account_info list \<Rightarrow> ledger \<Rightarrow> ledger res" where
  "process_initialize_immutable_owner22 E accounts led =
     attempt (next_account_info accounts) (\<lambda>(token_account_info, it).
     attempt (StateWithExtensionsMut_unpack_uninitialized Account_base (info_data led token_account_info)) (\<lambda>acct.
     attempt (init_extension (env_zk E) Account_base ImmutableOwner_ext acct) (\<lambda>(_, _, acct).
     Inr (store_state (ai_key token_account_info) acct led))))"

definition process_initialize_non_transferable_mint :: "env22 \<Rightarrow> account_info list \<Rightarrow> ledger \<Rightarrow> ledger res" where
  "process_initialize_non_transferable_mint E accounts led =
     attempt (next_account_info accounts) (\<lambda>(mint_info, it).
     attempt (StateWithExtensionsMut_unpack_uninitialized Mint_base (info_data led mint_info)) (\<lambda>mint.
     attempt (init_extension (env_zk E) Mint_base NonTransferable_ext mint) (\<lambda>(_, _, mint).
     Inr (store_state (ai_key mint_info) mint led))))"

end
