(* ===== verification/Token22_Program.thy ===== *)
theory Token22_Program
  imports Token22_Processor
begin

text \<open>
  The rest of the extended token program: the extensions with instructions of their own
  (\<^verbatim>\<open>reallocate.rs\<close>, \<^verbatim>\<open>default_account_state\<close>, \<^verbatim>\<open>memo_transfer\<close>, \<^verbatim>\<open>interest_bearing_mint\<close>),
  the instructions (\<^verbatim>\<open>instruction.rs\<close>, \<^verbatim>\<open>transfer_fee/instruction.rs\<close>) and the dispatch.

  Amounts with interest are computed in floating point; the operations on \<^verbatim>\<open>f64\<close> are the record
  \<open>f64_ops\<close>.  The confidential-transfer instructions verify zero-knowledge proofs; their
  handler is an argument of the dispatch.
\<close>

section \<open>Reallocation\<close>

definition realloc :: "env22 \<Rightarrow> pubkey \<Rightarrow> nat \<Rightarrow> ledger \<Rightarrow> ledger res" where
  "realloc E k new_len led =
     (let bs = acc_data (led k) in
      if new_len - length bs > env_max_data_increase E then Inl InvalidRealloc
      else Inr (set_data k (take new_len bs @ replicate (new_len - length bs) 0) led))"

definition process_reallocate ::
    "env22 \<Rightarrow> pubkey \<Rightarrow> account_info list \<Rightarrow> ExtensionType list \<Rightarrow> ledger \<Rightarrow> ledger res" where
  "process_reallocate E program_id accounts new_extension_types led =
     attempt (next_account_info accounts) (\<lambda>(token_account_info, it).
     attempt (next_account_info it) (\<lambda>(payer_info, it).
     attempt (next_account_info it) (\<lambda>(system_program_info, it).
     attempt (next_account_info it) (\<lambda>(authority_info, signers).
     attempt (view_account (info_data led token_account_info)) (\<lambda>acct.
     attempt (validate_owner program_id led (ta_owner (sv_base acct)) authority_info signers) (\<lambda>_.
     attempt (get_extension_types (sv_tlv acct)) (\<lambda>current_extension_types.
     if \<exists>t \<in> set new_extension_types. get_account_type t \<noteq> AccountType_Account then Inl (token_err InvalidState)
     else
       let needed = get_account_len (env_zk E) ACCOUNT_LEN (current_extension_types @ new_extension_types) in
       if needed \<le> length (info_data led token_account_info) then Inr led
       else
         attempt (realloc E (ai_key token_account_info) needed led) (\<lambda>led.
         attempt (rt_rent_get (env_rt E)) (\<lambda>rent.
         let lamports_diff = saturating_sub (rent_minimum_balance rent needed) (info_lamports led token_account_info) in
         attempt (rt_invoke_signed (env_rt E) program_id
                   (env_system_transfer E (ai_key payer_info) (ai_key token_account_info) lamports_diff)
                   [payer_info, token_account_info, system_program_info] [] led) (\<lambda>led.
         attempt (set_account_type Account_base (info_data led token_account_info)) (\<lambda>bs.
         Inr (set_data (ai_key token_account_info) bs led))))))))))))"

section \<open>Default account state\<close>

definition check_valid_default_state :: "AccountState \<Rightarrow> unit res" where
  "check_valid_default_state state =
     (case state of Uninitialized \<Rightarrow> Inl (token_err InvalidState) | _ \<Rightarrow> Inr ())"

definition process_initialize_default_account_state ::
    "env22 \<Rightarrow> account_info list \<Rightarrow> AccountState \<Rightarrow> ledger \<Rightarrow> ledger res" where
  "process_initialize_default_account_state E accounts state led =
     attempt (check_valid_default_state state) (\<lambda>_.
     attempt (next_account_info accounts) (\<lambda>(mint_info, it).
     attempt (StateWithExtensionsMut_unpack_uninitialized Mint_base (info_data led mint_info)) (\<lambda>mint.
     attempt (init_extension (env_zk E) Mint_base DefaultAccountState_ext mint) (\<lambda>(ref, _, mint).
     Inr (store_state (ai_key mint_info)
           (sx_store DefaultAccountState_ext ref (AccountState_byte state) mint) led)))))"

definition process_update_default_account_state ::
    "env22 \<Rightarrow> pubkey \<Rightarrow> account_info list \<Rightarrow> AccountState \<Rightarrow> ledger \<Rightarrow> ledger res" where
  "process_update_default_account_state E program_id accounts state led =
     attempt (check_valid_default_state state) (\<lambda>_.
     attempt (next_account_info accounts) (\<lambda>(mint_info, it).
     attempt (next_account_info it) (\<lambda>(freeze_authority_info, signers).
     attempt (unpack_mint (info_data led mint_info)) (\<lambda>mint.
     attempt (ok_or (mint_freeze_authority (sx_base mint)) (token22_err NoAuthorityExists)) (\<lambda>freeze_authority.
     attempt (validate_owner program_id led freeze_authority freeze_authority_info signers) (\<lambda>_.
     attempt (get_extension_mut (env_zk E) Mint_base DefaultAccountState_ext mint) (\<lambda>(ref, _, mint).
     Inr (store_state (ai_key mint_info)
           (sx_store DefaultAccountState_ext ref (AccountState_byte state) mint) led))))))))"

datatype DefaultAccountStateInstruction = DefaultState_Initialize | DefaultState_Update

definition decode_default_state_instruction :: "bytes \<Rightarrow> (DefaultAccountStateInstruction \<times> AccountState) res" where
  "decode_default_state_instruction input =
     (if length input \<noteq> 2 then Inl (token_err InvalidInstruction)
      else
        attempt (if input ! 0 = 0 then Inr DefaultState_Initialize
                 else if input ! 0 = 1 then Inr DefaultState_Update
                 else Inl (token_err InvalidInstruction)) (\<lambda>i.
        attempt (ok_or (AccountState_try_from_primitive (input ! 1)) (token_err InvalidInstruction)) (\<lambda>s.
        Inr (i, s))))"

definition default_state_process_instruction ::
    "env22 \<Rightarrow> pubkey \<Rightarrow> account_info list \<Rightarrow> bytes \<Rightarrow> ledger \<Rightarrow> ledger res" where
  "default_state_process_instruction E program_id accounts input led =
     attempt (check_program_account22 (env_rt E) program_id) (\<lambda>_.
     attempt (decode_default_state_instruction input) (\<lambda>(i, state).
     case i of
       DefaultState_Initialize \<Rightarrow> process_initialize_default_account_state E accounts state led
     | DefaultState_Update \<Rightarrow> process_update_default_account_state E program_id accounts state led))"

section \<open>Required memos\<close>

definition decode_instruction_type :: "(u8 \<Rightarrow> 'a option) \<Rightarrow> bytes \<Rightarrow> 'a res" where
  "decode_instruction_type try_from input =
     (if input = [] then Inl InvalidInstructionData
      else ok_or (try_from (input ! 0)) (token_err InvalidInstruction))"

definition decode_instruction_data :: "'v pod \<Rightarrow> bytes \<Rightarrow> 'v res" where
  "decode_instruction_data P input =
     (if length input \<noteq> pod_len P + 1 then Inl InvalidInstructionData
      else pod_from_bytes P (drop 1 input))"

definition set_required_memos ::
    "env22 \<Rightarrow> bool \<Rightarrow> pubkey \<Rightarrow> account_info list \<Rightarrow> ledger \<Rightarrow> ledger res" where
  "set_required_memos E required program_id accounts led =
     attempt (next_account_info accounts) (\<lambda>(token_account_info, it).
     attempt (next_account_info it) (\<lambda>(owner_info, signers).
     attempt (unpack_account (info_data led token_account_info)) (\<lambda>acct.
     attempt (validate_owner program_id led (ta_owner (sx_base acct)) owner_info signers) (\<lambda>_.
     attempt (catch (get_extension_mut (env_zk E) Account_base MemoTransfer_ext acct)) (\<lambda>found.
     attempt (case found of
                Some ext \<Rightarrow> Inr ext
              | None \<Rightarrow> init_extension (env_zk E) Account_base MemoTransfer_ext acct) (\<lambda>(ref, _, acct).
     Inr (store_state (ai_key token_account_info)
           (sx_store MemoTransfer_ext ref (PodBool_from required) acct) led)))))))"

definition process_enable_required_memo_transfers where
  "process_enable_required_memo_transfers E program_id accounts led = set_required_memos E True program_id accounts led"

definition process_diasble_required_memo_transfers where
  "process_diasble_required_memo_transfers E program_id accounts led = set_required_memos E False program_id accounts led"

datatype RequiredMemoTransfersInstruction = Memo_Enable | Memo_Disable

definition RequiredMemoTransfersInstruction_try_from :: "u8 \<Rightarrow> RequiredMemoTransfersInstruction option" where
  "RequiredMemoTransfersInstruction_try_from b =
     (if b = 0 then Some Memo_Enable else if b = 1 then Some Memo_Disable else None)"

definition memo_process_instruction ::
    "env22 \<Rightarrow> pubkey \<Rightarrow> account_info list \<Rightarrow> bytes \<Rightarrow> ledger \<Rightarrow> ledger res" where
  "memo_process_instruction E program_id accounts input led =
     attempt (check_program_account22 (env_rt E) program_id) (\<lambda>_.
     attempt (decode_instruction_type RequiredMemoTransfersInstruction_try_from input) (\<lambda>i.
     case i of
       Memo_Enable \<Rightarrow> process_enable_required_memo_transfers E program_id accounts led
     | Memo_Disable \<Rightarrow> process_diasble_required_memo_transfers E program_id accounts led))"

section \<open>Interest\<close>

text \<open>Checked \<^verbatim>\<open>i128\<close> arithmetic on integers; division truncates.\<close>

definition i128 :: "int \<Rightarrow> int option" where
  "i128 x = (if - (2 ^ 127) \<le> x \<and> x < 2 ^ 127 then Some x else None)"

definition truncated_div :: "int \<Rightarrow> int \<Rightarrow> int" where
  "truncated_div a b = sgn a * sgn b * (\<bar>a\<bar> div \<bar>b\<bar>)"

definition i128_checked_div :: "int \<Rightarrow> int \<Rightarrow> int option" where
  "i128_checked_div a b = (if b = 0 then None else i128 (truncated_div a b))"

definition try_into_i16 :: "int \<Rightarrow> u16 option" where
  "try_into_i16 x = (if - (2 ^ 15) \<le> x \<and> x < 2 ^ 15 then Some (of_int x) else None)"

definition time_weighted_average_rate :: "interest_bearing_config \<Rightarrow> i64 \<Rightarrow> u16 option" where
  "time_weighted_average_rate c current_timestamp =
     (let initialization = sint (ib_initialization_timestamp c);
          last_update = sint (ib_last_update_timestamp c);
          r_1 = sint (ib_pre_update_average_rate c);
          r_2 = sint (ib_current_rate c) in
      Option.bind (i128 (last_update - initialization)) (\<lambda>t_1.
      Option.bind (i128 (sint current_timestamp - last_update)) (\<lambda>t_2.
      Option.bind (i128 (t_1 + t_2)) (\<lambda>total_timespan.
      Option.bind (if total_timespan = 0 then Some r_2
                   else Option.bind (i128 (r_1 * t_1)) (\<lambda>a.
                        Option.bind (i128 (r_2 * t_2)) (\<lambda>b.
                        Option.bind (i128 (a + b)) (\<lambda>s. i128_checked_div s total_timespan)))) (\<lambda>average_rate.
      try_into_i16 average_rate)))))"

definition process_initialize_interest ::
    "env22 \<Rightarrow> account_info list \<Rightarrow> pubkey \<Rightarrow> u16 \<Rightarrow> ledger \<Rightarrow> ledger res" where
  "process_initialize_interest E accounts rate_authority rate led =
     attempt (next_account_info accounts) (\<lambda>(mint_info, it).
     attempt (StateWithExtensionsMut_unpack_uninitialized Mint_base (info_data led mint_info)) (\<lambda>mint.
     attempt (rt_clock_get (env_rt E)) (\<lambda>clock.
     attempt (init_extension (env_zk E) Mint_base InterestBearingConfig_ext mint) (\<lambda>(ref, extension, mint).
     let extension = extension\<lparr>ib_rate_authority := rate_authority,
                               ib_initialization_timestamp := clock_unix_timestamp clock,
                               ib_last_update_timestamp := clock_unix_timestamp clock,
                               ib_pre_update_average_rate := rate, ib_current_rate := rate\<rparr> in
     Inr (store_state (ai_key mint_info) (sx_store InterestBearingConfig_ext ref extension mint) led)))))"

definition process_update_rate ::
    "env22 \<Rightarrow> pubkey \<Rightarrow> account_info list \<Rightarrow> u16 \<Rightarrow> ledger \<Rightarrow> ledger res" where
  "process_update_rate E program_id accounts new_rate led =
     attempt (next_account_info accounts) (\<lambda>(mint_info, it).
     attempt (next_account_info it) (\<lambda>(owner_info, signers).
     attempt (unpack_mint (info_data led mint_info)) (\<lambda>mint.
     attempt (get_extension_mut (env_zk E) Mint_base InterestBearingConfig_ext mint) (\<lambda>(ref, extension, mint).
     attempt (ok_or (OptionalNonZeroPubkey_option (ib_rate_authority extension)) (token22_err NoAuthorityExists)) (\<lambda>rate_authority.
     attempt (validate_owner program_id led rate_authority owner_info signers) (\<lambda>_.
     attempt (rt_clock_get (env_rt E)) (\<lambda>clock.
     attempt (ok_or (time_weighted_average_rate extension (clock_unix_timestamp clock)) (token_err Overflow)) (\<lambda>average_rate.
     let extension = extension\<lparr>ib_pre_update_average_rate := average_rate,
                               ib_last_update_timestamp := clock_unix_timestamp clock,
                               ib_current_rate := new_rate\<rparr> in
     Inr (store_state (ai_key mint_info) (sx_store InterestBearingConfig_ext ref extension mint) led)))))))))"

datatype InterestBearingMintInstruction = Interest_Initialize | Interest_UpdateRate

definition InterestBearingMintInstruction_try_from :: "u8 \<Rightarrow> InterestBearingMintInstruction option" where
  "InterestBearingMintInstruction_try_from b =
     (if b = 0 then Some Interest_Initialize else if b = 1 then Some Interest_UpdateRate else None)"

text \<open>\<^verbatim>\<open>InitializeInstructionData\<close>: the authority, then the rate.\<close>

definition InitializeInstructionData_pod :: "(pubkey \<times> u16) pod" where
  "InitializeInstructionData_pod =
     \<lparr>pod_len = 34,
      pod_decode = (\<lambda>bs. (from_le_bytes (subslice 0 32 bs), from_le_bytes (subslice 32 2 bs))),
      pod_encode = (\<lambda>(k, r). to_le_bytes k @ to_le_bytes r)\<rparr>"

definition interest_process_instruction ::
    "env22 \<Rightarrow> pubkey \<Rightarrow> account_info list \<Rightarrow> bytes \<Rightarrow> ledger \<Rightarrow> ledger res" where
  "interest_process_instruction E program_id accounts input led =
     attempt (check_program_account22 (env_rt E) program_id) (\<lambda>_.
     attempt (decode_instruction_type InterestBearingMintInstruction_try_from input) (\<lambda>i.
     case i of
       Interest_Initialize \<Rightarrow>
         attempt (decode_instruction_data InitializeInstructionData_pod input) (\<lambda>(rate_authority, rate).
         process_initialize_interest E accounts rate_authority rate led)
     | Interest_UpdateRate \<Rightarrow>
         attempt (decode_instruction_data Length_pod input) (\<lambda>new_rate.
         process_update_rate E program_id accounts new_rate led)))"

text \<open>Floating point, as the code calls it.  \<open>f64_literal m d\<close> is the literal \<open>m / 10^d\<close>.\<close>

record 'f f64_ops =
  f64_literal :: "int \<Rightarrow> nat \<Rightarrow> 'f"
  f64_from :: "int \<Rightarrow> 'f"
  f64_mul :: "'f \<Rightarrow> 'f \<Rightarrow> 'f"
  f64_div :: "'f \<Rightarrow> 'f \<Rightarrow> 'f"
  f64_exp :: "'f \<Rightarrow> 'f"
  f64_powi :: "'f \<Rightarrow> int \<Rightarrow> 'f"
  f64_less :: "'f \<Rightarrow> 'f \<Rightarrow> bool"
  f64_is_nan :: "'f \<Rightarrow> bool"
  f64_round_to_u64 :: "'f \<Rightarrow> u64"
  f64_to_string :: "'f \<Rightarrow> bytes"
  f64_parse :: "bytes \<Rightarrow> 'f option"

definition interest_exp :: "'f f64_ops \<Rightarrow> u16 \<Rightarrow> i64 \<Rightarrow> i64 \<Rightarrow> 'f option" where
  "interest_exp F rate from to =
     Option.bind (if - (2 ^ 63) \<le> sint to - sint from \<and> sint to - sint from < 2 ^ 63
                  then Some (sint to - sint from) else None) (\<lambda>timespan.
     Option.bind (i128 (sint rate * timespan)) (\<lambda>numerator.
     let seconds_per_year = f64_mul F (f64_mul F (f64_mul F (f64_literal F 60 0) (f64_literal F 60 0)) (f64_literal F 24 0))
                              (f64_literal F 36524 2);
         exponent = f64_div F (f64_div F (f64_from F numerator) seconds_per_year) (f64_literal F 10000 0)
     in Some (f64_exp F exponent)))"

definition total_scale :: "'f f64_ops \<Rightarrow> interest_bearing_config \<Rightarrow> u8 \<Rightarrow> i64 \<Rightarrow> 'f option" where
  "total_scale F c decimals unix_timestamp =
     Option.bind (interest_exp F (ib_pre_update_average_rate c) (ib_initialization_timestamp c)
                    (ib_last_update_timestamp c)) (\<lambda>pre.
     Option.bind (interest_exp F (ib_current_rate c) (ib_last_update_timestamp c) unix_timestamp) (\<lambda>post.
     Some (f64_div F (f64_mul F pre post) (f64_powi F (f64_literal F 10 0) (uint decimals)))))"

definition interest_amount_to_ui_amount ::
    "'f f64_ops \<Rightarrow> interest_bearing_config \<Rightarrow> u64 \<Rightarrow> u8 \<Rightarrow> i64 \<Rightarrow> bytes option" where
  "interest_amount_to_ui_amount F c amt decimals unix_timestamp =
     Option.bind (total_scale F c decimals unix_timestamp) (\<lambda>scale.
     Some (f64_to_string F (f64_mul F (f64_from F (uint amt)) scale)))"

definition interest_try_ui_amount_into_amount ::
    "'f f64_ops \<Rightarrow> interest_bearing_config \<Rightarrow> bytes \<Rightarrow> u8 \<Rightarrow> i64 \<Rightarrow> u64 res" where
  "interest_try_ui_amount_into_amount F c ui_amount decimals unix_timestamp =
     attempt (ok_or (f64_parse F ui_amount) InvalidArgument) (\<lambda>scaled_amount.
     attempt (ok_or (total_scale F c decimals unix_timestamp) InvalidArgument) (\<lambda>scale.
     let amt = f64_div F scaled_amount scale in
     if f64_less F (f64_from F (2 ^ 64 - 1)) amt \<or> f64_less F amt (f64_from F 0) \<or> f64_is_nan F amt
     then Inl InvalidArgument
     else Inr (f64_round_to_u64 F amt)))"

section \<open>Queries and the native mint\<close>

definition process_amount_to_ui_amount22 ::
    "'f f64_ops \<Rightarrow> env22 \<Rightarrow> account_info list \<Rightarrow> u64 \<Rightarrow> ledger \<Rightarrow> bytes res" where
  "process_amount_to_ui_amount22 F E accounts amt led =
     attempt (next_account_info accounts) (\<lambda>(mint_info, it).
     attempt (check_program_account22 (env_rt E) (info_owner led mint_info)) (\<lambda>_.
     attempt (map_error (token_err InvalidMint) (view_mint (info_data led mint_info))) (\<lambda>mint.
     attempt (catch (sv_get_extension Mint_base mint InterestBearingConfig_ext)) (\<lambda>extension.
     case extension of
       Some c \<Rightarrow>
         attempt (rt_clock_get (env_rt E)) (\<lambda>clock.
         ok_or (interest_amount_to_ui_amount F c amt (mint_decimals (sv_base mint)) (clock_unix_timestamp clock))
           InvalidArgument)
     | None \<Rightarrow> Inr (amount_to_ui_amount_string_trimmed amt (mint_decimals (sv_base mint)))))))"

definition process_ui_amount_to_amount22 ::
    "'f f64_ops \<Rightarrow> env22 \<Rightarrow> account_info list \<Rightarrow> bytes \<Rightarrow> ledger \<Rightarrow> bytes res" where
  "process_ui_amount_to_amount22 F E accounts ui_amount led =
     attempt (next_account_info accounts) (\<lambda>(mint_info, it).
     attempt (check_program_account22 (env_rt E) (info_owner led mint_info)) (\<lambda>_.
     attempt (map_error (token_err InvalidMint) (view_mint (info_data led mint_info))) (\<lambda>mint.
     attempt (catch (sv_get_extension Mint_base mint InterestBearingConfig_ext)) (\<lambda>extension.
     attempt (case extension of
                Some c \<Rightarrow>
                  attempt (rt_clock_get (env_rt E)) (\<lambda>clock.
                  interest_try_ui_amount_into_amount F c ui_amount (mint_decimals (sv_base mint))
                    (clock_unix_timestamp clock))
              | None \<Rightarrow> try_ui_amount_into_amount ui_amount (mint_decimals (sv_base mint))) (\<lambda>amt.
     Inr (to_le_bytes amt))))))"

text \<open>\<^verbatim>\<open>PROGRAM_ADDRESS_SEEDS\<close>: the bytes of \<^verbatim>\<open>native-mint\<close> and 255.\<close>

definition native_mint_seeds :: "bytes list" where
  "native_mint_seeds = [[110, 97, 116, 105, 118, 101, 45, 109, 105, 110, 116], [255]]"

definition process_create_native_mint :: "env22 \<Rightarrow> pubkey \<Rightarrow> account_info list \<Rightarrow> ledger \<Rightarrow> ledger res" where
  "process_create_native_mint E program_id accounts led =
     attempt (next_account_info accounts) (\<lambda>(payer_info, it).
     attempt (next_account_info it) (\<lambda>(native_mint_info, it).
     attempt (next_account_info it) (\<lambda>(system_program_info, it).
     let R = env_rt E; k = ai_key native_mint_info in
     if k \<noteq> native_mint22_id R then Inl (token_err InvalidMint)
     else
       attempt (rt_rent_get R) (\<lambda>rent.
       let lamports_diff = saturating_sub (rent_minimum_balance rent MINT_LEN) (info_lamports led native_mint_info) in
       attempt (rt_invoke_signed R program_id (env_system_transfer E (ai_key payer_info) k lamports_diff)
                 [payer_info, native_mint_info, system_program_info] [] led) (\<lambda>led.
       attempt (rt_invoke_signed R program_id (env_system_allocate E k (of_nat MINT_LEN))
                 [native_mint_info, system_program_info] [native_mint_seeds] led) (\<lambda>led.
       attempt (rt_invoke_signed R program_id (env_system_assign E k (token22_program_id R))
                 [native_mint_info, system_program_info] [native_mint_seeds] led) (\<lambda>led.
       Mint_pack \<lparr>mint_authority = None, mint_supply = 0, mint_decimals = 9, mint_is_initialized = True,
                  mint_freeze_authority = None\<rparr> k led)))))))"

section \<open>Instructions\<close>

datatype TransferFeeInstruction =
    InitializeTransferFeeConfig "pubkey option" "pubkey option" u16 u64
  | TransferCheckedWithFee u64 u8 u64
  | WithdrawWithheldTokensFromMint
  | WithdrawWithheldTokensFromAccounts u8
  | HarvestWithheldTokensToMint
  | SetTransferFee u16 u64

datatype TokenInstruction22 =
    InitializeMint_22 u8 pubkey "pubkey option"
  | InitializeAccount_22
  | InitializeMultisig_22 u8
  | Transfer_22 u64
  | Approve_22 u64
  | Revoke_22
  | SetAuthority_22 AuthorityType22 "pubkey option"
  | MintTo_22 u64
  | Burn_22 u64
  | CloseAccount_22
  | FreezeAccount_22
  | ThawAccount_22
  | TransferChecked_22 u64 u8
  | ApproveChecked_22 u64 u8
  | MintToChecked_22 u64 u8
  | BurnChecked_22 u64 u8
  | InitializeAccount2_22 pubkey
  | SyncNative_22
  | InitializeAccount3_22 pubkey
  | InitializeMultisig2_22 u8
  | InitializeMint2_22 u8 pubkey "pubkey option"
  | GetAccountDataSize_22 "ExtensionType list"
  | InitializeImmutableOwner_22
  | AmountToUiAmount_22 u64
  | UiAmountToAmount_22 bytes
  | InitializeMintCloseAuthority "pubkey option"
  | TransferFeeExtension TransferFeeInstruction
  | ConfidentialTransferExtension
  | DefaultAccountStateExtension
  | Reallocate "ExtensionType list"
  | MemoTransferExtension
  | CreateNativeMint
  | InitializeNonTransferableMint
  | InterestBearingMintExtension

primrec AuthorityType22_into :: "AuthorityType22 \<Rightarrow> u8" where
  "AuthorityType22_into Auth_MintTokens = 0"
| "AuthorityType22_into Auth_FreezeAccount = 1"
| "AuthorityType22_into Auth_AccountOwner = 2"
| "AuthorityType22_into Auth_CloseAccount = 3"
| "AuthorityType22_into Auth_TransferFeeConfig = 4"
| "AuthorityType22_into Auth_WithheldWithdraw = 5"
| "AuthorityType22_into Auth_CloseMint = 6"
| "AuthorityType22_into Auth_InterestRate = 7"

definition AuthorityType22_from :: "u8 \<Rightarrow> AuthorityType22 res" where
  "AuthorityType22_from index =
     (if index = 0 then Inr Auth_MintTokens
      else if index = 1 then Inr Auth_FreezeAccount
      else if index = 2 then Inr Auth_AccountOwner
      else if index = 3 then Inr Auth_CloseAccount
      else if index = 4 then Inr Auth_TransferFeeConfig
      else if index = 5 then Inr Auth_WithheldWithdraw
      else if index = 6 then Inr Auth_CloseMint
      else if index = 7 then Inr Auth_InterestRate
      else Inl (token_err InvalidInstruction))"

definition unpack_u16 :: "bytes \<Rightarrow> (u16 \<times> bytes) res" where
  "unpack_u16 input =
     attempt (ok_or (map_option from_le_bytes (get_prefix 2 input)) (token_err InvalidInstruction)) (\<lambda>v.
     Inr (v, drop 2 input))"

definition unpack_u64_22 :: "bytes \<Rightarrow> (u64 \<times> bytes) res" where
  "unpack_u64_22 input =
     attempt (ok_or (map_option from_le_bytes (get_prefix 8 input)) (token_err InvalidInstruction)) (\<lambda>v.
     Inr (v, drop 8 input))"

definition unpack_amount_decimals22 :: "bytes \<Rightarrow> (u64 \<times> u8 \<times> bytes) res" where
  "unpack_amount_decimals22 input =
     attempt (unpack_u64_22 input) (\<lambda>(amt, rest).
     attempt (ok_or (split_first rest) (token_err InvalidInstruction)) (\<lambda>(decimals, rest).
     Inr (amt, decimals, rest)))"

text \<open>\<^verbatim>\<open>rest.chunks(2)\<close>, each converted: an odd byte at the end is an error.\<close>

fun unpack_extension_types :: "bytes \<Rightarrow> ExtensionType list res" where
  "unpack_extension_types [] = Inr []"
| "unpack_extension_types [b] = attempt (ExtensionType_try_from [b]) (\<lambda>t. Inr [t])"
| "unpack_extension_types (b # c # rest) =
     attempt (ExtensionType_try_from [b, c]) (\<lambda>t.
     attempt (unpack_extension_types rest) (\<lambda>ts. Inr (t # ts)))"

definition TransferFeeInstruction_unpack :: "bytes \<Rightarrow> (TransferFeeInstruction \<times> bytes) res" where
  "TransferFeeInstruction_unpack input =
     attempt (ok_or (split_first input) (token_err InvalidInstruction)) (\<lambda>(tag, rest).
     if tag = 0 then
       attempt (unpack_pubkey_option rest) (\<lambda>(config_authority, rest).
       attempt (unpack_pubkey_option rest) (\<lambda>(withdraw_authority, rest).
       attempt (unpack_u16 rest) (\<lambda>(basis_points, rest).
       attempt (unpack_u64_22 rest) (\<lambda>(maximum_fee, rest).
       Inr (InitializeTransferFeeConfig config_authority withdraw_authority basis_points maximum_fee, rest)))))
     else if tag = 1 then
       attempt (unpack_amount_decimals22 rest) (\<lambda>(amt, decimals, rest).
       attempt (unpack_u64_22 rest) (\<lambda>(fee, rest). Inr (TransferCheckedWithFee amt decimals fee, rest)))
     else if tag = 2 then Inr (WithdrawWithheldTokensFromMint, rest)
     else if tag = 3 then
       attempt (ok_or (split_first rest) (token_err InvalidInstruction)) (\<lambda>(n, rest).
       Inr (WithdrawWithheldTokensFromAccounts n, rest))
     else if tag = 4 then Inr (HarvestWithheldTokensToMint, rest)
     else if tag = 5 then
       attempt (unpack_u16 rest) (\<lambda>(basis_points, rest).
       attempt (unpack_u64_22 rest) (\<lambda>(maximum_fee, rest). Inr (SetTransferFee basis_points maximum_fee, rest)))
     else Inl (token_err InvalidInstruction))"

primrec TransferFeeInstruction_pack :: "TransferFeeInstruction \<Rightarrow> bytes" where
  "TransferFeeInstruction_pack (InitializeTransferFeeConfig c w b m) =
     0 # pack_pubkey_option c @ pack_pubkey_option w @ to_le_bytes b @ to_le_bytes m"
| "TransferFeeInstruction_pack (TransferCheckedWithFee n d f) = 1 # to_le_bytes n @ [d] @ to_le_bytes f"
| "TransferFeeInstruction_pack WithdrawWithheldTokensFromMint = [2]"
| "TransferFeeInstruction_pack (WithdrawWithheldTokensFromAccounts n) = [3, n]"
| "TransferFeeInstruction_pack HarvestWithheldTokensToMint = [4]"
| "TransferFeeInstruction_pack (SetTransferFee b m) = 5 # to_le_bytes b @ to_le_bytes m"

definition TokenInstruction22_unpack :: "bytes \<Rightarrow> TokenInstruction22 res" where
  "TokenInstruction22_unpack input =
     attempt (ok_or (split_first input) (token_err InvalidInstruction)) (\<lambda>(tag, rest).
     if tag = 0 then attempt (unpack_mint_fields rest) (\<lambda>(d, a, f). Inr (InitializeMint_22 d a f))
     else if tag = 1 then Inr InitializeAccount_22
     else if tag = 2 then attempt (unpack_first_byte rest) (\<lambda>m. Inr (InitializeMultisig_22 m))
     else if tag = 3 then attempt (unpack_amount rest) (\<lambda>n. Inr (Transfer_22 n))
     else if tag = 4 then attempt (unpack_amount rest) (\<lambda>n. Inr (Approve_22 n))
     else if tag = 7 then attempt (unpack_amount rest) (\<lambda>n. Inr (MintTo_22 n))
     else if tag = 8 then attempt (unpack_amount rest) (\<lambda>n. Inr (Burn_22 n))
     else if tag = 5 then Inr Revoke_22
     else if tag = 6 then
       attempt (ok_or (split_first rest) (token_err InvalidInstruction)) (\<lambda>(t, rest).
       attempt (AuthorityType22_from t) (\<lambda>authority_type.
       attempt (unpack_pubkey_option rest) (\<lambda>(new_authority, _).
       Inr (SetAuthority_22 authority_type new_authority))))
     else if tag = 9 then Inr CloseAccount_22
     else if tag = 10 then Inr FreezeAccount_22
     else if tag = 11 then Inr ThawAccount_22
     else if tag = 12 then attempt (unpack_amount_decimals22 rest) (\<lambda>(n, d, _). Inr (TransferChecked_22 n d))
     else if tag = 13 then attempt (unpack_amount_decimals22 rest) (\<lambda>(n, d, _). Inr (ApproveChecked_22 n d))
     else if tag = 14 then attempt (unpack_amount_decimals22 rest) (\<lambda>(n, d, _). Inr (MintToChecked_22 n d))
     else if tag = 15 then attempt (unpack_amount_decimals22 rest) (\<lambda>(n, d, _). Inr (BurnChecked_22 n d))
     else if tag = 16 then attempt (unpack_pubkey rest) (\<lambda>(owner, _). Inr (InitializeAccount2_22 owner))
     else if tag = 17 then Inr SyncNative_22
     else if tag = 18 then attempt (unpack_pubkey rest) (\<lambda>(owner, _). Inr (InitializeAccount3_22 owner))
     else if tag = 19 then attempt (unpack_first_byte rest) (\<lambda>m. Inr (InitializeMultisig2_22 m))
     else if tag = 20 then attempt (unpack_mint_fields rest) (\<lambda>(d, a, f). Inr (InitializeMint2_22 d a f))
     else if tag = 21 then attempt (unpack_extension_types rest) (\<lambda>ts. Inr (GetAccountDataSize_22 ts))
     else if tag = 22 then Inr InitializeImmutableOwner_22
     else if tag = 23 then attempt (unpack_u64_22 rest) (\<lambda>(n, _). Inr (AmountToUiAmount_22 n))
     else if tag = 24 then
       (if valid_utf8 rest then Inr (UiAmountToAmount_22 rest) else Inl (token_err InvalidInstruction))
     else if tag = 25 then attempt (unpack_pubkey_option rest) (\<lambda>(k, _). Inr (InitializeMintCloseAuthority k))
     else if tag = 26 then attempt (TransferFeeInstruction_unpack rest) (\<lambda>(i, _). Inr (TransferFeeExtension i))
     else if tag = 27 then Inr ConfidentialTransferExtension
     else if tag = 28 then Inr DefaultAccountStateExtension
     else if tag = 29 then attempt (unpack_extension_types rest) (\<lambda>ts. Inr (Reallocate ts))
     else if tag = 30 then Inr MemoTransferExtension
     else if tag = 31 then Inr CreateNativeMint
     else if tag = 32 then Inr InitializeNonTransferableMint
     else if tag = 33 then Inr InterestBearingMintExtension
     else Inl (token_err InvalidInstruction))"

definition pack_extension_types :: "ExtensionType list \<Rightarrow> bytes" where
  "pack_extension_types ts = concat (map ExtensionType_bytes ts)"

primrec TokenInstruction22_pack :: "TokenInstruction22 \<Rightarrow> bytes" where
  "TokenInstruction22_pack (InitializeMint_22 d a f) = [0, d] @ to_le_bytes a @ pack_pubkey_option f"
| "TokenInstruction22_pack InitializeAccount_22 = [1]"
| "TokenInstruction22_pack (InitializeMultisig_22 m) = [2, m]"
| "TokenInstruction22_pack (Transfer_22 n) = 3 # to_le_bytes n"
| "TokenInstruction22_pack (Approve_22 n) = 4 # to_le_bytes n"
| "TokenInstruction22_pack Revoke_22 = [5]"
| "TokenInstruction22_pack (SetAuthority_22 t a) = [6, AuthorityType22_into t] @ pack_pubkey_option a"
| "TokenInstruction22_pack (MintTo_22 n) = 7 # to_le_bytes n"
| "TokenInstruction22_pack (Burn_22 n) = 8 # to_le_bytes n"
| "TokenInstruction22_pack CloseAccount_22 = [9]"
| "TokenInstruction22_pack FreezeAccount_22 = [10]"
| "TokenInstruction22_pack ThawAccount_22 = [11]"
| "TokenInstruction22_pack (TransferChecked_22 n d) = 12 # to_le_bytes n @ [d]"
| "TokenInstruction22_pack (ApproveChecked_22 n d) = 13 # to_le_bytes n @ [d]"
| "TokenInstruction22_pack (MintToChecked_22 n d) = 14 # to_le_bytes n @ [d]"
| "TokenInstruction22_pack (BurnChecked_22 n d) = 15 # to_le_bytes n @ [d]"
| "TokenInstruction22_pack (InitializeAccount2_22 ow) = 16 # to_le_bytes ow"
| "TokenInstruction22_pack SyncNative_22 = [17]"
| "TokenInstruction22_pack (InitializeAccount3_22 ow) = 18 # to_le_bytes ow"
| "TokenInstruction22_pack (InitializeMultisig2_22 m) = [19, m]"
| "TokenInstruction22_pack (InitializeMint2_22 d a f) = [20, d] @ to_le_bytes a @ pack_pubkey_option f"
| "TokenInstruction22_pack (GetAccountDataSize_22 ts) = 21 # pack_extension_types ts"
| "TokenInstruction22_pack InitializeImmutableOwner_22 = [22]"
| "TokenInstruction22_pack (AmountToUiAmount_22 n) = 23 # to_le_bytes n"
| "TokenInstruction22_pack (UiAmountToAmount_22 s) = 24 # s"
| "TokenInstruction22_pack (InitializeMintCloseAuthority k) = 25 # pack_pubkey_option k"
| "TokenInstruction22_pack (TransferFeeExtension i) = 26 # TransferFeeInstruction_pack i"
| "TokenInstruction22_pack ConfidentialTransferExtension = [27]"
| "TokenInstruction22_pack DefaultAccountStateExtension = [28]"
| "TokenInstruction22_pack (Reallocate ts) = 29 # pack_extension_types ts"
| "TokenInstruction22_pack MemoTransferExtension = [30]"
| "TokenInstruction22_pack CreateNativeMint = [31]"
| "TokenInstruction22_pack InitializeNonTransferableMint = [32]"
| "TokenInstruction22_pack InterestBearingMintExtension = [33]"

section \<open>Dispatch\<close>

definition transfer_fee_process_instruction ::
    "env22 \<Rightarrow> pubkey \<Rightarrow> account_info list \<Rightarrow> TransferFeeInstruction \<Rightarrow> ledger \<Rightarrow> ledger res" where
  "transfer_fee_process_instruction E program_id accounts instruction led =
     attempt (check_program_account22 (env_rt E) program_id) (\<lambda>_.
     case instruction of
       InitializeTransferFeeConfig c w b m \<Rightarrow> process_initialize_transfer_fee_config E accounts c w b m led
     | TransferCheckedWithFee n d f \<Rightarrow> process_transfer22 E program_id accounts n (Some d) (Some f) led
     | WithdrawWithheldTokensFromMint \<Rightarrow> process_withdraw_withheld_tokens_from_mint E program_id accounts led
     | WithdrawWithheldTokensFromAccounts n \<Rightarrow>
         process_withdraw_withheld_tokens_from_accounts E program_id accounts n led
     | HarvestWithheldTokensToMint \<Rightarrow> process_harvest_withheld_tokens_to_mint E accounts led
     | SetTransferFee b m \<Rightarrow> process_set_transfer_fee E program_id accounts b m led)"

type_synonym confidential_handler =
  "pubkey \<Rightarrow> account_info list \<Rightarrow> bytes \<Rightarrow> ledger \<Rightarrow> ledger res"

definition process_instruction22 ::
    "'f f64_ops \<Rightarrow> confidential_handler \<Rightarrow> env22 \<Rightarrow> pubkey \<Rightarrow> account_info list \<Rightarrow> bytes \<Rightarrow> TokenInstruction22 \<Rightarrow>
     ledger \<Rightarrow> (ledger \<times> bytes) res" where
  "process_instruction22 F confidential E pid accounts input instruction led =
     (case instruction of
        InitializeMint_22 d a f \<Rightarrow> no_return (process_initialize_mint22 E accounts d a f led)
      | InitializeMint2_22 d a f \<Rightarrow> no_return (process_initialize_mint2_22 E accounts d a f led)
      | InitializeAccount_22 \<Rightarrow> no_return (process_initialize_account22 E accounts led)
      | InitializeAccount2_22 owner \<Rightarrow> no_return (process_initialize_account2_22 E accounts owner led)
      | InitializeAccount3_22 owner \<Rightarrow> no_return (process_initialize_account3_22 E accounts owner led)
      | InitializeMultisig_22 m \<Rightarrow> no_return (process_initialize_multisig (env_rt E) accounts m led)
      | InitializeMultisig2_22 m \<Rightarrow> no_return (process_initialize_multisig2 (env_rt E) accounts m led)
      | Transfer_22 n \<Rightarrow> no_return (process_transfer22 E pid accounts n None None led)
      | Approve_22 n \<Rightarrow> no_return (process_approve22 pid accounts n None led)
      | Revoke_22 \<Rightarrow> no_return (process_revoke22 pid accounts led)
      | SetAuthority_22 t a \<Rightarrow> no_return (process_set_authority22 E pid accounts t a led)
      | MintTo_22 n \<Rightarrow> no_return (process_mint_to22 E pid accounts n None led)
      | Burn_22 n \<Rightarrow> no_return (process_burn22 E pid accounts n None led)
      | CloseAccount_22 \<Rightarrow> no_return (process_close_account22 E pid accounts led)
      | FreezeAccount_22 \<Rightarrow> no_return (process_toggle_freeze_account22 pid accounts True led)
      | ThawAccount_22 \<Rightarrow> no_return (process_toggle_freeze_account22 pid accounts False led)
      | TransferChecked_22 n d \<Rightarrow> no_return (process_transfer22 E pid accounts n (Some d) None led)
      | ApproveChecked_22 n d \<Rightarrow> no_return (process_approve22 pid accounts n (Some d) led)
      | MintToChecked_22 n d \<Rightarrow> no_return (process_mint_to22 E pid accounts n (Some d) led)
      | BurnChecked_22 n d \<Rightarrow> no_return (process_burn22 E pid accounts n (Some d) led)
      | SyncNative_22 \<Rightarrow> no_return (process_sync_native22 E accounts led)
      | GetAccountDataSize_22 ts \<Rightarrow> with_return led (process_get_account_data_size22 E accounts ts led)
      | InitializeMintCloseAuthority k \<Rightarrow> no_return (process_initialize_mint_close_authority E accounts k led)
      | TransferFeeExtension i \<Rightarrow> no_return (transfer_fee_process_instruction E pid accounts i led)
      | ConfidentialTransferExtension \<Rightarrow> no_return (confidential pid accounts (drop 1 input) led)
      | DefaultAccountStateExtension \<Rightarrow> no_return (default_state_process_instruction E pid accounts (drop 1 input) led)
      | InitializeImmutableOwner_22 \<Rightarrow> no_return (process_initialize_immutable_owner22 E accounts led)
      | AmountToUiAmount_22 n \<Rightarrow> with_return led (process_amount_to_ui_amount22 F E accounts n led)
      | UiAmountToAmount_22 s \<Rightarrow> with_return led (process_ui_amount_to_amount22 F E accounts s led)
      | Reallocate ts \<Rightarrow> no_return (process_reallocate E pid accounts ts led)
      | MemoTransferExtension \<Rightarrow> no_return (memo_process_instruction E pid accounts (drop 1 input) led)
      | CreateNativeMint \<Rightarrow> no_return (process_create_native_mint E pid accounts led)
      | InitializeNonTransferableMint \<Rightarrow> no_return (process_initialize_non_transferable_mint E accounts led)
      | InterestBearingMintExtension \<Rightarrow> no_return (interest_process_instruction E pid accounts (drop 1 input) led))"

definition process22 ::
    "'f f64_ops \<Rightarrow> confidential_handler \<Rightarrow> env22 \<Rightarrow> pubkey \<Rightarrow> account_info list \<Rightarrow> bytes \<Rightarrow> ledger \<Rightarrow> (ledger \<times> bytes) res" where
  "process22 F confidential E program_id accounts input led =
     attempt (TokenInstruction22_unpack input) (\<lambda>instruction.
     process_instruction22 F confidential E program_id accounts input instruction led)"

end
