(* ===== verification/Token22_Entries.thy ===== *)
theory Token22_Entries
  imports Token22_Extension
begin

text \<open>
  What the entries mean.  \<open>tlv_image es z\<close> are the bytes of the entries \<open>es\<close> followed by
  \<open>z\<close> zeros, the form every buffer of the program has.  On it the walks of the code find an
  extension exactly when \<open>es\<close> has it, and initialising or writing one changes that entry
  and no other.
\<close>

section \<open>The bytes of a list of entries\<close>

definition tlv_entry :: "ExtensionType \<times> bytes \<Rightarrow> bytes" where
  "tlv_entry e = ExtensionType_bytes (fst e) @ to_le_bytes (of_nat (length (snd e)) :: u16) @ snd e"

definition tlv_encode :: "(ExtensionType \<times> bytes) list \<Rightarrow> bytes" where
  "tlv_encode es = concat (map tlv_entry es)"

definition tlv_image :: "(ExtensionType \<times> bytes) list \<Rightarrow> nat \<Rightarrow> bytes" where
  "tlv_image es z = tlv_encode es @ replicate z 0"

definition entry_ok :: "zk_sizes \<Rightarrow> AccountType22 \<Rightarrow> ExtensionType \<times> bytes \<Rightarrow> bool" where
  "entry_ok zk at e \<longleftrightarrow> fst e \<noteq> Ext_Uninitialized \<and> get_account_type (fst e) = at \<and>
     length (snd e) = get_type_len zk (fst e) \<and> length (snd e) < 65536"

definition entries_ok :: "zk_sizes \<Rightarrow> AccountType22 \<Rightarrow> (ExtensionType \<times> bytes) list \<Rightarrow> bool" where
  "entries_ok zk at es \<longleftrightarrow> distinct (map fst es) \<and> (\<forall>e \<in> set es. entry_ok zk at e)"

definition entries_put :: "ExtensionType \<Rightarrow> bytes \<Rightarrow> (ExtensionType \<times> bytes) list \<Rightarrow> (ExtensionType \<times> bytes) list" where
  "entries_put t v es = map (\<lambda>e. if fst e = t then (t, v) else e) es"

lemma ExtensionType_try_from_bytes [simp]: "ExtensionType_try_from (ExtensionType_bytes t) = Inr t"
proof -
  have "from_le_bytes (to_le_bytes (w :: u16)) = w" for w by (rule from_to_le_bytes) simp
  then show ?thesis
    by (cases t)
      (simp_all add: ExtensionType_try_from_def ExtensionType_bytes_def ExtensionType_try_from_u16_def
        ExtensionType_variants_def)
qed

lemma from_to_le_bytes_u16 [simp]: "from_le_bytes (to_le_bytes (w :: u16)) = w"
  by (rule from_to_le_bytes) simp

lemma ExtensionType_zeros [simp]: "ExtensionType_try_from [0, 0] = Inr Ext_Uninitialized"
  by (simp add: ExtensionType_try_from_def ExtensionType_try_from_u16_def ExtensionType_variants_def)

lemma length_ExtensionType_bytes [simp]: "length (ExtensionType_bytes t) = 2"
  by (simp add: ExtensionType_bytes_def)

lemma length_tlv_entry [simp]: "length (tlv_entry e) = length (snd e) + 4"
  by (simp add: tlv_entry_def)

lemma tlv_encode_simps [simp]:
  "tlv_encode [] = []" "tlv_encode (e # es) = tlv_entry e @ tlv_encode es"
  "tlv_encode (es @ fs) = tlv_encode es @ tlv_encode fs"
  by (simp_all add: tlv_encode_def)

lemma entries_put_simps [simp]:
  "entries_put t v [] = []"
  "entries_put t v (e # es) = (if fst e = t then (t, v) else e) # entries_put t v es"
  "entries_put t v (es @ fs) = entries_put t v es @ entries_put t v fs"
  by (simp_all add: entries_put_def)

lemma entries_put_id: "t \<notin> fst ` set es \<Longrightarrow> entries_put t v es = es"
  by (induction es) auto

lemma map_of_entries_put:
  "map_of (entries_put t v es) u = (if u = t \<and> t \<in> fst ` set es then Some v else map_of es u)"
  by (induction es) (force simp: image_iff)+

lemma fst_entries_put [simp]: "map fst (entries_put t v es) = map fst es"
  by (induction es) auto

section \<open>Walking an image\<close>

text \<open>One step of the walk over an entry, and over the zeros behind the last one.\<close>

lemma walk_entry:
  assumes "entry_ok zk at e" and "get_account_type ty = at" and "fst e \<noteq> ty"
  shows "extension_indices_from (pre @ tlv_entry e @ rest) ty init (length pre) =
         extension_indices_from (pre @ tlv_entry e @ rest) ty init (length (pre @ tlv_entry e))"
proof -
  have "subslice (length pre) 2 (pre @ tlv_entry e @ rest) = ExtensionType_bytes (fst e)"
    by (simp add: tlv_entry_def layout_simps)
  moreover have "subslice (length pre + 2) 2 (pre @ tlv_entry e @ rest) = to_le_bytes (of_nat (length (snd e)) :: u16)"
    by (simp add: tlv_entry_def layout_simps)
  moreover have "unat (of_nat (length (snd e)) :: u16) = length (snd e)"
    using assms(1) by (simp add: entry_ok_def unat_of_nat)
  ultimately show ?thesis
    using assms
    by (subst extension_indices_from.simps)
      (simp add: Let_def pod_from_bytes_def Length_pod_def entry_ok_def add_ac)
qed

lemma walk_hit:
  assumes "entry_ok zk at e"
  shows "extension_indices_from (pre @ tlv_entry e @ rest) (fst e) init (length pre) =
         Inr (get_tlv_indices (length pre))"
proof -
  have "subslice (length pre) 2 (pre @ tlv_entry e @ rest) = ExtensionType_bytes (fst e)"
    by (simp add: tlv_entry_def layout_simps)
  then show ?thesis
    using assms by (subst extension_indices_from.simps) (simp add: Let_def entry_ok_def)
qed

lemma walk_zeros:
  "extension_indices_from (pre @ replicate z 0) ty False (length pre) = Inl InvalidAccountData"
proof (induction z arbitrary: pre rule: less_induct)
  case (less z)
  show ?case
  proof (cases "z < 4")
    case True
    then show ?thesis by (subst extension_indices_from.simps) (simp add: Let_def)
  next
    case False
    then have z: "replicate z (0 :: u8) = [0, 0] @ replicate (z - 2) 0"
      by (cases z; cases "z - 1") (auto simp: numeral_2_eq_2)
    have "subslice (length pre) 2 (pre @ replicate z 0) = [0, 0 :: u8]"
      by (simp add: z layout_simps subslice_def numeral_2_eq_2)
    moreover have "extension_indices_from (pre @ replicate z 0) ty False (length pre + 2) = Inl InvalidAccountData"
      using less.IH [of "z - 2" "pre @ [0, 0]"] False by (simp add: z)
    ultimately show ?thesis
      using False by (subst extension_indices_from.simps) (simp add: Let_def)
  qed
qed

lemma walk_free:
  "extension_indices_from (pre @ replicate z 0) ty True (length pre) =
   (if 4 \<le> z then Inr (get_tlv_indices (length pre)) else Inl InvalidAccountData)"
proof (cases "4 \<le> z")
  case True
  then have "subslice (length pre) 2 (pre @ replicate z 0) = [0, 0 :: u8]"
    by (simp add: layout_simps subslice_def numeral_2_eq_2 min_def)
  then show ?thesis using True by (subst extension_indices_from.simps) (simp add: Let_def)
next
  case False
  then show ?thesis by (subst extension_indices_from.simps) (simp add: Let_def)
qed

lemma walk_entries:
  assumes "\<forall>e \<in> set es. entry_ok zk at e \<and> fst e \<noteq> ty" and "get_account_type ty = at"
  shows "extension_indices_from (pre @ tlv_encode es @ rest) ty init (length pre) =
         extension_indices_from (pre @ tlv_encode es @ rest) ty init (length pre + length (tlv_encode es))"
  using assms(1)
proof (induction es arbitrary: pre)
  case (Cons e es)
  then have e: "entry_ok zk at e" "fst e \<noteq> ty" by simp_all
  have "extension_indices_from (pre @ tlv_encode (e # es) @ rest) ty init (length pre) =
      extension_indices_from ((pre @ tlv_entry e) @ tlv_encode es @ rest) ty init (length (pre @ tlv_entry e))"
    using walk_entry [OF e(1) assms(2) e(2), of pre "tlv_encode es @ rest" init] by simp
  also have "\<dots> = extension_indices_from ((pre @ tlv_entry e) @ tlv_encode es @ rest) ty init
      (length (pre @ tlv_entry e) + length (tlv_encode es))"
    by (rule Cons.IH) (use Cons.prems in simp)
  finally show ?case by (simp add: add_ac)
qed simp

text \<open>Where the walk ends on an image: at the entry, at the first zeros, or nowhere.\<close>

lemma indices_present:
  assumes "entries_ok zk at (es @ (ty, v) # fs)"
  shows "get_extension_indices (tlv_image (es @ (ty, v) # fs) z) ty init =
         Inr (get_tlv_indices (length (tlv_encode es)))"
proof -
  have ok: "\<forall>e \<in> set es. entry_ok zk at e \<and> fst e \<noteq> ty" "entry_ok zk at (ty, v)"
    using assms by (auto simp: entries_ok_def)
  then have at: "get_account_type ty = at" by (simp add: entry_ok_def)
  show ?thesis
    using walk_entries [OF ok(1) at, of "[]" "tlv_entry (ty, v) @ tlv_encode fs @ replicate z 0" init]
      walk_hit [OF ok(2), of "tlv_encode es" "tlv_encode fs @ replicate z 0" init]
    by (simp add: get_extension_indices_def tlv_image_def)
qed

lemma indices_absent:
  assumes "entries_ok zk at es" and "get_account_type ty = at" and "ty \<notin> fst ` set es"
  shows "get_extension_indices (tlv_image es z) ty init =
         (if init \<and> 4 \<le> z then Inr (get_tlv_indices (length (tlv_encode es))) else Inl InvalidAccountData)"
proof -
  have ok: "\<forall>e \<in> set es. entry_ok zk at e \<and> fst e \<noteq> ty"
    using assms by (auto simp: entries_ok_def)
  have "get_extension_indices (tlv_image es z) ty init =
      extension_indices_from (tlv_encode es @ replicate z 0) ty init (length (tlv_encode es))"
    using walk_entries [OF ok assms(2), of "[]" "replicate z 0" init]
    by (simp add: get_extension_indices_def tlv_image_def)
  then show ?thesis by (cases init) (simp_all add: walk_zeros walk_free)
qed

lemma walk_types:
  assumes "\<forall>e \<in> set es. entry_ok zk at e"
  shows "extension_types_from (pre @ tlv_encode es @ replicate z 0) (length pre) acc = Inr (acc @ map fst es)"
  using assms
proof (induction es arbitrary: pre acc)
  case Nil
  show ?case
  proof (cases "z < 4")
    case False
    then have "subslice (length pre) 2 (pre @ replicate z 0) = [0, 0 :: u8]"
      by (simp add: layout_simps subslice_def numeral_2_eq_2 min_def)
    then show ?thesis using False by (subst extension_types_from.simps) (simp add: Let_def)
  qed (subst extension_types_from.simps, simp add: Let_def)
next
  case (Cons e es)
  have "subslice (length pre) 2 (pre @ tlv_encode (e # es) @ replicate z 0) = ExtensionType_bytes (fst e)"
    by (simp add: tlv_entry_def layout_simps)
  moreover have "subslice (length pre + 2) 2 (pre @ tlv_encode (e # es) @ replicate z 0) =
      to_le_bytes (of_nat (length (snd e)) :: u16)"
    by (simp add: tlv_entry_def layout_simps)
  moreover have "unat (of_nat (length (snd e)) :: u16) = length (snd e)" "fst e \<noteq> Ext_Uninitialized"
    using Cons.prems by (auto simp: entry_ok_def unat_of_nat)
  moreover have "extension_types_from (pre @ tlv_encode (e # es) @ replicate z 0) (length pre + (length (snd e) + 4))
      (acc @ [fst e]) = Inr (acc @ map fst (e # es))"
    using Cons.IH [of "pre @ tlv_entry e" "acc @ [fst e]"] Cons.prems by simp
  ultimately show ?case
    by (subst extension_types_from.simps) (simp add: Let_def pod_from_bytes_def Length_pod_def add_ac)
qed

lemma get_extension_types_image:
  "entries_ok zk at es \<Longrightarrow> get_extension_types (tlv_image es z) = Inr (map fst es)"
  using walk_types [of es zk at "[]" z "[]"] by (simp add: get_extension_types_def tlv_image_def entries_ok_def)

lemma get_first_extension_type_image:
  assumes "entries_ok zk at es"
  shows "get_first_extension_type (tlv_image es z) = Inr (case es of [] \<Rightarrow> None | e # _ \<Rightarrow> Some (fst e))"
proof (cases es)
  case Nil
  then show ?thesis
    by (cases "z \<le> 2")
      (simp_all add: get_first_extension_type_def tlv_image_def Let_def layout_simps subslice_def
        numeral_2_eq_2 min_def)
next
  case (Cons e fs)
  then have "subslice 0 2 (tlv_image es z) = ExtensionType_bytes (fst e)"
    by (simp add: tlv_image_def tlv_entry_def layout_simps)
  moreover have "fst e \<noteq> Ext_Uninitialized" using assms Cons by (simp add: entries_ok_def entry_ok_def)
  moreover have "tlv_image es z \<noteq> []" "4 \<le> length (tlv_image es z)"
    using Cons by (simp_all add: tlv_image_def) (metis add_is_0 length_0_conv length_tlv_entry numeral_neq_zero)
  ultimately show ?thesis using Cons by (simp add: get_first_extension_type_def Let_def)
qed

section \<open>Reading, writing and initialising an extension\<close>

lemma length_write_at: "off + length new \<le> length bs \<Longrightarrow> length (write_at22 off new bs) = length bs"
  by (simp add: write_at22_def)

lemma write_at_inside: "length new = length old \<Longrightarrow> write_at22 (length pre) new (pre @ old @ post) = pre @ new @ post"
  by (simp add: write_at22_def)

lemma entries_ok_put:
  assumes "entries_ok zk at es" and "length v = get_type_len zk t"
  shows "entries_ok zk at (entries_put t v es)"
proof -
  have "entry_ok zk at (if fst e = t then (t, v) else e)" if "e \<in> set es" for e
    using that assms unfolding entries_ok_def entry_ok_def by (cases "fst e = t") force+
  then have "\<forall>e \<in> set (entries_put t v es). entry_ok zk at e" unfolding entries_put_def set_map by blast
  then show ?thesis using assms(1) by (simp add: entries_ok_def)
qed

lemma split_entries:
  assumes "map_of es t = Some v" and "distinct (map fst es)"
  obtains fs gs where "es = fs @ (t, v) # gs" and "t \<notin> fst ` set fs" and "t \<notin> fst ` set gs"
proof -
  obtain fs gs where es: "es = fs @ (t, v) # gs"
    using map_of_SomeD [OF assms(1)] by (auto simp: in_set_conv_decomp)
  with assms(2) show thesis by (intro that [OF es]) auto
qed

lemma length_entries_put:
  assumes "entries_ok zk at es" and "length v = get_type_len zk t"
  shows "length (tlv_encode (entries_put t v es)) = length (tlv_encode es)"
  using assms(1)
proof (induction es)
  case (Cons e es)
  then have "entries_ok zk at es" and e: "entry_ok zk at e" by (simp_all add: entries_ok_def)
  with Cons.IH have "length (tlv_encode (entries_put t v es)) = length (tlv_encode es)" by simp
  then show ?case using assms(2) e by (simp add: entry_ok_def)
qed simp

locale stored_extension =
  fixes zk :: zk_sizes and S :: "'s base_state" and V :: "'v extension"
  assumes home: "get_account_type (ext_type V) = bs_account_type S"
    and typed: "ext_type V \<noteq> Ext_Uninitialized"
    and sized: "get_type_len zk (ext_type V) = pod_len V"
    and short: "pod_len V < 65536"
    and encode_len: "length (pod_encode V v) = pod_len V"
    and decode_encode: "pod_decode V (pod_encode V v) = v"
begin

abbreviation ty :: ExtensionType where "ty \<equiv> ext_type V"

abbreviation at :: AccountType22 where "at \<equiv> bs_account_type S"

lemma present_slices:
  fixes z :: nat
  assumes "entries_ok zk at (fs @ (ty, v) # gs)"
  defines "tlv \<equiv> tlv_image (fs @ (ty, v) # gs) z"
  shows "length v = pod_len V"
    and "pod_from_bytes Length_pod (subslice (length (tlv_encode fs) + 2) 2 tlv) = Inr (of_nat (pod_len V))"
    and "slice_at tlv (length (tlv_encode fs) + 4) (length (tlv_encode fs) + 4 + unat (of_nat (pod_len V) :: u16)) = Inr v"
    and "\<not> length (drop (length (tlv_encode fs)) tlv) < get_tlv_len zk ty"
    and "pod_from_bytes V v = Inr (pod_decode V v)"
proof -
  show v: "length v = pod_len V" using assms(1) sized by (simp add: entries_ok_def entry_ok_def)
  have n: "unat (of_nat (pod_len V) :: u16) = pod_len V" using short by (simp add: unat_of_nat)
  show "pod_from_bytes Length_pod (subslice (length (tlv_encode fs) + 2) 2 tlv) = Inr (of_nat (pod_len V))"
    by (simp add: tlv_def tlv_image_def tlv_entry_def layout_simps pod_from_bytes_def Length_pod_def v)
  show "slice_at tlv (length (tlv_encode fs) + 4) (length (tlv_encode fs) + 4 + unat (of_nat (pod_len V) :: u16)) = Inr v"
    by (simp add: tlv_def tlv_image_def tlv_entry_def layout_simps slice_at_def n v)
  show "\<not> length (drop (length (tlv_encode fs)) tlv) < get_tlv_len zk ty"
    by (simp add: tlv_def tlv_image_def get_tlv_len_def sized v)
  show "pod_from_bytes V v = Inr (pod_decode V v)" by (simp add: pod_from_bytes_def v)
qed

lemma read_view:
  assumes "entries_ok zk at es"
  shows "tlv_get_extension at (tlv_image es z) V =
         (case map_of es ty of Some v \<Rightarrow> Inr (pod_decode V v) | None \<Rightarrow> Inl InvalidAccountData)"
proof (cases "map_of es ty")
  case None
  then have "ty \<notin> fst ` set es" by (simp add: map_of_eq_None_iff)
  with assms None show ?thesis by (simp add: tlv_get_extension_def home indices_absent [OF assms home])
next
  case (Some v)
  then obtain fs gs where es: "es = fs @ (ty, v) # gs"
    using split_entries [OF Some] assms unfolding entries_ok_def by metis
  note p = present_slices [OF assms [unfolded es]]
  show ?thesis
    using Some unfolding es
    by (simp only: tlv_get_extension_def home indices_present [OF assms [unfolded es]] p attempt_Inr
        get_tlv_indices_sel option.case simp_thms if_False)
qed

lemma read_mut:
  assumes "entries_ok zk at es" and "sx_tlv st = tlv_image es z"
  shows "sx_get_extension zk S V st =
         (case map_of es ty of Some v \<Rightarrow> Inr (pod_decode V v) | None \<Rightarrow> Inl InvalidAccountData)"
proof (cases "map_of es ty")
  case None
  then have "ty \<notin> fst ` set es" by (simp add: map_of_eq_None_iff)
  with assms None show ?thesis by (simp add: sx_get_extension_def home indices_absent [OF assms(1) home])
next
  case (Some v)
  then obtain fs gs where es: "es = fs @ (ty, v) # gs"
    using split_entries [OF Some] assms(1) unfolding entries_ok_def by metis
  note p = present_slices [OF assms(1) [unfolded es]]
  show ?thesis
    using Some unfolding es
    by (simp only: sx_get_extension_def home assms(2) [unfolded es] indices_present [OF assms(1) [unfolded es]] p
        attempt_Inr get_tlv_indices_sel option.case simp_thms if_False)
qed

lemma store_present:
  assumes "entries_ok zk at (fs @ (ty, v) # gs)" and "sx_tlv st = tlv_image (fs @ (ty, v) # gs) z"
  shows "sx_store V (length (tlv_encode fs) + 4) w st =
         st\<lparr>sx_tlv := tlv_image (entries_put ty (pod_encode V w) (fs @ (ty, v) # gs)) z\<rparr>"
proof -
  have v: "length v = pod_len V" by (rule present_slices(1) [OF assms(1)])
  let ?head = "ExtensionType_bytes ty @ to_le_bytes (of_nat (pod_len V) :: u16)"
  have "ty \<notin> fst ` set fs" "ty \<notin> fst ` set gs" using assms(1) by (auto simp: entries_ok_def)
  then have put: "entries_put ty (pod_encode V w) (fs @ (ty, v) # gs) = fs @ (ty, pod_encode V w) # gs"
    by (simp add: entries_put_id)
  have "write_at22 (length (tlv_encode fs @ ?head)) (pod_encode V w)
      ((tlv_encode fs @ ?head) @ v @ (tlv_encode gs @ replicate z 0)) =
      (tlv_encode fs @ ?head) @ pod_encode V w @ (tlv_encode gs @ replicate z 0)"
    by (rule write_at_inside) (simp add: v encode_len)
  then show ?thesis
    unfolding put by (simp add: sx_store_def assms(2) tlv_image_def tlv_entry_def v encode_len)
qed

lemma get_mut:
  assumes "entries_ok zk at es" and "sx_tlv st = tlv_image es z"
  shows "get_extension_mut zk S V st = Inr (off, v, st') \<longleftrightarrow>
         st' = st \<and> (\<exists>fs bs gs. es = fs @ (ty, bs) # gs \<and> v = pod_decode V bs \<and> off = length (tlv_encode fs) + 4)"
    (is "_ \<longleftrightarrow> ?found")
proof (cases "map_of es ty")
  case None
  then have no: "ty \<notin> fst ` set es" by (simp add: map_of_eq_None_iff)
  then have "\<not> ?found" by force
  with no show ?thesis
    by (simp add: get_extension_mut_def init_or_get_extension_def home assms(2) indices_absent [OF assms(1) home])
next
  case (Some w)
  then obtain fs gs where es: "es = fs @ (ty, w) # gs"
    using split_entries [OF Some] assms(1) unfolding entries_ok_def by metis
  note p = present_slices [OF assms(1) [unfolded es]]
  have eq: "get_extension_mut zk S V st = Inr (length (tlv_encode fs) + 4, pod_decode V w, st)"
    by (simp only: get_extension_mut_def init_or_get_extension_def home assms(2) [unfolded es]
        indices_present [OF assms(1) [unfolded es]] p attempt_Inr get_tlv_indices_sel simp_thms if_False)
  have "fs' = fs \<and> bs = w" if "es = fs' @ (ty, bs) # gs'" for fs' bs gs'
  proof -
    have d: "distinct (map fst es)" using assms(1) by (simp add: entries_ok_def)
    have "(ty, bs) \<in> set es" using that by simp
    with d Some have bs: "bs = w" by (metis map_of_is_SomeI option.inject)
    from d have "(ty, w) \<notin> set fs" "(ty, w) \<notin> set gs" unfolding es by force+
    with that have "fs = fs'" unfolding es bs by (simp add: append_Cons_eq_iff)
    with bs show ?thesis by simp
  qed
  then show ?thesis unfolding eq using es by auto
qed

lemma init_present:
  assumes "entries_ok zk at (fs @ (ty, v) # gs)" and "sx_tlv st = tlv_image (fs @ (ty, v) # gs) z"
  shows "init_extension zk S V st = Inr (length (tlv_encode fs) + 4, ext_default V,
         st\<lparr>sx_tlv := tlv_image (entries_put ty (pod_encode V (ext_default V)) (fs @ (ty, v) # gs)) z\<rparr>)"
proof -
  note p = present_slices [OF assms(1)]
  let ?len = "to_le_bytes (of_nat (pod_len V) :: u16)"
  let ?tail = "v @ tlv_encode gs @ replicate z 0"
  have tlv: "sx_tlv st = tlv_encode fs @ ExtensionType_bytes ty @ ?len @ ?tail"
    by (simp add: assms(2) tlv_image_def tlv_entry_def p(1))
  have w1: "write_at22 (length (tlv_encode fs)) (ExtensionType_bytes ty) (sx_tlv st) = sx_tlv st"
    unfolding tlv by (rule write_at_inside) simp
  have "write_at22 (length (tlv_encode fs @ ExtensionType_bytes ty)) ?len
      ((tlv_encode fs @ ExtensionType_bytes ty) @ ?len @ ?tail) = (tlv_encode fs @ ExtensionType_bytes ty) @ ?len @ ?tail"
    by (rule write_at_inside) simp
  then have w2: "write_at22 (length (tlv_encode fs) + 2) ?len (sx_tlv st) = sx_tlv st" unfolding tlv by simp
  have n: "unat (of_nat (pod_len V) :: u16) = pod_len V" using short by (simp add: unat_of_nat)
  have len: "Length_try_from (pod_len V) = Inr (of_nat (pod_len V))" using short by (simp add: Length_try_from_def)
  have st: "st\<lparr>sx_tlv := sx_tlv st\<rparr> = st" by simp
  show ?thesis
    by (simp only: init_extension_def init_or_get_extension_def home indices_present [OF assms(1), of z, folded assms(2)]
        p(3) [of z, folded assms(2), unfolded n] p(4) [of z, folded assms(2)] p(5) Let_def w1 w2 len sum.case attempt_Inr
        get_tlv_indices_sel simp_thms if_True if_False st store_present [OF assms])
qed

lemma init_absent:
  assumes "entries_ok zk at es" and "sx_tlv st = tlv_image es z" and "ty \<notin> fst ` set es"
  shows "init_extension zk S V st =
         (if pod_len V + 4 \<le> z
          then Inr (length (tlv_encode es) + 4, ext_default V,
                    st\<lparr>sx_tlv := tlv_image (es @ [(ty, pod_encode V (ext_default V))]) (z - (pod_len V + 4))\<rparr>)
          else Inl InvalidAccountData)"
proof (cases "pod_len V + 4 \<le> z")
  case True
  let ?len = "to_le_bytes (of_nat (pod_len V) :: u16)"
  let ?zeros = "replicate (z - (pod_len V + 4)) (0 :: u8)"
  have "replicate z (0 :: u8) = replicate 2 0 @ replicate 2 0 @ replicate (pod_len V) 0 @ ?zeros"
    unfolding replicate_add [symmetric] by (rule arg_cong2 [of _ _ _ _ replicate]) (use True in auto)
  then have tlv: "sx_tlv st = tlv_encode es @ replicate 2 0 @ replicate 2 0 @ replicate (pod_len V) 0 @ ?zeros"
    by (simp add: assms(2) tlv_image_def)
  let ?t1 = "tlv_encode es @ ExtensionType_bytes ty @ replicate 2 0 @ replicate (pod_len V) 0 @ ?zeros"
  let ?t2 = "(tlv_encode es @ ExtensionType_bytes ty @ ?len) @ replicate (pod_len V) 0 @ ?zeros"
  have w1: "write_at22 (length (tlv_encode es)) (ExtensionType_bytes ty) (sx_tlv st) = ?t1"
    unfolding tlv by (rule write_at_inside) simp
  have "write_at22 (length (tlv_encode es @ ExtensionType_bytes ty)) ?len
      ((tlv_encode es @ ExtensionType_bytes ty) @ replicate 2 0 @ (replicate (pod_len V) 0 @ ?zeros)) =
      (tlv_encode es @ ExtensionType_bytes ty) @ ?len @ (replicate (pod_len V) 0 @ ?zeros)"
    by (rule write_at_inside) simp
  then have w2: "write_at22 (length (tlv_encode es) + 2) ?len ?t1 = ?t2" by simp
  have "write_at22 (length (tlv_encode es @ ExtensionType_bytes ty @ ?len)) (pod_encode V (ext_default V)) ?t2 =
      (tlv_encode es @ ExtensionType_bytes ty @ ?len) @ pod_encode V (ext_default V) @ ?zeros"
    by (rule write_at_inside) (simp add: encode_len)
  then have w3: "sx_store V (length (tlv_encode es) + 4) (ext_default V) (st\<lparr>sx_tlv := ?t2\<rparr>) =
      st\<lparr>sx_tlv := tlv_image (es @ [(ty, pod_encode V (ext_default V))]) (z - (pod_len V + 4))\<rparr>"
    by (simp add: sx_store_def tlv_image_def tlv_entry_def encode_len)
  have len: "Length_try_from (pod_len V) = Inr (of_nat (pod_len V))" using short by (simp add: Length_try_from_def)
  have ix: "get_extension_indices (sx_tlv st) ty True = Inr (get_tlv_indices (length (tlv_encode es)))"
    using True assms(3) by (simp add: assms(2) indices_absent [OF assms(1) home])
  have room: "\<not> length (drop (length (tlv_encode es)) (sx_tlv st)) < get_tlv_len zk ty"
    unfolding tlv using True by (simp add: get_tlv_len_def sized)
  have sl: "slice_at ?t2 (length (tlv_encode es) + 4) (length (tlv_encode es) + 4 + pod_len V) = Inr (replicate (pod_len V) 0)"
    by (simp add: slice_at_def layout_simps)
  show ?thesis
    using True
    by (simp only: init_extension_def init_or_get_extension_def home ix attempt_Inr get_tlv_indices_sel room
        simp_thms if_True if_False Let_def len sum.case w1 w2 sl pod_from_bytes_def length_replicate w3)
next
  case False
  show ?thesis
  proof (cases "4 \<le> z")
    case True
    have ix: "get_extension_indices (sx_tlv st) ty True = Inr (get_tlv_indices (length (tlv_encode es)))"
      using True assms(3) by (simp add: assms(2) indices_absent [OF assms(1) home])
    have "length (drop (length (tlv_encode es)) (sx_tlv st)) < get_tlv_len zk ty"
      using False by (simp add: assms(2) tlv_image_def get_tlv_len_def sized)
    then show ?thesis using False by (simp add: init_extension_def init_or_get_extension_def home ix)
  qed (use assms False in \<open>simp add: init_extension_def init_or_get_extension_def home indices_absent [OF assms(1) home]\<close>)
qed

end

end
