(* ===== verification/Token22_States.thy ===== *)
theory Token22_States
  imports Token22_Program Token22_Entries
begin

text \<open>
  Buffers as the program leaves them.  Unpacking a state with extensions splits the buffer into
  its parts and nothing else, so what is written to one part is read back from it and leaves the
  other parts alone.  No buffer reads both as an account and as a mint.
\<close>

section \<open>The extensions keep what they are given\<close>

lemma TransferFee_decode_encode [simp]: "TransferFee_decode (TransferFee_encode f) = f"
  by (cases f) (simp add: TransferFee_decode_def TransferFee_encode_def layout_simps)

lemma length_TransferFee_encode [simp]: "length (TransferFee_encode f) = 18"
  by (simp add: TransferFee_encode_def)

lemmas extension_defs =
  TransferFeeConfig_ext_def TransferFeeAmount_ext_def MintCloseAuthority_ext_def ImmutableOwner_ext_def
  NonTransferable_ext_def DefaultAccountState_ext_def MemoTransfer_ext_def InterestBearingConfig_ext_def

interpretation fee_config: stored_extension zk Mint_base TransferFeeConfig_ext for zk
  by unfold_locales (simp_all add: get_account_type_def Mint_base_def get_type_len_def extension_defs layout_simps)

interpretation fee_amount: stored_extension zk Account_base TransferFeeAmount_ext for zk
  by unfold_locales (simp_all add: get_account_type_def Account_base_def get_type_len_def extension_defs)

interpretation mint_close: stored_extension zk Mint_base MintCloseAuthority_ext for zk
  by unfold_locales (simp_all add: get_account_type_def Mint_base_def get_type_len_def extension_defs)

interpretation immutable_owner: stored_extension zk Account_base ImmutableOwner_ext for zk
  by unfold_locales (simp_all add: get_account_type_def Account_base_def get_type_len_def extension_defs)

interpretation non_transferable: stored_extension zk Mint_base NonTransferable_ext for zk
  by unfold_locales (simp_all add: get_account_type_def Mint_base_def get_type_len_def extension_defs)

interpretation default_state: stored_extension zk Mint_base DefaultAccountState_ext for zk
  by unfold_locales (simp_all add: get_account_type_def Mint_base_def get_type_len_def extension_defs)

interpretation memo_transfer: stored_extension zk Account_base MemoTransfer_ext for zk
  by unfold_locales (simp_all add: get_account_type_def Account_base_def get_type_len_def extension_defs)

interpretation interest: stored_extension zk Mint_base InterestBearingConfig_ext for zk
  by unfold_locales (simp_all add: get_account_type_def Mint_base_def get_type_len_def extension_defs layout_simps)

section \<open>Splitting and rebuilding a buffer\<close>

definition sx_layout :: "'s base_state \<Rightarrow> 's state_ext \<Rightarrow> bool" where
  "sx_layout S st \<longleftrightarrow> length (sx_base_data st) = bs_len S \<and> length (sx_bytes st) \<noteq> MULTISIG_LEN \<and>
     (sx_padding st = [] \<and> sx_account_type st = [] \<and> sx_tlv st = [] \<or>
      sx_padding st = replicate (ACCOUNT_LEN - bs_len S) 0 \<and> length (sx_account_type st) = 1 \<and> sx_tlv st \<noteq> [])"

lemma AccountType_try_from_Some: "AccountType_try_from b = Some t \<longleftrightarrow> b = AccountType22_byte t"
  by (cases t) (auto simp: AccountType_try_from_def AccountType22_byte_def)

lemma split_rest:
  assumes "length data \<noteq> MULTISIG_LEN" and "L \<le> length data" and "type_and_tlv_indices S (drop L data) = Inr idx"
    and "bs_len S = L"
  shows "idx = None \<and> length data = L \<or>
    (\<exists>t tlv. idx = Some (ACCOUNT_LEN - L, ACCOUNT_LEN - L + 1) \<and> tlv \<noteq> [] \<and>
       drop L data = replicate (ACCOUNT_LEN - L) 0 @ [t] @ tlv)"
proof (cases "drop L data = []")
  case True
  then show ?thesis using assms by (auto simp: type_and_tlv_indices_def)
next
  case False
  let ?n = "ACCOUNT_LEN - L" and ?rest = "drop L data"
  from False assms(3,4) have idx: "idx = Some (?n, ?n + 1)" and len: "?n + 1 < length ?rest"
    and z: "take ?n ?rest = replicate ?n 0"
    by (auto simp: type_and_tlv_indices_def Let_def split: if_splits)
  have "?rest = take ?n ?rest @ drop ?n ?rest" by (rule append_take_drop_id [symmetric])
  also have "drop ?n ?rest = ?rest ! ?n # drop (Suc ?n) ?rest"
    by (rule Cons_nth_drop_Suc [symmetric]) (use len in simp)
  finally have "?rest = replicate ?n 0 @ [?rest ! ?n] @ drop (Suc ?n) ?rest" by (simp only: z append.simps)
  moreover have "drop (Suc ?n) ?rest \<noteq> []" using len by simp
  ultimately show ?thesis using idx by blast
qed

locale extensible_state =
  fixes S :: "'s base_state"
  assumes len_bound: "bs_len S \<le> ACCOUNT_LEN"
    and into_from: "length dst = bs_len S \<Longrightarrow> bs_into_slice S v dst = Inr bs \<Longrightarrow>
          length bs = bs_len S \<and> bs_from_slice S bs = Inr v"
    and into_total: "length dst = bs_len S \<Longrightarrow> \<exists>bs. bs_into_slice S v dst = Inr bs"
begin

abbreviation L :: nat where "L \<equiv> bs_len S"

lemma indices_layout:
  assumes "sx_layout S st"
  shows "type_and_tlv_indices S (drop L (sx_bytes st)) =
    Inr (if sx_account_type st = [] then None else Some (ACCOUNT_LEN - L, ACCOUNT_LEN - L + 1))"
  using assms by (auto simp: sx_layout_def sx_bytes_def type_and_tlv_indices_def Let_def)

lemma parts:
  assumes "sx_layout S st"
  shows "take L (sx_bytes st) = sx_base_data st"
    and "check_min_len_and_not_multisig (sx_bytes st) L = Inr ()"
    and "sx_account_type st \<noteq> [] \<Longrightarrow> drop L (sx_bytes st) ! (ACCOUNT_LEN - L) = hd (sx_account_type st)"
    and "sx_account_type st \<noteq> [] \<Longrightarrow> take (ACCOUNT_LEN - L) (drop L (sx_bytes st)) = sx_padding st"
    and "sx_account_type st \<noteq> [] \<Longrightarrow> subslice (ACCOUNT_LEN - L) 1 (drop L (sx_bytes st)) = sx_account_type st"
    and "sx_account_type st \<noteq> [] \<Longrightarrow> drop (ACCOUNT_LEN - L + 1) (drop L (sx_bytes st)) = sx_tlv st"
proof -
  have l: "length (sx_base_data st) = L" "length (sx_bytes st) \<noteq> MULTISIG_LEN" using assms by (auto simp: sx_layout_def)
  show "take L (sx_bytes st) = sx_base_data st" using l by (simp add: sx_bytes_def)
  show "check_min_len_and_not_multisig (sx_bytes st) L = Inr ()"
    using l by (simp add: check_min_len_and_not_multisig_def) (simp add: sx_bytes_def)
  have d: "drop L (sx_bytes st) = sx_padding st @ sx_account_type st @ sx_tlv st" using l(1) by (simp add: sx_bytes_def)
  assume "sx_account_type st \<noteq> []"
  then have p: "length (sx_padding st) = ACCOUNT_LEN - L" "length (sx_account_type st) = 1"
    using assms by (auto simp: sx_layout_def)
  then obtain b where b: "sx_account_type st = [b]" by (auto simp: length_Suc_conv)
  show "drop L (sx_bytes st) ! (ACCOUNT_LEN - L) = hd (sx_account_type st)"
    unfolding d b using p(1) by (simp add: nth_append)
  show "take (ACCOUNT_LEN - L) (drop L (sx_bytes st)) = sx_padding st" unfolding d using p(1) by simp
  show "subslice (ACCOUNT_LEN - L) 1 (drop L (sx_bytes st)) = sx_account_type st"
    unfolding d b using p(1) by (simp add: subslice_def)
  show "drop (ACCOUNT_LEN - L + 1) (drop L (sx_bytes st)) = sx_tlv st" unfolding d b using p(1) by simp
qed

lemma cut:
  assumes "check_min_len_and_not_multisig data L = Inr ()" and "type_and_tlv_indices S (drop L data) = Inr idx"
  shows "(idx = None \<and> length data = L) \<or>
    (idx = Some (ACCOUNT_LEN - L, ACCOUNT_LEN - L + 1) \<and>
     sx_layout S \<lparr>sx_base = v, sx_base_data = take L data, sx_padding = take (ACCOUNT_LEN - L) (drop L data),
       sx_account_type = subslice (ACCOUNT_LEN - L) 1 (drop L data),
       sx_tlv = drop (ACCOUNT_LEN - L + 1) (drop L data)\<rparr> \<and>
     data = take L data @ take (ACCOUNT_LEN - L) (drop L data) @
       [drop L data ! (ACCOUNT_LEN - L)] @ drop (ACCOUNT_LEN - L + 1) (drop L data) \<and>
     subslice (ACCOUNT_LEN - L) 1 (drop L data) = [drop L data ! (ACCOUNT_LEN - L)])"
proof -
  have l: "length data \<noteq> MULTISIG_LEN" "L \<le> length data"
    using assms(1) by (auto simp: check_min_len_and_not_multisig_def split: if_splits)
  show ?thesis
  proof (cases idx)
    case None
    then show ?thesis using split_rest [OF l assms(2) refl] by auto
  next
    case (Some p)
    then obtain t tlv where p: "p = (ACCOUNT_LEN - L, ACCOUNT_LEN - L + 1)" "tlv \<noteq> []"
      and r: "drop L data = replicate (ACCOUNT_LEN - L) 0 @ [t] @ tlv"
      using split_rest [OF l assms(2) refl] by auto
    have data: "data = take L data @ replicate (ACCOUNT_LEN - L) 0 @ [t] @ tlv"
      using append_take_drop_id [of L data] unfolding r by simp
    have "length (take L data) = L" using l(2) by simp
    moreover have "length data \<noteq> MULTISIG_LEN" by (rule l(1))
    ultimately show ?thesis
      unfolding r using Some p data by (simp add: sx_layout_def sx_bytes_def subslice_def nth_append)
  qed
qed

theorem unpack_Inr:
  "StateWithExtensionsMut_unpack S data = Inr st \<longleftrightarrow>
     sx_layout S st \<and> sx_bytes st = data \<and> bs_from_slice S (sx_base_data st) = Inr (sx_base st) \<and>
     bs_is_initialized S (sx_base st) \<and>
     (sx_account_type st = [] \<or> sx_account_type st = [AccountType22_byte (bs_account_type S)])"
    (is "?l \<longleftrightarrow> ?r")
proof
  assume ?l
  then obtain u base idx where c: "check_min_len_and_not_multisig data L = Inr u"
    and p: "Pack_unpack L (bs_from_slice S) (bs_is_initialized S) (take L data) = Inr base"
    and t: "type_and_tlv_indices S (drop L data) = Inr idx"
    and r: "(case idx of
       Some (account_type_index, tlv_start_index) \<Rightarrow>
         attempt (ok_or (AccountType_try_from (drop L data ! account_type_index)) InvalidAccountData) (\<lambda>t.
         attempt (check_account_type S t) (\<lambda>_.
         Inr \<lparr>sx_base = base, sx_base_data = take L data,
              sx_padding = take account_type_index (drop L data),
              sx_account_type = subslice account_type_index (tlv_start_index - account_type_index) (drop L data),
              sx_tlv = drop tlv_start_index (drop L data)\<rparr>))
     | None \<Rightarrow> Inr \<lparr>sx_base = base, sx_base_data = take L data, sx_padding = [], sx_account_type = [], sx_tlv = []\<rparr>) = Inr st"
    unfolding StateWithExtensionsMut_unpack_def Let_def by (elim attempt_eq_InrE) (rule that)
  have b: "length (take L data) = L" "bs_from_slice S (take L data) = Inr base" "bs_is_initialized S base"
    using p by (auto simp: Pack_unpack_def Pack_unpack_unchecked_def attempt_eq_Inr split: if_splits)
  from cut [OF c [unfolded unit_eq [of u]] t, of base] show ?r
  proof (elim disjE conjE)
    assume "idx = None" and l: "length data = L"
    then show ?r using r b c
      by (auto simp: sx_layout_def sx_bytes_def check_min_len_and_not_multisig_def split: if_splits)
  next
    assume i: "idx = Some (ACCOUNT_LEN - L, ACCOUNT_LEN - L + 1)"
      and lay: "sx_layout S \<lparr>sx_base = base, sx_base_data = take L data,
        sx_padding = take (ACCOUNT_LEN - L) (drop L data), sx_account_type = subslice (ACCOUNT_LEN - L) 1 (drop L data),
        sx_tlv = drop (ACCOUNT_LEN - L + 1) (drop L data)\<rparr>"
      and d: "data = take L data @ take (ACCOUNT_LEN - L) (drop L data) @
        [drop L data ! (ACCOUNT_LEN - L)] @ drop (ACCOUNT_LEN - L + 1) (drop L data)"
      and one: "subslice (ACCOUNT_LEN - L) 1 (drop L data) = [drop L data ! (ACCOUNT_LEN - L)]"
    from r i have st: "st = \<lparr>sx_base = base, sx_base_data = take L data,
        sx_padding = take (ACCOUNT_LEN - L) (drop L data), sx_account_type = subslice (ACCOUNT_LEN - L) 1 (drop L data),
        sx_tlv = drop (ACCOUNT_LEN - L + 1) (drop L data)\<rparr>"
      and ty: "drop L data ! (ACCOUNT_LEN - L) = AccountType22_byte (bs_account_type S)"
      by (auto simp: attempt_eq_Inr ok_or_eq_Inr check_account_type_def AccountType_try_from_Some if_Inl_eq_Inr)
    have "sx_bytes st = data" using d unfolding st sx_bytes_def one by simp
    then show ?r using lay b ty one unfolding st by simp
  qed
next
  assume r: ?r
  then have lay: "sx_layout S st" and d: "data = sx_bytes st" by auto
  note p = parts [OF lay]
  have len: "length (sx_base_data st) = L" using lay by (simp add: sx_layout_def)
  show ?l
  proof (cases "sx_account_type st = []")
    case True
    then have "sx_padding st = []" "sx_tlv st = []" using lay by (auto simp: sx_layout_def)
    then have "st = \<lparr>sx_base = sx_base st, sx_base_data = sx_base_data st, sx_padding = [], sx_account_type = [], sx_tlv = []\<rparr>"
      using True by simp
    then show ?thesis using r True len
      by (simp add: StateWithExtensionsMut_unpack_def d p(1,2) Pack_unpack_def Pack_unpack_unchecked_def indices_layout [OF lay])
  next
    case False
    then have "sx_account_type st = [AccountType22_byte (bs_account_type S)]" using r by simp
    then have ty: "AccountType_try_from (hd (sx_account_type st)) = Some (bs_account_type S)"
      by (simp add: AccountType_try_from_Some)
    have pu: "Pack_unpack L (bs_from_slice S) (bs_is_initialized S) (sx_base_data st) = Inr (sx_base st)"
      using r len by (simp add: Pack_unpack_def Pack_unpack_unchecked_def)
    have ca: "check_account_type S (bs_account_type S) = Inr ()" by (simp add: check_account_type_def)
    have st: "\<lparr>sx_base = sx_base st, sx_base_data = sx_base_data st, sx_padding = sx_padding st,
        sx_account_type = sx_account_type st, sx_tlv = sx_tlv st\<rparr> = st" by simp
    show ?thesis
      by (simp only: StateWithExtensionsMut_unpack_def d p(1,2) p(3-6) [OF False] Let_def attempt_Inr pu
          indices_layout [OF lay] False if_False option.case prod.case diff_add_inverse ty ok_or_Some ca st)
  qed
qed

lemma view_unpack:
  "StateWithExtensions_unpack S data =
   attempt (StateWithExtensionsMut_unpack S data) (\<lambda>st. Inr \<lparr>sv_base = sx_base st, sv_tlv = sx_tlv st\<rparr>)"
  unfolding StateWithExtensions_unpack_def StateWithExtensionsMut_unpack_def
  by (simp add: attempt_def Let_def split: sum.split option.split)

lemma view_Inr:
  "StateWithExtensionsMut_unpack S data = Inr st \<Longrightarrow>
   StateWithExtensions_unpack S data = Inr \<lparr>sv_base = sx_base st, sv_tlv = sx_tlv st\<rparr>"
  by (simp add: view_unpack)

lemma view_Inl:
  assumes "\<And>st. StateWithExtensionsMut_unpack S data \<noteq> Inr st"
  obtains e where "StateWithExtensions_unpack S data = Inl e"
  using assms by (cases "StateWithExtensionsMut_unpack S data") (auto simp: view_unpack)

lemma unpack_parts:
  assumes "StateWithExtensionsMut_unpack S data = Inr st"
  shows "length data \<noteq> MULTISIG_LEN" and "sx_base_data st = take L data"
  using assms parts(1) [of st] by (auto simp: unpack_Inr sx_layout_def)

lemma uninitialized_Inr:
  assumes "StateWithExtensionsMut_unpack_uninitialized S data = Inr st"
  shows "sx_layout S st" and "sx_bytes st = data" and "bs_from_slice S (sx_base_data st) = Inr (sx_base st)"
    and "\<not> bs_is_initialized S (sx_base st)" and "sx_account_type st = [] \<or> sx_account_type st = [0]"
proof -
  from assms obtain u base idx where c: "check_min_len_and_not_multisig data L = Inr u"
    and p: "Pack_unpack_unchecked L (bs_from_slice S) (take L data) = Inr base"
    and i: "\<not> bs_is_initialized S base"
    and t: "type_and_tlv_indices S (drop L data) = Inr idx"
    and r: "(case idx of
       Some (account_type_index, tlv_start_index) \<Rightarrow>
         attempt (ok_or (AccountType_try_from (drop L data ! account_type_index)) InvalidAccountData) (\<lambda>t.
         if t \<noteq> AccountType_Uninitialized then Inl InvalidAccountData
         else
           let st = \<lparr>sx_base = base, sx_base_data = take L data,
                     sx_padding = take account_type_index (drop L data),
                     sx_account_type = subslice account_type_index (tlv_start_index - account_type_index) (drop L data),
                     sx_tlv = drop tlv_start_index (drop L data)\<rparr> in
           attempt (get_first_extension_type (sx_tlv st)) (\<lambda>first.
           case first of
             Some et \<Rightarrow> if get_account_type et \<noteq> bs_account_type S
                        then Inl (token22_err ExtensionBaseMismatch) else Inr st
           | None \<Rightarrow> Inr st))
     | None \<Rightarrow> Inr \<lparr>sx_base = base, sx_base_data = take L data, sx_padding = [], sx_account_type = [], sx_tlv = []\<rparr>) = Inr st"
    unfolding StateWithExtensionsMut_unpack_uninitialized_def Let_def
    by (elim attempt_eq_InrE guardE) (rule that, assumption, assumption, assumption, assumption, unfold Let_def, assumption)
  have b: "length (take L data) = L" "bs_from_slice S (take L data) = Inr base" "\<not> bs_is_initialized S base"
    using p i by (auto simp: Pack_unpack_unchecked_def split: if_splits)
  have n: "st = \<lparr>sx_base = base, sx_base_data = take L data, sx_padding = [], sx_account_type = [], sx_tlv = []\<rparr>"
    if "idx = None" using r that by simp
  have s: "drop L data ! i = 0 \<and>
         st = \<lparr>sx_base = base, sx_base_data = take L data, sx_padding = take i (drop L data),
              sx_account_type = subslice i (j - i) (drop L data), sx_tlv = drop j (drop L data)\<rparr>"
    if "idx = Some (i, j)" for i j
    using r that
    by (auto simp: Let_def attempt_eq_Inr ok_or_eq_Inr AccountType_try_from_Some AccountType22_byte_def
        split: option.splits if_splits)
  have "sx_layout S st \<and> sx_bytes st = data \<and> bs_from_slice S (sx_base_data st) = Inr (sx_base st) \<and>
    \<not> bs_is_initialized S (sx_base st) \<and> (sx_account_type st = [] \<or> sx_account_type st = [0])"
    using cut [OF c [unfolded unit_eq [of u]] t, of base]
  proof (elim disjE conjE)
    assume "idx = None" and l: "length data = L"
    then show ?thesis using n b c
      by (auto simp: sx_layout_def sx_bytes_def check_min_len_and_not_multisig_def split: if_splits)
  next
    assume i: "idx = Some (ACCOUNT_LEN - L, ACCOUNT_LEN - L + 1)"
      and lay: "sx_layout S \<lparr>sx_base = base, sx_base_data = take L data,
        sx_padding = take (ACCOUNT_LEN - L) (drop L data), sx_account_type = subslice (ACCOUNT_LEN - L) 1 (drop L data),
        sx_tlv = drop (ACCOUNT_LEN - L + 1) (drop L data)\<rparr>"
      and d: "data = take L data @ take (ACCOUNT_LEN - L) (drop L data) @
        [drop L data ! (ACCOUNT_LEN - L)] @ drop (ACCOUNT_LEN - L + 1) (drop L data)"
      and one: "subslice (ACCOUNT_LEN - L) 1 (drop L data) = [drop L data ! (ACCOUNT_LEN - L)]"
    from s [OF i] have st: "st = \<lparr>sx_base = base, sx_base_data = take L data,
        sx_padding = take (ACCOUNT_LEN - L) (drop L data), sx_account_type = subslice (ACCOUNT_LEN - L) 1 (drop L data),
        sx_tlv = drop (ACCOUNT_LEN - L + 1) (drop L data)\<rparr>"
      and z: "drop L data ! (ACCOUNT_LEN - L) = 0" by simp_all
    have "sx_bytes st = data" using d unfolding st sx_bytes_def one by simp
    then show ?thesis using lay b z one unfolding st by simp
  qed
  then show "sx_layout S st" "sx_bytes st = data" "bs_from_slice S (sx_base_data st) = Inr (sx_base st)"
    "\<not> bs_is_initialized S (sx_base st)" "sx_account_type st = [] \<or> sx_account_type st = [0]"
    by auto
qed

text \<open>Writing the base, the entries, or both, and reading the result.\<close>

lemma repacked:
  assumes "sx_layout S st" and "pack_base S st = Inr st'"
  shows "sx_layout S st'" and "sx_base st' = sx_base st" and "sx_tlv st' = sx_tlv st"
    and "sx_account_type st' = sx_account_type st" and "bs_from_slice S (sx_base_data st') = Inr (sx_base st')"
    and "length (sx_bytes st') = length (sx_bytes st)"
proof -
  from assms(2) obtain bs where bs: "bs_into_slice S (sx_base st) (sx_base_data st) = Inr bs"
    and st': "st' = st\<lparr>sx_base_data := bs\<rparr>" by (auto simp: pack_base_def attempt_eq_Inr)
  have "length bs = L" "bs_from_slice S bs = Inr (sx_base st)"
    using into_from [OF _ bs] assms(1) by (simp_all add: sx_layout_def)
  then show "sx_layout S st'" "sx_base st' = sx_base st" "sx_tlv st' = sx_tlv st"
    "sx_account_type st' = sx_account_type st" "bs_from_slice S (sx_base_data st') = Inr (sx_base st')"
    "length (sx_bytes st') = length (sx_bytes st)"
    using assms(1) by (auto simp: st' sx_layout_def sx_bytes_def)
qed

lemma pack_base_total: "sx_layout S st \<Longrightarrow> \<exists>st'. pack_base S st = Inr st'"
  using into_total [of "sx_base_data st" "sx_base st"] by (auto simp: pack_base_def sx_layout_def)

lemma layout_tlv:
  "sx_layout S st \<Longrightarrow> length t = length (sx_tlv st) \<Longrightarrow> sx_layout S (st\<lparr>sx_tlv := t\<rparr>)"
  by (auto simp: sx_layout_def sx_bytes_def)

lemma layout_base [simp]: "sx_layout S (st\<lparr>sx_base := b\<rparr>) = sx_layout S st"
  by (simp add: sx_layout_def sx_bytes_def)

lemma unpack_after_tlv:
  assumes "StateWithExtensionsMut_unpack S data = Inr st" and "length t = length (sx_tlv st)"
  shows "StateWithExtensionsMut_unpack S (sx_bytes (st\<lparr>sx_tlv := t\<rparr>)) = Inr (st\<lparr>sx_tlv := t\<rparr>)"
  using assms layout_tlv [of st t] by (simp add: unpack_Inr)

lemma unpack_after_pack:
  assumes "StateWithExtensionsMut_unpack S data = Inr st" and "length t = length (sx_tlv st)"
    and "pack_base S (st\<lparr>sx_base := b, sx_tlv := t\<rparr>) = Inr st'" and "bs_is_initialized S b"
  shows "StateWithExtensionsMut_unpack S (sx_bytes st') = Inr st'" and "sx_base st' = b" and "sx_tlv st' = t"
proof -
  have lay: "sx_layout S (st\<lparr>sx_base := b, sx_tlv := t\<rparr>)"
    using layout_tlv [of "st\<lparr>sx_base := b\<rparr>" t] assms(1,2) by (simp add: unpack_Inr)
  note r = repacked [OF lay assms(3)]
  show "sx_base st' = b" "sx_tlv st' = t" using r by simp_all
  then show "StateWithExtensionsMut_unpack S (sx_bytes st') = Inr st'"
    using r assms(1,4) by (simp add: unpack_Inr)
qed

lemma unpack_lengths:
  assumes "StateWithExtensionsMut_unpack S data = Inr st"
  shows "length data = L \<and> sx_tlv st = [] \<or>
    ACCOUNT_LEN + 1 < length data \<and> data ! ACCOUNT_LEN = AccountType22_byte (bs_account_type S) \<and>
    drop (ACCOUNT_LEN + 1) data = sx_tlv st"
  using assms len_bound unfolding unpack_Inr by (auto simp: sx_layout_def sx_bytes_def nth_append)

lemma uninitialized_parts:
  assumes "StateWithExtensionsMut_unpack_uninitialized S data = Inr st"
  shows "length data \<noteq> MULTISIG_LEN" and "sx_base_data st = take L data"
  using uninitialized_Inr [OF assms] parts(1) [of st] by (auto simp: sx_layout_def)

lemma uninitialized_first:
  assumes "StateWithExtensionsMut_unpack_uninitialized S data = Inr st" and "sx_tlv st \<noteq> []"
    and "get_first_extension_type (sx_tlv st) = Inr (Some et)"
  shows "get_account_type et = bs_account_type S"
proof -
  from assms(1) obtain u base idx where
    r: "(case idx of
       Some (account_type_index, tlv_start_index) \<Rightarrow>
         attempt (ok_or (AccountType_try_from (drop L data ! account_type_index)) InvalidAccountData) (\<lambda>t.
         if t \<noteq> AccountType_Uninitialized then Inl InvalidAccountData
         else
           let st = \<lparr>sx_base = base, sx_base_data = take L data,
                     sx_padding = take account_type_index (drop L data),
                     sx_account_type = subslice account_type_index (tlv_start_index - account_type_index) (drop L data),
                     sx_tlv = drop tlv_start_index (drop L data)\<rparr> in
           attempt (get_first_extension_type (sx_tlv st)) (\<lambda>first.
           case first of
             Some et \<Rightarrow> if get_account_type et \<noteq> bs_account_type S
                        then Inl (token22_err ExtensionBaseMismatch) else Inr st
           | None \<Rightarrow> Inr st))
     | None \<Rightarrow> Inr \<lparr>sx_base = base, sx_base_data = take L data, sx_padding = [], sx_account_type = [], sx_tlv = []\<rparr>) = Inr st"
    unfolding StateWithExtensionsMut_unpack_uninitialized_def Let_def
    by (elim attempt_eq_InrE guardE) (rule that, unfold Let_def, assumption)
  from assms(2) r obtain i j where "idx = Some (i, j)" by (cases idx) auto
  with r assms(3) show ?thesis
    by (auto simp: Let_def attempt_eq_Inr split: option.splits if_splits)
qed

text \<open>Changing the entries of an uninitialised buffer, and initialising it.\<close>

lemma uninitialized_tlv:
  assumes "StateWithExtensionsMut_unpack_uninitialized S data = Inr st" and "length t = length (sx_tlv st)"
  shows "take (ACCOUNT_LEN + 1) (sx_bytes (st\<lparr>sx_tlv := t\<rparr>)) = take (ACCOUNT_LEN + 1) data"
    and "sx_tlv st \<noteq> [] \<Longrightarrow> drop (ACCOUNT_LEN + 1) (sx_bytes (st\<lparr>sx_tlv := t\<rparr>)) = t"
    and "sx_tlv st = [] \<Longrightarrow> sx_bytes (st\<lparr>sx_tlv := t\<rparr>) = data"
  using uninitialized_Inr(1,2) [OF assms(1)] assms(2) len_bound by (auto simp: sx_layout_def sx_bytes_def)

lemma initialized:
  assumes "StateWithExtensionsMut_unpack_uninitialized S data = Inr st" and "length t = length (sx_tlv st)"
    and "pack_base S (st\<lparr>sx_base := b, sx_tlv := t\<rparr>) = Inr st2" and "init_account_type S st2 = Inr st3"
    and "bs_is_initialized S b"
  shows "StateWithExtensionsMut_unpack S (sx_bytes st3) = Inr st3" and "sx_base st3 = b" and "sx_tlv st3 = t"
proof -
  note u = uninitialized_Inr [OF assms(1)]
  have lay: "sx_layout S (st\<lparr>sx_base := b, sx_tlv := t\<rparr>)"
    using layout_tlv [of "st\<lparr>sx_base := b\<rparr>" t] u(1) assms(2) by simp
  note r = repacked [OF lay assms(3)]
  have "st3 = (if sx_account_type st2 = [] then st2
      else st2\<lparr>sx_account_type := (sx_account_type st2)[0 := AccountType22_byte (bs_account_type S)]\<rparr>)"
    using assms(4) by (auto simp: init_account_type_def Let_def attempt_eq_Inr split: option.splits if_splits)
  moreover have "sx_account_type st2 = [] \<or> sx_account_type st2 = [0]" using r(4) u(5) by simp
  ultimately have st3: "st3 = (if sx_account_type st2 = [] then st2
      else st2\<lparr>sx_account_type := [AccountType22_byte (bs_account_type S)]\<rparr>)" by auto
  then show "sx_base st3 = b" "sx_tlv st3 = t" using r(2,3) by simp_all
  have "sx_layout S st3" unfolding st3 using r(1) by (auto simp: sx_layout_def sx_bytes_def)
  then show "StateWithExtensionsMut_unpack S (sx_bytes st3) = Inr st3"
    unfolding unpack_Inr using r(2,5) assms(5) by (auto simp: st3)
qed

lemma uninitialized_lengths:
  assumes "StateWithExtensionsMut_unpack_uninitialized S data = Inr st"
  shows "length data = L \<and> sx_tlv st = [] \<or>
    ACCOUNT_LEN + 1 < length data \<and> data ! ACCOUNT_LEN = 0 \<and> drop (ACCOUNT_LEN + 1) data = sx_tlv st"
  using uninitialized_Inr [OF assms] len_bound by (auto simp: sx_layout_def sx_bytes_def nth_append)

end

interpretation account_state: extensible_state Account_base
proof unfold_locales
  fix dst bs :: bytes and v :: account
  assume d: "length dst = bs_len Account_base"
  show "\<exists>bs. bs_into_slice Account_base v dst = Inr bs" using d by (simp add: Account_base_def Account_pack_into_slice_def)
  assume "bs_into_slice Account_base v dst = Inr bs"
  with d show "length bs = bs_len Account_base \<and> bs_from_slice Account_base bs = Inr v"
    using Account_from_into [of dst v bs] by (simp add: Account_base_def)
qed (simp add: Account_base_def)

interpretation mint_state: extensible_state Mint_base
proof unfold_locales
  fix dst bs :: bytes and v :: mint
  assume d: "length dst = bs_len Mint_base"
  show "\<exists>bs. bs_into_slice Mint_base v dst = Inr bs" using d by (simp add: Mint_base_def Mint_pack_into_slice_def)
  assume "bs_into_slice Mint_base v dst = Inr bs"
  with d show "length bs = bs_len Mint_base \<and> bs_from_slice Mint_base bs = Inr v"
    using Mint_from_into [of dst v bs] by (simp add: Mint_base_def)
qed (simp add: Mint_base_def)

lemma base_sel [simp]:
  "bs_len Account_base = ACCOUNT_LEN" "bs_len Mint_base = MINT_LEN"
  "bs_account_type Account_base = AccountType_Account" "bs_account_type Mint_base = AccountType_Mint"
  "bs_is_initialized Account_base = account_is_initialized" "bs_is_initialized Mint_base = mint_is_initialized"
  "bs_from_slice Account_base = Account_unpack_from_slice" "bs_from_slice Mint_base = Mint_unpack_from_slice"
  by (simp_all add: Account_base_def Mint_base_def)

lemma AccountType_byte_simps [simp]:
  "AccountType22_byte AccountType_Account = 2" "AccountType22_byte AccountType_Mint = 1"
  by (simp_all add: AccountType22_byte_def)

text \<open>No buffer is both.\<close>

lemma account_not_mint: "unpack_account data = Inr st \<Longrightarrow> unpack_mint data \<noteq> Inr st'"
  using account_state.unpack_lengths [of data st] mint_state.unpack_lengths [of data st'] by auto

section \<open>Buffers the program can own\<close>

definition tlv_ok :: "zk_sizes \<Rightarrow> AccountType22 \<Rightarrow> bytes \<Rightarrow> bool" where
  "tlv_ok zk at tlv \<longleftrightarrow> (\<exists>es z. tlv = tlv_image es z \<and> entries_ok zk at es)"

text \<open>
  The default state of a mint's accounts is never ``uninitialised'', so that an account starts
  as one.  Before a mint or an account is initialised, no fees are withheld in it.
\<close>

definition starts_accounts :: "(ExtensionType \<times> bytes) list \<Rightarrow> bool" where
  "starts_accounts es \<longleftrightarrow>
     (\<forall>v. map_of es Ext_DefaultAccountState = Some v \<longrightarrow> pod_decode DefaultAccountState_ext v \<noteq> 0)"

definition mint_ok :: "zk_sizes \<Rightarrow> bytes \<Rightarrow> bool" where
  "mint_ok zk tlv \<longleftrightarrow> tlv_ok zk AccountType_Mint tlv \<and>
     (\<forall>s. tlv_get_extension AccountType_Mint tlv DefaultAccountState_ext = Inr s \<longrightarrow> s \<noteq> 0)"

definition fresh :: "(ExtensionType \<times> bytes) list \<Rightarrow> bool" where
  "fresh es \<longleftrightarrow> map_of es Ext_TransferFeeAmount = None \<and>
     (\<forall>v. map_of es Ext_TransferFeeConfig = Some v \<longrightarrow> tfc_withheld_amount (pod_decode TransferFeeConfig_ext v) = 0) \<and>
     starts_accounts es"

definition blank :: "zk_sizes \<Rightarrow> bytes \<Rightarrow> bool" where
  "blank zk data \<longleftrightarrow> (\<forall>b \<in> set (take (ACCOUNT_LEN + 1) data). b = 0) \<and>
     (\<exists>at es z. drop (ACCOUNT_LEN + 1) data = tlv_image es z \<and> entries_ok zk at es \<and> fresh es)"

definition buffer_ok :: "zk_sizes \<Rightarrow> bytes \<Rightarrow> bool" where
  "buffer_ok zk data \<longleftrightarrow> length data = MULTISIG_LEN \<or>
     (\<exists>st. unpack_account data = Inr st \<and> tlv_ok zk AccountType_Account (sx_tlv st)) \<or>
     (\<exists>st. unpack_mint data = Inr st \<and> mint_ok zk (sx_tlv st)) \<or>
     blank zk data"

lemma tlv_ok_Nil [simp]: "tlv_ok zk at []"
  unfolding tlv_ok_def by (intro exI [of _ "[]"] exI [of _ 0]) (simp add: tlv_image_def entries_ok_def)

lemma mint_ok_image:
  "entries_ok zk AccountType_Mint es \<Longrightarrow> mint_ok zk (tlv_image es z) \<longleftrightarrow> starts_accounts es"
  using default_state.read_view [of zk es z]
  by (auto simp: mint_ok_def starts_accounts_def tlv_ok_def DefaultAccountState_ext_def split: option.split)

lemma tlv_image_zeros: "tlv_image [] z = replicate z 0"
  by (simp add: tlv_image_def)

lemma zeros_blank: "\<forall>b \<in> set data. b = 0 \<Longrightarrow> blank zk data"
proof -
  assume z: "\<forall>b \<in> set data. b = 0"
  then have "drop (ACCOUNT_LEN + 1) data = tlv_image [] (length data - (ACCOUNT_LEN + 1))"
    unfolding tlv_image_zeros by (intro replicate_eqI) (auto dest: in_set_dropD)
  then show ?thesis
    using z unfolding blank_def
    by (intro conjI exI [of _ AccountType_Mint] exI [of _ "[]"] exI [of _ "length data - (ACCOUNT_LEN + 1)"])
      (auto simp: entries_ok_def fresh_def starts_accounts_def dest: in_set_takeD)
qed

section \<open>One entry changes, the others stay\<close>

context stored_extension
begin

lemma put_spec:
  assumes "tlv_ok zk at (sx_tlv st)" and "get_extension_mut zk S V st = Inr (off, v, st1)"
  obtains es z b where "sx_tlv st = tlv_image es z" and "entries_ok zk at es" and "st1 = st"
    and "map_of es ty = Some b" and "v = pod_decode V b"
    and "\<And>w. sx_store V off w st = st\<lparr>sx_tlv := tlv_image (entries_put ty (pod_encode V w) es) z\<rparr>"
proof -
  from assms(1) obtain es z where t: "sx_tlv st = tlv_image es z" and ok: "entries_ok zk at es"
    unfolding tlv_ok_def by blast
  from assms(2) obtain fs b gs where e: "st1 = st" "es = fs @ (ty, b) # gs" "v = pod_decode V b"
      "off = length (tlv_encode fs) + 4"
    unfolding get_mut [OF ok t] by blast
  have "map_of es ty = Some b" using ok unfolding e(2) by (intro map_of_is_SomeI) (auto simp: entries_ok_def)
  moreover have "sx_store V off w st = st\<lparr>sx_tlv := tlv_image (entries_put ty (pod_encode V w) es) z\<rparr>" for w
    using store_present [of fs b gs st z w] ok t unfolding e(2,4) by simp
  ultimately show thesis using that t ok e by blast
qed

lemma put_keeps:
  assumes "entries_ok zk at es"
  shows "length (tlv_image (entries_put ty (pod_encode V w) es) z) = length (tlv_image es z)"
    and "tlv_ok zk at (tlv_image (entries_put ty (pod_encode V w) es) z)"
    and "entries_ok zk at (entries_put ty (pod_encode V w) es)"
proof -
  have l: "length (pod_encode V w) = get_type_len zk ty" by (simp add: encode_len sized)
  show "length (tlv_image (entries_put ty (pod_encode V w) es) z) = length (tlv_image es z)"
    using length_entries_put [OF assms l] by (simp add: tlv_image_def)
  show ok: "entries_ok zk at (entries_put ty (pod_encode V w) es)" by (rule entries_ok_put [OF assms l])
  then show "tlv_ok zk at (tlv_image (entries_put ty (pod_encode V w) es) z)" unfolding tlv_ok_def by blast
qed

lemma init_spec:
  assumes "sx_tlv st = tlv_image es z" and "entries_ok zk at es" and "init_extension zk S V st = Inr (off, v, st1)"
  obtains es' z' where "v = ext_default V" and "st1 = st\<lparr>sx_tlv := tlv_image es' z'\<rparr>"
    and "entries_ok zk at es'" and "map_of es' = (map_of es)(ty \<mapsto> pod_encode V (ext_default V))"
    and "length (tlv_image es' z') = length (sx_tlv st)"
    and "\<And>w. sx_store V off w st1 = st\<lparr>sx_tlv := tlv_image (entries_put ty (pod_encode V w) es') z'\<rparr>"
    and "\<And>w. map_of (entries_put ty (pod_encode V w) es') = (map_of es)(ty \<mapsto> pod_encode V w)"
proof (cases "map_of es ty")
  case (Some b)
  then obtain fs gs where es: "es = fs @ (ty, b) # gs"
    using split_entries [OF Some] assms(2) unfolding entries_ok_def by metis
  let ?d = "pod_encode V (ext_default V)"
  let ?es = "entries_put ty ?d es"
  note i = init_present [OF assms(2) [unfolded es] assms(1) [unfolded es]]
  have ok: "entries_ok zk at ?es" by (rule put_keeps(3) [OF assms(2)])
  have no: "ty \<notin> fst ` set fs" "ty \<notin> fst ` set gs" using assms(2) unfolding es by (auto simp: entries_ok_def)
  then have put: "?es = fs @ (ty, ?d) # gs" unfolding es by (simp add: entries_put_id)
  have st1: "st1 = st\<lparr>sx_tlv := tlv_image ?es z\<rparr>" and off: "off = length (tlv_encode fs) + 4" and v: "v = ext_default V"
    using assms(3) unfolding i es by auto
  have tlv1: "sx_tlv st1 = tlv_image (fs @ (ty, ?d) # gs) z" unfolding st1 put by simp
  have st: "sx_store V off w st1 = st\<lparr>sx_tlv := tlv_image (entries_put ty (pod_encode V w) ?es) z\<rparr>" for w
    using store_present [OF ok [unfolded put] tlv1, of w] unfolding off put by (simp add: st1)
  have ty: "ty \<in> fst ` set es" unfolding es by simp
  have m: "map_of (entries_put ty w es) = (map_of es)(ty \<mapsto> w)" for w
    using ty by (auto simp: map_of_entries_put fun_eq_iff)
  have "ty \<in> fst ` set ?es" unfolding put by simp
  then have mm: "map_of (entries_put ty w ?es) = (map_of es)(ty \<mapsto> w)" for w
    using m by (auto simp: map_of_entries_put fun_eq_iff)
  show thesis using that [OF v st1 ok m _ st mm] put_keeps(1) [OF assms(2)] assms(1) by simp
next
  case None
  then have no: "ty \<notin> fst ` set es" by (simp add: map_of_eq_None_iff)
  let ?d = "pod_encode V (ext_default V)" and ?z = "z - (pod_len V + 4)"
  let ?es = "es @ [(ty, ?d)]"
  from assms(3) have room: "pod_len V + 4 \<le> z" and v: "v = ext_default V"
    and off: "off = length (tlv_encode es) + 4" and st1: "st1 = st\<lparr>sx_tlv := tlv_image ?es ?z\<rparr>"
    unfolding init_absent [OF assms(2,1) no] by (auto split: if_splits)
  have ok: "entries_ok zk at ?es"
    using assms(2) no by (auto simp: entries_ok_def entry_ok_def home typed sized short encode_len)
  have tlv1: "sx_tlv st1 = tlv_image (es @ (ty, ?d) # []) ?z" unfolding st1 by simp
  have st: "sx_store V off w st1 = st\<lparr>sx_tlv := tlv_image (entries_put ty (pod_encode V w) ?es) ?z\<rparr>" for w
    using store_present [of es ?d "[]" st1 ?z w] ok tlv1 unfolding off by (simp add: st1)
  have m: "map_of ?es = (map_of es)(ty \<mapsto> ?d)" using None by (auto simp: fun_eq_iff map_add_def split: option.split)
  have mm: "map_of (entries_put ty w ?es) = (map_of es)(ty \<mapsto> w)" for w
    using None no by (auto simp: fun_eq_iff map_add_def entries_put_id split: option.split)
  have len: "length (tlv_image ?es ?z) = length (sx_tlv st)"
    using room by (simp add: assms(1) tlv_image_def encode_len)
  show thesis by (rule that [OF v st1 ok m len st mm])
qed

end

end
