(* ===== verification/Token22_Supply.thy ===== *)
theory Token22_Supply
  imports Token22_States
begin

text \<open>
  Where the tokens of a mint are.  Accounts hold an amount and, when the mint charges fees, a
  withheld amount; harvested fees wait in the mint.  \<open>gap\<close> is the difference between all of
  these and the recorded supply.  The lemmas below give the change of the gap for every way the
  program writes to a buffer, and the invariant the handlers keep.
\<close>

section \<open>Counting tokens\<close>

definition withheld_in :: "bytes \<Rightarrow> u64" where
  "withheld_in tlv = (case tlv_get_extension AccountType_Account tlv TransferFeeAmount_ext of Inr w \<Rightarrow> w | Inl _ \<Rightarrow> 0)"

definition pooled_in :: "bytes \<Rightarrow> u64" where
  "pooled_in tlv =
     (case tlv_get_extension AccountType_Mint tlv TransferFeeConfig_ext of Inr c \<Rightarrow> tfc_withheld_amount c | Inl _ \<Rightarrow> 0)"

definition held22 :: "pubkey \<Rightarrow> pubkey \<Rightarrow> sol_account \<Rightarrow> nat" where
  "held22 pid m a =
     (if acc_owner a = pid then
        case view_account (acc_data a) of
          Inr v \<Rightarrow> if ta_mint (sv_base v) = m then unat (ta_amount (sv_base v)) + unat (withheld_in (sv_tlv v)) else 0
        | Inl _ \<Rightarrow> 0
      else 0)"

definition pooled22 :: "pubkey \<Rightarrow> sol_account \<Rightarrow> nat" where
  "pooled22 pid a =
     (if acc_owner a = pid then
        case view_mint (acc_data a) of Inr v \<Rightarrow> unat (pooled_in (sv_tlv v)) | Inl _ \<Rightarrow> 0
      else 0)"

definition supply22 :: "pubkey \<Rightarrow> sol_account \<Rightarrow> nat" where
  "supply22 pid a =
     (if acc_owner a = pid then
        case view_mint (acc_data a) of Inr v \<Rightarrow> unat (mint_supply (sv_base v)) | Inl _ \<Rightarrow> 0
      else 0)"

definition weight :: "pubkey \<Rightarrow> pubkey \<Rightarrow> pubkey \<Rightarrow> sol_account \<Rightarrow> int" where
  "weight pid m k a = int (held22 pid m a) + (if k = m then int (pooled22 pid a) - int (supply22 pid a) else 0)"

definition gap :: "pubkey \<Rightarrow> pubkey \<Rightarrow> ledger \<Rightarrow> int" where
  "gap pid m led = (\<Sum>k\<in>UNIV. weight pid m k (led k))"

definition worth :: "pubkey \<Rightarrow> account state_ext \<Rightarrow> int" where
  "worth m st = (if ta_mint (sx_base st) = m then int (unat (ta_amount (sx_base st))) + int (unat (withheld_in (sx_tlv st))) else 0)"

definition surplus :: "mint state_ext \<Rightarrow> int" where
  "surplus st = int (unat (pooled_in (sx_tlv st))) - int (unat (mint_supply (sx_base st)))"

lemma gap_zero_iff:
  "gap pid m led = 0 \<longleftrightarrow> (\<Sum>k\<in>UNIV. held22 pid m (led k)) + pooled22 pid (led m) = supply22 pid (led m)"
proof -
  let ?d = "\<lambda>k. int (pooled22 pid (led k)) - int (supply22 pid (led k))"
  have "gap pid m led = (\<Sum>k\<in>UNIV. int (held22 pid m (led k))) + (\<Sum>k\<in>UNIV. if k = m then ?d k else 0)"
    unfolding gap_def weight_def by (rule sum.distrib)
  also have "(\<Sum>k\<in>UNIV. if k = m then ?d k else 0) = ?d m"
    by (subst sum.delta) (rule finite_class.finite_UNIV, rule if_P, rule UNIV_I)
  also have "(\<Sum>k\<in>UNIV. int (held22 pid m (led k))) = int (\<Sum>k\<in>UNIV. held22 pid m (led k))"
    by (rule of_nat_sum [symmetric])
  finally show ?thesis by linarith
qed

lemma weight_cong: "acc_owner a = acc_owner b \<Longrightarrow> acc_data a = acc_data b \<Longrightarrow> weight pid m k a = weight pid m k b"
  by (simp add: weight_def held22_def pooled22_def supply22_def)

lemma weight_foreign: "acc_owner a \<noteq> pid \<Longrightarrow> weight pid m k a = 0"
  by (simp add: weight_def held22_def pooled22_def supply22_def)

lemma weight_account:
  assumes "acc_owner a = pid" and "unpack_account (acc_data a) = Inr st"
  shows "weight pid m k a = worth m st"
proof -
  obtain e where e: "view_mint (acc_data a) = Inl e" using mint_state.view_Inl account_not_mint [OF assms(2)] by blast
  note v = account_state.view_Inr [OF assms(2)]
  show ?thesis using assms(1) by (simp add: weight_def held22_def pooled22_def supply22_def worth_def v e)
qed

lemma weight_mint:
  assumes "acc_owner a = pid" and "unpack_mint (acc_data a) = Inr st"
  shows "weight pid m k a = (if k = m then surplus st else 0)"
proof -
  obtain e where e: "view_account (acc_data a) = Inl e"
    using account_state.view_Inl account_not_mint assms(2) by metis
  note v = mint_state.view_Inr [OF assms(2)]
  show ?thesis using assms(1) by (simp add: weight_def held22_def pooled22_def supply22_def surplus_def v e)
qed

lemma weight_neither:
  assumes "\<And>st. unpack_account (acc_data a) \<noteq> Inr st" and "\<And>st. unpack_mint (acc_data a) \<noteq> Inr st"
  shows "weight pid m k a = 0"
proof -
  obtain e where e: "view_account (acc_data a) = Inl e" using account_state.view_Inl assms(1) by blast
  obtain f where f: "view_mint (acc_data a) = Inl f" using mint_state.view_Inl assms(2) by blast
  show ?thesis by (simp add: weight_def held22_def pooled22_def supply22_def e f)
qed

text \<open>Ledgers with the same owners and data except at one key.\<close>

lemma gap_change:
  assumes "\<And>x. x \<noteq> k \<Longrightarrow> acc_owner (led' x) = acc_owner (led x) \<and> acc_data (led' x) = acc_data (led x)"
  shows "gap pid m led' = gap pid m led - weight pid m k (led k) + weight pid m k (led' k)"
proof -
  have "(\<Sum>x\<in>UNIV - {k}. weight pid m x (led' x)) = (\<Sum>x\<in>UNIV - {k}. weight pid m x (led x))"
    by (rule sum.cong) (auto intro!: weight_cong simp: assms)
  then show ?thesis
    unfolding gap_def by (simp add: sum.remove [of UNIV k])
qed

lemma gap_cong:
  assumes "\<And>x. acc_owner (led' x) = acc_owner (led x) \<and> acc_data (led' x) = acc_data (led x)"
  shows "gap pid m led' = gap pid m led"
  unfolding gap_def by (rule sum.cong) (auto intro!: weight_cong simp: assms)

section \<open>Blank buffers\<close>

lemma Account_zero_state:
  "Account_unpack_from_slice bs = Inr v \<Longrightarrow> bs ! 108 = 0 \<Longrightarrow> \<not> account_is_initialized v"
  by (auto simp: Account_unpack_from_slice_def res_simps AccountState_try_from_primitive_def account_is_initialized_def
      split: if_splits)

lemma Mint_zero_state: "Mint_unpack_from_slice bs = Inr v \<Longrightarrow> bs ! 45 = 0 \<Longrightarrow> \<not> mint_is_initialized v"
  by (auto simp: Mint_unpack_from_slice_def res_simps unpack_bool_byte_def split: if_splits)

lemma from_zero_bytes: "\<forall>b \<in> set bs. b = 0 \<Longrightarrow> from_le_bytes bs = 0"
  by (induction bs) auto

lemma blank_nth: "blank zk data \<Longrightarrow> i < length data \<Longrightarrow> i < ACCOUNT_LEN + 1 \<Longrightarrow> data ! i = 0"
  unfolding blank_def by (metis in_set_conv_nth length_take min_less_iff_conj nth_take)

lemma blank_not_account:
  assumes "blank zk data"
  shows "unpack_account data \<noteq> Inr st"
proof
  assume u: "unpack_account data = Inr st"
  then have l: "sx_bytes st = data" "length (sx_base_data st) = ACCOUNT_LEN"
    and f: "Account_unpack_from_slice (sx_base_data st) = Inr (sx_base st)" "account_is_initialized (sx_base st)"
    by (auto simp: account_state.unpack_Inr sx_layout_def)
  have "data ! 108 = 0" by (rule blank_nth [OF assms]) (use l in \<open>auto simp: sx_bytes_def\<close>)
  then have "sx_base_data st ! 108 = 0" using l by (auto simp: sx_bytes_def nth_append)
  then show False using Account_zero_state f by blast
qed

lemma blank_not_mint:
  assumes "blank zk data"
  shows "unpack_mint data \<noteq> Inr st"
proof
  assume u: "unpack_mint data = Inr st"
  then have l: "sx_bytes st = data" "length (sx_base_data st) = MINT_LEN"
    and f: "Mint_unpack_from_slice (sx_base_data st) = Inr (sx_base st)" "mint_is_initialized (sx_base st)"
    by (auto simp: mint_state.unpack_Inr sx_layout_def)
  have "data ! 45 = 0" by (rule blank_nth [OF assms]) (use l in \<open>auto simp: sx_bytes_def\<close>)
  then have "sx_base_data st ! 45 = 0" using l by (auto simp: sx_bytes_def nth_append)
  then show False using Mint_zero_state f by blast
qed

lemma weight_blank: "blank zk (acc_data a) \<Longrightarrow> weight pid m k a = 0"
  by (rule weight_neither) (simp_all add: blank_not_account blank_not_mint)

lemma buffer_ok_account: "buffer_ok zk data \<Longrightarrow> unpack_account data = Inr st \<Longrightarrow> tlv_ok zk AccountType_Account (sx_tlv st)"
  using account_not_mint blank_not_account account_state.unpack_parts(1) unfolding buffer_ok_def by (metis sum.inject(2))

lemma buffer_ok_mint: "buffer_ok zk data \<Longrightarrow> unpack_mint data = Inr st \<Longrightarrow> mint_ok zk (sx_tlv st)"
  using account_not_mint blank_not_mint mint_state.unpack_parts(1) unfolding buffer_ok_def by (metis sum.inject(2))

text \<open>What passes as uninitialised is blank, and its entries belong to the kind it is opened as.\<close>

lemma uninitialized_blank:
  assumes "buffer_ok zk data" and "length data \<noteq> MULTISIG_LEN"
    and "\<And>st. unpack_account data \<noteq> Inr st" and "\<And>st. unpack_mint data \<noteq> Inr st"
  shows "blank zk data"
  using assms by (auto simp: buffer_ok_def)

lemma uninitialized_account_blank:
  assumes "buffer_ok zk data" and u: "StateWithExtensionsMut_unpack_uninitialized Account_base data = Inr st"
  shows "blank zk data"
proof (rule uninitialized_blank [OF assms(1)])
  note i = account_state.uninitialized_Inr [OF u] and l = account_state.uninitialized_lengths [OF u]
  show "length data \<noteq> MULTISIG_LEN" using i(1,2) by (auto simp: sx_layout_def)
  show "unpack_mint data \<noteq> Inr st'" for st' using mint_state.unpack_lengths [of data st'] l by auto
  show "unpack_account data \<noteq> Inr st'" for st'
  proof
    assume a: "unpack_account data = Inr st'"
    then have "sx_base_data st' = sx_base_data st"
      using account_state.unpack_parts(2) account_state.uninitialized_parts(2) [OF u] by metis
    then show False using a i(3,4) by (auto simp: account_state.unpack_Inr)
  qed
qed

lemma uninitialized_mint_blank:
  assumes "buffer_ok zk data" and u: "StateWithExtensionsMut_unpack_uninitialized Mint_base data = Inr st"
  shows "blank zk data"
proof (rule uninitialized_blank [OF assms(1)])
  note i = mint_state.uninitialized_Inr [OF u] and l = mint_state.uninitialized_lengths [OF u]
  show "length data \<noteq> MULTISIG_LEN" using i(1,2) by (auto simp: sx_layout_def)
  show "unpack_account data \<noteq> Inr st'" for st' using account_state.unpack_lengths [of data st'] l by auto
  show "unpack_mint data \<noteq> Inr st'" for st'
  proof
    assume a: "unpack_mint data = Inr st'"
    then have "sx_base_data st' = sx_base_data st"
      using mint_state.unpack_parts(2) mint_state.uninitialized_parts(2) [OF u] by metis
    then show False using a i(3,4) by (auto simp: mint_state.unpack_Inr)
  qed
qed

section \<open>The invariant, and how writes act on it\<close>

text \<open>
  Every buffer of the program is well formed, and wrapped lamports are accounts of the native
  mint only.
\<close>

definition sound22 :: "pubkey \<Rightarrow> zk_sizes \<Rightarrow> pubkey \<Rightarrow> ledger \<Rightarrow> bool" where
  "sound22 native zk pid led \<longleftrightarrow>
     (\<forall>k. acc_owner (led k) = pid \<longrightarrow>
        buffer_ok zk (acc_data (led k)) \<and>
        (\<forall>st. unpack_account (acc_data (led k)) = Inr st \<longrightarrow> is_native (sx_base st) \<longrightarrow> ta_mint (sx_base st) = native))"

definition inv22 :: "env22 \<Rightarrow> pubkey \<Rightarrow> ledger \<Rightarrow> bool" where
  "inv22 E pid led \<longleftrightarrow> sound22 (native_mint22_id (env_rt E)) (env_zk E) pid led \<and>
     (\<forall>m. m \<noteq> native_mint22_id (env_rt E) \<longrightarrow> gap pid m led = 0)"

lemma sound22_buffer: "sound22 native zk pid led \<Longrightarrow> acc_owner (led k) = pid \<Longrightarrow> buffer_ok zk (acc_data (led k))"
  by (simp add: sound22_def)

lemma sound22_tlv:
  "sound22 native zk pid led \<Longrightarrow> acc_owner (led k) = pid \<Longrightarrow> unpack_account (acc_data (led k)) = Inr st \<Longrightarrow>
   tlv_ok zk AccountType_Account (sx_tlv st)"
  "sound22 native zk pid led \<Longrightarrow> acc_owner (led k) = pid \<Longrightarrow> unpack_mint (acc_data (led k)) = Inr st' \<Longrightarrow>
   mint_ok zk (sx_tlv st')"
  using sound22_buffer buffer_ok_account buffer_ok_mint by blast+

lemma sound22_native:
  "sound22 native zk pid led \<Longrightarrow> acc_owner (led k) = pid \<Longrightarrow> unpack_account (acc_data (led k)) = Inr st \<Longrightarrow>
   is_native (sx_base st) \<Longrightarrow> ta_mint (sx_base st) = native"
  by (simp add: sound22_def)

lemma sound22_set:
  assumes "sound22 native zk pid led"
    and "acc_owner (led k) = pid \<Longrightarrow> buffer_ok zk bs \<and>
      (\<forall>st. unpack_account bs = Inr st \<longrightarrow> is_native (sx_base st) \<longrightarrow> ta_mint (sx_base st) = native)"
  shows "sound22 native zk pid (set_data k bs led)"
  using assms by (simp add: sound22_def)

lemma sound22_lamports [simp]: "sound22 native zk pid (set_lamports k n led) = sound22 native zk pid led"
  by (simp add: sound22_def)

lemma gap_lamports [simp]: "gap pid m (set_lamports k n led) = gap pid m led"
  by (rule gap_cong) simp

lemma gap_set_data:
  "gap pid m (set_data k bs led) = gap pid m led - weight pid m k (led k) + weight pid m k (set_data k bs led k)"
  by (rule gap_change) (simp add: set_data_other)

lemma write_foreign:
  assumes "acc_owner (led k) \<noteq> pid"
  shows "sound22 native zk pid led \<Longrightarrow> sound22 native zk pid (set_data k bs led)"
    and "gap pid m (set_data k bs led) = gap pid m led"
  using assms by (auto intro: sound22_set simp: gap_set_data weight_foreign)

lemma write_account:
  assumes "sound22 native zk pid led" and "acc_owner (led k) = pid"
    and "unpack_account bs = Inr st'" and "tlv_ok zk AccountType_Account (sx_tlv st')"
    and "is_native (sx_base st') \<Longrightarrow> ta_mint (sx_base st') = native"
  shows "sound22 native zk pid (set_data k bs led)"
    and "gap pid m (set_data k bs led) = gap pid m led - weight pid m k (led k) + worth m st'"
proof -
  have "buffer_ok zk bs" using assms(3,4) by (auto simp: buffer_ok_def)
  then show "sound22 native zk pid (set_data k bs led)" using assms by (intro sound22_set) auto
  have "weight pid m k (set_data k bs led k) = worth m st'" by (rule weight_account) (use assms in simp_all)
  then show "gap pid m (set_data k bs led) = gap pid m led - weight pid m k (led k) + worth m st'"
    by (simp add: gap_set_data)
qed

lemma write_mint:
  assumes "sound22 native zk pid led" and "acc_owner (led k) = pid"
    and "unpack_mint bs = Inr st'" and "mint_ok zk (sx_tlv st')"
  shows "sound22 native zk pid (set_data k bs led)"
    and "gap pid m (set_data k bs led) = gap pid m led - weight pid m k (led k) + (if k = m then surplus st' else 0)"
proof -
  have "buffer_ok zk bs" using assms(3,4) by (auto simp: buffer_ok_def)
  then show "sound22 native zk pid (set_data k bs led)"
    using assms account_not_mint by (intro sound22_set) auto
  have "weight pid m k (set_data k bs led k) = (if k = m then surplus st' else 0)"
    by (rule weight_mint) (use assms in simp_all)
  then show "gap pid m (set_data k bs led) = gap pid m led - weight pid m k (led k) + (if k = m then surplus st' else 0)"
    by (simp add: gap_set_data)
qed

lemma write_blank:
  assumes "sound22 native zk pid led" and "blank zk bs"
  shows "sound22 native zk pid (set_data k bs led)"
    and "gap pid m (set_data k bs led) = gap pid m led - weight pid m k (led k)"
proof -
  show "sound22 native zk pid (set_data k bs led)"
    using assms blank_not_account by (intro sound22_set) (auto simp: buffer_ok_def)
  have "weight pid m k (set_data k bs led k) = 0" by (rule weight_blank) (use assms in simp)
  then show "gap pid m (set_data k bs led) = gap pid m led - weight pid m k (led k)" by (simp add: gap_set_data)
qed

section \<open>Withheld amounts in the entries\<close>

lemma withheld_image:
  "entries_ok zk AccountType_Account es \<Longrightarrow>
   withheld_in (tlv_image es z) = (case map_of es Ext_TransferFeeAmount of Some b \<Rightarrow> from_le_bytes b | None \<Rightarrow> 0)"
  using fee_amount.read_view [of zk es z]
  by (simp add: withheld_in_def TransferFeeAmount_ext_def split: option.split)

lemma pooled_image:
  "entries_ok zk AccountType_Mint es \<Longrightarrow>
   pooled_in (tlv_image es z) =
     (case map_of es Ext_TransferFeeConfig of
        Some b \<Rightarrow> tfc_withheld_amount (pod_decode TransferFeeConfig_ext b) | None \<Rightarrow> 0)"
  using fee_config.read_view [of zk es z]
  by (simp add: pooled_in_def TransferFeeConfig_ext_def split: option.split)

lemma ext_type_simps [simp]:
  "ext_type TransferFeeConfig_ext = Ext_TransferFeeConfig" "ext_type TransferFeeAmount_ext = Ext_TransferFeeAmount"
  "ext_type MintCloseAuthority_ext = Ext_MintCloseAuthority" "ext_type ImmutableOwner_ext = Ext_ImmutableOwner"
  "ext_type NonTransferable_ext = Ext_NonTransferable" "ext_type DefaultAccountState_ext = Ext_DefaultAccountState"
  "ext_type MemoTransfer_ext = Ext_MemoTransfer" "ext_type InterestBearingConfig_ext = Ext_InterestBearingConfig"
  by (simp_all add: extension_defs)

lemma fee_amount_put:
  assumes "tlv_ok zk AccountType_Account (sx_tlv st)"
    and "get_extension_mut zk Account_base TransferFeeAmount_ext st = Inr (off, v, st1)"
  obtains t where "st1 = st" and "v = withheld_in (sx_tlv st)"
    and "sx_store TransferFeeAmount_ext off w st = st\<lparr>sx_tlv := t\<rparr>"
    and "length t = length (sx_tlv st)" and "tlv_ok zk AccountType_Account t" and "withheld_in t = w"
proof -
  have ok: "tlv_ok zk (bs_account_type Account_base) (sx_tlv st)" using assms(1) by simp
  from fee_amount.put_spec [OF ok assms(2)] obtain es z b where
    t: "sx_tlv st = tlv_image es z" and es: "entries_ok zk AccountType_Account es" and st1: "st1 = st"
    and b: "map_of es Ext_TransferFeeAmount = Some b" and v: "v = pod_decode TransferFeeAmount_ext b"
    and s: "\<And>w. sx_store TransferFeeAmount_ext off w st =
        st\<lparr>sx_tlv := tlv_image (entries_put Ext_TransferFeeAmount (pod_encode TransferFeeAmount_ext w) es) z\<rparr>"
    by auto
  have es': "entries_ok zk (bs_account_type Account_base) es" using es by simp
  note k = fee_amount.put_keeps [OF es', simplified]
  have "Ext_TransferFeeAmount \<in> fst ` set es" using b by (metis map_of_eq_None_iff option.distinct(1))
  then have "withheld_in (tlv_image (entries_put Ext_TransferFeeAmount (pod_encode TransferFeeAmount_ext w) es) z) = w"
    by (simp add: withheld_image [OF k(3)] map_of_entries_put) (simp add: TransferFeeAmount_ext_def)
  moreover have "v = withheld_in (sx_tlv st)" by (simp add: t withheld_image [OF es] b v TransferFeeAmount_ext_def)
  ultimately show thesis using that [OF st1 _ s] k(1,2) t by simp
qed

lemma starts_accounts_put:
  "starts_accounts es \<Longrightarrow> (t = Ext_DefaultAccountState \<Longrightarrow> pod_decode DefaultAccountState_ext b \<noteq> 0) \<Longrightarrow>
   starts_accounts (entries_put t b es)"
  by (auto simp: starts_accounts_def map_of_entries_put split: if_splits)

lemma fee_config_put:
  assumes "mint_ok zk (sx_tlv st)"
    and "get_extension_mut zk Mint_base TransferFeeConfig_ext st = Inr (off, c, st1)"
  obtains t where "st1 = st" and "tfc_withheld_amount c = pooled_in (sx_tlv st)"
    and "sx_store TransferFeeConfig_ext off w st = st\<lparr>sx_tlv := t\<rparr>"
    and "length t = length (sx_tlv st)" and "mint_ok zk t" and "pooled_in t = tfc_withheld_amount w"
proof -
  have ok: "tlv_ok zk (bs_account_type Mint_base) (sx_tlv st)" using assms(1) by (simp add: mint_ok_def)
  from fee_config.put_spec [OF ok assms(2)] obtain es z b where
    t: "sx_tlv st = tlv_image es z" and es: "entries_ok zk AccountType_Mint es" and st1: "st1 = st"
    and b: "map_of es Ext_TransferFeeConfig = Some b" and v: "c = pod_decode TransferFeeConfig_ext b"
    and s: "\<And>w. sx_store TransferFeeConfig_ext off w st =
        st\<lparr>sx_tlv := tlv_image (entries_put Ext_TransferFeeConfig (pod_encode TransferFeeConfig_ext w) es) z\<rparr>"
    by auto
  have es': "entries_ok zk (bs_account_type Mint_base) es" using es by simp
  note k = fee_config.put_keeps [OF es', simplified]
  have "Ext_TransferFeeConfig \<in> fst ` set es" using b by (metis map_of_eq_None_iff option.distinct(1))
  then have "pooled_in (tlv_image (entries_put Ext_TransferFeeConfig (pod_encode TransferFeeConfig_ext w) es) z) =
      tfc_withheld_amount w"
    by (simp add: pooled_image [OF k(3)] map_of_entries_put fee_config.decode_encode)
  moreover have "tfc_withheld_amount c = pooled_in (sx_tlv st)" by (simp add: t pooled_image [OF es] b v)
  moreover have "mint_ok zk (tlv_image (entries_put Ext_TransferFeeConfig (pod_encode TransferFeeConfig_ext w) es) z)"
    using assms(1) unfolding t mint_ok_image [OF es] mint_ok_image [OF k(3)] by (rule starts_accounts_put) simp
  ultimately show thesis using that [OF st1 _ s] k(1) t by simp
qed

text \<open>The other extensions leave them alone.\<close>

lemma other_mint_put:
  assumes "stored_extension zk Mint_base V" and "ext_type V \<noteq> Ext_TransferFeeConfig"
    and "mint_ok zk (sx_tlv st)" and "get_extension_mut zk Mint_base V st = Inr (off, v, st1)"
    and "ext_type V = Ext_DefaultAccountState \<Longrightarrow> pod_decode DefaultAccountState_ext (pod_encode V w) \<noteq> 0"
  obtains t where "st1 = st" and "sx_store V off w st = st\<lparr>sx_tlv := t\<rparr>"
    and "length t = length (sx_tlv st)" and "mint_ok zk t" and "pooled_in t = pooled_in (sx_tlv st)"
proof -
  have ok: "tlv_ok zk (bs_account_type Mint_base) (sx_tlv st)" using assms(3) by (simp add: mint_ok_def)
  from stored_extension.put_spec [OF assms(1) ok assms(4)] obtain es z b where
    t: "sx_tlv st = tlv_image es z" and es': "entries_ok zk (bs_account_type Mint_base) es" and st1: "st1 = st"
    and s: "\<And>w. sx_store V off w st = st\<lparr>sx_tlv := tlv_image (entries_put (ext_type V) (pod_encode V w) es) z\<rparr>"
    by metis
  then have es: "entries_ok zk AccountType_Mint es" by simp
  note k = stored_extension.put_keeps [OF assms(1) es', simplified]
  have "pooled_in (tlv_image (entries_put (ext_type V) (pod_encode V w) es) z) = pooled_in (sx_tlv st)"
    using assms(2) by (simp add: t pooled_image [OF k(3)] pooled_image [OF es] map_of_entries_put)
  moreover have "mint_ok zk (tlv_image (entries_put (ext_type V) (pod_encode V w) es) z)"
    using assms(3,5) unfolding t mint_ok_image [OF es] mint_ok_image [OF k(3)] by (rule starts_accounts_put)
  ultimately show thesis using that [OF st1 s] k(1) t by simp
qed

lemma other_account_put:
  assumes "stored_extension zk Account_base V" and "ext_type V \<noteq> Ext_TransferFeeAmount"
    and "tlv_ok zk AccountType_Account (sx_tlv st)" and "get_extension_mut zk Account_base V st = Inr (off, v, st1)"
  obtains t where "st1 = st" and "sx_store V off w st = st\<lparr>sx_tlv := t\<rparr>"
    and "length t = length (sx_tlv st)" and "tlv_ok zk AccountType_Account t" and "withheld_in t = withheld_in (sx_tlv st)"
proof -
  have ok: "tlv_ok zk (bs_account_type Account_base) (sx_tlv st)" using assms(3) by simp
  from stored_extension.put_spec [OF assms(1) ok assms(4)] obtain es z b where
    t: "sx_tlv st = tlv_image es z" and es': "entries_ok zk (bs_account_type Account_base) es" and st1: "st1 = st"
    and s: "\<And>w. sx_store V off w st = st\<lparr>sx_tlv := tlv_image (entries_put (ext_type V) (pod_encode V w) es) z\<rparr>"
    by metis
  then have es: "entries_ok zk AccountType_Account es" by simp
  note k = stored_extension.put_keeps [OF assms(1) es', simplified]
  have "withheld_in (tlv_image (entries_put (ext_type V) (pod_encode V w) es) z) = withheld_in (sx_tlv st)"
    using assms(2) by (simp add: t withheld_image [OF k(3)] withheld_image [OF es] map_of_entries_put)
  then show thesis using that [OF st1 s] k(1,2) t by simp
qed

lemma other_account_init:
  assumes "stored_extension zk Account_base V" and "ext_type V \<noteq> Ext_TransferFeeAmount"
    and "tlv_ok zk AccountType_Account (sx_tlv st)" and "init_extension zk Account_base V st = Inr (off, v, st1)"
  obtains t where "sx_store V off w st1 = st\<lparr>sx_tlv := t\<rparr>"
    and "length t = length (sx_tlv st)" and "tlv_ok zk AccountType_Account t" and "withheld_in t = withheld_in (sx_tlv st)"
proof -
  from assms(3) obtain es z where t: "sx_tlv st = tlv_image es z" and es: "entries_ok zk AccountType_Account es"
    unfolding tlv_ok_def by blast
  then have "entries_ok zk (bs_account_type Account_base) es" by simp
  from stored_extension.init_spec [OF assms(1) t this assms(4)] obtain es' z' where
    es': "entries_ok zk (bs_account_type Account_base) es'" and len: "length (tlv_image es' z') = length (sx_tlv st)"
    and s: "\<And>w. sx_store V off w st1 = st\<lparr>sx_tlv := tlv_image (entries_put (ext_type V) (pod_encode V w) es') z'\<rparr>"
    and m: "\<And>w. map_of (entries_put (ext_type V) (pod_encode V w) es') = (map_of es)(ext_type V \<mapsto> pod_encode V w)"
    by blast
  note k = stored_extension.put_keeps [OF assms(1) es', simplified]
  have "withheld_in (tlv_image (entries_put (ext_type V) (pod_encode V w) es') z') = withheld_in (sx_tlv st)"
    using assms(2) by (simp add: t withheld_image [OF k(3)] withheld_image [OF es] m)
  then show thesis using that [OF s] k(1,2) len by simp
qed

end
