(* ===== verification/Token22_Steps.thy ===== *)
theory Token22_Steps
  imports Token22_Supply Token_Supply
begin

text \<open>
  Every handler keeps the invariant: buffers stay well formed, and no handler changes what the
  tokens of a mint add up to without changing its supply by as much.
\<close>

section \<open>Saving an account or a mint\<close>

lemma save_account_spec:
  assumes "unpack_account (info_data led i) = Inr st" and "save_account i st b led = Inr led'"
    and "account_is_initialized b"
  obtains bs st' where "led' = set_data (ai_key i) bs led" and "unpack_account bs = Inr st'"
    and "sx_base st' = b" and "sx_tlv st' = sx_tlv st"
proof -
  from assms(2) obtain st' where p: "pack_base Account_base (st\<lparr>sx_base := b\<rparr>) = Inr st'"
    and led': "led' = set_data (ai_key i) (sx_bytes st') led"
    by (auto simp: save_account_def attempt_eq_Inr store_state_def)
  have "st\<lparr>sx_base := b, sx_tlv := sx_tlv st\<rparr> = st\<lparr>sx_base := b\<rparr>" by simp
  then show thesis
    using account_state.unpack_after_pack [OF assms(1) refl, of b st'] p assms(3) that [OF led'] by simp
qed

lemma save_mint_spec:
  assumes "unpack_mint (info_data led i) = Inr st" and "save_mint i st b led = Inr led'"
    and "mint_is_initialized b"
  obtains bs st' where "led' = set_data (ai_key i) bs led" and "unpack_mint bs = Inr st'"
    and "sx_base st' = b" and "sx_tlv st' = sx_tlv st"
proof -
  from assms(2) obtain st' where p: "pack_base Mint_base (st\<lparr>sx_base := b\<rparr>) = Inr st'"
    and led': "led' = set_data (ai_key i) (sx_bytes st') led"
    by (auto simp: save_mint_def attempt_eq_Inr store_state_def)
  have "st\<lparr>sx_base := b, sx_tlv := sx_tlv st\<rparr> = st\<lparr>sx_base := b\<rparr>" by simp
  then show thesis
    using mint_state.unpack_after_pack [OF assms(1) refl, of b st'] p assms(3) that [OF led'] by simp
qed

text \<open>Writing an account that was one already: only the amount and the withheld fees count.\<close>

lemma rewrite_account:
  assumes "sound22 native zk pid led" and "acc_owner (led k) = pid" and "unpack_account (acc_data (led k)) = Inr st"
    and "unpack_account bs = Inr st'" and "tlv_ok zk AccountType_Account (sx_tlv st')"
    and "ta_mint (sx_base st') = ta_mint (sx_base st)" and "ta_is_native (sx_base st') = ta_is_native (sx_base st)"
  shows "sound22 native zk pid (set_data k bs led)"
    and "gap pid m (set_data k bs led) = gap pid m led - worth m st + worth m st'"
  using write_account [OF assms(1,2,4,5)] sound22_native [OF assms(1-3)] assms(6,7)
    weight_account [OF assms(2,3)] by (auto simp: is_native_def)

lemma rewrite_mint:
  assumes "sound22 native zk pid led" and "acc_owner (led k) = pid" and "unpack_mint (acc_data (led k)) = Inr st"
    and "unpack_mint bs = Inr st'" and "mint_ok zk (sx_tlv st')"
  shows "sound22 native zk pid (set_data k bs led)"
    and "gap pid m (set_data k bs led) = gap pid m led + (if k = m then surplus st' - surplus st else 0)"
  using write_mint [OF assms(1,2,4,5)] weight_mint [OF assms(2,3)] by auto

lemma save_account_keeps:
  assumes "sound22 native zk pid led" and "unpack_account (info_data led i) = Inr st"
    and "save_account i st b led = Inr led'" and "account_is_initialized b"
    and "ta_mint b = ta_mint (sx_base st)" and "ta_is_native b = ta_is_native (sx_base st)"
  shows "sound22 native zk pid led'"
    and "gap pid m led' = gap pid m led +
      (if info_owner led i = pid \<and> ta_mint b = m then int (unat (ta_amount b)) - int (unat (ta_amount (sx_base st))) else 0)"
proof -
  obtain bs st' where w: "led' = set_data (ai_key i) bs led" "unpack_account bs = Inr st'" "sx_base st' = b"
    "sx_tlv st' = sx_tlv st" using save_account_spec [OF assms(2-4)] by blast
  have "sound22 native zk pid led' \<and> gap pid m led' = gap pid m led +
      (if info_owner led i = pid \<and> ta_mint b = m then int (unat (ta_amount b)) - int (unat (ta_amount (sx_base st))) else 0)"
  proof (cases "info_owner led i = pid")
    case True
    note t = sound22_tlv(1) [OF assms(1) True assms(2)]
    show ?thesis
      using rewrite_account [OF assms(1) True assms(2) w(2)] t assms(5,6) w(3,4) True by (simp add: w(1) worth_def)
  qed (simp add: w(1) write_foreign assms(1))
  then show "sound22 native zk pid led'" "gap pid m led' = gap pid m led +
      (if info_owner led i = pid \<and> ta_mint b = m then int (unat (ta_amount b)) - int (unat (ta_amount (sx_base st))) else 0)"
    by blast+
qed

lemma save_mint_keeps:
  assumes "sound22 native zk pid led" and "unpack_mint (info_data led i) = Inr st"
    and "save_mint i st b led = Inr led'" and "mint_is_initialized b"
  shows "sound22 native zk pid led'"
    and "gap pid m led' = gap pid m led -
      (if info_owner led i = pid \<and> ai_key i = m then int (unat (mint_supply b)) - int (unat (mint_supply (sx_base st))) else 0)"
proof -
  obtain bs st' where w: "led' = set_data (ai_key i) bs led" "unpack_mint bs = Inr st'" "sx_base st' = b"
    "sx_tlv st' = sx_tlv st" using save_mint_spec [OF assms(2-4)] by blast
  have "sound22 native zk pid led' \<and> gap pid m led' = gap pid m led -
      (if info_owner led i = pid \<and> ai_key i = m then int (unat (mint_supply b)) - int (unat (mint_supply (sx_base st))) else 0)"
  proof (cases "info_owner led i = pid")
    case True
    note t = sound22_tlv(2) [OF assms(1) True assms(2)]
    show ?thesis
      using rewrite_mint [OF assms(1) True assms(2) w(2)] t w(3,4) True by (simp add: w(1) surplus_def)
  qed (simp add: w(1) write_foreign assms(1))
  then show "sound22 native zk pid led'" "gap pid m led' = gap pid m led -
      (if info_owner led i = pid \<and> ai_key i = m then int (unat (mint_supply b)) - int (unat (mint_supply (sx_base st))) else 0)"
    by blast+
qed

text \<open>Storing entries only.\<close>

lemma store_mint_keeps:
  assumes "sound22 native zk pid led" and "unpack_mint (acc_data (led k)) = Inr st"
    and "acc_owner (led k) = pid \<Longrightarrow> \<exists>t. st' = st\<lparr>sx_tlv := t\<rparr> \<and> length t = length (sx_tlv st) \<and>
      mint_ok zk t \<and> int (unat (pooled_in t)) = int (unat (pooled_in (sx_tlv st))) + d"
  shows "sound22 native zk pid (store_state k st' led)"
    and "gap pid m (store_state k st' led) = gap pid m led + (if acc_owner (led k) = pid \<and> k = m then d else 0)"
proof -
  have "sound22 native zk pid (store_state k st' led) \<and>
    gap pid m (store_state k st' led) = gap pid m led + (if acc_owner (led k) = pid \<and> k = m then d else 0)"
  proof (cases "acc_owner (led k) = pid")
    case True
    then obtain t where t: "st' = st\<lparr>sx_tlv := t\<rparr>" "length t = length (sx_tlv st)"
      "mint_ok zk t" "int (unat (pooled_in t)) = int (unat (pooled_in (sx_tlv st))) + d"
      using assms(3) by blast
    have u: "unpack_mint (sx_bytes st') = Inr st'" using mint_state.unpack_after_tlv [OF assms(2) t(2)] by (simp add: t(1))
    show ?thesis
      using rewrite_mint [OF assms(1) True assms(2) u] t True by (simp add: store_state_def surplus_def)
  qed (simp add: store_state_def write_foreign assms(1))
  then show "sound22 native zk pid (store_state k st' led)"
    "gap pid m (store_state k st' led) = gap pid m led + (if acc_owner (led k) = pid \<and> k = m then d else 0)" by blast+
qed

lemma store_account_keeps:
  assumes "sound22 native zk pid led" and "unpack_account (acc_data (led k)) = Inr st"
    and "acc_owner (led k) = pid \<Longrightarrow> \<exists>t. st' = st\<lparr>sx_tlv := t\<rparr> \<and> length t = length (sx_tlv st) \<and>
      tlv_ok zk AccountType_Account t \<and> int (unat (withheld_in t)) = int (unat (withheld_in (sx_tlv st))) + d"
  shows "sound22 native zk pid (store_state k st' led)"
    and "gap pid m (store_state k st' led) =
      gap pid m led + (if acc_owner (led k) = pid \<and> ta_mint (sx_base st) = m then d else 0)"
proof -
  have "sound22 native zk pid (store_state k st' led) \<and> gap pid m (store_state k st' led) =
    gap pid m led + (if acc_owner (led k) = pid \<and> ta_mint (sx_base st) = m then d else 0)"
  proof (cases "acc_owner (led k) = pid")
    case True
    then obtain t where t: "st' = st\<lparr>sx_tlv := t\<rparr>" "length t = length (sx_tlv st)"
      "tlv_ok zk AccountType_Account t" "int (unat (withheld_in t)) = int (unat (withheld_in (sx_tlv st))) + d"
      using assms(3) by blast
    have u: "unpack_account (sx_bytes st') = Inr st'" using account_state.unpack_after_tlv [OF assms(2) t(2)] by (simp add: t(1))
    show ?thesis
      using rewrite_account [OF assms(1) True assms(2) u] t True by (simp add: store_state_def worth_def)
  qed (simp add: store_state_def write_foreign assms(1))
  then show "sound22 native zk pid (store_state k st' led)" "gap pid m (store_state k st' led) =
    gap pid m led + (if acc_owner (led k) = pid \<and> ta_mint (sx_base st) = m then d else 0)" by blast+
qed

section \<open>Handlers that do not move tokens\<close>

text \<open>\<open>settled\<close>: the gap of every mint stays as it was.\<close>

definition settled :: "pubkey \<Rightarrow> zk_sizes \<Rightarrow> pubkey \<Rightarrow> ledger \<Rightarrow> ledger \<Rightarrow> bool" where
  "settled native zk pid led led' \<longleftrightarrow> sound22 native zk pid led' \<and> (\<forall>m. m \<noteq> native \<longrightarrow> gap pid m led' = gap pid m led)"

lemma settled_refl: "sound22 native zk pid led \<Longrightarrow> settled native zk pid led led"
  by (simp add: settled_def)

lemma unpack_account_initialized: "unpack_account data = Inr st \<Longrightarrow> account_is_initialized (sx_base st)"
  by (simp add: account_state.unpack_Inr)

lemma unpack_mint_initialized: "unpack_mint data = Inr st \<Longrightarrow> mint_is_initialized (sx_base st)"
  by (simp add: mint_state.unpack_Inr)

lemma save_same_account:
  assumes "sound22 native zk pid led" and "unpack_account (info_data led i) = Inr st"
    and "save_account i st b led = Inr led'" and "account_is_initialized b" and "same_money (sx_base st) b"
  shows "settled native zk pid led led'"
  using save_account_keeps [OF assms(1-4)] assms(5) by (simp add: settled_def same_money_def)

lemma approve_settled:
  assumes "sound22 native zk pid led" and "process_approve22 p accounts amt d led = Inr led'"
  shows "settled native zk pid led led'"
proof -
  from assms(2) obtain i st dlg where u: "unpack_account (info_data led i) = Inr st"
    and s: "save_account i st ((sx_base st)\<lparr>ta_delegate := dlg, ta_delegated_amount := amt\<rparr>) led = Inr led'"
    unfolding process_approve22_def by (elim peel_infos) blast
  show ?thesis
    by (rule save_same_account [OF assms(1) u s])
      (use unpack_account_initialized [OF u] in \<open>simp_all add: account_is_initialized_def same_money_def\<close>)
qed

lemma catch_Some [res_simps]: "catch m = Inr (Some x) \<longleftrightarrow> m = Inr x"
  by (auto simp: catch_def split: sum.splits if_splits)

lemma catch_None [res_simps]: "catch m = Inr None \<longleftrightarrow> (\<exists>e. m = Inl e \<and> e \<noteq> Panicked)"
  by (auto simp: catch_def split: sum.splits if_splits)

lemma map_error_Inr [res_simps]: "map_error e m = Inr x \<longleftrightarrow> m = Inr x"
  by (auto simp: map_error_def res_simps)

lemma check_program_account22_Inr [res_simps]:
  "check_program_account22 R k = Inr u \<longleftrightarrow> k = token22_program_id R"
  by (auto simp: check_program_account22_def)

lemmas peel22 = attempt_tripleE peel_infos

lemma revoke_settled:
  assumes "sound22 native zk pid led" and "process_revoke22 p accounts led = Inr led'"
  shows "settled native zk pid led led'"
proof -
  from assms(2) obtain i st where u: "unpack_account (info_data led i) = Inr st"
    and s: "save_account i st ((sx_base st)\<lparr>ta_delegate := None, ta_delegated_amount := 0\<rparr>) led = Inr led'"
    unfolding process_revoke22_def by (elim peel_infos) blast
  show ?thesis
    by (rule save_same_account [OF assms(1) u s])
      (use unpack_account_initialized [OF u] in \<open>simp_all add: account_is_initialized_def same_money_def\<close>)
qed

lemma toggle_freeze_settled:
  assumes "sound22 native zk pid led" and "process_toggle_freeze_account22 p accounts f led = Inr led'"
  shows "settled native zk pid led led'"
proof -
  from assms(2) obtain i st where u: "unpack_account (info_data led i) = Inr st"
    and s: "save_account i st ((sx_base st)\<lparr>ta_state := if f then Frozen else Initialized\<rparr>) led = Inr led'"
    unfolding process_toggle_freeze_account22_def by (elim peel_infos) blast
  show ?thesis
    by (rule save_same_account [OF assms(1) u s]) (simp_all add: account_is_initialized_def same_money_def)
qed

lemma set_account_authority22_Inr:
  assumes "set_account_authority22 E p led st t a auth signers = Inr b"
  shows "same_money (sx_base st) b" and "ta_state b = ta_state (sx_base st)"
  using assms
  by (auto simp: set_account_authority22_def res_simps same_money_def Let_def split: AuthorityType22.splits option.splits if_splits)

lemma sync_native_settled:
  assumes "sound22 (native_mint22_id (env_rt E)) zk pid led" and "pid = token22_program_id (env_rt E)"
    and "process_sync_native22 E accounts led = Inr led'"
  shows "settled (native_mint22_id (env_rt E)) zk pid led led'"
proof -
  from assms(3) obtain i st r n where u: "unpack_account (info_data led i) = Inr st"
    and o: "info_owner led i = token22_program_id (env_rt E)" and r: "ta_is_native (sx_base st) = Some r"
    and s: "save_account i st ((sx_base st)\<lparr>ta_amount := n\<rparr>) led = Inr led'"
    unfolding process_sync_native22_def by (elim peel_infos) (auto simp: res_simps)
  have "ta_mint (sx_base st) = native_mint22_id (env_rt E)"
    using sound22_native [OF assms(1) _ u] o r assms(2) by (simp add: is_native_def)
  then show ?thesis
    using save_account_keeps [OF assms(1) u s] unpack_account_initialized [OF u]
    by (simp add: settled_def account_is_initialized_def)
qed

text \<open>Mints: the authorities of the base and of the extensions.\<close>

lemma save_same_mint:
  assumes "sound22 native zk pid led" and "unpack_mint (info_data led i) = Inr st"
    and "pack_base Mint_base (st\<lparr>sx_base := b\<rparr>) = Inr st'" and "mint_is_initialized b"
    and "mint_supply b = mint_supply (sx_base st)"
  shows "settled native zk pid led (store_state (ai_key i) st' led)"
proof -
  have "save_mint i st b led = Inr (store_state (ai_key i) st' led)" by (simp add: save_mint_def assms(3))
  from save_mint_keeps [OF assms(1,2) this assms(4)] assms(5) show ?thesis by (simp add: settled_def)
qed

lemma store_mint_settled:
  assumes "sound22 native zk pid led" and "unpack_mint (acc_data (led k)) = Inr st"
    and "acc_owner (led k) = pid \<Longrightarrow> \<exists>t. st' = st\<lparr>sx_tlv := t\<rparr> \<and> length t = length (sx_tlv st) \<and>
      mint_ok zk t \<and> pooled_in t = pooled_in (sx_tlv st)"
  shows "settled native zk pid led (store_state k st' led)"
proof -
  have "\<exists>t. st' = st\<lparr>sx_tlv := t\<rparr> \<and> length t = length (sx_tlv st) \<and>
      mint_ok zk t \<and> int (unat (pooled_in t)) = int (unat (pooled_in (sx_tlv st))) + 0"
    if "acc_owner (led k) = pid" using assms(3) [OF that] by (metis add.right_neutral)
  from store_mint_keeps [OF assms(1,2) this] show ?thesis by (simp add: settled_def)
qed

lemma fee_config_settled:
  assumes "sound22 native zk pid led" and "unpack_mint (acc_data (led k)) = Inr st"
    and "get_extension_mut zk Mint_base TransferFeeConfig_ext st = Inr (off, c, st1)"
    and "tfc_withheld_amount c' = tfc_withheld_amount c"
  shows "settled native zk pid led (store_state k (sx_store TransferFeeConfig_ext off c' st1) led)"
proof (rule store_mint_settled [OF assms(1,2)])
  assume "acc_owner (led k) = pid"
  from fee_config_put [OF sound22_tlv(2) [OF assms(1) this assms(2)] assms(3)]
  show "\<exists>t. sx_store TransferFeeConfig_ext off c' st1 = st\<lparr>sx_tlv := t\<rparr> \<and> length t = length (sx_tlv st) \<and>
      mint_ok zk t \<and> pooled_in t = pooled_in (sx_tlv st)" using assms(4) by metis
qed

lemma other_mint_settled:
  assumes "sound22 native zk pid led" and "unpack_mint (acc_data (led k)) = Inr st"
    and "get_extension_mut zk Mint_base V st = Inr (off, c, st1)"
    and "stored_extension zk Mint_base V" and "ext_type V \<noteq> Ext_TransferFeeConfig"
    and "ext_type V = Ext_DefaultAccountState \<Longrightarrow> pod_decode DefaultAccountState_ext (pod_encode V c') \<noteq> 0"
  shows "settled native zk pid led (store_state k (sx_store V off c' st1) led)"
proof (rule store_mint_settled [OF assms(1,2)])
  assume "acc_owner (led k) = pid"
  from other_mint_put [OF assms(4,5) sound22_tlv(2) [OF assms(1) this assms(2)] assms(3,6)]
  show "\<exists>t. sx_store V off c' st1 = st\<lparr>sx_tlv := t\<rparr> \<and> length t = length (sx_tlv st) \<and>
      mint_ok zk t \<and> pooled_in t = pooled_in (sx_tlv st)" by metis
qed

lemma set_fee_authority_settled:
  assumes "sound22 native (env_zk E) pid led" and "unpack_mint (info_data led i) = Inr st"
    and "set_extension_authority E p led TransferFeeConfig_ext f upd st a auth signers = Inr st'"
    and "\<And>k c. tfc_withheld_amount (upd k c) = tfc_withheld_amount c"
  shows "settled native (env_zk E) pid led (store_state (ai_key i) st' led)"
proof -
  from assms(3) obtain off c st1 k where
    "get_extension_mut (env_zk E) Mint_base TransferFeeConfig_ext st = Inr (off, c, st1)"
    and "st' = sx_store TransferFeeConfig_ext off (upd k c) st1"
    unfolding set_extension_authority_def by (elim peel22) blast
  then show ?thesis using fee_config_settled [OF assms(1,2)] assms(4) by simp
qed

lemma set_other_authority_settled:
  assumes "sound22 native (env_zk E) pid led" and "unpack_mint (info_data led i) = Inr st"
    and "set_extension_authority E p led V f upd st a auth signers = Inr st'"
    and "stored_extension (env_zk E) Mint_base V" and "ext_type V \<noteq> Ext_TransferFeeConfig"
    and "ext_type V \<noteq> Ext_DefaultAccountState"
  shows "settled native (env_zk E) pid led (store_state (ai_key i) st' led)"
proof -
  from assms(3) obtain off c st1 k where "get_extension_mut (env_zk E) Mint_base V st = Inr (off, c, st1)"
    and "st' = sx_store V off (upd k c) st1"
    unfolding set_extension_authority_def by (elim peel22) blast
  then show ?thesis using other_mint_settled [OF assms(1,2) _ assms(4,5)] assms(6) by simp
qed

lemma set_mint_authority_settled:
  assumes "sound22 native (env_zk E) pid led" and "unpack_mint (info_data led i) = Inr st"
    and "set_mint_authority22 E p led st t a auth signers = Inr st'"
  shows "settled native (env_zk E) pid led (store_state (ai_key i) st' led)"
proof (cases t)
  case Auth_MintTokens
  with assms(3) have "pack_base Mint_base (st\<lparr>sx_base := (sx_base st)\<lparr>mint_authority := a\<rparr>\<rparr>) = Inr st'"
    by (auto simp: set_mint_authority22_def res_simps)
  then show ?thesis using save_same_mint [OF assms(1,2)] unpack_mint_initialized [OF assms(2)] by simp
next
  case Auth_FreezeAccount
  with assms(3) have "pack_base Mint_base (st\<lparr>sx_base := (sx_base st)\<lparr>mint_freeze_authority := a\<rparr>\<rparr>) = Inr st'"
    by (auto simp: set_mint_authority22_def res_simps)
  then show ?thesis using save_same_mint [OF assms(1,2)] unpack_mint_initialized [OF assms(2)] by simp
next
  case Auth_TransferFeeConfig
  note s = assms(3) [unfolded set_mint_authority22_def Auth_TransferFeeConfig AuthorityType22.case]
  show ?thesis by (rule set_fee_authority_settled [OF assms(1,2) s]) simp
next
  case Auth_WithheldWithdraw
  note s = assms(3) [unfolded set_mint_authority22_def Auth_WithheldWithdraw AuthorityType22.case]
  show ?thesis by (rule set_fee_authority_settled [OF assms(1,2) s]) simp
next
  case Auth_CloseMint
  with assms(3) show ?thesis
    by (intro set_other_authority_settled [OF assms(1,2)])
      (auto simp: set_mint_authority22_def intro: mint_close.stored_extension_axioms)
next
  case Auth_InterestRate
  with assms(3) show ?thesis
    by (intro set_other_authority_settled [OF assms(1,2)])
      (auto simp: set_mint_authority22_def intro: interest.stored_extension_axioms)
qed (use assms(3) in \<open>simp_all add: set_mint_authority22_def\<close>)

lemma set_authority_settled:
  assumes "sound22 native (env_zk E) pid led" and "process_set_authority22 E p accounts t a led = Inr led'"
  shows "settled native (env_zk E) pid led led'"
proof -
  from assms(2) consider
    (account) i st auth signers b where "unpack_account (info_data led i) = Inr st"
      "set_account_authority22 E p led st t a auth signers = Inr b" "save_account i st b led = Inr led'"
  | (mint) i st auth signers st' where "unpack_mint (info_data led i) = Inr st"
      "set_mint_authority22 E p led st t a auth signers = Inr st'" "led' = store_state (ai_key i) st' led"
    unfolding process_set_authority22_def
    by (elim peel_infos) (auto simp: res_simps split: option.splits)
  then show ?thesis
  proof cases
    case account
    show ?thesis
      by (rule save_same_account [OF assms(1) account(1,3)])
        (use set_account_authority22_Inr [OF account(2)] unpack_account_initialized [OF account(1)]
         in \<open>simp_all add: account_is_initialized_def\<close>)
  next
    case mint
    then show ?thesis using set_mint_authority_settled [OF assms(1)] by simp
  qed
qed

lemma if_update_withheld: "tfc_withheld_amount ((if b then c\<lparr>tfc_older := f\<rparr> else c)\<lparr>tfc_newer := g\<rparr>) = tfc_withheld_amount c"
  by simp

lemma set_transfer_fee_settled:
  assumes "sound22 native (env_zk E) pid led" and "process_set_transfer_fee E p accounts b m led = Inr led'"
  shows "settled native (env_zk E) pid led led'"
proof -
  from assms(2) obtain i st off c st1 c' where u: "unpack_mint (info_data led i) = Inr st"
    and g: "get_extension_mut (env_zk E) Mint_base TransferFeeConfig_ext st = Inr (off, c, st1)"
    and c': "tfc_withheld_amount c' = tfc_withheld_amount c"
    and led': "led' = store_state (ai_key i) (sx_store TransferFeeConfig_ext off c' st1) led"
    unfolding process_set_transfer_fee_def Let_def by (elim peel22 Inr_eqE) (rule that, assumption, assumption, rule if_update_withheld, erule sym)
  show ?thesis unfolding led' by (rule fee_config_settled [OF assms(1) u g c'])
qed

lemma update_rate_settled:
  assumes "sound22 native (env_zk E) pid led" and "process_update_rate E p accounts r led = Inr led'"
  shows "settled native (env_zk E) pid led led'"
proof -
  from assms(2) obtain i st off c st1 c' where u: "unpack_mint (info_data led i) = Inr st"
    and g: "get_extension_mut (env_zk E) Mint_base InterestBearingConfig_ext st = Inr (off, c, st1)"
    and led': "led' = store_state (ai_key i) (sx_store InterestBearingConfig_ext off c' st1) led"
    unfolding process_update_rate_def Let_def by (elim peel22) blast
  show ?thesis unfolding led'
    by (rule other_mint_settled [OF assms(1) u g interest.stored_extension_axioms]) simp_all
qed

lemma default_state_byte:
  "check_valid_default_state s = Inr u \<Longrightarrow>
   pod_decode DefaultAccountState_ext (pod_encode DefaultAccountState_ext (AccountState_byte s)) \<noteq> 0"
  by (cases s) (auto simp: check_valid_default_state_def default_state.decode_encode AccountState_byte_def)

lemma update_default_state_settled:
  assumes "sound22 native (env_zk E) pid led" and "process_update_default_account_state E p accounts s led = Inr led'"
  shows "settled native (env_zk E) pid led led'"
proof -
  from assms(2) obtain u i st off c st1 where s: "check_valid_default_state s = Inr u"
    and u: "unpack_mint (info_data led i) = Inr st"
    and g: "get_extension_mut (env_zk E) Mint_base DefaultAccountState_ext st = Inr (off, c, st1)"
    and led': "led' = store_state (ai_key i) (sx_store DefaultAccountState_ext off (AccountState_byte s) st1) led"
    unfolding process_update_default_account_state_def by (elim peel22) blast
  show ?thesis unfolding led'
    by (rule other_mint_settled [OF assms(1) u g default_state.stored_extension_axioms])
      (use default_state_byte [OF s] in simp_all)
qed

lemma found_or_initialized:
  "catch g = Inr found \<Longrightarrow> (case found of Some x \<Rightarrow> Inr x | None \<Rightarrow> n) = Inr r \<Longrightarrow> g = Inr r \<or> n = Inr r"
  by (auto simp: catch_Some split: option.splits)

lemma set_memos_settled:
  assumes "sound22 native (env_zk E) pid led" and "set_required_memos E f p accounts led = Inr led'"
  shows "settled native (env_zk E) pid led led'"
proof -
  from assms(2) obtain i st off v st1 where u: "unpack_account (info_data led i) = Inr st"
    and g: "get_extension_mut (env_zk E) Account_base MemoTransfer_ext st = Inr (off, v, st1) \<or>
      init_extension (env_zk E) Account_base MemoTransfer_ext st = Inr (off, v, st1)"
    and led': "led' = store_state (ai_key i) (sx_store MemoTransfer_ext off (PodBool_from f) st1) led"
    unfolding set_required_memos_def
    by (elim peel22 Inr_eqE) (rule that, assumption, rule found_or_initialized, assumption, assumption, erule sym)
  let ?st' = "sx_store MemoTransfer_ext off (PodBool_from f) st1"
  have "\<exists>t. ?st' = st\<lparr>sx_tlv := t\<rparr> \<and> length t = length (sx_tlv st) \<and>
      tlv_ok (env_zk E) AccountType_Account t \<and> int (unat (withheld_in t)) = int (unat (withheld_in (sx_tlv st))) + 0"
    if o: "info_owner led i = pid"
  proof -
    note t = sound22_tlv(1) [OF assms(1) o u]
    have ne: "ext_type MemoTransfer_ext \<noteq> Ext_TransferFeeAmount" by simp
    show ?thesis
      using g other_account_put [OF memo_transfer.stored_extension_axioms ne t, of off v st1 "PodBool_from f"]
        other_account_init [OF memo_transfer.stored_extension_axioms ne t, of off v st1 "PodBool_from f"]
      by (elim disjE) (metis add.right_neutral)+
  qed
  from store_account_keeps [OF assms(1) u this] show ?thesis by (simp add: settled_def led')
qed

end
