(* ===== verification/Token22_Start.thy ===== *)
theory Token22_Start
  imports Token22_Steps
begin

text \<open>
  Initialisation.  Extensions are written into a blank buffer before it becomes a mint or an
  account; a blank buffer holds no tokens and no withheld fees, and neither does what it becomes.
\<close>

section \<open>Blank buffers\<close>

lemma fresh_update:
  assumes "fresh es" and "map_of es' = (map_of es)(ty \<mapsto> b)" and "ty \<noteq> Ext_TransferFeeAmount"
    and "ty = Ext_TransferFeeConfig \<Longrightarrow> tfc_withheld_amount (pod_decode TransferFeeConfig_ext b) = 0"
    and "ty = Ext_DefaultAccountState \<Longrightarrow> pod_decode DefaultAccountState_ext b \<noteq> 0"
  shows "fresh es'"
  using assms by (auto simp: fresh_def starts_accounts_def)

context extensible_state
begin

lemma open_blank:
  assumes "blank zk data" and "StateWithExtensionsMut_unpack_uninitialized S data = Inr st"
  obtains es z where "sx_tlv st = tlv_image es z" and "entries_ok zk (bs_account_type S) es" and "fresh es"
proof (cases "sx_tlv st = []")
  case True
  then show thesis using that [of "[]" 0] by (simp add: tlv_image_def entries_ok_def fresh_def starts_accounts_def)
next
  case False
  with uninitialized_lengths [OF assms(2)] have d: "drop (ACCOUNT_LEN + 1) data = sx_tlv st" by auto
  with assms(1) obtain at es z where t: "sx_tlv st = tlv_image es z" and ok: "entries_ok zk at es" and f: "fresh es"
    unfolding blank_def by auto
  have "entries_ok zk (bs_account_type S) es"
  proof (cases es)
    case Nil
    then show ?thesis by (simp add: entries_ok_def)
  next
    case (Cons e es')
    then have "get_first_extension_type (sx_tlv st) = Inr (Some (fst e))"
      using get_first_extension_type_image [OF ok, of z] by (simp add: t)
    from uninitialized_first [OF assms(2) False this] have "get_account_type (fst e) = bs_account_type S" .
    moreover have "get_account_type (fst e) = at" using ok Cons by (simp add: entries_ok_def entry_ok_def)
    ultimately show ?thesis using ok by simp
  qed
  then show thesis using that t f by blast
qed

lemma keeps_blank:
  assumes "blank zk data" and "StateWithExtensionsMut_unpack_uninitialized S data = Inr st"
    and "length (tlv_image es z) = length (sx_tlv st)" and "entries_ok zk at es" and "fresh es"
  shows "blank zk (sx_bytes (st\<lparr>sx_tlv := tlv_image es z\<rparr>))"
proof (cases "sx_tlv st = []")
  case True
  then show ?thesis using uninitialized_tlv(3) [OF assms(2,3)] assms(1) by simp
next
  case False
  then show ?thesis
    using uninitialized_tlv(1,2) [OF assms(2,3)] assms(1,4,5) unfolding blank_def by auto
qed

end

text \<open>Writing one extension into a blank buffer.\<close>

definition fresh_value :: "'v extension \<Rightarrow> 'v \<Rightarrow> bool" where
  "fresh_value V w \<longleftrightarrow> ext_type V \<noteq> Ext_TransferFeeAmount \<and>
     (ext_type V = Ext_TransferFeeConfig \<longrightarrow> tfc_withheld_amount (pod_decode TransferFeeConfig_ext (pod_encode V w)) = 0) \<and>
     (ext_type V = Ext_DefaultAccountState \<longrightarrow> pod_decode DefaultAccountState_ext (pod_encode V w) \<noteq> 0)"

lemma init_blank:
  assumes "extensible_state S" and "stored_extension zk S V" and "blank zk data"
    and "StateWithExtensionsMut_unpack_uninitialized S data = Inr st"
    and "init_extension zk S V st = Inr (off, v, st1)"
  shows "fresh_value V (ext_default V) \<Longrightarrow> blank zk (sx_bytes st1)"
    and "fresh_value V w \<Longrightarrow> blank zk (sx_bytes (sx_store V off w st1))"
proof -
  obtain es z where t: "sx_tlv st = tlv_image es z" and ok: "entries_ok zk (bs_account_type S) es" and f: "fresh es"
    by (rule extensible_state.open_blank [OF assms(1,3,4)])
  obtain es' z' where "v = ext_default V" and st1: "st1 = st\<lparr>sx_tlv := tlv_image es' z'\<rparr>"
    and ok': "entries_ok zk (bs_account_type S) es'"
    and m: "map_of es' = (map_of es)(ext_type V \<mapsto> pod_encode V (ext_default V))"
    and l: "length (tlv_image es' z') = length (sx_tlv st)"
    and s: "\<And>w. sx_store V off w st1 = st\<lparr>sx_tlv := tlv_image (entries_put (ext_type V) (pod_encode V w) es') z'\<rparr>"
    and mw: "\<And>w. map_of (entries_put (ext_type V) (pod_encode V w) es') = (map_of es)(ext_type V \<mapsto> pod_encode V w)"
    by (rule stored_extension.init_spec [OF assms(2) t ok assms(5)]) (rule that)
  note keep = extensible_state.keeps_blank [OF assms(1,3,4)]
  note put = stored_extension.put_keeps [OF assms(2) ok']
  show "blank zk (sx_bytes st1)" if "fresh_value V (ext_default V)"
    unfolding st1 by (rule keep [OF l ok' fresh_update [OF f m]]) (use that in \<open>auto simp: fresh_value_def\<close>)
  show "blank zk (sx_bytes (sx_store V off w st1))" if "fresh_value V w"
    unfolding s by (rule keep [OF _ put(3) fresh_update [OF f mw]]) (use put(1) l that in \<open>auto simp: fresh_value_def\<close>)
qed

lemma store_blank_settled:
  assumes "sound22 native zk pid led"
    and "acc_owner (led k) = pid \<Longrightarrow> blank zk (acc_data (led k)) \<and> blank zk (sx_bytes st')"
  shows "settled native zk pid led (store_state k st' led)"
proof (cases "acc_owner (led k) = pid")
  case True
  then have b: "blank zk (acc_data (led k))" "blank zk (sx_bytes st')" using assms(2) by blast+
  show ?thesis using write_blank [OF assms(1) b(2)] by (simp add: settled_def store_state_def weight_blank [OF b(1)])
qed (simp add: settled_def store_state_def write_foreign assms(1))

lemma init_mint_settled:
  assumes "sound22 native zk pid led" and "stored_extension zk Mint_base V"
    and "StateWithExtensionsMut_unpack_uninitialized Mint_base (acc_data (led k)) = Inr st"
    and "init_extension zk Mint_base V st = Inr (off, v, st1)"
  shows "fresh_value V (ext_default V) \<Longrightarrow> settled native zk pid led (store_state k st1 led)"
    and "fresh_value V w \<Longrightarrow> settled native zk pid led (store_state k (sx_store V off w st1) led)"
proof -
  have b: "blank zk (acc_data (led k))" if "acc_owner (led k) = pid"
    using uninitialized_mint_blank [OF sound22_buffer [OF assms(1) that] assms(3)] .
  note i = init_blank [OF mint_state.extensible_state_axioms assms(2) b assms(3-4)]
  show "settled native zk pid led (store_state k st1 led)" if "fresh_value V (ext_default V)"
    using i(1) b that by (intro store_blank_settled [OF assms(1)]) blast
  show "settled native zk pid led (store_state k (sx_store V off w st1) led)" if "fresh_value V w"
    using i(2) b that by (intro store_blank_settled [OF assms(1)]) blast
qed

lemma fresh_value_simps [simp]:
  "fresh_value TransferFeeConfig_ext c = (tfc_withheld_amount c = 0)"
  "fresh_value DefaultAccountState_ext s = (s \<noteq> 0)"
  "fresh_value MintCloseAuthority_ext k" "fresh_value InterestBearingConfig_ext i"
  "fresh_value NonTransferable_ext x" "fresh_value ImmutableOwner_ext y"
  by (simp_all add: fresh_value_def fee_config.decode_encode default_state.decode_encode)

lemma initialize_fee_config_settled:
  assumes "sound22 native (env_zk E) pid led"
    and "process_initialize_transfer_fee_config E accounts ca wa b m led = Inr led'"
  shows "settled native (env_zk E) pid led led'"
proof -
  from assms(2) obtain i st off c st1 c' where
    u: "StateWithExtensionsMut_unpack_uninitialized Mint_base (info_data led i) = Inr st"
    and g: "init_extension (env_zk E) Mint_base TransferFeeConfig_ext st = Inr (off, c, st1)"
    and led': "led' = store_state (ai_key i) (sx_store TransferFeeConfig_ext off c' st1) led"
    and c': "tfc_withheld_amount c' = 0"
    unfolding process_initialize_transfer_fee_config_def Let_def
    by (elim peel22 Inr_eqE) (rule that, assumption, assumption, erule sym, simp)
  show ?thesis unfolding led'
    by (rule init_mint_settled(2) [OF assms(1) fee_config.stored_extension_axioms u g]) (simp add: c')
qed

lemma initialize_close_authority_settled:
  assumes "sound22 native (env_zk E) pid led"
    and "process_initialize_mint_close_authority E accounts a led = Inr led'"
  shows "settled native (env_zk E) pid led led'"
proof -
  from assms(2) obtain i st off c st1 c' where
    u: "StateWithExtensionsMut_unpack_uninitialized Mint_base (info_data led i) = Inr st"
    and g: "init_extension (env_zk E) Mint_base MintCloseAuthority_ext st = Inr (off, c, st1)"
    and led': "led' = store_state (ai_key i) (sx_store MintCloseAuthority_ext off c' st1) led"
    unfolding process_initialize_mint_close_authority_def by (elim peel22) blast
  show ?thesis unfolding led' by (rule init_mint_settled(2) [OF assms(1) mint_close.stored_extension_axioms u g]) simp
qed

lemma initialize_interest_settled:
  assumes "sound22 native (env_zk E) pid led" and "process_initialize_interest E accounts a r led = Inr led'"
  shows "settled native (env_zk E) pid led led'"
proof -
  from assms(2) obtain i st off c st1 c' where
    u: "StateWithExtensionsMut_unpack_uninitialized Mint_base (info_data led i) = Inr st"
    and g: "init_extension (env_zk E) Mint_base InterestBearingConfig_ext st = Inr (off, c, st1)"
    and led': "led' = store_state (ai_key i) (sx_store InterestBearingConfig_ext off c' st1) led"
    unfolding process_initialize_interest_def Let_def by (elim peel22) blast
  show ?thesis unfolding led' by (rule init_mint_settled(2) [OF assms(1) interest.stored_extension_axioms u g]) simp
qed

lemma initialize_default_state_settled:
  assumes "sound22 native (env_zk E) pid led" and "process_initialize_default_account_state E accounts s led = Inr led'"
  shows "settled native (env_zk E) pid led led'"
proof -
  from assms(2) obtain x i st off c st1 where s: "check_valid_default_state s = Inr x"
    and u: "StateWithExtensionsMut_unpack_uninitialized Mint_base (info_data led i) = Inr st"
    and g: "init_extension (env_zk E) Mint_base DefaultAccountState_ext st = Inr (off, c, st1)"
    and led': "led' = store_state (ai_key i) (sx_store DefaultAccountState_ext off (AccountState_byte s) st1) led"
    unfolding process_initialize_default_account_state_def by (elim peel22) blast
  show ?thesis unfolding led'
    by (rule init_mint_settled(2) [OF assms(1) default_state.stored_extension_axioms u g])
      (use default_state_byte [OF s] in \<open>simp add: default_state.decode_encode\<close>)
qed

lemma initialize_non_transferable_settled:
  assumes "sound22 native (env_zk E) pid led" and "process_initialize_non_transferable_mint E accounts led = Inr led'"
  shows "settled native (env_zk E) pid led led'"
proof -
  from assms(2) obtain i st off c st1 where
    u: "StateWithExtensionsMut_unpack_uninitialized Mint_base (info_data led i) = Inr st"
    and g: "init_extension (env_zk E) Mint_base NonTransferable_ext st = Inr (off, c, st1)"
    and led': "led' = store_state (ai_key i) st1 led"
    unfolding process_initialize_non_transferable_mint_def by (elim peel22) blast
  show ?thesis unfolding led'
    by (rule init_mint_settled(1) [OF assms(1) non_transferable.stored_extension_axioms u g]) simp
qed

lemma initialize_immutable_owner_settled:
  assumes "sound22 native (env_zk E) pid led" and "process_initialize_immutable_owner22 E accounts led = Inr led'"
  shows "settled native (env_zk E) pid led led'"
proof -
  from assms(2) obtain i st off c st1 where
    u: "StateWithExtensionsMut_unpack_uninitialized Account_base (info_data led i) = Inr st"
    and g: "init_extension (env_zk E) Account_base ImmutableOwner_ext st = Inr (off, c, st1)"
    and led': "led' = store_state (ai_key i) st1 led"
    unfolding process_initialize_immutable_owner22_def by (elim peel22) blast
  have b: "blank (env_zk E) (info_data led i)" if "info_owner led i = pid"
    using uninitialized_account_blank [OF sound22_buffer [OF assms(1) that] u] .
  have "blank (env_zk E) (sx_bytes st1)" if "info_owner led i = pid"
    by (rule init_blank(1) [OF account_state.extensible_state_axioms immutable_owner.stored_extension_axioms b u g])
      (use that in simp_all)
  then show ?thesis unfolding led' using b by (intro store_blank_settled [OF assms(1)]) blast
qed

section \<open>Mints, accounts and multisignature accounts\<close>

lemma Mint_zero_supply:
  assumes "Mint_unpack_from_slice bs = Inr v" and "\<forall>b \<in> set bs. b = 0"
  shows "mint_supply v = 0"
proof -
  have "from_le_bytes (take 8 (drop 36 bs)) = (0 :: u64)"
    by (rule from_zero_bytes) (meson assms(2) in_set_takeD in_set_dropD)
  then show ?thesis using assms(1) by (auto simp: Mint_unpack_from_slice_def res_simps subslice_def)
qed

lemma new_mint_settled:
  assumes "sound22 native zk pid led"
    and u: "StateWithExtensionsMut_unpack_uninitialized Mint_base (acc_data (led k)) = Inr st"
    and p: "pack_base Mint_base (st\<lparr>sx_base := b\<rparr>) = Inr st2" and i: "init_account_type Mint_base st2 = Inr st3"
    and b: "mint_is_initialized b" "mint_supply b = mint_supply (sx_base st)"
  shows "settled native zk pid led (store_state k st3 led)"
proof (cases "acc_owner (led k) = pid")
  case True
  note bl = uninitialized_mint_blank [OF sound22_buffer [OF assms(1) True] u]
  obtain es z where t: "sx_tlv st = tlv_image es z" and ok: "entries_ok zk AccountType_Mint es" and f: "fresh es"
    using mint_state.open_blank [OF bl u] by auto
  have p': "pack_base Mint_base (st\<lparr>sx_base := b, sx_tlv := sx_tlv st\<rparr>) = Inr st2" using p by simp
  note n = mint_state.initialized [OF u refl p' i, unfolded base_sel, OF b(1)]
  have "\<forall>b \<in> set (sx_base_data st). b = 0"
    using bl mint_state.uninitialized_parts(2) [OF u] set_take_subset_set_take [of MINT_LEN "ACCOUNT_LEN + 1" "acc_data (led k)"]
    unfolding blank_def by auto
  then have "mint_supply b = 0" using Mint_zero_supply mint_state.uninitialized_Inr(3) [OF u] b(2) by simp
  moreover have "pooled_in (sx_tlv st) = 0" using f by (auto simp: t pooled_image [OF ok] fresh_def split: option.split)
  ultimately have "surplus st3 = 0" using n by (simp add: surplus_def)
  moreover have "mint_ok zk (sx_tlv st3)" using f n(3) by (simp add: t mint_ok_image [OF ok] fresh_def)
  ultimately show ?thesis
    using write_mint [OF assms(1) True n(1)] weight_blank [OF bl] by (simp add: settled_def store_state_def)
qed (simp add: settled_def store_state_def write_foreign assms(1))

lemma initialize_mint_settled:
  assumes "sound22 native (env_zk E) pid led" and "process_initialize_mint22_inner E accounts d a fr rsa led = Inr led'"
  shows "settled native (env_zk E) pid led led'"
proof -
  from assms(2) obtain i st b st2 st3 where
    u: "StateWithExtensionsMut_unpack_uninitialized Mint_base (info_data led i) = Inr st"
    and p: "pack_base Mint_base (st\<lparr>sx_base := b\<rparr>) = Inr st2" and t: "init_account_type Mint_base st2 = Inr st3"
    and led': "led' = store_state (ai_key i) st3 led"
    and b: "mint_is_initialized b" "mint_supply b = mint_supply (sx_base st)"
    unfolding process_initialize_mint22_inner_def
    by (elim peel22 Inr_eqE) (rule that, assumption, assumption, assumption, erule sym, simp_all)
  show ?thesis unfolding led' by (rule new_mint_settled [OF assms(1) u p t b])
qed

text \<open>The extensions a mint requires of its accounts start with nothing withheld.\<close>

lemma init_required:
  assumes "init_required_extensions zk ts st = Inr st'" and "tlv_ok zk AccountType_Account (sx_tlv st)"
    and "withheld_in (sx_tlv st) = 0"
  shows "\<exists>t. st' = st\<lparr>sx_tlv := t\<rparr> \<and> length t = length (sx_tlv st) \<and> tlv_ok zk AccountType_Account t \<and> withheld_in t = 0"
  using assms
proof (induction ts arbitrary: st)
  case Nil
  then show ?case by (intro exI [of _ "sx_tlv st"]) auto
next
  case (Cons x ts)
  then obtain st1 where one: "init_account_extension_from_type zk x st = Inr st1"
    and rest: "init_required_extensions zk ts st1 = Inr st'" by (auto simp: attempt_eq_Inr)
  have "\<exists>t. st1 = st\<lparr>sx_tlv := t\<rparr> \<and> length t = length (sx_tlv st) \<and> tlv_ok zk AccountType_Account t \<and> withheld_in t = 0"
  proof (cases "st1 = st")
    case True
    then show ?thesis using Cons.prems by (intro exI [of _ "sx_tlv st"]) auto
  next
    case False
    then obtain off v where "init_extension zk Account_base TransferFeeAmount_ext st = Inr (off, v, st1)"
      using one by (auto simp: init_account_extension_from_type_def attempt_eq_Inr split: if_splits ExtensionType.splits)
    moreover from Cons.prems(2) obtain es z where t: "sx_tlv st = tlv_image es z" and es: "entries_ok zk AccountType_Account es"
      unfolding tlv_ok_def by blast
    ultimately obtain es' z' where s: "st1 = st\<lparr>sx_tlv := tlv_image es' z'\<rparr>" and ok: "entries_ok zk AccountType_Account es'"
      and m: "map_of es' = (map_of es)(Ext_TransferFeeAmount \<mapsto> pod_encode TransferFeeAmount_ext (ext_default TransferFeeAmount_ext))"
      and l: "length (tlv_image es' z') = length (sx_tlv st)"
      using fee_amount.init_spec [OF t _ \<open>init_extension zk Account_base TransferFeeAmount_ext st = Inr (off, v, st1)\<close>]
      by (simp only: base_sel ext_type_simps) blast
    have "withheld_in (tlv_image es' z') = 0" by (simp add: withheld_image [OF ok] m) (simp add: TransferFeeAmount_ext_def)
    then show ?thesis using s l ok unfolding tlv_ok_def by blast
  qed
  then obtain t where t: "st1 = st\<lparr>sx_tlv := t\<rparr>" "length t = length (sx_tlv st)" "tlv_ok zk AccountType_Account t"
    "withheld_in t = 0" by blast
  with Cons.IH [OF rest] show ?case by auto
qed

lemma new_account_settled:
  assumes "sound22 native zk pid led"
    and u: "StateWithExtensionsMut_unpack_uninitialized Account_base (acc_data (led k)) = Inr st"
    and r: "init_required_extensions zk ts st = Inr st1"
    and p: "pack_base Account_base (st1\<lparr>sx_base := b\<rparr>) = Inr st2" and i: "init_account_type Account_base st2 = Inr st3"
    and b: "account_is_initialized b" "ta_mint b = native \<or> ta_amount b = 0 \<and> ta_is_native b = None"
  shows "settled native zk pid led (store_state k st3 led)"
proof (cases "acc_owner (led k) = pid")
  case True
  note bl = uninitialized_account_blank [OF sound22_buffer [OF assms(1) True] u]
  obtain es z where t: "sx_tlv st = tlv_image es z" and ok: "entries_ok zk AccountType_Account es" and f: "fresh es"
    using account_state.open_blank [OF bl u] by auto
  have "tlv_ok zk AccountType_Account (sx_tlv st)" unfolding tlv_ok_def using t ok by blast
  moreover have "withheld_in (sx_tlv st) = 0" using f by (simp add: t withheld_image [OF ok] fresh_def)
  ultimately obtain t' where t': "st1 = st\<lparr>sx_tlv := t'\<rparr>" "length t' = length (sx_tlv st)"
    "tlv_ok zk AccountType_Account t'" "withheld_in t' = 0"
    using init_required [OF r] by blast
  have p': "pack_base Account_base (st\<lparr>sx_base := b, sx_tlv := t'\<rparr>) = Inr st2" using p by (cases st) (simp add: t'(1))
  note n = account_state.initialized [OF u t'(2) p' i, unfolded base_sel, OF b(1)]
  have "worth m st3 = 0" if "m \<noteq> native" for m using b(2) that n t'(4) by (auto simp: worth_def)
  moreover have "tlv_ok zk AccountType_Account (sx_tlv st3)" using t'(3) n(3) by simp
  moreover have "is_native (sx_base st3) \<Longrightarrow> ta_mint (sx_base st3) = native" using b(2) n(2) by (auto simp: is_native_def)
  ultimately show ?thesis
    using write_account [OF assms(1) True n(1)] weight_blank [OF bl] by (simp add: settled_def store_state_def)
qed (simp add: settled_def store_state_def write_foreign assms(1))

text \<open>The mint was checked to be the program's, so its default state starts an account.\<close>

lemma starting_state_initialized:
  assumes "sound22 native zk pid led" and "acc_owner (led k) = pid" and "view_mint (acc_data (led k)) = Inr v"
    and "starting_state v = Inr s"
  shows "s \<noteq> Uninitialized"
proof -
  from assms(3) obtain st where u: "unpack_mint (acc_data (led k)) = Inr st" and v: "sv_tlv v = sx_tlv st"
    by (auto simp: mint_state.view_unpack attempt_eq_Inr)
  have ok: "mint_ok zk (sx_tlv st)" by (rule sound22_tlv(2) [OF assms(1,2) u])
  from assms(4) show ?thesis
  proof (cases "sv_get_extension Mint_base v DefaultAccountState_ext")
    case (Inr x)
    then have "x \<noteq> 0" using ok by (auto simp: mint_ok_def sv_get_extension_def v)
    with Inr assms(4) show ?thesis
      by (auto simp: starting_state_def catch_def AccountState_try_from_primitive_def ok_or_eq_Inr split: if_splits)
  qed (auto simp: starting_state_def catch_def split: if_splits)
qed

lemma new_base:
  "(if cmp_pubkeys k native
    then attempt (ok_or x e) (\<lambda>n. Inr (b\<lparr>ta_is_native := Some r, ta_amount := n\<rparr>))
    else Inr (b\<lparr>ta_is_native := None, ta_amount := 0\<rparr>)) = Inr b' \<Longrightarrow> ta_mint b = k \<Longrightarrow> ta_state b = s \<Longrightarrow>
   ta_mint b' = k \<and> ta_state b' = s \<and> (ta_mint b' = native \<or> ta_amount b' = 0 \<and> ta_is_native b' = None)"
  by (auto simp: res_simps cmp_pubkeys_def split: if_splits)

lemma initialize_account_settled:
  assumes "sound22 (native_mint22_id (env_rt E)) (env_zk E) pid led" and "pid = token22_program_id (env_rt E)"
    and "process_initialize_account22_inner E accounts ow rsa led = Inr led'"
  shows "settled (native_mint22_id (env_rt E)) (env_zk E) pid led led'"
proof -
  let ?native = "native_mint22_id (env_rt E)"
  from assms(3) obtain i mi st v ts st1 s b st2 st3 where
    u: "StateWithExtensionsMut_unpack_uninitialized Account_base (info_data led i) = Inr st"
    and v: "view_mint (info_data led mi) = Inr v"
    and q: "get_required_account_extensions_from_unpacked_mint E (info_owner led mi) v = Inr ts"
    and r: "init_required_extensions (env_zk E) ts st = Inr st1"
    and s: "starting_state v = Inr s"
    and b: "ta_mint b = ai_key mi \<and> ta_state b = s \<and> (ta_mint b = ?native \<or> ta_amount b = 0 \<and> ta_is_native b = None)"
    and p: "pack_base Account_base (st1\<lparr>sx_base := b\<rparr>) = Inr st2" and t: "init_account_type Account_base st2 = Inr st3"
    and led': "led' = store_state (ai_key i) st3 led"
    unfolding process_initialize_account22_inner_def Let_def
    by (elim peel22 Inr_eqE)
      (rule that, assumption, simp only: map_error_Inr, assumption, assumption, assumption,
       rule new_base, assumption, simp, simp, assumption, assumption, erule sym)
  have "info_owner led mi = pid"
    using q assms(2) by (auto simp: get_required_account_extensions_from_unpacked_mint_def res_simps)
  from starting_state_initialized [OF assms(1) this v s] have "s \<noteq> Uninitialized" .
  then have "account_is_initialized b" using b by (simp add: account_is_initialized_def)
  then show ?thesis unfolding led' by (rule new_account_settled [OF assms(1) u r p t]) (use b in blast)
qed

lemma multisig_weightless:
  assumes "length (acc_data a) = MULTISIG_LEN"
  shows "weight pid m k a = 0"
  by (rule weight_neither) (use assms account_state.unpack_parts(1) mint_state.unpack_parts(1) in blast)+

lemma initialize_multisig_settled:
  assumes "sound22 native zk pid led" and "process_initialize_multisig_inner R accounts m rsa led = Inr led'"
  shows "settled native zk pid led led'"
proof -
  from assms(2) obtain k v where p: "Multisig_pack v k led = Inr led'" and wf: "multisig_wf v"
    by (rule process_initialize_multisig_Inr)
  then have l: "length (acc_data (led k)) = MULTISIG_LEN"
    by (auto simp: Multisig_pack_def pack_to_ledger_def Pack_pack_def attempt_eq_Inr split: if_splits)
  define bs where "bs = Multisig_over v (acc_data (led k))"
  have led': "led' = set_data k bs led" and n: "length bs = MULTISIG_LEN"
    using p l wf by (simp_all add: bs_def)
  have "sound22 native zk pid led'" unfolding led'
    using n account_state.unpack_parts(1) by (intro sound22_set [OF assms(1)]) (auto simp: buffer_ok_def)
  moreover have "gap pid m' led' = gap pid m' led" for m'
    unfolding led' gap_set_data by (simp add: multisig_weightless l n)
  ultimately show ?thesis by (simp add: settled_def)
qed

end
