(* ===== verification/Token22_Moves.thy ===== *)
theory Token22_Moves
  imports Token22_Start
begin

text \<open>
  Handlers that move tokens: minting, burning, transfers with their fee, closing.
\<close>

section \<open>Minting and burning\<close>

lemma save_mint_other:
  assumes "save_mint i st b led = Inr led'" and "k \<noteq> ai_key i"
  shows "led' k = led k"
  using assms by (auto simp: save_mint_def attempt_eq_Inr store_state_def set_data_other)

lemma save_account_other:
  assumes "save_account i st b led = Inr led'" and "k \<noteq> ai_key i"
  shows "led' k = led k"
  using assms by (auto simp: save_account_def attempt_eq_Inr store_state_def set_data_other)

lemma mint_to_settled:
  assumes "sound22 native zk pid led" and "pid = token22_program_id (env_rt E)"
    and "process_mint_to22 E p accounts amt ed led = Inr led'"
  shows "settled native zk pid led led'"
proof -
  from assms(3) obtain mi di mint dest u u' n s led1 where dest: "unpack_account (info_data led di) = Inr dest"
    and ne: "\<not> ai_key mi = ai_key di" and mint: "unpack_mint (info_data led mi) = Inr mint"
    and m: "\<not> \<not> cmp_pubkeys (ai_key mi) (ta_mint (sx_base dest))"
    and om: "check_program_account22 (env_rt E) (info_owner led mi) = Inr u"
    and od: "check_program_account22 (env_rt E) (info_owner led di) = Inr u'"
    and n: "ok_or (checked_add (ta_amount (sx_base dest)) amt) (token_err Overflow) = Inr n"
    and s: "ok_or (checked_add (mint_supply (sx_base mint)) amt) (token_err Overflow) = Inr s"
    and one: "save_mint mi mint ((sx_base mint)\<lparr>mint_supply := s\<rparr>) led = Inr led1"
    and two: "save_account di dest ((sx_base dest)\<lparr>ta_amount := n\<rparr>) led1 = Inr led'"
    unfolding process_mint_to22_def by (elim peel22) (rule that, assumption+)
  have same: "led1 (ai_key di) = led (ai_key di)" using save_mint_other [OF one] ne by metis
  then have dest1: "unpack_account (info_data led1 di) = Inr dest" using dest by simp
  have im: "mint_is_initialized ((sx_base mint)\<lparr>mint_supply := s\<rparr>)" using unpack_mint_initialized [OF mint] by simp
  have ia: "account_is_initialized ((sx_base dest)\<lparr>ta_amount := n\<rparr>)"
    using unpack_account_initialized [OF dest] by (simp add: account_is_initialized_def)
  note k1 = save_mint_keeps [OF assms(1) mint one im]
  note k2 = save_account_keeps [OF k1(1) dest1 two ia]
  show ?thesis
    using k1 k2 m om od n s assms(2) same
    by (auto simp: settled_def res_simps cmp_pubkeys_def checked_simps)
qed

lemma burn_settled:
  assumes "sound22 native zk pid led" and "pid = token22_program_id (env_rt E)"
    and "process_burn22 E p accounts amt ed led = Inr led'"
  shows "settled native zk pid led led'"
proof -
  from assms(3) obtain si mi mint source b auth signers u u' n s led1 where source: "unpack_account (info_data led si) = Inr source"
    and ne: "\<not> ai_key mi = ai_key si" and mint: "unpack_mint (info_data led mi) = Inr mint"
    and m: "\<not> ai_key mi \<noteq> ta_mint (sx_base source)"
    and b: "burn_authority (env_rt E) p led (sx_base source) auth signers amt = Inr b"
    and os: "check_program_account22 (env_rt E) (info_owner led si) = Inr u'"
    and om: "check_program_account22 (env_rt E) (info_owner led mi) = Inr u"
    and n: "ok_or (checked_sub (ta_amount b) amt) (token_err Overflow) = Inr n"
    and s: "ok_or (checked_sub (mint_supply (sx_base mint)) amt) (token_err Overflow) = Inr s"
    and one: "save_account si source (b\<lparr>ta_amount := n\<rparr>) led = Inr led1"
    and two: "save_mint mi mint ((sx_base mint)\<lparr>mint_supply := s\<rparr>) led1 = Inr led'"
    unfolding process_burn22_def by (elim peel22) (rule that, assumption+)
  have same: "led1 (ai_key mi) = led (ai_key mi)" using save_account_other [OF one] ne by metis
  then have mint1: "unpack_mint (info_data led1 mi) = Inr mint" using mint by simp
  note ba = burn_authority_Inr [OF b]
  have im: "mint_is_initialized ((sx_base mint)\<lparr>mint_supply := s\<rparr>)" using unpack_mint_initialized [OF mint] by simp
  have ia: "account_is_initialized (b\<lparr>ta_amount := n\<rparr>)"
    using unpack_account_initialized [OF source] ba(4) by (simp add: account_is_initialized_def)
  note k1 = save_account_keeps [OF assms(1) source one ia]
  have s1: "sound22 native zk pid led1" using k1(1) ba by simp
  note k2 = save_mint_keeps [OF s1 mint1 two im]
  show ?thesis
    using k1(2) k2 m om os n s assms(2) same ba(1-3)
    by (auto simp: settled_def res_simps checked_simps)
qed

section \<open>Transfers\<close>

lemma withhold_fee_spec:
  assumes "withhold_fee E fee st = Inr st'" and "tlv_ok (env_zk E) AccountType_Account (sx_tlv st)"
  obtains t where "st' = st\<lparr>sx_tlv := t\<rparr>" and "length t = length (sx_tlv st)" and "tlv_ok (env_zk E) AccountType_Account t"
    and "int (unat (withheld_in t)) = int (unat (withheld_in (sx_tlv st))) + int (unat fee)"
proof (cases "fee > 0")
  case True
  with assms(1) obtain off w st1 n where
    g: "get_extension_mut (env_zk E) Account_base TransferFeeAmount_ext st = Inr (off, w, st1)"
    and n: "checked_add w fee = Some n" and st': "st' = sx_store TransferFeeAmount_ext off n st1"
    by (auto simp: withhold_fee_def attempt_eq_Inr ok_or_eq_Inr catch_Some split: option.splits prod.splits)
  obtain t where "st1 = st" "w = withheld_in (sx_tlv st)" "sx_store TransferFeeAmount_ext off n st = st\<lparr>sx_tlv := t\<rparr>"
    "length t = length (sx_tlv st)" "tlv_ok (env_zk E) AccountType_Account t" "withheld_in t = n"
    by (rule fee_amount_put [OF assms(2) g])
  note t = this
  have "unat n = unat (withheld_in (sx_tlv st)) + unat fee" using n t(2) by (simp add: checked_simps)
  then have "int (unat (withheld_in t)) = int (unat (withheld_in (sx_tlv st))) + int (unat fee)"
    unfolding t(6) by (simp only: of_nat_add)
  then show thesis by (rule that [rotated 3]) (use t st' in simp_all)
next
  case False
  then have "fee = 0" and "st' = st" using assms(1) by (auto simp: withhold_fee_def word_gt_0)
  then show thesis using that [of "sx_tlv st"] assms(2) by simp
qed

lemma save_account_settles:
  assumes "sound22 native zk pid led" and "acc_owner (led k) = pid" and "unpack_account (acc_data (led k)) = Inr st"
    and "pack_base Account_base (st\<lparr>sx_base := b, sx_tlv := t\<rparr>) = Inr st'"
    and "length t = length (sx_tlv st)" and "tlv_ok zk AccountType_Account t"
    and "account_is_initialized b" and "ta_mint b = ta_mint (sx_base st)" and "ta_is_native b = ta_is_native (sx_base st)"
  shows "sound22 native zk pid (store_state k st' led)"
    and "gap pid m (store_state k st' led) = gap pid m led + (if ta_mint b = m
      then int (unat (ta_amount b)) - int (unat (ta_amount (sx_base st))) +
           int (unat (withheld_in t)) - int (unat (withheld_in (sx_tlv st))) else 0)"
proof -
  have i: "bs_is_initialized Account_base b" using assms(7) by simp
  note n = account_state.unpack_after_pack [OF assms(3,5,4) i]
  note r = rewrite_account [OF assms(1-3) n(1)]
  show "sound22 native zk pid (store_state k st' led)"
    unfolding store_state_def by (rule r(1)) (use n assms(6,8,9) in simp_all)
  have "gap pid m (set_data k (sx_bytes st') led) = gap pid m led - worth m st + worth m st'"
    by (rule r(2)) (use n assms(6,8,9) in simp_all)
  then show "gap pid m (store_state k st' led) = gap pid m led + (if ta_mint b = m
      then int (unat (ta_amount b)) - int (unat (ta_amount (sx_base st))) +
           int (unat (withheld_in t)) - int (unat (withheld_in (sx_tlv st))) else 0)"
    using n assms(8) by (simp add: store_state_def worth_def)
qed

lemma transfer_settled:
  assumes "sound22 native (env_zk E) pid led" and "pid = token22_program_id (env_rt E)"
    and "process_transfer22 E p accounts amt ed ef led = Inr led'"
  shows "settled native (env_zk E) pid led led'"
proof -
  from assms(3) obtain si di ai signers source b fee u u' where source: "unpack_account (info_data led si) = Inr source"
    and b: "transfer_authority p led (sx_base source) ai signers amt (cmp_pubkeys (ai_key si) (ai_key di)) = Inr b"
    and os: "check_program_account22 (env_rt E) (info_owner led si) = Inr u"
    and od: "check_program_account22 (env_rt E) (info_owner led di) = Inr u'"
    and rest: "(if cmp_pubkeys (ai_key si) (ai_key di) then Inr led
       else
         attempt (unpack_account (info_data led di)) (\<lambda>destination.
         if is_frozen (sx_base destination) then Inl (token_err AccountFrozen)
         else if \<not> cmp_pubkeys (ta_mint b) (ta_mint (sx_base destination)) then Inl (token_err MintMismatch)
         else
           attempt (memo_required E destination) (\<lambda>memo.
           attempt (if memo then check_previous_sibling_instruction_is_memo E else Inr ()) (\<lambda>_.
           attempt (ok_or (checked_sub (ta_amount b) amt) (token_err Overflow)) (\<lambda>source_amount.
           attempt (ok_or (checked_sub amt fee) (token_err Overflow)) (\<lambda>credited_amount.
           attempt (ok_or (checked_add (ta_amount (sx_base destination)) credited_amount) (token_err Overflow)) (\<lambda>destination_amount.
           attempt (withhold_fee E fee
                     (destination\<lparr>sx_base := (sx_base destination)\<lparr>ta_amount := destination_amount\<rparr>\<rparr>)) (\<lambda>destination.
           attempt (if is_native b then move_lamports (ai_key si) (ai_key di) amt led else Inr led) (\<lambda>led.
           attempt (pack_base Account_base (source\<lparr>sx_base := b\<lparr>ta_amount := source_amount\<rparr>\<rparr>)) (\<lambda>source.
           attempt (pack_base Account_base destination) (\<lambda>destination.
           Inr (store_state (ai_key di) destination (store_state (ai_key si) source led))))))))))))) = Inr led'"
    unfolding process_transfer22_def Let_def by (elim peel22) (rule that, assumption+)
  show ?thesis
  proof (cases "ai_key si = ai_key di")
    case True
    then show ?thesis using rest settled_refl [OF assms(1)] by (simp add: cmp_pubkeys_def)
  next
    case False
    with rest obtain dest sa ca da d1 led1 s2 d2 where dest: "unpack_account (info_data led di) = Inr dest"
      and m: "\<not> ta_mint b \<noteq> ta_mint (sx_base dest)"
      and sa: "ok_or (checked_sub (ta_amount b) amt) (token_err Overflow) = Inr sa"
      and ca: "ok_or (checked_sub amt fee) (token_err Overflow) = Inr ca"
      and da: "ok_or (checked_add (ta_amount (sx_base dest)) ca) (token_err Overflow) = Inr da"
      and d1: "withhold_fee E fee (dest\<lparr>sx_base := (sx_base dest)\<lparr>ta_amount := da\<rparr>\<rparr>) = Inr d1"
      and led1: "(if is_native b then move_lamports (ai_key si) (ai_key di) amt led else Inr led) = Inr led1"
      and s2: "pack_base Account_base (source\<lparr>sx_base := b\<lparr>ta_amount := sa\<rparr>\<rparr>) = Inr s2"
      and d2: "pack_base Account_base d1 = Inr d2"
      and led': "store_state (ai_key di) d2 (store_state (ai_key si) s2 led1) = led'"
      unfolding cmp_pubkeys_def if_not_P [OF False] by (elim peel22 Inr_eqE) (rule that, assumption+)
    note ta = transfer_authority_Inr [OF b]
    have same: "acc_owner (led1 k) = acc_owner (led k)" "acc_data (led1 k) = acc_data (led k)" for k
      using led1 by (auto elim!: move_lamports_Inr [OF _ False] split: if_splits)
    have sound1: "sound22 native (env_zk E) pid led1" using assms(1) by (simp add: sound22_def same)
    have gap1: "gap pid m led1 = gap pid m led" for m by (rule gap_cong) (simp add: same)
    let ?si = "ai_key si" and ?di = "ai_key di"
    have o: "acc_owner (led1 ?si) = pid" "acc_owner (led1 ?di) = pid"
      using os od assms(2) by (simp_all add: same check_program_account22_Inr)
    have src1: "unpack_account (acc_data (led1 ?si)) = Inr source" using source by (simp add: same)
    have s2': "pack_base Account_base (source\<lparr>sx_base := b\<lparr>ta_amount := sa\<rparr>, sx_tlv := sx_tlv source\<rparr>) = Inr s2"
      using s2 by simp
    have ib: "account_is_initialized (b\<lparr>ta_amount := sa\<rparr>)"
      using unpack_account_initialized [OF source] ta(4) by (simp add: account_is_initialized_def)
    note st1 = save_account_settles [OF sound1 o(1) src1 s2' refl sound22_tlv(1) [OF sound1 o(1) src1] ib]
    let ?led2 = "store_state ?si s2 led1"
    have sound2: "sound22 native (env_zk E) pid ?led2" by (rule st1(1)) (use ta in simp_all)
    have o2: "acc_owner (?led2 ?di) = pid" using o(2) by (simp add: store_state_def)
    have dst2: "unpack_account (acc_data (?led2 ?di)) = Inr dest"
      using dest False same by (simp add: store_state_def set_data_other)
    have tok: "tlv_ok (env_zk E) AccountType_Account (sx_tlv dest)" by (rule sound22_tlv(1) [OF sound2 o2 dst2])
    obtain t where t: "d1 = dest\<lparr>sx_base := (sx_base dest)\<lparr>ta_amount := da\<rparr>, sx_tlv := t\<rparr>" "length t = length (sx_tlv dest)"
      "tlv_ok (env_zk E) AccountType_Account t"
      "int (unat (withheld_in t)) = int (unat (withheld_in (sx_tlv dest))) + int (unat fee)"
      using withhold_fee_spec [OF d1] tok by auto
    have id: "account_is_initialized ((sx_base dest)\<lparr>ta_amount := da\<rparr>)"
      using unpack_account_initialized [OF dest] by (simp add: account_is_initialized_def)
    note st2 = save_account_settles [OF sound2 o2 dst2 d2 [unfolded t(1)] t(2,3) id]
    have "gap pid m led' = gap pid m led" for m
      using st1(2) [of m] st2(2) [of m] gap1 ta m sa ca da t(4) led'
      by (auto simp: ok_or_eq_Inr checked_simps cmp_pubkeys_def)
    moreover have "sound22 native (env_zk E) pid led'" using st2(1) led' by simp
    ultimately show ?thesis by (simp add: settled_def)
  qed
qed

section \<open>Closing\<close>

lemma view_account_unpack: "view_account data = Inr v \<Longrightarrow> \<exists>st. unpack_account data = Inr st \<and> v = \<lparr>sv_base = sx_base st, sv_tlv = sx_tlv st\<rparr>"
  by (auto simp: account_state.view_unpack attempt_eq_Inr)

lemma view_mint_unpack: "view_mint data = Inr v \<Longrightarrow> \<exists>st. unpack_mint data = Inr st \<and> v = \<lparr>sv_base = sx_base st, sv_tlv = sx_tlv st\<rparr>"
  by (auto simp: mint_state.view_unpack attempt_eq_Inr)

lemma closed_account_empty:
  assumes "close_checks_account E p led v di ai signers = Inr u"
  shows "is_native (sv_base v) \<or> ta_amount (sv_base v) = 0" and "withheld_in (sv_tlv v) = 0"
proof -
  from assms obtain x where g: "\<not> (\<not> is_native (sv_base v) \<and> ta_amount (sv_base v) \<noteq> 0)"
    and x: "catch (sv_get_extension Account_base v TransferFeeAmount_ext) = Inr x"
    and w: "(case x of Some n \<Rightarrow> TransferFeeAmount_closable n | None \<Rightarrow> Inr ()) = Inr u"
    unfolding close_checks_account_def Let_def by (elim attempt_eq_InrE guardE) (rule that, assumption+)
  show "is_native (sv_base v) \<or> ta_amount (sv_base v) = 0" using g by blast
  show "withheld_in (sv_tlv v) = 0"
    using x w by (auto simp: withheld_in_def sv_get_extension_def TransferFeeAmount_closable_def catch_Some catch_None
        split: option.splits if_splits sum.splits)
qed

lemma close_settled:
  assumes "inv22 E pid led" and "process_close_account22 E p accounts led = Inr led'"
  shows "settled (native_mint22_id (env_rt E)) (env_zk E) pid led led'"
proof -
  let ?native = "native_mint22_id (env_rt E)"
  have s: "sound22 ?native (env_zk E) pid led" using assms(1) by (simp add: inv22_def)
  from assms(2) obtain si di ai signers x u n where
    x: "catch (view_account (info_data led si)) = Inr x"
    and c: "(case x of Some st \<Rightarrow> close_checks_account E p led st di ai signers
        | None \<Rightarrow> attempt (catch (view_mint (info_data led si))) (\<lambda>mint.
            case mint of Some st \<Rightarrow> close_checks_mint p led st ai signers | None \<Rightarrow> Inl UninitializedAccount)) = Inr u"
    and led': "set_data (ai_key si) (replicate (length (info_data (set_lamports (ai_key si) 0 (set_lamports (ai_key di) n led)) si)) 0)
        (set_lamports (ai_key si) 0 (set_lamports (ai_key di) n led)) = led'"
    unfolding process_close_account22_def Let_def by (elim peel22 Inr_eqE) (rule that, assumption+)
  let ?led1 = "set_lamports (ai_key si) 0 (set_lamports (ai_key di) n led)"
  have s1: "sound22 ?native (env_zk E) pid ?led1" using s by simp
  have z: "blank (env_zk E) (replicate (length (info_data ?led1 si)) 0)" by (rule zeros_blank) simp
  have w: "weight pid m (ai_key si) (?led1 (ai_key si)) = 0" if m: "m \<noteq> ?native" for m
  proof (cases "info_owner led si = pid")
    case True
    show ?thesis
    proof (cases x)
      case (Some v)
      then obtain st where u: "unpack_account (info_data led si) = Inr st" and v: "v = \<lparr>sv_base = sx_base st, sv_tlv = sx_tlv st\<rparr>"
        using x view_account_unpack by (auto simp: catch_Some)
      have "worth m st = 0"
        using closed_account_empty [of E p led v di ai signers u] c Some sound22_native [OF s True u] m
        by (auto simp: worth_def v)
      then show ?thesis using weight_account [of "?led1 (ai_key si)" pid st] True u by simp
    next
      case None
      then obtain v where v: "view_mint (info_data led si) = Inr v" and k: "close_checks_mint p led v ai signers = Inr u"
        using c by (auto simp: attempt_eq_Inr catch_Some split: option.splits)
      then obtain st where u: "unpack_mint (info_data led si) = Inr st" and v': "v = \<lparr>sv_base = sx_base st, sv_tlv = sx_tlv st\<rparr>"
        using view_mint_unpack by blast
      have sup: "mint_supply (sx_base st) = 0" using k by (auto simp: close_checks_mint_def res_simps v' split: if_splits)
      have "surplus st = 0" if km: "ai_key si = m"
      proof -
        have "gap pid m led = 0" using assms(1) m by (simp add: inv22_def)
        then have "(\<Sum>k\<in>UNIV. held22 pid m (led k)) + pooled22 pid (led m) = supply22 pid (led m)" by (simp only: gap_zero_iff)
        moreover have "supply22 pid (led m) = 0" using sup True v v' km by (simp add: supply22_def)
        ultimately have "pooled22 pid (led m) = 0" by (simp only: add_is_0)
        then show ?thesis using sup True v v' km by (simp add: pooled22_def surplus_def)
      qed
      then show ?thesis using weight_mint [of "?led1 (ai_key si)" pid st m "ai_key si"] True u by simp
    qed
  qed (simp add: weight_foreign)
  show ?thesis
    using write_blank(1) [OF s1 z, of "ai_key si"] write_blank(2) [OF s1 z, of _ "ai_key si"] w
    unfolding settled_def led' gap_lamports by simp
qed

end
