(* ===== verification/Token22_Withheld.thy ===== *)
theory Token22_Withheld
  imports Token22_Moves
begin

text \<open>
  Withheld fees: harvesting them into the mint and withdrawing them, from the mint or from
  accounts.  These handlers leave some owner checks to the runtime, which rejects a call that
  changed the data of an account of another program.
\<close>

definition keeps_foreign :: "pubkey \<Rightarrow> ledger \<Rightarrow> ledger \<Rightarrow> bool" where
  "keeps_foreign pid led led' \<longleftrightarrow>
     (\<forall>k. acc_owner (led k) \<noteq> pid \<longrightarrow> acc_owner (led' k) = acc_owner (led k) \<longrightarrow> acc_data (led' k) = acc_data (led k))"

section \<open>What a reference into the entries points at\<close>

context stored_extension
begin

lemma get_mut_raw:
  assumes "get_extension_mut zk S V st = Inr (off, v, st1)"
  shows "st1 = st" and "off + pod_len V \<le> length (sx_tlv st)" and "v = pod_decode V (subslice off (pod_len V) (sx_tlv st))"
proof -
  from assms obtain len :: u16 and bs where st1: "st1 = st" and s: "slice_at (sx_tlv st) off (off + unat len) = Inr bs"
    and p: "pod_from_bytes V bs = Inr v"
    unfolding get_extension_mut_def init_or_get_extension_def
    by (auto simp: attempt_eq_Inr split: if_splits)
  from p have b: "length bs = pod_len V" "v = pod_decode V bs" by (auto simp: pod_from_bytes_def split: if_splits)
  from s have l: "off + unat len \<le> length (sx_tlv st)" and bs: "bs = subslice off (unat len) (sx_tlv st)"
    by (auto simp: slice_at_def split: if_splits)
  then have "unat len = pod_len V" using b(1) by (simp add: subslice_def)
  then show "st1 = st" "off + pod_len V \<le> length (sx_tlv st)" "v = pod_decode V (subslice off (pod_len V) (sx_tlv st))"
    using st1 l bs b(2) by simp_all
qed

lemma store_raw:
  assumes "get_extension_mut zk S V st = Inr (off, v, st1)"
  shows "\<exists>t. sx_store V off w st1 = st\<lparr>sx_tlv := t\<rparr> \<and> length t = length (sx_tlv st)"
    and "sx_bytes (sx_store V off w st1) = sx_bytes st \<Longrightarrow> w = v"
proof -
  note r = get_mut_raw [OF assms]
  let ?t = "write_at22 off (pod_encode V w) (sx_tlv st)"
  have l: "length ?t = length (sx_tlv st)" by (rule length_write_at) (use r(2) encode_len in simp)
  then show "\<exists>t. sx_store V off w st1 = st\<lparr>sx_tlv := t\<rparr> \<and> length t = length (sx_tlv st)"
    using r(1) by (auto simp: sx_store_def)
  assume "sx_bytes (sx_store V off w st1) = sx_bytes st"
  then have "?t = sx_tlv st" using r(1) by (simp add: sx_store_def sx_bytes_def)
  moreover have "subslice off (pod_len V) ?t = pod_encode V w"
    using r(2) by (simp add: write_at22_def subslice_def encode_len)
  ultimately show "w = v" using r(3) decode_encode by metis
qed

end

section \<open>Harvesting one account\<close>

lemma gap_foreign:
  assumes "acc_owner (led m) \<noteq> pid"
  shows "0 \<le> gap pid m led"
  unfolding gap_def by (rule sum_nonneg) (use assms in \<open>auto simp: weight_def pooled22_def supply22_def\<close>)

lemma harvest_one:
  assumes "sound22 native (env_zk E) pid led" and "pid = token22_program_id (env_rt E)"
    and "harvest_from_account E mk i led = Inr (amt, led')"
  shows "sound22 native (env_zk E) pid led'"
    and "gap pid m led' = gap pid m led - (if m = mk then int (unat amt) else 0)"
    and "k \<noteq> ai_key i \<Longrightarrow> led' k = led k"
proof -
  from assms(3) obtain st u off st1 where st: "unpack_account (info_data led i) = Inr st"
    and m: "\<not> ta_mint (sx_base st) \<noteq> mk" and o: "check_program_account22 (env_rt E) (info_owner led i) = Inr u"
    and g: "get_extension_mut (env_zk E) Account_base TransferFeeAmount_ext st = Inr (off, amt, st1)"
    and led': "led' = store_state (ai_key i) (sx_store TransferFeeAmount_ext off 0 st1) led"
    unfolding harvest_from_account_def by (elim peel22) (auto simp: map_error_Inr)
  have own: "info_owner led i = pid" using o assms(2) by (simp add: check_program_account22_Inr)
  obtain t where "st1 = st" "amt = withheld_in (sx_tlv st)" "sx_store TransferFeeAmount_ext off 0 st = st\<lparr>sx_tlv := t\<rparr>"
    "length t = length (sx_tlv st)" "tlv_ok (env_zk E) AccountType_Account t" "withheld_in t = 0"
    by (rule fee_amount_put [OF sound22_tlv(1) [OF assms(1) own st] g])
  then have "\<exists>t. sx_store TransferFeeAmount_ext off 0 st1 = st\<lparr>sx_tlv := t\<rparr> \<and> length t = length (sx_tlv st) \<and>
      tlv_ok (env_zk E) AccountType_Account t \<and>
      int (unat (withheld_in t)) = int (unat (withheld_in (sx_tlv st))) + - int (unat amt)" by auto
  note k = store_account_keeps [OF assms(1) st this]
  show "sound22 native (env_zk E) pid led'" unfolding led' by (rule k(1))
  show "gap pid m led' = gap pid m led - (if m = mk then int (unat amt) else 0)"
    unfolding led' using k(2) m own by simp
  show "led' k = led k" if "k \<noteq> ai_key i" using that by (simp add: led' store_state_def set_data_other)
qed

section \<open>Into the mint\<close>

lemma harvest_to_mint_spec:
  assumes "harvest_to_mint E mk infos w led = Inr (w', led')" and "sound22 native (env_zk E) pid led"
    and "pid = token22_program_id (env_rt E)"
  shows "sound22 native (env_zk E) pid led' \<and> led' mk = led mk \<and> w \<le> w' \<and>
    (\<forall>m. gap pid m led' = gap pid m led - (if m = mk then int (unat w') - int (unat w) else 0))"
  using assms
proof (induction infos arbitrary: w led)
  case Nil
  then show ?case by simp
next
  case (Cons i infos)
  then have ne: "ai_key i \<noteq> mk" by (auto split: if_splits)
  from Cons.prems(1) obtain h where h: "catch (harvest_from_account E mk i led) = Inr h"
    and r: "(case h of Some (amt, led) \<Rightarrow> attempt (ok_or (checked_add w amt) (token_err Overflow)) (\<lambda>w. harvest_to_mint E mk infos w led)
      | None \<Rightarrow> harvest_to_mint E mk infos w led) = Inr (w', led')"
    unfolding harvest_to_mint.simps if_not_P [OF ne] by (elim attempt_eq_InrE) (rule that)
  show ?case
  proof (cases h)
    case None
    with r Cons.IH [OF _ Cons.prems(2,3)] show ?thesis by simp
  next
    case (Some p)
    then obtain amt led1 n where one: "harvest_from_account E mk i led = Inr (amt, led1)"
      and n: "checked_add w amt = Some n" and rest: "harvest_to_mint E mk infos n led1 = Inr (w', led')"
      using h r by (cases p) (auto simp: catch_Some attempt_eq_Inr ok_or_eq_Inr)
    note k = harvest_one [OF Cons.prems(2,3) one]
    note ih = Cons.IH [OF rest k(1) Cons.prems(3)]
    show ?thesis using ih k(2) k(3) [of mk] ne n by (auto simp: checked_simps word_le_nat_alt)
  qed
qed

lemma harvest_settled:
  assumes "inv22 E pid led" and "pid = token22_program_id (env_rt E)"
    and "process_harvest_withheld_tokens_to_mint E accounts led = Inr led'"
  shows "settled (native_mint22_id (env_rt E)) (env_zk E) pid led led'"
proof -
  let ?native = "native_mint22_id (env_rt E)"
  from assms(3) obtain mi infos st off c st1 w led1 where st: "unpack_mint (info_data led mi) = Inr st"
    and g: "get_extension_mut (env_zk E) Mint_base TransferFeeConfig_ext st = Inr (off, c, st1)"
    and h: "harvest_to_mint E (ai_key mi) infos (tfc_withheld_amount c) led = Inr (w, led1)"
    and led': "led' = store_state (ai_key mi) (sx_store TransferFeeConfig_ext off (c\<lparr>tfc_withheld_amount := w\<rparr>) st1) led1"
    unfolding process_harvest_withheld_tokens_to_mint_def
    by (elim peel22 Inr_eqE) (rule that, assumption, assumption, assumption, erule sym)
  have s: "sound22 ?native (env_zk E) pid led" using assms(1) by (simp add: inv22_def)
  note k = harvest_to_mint_spec [OF h s assms(2)]
  have s1: "sound22 ?native (env_zk E) pid led1" and same: "led1 (ai_key mi) = led (ai_key mi)" using k by blast+
  have st': "unpack_mint (info_data led1 mi) = Inr st" using st same by simp
  let ?c = "c\<lparr>tfc_withheld_amount := w\<rparr>" and ?d = "int (unat w) - int (unat (tfc_withheld_amount c))"
  have "\<exists>t. sx_store TransferFeeConfig_ext off ?c st1 = st\<lparr>sx_tlv := t\<rparr> \<and> length t = length (sx_tlv st) \<and>
      mint_ok (env_zk E) t \<and> int (unat (pooled_in t)) = int (unat (pooled_in (sx_tlv st))) + ?d"
    if own: "acc_owner (led1 (ai_key mi)) = pid"
  proof -
    obtain t where "st1 = st" "tfc_withheld_amount c = pooled_in (sx_tlv st)"
      "sx_store TransferFeeConfig_ext off ?c st = st\<lparr>sx_tlv := t\<rparr>" "length t = length (sx_tlv st)"
      "mint_ok (env_zk E) t" "pooled_in t = tfc_withheld_amount ?c"
      by (rule fee_config_put [OF sound22_tlv(2) [OF s1 own st'] g])
    then show ?thesis by (intro exI [of _ t]) auto
  qed
  note stored = store_mint_keeps [OF s1 st' this]
  have "gap pid m led' = gap pid m led" if mn: "m \<noteq> ?native" for m
  proof (cases "acc_owner (led (ai_key mi)) = pid \<or> m \<noteq> ai_key mi")
    case True
    then show ?thesis using k same stored(2) [of m] unfolding led' by auto
  next
    case False
    then have "acc_owner (led1 m) \<noteq> pid" using same by auto
    with gap_foreign [of led1 m pid] have "0 \<le> gap pid m led1" by blast
    moreover have "gap pid m led = 0" using assms(1) mn by (simp add: inv22_def)
    moreover have "0 \<le> ?d" using k by (simp add: word_le_def)
    ultimately show ?thesis using k same False stored(2) [of m] unfolding led' by auto
  qed
  moreover have "sound22 ?native (env_zk E) pid led'" unfolding led' by (rule stored(1))
  ultimately show ?thesis by (simp add: settled_def)
qed

section \<open>Out of the mint\<close>

lemma save_account_amount:
  assumes "unpack_account data = Inr st" and "pack_base Account_base (st\<lparr>sx_base := (sx_base st)\<lparr>ta_amount := n\<rparr>, sx_tlv := t\<rparr>) = Inr st'"
    and "length t = length (sx_tlv st)" and "sx_bytes st' = data"
  shows "n = ta_amount (sx_base st)" and "t = sx_tlv st"
proof -
  have i: "bs_is_initialized Account_base ((sx_base st)\<lparr>ta_amount := n\<rparr>)"
    using unpack_account_initialized [OF assms(1)] by (simp add: account_is_initialized_def)
  note u = account_state.unpack_after_pack [OF assms(1,3,2) i]
  have "st' = st" using u(1) assms(1,4) by simp
  then show "n = ta_amount (sx_base st)" "t = sx_tlv st" using u(2,3) by (metis account.select_convs(3) account.surjective account.update_convs(3))+
qed

lemma withdraw_mint_settled:
  assumes "sound22 native (env_zk E) pid led" and "keeps_foreign pid led led'"
    and "process_withdraw_withheld_tokens_from_mint E p accounts led = Inr led'"
  shows "settled native (env_zk E) pid led led'"
proof -
  from assms(3) obtain mi di st off c st1 dest n d2 where st: "unpack_mint (info_data led mi) = Inr st"
    and g: "get_extension_mut (env_zk E) Mint_base TransferFeeConfig_ext st = Inr (off, c, st1)"
    and ne: "\<not> ai_key di = ai_key mi" and dest: "unpack_account (info_data led di) = Inr dest"
    and m: "\<not> ta_mint (sx_base dest) \<noteq> ai_key mi"
    and n: "ok_or (checked_add (ta_amount (sx_base dest)) (tfc_withheld_amount c)) (token_err Overflow) = Inr n"
    and d2: "pack_base Account_base (dest\<lparr>sx_base := (sx_base dest)\<lparr>ta_amount := n\<rparr>\<rparr>) = Inr d2"
    and led': "led' = store_state (ai_key di) d2
      (store_state (ai_key mi) (sx_store TransferFeeConfig_ext off (c\<lparr>tfc_withheld_amount := 0\<rparr>) st1) led)"
    unfolding process_withdraw_withheld_tokens_from_mint_def Let_def
    by (elim peel22 Inr_eqE)
      (rule that, assumption, assumption, assumption, assumption, assumption, assumption, assumption, erule sym)
  let ?mi = "ai_key mi" and ?di = "ai_key di" and ?w = "tfc_withheld_amount c"
  let ?m2 = "sx_store TransferFeeConfig_ext off (c\<lparr>tfc_withheld_amount := 0\<rparr>) st1"
  let ?led1 = "store_state ?mi ?m2 led"
  have d2': "pack_base Account_base (dest\<lparr>sx_base := (sx_base dest)\<lparr>ta_amount := n\<rparr>, sx_tlv := sx_tlv dest\<rparr>) = Inr d2"
    using d2 by simp
  have n': "unat n = unat (ta_amount (sx_base dest)) + unat ?w" using n by (simp add: ok_or_eq_Inr checked_simps)
  have w_mint: "?w = 0" if "acc_owner (led ?mi) \<noteq> pid"
  proof -
    have "acc_owner (led' ?mi) = acc_owner (led ?mi)" by (simp add: led' store_state_def)
    then have "acc_data (led' ?mi) = acc_data (led ?mi)" using assms(2) that by (simp add: keeps_foreign_def)
    then have "sx_bytes ?m2 = sx_bytes st"
      using ne mint_state.unpack_Inr [of "info_data led mi" st] st by (simp add: led' store_state_def set_data_other)
    from fee_config.store_raw(2) [OF g this] have "tfc_withheld_amount c = tfc_withheld_amount (c\<lparr>tfc_withheld_amount := 0\<rparr>)" by simp
    then show ?thesis by simp
  qed
  have w_dest: "?w = 0" if "acc_owner (led ?di) \<noteq> pid"
  proof -
    have "acc_owner (led' ?di) = acc_owner (led ?di)" by (simp add: led' store_state_def)
    then have "acc_data (led' ?di) = info_data led di" using assms(2) that by (simp add: keeps_foreign_def)
    then have "sx_bytes d2 = info_data led di" by (simp add: led' store_state_def)
    from save_account_amount(1) [OF dest d2' refl this] have "n = ta_amount (sx_base dest)" .
    then show ?thesis using n' by (simp add: unat_eq_0)
  qed
  have "\<exists>t. ?m2 = st\<lparr>sx_tlv := t\<rparr> \<and> length t = length (sx_tlv st) \<and>
      mint_ok (env_zk E) t \<and> int (unat (pooled_in t)) = int (unat (pooled_in (sx_tlv st))) + - int (unat ?w)"
    if own: "acc_owner (led ?mi) = pid"
  proof -
    obtain t where "st1 = st" "tfc_withheld_amount c = pooled_in (sx_tlv st)"
      "sx_store TransferFeeConfig_ext off (c\<lparr>tfc_withheld_amount := 0\<rparr>) st = st\<lparr>sx_tlv := t\<rparr>" "length t = length (sx_tlv st)"
      "mint_ok (env_zk E) t" "pooled_in t = tfc_withheld_amount (c\<lparr>tfc_withheld_amount := 0\<rparr>)"
      by (rule fee_config_put [OF sound22_tlv(2) [OF assms(1) own st] g])
    then show ?thesis by (intro exI [of _ t]) auto
  qed
  note k1 = store_mint_keeps [OF assms(1) st this]
  have dest1: "unpack_account (info_data ?led1 di) = Inr dest" and own1: "info_owner ?led1 di = info_owner led di"
    using dest ne by (simp_all add: store_state_def set_data_other)
  have save: "save_account di dest ((sx_base dest)\<lparr>ta_amount := n\<rparr>) ?led1 = Inr led'" by (simp add: save_account_def d2 led')
  have i: "account_is_initialized ((sx_base dest)\<lparr>ta_amount := n\<rparr>)"
    using unpack_account_initialized [OF dest] by (simp add: account_is_initialized_def)
  note k2 = save_account_keeps [OF k1(1) dest1 save i]
  have "sound22 native (env_zk E) pid led'" by (rule k2(1)) simp_all
  moreover have "gap pid x led' = gap pid x led" for x
    using k1(2) [of x] k2(2) [of x] n' m w_mint w_dest own1 by auto
  ultimately show ?thesis by (simp add: settled_def)
qed

section \<open>Out of accounts\<close>

text \<open>
  The destination is held in memory during the loop.  \<open>gathered\<close> relates it, and the ledger, to
  what they were: the ledger lost \<open>h\<close> tokens of the mint, the destination's amount grew by at
  least as much, and exactly as much together with its own withheld fees.
\<close>

definition gathered ::
    "zk_sizes \<Rightarrow> pubkey \<Rightarrow> pubkey \<Rightarrow> account state_ext \<Rightarrow> ledger \<Rightarrow> nat \<Rightarrow> account state_ext \<Rightarrow> ledger \<Rightarrow> bool" where
  "gathered zk pid mk st led h st' led' \<longleftrightarrow>
     (\<forall>m. gap pid m led' = gap pid m led - (if m = mk then int h else 0)) \<and>
     (\<exists>t. st' = st\<lparr>sx_base := (sx_base st)\<lparr>ta_amount := ta_amount (sx_base st')\<rparr>, sx_tlv := t\<rparr> \<and>
        length t = length (sx_tlv st)) \<and>
     unat (ta_amount (sx_base st)) + h \<le> unat (ta_amount (sx_base st')) \<and>
     (tlv_ok zk AccountType_Account (sx_tlv st) \<longrightarrow> tlv_ok zk AccountType_Account (sx_tlv st') \<and>
        unat (ta_amount (sx_base st')) + unat (withheld_in (sx_tlv st')) =
        unat (ta_amount (sx_base st)) + h + unat (withheld_in (sx_tlv st)))"

lemma gathered_refl: "gathered zk pid mk st led 0 st led"
  unfolding gathered_def by (intro conjI exI [of _ "sx_tlv st"]) auto

lemma amount_chain: "a = b\<lparr>ta_amount := x\<rparr> \<Longrightarrow> c = a\<lparr>ta_amount := y\<rparr> \<Longrightarrow> c = b\<lparr>ta_amount := y\<rparr>"
  by simp

lemma gathered_trans:
  assumes "gathered zk pid mk st led h st1 led1" and "gathered zk pid mk st1 led1 h' st2 led2"
  shows "gathered zk pid mk st led (h + h') st2 led2"
proof -
  from assms(1) obtain t where t: "st1 = st\<lparr>sx_base := (sx_base st)\<lparr>ta_amount := ta_amount (sx_base st1)\<rparr>, sx_tlv := t\<rparr>"
    "length t = length (sx_tlv st)" unfolding gathered_def by blast
  from assms(2) obtain t' where t': "st2 = st1\<lparr>sx_base := (sx_base st1)\<lparr>ta_amount := ta_amount (sx_base st2)\<rparr>, sx_tlv := t'\<rparr>"
    "length t' = length (sx_tlv st1)" unfolding gathered_def by blast
  have "st2 = st\<lparr>sx_base := (sx_base st)\<lparr>ta_amount := ta_amount (sx_base st2)\<rparr>, sx_tlv := t'\<rparr>"
    using t(1) t'(1) by (cases st; cases st1; cases st2; simp) (erule amount_chain, assumption)
  moreover have "length t' = length (sx_tlv st)" using t'(2) t by (metis state_ext.select_convs(5) state_ext.surjective state_ext.update_convs(5))
  ultimately have "\<exists>t. st2 = st\<lparr>sx_base := (sx_base st)\<lparr>ta_amount := ta_amount (sx_base st2)\<rparr>, sx_tlv := t\<rparr> \<and>
        length t = length (sx_tlv st)" by blast
  moreover have "\<forall>m. gap pid m led2 = gap pid m led - (if m = mk then int (h + h') else 0)"
    using assms unfolding gathered_def by simp
  ultimately show ?thesis using assms unfolding gathered_def by auto
qed

lemma gathered_amount:
  assumes "checked_add (ta_amount (sx_base st)) a = Some n"
    and "\<And>m. gap pid m led' = gap pid m led - (if m = mk then int (unat a) else 0)"
  shows "gathered zk pid mk st led (unat a) (st\<lparr>sx_base := (sx_base st)\<lparr>ta_amount := n\<rparr>\<rparr>) led'"
  unfolding gathered_def using assms by (intro conjI exI [of _ "sx_tlv st"]) (auto simp: checked_simps)

lemma gathered_own:
  assumes "get_extension_mut zk Account_base TransferFeeAmount_ext st = Inr (off, w, st1)"
    and "checked_add (ta_amount (sx_base st)) w = Some n"
  defines "st2 \<equiv> sx_store TransferFeeAmount_ext off 0 st1"
  shows "gathered zk pid mk st led 0 (st2\<lparr>sx_base := (sx_base st2)\<lparr>ta_amount := n\<rparr>\<rparr>) led"
    and "sx_base st2 = sx_base st"
proof -
  obtain t where t: "st2 = st\<lparr>sx_tlv := t\<rparr>" "length t = length (sx_tlv st)"
    using fee_amount.store_raw(1) [OF assms(1), of 0] unfolding st2_def by blast
  then show "sx_base st2 = sx_base st" by simp
  have "tlv_ok zk AccountType_Account t \<and> w = withheld_in (sx_tlv st) \<and> withheld_in t = 0"
    if ok: "tlv_ok zk AccountType_Account (sx_tlv st)"
  proof -
    obtain t' where "st1 = st" "w = withheld_in (sx_tlv st)" "sx_store TransferFeeAmount_ext off 0 st = st\<lparr>sx_tlv := t'\<rparr>"
      "length t' = length (sx_tlv st)" "tlv_ok zk AccountType_Account t'" "withheld_in t' = 0"
      by (rule fee_amount_put [OF ok assms(1)])
    moreover from this t have "t' = t" unfolding st2_def by (metis state_ext.select_convs(5) state_ext.surjective state_ext.update_convs(5))
    ultimately show ?thesis by blast
  qed
  then show "gathered zk pid mk st led 0 (st2\<lparr>sx_base := (sx_base st2)\<lparr>ta_amount := n\<rparr>\<rparr>) led"
    unfolding gathered_def t(1) using assms(2) t(2) by (intro conjI exI [of _ t]) (auto simp: checked_simps)
qed

lemma harvest_to_account_spec:
  assumes "harvest_to_account E mk dk infos st led = Inr (st', led')" and "sound22 native (env_zk E) pid led"
    and "pid = token22_program_id (env_rt E)"
  shows "sound22 native (env_zk E) pid led' \<and> led' dk = led dk \<and> (\<exists>h. gathered (env_zk E) pid mk st led h st' led')"
  using assms
proof (induction infos arbitrary: st led)
  case Nil
  then show ?case using gathered_refl [of "env_zk E" pid mk st led] by auto
next
  case (Cons i infos)
  show ?case
  proof (cases "ai_key i = dk")
    case True
    with Cons.prems(1) obtain off w st1 n where
      g: "get_extension_mut (env_zk E) Account_base TransferFeeAmount_ext st = Inr (off, w, st1)"
      and n: "checked_add (ta_amount (sx_base (sx_store TransferFeeAmount_ext off 0 st1))) w = Some n"
      and rest: "harvest_to_account E mk dk infos ((sx_store TransferFeeAmount_ext off 0 st1)
        \<lparr>sx_base := (sx_base (sx_store TransferFeeAmount_ext off 0 st1))\<lparr>ta_amount := n\<rparr>\<rparr>) led = Inr (st', led')"
      by (auto simp: attempt_eq_Inr map_error_Inr ok_or_eq_Inr Let_def)
    have "sx_base (sx_store TransferFeeAmount_ext off 0 st1) = sx_base st"
      using fee_amount.store_raw(1) [OF g, of 0] by auto
    with n gathered_own(1) [OF g] Cons.IH [OF rest Cons.prems(2,3)] show ?thesis
      using gathered_trans by metis
  next
    case False
    with Cons.prems(1) obtain h where h: "catch (harvest_from_account E mk i led) = Inr h"
      and r: "(case h of Some (amt, led) \<Rightarrow>
            attempt (ok_or (checked_add (ta_amount (sx_base st)) amt) (token_err Overflow)) (\<lambda>n.
            harvest_to_account E mk dk infos (st\<lparr>sx_base := (sx_base st)\<lparr>ta_amount := n\<rparr>\<rparr>) led)
        | None \<Rightarrow> harvest_to_account E mk dk infos st led) = Inr (st', led')"
      by (auto simp: attempt_eq_Inr split: if_splits)
    show ?thesis
    proof (cases h)
      case None
      with r Cons.IH [OF _ Cons.prems(2,3)] show ?thesis by simp
    next
      case (Some p)
      then obtain amt led1 n where one: "harvest_from_account E mk i led = Inr (amt, led1)"
        and n: "checked_add (ta_amount (sx_base st)) amt = Some n"
        and rest: "harvest_to_account E mk dk infos (st\<lparr>sx_base := (sx_base st)\<lparr>ta_amount := n\<rparr>\<rparr>) led1 = Inr (st', led')"
        using h r by (cases p) (auto simp: catch_Some attempt_eq_Inr ok_or_eq_Inr)
      note k = harvest_one [OF Cons.prems(2,3) one]
      have "led1 dk = led dk" using k(3) [of dk] False by auto
      with Cons.IH [OF rest k(1) Cons.prems(3)] gathered_amount [OF n k(2)] show ?thesis
        using gathered_trans by metis
    qed
  qed
qed

lemma withdraw_accounts_settled:
  assumes "sound22 native (env_zk E) pid led" and "pid = token22_program_id (env_rt E)" and "keeps_foreign pid led led'"
    and "process_withdraw_withheld_tokens_from_accounts E p accounts num led = Inr led'"
  shows "settled native (env_zk E) pid led led'"
proof -
  from assms(4) obtain mi di :: account_info and infos dest st led1 d2 where dest: "unpack_account (info_data led di) = Inr dest"
    and m: "\<not> ta_mint (sx_base dest) \<noteq> ai_key mi"
    and h: "harvest_to_account E (ai_key mi) (ai_key di) infos dest led = Inr (st, led1)"
    and d2: "pack_base Account_base st = Inr d2" and led': "led' = store_state (ai_key di) d2 led1"
    unfolding process_withdraw_withheld_tokens_from_accounts_def Let_def
    by (elim peel22 Inr_eqE) (rule that, assumption, assumption, assumption, assumption, erule sym)
  note k = harvest_to_account_spec [OF h assms(1,2)]
  then obtain n where s1: "sound22 native (env_zk E) pid led1" and same: "led1 (ai_key di) = led (ai_key di)"
    and g: "gathered (env_zk E) pid (ai_key mi) dest led n st led1" by blast
  from g obtain t where st: "st = dest\<lparr>sx_base := (sx_base dest)\<lparr>ta_amount := ta_amount (sx_base st)\<rparr>, sx_tlv := t\<rparr>"
    and t: "length t = length (sx_tlv dest)" unfolding gathered_def by blast
  have d2': "pack_base Account_base (dest\<lparr>sx_base := (sx_base dest)\<lparr>ta_amount := ta_amount (sx_base st)\<rparr>, sx_tlv := t\<rparr>) = Inr d2"
    using d2 st by simp
  have dest1: "unpack_account (acc_data (led1 (ai_key di))) = Inr dest" using dest same by simp
  have "sound22 native (env_zk E) pid led' \<and> (\<forall>m. gap pid m led' = gap pid m led)"
  proof (cases "acc_owner (led1 (ai_key di)) = pid")
    case True
    have ok: "tlv_ok (env_zk E) AccountType_Account (sx_tlv dest)" by (rule sound22_tlv(1) [OF s1 True dest1])
    have t': "sx_tlv st = t" by (subst st) simp
    have tok: "tlv_ok (env_zk E) AccountType_Account t" using g ok t' unfolding gathered_def by blast
    have i: "account_is_initialized ((sx_base dest)\<lparr>ta_amount := ta_amount (sx_base st)\<rparr>)"
      using unpack_account_initialized [OF dest] by (simp add: account_is_initialized_def)
    note k2 = save_account_settles [OF s1 True dest1 d2' t tok i]
    have "unat (ta_amount (sx_base st)) + unat (withheld_in t) =
        unat (ta_amount (sx_base dest)) + n + unat (withheld_in (sx_tlv dest))"
      using g ok t' unfolding gathered_def by blast
    then have "int (unat (ta_amount (sx_base st))) + int (unat (withheld_in t)) =
        int (unat (ta_amount (sx_base dest))) + int n + int (unat (withheld_in (sx_tlv dest)))" by (metis of_nat_add)
    moreover have "gap pid x led1 = gap pid x led - (if x = ai_key mi then int n else 0)" for x
      using g unfolding gathered_def by blast
    ultimately show ?thesis using k2 m unfolding led' by auto
  next
    case False
    moreover have "acc_owner (led' (ai_key di)) = acc_owner (led (ai_key di))" by (simp add: led' store_state_def same)
    ultimately have "acc_data (led' (ai_key di)) = info_data led di" using assms(3) same by (simp add: keeps_foreign_def)
    then have "sx_bytes d2 = info_data led di" by (simp add: led' store_state_def)
    from save_account_amount(1) [OF dest d2' t this] g have "n = 0" unfolding gathered_def by simp
    then show ?thesis
      using g s1 False unfolding gathered_def by (simp add: led' store_state_def write_foreign)
  qed
  then show ?thesis by (simp add: settled_def)
qed

end
