(* ===== verification/Token22_Runs.thy ===== *)
theory Token22_Runs
  imports Token22_Withheld
begin

text \<open>
  The handlers that call the system program, and whole runs: any sequence of the program's
  instructions and of what other programs do in between.
\<close>

section \<open>Other programs\<close>

lemma other_settled:
  assumes "sound22 native zk pid led" and "other_activity pid led led'"
  shows "settled native zk pid led led'"
proof -
  have o: "if acc_owner (led k) = pid then acc_owner (led' k) = pid \<and> acc_data (led' k) = acc_data (led k)
      else acc_owner (led' k) = pid \<longrightarrow> blank zk (acc_data (led' k))" for k
    using assms(2) zeros_blank unfolding other_activity_def by meson
  have "sound22 native zk pid led'"
    unfolding sound22_def
  proof (intro allI impI conjI)
    fix k assume k: "acc_owner (led' k) = pid"
    show "buffer_ok zk (acc_data (led' k))"
      using o [of k] k sound22_buffer [OF assms(1), of k] by (auto simp: buffer_ok_def split: if_splits)
    fix st assume "unpack_account (acc_data (led' k)) = Inr st" "is_native (sx_base st)"
    then show "ta_mint (sx_base st) = native"
      using o [of k] k sound22_native [OF assms(1), of k] blank_not_account by (metis (full_types))
  qed
  moreover have "weight pid m k (led' k) = weight pid m k (led k)" for m k
    using o [of k] weight_cong [of "led' k" "led k"] weight_foreign weight_blank by (metis (full_types))
  then have "gap pid m led' = gap pid m led" for m by (simp only: gap_def)
  ultimately show ?thesis by (simp add: settled_def)
qed

lemma settled_trans: "settled native zk pid led l \<Longrightarrow> settled native zk pid l led' \<Longrightarrow> settled native zk pid led led'"
  by (simp add: settled_def)

lemma settled_sound: "settled native zk pid led led' \<Longrightarrow> sound22 native zk pid led'"
  by (simp add: settled_def)

text \<open>What a call into another program may do to this one's accounts.\<close>

definition calls_respect :: "env22 \<Rightarrow> pubkey \<Rightarrow> bool" where
  "calls_respect E pid \<longleftrightarrow>
     (\<forall>ix infos seeds led led'. rt_invoke_signed (env_rt E) pid ix infos seeds led = Inr led' \<longrightarrow> other_activity pid led led')"

section \<open>Reallocation\<close>

lemma tlv_ok_grows: "tlv_ok zk at t \<Longrightarrow> tlv_ok zk at (t @ replicate n 0)"
  unfolding tlv_ok_def tlv_image_def by (metis append_assoc replicate_add)

lemma withheld_grows:
  assumes "tlv_ok zk AccountType_Account t"
  shows "withheld_in (t @ replicate n 0) = withheld_in t"
proof -
  from assms obtain es z where t: "t = tlv_image es z" and ok: "entries_ok zk AccountType_Account es"
    unfolding tlv_ok_def by blast
  then have "t @ replicate n 0 = tlv_image es (z + n)" by (simp add: tlv_image_def replicate_add)
  then show ?thesis using withheld_image [OF ok] by (simp add: t)
qed

lemma set_account_type_Inr:
  fixes input :: bytes
  defines "r \<equiv> drop ACCOUNT_LEN input"
  assumes "set_account_type Account_base input = Inr bs"
  shows "length input \<noteq> MULTISIG_LEN" and "2 \<le> length r" and "input ! 108 \<noteq> 0"
    and "bs = take ACCOUNT_LEN input @ (if r ! 0 = 0 then r[0 := 2] else r)"
proof -
  from assms(2) obtain u idx where c: "check_min_len_and_not_multisig input ACCOUNT_LEN = Inr u"
    and i: "is_initialized_account (take ACCOUNT_LEN input) = Inr True"
    and t: "type_and_tlv_indices Account_base r = Inr idx"
    and b: "(case idx of
       Some (account_type_index, _) \<Rightarrow>
         attempt (ok_or (AccountType_try_from (r ! account_type_index)) InvalidAccountData) (\<lambda>t.
         attempt (check_account_type Account_base
            (if t = AccountType_Uninitialized then bs_account_type Account_base else t)) (\<lambda>_.
         Inr (take ACCOUNT_LEN input @ (if t = AccountType_Uninitialized
            then r[account_type_index := AccountType22_byte (bs_account_type Account_base)] else r))))
     | None \<Rightarrow> Inl InvalidAccountData) = Inr bs"
    unfolding set_account_type_def Let_def r_def
    by (elim attempt_eq_InrE guardE) (auto simp only: base_sel if_True not_not if_P [OF refl])
  from c show "length input \<noteq> MULTISIG_LEN" by (auto simp: check_min_len_and_not_multisig_def split: if_splits)
  from c i show "input ! 108 \<noteq> 0"
    by (auto simp: check_min_len_and_not_multisig_def is_initialized_account_def split: if_splits)
  from t b have idx: "idx = Some (0, 1)" and "2 \<le> length r"
    by (auto simp: type_and_tlv_indices_def Let_def split: if_splits)
  then show "2 \<le> length r" by simp
  show "bs = take ACCOUNT_LEN input @ (if r ! 0 = 0 then r[0 := 2] else r)"
    using b unfolding idx
    by (auto simp: attempt_eq_Inr ok_or_eq_Inr AccountType_try_from_def split: if_splits)
qed

lemma set_type_grown:
  assumes "unpack_account data = Inr st" and "set_account_type Account_base (data @ replicate n 0) = Inr bs" and "0 < n"
  obtains st' n' where "unpack_account bs = Inr st'" and "sx_base st' = sx_base st" and "sx_tlv st' = sx_tlv st @ replicate n' 0"
proof -
  have l: "sx_layout Account_base st" "sx_bytes st = data" "Account_unpack_from_slice (sx_base_data st) = Inr (sx_base st)"
    "account_is_initialized (sx_base st)" "sx_account_type st = [] \<or> sx_account_type st = [2]"
    using assms(1) unfolding account_state.unpack_Inr by simp_all
  have len: "length (sx_base_data st) = ACCOUNT_LEN" "sx_padding st = []" using l(1) by (auto simp: sx_layout_def)
  let ?new = "data @ replicate n 0"
  have rest: "take ACCOUNT_LEN ?new = sx_base_data st" "drop ACCOUNT_LEN ?new = sx_account_type st @ sx_tlv st @ replicate n 0"
    using len by (simp_all add: l(2) [symmetric] sx_bytes_def)
  note i = set_account_type_Inr [OF assms(2)]
  have c: "length ?new \<noteq> MULTISIG_LEN" by (rule i(1))
  have more: "2 \<le> length (drop ACCOUNT_LEN ?new)" by (rule i(2))
  have bs: "bs = sx_base_data st @ (if drop ACCOUNT_LEN ?new ! 0 = 0 then (drop ACCOUNT_LEN ?new)[0 := 2] else drop ACCOUNT_LEN ?new)"
    using i(4) unfolding rest(1) .
  show thesis
  proof (cases "sx_account_type st = []")
    case True
    then have tlv: "sx_tlv st = []" using l(1) by (auto simp: sx_layout_def)
    then have n: "2 \<le> n" using more True unfolding rest by simp
    let ?st = "st\<lparr>sx_account_type := [2], sx_tlv := replicate (n - 1) 0\<rparr>"
    have r: "drop ACCOUNT_LEN ?new = 0 # replicate (n - 1) 0" using n unfolding rest by (cases n) (simp_all add: True tlv)
    have b: "sx_bytes ?st = bs" unfolding bs r by (simp add: sx_bytes_def len(2))
    have "length bs = length ?new" using b n l(2) by (auto simp: sx_bytes_def True tlv)
    then have "unpack_account bs = Inr ?st"
      using l len n c b unfolding account_state.unpack_Inr by (simp add: sx_layout_def)
    then show thesis by (rule that [of _ "n - 1"]) (simp_all add: tlv)
  next
    case False
    then have t: "sx_account_type st = [2]" "sx_tlv st \<noteq> []" using l(1,5) by (auto simp: sx_layout_def)
    let ?st = "st\<lparr>sx_tlv := sx_tlv st @ replicate n 0\<rparr>"
    have b: "sx_bytes ?st = bs" unfolding bs rest(2) t(1) by (simp add: sx_bytes_def len(2) t(1))
    have "length bs = length ?new" using b l(2) by (auto simp: sx_bytes_def)
    then have "unpack_account bs = Inr ?st"
      using l len c b t unfolding account_state.unpack_Inr by (simp add: sx_layout_def)
    then show thesis by (rule that [of _ n]) simp_all
  qed
qed

text \<open>
  Between the reallocation and the write of the account type the buffer is in neither form; the
  system program cannot change it meanwhile.
\<close>

lemma reallocated_settled:
  assumes s: "sound22 native zk pid led" and u: "unpack_account (acc_data (led k)) = Inr st"
    and o: "other_activity pid (set_data k (acc_data (led k) @ replicate n 0) led) led2" and n: "0 < n"
    and t: "set_account_type Account_base (acc_data (led2 k)) = Inr bs"
  shows "settled native zk pid led (set_data k bs led2)"
proof (cases "acc_owner (led k) = pid")
  case True
  let ?led1 = "set_data k (acc_data (led k) @ replicate n 0) led"
  have d: "acc_data (led2 k) = acc_data (led k) @ replicate n 0" and own: "acc_owner (led2 k) = pid"
    and lam: "unat (acc_lamports (led k)) \<le> unat (acc_lamports (led2 k))"
    using o True unfolding other_activity_def by (auto dest!: spec [of _ k])
  let ?led3 = "set_data k (acc_data (led k)) led2"
  have "other_activity pid led ?led3"
    unfolding other_activity_def
  proof
    fix x
    have "if acc_owner (?led1 x) = pid then acc_owner (led2 x) = pid \<and> acc_data (led2 x) = acc_data (?led1 x) \<and>
        unat (acc_lamports (?led1 x)) \<le> unat (acc_lamports (led2 x))
      else acc_owner (led2 x) = pid \<longrightarrow> (\<forall>b \<in> set (acc_data (led2 x)). b = 0)"
      using o unfolding other_activity_def by (rule spec)
    then show "if acc_owner (led x) = pid then acc_owner (?led3 x) = pid \<and> acc_data (?led3 x) = acc_data (led x) \<and>
        unat (acc_lamports (led x)) \<le> unat (acc_lamports (?led3 x))
      else acc_owner (?led3 x) = pid \<longrightarrow> (\<forall>b \<in> set (acc_data (?led3 x)). b = 0)"
      using True own lam by (cases "x = k") (simp_all split: if_splits)
  qed
  note s3 = other_settled [OF s this]
  obtain st' n' where u': "unpack_account bs = Inr st'" and st': "sx_base st' = sx_base st"
    "sx_tlv st' = sx_tlv st @ replicate n' 0"
    by (rule set_type_grown [OF u t [unfolded d] n])
  have ok: "tlv_ok zk AccountType_Account (sx_tlv st)" by (rule sound22_tlv(1) [OF s True u])
  have u3: "unpack_account (acc_data (?led3 k)) = Inr st" and own3: "acc_owner (?led3 k) = pid" using u own by simp_all
  have r: "sound22 native zk pid (set_data k bs ?led3)" "gap pid m (set_data k bs ?led3) = gap pid m ?led3 - worth m st + worth m st'" for m
    by (rule rewrite_account [OF settled_sound [OF s3] own3 u3 u'], simp_all add: st' tlv_ok_grows ok)+
  have "worth m st' = worth m st" for m by (simp add: worth_def st' withheld_grows [OF ok])
  then have "settled native zk pid ?led3 (set_data k bs ?led3)" using r by (simp add: settled_def)
  moreover have "set_data k bs ?led3 = set_data k bs led2" by (simp add: set_data_def)
  ultimately show ?thesis using settled_trans [OF s3] by simp
next
  case False
  have s2: "settled native zk pid led led2"
    using other_settled [OF write_foreign(1) [OF False s] o] write_foreign(2) [of led k pid] False by (simp add: settled_def)
  have "acc_owner (led2 k) \<noteq> pid"
  proof
    assume p: "acc_owner (led2 k) = pid"
    have "if acc_owner (set_data k (acc_data (led k) @ replicate n 0) led k) = pid then True
        else acc_owner (led2 k) = pid \<longrightarrow> (\<forall>b \<in> set (acc_data (led2 k)). b = 0)"
      using o unfolding other_activity_def by metis
    then have "\<forall>b \<in> set (acc_data (led2 k)). b = 0" using False p by simp
    moreover have "108 < length (acc_data (led2 k))" using set_account_type_Inr(2) [OF t] by simp
    ultimately show False using set_account_type_Inr(3) [OF t] by (meson nth_mem)
  qed
  then show ?thesis using s2 write_foreign [of led2 k pid] by (simp add: settled_def)
qed

lemma grown_Inr:
  "(if n \<le> length (info_data led i) then Inr led
    else attempt (realloc E (ai_key i) n led) (\<lambda>led.
         attempt (rt_rent_get (env_rt E)) (\<lambda>rent.
         attempt (rt_invoke_signed (env_rt E) pid (f rent led) infos [] led) (\<lambda>led.
         attempt (set_account_type Account_base (info_data led i)) (\<lambda>bs.
         Inr (set_data (ai_key i) bs led)))))) = Inr led' \<Longrightarrow>
   led' = led \<or> length (info_data led i) < n \<and> (\<exists>led1 ix infos led2 bs.
      realloc E (ai_key i) n led = Inr led1 \<and> rt_invoke_signed (env_rt E) pid ix infos [] led1 = Inr led2 \<and>
      set_account_type Account_base (info_data led2 i) = Inr bs \<and> led' = set_data (ai_key i) bs led2)"
  by (auto simp: attempt_eq_Inr not_le split: if_splits) blast

lemma reallocate_settled:
  assumes "sound22 native (env_zk E) pid led" and "calls_respect E pid" and "process_reallocate E pid accounts ts led = Inr led'"
  shows "settled native (env_zk E) pid led led'"
proof -
  from assms(3) obtain i v n where v: "view_account (info_data led i) = Inr v"
    and r: "led' = led \<or> length (info_data led i) < n \<and> (\<exists>led1 ix infos led2 bs.
      realloc E (ai_key i) n led = Inr led1 \<and> rt_invoke_signed (env_rt E) pid ix infos [] led1 = Inr led2 \<and>
      set_account_type Account_base (info_data led2 i) = Inr bs \<and> led' = set_data (ai_key i) bs led2)"
    unfolding process_reallocate_def Let_def by (elim peel22) (rule that, assumption, erule grown_Inr)
  from r show ?thesis
  proof (elim disjE conjE exE)
    assume "led' = led"
    then show ?thesis using settled_refl [OF assms(1)] by simp
  next
    fix led1 ix infos led2 bs
    assume n: "length (info_data led i) < n" and a: "realloc E (ai_key i) n led = Inr led1"
      and c: "rt_invoke_signed (env_rt E) pid ix infos [] led1 = Inr led2"
      and t: "set_account_type Account_base (info_data led2 i) = Inr bs" and led': "led' = set_data (ai_key i) bs led2"
    obtain st where u: "unpack_account (info_data led i) = Inr st" using view_account_unpack [OF v] by blast
    have "led1 = set_data (ai_key i) (info_data led i @ replicate (n - length (info_data led i)) 0) led"
      using a n by (auto simp: realloc_def Let_def split: if_splits)
    then have o: "other_activity pid (set_data (ai_key i) (info_data led i @ replicate (n - length (info_data led i)) 0) led) led2"
      using c assms(2) unfolding calls_respect_def by blast
    show ?thesis unfolding led' by (rule reallocated_settled [OF assms(1) u o _ t]) (use n in simp)
  qed
qed

lemma mint_sized_weight:
  assumes "length (acc_data a) = MINT_LEN" and "k \<noteq> m"
  shows "weight pid m k a = 0"
proof (cases "\<exists>st. unpack_mint (acc_data a) = Inr st")
  case True
  then obtain st where "unpack_mint (acc_data a) = Inr st" by blast
  then show ?thesis using weight_mint [of a pid st m k] weight_foreign [of a pid] assms(2) by (cases "acc_owner a = pid") auto
next
  case False
  have "unpack_account (acc_data a) \<noteq> Inr st" for st
    using account_state.unpack_lengths [of "acc_data a" st] assms(1) by auto
  then show ?thesis using False by (intro weight_neither) blast+
qed

lemma create_native_mint_settled:
  assumes "sound22 (native_mint22_id (env_rt E)) (env_zk E) pid led" and "calls_respect E pid"
    and "process_create_native_mint E pid accounts led = Inr led'"
  shows "settled (native_mint22_id (env_rt E)) (env_zk E) pid led led'"
proof -
  let ?native = "native_mint22_id (env_rt E)"
  from assms(3) obtain i :: account_info and i1 n1 s1 i2 n2 s2 i3 n3 s3 led1 led2 led3 v where
    k: "\<not> ai_key i \<noteq> ?native" and "rt_invoke_signed (env_rt E) pid i1 n1 s1 led = Inr led1"
    "rt_invoke_signed (env_rt E) pid i2 n2 s2 led1 = Inr led2"
    "rt_invoke_signed (env_rt E) pid i3 n3 s3 led2 = Inr led3"
    and p: "Mint_pack v (ai_key i) led3 = Inr led'" and v: "mint_is_initialized v"
    unfolding process_create_native_mint_def Let_def
    by (elim peel22) (rule that, assumption, assumption, assumption, assumption, assumption, simp)
  then have "other_activity pid led led3" using assms(2) other_activity_trans unfolding calls_respect_def by metis
  note s3 = other_settled [OF assms(1) this]
  obtain bs where l: "length (acc_data (led3 ?native)) = MINT_LEN" and led': "led' = set_data ?native bs led3"
    and b: "length bs = MINT_LEN" "Mint_unpack_from_slice bs = Inr v"
    using Mint_pack_spec [OF p] k by (auto simp: Mint_unpack_unchecked_def mint_packed.unpack_unchecked_eq_Inr)
  have u: "unpack_mint bs = Inr \<lparr>sx_base = v, sx_base_data = bs, sx_padding = [], sx_account_type = [], sx_tlv = []\<rparr>"
    unfolding mint_state.unpack_Inr using b by (simp add: sx_layout_def sx_bytes_def v)
  have "settled ?native (env_zk E) pid led3 led'"
  proof (cases "acc_owner (led3 ?native) = pid")
    case True
    have "mint_ok (env_zk E) (tlv_image [] 0)" by (subst mint_ok_image) (simp_all add: entries_ok_def starts_accounts_def)
    then have "mint_ok (env_zk E) []" by (simp add: tlv_image_def)
    then show ?thesis
      using write_mint [OF settled_sound [OF s3] True u] mint_sized_weight [OF l] unfolding led'
      by (simp add: settled_def)
  qed (simp add: led' settled_def write_foreign settled_sound [OF s3])
  then show ?thesis by (rule settled_trans [OF s3])
qed

section \<open>Every instruction\<close>

lemma inv22_settled: "inv22 E pid led \<Longrightarrow> settled (native_mint22_id (env_rt E)) (env_zk E) pid led led' \<Longrightarrow> inv22 E pid led'"
  by (simp add: inv22_def settled_def)

lemma inv22_sound: "inv22 E pid led \<Longrightarrow> sound22 (native_mint22_id (env_rt E)) (env_zk E) pid led"
  by (simp add: inv22_def)

lemma transfer_fee_instruction_settled:
  assumes "inv22 E pid led" and "pid = token22_program_id (env_rt E)" and "keeps_foreign pid led led'"
    and "transfer_fee_process_instruction E pid accounts i led = Inr led'"
  shows "settled (native_mint22_id (env_rt E)) (env_zk E) pid led led'"
proof -
  note s = inv22_sound [OF assms(1)]
  have r: "(case i of
       InitializeTransferFeeConfig c w b m \<Rightarrow> process_initialize_transfer_fee_config E accounts c w b m led
     | TransferCheckedWithFee n d f \<Rightarrow> process_transfer22 E pid accounts n (Some d) (Some f) led
     | WithdrawWithheldTokensFromMint \<Rightarrow> process_withdraw_withheld_tokens_from_mint E pid accounts led
     | WithdrawWithheldTokensFromAccounts n \<Rightarrow> process_withdraw_withheld_tokens_from_accounts E pid accounts n led
     | HarvestWithheldTokensToMint \<Rightarrow> process_harvest_withheld_tokens_to_mint E accounts led
     | SetTransferFee b m \<Rightarrow> process_set_transfer_fee E pid accounts b m led) = Inr led'"
    using assms(4) unfolding transfer_fee_process_instruction_def by (elim attempt_eq_InrE)
  show ?thesis
  proof (cases i)
    case InitializeTransferFeeConfig
    with r show ?thesis using initialize_fee_config_settled [OF s] by simp
  next
    case TransferCheckedWithFee
    with r show ?thesis using transfer_settled [OF s assms(2)] by simp
  next
    case WithdrawWithheldTokensFromMint
    with r show ?thesis using withdraw_mint_settled [OF s assms(3)] by simp
  next
    case WithdrawWithheldTokensFromAccounts
    with r show ?thesis using withdraw_accounts_settled [OF s assms(2,3)] by simp
  next
    case HarvestWithheldTokensToMint
    with r show ?thesis using harvest_settled [OF assms(1,2)] by simp
  next
    case SetTransferFee
    with r show ?thesis using set_transfer_fee_settled [OF s] by simp
  qed
qed

lemma extension_instructions_settled:
  assumes s: "sound22 native (env_zk E) pid led"
  shows "default_state_process_instruction E pid accounts input led = Inr led' \<Longrightarrow> settled native (env_zk E) pid led led'"
    and "memo_process_instruction E pid accounts input led = Inr led' \<Longrightarrow> settled native (env_zk E) pid led led'"
    and "interest_process_instruction E pid accounts input led = Inr led' \<Longrightarrow> settled native (env_zk E) pid led led'"
  using initialize_default_state_settled [OF s] update_default_state_settled [OF s] set_memos_settled [OF s]
    initialize_interest_settled [OF s] update_rate_settled [OF s]
  by (auto simp: default_state_process_instruction_def memo_process_instruction_def interest_process_instruction_def
      attempt_eq_Inr process_enable_required_memo_transfers_def process_diasble_required_memo_transfers_def
      split: DefaultAccountStateInstruction.split_asm RequiredMemoTransfersInstruction.split_asm
        InterestBearingMintInstruction.split_asm)
    (metis DefaultAccountStateInstruction.exhaust RequiredMemoTransfersInstruction.exhaust
      InterestBearingMintInstruction.exhaust)+

lemma no_return_pair: "no_return m = Inr (led', ret) \<longleftrightarrow> m = Inr led' \<and> ret = []"
  by (auto simp: no_return_def attempt_eq_Inr)

lemma with_return_pair: "with_return led m = Inr (led', ret) \<longleftrightarrow> m = Inr ret \<and> led' = led"
  by (auto simp: with_return_def attempt_eq_Inr)

lemma instruction_settled:
  assumes "inv22 E pid led" and pid: "pid = token22_program_id (env_rt E)" and "calls_respect E pid"
    and f: "keeps_foreign pid led led'" and "i \<noteq> ConfidentialTransferExtension"
    and "process_instruction22 F confidential E pid accounts input i led = Inr (led', ret)"
  shows "settled (native_mint22_id (env_rt E)) (env_zk E) pid led led'"
proof -
  note s = inv22_sound [OF assms(1)]
  show ?thesis
    using assms(5,6)
    by (cases i)
      (auto simp: process_instruction22_def no_return_pair with_return_pair settled_refl [OF s]
        process_initialize_mint22_def process_initialize_mint2_22_def process_initialize_account22_def
        process_initialize_account2_22_def process_initialize_account3_22_def process_initialize_multisig_def
        process_initialize_multisig2_def
        dest: initialize_mint_settled [OF s] initialize_account_settled [OF s pid] initialize_multisig_settled [OF s]
        transfer_settled [OF s pid] approve_settled [OF s] revoke_settled [OF s] set_authority_settled [OF s]
        mint_to_settled [OF s pid] burn_settled [OF s pid] close_settled [OF assms(1)] toggle_freeze_settled [OF s]
        sync_native_settled [OF s pid] initialize_close_authority_settled [OF s]
        transfer_fee_instruction_settled [OF assms(1) pid f] extension_instructions_settled [OF s]
        initialize_immutable_owner_settled [OF s] reallocate_settled [OF s assms(3)]
        create_native_mint_settled [OF s assms(3)] initialize_non_transferable_settled [OF s])
qed

section \<open>Runs\<close>

text \<open>
  A call runs in an environment of its own (clock, rent, the instruction before it) that agrees
  on the identifiers; the confidential-transfer instruction, whose balances are encrypted, is left out.
\<close>

definition agrees22 :: "pubkey \<Rightarrow> zk_sizes \<Rightarrow> pubkey \<Rightarrow> env22 \<Rightarrow> bool" where
  "agrees22 native zk pid E \<longleftrightarrow>
     token22_program_id (env_rt E) = pid \<and> native_mint22_id (env_rt E) = native \<and> env_zk E = zk \<and> calls_respect E pid"

inductive world22_step ::
    "'f f64_ops \<Rightarrow> confidential_handler \<Rightarrow> pubkey \<Rightarrow> zk_sizes \<Rightarrow> pubkey \<Rightarrow> ledger \<Rightarrow> ledger \<Rightarrow> bool"
  for F confidential native zk pid where
  call: "agrees22 native zk pid E \<Longrightarrow> TokenInstruction22_unpack input = Inr i \<Longrightarrow> i \<noteq> ConfidentialTransferExtension \<Longrightarrow>
    process22 F confidential E pid accounts input led = Inr (led', ret) \<Longrightarrow> keeps_foreign pid led led' \<Longrightarrow>
    world22_step F confidential native zk pid led led'"
| other: "other_activity pid led led' \<Longrightarrow> world22_step F confidential native zk pid led led'"

definition conserving22 :: "pubkey \<Rightarrow> zk_sizes \<Rightarrow> pubkey \<Rightarrow> ledger \<Rightarrow> bool" where
  "conserving22 native zk pid led \<longleftrightarrow> sound22 native zk pid led \<and> (\<forall>m. m \<noteq> native \<longrightarrow> gap pid m led = 0)"

lemma conserving22_inv: "agrees22 native zk pid E \<Longrightarrow> conserving22 native zk pid led = inv22 E pid led"
  by (simp add: conserving22_def inv22_def agrees22_def)

lemma conserving22_settled: "conserving22 native zk pid led \<Longrightarrow> settled native zk pid led led' \<Longrightarrow> conserving22 native zk pid led'"
  by (simp add: conserving22_def settled_def)

lemma world22_step_conserving:
  assumes "world22_step F confidential native zk pid led led'" and inv: "conserving22 native zk pid led"
  shows "conserving22 native zk pid led'"
  using assms(1)
proof cases
  case (call E input i accounts ret)
  have i: "process_instruction22 F confidential E pid accounts input i led = Inr (led', ret)"
    using call(4) unfolding process22_def call(2) attempt_Inr .
  have a: "native_mint22_id (env_rt E) = native" "env_zk E = zk" "calls_respect E pid" "pid = token22_program_id (env_rt E)"
    using call(1) unfolding agrees22_def by auto
  have "inv22 E pid led" using inv conserving22_inv [OF call(1)] by blast
  from instruction_settled [OF this a(4,3) call(5,3) i] show ?thesis
    unfolding a(1,2) by (rule conserving22_settled [OF inv])
next
  case other
  show ?thesis by (rule conserving22_settled [OF inv other_settled [OF _ other]]) (use inv in \<open>simp add: conserving22_def\<close>)
qed

interpretation token22_system:
  invariant_system "world22_step F confidential native zk pid" "conserving22 native zk pid"
  for F :: "'f f64_ops" and confidential native zk pid
  by unfold_locales (rule world22_step_conserving)

lemma genesis22:
  assumes "\<forall>k. acc_owner (led k) \<noteq> pid"
  shows "conserving22 native zk pid led"
  unfolding conserving22_def sound22_def gap_def using assms by (simp add: weight_foreign)

end
