(* ===== verification/Token22_Codec.thy ===== *)
theory Token22_Codec
  imports Token22_Program Token22_Entries
begin

text \<open>The instructions of the extended token program: what \<open>pack\<close> writes, \<open>unpack\<close> reads.\<close>

lemma AuthorityType22_from_into [simp]: "AuthorityType22_from (AuthorityType22_into t) = Inr t"
  by (cases t) (simp_all add: AuthorityType22_from_def)

lemma ExtensionType_bytes_pair: "\<exists>b c. ExtensionType_bytes t = [b, c]"
proof -
  have "length (ExtensionType_bytes t) = Suc (Suc 0)" by simp
  then show ?thesis by (simp only: length_Suc_conv length_0_conv) blast
qed

lemma unpack_pack_extension_types [simp]: "unpack_extension_types (pack_extension_types ts) = Inr ts"
proof (induction ts)
  case (Cons t ts)
  obtain b c where t: "ExtensionType_bytes t = [b, c]" using ExtensionType_bytes_pair by blast
  then have "ExtensionType_try_from [b, c] = Inr t" using ExtensionType_try_from_bytes [of t] by simp
  then show ?case using Cons by (simp add: pack_extension_types_def t)
qed (simp add: pack_extension_types_def)

lemma unpack_pubkey_option_append [simp]: "unpack_pubkey_option (pack_pubkey_option v @ r) = Inr (v, r)"
  by (cases v) (simp_all add: unpack_pubkey_option_def pack_pubkey_option_def)

lemma unpack_u16_append [simp]: "unpack_u16 (to_le_bytes b @ r) = Inr (b, r)"
  by (simp add: unpack_u16_def get_prefix_def)

lemma unpack_u64_22_append [simp]: "unpack_u64_22 (to_le_bytes b @ r) = Inr (b, r)" "unpack_u64_22 (to_le_bytes b) = Inr (b, [])"
  by (simp_all add: unpack_u64_22_def get_prefix_def)

lemma TransferFeeInstruction_unpack_pack [simp]:
  "TransferFeeInstruction_unpack (TransferFeeInstruction_pack i) = Inr (i, [])"
  by (cases i) (simp_all add: TransferFeeInstruction_unpack_def unpack_amount_decimals22_def)

text \<open>Text is valid UTF-8; nothing else restricts an instruction.\<close>

definition TokenInstruction22_wf :: "TokenInstruction22 \<Rightarrow> bool" where
  "TokenInstruction22_wf i = (case i of UiAmountToAmount_22 s \<Rightarrow> valid_utf8 s | _ \<Rightarrow> True)"

lemma TokenInstruction22_unpack_pack:
  "TokenInstruction22_wf i \<Longrightarrow> TokenInstruction22_unpack (TokenInstruction22_pack i) = Inr i"
  by (cases i)
    (simp_all add: TokenInstruction22_unpack_def TokenInstruction22_wf_def unpack_field_defs unpack_amount_decimals22_def)

end
