(* ===== verification/Token22_Sample.thy ===== *)
theory Token22_Sample
  imports Token22_Runs Token22_Codec Token_Safety
begin

text \<open>
  Concrete environments, buffers and a short history, on which the guarantees are shown to apply.
  The program is account 6 and the native mint account 7.
\<close>

section \<open>The environment\<close>

definition sample22_runtime :: runtime where
  "sample22_runtime =
     example_runtime\<lparr>rt_declare_id := (\<lambda>s. if s = ''TokenzQdBNbLqP5VEhdkAS6EPFLC1PHnBqCXEpPxuEb'' then 6 else 7)\<rparr>"

definition sample22 :: env22 where
  "sample22 =
     \<lparr>env_rt = sample22_runtime,
      env_zk = \<lparr>zk_pubkey_len = 32, zk_ciphertext_len = 64, zk_ae_ciphertext_len = 36\<rparr>,
      env_sibling = None, env_memo_id = 50, env_memo_v1_id = 51,
      env_system_transfer = (\<lambda>a b n. \<lparr>ix_program_id = 0, ix_accounts = [], ix_data = [2]\<rparr>),
      env_system_allocate = (\<lambda>a n. \<lparr>ix_program_id = 0, ix_accounts = [], ix_data = [8]\<rparr>),
      env_system_assign = (\<lambda>a b. \<lparr>ix_program_id = 0, ix_accounts = [], ix_data = [1]\<rparr>),
      env_max_data_increase = 10240\<rparr>"

abbreviation sample22_zk :: zk_sizes where "sample22_zk \<equiv> env_zk sample22"

lemma sample22_ids [simp]:
  "token22_program_id (env_rt sample22) = 6" "native_mint22_id (env_rt sample22) = 7"
  by (simp_all add: sample22_def sample22_runtime_def token22_program_id_def native_mint22_id_def)

lemma sample22_clock [simp]:
  "rt_clock_get (env_rt sample22) = Inr \<lparr>clock_slot = 7, clock_unix_timestamp = 1000, clock_epoch = 3\<rparr>"
  by (simp add: sample22_def sample22_runtime_def example_runtime_def)

lemma sample22_runtime_sel [simp]:
  "rt_invoke_signed (env_rt sample22) = (\<lambda>caller ix infos seeds led. Inr led)"
  "rt_rent_get (env_rt sample22) = Inr \<lparr>rent_is_exempt = (\<lambda>l n. True), rent_minimum_balance = (\<lambda>n. 3)\<rparr>"
  by (simp_all add: sample22_def sample22_runtime_def example_runtime_def)

lemma sample22_agrees: "agrees22 7 sample22_zk 6 sample22"
  by (simp add: agrees22_def calls_respect_def)

section \<open>Buffers\<close>

definition plain :: "'s \<Rightarrow> bytes \<Rightarrow> 's state_ext" where
  "plain v bs = \<lparr>sx_base = v, sx_base_data = bs, sx_padding = [], sx_account_type = [], sx_tlv = []\<rparr>"

lemma unpack_plain_mint:
  "length dst = MINT_LEN \<Longrightarrow> mint_is_initialized v \<Longrightarrow> unpack_mint (Mint_over v dst) = Inr (plain v (Mint_over v dst))"
  unfolding mint_state.unpack_Inr
  by (simp add: plain_def sx_layout_def sx_bytes_def Mint_from_into(2) [OF _ Mint_over])

lemma unpack_plain_account:
  "length dst = ACCOUNT_LEN \<Longrightarrow> account_is_initialized v \<Longrightarrow>
   unpack_account (Account_over v dst) = Inr (plain v (Account_over v dst))"
  unfolding account_state.unpack_Inr
  by (simp add: plain_def sx_layout_def sx_bytes_def Account_from_into(2) [OF _ Account_over])

lemma plain_sel [simp]:
  "sx_base (plain v bs) = v" "sx_tlv (plain v bs) = []" "sx_bytes (plain v bs) = bs" "sx_account_type (plain v bs) = []"
  by (simp_all add: plain_def sx_bytes_def)

lemma plain_pack [simp]:
  "length bs = MINT_LEN \<Longrightarrow> pack_base Mint_base ((plain v bs)\<lparr>sx_base := w\<rparr>) = Inr (plain w (Mint_over w bs))"
  "length ds = ACCOUNT_LEN \<Longrightarrow> pack_base Account_base ((plain a ds)\<lparr>sx_base := b\<rparr>) = Inr (plain b (Account_over b ds))"
  by (simp_all add: pack_base_def plain_def Mint_base_def Account_base_def Mint_over Account_over)

lemma plain_extension [simp]: "get_extension_mut zk S V (plain v bs) = Inl InvalidAccountData"
  by (simp add: get_extension_mut_def init_or_get_extension_def get_extension_indices_def plain_def
      extension_indices_from.simps [of "[]"])

lemma plain_get_extension [simp]: "sx_get_extension zk S V (plain v bs) = Inl InvalidAccountData"
  by (simp add: sx_get_extension_def get_extension_indices_def plain_def extension_indices_from.simps [of "[]"])

lemma view_plain_mint [simp]:
  "length dst = MINT_LEN \<Longrightarrow> mint_is_initialized v \<Longrightarrow> view_mint (Mint_over v dst) = Inr \<lparr>sv_base = v, sv_tlv = []\<rparr>"
  using mint_state.view_Inr [OF unpack_plain_mint] by simp

lemma plain_view_extension [simp]: "sv_get_extension S \<lparr>sv_base = v, sv_tlv = []\<rparr> V = Inl InvalidAccountData"
  by (simp add: sv_get_extension_def tlv_get_extension_def get_extension_indices_def extension_indices_from.simps [of "[]"])

lemma map_error_ok [simp]: "map_error e (Inr x) = Inr x"
  by (simp add: map_error_def catch_def)

lemma plain_mint_blank:
  "StateWithExtensionsMut_unpack_uninitialized Mint_base (replicate MINT_LEN 0) =
     Inr (plain \<lparr>mint_authority = None, mint_supply = 0, mint_decimals = 0, mint_is_initialized = False,
          mint_freeze_authority = None\<rparr> (replicate MINT_LEN 0))"
  using Mint_unpack_unchecked_zero
  by (simp add: StateWithExtensionsMut_unpack_uninitialized_def check_min_len_and_not_multisig_def
      Mint_unpack_unchecked_def Let_def type_and_tlv_indices_def plain_def)

lemma plain_account_blank:
  obtains v where "StateWithExtensionsMut_unpack_uninitialized Account_base (replicate ACCOUNT_LEN 0) =
     Inr (plain v (replicate ACCOUNT_LEN 0))" and "\<not> account_is_initialized v"
proof -
  obtain v where v: "Account_unpack_unchecked (replicate ACCOUNT_LEN 0) = Inr v" "\<not> account_is_initialized v"
    using Account_unpack_unchecked_zero by blast
  then have "StateWithExtensionsMut_unpack_uninitialized Account_base (replicate ACCOUNT_LEN 0) =
     Inr (plain v (replicate ACCOUNT_LEN 0))"
    by (simp add: StateWithExtensionsMut_unpack_uninitialized_def check_min_len_and_not_multisig_def
        Account_unpack_unchecked_def Let_def type_and_tlv_indices_def plain_def)
  then show thesis using that v(2) by blast
qed

section \<open>A history\<close>

text \<open>Two zeroed accounts are handed over, a mint is opened, an account is opened, 100 tokens are minted.\<close>

definition funded22 :: ledger where
  "funded22 k =
     \<lparr>acc_lamports = 9,
      acc_data = (if k = 20 then replicate MINT_LEN 0 else if k = 21 then replicate ACCOUNT_LEN 0 else []),
      acc_owner = (if k = 20 \<or> k = 21 then 6 else 0)\<rparr>"

abbreviation opened22 :: ledger where
  "opened22 \<equiv> set_data 20 (Mint_bytes opened_mint) funded22"

abbreviation holder22 :: ledger where
  "holder22 \<equiv> set_data 21 (Account_bytes (example_account 31 0)) opened22"

abbreviation issued22 :: ledger where
  "issued22 \<equiv>
     set_data 21 (Account_over (example_account 31 100) (Account_bytes (example_account 31 0)))
       (set_data 20 (Mint_over (opened_mint\<lparr>mint_supply := 100\<rparr>) (Mint_bytes opened_mint)) holder22)"

lemma sample22_call:
  assumes "TokenInstruction22_wf i" and "i \<noteq> ConfidentialTransferExtension"
    and "process_instruction22 F confidential sample22 6 accounts (TokenInstruction22_pack i) i led = Inr (led', ret)"
    and "keeps_foreign 6 led led'"
  shows "world22_step F confidential 7 sample22_zk 6 led led'"
proof (rule world22_step.call [OF sample22_agrees _ assms(2) _ assms(4)])
  show u: "TokenInstruction22_unpack (TokenInstruction22_pack i) = Inr i" by (rule TokenInstruction22_unpack_pack [OF assms(1)])
  show "process22 F confidential sample22 6 accounts (TokenInstruction22_pack i) led = Inr (led', ret)"
    using assms(3) by (simp add: process22_def u)
qed

lemma history22_start: "world22_step F confidential 7 sample22_zk 6 genesis_ledger funded22"
  by (rule world22_step.other) (auto simp: other_activity_def genesis_ledger_def funded22_def split: if_splits)

lemma get_extension_types_Nil [simp]: "get_extension_types [] = Inr []"
  by (simp add: get_extension_types_def extension_types_from.simps)

lemma history22_mint: "world22_step F confidential 7 sample22_zk 6 funded22 opened22"
proof (rule sample22_call)
  show "process_instruction22 F confidential sample22 6 [info 20 False] (TokenInstruction22_pack (InitializeMint2_22 2 30 None))
      (InitializeMint2_22 2 30 None) funded22 = Inr (opened22, [])"
    by (simp add: process_instruction22_def no_return_def process_initialize_mint2_22_def process_initialize_mint22_inner_def
        take_rent_def funded22_def plain_mint_blank get_account_len_def check_default_state_def catch_def
        init_account_type_def store_state_def opened_mint_def)
qed (simp_all add: TokenInstruction22_wf_def keeps_foreign_def funded22_def)

lemma history22_account: "world22_step F confidential 7 sample22_zk 6 opened22 holder22"
proof (rule sample22_call)
  obtain v where v: "StateWithExtensionsMut_unpack_uninitialized Account_base (replicate ACCOUNT_LEN 0) =
     Inr (plain v (replicate ACCOUNT_LEN 0))" by (rule plain_account_blank)
  have upd: "v\<lparr>ta_mint := 20, ta_owner := 31, ta_close_authority := None, ta_delegate := None,
      ta_delegated_amount := 0, ta_state := Initialized, ta_is_native := None, ta_amount := 0\<rparr> =
      example_account 31 0"
    by (simp add: example_account_def)
  show "process_instruction22 F confidential sample22 6 [info 21 False, info 20 False]
      (TokenInstruction22_pack (InitializeAccount3_22 31)) (InitializeAccount3_22 31) opened22 = Inr (holder22, [])"
    by (simp add: process_instruction22_def no_return_def process_initialize_account3_22_def
        process_initialize_account22_inner_def take_rent_def funded22_def v upd cmp_pubkeys_def Let_def
        get_required_account_extensions_from_unpacked_mint_def check_program_account22_def
        get_required_init_account_extensions_def get_account_len_def starting_state_def catch_def
        init_account_type_def store_state_def)
qed (simp_all add: TokenInstruction22_wf_def keeps_foreign_def funded22_def)

lemma history22_issue: "world22_step F confidential 7 sample22_zk 6 holder22 issued22"
proof (rule sample22_call)
  show "process_instruction22 F confidential sample22 6 [info 20 False, info 21 False, info 30 True]
      (TokenInstruction22_pack (MintTo_22 100)) (MintTo_22 100) holder22 = Inr (issued22, [])"
    by (simp add: handler_simps process_instruction22_def process_mint_to22_def funded22_def unpack_plain_account
        unpack_plain_mint cmp_pubkeys_def check_program_account22_def catch_def check_decimals_def save_mint_def
        save_account_def store_state_def)
qed (simp_all add: TokenInstruction22_wf_def keeps_foreign_def funded22_def)

section \<open>Buffers with extensions\<close>

definition extended_mint :: "mint \<Rightarrow> (ExtensionType \<times> bytes) list \<Rightarrow> mint state_ext" where
  "extended_mint v es = \<lparr>sx_base = v, sx_base_data = Mint_bytes v, sx_padding = replicate (ACCOUNT_LEN - MINT_LEN) 0,
     sx_account_type = [1], sx_tlv = tlv_image es 0\<rparr>"

definition extended_account :: "account \<Rightarrow> (ExtensionType \<times> bytes) list \<Rightarrow> account state_ext" where
  "extended_account v es = \<lparr>sx_base = v, sx_base_data = Account_bytes v, sx_padding = [],
     sx_account_type = [2], sx_tlv = tlv_image es 0\<rparr>"

lemma unpack_extended_mint:
  "mint_is_initialized v \<Longrightarrow> 0 < length (tlv_image es 0) \<Longrightarrow> length (tlv_image es 0) \<noteq> 189 \<Longrightarrow>
   unpack_mint (sx_bytes (extended_mint v es)) = Inr (extended_mint v es)"
  unfolding mint_state.unpack_Inr
  by (simp add: extended_mint_def sx_layout_def sx_bytes_def Mint_from_into(2) [OF _ Mint_over])

lemma unpack_extended_account:
  "account_is_initialized v \<Longrightarrow> 0 < length (tlv_image es 0) \<Longrightarrow> length (tlv_image es 0) \<noteq> 189 \<Longrightarrow>
   unpack_account (sx_bytes (extended_account v es)) = Inr (extended_account v es)"
  unfolding account_state.unpack_Inr
  by (simp add: extended_account_def sx_layout_def sx_bytes_def Account_from_into(2) [OF _ Account_over])

definition sample_config22 :: transfer_fee_config where
  "sample_config22 = \<lparr>tfc_config_authority = 30, tfc_withdraw_authority = 34, tfc_withheld_amount = 0,
     tfc_older = \<lparr>fee_epoch = 0, fee_maximum = 100, fee_basis_points = 100\<rparr>,
     tfc_newer = \<lparr>fee_epoch = 4, fee_maximum = 90, fee_basis_points = 200\<rparr>\<rparr>"

abbreviation fee_entries :: "(ExtensionType \<times> bytes) list" where
  "fee_entries \<equiv> [(Ext_TransferFeeConfig, pod_encode TransferFeeConfig_ext sample_config22)]"

lemma fee_entries_ok: "entries_ok zk AccountType_Mint fee_entries"
  using fee_config.encode_len [of sample_config22] fee_config.sized [of zk] fee_config.short
  by (simp add: entries_ok_def entry_ok_def get_account_type_def)

lemma fee_entries_length: "length (tlv_image fee_entries 0) = 112"
  using fee_config.encode_len [of sample_config22] by (simp add: tlv_image_def) (simp add: TransferFeeConfig_ext_def)

abbreviation fee_mint :: "mint state_ext" where
  "fee_mint \<equiv> extended_mint opened_mint fee_entries"

lemma fee_mint_unpack: "unpack_mint (sx_bytes fee_mint) = Inr fee_mint"
  by (rule unpack_extended_mint) (use fee_entries_length in auto)

lemma fee_mint_config:
  "get_extension_mut zk Mint_base TransferFeeConfig_ext fee_mint = Inr (4, sample_config22, fee_mint)"
proof -
  have t: "sx_tlv fee_mint = tlv_image fee_entries 0" by (simp add: extended_mint_def)
  have ok: "entries_ok zk (bs_account_type Mint_base) fee_entries" using fee_entries_ok by simp
  show ?thesis
    unfolding fee_config.get_mut [OF ok t]
    by (intro conjI exI [of _ "[]"] exI [of _ "pod_encode TransferFeeConfig_ext sample_config22"])
      (simp_all add: fee_config.decode_encode)
qed

lemma fee_mint_ok: "mint_ok zk (sx_tlv fee_mint)"
  using mint_ok_image [OF fee_entries_ok, of zk 0] by (simp add: extended_mint_def starts_accounts_def)

definition fee_ledger :: ledger where
  "fee_ledger k = \<lparr>acc_lamports = 9, acc_data = (if k = 20 then sx_bytes fee_mint else []), acc_owner = (if k = 20 then 6 else 0)\<rparr>"

section \<open>A mint whose tokens are not transferable\<close>

abbreviation bound_mint :: "mint state_ext" where
  "bound_mint \<equiv> extended_mint opened_mint [(Ext_NonTransferable, [])]"

abbreviation bound_account :: "pubkey \<Rightarrow> u64 \<Rightarrow> account state_ext" where
  "bound_account ow n \<equiv> extended_account (example_account ow n) [(Ext_ImmutableOwner, [])]"

definition bound_ledger :: ledger where
  "bound_ledger k =
     \<lparr>acc_lamports = 9,
      acc_data = (if k = 20 then sx_bytes bound_mint else if k = 21 then sx_bytes (bound_account 31 100)
                  else if k = 22 then sx_bytes (bound_account 32 0) else []),
      acc_owner = (if k = 20 \<or> k = 21 \<or> k = 22 then 6 else 0)\<rparr>"

lemma bound_entries_ok:
  "entries_ok zk AccountType_Mint [(Ext_NonTransferable, [])]" "entries_ok zk AccountType_Account [(Ext_ImmutableOwner, [])]"
  by (simp_all add: entries_ok_def entry_ok_def get_account_type_def get_type_len_def NonTransferable_ext_def
      ImmutableOwner_ext_def)

lemma bound_mint_unpack [simp]: "unpack_mint (sx_bytes bound_mint) = Inr bound_mint"
  by (rule unpack_extended_mint) (simp_all add: tlv_image_def)

lemma bound_account_unpack [simp]: "unpack_account (sx_bytes (bound_account ow n)) = Inr (bound_account ow n)"
  by (rule unpack_extended_account) (simp_all add: tlv_image_def account_is_initialized_def)

lemma bound_sel [simp]: "sx_base (bound_account ow n) = example_account ow n" "sx_base bound_mint = opened_mint"
  by (simp_all add: extended_account_def extended_mint_def)

lemma bound_mint_view:
  "view_mint (sx_bytes bound_mint) = Inr \<lparr>sv_base = opened_mint, sv_tlv = tlv_image [(Ext_NonTransferable, [])] 0\<rparr>"
  using mint_state.view_Inr [OF bound_mint_unpack] by (simp add: extended_mint_def)

lemma bound_mint_marked:
  "sv_get_extension Mint_base \<lparr>sv_base = v, sv_tlv = tlv_image [(Ext_NonTransferable, [])] 0\<rparr> NonTransferable_ext = Inr ()"
  using non_transferable.read_view [OF bound_entries_ok(1) [of sample22_zk, folded base_sel], of 0]
  by (simp add: sv_get_extension_def)

lemma bound_account_extensions:
  "get_extension_mut zk Account_base TransferFeeAmount_ext (bound_account ow n) = Inl InvalidAccountData"
  "sx_get_extension zk Account_base MemoTransfer_ext (bound_account ow n) = Inl InvalidAccountData"
proof -
  have t: "sx_tlv (bound_account ow n) = tlv_image [(Ext_ImmutableOwner, [])] 0" by (simp add: extended_account_def)
  have ok: "entries_ok zk (bs_account_type Account_base) [(Ext_ImmutableOwner, [])]" using bound_entries_ok by simp
  show "sx_get_extension zk Account_base MemoTransfer_ext (bound_account ow n) = Inl InvalidAccountData"
    using memo_transfer.read_mut [OF ok t] by simp
  have "get_extension_indices (tlv_image [(Ext_ImmutableOwner, [])] 0) Ext_TransferFeeAmount False = Inl InvalidAccountData"
    using indices_absent [OF bound_entries_ok(2) [of zk], of Ext_TransferFeeAmount 0 False] by (simp add: get_account_type_def)
  then show "get_extension_mut zk Account_base TransferFeeAmount_ext (bound_account ow n) = Inl InvalidAccountData"
    by (simp add: get_extension_mut_def init_or_get_extension_def t get_account_type_def)
qed

end
