(* ===== verification/Token22_Guarantees.thy ===== *)
theory Token22_Guarantees
  imports Token22_Sample
begin

text \<open>
  What the extended token program guarantees: the supply of a mint is where its tokens and fees
  are, buffers stay well formed, the fee of a transfer is exact and announced in time,
  extensions do not disturb one another, instructions are read back as they were written.
\<close>

section \<open>The fee of a transfer\<close>

lemma rounded_up: "(n :: nat) div 10000 + (if n mod 10000 > 0 then 1 else 0) = (n + 9999) div 10000"
proof -
  have "n = 10000 * (n div 10000) + n mod 10000" by simp
  then obtain q r where n: "n = 10000 * q + r" and r: "r < 10000" by (metis mod_less_divisor zero_less_numeral)
  have "(n + 9999) div 10000 = q + (r + 9999) div 10000" unfolding n by simp
  moreover have "(r + 9999) div 10000 = (if r > 0 then 1 else 0)" using r by auto
  ultimately show ?thesis unfolding n using r by simp
qed

lemma fee_at_most_amount: "b \<le> 10000 \<Longrightarrow> ((a :: nat) * b + 9999) div 10000 \<le> a"
proof -
  assume "b \<le> 10000"
  then have "a * b + 9999 \<le> a * 10000 + 9999" by simp
  then have "(a * b + 9999) div 10000 \<le> (a * 10000 + 9999) div 10000" by (rule div_le_mono)
  then show ?thesis by simp
qed

lemma unat_one_in_basis_points: "unat ONE_IN_BASIS_POINTS = 10000"
  by (simp add: ONE_IN_BASIS_POINTS_def MAX_FEE_BASIS_POINTS_def)

text \<open>C30: for a fee of at most 10,000 basis points the computation never overflows; the fee is the
  given part of the amount rounded up, capped by the maximum, and never more than the amount.\<close>

theorem transfer_fee_exact:
  assumes "fee_basis_points f \<le> MAX_FEE_BASIS_POINTS"
  shows "\<exists>fee. TransferFee_calculate f amt = Some fee \<and> fee \<le> amt \<and>
    unat fee = min ((unat amt * unat (fee_basis_points f) + 9999) div 10000) (unat (fee_maximum f))"
proof -
  let ?b = "unat (fee_basis_points f)" and ?a = "unat amt"
  have b: "?b \<le> 10000" using assms by (simp add: MAX_FEE_BASIS_POINTS_def word_le_nat_alt)
  let ?n = "?a * ?b" and ?c = "(?a * ?b + 9999) div 10000"
  have c: "?c \<le> ?a" by (rule fee_at_most_amount [OF b])
  show ?thesis
  proof (cases "fee_basis_points f = 0 \<or> amt = 0")
    case True
    then show ?thesis by (intro exI [of _ 0]) (auto simp: TransferFee_calculate_def)
  next
    case False
    have "?n < 2 ^ 64 * 2 ^ 16" by (rule mult_strict_mono) (use unat_bound [of amt] unat_bound [of "fee_basis_points f"] in simp_all)
    then have big: "?n < 2 ^ LENGTH(128)" by simp
    define n :: u128 where "n = of_nat ?n"
    have num: "unat n = ?n" unfolding n_def using big by (simp only: unat_of_nat mod_less)
    have "?c < 2 ^ LENGTH(64)" using c unat_bound [of amt] by linarith
    define fee :: u64 where "fee = of_nat ?c"
    have c64: "unat fee = ?c" unfolding fee_def using \<open>?c < 2 ^ LENGTH(64)\<close> by (simp only: unat_of_nat mod_less)
    have ub: "unat (ucast (fee_basis_points f) :: u128) = ?b" and ua: "unat (ucast amt :: u128) = ?a"
      by (rule unat_ucast_up, simp)+
    have nz: "(ucast (fee_basis_points f) :: u128) \<noteq> 0" using False ub by (metis unat_eq_0)
    have s1: "checked_mul (ucast amt) (ucast (fee_basis_points f)) = Some n"
      by (simp only: checked_mul_eq_Some num ua ub)
    define q :: u128 where "q = n div ONE_IN_BASIS_POINTS"
    define r :: u128 where "r = n mod ONE_IN_BASIS_POINTS"
    have q: "unat q = ?n div 10000" and r: "unat r = ?n mod 10000"
      by (simp_all only: q_def r_def unat_div unat_mod num unat_one_in_basis_points)
    have one: "ONE_IN_BASIS_POINTS \<noteq> 0" using unat_one_in_basis_points by auto
    have s2: "checked_div n ONE_IN_BASIS_POINTS = Some q" "checked_rem n ONE_IN_BASIS_POINTS = Some r"
      using one by (simp_all add: checked_div_def checked_rem_def q_def r_def)
    obtain raw where s3: "(if r > 0 then checked_add q 1 else Some q) = Some raw" and raw: "unat raw = ?c"
    proof (cases "r > 0")
      case True
      have "?c < 2 ^ LENGTH(128)" using c unat_bound [of amt] by simp
      then have c128: "unat (of_nat ?c :: u128) = ?c" by (simp only: unat_of_nat mod_less)
      have "0 < unat r" using True by (simp add: word_less_nat_alt)
      then have e: "?c = unat q + 1" using rounded_up [of ?n] q r by simp
      have "checked_add q 1 = Some (of_nat ?c)" unfolding checked_add_eq_Some c128 unat_1 by (rule e)
      then show thesis using that True c128 by simp
    next
      case False
      then have "unat r = 0" by (simp add: word_less_nat_alt)
      then have "?c = unat q" using rounded_up [of ?n] q r by simp
      then show thesis using that False by simp
    qed
    have s4: "try_from_word raw = Some fee" by (simp only: try_from_word_eq_Some c64 raw)
    have "\<not> ((ucast (fee_basis_points f) :: u128) = 0 \<or> amt = 0)" using False nz by simp
    then have "TransferFee_calculate f amt = Some (min fee (fee_maximum f))"
      unfolding TransferFee_calculate_def Let_def by (simp only: if_False s1 s2 s3 s4 bind.bind_lunit)
    moreover have "unat (min fee (fee_maximum f)) = min ?c (unat (fee_maximum f))"
      by (simp only: min_def word_le_nat_alt c64 if_distrib [of unat])
    ultimately show ?thesis using c by (auto simp: word_le_nat_alt)
  qed
qed

theorem transfer_fee_exact_witness:
  "TransferFee_calculate \<lparr>fee_epoch = 0, fee_maximum = 5000, fee_basis_points = 250\<rparr> 1001 = Some 26"
proof -
  have "(26 :: u64) = fee" if "unat fee = 26" for fee using that by (simp add: word_unat_eq_iff)
  then show ?thesis
    using transfer_fee_exact [of "\<lparr>fee_epoch = 0, fee_maximum = 5000, fee_basis_points = 250\<rparr>" 1001]
    by (auto simp: MAX_FEE_BASIS_POINTS_def)
qed

section \<open>Announcing a fee\<close>

text \<open>C28: setting the fee of a mint needs its configuration authority and at most 10,000 basis points.
  The new fee applies two epochs later; until then every transfer pays the fee in force when it
  was announced, also where an earlier announcement was pending.  The collected fees stay.\<close>

theorem fee_change_announced:
  assumes "process_set_transfer_fee E pid (mi # ai # signers) bp mx led = Inr led'"
    and "unpack_mint (info_data led mi) = Inr mint" and "mint_ok (env_zk E) (sx_tlv mint)"
    and "rt_clock_get (env_rt E) = Inr clock"
  shows "\<exists>c v c'. sx_get_extension (env_zk E) Mint_base TransferFeeConfig_ext mint = Inr c \<and>
    view_mint (info_data led' mi) = Inr v \<and> sv_base v = sx_base mint \<and>
    sv_get_extension Mint_base v TransferFeeConfig_ext = Inr c' \<and>
    tfc_withheld_amount c' = tfc_withheld_amount c \<and> bp \<le> MAX_FEE_BASIS_POINTS \<and>
    (\<exists>k. OptionalNonZeroPubkey_option (tfc_config_authority c) = Some k \<and>
       authorizes pid led (ai # signers) k) \<and>
    (\<forall>e. get_epoch_fee c' e =
       (if saturating_add (clock_epoch clock) 2 \<le> e
        then \<lparr>fee_epoch = saturating_add (clock_epoch clock) 2, fee_maximum = mx, fee_basis_points = bp\<rparr>
        else get_epoch_fee c (clock_epoch clock)))"
proof -
  let ?e = "clock_epoch clock"
  from assms(1,2,4) obtain off c st1 k u c' where
    g: "get_extension_mut (env_zk E) Mint_base TransferFeeConfig_ext mint = Inr (off, c, st1)"
    and k: "OptionalNonZeroPubkey_option (tfc_config_authority c) = Some k"
    and ow: "validate_owner pid led k ai signers = Inr u"
    and b: "\<not> MAX_FEE_BASIS_POINTS < bp"
    and led': "led' = store_state (ai_key mi) (sx_store TransferFeeConfig_ext off c' st1) led"
    and c': "c' = (if fee_epoch (tfc_newer c) \<le> ?e then c\<lparr>tfc_older := tfc_newer c\<rparr> else c)
      \<lparr>tfc_newer := \<lparr>fee_epoch = saturating_add ?e 2, fee_maximum = mx, fee_basis_points = bp\<rparr>\<rparr>"
    unfolding process_set_transfer_fee_def Let_def next_account_info_Cons attempt_Inr prod.case
    by (elim peel22 Inr_eqE) (rule that, auto simp: res_simps)
  have ok: "tlv_ok (env_zk E) (bs_account_type Mint_base) (sx_tlv mint)" using assms(3) by (simp add: mint_ok_def)
  from fee_config.put_spec [OF ok g] obtain es z bs where
    t: "sx_tlv mint = tlv_image es z" and es: "entries_ok (env_zk E) AccountType_Mint es" and st1: "st1 = mint"
    and bs: "map_of es Ext_TransferFeeConfig = Some bs" and v: "c = pod_decode TransferFeeConfig_ext bs"
    and s: "\<And>w. sx_store TransferFeeConfig_ext off w mint =
        mint\<lparr>sx_tlv := tlv_image (entries_put Ext_TransferFeeConfig (pod_encode TransferFeeConfig_ext w) es) z\<rparr>"
    by auto
  have es': "entries_ok (env_zk E) (bs_account_type Mint_base) es" using es by simp
  note put = fee_config.put_keeps [OF es', simplified]
  let ?t = "tlv_image (entries_put Ext_TransferFeeConfig (pod_encode TransferFeeConfig_ext c') es) z"
  have u: "unpack_mint (info_data led' mi) = Inr (mint\<lparr>sx_tlv := ?t\<rparr>)"
    using mint_state.unpack_after_tlv [OF assms(2), of ?t] put(1) t unfolding led' st1 s by (simp add: store_state_def)
  have in_es: "Ext_TransferFeeConfig \<in> fst ` set es" using bs by (metis map_of_eq_None_iff option.distinct(1))
  have "sx_get_extension (env_zk E) Mint_base TransferFeeConfig_ext mint = Inr c"
    using fee_config.read_mut [OF es' t] bs v by simp
  moreover have "view_mint (info_data led' mi) = Inr \<lparr>sv_base = sx_base mint, sv_tlv = ?t\<rparr>"
    using mint_state.view_Inr [OF u] by simp
  moreover have "sv_get_extension Mint_base \<lparr>sv_base = sx_base mint, sv_tlv = ?t\<rparr> TransferFeeConfig_ext = Inr c'"
    using fee_config.read_view [of "env_zk E" "entries_put Ext_TransferFeeConfig (pod_encode TransferFeeConfig_ext c') es" z]
      put(3) in_es by (simp add: sv_get_extension_def map_of_entries_put fee_config.decode_encode)
  moreover have "tfc_withheld_amount c' = tfc_withheld_amount c" by (simp add: c')
  moreover have "bp \<le> MAX_FEE_BASIS_POINTS" using b by simp
  moreover have "authorizes pid led (ai # signers) k" using validate_owner_sound(2) ow by (metis (full_types) unit_eq)
  moreover have "get_epoch_fee c' e =
       (if saturating_add ?e 2 \<le> e
        then \<lparr>fee_epoch = saturating_add ?e 2, fee_maximum = mx, fee_basis_points = bp\<rparr>
        else get_epoch_fee c ?e)" for e
    by (simp add: c' get_epoch_fee_def)
  ultimately show ?thesis using k by fastforce
qed

theorem fee_change_announced_witness:
  "\<exists>led' v c'. process_set_transfer_fee sample22 6 [info 20 False, info 30 True] 250 5000 fee_ledger = Inr led' \<and>
     view_mint (info_data led' (info 20 False)) = Inr v \<and>
     sv_get_extension Mint_base v TransferFeeConfig_ext = Inr c' \<and>
     get_epoch_fee c' 4 = tfc_older sample_config22 \<and>
     get_epoch_fee c' 5 = \<lparr>fee_epoch = 5, fee_maximum = 5000, fee_basis_points = 250\<rparr>"
proof -
  have u: "unpack_mint (info_data fee_ledger (info 20 False)) = Inr fee_mint"
    by (simp add: fee_ledger_def fee_mint_unpack)
  have ok: "mint_ok (env_zk sample22) (sx_tlv fee_mint)" by (rule fee_mint_ok)
  have k: "OptionalNonZeroPubkey_option (tfc_config_authority sample_config22) = Some 30"
    by (simp add: sample_config22_def OptionalNonZeroPubkey_option_def)
  have ow: "validate_owner 6 fee_ledger 30 (info 30 True) [] = Inr ()" by (simp add: handler_simps fee_ledger_def)
  obtain led' where run: "process_set_transfer_fee sample22 6 [info 20 False, info 30 True] 250 5000 fee_ledger = Inr led'"
    by (simp add: process_set_transfer_fee_def u [simplified] fee_mint_config k ow MAX_FEE_BASIS_POINTS_def Let_def)
  have two: "saturating_add (3 :: u64) 2 = 5" by (simp add: saturating_add_def checked_add_def)
  have old: "get_epoch_fee sample_config22 3 = tfc_older sample_config22" by (simp add: get_epoch_fee_def sample_config22_def)
  have read: "sx_get_extension (env_zk sample22) Mint_base TransferFeeConfig_ext fee_mint = Inr sample_config22"
    using fee_config.read_mut [of "env_zk sample22" fee_entries fee_mint 0] fee_entries_ok
    by (simp add: extended_mint_def fee_config.decode_encode)
  from fee_change_announced [OF run u ok sample22_clock] show ?thesis
    using run by (auto simp: read two old)
qed

section \<open>Extensions\<close>

text \<open>C29: writing an extension through the reference a lookup gave: the extension then reads as what was
  written, every other extension as before, and the buffer keeps its base, its length and its form.\<close>

theorem extension_write_read:
  assumes "stored_extension zk S V" and "stored_extension zk S W" and "tlv_ok zk (bs_account_type S) (sx_tlv st)"
    and "get_extension_mut zk S V st = Inr (off, v, st1)"
  shows "sx_get_extension zk S V st = Inr v \<and>
    sx_get_extension zk S V (sx_store V off w st1) = Inr w \<and>
    (ext_type W \<noteq> ext_type V \<longrightarrow> sx_get_extension zk S W (sx_store V off w st1) = sx_get_extension zk S W st) \<and>
    sx_base (sx_store V off w st1) = sx_base st \<and> length (sx_bytes (sx_store V off w st1)) = length (sx_bytes st) \<and>
    tlv_ok zk (bs_account_type S) (sx_tlv (sx_store V off w st1))"
proof -
  obtain es z b where t: "sx_tlv st = tlv_image es z" and ok: "entries_ok zk (bs_account_type S) es" and st1: "st1 = st"
    and b: "map_of es (ext_type V) = Some b" and v: "v = pod_decode V b"
    and s: "\<And>w. sx_store V off w st = st\<lparr>sx_tlv := tlv_image (entries_put (ext_type V) (pod_encode V w) es) z\<rparr>"
    by (rule stored_extension.put_spec [OF assms(1,3,4)]) (rule that)
  note put = stored_extension.put_keeps [OF assms(1) ok]
  let ?es = "entries_put (ext_type V) (pod_encode V w) es"
  let ?st = "st\<lparr>sx_tlv := tlv_image ?es z\<rparr>"
  have t': "sx_tlv ?st = tlv_image ?es z" by simp
  have e: "ext_type V \<in> fst ` set es" using b by (metis map_of_eq_None_iff option.distinct(1))
  have "sx_get_extension zk S V st = Inr v"
    using stored_extension.read_mut [OF assms(1) ok t] b v by simp
  moreover have "sx_get_extension zk S V ?st = Inr w"
    using stored_extension.read_mut [OF assms(1) put(3) t'] e stored_extension.decode_encode [OF assms(1)]
    by (simp add: map_of_entries_put)
  moreover have "sx_get_extension zk S W ?st = sx_get_extension zk S W st" if "ext_type W \<noteq> ext_type V"
    using stored_extension.read_mut [OF assms(2) put(3) t'] stored_extension.read_mut [OF assms(2) ok t] that
    by (simp add: map_of_entries_put)
  ultimately show ?thesis using put t unfolding st1 s by (simp add: sx_bytes_def)
qed

theorem extension_write_read_witness:
  "sx_get_extension sample22_zk Mint_base TransferFeeConfig_ext
     (sx_store TransferFeeConfig_ext 4 (sample_config22\<lparr>tfc_withheld_amount := 7\<rparr>) fee_mint) =
   Inr (sample_config22\<lparr>tfc_withheld_amount := 7\<rparr>)"
proof -
  have "tlv_ok sample22_zk (bs_account_type Mint_base) (sx_tlv fee_mint)" using fee_mint_ok by (simp add: mint_ok_def)
  from extension_write_read [OF fee_config.stored_extension_axioms mint_close.stored_extension_axioms this fee_mint_config]
  show ?thesis by blast
qed

section \<open>Whole histories\<close>

text \<open>C10: start from any ledger in which the program owns nothing, and let any sequence of its instructions
  other than the confidential transfers, whose handlers are outside the model, and of other activity happen,
  the clock moving in between.  For every
  mint but the native one, the recorded supply is exactly the sum of the balances of its accounts, of
  the fees withheld in them and of the fees harvested into the mint.\<close>

theorem token22_supply_reachable:
  assumes "\<forall>k. acc_owner (genesis k) \<noteq> pid" and "(world22_step F confidential native zk pid)\<^sup>*\<^sup>* genesis led"
    and "m \<noteq> native"
  shows "(\<Sum>k\<in>UNIV. held22 pid m (led k)) + pooled22 pid (led m) = supply22 pid (led m)"
proof -
  have "conserving22 native zk pid led" by (rule token22_system.run_inv [OF assms(2) genesis22 [OF assms(1)]])
  then have "gap pid m led = 0" using assms(3) by (simp add: conserving22_def)
  then show ?thesis by (simp only: gap_zero_iff)
qed

lemma history22: "(world22_step F confidential 7 sample22_zk 6)\<^sup>*\<^sup>* genesis_ledger issued22"
proof -
  let ?S = "world22_step F confidential 7 sample22_zk 6"
  have "?S\<^sup>*\<^sup>* genesis_ledger opened22"
    by (rule rtranclp.rtrancl_into_rtrancl [of ?S], rule r_into_rtranclp [of ?S], rule history22_start, rule history22_mint)
  then have "?S\<^sup>*\<^sup>* genesis_ledger holder22" by (rule rtranclp.rtrancl_into_rtrancl [of ?S]) (rule history22_account)
  then show ?thesis by (rule rtranclp.rtrancl_into_rtrancl [of ?S]) (rule history22_issue)
qed

theorem token22_supply_reachable_witness:
  "(\<Sum>k\<in>UNIV. held22 6 20 (issued22 k)) + pooled22 6 (issued22 20) = supply22 6 (issued22 20) \<and>
   supply22 6 (issued22 20) = 100"
proof
  show "(\<Sum>k\<in>UNIV. held22 6 20 (issued22 k)) + pooled22 6 (issued22 20) = supply22 6 (issued22 20)"
    by (rule token22_supply_reachable [OF _ history22]) (simp_all add: genesis_ledger_def)
  show "supply22 6 (issued22 20) = 100"
    by (simp add: supply22_def funded22_def)
qed

text \<open>C11: in every such history, one without calls of the confidential transfer extension, each buffer of the
  program is well formed: a multisignature account by its length, a blank buffer, an account or a mint whose
  extensions are pairwise different, of its own kind and of their exact length; wrapped lamports are accounts
  of the native mint only, and no mint opens accounts in the uninitialised state.  No buffer is both an account
  and a mint.  In the witness a mint and an account are opened and tokens are minted; the other
  cases are ruled out for both buffers, so the theorem says what they are.\<close>

theorem token22_buffers_reachable:
  assumes "\<forall>k. acc_owner (genesis k) \<noteq> pid" and "(world22_step F confidential native zk pid)\<^sup>*\<^sup>* genesis led"
    and "acc_owner (led k) = pid"
  shows "length (acc_data (led k)) = MULTISIG_LEN \<or> blank zk (acc_data (led k)) \<or>
    (\<exists>st. unpack_account (acc_data (led k)) = Inr st \<and> tlv_ok zk AccountType_Account (sx_tlv st) \<and>
       (is_native (sx_base st) \<longrightarrow> ta_mint (sx_base st) = native) \<and> (\<forall>st'. unpack_mint (acc_data (led k)) \<noteq> Inr st')) \<or>
    (\<exists>st. unpack_mint (acc_data (led k)) = Inr st \<and> tlv_ok zk AccountType_Mint (sx_tlv st) \<and>
       (\<forall>s. tlv_get_extension AccountType_Mint (sx_tlv st) DefaultAccountState_ext = Inr s \<longrightarrow> s \<noteq> 0))"
proof -
  have "conserving22 native zk pid led" by (rule token22_system.run_inv [OF assms(2) genesis22 [OF assms(1)]])
  then have s: "sound22 native zk pid led" by (simp add: conserving22_def)
  from sound22_buffer [OF this assms(3)] sound22_native [OF s assms(3)] show ?thesis
    unfolding buffer_ok_def mint_ok_def using account_not_mint by blast
qed

theorem token22_buffers_reachable_witness:
  "(\<exists>st. unpack_account (acc_data (issued22 21)) = Inr st \<and> tlv_ok sample22_zk AccountType_Account (sx_tlv st) \<and>
      (is_native (sx_base st) \<longrightarrow> ta_mint (sx_base st) = 7) \<and> (\<forall>st'. unpack_mint (acc_data (issued22 21)) \<noteq> Inr st')) \<and>
   (\<exists>st. unpack_mint (acc_data (issued22 20)) = Inr st \<and> tlv_ok sample22_zk AccountType_Mint (sx_tlv st) \<and>
      (\<forall>s. tlv_get_extension AccountType_Mint (sx_tlv st) DefaultAccountState_ext = Inr s \<longrightarrow> s \<noteq> 0))"
proof -
  have a: "\<exists>st. unpack_account (acc_data (issued22 21)) = Inr st" and la: "length (acc_data (issued22 21)) \<noteq> MULTISIG_LEN"
    by (auto simp: unpack_plain_account account_is_initialized_def example_account_def)
  have m: "\<exists>st. unpack_mint (acc_data (issued22 20)) = Inr st" and lm: "length (acc_data (issued22 20)) \<noteq> MULTISIG_LEN"
    by (auto simp: unpack_plain_mint opened_mint_def)
  note t = token22_buffers_reachable [OF _ history22]
  from t [of 21] a la show ?thesis
    using t [of 20] m lm blank_not_account blank_not_mint account_not_mint by (auto simp: genesis_ledger_def funded22_def)
qed

section \<open>Interest\<close>

lemma truncated_div_between:
  assumes "0 < (t :: int)" and "lo * t \<le> s" and "s \<le> hi * t"
  shows "lo \<le> truncated_div s t" and "truncated_div s t \<le> hi"
proof -
  have d: "truncated_div s t = (if 0 \<le> s then s div t else - ((- s) div t))"
    using assms(1) by (auto simp: truncated_div_def sgn_if abs_if)
  have m: "x \<le> y div t \<and> y' div t \<le> z" if "x * t \<le> y" "y' \<le> z * t" for x y y' z
    using zdiv_mono1 [OF that(1) assms(1)] zdiv_mono1 [OF that(2) assms(1)] assms(1) by simp
  have "lo \<le> s div t" "lo \<le> - ((- s) div t)" "s div t \<le> hi" "- ((- s) div t) \<le> hi"
    using m [of lo s s hi] m [of "- hi" "- s" "- s" "- lo"] assms by auto
  then show "lo \<le> truncated_div s t" "truncated_div s t \<le> hi" by (simp_all add: d)
qed

lemma i128_small: "\<bar>x\<bar> < 2 ^ 127 \<Longrightarrow> i128 x = Some x"
  by (auto simp: i128_def)

lemma sint_bounds64: "- (2 ^ 63) \<le> sint (x :: 64 word)" "sint x < 2 ^ 63"
  using sint_ge [of x] sint_lt [of x] by simp_all

lemma sint_bounds16: "- (2 ^ 15) \<le> sint (x :: 16 word)" "sint x < 2 ^ 15"
  using sint_ge [of x] sint_lt [of x] by simp_all

text \<open>C32: as long as time does not run backwards, the average rate of an interest-bearing mint is always
  defined, whatever its rates, and lies between the rate before and the rate after the last update.\<close>

theorem average_rate_between:
  assumes "sint (ib_initialization_timestamp c) \<le> sint (ib_last_update_timestamp c)"
    and "sint (ib_last_update_timestamp c) \<le> sint now"
  defines "r1 \<equiv> sint (ib_pre_update_average_rate c)" and "r2 \<equiv> sint (ib_current_rate c)"
  shows "\<exists>r. time_weighted_average_rate c now = Some r \<and> min r1 r2 \<le> sint r \<and> sint r \<le> max r1 r2"
proof -
  define t1 where "t1 = sint (ib_last_update_timestamp c) - sint (ib_initialization_timestamp c)"
  define t2 where "t2 = sint now - sint (ib_last_update_timestamp c)"
  have t: "0 \<le> t1" "0 \<le> t2" "t1 < 2 ^ 64" "t2 < 2 ^ 64"
    using assms(1,2) sint_bounds64 [of "ib_last_update_timestamp c"] sint_bounds64 [of "ib_initialization_timestamp c"]
      sint_bounds64 [of now] by (simp_all add: t1_def t2_def)
  have r: "\<bar>r1\<bar> \<le> 2 ^ 15" "\<bar>r2\<bar> \<le> 2 ^ 15" "- (2 ^ 15) \<le> r1" "- (2 ^ 15) \<le> r2" "r1 < 2 ^ 15" "r2 < 2 ^ 15"
    using sint_bounds16 [of "ib_pre_update_average_rate c"] sint_bounds16 [of "ib_current_rate c"] by (auto simp: r1_def r2_def)
  have p: "\<bar>x * y\<bar> \<le> 2 ^ 79" if "\<bar>x\<bar> \<le> 2 ^ 15" "0 \<le> y" "y < 2 ^ 64" for x y :: int
  proof -
    have "\<bar>x\<bar> * y \<le> 2 ^ 15 * 2 ^ 64" by (rule mult_mono) (use that in simp_all)
    then show ?thesis using that(2) by (simp add: abs_mult)
  qed
  have p1: "\<bar>r1 * t1\<bar> \<le> 2 ^ 79" and p2: "\<bar>r2 * t2\<bar> \<le> 2 ^ 79" using p r(1,2) t by blast+
  let ?lo = "min r1 r2" and ?hi = "max r1 r2"
  have i16: "\<exists>r. try_into_i16 x = Some r \<and> sint r = x" if "?lo \<le> x" "x \<le> ?hi" for x
  proof -
    have x: "- (2 ^ 15) \<le> x" "x < 2 ^ 15" using that r(3-6) by auto
    then have "sint (of_int x :: u16) = x" by (simp add: signed_of_int signed_take_bit_int_eq_self)
    then show ?thesis using x by (auto simp: try_into_i16_def)
  qed
  have "\<exists>a. time_weighted_average_rate c now = try_into_i16 a \<and> ?lo \<le> a \<and> a \<le> ?hi"
  proof (cases "t1 + t2 = 0")
    case True
    then have "time_weighted_average_rate c now = try_into_i16 r2"
      using t by (simp add: time_weighted_average_rate_def Let_def i128_small t1_def [symmetric] t2_def [symmetric] r2_def)
    then show ?thesis by auto
  next
    case False
    have s: "?lo * (t1 + t2) \<le> r1 * t1 + r2 * t2" "r1 * t1 + r2 * t2 \<le> ?hi * (t1 + t2)"
      using t mult_right_mono [of ?lo r1 t1] mult_right_mono [of ?lo r2 t2] mult_right_mono [of r1 ?hi t1]
        mult_right_mono [of r2 ?hi t2] by (simp_all add: distrib_left)
    have T: "0 < t1 + t2" using False t by simp
    note q = truncated_div_between [OF T s]
    have "\<bar>truncated_div (r1 * t1 + r2 * t2) (t1 + t2)\<bar> < 2 ^ 127" using q r(3-6) by auto
    then have "time_weighted_average_rate c now = try_into_i16 (truncated_div (r1 * t1 + r2 * t2) (t1 + t2))"
      using t p1 p2 False
      by (simp add: time_weighted_average_rate_def Let_def i128_small i128_checked_div_def t1_def [symmetric] t2_def [symmetric]
          r1_def [symmetric] r2_def [symmetric])
    then show ?thesis using q by blast
  qed
  then show ?thesis using i16 by metis
qed

theorem average_rate_between_witness:
  "\<exists>r. time_weighted_average_rate \<lparr>ib_rate_authority = 1, ib_initialization_timestamp = 0,
      ib_pre_update_average_rate = 100, ib_last_update_timestamp = 60, ib_current_rate = - 50\<rparr> 100 = Some r \<and>
    - 50 \<le> sint r \<and> sint r \<le> 100"
  using average_rate_between [of "\<lparr>ib_rate_authority = 1, ib_initialization_timestamp = 0,
      ib_pre_update_average_rate = 100, ib_last_update_timestamp = 60, ib_current_rate = - 50\<rparr>" 100]
  by simp

section \<open>Tokens that should not move\<close>

lemma bound_account_saved:
  obtains st where "pack_base Account_base ((bound_account ow n)\<lparr>sx_base := example_account ow m\<rparr>) = Inr st"
    and "unpack_account (sx_bytes st) = Inr st" and "sx_base st = example_account ow m"
proof -
  let ?st = "bound_account ow n"
  have "sx_layout Account_base ?st" using bound_account_unpack [of ow n] unfolding account_state.unpack_Inr by blast
  then obtain st where p: "pack_base Account_base (?st\<lparr>sx_base := example_account ow m\<rparr>) = Inr st"
    using account_state.pack_base_total account_state.layout_base by blast
  have "?st\<lparr>sx_base := example_account ow m, sx_tlv := sx_tlv ?st\<rparr> = ?st\<lparr>sx_base := example_account ow m\<rparr>" by simp
  then show thesis
    using account_state.unpack_after_pack [OF bound_account_unpack [of ow n] refl, where b = "example_account ow m" and st' = st] p that
    by (simp add: account_is_initialized_def)
qed

lemma attempt_mapI:
  "(\<And>x. m = Inr x \<Longrightarrow> k' x = map_sum id g (k x)) \<Longrightarrow> attempt m k' = map_sum id g (attempt m k)"
  by (cases m) simp_all

lemma attempt_map_bothI:
  "m' = map_sum id f m \<Longrightarrow> (\<And>x. m = Inr x \<Longrightarrow> k' (f x) = map_sum id g (k x)) \<Longrightarrow>
   attempt m' k' = map_sum id g (attempt m k)"
  by (cases m) simp_all

lemma if_mapI:
  "(c \<Longrightarrow> a' = map_sum id g a) \<Longrightarrow> (\<not> c \<Longrightarrow> b' = map_sum id g b) \<Longrightarrow>
   (if c then a' else b') = map_sum id g (if c then a else b)"
  by simp

lemma validate_owner_other_data:
  "m \<noteq> ai_key auth \<Longrightarrow> validate_owner pid (set_data m bs led) ow auth signers = validate_owner pid led ow auth signers"
  by (simp add: validate_owner_def set_data_def)

lemma transfer_authority_other_data:
  "m \<noteq> ai_key auth \<Longrightarrow>
   transfer_authority pid (set_data m bs led) src auth signers amt self = transfer_authority pid led src auth signers amt self"
  by (simp add: transfer_authority_def validate_owner_other_data cong: option.case_cong if_cong)

lemma move_lamports_other_data:
  "m \<noteq> a \<Longrightarrow> m \<noteq> b \<Longrightarrow> move_lamports a b amt (set_data m bs led) = map_sum id (set_data m bs) (move_lamports a b amt led)"
  by (auto simp: move_lamports_def set_lamports_def set_data_def Let_def fun_upd_twist fun_eq_iff
      intro!: attempt_mapI)

lemma store_state_other_data: "m \<noteq> k \<Longrightarrow> store_state k st (set_data m bs led) = set_data m bs (store_state k st led)"
  by (auto simp: store_state_def set_data_def)

text \<open>The refusal when the mint is passed in.\<close>

lemma checked_transfer_refused:
  assumes "view_mint (info_data led mint_info) = Inr mint"
    and "sv_get_extension Mint_base mint NonTransferable_ext = Inr ()"
  shows "\<not> is_ok (process_transfer22 E pid (src # mint_info # rest) amt (Some d) fee led)"
proof -
  have "\<not> is_ok (transfer_fee_due E led src source (Some (mint_info, d)) amt)" for source
    using assms by (simp add: transfer_fee_due_def catch_def)
  then show ?thesis
    by (auto simp: process_transfer22_def take_expected_mint_def is_ok_iff attempt_eq_Inr split: if_splits)
qed

text \<open>Without the mint its data are never looked at.\<close>

lemma transfer_other_data:
  assumes "m \<notin> {ai_key src, ai_key dst, ai_key auth}"
  shows "process_transfer22 E pid (src # dst # auth # signers) amt None fee (set_data m bs led) =
    map_sum id (set_data m bs) (process_transfer22 E pid (src # dst # auth # signers) amt None fee led)"
proof -
  have m: "m \<noteq> ai_key src" "m \<noteq> ai_key dst" "m \<noteq> ai_key auth" using assms by simp_all
  have d: "acc_data (set_data m bs led (ai_key src)) = acc_data (led (ai_key src))"
    "acc_data (set_data m bs led (ai_key dst)) = acc_data (led (ai_key dst))"
    "acc_owner (set_data m bs led k) = acc_owner (led k)" for k
    using m by (simp_all add: set_data_def)
  have f: "transfer_fee_due E (set_data m bs led) src source None amt = transfer_fee_due E led src source None amt" for source
    by (simp add: transfer_fee_due_def)
  show ?thesis
    unfolding process_transfer22_def take_expected_mint_def Let_def
    by (simp only: d f transfer_authority_other_data [OF m(3)] next_account_info_Cons attempt_Inr prod.case option.case)
      (intro attempt_mapI if_mapI attempt_map_bothI [where f = "set_data m bs"],
       simp_all add: move_lamports_other_data [OF m(1,2)] store_state_other_data m)
qed

lemma bound_tokens_move:
  "\<exists>led' a b. process_transfer22 sample22 6 [info 21 False, info 22 False, info 31 True] 40 None None bound_ledger = Inr led' \<and>
      unpack_account (acc_data (led' 21)) = Inr a \<and> ta_amount (sx_base a) = 60 \<and>
      unpack_account (acc_data (led' 22)) = Inr b \<and> ta_amount (sx_base b) = 40"
proof -
  obtain a where a: "pack_base Account_base ((bound_account 31 100)\<lparr>sx_base := example_account 31 60\<rparr>) = Inr a"
    "unpack_account (sx_bytes a) = Inr a" "sx_base a = example_account 31 60" by (rule bound_account_saved)
  obtain b where b: "pack_base Account_base ((bound_account 32 0)\<lparr>sx_base := example_account 32 40\<rparr>) = Inr b"
    "unpack_account (sx_bytes b) = Inr b" "sx_base b = example_account 32 40" by (rule bound_account_saved)
  have "process_transfer22 sample22 6 [info 21 False, info 22 False, info 31 True] 40 None None bound_ledger =
      Inr (store_state 22 b (store_state 21 a bound_ledger))"
    by (simp add: process_transfer22_def take_expected_mint_def bound_ledger_def handler_simps transfer_fee_due_def
        bound_account_extensions catch_def check_expected_fee_def transfer_authority_def check_program_account22_def
        memo_required_def withhold_fee_def a(1) b(1))
  then show ?thesis using a b by (intro exI) (auto simp: store_state_def)
qed

text \<open>C31: where the mark that forbids transfers is enforced, and where it is not.  Take any mint whose data carry
  the \<^verbatim>\<open>NonTransferable\<close> extension.  A transfer that passes the mint in (\<^verbatim>\<open>TransferChecked\<close>,
  \<^verbatim>\<open>TransferCheckedWithFee\<close>) is never accepted, whatever the other accounts, the amount, the decimals and the
  fee.  A transfer that does not (\<^verbatim>\<open>Transfer\<close>) never looks at the mint: unless the mint's account is itself
  passed as the source, the destination or the authority, its outcome is the same whatever the mint's
  data are, with the mark or without, and it leaves those data alone.  So the unchecked instruction does not
  enforce what the documentation of \<^verbatim>\<open>ExtensionType::NonTransferable\<close> says (tokens of such a mint can not be
  transferred); the witness moves 40 tokens of a marked mint.\<close>

theorem non_transferable_enforcement:
  assumes "view_mint (info_data led mint_info) = Inr mint"
    and "sv_get_extension Mint_base mint NonTransferable_ext = Inr ()"
    and "ai_key mint_info \<notin> {ai_key src, ai_key dst, ai_key auth}"
  shows "\<not> is_ok (process_transfer22 E pid (src # mint_info # rest) amt (Some d) fee led) \<and>
    process_transfer22 E pid (src # dst # auth # signers) amt' None fee' (set_data (ai_key mint_info) bs led) =
      map_sum id (set_data (ai_key mint_info) bs)
        (process_transfer22 E pid (src # dst # auth # signers) amt' None fee' led)"
  using checked_transfer_refused [of led mint_info mint, OF assms(1,2)] transfer_other_data [OF assms(3)] by simp

theorem non_transferable_enforcement_witness:
  "\<not> is_ok (process_transfer22 sample22 6 [info 21 False, info 20 False, info 22 False, info 31 True] 40 (Some 2) None bound_ledger) \<and>
   process_transfer22 sample22 6 [info 21 False, info 22 False, info 31 True] 40 None None
      (set_data 20 (Mint_bytes opened_mint) bound_ledger) =
     map_sum id (set_data 20 (Mint_bytes opened_mint))
       (process_transfer22 sample22 6 [info 21 False, info 22 False, info 31 True] 40 None None bound_ledger) \<and>
   (\<exists>led' a b. process_transfer22 sample22 6 [info 21 False, info 22 False, info 31 True] 40 None None bound_ledger = Inr led' \<and>
      unpack_account (acc_data (led' 21)) = Inr a \<and> ta_amount (sx_base a) = 60 \<and>
      unpack_account (acc_data (led' 22)) = Inr b \<and> ta_amount (sx_base b) = 40)"
proof -
  have v: "view_mint (info_data bound_ledger (info 20 False)) =
      Inr \<lparr>sv_base = opened_mint, sv_tlv = tlv_image [(Ext_NonTransferable, [])] 0\<rparr>"
    using bound_mint_view by (simp add: bound_ledger_def)
  note t = non_transferable_enforcement [where led = bound_ledger and mint_info = "info 20 False", OF v bound_mint_marked,
      of "info 21 False" "info 22 False" "info 31 True" sample22 6
      "[info 22 False, info 31 True]" 40 2 None "[]" 40 None "Mint_bytes opened_mint"]
  show ?thesis using t bound_tokens_move by simp
qed

end
