(* ===== verification/Spec2Isabelle.thy ===== *)
theory Spec2Isabelle
  imports Token_Safety Token_Amount Lending_Flash Governance_Guarantees Stake_Guarantees Token22_Guarantees
begin

text \<open>
  \<^bold>\<open>The program.\<close>  The repository holds on-chain programs for Solana.  This development covers the
  token program (\<^verbatim>\<open>token/program/src\<close>) and the lending program (\<^verbatim>\<open>token-lending/program/src\<close>), which
  moves tokens by invoking the token program, the small flash-loan receiver
  (\<^verbatim>\<open>token-lending/flash_loan_receiver/src\<close>), the governance program (\<^verbatim>\<open>governance/program/src\<close>) with its tools
  and add-in interface (\<^verbatim>\<open>governance/tools\<close>, \<^verbatim>\<open>governance/addin-api\<close>), the stake pool program
  (\<^verbatim>\<open>stake-pool/program/src\<close>), and the extended token program (\<^verbatim>\<open>token/program-2022/src\<close>).  A program is a function from the accounts named by an instruction and its
  data to an updated ledger or an error; all its state is in accounts.

  \<^bold>\<open>Platform\<close> (\<open>Prelude\<close>, \<open>Solana\<close>).  Errors are values of \<open>program_error + 'a\<close>, sequenced by \<open>attempt\<close>
  as \<^verbatim>\<open>?\<close> does; a panic is the value \<open>Inl Panicked\<close>.  Integers are words, with the checked operations
  the sources use.  The ledger maps a key to an account, so that infos with one key alias.  What the
  runtime computes (rent, clock, derived addresses, cross-program invocation, identifiers) is the
  record \<open>runtime\<close>, an argument.  \<open>runtime_accepts\<close> and \<open>other_activity\<close> say what the runtime enforces
  on a program and on the others.  The locale \<open>packed_type\<close> is the contract of the \<^verbatim>\<open>Pack\<close> trait; every
  stored type of both programs interprets it.  \<open>invariant_system\<close> and \<open>refined_system\<close> are the
  contracts of a step relation with an invariant and of a simulation.

  \<^bold>\<open>Token program.\<close>  \<open>Token_State\<close>: mints, accounts, multisignature accounts and their layouts
  (\<^verbatim>\<open>state.rs\<close>, \<^verbatim>\<open>error.rs\<close>).  \<open>Token_Instruction\<close>: the wire format and the builders (\<^verbatim>\<open>instruction.rs\<close>).
  \<open>Token_Amount\<close>: amounts as strings (\<^verbatim>\<open>lib.rs\<close>).  \<open>Token_Processor\<close>: every handler (\<^verbatim>\<open>processor.rs\<close>).
  \<open>Token_Authority\<close>: exactly when \<open>validate_owner\<close> accepts a multisignature account.
  \<open>Token_Bank\<close>: the abstract bank of mints and balances, its steps and its invariant.  \<open>Token_Supply\<close>:
  every call is a step of the bank.  \<open>Token_Safety\<close>: supply, authority, freezing and native backing over
  whole histories.

  \<^bold>\<open>Lending program.\<close>  \<open>Lending_Math\<close>: \<^verbatim>\<open>Decimal\<close> and \<^verbatim>\<open>Rate\<close> (\<^verbatim>\<open>math\<close>), with a characterisation of every
  checked operation over the naturals.  \<open>Lending_State\<close>: markets, reserves, obligations (\<^verbatim>\<open>state\<close>).
  \<open>Lending_Laws\<close>, \<open>Lending_Risk\<close>: exchange rate, interest, fees, borrow, repay and liquidation amounts.
  \<open>Lending_Pack\<close>: the layouts; the entries of an obligation are a variable-length area, whose loops are
  verified once in the locale \<open>entry_codec\<close>.  \<open>Lending_Instruction\<close>: the wire format and the builders.
  \<open>Lending_Oracle\<close>: the pyth accounts, the scan for the quote currency and the scaled price.
  \<open>Lending_Processor\<close>: the fourteen handlers, the checks they share and the dispatch (\<^verbatim>\<open>processor.rs\<close>).
  \<open>Lending_Book\<close>: the markets, reserves and obligations that are stored; how a store and how other
  programs change them.  \<open>Lending_Protocol\<close>: the abstract protocol, one rule per operation with the
  permission it needs, and its invariant \<open>book_ok\<close>.  \<open>Lending_Refinement\<close>: every handler is a step of the
  protocol; the locale \<open>cpi_runtime\<close> states what is needed of an invocation (the runtime does not let
  the invoked program write the caller's accounts or call back into it).  \<open>Lending_Acts\<close>: a call only
  stores in accounts of the program and invokes others.  \<open>Lending_Safety\<close>: histories, and what a call may
  do to the deposits and debts of an obligation.

  \<^bold>\<open>Composition.\<close>  \<open>Chain\<close> puts both programs on one ledger: the locale \<open>chain_runtime\<close> extends the
  contract of an invocation, \<open>with_token_program\<close> discharges it with the token program's own entry
  point, and histories interleave both programs with everything else.  \<open>Lending_Guarantees\<close> and
  \<open>Lending_Flash\<close> state the properties of the lending program, with concrete runs in which the token
  program moves the tokens.  \<open>runs_token_program\<close> says that an invocation of the token program runs its model; the
  guarantee for flash loans needs it for the payment of the fees.

  \<^bold>\<open>Governance program.\<close>  \<open>Governance_State\<close>: error codes, enumerations, the stored types and their checks
  (\<^verbatim>\<open>error.rs\<close>, \<^verbatim>\<open>state\<close>).  \<open>Governance_Vote\<close>: the rules of a vote (\<^verbatim>\<open>state/proposal.rs\<close>): threshold weight, final
  count, tipping; an early tip agrees with the final count.  \<open>Governance_Accounts\<close>, \<open>Governance_Records\<close>: how the
  types are read, written, created and disposed, legacy layouts included (\<^verbatim>\<open>tools\<close>, \<^verbatim>\<open>addins\<close>, \<^verbatim>\<open>state\<close>).  The
  Borsh encoding is a third-party crate: the record \<open>gov_env\<close> carries the codecs, the system and loader
  instructions as arguments, and \<open>borsh_lawful\<close>, \<open>system_lawful\<close> state what is relied on.
  \<open>Governance_Processor\<close>, \<open>Governance_Proposals\<close>: the handlers and the dispatch (\<^verbatim>\<open>processor\<close>).
  \<open>Governance_Tally\<close>: a vote is recorded once, and relinquishing removes exactly one vote.
  \<open>Governance_Ledger\<close>: the proposals and governances that are stored, the life cycle of a proposal, and what is
  true of a sound one; \<open>gov_reach\<close> are the ledgers a handler goes through.  \<open>Governance_Runs\<close>,
  \<open>Governance_Creation\<close>, \<open>Governance_Steps\<close>: what each kind of write, creation, disposal and invocation does
  to them; \<open>Governance_Transitions\<close>: what the operations on a proposal do to it.  \<open>Governance_Handlers\<close>,
  \<open>Governance_Program\<close>: every handler is such a run.  \<open>Governance_History\<close>: the program may execute its own
  instructions, to any depth, and histories (\<open>gov_history_step\<close>) interleave it with the other programs while the
  clock and the rest of the runtime move on; the locale \<open>gov_world\<close> is the contract of the environment.  \<open>Governance_Sample\<close> interprets it; \<open>Governance_Guarantees\<close> states what holds
  over whole histories.

  \<^bold>\<open>Stake pool program.\<close>  \<open>Stake_State\<close>: errors, the pool, its fees, the conversion of lamports and pool tokens,
  the checks of a call (\<^verbatim>\<open>state.rs\<close>, \<^verbatim>\<open>error.rs\<close>, \<^verbatim>\<open>lib.rs\<close>).  \<open>Stake_BigVec\<close>: the validator list as a vector over
  the bytes of its account (\<^verbatim>\<open>big_vec.rs\<close>), with slices out of range, moves of memory and the unchecked casts of
  entries; retaining entries is a filter, pushing appends one, finding is a search.  \<open>Stake_Processor\<close>,
  \<open>Stake_Handlers\<close>: all handlers and the dispatch (\<^verbatim>\<open>processor.rs\<close>).  While a handler holds the list mutably
  borrowed, \<open>borrow_data\<close> and \<open>invoke_holding\<close> fail on its account, as \<^verbatim>\<open>RefCell\<close> and the runtime do.  Borsh, the
  instructions of the stake and system programs and the ceiling division of \<^verbatim>\<open>spl_math\<close> are arguments in the
  record \<open>pool_env\<close>; \<open>pool_borsh_lawful\<close>, \<open>pool_sdk_lawful\<close>, \<open>pool_invoke_lawful\<close> and \<open>ceil_div_lawful\<close> state
  what is relied on, and the locale \<open>pool_laws\<close> collects the first three.  \<open>Stake_Runs\<close>: sound lists and pools, the
  changes a pool may undergo with the signatures they need, and the steps of a run; \<open>Stake_Steps\<close>: every handler is
  such a run; \<open>Stake_Program\<close>: creation, the whole program, and histories (\<open>pool_step\<close>) in which the clock moves
  between calls, so that new epochs begin and announced fees come into force.  \<open>Stake_Value\<close>: what the amounts do to the
  value of a token.  \<open>Stake_Sample\<close> interprets the locale; \<open>Stake_Guarantees\<close> states the properties.

  \<^bold>\<open>Extended token program.\<close>  Its accounts and mints are buffers: the base state of the token program, then an
  account type and a list of entries (type, length, value), the extensions.  \<open>Token22_Extension\<close>: the extension
  types and values, the sizes of buffers, the walk over the entries, and how a buffer is opened, read, extended and
  written (\<^verbatim>\<open>extension/mod.rs\<close>, \<^verbatim>\<open>pod.rs\<close>); a reference into a buffer is the offset of the value.  \<open>Token22_Fees\<close>:
  transfer fees (\<^verbatim>\<open>extension/transfer_fee\<close>) and the memo check.  \<open>Token22_Processor\<close>: the handlers
  (\<^verbatim>\<open>processor.rs\<close>).  \<open>Token22_Program\<close>: reallocation, default states, required memos, interest-bearing mints, the
  native mint, the instructions and the dispatch; \<open>validate_owner\<close>, the multisignature accounts and the packed
  base states are those of the token program, whose code this program repeats.  Where a handler holds one account
  borrowed and opens it again, the model gives the error or the panic of \<^verbatim>\<open>RefCell\<close>.  Arguments: \<open>env22\<close> (the
  runtime, the previous sibling instruction, the instructions of the system program, the lengths \<open>zk_sizes\<close> of the
  encrypted values), \<open>f64_ops\<close> (floating-point amounts) and the handler of confidential transfers.
  \<open>Token22_Entries\<close>: the entries of a buffer as an association list; the locale \<open>stored_extension\<close> is the contract
  of a value stored as an extension, interpreted by eight of them.  \<open>Token22_States\<close>: buffers of a base
  state (locale \<open>extensible_state\<close>, interpreted by accounts and mints), opening after storing.
  \<open>Token22_Supply\<close>: what the program holds for a mint in balances, withheld fees and harvested fees; the
  invariant \<open>conserving22\<close>.  \<open>Token22_Steps\<close>, \<open>Token22_Start\<close>, \<open>Token22_Moves\<close>, \<open>Token22_Withheld\<close>: every handler
  keeps it; \<open>Token22_Runs\<close>: the whole program and its histories, in which the clock and the rest of the runtime may
  change between calls and confidential transfers are left out; \<open>keeps_foreign\<close> and \<open>calls_respect\<close>
  state what the runtime enforces.  \<open>Token22_Codec\<close>: instructions are read back as written.  \<open>Token22_Sample\<close>
  has a concrete history, \<open>Token22_Guarantees\<close> the properties.

  \<^bold>\<open>Termination and bounds.\<close>  All definitions are total: loops over accounts, signers and entries are
  structural, exponentiation and the scan of the attributes have a measure; the loops of the big vector run
  over its length.  No fuel is used; the depth of
  the governance program's self-invocation is a parameter, and the theorems hold for every depth.

  \<^bold>\<open>Not modelled.\<close>  Logging, the dynamic borrow checks of \<^verbatim>\<open>RefCell\<close> except those of the stake pool's list
  and of the extended token program,
  entry-point registration and the two floating-point helpers of the token program.  The confidential transfers of
  the extended token program combine encrypted balances and check proofs with a cryptographic library outside the
  repository.  The command-line
  clients, the JavaScript and Python clients and the tests are input and output around the programs.  The
  client-side builders of governance, stake pool and extended token instructions are not covered, nor is the owned
  copy of a buffer with extensions, which only clients use.
\<close>

section \<open>Token instructions\<close>

text \<open>Unpacking a packed token instruction gives the instruction back, for every instruction
  whose text argument is valid UTF-8.\<close>

theorem token_instruction_roundtrip:
  assumes "TokenInstruction_wf i"
  shows "TokenInstruction_unpack (TokenInstruction_pack i) = Inr i"
  using assms by (rule TokenInstruction_unpack_pack)

theorem token_instruction_roundtrip_witness:
  "TokenInstruction_unpack (TokenInstruction_pack (SetAuthority AccountOwner (Some 5))) =
     Inr (SetAuthority AccountOwner (Some 5))"
  by (rule token_instruction_roundtrip) (simp add: TokenInstruction_wf_def)

text \<open>C20: every instruction the token program accepts is a step of the bank on its mints and balances: money is
  moved, issued, burned or closed out exactly as one of the rules says.\<close>

theorem token_calls_refine_bank:
  assumes "process R pid accounts input led = Inr (led', ret)" and "runtime_accepts pid led led'"
  shows "bank_step (native_mint_id R) (bank_of pid led) (bank_of pid led')"
  using assms by (intro token_call_step) (auto simp: token_call_def)

theorem token_calls_refine_bank_witness:
  "\<exists>led'. process example_runtime 5 [info 21 False, info 22 False, info 31 True]
       (TokenInstruction_pack (Transfer 40)) example_ledger = Inr (led', []) \<and>
     bank_step (native_mint_id example_runtime) (bank_of 5 example_ledger) (bank_of 5 led') \<and>
     token_account 5 (led' 22) = Some (example_account 32 90)"
  using example_transfer token_calls_refine_bank by blast

text \<open>Unpacking a packed lending instruction gives the instruction back.\<close>

theorem lending_instruction_roundtrip:
  assumes "LendingInstruction_wf i"
  shows "LendingInstruction_unpack (LendingInstruction_pack i) = Inr i"
  using assms by (rule LendingInstruction_unpack_pack)

theorem lending_instruction_roundtrip_witness:
  "LendingInstruction_unpack (LendingInstruction_pack (InitLendingMarket 70 (replicate 32 1))) =
     Inr (InitLendingMarket 70 (replicate 32 1))"
  by (rule lending_instruction_roundtrip) (simp add: LendingInstruction_wf_def)

text \<open>C38: storing an obligation in its account succeeds exactly if its values fit in 128 bits and its entries in the
  space of the account; then the account reads back as the obligation and no other account changed.\<close>

theorem obligation_storage:
  assumes "length (acc_data (led k)) = OBLIGATION_LEN" and "Obligation_wf ob" and "Obligation_is_initialized ob"
  shows "if obligation_packable ob \<and> obligation_fits ob
    then \<exists>led'. Obligation_pack ob k led = Inr led' \<and> Obligation_unpack (acc_data (led' k)) = Inr ob \<and>
           (\<forall>x. x \<noteq> k \<longrightarrow> led' x = led x)
    else \<not> is_ok (Obligation_pack ob k led)"
proof (cases "obligation_packable ob \<and> obligation_fits ob")
  case True
  then obtain led' where led': "Obligation_pack ob k led = Inr led'" "\<forall>x. x \<noteq> k \<longrightarrow> led' x = led x"
    using Obligation_store_ok [of led k, OF assms(1)] by blast
  then have "Obligation_unpack (acc_data (led' k)) = Inr ob"
    using obligation_packed.stored_unpacks assms(2,3) by (simp add: Obligation_pack_def Obligation_unpack_def)
  then show ?thesis using True led' by simp
next
  case False
  then have "\<not> is_ok (Obligation_pack_into_slice ob (acc_data (led k)))"
    using Obligation_into_slice_iff [OF assms(1), of ob] by blast
  then show ?thesis
    using False by (auto simp: is_ok_iff Obligation_pack_def obligation_packed.pack_to_ledger_eq_Inr)
qed

theorem obligation_storage_witness:
  "\<exists>led'. Obligation_pack sample_obligation 65 sample_ledger = Inr led' \<and>
     Obligation_unpack (acc_data (led' 65)) = Inr sample_obligation"
  using obligation_storage [of sample_ledger 65 sample_obligation] sample_wf(6-9) by auto

section \<open>Observations\<close>

text \<open>An instruction with a checked amount that is cut short aborts the token program.\<close>

lemma short_checked_amount_panics: "TokenInstruction_unpack [12] = Inl Panicked"
  by (simp add: TokenInstruction_unpack_def unpack_amount_decimals_def split_at_def)

text \<open>With 160 ticks a second and 64 ticks a slot there are 2.5 slots a second; the constant counts two.\<close>

lemma slots_per_year_truncated: "SLOTS_PER_YEAR example_runtime = 2 * 86400 * 365"
  by (simp add: SLOTS_PER_YEAR_def example_runtime_def)

text \<open>A sign after the decimal point is accepted.\<close>

lemma signed_fraction_accepted: "try_ui_amount_into_amount (map of_char ''.+5'') 2 = Inr 5"
  by (auto simp: try_ui_amount_into_amount_def Let_def trim_end_matches_def parse_u64_def digit_value_def
      checked_simps checked_add_def checked_mul_def)

end
